(* ===== verification/Bao_Prelude.thy ===== *)
theory Bao_Prelude
  imports Main "HOL-Library.Word" "HOL-Library.List_Lexorder" "HOL-Library.Char_ord" "HOL-Library.Sublist" "HOL-Library.Code_Target_Nat"
begin

text \<open>
  What every component shares: Rust's \<open>Result\<close> as a sum (\<open>Inl\<close> the error, \<open>Inr\<close> the
  value) with its sequencing operator, the checked and saturating operations of the
  machine integers, and the collections of facts that the component theories extend.
  Nothing in this theory translates a line of the repository; it is the vocabulary the
  translations are written in.
\<close>

section \<open>Collections\<close>

named_theorems res_simps
  \<open>equations that run the Result combinators\<close>
named_theorems limits
  \<open>the numeric constants of the source\<close>
named_theorems validator_dests
  \<open>what a successful validation says of its input\<close>

section \<open>Result\<close>

text \<open>\<open>rbind r f\<close> is the \<open>?\<close> operator: the error is returned at once.\<close>

fun rbind :: "'e + 'a \<Rightarrow> ('a \<Rightarrow> 'e + 'b) \<Rightarrow> 'e + 'b" where
  "rbind (Inl e) f = Inl e"
| "rbind (Inr x) f = f x"

text \<open>\<open>require b e\<close> is an early return of \<open>e\<close> when the guard \<open>b\<close> fails.\<close>

definition require :: "bool \<Rightarrow> 'e \<Rightarrow> 'e + unit" where
  "require b e = (if b then Inr () else Inl e)"

fun rmap :: "('a \<Rightarrow> 'b) \<Rightarrow> 'e + 'a \<Rightarrow> 'e + 'b" where
  "rmap f (Inl e) = Inl e"
| "rmap f (Inr x) = Inr (f x)"

fun rmap_err :: "('e \<Rightarrow> 'f) \<Rightarrow> 'e + 'a \<Rightarrow> 'f + 'a" where
  "rmap_err g (Inl e) = Inl (g e)"
| "rmap_err g (Inr x) = Inr x"

fun ok_or :: "'a option \<Rightarrow> 'e \<Rightarrow> 'e + 'a" where
  "ok_or None e = Inl e"
| "ok_or (Some x) e = Inr x"

fun is_ok :: "'e + 'a \<Rightarrow> bool" where
  "is_ok (Inl e) = False"
| "is_ok (Inr x) = True"

fun ok_val :: "'e + 'a \<Rightarrow> 'a option" where
  "ok_val (Inl e) = None"
| "ok_val (Inr x) = Some x"

fun rtraverse :: "('a \<Rightarrow> 'e + 'b) \<Rightarrow> 'a list \<Rightarrow> 'e + 'b list" where
  "rtraverse f [] = Inr []"
| "rtraverse f (x # xs) = rbind (f x) (\<lambda>y. rmap (Cons y) (rtraverse f xs))"

text \<open>A \<open>for\<close> loop whose body only checks, and one that threads a value.\<close>

fun each :: "('a \<Rightarrow> 'e + unit) \<Rightarrow> 'a list \<Rightarrow> 'e + unit" where
  "each f [] = Inr ()"
| "each f (x # xs) = rbind (f x) (\<lambda>_. each f xs)"

fun rfold :: "('a \<Rightarrow> 'b \<Rightarrow> 'e + 'b) \<Rightarrow> 'a list \<Rightarrow> 'b \<Rightarrow> 'e + 'b" where
  "rfold f [] acc = Inr acc"
| "rfold f (x # xs) acc = rbind (f x acc) (rfold f xs)"

text \<open>\<open>Option::transpose\<close> of an optional result.\<close>

fun otranspose :: "('e + 'a) option \<Rightarrow> 'e + 'a option" where
  "otranspose None = Inr None"
| "otranspose (Some r) = rmap Some r"

lemma rbind_Inr_iff: "rbind r f = Inr y \<longleftrightarrow> (\<exists>x. r = Inr x \<and> f x = Inr y)"
  by (cases r) auto

lemma rbind_Inl_iff:
  "rbind r f = Inl e \<longleftrightarrow> r = Inl e \<or> (\<exists>x. r = Inr x \<and> f x = Inl e)"
  by (cases r) auto

lemma rbind_cong [fundef_cong]:
  "r = r' \<Longrightarrow> (\<And>x. r' = Inr x \<Longrightarrow> f x = g x) \<Longrightarrow> rbind r f = rbind r' g"
  by (cases r') auto

lemma require_Inr_iff [simp]: "require b e = Inr u \<longleftrightarrow> b"
  by (simp add: require_def)

lemma require_Inl_iff [simp]: "require b e = Inl e' \<longleftrightarrow> \<not> b \<and> e' = e"
  by (auto simp: require_def)

lemma require_True [simp]: "require True e = Inr ()"
  by (simp add: require_def)

lemma require_False [simp]: "require False e = Inl e"
  by (simp add: require_def)

lemma each_ok_iff: "each f xs = Inr u \<longleftrightarrow> list_all (\<lambda>x. f x = Inr ()) xs"
  by (induction xs) (auto simp: rbind_Inr_iff)

lemma rbind_require [simp]: "rbind (require b e) f = (if b then f () else Inl e)"
  by (simp add: require_def)

lemma rmap_Inr_iff: "rmap f r = Inr y \<longleftrightarrow> (\<exists>x. r = Inr x \<and> y = f x)"
  by (cases r) auto

lemma rmap_Inl_iff [simp]: "rmap f r = Inl e \<longleftrightarrow> r = Inl e"
  by (cases r) auto

lemma rmap_err_Inr_iff [simp]: "rmap_err g r = Inr y \<longleftrightarrow> r = Inr y"
  by (cases r) auto

lemma rmap_err_Inl_iff: "rmap_err g r = Inl y \<longleftrightarrow> (\<exists>e. r = Inl e \<and> y = g e)"
  by (cases r) auto

lemma ok_or_Inr_iff [simp]: "ok_or opt e = Inr x \<longleftrightarrow> opt = Some x"
  by (cases opt) auto

lemma ok_or_Inl_iff [simp]: "ok_or opt e = Inl e' \<longleftrightarrow> opt = None \<and> e' = e"
  by (cases opt) auto

lemma is_ok_iff: "is_ok r \<longleftrightarrow> (\<exists>x. r = Inr x)"
  by (cases r) auto

lemma is_ok_rbind [simp]: "is_ok (rbind r f) \<longleftrightarrow> (\<exists>x. r = Inr x \<and> is_ok (f x))"
  by (cases r) auto

lemma is_ok_require [simp]: "is_ok (require b e) \<longleftrightarrow> b"
  by (simp add: require_def)

lemma is_ok_rmap [simp]: "is_ok (rmap f r) = is_ok r"
  by (cases r) auto

lemma ok_val_Some_iff [simp]: "ok_val r = Some x \<longleftrightarrow> r = Inr x"
  by (cases r) auto

lemmas result_iffs [res_simps] =
  rbind_Inr_iff rbind_Inl_iff rmap_Inr_iff rmap_err_Inl_iff is_ok_iff

lemma rtraverse_Inr_length: "rtraverse f xs = Inr ys \<Longrightarrow> length ys = length xs"
  by (induction xs arbitrary: ys) (auto simp: res_simps)

lemma rtraverse_Inr_set:
  "rtraverse f xs = Inr ys \<Longrightarrow> x \<in> set xs \<Longrightarrow> \<exists>y \<in> set ys. f x = Inr y"
  by (induction xs arbitrary: ys) (auto simp: res_simps)

section \<open>Machine integers\<close>

text \<open>Rust's \<open>checked_add\<close>, \<open>checked_mul\<close>, \<open>saturating_add\<close> on a \<open>w\<close>-bit word.\<close>

definition checked_add :: "'w::len word \<Rightarrow> 'w word \<Rightarrow> 'w word option" where
  "checked_add a b = (if unat a + unat b < 2 ^ LENGTH('w) then Some (a + b) else None)"

definition checked_mul :: "'w::len word \<Rightarrow> 'w word \<Rightarrow> 'w word option" where
  "checked_mul a b = (if unat a * unat b < 2 ^ LENGTH('w) then Some (a * b) else None)"

definition saturating_add :: "'w::len word \<Rightarrow> 'w word \<Rightarrow> 'w word" where
  "saturating_add a b = (if unat a + unat b < 2 ^ LENGTH('w) then a + b else - 1)"

lemma checked_add_Some:
  "checked_add a b = Some c \<Longrightarrow> unat c = unat a + unat b"
  by (auto simp: checked_add_def unat_word_ariths split: if_splits)

lemma checked_mul_Some:
  "checked_mul a b = Some c \<Longrightarrow> unat c = unat a * unat b"
  by (auto simp: checked_mul_def unat_word_ariths split: if_splits)

lemma checked_add_None:
  fixes a :: "'w::len word"
  shows "checked_add a b = None \<longleftrightarrow> 2 ^ LENGTH('w) \<le> unat a + unat b"
  by (auto simp: checked_add_def)

lemma checked_mul_None:
  fixes a :: "'w::len word"
  shows "checked_mul a b = None \<longleftrightarrow> 2 ^ LENGTH('w) \<le> unat a * unat b"
  by (auto simp: checked_mul_def)

lemma unat_saturating_add:
  fixes a :: "'w::len word"
  shows "unat (saturating_add a b) = min (unat a + unat b) (2 ^ LENGTH('w) - 1)"
proof (cases "unat a + unat b < 2 ^ LENGTH('w)")
  case True
  then show ?thesis by (simp add: saturating_add_def unat_word_ariths)
next
  case False
  have "unat (- 1 :: 'w word) = 2 ^ LENGTH('w) - 1"
    by (simp add: unsigned_minus_1_eq_mask mask_eq_exp_minus_1)
  with False show ?thesis by (simp add: saturating_add_def)
qed

text \<open>An unsigned value converted from \<open>nat\<close> when it fits (\<open>try_from\<close>).\<close>

definition word_try_from :: "nat \<Rightarrow> 'w::len word option" where
  "word_try_from n = (if n < 2 ^ LENGTH('w) then Some (word_of_nat n) else None)"

lemma word_try_from_Some:
  "(word_try_from n :: 'w::len word option) = Some w \<Longrightarrow> unat w = n"
  by (auto simp: word_try_from_def unat_of_nat split: if_splits)

lemma word_try_from_unat [simp]: "word_try_from (unat w) = Some (w :: 'w::len word)"
  by (simp add: word_try_from_def)

section \<open>Lists and options\<close>

text \<open>\<open>Option::is_none_or\<close> and \<open>Option::is_some_and\<close>.\<close>

definition is_none_or :: "('a \<Rightarrow> bool) \<Rightarrow> 'a option \<Rightarrow> bool" where
  "is_none_or P opt = (case opt of None \<Rightarrow> True | Some x \<Rightarrow> P x)"

definition is_some_and :: "('a \<Rightarrow> bool) \<Rightarrow> 'a option \<Rightarrow> bool" where
  "is_some_and P opt = (case opt of None \<Rightarrow> False | Some x \<Rightarrow> P x)"

lemma is_none_or_simps [simp]: "is_none_or P None" "is_none_or P (Some x) = P x"
  by (simp_all add: is_none_or_def)

lemma is_some_and_simps [simp]: "\<not> is_some_and P None" "is_some_and P (Some x) = P x"
  by (simp_all add: is_some_and_def)

lemma is_none_or_refl [simp]: "is_none_or (\<lambda>x. opt = Some x) opt"
  by (cases opt) simp_all

lemma is_some_and_iff: "is_some_and P opt \<longleftrightarrow> (\<exists>x. opt = Some x \<and> P x)"
  by (cases opt) auto

lemma fold_max_le: "fold max xs a \<le> (b :: nat) \<longleftrightarrow> a \<le> b \<and> list_all (\<lambda>x. x \<le> b) xs"
  by (induction xs arbitrary: a) auto

lemma find_Some_set: "List.find P xs = Some x \<Longrightarrow> x \<in> set xs \<and> P x"
  by (auto simp: find_Some_iff)

lemma find_eq_None_iff: "List.find P xs = None \<longleftrightarrow> (\<forall>x \<in> set xs. \<not> P x)"
  by (auto simp: find_None_iff)

text \<open>The bounded push that the source's builders share (\<open>len >= MAX\<close> is an error).\<close>

definition push_bounded :: "nat \<Rightarrow> 'e \<Rightarrow> 'a \<Rightarrow> 'a list \<Rightarrow> 'e + 'a list" where
  "push_bounded limit e x xs = (if limit \<le> length xs then Inl e else Inr (xs @ [x]))"

lemma push_bounded_length:
  "push_bounded limit e x xs = Inr ys \<Longrightarrow> length ys \<le> limit \<and> ys = xs @ [x]"
  by (auto simp: push_bounded_def split: if_splits)

section \<open>Sorted slices\<close>

text \<open>
  \<open>slice::binary_search_by_key\<close>: the loop keeps a window \<open>[base, base + size)\<close> and halves it,
  moving \<open>base\<close> up to the middle unless the middle key is greater than the key sought.
\<close>

function bsearch_loop :: "('a \<Rightarrow> 'k::linorder) \<Rightarrow> 'a list \<Rightarrow> 'k \<Rightarrow> nat \<Rightarrow> nat \<Rightarrow> nat" where
  "bsearch_loop key xs k base sz =
     (if sz \<le> 1 then base
      else
        (let half = sz div 2; mid = base + half
         in bsearch_loop key xs k (if k < key (xs ! mid) then base else mid) (sz - half)))"
  by pat_completeness auto
termination
  by (relation "measure (\<lambda>(key, xs, k, base, sz). sz)") auto

declare bsearch_loop.simps [simp del]

definition binary_search_by_key :: "('a \<Rightarrow> 'k::linorder) \<Rightarrow> 'a list \<Rightarrow> 'k \<Rightarrow> nat option" where
  "binary_search_by_key key xs k =
     (if xs = [] then None
      else
        (let base = bsearch_loop key xs k 0 (length xs)
         in if key (xs ! base) = k then Some base else None))"

lemma bsearch_loop_finds:
  assumes "sorted (map key xs)" "0 < sz" "base + sz \<le> length xs"
    and "\<exists>i. base \<le> i \<and> i < base + sz \<and> key (xs ! i) = k"
  shows "bsearch_loop key xs k base sz < length xs \<and>
    key (xs ! bsearch_loop key xs k base sz) = k"
  using assms
proof (induction key xs k base sz rule: bsearch_loop.induct)
  case (1 key xs k base sz)
  show ?case
  proof (cases "sz \<le> 1")
    case True
    with 1 have "sz = 1" by simp
    then have "base < length xs \<and> key (xs ! base) = k"
      using 1(4) 1(5) by (metis Suc_eq_plus1 Suc_le_eq le_antisym less_Suc_eq_le)
    then show ?thesis using True by (simp add: bsearch_loop.simps)
  next
    case False
    let ?half = "sz div 2" and ?mid = "base + sz div 2"
    let ?base = "if k < key (xs ! ?mid) then base else ?mid"
    obtain i where i: "base \<le> i" "i < base + sz" "key (xs ! i) = k" using 1(5) by blast
    have mono: "key (xs ! a) \<le> key (xs ! b)" if "a \<le> b" "b < length xs" for a b
      using sorted_nth_mono [OF 1(2), of a b] that by simp
    have "\<exists>j. ?base \<le> j \<and> j < ?base + (sz - ?half) \<and> key (xs ! j) = k"
    proof (cases "k < key (xs ! ?mid)")
      case above: True
      then have "i < ?mid"
        using i 1(4) mono [of ?mid i] by (meson leD le_less_trans less_le_trans not_le)
      with above i show ?thesis by (intro exI [of _ i]) auto
    next
      case below: False
      show ?thesis
      proof (cases "i < ?mid")
        case True
        then have "k \<le> key (xs ! ?mid)"
          using i 1(4) False mono [of i ?mid] by force
        with below have "key (xs ! ?mid) = k" by simp
        with below False show ?thesis by (intro exI [of _ ?mid]) auto
      next
        case False
        with below i show ?thesis by (intro exI [of _ i]) auto
      qed
    qed
    with 1(1) [OF False refl refl 1(2)] 1(4) False show ?thesis
      by (subst (1 2) bsearch_loop.simps) (auto simp: Let_def)
  qed
qed

lemma binary_search_by_key_iff:
  assumes "sorted (map key xs)"
  shows "binary_search_by_key key xs k = None \<longleftrightarrow> k \<notin> key ` set xs"
    and "binary_search_by_key key xs k = Some i \<Longrightarrow> i < length xs \<and> key (xs ! i) = k"
proof -
  have found: "bsearch_loop key xs k 0 (length xs) < length xs \<and>
      key (xs ! bsearch_loop key xs k 0 (length xs)) = k" if "k \<in> key ` set xs"
  proof (rule bsearch_loop_finds [OF assms])
    from that show "0 < length xs" by auto
    from that show "\<exists>i. 0 \<le> i \<and> i < 0 + length xs \<and> key (xs ! i) = k"
      by (auto simp: in_set_conv_nth)
  qed simp
  have range: "bsearch_loop key xs k b s < b + s" if "0 < s" for b s
    using that
  proof (induction key xs k b s rule: bsearch_loop.induct)
    case (1 key xs k base sz)
    then show ?case
      by (subst bsearch_loop.simps) (force simp: Let_def)
  qed
  then have bound: "xs \<noteq> [] \<Longrightarrow> bsearch_loop key xs k 0 (length xs) < length xs"
    by (metis add_0 length_greater_0_conv)
  then show "binary_search_by_key key xs k = None \<longleftrightarrow> k \<notin> key ` set xs"
    using found bound by (auto simp: binary_search_by_key_def Let_def) (metis image_eqI nth_mem)
  show "binary_search_by_key key xs k = Some i \<Longrightarrow> i < length xs \<and> key (xs ! i) = k"
    using bound by (auto simp: binary_search_by_key_def Let_def split: if_splits)
qed

lemmas binary_search_None = binary_search_by_key_iff(1)
lemmas binary_search_Some = binary_search_by_key_iff(2)

end
