(* ===== verification/Bao_Text.thy ===== *)
theory Bao_Text
  imports Bao_Prelude
begin

text \<open>
  The operations of Rust's \<open>str\<close> that the source uses. A \<open>str\<close> is its UTF-8 bytes, so a
  HOL \<open>string\<close> (a list of 8-bit characters) models it exactly: \<open>len()\<close> is the length,
  \<open>is_ascii()\<close> says every byte is below 128, and \<open>==\<close> is equality of bytes.
\<close>

section \<open>Bytes\<close>

abbreviation byte :: "char \<Rightarrow> nat" where
  "byte c \<equiv> of_char c"

definition is_ascii_digit :: "char \<Rightarrow> bool" where
  "is_ascii_digit c \<longleftrightarrow> 48 \<le> byte c \<and> byte c \<le> 57"

definition is_ascii_lowercase :: "char \<Rightarrow> bool" where
  "is_ascii_lowercase c \<longleftrightarrow> 97 \<le> byte c \<and> byte c \<le> 122"

definition is_ascii_uppercase :: "char \<Rightarrow> bool" where
  "is_ascii_uppercase c \<longleftrightarrow> 65 \<le> byte c \<and> byte c \<le> 90"

definition is_ascii_alphanumeric :: "char \<Rightarrow> bool" where
  "is_ascii_alphanumeric c \<longleftrightarrow>
     is_ascii_digit c \<or> is_ascii_lowercase c \<or> is_ascii_uppercase c"

definition is_ascii_control :: "char \<Rightarrow> bool" where
  "is_ascii_control c \<longleftrightarrow> byte c < 32 \<or> byte c = 127"

text \<open>\<open>u8::is_ascii_whitespace\<close>: space, tab, line feed, form feed, carriage return.\<close>

definition is_ascii_whitespace :: "char \<Rightarrow> bool" where
  "is_ascii_whitespace c \<longleftrightarrow> byte c \<in> {9, 10, 12, 13, 32}"

definition is_ascii :: "string \<Rightarrow> bool" where
  "is_ascii s \<longleftrightarrow> list_all (\<lambda>c. byte c < 128) s"

definition to_ascii_lowercase :: "string \<Rightarrow> string" where
  "to_ascii_lowercase s =
     map (\<lambda>c. if is_ascii_uppercase c then char_of (byte c + 32) else c) s"

definition eq_ignore_ascii_case :: "string \<Rightarrow> string \<Rightarrow> bool" where
  "eq_ignore_ascii_case a b \<longleftrightarrow> to_ascii_lowercase a = to_ascii_lowercase b"

lemma length_to_ascii_lowercase [simp]: "length (to_ascii_lowercase s) = length s"
  by (simp add: to_ascii_lowercase_def)

section \<open>Splitting and joining\<close>

text \<open>\<open>str::split(c)\<close>: one piece more than there are separators.\<close>

fun split_on :: "char \<Rightarrow> string \<Rightarrow> string list" where
  "split_on c [] = [[]]"
| "split_on c (x # xs) =
     (if x = c then [] # split_on c xs
      else case split_on c xs of [] \<Rightarrow> [[x]] | y # ys \<Rightarrow> (x # y) # ys)"

fun join_with :: "string \<Rightarrow> string list \<Rightarrow> string" where
  "join_with sep [] = []"
| "join_with sep [x] = x"
| "join_with sep (x # y # zs) = x @ sep @ join_with sep (y # zs)"

abbreviation join_path :: "string list \<Rightarrow> string" where
  "join_path \<equiv> join_with ''/''"

lemma split_on_not_Nil [simp]: "split_on c s \<noteq> []"
  by (induction s) (auto split: list.splits)

lemma split_on_no_sep: "p \<in> set (split_on c s) \<Longrightarrow> c \<notin> set p"
  by (induction s arbitrary: p) (auto split: list.splits if_splits)

lemma split_on_set: "p \<in> set (split_on c s) \<Longrightarrow> set p \<subseteq> set s"
  by (induction s arbitrary: p) (fastforce split: list.splits if_splits)+

lemma split_on_plain: "c \<notin> set s \<Longrightarrow> split_on c s = [s]"
  by (induction s) auto

lemma split_on_append_sep: "c \<notin> set s \<Longrightarrow> split_on c (s @ c # t) = s # split_on c t"
  by (induction s) auto

lemma join_with_Cons: "xs \<noteq> [] \<Longrightarrow> join_with sep (x # xs) = x @ sep @ join_with sep xs"
  by (cases xs) auto

lemma split_join:
  "xs \<noteq> [] \<Longrightarrow> \<forall>x \<in> set xs. c \<notin> set x \<Longrightarrow> split_on c (join_with [c] xs) = xs"
proof (induction xs)
  case Nil
  then show ?case by simp
next
  case (Cons x xs)
  then show ?case
    by (cases "xs = []") (auto simp: join_with_Cons split_on_append_sep split_on_plain)
qed

lemma join_split [simp]: "join_with [c] (split_on c s) = s"
proof (induction s)
  case Nil
  then show ?case by simp
next
  case (Cons x xs)
  show ?case
  proof (cases "x = c")
    case True
    with Cons show ?thesis by (simp add: join_with_Cons)
  next
    case False
    obtain y ys where ys: "split_on c xs = y # ys"
      by (metis list.exhaust split_on_not_Nil)
    with Cons have "join_with [c] (y # ys) = xs" by simp
    then have "join_with [c] ((x # y) # ys) = x # xs"
      by (cases ys) auto
    with False ys show ?thesis by simp
  qed
qed

lemma join_with_eq_Nil:
  "\<forall>x \<in> set xs. x \<noteq> [] \<Longrightarrow> join_with sep xs = [] \<longleftrightarrow> xs = []"
  by (cases xs; cases "tl xs") auto

lemma join_with_append:
  "xs \<noteq> [] \<Longrightarrow> ys \<noteq> [] \<Longrightarrow>
   join_with sep (xs @ ys) = join_with sep xs @ sep @ join_with sep ys"
proof (induction xs)
  case Nil
  then show ?case by simp
next
  case (Cons x xs)
  then show ?case by (cases "xs = []") (auto simp: join_with_Cons)
qed

lemma set_join_with: "set (join_with sep xs) \<subseteq> set sep \<union> (\<Union>x \<in> set xs. set x)"
proof (induction xs)
  case Nil
  then show ?case by simp
next
  case (Cons x xs)
  then show ?case by (cases "xs = []") (auto simp: join_with_Cons)
qed

text \<open>\<open>split_once\<close> and \<open>rsplit_once\<close>; \<open>strip_prefix\<close>; \<open>contains\<close>; \<open>find\<close>.\<close>

fun split_once :: "string \<Rightarrow> string \<Rightarrow> (string \<times> string) option" where
  "split_once pat [] = (if pat = [] then Some ([], []) else None)"
| "split_once pat (x # xs) =
     (if prefix pat (x # xs) then Some ([], drop (length pat) (x # xs))
      else map_option (\<lambda>(a, b). (x # a, b)) (split_once pat xs))"

definition rsplit_once :: "char \<Rightarrow> string \<Rightarrow> (string \<times> string) option" where
  "rsplit_once c s =
     map_option (\<lambda>(a, b). (rev b, rev a)) (split_once [c] (rev s))"

definition strip_prefix :: "string \<Rightarrow> string \<Rightarrow> string option" where
  "strip_prefix pat s = (if prefix pat s then Some (drop (length pat) s) else None)"

definition contains_str :: "string \<Rightarrow> string \<Rightarrow> bool" where
  "contains_str pat s \<longleftrightarrow> split_once pat s \<noteq> None"

abbreviation contains_any :: "string \<Rightarrow> string \<Rightarrow> bool" where
  "contains_any cs s \<equiv> list_ex (\<lambda>c. c \<in> set cs) s"

lemma split_once_Some: "split_once pat s = Some (a, b) \<Longrightarrow> s = a @ pat @ b"
proof (induction s arbitrary: a)
  case Nil
  then show ?case by (auto split: if_splits)
next
  case (Cons x xs)
  then show ?case
    by (auto split: if_splits simp: prefix_def)
qed

lemma split_once_None: "split_once pat s = None \<Longrightarrow> s \<noteq> a @ pat @ b"
proof (induction s arbitrary: a)
  case Nil
  then show ?case by (auto split: if_splits)
next
  case (Cons x xs)
  then show ?case
    by (cases a) (auto split: if_splits simp: prefix_def)
qed

lemma split_once_char:
  "c \<notin> set a \<Longrightarrow> split_once [c] (a @ c # b) = Some (a, b)"
  by (induction a) auto

lemma split_once_char_Some:
  "split_once [c] s = Some (a, b) \<Longrightarrow> s = a @ c # b \<and> c \<notin> set a"
proof (induction s arbitrary: a)
  case Nil
  then show ?case by simp
next
  case (Cons x xs)
  then show ?case by (auto split: if_splits)
qed

lemma split_once_char_None [simp]: "split_once [c] s = None \<longleftrightarrow> c \<notin> set s"
  by (induction s) auto

lemma contains_char [simp]: "contains_str [c] s \<longleftrightarrow> c \<in> set s"
  by (simp add: contains_str_def del: split_once.simps)

lemma rsplit_once_Some:
  "rsplit_once c s = Some (a, b) \<Longrightarrow> s = a @ c # b \<and> c \<notin> set b"
proof -
  assume "rsplit_once c s = Some (a, b)"
  then have "split_once [c] (rev s) = Some (rev b, rev a)"
    by (auto simp: rsplit_once_def)
  then have "rev s = rev b @ c # rev a" and "c \<notin> set (rev b)"
    by (auto dest: split_once_char_Some)
  then show ?thesis
    by (metis append.assoc append_Cons append_Nil rev.simps(2) rev_append rev_rev_ident set_rev)
qed

section \<open>Trimming\<close>

text \<open>\<open>trim_matches(c)\<close>; \<open>trim_start_matches(c)\<close> is \<open>dropWhile\<close>.\<close>

definition trim_matches :: "char \<Rightarrow> string \<Rightarrow> string" where
  "trim_matches c s = rev (dropWhile (\<lambda>x. x = c) (rev (dropWhile (\<lambda>x. x = c) s)))"

lemma set_trim_matches: "set (trim_matches c s) \<subseteq> set s"
  unfolding trim_matches_def by (auto dest!: set_dropWhileD)

lemma length_trim_matches: "length (trim_matches c s) \<le> length s"
proof -
  have "length (dropWhile P xs) \<le> length xs" for P and xs :: string
    by (simp add: length_dropWhile_le)
  from this [of _ s] this [of _ "rev (dropWhile (\<lambda>x. x = c) s)"] show ?thesis
    unfolding trim_matches_def by (metis (no_types, lifting) le_trans length_rev)
qed

lemma hd_trim_matches: "trim_matches c s \<noteq> [] \<Longrightarrow> last (trim_matches c s) \<noteq> c"
  unfolding trim_matches_def
  by (metis (mono_tags, lifting) hd_dropWhile last_rev rev_is_Nil_conv)

lemma trim_matches_id:
  assumes "s \<noteq> []" "hd s \<noteq> c" "last s \<noteq> c"
  shows "trim_matches c s = s"
proof -
  have "dropWhile (\<lambda>x. x = c) s = s"
    using assms by (cases s) auto
  moreover have "dropWhile (\<lambda>x. x = c) (rev s) = rev s"
    using assms by (cases "rev s") (auto simp: last_rev [symmetric] hd_rev)
  ultimately show ?thesis by (simp add: trim_matches_def)
qed

text \<open>
  \<open>str::trim\<close> removes Unicode white space. On UTF-8 bytes these are the encodings of
  U+0009..U+000D, U+0020, U+0085, U+00A0, U+1680, U+2000..U+200A, U+2028, U+2029,
  U+202F, U+205F and U+3000. \<open>ws_len s\<close> is the number of bytes of the white-space
  character at the head of \<open>s\<close>, 0 when there is none.
\<close>

fun ws_len :: "nat list \<Rightarrow> nat" where
  "ws_len (a # bs) =
     (if 9 \<le> a \<and> a \<le> 13 \<or> a = 32 then 1
      else case bs of
        [] \<Rightarrow> 0
      | b # cs \<Rightarrow>
          (if a = 194 \<and> (b = 133 \<or> b = 160) then 2
           else case cs of
             [] \<Rightarrow> 0
           | c # ds \<Rightarrow>
               (if a = 225 \<and> b = 154 \<and> c = 128 then 3
                else if a = 226 \<and> b = 128 \<and>
                  (128 \<le> c \<and> c \<le> 138 \<or> c = 168 \<or> c = 169 \<or> c = 175) then 3
                else if a = 226 \<and> b = 129 \<and> c = 159 then 3
                else if a = 227 \<and> b = 128 \<and> c = 128 then 3
                else 0)))"
| "ws_len [] = 0"

text \<open>The white-space character at the end of a reversed byte list.\<close>

definition ws_len_rev :: "nat list \<Rightarrow> nat" where
  "ws_len_rev rs =
     (if ws_len (rev (take 1 rs)) = 1 then 1
      else if ws_len (rev (take 2 rs)) = 2 then 2
      else if ws_len (rev (take 3 rs)) = 3 then 3
      else 0)"

function trim_start :: "string \<Rightarrow> string" where
  "trim_start s =
     (let n = ws_len (map of_char s) in if n = 0 then s else trim_start (drop n s))"
  by pat_completeness auto
termination
proof (relation "measure length")
  show "wf (measure (length :: string \<Rightarrow> nat))" by simp
next
  fix s :: string and n :: nat
  assume "n = ws_len (map of_char s)" and "n \<noteq> 0"
  then show "(drop n s, s) \<in> measure length" by (cases s) auto
qed

declare trim_start.simps [simp del]

function trim_end_rev :: "string \<Rightarrow> string" where
  "trim_end_rev s =
     (let n = ws_len_rev (map of_char s) in if n = 0 then s else trim_end_rev (drop n s))"
  by pat_completeness auto
termination
proof (relation "measure length")
  show "wf (measure (length :: string \<Rightarrow> nat))" by simp
next
  fix s :: string and n :: nat
  assume "n = ws_len_rev (map of_char s)" and "n \<noteq> 0"
  then show "(drop n s, s) \<in> measure length" by (cases s) (auto simp: ws_len_rev_def)
qed

declare trim_end_rev.simps [simp del]

definition trim :: "string \<Rightarrow> string" where
  "trim s = rev (trim_end_rev (rev (trim_start s)))"

lemma trim_start_suffix: "suffix (trim_start s) s"
proof (induction s rule: trim_start.induct)
  case (1 s)
  show ?case
    by (subst trim_start.simps)
      (use 1 in \<open>auto simp: Let_def suffix_drop intro: suffix_order.trans\<close>)
qed

lemma trim_end_rev_suffix: "suffix (trim_end_rev s) s"
proof (induction s rule: trim_end_rev.induct)
  case (1 s)
  show ?case
    by (subst trim_end_rev.simps)
      (use 1 in \<open>auto simp: Let_def suffix_drop intro: suffix_order.trans\<close>)
qed

lemma trim_sublist: "\<exists>a b. s = a @ trim s @ b"
proof -
  obtain a where a: "s = a @ trim_start s"
    using trim_start_suffix [of s] by (auto simp: suffix_def)
  obtain b where b: "rev (trim_start s) = b @ trim_end_rev (rev (trim_start s))"
    using trim_end_rev_suffix [of "rev (trim_start s)"] by (auto simp: suffix_def)
  then have "trim_start s = trim s @ rev b"
    by (metis rev_append rev_rev_ident trim_def)
  with a show ?thesis by metis
qed

lemma trim_length_eq: "length (trim s) = length s \<Longrightarrow> trim s = s"
proof -
  assume len: "length (trim s) = length s"
  obtain a b where ab: "s = a @ trim s @ b" using trim_sublist by blast
  then have "length s = length a + length (trim s) + length b"
    by (metis length_append add.assoc)
  with len have "a = []" and "b = []" by auto
  with ab show ?thesis by simp
qed

lemma length_trim: "length (trim s) \<le> length s"
  using trim_sublist [of s] by (metis length_append le_add1 le_add2 le_trans)

section \<open>Decimal numbers\<close>

definition digit_char :: "nat \<Rightarrow> char" where
  "digit_char d = char_of (48 + d)"

fun dec_string :: "nat \<Rightarrow> string" where
  "dec_string n =
     (if n < 10 then [digit_char n] else dec_string (n div 10) @ [digit_char (n mod 10)])"

declare dec_string.simps [simp del]

definition dec_value :: "string \<Rightarrow> nat" where
  "dec_value s = foldl (\<lambda>acc c. acc * 10 + (byte c - 48)) 0 s"

text \<open>
  \<open>str::parse\<close> into an unsigned type below \<open>bound\<close>: one optional \<open>+\<close>, at least one digit,
  digits only, and no overflow.
\<close>

definition parse_unsigned :: "nat \<Rightarrow> string \<Rightarrow> nat option" where
  "parse_unsigned bound s =
     (let ds = (case s of [] \<Rightarrow> [] | c # cs \<Rightarrow> if c = CHR ''+'' then cs else s)
      in if ds \<noteq> [] \<and> list_all is_ascii_digit ds \<and> dec_value ds < bound
         then Some (dec_value ds) else None)"

lemma digit_char_numerals [simp]:
  "digit_char 0 = CHR ''0''" "digit_char (Suc 0) = CHR ''1''" "digit_char 1 = CHR ''1''"
  "digit_char 2 = CHR ''2''" "digit_char 3 = CHR ''3''" "digit_char 4 = CHR ''4''"
  "digit_char 5 = CHR ''5''" "digit_char 6 = CHR ''6''" "digit_char 7 = CHR ''7''"
  "digit_char 8 = CHR ''8''" "digit_char 9 = CHR ''9''"
  by code_simp+

lemma byte_digit_char: "d < 10 \<Longrightarrow> byte (digit_char d) = 48 + d"
  by (simp add: digit_char_def)

lemma is_ascii_digit_digit_char [simp]: "d < 10 \<Longrightarrow> is_ascii_digit (digit_char d)"
  by (simp add: is_ascii_digit_def byte_digit_char)

lemma dec_value_snoc: "dec_value (s @ [c]) = dec_value s * 10 + (byte c - 48)"
  by (simp add: dec_value_def)

lemma dec_string_digits: "list_all is_ascii_digit (dec_string n)"
proof (induction n rule: dec_string.induct)
  case (1 n)
  then show ?case by (subst dec_string.simps) auto
qed

lemma dec_string_not_Nil [simp]: "dec_string n \<noteq> []"
  by (subst dec_string.simps) auto

lemma dec_value_dec_string [simp]: "dec_value (dec_string n) = n"
proof (induction n rule: dec_string.induct)
  case (1 n)
  show ?case
  proof (cases "n < 10")
    case True
    then show ?thesis
      by (subst dec_string.simps) (simp add: dec_value_def byte_digit_char)
  next
    case False
    with 1 show ?thesis
      by (subst dec_string.simps) (simp add: dec_value_snoc byte_digit_char)
  qed
qed

lemma dec_string_digit_set: "c \<in> set (dec_string n) \<Longrightarrow> is_ascii_digit c"
  using dec_string_digits [of n] by (simp add: list_all_iff)

lemma dec_string_canonical: "1 < length (dec_string n) \<Longrightarrow> hd (dec_string n) \<noteq> CHR ''0''"
proof (induction n rule: dec_string.induct)
  case (1 n)
  show ?case
  proof (cases "n < 10")
    case True
    with 1 show ?thesis by (simp add: dec_string.simps [of n])
  next
    case False
    let ?m = "n div 10"
    have eq: "dec_string n = dec_string ?m @ [digit_char (n mod 10)]"
      using False by (subst dec_string.simps) simp
    show ?thesis
    proof (cases "1 < length (dec_string ?m)")
      case True
      with 1 False eq show ?thesis by simp
    next
      case short: False
      then have "?m < 10"
        by (subst (asm) dec_string.simps) (auto split: if_splits)
      then have "dec_string ?m = [digit_char ?m]" and "0 < ?m"
        using False by (auto simp: dec_string.simps [of ?m])
      then have "byte (hd (dec_string n)) \<noteq> 48"
        using eq \<open>?m < 10\<close> by (simp add: byte_digit_char)
      then show ?thesis by auto
    qed
  qed
qed

lemma dec_string_inj: "dec_string m = dec_string n \<longleftrightarrow> m = n"
  by (metis dec_value_dec_string)

lemma length_dec_string_le: "n < 10 ^ k \<Longrightarrow> 0 < k \<Longrightarrow> length (dec_string n) \<le> k"
proof (induction n arbitrary: k rule: dec_string.induct)
  case (1 n)
  show ?case
  proof (cases "n < 10")
    case True
    with 1 show ?thesis by (simp add: dec_string.simps [of n])
  next
    case False
    with "1.prems" have k: "1 < k"
      by (cases "k = 1") auto
    then obtain j where j: "k = Suc j" "0 < j" by (cases k) auto
    with "1.prems" have "n div 10 < 10 ^ j" by (simp add: less_mult_imp_div_less)
    with "1.IH" False j show ?thesis by (simp add: dec_string.simps [of n])
  qed
qed

lemma parse_unsigned_dec_string:
  "n < bound \<Longrightarrow> parse_unsigned bound (dec_string n) = Some n"
proof -
  assume n: "n < bound"
  obtain c cs where cs: "dec_string n = c # cs"
    by (cases "dec_string n") auto
  then have "is_ascii_digit c"
    using dec_string_digits [of n] by simp
  then have "c \<noteq> CHR ''+''" by (auto simp: is_ascii_digit_def)
  with n cs show ?thesis
    using dec_string_digits [of n] dec_value_dec_string [of n]
    by (simp add: parse_unsigned_def)
qed

end
