(* ===== verification/Bao_Errors.thy ===== *)
theory Bao_Errors
  imports Bao_Text
begin

text \<open>
  The value types that every module of the crate shares: the exact server version and the
  version requirement of \<open>compatibility.rs\<close> (declared here because an error carries them),
  and the \<open>Error\<close> type of \<open>error.rs\<close> with its rendering, its predicates and the sanitiser
  that server-supplied messages go through.
\<close>

section \<open>Versions\<close>

text \<open>\<open>OpenBaoVersion\<close>: three \<open>u32\<close> components, ordered as the derived \<open>Ord\<close> orders fields.\<close>

datatype openbao_version =
  OpenBaoVersion (major: "32 word") (minor: "32 word") (patch: "32 word")

instantiation openbao_version :: linorder
begin

definition less_eq_openbao_version :: "openbao_version \<Rightarrow> openbao_version \<Rightarrow> bool" where
  "less_eq_openbao_version a b \<longleftrightarrow>
     major a < major b \<or> major a = major b \<and>
       (minor a < minor b \<or> minor a = minor b \<and> patch a \<le> patch b)"

definition less_openbao_version :: "openbao_version \<Rightarrow> openbao_version \<Rightarrow> bool" where
  "less_openbao_version a b \<longleftrightarrow>
     major a < major b \<or> major a = major b \<and>
       (minor a < minor b \<or> minor a = minor b \<and> patch a < patch b)"

instance
proof
  fix x y z :: openbao_version
  show "x < y \<longleftrightarrow> x \<le> y \<and> \<not> y \<le> x"
    by (auto simp: less_eq_openbao_version_def less_openbao_version_def)
  show "x \<le> x"
    by (simp add: less_eq_openbao_version_def)
  show "x \<le> z" if "x \<le> y" "y \<le> z"
    using that by (auto simp: less_eq_openbao_version_def)
  show "x = y" if "x \<le> y" "y \<le> x"
    using that by (auto simp: less_eq_openbao_version_def openbao_version.expand)
  show "x \<le> y \<or> y \<le> x"
    by (auto simp: less_eq_openbao_version_def)
qed

end

lemma version_le_code [simp]:
  "OpenBaoVersion a b c \<le> OpenBaoVersion a' b' c' \<longleftrightarrow>
     a < a' \<or> a = a' \<and> (b < b' \<or> b = b' \<and> c \<le> c')"
  by (simp add: less_eq_openbao_version_def)

lemma version_less_code [simp]:
  "OpenBaoVersion a b c < OpenBaoVersion a' b' c' \<longleftrightarrow>
     a < a' \<or> a = a' \<and> (b < b' \<or> b = b' \<and> c < c')"
  by (simp add: less_openbao_version_def)

definition display_version :: "openbao_version \<Rightarrow> string" where
  "display_version v =
     dec_string (unat (major v)) @ ''.'' @ dec_string (unat (minor v)) @ ''.'' @
     dec_string (unat (patch v))"

text \<open>\<open>OpenBaoVersionRequirement\<close>: one release, or a closed range.\<close>

datatype openbao_version_requirement =
    Exact openbao_version
  | Inclusive openbao_version openbao_version

fun display_requirement :: "openbao_version_requirement \<Rightarrow> string" where
  "display_requirement (Exact v) = display_version v"
| "display_requirement (Inclusive lo hi) = display_version lo @ ''..='' @ display_version hi"

section \<open>The error type\<close>

type_synonym status_code = nat

datatype error =
    InvalidBaseUrl string
  | InvalidPath string
  | InvalidHeader string
  | SecretMemoryProtection string
  | InvalidTlsConfig string
  | InvalidTimeout string
  | InvalidParameter string
  | InvalidOpenBaoVersion string
  | InvalidOpenBaoVersionRequirement string
  | OpenBaoVersionMismatch openbao_version openbao_version_requirement
  | UnknownOpenBaoVersion openbao_version
  | OpenBaoCompatibilityProbe string
  | UnsupportedOpenBaoVersion openbao_version
  | UnsupportedOpenBaoCapability string openbao_version
  | UnsupportedOpenBaoRequestField string string openbao_version
  | RawApiDisabled
  | DevBootstrapDisabled
  | Internal string
  | BootstrapContention string
  | UnsafeBootstrapConfiguration string
  | Transport string
  | Decode string
  | Api status_code "string list"
  | MissingField string
  | MissingToken

type_synonym 'a res = "error + 'a"

section \<open>Sanitising server messages\<close>

text \<open>
  \<open>chars()\<close> of a UTF-8 string, each character as its bytes: the leading byte fixes how many
  bytes the character has, and \<open>code_point\<close> reads them.
\<close>

definition utf8_width :: "char \<Rightarrow> nat" where
  "utf8_width c = (if byte c < 128 then 1 else if byte c < 224 then 2
     else if byte c < 240 then 3 else 4)"

fun utf8_chars :: "string \<Rightarrow> string list" where
  "utf8_chars [] = []"
| "utf8_chars (c # cs) =
     (c # take (utf8_width c - 1) cs) # utf8_chars (drop (utf8_width c - 1) cs)"

fun code_point :: "string \<Rightarrow> nat" where
  "code_point [a] = byte a"
| "code_point [a, b] = (byte a mod 32) * 64 + byte b mod 64"
| "code_point [a, b, c] = (byte a mod 16) * 4096 + (byte b mod 64) * 64 + byte c mod 64"
| "code_point [a, b, c, d] =
     (byte a mod 8) * 262144 + (byte b mod 64) * 4096 + (byte c mod 64) * 64 + byte d mod 64"
| "code_point _ = 0"

text \<open>What Rust guarantees of every \<open>str\<close> and the sanitiser relies on.\<close>

definition utf8_char_ok :: "string \<Rightarrow> bool" where
  "utf8_char_ok ch \<longleftrightarrow>
     ch \<noteq> [] \<and> length ch = utf8_width (hd ch) \<and> list_all (\<lambda>c. 128 \<le> byte c) (tl ch)"

definition valid_utf8 :: "string \<Rightarrow> bool" where
  "valid_utf8 s \<longleftrightarrow> list_all utf8_char_ok (utf8_chars s)"

text \<open>\<open>char::is_control\<close> (category Cc) and the bidirectional controls.\<close>

definition is_display_control :: "string \<Rightarrow> bool" where
  "is_display_control ch \<longleftrightarrow>
     (let n = code_point ch in
       n < 32 \<or> 127 \<le> n \<and> n \<le> 159 \<or> n = 1564 \<or> n = 8206 \<or> n = 8207 \<or>
       8234 \<le> n \<and> n \<le> 8238 \<or> 8294 \<le> n \<and> n \<le> 8297)"

definition MAX_API_ERROR_BYTES :: nat where
  "MAX_API_ERROR_BYTES = 512"

declare MAX_API_ERROR_BYTES_def [limits]

fun sanitize_loop :: "string \<Rightarrow> string list \<Rightarrow> string" where
  "sanitize_loop sanitized [] = sanitized"
| "sanitize_loop sanitized (ch # chs) =
     (if MAX_API_ERROR_BYTES < length sanitized + length ch then sanitized
      else sanitize_loop (sanitized @ ch) chs)"

definition sanitize_api_error :: "string \<Rightarrow> string" where
  "sanitize_api_error e =
     sanitize_loop [] (filter (\<lambda>ch. \<not> is_display_control ch) (utf8_chars e))"

section \<open>Rendering and predicates\<close>

text \<open>
  \<open>Display\<close>. The canonical rendering of an HTTP status belongs to the \<open>http\<close> crate and is
  the parameter \<open>show_status\<close>.
\<close>

fun display_error :: "(status_code \<Rightarrow> string) \<Rightarrow> error \<Rightarrow> string" where
  "display_error show_status (InvalidBaseUrl m) = ''invalid OpenBao base URL: '' @ m"
| "display_error show_status (InvalidPath m) = ''invalid OpenBao path: '' @ m"
| "display_error show_status (InvalidHeader m) = ''invalid OpenBao header: '' @ m"
| "display_error show_status (SecretMemoryProtection m) =
     ''OpenBao secret memory protection failed: '' @ m"
| "display_error show_status (InvalidTlsConfig m) =
     ''invalid OpenBao TLS configuration: '' @ m"
| "display_error show_status (InvalidTimeout m) =
     ''invalid OpenBao timeout configuration: '' @ m"
| "display_error show_status (InvalidParameter m) =
     ''invalid OpenBao request parameter: '' @ m"
| "display_error show_status (InvalidOpenBaoVersion m) = ''invalid OpenBao version: '' @ m"
| "display_error show_status (InvalidOpenBaoVersionRequirement m) =
     ''invalid OpenBao version requirement: '' @ m"
| "display_error show_status (OpenBaoVersionMismatch v r) =
     ''OpenBao server version '' @ display_version v @
     '' does not satisfy compatibility requirement '' @ display_requirement r"
| "display_error show_status (UnknownOpenBaoVersion v) =
     ''OpenBao server version '' @ display_version v @ '' has no locked compatibility profile''"
| "display_error show_status (OpenBaoCompatibilityProbe m) =
     ''OpenBao compatibility probe failed: '' @ m"
| "display_error show_status (UnsupportedOpenBaoVersion v) =
     ''OpenBao server version '' @ display_version v @
     '' is unsupported for typed endpoint dispatch''"
| "display_error show_status (UnsupportedOpenBaoCapability e v) =
     ''OpenBao capability '' @ e @ '' is unsupported for server version '' @ display_version v"
| "display_error show_status (UnsupportedOpenBaoRequestField e f v) =
     ''OpenBao request field '' @ e @ ''.'' @ f @ '' is unsupported for server version '' @
     display_version v"
| "display_error show_status RawApiDisabled =
     ''OpenBao raw request APIs require raw-api and raw-api-acknowledged''"
| "display_error show_status DevBootstrapDisabled =
     ''OpenBao development bootstrap requires dev-bootstrap, dev-bootstrap-acknowledged, and the explicitly acknowledged API''"
| "display_error show_status (Internal m) = ''internal OpenBao SDK error: '' @ m"
| "display_error show_status (BootstrapContention m) =
     ''OpenBao bootstrap contention detected: '' @ m"
| "display_error show_status (UnsafeBootstrapConfiguration m) =
     ''unsafe OpenBao bootstrap configuration: '' @ m"
| "display_error show_status (Transport m) = ''OpenBao transport error: '' @ m"
| "display_error show_status (Decode m) = ''OpenBao decode error: '' @ m"
| "display_error show_status (Api status errors) =
     (if errors = [] then ''OpenBao API returned '' @ show_status status
      else ''OpenBao API returned '' @ show_status status @ '': '' @
        join_with ''; '' (map sanitize_api_error errors))"
| "display_error show_status (MissingField f) =
     ''OpenBao response missing field `'' @ f @ ''`''"
| "display_error show_status MissingToken = ''OpenBao client is missing an authentication token''"

fun error_status :: "error \<Rightarrow> status_code option" where
  "error_status (Api status errors) = Some status"
| "error_status _ = None"

definition is_not_found :: "error \<Rightarrow> bool" where
  "is_not_found e \<longleftrightarrow> error_status e = Some 404"

definition is_forbidden :: "error \<Rightarrow> bool" where
  "is_forbidden e \<longleftrightarrow> error_status e = Some 403"

definition is_bad_request :: "error \<Rightarrow> bool" where
  "is_bad_request e \<longleftrightarrow> error_status e = Some 400"

definition is_rate_limited :: "error \<Rightarrow> bool" where
  "is_rate_limited e \<longleftrightarrow> error_status e = Some 429"

definition is_sealed :: "error \<Rightarrow> bool" where
  "is_sealed e \<longleftrightarrow> error_status e = Some 503"

fun is_bootstrap_contention :: "error \<Rightarrow> bool" where
  "is_bootstrap_contention (BootstrapContention m) = True"
| "is_bootstrap_contention _ = False"

fun is_unsafe_bootstrap_configuration :: "error \<Rightarrow> bool" where
  "is_unsafe_bootstrap_configuration (UnsafeBootstrapConfiguration m) = True"
| "is_unsafe_bootstrap_configuration _ = False"

definition is_server_error :: "status_code \<Rightarrow> bool" where
  "is_server_error status \<longleftrightarrow> 500 \<le> status \<and> status < 600"

fun is_temporary :: "error \<Rightarrow> bool" where
  "is_temporary (Transport m) = True"
| "is_temporary (Api status errors) =
     (status = 429 \<or> status = 503 \<or>
      is_server_error status \<and> status \<noteq> 501 \<and> status \<noteq> 505)"
| "is_temporary _ = False"

fun is_permission_denied :: "error \<Rightarrow> bool" where
  "is_permission_denied (Api status errors) =
     (status = 403 \<or>
      list_ex (\<lambda>m. contains_str ''permission denied'' (to_ascii_lowercase m)) errors)"
| "is_permission_denied _ = False"

definition says_conflict :: "string \<Rightarrow> bool" where
  "says_conflict message \<longleftrightarrow>
     (let m = to_ascii_lowercase message in
       contains_str ''already in use'' m \<or> contains_str ''already exists'' m \<or>
       contains_str ''existing key'' m)"

fun is_conflict :: "error \<Rightarrow> bool" where
  "is_conflict (Api status errors) =
     (status = 409 \<or> status = 400 \<and> list_ex says_conflict errors)"
| "is_conflict _ = False"

section \<open>Facts\<close>

lemma concat_utf8_chars [simp]: "concat (utf8_chars s) = s"
  by (induction s rule: utf8_chars.induct) auto

lemma utf8_chars_nonempty: "ch \<in> set (utf8_chars s) \<Longrightarrow> ch \<noteq> []"
  by (induction s rule: utf8_chars.induct) auto

lemma utf8_chars_concat:
  "list_all utf8_char_ok chs \<Longrightarrow> utf8_chars (concat chs) = chs"
proof (induction chs)
  case Nil
  then show ?case by simp
next
  case (Cons ch chs)
  then obtain c cs where ch: "ch = c # cs"
    by (cases ch) (auto simp: utf8_char_ok_def)
  with Cons.prems have "length cs = utf8_width c - 1"
    by (auto simp: utf8_char_ok_def)
  with Cons ch show ?case by simp
qed

lemma sanitize_loop_take:
  "\<exists>k. sanitize_loop acc chs = acc @ concat (take k chs)"
proof (induction chs arbitrary: acc)
  case Nil
  then show ?case by simp
next
  case (Cons ch chs)
  show ?case
  proof (cases "MAX_API_ERROR_BYTES < length acc + length ch")
    case True
    then show ?thesis by (intro exI [of _ 0]) simp
  next
    case False
    obtain k where "sanitize_loop (acc @ ch) chs = (acc @ ch) @ concat (take k chs)"
      using Cons by blast
    with False show ?thesis by (intro exI [of _ "Suc k"]) simp
  qed
qed

lemma sanitize_loop_length:
  "length acc \<le> MAX_API_ERROR_BYTES \<Longrightarrow> length (sanitize_loop acc chs) \<le> MAX_API_ERROR_BYTES"
  by (induction chs arbitrary: acc) auto

lemma sanitize_loop_fits:
  "length acc + length (concat chs) \<le> MAX_API_ERROR_BYTES \<Longrightarrow>
   sanitize_loop acc chs = acc @ concat chs"
  by (induction chs arbitrary: acc) auto

lemma sanitize_api_error_length: "length (sanitize_api_error e) \<le> MAX_API_ERROR_BYTES"
  by (simp add: sanitize_api_error_def sanitize_loop_length)

lemma sanitize_api_error_chars:
  assumes "valid_utf8 e"
  shows "\<exists>k. utf8_chars (sanitize_api_error e) =
           take k (filter (\<lambda>ch. \<not> is_display_control ch) (utf8_chars e))"
proof -
  let ?keep = "filter (\<lambda>ch. \<not> is_display_control ch) (utf8_chars e)"
  obtain k where k: "sanitize_api_error e = concat (take k ?keep)"
    using sanitize_loop_take [of "[]" ?keep] by (auto simp: sanitize_api_error_def)
  have "list_all utf8_char_ok (take k ?keep)"
    using assms by (auto simp: valid_utf8_def list_all_iff dest: in_set_takeD)
  with k show ?thesis by (auto simp: utf8_chars_concat)
qed

lemma sanitized_char_bytes:
  assumes "utf8_char_ok ch" "\<not> is_display_control ch" "c \<in> set ch"
  shows "\<not> is_ascii_control c"
proof (cases "tl ch = []")
  case True
  with assms(1,3) have "ch = [c]"
    by (cases ch) (auto simp: utf8_char_ok_def)
  with assms(2) show ?thesis
    by (auto simp: is_display_control_def is_ascii_control_def Let_def)
next
  case False
  then obtain a as where ch: "ch = a # as" "as \<noteq> []" by (cases ch) auto
  with assms(1) have "128 \<le> byte a"
    by (auto simp: utf8_char_ok_def utf8_width_def split: if_splits)
  with assms ch show ?thesis
    by (auto simp: utf8_char_ok_def list_all_iff is_ascii_control_def)
qed

lemma sanitize_api_error_no_control:
  assumes "valid_utf8 e" "c \<in> set (sanitize_api_error e)"
  shows "\<not> is_ascii_control c"
proof -
  let ?keep = "filter (\<lambda>ch. \<not> is_display_control ch) (utf8_chars e)"
  obtain k where k: "sanitize_api_error e = concat (take k ?keep)"
    using sanitize_loop_take [of "[]" ?keep] by (auto simp: sanitize_api_error_def)
  with assms(2) obtain ch where ch: "ch \<in> set ?keep" "c \<in> set ch"
    by (auto dest: in_set_takeD)
  with assms(1) have "utf8_char_ok ch" and "\<not> is_display_control ch"
    by (auto simp: valid_utf8_def list_all_iff)
  with ch(2) show ?thesis by (blast dest: sanitized_char_bytes)
qed

lemma is_forbidden_permission_denied: "is_forbidden e \<Longrightarrow> is_permission_denied e"
  by (cases e) (auto simp: is_forbidden_def)

lemma is_not_found_Api: "is_not_found e \<Longrightarrow> \<exists>msgs. e = Api 404 msgs"
  by (cases e) (auto simp: is_not_found_def)

end
