(* ===== verification/Bao_Validation.thy ===== *)
theory Bao_Validation
  imports Bao_Errors
begin

unbundle bit_operations_syntax

text \<open>
  The request-parameter validators of \<open>validation.rs\<close> and the value helpers of
  \<open>duration.rs\<close> and \<open>timestamp.rs\<close>. The parsers of other crates are parameters: \<open>parse_url\<close>
  for the \<open>url\<close> crate, \<open>from_str\<close> for \<open>serde_json\<close>, \<open>parse_rfc3339\<close> for \<open>time\<close>. Rust's own
  \<open>IpAddr\<close> parser is written out.
\<close>

section \<open>What the parsers return\<close>

text \<open>The accessors of a parsed \<open>Url\<close> that the validators read.\<close>

record url =
  url_scheme :: string
  url_host_str :: "string option"
  url_port :: "16 word option"
  url_username :: string
  url_password :: "string option"
  url_path :: string
  url_query :: "string option"
  url_fragment :: "string option"

datatype json_value =
    JNull
  | JBool bool
  | JNumber int
  | JFloat
  | JString string
  | JArray "json_value list"
  | JObject "(string \<times> json_value) list"

fun json_is_object :: "json_value \<Rightarrow> bool" where
  "json_is_object (JObject members) = True"
| "json_is_object _ = False"

section \<open>HTTPS endpoints\<close>

definition MAX_DURATION_COMPONENT :: "64 word" where
  "MAX_DURATION_COMPONENT = 8760000"

definition MAX_EXTERNAL_ENDPOINT_BYTES :: nat where
  "MAX_EXTERNAL_ENDPOINT_BYTES = 4 * 1024"

definition MAX_JSON_OBJECT_BYTES :: nat where
  "MAX_JSON_OBJECT_BYTES = 4 * 1024"

declare MAX_DURATION_COMPONENT_def [limits] MAX_EXTERNAL_ENDPOINT_BYTES_def [limits]
  MAX_JSON_OBJECT_BYTES_def [limits]

definition endpoint_byte_is_bad :: "char \<Rightarrow> bool" where
  "endpoint_byte_is_bad b \<longleftrightarrow> is_ascii_control b \<or> is_ascii_whitespace b"

text \<open>The part of a URL check that \<open>validate_https_endpoint\<close> and \<open>validate_ldap_urls\<close> share.\<close>

definition url_is_bare :: "url \<Rightarrow> bool" where
  "url_is_bare u \<longleftrightarrow>
     url_host_str u \<noteq> None \<and> url_port u \<noteq> Some 0 \<and> url_username u = [] \<and>
     url_password u = None \<and> url_fragment u = None"

definition validate_https_endpoint ::
  "(string \<Rightarrow> url option) \<Rightarrow> string \<Rightarrow> string \<Rightarrow> unit res" where
  "validate_https_endpoint parse_url value field =
     (if MAX_EXTERNAL_ENDPOINT_BYTES < length value \<or> list_ex endpoint_byte_is_bad value \<or>
         CHR 0x5C \<in> set value
      then Inl (InvalidParameter (field @ '' exceeds the endpoint length limit''))
      else case parse_url value of
        None \<Rightarrow> Inl (InvalidParameter (field @ '' must be an absolute HTTPS URL''))
      | Some endpoint \<Rightarrow>
          (if url_scheme endpoint \<noteq> ''https'' \<or> \<not> url_is_bare endpoint
           then Inl (InvalidParameter
             (field @ '' must be an HTTPS URL without credentials or a fragment''))
           else Inr ()))"

definition valid_endpoint_port :: "string \<Rightarrow> bool" where
  "valid_endpoint_port port \<longleftrightarrow>
     port \<noteq> [] \<and> list_all is_ascii_digit port \<and>
     (case parse_unsigned (2 ^ 16) port of None \<Rightarrow> False | Some p \<Rightarrow> p \<noteq> 0)"

definition valid_https_authority :: "string \<Rightarrow> bool" where
  "valid_https_authority authority =
     (case strip_prefix ''['' authority of
        Some bracketed \<Rightarrow>
          (case split_once '']'' bracketed of
             None \<Rightarrow> False
           | Some (host, suff) \<Rightarrow>
               host \<noteq> [] \<and> \<not> contains_any ''[]'' host \<and>
               (suff = [] \<or>
                (case strip_prefix '':'' suff of None \<Rightarrow> False | Some p \<Rightarrow> valid_endpoint_port p)))
      | None \<Rightarrow>
          (if contains_any ''[]%'' authority then False
           else case rsplit_once CHR '':'' authority of
             Some (host, port) \<Rightarrow> host \<noteq> [] \<and> CHR '':'' \<notin> set host \<and> valid_endpoint_port port
           | None \<Rightarrow> authority \<noteq> []))"

definition validate_secret_https_endpoint :: "string \<Rightarrow> string \<Rightarrow> unit res" where
  "validate_secret_https_endpoint value field =
     (if MAX_EXTERNAL_ENDPOINT_BYTES < length value \<or> list_ex endpoint_byte_is_bad value \<or>
         contains_any [CHR 0x5C, CHR ''#''] value
      then Inl (InvalidParameter (field @ '' must be a bounded HTTPS URL''))
      else case split_once ''://'' value of
        None \<Rightarrow> Inl (InvalidParameter (field @ '' must be an absolute HTTPS URL''))
      | Some (scheme, remainder) \<Rightarrow>
          (if \<not> eq_ignore_ascii_case scheme ''https''
           then Inl (InvalidParameter (field @ '' must use HTTPS''))
           else
             (let authority = takeWhile (\<lambda>c. c \<notin> set ''/?'') remainder in
              if authority = [] \<or> CHR ''@'' \<in> set authority \<or> \<not> valid_https_authority authority
              then Inl (InvalidParameter
                (field @ '' must contain a valid host without credentials''))
              else Inr ())))"

section \<open>LDAP URL lists\<close>

fun ldap_url_loop ::
  "(string \<Rightarrow> url option) \<Rightarrow> bool \<Rightarrow> string \<Rightarrow> bool \<Rightarrow> bool \<Rightarrow> string list \<Rightarrow> bool res" where
  "ldap_url_loop parse_url uses_starttls label require_encrypted found [] = Inr found"
| "ldap_url_loop parse_url uses_starttls label require_encrypted found (v # vs) =
     (let value = trim v in
      if value = []
      then ldap_url_loop parse_url uses_starttls label require_encrypted found vs
      else case parse_url value of
        None \<Rightarrow> Inl (InvalidParameter (label @ '' URL must be an absolute LDAP URL''))
      | Some endpoint \<Rightarrow>
          (let scheme_is_safe =
             (if uses_starttls then url_scheme endpoint = ''ldap''
              else if require_encrypted then url_scheme endpoint = ''ldaps''
              else url_scheme endpoint \<in> {''ldap'', ''ldaps''})
           in if \<not> scheme_is_safe \<or> \<not> url_is_bare endpoint
              then Inl (InvalidParameter
                (label @ '' URL is not safe for the selected LDAP TLS mode''))
              else ldap_url_loop parse_url uses_starttls label require_encrypted True vs))"

definition validate_ldap_urls ::
  "(string \<Rightarrow> url option) \<Rightarrow> string option \<Rightarrow> bool option \<Rightarrow> string \<Rightarrow> bool \<Rightarrow> unit res" where
  "validate_ldap_urls parse_url urls starttls label require_encrypted =
     (let uses_starttls = (starttls = Some True) in
      case urls of
        None \<Rightarrow>
          (if uses_starttls \<or> \<not> require_encrypted then Inr ()
           else Inl (InvalidParameter (label @ '' URL must use ldaps:// or starttls=true'')))
      | Some urls \<Rightarrow>
          (if MAX_EXTERNAL_ENDPOINT_BYTES < length urls
           then Inl (InvalidParameter (label @ '' URL list exceeds the endpoint length limit''))
           else rbind
             (ldap_url_loop parse_url uses_starttls label require_encrypted False
               (split_on CHR '','' urls))
             (\<lambda>found. if found then Inr ()
               else Inl (InvalidParameter (label @ '' URL must not be empty'')))))"

section \<open>Duration strings\<close>

text \<open>The digit loop of \<open>parse_duration_component\<close>, on a 64-bit accumulator.\<close>

fun component_loop :: "64 word \<Rightarrow> string \<Rightarrow> 64 word option" where
  "component_loop component [] = Some component"
| "component_loop component (d # ds) =
     (if \<not> is_ascii_digit d then None
      else case Option.bind (checked_mul component 10)
          (\<lambda>c. checked_add c (word_of_nat (byte d - 48))) of
        None \<Rightarrow> None
      | Some c \<Rightarrow> if MAX_DURATION_COMPONENT < c then None else component_loop c ds)"

definition parse_duration_component :: "string \<Rightarrow> 64 word option" where
  "parse_duration_component digits = (if digits = [] then None else component_loop 0 digits)"

definition unit_scale :: "char \<Rightarrow> nat option" where
  "unit_scale c =
     (if c = CHR ''h'' then Some 0 else if c = CHR ''m'' then Some 1
      else if c = CHR ''s'' then Some 2 else None)"

text \<open>
  The index loop of \<open>validate_duration_string\<close>: \<open>rest\<close> is \<open>bytes[index..]\<close>, each round takes a run
  of digits and the unit after it.
\<close>

function duration_loop :: "bool \<Rightarrow> nat option \<Rightarrow> string \<Rightarrow> bool" where
  "duration_loop allow_zero last_unit_scale rest =
     (if rest = [] then True
      else
        (let digits = takeWhile is_ascii_digit rest;
             tail = dropWhile is_ascii_digit rest
         in case parse_duration_component digits of
              None \<Rightarrow> False
            | Some component \<Rightarrow>
                (if MAX_DURATION_COMPONENT < component then False
                 else if \<not> allow_zero \<and> component = 0 then False
                 else case tail of
                   [] \<Rightarrow> False
                 | u # rest' \<Rightarrow>
                     (case unit_scale u of
                        None \<Rightarrow> False
                      | Some scale \<Rightarrow>
                          (if is_some_and (\<lambda>previous. scale \<le> previous) last_unit_scale
                           then False
                           else duration_loop allow_zero (Some scale) rest')))))"
  by pat_completeness auto
termination
proof (relation "measure (\<lambda>(z, u, s). length s)")
  show "wf (measure (\<lambda>(z :: bool, u :: nat option, s :: string). length s))" by simp
next
  fix z :: bool and l :: "nat option" and rest ds t t' :: string and c u sc
  assume "t = dropWhile is_ascii_digit rest" "t = u # t'"
  then have "length (u # t') \<le> length rest" by (metis length_dropWhile_le)
  then show "((z, Some sc, t'), z, l, rest) \<in> measure (\<lambda>(z, u, s). length s)" by simp
qed

declare duration_loop.simps [simp del]

definition validate_duration_string :: "string \<Rightarrow> bool \<Rightarrow> bool" where
  "validate_duration_string value allow_zero =
     (if value = [] then False else duration_loop allow_zero None value)"

definition validate_duration_parameter :: "string \<Rightarrow> string \<Rightarrow> unit res" where
  "validate_duration_parameter value field =
     (if validate_duration_string value False then Inr ()
      else Inl (InvalidParameter (field @ '' must be a positive duration such as 30s, 5m, or 1h'')))"

definition validate_optional_ldap_tls_version :: "string option \<Rightarrow> string \<Rightarrow> unit res" where
  "validate_optional_ldap_tls_version value field =
     (case value of
        None \<Rightarrow> Inr ()
      | Some v \<Rightarrow>
          (if v = ''tls12'' \<or> v = ''tls13'' then Inr ()
           else if v = ''tls10'' \<or> v = ''tls11''
           then Inl (InvalidParameter (field @ '' value '' @ [CHR 0x22] @ v @ [CHR 0x22] @
             '' is deprecated; use tls12 or tls13''))
           else Inl (InvalidParameter (field @ '' must be tls12 or tls13''))))"

section \<open>CIDR values\<close>

text \<open>
  \<open>core::net\<close>'s parser. A parser step takes the remaining text and returns a value with what
  is left of the text; \<open>None\<close> leaves the text as it was.
\<close>

type_synonym 'a ip_step = "(('a \<times> string) option)"

definition to_digit :: "nat \<Rightarrow> char \<Rightarrow> nat option" where
  "to_digit radix c =
     (let d = (if is_ascii_digit c then Some (byte c - 48)
               else if is_ascii_lowercase c then Some (byte c - 87)
               else if is_ascii_uppercase c then Some (byte c - 55)
               else None)
      in case d of None \<Rightarrow> None | Some v \<Rightarrow> if v < radix then Some v else None)"

definition read_number :: "nat \<Rightarrow> nat \<Rightarrow> bool \<Rightarrow> nat \<Rightarrow> string \<Rightarrow> nat ip_step" where
  "read_number radix max_digits allow_zero_prefix bound s =
     (let digits = takeWhile (\<lambda>c. to_digit radix c \<noteq> None) s;
          value = foldl (\<lambda>acc c. acc * radix + the (to_digit radix c)) 0 digits
      in if max_digits < length digits \<or> digits = [] then None
         else if \<not> allow_zero_prefix \<and> hd digits = CHR ''0'' \<and> 1 < length digits then None
         else if bound \<le> value then None
         else Some (value, drop (length digits) s))"

definition read_separator :: "char \<Rightarrow> nat \<Rightarrow> string \<Rightarrow> string option" where
  "read_separator sep i s =
     (if i = 0 then Some s
      else case s of [] \<Rightarrow> None | c # cs \<Rightarrow> if c = sep then Some cs else None)"

fun read_octets :: "nat \<Rightarrow> nat \<Rightarrow> string \<Rightarrow> nat list ip_step" where
  "read_octets i 0 s = Some ([], s)"
| "read_octets i (Suc k) s =
     (case read_separator CHR ''.'' i s of
        None \<Rightarrow> None
      | Some s1 \<Rightarrow>
          (case read_number 10 3 False 256 s1 of
             None \<Rightarrow> None
           | Some (o1, s2) \<Rightarrow>
               map_option (\<lambda>(os, s3). (o1 # os, s3)) (read_octets (Suc i) k s2)))"

definition read_ipv4_addr :: "string \<Rightarrow> nat list ip_step" where
  "read_ipv4_addr s = read_octets 0 4 s"

text \<open>
  \<open>read_groups\<close>: up to \<open>limit\<close> groups of 16 bits, the last two of which may be written as an
  IPv4 address; it returns the groups read and whether it ended with such an address.
\<close>

fun read_groups :: "nat \<Rightarrow> nat \<Rightarrow> nat \<Rightarrow> string \<Rightarrow> nat list \<times> bool \<times> string" where
  "read_groups limit i 0 s = ([], False, s)"
| "read_groups limit i (Suc k) s =
     (case (if Suc i < limit
            then Option.bind (read_separator CHR '':'' i s) read_ipv4_addr else None) of
        Some (os, s') \<Rightarrow>
          ([os ! 0 * 256 + os ! 1, os ! 2 * 256 + os ! 3], True, s')
      | None \<Rightarrow>
          (case Option.bind (read_separator CHR '':'' i s) (read_number 16 4 True 65536) of
             None \<Rightarrow> ([], False, s)
           | Some (g, s') \<Rightarrow>
               (let (gs, v4, s'') = read_groups limit (Suc i) k s' in (g # gs, v4, s''))))"

definition read_ipv6_addr :: "string \<Rightarrow> nat list ip_step" where
  "read_ipv6_addr s =
     (let (head, head_ipv4, s1) = read_groups 8 0 8 s in
      if length head = 8 then Some (head, s1)
      else if head_ipv4 then None
      else case s1 of
        c1 # c2 # s2 \<Rightarrow>
          (if c1 = CHR '':'' \<and> c2 = CHR '':''
           then
             (let limit = 8 - (length head + 1);
                  (tail, _, s3) = read_groups limit 0 limit s2
              in Some (head @ replicate (8 - length head - length tail) 0 @ tail, s3))
           else None)
      | _ \<Rightarrow> None)"

datatype ip_addr = V4 "32 word" | V6 "128 word"

fun be_bytes :: "nat \<Rightarrow> nat list \<Rightarrow> nat" where
  "be_bytes base xs = foldl (\<lambda>acc x. acc * base + x) 0 xs"

text \<open>\<open>IpAddr::from_str\<close>: IPv4 first, then IPv6, and nothing may be left over.\<close>

definition parse_ip_addr :: "string \<Rightarrow> ip_addr option" where
  "parse_ip_addr s =
     (case read_ipv4_addr s of
        Some (os, rest) \<Rightarrow> if rest = [] then Some (V4 (word_of_nat (be_bytes 256 os))) else None
      | None \<Rightarrow>
          (case read_ipv6_addr s of
             Some (gs, rest) \<Rightarrow>
               if rest = [] then Some (V6 (word_of_nat (be_bytes 65536 gs))) else None
           | None \<Rightarrow> None))"

fun is_ipv4 :: "ip_addr \<Rightarrow> bool" where
  "is_ipv4 (V4 a) = True"
| "is_ipv4 (V6 a) = False"

text \<open>The masks of \<open>validate_cidr\<close>: \<open>MAX << (width - prefix)\<close>, and 0 for a zero prefix.\<close>

definition cidr_mask :: "nat \<Rightarrow> 'w::len word" where
  "cidr_mask p = (if p = 0 then 0 else push_bit (LENGTH('w) - p) (- 1))"

fun host_bits_are_zero :: "ip_addr \<Rightarrow> nat \<Rightarrow> bool" where
  "host_bits_are_zero (V4 ip) p \<longleftrightarrow> ip AND NOT (cidr_mask p) = 0"
| "host_bits_are_zero (V6 ip) p \<longleftrightarrow> ip AND NOT (cidr_mask p) = 0"

definition validate_cidr :: "string \<Rightarrow> string \<Rightarrow> unit res" where
  "validate_cidr value field =
     (case split_once ''/'' value of
        None \<Rightarrow> Inl (InvalidParameter
          (field @ '' must contain CIDR values such as 192.0.2.0/24''))
      | Some (ip, pre) \<Rightarrow>
          (if ip = [] \<or> pre = [] \<or> CHR ''/'' \<in> set pre
           then Inl (InvalidParameter (field @ '' contains malformed CIDR value''))
           else case parse_ip_addr ip of
             None \<Rightarrow> Inl (InvalidParameter (field @ '' contains invalid CIDR address''))
           | Some addr \<Rightarrow>
               (case parse_unsigned 256 pre of
                  None \<Rightarrow> Inl (InvalidParameter (field @ '' contains invalid CIDR prefix''))
                | Some p \<Rightarrow>
                    (let max_prefix = (if is_ipv4 addr then 32 else 128) in
                     if max_prefix < p
                     then Inl (InvalidParameter
                       (field @ '' CIDR prefix exceeds /'' @ dec_string max_prefix))
                     else if \<not> host_bits_are_zero addr p
                     then Inl (InvalidParameter (field @
                       '' CIDR value must be a network address with host bits zeroed''))
                     else Inr ()))))"

fun validate_cidr_list :: "string list \<Rightarrow> string \<Rightarrow> unit res" where
  "validate_cidr_list [] field = Inr ()"
| "validate_cidr_list (v # vs) field =
     rbind (validate_cidr v field) (\<lambda>_. validate_cidr_list vs field)"

section \<open>JSON object strings\<close>

definition validate_json_object_string ::
  "(string \<Rightarrow> json_value option) \<Rightarrow> string \<Rightarrow> string \<Rightarrow> unit res" where
  "validate_json_object_string from_str value field =
     (if MAX_JSON_OBJECT_BYTES < length value
      then Inl (InvalidParameter (field @ '' JSON object string exceeds maximum allowed size''))
      else case from_str value of
        None \<Rightarrow> Inl (InvalidParameter (field @ '' must be a valid JSON object string''))
      | Some v \<Rightarrow> if json_is_object v then Inr ()
          else Inl (InvalidParameter (field @ '' must be a JSON object string'')))"

section \<open>\<open>duration.rs\<close>\<close>

text \<open>\<open>std::time::Duration\<close>: seconds and the nanoseconds below one second.\<close>

record std_duration =
  as_secs :: "64 word"
  subsec_nanos :: "32 word"

definition duration_is_zero :: "std_duration \<Rightarrow> bool" where
  "duration_is_zero d \<longleftrightarrow> as_secs d = 0 \<and> subsec_nanos d = 0"

definition duration_from_secs :: "64 word \<Rightarrow> std_duration" where
  "duration_from_secs s = \<lparr>as_secs = s, subsec_nanos = 0\<rparr>"

definition whole_seconds :: "std_duration \<Rightarrow> 64 word" where
  "whole_seconds d =
     (if 0 < subsec_nanos d then saturating_add (as_secs d) 1 else as_secs d)"

definition unit_part :: "nat \<Rightarrow> char \<Rightarrow> string" where
  "unit_part n u = (if 0 < n then dec_string n @ [u] else [])"

definition duration_to_bao_string :: "std_duration \<Rightarrow> string" where
  "duration_to_bao_string d =
     (let total_seconds = unat (whole_seconds d) in
      if total_seconds = 0 then ''0s''
      else
        (let hours = total_seconds div 3600;
             minutes = (total_seconds mod 3600) div 60;
             seconds = total_seconds mod 60
         in unit_part hours CHR ''h'' @ unit_part minutes CHR ''m'' @
            unit_part seconds CHR ''s''))"

definition nonzero_duration_to_bao_string :: "std_duration \<Rightarrow> string \<Rightarrow> string res" where
  "nonzero_duration_to_bao_string d field =
     (if duration_is_zero d
      then Inl (InvalidParameter (field @ '' duration must be non-zero''))
      else Inr (duration_to_bao_string d))"

record renewal_hint =
  sleep_before_renew :: "std_duration option"
  rh_increment :: "string option"
  increment_seconds :: "64 word option"

definition renewal_hint_from_ttl :: "64 word \<Rightarrow> bool \<Rightarrow> renewal_hint" where
  "renewal_hint_from_ttl lease_duration_secs renewable =
     (if \<not> renewable \<or> lease_duration_secs = 0
      then \<lparr>sleep_before_renew = None, rh_increment = None, increment_seconds = None\<rparr>
      else
        (let sleep_secs =
           (ucast (min (((ucast lease_duration_secs :: 128 word) * 2) div 3)
              (ucast (- 1 :: 64 word))) :: 64 word)
         in \<lparr>sleep_before_renew = Some (duration_from_secs sleep_secs),
             rh_increment = Some (dec_string (unat lease_duration_secs) @ ''s''),
             increment_seconds = Some lease_duration_secs\<rparr>))"

section \<open>\<open>timestamp.rs\<close>\<close>

definition parse_rfc3339_timestamp :: "(string \<Rightarrow> 't option) \<Rightarrow> string \<Rightarrow> 't res" where
  "parse_rfc3339_timestamp parse_rfc3339 value =
     (let v = trim value in
      if v = []
      then Inl (InvalidParameter ''timestamp must be a non-empty RFC3339 value'')
      else ok_or (parse_rfc3339 v)
        (InvalidParameter ''timestamp must be a valid RFC3339 value''))"

definition parse_optional_rfc3339_timestamp ::
  "(string \<Rightarrow> 't option) \<Rightarrow> string option \<Rightarrow> 't option res" where
  "parse_optional_rfc3339_timestamp parse_rfc3339 value =
     (case (case map_option trim value of None \<Rightarrow> None | Some v \<Rightarrow> if v \<noteq> [] then Some v else None) of
        None \<Rightarrow> Inr None
      | Some v \<Rightarrow> rmap Some (parse_rfc3339_timestamp parse_rfc3339 v))"

section \<open>The duration grammar\<close>

text \<open>
  A duration string is a list of components, each a run of digits and a unit. \<open>part_text\<close>
  prints one, \<open>part_ok\<close> says which are accepted, \<open>parts_seconds\<close> reads the list as seconds.
\<close>

type_synonym duration_part = "string \<times> char"

definition part_text :: "duration_part \<Rightarrow> string" where
  "part_text p = fst p @ [snd p]"

definition part_ok :: "bool \<Rightarrow> duration_part \<Rightarrow> bool" where
  "part_ok allow_zero p \<longleftrightarrow>
     fst p \<noteq> [] \<and> list_all is_ascii_digit (fst p) \<and> dec_value (fst p) \<le> 8760000 \<and>
     (allow_zero \<or> dec_value (fst p) \<noteq> 0)"

fun scales_ok :: "nat option \<Rightarrow> duration_part list \<Rightarrow> bool" where
  "scales_ok l [] = True"
| "scales_ok l (p # ps) =
     (case unit_scale (snd p) of None \<Rightarrow> False
      | Some s \<Rightarrow> \<not> is_some_and (\<lambda>q. s \<le> q) l \<and> scales_ok (Some s) ps)"

fun unit_seconds :: "char \<Rightarrow> nat" where
  "unit_seconds c = (if c = CHR ''h'' then 3600 else if c = CHR ''m'' then 60 else 1)"

definition parts_seconds :: "duration_part list \<Rightarrow> nat" where
  "parts_seconds ps = sum_list (map (\<lambda>p. dec_value (fst p) * unit_seconds (snd p)) ps)"

lemma is_ascii_digit_bounds: "is_ascii_digit c \<Longrightarrow> byte c - 48 \<le> 9"
  unfolding is_ascii_digit_def by linarith

lemma dec_value_foldl:
  "foldl (\<lambda>acc c. acc * 10 + (byte c - 48)) a s = a * 10 ^ length s + dec_value s"
proof (induction s arbitrary: a rule: rev_induct)
  case Nil
  then show ?case by (simp add: dec_value_def)
next
  case (snoc c s)
  then show ?case by (simp add: dec_value_snoc algebra_simps)
qed

lemma dec_value_Cons: "dec_value (c # s) = (byte c - 48) * 10 ^ length s + dec_value s"
  using dec_value_foldl [of "byte c - 48" s] by (simp add: dec_value_def)

lemma component_step:
  assumes "unat a \<le> 8760000" "is_ascii_digit d"
  shows "\<exists>c. Option.bind (checked_mul a 10)
           (\<lambda>c. checked_add c (word_of_nat (byte d - 48))) = Some (c :: 64 word) \<and>
         unat c = unat a * 10 + (byte d - 48)"
proof -
  let ?v = "byte d - 48"
  have v: "?v \<le> 9" using assms(2) by (rule is_ascii_digit_bounds)
  have uv: "unat (word_of_nat ?v :: 64 word) = ?v"
    using v by (simp add: unat_of_nat)
  have ten: "unat (10 :: 64 word) = 10" by simp
  have "checked_mul a 10 = Some (a * 10)" and m: "unat (a * 10) = unat a * 10"
    using assms(1) by (simp_all add: checked_mul_def unat_word_ariths ten)
  moreover have "checked_add (a * 10) (word_of_nat ?v) = Some (a * 10 + word_of_nat ?v)"
    and "unat (a * 10 + word_of_nat ?v) = unat a * 10 + ?v"
    using assms(1) v m uv by (simp_all add: checked_add_def unat_word_ariths)
  ultimately show ?thesis by simp
qed

lemma component_loop_iff:
  "unat a \<le> 8760000 \<Longrightarrow>
   component_loop a ds = Some c \<longleftrightarrow>
     list_all is_ascii_digit ds \<and> unat a * 10 ^ length ds + dec_value ds \<le> 8760000 \<and>
     unat c = unat a * 10 ^ length ds + dec_value ds"
proof (induction ds arbitrary: a)
  case Nil
  then show ?case by (auto simp: dec_value_def word_unat_eq_iff)
next
  case (Cons d ds)
  show ?case
  proof (cases "is_ascii_digit d")
    case False
    then show ?thesis by simp
  next
    case True
    obtain b where b: "Option.bind (checked_mul a 10)
        (\<lambda>c. checked_add c (word_of_nat (byte d - 48))) = Some b"
      and ub: "unat b = unat a * 10 + (byte d - 48)"
      using component_step [OF Cons.prems True] by blast
    have val: "unat a * 10 ^ length (d # ds) + dec_value (d # ds) =
        unat b * 10 ^ length ds + dec_value ds"
      by (simp add: dec_value_Cons ub algebra_simps)
    have max: "MAX_DURATION_COMPONENT < b \<longleftrightarrow> 8760000 < unat b"
      by (simp add: MAX_DURATION_COMPONENT_def word_less_nat_alt)
    show ?thesis
    proof (cases "8760000 < unat b")
      case big: True
      have "unat b * 1 \<le> unat b * 10 ^ length ds" by (rule mult_le_mono2) simp
      with big have "8760000 < unat b * 10 ^ length ds + dec_value ds" by linarith
      with big True show ?thesis unfolding val by (simp add: b max)
    next
      case small: False
      then have "component_loop b ds = Some c \<longleftrightarrow>
          list_all is_ascii_digit ds \<and> unat b * 10 ^ length ds + dec_value ds \<le> 8760000 \<and>
          unat c = unat b * 10 ^ length ds + dec_value ds"
        by (intro Cons.IH) simp
      with small True show ?thesis unfolding val by (simp add: b max)
    qed
  qed
qed

lemma parse_duration_component_iff:
  "parse_duration_component ds = Some c \<longleftrightarrow>
     ds \<noteq> [] \<and> list_all is_ascii_digit ds \<and> dec_value ds \<le> 8760000 \<and> unat c = dec_value ds"
  using component_loop_iff [of 0 ds c] by (simp add: parse_duration_component_def)

lemma parse_duration_component_None:
  "parse_duration_component ds = None \<longleftrightarrow>
     \<not> (ds \<noteq> [] \<and> list_all is_ascii_digit ds \<and> dec_value ds \<le> 8760000)"
proof -
  have "\<exists>c :: 64 word. unat c = dec_value ds" if "dec_value ds \<le> 8760000"
    using that by (intro exI [of _ "word_of_nat (dec_value ds)"]) (simp add: unat_of_nat)
  then show ?thesis
    using parse_duration_component_iff [of ds] by (cases "parse_duration_component ds") auto
qed

lemma unit_not_digit: "unit_scale u \<noteq> None \<Longrightarrow> \<not> is_ascii_digit u"
  by (auto simp: unit_scale_def is_ascii_digit_def split: if_splits)

lemma duration_loop_Nil [simp]: "duration_loop z l []"
  by (subst duration_loop.simps) simp

lemma duration_loop_part:
  assumes "list_all is_ascii_digit ds" "unit_scale u = Some sc"
  shows "duration_loop z l (ds @ u # rest) \<longleftrightarrow>
    part_ok z (ds, u) \<and> \<not> is_some_and (\<lambda>q. sc \<le> q) l \<and> duration_loop z (Some sc) rest"
proof -
  have u: "\<not> is_ascii_digit u" using assms(2) unit_not_digit by simp
  then have take: "takeWhile is_ascii_digit (ds @ u # rest) = ds"
    and drop: "dropWhile is_ascii_digit (ds @ u # rest) = u # rest"
    using assms(1) by (simp_all add: list_all_iff takeWhile_append2 dropWhile_append2)
  show ?thesis
  proof (cases "parse_duration_component ds")
    case None
    then have "\<not> part_ok z (ds, u)"
      unfolding parse_duration_component_None part_ok_def by auto
    with None show ?thesis
      by (subst duration_loop.simps) (simp add: take drop Let_def)
  next
    case (Some c)
    then have c: "ds \<noteq> []" "dec_value ds \<le> 8760000" "unat c = dec_value ds"
      by (simp_all add: parse_duration_component_iff)
    then have "\<not> MAX_DURATION_COMPONENT < c"
      by (simp add: MAX_DURATION_COMPONENT_def word_less_nat_alt)
    moreover have "c = 0 \<longleftrightarrow> dec_value ds = 0"
      by (simp add: c(3) [symmetric] unat_eq_0)
    ultimately show ?thesis
      using assms c Some
      by (subst duration_loop.simps) (auto simp: take drop Let_def part_ok_def)
  qed
qed

lemma duration_loop_split:
  assumes "duration_loop z l s" "s \<noteq> []"
  shows "\<exists>ds u sc rest. s = ds @ u # rest \<and> list_all is_ascii_digit ds \<and> unit_scale u = Some sc"
proof -
  let ?ds = "takeWhile is_ascii_digit s"
  have s: "s = ?ds @ dropWhile is_ascii_digit s" by simp
  have digits: "list_all is_ascii_digit ?ds"
    by (auto simp: list_all_iff dest: set_takeWhileD)
  from assms obtain u rest sc where "dropWhile is_ascii_digit s = u # rest" "unit_scale u = Some sc"
    by (subst (asm) duration_loop.simps)
      (auto simp: Let_def split: option.splits list.splits if_splits)
  with s digits show ?thesis by metis
qed

lemma duration_loop_sound:
  "duration_loop z l s \<Longrightarrow>
   \<exists>ps. s = concat (map part_text ps) \<and> list_all (part_ok z) ps \<and> scales_ok l ps"
proof (induction "length s" arbitrary: l s rule: less_induct)
  case less
  show ?case
  proof (cases "s = []")
    case True
    then show ?thesis by (intro exI [of _ "[]"]) simp
  next
    case False
    then obtain ds u sc rest where s: "s = ds @ u # rest"
      and ds: "list_all is_ascii_digit ds" "unit_scale u = Some sc"
      using duration_loop_split less.prems by metis
    then have ok: "part_ok z (ds, u)" "\<not> is_some_and (\<lambda>q. sc \<le> q) l"
      and "duration_loop z (Some sc) rest"
      using less.prems duration_loop_part [OF ds, of z l rest] by auto
    then obtain ps where "rest = concat (map part_text ps)" "list_all (part_ok z) ps"
      "scales_ok (Some sc) ps"
      using less.hyps [of rest "Some sc"] s by auto
    with s ds ok show ?thesis
      by (intro exI [of _ "(ds, u) # ps"]) (simp add: part_text_def)
  qed
qed

lemma duration_loop_complete:
  "list_all (part_ok z) ps \<Longrightarrow> scales_ok l ps \<Longrightarrow> duration_loop z l (concat (map part_text ps))"
proof (induction ps arbitrary: l)
  case Nil
  then show ?case by simp
next
  case (Cons p ps)
  then obtain sc where sc: "unit_scale (snd p) = Some sc" "\<not> is_some_and (\<lambda>q. sc \<le> q) l"
    "scales_ok (Some sc) ps"
    by (auto split: option.splits)
  have digits: "list_all is_ascii_digit (fst p)" using Cons.prems by (simp add: part_ok_def)
  have eq: "concat (map part_text (p # ps)) = fst p @ snd p # concat (map part_text ps)"
    by (simp add: part_text_def)
  show ?case
    unfolding eq
    using Cons sc duration_loop_part [OF digits sc(1), of z l "concat (map part_text ps)"]
    by simp
qed


lemma validate_duration_string_parts:
  "ps \<noteq> [] \<Longrightarrow> list_all (part_ok z) ps \<Longrightarrow> scales_ok None ps \<Longrightarrow>
   validate_duration_string (concat (map part_text ps)) z"
  using duration_loop_complete [of z ps None]
  by (cases ps) (auto simp: validate_duration_string_def part_text_def)

section \<open>Durations as text\<close>

definition hms_parts :: "nat \<Rightarrow> duration_part list" where
  "hms_parts t =
     map (\<lambda>(n, u). (dec_string n, u)) (filter (\<lambda>(n, u). 0 < n)
       [(t div 3600, CHR ''h''), (t mod 3600 div 60, CHR ''m''), (t mod 60, CHR ''s'')])"

lemma hms_parts_text:
  "concat (map part_text (hms_parts t)) =
     unit_part (t div 3600) CHR ''h'' @ unit_part (t mod 3600 div 60) CHR ''m'' @
     unit_part (t mod 60) CHR ''s''"
  by (simp add: hms_parts_def unit_part_def part_text_def)

lemma hms_parts_seconds: "parts_seconds (hms_parts t) = t"
proof -
  have "t = (t div 3600) * 3600 + (t mod 3600 div 60) * 60 + t mod 60"
  proof -
    have "(60 :: nat) dvd 3600" by simp
    from mod_mod_cancel [OF this, of t] show ?thesis
      using div_mult_mod_eq [of t 3600] div_mult_mod_eq [of "t mod 3600" 60] by linarith
  qed
  moreover have "parts_seconds (map (\<lambda>(n, u). (dec_string n, u)) (filter (\<lambda>(n, u). 0 < n)
      [(a, CHR ''h''), (b, CHR ''m''), (c, CHR ''s'')])) = a * 3600 + b * 60 + c" for a b c
    by (simp add: parts_seconds_def)
  ultimately show ?thesis unfolding hms_parts_def by metis
qed

lemma hms_parts_scales: "scales_ok None (hms_parts t)"
  by (simp add: hms_parts_def unit_scale_def)

lemma hms_parts_ok: "t div 3600 \<le> 8760000 \<Longrightarrow> list_all (part_ok False) (hms_parts t)"
proof -
  have "t mod 3600 div 60 \<le> 8760000" and "t mod 60 \<le> 8760000"
    using mod_less_divisor [of 3600 t] mod_less_divisor [of 60 t]
      div_le_dividend [of "t mod 3600" 60] by linarith+
  then show "t div 3600 \<le> 8760000 \<Longrightarrow> ?thesis"
    by (auto simp only: hms_parts_def list_all_iff part_ok_def dec_string_digits fst_conv
        snd_conv set_map set_filter dec_value_dec_string dec_string_not_Nil list.set split_conv
        insert_iff empty_iff simp_thms dest: dec_string_digit_set)
qed

lemma hms_parts_not_Nil: "0 < t \<Longrightarrow> hms_parts t \<noteq> []"
  using hms_parts_seconds [of t] by (auto simp: parts_seconds_def)

lemma whole_seconds_ceiling:
  "unat (whole_seconds d) =
     min (unat (as_secs d) + (if 0 < subsec_nanos d then 1 else 0)) (2 ^ 64 - 1)"
proof -
  have "unat (as_secs d) \<le> 2 ^ 64 - 1"
    using unsigned_less [of "as_secs d", where ?'a = nat] by simp
  then show ?thesis by (simp add: whole_seconds_def unat_saturating_add)
qed

lemma whole_seconds_exact:
  assumes "unat (as_secs d) < 8760000 * 3600"
  shows "unat (whole_seconds d) = unat (as_secs d) + (if 0 < subsec_nanos d then 1 else 0)"
  using assms by (simp add: whole_seconds_ceiling)

text \<open>The text of a non-zero duration of less than 8,760,000 hours is accepted by the duration
  validator, and its components add up to the duration in seconds, a fraction of a second
  rounded up.\<close>

theorem duration_text_roundtrip:
  assumes "nonzero_duration_to_bao_string d field = Inr s"
    and "unat (as_secs d) < 8760000 * 3600"
  shows "validate_duration_string s False \<and>
    (\<exists>ps. s = concat (map part_text ps) \<and> scales_ok None ps \<and>
      parts_seconds ps = unat (as_secs d) + (if 0 < subsec_nanos d then 1 else 0))"
proof -
  let ?t = "unat (whole_seconds d)"
  from assms(1) have d: "\<not> duration_is_zero d" and s: "s = duration_to_bao_string d"
    by (auto simp: nonzero_duration_to_bao_string_def split: if_splits)
  have t: "?t = unat (as_secs d) + (if 0 < subsec_nanos d then 1 else 0)"
    by (rule whole_seconds_exact) (rule assms(2))
  have pos: "0 < ?t"
  proof (cases "as_secs d = 0")
    case True
    then have "0 < subsec_nanos d"
      using d by (simp add: duration_is_zero_def word_neq_0_conv)
    then show ?thesis by (simp add: t)
  next
    case False
    then show ?thesis by (simp add: t unat_gt_0)
  qed
  from assms(2) t have "?t \<le> 8760000 * 3600" by simp
  then have hours: "?t div 3600 \<le> 8760000"
    using div_le_mono [of ?t "8760000 * 3600" 3600] by simp
  have s_parts: "s = concat (map part_text (hms_parts ?t))"
    unfolding s hms_parts_text duration_to_bao_string_def Let_def using pos by simp
  have "validate_duration_string s False"
    unfolding s_parts
    by (rule validate_duration_string_parts [OF hms_parts_not_Nil [OF pos] hms_parts_ok [OF hours]
          hms_parts_scales])
  with s_parts show ?thesis
    using hms_parts_scales hms_parts_seconds [of ?t] unfolding t by blast
qed

theorem duration_text_roundtrip_witness:
  "validate_duration_string ''1m31s'' False"
proof -
  have "nonzero_duration_to_bao_string \<lparr>as_secs = 90, subsec_nanos = 1\<rparr> ''ttl'' = Inr ''1m31s''"
    by (simp add: nonzero_duration_to_bao_string_def duration_is_zero_def duration_to_bao_string_def
        whole_seconds_def saturating_add_def unit_part_def dec_string.simps)
  from duration_text_roundtrip [OF this] show ?thesis by simp
qed

text \<open>The renewal hint sleeps for two thirds of the TTL, which is less than the TTL.\<close>

lemma renewal_hint_sleep:
  assumes "0 < ttl"
  shows "\<exists>d. sleep_before_renew (renewal_hint_from_ttl ttl True) = Some d \<and>
    unat (as_secs d) = 2 * unat ttl div 3 \<and> as_secs d < ttl \<and> subsec_nanos d = 0"
proof -
  let ?two = "((ucast ttl :: 128 word) * 2) div 3"
  have ttl: "unat ttl < 2 ^ 64" using unsigned_less [of ttl, where ?'a = nat] by simp
  have "unat (ucast ttl :: 128 word) = unat ttl"
    using ttl by (simp add: unsigned_ucast_eq take_bit_nat_eq_self)
  then have two: "unat ?two = 2 * unat ttl div 3"
    using ttl by (simp add: unat_div unat_word_ariths mult.commute)
  have "2 * unat ttl div 3 < 2 ^ 64" using ttl by linarith
  moreover have "unat (ucast (- 1 :: 64 word) :: 128 word) = 2 ^ 64 - 1"
    by (simp add: unsigned_ucast_eq unsigned_minus_1_eq_mask mask_eq_exp_minus_1
        take_bit_nat_eq_self)
  ultimately have "min ?two (ucast (- 1 :: 64 word)) = ?two"
    by (simp add: min_def word_le_nat_alt two)
  then have "unat (ucast (min ?two (ucast (- 1 :: 64 word))) :: 64 word) = 2 * unat ttl div 3"
    using \<open>2 * unat ttl div 3 < 2 ^ 64\<close> by (simp add: unsigned_ucast_eq take_bit_nat_eq_self two)
  moreover have "2 * unat ttl div 3 < unat ttl"
    using assms by (simp add: word_less_nat_alt)
  ultimately show ?thesis
    using assms
    by (auto simp: renewal_hint_from_ttl_def duration_from_secs_def Let_def word_less_nat_alt)
qed

section \<open>CIDR values: the network address\<close>

fun addr_width :: "ip_addr \<Rightarrow> nat" where
  "addr_width (V4 a) = 32"
| "addr_width (V6 a) = 128"

fun addr_value :: "ip_addr \<Rightarrow> nat" where
  "addr_value (V4 a) = unat a"
| "addr_value (V6 a) = unat a"

lemma cidr_mask_and:
  fixes a :: "'w::len word"
  assumes "p \<le> LENGTH('w)"
  shows "a AND NOT (cidr_mask p) = 0 \<longleftrightarrow> 2 ^ (LENGTH('w) - p) dvd unat a"
proof (cases "p = 0")
  case True
  have "unat a < 2 ^ LENGTH('w)" by simp
  then have "2 ^ LENGTH('w) dvd unat a \<longleftrightarrow> unat a = 0"
    by (metis dvd_0_right gr0I nat_dvd_not_less)
  with True show ?thesis by (simp add: cidr_mask_def unat_eq_0)
next
  case False
  have "a AND NOT (cidr_mask p) = take_bit (LENGTH('w) - p) a"
    using False
    by (simp add: cidr_mask_def push_bit_minus_one_eq_not_mask take_bit_eq_mask)
  moreover have "unat (take_bit (LENGTH('w) - p) a) = unat a mod 2 ^ (LENGTH('w) - p)"
    unfolding unsigned_take_bit_eq by (rule take_bit_eq_mod)
  ultimately show ?thesis
    by (metis dvd_eq_mod_eq_0 unat_eq_0)
qed

lemma host_bits_are_zero_iff:
  "p \<le> addr_width a \<Longrightarrow> host_bits_are_zero a p \<longleftrightarrow> 2 ^ (addr_width a - p) dvd addr_value a"
  by (cases a) (simp_all add: cidr_mask_and)

text \<open>A CIDR value is accepted exactly when it is an IPv4 or IPv6 address and a prefix number
  no longer than the address, and the address is a multiple of the block size: a network
  address with every host bit zero.\<close>

theorem validate_cidr_iff:
  "validate_cidr value field = Inr () \<longleftrightarrow>
     (\<exists>ip pre addr p. value = ip @ ''/'' @ pre \<and> CHR ''/'' \<notin> set ip \<and> CHR ''/'' \<notin> set pre \<and>
        ip \<noteq> [] \<and> pre \<noteq> [] \<and> parse_ip_addr ip = Some addr \<and> parse_unsigned 256 pre = Some p \<and>
        p \<le> addr_width addr \<and> 2 ^ (addr_width addr - p) dvd addr_value addr)"
  (is "_ \<longleftrightarrow> ?spec")
proof
  assume l: "validate_cidr value field = Inr ()"
  obtain ip pre where s: "split_once ''/'' value = Some (ip, pre)"
    using l by (fastforce simp: validate_cidr_def split: option.splits)
  with l obtain addr p where "ip \<noteq> []" "pre \<noteq> []" "CHR ''/'' \<notin> set pre"
    "parse_ip_addr ip = Some addr" "parse_unsigned 256 pre = Some p"
    "p \<le> addr_width addr" "host_bits_are_zero addr p"
    by (cases "parse_ip_addr ip"; cases "parse_unsigned 256 pre"; cases "the (parse_ip_addr ip)")
      (auto simp: validate_cidr_def Let_def split: if_splits)
  with split_once_char_Some [OF s] host_bits_are_zero_iff show ?spec
    by (intro exI [of _ ip] exI [of _ pre] exI [of _ addr] exI [of _ p]) auto
next
  assume ?spec
  then obtain ip pre addr p where s: "value = ip @ ''/'' @ pre" "CHR ''/'' \<notin> set ip"
    and ok: "CHR ''/'' \<notin> set pre" "ip \<noteq> []" "pre \<noteq> []" "parse_ip_addr ip = Some addr"
      "parse_unsigned 256 pre = Some p" "p \<le> addr_width addr" "host_bits_are_zero addr p"
    using host_bits_are_zero_iff by blast
  have "split_once ''/'' value = Some (ip, pre)"
    using s split_once_char by simp
  with ok show "validate_cidr value field = Inr ()"
    by (cases addr) (simp_all add: validate_cidr_def)
qed

lemma parse_unsigned_signed: "list_all is_ascii_digit ds \<Longrightarrow> ds \<noteq> [] \<Longrightarrow>
    parse_unsigned bound (CHR ''+'' # ds) = parse_unsigned bound ds"
  by (cases ds) (auto simp: parse_unsigned_def is_ascii_digit_def)

text \<open>The prefix number of a CIDR value may carry a plus sign: a signed prefix of digits is
  accepted exactly when the unsigned one is.\<close>

theorem validate_cidr_signed_prefix:
  assumes "CHR ''/'' \<notin> set ip" "list_all is_ascii_digit ds" "ds \<noteq> []"
  shows "validate_cidr (ip @ ''/'' @ CHR ''+'' # ds) field = validate_cidr (ip @ ''/'' @ ds) field"
proof -
  have slash: "CHR ''/'' \<notin> set ds"
    using assms(2) by (auto simp: list_all_iff is_ascii_digit_def)
  have "split_once ''/'' (ip @ ''/'' @ CHR ''+'' # ds) = Some (ip, CHR ''+'' # ds)"
    "split_once ''/'' (ip @ ''/'' @ ds) = Some (ip, ds)"
    using split_once_char [OF assms(1)] by simp_all
  with assms(3) slash show ?thesis
    by (cases "parse_ip_addr ip")
      (simp_all add: validate_cidr_def parse_unsigned_signed [OF assms(2,3)])
qed

theorem validate_cidr_signed_prefix_witness:
  "validate_cidr ''10.0.0.0/+8'' ''cidr'' = Inr ()"
proof -
  have "read_ipv4_addr ''10.0.0.0'' = Some ([10, 0, 0, 0], [])" by code_simp
  then have "parse_ip_addr ''10.0.0.0'' = Some (V4 167772160)"
    by (simp add: parse_ip_addr_def)
  moreover have "host_bits_are_zero (V4 167772160) 8"
    by (simp only: host_bits_are_zero_iff addr_width.simps addr_value.simps) simp
  moreover have "split_once ''/'' ''10.0.0.0/8'' = Some (''10.0.0.0'', ''8'')"
    "parse_unsigned 256 ''8'' = Some 8" by code_simp+
  ultimately have "validate_cidr ''10.0.0.0/8'' ''cidr'' = Inr ()"
    by (simp add: validate_cidr_def)
  moreover have "CHR ''/'' \<notin> set ''10.0.0.0''" "list_all is_ascii_digit ''8''"
    by code_simp+
  ultimately show ?thesis
    using validate_cidr_signed_prefix [of "''10.0.0.0''" "''8''" "''cidr''"] by simp
qed

section \<open>What an accepted endpoint is\<close>

lemma valid_endpoint_port_iff:
  "valid_endpoint_port port \<longleftrightarrow>
     port \<noteq> [] \<and> list_all is_ascii_digit port \<and> 0 < dec_value port \<and> dec_value port < 65536"
  by (cases port)
    (auto simp: valid_endpoint_port_def parse_unsigned_def is_ascii_digit_def Let_def split: if_splits)

text \<open>A host: an IP literal in brackets, or a name without brackets, colons and percent signs.\<close>

definition host_ok :: "string \<Rightarrow> bool" where
  "host_ok host \<longleftrightarrow> host \<noteq> [] \<and>
     ((\<exists>h. host = ''['' @ h @ '']'' \<and> h \<noteq> [] \<and> \<not> contains_any ''[]'' h) \<or>
      \<not> contains_any ''[]%:'' host)"

lemma valid_https_authority_host:
  assumes "valid_https_authority a"
  shows "\<exists>host port. host_ok host \<and> (a = host \<or> a = host @ '':'' @ port \<and> valid_endpoint_port port)"
proof (cases "strip_prefix ''['' a")
  case (Some bracketed)
  then have a: "a = ''['' @ bracketed"
    by (auto simp: strip_prefix_def prefix_def split: if_splits)
  from assms Some obtain host suff where s: "split_once '']'' bracketed = Some (host, suff)"
    and host: "host \<noteq> []" "\<not> contains_any ''[]'' host"
    and suff: "suff = [] \<or> (\<exists>p. strip_prefix '':'' suff = Some p \<and> valid_endpoint_port p)"
    by (auto simp: valid_https_authority_def split: option.splits)
  have b: "bracketed = host @ '']'' @ suff" using split_once_Some [OF s] .
  have ok: "host_ok (''['' @ host @ '']'')" using host unfolding host_ok_def by blast
  from suff show ?thesis
  proof (elim disjE exE)
    assume "suff = []"
    with ok a b show ?thesis by (intro exI [of _ "''['' @ host @ '']''"]) simp
  next
    fix p assume p: "strip_prefix '':'' suff = Some p \<and> valid_endpoint_port p"
    then have "suff = '':'' @ p"
      by (auto simp: strip_prefix_def prefix_def split: if_splits)
    with p ok a b show ?thesis
      by (intro exI [of _ "''['' @ host @ '']''"] exI [of _ p]) simp
  qed
next
  case None
  then have no: "\<not> contains_any ''[]%'' a"
    using assms by (auto simp: valid_https_authority_def split: if_splits)
  show ?thesis
  proof (cases "rsplit_once CHR '':'' a")
    case None': None
    then have "CHR '':'' \<notin> set a" by (simp add: rsplit_once_def)
    with assms no None None' have "host_ok a"
      by (auto simp: host_ok_def list_ex_iff valid_https_authority_def)
    then show ?thesis by blast
  next
    case (Some hp)
    then obtain host port where hp: "rsplit_once CHR '':'' a = Some (host, port)"
      by (cases hp) auto
    then have a: "a = host @ '':'' @ port" using rsplit_once_Some by fastforce
    from assms hp None no have h: "host \<noteq> []" "CHR '':'' \<notin> set host" "valid_endpoint_port port"
      by (auto simp: valid_https_authority_def split: if_splits)
    with no a have "host_ok host" by (auto simp: host_ok_def list_ex_iff)
    with a h show ?thesis by blast
  qed
qed

text \<open>An accepted secret HTTPS endpoint is at most 4096 bytes without control, white-space,
  backslash or fragment characters; its scheme is https, and its authority, up to the first
  slash or question mark, is a host with an optional port in 1..65535 and no credentials.\<close>

theorem validate_secret_https_endpoint_sound:
  assumes "validate_secret_https_endpoint value field = Inr ()"
  shows "length value \<le> MAX_EXTERNAL_ENDPOINT_BYTES \<and> \<not> list_ex endpoint_byte_is_bad value \<and>
    CHR 0x5C \<notin> set value \<and> CHR ''#'' \<notin> set value \<and>
    (\<exists>scheme host port tail. eq_ignore_ascii_case scheme ''https'' \<and> host_ok host \<and>
      CHR ''@'' \<notin> set host \<and> (tail = [] \<or> hd tail \<in> set ''/?'') \<and>
      (value = scheme @ ''://'' @ host @ tail \<or>
       value = scheme @ ''://'' @ host @ '':'' @ port @ tail \<and> valid_endpoint_port port))"
proof -
  let ?P = "\<lambda>c. c \<notin> set ''/?''"
  from assms obtain scheme remainder where s: "split_once ''://'' value = Some (scheme, remainder)"
    by (cases "split_once ''://'' value")
      (auto simp: validate_secret_https_endpoint_def split: if_splits)
  define authority where "authority = takeWhile ?P remainder"
  define tail where "tail = dropWhile ?P remainder"
  have outer: "length value \<le> MAX_EXTERNAL_ENDPOINT_BYTES \<and> \<not> list_ex endpoint_byte_is_bad value \<and>
      \<not> contains_any [CHR 0x5C, CHR ''#''] value"
    using assms by (simp add: validate_secret_https_endpoint_def not_less split: if_splits)
  have inner: "eq_ignore_ascii_case scheme ''https''" "CHR ''@'' \<notin> set authority"
      "valid_https_authority authority"
    using assms outer
    by (simp_all add: validate_secret_https_endpoint_def s Let_def authority_def split: if_splits)
  obtain host port where hp: "host_ok host"
    "authority = host \<or> authority = host @ '':'' @ port \<and> valid_endpoint_port port"
    using valid_https_authority_host [OF inner(3)] by blast
  have "value = scheme @ ''://'' @ authority @ tail"
    using split_once_Some [OF s] by (simp add: authority_def tail_def)
  moreover have "tail = [] \<or> hd tail \<in> set ''/?''"
    using hd_dropWhile [of ?P remainder] unfolding tail_def by blast
  moreover have "CHR ''@'' \<notin> set host" using hp(2) inner(2) by auto
  moreover have "CHR 0x5C \<notin> set value" "CHR ''#'' \<notin> set value"
    using outer by (auto simp: list_ex_iff)
  ultimately show ?thesis
    using outer inner(1) hp by (metis append.assoc)
qed

theorem validate_secret_https_endpoint_sound_witness:
  "CHR ''#'' \<notin> set ''HTTPS://kms.example:8443/keys?v=1''"
proof -
  have "validate_secret_https_endpoint ''HTTPS://kms.example:8443/keys?v=1'' ''endpoint'' = Inr ()"
    by code_simp
  from validate_secret_https_endpoint_sound [OF this] show ?thesis by (elim conjE)
qed

end
