(* ===== verification/Bao_Versions.thy ===== *)
theory Bao_Versions
  imports Bao_Errors
begin

text \<open>
  The version half of \<open>compatibility.rs\<close>: parsing and printing of exact versions and version
  requirements, the inventory of reviewed releases, and the compatibility policy that turns a
  detected server version into a report. The locale \<open>printable\<close> is the parse/print contract,
  \<open>version_interval\<close> the contract of every closed interval of releases.
\<close>

section \<open>Parsing\<close>

definition MAX_VERSION_BYTES :: nat where
  "MAX_VERSION_BYTES = 64"

definition MAX_REQUIREMENT_BYTES :: nat where
  "MAX_REQUIREMENT_BYTES = MAX_VERSION_BYTES * 2 + 3"

declare MAX_VERSION_BYTES_def [limits] MAX_REQUIREMENT_BYTES_def [limits]

definition parse_component :: "string \<Rightarrow> 32 word res" where
  "parse_component component =
     (if component = []
      then Inl (InvalidOpenBaoVersion ''version components must not be empty'')
      else if 1 < length component \<and> hd component = CHR ''0''
      then Inl (InvalidOpenBaoVersion ''version components must use canonical decimal form'')
      else if \<not> list_all is_ascii_digit component
      then Inl (InvalidOpenBaoVersion ''version components must be decimal integers'')
      else rmap word_of_nat (ok_or (parse_unsigned (2 ^ 32) component)
        (InvalidOpenBaoVersion ''version component exceeds u32'')))"

definition version_from_str :: "string \<Rightarrow> openbao_version res" where
  "version_from_str input =
     (if input = [] then Inl (InvalidOpenBaoVersion ''version must not be empty'')
      else if MAX_VERSION_BYTES < length input
      then Inl (InvalidOpenBaoVersion ''version exceeds the input limit'')
      else if \<not> is_ascii input
      then Inl (InvalidOpenBaoVersion ''version must contain only ASCII digits and dots'')
      else case split_on CHR ''.'' input of
        [a, b, c] \<Rightarrow>
          rbind (parse_component a) (\<lambda>major.
          rbind (parse_component b) (\<lambda>minor.
          rbind (parse_component c) (\<lambda>patch. Inr (OpenBaoVersion major minor patch))))
      | _ \<Rightarrow> Inl (InvalidOpenBaoVersion ''version must contain three components''))"

definition parse_requirement_version :: "string \<Rightarrow> openbao_version res" where
  "parse_requirement_version input =
     rmap_err (\<lambda>_. InvalidOpenBaoVersionRequirement
       ''requirement contains an invalid stable OpenBao version'') (version_from_str input)"

definition inclusive :: "openbao_version \<Rightarrow> openbao_version \<Rightarrow> openbao_version_requirement res" where
  "inclusive lo hi =
     (if hi < lo
      then Inl (InvalidOpenBaoVersionRequirement ''minimum version must not exceed maximum version'')
      else Inr (Inclusive lo hi))"

fun req_minimum :: "openbao_version_requirement \<Rightarrow> openbao_version" where
  "req_minimum (Exact v) = v"
| "req_minimum (Inclusive lo hi) = lo"

fun req_maximum :: "openbao_version_requirement \<Rightarrow> openbao_version" where
  "req_maximum (Exact v) = v"
| "req_maximum (Inclusive lo hi) = hi"

definition version_in_closed_interval ::
  "openbao_version \<Rightarrow> openbao_version \<Rightarrow> openbao_version \<Rightarrow> bool" where
  "version_in_closed_interval version lo hi \<longleftrightarrow> lo \<le> version \<and> version \<le> hi"

definition requirement_contains :: "openbao_version_requirement \<Rightarrow> openbao_version \<Rightarrow> bool" where
  "requirement_contains r version \<longleftrightarrow>
     version_in_closed_interval version (req_minimum r) (req_maximum r)"

definition requirement_from_str :: "string \<Rightarrow> openbao_version_requirement res" where
  "requirement_from_str input =
     (if input = [] then Inl (InvalidOpenBaoVersionRequirement ''requirement must not be empty'')
      else if MAX_REQUIREMENT_BYTES < length input
      then Inl (InvalidOpenBaoVersionRequirement ''requirement exceeds the input limit'')
      else case split_once ''..='' input of
        Some (lo, hi) \<Rightarrow>
          (if lo = [] \<or> hi = [] \<or> contains_str ''..='' hi
           then Inl (InvalidOpenBaoVersionRequirement
             ''requirement must be an exact version or one inclusive range'')
           else rbind (parse_requirement_version lo) (\<lambda>minimum.
                rbind (parse_requirement_version hi) (\<lambda>maximum. inclusive minimum maximum)))
      | None \<Rightarrow> rmap Exact (parse_requirement_version input))"

section \<open>The release inventory\<close>

text \<open>\<open>generated/openbao_capabilities.rs\<close>: the reviewed releases and the promoted ones.\<close>

definition GENERATED_PROFILE_VERSIONS :: "openbao_version list" where
  "GENERATED_PROFILE_VERSIONS =
    [OpenBaoVersion 2 0 0, OpenBaoVersion 2 0 1, OpenBaoVersion 2 0 2, OpenBaoVersion 2 0 3,
     OpenBaoVersion 2 1 0, OpenBaoVersion 2 1 1,
     OpenBaoVersion 2 2 0, OpenBaoVersion 2 2 1, OpenBaoVersion 2 2 2,
     OpenBaoVersion 2 3 1, OpenBaoVersion 2 3 2,
     OpenBaoVersion 2 4 0, OpenBaoVersion 2 4 1, OpenBaoVersion 2 4 3, OpenBaoVersion 2 4 4,
     OpenBaoVersion 2 5 0, OpenBaoVersion 2 5 1, OpenBaoVersion 2 5 2, OpenBaoVersion 2 5 3,
     OpenBaoVersion 2 5 4, OpenBaoVersion 2 5 5,
     OpenBaoVersion 2 6 0, OpenBaoVersion 2 6 1, OpenBaoVersion 2 6 2, OpenBaoVersion 2 6 3,
     OpenBaoVersion 2 6 4, OpenBaoVersion 2 6 5,
     OpenBaoVersion 2 7 0, OpenBaoVersion 2 7 1, OpenBaoVersion 2 7 2]"

definition GENERATED_ROUTABLE_PROFILE_VERSIONS :: "openbao_version list" where
  "GENERATED_ROUTABLE_PROFILE_VERSIONS =
    [OpenBaoVersion 2 0 0, OpenBaoVersion 2 0 1, OpenBaoVersion 2 0 2, OpenBaoVersion 2 0 3,
     OpenBaoVersion 2 1 0, OpenBaoVersion 2 1 1,
     OpenBaoVersion 2 2 0, OpenBaoVersion 2 2 1, OpenBaoVersion 2 2 2,
     OpenBaoVersion 2 3 1, OpenBaoVersion 2 3 2,
     OpenBaoVersion 2 4 0, OpenBaoVersion 2 4 1, OpenBaoVersion 2 4 3, OpenBaoVersion 2 4 4,
     OpenBaoVersion 2 5 0, OpenBaoVersion 2 5 1, OpenBaoVersion 2 5 2, OpenBaoVersion 2 5 3,
     OpenBaoVersion 2 5 4, OpenBaoVersion 2 5 5,
     OpenBaoVersion 2 6 0, OpenBaoVersion 2 6 1, OpenBaoVersion 2 6 2, OpenBaoVersion 2 6 3,
     OpenBaoVersion 2 6 4, OpenBaoVersion 2 6 5,
     OpenBaoVersion 2 7 0, OpenBaoVersion 2 7 1, OpenBaoVersion 2 7 2]"

definition is_generated_profile :: "openbao_version \<Rightarrow> bool" where
  "is_generated_profile version \<longleftrightarrow>
     binary_search_by_key (\<lambda>v. v) GENERATED_PROFILE_VERSIONS version \<noteq> None"

definition is_routable_profile :: "openbao_version \<Rightarrow> bool" where
  "is_routable_profile version \<longleftrightarrow>
     binary_search_by_key (\<lambda>v. v) GENERATED_ROUTABLE_PROFILE_VERSIONS version \<noteq> None"

definition legacy_unverified_profile :: "openbao_version option" where
  "legacy_unverified_profile =
     (let version = OpenBaoVersion 2 6 3 in if is_routable_profile version then Some version else None)"

definition latest_routable_profile :: "openbao_version option" where
  "latest_routable_profile =
     (if GENERATED_ROUTABLE_PROFILE_VERSIONS = [] then None
      else Some (last GENERATED_ROUTABLE_PROFILE_VERSIONS))"

definition require_routable_profile :: "openbao_version \<Rightarrow> unit res" where
  "require_routable_profile version =
     require (is_routable_profile version) (InvalidOpenBaoVersionRequirement
       ''compatibility policy version is absent from the runtime-approved release inventory'')"

section \<open>Policies and reports\<close>

datatype policy_kind =
    KindExact | KindRange | KindAutomaticStrict | KindAssumed | KindAcknowledgedUnknownNewer

datatype compatibility_policy =
    PolicyExact openbao_version
  | PolicyRange openbao_version_requirement
  | PolicyAutomaticStrict
  | PolicyAssumed openbao_version
  | PolicyAcknowledgedUnknownNewer

datatype compatibility_failure =
    VersionMismatch openbao_version openbao_version_requirement
  | UnknownVersion openbao_version

datatype compatibility_status =
    Unverified | Verified | Assumed | AcknowledgedUnknownNewer

record compatibility_report =
  report_status :: compatibility_status
  report_policy :: "policy_kind option"
  report_requirement :: "openbao_version_requirement option"
  detected_version :: "openbao_version option"
  profile_version :: "openbao_version option"

definition report_unverified :: compatibility_report where
  "report_unverified =
     \<lparr>report_status = Unverified, report_policy = None, report_requirement = None,
      detected_version = None, profile_version = None\<rparr>"

definition report_verified ::
  "policy_kind \<Rightarrow> openbao_version \<Rightarrow> openbao_version_requirement option \<Rightarrow> compatibility_report" where
  "report_verified kind detected requirement =
     \<lparr>report_status = Verified, report_policy = Some kind, report_requirement = requirement,
      detected_version = Some detected, profile_version = Some detected\<rparr>"

definition report_assumed :: "openbao_version \<Rightarrow> compatibility_report" where
  "report_assumed version =
     \<lparr>report_status = Assumed, report_policy = Some KindAssumed,
      report_requirement = Some (Exact version), detected_version = None,
      profile_version = Some version\<rparr>"

definition report_acknowledged_unknown_newer ::
  "openbao_version \<Rightarrow> openbao_version \<Rightarrow> compatibility_report" where
  "report_acknowledged_unknown_newer detected profile =
     \<lparr>report_status = AcknowledgedUnknownNewer,
      report_policy = Some KindAcknowledgedUnknownNewer, report_requirement = None,
      detected_version = Some detected, profile_version = Some profile\<rparr>"

definition policy_exact :: "openbao_version \<Rightarrow> compatibility_policy res" where
  "policy_exact version = rbind (require_routable_profile version) (\<lambda>_. Inr (PolicyExact version))"

definition policy_range :: "openbao_version_requirement \<Rightarrow> compatibility_policy res" where
  "policy_range requirement =
     rbind (require_routable_profile (req_minimum requirement)) (\<lambda>_.
     rbind (require_routable_profile (req_maximum requirement)) (\<lambda>_.
       Inr (PolicyRange requirement)))"

definition policy_automatic_strict :: compatibility_policy where
  "policy_automatic_strict = PolicyAutomaticStrict"

definition policy_assume :: "openbao_version \<Rightarrow> compatibility_policy res" where
  "policy_assume version = rbind (require_routable_profile version) (\<lambda>_. Inr (PolicyAssumed version))"

definition policy_automatic_allow_unknown_newer :: "unit \<Rightarrow> compatibility_policy" where
  "policy_automatic_allow_unknown_newer acknowledgement = PolicyAcknowledgedUnknownNewer"

fun policy_kind_of :: "compatibility_policy \<Rightarrow> policy_kind" where
  "policy_kind_of (PolicyExact v) = KindExact"
| "policy_kind_of (PolicyRange r) = KindRange"
| "policy_kind_of PolicyAutomaticStrict = KindAutomaticStrict"
| "policy_kind_of (PolicyAssumed v) = KindAssumed"
| "policy_kind_of PolicyAcknowledgedUnknownNewer = KindAcknowledgedUnknownNewer"

fun policy_requirement :: "compatibility_policy \<Rightarrow> openbao_version_requirement option" where
  "policy_requirement (PolicyExact v) = Some (Exact v)"
| "policy_requirement (PolicyAssumed v) = Some (Exact v)"
| "policy_requirement (PolicyRange r) = Some r"
| "policy_requirement PolicyAutomaticStrict = None"
| "policy_requirement PolicyAcknowledgedUnknownNewer = None"

fun immediate_report :: "compatibility_policy \<Rightarrow> compatibility_report option" where
  "immediate_report (PolicyAssumed v) = Some (report_assumed v)"
| "immediate_report _ = None"

definition verified_by :: "compatibility_policy \<Rightarrow> openbao_version \<Rightarrow> compatibility_report" where
  "verified_by p detected =
     report_verified (policy_kind_of p) detected (policy_requirement p)"

fun evaluate_detected ::
  "compatibility_policy \<Rightarrow> openbao_version \<Rightarrow> compatibility_failure + compatibility_report" where
  "evaluate_detected (PolicyExact expected) detected =
     (if detected \<noteq> expected then Inl (VersionMismatch detected (Exact expected))
      else Inr (verified_by (PolicyExact expected) detected))"
| "evaluate_detected (PolicyRange requirement) detected =
     (if \<not> requirement_contains requirement detected
      then Inl (VersionMismatch detected requirement)
      else if \<not> is_routable_profile detected then Inl (UnknownVersion detected)
      else Inr (verified_by (PolicyRange requirement) detected))"
| "evaluate_detected PolicyAutomaticStrict detected =
     (if \<not> is_routable_profile detected then Inl (UnknownVersion detected)
      else Inr (verified_by PolicyAutomaticStrict detected))"
| "evaluate_detected (PolicyAssumed version) detected = Inr (report_assumed version)"
| "evaluate_detected PolicyAcknowledgedUnknownNewer detected =
     (if is_routable_profile detected
      then Inr (verified_by PolicyAcknowledgedUnknownNewer detected)
      else case latest_routable_profile of
        None \<Rightarrow> Inl (UnknownVersion detected)
      | Some latest \<Rightarrow>
          (if latest < detected then Inr (report_acknowledged_unknown_newer detected latest)
           else Inl (UnknownVersion detected)))"

section \<open>Parsing and printing agree\<close>

locale printable =
  fixes print :: "'a \<Rightarrow> string"
    and parse :: "string \<Rightarrow> 'a res"
    and valid :: "'a \<Rightarrow> bool"
  assumes parse_print: "valid x \<Longrightarrow> parse (print x) = Inr x"
    and print_parse: "parse s = Inr x \<Longrightarrow> print x = s \<and> valid x"
begin

lemma print_inj: "valid x \<Longrightarrow> valid y \<Longrightarrow> print x = print y \<Longrightarrow> x = y"
  by (metis parse_print sum.inject(2))

lemma parse_inj: "parse s = Inr x \<Longrightarrow> parse t = Inr x \<Longrightarrow> s = t"
  by (metis print_parse)

lemma parse_iff: "parse s = Inr x \<longleftrightarrow> valid x \<and> print x = s"
  by (metis parse_print print_parse)

end

lemma dec_value_canonical:
  "s \<noteq> [] \<Longrightarrow> list_all is_ascii_digit s \<Longrightarrow> 1 < length s \<longrightarrow> hd s \<noteq> CHR ''0'' \<Longrightarrow>
   dec_string (dec_value s) = s"
proof (induction s rule: rev_induct)
  case Nil
  then show ?case by simp
next
  case (snoc c s)
  let ?d = "byte c - 48"
  from snoc.prems have c: "48 \<le> byte c" "byte c \<le> 57" by (auto simp: is_ascii_digit_def)
  then have d: "?d < 10" "digit_char ?d = c" by (auto simp: digit_char_def)
  show ?case
  proof (cases "s = []")
    case True
    with d show ?thesis by (simp add: dec_value_def dec_string.simps [of ?d])
  next
    case False
    then have s: "dec_string (dec_value s) = s"
      using snoc by (cases s) (auto split: if_splits)
    have "dec_value s \<noteq> 0"
    proof
      assume "dec_value s = 0"
      then have "s = ''0''"
        using s by (simp add: dec_string.simps [of 0])
      with snoc.prems show False by simp
    qed
    then have "\<not> dec_value s * 10 + ?d < 10" by simp
    then show ?thesis
      using s d by (subst dec_string.simps) (simp add: dec_value_snoc)
  qed
qed

lemma parse_component_iff:
  "parse_component s = Inr w \<longleftrightarrow> dec_string (unat w) = s"
proof
  assume l: "parse_component s = Inr w"
  then have s: "s \<noteq> []" "list_all is_ascii_digit s" "1 < length s \<longrightarrow> hd s \<noteq> CHR ''0''"
    and "rmap word_of_nat (ok_or (parse_unsigned (2 ^ 32) s)
        (InvalidOpenBaoVersion ''version component exceeds u32'')) = Inr w"
    by (auto simp: parse_component_def split: if_splits)
  then obtain n where n: "parse_unsigned (2 ^ 32) s = Some n" "w = word_of_nat n"
    by (auto simp: res_simps)
  then have "n = dec_value s" "n < 2 ^ 32"
    using s by (auto simp: parse_unsigned_def Let_def is_ascii_digit_def
        split: if_splits list.splits)
  then show "dec_string (unat w) = s"
    using dec_value_canonical [OF s] n(2) by (simp add: unat_of_nat)
next
  assume r: "dec_string (unat w) = s"
  have bound: "unat w < 2 ^ 32" using unsigned_less [of w, where ?'a = nat] by simp
  have "parse_unsigned (2 ^ 32) s = Some (unat w)"
    using parse_unsigned_dec_string [OF bound] r by simp
  moreover have "s \<noteq> []" "list_all is_ascii_digit s" "1 < length s \<longrightarrow> hd s \<noteq> CHR ''0''"
    using r dec_string_digits dec_string_canonical dec_string_not_Nil by blast+
  ultimately show "parse_component s = Inr w"
    by (simp add: parse_component_def)
qed

lemma dec_string_no_dot: "CHR ''.'' \<notin> set (dec_string n)"
  by (auto dest!: dec_string_digit_set simp: is_ascii_digit_def)

lemma length_u32_le: "length (dec_string (unat (w :: 32 word))) \<le> 10"
proof -
  have "unat w < 2 ^ 32" using unsigned_less [of w, where ?'a = nat] by simp
  then show ?thesis by (intro length_dec_string_le) simp_all
qed

lemma display_version_chars: "c \<in> set (display_version v) \<Longrightarrow> is_ascii_digit c \<or> c = CHR ''.''"
  by (auto simp: display_version_def dest: dec_string_digit_set)

lemma display_version_length: "length (display_version v) \<le> 32"
  using length_u32_le [of "major v"] length_u32_le [of "minor v"] length_u32_le [of "patch v"]
  by (simp add: display_version_def)

lemma split_display_version:
  "split_on CHR ''.'' (display_version v) =
     [dec_string (unat (major v)), dec_string (unat (minor v)), dec_string (unat (patch v))]"
  by (simp add: display_version_def split_on_append_sep split_on_plain dec_string_no_dot)

lemma version_from_str_display [simp]: "version_from_str (display_version v) = Inr v"
proof -
  have "is_ascii (display_version v)"
    by (auto simp: is_ascii_def list_all_iff is_ascii_digit_def dest!: display_version_chars)
  moreover have "display_version v \<noteq> []" by (simp add: display_version_def)
  moreover have "parse_component (dec_string (unat w)) = Inr w" for w
    by (simp add: parse_component_iff)
  ultimately show ?thesis
    using display_version_length [of v]
    by (simp add: version_from_str_def split_display_version MAX_VERSION_BYTES_def)
qed

lemma version_from_str_sound: "version_from_str s = Inr v \<Longrightarrow> display_version v = s"
proof -
  assume "version_from_str s = Inr v"
  then obtain a b c x y z where split: "split_on CHR ''.'' s = [a, b, c]"
    and "parse_component a = Inr x" "parse_component b = Inr y" "parse_component c = Inr z"
    and v: "v = OpenBaoVersion x y z"
    by (auto simp: version_from_str_def res_simps split: if_splits list.splits)
  then have "display_version v = join_with ''.'' (split_on CHR ''.'' s)"
    by (simp add: display_version_def parse_component_iff)
  then show ?thesis by simp
qed

interpretation version_text: printable display_version version_from_str "\<lambda>v. True"
  by unfold_locales (simp_all add: version_from_str_sound)

text \<open>A requirement whose bounds are in order; \<open>inclusive\<close> is the only checked way to build one.\<close>

definition requirement_ok :: "openbao_version_requirement \<Rightarrow> bool" where
  "requirement_ok r \<longleftrightarrow> req_minimum r \<le> req_maximum r"

lemma display_version_no_range: "\<not> contains_str ''..='' (display_version v)"
proof
  assume "contains_str ''..='' (display_version v)"
  then obtain a b where "split_once ''..='' (display_version v) = Some (a, b)"
    by (auto simp: contains_str_def)
  then have "CHR ''='' \<in> set (display_version v)"
    by (auto dest!: split_once_Some)
  then show False
    using display_version_chars [of "CHR ''=''" v] by (auto simp: is_ascii_digit_def)
qed

lemma split_once_range:
  "split_once ''..='' (display_version lo @ ''..='' @ rest) = Some (display_version lo, rest)"
proof -
  have eq: "CHR ''='' \<notin> set (display_version lo)"
    using display_version_chars [of "CHR ''=''" lo] by (auto simp: is_ascii_digit_def)
  have gen: "split_once ''..='' (s @ ''..='' @ rest) = Some (s, rest)"
    if "CHR ''='' \<notin> set s" "s = [] \<or> last s \<noteq> CHR ''.''" for s
    using that
  proof (induction s)
    case Nil
    then show ?case by simp
  next
    case (Cons x xs)
    have "\<not> prefix ''..='' (x # xs @ ''..='' @ rest)"
      using Cons.prems by (cases xs; cases "tl xs") (auto split: if_splits)
    moreover have "split_once ''..='' (xs @ ''..='' @ rest) = Some (xs, rest)"
      using Cons by (auto split: if_splits)
    ultimately show ?case by simp
  qed
  have "last (display_version lo) \<in> set (dec_string (unat (patch lo)))"
    by (simp add: display_version_def)
  then have "last (display_version lo) \<noteq> CHR ''.''"
    using dec_string_no_dot by metis
  with eq show ?thesis by (intro gen) simp_all
qed

lemma requirement_from_str_display:
  assumes "requirement_ok r"
  shows "requirement_from_str (display_requirement r) = Inr r"
proof (cases r)
  case (Exact v)
  have "split_once ''..='' (display_version v) = None"
    using display_version_no_range [of v] unfolding contains_str_def by blast
  moreover have "display_version v \<noteq> []" by (simp add: display_version_def)
  ultimately show ?thesis
    using Exact display_version_length [of v]
    by (simp add: requirement_from_str_def parse_requirement_version_def MAX_REQUIREMENT_BYTES_def
        MAX_VERSION_BYTES_def)
next
  case (Inclusive lo hi)
  have "display_version lo \<noteq> []" "display_version hi \<noteq> []"
    by (simp_all add: display_version_def)
  moreover have "\<not> hi < lo" using assms Inclusive by (simp add: requirement_ok_def)
  ultimately show ?thesis
    using Inclusive display_version_length [of lo] display_version_length [of hi]
      split_once_range [of lo "display_version hi"] display_version_no_range [of hi]
    by (simp add: requirement_from_str_def parse_requirement_version_def inclusive_def
        MAX_REQUIREMENT_BYTES_def MAX_VERSION_BYTES_def del: split_once.simps)
qed

lemma requirement_from_str_sound:
  assumes "requirement_from_str s = Inr r"
  shows "display_requirement r = s \<and> requirement_ok r"
proof (cases "split_once ''..='' s")
  case None
  with assms obtain v where "version_from_str s = Inr v" "r = Exact v"
    by (auto simp: requirement_from_str_def parse_requirement_version_def res_simps split: if_splits)
  then show ?thesis by (simp add: version_from_str_sound requirement_ok_def)
next
  case (Some p)
  obtain lo hi where p: "p = (lo, hi)" by (cases p)
  with assms Some obtain a b where "version_from_str lo = Inr a" "version_from_str hi = Inr b"
    "r = Inclusive a b" "a \<le> b"
    by (auto simp: requirement_from_str_def parse_requirement_version_def inclusive_def res_simps
        split: if_splits)
  then show ?thesis
    using split_once_Some [of "''..=''" s lo hi] Some p
    by (simp add: version_from_str_sound requirement_ok_def)
qed

interpretation requirement_text: printable display_requirement requirement_from_str requirement_ok
  by unfold_locales (simp_all add: requirement_from_str_display requirement_from_str_sound)

text \<open>Version parsing is exact: a text parses to a version precisely when it is that version's
  canonical text, so no two texts name the same release.\<close>

theorem version_from_str_iff: "version_from_str s = Inr v \<longleftrightarrow> display_version v = s"
  using version_text.parse_iff by blast

text \<open>Requirement parsing is exact: a text parses to a requirement precisely when it is the
  requirement's canonical text and its minimum does not exceed its maximum.\<close>

theorem requirement_from_str_iff:
  "requirement_from_str s = Inr r \<longleftrightarrow> req_minimum r \<le> req_maximum r \<and> display_requirement r = s"
  using requirement_text.parse_iff by (simp add: requirement_ok_def)

section \<open>Closed intervals\<close>

locale version_interval =
  fixes lower upper :: "'r \<Rightarrow> openbao_version"
    and holds :: "'r \<Rightarrow> openbao_version \<Rightarrow> bool"
  assumes holds_iff: "holds r v \<longleftrightarrow> lower r \<le> v \<and> v \<le> upper r"
begin

lemma convex: "holds r u \<Longrightarrow> holds r w \<Longrightarrow> u \<le> v \<Longrightarrow> v \<le> w \<Longrightarrow> holds r v"
  by (meson holds_iff order_trans)

lemma empty_iff: "(\<forall>v. \<not> holds r v) \<longleftrightarrow> upper r < lower r"
  by (meson holds_iff leD leI order_refl order_trans)

text \<open>Ranges in ascending order without overlap: at most one of them holds a version.\<close>

definition ascending :: "'r list \<Rightarrow> bool" where
  "ascending rs \<longleftrightarrow> sorted_wrt (\<lambda>a b. upper a < lower b) rs"

lemma ascending_unique:
  "ascending rs \<Longrightarrow> i < length rs \<Longrightarrow> j < length rs \<Longrightarrow>
   holds (rs ! i) v \<Longrightarrow> holds (rs ! j) v \<Longrightarrow> i = j"
proof -
  assume rs: "ascending rs" and i: "i < length rs" and j: "j < length rs"
    and h: "holds (rs ! i) v" "holds (rs ! j) v"
  have False if "a < b" "b < length rs" "holds (rs ! a) v" "holds (rs ! b) v" for a b
  proof -
    have "upper (rs ! a) < lower (rs ! b)"
      using rs that by (auto simp: ascending_def dest: sorted_wrt_nth_less)
    with that show False by (meson holds_iff leD less_le_trans order_trans)
  qed
  with i j h show "i = j" by (metis linorder_neqE_nat)
qed

lemma find_unique:
  assumes "ascending rs" "r \<in> set rs" "holds r v"
  shows "List.find (\<lambda>r. holds r v) rs = Some r"
proof -
  obtain i where i: "i < length rs" "rs ! i = r"
    using assms(2) by (auto simp: in_set_conv_nth)
  have "\<not> holds (rs ! j) v" if "j < i" for j
    using ascending_unique [OF assms(1), of i j v] that i assms(3) by auto
  with i assms(3) show ?thesis by (auto simp: find_Some_iff)
qed

end

interpretation requirement_interval:
  version_interval req_minimum req_maximum requirement_contains
  by unfold_locales (simp add: requirement_contains_def version_in_closed_interval_def)

section \<open>The inventory\<close>

lemma inventory_sorted: "sorted (map (\<lambda>v. v) GENERATED_PROFILE_VERSIONS)"
    "sorted (map (\<lambda>v. v) GENERATED_ROUTABLE_PROFILE_VERSIONS)"
  by (simp_all add: GENERATED_PROFILE_VERSIONS_def GENERATED_ROUTABLE_PROFILE_VERSIONS_def)

lemma is_generated_profile_iff: "is_generated_profile v \<longleftrightarrow> v \<in> set GENERATED_PROFILE_VERSIONS"
  by (simp add: is_generated_profile_def binary_search_None [OF inventory_sorted(1)])

lemma is_routable_profile_iff:
  "is_routable_profile v \<longleftrightarrow> v \<in> set GENERATED_ROUTABLE_PROFILE_VERSIONS"
  by (simp add: is_routable_profile_def binary_search_None [OF inventory_sorted(2)])

lemma routable_is_generated: "is_routable_profile v \<longleftrightarrow> is_generated_profile v"
  by (simp add: is_routable_profile_iff is_generated_profile_iff GENERATED_PROFILE_VERSIONS_def
      GENERATED_ROUTABLE_PROFILE_VERSIONS_def)

lemma latest_routable: "latest_routable_profile = Some (OpenBaoVersion 2 7 2)"
  by (simp add: latest_routable_profile_def GENERATED_ROUTABLE_PROFILE_VERSIONS_def)

lemma latest_is_greatest: "is_routable_profile v \<Longrightarrow> v \<le> OpenBaoVersion 2 7 2"
  by (auto simp: is_routable_profile_iff GENERATED_ROUTABLE_PROFILE_VERSIONS_def)

lemma latest_is_routable [simp]: "is_routable_profile (OpenBaoVersion 2 7 2)"
  by (simp add: is_routable_profile_iff GENERATED_ROUTABLE_PROFILE_VERSIONS_def)

lemma legacy_profile: "legacy_unverified_profile = Some (OpenBaoVersion 2 6 3)"
  by (simp add: legacy_unverified_profile_def is_routable_profile_iff
      GENERATED_ROUTABLE_PROFILE_VERSIONS_def)

text \<open>The inventory the binary searches run on holds 30 releases, 2.0.0 the oldest and 2.7.2
  the newest, and a release is routable exactly when it is in it.\<close>

theorem routable_inventory:
  "length GENERATED_ROUTABLE_PROFILE_VERSIONS = 30 \<and>
   hd GENERATED_ROUTABLE_PROFILE_VERSIONS = OpenBaoVersion 2 0 0 \<and>
   latest_routable_profile = Some (OpenBaoVersion 2 7 2) \<and>
   legacy_unverified_profile = Some (OpenBaoVersion 2 6 3) \<and>
   (is_routable_profile v \<longleftrightarrow> v \<in> set GENERATED_ROUTABLE_PROFILE_VERSIONS)"
  by (simp add: latest_routable legacy_profile is_routable_profile_iff)
    (simp add: GENERATED_ROUTABLE_PROFILE_VERSIONS_def)

section \<open>Policies\<close>

text \<open>The policies a caller can build: \<open>value\<close> is private, so these are all there are.\<close>

definition policy_constructible :: "compatibility_policy \<Rightarrow> bool" where
  "policy_constructible p \<longleftrightarrow>
     (\<exists>v. policy_exact v = Inr p) \<or> (\<exists>r. policy_range r = Inr p) \<or>
     p = policy_automatic_strict \<or> (\<exists>v. policy_assume v = Inr p) \<or>
     (\<exists>a. p = policy_automatic_allow_unknown_newer a)"

lemma policy_constructible_simps [simp]:
  "policy_constructible (PolicyExact v) \<longleftrightarrow> is_routable_profile v"
  "policy_constructible (PolicyAssumed v) \<longleftrightarrow> is_routable_profile v"
  "policy_constructible (PolicyRange r) \<longleftrightarrow>
     is_routable_profile (req_minimum r) \<and> is_routable_profile (req_maximum r)"
  "policy_constructible PolicyAutomaticStrict"
  "policy_constructible PolicyAcknowledgedUnknownNewer"
  by (auto simp: policy_constructible_def policy_exact_def policy_range_def policy_assume_def
      policy_automatic_strict_def policy_automatic_allow_unknown_newer_def
      require_routable_profile_def split: if_splits)

lemma report_simps [simp]:
  "report_status (verified_by p v) = Verified" "profile_version (verified_by p v) = Some v"
  "detected_version (verified_by p v) = Some v"
  "report_policy (verified_by p v) = Some (policy_kind_of p)"
  "report_requirement (verified_by p v) = policy_requirement p"
  "report_status (report_assumed v) = Assumed" "profile_version (report_assumed v) = Some v"
  "detected_version (report_assumed v) = None"
  "report_status (report_acknowledged_unknown_newer v w) = AcknowledgedUnknownNewer"
  "profile_version (report_acknowledged_unknown_newer v w) = Some w"
  "detected_version (report_acknowledged_unknown_newer v w) = Some v"
  "report_status report_unverified = Unverified" "profile_version report_unverified = None"
  by (simp_all add: verified_by_def report_verified_def report_assumed_def
      report_acknowledged_unknown_newer_def report_unverified_def)

text \<open>What a report says about the server, whichever policy produced it.\<close>

definition report_sound :: "openbao_version \<Rightarrow> compatibility_report \<Rightarrow> bool" where
  "report_sound detected r \<longleftrightarrow>
     (\<exists>profile. profile_version r = Some profile \<and> is_routable_profile profile \<and>
       (case report_status r of
          Verified \<Rightarrow> detected_version r = Some detected \<and> profile = detected \<and>
            is_none_or (\<lambda>q. requirement_contains q detected) (report_requirement r)
        | Assumed \<Rightarrow> detected_version r = None \<and> report_requirement r = Some (Exact profile)
        | AcknowledgedUnknownNewer \<Rightarrow>
            detected_version r = Some detected \<and> latest_routable_profile = Some profile \<and>
            profile < detected
        | Unverified \<Rightarrow> False))"

lemma requirement_contains_Exact [simp]: "requirement_contains (Exact v) w \<longleftrightarrow> w = v"
  by (auto simp: requirement_contains_def version_in_closed_interval_def)

lemma evaluate_detected_sound_aux:
  "policy_constructible p \<Longrightarrow> evaluate_detected p d = Inr r \<Longrightarrow> report_sound d r"
proof (induction p d rule: evaluate_detected.induct)
  case (4 version detected)
  then show ?case by (auto simp: report_sound_def report_assumed_def)
next
  case (5 detected)
  then show ?case
    by (auto simp: report_sound_def latest_routable report_acknowledged_unknown_newer_def
        split: if_splits)
qed (auto simp: report_sound_def split: if_splits)

text \<open>C13: Evaluating a policy that the public constructors built never selects a release outside
  the inventory: a verified report names the detected release itself, an assumed one records no
  detection, and only a release newer than every reviewed one is tolerated, with the newest
  profile.\<close>

theorem evaluate_detected_sound:
  assumes "policy_constructible p" "evaluate_detected p detected = Inr r"
  shows "report_sound detected r"
  using assms by (rule evaluate_detected_sound_aux)

theorem evaluate_detected_sound_witness:
  "report_sound (OpenBaoVersion 2 8 0)
     (report_acknowledged_unknown_newer (OpenBaoVersion 2 8 0) (OpenBaoVersion 2 7 2))"
proof (rule evaluate_detected_sound)
  show "policy_constructible PolicyAcknowledgedUnknownNewer" by simp
  show "evaluate_detected PolicyAcknowledgedUnknownNewer (OpenBaoVersion 2 8 0) =
      Inr (report_acknowledged_unknown_newer (OpenBaoVersion 2 8 0) (OpenBaoVersion 2 7 2))"
    by (simp add: latest_routable is_routable_profile_iff GENERATED_ROUTABLE_PROFILE_VERSIONS_def)
qed

text \<open>The releases a policy lets through after detection.\<close>

fun policy_accepts :: "compatibility_policy \<Rightarrow> openbao_version \<Rightarrow> bool" where
  "policy_accepts (PolicyExact v) d \<longleftrightarrow> d = v"
| "policy_accepts (PolicyRange r) d \<longleftrightarrow> requirement_contains r d \<and> is_routable_profile d"
| "policy_accepts PolicyAutomaticStrict d \<longleftrightarrow> is_routable_profile d"
| "policy_accepts (PolicyAssumed v) d \<longleftrightarrow> True"
| "policy_accepts PolicyAcknowledgedUnknownNewer d \<longleftrightarrow>
     is_routable_profile d \<or> OpenBaoVersion 2 7 2 < d"

lemma evaluate_detected_accepts: "is_ok (evaluate_detected p d) \<longleftrightarrow> policy_accepts p d"
  by (induction p d rule: evaluate_detected.induct) (auto simp: latest_routable)


end
