(* ===== verification/Bao_Paths.thy ===== *)
theory Bao_Paths
  imports Bao_Errors
begin

text \<open>
  \<open>path.rs\<close>: the validator every caller-supplied path goes through, its mount and endpoint
  entry points, and \<open>PluginMount\<close> of \<open>plugin.rs\<close>, which builds request paths from it. The
  locale \<open>path_validator\<close> is the contract the other components rely on.
\<close>

section \<open>The validator\<close>

definition MAX_PATH_BYTES :: nat where
  "MAX_PATH_BYTES = 4096"

definition MAX_PATH_SEGMENTS :: nat where
  "MAX_PATH_SEGMENTS = 64"

declare MAX_PATH_BYTES_def [limits] MAX_PATH_SEGMENTS_def [limits]

definition path_byte_is_forbidden :: "char \<Rightarrow> bool" where
  "path_byte_is_forbidden b \<longleftrightarrow>
     is_ascii_control b \<or> b \<in> {CHR '' '', CHR ''%'', CHR 0x5C, CHR ''?'', CHR ''#''}"

text \<open>The \<open>for segment in trimmed.split('/')\<close> loop, with the segments pushed so far.\<close>

fun segments_loop :: "string list \<Rightarrow> string list \<Rightarrow> string list res" where
  "segments_loop segments [] = Inr segments"
| "segments_loop segments (segment # rest) =
     (if MAX_PATH_SEGMENTS \<le> length segments
      then Inl (InvalidPath ''path exceeds maximum segment count'')
      else if segment = [] then Inl (InvalidPath ''empty path segments are not allowed'')
      else if segment = ''.'' \<or> segment = ''..''
      then Inl (InvalidPath ''relative path segments are not allowed'')
      else if suffix ''.'' segment
      then Inl (InvalidPath ''OpenBao path segments must not end in periods'')
      else segments_loop (segments @ [segment]) rest)"

definition forbidden_byte_error :: "string \<Rightarrow> error option" where
  "forbidden_byte_error value =
     (if \<not> list_ex path_byte_is_forbidden value then None
      else if list_ex is_ascii_control value
      then Some (InvalidPath ''control characters are not allowed'')
      else if CHR ''%'' \<in> set value
      then Some (InvalidPath ''percent characters are not allowed in OpenBao paths'')
      else if CHR '' '' \<in> set value
      then Some (InvalidPath ''space characters are not allowed'')
      else if CHR 0x5C \<in> set value \<or> CHR ''?'' \<in> set value \<or> CHR ''#'' \<in> set value
      then Some (InvalidPath ''backslash, query, and fragment characters are not allowed'')
      else None)"

definition validate_path :: "string \<Rightarrow> bool \<Rightarrow> string list res" where
  "validate_path value allow_empty =
     (if MAX_PATH_BYTES < length value
      then Inl (InvalidPath ''path exceeds maximum allowed length'')
      else if \<not> is_ascii value
      then Inl (InvalidPath ''non-ASCII characters are not allowed in OpenBao paths'')
      else case forbidden_byte_error value of
        Some e \<Rightarrow> Inl e
      | None \<Rightarrow>
          (let trimmed = trim_matches CHR ''/'' value in
           if trimmed = []
           then (if allow_empty then Inr [] else Inl (InvalidPath ''path must not be empty''))
           else if suffix ''.'' trimmed
           then Inl (InvalidPath ''OpenBao path parameters must not end in periods'')
           else segments_loop [] (split_on CHR ''/'' trimmed)))"

definition validate_mount_path :: "string \<Rightarrow> string list res" where
  "validate_mount_path value = validate_path value False"

definition validate_endpoint_path :: "string \<Rightarrow> string list res" where
  "validate_endpoint_path value = validate_path value True"

section \<open>What a validated path is\<close>

text \<open>A segment that cannot change the meaning of a URL it is pushed into.\<close>

definition safe_segment :: "string \<Rightarrow> bool" where
  "safe_segment s \<longleftrightarrow>
     s \<noteq> [] \<and> last s \<noteq> CHR ''.'' \<and>
     list_all (\<lambda>c. byte c < 128 \<and> c \<noteq> CHR ''/'' \<and> \<not> path_byte_is_forbidden c) s"

lemma suffix_char_iff: "suffix [c] s \<longleftrightarrow> s \<noteq> [] \<and> last s = c"
  by (cases s rule: rev_cases) (auto simp: suffix_def)

lemma safe_segment_not_relative: "safe_segment s \<Longrightarrow> s \<noteq> ''.'' \<and> s \<noteq> ''..''"
  unfolding safe_segment_def by (intro conjI notI; elim conjE; hypsubst; simp)

lemma safe_segment_not_Nil: "safe_segment s \<Longrightarrow> s \<noteq> []"
  by (simp only: safe_segment_def simp_thms)

lemma safe_segment_no_slash: "safe_segment s \<Longrightarrow> CHR ''/'' \<notin> set s"
  by (auto simp: safe_segment_def list_all_iff)

definition segment_ok :: "string \<Rightarrow> bool" where
  "segment_ok s \<longleftrightarrow> s \<noteq> [] \<and> last s \<noteq> CHR ''.''"

lemma segment_ok_iff: "segment_ok s \<longleftrightarrow> s \<noteq> [] \<and> \<not> suffix ''.'' s"
  unfolding segment_ok_def suffix_char_iff by blast

lemma relative_not_ok: "s = ''.'' \<or> s = ''..'' \<Longrightarrow> \<not> segment_ok s"
  by (elim disjE) (simp_all add: segment_ok_def)

lemma segments_loop_Cons:
  "segments_loop acc (s # ss) = Inr segs \<longleftrightarrow>
     length acc < MAX_PATH_SEGMENTS \<and> segment_ok s \<and> segments_loop (acc @ [s]) ss = Inr segs"
proof (cases "segment_ok s")
  case True
  then have "s \<noteq> []" "\<not> (s = ''.'' \<or> s = ''..'')" "\<not> suffix ''.'' s"
    using relative_not_ok segment_ok_iff by blast+
  with True show ?thesis
    by (simp only: segments_loop.simps(2) if_False sum.distinct simp_thms not_less [symmetric]
        split: if_split) blast
next
  case False
  then have "s = [] \<or> s = ''.'' \<or> s = ''..'' \<or> suffix ''.'' s"
    unfolding segment_ok_iff by blast
  then have "\<exists>e. segments_loop acc (s # ss) = Inl e"
    unfolding segments_loop.simps(2) by (simp split: if_split) blast
  with False show ?thesis by (elim exE) (simp only: sum.distinct simp_thms)
qed

declare segments_loop.simps(2) [simp del]

lemma segments_loop_iff:
  "segments_loop acc ss = Inr segs \<longleftrightarrow>
     segs = acc @ ss \<and> list_all segment_ok ss \<and>
     (ss = [] \<or> length acc + length ss \<le> MAX_PATH_SEGMENTS)"
proof (induction ss arbitrary: acc)
  case Nil
  then show ?case by auto
next
  case (Cons s ss)
  show ?case
    unfolding segments_loop_Cons Cons.IH
    by (cases ss) (simp_all, auto)
qed

lemma forbidden_byte_error_None:
  "forbidden_byte_error v = None \<longleftrightarrow> \<not> list_ex path_byte_is_forbidden v"
proof (cases "list_ex path_byte_is_forbidden v")
  case False
  then show ?thesis by (simp add: forbidden_byte_error_def)
next
  case True
  then obtain c where "c \<in> set v" "path_byte_is_forbidden c"
    by (auto simp: list_ex_iff)
  then have "list_ex is_ascii_control v \<or> CHR ''%'' \<in> set v \<or> CHR '' '' \<in> set v \<or>
      CHR 0x5C \<in> set v \<or> CHR ''?'' \<in> set v \<or> CHR ''#'' \<in> set v"
    unfolding path_byte_is_forbidden_def by (auto simp only: list_ex_iff insert_iff empty_iff)
  with True show ?thesis
    unfolding forbidden_byte_error_def by (simp only: if_True if_False simp_thms split: if_split) blast
qed

lemma forbidden_byte_error_InvalidPath:
  "forbidden_byte_error v = Some e \<Longrightarrow> \<exists>m. e = InvalidPath m"
  by (auto simp: forbidden_byte_error_def split: if_splits)

lemma set_trim_matches_insert: "set s \<subseteq> insert c (set (trim_matches c s))"
proof -
  have drop: "set xs \<subseteq> insert c (set (dropWhile (\<lambda>x. x = c) xs))" for xs :: string
    by (induction xs) auto
  show ?thesis
    using drop [of s] drop [of "rev (dropWhile (\<lambda>x. x = c) s)"]
    by (auto simp: trim_matches_def)
qed

lemma split_on_join_path:
  "xs \<noteq> [] \<Longrightarrow> list_all safe_segment xs \<Longrightarrow> split_on CHR ''/'' (join_path xs) = xs"
  by (rule split_join) (auto simp: list_all_iff dest: safe_segment_no_slash)

lemma join_with_not_Nil: "xs \<noteq> [] \<Longrightarrow> last xs \<noteq> [] \<Longrightarrow> join_with sep xs \<noteq> []"
proof (induction xs)
  case Nil
  then show ?case by simp
next
  case (Cons x xs)
  then show ?case by (cases "xs = []") (auto simp: join_with_Cons)
qed

lemma last_join_with: "xs \<noteq> [] \<Longrightarrow> last xs \<noteq> [] \<Longrightarrow> last (join_with sep xs) = last (last xs)"
proof (induction xs)
  case Nil
  then show ?case by simp
next
  case (Cons x xs)
  show ?case
  proof (cases "xs = []")
    case True
    then show ?thesis by simp
  next
    case False
    then have "join_with sep xs \<noteq> []"
      using Cons.prems join_with_not_Nil [of xs sep] by simp
    with False show ?thesis using Cons by (simp add: join_with_Cons)
  qed
qed

lemma segments_of_text:
  assumes "segs \<noteq> []" "t = join_path segs"
  shows "split_on CHR ''/'' t = segs \<and> list_all segment_ok segs \<and> is_ascii t \<and>
           \<not> list_ex path_byte_is_forbidden t \<longleftrightarrow> list_all safe_segment segs"
    (is "?l \<longleftrightarrow> ?r")
proof
  assume l: ?l
  have "safe_segment s" if "s \<in> set segs" for s
  proof -
    from that l have "CHR ''/'' \<notin> set s" and "set s \<subseteq> set t"
      using split_on_no_sep split_on_set by metis+
    with l that show ?thesis
      by (auto simp: safe_segment_def segment_ok_def is_ascii_def list_all_iff list_ex_iff)
  qed
  then show ?r by (simp add: list_all_iff)
next
  assume r: ?r
  have "\<not> path_byte_is_forbidden CHR ''/''"
    by (simp add: path_byte_is_forbidden_def is_ascii_control_def)
  moreover have "set t \<subseteq> set ''/'' \<union> (\<Union>x \<in> set segs. set x)"
    unfolding assms(2) by (rule set_join_with)
  ultimately have "is_ascii t \<and> \<not> list_ex path_byte_is_forbidden t"
    using r by (fastforce simp: safe_segment_def is_ascii_def list_all_iff list_ex_iff)
  with r assms show ?l
    using split_on_join_path
    by (auto simp: safe_segment_def segment_ok_def list_all_iff)
qed

lemma trimmed_bytes:
  "is_ascii v \<and> \<not> list_ex path_byte_is_forbidden v \<longleftrightarrow>
   is_ascii (trim_matches CHR ''/'' v) \<and>
     \<not> list_ex path_byte_is_forbidden (trim_matches CHR ''/'' v)"
proof -
  have "\<not> path_byte_is_forbidden CHR ''/''"
    by (simp add: path_byte_is_forbidden_def is_ascii_control_def)
  moreover note set_trim_matches [of "CHR ''/''" v]
    set_trim_matches_insert [of v "CHR ''/''"]
  ultimately show ?thesis
    by (fastforce simp: is_ascii_def list_all_iff list_ex_iff)
qed

text \<open>The validator is characterised completely by the text between the outer slashes.\<close>

lemma validate_path_nonempty:
  assumes "trim_matches CHR ''/'' v = t" "t \<noteq> []"
  shows "validate_path v allow_empty = Inr segs \<longleftrightarrow>
    length v \<le> MAX_PATH_BYTES \<and> (is_ascii v \<and> \<not> list_ex path_byte_is_forbidden v) \<and>
    \<not> suffix ''.'' t \<and> split_on CHR ''/'' t = segs \<and> list_all segment_ok segs \<and>
    length segs \<le> MAX_PATH_SEGMENTS"
proof (cases "forbidden_byte_error v")
  case None
  then have "\<not> list_ex path_byte_is_forbidden v"
    using forbidden_byte_error_None [of v] by blast
  moreover have "segments_loop [] (split_on CHR ''/'' t) = Inr segs \<longleftrightarrow>
      split_on CHR ''/'' t = segs \<and> list_all segment_ok segs \<and>
      length segs \<le> MAX_PATH_SEGMENTS"
    using split_on_not_Nil [of "CHR ''/''" t] by (auto simp only: segments_loop_iff list.size add_0 append_Nil)
  ultimately show ?thesis
    using None assms(2)
    unfolding validate_path_def assms(1) Let_def
    by (cases "length v \<le> MAX_PATH_BYTES"; cases "is_ascii v"; cases "suffix ''.'' t") simp_all
next
  case (Some e)
  then have "list_ex path_byte_is_forbidden v"
    using forbidden_byte_error_None [of v] by (metis option.distinct(1))
  with Some show ?thesis
    by (simp only: validate_path_def option.case sum.distinct simp_thms split: if_split)
qed

lemma suffix_dot_join:
  assumes "list_all segment_ok segs" "segs \<noteq> []"
  shows "\<not> suffix ''.'' (join_path segs)"
proof -
  have "segment_ok (last segs)"
    using assms by (simp add: list_all_iff)
  then have "last (join_path segs) \<noteq> CHR ''.''"
    using last_join_with [of segs "''/''"] assms(2) by (simp add: segment_ok_def)
  then show ?thesis unfolding suffix_char_iff by blast
qed

lemma validate_path_iff:
  "validate_path v allow_empty = Inr segs \<longleftrightarrow>
     length v \<le> MAX_PATH_BYTES \<and> length segs \<le> MAX_PATH_SEGMENTS \<and>
     list_all safe_segment segs \<and> trim_matches CHR ''/'' v = join_path segs \<and>
     (segs = [] \<longrightarrow> allow_empty)"
proof (cases "trim_matches CHR ''/'' v = []")
  case True
  then have bytes: "is_ascii v" "forbidden_byte_error v = None"
    using trimmed_bytes [of v]
    by (simp_all add: is_ascii_def forbidden_byte_error_None)
  have "segs = []" if "join_path segs = []" "list_all safe_segment segs"
    using that join_with_eq_Nil [of segs "''/''"] by (auto simp: list_all_iff safe_segment_def)
  with True bytes show ?thesis
    by (cases "segs = []") (auto simp: validate_path_def MAX_PATH_SEGMENTS_def)
next
  case False
  let ?t = "trim_matches CHR ''/'' v"
  have split: "split_on CHR ''/'' ?t = segs \<Longrightarrow> ?t = join_path segs \<and> segs \<noteq> []"
    by (metis join_split split_on_not_Nil)
  have eqv: "?t = join_path segs \<Longrightarrow> segs \<noteq> [] \<Longrightarrow>
      split_on CHR ''/'' ?t = segs \<and> list_all segment_ok segs \<and>
      (is_ascii v \<and> \<not> list_ex path_byte_is_forbidden v) \<longleftrightarrow> list_all safe_segment segs"
    using segments_of_text [of segs ?t] trimmed_bytes [of v] by argo
  have join: "?t = join_path segs \<Longrightarrow> segs \<noteq> []"
    using False by fastforce
  have dot: "?t = join_path segs \<Longrightarrow> list_all segment_ok segs \<Longrightarrow> \<not> suffix ''.'' ?t"
    using suffix_dot_join [of segs] join by simp
  have nonempty: "validate_path v allow_empty = Inr segs \<longleftrightarrow>
    length v \<le> MAX_PATH_BYTES \<and> (is_ascii v \<and> \<not> list_ex path_byte_is_forbidden v) \<and>
    \<not> suffix ''.'' ?t \<and> split_on CHR ''/'' ?t = segs \<and> list_all segment_ok segs \<and>
    length segs \<le> MAX_PATH_SEGMENTS"
    by (rule validate_path_nonempty [OF refl False])
  show ?thesis
    unfolding nonempty using split eqv join dot by argo
qed

lemma trim_join_path:
  assumes "segs \<noteq> []" "list_all safe_segment segs"
  shows "trim_matches CHR ''/'' (join_path segs) = join_path segs"
proof (rule trim_matches_id)
  have nonempty: "s \<noteq> []" "CHR ''/'' \<notin> set s" if "s \<in> set segs" for s
    using assms(2) that safe_segment_no_slash by (auto simp: list_all_iff safe_segment_def)
  then show "join_path segs \<noteq> []"
    using assms(1) join_with_eq_Nil [of segs "''/''"] by blast
  have last: "last segs \<noteq> []" "last (last segs) \<noteq> CHR ''/''"
    using nonempty [of "last segs"] assms(1) by (force dest: last_in_set)+
  then show "last (join_path segs) \<noteq> CHR ''/''"
    using assms(1) by (simp only: last_join_with not_False_eq_True)
  obtain s ss where segs: "segs = s # ss" using assms(1) by (cases segs) auto
  then have "s \<noteq> []" "hd s \<noteq> CHR ''/''"
    using nonempty [of s] by (force dest: hd_in_set)+
  with segs show "hd (join_path segs) \<noteq> CHR ''/''"
    by (cases ss) simp_all
qed

lemma validate_path_bounded:
  assumes "validate_path v b = Inr segs"
  shows "length segs \<le> MAX_PATH_SEGMENTS \<and> length (join_path segs) \<le> MAX_PATH_BYTES"
proof -
  have "length (trim_matches CHR ''/'' v) \<le> length v" by (rule length_trim_matches)
  with assms show ?thesis unfolding validate_path_iff by (metis le_trans)
qed

lemma validate_path_join:
  assumes "validate_path v allow_empty = Inr segs"
  shows "validate_path (join_path segs) allow_empty = Inr segs"
proof (cases "segs = []")
  case True
  moreover have "trim_matches CHR ''/'' [] = []" by (simp add: trim_matches_def)
  ultimately show ?thesis using assms unfolding validate_path_iff by simp
next
  case False
  with assms have "length (join_path segs) \<le> length v"
    using length_trim_matches [of "CHR ''/''" v] by (simp add: validate_path_iff)
  with assms False show ?thesis
    by (auto simp: validate_path_iff trim_join_path)
qed

section \<open>The contract\<close>

text \<open>
  What the rest of the crate relies on when it joins the segments of a validated path into a
  URL, a policy rule or another path.
\<close>

locale path_validator =
  fixes validate :: "string \<Rightarrow> string list res"
  assumes segments_safe: "validate v = Inr segs \<Longrightarrow> list_all safe_segment segs"
    and bounded: "validate v = Inr segs \<Longrightarrow>
      length segs \<le> MAX_PATH_SEGMENTS \<and> length (join_path segs) \<le> MAX_PATH_BYTES"
    and canonical: "validate v = Inr segs \<Longrightarrow> validate (join_path segs) = Inr segs"
    and error_kind: "validate v = Inl e \<Longrightarrow> \<exists>m. e = InvalidPath m"
begin

text \<open>Joining and re-validating is the identity on what was accepted.\<close>

definition normalize :: "string \<Rightarrow> string res" where
  "normalize v = rmap join_path (validate v)"

lemma normalize_idem: "normalize v = Inr t \<Longrightarrow> normalize t = Inr t"
  by (auto simp: normalize_def res_simps dest: canonical)

lemma normalize_inj:
  "validate v = Inr segs \<Longrightarrow> validate w = Inr segs' \<Longrightarrow>
   join_path segs = join_path segs' \<Longrightarrow> segs = segs'"
  by (metis canonical sum.inject(2))

lemma no_relative_segment:
  "validate v = Inr segs \<Longrightarrow> ''.'' \<notin> set segs \<and> ''..'' \<notin> set segs \<and> [] \<notin> set segs"
  using segments_safe [of v segs] safe_segment_not_relative safe_segment_not_Nil
  unfolding list_all_iff by blast

lemma split_normalized:
  "validate v = Inr segs \<Longrightarrow> segs \<noteq> [] \<Longrightarrow> split_on CHR ''/'' (join_path segs) = segs"
  by (rule split_on_join_path) (auto dest: segments_safe)

end

lemma validate_path_error: "validate_path v b = Inl e \<Longrightarrow> \<exists>m. e = InvalidPath m"
proof -
  have loop: "segments_loop acc ss = Inl e \<Longrightarrow> \<exists>m. e = InvalidPath m" for acc ss
    by (induction ss arbitrary: acc)
      (auto simp only: segments_loop.simps sum.distinct sum.inject split: if_splits)
  show "validate_path v b = Inl e \<Longrightarrow> ?thesis"
    by (auto simp: validate_path_def Let_def split: if_splits option.splits
        dest: loop forbidden_byte_error_InvalidPath)
qed

lemma validate_path_safe: "validate_path v b = Inr segs \<Longrightarrow> list_all safe_segment segs"
  by (simp add: validate_path_iff)

interpretation mount_validator: path_validator validate_mount_path
  by unfold_locales
    (unfold validate_mount_path_def,
      (erule validate_path_safe validate_path_bounded validate_path_join validate_path_error)+)

interpretation endpoint_validator: path_validator validate_endpoint_path
  by unfold_locales
    (unfold validate_endpoint_path_def,
      (erule validate_path_safe validate_path_bounded validate_path_join validate_path_error)+)

section \<open>Plugin mounts\<close>

text \<open>\<open>PluginMount\<close>: a validated mount, and \<open>path\<close>, which joins validated tails to it.\<close>

record plugin_mount =
  pm_mount :: "string list"

definition plugin_mount_new :: "string \<Rightarrow> plugin_mount res" where
  "plugin_mount_new mount = rmap (\<lambda>m. \<lparr>pm_mount = m\<rparr>) (validate_mount_path mount)"

fun extend_segments :: "string list \<Rightarrow> string list \<Rightarrow> string list res" where
  "extend_segments segments [] = Inr segments"
| "extend_segments segments (tail # tails) =
     rbind (validate_endpoint_path tail) (\<lambda>more. extend_segments (segments @ more) tails)"

definition plugin_mount_path :: "plugin_mount \<Rightarrow> string list \<Rightarrow> string res" where
  "plugin_mount_path pm tail = rmap join_path (extend_segments (pm_mount pm) tail)"

end
