(* ===== verification/Bao_Registry.thy ===== *)
theory Bao_Registry
  imports Bao_Versions Bao_Paths
begin

text \<open>
  The registry half of \<open>compatibility.rs\<close> and the external plugins of \<open>plugin/compatibility.rs\<close>:
  operations with their capability ranges, availability and evidence per release, endpoint
  specifications, and the plugin selections that promote reviewed operations. The generated
  operation table is the parameter \<open>ops\<close>; \<open>table_ok\<close> states what the generator keeps of it.
\<close>

section \<open>Operations\<close>

datatype http_method =
    MAcme | MDelete | MGet | MHead | MList | MPatch | MPost | MPut | MScan

fun method_as_str :: "http_method \<Rightarrow> string" where
  "method_as_str MAcme = ''ACME''"
| "method_as_str MDelete = ''DELETE''"
| "method_as_str MGet = ''GET''"
| "method_as_str MHead = ''HEAD''"
| "method_as_str MList = ''LIST''"
| "method_as_str MPatch = ''PATCH''"
| "method_as_str MPost = ''POST''"
| "method_as_str MPut = ''PUT''"
| "method_as_str MScan = ''SCAN''"

datatype operation_disposition = Typed | TypedGated | DispositionSecurityBlocked

datatype capability_evidence =
    EvidenceNone | TaggedDocumentation | LockedOpenApi | CorrectedCurrentContract

datatype capability_availability = DocumentedRoute | NotDocumented | SecurityBlocked

record capability_range =
  range_minimum :: openbao_version
  range_maximum :: openbao_version
  range_evidence :: capability_evidence
  range_security_blocked :: bool

definition range_contains :: "capability_range \<Rightarrow> openbao_version \<Rightarrow> bool" where
  "range_contains r version \<longleftrightarrow>
     version_in_closed_interval version (range_minimum r) (range_maximum r)"

record operation =
  op_id :: string
  op_method :: http_method
  op_path_template :: string
  op_disposition :: operation_disposition
  op_ranges :: "capability_range list"

definition select_capability_range ::
  "capability_range list \<Rightarrow> openbao_version \<Rightarrow> capability_range option" where
  "select_capability_range ranges version = List.find (\<lambda>r. range_contains r version) ranges"

section \<open>External plugins\<close>

datatype external_plugin_kind = LdapAuth | KerberosAuth | RadiusAuth | LdapSecrets

fun plugin_command :: "external_plugin_kind \<Rightarrow> string" where
  "plugin_command LdapAuth = ''openbao-plugin-auth-ldap''"
| "plugin_command KerberosAuth = ''openbao-plugin-auth-kerberos''"
| "plugin_command RadiusAuth = ''openbao-plugin-auth-radius''"
| "plugin_command LdapSecrets = ''openbao-plugin-secrets-ldap''"

fun binary_sha256 :: "external_plugin_kind \<Rightarrow> string" where
  "binary_sha256 LdapAuth =
     ''b323b200b2dec50199f36de7dc95a661ce6662da3d53905973c0d7700b4185bb''"
| "binary_sha256 KerberosAuth =
     ''57ac030fea755adf791600eb2b30aa410d2e848ab7ec7bb54cc515cdce4b89ae''"
| "binary_sha256 RadiusAuth =
     ''ae2ac43287ed297a9536456b0cbb79c8749a82ffe74a54e3fe886d3285443f07''"
| "binary_sha256 LdapSecrets =
     ''4b24d4deec624d76bd8f950dfaf6f59822de14cfb9bd344e2e7c4c492cc77789''"

fun plugin_version :: "external_plugin_kind \<Rightarrow> string" where
  "plugin_version LdapAuth = ''v0.2.0''"
| "plugin_version RadiusAuth = ''v0.2.0''"
| "plugin_version KerberosAuth = ''v0.1.0''"
| "plugin_version LdapSecrets = ''v0.1.1''"

fun plugin_is_auth :: "external_plugin_kind \<Rightarrow> bool" where
  "plugin_is_auth LdapSecrets = False"
| "plugin_is_auth _ = True"

fun documented_mount :: "external_plugin_kind \<Rightarrow> string" where
  "documented_mount LdapAuth = ''ldap''"
| "documented_mount LdapSecrets = ''ldap''"
| "documented_mount KerberosAuth = ''kerberos''"
| "documented_mount RadiusAuth = ''radius''"

definition plugin_prefixes :: "(string \<times> external_plugin_kind) list" where
  "plugin_prefixes =
     [(''/auth/ldap'', LdapAuth), (''/auth/kerberos'', KerberosAuth),
      (''/auth/radius'', RadiusAuth), (''/ldap'', LdapSecrets)]"

definition under_prefix :: "string \<Rightarrow> string \<Rightarrow> bool" where
  "under_prefix pre path \<longleftrightarrow>
     path = pre \<or> (case strip_prefix pre path of None \<Rightarrow> False | Some tail \<Rightarrow> prefix ''/'' tail)"

definition for_path :: "string \<Rightarrow> external_plugin_kind option" where
  "for_path path =
     map_option snd (List.find (\<lambda>(pre, kind). under_prefix pre path) plugin_prefixes)"

record external_plugin_selection =
  eps_kind :: external_plugin_kind
  eps_server :: openbao_version
  eps_mount :: string

definition reviewed_servers :: "openbao_version list" where
  "reviewed_servers = [OpenBaoVersion 2 7 0, OpenBaoVersion 2 7 1, OpenBaoVersion 2 7 2]"

definition selection_new ::
  "external_plugin_kind \<Rightarrow> openbao_version \<Rightarrow> string \<Rightarrow> string \<Rightarrow> string \<Rightarrow>
   external_plugin_selection res" where
  "selection_new kind server mount version sha256 =
     (if server \<notin> set reviewed_servers \<or> version \<noteq> plugin_version kind \<or>
         sha256 \<noteq> binary_sha256 kind
      then Inl (InvalidParameter ''external plugin identity has no reviewed artifact'')
      else rbind (validate_mount_path mount) (\<lambda>segments.
        let normalized = join_path segments in
        if normalized \<noteq> mount
        then Inl (InvalidParameter ''external plugin mount must be canonical'')
        else Inr \<lparr>eps_kind = kind, eps_server = server, eps_mount = normalized\<rparr>))"

definition same_mount :: "external_plugin_selection \<Rightarrow> external_plugin_selection \<Rightarrow> bool" where
  "same_mount a b \<longleftrightarrow>
     plugin_is_auth (eps_kind a) = plugin_is_auth (eps_kind b) \<and> eps_mount a = eps_mount b"

definition matches_mount_scope ::
  "external_plugin_selection \<Rightarrow> external_plugin_kind \<Rightarrow> string \<Rightarrow> bool" where
  "matches_mount_scope s kind mount \<longleftrightarrow>
     plugin_is_auth (eps_kind s) = plugin_is_auth kind \<and> eps_mount s = mount"

definition LDAP_AUTH_OPERATIONS :: "string list" where
  "LDAP_AUTH_OPERATIONS = [
     ''openbao.delete.auth.ldap.groups.name.b950122721b5ebc7'',
     ''openbao.delete.auth.ldap.users.username.9c70ff08aa396e53'',
     ''openbao.get.auth.ldap.config.811840bd137c6235'',
     ''openbao.get.auth.ldap.groups.name.7f1eeb5b0127592d'',
     ''openbao.get.auth.ldap.users.username.d1685a846a236f11'',
     ''openbao.list.auth.ldap.groups.9a02185a1de217e9'',
     ''openbao.list.auth.ldap.users.c9811a9743a6d433'',
     ''openbao.post.auth.ldap.config.47513ec572cc61ae'',
     ''openbao.post.auth.ldap.groups.name.6dfccb47849561ea'',
     ''openbao.post.auth.ldap.login.username.f98effef801d364e'',
     ''openbao.post.auth.ldap.users.username.32b8480ab9dc3473'']"

definition LDAP_SECRETS_OPERATIONS :: "string list" where
  "LDAP_SECRETS_OPERATIONS = [
     ''openbao.delete.ldap.library.set.name.b93f2cc7bd993d6c'',
     ''openbao.get.ldap.library.set.name.ac0b1f32711a1b17'',
     ''openbao.get.ldap.library.set.name.status.7ad9c35d9646b86c'',
     ''openbao.list.ldap.library.98e0afea05f266ad'',
     ''openbao.post.ldap.library.manage.set.name.check.in.31d9758041b60487'',
     ''openbao.post.ldap.library.set.name.b42bbb4ad1f4da44'',
     ''openbao.post.ldap.library.set.name.check.in.060342e4eeb9c95d'',
     ''openbao.post.ldap.library.set.name.check.out.8336f9c1d2da5f75'',
     ''openbao.delete.ldap.config.ecee1bad1781c163'',
     ''openbao.delete.ldap.role.role.name.62b78b0e2b96da27'',
     ''openbao.delete.ldap.static.role.role.name.cb104610a05417a6'',
     ''openbao.get.ldap.config.2bbeeb0df9593a92'',
     ''openbao.get.ldap.creds.role.name.5da4ac8dcf228fae'',
     ''openbao.get.ldap.role.role.name.55c21b25fd8400cc'',
     ''openbao.get.ldap.static.cred.role.name.a69cdc5eca90bb18'',
     ''openbao.get.ldap.static.role.7b331d6e6718beed'',
     ''openbao.get.ldap.static.role.role.name.973bea91096ad800'',
     ''openbao.post.ldap.config.5878fff52f427697'',
     ''openbao.post.ldap.role.role.name.c0c49e3483cfce41'',
     ''openbao.post.ldap.rotate.role.role.name.f6a539a049514645'',
     ''openbao.post.ldap.rotate.root.9c563cec09292028'',
     ''openbao.post.ldap.static.role.role.name.00febb1527662b40'']"

definition reviewed_operations :: "external_plugin_kind \<Rightarrow> openbao_version \<Rightarrow> string list" where
  "reviewed_operations kind server =
     (if server \<notin> set reviewed_servers then []
      else case kind of
        LdapAuth \<Rightarrow> LDAP_AUTH_OPERATIONS
      | LdapSecrets \<Rightarrow> LDAP_SECRETS_OPERATIONS
      | KerberosAuth \<Rightarrow> [
     ''openbao.delete.auth.kerberos.groups.name.531b18e6c0502640'',
     ''openbao.get.auth.kerberos.config.a8df007535cf11c8'',
     ''openbao.get.auth.kerberos.config.ldap.70521a241b0f202f'',
     ''openbao.get.auth.kerberos.groups.name.954ae92b9ea6a64f'',
     ''openbao.list.auth.kerberos.groups.fad52108a9209f19'',
     ''openbao.post.auth.kerberos.config.e23ef3bccd4f8768'',
     ''openbao.post.auth.kerberos.config.ldap.09ea51fb665e0383'',
     ''openbao.post.auth.kerberos.groups.name.9a59741aa62e99af'',
     ''openbao.post.auth.kerberos.login.a1f715e91255582a'']
      | RadiusAuth \<Rightarrow> [
     ''openbao.delete.auth.radius.users.username.5bf54869a30eb190'',
     ''openbao.get.auth.radius.users.username.8ebc6cbe7282bb10'',
     ''openbao.list.auth.radius.users.93ed6d488978f259'',
     ''openbao.post.auth.radius.config.0243019420859d7b'',
     ''openbao.post.auth.radius.login.username.385de898f4d8b839'',
     ''openbao.post.auth.radius.users.username.b61e40a07dc19c14''])"

definition selection_supports ::
  "external_plugin_selection \<Rightarrow> compatibility_report \<Rightarrow> operation \<Rightarrow> bool" where
  "selection_supports s report operation \<longleftrightarrow>
     report_status report = Verified \<and>
     detected_version report = Some (eps_server s) \<and>
     profile_version report = Some (eps_server s) \<and>
     for_path (op_path_template operation) = Some (eps_kind s) \<and>
     op_id operation \<in> set (reviewed_operations (eps_kind s) (eps_server s))"

section \<open>Availability and evidence\<close>

definition requires_unverified_external_plugin :: "string \<Rightarrow> openbao_version \<Rightarrow> bool" where
  "requires_unverified_external_plugin path version \<longleftrightarrow>
     OpenBaoVersion 2 7 0 \<le> version \<and> for_path path \<noteq> None"

definition availability :: "operation \<Rightarrow> openbao_version \<Rightarrow> capability_availability option" where
  "availability operation version =
     (if \<not> is_generated_profile version then None
      else if requires_unverified_external_plugin (op_path_template operation) version
      then Some SecurityBlocked
      else case select_capability_range (op_ranges operation) version of
        None \<Rightarrow> None
      | Some r \<Rightarrow>
          (if range_evidence r = EvidenceNone then Some NotDocumented
           else if range_security_blocked r \<or>
             op_disposition operation = DispositionSecurityBlocked
           then Some SecurityBlocked
           else Some DocumentedRoute))"

definition evidence :: "operation \<Rightarrow> openbao_version \<Rightarrow> capability_evidence option" where
  "evidence operation version =
     (if \<not> is_generated_profile version then None
      else map_option range_evidence (select_capability_range (op_ranges operation) version))"

record capability_status =
  cs_operation :: operation
  cs_availability :: capability_availability
  cs_evidence :: capability_evidence

definition capability_status_of :: "operation \<Rightarrow> openbao_version \<Rightarrow> capability_status option" where
  "capability_status_of operation version =
     (case availability operation version of
        None \<Rightarrow> None
      | Some a \<Rightarrow>
          map_option (\<lambda>e. \<lparr>cs_operation = operation, cs_availability = a, cs_evidence = e\<rparr>)
            (evidence operation version))"

section \<open>Endpoints and profiles\<close>

record endpoint_variant =
  ev_operation_id :: string
  ev_minimum :: openbao_version
  ev_maximum :: openbao_version

definition variant_contains :: "endpoint_variant \<Rightarrow> openbao_version \<Rightarrow> bool" where
  "variant_contains v version \<longleftrightarrow> ev_minimum v \<le> version \<and> version \<le> ev_maximum v"

record endpoint_spec =
  spec_id :: string
  spec_variants :: "endpoint_variant list"

definition openbao_operation :: "operation list \<Rightarrow> string \<Rightarrow> operation option" where
  "openbao_operation ops oid =
     map_option (\<lambda>index. ops ! index) (binary_search_by_key op_id ops oid)"

definition profile_for_version :: "openbao_version \<Rightarrow> openbao_version option" where
  "profile_for_version version = (if is_generated_profile version then Some version else None)"

definition profile_operation ::
  "operation list \<Rightarrow> openbao_version \<Rightarrow> string \<Rightarrow> capability_status option" where
  "profile_operation ops profile oid =
     Option.bind (openbao_operation ops oid) (\<lambda>operation. capability_status_of operation profile)"

definition profile_operations ::
  "operation list \<Rightarrow> openbao_version \<Rightarrow> capability_status list" where
  "profile_operations ops profile =
     List.map_filter (\<lambda>operation. capability_status_of operation profile) ops"

section \<open>What the table and the plugins guarantee\<close>

text \<open>What the generator keeps of the operation table: operations in strictly ascending order of
  identifier, and for each the ranges in ascending order without overlap.\<close>

interpretation range_interval: version_interval range_minimum range_maximum range_contains
  by unfold_locales (simp add: range_contains_def version_in_closed_interval_def)

interpretation variant_interval: version_interval ev_minimum ev_maximum variant_contains
  by unfold_locales (simp add: variant_contains_def)

definition ranges_ok :: "capability_range list \<Rightarrow> bool" where
  "ranges_ok rs \<longleftrightarrow> sorted_wrt (\<lambda>a b. range_maximum a < range_minimum b) rs"

definition table_ok :: "operation list \<Rightarrow> bool" where
  "table_ok ops \<longleftrightarrow> sorted (map op_id ops) \<and> distinct (map op_id ops) \<and>
     list_all (\<lambda>x. ranges_ok (op_ranges x)) ops"

lemma openbao_operation_iff:
  assumes "table_ok ops"
  shows "openbao_operation ops oid = Some x \<longleftrightarrow> x \<in> set ops \<and> op_id x = oid"
proof -
  have s: "sorted (map op_id ops)" and d: "distinct (map op_id ops)"
    using assms by (simp_all add: table_ok_def)
  show ?thesis
  proof
    assume "openbao_operation ops oid = Some x"
    then show "x \<in> set ops \<and> op_id x = oid"
      using binary_search_Some [OF s, of oid] by (auto simp: openbao_operation_def)
  next
    assume r: "x \<in> set ops \<and> op_id x = oid"
    then obtain i where i: "binary_search_by_key op_id ops oid = Some i"
      using binary_search_None [OF s, of oid] by fastforce
    then have "ops ! i \<in> set ops" "op_id (ops ! i) = oid"
      using binary_search_Some [OF s, of oid] by auto
    with r d have "ops ! i = x" by (auto simp: distinct_map dest: inj_onD)
    with i show "openbao_operation ops oid = Some x" by (simp add: openbao_operation_def)
  qed
qed

lemma openbao_operation_None:
  assumes "table_ok ops"
  shows "openbao_operation ops oid = None \<longleftrightarrow> oid \<notin> op_id ` set ops"
  using binary_search_None [of op_id ops oid] assms
  by (simp add: openbao_operation_def table_ok_def)

lemma under_prefix_iff: "under_prefix pre path \<longleftrightarrow> path = pre \<or> prefix (pre @ ''/'') path"
  by (auto simp: under_prefix_def strip_prefix_def prefix_def split: if_splits)

lemma for_path_cases:
  "for_path path =
     (if under_prefix ''/auth/ldap'' path then Some LdapAuth
      else if under_prefix ''/auth/kerberos'' path then Some KerberosAuth
      else if under_prefix ''/auth/radius'' path then Some RadiusAuth
      else if under_prefix ''/ldap'' path then Some LdapSecrets
      else None)"
  by (simp add: for_path_def plugin_prefixes_def)

text \<open>The four families are disjoint, so the order of the table does not matter.\<close>

lemma plugin_prefix_unique:
  "(p, k) \<in> set plugin_prefixes \<Longrightarrow> under_prefix p path \<Longrightarrow> for_path path = Some k"
  unfolding for_path_cases plugin_prefixes_def under_prefix_iff
  by (auto simp: prefix_def)

lemma for_path_iff:
  "for_path path = Some k \<longleftrightarrow> (\<exists>p. (p, k) \<in> set plugin_prefixes \<and> under_prefix p path)"
proof
  assume "for_path path = Some k"
  then show "\<exists>p. (p, k) \<in> set plugin_prefixes \<and> under_prefix p path"
    by (auto simp: for_path_def dest!: find_Some_set)
qed (auto intro: plugin_prefix_unique)

lemma reviewed_servers_routable: "v \<in> set reviewed_servers \<Longrightarrow> is_routable_profile v"
  by (auto simp: reviewed_servers_def is_routable_profile_iff GENERATED_ROUTABLE_PROFILE_VERSIONS_def)

lemma availability_Some_iff:
  "availability operation version \<noteq> None \<longleftrightarrow>
     is_generated_profile version \<and>
     (requires_unverified_external_plugin (op_path_template operation) version \<or>
      (\<exists>r \<in> set (op_ranges operation). range_contains r version))"
  by (auto simp: availability_def select_capability_range_def find_eq_None_iff
      split: option.splits dest: find_Some_set)

lemma select_range_iff:
  assumes "ranges_ok rs"
  shows "select_capability_range rs v = Some r \<longleftrightarrow> r \<in> set rs \<and> range_contains r v"
  using assms range_interval.find_unique [of rs r v]
  by (auto simp: select_capability_range_def range_interval.ascending_def ranges_ok_def
      dest: find_Some_set)

text \<open>A route counts as documented for a release exactly when the release is in the inventory,
  some range of the operation covers it with evidence and without a security block, and neither
  the crate's disposition nor the external-plugin rule of release 2.7.0 blocks it.\<close>

theorem availability_documented_iff:
  assumes "ranges_ok (op_ranges operation)"
  shows "availability operation version = Some DocumentedRoute \<longleftrightarrow>
    is_generated_profile version \<and>
    \<not> (OpenBaoVersion 2 7 0 \<le> version \<and> for_path (op_path_template operation) \<noteq> None) \<and>
    op_disposition operation \<noteq> DispositionSecurityBlocked \<and>
    (\<exists>r \<in> set (op_ranges operation). range_contains r version \<and>
       range_evidence r \<noteq> EvidenceNone \<and> \<not> range_security_blocked r)"
proof (cases "select_capability_range (op_ranges operation) version")
  case None
  then have "\<forall>r \<in> set (op_ranges operation). \<not> range_contains r version"
    by (simp add: select_capability_range_def find_eq_None_iff)
  with None show ?thesis
    by (simp add: availability_def)
next
  case (Some r)
  then have "r' = r" if "r' \<in> set (op_ranges operation)" "range_contains r' version" for r'
    using that select_range_iff [OF assms] by (metis option.inject)
  with Some show ?thesis
    using select_range_iff [OF assms, of version r]
    by (auto simp: availability_def requires_unverified_external_plugin_def)
qed

text \<open>The first row of the generated table, shortened to its first two ranges.\<close>

definition acme_directory_row :: operation where
  "acme_directory_row =
     \<lparr>op_id = ''openbao.acme.pki.acme.directory.87559f3155381b97'', op_method = MAcme,
      op_path_template = ''/pki/acme/directory'', op_disposition = TypedGated,
      op_ranges =
        [\<lparr>range_minimum = OpenBaoVersion 2 0 0, range_maximum = OpenBaoVersion 2 6 3,
          range_evidence = TaggedDocumentation, range_security_blocked = False\<rparr>,
         \<lparr>range_minimum = OpenBaoVersion 2 6 4, range_maximum = OpenBaoVersion 2 6 4,
          range_evidence = TaggedDocumentation, range_security_blocked = False\<rparr>]\<rparr>"

theorem availability_documented_witness:
  "availability acme_directory_row (OpenBaoVersion 2 6 0) = Some DocumentedRoute"
proof -
  have "ranges_ok (op_ranges acme_directory_row)"
    by (simp add: ranges_ok_def acme_directory_row_def)
  moreover have "for_path (op_path_template acme_directory_row) = None"
    by code_simp
  ultimately show ?thesis
    using availability_documented_iff [of acme_directory_row "OpenBaoVersion 2 6 0"]
    by (simp add: acme_directory_row_def is_generated_profile_iff GENERATED_PROFILE_VERSIONS_def
        range_contains_def version_in_closed_interval_def)
qed

lemma selection_new_iff:
  "selection_new kind server mount version sha256 = Inr s \<longleftrightarrow>
     server \<in> set reviewed_servers \<and> version = plugin_version kind \<and>
     sha256 = binary_sha256 kind \<and>
     (\<exists>segs. validate_mount_path mount = Inr segs \<and> join_path segs = mount) \<and>
     s = \<lparr>eps_kind = kind, eps_server = server, eps_mount = mount\<rparr>"
  by (auto simp: selection_new_def res_simps Let_def split: if_splits)

text \<open>A plugin selection promotes an operation only on the exact server it was reviewed for: the
  server was detected as that release, the operation's route belongs to the plugin's family, is
  blocked without the selection, and is one of the reviewed identifiers.\<close>

theorem selection_supports_sound:
  assumes "selection_new kind server mount version sha256 = Inr s"
    and "selection_supports s report operation"
  shows "server \<in> set reviewed_servers \<and> detected_version report = Some server \<and>
    profile_version report = Some server \<and> report_status report = Verified \<and>
    version = plugin_version kind \<and> sha256 = binary_sha256 kind \<and>
    for_path (op_path_template operation) = Some kind \<and>
    op_id operation \<in> set (reviewed_operations kind server) \<and>
    availability operation server = Some SecurityBlocked"
proof -
  from assms(1) have s: "eps_kind s = kind" "eps_server s = server"
    and server: "server \<in> set reviewed_servers"
    and ids: "version = plugin_version kind" "sha256 = binary_sha256 kind"
    by (auto simp: selection_new_iff)
  have "is_generated_profile server" "OpenBaoVersion 2 7 0 \<le> server"
    using reviewed_servers_routable [OF server] routable_is_generated server
    by (auto simp: reviewed_servers_def)
  with assms(2) s server ids show ?thesis
    by (auto simp: selection_supports_def availability_def requires_unverified_external_plugin_def)
qed

definition radius_config_row :: operation where
  "radius_config_row =
     \<lparr>op_id = ''openbao.post.auth.radius.config.0243019420859d7b'', op_method = MPost,
      op_path_template = ''/auth/radius/config'', op_disposition = Typed, op_ranges = []\<rparr>"

theorem selection_supports_witness:
  "availability radius_config_row (OpenBaoVersion 2 7 1) = Some SecurityBlocked"
proof -
  let ?s = "\<lparr>eps_kind = RadiusAuth, eps_server = OpenBaoVersion 2 7 1, eps_mount = ''corp''\<rparr>"
  have "validate_mount_path ''corp'' = Inr [''corp'']" by code_simp
  then have new: "selection_new RadiusAuth (OpenBaoVersion 2 7 1) ''corp'' (plugin_version RadiusAuth)
      (binary_sha256 RadiusAuth) = Inr ?s"
    by (simp only: selection_new_iff) (simp add: reviewed_servers_def)
  have "for_path ''/auth/radius/config'' = Some RadiusAuth" by code_simp
  then have "selection_supports ?s
      (verified_by PolicyAutomaticStrict (OpenBaoVersion 2 7 1)) radius_config_row"
    by (simp add: selection_supports_def radius_config_row_def reviewed_operations_def
        reviewed_servers_def)
  from selection_supports_sound [OF new this] show ?thesis by simp
qed

end
