(* ===== verification/Bao_Routes.thy ===== *)
theory Bao_Routes
  imports Bao_Errors
begin

text \<open>
  Route templates of \<open>client.rs\<close>: expansion of the optional parts of a documented template, the
  memoised matcher of template segments against a request path, the query part, and the
  specificity that ranks templates. The matcher is proved equal to a specification without the
  memo table: the path splits into one block per template segment.
\<close>

section \<open>Segments\<close>

definition MAX_OPTIONAL_ROUTE_EXPANSIONS :: nat where
  "MAX_OPTIONAL_ROUTE_EXPANSIONS = 8"

declare MAX_OPTIONAL_ROUTE_EXPANSIONS_def [limits]

definition route_placeholder_is_multi_segment :: "string \<Rightarrow> bool" where
  "route_placeholder_is_multi_segment segment \<longleftrightarrow> segment = '':path'' \<or> segment = '':prefix''"

definition is_placeholder :: "string \<Rightarrow> bool" where
  "is_placeholder expected \<longleftrightarrow>
     prefix '':'' expected \<or> prefix ''<'' expected \<and> suffix ''>'' expected"

definition static_segment_matches :: "string \<Rightarrow> string \<Rightarrow> bool" where
  "static_segment_matches expected actual_segment \<longleftrightarrow>
     (if prefix ''('' expected \<and> suffix '')'' expected
      then list_ex (\<lambda>alternative. alternative \<noteq> [] \<and> alternative = actual_segment)
        (split_on CHR ''|'' (butlast (tl expected)))
      else expected = actual_segment)"

text \<open>
  \<open>route_segments_match_at\<close> with its memo table as a matrix that is returned updated;
  \<open>match_any_at\<close> is the \<open>any\<close> over the possible ends of a multi-segment placeholder, which stops
  at the first success. The indices never exceed the lengths.
\<close>

type_synonym memo = "bool option list list"

definition memo_set :: "memo \<Rightarrow> nat \<Rightarrow> nat \<Rightarrow> bool \<Rightarrow> memo" where
  "memo_set memo ti ai r = memo[ti := (memo ! ti)[ai := Some r]]"

function (sequential)
  route_segments_match_at :: "string list \<Rightarrow> string list \<Rightarrow> nat \<Rightarrow> nat \<Rightarrow> memo \<Rightarrow> bool \<times> memo"
  and match_any_at :: "string list \<Rightarrow> string list \<Rightarrow> nat \<Rightarrow> nat list \<Rightarrow> memo \<Rightarrow> bool \<times> memo"
where
  "route_segments_match_at template actual ti ai memo =
     (case memo ! ti ! ai of
        Some result \<Rightarrow> (result, memo)
      | None \<Rightarrow>
          (let (result, memo') =
             (if length template \<le> ti then (ai = length actual, memo)
              else
                (let expected = template ! ti in
                 if route_placeholder_is_multi_segment expected
                 then match_any_at template actual (Suc ti) [Suc ai..<Suc (length actual)] memo
                 else if is_placeholder expected
                 then (if ai < length actual
                       then route_segments_match_at template actual (Suc ti) (Suc ai) memo
                       else (False, memo))
                 else if ai = length actual then (False, memo)
                 else if static_segment_matches expected (actual ! ai)
                 then route_segments_match_at template actual (Suc ti) (Suc ai) memo
                 else (False, memo)))
           in (result, memo_set memo' ti ai result)))"
| "match_any_at template actual ti [] memo = (False, memo)"
| "match_any_at template actual ti (n # ns) memo =
     (let (r, memo') = route_segments_match_at template actual ti n memo in
      if r then (True, memo') else match_any_at template actual ti ns memo')"
  by pat_completeness auto
termination
  by (relation "measures
      [\<lambda>x. case x of Inl (t, a, ti, ai, m) \<Rightarrow> length t - ti | Inr (t, a, ti, ns, m) \<Rightarrow> length t - ti,
       \<lambda>x. case x of Inl (t, a, ti, ai, m) \<Rightarrow> 0 | Inr (t, a, ti, ns, m) \<Rightarrow> Suc (length ns)]")
    auto

declare route_segments_match_at.simps [simp del]

definition memo_new :: "nat \<Rightarrow> nat \<Rightarrow> memo" where
  "memo_new n m = replicate (Suc n) (replicate (Suc m) None)"

definition route_segments_match :: "string list \<Rightarrow> string list \<Rightarrow> bool" where
  "route_segments_match template actual =
     fst (route_segments_match_at template actual 0 0 (memo_new (length template) (length actual)))"

definition route_path_matches :: "string \<Rightarrow> string list \<Rightarrow> bool" where
  "route_path_matches template path_segments \<longleftrightarrow>
     prefix ''/'' template \<and>
     route_segments_match
       (filter (\<lambda>segment. segment \<noteq> [])
         (split_on CHR ''/'' (dropWhile (\<lambda>c. c = CHR ''/'') template))) path_segments"

section \<open>Optional parts\<close>

text \<open>One pass over the expansions: each one with an optional part becomes two.\<close>

fun expand_pass :: "string list \<Rightarrow> (string list \<times> bool) res" where
  "expand_pass [] = Inr ([], False)"
| "expand_pass (expansion # rest) =
     (case split_once ''(/'' expansion of
        None \<Rightarrow> rmap (\<lambda>(next, changed). (expansion # next, changed)) (expand_pass rest)
      | Some (before, tail) \<Rightarrow>
          (case split_once '')'' tail of
             None \<Rightarrow> Inl (Internal ''OpenBao optional route template is invalid'')
           | Some (opt, after) \<Rightarrow>
               rmap (\<lambda>(next, changed).
                 ((before @ after) # (before @ ''/'' @ opt @ after) # next, True))
                 (expand_pass rest)))"

definition optional_depth :: "string \<Rightarrow> nat" where
  "optional_depth t = (if contains_str ''(/'' t then count_list t CHR ''('' else 0)"

definition expansions_depth :: "string list \<Rightarrow> nat" where
  "expansions_depth ts = fold max (map optional_depth ts) 0"

lemma expansions_depth_le: "expansions_depth ts \<le> b \<longleftrightarrow> list_all (\<lambda>t. optional_depth t \<le> b) ts"
  by (simp add: expansions_depth_def fold_max_le list_all_iff)

lemma optional_depth_pos: "split_once ''(/'' t = Some (b, r) \<Longrightarrow> 0 < optional_depth t"
  by (frule split_once_Some) (auto simp: optional_depth_def contains_str_def count_list_append)

lemma optional_depth_smaller:
  assumes "split_once ''(/'' t = Some (before, tail)" "split_once '')'' tail = Some (opt, after)"
  shows "optional_depth (before @ after) < optional_depth t"
    and "optional_depth (before @ ''/'' @ opt @ after) < optional_depth t"
proof -
  have t: "t = before @ ''(/'' @ opt @ '')'' @ after"
    using split_once_Some [OF assms(1)] split_once_Some [OF assms(2)] by simp
  moreover have "contains_str ''(/'' t" using assms(1) by (simp add: contains_str_def)
  ultimately show "optional_depth (before @ after) < optional_depth t"
    and "optional_depth (before @ ''/'' @ opt @ after) < optional_depth t"
    by (auto simp: optional_depth_def count_list_append)
qed

lemma expand_pass_bound:
  "expand_pass ts = Inr (next, changed) \<Longrightarrow> list_all (\<lambda>t. optional_depth t \<le> Suc b) ts \<Longrightarrow>
   list_all (\<lambda>t. optional_depth t \<le> b) next"
proof (induction ts arbitrary: "next" changed)
  case Nil
  then show ?case by simp
next
  case (Cons t ts)
  show ?case
  proof (cases "split_once ''(/'' t")
    case None
    then have "optional_depth t = 0" by (simp add: optional_depth_def contains_str_def)
    with Cons None show ?thesis by (auto simp: rmap_Inr_iff)
  next
    case (Some p)
    then obtain before tail where p: "split_once ''(/'' t = Some (before, tail)"
      by (cases p) auto
    with Cons.prems obtain opt after where q: "split_once '')'' tail = Some (opt, after)"
      by (auto split: option.splits)
    have "optional_depth (before @ after) \<le> b" "optional_depth (before @ ''/'' @ opt @ after) \<le> b"
      using optional_depth_smaller [OF p q] Cons.prems(2) by simp_all
    with Cons p q show ?thesis by (auto simp: rmap_Inr_iff)
  qed
qed

lemma expand_pass_changed:
  "expand_pass ts = Inr (next, changed) \<Longrightarrow>
   changed = list_ex (contains_str ''(/'') ts \<and> (\<not> changed \<longrightarrow> next = ts)"
  by (induction ts arbitrary: "next" changed)
    (auto simp: rmap_Inr_iff contains_str_def split: option.splits prod.splits)

lemma expand_pass_depth:
  assumes "expand_pass ts = Inr (next, True)"
  shows "expansions_depth next < expansions_depth ts"
proof -
  obtain t where t: "t \<in> set ts" "contains_str ''(/'' t"
    using expand_pass_changed [OF assms] by (auto simp: list_ex_iff)
  then have "0 < optional_depth t"
    by (auto simp: contains_str_def dest: optional_depth_pos)
  moreover have le: "list_all (\<lambda>t. optional_depth t \<le> expansions_depth ts) ts"
    using expansions_depth_le by blast
  ultimately have "0 < expansions_depth ts"
    using t(1) by (fastforce simp: list_all_iff)
  then obtain b where b: "expansions_depth ts = Suc b" by (cases "expansions_depth ts") auto
  then have "expansions_depth next \<le> b"
    using expand_pass_bound [OF assms, of b] le expansions_depth_le by simp
  with b show ?thesis by simp
qed

function expand_loop :: "string list \<Rightarrow> string list res" where
  "expand_loop expansions =
     (case expand_pass expansions of
        Inl e \<Rightarrow> Inl e
      | Inr (next, changed) \<Rightarrow>
          (if MAX_OPTIONAL_ROUTE_EXPANSIONS < length next
           then Inl (Internal ''OpenBao optional route expansion limit exceeded'')
           else if \<not> changed then Inr next
           else expand_loop next))"
  by pat_completeness auto
termination
  by (relation "measure expansions_depth") (auto dest: expand_pass_depth)

declare expand_loop.simps [simp del]

definition expand_optional_route_templates :: "string \<Rightarrow> string list res" where
  "expand_optional_route_templates template = expand_loop [template]"

section \<open>Whole templates\<close>

text \<open>The query constraints \<open>key=value\<close>, where a value starting with a colon is a placeholder.\<close>

fun query_matches :: "string list \<Rightarrow> (string \<times> string) list \<Rightarrow> bool res" where
  "query_matches [] query = Inr True"
| "query_matches (expected # rest) query =
     (case split_once ''='' expected of
        None \<Rightarrow> Inl (Internal ''OpenBao route template query is invalid'')
      | Some (expected_key, expected_value) \<Rightarrow>
          (if expected_key = [] \<or> expected_value = []
           then Inl (Internal ''OpenBao route template query is invalid'')
           else case map snd (filter (\<lambda>(key, value). key = expected_key) query) of
             [] \<Rightarrow> if prefix '':'' expected_value then query_matches rest query else Inr False
           | value # values \<Rightarrow>
               (if values \<noteq> [] \<or> prefix '':'' expected_value \<and> value = [] \<or>
                   \<not> prefix '':'' expected_value \<and> value \<noteq> expected_value
                then Inr False else query_matches rest query)))"

definition split_template :: "string \<Rightarrow> (string \<times> string option) res" where
  "split_template template =
     (case split_once ''?'' template of
        Some (path, query_template) \<Rightarrow>
          (if CHR ''?'' \<notin> set query_template then Inr (path, Some query_template)
           else Inl (Internal ''OpenBao route template query is invalid''))
      | None \<Rightarrow> Inr (template, None))"

definition route_template_matches ::
  "string \<Rightarrow> string list \<Rightarrow> (string \<times> string) list \<Rightarrow> bool res" where
  "route_template_matches template path_segments query =
     rbind (split_template template) (\<lambda>(path_template, query_template).
     rbind (expand_optional_route_templates path_template) (\<lambda>expanded.
       if \<not> list_ex (\<lambda>t. route_path_matches t path_segments) expanded then Inr False
       else case query_template of
         None \<Rightarrow> Inr True
       | Some q \<Rightarrow> query_matches (split_on CHR ''&'' q) query))"

definition route_template_specificity :: "string \<Rightarrow> nat" where
  "route_template_specificity template =
     (let (path, query) = (case split_once ''?'' template of
            None \<Rightarrow> (template, None) | Some (p, q) \<Rightarrow> (p, Some q));
          segments = filter (\<lambda>s. s \<noteq> []) (split_on CHR ''/'' path);
          static_segments =
            length (filter (\<lambda>s. \<not> prefix '':'' s \<and> \<not> prefix ''(/:'' s) segments)
      in (case query of None \<Rightarrow> 0 | Some q \<Rightarrow> length (split_on CHR ''&'' q) * 10000) +
         static_segments * 100 + length segments)"

section \<open>The matcher without its table\<close>

fun segments_match :: "string list \<Rightarrow> string list \<Rightarrow> bool" where
  "segments_match [] actual = (actual = [])"
| "segments_match (t # ts) actual =
     (if route_placeholder_is_multi_segment t
      then list_ex (\<lambda>k. segments_match ts (drop k actual)) [1..<Suc (length actual)]
      else case actual of
        [] \<Rightarrow> False
      | a # as \<Rightarrow> (is_placeholder t \<or> static_segment_matches t a) \<and> segments_match ts as)"

definition memo_shape :: "nat \<Rightarrow> nat \<Rightarrow> memo \<Rightarrow> bool" where
  "memo_shape n m memo \<longleftrightarrow> length memo = Suc n \<and> list_all (\<lambda>row. length row = Suc m) memo"

text \<open>Every entry of the table is the answer of the specification for its suffixes.\<close>

definition memo_ok :: "string list \<Rightarrow> string list \<Rightarrow> memo \<Rightarrow> bool" where
  "memo_ok T A memo \<longleftrightarrow> memo_shape (length T) (length A) memo \<and>
     (\<forall>ti ai r. ti \<le> length T \<longrightarrow> ai \<le> length A \<longrightarrow> memo ! ti ! ai = Some r \<longrightarrow>
        r = segments_match (drop ti T) (drop ai A))"

lemma memo_ok_new: "memo_ok T A (memo_new (length T) (length A))"
  by (auto simp: memo_ok_def memo_shape_def memo_new_def list_all_length simp del: replicate_Suc)

lemma memo_ok_set:
  assumes "memo_ok T A memo" "ti \<le> length T" "ai \<le> length A"
    and "r = segments_match (drop ti T) (drop ai A)"
  shows "memo_ok T A (memo_set memo ti ai r)"
proof -
  from assms(1) have shape: "length memo = Suc (length T)"
    "\<And>i. i \<le> length T \<Longrightarrow> length (memo ! i) = Suc (length A)"
    by (auto simp: memo_ok_def memo_shape_def list_all_length)
  then show ?thesis
    using assms
    by (auto simp: memo_ok_def memo_shape_def memo_set_def list_all_length nth_list_update)
qed

lemma list_ex_upt_shift:
  "ai \<le> length A \<Longrightarrow>
   list_ex (\<lambda>n. P (drop n A)) [Suc ai..<Suc (length A)] \<longleftrightarrow>
   list_ex (\<lambda>k. P (drop k (drop ai A))) [1..<Suc (length (drop ai A))]"
proof -
  assume "ai \<le> length A"
  then have "[Suc ai..<Suc (length A)] = map (\<lambda>k. k + ai) [1..<Suc (length (drop ai A))]"
    by (intro nth_equalityI) (auto simp del: upt_Suc)
  then show ?thesis by (simp only: list_ex_iff set_map bex_simps drop_drop)
qed

lemma match_at_correct:
  "ti \<le> length T \<Longrightarrow> ai \<le> length A \<Longrightarrow> memo_ok T A memo \<Longrightarrow>
   fst (route_segments_match_at T A ti ai memo) = segments_match (drop ti T) (drop ai A) \<and>
   memo_ok T A (snd (route_segments_match_at T A ti ai memo))"
  and match_any_correct:
  "ti \<le> length T \<Longrightarrow> list_all (\<lambda>n. n \<le> length A) ns \<Longrightarrow> memo_ok T A memo \<Longrightarrow>
   fst (match_any_at T A ti ns memo) = list_ex (\<lambda>n. segments_match (drop ti T) (drop n A)) ns \<and>
   memo_ok T A (snd (match_any_at T A ti ns memo))"
proof (induction T A ti ai memo and T A ti ns memo
    rule: route_segments_match_at_match_any_at.induct)
  case (1 T A ti ai memo)
  show ?case
  proof (cases "memo ! ti ! ai")
    case (Some r)
    with 1 show ?thesis
      by (subst (1 2) route_segments_match_at.simps) (auto simp: memo_ok_def)
  next
    case None
    let ?inner = "if length T \<le> ti then (ai = length A, memo)
        else if route_placeholder_is_multi_segment (T ! ti)
        then match_any_at T A (Suc ti) [Suc ai..<Suc (length A)] memo
        else if is_placeholder (T ! ti)
        then (if ai < length A then route_segments_match_at T A (Suc ti) (Suc ai) memo
              else (False, memo))
        else if ai = length A then (False, memo)
        else if static_segment_matches (T ! ti) (A ! ai)
        then route_segments_match_at T A (Suc ti) (Suc ai) memo
        else (False, memo)"
    have unfold: "route_segments_match_at T A ti ai memo =
        (fst ?inner, memo_set (snd ?inner) ti ai (fst ?inner))"
      by (subst route_segments_match_at.simps)
        (simp only: None option.case Let_def case_prod_beta)
    have inner: "fst ?inner = segments_match (drop ti T) (drop ai A) \<and> memo_ok T A (snd ?inner)"
    proof (cases "length T \<le> ti")
      case True
      with 1 show ?thesis by auto
    next
      case False
      then have T: "drop ti T = T ! ti # drop (Suc ti) T" by (simp add: Cons_nth_drop_Suc)
      have A: "drop ai A = A ! ai # drop (Suc ai) A" if "ai < length A"
        using that by (simp add: Cons_nth_drop_Suc)
      show ?thesis
      proof (cases "route_placeholder_is_multi_segment (T ! ti)")
        case True
        then have "fst ?inner = list_ex (\<lambda>n. segments_match (drop (Suc ti) T) (drop n A))
              [Suc ai..<Suc (length A)] \<and> memo_ok T A (snd ?inner)"
          using 1(1) [OF None False refl True] False 1(5)
          by (simp add: list_all_iff 1 del: upt_Suc)
        with True show ?thesis
          unfolding T list_ex_upt_shift [OF 1(5)] by simp
      next
        case multi: False
        show ?thesis
        proof (cases "ai < length A")
          case True
          then have "is_placeholder (T ! ti) \<or> static_segment_matches (T ! ti) (A ! ai) \<Longrightarrow>
              fst (route_segments_match_at T A (Suc ti) (Suc ai) memo) =
                segments_match (drop (Suc ti) T) (drop (Suc ai) A) \<and>
              memo_ok T A (snd (route_segments_match_at T A (Suc ti) (Suc ai) memo))"
            using 1(2) [OF None False refl multi] 1(3) [OF None False refl multi] False 1(6)
            by (cases "is_placeholder (T ! ti)") auto
          with multi False True 1(6) show ?thesis
            unfolding T A [OF True] by auto
        next
          case end_of_path: False
          with 1(5) have "ai = length A" by simp
          with multi False 1(6) show ?thesis unfolding T by simp
        qed
      qed
    qed
    then show ?thesis
      unfolding unfold using memo_ok_set [OF _ 1(4) 1(5), of "snd ?inner" "fst ?inner"] by simp
  qed
next
  case (2 T A ti memo)
  then show ?case by simp
next
  case (3 T A ti n ns memo)
  obtain r memo' where step: "route_segments_match_at T A ti n memo = (r, memo')"
    by (cases "route_segments_match_at T A ti n memo")
  with 3 show ?case by (cases r) auto
qed

lemma route_segments_match_spec: "route_segments_match T A = segments_match T A"
  using match_at_correct [of 0 T 0 A "memo_new (length T) (length A)"] memo_ok_new
  by (simp add: route_segments_match_def)

text \<open>A path matches when it can be cut into one block per template segment.\<close>

definition block_ok :: "string \<Rightarrow> string list \<Rightarrow> bool" where
  "block_ok t b \<longleftrightarrow>
     (if route_placeholder_is_multi_segment t then b \<noteq> []
      else \<exists>a. b = [a] \<and> (is_placeholder t \<or> static_segment_matches t a))"

lemma segments_match_blocks:
  "segments_match T A \<longleftrightarrow> (\<exists>bs. concat bs = A \<and> list_all2 block_ok T bs)"
proof (induction T arbitrary: A)
  case Nil
  then show ?case by auto
next
  case (Cons t ts)
  show ?case
  proof (cases "route_placeholder_is_multi_segment t")
    case True
    have "segments_match (t # ts) A \<longleftrightarrow>
        (\<exists>k. 1 \<le> k \<and> k \<le> length A \<and> (\<exists>bs. concat bs = drop k A \<and> list_all2 block_ok ts bs))"
      using True Cons by (auto simp: list_ex_iff simp del: upt_Suc)
    also have "\<dots> \<longleftrightarrow> (\<exists>b bs. b \<noteq> [] \<and> b @ concat bs = A \<and> list_all2 block_ok ts bs)"
    proof
      assume "\<exists>k. 1 \<le> k \<and> k \<le> length A \<and> (\<exists>bs. concat bs = drop k A \<and> list_all2 block_ok ts bs)"
      then obtain k bs where "1 \<le> k" "k \<le> length A" "concat bs = drop k A" "list_all2 block_ok ts bs"
        by blast
      then show "\<exists>b bs. b \<noteq> [] \<and> b @ concat bs = A \<and> list_all2 block_ok ts bs"
        by (intro exI [of _ "take k A"] exI [of _ bs]) auto
    next
      assume "\<exists>b bs. b \<noteq> [] \<and> b @ concat bs = A \<and> list_all2 block_ok ts bs"
      then obtain b bs where "b \<noteq> []" "b @ concat bs = A" "list_all2 block_ok ts bs" by blast
      then show "\<exists>k. 1 \<le> k \<and> k \<le> length A \<and> (\<exists>bs. concat bs = drop k A \<and> list_all2 block_ok ts bs)"
        by (intro exI [of _ "length b"]) (auto simp: Suc_le_eq)
    qed
    also have "\<dots> \<longleftrightarrow> (\<exists>b bs. block_ok t b \<and> b @ concat bs = A \<and> list_all2 block_ok ts bs)"
      using True by (simp add: block_ok_def)
    finally show ?thesis by (metis concat.simps(2) list_all2_Cons list_all2_Cons1)
  next
    case False
    have "segments_match (t # ts) A \<longleftrightarrow>
        (\<exists>b bs. block_ok t b \<and> b @ concat bs = A \<and> list_all2 block_ok ts bs)"
    proof -
      have "block_ok t b \<longleftrightarrow> (\<exists>a. b = [a] \<and> (is_placeholder t \<or> static_segment_matches t a))" for b
        using False by (simp add: block_ok_def)
      with False Cons.IH show ?thesis
        by (cases A) (simp, simp, metis append_Cons append_Nil concat.simps(2) list.inject)
    qed
    then show ?thesis by (metis concat.simps(2) list_all2_Cons list_all2_Cons1)
  qed
qed

text \<open>C34: The memoised matcher of the dispatcher accepts a request path exactly when the path can be
  cut into one block per template segment: a non-empty run of segments for a path or prefix
  placeholder, one segment for any other placeholder, and one equal (or alternative) segment for
  a literal.\<close>

theorem route_segments_match_iff:
  "route_segments_match T A \<longleftrightarrow> (\<exists>bs. concat bs = A \<and> list_all2 block_ok T bs)"
  unfolding route_segments_match_spec by (rule segments_match_blocks)

section \<open>What expansion computes\<close>

text \<open>The texts a template stands for: each optional part, leftmost first, is dropped or kept.\<close>

inductive expands_to :: "string \<Rightarrow> string \<Rightarrow> bool" where
  plain: "\<not> contains_str ''(/'' t \<Longrightarrow> expands_to t t"
| without: "split_once ''(/'' t = Some (before, tail) \<Longrightarrow> split_once '')'' tail = Some (opt, after) \<Longrightarrow>
    expands_to (before @ after) e \<Longrightarrow> expands_to t e"
| included: "split_once ''(/'' t = Some (before, tail) \<Longrightarrow> split_once '')'' tail = Some (opt, after) \<Longrightarrow>
    expands_to (before @ ''/'' @ opt @ after) e \<Longrightarrow> expands_to t e"

lemma expands_to_plain: "split_once ''(/'' t = None \<Longrightarrow> expands_to t e \<longleftrightarrow> e = t"
  by (subst expands_to.simps) (auto simp: contains_str_def)

lemma expands_to_optional:
  "split_once ''(/'' t = Some (before, tail) \<Longrightarrow> split_once '')'' tail = Some (opt, after) \<Longrightarrow>
   expands_to t e \<longleftrightarrow> expands_to (before @ after) e \<or> expands_to (before @ ''/'' @ opt @ after) e"
  by (subst expands_to.simps) (auto simp: contains_str_def)

lemma expand_pass_expands:
  "expand_pass ts = Inr (next, changed) \<Longrightarrow>
   (\<exists>t \<in> set next. expands_to t e) \<longleftrightarrow> (\<exists>t \<in> set ts. expands_to t e)"
proof (induction ts arbitrary: "next" changed)
  case Nil
  then show ?case by simp
next
  case (Cons t ts)
  show ?case
  proof (cases "split_once ''(/'' t")
    case None
    with Cons show ?thesis by (auto simp: rmap_Inr_iff)
  next
    case (Some p)
    then obtain before tail where p: "split_once ''(/'' t = Some (before, tail)"
      by (cases p) auto
    with Cons.prems obtain opt after where q: "split_once '')'' tail = Some (opt, after)"
      by (auto split: option.splits)
    with Cons.prems p obtain more changed' where rest: "expand_pass ts = Inr (more, changed')"
      and "next": "next = (before @ after) # (before @ ''/'' @ opt @ after) # more"
      by (auto simp: rmap_Inr_iff)
    show ?thesis
      using Cons.IH [OF rest] by (simp add: "next" expands_to_optional [OF p q])
  qed
qed

lemma expand_loop_expands:
  "expand_loop ts = Inr es \<Longrightarrow>
   length es \<le> MAX_OPTIONAL_ROUTE_EXPANSIONS \<and> list_all (\<lambda>e. \<not> contains_str ''(/'' e) es \<and>
   (\<forall>e. e \<in> set es \<longleftrightarrow> (\<exists>t \<in> set ts. expands_to t e))"
proof (induction ts rule: expand_loop.induct)
  case (1 ts)
  then obtain "next" changed where pass: "expand_pass ts = Inr (next, changed)"
    and len: "length next \<le> MAX_OPTIONAL_ROUTE_EXPANSIONS"
    by (subst (asm) (2) expand_loop.simps)
      (auto split: sum.splits if_splits)
  show ?case
  proof (cases changed)
    case True
    with 1 pass len have "expand_loop next = Inr es"
      by (subst (asm) (2) expand_loop.simps) simp
    with 1 pass len True show ?thesis
      using expand_pass_expands [OF pass] by simp
  next
    case False
    with 1(2) pass len have es: "es = next"
      by (subst (asm) expand_loop.simps) simp
    have "next = ts" "\<not> list_ex (contains_str ''(/'') ts"
      using expand_pass_changed [OF pass] False by auto
    moreover from this have "split_once ''(/'' t = None" if "t \<in> set ts" for t
      using that unfolding contains_str_def list_ex_iff by blast
    ultimately show ?thesis
      using len es by (simp add: list_all_iff contains_str_def expands_to_plain)
  qed
qed

text \<open>When the optional parts of a template expand, the result is exactly the set of texts in
  which every optional part is dropped or kept; there are at most eight, none with an optional
  part left.\<close>

theorem expand_optional_route_templates_sound:
  assumes "expand_optional_route_templates template = Inr es"
  shows "length es \<le> MAX_OPTIONAL_ROUTE_EXPANSIONS \<and>
    list_all (\<lambda>e. \<not> contains_str ''(/'' e) es \<and> set es = {e. expands_to template e}"
proof -
  have "length es \<le> MAX_OPTIONAL_ROUTE_EXPANSIONS \<and> list_all (\<lambda>e. \<not> contains_str ''(/'' e) es \<and>
      (\<forall>e. e \<in> set es \<longleftrightarrow> (\<exists>t \<in> set [template]. expands_to t e))"
    using assms unfolding expand_optional_route_templates_def by (rule expand_loop_expands)
  then show ?thesis by auto
qed

theorem expand_optional_route_templates_witness:
  "{e. expands_to ''/a(/:b)(/c)'' e} = {''/a'', ''/a/c'', ''/a/:b'', ''/a/:b/c''}"
proof -
  have pass1: "expand_pass [''/a(/:b)(/c)''] = Inr ([''/a(/c)'', ''/a/:b(/c)''], True)"
    and pass2: "expand_pass [''/a(/c)'', ''/a/:b(/c)''] =
      Inr ([''/a'', ''/a/c'', ''/a/:b'', ''/a/:b/c''], True)"
    and pass3: "expand_pass [''/a'', ''/a/c'', ''/a/:b'', ''/a/:b/c''] =
      Inr ([''/a'', ''/a/c'', ''/a/:b'', ''/a/:b/c''], False)"
    by code_simp+
  have "expand_optional_route_templates ''/a(/:b)(/c)'' =
      Inr [''/a'', ''/a/c'', ''/a/:b'', ''/a/:b/c'']"
    unfolding expand_optional_route_templates_def
    by (simp add: expand_loop.simps pass1 pass2 pass3 MAX_OPTIONAL_ROUTE_EXPANSIONS_def
        del: expand_pass.simps)
  from expand_optional_route_templates_sound [OF this] show ?thesis by auto
qed

section \<open>Query constraints\<close>

text \<open>One constraint: a literal must be given exactly once with that value, a placeholder may be
  missing or given once with a non-empty value.\<close>

definition query_constraint_ok :: "(string \<times> string) list \<Rightarrow> string \<Rightarrow> bool" where
  "query_constraint_ok query expected \<longleftrightarrow>
     (\<exists>k v. split_once ''='' expected = Some (k, v) \<and> k \<noteq> [] \<and> v \<noteq> [] \<and>
       (let given = map snd (filter (\<lambda>(key, value). key = k) query) in
        if prefix '':'' v then given = [] \<or> (\<exists>x. given = [x] \<and> x \<noteq> []) else given = [v]))"

lemma query_matches_iff:
  "query_matches es query = Inr True \<longleftrightarrow> list_all (query_constraint_ok query) es"
proof (induction es)
  case Nil
  then show ?case by simp
next
  case (Cons x es)
  show ?case
  proof (cases "split_once ''='' x")
    case None
    then have "\<not> query_constraint_ok query x"
      unfolding query_constraint_ok_def by (simp del: split_once_char_None)
    moreover have "query_matches (x # es) query \<noteq> Inr True"
      using None by (simp del: split_once_char_None)
    ultimately show ?thesis by simp
  next
    case (Some p)
    then obtain k v where x: "split_once ''='' x = Some (k, v)" by (cases p) auto
    with Cons show ?thesis
      by (cases "map snd (filter (\<lambda>(key, value). key = k) query)")
        (auto simp: query_constraint_ok_def Let_def)
  qed
qed

text \<open>A request matches a template exactly when its path matches one of the texts the template
  stands for and its query meets every constraint of the template's query part.\<close>

theorem route_template_matches_iff:
  "route_template_matches template path query = Inr True \<longleftrightarrow>
     (\<exists>p q es. split_template template = Inr (p, q) \<and>
        expand_optional_route_templates p = Inr es \<and>
        list_ex (\<lambda>t. route_path_matches t path) es \<and>
        is_none_or (\<lambda>q. list_all (query_constraint_ok query) (split_on CHR ''&'' q)) q)"
proof -
  have "rbind (expand_optional_route_templates p) (\<lambda>expanded.
       if \<not> list_ex (\<lambda>t. route_path_matches t path) expanded then Inr False
       else case q of None \<Rightarrow> Inr True
       | Some q \<Rightarrow> query_matches (split_on CHR ''&'' q) query) = Inr True \<longleftrightarrow>
      (\<exists>es. expand_optional_route_templates p = Inr es \<and>
        list_ex (\<lambda>t. route_path_matches t path) es \<and>
        is_none_or (\<lambda>q. list_all (query_constraint_ok query) (split_on CHR ''&'' q)) q)" for p q
    by (cases q) (auto simp: rbind_Inr_iff query_matches_iff)
  then show ?thesis
    by (cases "split_template template")
      (auto simp: route_template_matches_def)
qed

end
