(* ===== verification/Bao_Fields.thy ===== *)
theory Bao_Fields
  imports Bao_Versions
begin

text \<open>
  \<open>request_compatibility.rs\<close>: the reviewed request fields and the releases that accept them,
  and \<open>validate_versioned_request_fields\<close> of \<open>client.rs\<close>, which every typed endpoint with
  versioned fields goes through before it sends a request.
\<close>

section \<open>Rules\<close>

record versioned_request_field =
  vf_endpoint :: string
  vf_field :: string
  vf_minimum :: openbao_version
  vf_maximum :: "openbao_version option"
  vf_resumed_at :: "openbao_version option"

definition field_since :: "string \<Rightarrow> string \<Rightarrow> openbao_version \<Rightarrow> versioned_request_field" where
  "field_since endpoint field lo =
     \<lparr>vf_endpoint = endpoint, vf_field = field, vf_minimum = lo, vf_maximum = None,
      vf_resumed_at = None\<rparr>"

definition field_between ::
  "string \<Rightarrow> string \<Rightarrow> openbao_version \<Rightarrow> openbao_version \<Rightarrow> versioned_request_field" where
  "field_between endpoint field lo hi =
     \<lparr>vf_endpoint = endpoint, vf_field = field, vf_minimum = lo, vf_maximum = Some hi,
      vf_resumed_at = None\<rparr>"

definition field_split_since ::
  "string \<Rightarrow> string \<Rightarrow> openbao_version \<Rightarrow> openbao_version \<Rightarrow> openbao_version \<Rightarrow>
   versioned_request_field" where
  "field_split_since endpoint field lo hi resumed =
     \<lparr>vf_endpoint = endpoint, vf_field = field, vf_minimum = lo, vf_maximum = Some hi,
      vf_resumed_at = Some resumed\<rparr>"

definition field_supports :: "versioned_request_field \<Rightarrow> openbao_version \<Rightarrow> bool" where
  "field_supports rule version \<longleftrightarrow>
     vf_minimum rule \<le> version \<and> is_none_or (\<lambda>hi. version \<le> hi) (vf_maximum rule) \<or>
     is_some_and (\<lambda>lo. lo \<le> version) (vf_resumed_at rule)"

definition field_error :: "versioned_request_field \<Rightarrow> openbao_version \<Rightarrow> error" where
  "field_error rule version =
     UnsupportedOpenBaoRequestField (vf_endpoint rule) (vf_field rule) version"

definition selected_minimum :: "versioned_request_field \<Rightarrow> openbao_version \<Rightarrow> openbao_version" where
  "selected_minimum rule version =
     (case vf_resumed_at rule of
        Some resumed \<Rightarrow> if resumed \<le> version then resumed else vf_minimum rule
      | None \<Rightarrow> vf_minimum rule)"

definition validate_selection ::
  "versioned_request_field \<Rightarrow> openbao_version \<Rightarrow> compatibility_status \<Rightarrow> unit res" where
  "validate_selection rule version status =
     (if OpenBaoVersion 2 7 0 \<le> selected_minimum rule version \<and>
         \<not> (status = Verified \<or> status = Assumed)
      then Inl (field_error rule version) else Inr ())"

fun validate_request_fields ::
  "openbao_version \<Rightarrow> (versioned_request_field \<times> bool) list \<Rightarrow> unit res" where
  "validate_request_fields version [] = Inr ()"
| "validate_request_fields version ((rule, is_selected) # rest) =
     (if is_selected \<and> \<not> field_supports rule version then Inl (field_error rule version)
      else validate_request_fields version rest)"

fun validate_selections ::
  "openbao_version \<Rightarrow> compatibility_status \<Rightarrow> (versioned_request_field \<times> bool) list \<Rightarrow>
   unit res" where
  "validate_selections version status [] = Inr ()"
| "validate_selections version status ((rule, selected) # rest) =
     rbind (if selected then validate_selection rule version status else Inr ())
       (\<lambda>_. validate_selections version status rest)"

text \<open>
  \<open>Client::validate_versioned_request_fields\<close> after \<open>ensure_compatibility\<close> returned \<open>report\<close>:
  an unverified client without a profile uses the legacy one.
\<close>

definition report_version :: "compatibility_report \<Rightarrow> openbao_version option" where
  "report_version report =
     (case profile_version report of
        Some v \<Rightarrow> Some v
      | None \<Rightarrow> if report_status report = Unverified then legacy_unverified_profile else None)"

definition validate_versioned_request_fields ::
  "compatibility_report \<Rightarrow> (versioned_request_field \<times> bool) list \<Rightarrow> unit res" where
  "validate_versioned_request_fields report fs =
     rbind (ok_or (report_version report)
         (Internal ''OpenBao compatibility report has no request-field profile'')) (\<lambda>version.
       if \<not> is_routable_profile version then Inl (UnsupportedOpenBaoVersion version)
       else rbind (validate_selections version (report_status report) fs) (\<lambda>_.
         validate_request_fields version fs))"

section \<open>The reviewed fields\<close>

definition JWT_CONFIG_SKIP_JWKS_VALIDATION :: versioned_request_field where
  "JWT_CONFIG_SKIP_JWKS_VALIDATION =
     field_since ''auth.jwt.config'' ''skip_jwks_validation'' (OpenBaoVersion 2 3 1)"

definition JWT_CONFIG_OVERRIDE_ALLOWED_SERVER_NAMES :: versioned_request_field where
  "JWT_CONFIG_OVERRIDE_ALLOWED_SERVER_NAMES =
     field_since ''auth.jwt.config'' ''override_allowed_server_names'' (OpenBaoVersion 2 4 0)"

definition JWT_CONFIG_KUBERNETES_PROVIDER :: versioned_request_field where
  "JWT_CONFIG_KUBERNETES_PROVIDER =
     field_since ''auth.jwt.config'' ''provider_config.kubernetes'' (OpenBaoVersion 2 6 0)"

definition JWT_ROLE_CALLBACK_MODE :: versioned_request_field where
  "JWT_ROLE_CALLBACK_MODE =
     field_since ''auth.jwt.role'' ''callback_mode'' (OpenBaoVersion 2 1 0)"

definition JWT_ROLE_POLL_INTERVAL :: versioned_request_field where
  "JWT_ROLE_POLL_INTERVAL =
     field_since ''auth.jwt.role'' ''poll_interval'' (OpenBaoVersion 2 1 0)"

definition JWT_ROLE_TOKEN_POLICY_TEMPLATES :: versioned_request_field where
  "JWT_ROLE_TOKEN_POLICY_TEMPLATES =
     field_since ''auth.jwt.role'' ''token_policies_template_claims'' (OpenBaoVersion 2 1 0)"

definition JWT_ROLE_DISABLE_CONFIRMATION :: versioned_request_field where
  "JWT_ROLE_DISABLE_CONFIRMATION =
     field_since ''auth.jwt.role'' ''oidc_disable_confirmation'' (OpenBaoVersion 2 5 2)"

definition USERPASS_USER_PASSWORD_HASH :: versioned_request_field where
  "USERPASS_USER_PASSWORD_HASH =
     field_since ''auth.userpass.user'' ''password_hash'' (OpenBaoVersion 2 6 0)"

definition USERPASS_PASSWORD_PASSWORD_HASH :: versioned_request_field where
  "USERPASS_PASSWORD_PASSWORD_HASH =
     field_since ''auth.userpass.password'' ''password_hash'' (OpenBaoVersion 2 6 0)"

definition KERBEROS_CONFIG_DECODE_PAC :: versioned_request_field where
  "KERBEROS_CONFIG_DECODE_PAC =
     field_since ''auth.kerberos.config'' ''decode_pac'' (OpenBaoVersion 2 6 0)"

definition IDENTITY_PROVIDER_TOKEN_SCOPE :: versioned_request_field where
  "IDENTITY_PROVIDER_TOKEN_SCOPE =
     field_since ''identity.oidc.provider.token'' ''scope'' (OpenBaoVersion 2 5 0)"

definition SSH_ROLE_ALLOW_EMPTY_PRINCIPALS :: versioned_request_field where
  "SSH_ROLE_ALLOW_EMPTY_PRINCIPALS =
     field_since ''ssh.role'' ''allow_empty_principals'' (OpenBaoVersion 2 0 2)"

definition SSH_ROLE_ISSUER_REF :: versioned_request_field where
  "SSH_ROLE_ISSUER_REF =
     field_since ''ssh.role'' ''issuer_ref'' (OpenBaoVersion 2 3 1)"

definition SSH_ROLE_ALLOW_TEMPLATE_COMMAS :: versioned_request_field where
  "SSH_ROLE_ALLOW_TEMPLATE_COMMAS =
     field_since ''ssh.role'' ''allow_commas_in_identity_templates'' (OpenBaoVersion 2 6 0)"

definition SSH_ROLE_ALLOW_TEMPLATE_WILDCARDS :: versioned_request_field where
  "SSH_ROLE_ALLOW_TEMPLATE_WILDCARDS =
     field_split_since ''ssh.role'' ''allow_wildcards_in_identity_templates'' (OpenBaoVersion 2 6 5) (OpenBaoVersion 2 6 5) (OpenBaoVersion 2 7 2)"

definition POLICY_EXPIRATION :: versioned_request_field where
  "POLICY_EXPIRATION =
     field_since ''sys.policy.write'' ''expiration'' (OpenBaoVersion 2 3 1)"

definition POLICY_TTL :: versioned_request_field where
  "POLICY_TTL =
     field_since ''sys.policy.write'' ''ttl'' (OpenBaoVersion 2 3 1)"

definition POLICY_CAS :: versioned_request_field where
  "POLICY_CAS =
     field_since ''sys.policy.write'' ''cas'' (OpenBaoVersion 2 3 1)"

definition POLICY_CAS_REQUIRED :: versioned_request_field where
  "POLICY_CAS_REQUIRED =
     field_since ''sys.policy.write'' ''cas_required'' (OpenBaoVersion 2 3 1)"

definition POLICY_ALLOW_TEMPLATE_SLASHES :: versioned_request_field where
  "POLICY_ALLOW_TEMPLATE_SLASHES =
     field_since ''sys.policy.write'' ''allow_slashes_in_identity_templates'' (OpenBaoVersion 2 6 0)"

definition POLICY_ALLOW_TEMPLATE_WILDCARDS :: versioned_request_field where
  "POLICY_ALLOW_TEMPLATE_WILDCARDS =
     field_since ''sys.policy.write'' ''allow_wildcards_in_identity_templates'' (OpenBaoVersion 2 6 0)"

definition OPERATOR_INIT_STORED_SHARES :: versioned_request_field where
  "OPERATOR_INIT_STORED_SHARES =
     field_between ''sys.init'' ''stored_shares'' (OpenBaoVersion 2 0 0) (OpenBaoVersion 2 5 5)"

definition OPERATOR_REKEY_STORED_SHARES :: versioned_request_field where
  "OPERATOR_REKEY_STORED_SHARES =
     field_between ''sys.rekey'' ''stored_shares'' (OpenBaoVersion 2 0 0) (OpenBaoVersion 2 5 5)"

definition CORS_ALLOW_CREDENTIALS :: versioned_request_field where
  "CORS_ALLOW_CREDENTIALS =
     field_since ''sys.config.cors'' ''allow_credentials'' (OpenBaoVersion 2 6 0)"

definition NAMESPACE_SEAL_CONFIG :: versioned_request_field where
  "NAMESPACE_SEAL_CONFIG =
     field_since ''sys.namespaces.create'' ''seal'' (OpenBaoVersion 2 6 0)"

definition RAFT_JOIN_NON_VOTER :: versioned_request_field where
  "RAFT_JOIN_NON_VOTER =
     field_since ''sys.storage.raft.join'' ''non_voter'' (OpenBaoVersion 2 2 0)"

definition ROTATION_INTERVAL :: versioned_request_field where
  "ROTATION_INTERVAL =
     field_since ''sys.rotate.config'' ''interval'' (OpenBaoVersion 2 4 0)"

definition PLUGIN_OCI :: versioned_request_field where
  "PLUGIN_OCI =
     field_since ''sys.plugins.catalog.register'' ''oci'' (OpenBaoVersion 2 5 0)"

definition RAW_UNCOMPRESSED_WRITE :: versioned_request_field where
  "RAW_UNCOMPRESSED_WRITE =
     field_since ''sys.raw.write'' ''compression_type=none'' (OpenBaoVersion 2 6 3)"

definition TRANSIT_DATA_KEY_ASSOCIATED_DATA :: versioned_request_field where
  "TRANSIT_DATA_KEY_ASSOCIATED_DATA =
     field_since ''transit.datakey'' ''associated_data'' (OpenBaoVersion 2 5 0)"

definition PKI_AUTHORITY_NOT_BEFORE :: versioned_request_field where
  "PKI_AUTHORITY_NOT_BEFORE =
     field_since ''pki.authority.generate'' ''not_before'' (OpenBaoVersion 2 1 0)"

definition PKI_SIGN_VERBATIM_NOT_BEFORE :: versioned_request_field where
  "PKI_SIGN_VERBATIM_NOT_BEFORE =
     field_since ''pki.sign_verbatim'' ''not_before'' (OpenBaoVersion 2 1 0)"

definition PKI_ROLE_NOT_BEFORE :: versioned_request_field where
  "PKI_ROLE_NOT_BEFORE =
     field_since ''pki.role'' ''not_before'' (OpenBaoVersion 2 1 0)"

definition PKI_ROLE_NOT_BEFORE_BOUND :: versioned_request_field where
  "PKI_ROLE_NOT_BEFORE_BOUND =
     field_since ''pki.role'' ''not_before_bound'' (OpenBaoVersion 2 3 1)"

definition PKI_ROLE_NOT_AFTER_BOUND :: versioned_request_field where
  "PKI_ROLE_NOT_AFTER_BOUND =
     field_since ''pki.role'' ''not_after_bound'' (OpenBaoVersion 2 3 1)"

definition PKI_ROLE_ALLOWED_IP_SANS_CIDR :: versioned_request_field where
  "PKI_ROLE_ALLOWED_IP_SANS_CIDR =
     field_since ''pki.role'' ''allowed_ip_sans_cidr'' (OpenBaoVersion 2 5 0)"

definition PKI_ROLE_ALLOW_TEMPLATE_GLOBS :: versioned_request_field where
  "PKI_ROLE_ALLOW_TEMPLATE_GLOBS =
     field_since ''pki.role'' ''allow_globs_in_identity_templates'' (OpenBaoVersion 2 6 0)"

definition PKI_TIDY_INVALID_CERTS :: versioned_request_field where
  "PKI_TIDY_INVALID_CERTS =
     field_since ''pki.tidy'' ''tidy_invalid_certs'' (OpenBaoVersion 2 1 0)"

definition PKI_TIDY_PAGE_SIZE :: versioned_request_field where
  "PKI_TIDY_PAGE_SIZE =
     field_since ''pki.tidy'' ''page_size'' (OpenBaoVersion 2 2 0)"

definition PKI_AUTO_TIDY_INVALID_CERTS :: versioned_request_field where
  "PKI_AUTO_TIDY_INVALID_CERTS =
     field_since ''pki.config.auto_tidy'' ''tidy_invalid_certs'' (OpenBaoVersion 2 1 0)"

definition PKI_AUTO_TIDY_REVOKED_SAFETY_BUFFER :: versioned_request_field where
  "PKI_AUTO_TIDY_REVOKED_SAFETY_BUFFER =
     field_since ''pki.config.auto_tidy'' ''revoked_safety_buffer'' (OpenBaoVersion 2 1 0)"

definition PKI_AUTO_TIDY_PAGE_SIZE :: versioned_request_field where
  "PKI_AUTO_TIDY_PAGE_SIZE =
     field_since ''pki.config.auto_tidy'' ''page_size'' (OpenBaoVersion 2 2 0)"

definition ALL_FIELDS :: "versioned_request_field list" where
  "ALL_FIELDS =
     [JWT_CONFIG_SKIP_JWKS_VALIDATION, JWT_CONFIG_OVERRIDE_ALLOWED_SERVER_NAMES,
      JWT_CONFIG_KUBERNETES_PROVIDER, JWT_ROLE_CALLBACK_MODE,
      JWT_ROLE_POLL_INTERVAL, JWT_ROLE_TOKEN_POLICY_TEMPLATES,
      JWT_ROLE_DISABLE_CONFIRMATION, USERPASS_USER_PASSWORD_HASH,
      USERPASS_PASSWORD_PASSWORD_HASH, KERBEROS_CONFIG_DECODE_PAC,
      IDENTITY_PROVIDER_TOKEN_SCOPE, SSH_ROLE_ALLOW_EMPTY_PRINCIPALS,
      SSH_ROLE_ISSUER_REF, SSH_ROLE_ALLOW_TEMPLATE_COMMAS,
      SSH_ROLE_ALLOW_TEMPLATE_WILDCARDS, POLICY_EXPIRATION,
      POLICY_TTL, POLICY_CAS,
      POLICY_CAS_REQUIRED, POLICY_ALLOW_TEMPLATE_SLASHES,
      POLICY_ALLOW_TEMPLATE_WILDCARDS, OPERATOR_INIT_STORED_SHARES,
      OPERATOR_REKEY_STORED_SHARES, CORS_ALLOW_CREDENTIALS,
      NAMESPACE_SEAL_CONFIG, RAFT_JOIN_NON_VOTER,
      ROTATION_INTERVAL, PLUGIN_OCI,
      RAW_UNCOMPRESSED_WRITE, TRANSIT_DATA_KEY_ASSOCIATED_DATA,
      PKI_AUTHORITY_NOT_BEFORE, PKI_SIGN_VERBATIM_NOT_BEFORE,
      PKI_ROLE_NOT_BEFORE, PKI_ROLE_NOT_BEFORE_BOUND,
      PKI_ROLE_NOT_AFTER_BOUND, PKI_ROLE_ALLOWED_IP_SANS_CIDR,
      PKI_ROLE_ALLOW_TEMPLATE_GLOBS, PKI_TIDY_INVALID_CERTS,
      PKI_TIDY_PAGE_SIZE, PKI_AUTO_TIDY_INVALID_CERTS,
      PKI_AUTO_TIDY_REVOKED_SAFETY_BUFFER, PKI_AUTO_TIDY_PAGE_SIZE]"

lemmas field_defs =
  JWT_CONFIG_SKIP_JWKS_VALIDATION_def JWT_CONFIG_OVERRIDE_ALLOWED_SERVER_NAMES_def
  JWT_CONFIG_KUBERNETES_PROVIDER_def JWT_ROLE_CALLBACK_MODE_def JWT_ROLE_POLL_INTERVAL_def
  JWT_ROLE_TOKEN_POLICY_TEMPLATES_def JWT_ROLE_DISABLE_CONFIRMATION_def
  USERPASS_USER_PASSWORD_HASH_def USERPASS_PASSWORD_PASSWORD_HASH_def
  KERBEROS_CONFIG_DECODE_PAC_def IDENTITY_PROVIDER_TOKEN_SCOPE_def
  SSH_ROLE_ALLOW_EMPTY_PRINCIPALS_def SSH_ROLE_ISSUER_REF_def SSH_ROLE_ALLOW_TEMPLATE_COMMAS_def
  SSH_ROLE_ALLOW_TEMPLATE_WILDCARDS_def POLICY_EXPIRATION_def POLICY_TTL_def POLICY_CAS_def
  POLICY_CAS_REQUIRED_def POLICY_ALLOW_TEMPLATE_SLASHES_def POLICY_ALLOW_TEMPLATE_WILDCARDS_def
  OPERATOR_INIT_STORED_SHARES_def OPERATOR_REKEY_STORED_SHARES_def CORS_ALLOW_CREDENTIALS_def
  NAMESPACE_SEAL_CONFIG_def RAFT_JOIN_NON_VOTER_def ROTATION_INTERVAL_def PLUGIN_OCI_def
  RAW_UNCOMPRESSED_WRITE_def TRANSIT_DATA_KEY_ASSOCIATED_DATA_def PKI_AUTHORITY_NOT_BEFORE_def
  PKI_SIGN_VERBATIM_NOT_BEFORE_def PKI_ROLE_NOT_BEFORE_def PKI_ROLE_NOT_BEFORE_BOUND_def
  PKI_ROLE_NOT_AFTER_BOUND_def PKI_ROLE_ALLOWED_IP_SANS_CIDR_def
  PKI_ROLE_ALLOW_TEMPLATE_GLOBS_def PKI_TIDY_INVALID_CERTS_def PKI_TIDY_PAGE_SIZE_def
  PKI_AUTO_TIDY_INVALID_CERTS_def PKI_AUTO_TIDY_REVOKED_SAFETY_BUFFER_def
  PKI_AUTO_TIDY_PAGE_SIZE_def

section \<open>Properties\<close>

lemma validate_request_fields_ok:
  "validate_request_fields v fs = Inr () \<longleftrightarrow>
     list_all (\<lambda>(rule, sel). sel \<longrightarrow> field_supports rule v) fs"
  by (induction v fs rule: validate_request_fields.induct) auto

lemma validate_request_fields_error:
  "validate_request_fields v fs = Inl e \<longleftrightarrow>
     (\<exists>rule. List.find (\<lambda>(rule, sel). sel \<and> \<not> field_supports rule v) fs = Some (rule, True) \<and>
       e = field_error rule v)"
  by (induction v fs rule: validate_request_fields.induct) auto

lemma validate_selections_ok:
  "validate_selections v st fs = Inr () \<longleftrightarrow>
     list_all (\<lambda>(rule, sel). sel \<longrightarrow> OpenBaoVersion 2 7 0 \<le> selected_minimum rule v \<longrightarrow>
       st = Verified \<or> st = Assumed) fs"
  by (induction v st fs rule: validate_selections.induct) (auto simp: validate_selection_def)

text \<open>The dispatcher lets a set of versioned fields through exactly when the report has a
  routable release, every selected field is supported by it, and a field introduced at 2.7.0 or
  later comes with a verified or assumed release.\<close>

theorem validate_versioned_request_fields_iff:
  "validate_versioned_request_fields report fs = Inr () \<longleftrightarrow>
     (\<exists>v. report_version report = Some v \<and> is_routable_profile v \<and>
       list_all (\<lambda>(rule, sel). if sel then field_supports rule v \<and>
         (selected_minimum rule v < OpenBaoVersion 2 7 0 \<or>
          report_status report \<in> {Verified, Assumed}) else True) fs)"
proof -
  have split: "list_all (\<lambda>(rule, sel). sel \<longrightarrow> OpenBaoVersion 2 7 0 \<le> selected_minimum rule v \<longrightarrow>
        st = Verified \<or> st = Assumed) fs \<and>
      list_all (\<lambda>(rule, sel). sel \<longrightarrow> field_supports rule v) fs \<longleftrightarrow>
      list_all (\<lambda>(rule, sel). if sel then field_supports rule v \<and>
         (selected_minimum rule v < OpenBaoVersion 2 7 0 \<or> st \<in> {Verified, Assumed})
         else True) fs" for v st fs
    unfolding list_all_iff not_le [symmetric] by fastforce
  have "validate_versioned_request_fields report fs = Inr () \<longleftrightarrow>
     (\<exists>v. report_version report = Some v \<and> is_routable_profile v \<and>
       validate_selections v (report_status report) fs = Inr () \<and>
       validate_request_fields v fs = Inr ())"
    by (cases "report_version report")
      (auto simp: validate_versioned_request_fields_def res_simps)
  then show ?thesis
    unfolding validate_selections_ok validate_request_fields_ok split .
qed

lemma all_fields_identities:
  "distinct (map (\<lambda>r. (vf_endpoint r, vf_field r)) ALL_FIELDS)"
  by (simp add: ALL_FIELDS_def field_defs field_since_def field_between_def field_split_since_def)

lemma all_fields_first_release:
  "list_all (\<lambda>r. is_routable_profile (vf_minimum r) \<and> field_supports r (vf_minimum r) \<and>
     \<not> field_supports r (OpenBaoVersion 1 0 0)) ALL_FIELDS"
  by (simp add: ALL_FIELDS_def field_defs field_since_def field_between_def field_split_since_def
      is_routable_profile_iff GENERATED_ROUTABLE_PROFILE_VERSIONS_def field_supports_def)

text \<open>The 42 reviewed fields have distinct identities, and each starts at a release of the
  inventory that supports it.\<close>

theorem reviewed_fields_ok:
  "length ALL_FIELDS = 42 \<and> distinct (map (\<lambda>r. (vf_endpoint r, vf_field r)) ALL_FIELDS) \<and>
   list_all (\<lambda>r. is_routable_profile (vf_minimum r) \<and> field_supports r (vf_minimum r)) ALL_FIELDS"
  using all_fields_first_release all_fields_identities
  by (simp add: list_all_iff) (simp add: ALL_FIELDS_def)

text \<open>A rule with one interval is a version interval; the split rule is the union of two.\<close>

lemma field_since_supports [simp]: "field_supports (field_since e f lo) v \<longleftrightarrow> lo \<le> v"
  by (simp add: field_supports_def field_since_def)

lemma field_between_supports [simp]:
  "field_supports (field_between e f lo hi) v \<longleftrightarrow> lo \<le> v \<and> v \<le> hi"
  by (simp add: field_supports_def field_between_def)

lemma field_split_supports [simp]:
  "field_supports (field_split_since e f lo hi r) v \<longleftrightarrow> lo \<le> v \<and> v \<le> hi \<or> r \<le> v"
  by (simp add: field_supports_def field_split_since_def)

end
