(* ===== verification/Bao_Dispatch.thy ===== *)
theory Bao_Dispatch
  imports Bao_Registry Bao_Routes Bao_Fields
begin

text \<open>
  The typed dispatcher of \<open>client.rs\<close>: how a logical endpoint, or a request with its mount, is
  bound to one operation of the registry for the release the compatibility report selects. The
  operation table is the parameter \<open>ops\<close>, the outcome of \<open>ensure_compatibility\<close> is \<open>ensured\<close>, and
  a request method is its HTTP text.
\<close>

section \<open>Endpoint specifications\<close>

definition MAX_ENDPOINT_ID_BYTES :: nat where
  "MAX_ENDPOINT_ID_BYTES = 192"

definition MAX_ENDPOINT_VARIANTS :: nat where
  "MAX_ENDPOINT_VARIANTS = 16"

declare MAX_ENDPOINT_ID_BYTES_def [limits] MAX_ENDPOINT_VARIANTS_def [limits]

fun reqwest_method :: "http_method \<Rightarrow> string res" where
  "reqwest_method MAcme = Inl (Internal ''ACME protocol operations cannot use typed HTTP dispatch'')"
| "reqwest_method m = Inr (method_as_str m)"

definition endpoint_id_ok :: "string \<Rightarrow> bool" where
  "endpoint_id_ok i \<longleftrightarrow>
     i \<noteq> [] \<and> length i \<le> MAX_ENDPOINT_ID_BYTES \<and> is_ascii i \<and>
     list_all (\<lambda>b. is_ascii_lowercase b \<or> is_ascii_digit b \<or> b \<in> set ''._-'') i"

definition variant_evidence_ok :: "operation \<Rightarrow> endpoint_variant \<Rightarrow> bool" where
  "variant_evidence_ok operation variant \<longleftrightarrow>
     list_all (\<lambda>version. availability operation version \<in> {Some DocumentedRoute, Some SecurityBlocked})
       (filter (variant_contains variant) GENERATED_PROFILE_VERSIONS)"

definition variants_overlap :: "endpoint_variant \<Rightarrow> endpoint_variant \<Rightarrow> bool" where
  "variants_overlap previous variant \<longleftrightarrow>
     ev_minimum previous \<le> ev_maximum variant \<and> ev_minimum variant \<le> ev_maximum previous"

text \<open>The loop over the variants; \<open>previous\<close> is \<open>variants[..index]\<close>.\<close>

fun validate_variants ::
  "operation list \<Rightarrow> endpoint_variant list \<Rightarrow> endpoint_variant list \<Rightarrow> unit res" where
  "validate_variants ops previous [] = Inr ()"
| "validate_variants ops previous (variant # rest) =
     (if ev_maximum variant < ev_minimum variant \<or> \<not> is_generated_profile (ev_minimum variant) \<or>
         \<not> is_generated_profile (ev_maximum variant)
      then Inl (Internal ''OpenBao endpoint variant range is invalid'')
      else rbind (ok_or (openbao_operation ops (ev_operation_id variant))
          (Internal ''OpenBao endpoint references an unknown registry operation'')) (\<lambda>operation.
        if \<not> variant_evidence_ok operation variant
        then Inl (Internal ''OpenBao endpoint variant exceeds registry evidence'')
        else if list_ex (\<lambda>p. variants_overlap p variant) previous
        then Inl (Internal ''OpenBao endpoint variants overlap'')
        else validate_variants ops (previous @ [variant]) rest))"

definition validate_endpoint_spec :: "operation list \<Rightarrow> endpoint_spec \<Rightarrow> unit res" where
  "validate_endpoint_spec ops endpoint =
     (if \<not> endpoint_id_ok (spec_id endpoint)
      then Inl (Internal ''OpenBao endpoint identifier is invalid'')
      else if spec_variants endpoint = [] \<or> MAX_ENDPOINT_VARIANTS < length (spec_variants endpoint)
      then Inl (Internal ''OpenBao endpoint variant count is invalid'')
      else validate_variants ops [] (spec_variants endpoint))"

record resolved_endpoint =
  re_endpoint :: string
  re_operation :: operation
  re_method :: string

definition resolve_for_profile ::
  "operation list \<Rightarrow> endpoint_spec \<Rightarrow> openbao_version \<Rightarrow> resolved_endpoint res" where
  "resolve_for_profile ops endpoint version =
     rbind (validate_endpoint_spec ops endpoint) (\<lambda>_.
     case filter (\<lambda>v. variant_contains v version) (spec_variants endpoint) of
       [] \<Rightarrow> Inl (UnsupportedOpenBaoCapability (spec_id endpoint) version)
     | variant # others \<Rightarrow>
         (if others \<noteq> []
          then Inl (Internal ''OpenBao endpoint variants overlap for the selected profile'')
          else rbind (ok_or (openbao_operation ops (ev_operation_id variant))
            (Internal ''OpenBao endpoint references an unknown registry operation'')) (\<lambda>operation.
            case availability operation version of
              None \<Rightarrow> Inl (UnsupportedOpenBaoVersion version)
            | Some a \<Rightarrow>
                (if a \<noteq> DocumentedRoute \<or> op_disposition operation = DispositionSecurityBlocked
                 then Inl (UnsupportedOpenBaoCapability (spec_id endpoint) version)
                 else rmap (\<lambda>m. \<lparr>re_endpoint = spec_id endpoint, re_operation = operation,
                     re_method = m\<rparr>)
                   (reqwest_method (op_method operation))))))"

text \<open>The release a report routes by, with the messages of the two resolvers.\<close>

definition endpoint_profile :: "compatibility_report \<Rightarrow> openbao_version res" where
  "endpoint_profile report =
     rbind (case profile_version report of
         Some v \<Rightarrow> Inr v
       | None \<Rightarrow>
           (if report_status report = Unverified
            then ok_or legacy_unverified_profile
              (Internal ''OpenBao compatibility profile inventory is empty'')
            else Inl (Internal ''OpenBao compatibility report has no routing profile'')))
       (\<lambda>version. if is_routable_profile version then Inr version
         else Inl (UnsupportedOpenBaoVersion version))"

definition registered_profile :: "compatibility_report \<Rightarrow> openbao_version res" where
  "registered_profile report =
     rbind (ok_or (report_version report)
         (Internal ''OpenBao compatibility report has no routing profile''))
       (\<lambda>version. if is_routable_profile version then Inr version
         else Inl (UnsupportedOpenBaoVersion version))"

definition resolve_openbao_endpoint ::
  "operation list \<Rightarrow> compatibility_report res \<Rightarrow> endpoint_spec \<Rightarrow> string \<Rightarrow>
   (string \<times> string) list \<Rightarrow> resolved_endpoint res" where
  "resolve_openbao_endpoint ops ensured endpoint path query =
     rbind (validate_endpoint_path path) (\<lambda>path_segments.
     rbind (validate_endpoint_spec ops endpoint) (\<lambda>_.
     rbind ensured (\<lambda>report.
     rbind (endpoint_profile report) (\<lambda>version.
     rbind (resolve_for_profile ops endpoint version) (\<lambda>resolved.
     rbind (route_template_matches (op_path_template (re_operation resolved)) path_segments query)
       (\<lambda>matched.
         if matched then Inr resolved
         else Inl (InvalidPath
           ''request path or query does not match the selected OpenBao endpoint'')))))))"

definition is_route_placeholder_segment :: "string \<Rightarrow> bool" where
  "is_route_placeholder_segment s \<longleftrightarrow>
     prefix '':'' s \<or> CHR ''{'' \<in> set s \<or> CHR ''('' \<in> set s \<or> CHR ''*'' \<in> set s"

definition resolve_openbao_literal_endpoint ::
  "operation list \<Rightarrow> compatibility_report res \<Rightarrow> endpoint_spec \<Rightarrow>
   (resolved_endpoint \<times> string) res" where
  "resolve_openbao_literal_endpoint ops ensured endpoint =
     rbind (validate_endpoint_spec ops endpoint) (\<lambda>_.
     rbind ensured (\<lambda>report.
     rbind (endpoint_profile report) (\<lambda>version.
     rbind (resolve_for_profile ops endpoint version) (\<lambda>resolved.
     rbind (ok_or (strip_prefix ''/'' (op_path_template (re_operation resolved)))
         (Internal ''literal OpenBao endpoint template must be absolute'')) (\<lambda>path.
     rbind (validate_endpoint_path path) (\<lambda>segments.
       if list_ex is_route_placeholder_segment segments
       then Inl (Internal ''literal OpenBao endpoint contains a route placeholder'')
       else Inr (resolved, path)))))))"

text \<open>
  The check before a resolved literal endpoint is sent: the path must still be the template's.
  The result is the method and path handed to the transport.
\<close>

definition request_resolved_literal ::
  "resolved_endpoint \<Rightarrow> string \<Rightarrow> (string \<times> string) res" where
  "request_resolved_literal resolved path =
     rbind (ok_or (strip_prefix ''/'' (op_path_template (re_operation resolved)))
         (Internal ''literal OpenBao endpoint template must be absolute'')) (\<lambda>expected_path.
       if path \<noteq> expected_path
       then Inl (Internal ''resolved literal OpenBao endpoint path changed before dispatch'')
       else Inr (re_method resolved, path))"

section \<open>Registered routes\<close>

datatype route_binding =
    RouteExact string string
  | AuthMount string string string
  | SecretMount string string string string
  | IdentityMount string string

text \<open>\<open>RegisteredRouteBinding::registered\<close>.\<close>

definition binding_registered :: "string \<Rightarrow> string \<Rightarrow> string \<Rightarrow> route_binding res" where
  "binding_registered scope_prefix registry_path wire_path =
     rbind (validate_endpoint_path registry_path) (\<lambda>registry.
     rbind (validate_endpoint_path wire_path) (\<lambda>wire.
       if registry = wire then Inr (RouteExact scope_prefix wire_path)
       else if scope_prefix = ''/identity/'' \<and> 1 < length registry \<and>
         hd registry = ''identity'' \<and> length registry - 1 < length wire \<and>
         suffix (tl registry) wire
       then Inr (IdentityMount registry_path wire_path)
       else Inl (Internal
         ''registered OpenBao capability path does not match its wire route'')))"

definition auth_registry_path :: "string \<Rightarrow> string \<Rightarrow> string \<Rightarrow> string res" where
  "auth_registry_path documented actual path =
     rbind (validate_mount_path documented) (\<lambda>documented_mount.
     if length documented_mount \<noteq> 1
     then Inl (Internal ''documented auth mount must contain exactly one path segment'')
     else rbind (validate_mount_path actual) (\<lambda>actual_mount.
     rbind (validate_endpoint_path path) (\<lambda>segments.
       let prefix_length = 1 + length actual_mount in
       if segments = [] \<or> hd segments \<noteq> ''auth'' \<or> length segments < prefix_length \<or>
         take (length actual_mount) (drop 1 segments) \<noteq> actual_mount
       then Inl (Internal ''typed auth request path does not match its validated mount'')
       else Inr (join_path ([''auth'', hd documented_mount] @ drop prefix_length segments)))))"

definition root_markers :: "string list" where
  "root_markers =
     [''data'', ''delete'', ''destroy'', ''undelete'', ''metadata'', ''detailed-metadata'', ''subkeys'']"

definition with_root_marker :: "string list \<Rightarrow> string list" where
  "with_root_marker normalized =
     (if length normalized = 1 \<or> length normalized = 2 \<and> normalized ! 1 \<in> set root_markers
      then normalized @ [''__openbao_root__''] else normalized)"

definition secret_registry_path :: "string \<Rightarrow> string \<Rightarrow> string \<Rightarrow> string res" where
  "secret_registry_path documented actual path =
     rbind (validate_mount_path documented) (\<lambda>documented_mount.
     if length documented_mount \<noteq> 1
     then Inl (Internal ''documented secret mount must contain exactly one path segment'')
     else rbind (validate_mount_path actual) (\<lambda>actual_mount.
     rbind (validate_endpoint_path path) (\<lambda>segments.
       if length segments < length actual_mount \<or>
         take (length actual_mount) segments \<noteq> actual_mount
       then Inl (Internal ''typed secret request path does not match its validated mount'')
       else Inr (join_path (with_root_marker
         (hd documented_mount # drop (length actual_mount) segments))))))"

text \<open>The candidates with their specificity: every operation of the scope whose method and
  template match.\<close>

fun collect_matches ::
  "operation list \<Rightarrow> string \<Rightarrow> string \<Rightarrow> string list \<Rightarrow> (string \<times> string) list \<Rightarrow>
   (nat \<times> operation) list res" where
  "collect_matches [] scope_prefix requested_method segments query = Inr []"
| "collect_matches (operation # rest) scope_prefix requested_method segments query =
     (if \<not> prefix scope_prefix (op_path_template operation)
      then collect_matches rest scope_prefix requested_method segments query
      else case reqwest_method (op_method operation) of
        Inl e \<Rightarrow> collect_matches rest scope_prefix requested_method segments query
      | Inr m \<Rightarrow>
          (if m \<noteq> requested_method
           then collect_matches rest scope_prefix requested_method segments query
           else rbind (route_template_matches (op_path_template operation) segments query) (\<lambda>matched.
             if \<not> matched then collect_matches rest scope_prefix requested_method segments query
             else rmap (Cons (route_template_specificity (op_path_template operation), operation))
               (collect_matches rest scope_prefix requested_method segments query))))"

definition select_most_specific :: "(nat \<times> operation) list \<Rightarrow> operation res" where
  "select_most_specific candidates =
     (if candidates = []
      then Inl (Internal ''typed OpenBao request has no matching registry operation'')
      else
        (let maximum = Max (set (map fst candidates)) in
         case filter (\<lambda>(score, operation). score = maximum) candidates of
           [] \<Rightarrow> Inl (Internal ''typed OpenBao request has no matching registry operation'')
         | (score, operation) # others \<Rightarrow>
             (if others \<noteq> []
              then Inl (Internal ''typed OpenBao request matches multiple registry operations'')
              else Inr operation)))"

definition plugin_selection_for ::
  "external_plugin_selection list \<Rightarrow> operation \<Rightarrow> string option \<Rightarrow>
   external_plugin_selection option" where
  "plugin_selection_for plugins operation plugin_mount =
     (case (for_path (op_path_template operation), plugin_mount) of
        (Some kind, Some mount) \<Rightarrow> List.find (\<lambda>s. matches_mount_scope s kind mount) plugins
      | _ \<Rightarrow> None)"

text \<open>The gates after an operation is selected.\<close>

definition authorize_operation ::
  "external_plugin_selection list \<Rightarrow> compatibility_report \<Rightarrow> openbao_version \<Rightarrow> string option \<Rightarrow>
   operation \<Rightarrow> resolved_endpoint res" where
  "authorize_operation plugins report version plugin_mount operation =
     (let server_version = (case detected_version report of Some v \<Rightarrow> v | None \<Rightarrow> version);
          selection = plugin_selection_for plugins operation plugin_mount;
          requires_plugin = (selection \<noteq> None \<or>
            requires_unverified_external_plugin (op_path_template operation) server_version);
          plugin_contract = is_some_and (\<lambda>s. selection_supports s report operation) selection
      in if requires_plugin \<and> \<not> plugin_contract
         then Inl (UnsupportedOpenBaoCapability (op_id operation) server_version)
         else if \<not> plugin_contract \<and> availability operation version \<noteq> Some DocumentedRoute \<or>
           op_disposition operation = DispositionSecurityBlocked
         then Inl (UnsupportedOpenBaoCapability (op_id operation) version)
         else rmap (\<lambda>m. \<lparr>re_endpoint = op_id operation, re_operation = operation, re_method = m\<rparr>)
           (reqwest_method (op_method operation)))"

definition resolve_registered_openbao_endpoint ::
  "operation list \<Rightarrow> external_plugin_selection list \<Rightarrow> compatibility_report res \<Rightarrow> string \<Rightarrow>
   string \<Rightarrow> string \<Rightarrow> (string \<times> string) list \<Rightarrow> string option \<Rightarrow> resolved_endpoint res" where
  "resolve_registered_openbao_endpoint ops plugins ensured scope_prefix requested_method
     registry_path query plugin_mount =
     rbind (validate_endpoint_path registry_path) (\<lambda>path_segments.
     rbind ensured (\<lambda>report.
     rbind (registered_profile report) (\<lambda>version.
     rbind (collect_matches ops scope_prefix requested_method path_segments query) (\<lambda>candidates.
     rbind (select_most_specific candidates) (\<lambda>operation.
       authorize_operation plugins report version plugin_mount operation)))))"

fun binding_plugin_mount :: "route_binding \<Rightarrow> string option" where
  "binding_plugin_mount (AuthMount documented actual wire) = Some actual"
| "binding_plugin_mount (SecretMount scope documented actual wire) = Some actual"
| "binding_plugin_mount (RouteExact scope path) = map_option documented_mount (for_path path)"
| "binding_plugin_mount (IdentityMount registry wire) = None"

text \<open>The scope prefix, the path looked up in the registry and the path sent.\<close>

fun binding_paths :: "route_binding \<Rightarrow> (string \<times> string \<times> string) res" where
  "binding_paths (RouteExact scope path) =
     rmap (\<lambda>_. (scope, path, path)) (validate_endpoint_path path)"
| "binding_paths (AuthMount documented actual wire) =
     rmap (\<lambda>r. (''/auth/'', r, wire)) (auth_registry_path documented actual wire)"
| "binding_paths (SecretMount scope documented actual wire) =
     rmap (\<lambda>r. (scope, r, wire)) (secret_registry_path documented actual wire)"
| "binding_paths (IdentityMount registry wire) = Inr (''/identity/'', registry, wire)"

definition resolve_registered_openbao_route ::
  "operation list \<Rightarrow> external_plugin_selection list \<Rightarrow> compatibility_report res \<Rightarrow> string \<Rightarrow>
   route_binding \<Rightarrow> (string \<times> string) list \<Rightarrow> (resolved_endpoint \<times> string) res" where
  "resolve_registered_openbao_route ops plugins ensured requested_method binding query =
     rbind (binding_paths binding) (\<lambda>(scope_prefix, registry_path, wire_path).
     rmap (\<lambda>resolved. (resolved, wire_path))
       (resolve_registered_openbao_endpoint ops plugins ensured scope_prefix requested_method
         registry_path query (binding_plugin_mount binding)))"

section \<open>What a valid specification promises\<close>

lemma validate_variants_Cons:
  "validate_variants ops prev (v # vs) = Inr () \<longleftrightarrow>
     ev_minimum v \<le> ev_maximum v \<and> is_generated_profile (ev_minimum v) \<and>
     is_generated_profile (ev_maximum v) \<and>
     (\<exists>x. openbao_operation ops (ev_operation_id v) = Some x \<and> variant_evidence_ok x v) \<and>
     \<not> list_ex (\<lambda>p. variants_overlap p v) prev \<and> validate_variants ops (prev @ [v]) vs = Inr ()"
  by (cases "openbao_operation ops (ev_operation_id v)") (simp, auto simp: not_le [symmetric])

declare validate_variants.simps(2) [simp del]

lemma validate_variants_ok:
  "validate_variants ops prev vs = Inr () \<Longrightarrow>
   list_all (\<lambda>v. ev_minimum v \<le> ev_maximum v \<and>
     (\<exists>x. openbao_operation ops (ev_operation_id v) = Some x \<and> variant_evidence_ok x v)) vs \<and>
   sorted_wrt (\<lambda>a b. \<not> variants_overlap a b) vs \<and>
   (\<forall>p \<in> set prev. \<forall>v \<in> set vs. \<not> variants_overlap p v)"
proof (induction vs arbitrary: prev)
  case Nil
  then show ?case by simp
next
  case (Cons v vs)
  from Cons.prems have v: "ev_minimum v \<le> ev_maximum v"
    "\<exists>x. openbao_operation ops (ev_operation_id v) = Some x \<and> variant_evidence_ok x v"
    "\<forall>p \<in> set prev. \<not> variants_overlap p v" and rest: "validate_variants ops (prev @ [v]) vs = Inr ()"
    unfolding validate_variants_Cons list_ex_iff by blast+
  from Cons.IH [OF rest] have ih: "list_all (\<lambda>v. ev_minimum v \<le> ev_maximum v \<and>
       (\<exists>x. openbao_operation ops (ev_operation_id v) = Some x \<and> variant_evidence_ok x v)) vs"
    "sorted_wrt (\<lambda>a b. \<not> variants_overlap a b) vs"
    "\<forall>p \<in> set (prev @ [v]). \<forall>v \<in> set vs. \<not> variants_overlap p v"
    by blast+
  from v ih show ?case by simp
qed

lemma validate_endpoint_spec_ok:
  assumes "validate_endpoint_spec ops spec = Inr ()"
  shows "list_all (\<lambda>v. ev_minimum v \<le> ev_maximum v \<and>
      (\<exists>x. openbao_operation ops (ev_operation_id v) = Some x \<and> variant_evidence_ok x v))
      (spec_variants spec)"
    and "sorted_wrt (\<lambda>a b. \<not> variants_overlap a b) (spec_variants spec)"
  using assms validate_variants_ok [of ops "[]" "spec_variants spec"]
  by (simp_all add: validate_endpoint_spec_def split: if_splits)

lemma variant_contains_overlap:
  "variant_contains a v \<Longrightarrow> variant_contains b v \<Longrightarrow> variants_overlap a b"
  by (auto simp: variant_contains_def variants_overlap_def)

lemma filter_variants_unique:
  "sorted_wrt (\<lambda>a b. \<not> variants_overlap a b) vs \<Longrightarrow>
   length (filter (\<lambda>v. variant_contains v version) vs) \<le> 1"
proof (induction vs)
  case Nil
  then show ?case by simp
next
  case (Cons a vs)
  then have "filter (\<lambda>v. variant_contains v version) vs = []" if "variant_contains a version"
    using that variant_contains_overlap by (auto simp: filter_empty_conv)
  with Cons show ?case by auto
qed

lemma variant_evidence:
  assumes "variant_evidence_ok x v" "variant_contains v version" "is_generated_profile version"
  shows "availability x version \<in> {Some DocumentedRoute, Some SecurityBlocked}"
  using assms by (auto simp: variant_evidence_ok_def list_all_iff is_generated_profile_iff)

text \<open>For a specification that validates, resolution at an inventory release is total: it never
  meets an overlap, a missing operation or an unsupported release. It yields the operation of the
  one variant that covers the release, or reports the endpoint as unsupported there, or names the
  one method that cannot be sent.\<close>

theorem resolve_for_profile_total:
  assumes "validate_endpoint_spec ops spec = Inr ()" "is_generated_profile version"
  shows "case resolve_for_profile ops spec version of
      Inr r \<Rightarrow> \<exists>v \<in> set (spec_variants spec).
        filter (\<lambda>v. variant_contains v version) (spec_variants spec) = [v] \<and>
        openbao_operation ops (ev_operation_id v) = Some (re_operation r) \<and>
        availability (re_operation r) version = Some DocumentedRoute \<and>
        op_disposition (re_operation r) \<noteq> DispositionSecurityBlocked \<and>
        reqwest_method (op_method (re_operation r)) = Inr (re_method r)
    | Inl e \<Rightarrow> e = UnsupportedOpenBaoCapability (spec_id spec) version \<or>
        e = Internal ''ACME protocol operations cannot use typed HTTP dispatch''"
proof (cases "filter (\<lambda>v. variant_contains v version) (spec_variants spec)")
  case Nil
  with assms show ?thesis by (simp add: resolve_for_profile_def)
next
  case (Cons v others)
  have "others = []"
    using filter_variants_unique [OF validate_endpoint_spec_ok(2) [OF assms(1)], of version] Cons
    by simp
  then have only: "filter (\<lambda>v. variant_contains v version) (spec_variants spec) = [v]"
    using Cons by simp
  then have v: "v \<in> set (spec_variants spec)" "variant_contains v version"
    by (auto dest: filter_eq_ConsD)
  then obtain x where x: "openbao_operation ops (ev_operation_id v) = Some x" "variant_evidence_ok x v"
    using validate_endpoint_spec_ok(1) [OF assms(1)] by (auto simp: list_all_iff)
  have acme: "reqwest_method (op_method x) = Inl e \<Longrightarrow>
      e = Internal ''ACME protocol operations cannot use typed HTTP dispatch''" for e
    by (cases "op_method x") auto
  from variant_evidence [OF x(2) v(2) assms(2)] show ?thesis
    using assms(1) only x(1) v(1) acme
    by (cases "reqwest_method (op_method x)") (auto simp: resolve_for_profile_def)
qed

section \<open>What the resolver returns\<close>

lemma endpoint_profile_ok:
  "endpoint_profile report = Inr v \<longleftrightarrow> report_version report = Some v \<and> is_routable_profile v"
  by (auto simp: endpoint_profile_def report_version_def res_simps split: option.splits if_splits)

lemma registered_profile_ok:
  "registered_profile report = Inr v \<longleftrightarrow> report_version report = Some v \<and> is_routable_profile v"
  by (auto simp: registered_profile_def res_simps split: if_splits)

text \<open>What both resolvers promise of an operation bound at a release.\<close>

definition typed_route :: "operation \<Rightarrow> string \<Rightarrow> bool" where
  "typed_route x m \<longleftrightarrow> op_disposition x \<noteq> DispositionSecurityBlocked \<and>
     reqwest_method (op_method x) = Inr m"

lemma resolve_for_profile_ok:
  assumes "resolve_for_profile ops spec v = Inr r"
  shows "availability (re_operation r) v = Some DocumentedRoute \<and>
    typed_route (re_operation r) (re_method r) \<and> re_endpoint r = spec_id spec"
proof -
  from assms obtain variant where "filter (\<lambda>x. variant_contains x v) (spec_variants spec) = [variant]"
    by (cases "filter (\<lambda>x. variant_contains x v) (spec_variants spec)")
      (auto simp: resolve_for_profile_def rbind_Inr_iff split: if_splits)
  with assms obtain x where x: "openbao_operation ops (ev_operation_id variant) = Some x"
    and "(case availability x v of None \<Rightarrow> Inl (UnsupportedOpenBaoVersion v)
      | Some a \<Rightarrow>
          (if a \<noteq> DocumentedRoute \<or> op_disposition x = DispositionSecurityBlocked
           then Inl (UnsupportedOpenBaoCapability (spec_id spec) v)
           else rmap (\<lambda>m. \<lparr>re_endpoint = spec_id spec, re_operation = x, re_method = m\<rparr>)
             (reqwest_method (op_method x)))) = Inr r"
    by (cases "openbao_operation ops (ev_operation_id variant)")
      (auto simp: resolve_for_profile_def rbind_Inr_iff [of "validate_endpoint_spec ops spec"])
  then show ?thesis
    by (cases "availability x v") (auto simp: typed_route_def rmap_Inr_iff split: if_splits)
qed

text \<open>An endpoint resolves only to an operation that is documented for a routable release, not
  security-blocked, with that operation's method, and whose template matches the request.\<close>

theorem resolve_openbao_endpoint_sound:
  assumes "resolve_openbao_endpoint ops ensured spec path query = Inr r"
  shows "\<exists>report v segs. ensured = Inr report \<and> report_version report = Some v \<and>
    is_routable_profile v \<and> validate_endpoint_path path = Inr segs \<and>
    availability (re_operation r) v = Some DocumentedRoute \<and>
    typed_route (re_operation r) (re_method r) \<and>
    route_template_matches (op_path_template (re_operation r)) segs query = Inr True"
proof -
  from assms obtain segs report v where
    a: "validate_endpoint_path path = Inr segs" "ensured = Inr report"
      "endpoint_profile report = Inr v"
    and b: "rbind (resolve_for_profile ops spec v) (\<lambda>resolved.
      rbind (route_template_matches (op_path_template (re_operation resolved)) segs query)
       (\<lambda>matched. if matched then Inr resolved
         else Inl (InvalidPath
           ''request path or query does not match the selected OpenBao endpoint''))) = Inr r"
    unfolding resolve_openbao_endpoint_def rbind_Inr_iff [of _ _ r] by blast
  from b obtain x matched where x: "resolve_for_profile ops spec v = Inr x"
    "route_template_matches (op_path_template (re_operation x)) segs query = Inr matched"
    "(if matched then Inr x else Inl (InvalidPath
        ''request path or query does not match the selected OpenBao endpoint'')) = Inr r"
    unfolding rbind_Inr_iff by blast
  then have "x = r" "matched" by (simp_all split: if_splits)
  with x resolve_for_profile_ok [of ops spec v r] a show ?thesis
    unfolding endpoint_profile_ok by simp
qed

section \<open>Registered routes: selection\<close>

definition is_candidate :: "string \<Rightarrow> string \<Rightarrow> string list \<Rightarrow> (string \<times> string) list \<Rightarrow> operation \<Rightarrow> bool" where
  "is_candidate scope_prefix m segments query x \<longleftrightarrow>
     prefix scope_prefix (op_path_template x) \<and> reqwest_method (op_method x) = Inr m \<and>
     route_template_matches (op_path_template x) segments query = Inr True"

lemma collect_matches_filter:
  "collect_matches ops scope m segs query = Inr cs \<Longrightarrow>
   cs = map (\<lambda>x. (route_template_specificity (op_path_template x), x))
     (filter (is_candidate scope m segs query) ops)"
proof (induction ops arbitrary: cs)
  case Nil
  then show ?case by simp
next
  case (Cons x ops)
  show ?case
  proof (cases "prefix scope (op_path_template x) \<and> reqwest_method (op_method x) = Inr m")
    case False
    then have "\<not> is_candidate scope m segs query x" by (auto simp: is_candidate_def)
    moreover have "collect_matches (x # ops) scope m segs query = collect_matches ops scope m segs query"
      using False by (cases "reqwest_method (op_method x)") auto
    ultimately show ?thesis using Cons by simp
  next
    case True
    with Cons.prems obtain matched where
      matched: "route_template_matches (op_path_template x) segs query = Inr matched"
      by (auto simp: rbind_Inr_iff)
    with True Cons show ?thesis
      by (cases matched) (auto simp: is_candidate_def rmap_Inr_iff)
  qed
qed

lemma select_most_specific_ok:
  assumes "select_most_specific cs = Inr x"
  shows "\<exists>s. (s, x) \<in> set cs \<and> (\<forall>p \<in> set cs. fst p < s \<or> p = (s, x))"
proof -
  let ?m = "Max (set (map fst cs))"
  from assms have f: "filter (\<lambda>(s, x). s = ?m) cs = [(?m, x)]"
    by (cases "filter (\<lambda>(s, x). s = ?m) cs")
      (auto simp: select_most_specific_def Let_def split: if_splits dest: filter_eq_ConsD)
  then have "(?m, x) \<in> set (filter (\<lambda>(s, x). s = ?m) cs)" by (simp only: list.set insertI1)
  then have mem: "(?m, x) \<in> set cs" unfolding set_filter by blast
  have "fst p < ?m \<or> p = (?m, x)" if "p \<in> set cs" for p
  proof (cases "fst p = ?m")
    case True
    then have "p \<in> set (filter (\<lambda>(s, x). s = ?m) cs)" using that by (cases p) auto
    with f show ?thesis by simp
  next
    case False
    moreover have "fst p \<le> ?m" using that by (intro Max_ge) auto
    ultimately show ?thesis by simp
  qed
  with mem show ?thesis by blast
qed

lemma authorize_operation_ok:
  assumes "authorize_operation plugins report v mount x = Inr r"
  shows "r = \<lparr>re_endpoint = op_id x, re_operation = x, re_method = re_method r\<rparr>"
    and "typed_route x (re_method r)"
    and "(\<exists>s \<in> set plugins. selection_supports s report x) \<or>
      availability x v = Some DocumentedRoute \<and>
      \<not> requires_unverified_external_plugin (op_path_template x)
        (case detected_version report of Some w \<Rightarrow> w | None \<Rightarrow> v)"
proof -
  let ?server = "case detected_version report of Some w \<Rightarrow> w | None \<Rightarrow> v"
  let ?sel = "plugin_selection_for plugins x mount"
  let ?contract = "is_some_and (\<lambda>s. selection_supports s report x) ?sel"
  have sel: "s \<in> set plugins" if "?sel = Some s" for s
    using that by (auto simp: plugin_selection_for_def split: option.splits dest: find_Some_set)
  from assms have gate: "?contract \<or>
        ?sel = None \<and> \<not> requires_unverified_external_plugin (op_path_template x) ?server"
      "?contract \<or> availability x v = Some DocumentedRoute"
      "op_disposition x \<noteq> DispositionSecurityBlocked"
    and r: "rmap (\<lambda>m. \<lparr>re_endpoint = op_id x, re_operation = x, re_method = m\<rparr>)
      (reqwest_method (op_method x)) = Inr r"
    unfolding authorize_operation_def Let_def by (auto split: if_splits)
  from r obtain m where m: "reqwest_method (op_method x) = Inr m"
    "r = \<lparr>re_endpoint = op_id x, re_operation = x, re_method = m\<rparr>"
    by (auto simp: rmap_Inr_iff)
  then show "r = \<lparr>re_endpoint = op_id x, re_operation = x, re_method = re_method r\<rparr>" by simp
  from m gate(3) show "typed_route x (re_method r)" by (simp add: typed_route_def)
  from gate sel show "(\<exists>s \<in> set plugins. selection_supports s report x) \<or>
      availability x v = Some DocumentedRoute \<and>
      \<not> requires_unverified_external_plugin (op_path_template x) ?server"
    by (auto simp: is_some_and_iff)
qed

text \<open>C12: A registered request resolves only to the single most specific operation of its scope whose
  method and template match, on a routable release, and that operation is either documented for
  the release and no removed built-in of the server, or promoted by a configured plugin
  selection.\<close>

theorem resolve_registered_sound:
  assumes "resolve_registered_openbao_endpoint ops plugins ensured scope m path query mount = Inr r"
  shows "\<exists>report v segs x. ensured = Inr report \<and> report_version report = Some v \<and>
    is_routable_profile v \<and> validate_endpoint_path path = Inr segs \<and> x = re_operation r \<and>
    x \<in> set ops \<and> is_candidate scope m segs query x \<and> typed_route x m \<and> re_method r = m \<and>
    list_all (\<lambda>y. \<not> is_candidate scope m segs query y \<or> y = x \<or>
      route_template_specificity (op_path_template y) < route_template_specificity (op_path_template x)) ops \<and>
    ((\<exists>s \<in> set plugins. selection_supports s report x) \<or>
     availability x v = Some DocumentedRoute \<and>
     \<not> requires_unverified_external_plugin (op_path_template x)
        (case detected_version report of Some w \<Rightarrow> w | None \<Rightarrow> v))"
proof -
  from assms obtain segs report v cs x where
    a: "validate_endpoint_path path = Inr segs" "ensured = Inr report"
      "registered_profile report = Inr v" "collect_matches ops scope m segs query = Inr cs"
      "select_most_specific cs = Inr x" "authorize_operation plugins report v mount x = Inr r"
    unfolding resolve_registered_openbao_endpoint_def rbind_Inr_iff by blast
  note cs = collect_matches_filter [OF a(4)]
  obtain s where s: "(s, x) \<in> set cs" "\<forall>p \<in> set cs. fst p < s \<or> p = (s, x)"
    using select_most_specific_ok [OF a(5)] by blast
  then have x: "x \<in> set ops" "is_candidate scope m segs query x"
    "s = route_template_specificity (op_path_template x)"
    by (auto simp: cs)
  have others: "\<not> is_candidate scope m segs query y \<or> y = x \<or>
      route_template_specificity (op_path_template y) < s" if "y \<in> set ops" for y
    using s(2) that by (force simp: cs)
  have r: "re_operation r = x" "typed_route x (re_method r)"
    using authorize_operation_ok(1,2) [OF a(6)] by (metis resolved_endpoint.select_convs(2))+
  then have "re_method r = m" using x(2) by (simp add: typed_route_def is_candidate_def)
  with a r x others authorize_operation_ok(3) [OF a(6)] show ?thesis
    unfolding registered_profile_ok list_all_iff by blast
qed

text \<open>The method of a resolved registered request is the requested one.\<close>

lemma resolve_registered_method:
  assumes "resolve_registered_openbao_endpoint ops plugins ensured scope m path query mount = Inr r"
  shows "re_method r = m"
proof -
  from assms obtain segs report v cs x where
    a: "collect_matches ops scope m segs query = Inr cs"
      "select_most_specific cs = Inr x" "authorize_operation plugins report v mount x = Inr r"
    unfolding resolve_registered_openbao_endpoint_def rbind_Inr_iff by blast
  obtain s where "(s, x) \<in> set cs" using select_most_specific_ok [OF a(2)] by blast
  then have "is_candidate scope m segs query x" by (auto simp: collect_matches_filter [OF a(1)])
  then show ?thesis
    using authorize_operation_ok(1,2) [OF a(3)] by (simp add: typed_route_def is_candidate_def)
qed

section \<open>Mount rewriting\<close>

text \<open>
  The contract of the two functions that turn a request under a caller's mount into the path the
  registry documents: the mount is replaced by the documented one, the segments after it stay,
  and \<open>finish\<close> may append a registry-only marker.
\<close>

locale mount_rewriter =
  fixes rewrite :: "string \<Rightarrow> string \<Rightarrow> string \<Rightarrow> string res"
    and lead :: "string list"
    and finish :: "string list \<Rightarrow> string list"
  assumes rewrite_iff: "rewrite documented actual path = Inr r \<longleftrightarrow>
      (\<exists>d a tail. validate_mount_path documented = Inr [d] \<and> validate_mount_path actual = Inr a \<and>
         validate_endpoint_path path = Inr (lead @ a @ tail) \<and>
         r = join_path (finish (lead @ d # tail)))"
    and finish_safe: "list_all safe_segment xs \<Longrightarrow> list_all safe_segment (finish xs)"
    and finish_extends: "prefix xs (finish xs)"
begin

text \<open>The lookup path does not depend on the name of the caller's mount.\<close>

lemma mount_independent:
  assumes "rewrite documented a1 p1 = Inr r"
    and "validate_mount_path a1 = Inr m1" "validate_endpoint_path p1 = Inr (lead @ m1 @ tail)"
    and "validate_mount_path a2 = Inr m2" "validate_endpoint_path p2 = Inr (lead @ m2 @ tail)"
  shows "rewrite documented a2 p2 = Inr r"
  using assms unfolding rewrite_iff by (metis append.assoc same_append_eq sum.inject(2))

text \<open>The segments of the lookup path are the documented mount and the caller's tail.\<close>

lemma rewritten_segments:
  assumes "rewrite documented actual path = Inr r"
  shows "\<exists>d a tail. validate_mount_path actual = Inr a \<and>
    validate_endpoint_path path = Inr (lead @ a @ tail) \<and>
    split_on CHR ''/'' r = finish (lead @ d # tail) \<and>
    list_all safe_segment (split_on CHR ''/'' r)"
proof -
  from assms obtain d a tail where
    v: "validate_mount_path documented = Inr [d]" "validate_mount_path actual = Inr a"
      "validate_endpoint_path path = Inr (lead @ a @ tail)"
    and r: "r = join_path (finish (lead @ d # tail))"
    unfolding rewrite_iff by blast
  have "list_all safe_segment (lead @ d # tail)"
    using mount_validator.segments_safe [OF v(1)] endpoint_validator.segments_safe [OF v(3)] by simp
  then have safe: "list_all safe_segment (finish (lead @ d # tail))" by (rule finish_safe)
  moreover have "finish (lead @ d # tail) \<noteq> []"
    using finish_extends [of "lead @ d # tail"] by auto
  ultimately have "split_on CHR ''/'' r = finish (lead @ d # tail)"
    unfolding r by (intro split_on_join_path)
  with v safe show ?thesis by metis
qed

end

lemma take_drop_append:
  "n \<le> length xs \<Longrightarrow> take n xs = a \<Longrightarrow> xs = a @ drop n xs"
  by (metis append_take_drop_id)

lemma length_one_iff: "length xs = 1 \<longleftrightarrow> (\<exists>x. xs = [x])"
  by (cases xs) auto

lemma secret_segments_iff:
  "length a \<le> length segs \<and> take (length a) segs = a \<longleftrightarrow>
   (\<exists>tail. segs = a @ tail \<and> drop (length a) segs = tail)" (is "?l \<longleftrightarrow> ?r")
proof
  show "?l \<Longrightarrow> ?r" by (metis append_take_drop_id)
  assume ?r
  then obtain tail where "segs = a @ tail" by blast
  then show ?l by simp
qed

lemma auth_segments_iff:
  "segs \<noteq> [] \<and> hd segs = l \<and> 1 + length a \<le> length segs \<and> take (length a) (drop 1 segs) = a \<longleftrightarrow>
   (\<exists>tail. segs = [l] @ a @ tail \<and> drop (1 + length a) segs = tail)"
proof (cases segs)
  case (Cons x xs)
  with secret_segments_iff [of a xs] show ?thesis by auto
qed simp

interpretation auth_rewriter: mount_rewriter auth_registry_path "[''auth'']" "\<lambda>xs. xs"
proof
  fix documented actual path r
  have "auth_registry_path documented actual path = Inr r \<longleftrightarrow>
      (\<exists>ds a segs. validate_mount_path documented = Inr ds \<and> length ds = 1 \<and>
        validate_mount_path actual = Inr a \<and> validate_endpoint_path path = Inr segs \<and>
        (segs \<noteq> [] \<and> hd segs = ''auth'' \<and> 1 + length a \<le> length segs \<and>
         take (length a) (drop 1 segs) = a) \<and>
        r = join_path ([''auth'', hd ds] @ drop (1 + length a) segs))"
    by (auto simp: auth_registry_path_def rbind_Inr_iff Let_def not_less [symmetric]
        split: if_splits)
  then show "auth_registry_path documented actual path = Inr r \<longleftrightarrow>
      (\<exists>d a tail. validate_mount_path documented = Inr [d] \<and> validate_mount_path actual = Inr a \<and>
         validate_endpoint_path path = Inr ([''auth''] @ a @ tail) \<and>
         r = join_path ([''auth''] @ d # tail))"
    unfolding auth_segments_iff length_one_iff by auto
qed simp_all

lemma with_root_marker_cases:
  "with_root_marker xs = xs \<or> with_root_marker xs = xs @ [''__openbao_root__'']"
  by (simp add: with_root_marker_def)

lemma safe_root_marker: "safe_segment ''__openbao_root__''"
  unfolding safe_segment_def path_byte_is_forbidden_def is_ascii_control_def by simp

interpretation secret_rewriter: mount_rewriter secret_registry_path "[]" with_root_marker
proof
  fix documented actual path r
  have "secret_registry_path documented actual path = Inr r \<longleftrightarrow>
      (\<exists>ds a segs. validate_mount_path documented = Inr ds \<and> length ds = 1 \<and>
        validate_mount_path actual = Inr a \<and> validate_endpoint_path path = Inr segs \<and>
        (length a \<le> length segs \<and> take (length a) segs = a) \<and>
        r = join_path (with_root_marker (hd ds # drop (length a) segs)))"
    by (auto simp: secret_registry_path_def rbind_Inr_iff not_less [symmetric] split: if_splits)
  then show "secret_registry_path documented actual path = Inr r \<longleftrightarrow>
      (\<exists>d a tail. validate_mount_path documented = Inr [d] \<and> validate_mount_path actual = Inr a \<and>
         validate_endpoint_path path = Inr ([] @ a @ tail) \<and>
         r = join_path (with_root_marker ([] @ d # tail)))"
    unfolding secret_segments_iff length_one_iff by auto
next
  show "list_all safe_segment xs \<Longrightarrow> list_all safe_segment (with_root_marker xs)" for xs
    using with_root_marker_cases [of xs] safe_root_marker by auto
  show "prefix xs (with_root_marker xs)" for xs
    using with_root_marker_cases [of xs] by auto
qed

text \<open>A typed auth request is looked up under the path auth, documented mount, tail exactly when
  its path is auth, the validated caller mount and that tail.\<close>

theorem auth_registry_path_iff:
  "auth_registry_path documented actual path = Inr r \<longleftrightarrow>
     (\<exists>d a tail. validate_mount_path documented = Inr [d] \<and> validate_mount_path actual = Inr a \<and>
        validate_endpoint_path path = Inr (''auth'' # a @ tail) \<and>
        r = join_path (''auth'' # d # tail))"
  using auth_rewriter.rewrite_iff by simp

text \<open>The registry path of a typed secret request does not depend on the name of the caller's
  mount: two mounts with the same tail are looked up under the same path.\<close>

theorem secret_registry_path_mount_independent:
  assumes "secret_registry_path documented a1 p1 = Inr r"
    and "validate_mount_path a1 = Inr m1" "validate_endpoint_path p1 = Inr (m1 @ tail)"
    and "validate_mount_path a2 = Inr m2" "validate_endpoint_path p2 = Inr (m2 @ tail)"
  shows "secret_registry_path documented a2 p2 = Inr r"
  using secret_rewriter.mount_independent [OF assms(1,2) _ assms(4)] assms(3,5) by simp

theorem secret_registry_path_mount_independent_witness:
  "secret_registry_path ''secret'' ''team/kv'' ''team/kv/data'' =
     Inr ''secret/data/__openbao_root__''"
  by (rule secret_registry_path_mount_independent [of _ "''kv''" "''kv/data''" _ "[''kv'']" "[''data'']"
        _ "[''team'', ''kv'']"]) code_simp+

text \<open>An exact binding never names a plugin mount for a path without a leading slash: the plugin
  prefixes start with a slash and wire paths do not, so such a request cannot be promoted by a
  plugin selection.\<close>

theorem exact_binding_no_plugin:
  assumes "\<not> prefix ''/'' path"
  shows "binding_plugin_mount (RouteExact scope path) = None"
proof -
  have "\<not> under_prefix p path" if "prefix ''/'' p" for p
    using that assms unfolding under_prefix_iff by (auto simp: prefix_def)
  then have "for_path path = None"
    unfolding for_path_cases by simp
  then show ?thesis by simp
qed

theorem exact_binding_no_plugin_witness:
  "binding_plugin_mount (RouteExact ''/auth/'' ''auth/ldap/config'') = None"
  by (rule exact_binding_no_plugin) simp

section \<open>One row of the table\<close>

text \<open>The generated row of \<open>GET /sys/seal-status\<close>, shortened to its first range, and a
  specification that selects it.\<close>

definition seal_status_row :: operation where
  "seal_status_row =
     \<lparr>op_id = ''openbao.get.sys.seal.status.21c9eeaaf2f76755'', op_method = MGet,
      op_path_template = ''/sys/seal-status'', op_disposition = Typed,
      op_ranges =
        [\<lparr>range_minimum = OpenBaoVersion 2 0 0, range_maximum = OpenBaoVersion 2 6 3,
          range_evidence = TaggedDocumentation, range_security_blocked = False\<rparr>]\<rparr>"

definition seal_status_spec :: endpoint_spec where
  "seal_status_spec =
     \<lparr>spec_id = ''sys.seal-status'', spec_variants =
        [\<lparr>ev_operation_id = ''openbao.get.sys.seal.status.21c9eeaaf2f76755'',
          ev_minimum = OpenBaoVersion 2 0 0, ev_maximum = OpenBaoVersion 2 6 3\<rparr>]\<rparr>"

lemma seal_status_lookup:
  "openbao_operation [seal_status_row] ''openbao.get.sys.seal.status.21c9eeaaf2f76755'' =
     Some seal_status_row"
proof -
  have "table_ok [seal_status_row]"
    by (simp add: table_ok_def ranges_ok_def seal_status_row_def)
  then show ?thesis
    by (simp only: openbao_operation_iff) (simp add: seal_status_row_def)
qed

lemma seal_status_no_plugin: "for_path ''/sys/seal-status'' = None"
  by code_simp

lemma seal_status_available:
  assumes "is_generated_profile v" "OpenBaoVersion 2 0 0 \<le> v" "v \<le> OpenBaoVersion 2 6 3"
  shows "availability seal_status_row v = Some DocumentedRoute"
  using assms
  by (simp add: availability_def seal_status_row_def requires_unverified_external_plugin_def
      seal_status_no_plugin select_capability_range_def range_contains_def
      version_in_closed_interval_def)

lemma seal_status_spec_ok: "validate_endpoint_spec [seal_status_row] seal_status_spec = Inr ()"
proof -
  have "endpoint_id_ok ''sys.seal-status''" by code_simp
  moreover have "variant_evidence_ok seal_status_row
      \<lparr>ev_operation_id = ''openbao.get.sys.seal.status.21c9eeaaf2f76755'',
       ev_minimum = OpenBaoVersion 2 0 0, ev_maximum = OpenBaoVersion 2 6 3\<rparr>"
    using seal_status_available
    by (auto simp: variant_evidence_ok_def list_all_iff variant_contains_def is_generated_profile_iff)
  moreover have "is_generated_profile (OpenBaoVersion 2 0 0)" "is_generated_profile (OpenBaoVersion 2 6 3)"
    by (simp_all add: is_generated_profile_iff GENERATED_PROFILE_VERSIONS_def)
  ultimately show ?thesis
    by (simp add: validate_endpoint_spec_def seal_status_spec_def validate_variants_Cons
        seal_status_lookup MAX_ENDPOINT_VARIANTS_def)
qed

lemma profile_2_6_0: "is_generated_profile (OpenBaoVersion 2 6 0)" "is_routable_profile (OpenBaoVersion 2 6 0)"
  by (simp_all add: is_generated_profile_iff GENERATED_PROFILE_VERSIONS_def routable_is_generated)

lemma seal_status_resolves:
  "resolve_for_profile [seal_status_row] seal_status_spec (OpenBaoVersion 2 6 0) =
     Inr \<lparr>re_endpoint = ''sys.seal-status'', re_operation = seal_status_row, re_method = ''GET''\<rparr>"
proof -
  have "availability seal_status_row (OpenBaoVersion 2 6 0) = Some DocumentedRoute"
    by (rule seal_status_available) (simp_all add: profile_2_6_0)
  then show ?thesis
    by (simp add: resolve_for_profile_def seal_status_spec_ok)
      (simp add: seal_status_spec_def variant_contains_def seal_status_lookup,
        simp add: seal_status_row_def)
qed

lemma seal_status_path:
  "validate_endpoint_path ''sys/seal-status'' = Inr [''sys'', ''seal-status'']"
  "route_template_matches ''/sys/seal-status'' [''sys'', ''seal-status''] [] = Inr True"
  by code_simp+

theorem resolve_for_profile_total_witness:
  "resolve_for_profile [seal_status_row] seal_status_spec (OpenBaoVersion 2 7 0) =
     Inl (UnsupportedOpenBaoCapability ''sys.seal-status'' (OpenBaoVersion 2 7 0))"
proof -
  have "is_generated_profile (OpenBaoVersion 2 7 0)"
    by (simp add: is_generated_profile_iff GENERATED_PROFILE_VERSIONS_def)
  moreover have "filter (\<lambda>v. variant_contains v (OpenBaoVersion 2 7 0)) (spec_variants seal_status_spec) = []"
    by (simp add: seal_status_spec_def variant_contains_def)
  moreover have "resolve_for_profile [seal_status_row] seal_status_spec (OpenBaoVersion 2 7 0) \<noteq>
      Inl (Internal ''ACME protocol operations cannot use typed HTTP dispatch'')"
    using calculation(2) by (simp add: resolve_for_profile_def seal_status_spec_ok)
  ultimately show ?thesis
    using resolve_for_profile_total [OF seal_status_spec_ok, of "OpenBaoVersion 2 7 0"]
    by (auto split: sum.splits simp: seal_status_spec_def)
qed

theorem resolve_openbao_endpoint_sound_witness:
  "availability seal_status_row (OpenBaoVersion 2 6 0) = Some DocumentedRoute"
proof -
  let ?r = "\<lparr>re_endpoint = ''sys.seal-status'', re_operation = seal_status_row, re_method = ''GET''\<rparr>"
  have "endpoint_profile (report_assumed (OpenBaoVersion 2 6 0)) = Inr (OpenBaoVersion 2 6 0)"
    by (simp add: endpoint_profile_ok report_version_def profile_2_6_0)
  moreover have "op_path_template seal_status_row = ''/sys/seal-status''"
    by (simp add: seal_status_row_def)
  ultimately have "resolve_openbao_endpoint [seal_status_row]
      (Inr (report_assumed (OpenBaoVersion 2 6 0))) seal_status_spec ''sys/seal-status'' [] = Inr ?r"
    by (simp add: resolve_openbao_endpoint_def seal_status_path seal_status_spec_ok
        seal_status_resolves)
  from resolve_openbao_endpoint_sound [OF this] show ?thesis
    by (auto simp: report_version_def)
qed

theorem resolve_registered_sound_witness:
  "is_candidate ''/sys/'' ''GET'' [''sys'', ''seal-status''] [] seal_status_row"
proof -
  let ?v = "OpenBaoVersion 2 6 0"
  let ?r = "\<lparr>re_endpoint = op_id seal_status_row, re_operation = seal_status_row, re_method = ''GET''\<rparr>"
  have row: "op_path_template seal_status_row = ''/sys/seal-status''" "op_method seal_status_row = MGet"
    "op_disposition seal_status_row = Typed"
    by (simp_all add: seal_status_row_def)
  have profile: "registered_profile (report_assumed ?v) = Inr ?v"
    by (simp add: registered_profile_ok report_version_def profile_2_6_0)
  have "collect_matches [seal_status_row] ''/sys/'' ''GET'' [''sys'', ''seal-status''] [] =
      Inr [(route_template_specificity ''/sys/seal-status'', seal_status_row)]"
    by (simp add: row seal_status_path)
  moreover have "select_most_specific [(n, seal_status_row)] = Inr seal_status_row" for n
    by (simp add: select_most_specific_def)
  moreover have "authorize_operation [] (report_assumed ?v) ?v None seal_status_row = Inr ?r"
    by (simp add: authorize_operation_def plugin_selection_for_def row
        requires_unverified_external_plugin_def seal_status_available profile_2_6_0 Let_def
        seal_status_no_plugin)
  ultimately have "resolve_registered_openbao_endpoint [seal_status_row] []
      (Inr (report_assumed ?v)) ''/sys/'' ''GET'' ''sys/seal-status'' [] None = Inr ?r"
    by (simp add: resolve_registered_openbao_endpoint_def seal_status_path profile
        del: collect_matches.simps)
  from resolve_registered_sound [OF this] show ?thesis
    by (auto simp: seal_status_path)
qed

end
