(* ===== verification/Bao_Cache.thy ===== *)
theory Bao_Cache
  imports Bao_Dispatch
begin

text \<open>
  The compatibility cache of \<open>client.rs\<close>: the first caller of \<open>ensure_compatibility\<close> leads and
  evaluates the policy, the others wait for its result, and whichever task is dropped at any
  point leaves the cache usable. The operations are functions on the value behind the mutex;
  their interleavings by concurrent tasks are the step relation \<open>cache_step\<close>. A poisoned lock is
  not modelled: no critical section of the component panics.
\<close>

section \<open>Evaluating the policy\<close>

datatype cached_failure = CachedPolicy compatibility_failure | CachedProbe string

type_synonym cached_result = "cached_failure + compatibility_report"

fun compatibility_error :: "cached_failure \<Rightarrow> error" where
  "compatibility_error (CachedPolicy (VersionMismatch detected requirement)) =
     OpenBaoVersionMismatch detected requirement"
| "compatibility_error (CachedPolicy (UnknownVersion version)) = UnknownOpenBaoVersion version"
| "compatibility_error (CachedProbe message) = OpenBaoCompatibilityProbe message"

definition compatibility_health_status_is_accepted :: "status_code \<Rightarrow> bool" where
  "compatibility_health_status_is_accepted status \<longleftrightarrow>
     status \<in> {200, 429, 472, 473, 501, 503}"

text \<open>
  \<open>probe_openbao_version\<close>: what building the URL, sending the request and decoding the health
  document give is the transport's, here \<open>url\<close>, \<open>response\<close> (its status) and \<open>health\<close> (its
  version text).
\<close>

definition probe_openbao_version ::
  "unit res \<Rightarrow> status_code res \<Rightarrow> string res \<Rightarrow> cached_failure + openbao_version" where
  "probe_openbao_version url response health =
     rbind (rmap_err (\<lambda>_. CachedProbe ''health URL could not be built'') url) (\<lambda>_.
     rbind (rmap_err (\<lambda>_. CachedProbe ''health request could not be completed'') response) (\<lambda>status.
       if \<not> compatibility_health_status_is_accepted status
       then Inl (CachedProbe ''health endpoint returned an unexpected status'')
       else rbind (rmap_err
           (\<lambda>_. CachedProbe ''health response did not match the expected schema'') health)
         (\<lambda>version. rmap_err
           (\<lambda>_. CachedProbe ''health response contained an invalid stable server version'')
           (version_from_str version))))"

definition evaluate_compatibility_policy ::
  "compatibility_policy option \<Rightarrow> (cached_failure + openbao_version) \<Rightarrow> cached_result" where
  "evaluate_compatibility_policy policy probe =
     (case policy of
        None \<Rightarrow> Inr report_unverified
      | Some p \<Rightarrow>
          (case immediate_report p of
             Some report \<Rightarrow> Inr report
           | None \<Rightarrow> rbind probe (\<lambda>detected. rmap_err CachedPolicy (evaluate_detected p detected))))"

section \<open>The state behind the mutex\<close>

definition MAX_COMPATIBILITY_WAITERS :: nat where
  "MAX_COMPATIBILITY_WAITERS = 4096"

declare MAX_COMPATIBILITY_WAITERS_def [limits]

text \<open>A waiter is its token, compared by identity, and the waker to call.\<close>

type_synonym waiter = "nat \<times> nat"

datatype verification_state = Pending | Running "waiter list" | Complete cached_result

record client_compatibility =
  cc_policy :: "compatibility_policy option"
  cc_verification :: verification_state

definition client_compatibility_new :: "compatibility_policy option \<Rightarrow> client_compatibility" where
  "client_compatibility_new policy =
     \<lparr>cc_policy = policy, cc_verification =
       (case policy of
          None \<Rightarrow> Complete (Inr report_unverified)
        | Some p \<Rightarrow>
            (case immediate_report p of
               Some report \<Rightarrow> Complete (Inr report)
             | None \<Rightarrow> Pending))\<rparr>"

text \<open>The choice at the head of the loop of \<open>ensure_compatibility\<close>.\<close>

datatype compatibility_action = ActComplete cached_result | ActWait | ActLead

fun choose_action :: "verification_state \<Rightarrow> verification_state \<times> compatibility_action" where
  "choose_action (Complete result) = (Complete result, ActComplete result)"
| "choose_action (Running waiters) = (Running waiters, ActWait)"
| "choose_action Pending = (Running [], ActLead)"

datatype wait_outcome = WaitComplete cached_result | WaitRetry | WaitTooManyWaiters

text \<open>\<open>CompatibilityWait::poll\<close>; \<open>None\<close> is \<open>Poll::Pending\<close>.\<close>

fun set_waker :: "waiter list \<Rightarrow> nat \<Rightarrow> nat \<Rightarrow> waiter list" where
  "set_waker [] token waker = []"
| "set_waker ((t, w) # ws) token waker =
     (if t = token then (t, waker) # ws else (t, w) # set_waker ws token waker)"

fun wait_poll ::
  "verification_state \<Rightarrow> nat \<Rightarrow> nat \<Rightarrow> verification_state \<times> wait_outcome option" where
  "wait_poll (Complete result) token waker = (Complete result, Some (WaitComplete result))"
| "wait_poll Pending token waker = (Pending, Some WaitRetry)"
| "wait_poll (Running waiters) token waker =
     (if token \<in> fst ` set waiters then (Running (set_waker waiters token waker), None)
      else if MAX_COMPATIBILITY_WAITERS \<le> length waiters
      then (Running waiters, Some WaitTooManyWaiters)
      else (Running (waiters @ [(token, waker)]), None))"

text \<open>\<open>Drop\<close> of a wait.\<close>

fun wait_drop :: "verification_state \<Rightarrow> nat \<Rightarrow> verification_state" where
  "wait_drop (Running waiters) token = Running (filter (\<lambda>(t, w). t \<noteq> token) waiters)"
| "wait_drop state token = state"

text \<open>\<open>CompatibilityLeader::complete\<close> and \<open>Drop\<close> of a leader that did not complete; the second
  component are the wakers called.\<close>

fun waiters_of :: "verification_state \<Rightarrow> waiter list" where
  "waiters_of (Running waiters) = waiters"
| "waiters_of state = []"

definition leader_complete ::
  "verification_state \<Rightarrow> cached_result \<Rightarrow> verification_state \<times> nat list" where
  "leader_complete state result = (Complete result, map snd (waiters_of state))"

fun leader_drop :: "verification_state \<Rightarrow> verification_state \<times> nat list" where
  "leader_drop (Running waiters) = (Pending, map snd waiters)"
| "leader_drop state = (state, [])"

section \<open>Tasks\<close>

text \<open>
  A task is inside \<open>ensure_compatibility\<close>: at the loop head, waiting with its token, leading, or
  returned. \<open>runnable\<close> are the tasks that have been woken or have not been polled yet; the
  executor may also poll a task that is not runnable.
\<close>

datatype phase =
    Outside
  | LoopHead
  | Waiting nat
  | Leading
  | Returned "error + compatibility_report"

record system =
  sys_policy :: "compatibility_policy option"
  verification :: verification_state
  phases :: "nat \<Rightarrow> phase"
  runnable :: "nat set"
  next_token :: nat

definition system_start :: "compatibility_policy option \<Rightarrow> system" where
  "system_start policy =
     (let c = client_compatibility_new policy in
      \<lparr>sys_policy = policy, verification = cc_verification c, phases = (\<lambda>_. Outside),
       runnable = {}, next_token = 0\<rparr>)"

definition too_many_waiters :: error where
  "too_many_waiters = OpenBaoCompatibilityProbe ''too many concurrent compatibility waiters''"

inductive cache_step :: "system \<Rightarrow> system \<Rightarrow> bool" where
  call: "phases s t = Outside \<or> (\<exists>r. phases s t = Returned r) \<Longrightarrow>
    cache_step s (s\<lparr>phases := (phases s)(t := LoopHead), runnable := insert t (runnable s)\<rparr>)"
| head_complete: "phases s t = LoopHead \<Longrightarrow>
    choose_action (verification s) = (v, ActComplete result) \<Longrightarrow>
    cache_step s (s\<lparr>verification := v,
      phases := (phases s)(t := Returned (rmap_err compatibility_error result))\<rparr>)"
| head_wait: "phases s t = LoopHead \<Longrightarrow> choose_action (verification s) = (v, ActWait) \<Longrightarrow>
    cache_step s (s\<lparr>verification := v, phases := (phases s)(t := Waiting (next_token s)),
      runnable := insert t (runnable s), next_token := Suc (next_token s)\<rparr>)"
| head_lead: "phases s t = LoopHead \<Longrightarrow> choose_action (verification s) = (v, ActLead) \<Longrightarrow>
    cache_step s (s\<lparr>verification := v, phases := (phases s)(t := Leading)\<rparr>)"
| poll_pending: "phases s t = Waiting token \<Longrightarrow>
    wait_poll (verification s) token t = (v, None) \<Longrightarrow>
    cache_step s (s\<lparr>verification := v, runnable := runnable s - {t}\<rparr>)"
| poll_complete: "phases s t = Waiting token \<Longrightarrow>
    wait_poll (verification s) token t = (v, Some (WaitComplete result)) \<Longrightarrow>
    cache_step s (s\<lparr>verification := wait_drop v token,
      phases := (phases s)(t := Returned (rmap_err compatibility_error result))\<rparr>)"
| poll_retry: "phases s t = Waiting token \<Longrightarrow>
    wait_poll (verification s) token t = (v, Some WaitRetry) \<Longrightarrow>
    cache_step s (s\<lparr>verification := wait_drop v token, phases := (phases s)(t := LoopHead),
      runnable := insert t (runnable s)\<rparr>)"
| poll_too_many: "phases s t = Waiting token \<Longrightarrow>
    wait_poll (verification s) token t = (v, Some WaitTooManyWaiters) \<Longrightarrow>
    cache_step s (s\<lparr>verification := wait_drop v token,
      phases := (phases s)(t := Returned (Inl too_many_waiters))\<rparr>)"
| lead_complete: "phases s t = Leading \<Longrightarrow>
    result = evaluate_compatibility_policy (sys_policy s) probe \<Longrightarrow>
    leader_complete (verification s) result = (v, woken) \<Longrightarrow>
    cache_step s (s\<lparr>verification := v, runnable := runnable s \<union> set woken,
      phases := (phases s)(t := Returned (rmap_err compatibility_error result))\<rparr>)"
| cancel_head: "phases s t = LoopHead \<Longrightarrow>
    cache_step s (s\<lparr>phases := (phases s)(t := Outside)\<rparr>)"
| cancel_wait: "phases s t = Waiting token \<Longrightarrow>
    cache_step s (s\<lparr>verification := wait_drop (verification s) token,
      phases := (phases s)(t := Outside)\<rparr>)"
| cancel_leader: "phases s t = Leading \<Longrightarrow> leader_drop (verification s) = (v, woken) \<Longrightarrow>
    cache_step s (s\<lparr>verification := v, runnable := runnable s \<union> set woken,
      phases := (phases s)(t := Outside)\<rparr>)"

inductive reachable :: "compatibility_policy option \<Rightarrow> system \<Rightarrow> bool" for policy where
  start: "reachable policy (system_start policy)"
| step: "reachable policy s \<Longrightarrow> cache_step s s' \<Longrightarrow> reachable policy s'"

inductive_cases cache_step_cases: "cache_step s s'"

section \<open>Invariants\<close>

abbreviation is_running :: "verification_state \<Rightarrow> bool" where
  "is_running v \<equiv> (\<exists>ws. v = Running ws)"

text \<open>Exactly while the cache is running there is a leader, and never a second one.\<close>

definition leader_inv :: "system \<Rightarrow> bool" where
  "leader_inv s \<longleftrightarrow>
     (\<forall>t u. phases s t = Leading \<longrightarrow> phases s u = Leading \<longrightarrow> t = u) \<and>
     ((\<exists>t. phases s t = Leading) \<longleftrightarrow> is_running (verification s))"

text \<open>Tokens of waiting tasks are distinct and below the counter.\<close>

definition token_inv :: "system \<Rightarrow> bool" where
  "token_inv s \<longleftrightarrow>
     (\<forall>t k. phases s t = Waiting k \<longrightarrow> k < next_token s) \<and>
     (\<forall>t u k. phases s t = Waiting k \<longrightarrow> phases s u = Waiting k \<longrightarrow> t = u)"

text \<open>Registered waiters are waiting tasks, once each, and at most the limit.\<close>

definition waiters_inv :: "system \<Rightarrow> bool" where
  "waiters_inv s \<longleftrightarrow>
     length (waiters_of (verification s)) \<le> MAX_COMPATIBILITY_WAITERS \<and>
     (\<forall>k w. (k, w) \<in> set (waiters_of (verification s)) \<longrightarrow> phases s w = Waiting k)"

text \<open>No lost wake-up: a waiting task that is not runnable is registered with the leader.\<close>

definition wake_inv :: "system \<Rightarrow> bool" where
  "wake_inv s \<longleftrightarrow>
     (\<forall>t k. phases s t = Waiting k \<longrightarrow> t \<notin> runnable s \<longrightarrow>
        (k, t) \<in> set (waiters_of (verification s)))"

text \<open>What is cached, and what successful callers got, is one evaluation of the policy.\<close>

definition result_inv :: "compatibility_policy option \<Rightarrow> system \<Rightarrow> bool" where
  "result_inv policy s \<longleftrightarrow> sys_policy s = policy \<and>
     (\<forall>r. verification s = Complete r \<longrightarrow> (\<exists>probe. r = evaluate_compatibility_policy policy probe)) \<and>
     (\<forall>t rep. phases s t = Returned (Inr rep) \<longrightarrow> verification s = Complete (Inr rep))"

lemma choose_action_cases:
  "choose_action v = (v', ActComplete r) \<Longrightarrow> v = Complete r \<and> v' = v"
  "choose_action v = (v', ActWait) \<Longrightarrow> is_running v \<and> v' = v"
  "choose_action v = (v', ActLead) \<Longrightarrow> v = Pending \<and> v' = Running []"
  by (cases v; auto)+

lemma wait_poll_cases:
  "wait_poll v k t = (v', Some (WaitComplete r)) \<Longrightarrow> v = Complete r \<and> v' = v"
  "wait_poll v k t = (v', Some WaitRetry) \<Longrightarrow> v = Pending \<and> v' = v"
  "wait_poll v k t = (v', Some WaitTooManyWaiters) \<Longrightarrow>
     is_running v \<and> v' = v \<and> MAX_COMPATIBILITY_WAITERS \<le> length (waiters_of v)"
  by (cases v; auto split: if_splits)+

lemma set_waker_length [simp]: "length (set_waker ws k t) = length ws"
  by (induction ws k t rule: set_waker.induct) auto

lemma set_waker_mem: "(j, w) \<in> set (set_waker ws k t) \<Longrightarrow> (j, w) \<in> set ws \<or> j = k \<and> w = t"
  by (induction ws k t rule: set_waker.induct) (auto split: if_splits)

lemma set_waker_keeps: "(j, w) \<in> set ws \<Longrightarrow> j \<noteq> k \<Longrightarrow> (j, w) \<in> set (set_waker ws k t)"
  by (induction ws k t rule: set_waker.induct) auto

lemma set_waker_sets: "k \<in> fst ` set ws \<Longrightarrow> (k, t) \<in> set (set_waker ws k t)"
  by (induction ws k t rule: set_waker.induct) auto

text \<open>A poll that stays pending: the caller is registered, the others keep their place.\<close>

lemma wait_poll_pending:
  assumes "wait_poll v k t = (v', None)"
  shows "is_running v" "is_running v'" "(k, t) \<in> set (waiters_of v')"
    and "(j, w) \<in> set (waiters_of v) \<Longrightarrow> j \<noteq> k \<Longrightarrow> (j, w) \<in> set (waiters_of v')"
    and "(j, w) \<in> set (waiters_of v') \<Longrightarrow> (j, w) \<in> set (waiters_of v) \<or> j = k \<and> w = t"
    and "length (waiters_of v) \<le> MAX_COMPATIBILITY_WAITERS \<Longrightarrow>
      length (waiters_of v') \<le> MAX_COMPATIBILITY_WAITERS"
proof -
  from assms obtain ws where v: "v = Running ws" by (cases v) auto
  show "is_running v" using v by simp
  show "is_running v'" using assms v by (auto split: if_splits)
  show "(k, t) \<in> set (waiters_of v')"
    using assms v set_waker_sets [of k ws t] by (auto split: if_splits)
  show "(j, w) \<in> set (waiters_of v) \<Longrightarrow> j \<noteq> k \<Longrightarrow> (j, w) \<in> set (waiters_of v')"
    using assms v set_waker_keeps [of j w ws k t] by (auto split: if_splits)
  show "(j, w) \<in> set (waiters_of v') \<Longrightarrow> (j, w) \<in> set (waiters_of v) \<or> j = k \<and> w = t"
    using assms v set_waker_mem [of j w ws k t] by (auto split: if_splits)
  show "length (waiters_of v) \<le> MAX_COMPATIBILITY_WAITERS \<Longrightarrow>
      length (waiters_of v') \<le> MAX_COMPATIBILITY_WAITERS"
    using assms v by (auto split: if_splits)
qed

lemma wait_drop_simps [simp]:
  "is_running (wait_drop v k) \<longleftrightarrow> is_running v"
  "wait_drop v k = Complete r \<longleftrightarrow> v = Complete r"
  "waiters_of (wait_drop v k) = filter (\<lambda>(t, w). t \<noteq> k) (waiters_of v)"
  by (cases v; auto)+

lemma not_running_waiters: "\<not> is_running v \<Longrightarrow> waiters_of v = []"
  by (cases v) auto

lemma leader_drop_simps:
  "leader_drop v = (v', ws) \<Longrightarrow> is_running v \<Longrightarrow> v' = Pending \<and> ws = map snd (waiters_of v)"
  by (cases v) auto

lemma leader_inv_step:
  assumes "cache_step s s'" "leader_inv s"
  shows "leader_inv s'"
  using assms(1)
proof (cases rule: cache_step.cases)
  case (head_complete t v result)
  with assms(2) choose_action_cases(1) [OF head_complete(3)] show ?thesis
    by (auto simp: leader_inv_def split: if_splits)
next
  case (head_wait t v)
  with assms(2) choose_action_cases(2) [OF head_wait(3)] show ?thesis
    by (force simp: leader_inv_def)
next
  case (head_lead t v)
  with assms(2) choose_action_cases(3) [OF head_lead(3)] show ?thesis
    by (auto simp: leader_inv_def split: if_splits)
next
  case (poll_pending t token v)
  with assms(2) wait_poll_pending(1,2) [OF poll_pending(3)] show ?thesis
    by (auto simp: leader_inv_def)
next
  case (poll_complete t token v result)
  with assms(2) wait_poll_cases(1) [OF poll_complete(3)] show ?thesis
    by (auto simp: leader_inv_def)
next
  case (poll_retry t token v)
  with assms(2) wait_poll_cases(2) [OF poll_retry(3)] show ?thesis
    by (auto simp: leader_inv_def)
next
  case (poll_too_many t token v)
  with assms(2) wait_poll_cases(3) [OF poll_too_many(3)] show ?thesis
    by (force simp: leader_inv_def)
next
  case (cancel_leader t v woken)
  then have "is_running (verification s)" using assms(2) by (auto simp: leader_inv_def)
  with cancel_leader assms(2) leader_drop_simps [OF cancel_leader(3)] show ?thesis
    by (auto simp: leader_inv_def)
qed (use assms(2) in \<open>auto simp: leader_inv_def leader_complete_def split: if_splits; metis phase.distinct\<close>)+

lemma token_inv_step:
  assumes "cache_step s s'" "token_inv s"
  shows "token_inv s'"
  using assms
  by (cases rule: cache_step.cases) (force simp: token_inv_def less_Suc_eq split: if_splits)+

lemma waiters_inv_step:
  assumes "cache_step s s'" "leader_inv s" "waiters_inv s"
  shows "waiters_inv s'"
  using assms(1)
proof (cases rule: cache_step.cases)
  case (head_complete t v result)
  with assms(3) choose_action_cases(1) [OF head_complete(3)] show ?thesis
    by (auto simp: waiters_inv_def)
next
  case (head_wait t v)
  with assms(3) choose_action_cases(2) [OF head_wait(3)] show ?thesis
    by (force simp: waiters_inv_def)
next
  case (head_lead t v)
  with assms(3) choose_action_cases(3) [OF head_lead(3)] show ?thesis
    by (auto simp: waiters_inv_def)
next
  case (poll_pending t token v)
  with assms(3) wait_poll_pending(5,6) [OF poll_pending(3)] show ?thesis
    by (auto simp: waiters_inv_def)
next
  case (poll_complete t token v result)
  with assms(3) wait_poll_cases(1) [OF poll_complete(3)] show ?thesis
    by (auto simp: waiters_inv_def)
next
  case (poll_retry t token v)
  with assms(3) wait_poll_cases(2) [OF poll_retry(3)] show ?thesis
    by (auto simp: waiters_inv_def)
next
  case (poll_too_many t token v)
  with assms(3) wait_poll_cases(3) [OF poll_too_many(3)] show ?thesis
    by (auto simp: waiters_inv_def le_trans [OF length_filter_le])
next
  case (cancel_wait t token)
  with assms(3) show ?thesis
    by (auto simp: waiters_inv_def le_trans [OF length_filter_le])
next
  case (cancel_leader t v woken)
  then have "is_running (verification s)" using assms(2) by (auto simp: leader_inv_def)
  with cancel_leader assms(3) leader_drop_simps [OF cancel_leader(3)] show ?thesis
    by (auto simp: waiters_inv_def)
qed (use assms(3) in \<open>force simp: waiters_inv_def leader_complete_def\<close>)+

lemma wake_inv_step:
  assumes "cache_step s s'" "leader_inv s" "token_inv s" "wake_inv s"
  shows "wake_inv s'"
  using assms(1)
proof (cases rule: cache_step.cases)
  case (head_complete t v result)
  with assms(4) choose_action_cases(1) [OF head_complete(3)] show ?thesis
    by (auto simp: wake_inv_def)
next
  case (head_wait t v)
  with assms(4) choose_action_cases(2) [OF head_wait(3)] show ?thesis
    by (auto simp: wake_inv_def)
next
  case (head_lead t v)
  with assms(4) choose_action_cases(3) [OF head_lead(3)] show ?thesis
    by (auto simp: wake_inv_def)
next
  case (poll_pending t token v)
  have "(j, u) \<in> set (waiters_of v)" if "phases s u = Waiting j" "u \<notin> runnable s - {t}" for u j
  proof (cases "u = t")
    case True
    with that poll_pending wait_poll_pending(3) [OF poll_pending(3)] show ?thesis by simp
  next
    case False
    with that poll_pending assms(3) have "j \<noteq> token" by (auto simp: token_inv_def)
    moreover have "(j, u) \<in> set (waiters_of (verification s))"
      using that False assms(4) by (auto simp: wake_inv_def)
    ultimately show ?thesis by (intro wait_poll_pending(4) [OF poll_pending(3)])
  qed
  with poll_pending show ?thesis by (auto simp: wake_inv_def)
next
  case (poll_complete t token v result)
  with assms(4) wait_poll_cases(1) [OF poll_complete(3)] show ?thesis
    by (auto simp: wake_inv_def)
next
  case (poll_retry t token v)
  with assms(4) wait_poll_cases(2) [OF poll_retry(3)] show ?thesis
    by (auto simp: wake_inv_def)
next
  case (poll_too_many t token v)
  with assms(3,4) wait_poll_cases(3) [OF poll_too_many(3)] show ?thesis
    by (auto simp: wake_inv_def token_inv_def)
next
  case (cancel_wait t token)
  with assms(3,4) show ?thesis by (auto simp: wake_inv_def token_inv_def)
next
  case (lead_complete t result probe v woken)
  with assms(4) show ?thesis by (force simp: wake_inv_def leader_complete_def)
next
  case (cancel_leader t v woken)
  then have "is_running (verification s)" using assms(2) by (auto simp: leader_inv_def)
  with cancel_leader assms(4) leader_drop_simps [OF cancel_leader(3)] show ?thesis
    by (force simp: wake_inv_def)
qed (use assms(4) in \<open>auto simp: wake_inv_def\<close>)

lemma result_inv_step:
  assumes "cache_step s s'" "leader_inv s" "result_inv policy s"
  shows "result_inv policy s'"
  using assms(1)
proof (cases rule: cache_step.cases)
  case (head_complete t v result)
  with assms(3) choose_action_cases(1) [OF head_complete(3)] show ?thesis
    by (cases result) (auto simp: result_inv_def)
next
  case (head_wait t v)
  with assms(3) choose_action_cases(2) [OF head_wait(3)] show ?thesis
    by (auto simp: result_inv_def)
next
  case (head_lead t v)
  with assms(3) choose_action_cases(3) [OF head_lead(3)] show ?thesis
    by (auto simp: result_inv_def)
next
  case (poll_pending t token v)
  with assms(3) wait_poll_pending(1,2) [OF poll_pending(3)] show ?thesis
    by (auto simp: result_inv_def)
next
  case (poll_complete t token v result)
  with assms(3) wait_poll_cases(1) [OF poll_complete(3)] show ?thesis
    by (cases result) (auto simp: result_inv_def)
next
  case (poll_retry t token v)
  with assms(3) wait_poll_cases(2) [OF poll_retry(3)] show ?thesis
    by (auto simp: result_inv_def)
next
  case (poll_too_many t token v)
  with assms(3) wait_poll_cases(3) [OF poll_too_many(3)] show ?thesis
    by (auto simp: result_inv_def)
next
  case (lead_complete t result probe v woken)
  then have "is_running (verification s)" using assms(2) by (auto simp: leader_inv_def)
  then have "\<not> (\<exists>u rep. phases s u = Returned (Inr rep))"
    using assms(3) by (auto simp: result_inv_def)
  with lead_complete assms(3) show ?thesis
    by (auto simp: result_inv_def leader_complete_def)
next
  case (cancel_leader t v woken)
  then have "is_running (verification s)" using assms(2) by (auto simp: leader_inv_def)
  with cancel_leader assms(3) leader_drop_simps [OF cancel_leader(3)] show ?thesis
    by (auto simp: result_inv_def)
qed (use assms(3) in \<open>auto simp: result_inv_def\<close>)

definition cache_inv :: "compatibility_policy option \<Rightarrow> system \<Rightarrow> bool" where
  "cache_inv policy s \<longleftrightarrow>
     leader_inv s \<and> token_inv s \<and> waiters_inv s \<and> wake_inv s \<and> result_inv policy s"

lemma cache_inv_start: "cache_inv policy (system_start policy)"
proof -
  have "\<exists>probe. Inr report_unverified = evaluate_compatibility_policy None probe"
    by (simp add: evaluate_compatibility_policy_def)
  moreover have "immediate_report p = Some r \<Longrightarrow>
      \<exists>probe. Inr r = evaluate_compatibility_policy (Some p) probe" for p r
    by (simp add: evaluate_compatibility_policy_def)
  ultimately show ?thesis
    by (auto simp: cache_inv_def leader_inv_def token_inv_def waiters_inv_def wake_inv_def
        result_inv_def system_start_def client_compatibility_new_def split: option.splits)
qed

lemma cache_inv_step: "cache_step s s' \<Longrightarrow> cache_inv policy s \<Longrightarrow> cache_inv policy s'"
  by (simp add: cache_inv_def leader_inv_step token_inv_step waiters_inv_step wake_inv_step
      result_inv_step)

lemma reachable_inv: "reachable policy s \<Longrightarrow> cache_inv policy s"
  by (induction rule: reachable.induct) (auto intro: cache_inv_start cache_inv_step)

section \<open>Properties\<close>

text \<open>A schedule in which task 1 leads and task 2 is registered and asleep.\<close>

definition demo_state :: system where
  "demo_state =
     \<lparr>sys_policy = Some PolicyAutomaticStrict, verification = Running [(0, 2)],
      phases = (\<lambda>_. Outside)(1 := Leading, 2 := Waiting 0), runnable = {1}, next_token = 1\<rparr>"

lemma demo_reachable: "reachable (Some PolicyAutomaticStrict) demo_state"
proof -
  let ?R = "reachable (Some PolicyAutomaticStrict)"
  let ?p = "Some PolicyAutomaticStrict"
  have "?R \<lparr>sys_policy = ?p, verification = Pending, phases = (\<lambda>_. Outside),
      runnable = {}, next_token = 0\<rparr>"
    using reachable.start [of ?p] by (simp add: system_start_def client_compatibility_new_def)
  then have "?R \<lparr>sys_policy = ?p, verification = Pending, phases = (\<lambda>_. Outside)(1 := LoopHead),
      runnable = {1}, next_token = 0\<rparr>"
    by (rule reachable.step) (rule cache_step.call [of _ 1, THEN back_subst [where P = "cache_step _"]],
      simp_all)
  then have "?R \<lparr>sys_policy = ?p, verification = Running [], phases = (\<lambda>_. Outside)(1 := Leading),
      runnable = {1}, next_token = 0\<rparr>"
    by (rule reachable.step)
      (rule cache_step.head_lead [of _ 1, THEN back_subst [where P = "cache_step _"]], simp_all)
  then have "?R \<lparr>sys_policy = ?p, verification = Running [],
      phases = (\<lambda>_. Outside)(1 := Leading, 2 := LoopHead), runnable = {1, 2}, next_token = 0\<rparr>"
    by (rule reachable.step) (rule cache_step.call [of _ 2, THEN back_subst [where P = "cache_step _"]],
      simp_all add: insert_commute)
  then have "?R \<lparr>sys_policy = ?p, verification = Running [],
      phases = (\<lambda>_. Outside)(1 := Leading, 2 := Waiting 0), runnable = {1, 2}, next_token = 1\<rparr>"
    by (rule reachable.step)
      (rule cache_step.head_wait [of _ 2, THEN back_subst [where P = "cache_step _"]],
        simp_all add: insert_commute insert_absorb)
  then show ?thesis
    unfolding demo_state_def
    by (rule reachable.step)
      (rule cache_step.poll_pending [of _ 2, THEN back_subst [where P = "cache_step _"]],
        auto simp: MAX_COMPATIBILITY_WAITERS_def)
qed

text \<open>C7: No wake-up is lost: whatever the interleaving of calls, polls, cancellations and leader
  results, a waiting task that has not been woken is registered under its own token while some
  task leads, and both ends of that leader, completing or being dropped, wake it.\<close>

theorem compatibility_no_lost_wakeup:
  assumes "reachable policy s" "phases s t = Waiting k" "t \<notin> runnable s"
  shows "(\<exists>u. phases s u = Leading) \<and> (k, t) \<in> set (waiters_of (verification s)) \<and>
    t \<in> set (snd (leader_complete (verification s) r)) \<and> t \<in> set (snd (leader_drop (verification s)))"
proof -
  from reachable_inv [OF assms(1)] have inv: "leader_inv s" "wake_inv s"
    by (simp_all add: cache_inv_def)
  from inv(2) assms have reg: "(k, t) \<in> set (waiters_of (verification s))"
    by (simp add: wake_inv_def)
  then obtain ws where ws: "verification s = Running ws"
    using not_running_waiters by fastforce
  with inv(1) have "\<exists>u. phases s u = Leading" by (simp add: leader_inv_def)
  with reg ws show ?thesis by (force simp: leader_complete_def)
qed

theorem compatibility_no_lost_wakeup_witness:
  "2 \<in> set (snd (leader_complete (verification demo_state) (Inr report_unverified)))"
  using compatibility_no_lost_wakeup [OF demo_reachable, of 2 0 "Inr report_unverified"]
  by (simp add: demo_state_def)

text \<open>At most one task evaluates the policy at a time, it does exactly while the cache says so,
  and at most 4096 tasks are registered, each once.\<close>

theorem compatibility_single_leader:
  assumes "reachable policy s"
  shows "({t. phases s t = Leading} = {} \<or> (\<exists>t. {u. phases s u = Leading} = {t})) \<and>
    ((\<exists>t. phases s t = Leading) \<longleftrightarrow> (\<exists>ws. verification s = Running ws)) \<and>
    length (waiters_of (verification s)) \<le> MAX_COMPATIBILITY_WAITERS"
proof -
  have "leader_inv s" "waiters_inv s"
    using reachable_inv [OF assms] by (simp_all add: cache_inv_def)
  then show ?thesis unfolding leader_inv_def waiters_inv_def by blast
qed

theorem compatibility_single_leader_witness:
  "\<exists>t. {u. phases demo_state u = Leading} = {t}"
  using compatibility_single_leader [OF demo_reachable] by (auto simp: demo_state_def)

text \<open>The cached outcome is final, and it is one evaluation of the policy: no step of any task
  changes it.\<close>

theorem compatibility_complete_stable:
  assumes "reachable policy s" "verification s = Complete r" "cache_step s s'"
  shows "verification s' = Complete r \<and> (\<exists>probe. r = evaluate_compatibility_policy policy probe)"
proof -
  from reachable_inv [OF assms(1)] have inv: "leader_inv s" "result_inv policy s"
    by (simp_all add: cache_inv_def)
  then have "phases s t \<noteq> Leading" for t using assms(2) by (auto simp: leader_inv_def)
  with assms(3) have "verification s' = Complete r"
    by (cases rule: cache_step.cases) (use assms(2) in auto)
  with inv(2) assms(2) show ?thesis by (auto simp: result_inv_def)
qed

lemma evaluate_policy_detected:
  assumes "evaluate_compatibility_policy (Some p) probe = Inr a"
  shows "\<exists>d. evaluate_detected p d = Inr a"
proof (cases "immediate_report p")
  case None
  with assms show ?thesis
    by (auto simp: evaluate_compatibility_policy_def rbind_Inr_iff)
next
  case (Some r)
  then have "evaluate_detected p d = Inr r" for d by (cases p) auto
  with Some assms show ?thesis by (auto simp: evaluate_compatibility_policy_def)
qed

text \<open>All callers of a client that get a report get the same one, and under a policy the public
  constructors built it names a release of the inventory.\<close>

theorem compatibility_reports_agree:
  assumes "reachable (Some p) s" "policy_constructible p"
    and "phases s t = Returned (Inr a)" "phases s u = Returned (Inr b)"
  shows "a = b \<and> (\<exists>v. profile_version a = Some v \<and> is_routable_profile v)"
proof -
  have inv: "result_inv (Some p) s"
    using reachable_inv [OF assms(1)] by (simp add: cache_inv_def)
  then have a: "verification s = Complete (Inr a)"
    using assms(3) by (simp add: result_inv_def)
  have b: "verification s = Complete (Inr b)"
    using inv assms(4) by (simp add: result_inv_def)
  from a inv obtain probe where
    "evaluate_compatibility_policy (Some p) probe = Inr a" by (auto simp: result_inv_def)
  then have "\<exists>d. evaluate_detected p d = Inr a" by (rule evaluate_policy_detected)
  then have "\<exists>v. profile_version a = Some v \<and> is_routable_profile v"
    using evaluate_detected_sound_aux [OF assms(2)] by (auto simp: report_sound_def)
  with a b show ?thesis by simp
qed

text \<open>Two callers of an assumed profile.\<close>

lemma assumed_reachable:
  "reachable (Some (PolicyAssumed v))
     \<lparr>sys_policy = Some (PolicyAssumed v), verification = Complete (Inr (report_assumed v)),
      phases = (\<lambda>_. Outside)(1 := Returned (Inr (report_assumed v))), runnable = {1},
      next_token = 0\<rparr>"
proof -
  let ?R = "reachable (Some (PolicyAssumed v))"
  have "?R \<lparr>sys_policy = Some (PolicyAssumed v), verification = Complete (Inr (report_assumed v)),
      phases = (\<lambda>_. Outside), runnable = {}, next_token = 0\<rparr>"
    using reachable.start [of "Some (PolicyAssumed v)"]
    by (simp add: system_start_def client_compatibility_new_def)
  then have "?R \<lparr>sys_policy = Some (PolicyAssumed v), verification = Complete (Inr (report_assumed v)),
      phases = (\<lambda>_. Outside)(1 := LoopHead), runnable = {1}, next_token = 0\<rparr>"
    by (rule reachable.step) (rule cache_step.call [of _ 1, THEN back_subst [where P = "cache_step _"]],
      simp_all)
  then show ?thesis
    by (rule reachable.step)
      (rule cache_step.head_complete [of _ 1 "Complete (Inr (report_assumed v))"
          "Inr (report_assumed v)", THEN back_subst [where P = "cache_step _"]], simp_all)
qed

theorem compatibility_reports_agree_witness:
  "\<exists>v. profile_version (report_assumed (OpenBaoVersion 2 7 2)) = Some v \<and> is_routable_profile v"
  using compatibility_reports_agree [OF assumed_reachable, of "OpenBaoVersion 2 7 2" 1
      "report_assumed (OpenBaoVersion 2 7 2)" 1 "report_assumed (OpenBaoVersion 2 7 2)"]
  by simp

theorem compatibility_complete_stable_witness:
  "\<exists>probe. Inr (report_assumed (OpenBaoVersion 2 7 2)) =
     evaluate_compatibility_policy (Some (PolicyAssumed (OpenBaoVersion 2 7 2))) probe"
  using compatibility_complete_stable [OF assumed_reachable _ cache_step.call [of _ 1],
      of "OpenBaoVersion 2 7 2" "Inr (report_assumed (OpenBaoVersion 2 7 2))"]
  by simp

end
