(* ===== verification/Bao_Config.thy ===== *)
theory Bao_Config
  imports Bao_Validation Bao_Cache
begin

text \<open>
  \<open>OpenBaoConfig\<close>, its setters and validation, the environment lookup and \<open>ClientBuilder\<close> of
  \<open>client.rs\<close>. Cargo features are the record \<open>features\<close>; \<open>parse_base\<close> is \<open>Url::parse\<close> with its
  error text, \<open>from_pem\<close> and \<open>read_ca\<close> stand for the certificate parser and the file read, and
  a reqwest client is the record of what the builder was given.
\<close>

section \<open>The configuration\<close>

definition MAX_RESPONSE_BYTES :: nat where "MAX_RESPONSE_BYTES = 32 * 1024 * 1024"
definition MIN_RESPONSE_BYTES :: nat where "MIN_RESPONSE_BYTES = 1024"
definition DEFAULT_MAX_REQUEST_BYTES :: nat where "DEFAULT_MAX_REQUEST_BYTES = 8 * 1024 * 1024"
definition MAX_REQUEST_BYTES :: nat where "MAX_REQUEST_BYTES = 32 * 1024 * 1024"
definition MIN_REQUEST_BYTES :: nat where "MIN_REQUEST_BYTES = 1024"
definition MAX_USER_AGENT_BYTES :: nat where "MAX_USER_AGENT_BYTES = 512"
definition DEFAULT_MAX_AUTH_TOKEN_BYTES :: nat where "DEFAULT_MAX_AUTH_TOKEN_BYTES = 16 * 1024"
definition ABSOLUTE_MAX_AUTH_TOKEN_BYTES :: nat where "ABSOLUTE_MAX_AUTH_TOKEN_BYTES = 1024 * 1024"
definition MAX_REQUEST_TIMEOUT :: std_duration where "MAX_REQUEST_TIMEOUT = duration_from_secs 300"
definition MAX_CONNECT_TIMEOUT :: std_duration where "MAX_CONNECT_TIMEOUT = duration_from_secs 300"

declare MAX_RESPONSE_BYTES_def [limits] MIN_RESPONSE_BYTES_def [limits]
  DEFAULT_MAX_REQUEST_BYTES_def [limits] MAX_REQUEST_BYTES_def [limits]
  MIN_REQUEST_BYTES_def [limits] MAX_USER_AGENT_BYTES_def [limits]
  DEFAULT_MAX_AUTH_TOKEN_BYTES_def [limits] ABSOLUTE_MAX_AUTH_TOKEN_BYTES_def [limits]
  MAX_REQUEST_TIMEOUT_def [limits] MAX_CONNECT_TIMEOUT_def [limits]

text \<open>\<open>Duration\<close>'s order compares seconds first.\<close>

definition duration_less :: "std_duration \<Rightarrow> std_duration \<Rightarrow> bool" where
  "duration_less a b \<longleftrightarrow>
     as_secs a < as_secs b \<or> as_secs a = as_secs b \<and> subsec_nanos a < subsec_nanos b"

datatype http_policy = HttpsOnly | LocalhostHttpAllowed
datatype header_mode = VaultToken | Bearer
datatype root_certificate_mode = MergeWithSystem | OnlyConfigured
datatype tls_version = TLS_1_0 | TLS_1_1 | TLS_1_2 | TLS_1_3
datatype tls_backend = Rustls | Native

type_synonym certificate = string

record features =
  tls12_acknowledged :: bool
  raw_api :: bool
  raw_api_acknowledged :: bool
  native_tls :: bool
  rustls_tls :: bool
  memory_lock :: bool

record config =
  base_url :: url
  timeout :: std_duration
  connect_timeout :: std_duration
  max_request_bytes :: nat
  max_response_bytes :: nat
  max_auth_token_bytes :: nat
  user_agent :: string
  namespace :: "string option"
  http_policy :: http_policy
  header_mode :: header_mode
  min_tls_version :: tls_version
  root_certificates :: "certificate list"
  root_certificate_mode :: root_certificate_mode
  crl_pem_bundles :: "string list"
  client_identity :: "string option"
  compatibility_policy :: "compatibility_policy option"
  external_plugins :: "external_plugin_selection list"

fun is_loopback_addr :: "ip_addr \<Rightarrow> bool" where
  "is_loopback_addr (V4 a) \<longleftrightarrow> unat a div 2 ^ 24 = 127"
| "is_loopback_addr (V6 a) \<longleftrightarrow> a = 1"

definition is_loopback_url :: "url \<Rightarrow> bool" where
  "is_loopback_url u =
     (case url_host_str u of
        Some host \<Rightarrow> (case parse_ip_addr host of None \<Rightarrow> False | Some a \<Rightarrow> is_loopback_addr a)
      | None \<Rightarrow> False)"

definition validate_base_url_components :: "url \<Rightarrow> unit res" where
  "validate_base_url_components u =
     (if url_username u \<noteq> [] \<or> url_password u \<noteq> None
      then Inl (InvalidBaseUrl ''base URL must not contain user credentials'')
      else if url_query u \<noteq> None \<or> url_fragment u \<noteq> None
      then Inl (InvalidBaseUrl ''base URL must not contain a query or fragment'')
      else if url_path u \<notin> {'''', ''/''}
      then Inl (InvalidBaseUrl ''base URL must not contain an application path'')
      else Inr ())"

definition validate_min_tls_version :: "features \<Rightarrow> tls_version \<Rightarrow> unit res" where
  "validate_min_tls_version fs version =
     (if version = TLS_1_0 \<or> version = TLS_1_1
      then Inl (InvalidTlsConfig ''TLS versions below 1.2 are not supported by this crate'')
      else if \<not> tls12_acknowledged fs \<and> version = TLS_1_2
      then Inl (InvalidTlsConfig ''TLS 1.2 requires the tls12-acknowledged feature'')
      else Inr ())"

definition validate_max_auth_token_bytes :: "nat \<Rightarrow> unit res" where
  "validate_max_auth_token_bytes bytes =
     (if \<not> (1 \<le> bytes \<and> bytes \<le> ABSOLUTE_MAX_AUTH_TOKEN_BYTES)
      then Inl (InvalidParameter
        ''authentication token limit must be between 1 byte and 1 MiB'')
      else Inr ())"

definition config_validate :: "features \<Rightarrow> config \<Rightarrow> unit res" where
  "config_validate fs c =
     rbind (validate_base_url_components (base_url c)) (\<lambda>_.
     rbind (validate_min_tls_version fs (min_tls_version c)) (\<lambda>_.
     rbind (validate_max_auth_token_bytes (max_auth_token_bytes c)) (\<lambda>_.
       if crl_pem_bundles c \<noteq> [] \<and> root_certificate_mode c \<noteq> OnlyConfigured
       then Inl (InvalidTlsConfig ''certificate revocation lists require only_root_certificates'')
       else if url_scheme (base_url c) = ''https'' then Inr ()
       else if url_scheme (base_url c) = ''http'' \<and> http_policy c = LocalhostHttpAllowed \<and>
         is_loopback_url (base_url c) then Inr ()
       else if url_scheme (base_url c) = ''http''
       then Inl (InvalidBaseUrl
         ''plain HTTP is only allowed for explicit numeric loopback development'')
       else Inl (InvalidBaseUrl
         (''unsupported URL scheme `'' @ url_scheme (base_url c) @ ''`'')))))"

definition config_default :: "url \<Rightarrow> config" where
  "config_default u =
     \<lparr>base_url = u, timeout = duration_from_secs 30, connect_timeout = duration_from_secs 5,
      max_request_bytes = DEFAULT_MAX_REQUEST_BYTES, max_response_bytes = MAX_RESPONSE_BYTES,
      max_auth_token_bytes = DEFAULT_MAX_AUTH_TOKEN_BYTES, user_agent = ''openbao-rust-client'',
      namespace = None, http_policy = HttpsOnly, header_mode = VaultToken,
      min_tls_version = TLS_1_3, root_certificates = [],
      root_certificate_mode = MergeWithSystem, crl_pem_bundles = [], client_identity = None,
      compatibility_policy = None, external_plugins = []\<rparr>"

definition config_new :: "(string \<Rightarrow> string + url) \<Rightarrow> string \<Rightarrow> config res" where
  "config_new parse_base text =
     rbind (rmap_err InvalidBaseUrl (parse_base text)) (\<lambda>u.
     rbind (validate_base_url_components u) (\<lambda>_. Inr (config_default u)))"

section \<open>Setters\<close>

definition config_allow_localhost_http :: "features \<Rightarrow> config \<Rightarrow> config res" where
  "config_allow_localhost_http fs c =
     (let c' = c\<lparr>http_policy := LocalhostHttpAllowed\<rparr> in
      rbind (config_validate fs c') (\<lambda>_. Inr c'))"

definition config_timeout :: "std_duration \<Rightarrow> config \<Rightarrow> config res" where
  "config_timeout d c =
     (if duration_is_zero d then Inl (InvalidTimeout ''request timeout must be non-zero'')
      else if duration_less MAX_REQUEST_TIMEOUT d
      then Inl (InvalidTimeout ''request timeout exceeds maximum allowed value'')
      else Inr (c\<lparr>timeout := d\<rparr>))"

definition config_connect_timeout :: "std_duration \<Rightarrow> config \<Rightarrow> config res" where
  "config_connect_timeout d c =
     (if duration_is_zero d then Inl (InvalidTimeout ''connect timeout must be non-zero'')
      else if duration_less MAX_CONNECT_TIMEOUT d
      then Inl (InvalidTimeout ''connect timeout exceeds maximum allowed value'')
      else Inr (c\<lparr>connect_timeout := d\<rparr>))"

definition config_max_response_bytes :: "nat \<Rightarrow> config \<Rightarrow> config res" where
  "config_max_response_bytes bytes c =
     (if bytes < MIN_RESPONSE_BYTES
      then Inl (InvalidParameter ''maximum response size must be at least 1024 bytes'')
      else if MAX_RESPONSE_BYTES < bytes
      then Inl (InvalidParameter ''maximum response size cannot exceed 32 MiB'')
      else Inr (c\<lparr>max_response_bytes := bytes\<rparr>))"

definition config_max_request_bytes :: "nat \<Rightarrow> config \<Rightarrow> config res" where
  "config_max_request_bytes bytes c =
     (if bytes < MIN_REQUEST_BYTES
      then Inl (InvalidParameter ''maximum request size must be at least 1024 bytes'')
      else if MAX_REQUEST_BYTES < bytes
      then Inl (InvalidParameter ''maximum request size cannot exceed 32 MiB'')
      else Inr (c\<lparr>max_request_bytes := bytes\<rparr>))"

definition config_max_auth_token_bytes :: "nat \<Rightarrow> config \<Rightarrow> config res" where
  "config_max_auth_token_bytes bytes c =
     rbind (validate_max_auth_token_bytes bytes) (\<lambda>_. Inr (c\<lparr>max_auth_token_bytes := bytes\<rparr>))"

definition validate_user_agent :: "string \<Rightarrow> unit res" where
  "validate_user_agent s =
     (if s = [] then Inl (InvalidParameter ''user agent must not be empty'')
      else if MAX_USER_AGENT_BYTES < length s
      then Inl (InvalidParameter ''user agent exceeds maximum allowed length'')
      else if \<not> is_ascii s
      then Inl (InvalidParameter ''user agent must contain only ASCII characters'')
      else if list_ex (\<lambda>b. byte b < 32 \<or> byte b = 127) s
      then Inl (InvalidParameter ''user agent must not contain control characters'')
      else Inr ())"

definition config_user_agent :: "string \<Rightarrow> config \<Rightarrow> config res" where
  "config_user_agent s c = rbind (validate_user_agent s) (\<lambda>_. Inr (c\<lparr>user_agent := s\<rparr>))"

definition config_namespace :: "string \<Rightarrow> config \<Rightarrow> config res" where
  "config_namespace s c =
     rbind (validate_mount_path s) (\<lambda>segs. Inr (c\<lparr>namespace := Some (join_path segs)\<rparr>))"

definition config_header_mode :: "header_mode \<Rightarrow> config \<Rightarrow> config" where
  "config_header_mode m c = c\<lparr>header_mode := m\<rparr>"

definition config_compatibility_policy :: "compatibility_policy \<Rightarrow> config \<Rightarrow> config" where
  "config_compatibility_policy p c = c\<lparr>compatibility_policy := Some p\<rparr>"

definition config_external_plugin :: "external_plugin_selection \<Rightarrow> config \<Rightarrow> config res" where
  "config_external_plugin s c =
     (if 32 \<le> length (external_plugins c) \<or> list_ex (\<lambda>e. same_mount e s) (external_plugins c)
      then Inl (InvalidParameter
        ''external plugin mount selection is duplicate or exceeds its limit'')
      else Inr (c\<lparr>external_plugins := external_plugins c @ [s]\<rparr>))"

definition config_min_tls_version :: "tls_version \<Rightarrow> config \<Rightarrow> config" where
  "config_min_tls_version v c = c\<lparr>min_tls_version := v\<rparr>"

definition config_add_root_certificate :: "certificate \<Rightarrow> config \<Rightarrow> config" where
  "config_add_root_certificate cert c = c\<lparr>root_certificates := root_certificates c @ [cert]\<rparr>"

definition config_only_root_certificates :: "certificate list \<Rightarrow> config \<Rightarrow> config res" where
  "config_only_root_certificates certs c =
     (if certs = []
      then Inl (InvalidTlsConfig
        ''at least one root certificate is required when system roots are disabled'')
      else Inr (c\<lparr>root_certificates := certs, root_certificate_mode := OnlyConfigured\<rparr>))"

text \<open>\<open>crls\<close> is what the CRL parser of reqwest makes of the bundle: its error, or the number of
  lists in it.\<close>

definition config_add_crl_pem ::
  "features \<Rightarrow> (string \<Rightarrow> nat res) \<Rightarrow> string \<Rightarrow> config \<Rightarrow> config res" where
  "config_add_crl_pem fs crl_from_pem pem c =
     rbind (crl_from_pem pem) (\<lambda>_.
       let c' = c\<lparr>crl_pem_bundles := crl_pem_bundles c @ [pem]\<rparr> in
       rbind (config_validate fs c') (\<lambda>_. Inr c'))"

definition config_add_crl_pem_bundle ::
  "features \<Rightarrow> (string \<Rightarrow> nat res) \<Rightarrow> string \<Rightarrow> config \<Rightarrow> config res" where
  "config_add_crl_pem_bundle fs crls_from_pem pem c =
     rbind (crls_from_pem pem) (\<lambda>count.
       if count = 0
       then Inl (InvalidTlsConfig
         ''certificate revocation list bundle must contain at least one CRL'')
       else
         (let c' = c\<lparr>crl_pem_bundles := crl_pem_bundles c @ [pem]\<rparr> in
          rbind (config_validate fs c') (\<lambda>_. Inr c')))"

definition config_client_identity :: "string \<Rightarrow> config \<Rightarrow> config" where
  "config_client_identity i c = c\<lparr>client_identity := Some i\<rparr>"

definition ensure_public_raw_api_enabled :: "features \<Rightarrow> unit res" where
  "ensure_public_raw_api_enabled fs =
     (if raw_api fs \<and> raw_api_acknowledged fs then Inr () else Inl RawApiDisabled)"

section \<open>The environment\<close>

definition ADDRESS_ENV_KEYS :: "string list" where
  "ADDRESS_ENV_KEYS = [''OPENBAO_ADDR'', ''BAO_ADDR'', ''VAULT_ADDR'']"
definition TOKEN_ENV_KEYS :: "string list" where
  "TOKEN_ENV_KEYS = [''OPENBAO_TOKEN'', ''BAO_TOKEN'', ''VAULT_TOKEN'']"
definition NAMESPACE_ENV_KEYS :: "string list" where
  "NAMESPACE_ENV_KEYS = [''OPENBAO_NAMESPACE'', ''BAO_NAMESPACE'', ''VAULT_NAMESPACE'']"
definition CA_CERT_ENV_KEYS :: "string list" where
  "CA_CERT_ENV_KEYS = [''OPENBAO_CACERT'', ''BAO_CACERT'', ''VAULT_CACERT'']"
definition ROOTS_ONLY_ENV_KEYS :: "string list" where
  "ROOTS_ONLY_ENV_KEYS =
     [''OPENBAO_ONLY_ROOT_CERTIFICATES'', ''OPENBAO_TLS_ROOTS_ONLY'',
      ''BAO_ONLY_ROOT_CERTIFICATES'', ''BAO_TLS_ROOTS_ONLY'',
      ''VAULT_ONLY_ROOT_CERTIFICATES'', ''VAULT_TLS_ROOTS_ONLY'']"
definition LOCAL_HTTP_ENV_KEYS :: "string list" where
  "LOCAL_HTTP_ENV_KEYS =
     [''OPENBAO_ALLOW_LOCALHOST_HTTP'', ''BAO_ALLOW_LOCALHOST_HTTP'',
      ''VAULT_ALLOW_LOCALHOST_HTTP'']"

fun first_env_value ::
  "(string \<Rightarrow> string option) \<Rightarrow> string list \<Rightarrow> (string \<times> string) option" where
  "first_env_value lookup [] = None"
| "first_env_value lookup (key # keys) =
     (case lookup key of
        None \<Rightarrow> first_env_value lookup keys
      | Some v \<Rightarrow> if trim v = [] then first_env_value lookup keys else Some (key, trim v))"

definition env_bool :: "(string \<Rightarrow> string option) \<Rightarrow> string list \<Rightarrow> bool res" where
  "env_bool lookup keys =
     (case first_env_value lookup keys of
        None \<Rightarrow> Inr False
      | Some (key, v) \<Rightarrow>
          (let w = to_ascii_lowercase v in
           if w \<in> {''1'', ''true'', ''yes'', ''on''} then Inr True
           else if w \<in> {''0'', ''false'', ''no'', ''off''} then Inr False
           else Inl (InvalidParameter
             (key @ '' must be one of 1, true, yes, on, 0, false, no, or off''))))"

fun token_from_env :: "(string \<Rightarrow> string option) \<Rightarrow> string list \<Rightarrow> string res" where
  "token_from_env lookup [] = Inl MissingToken"
| "token_from_env lookup (key # keys) =
     (case lookup key of
        None \<Rightarrow> token_from_env lookup keys
      | Some v \<Rightarrow> if trim v \<noteq> [] then Inr v else token_from_env lookup keys)"

definition openbao_token_from_env_lookup :: "(string \<Rightarrow> string option) \<Rightarrow> string res" where
  "openbao_token_from_env_lookup lookup = token_from_env lookup TOKEN_ENV_KEYS"

text \<open>The certificate file: what opening it gives (no symbolic link is followed), its metadata, and
  the bytes a read returns, \<open>None\<close> when it fails.\<close>

record ca_file =
  file_is_regular :: bool
  file_len :: nat
  file_bytes :: "string option"

definition MAX_CA_CERTIFICATE_FILE_BYTES :: nat where
  "MAX_CA_CERTIFICATE_FILE_BYTES = 1024 * 1024"

declare MAX_CA_CERTIFICATE_FILE_BYTES_def [limits]

definition read_configured_ca_certificate_file :: "ca_file option \<Rightarrow> string res" where
  "read_configured_ca_certificate_file opened =
     rbind (ok_or opened
         (InvalidTlsConfig ''failed to read the configured CA certificate file'')) (\<lambda>file.
       if \<not> file_is_regular file \<or> MAX_CA_CERTIFICATE_FILE_BYTES < file_len file
       then Inl (InvalidTlsConfig
         ''configured CA certificate must be a regular file no larger than 1 MiB'')
       else rbind (ok_or (file_bytes file)
           (InvalidTlsConfig ''failed to read the configured CA certificate file'')) (\<lambda>bytes.
         let pem = take (MAX_CA_CERTIFICATE_FILE_BYTES + 1) bytes in
         if MAX_CA_CERTIFICATE_FILE_BYTES < length pem
         then Inl (InvalidTlsConfig
           ''configured CA certificate must be a regular file no larger than 1 MiB'')
         else Inr pem))"

definition env_certificate ::
  "(string \<Rightarrow> ca_file option) \<Rightarrow> (string \<Rightarrow> certificate option) \<Rightarrow> (string \<Rightarrow> string option) \<Rightarrow>
   certificate option res" where
  "env_certificate open_file from_pem lookup =
     (case first_env_value lookup CA_CERT_ENV_KEYS of
        Some (key, path) \<Rightarrow>
          rbind (read_configured_ca_certificate_file (open_file path)) (\<lambda>pem.
          rmap Some (ok_or (from_pem pem) (InvalidTlsConfig
            ''failed to parse the configured CA certificate file'')))
      | None \<Rightarrow> Inr None)"

definition openbao_config_from_env_lookup ::
  "features \<Rightarrow> (string \<Rightarrow> string + url) \<Rightarrow> (string \<Rightarrow> ca_file option) \<Rightarrow>
   (string \<Rightarrow> certificate option) \<Rightarrow> (string \<Rightarrow> string option) \<Rightarrow> config res" where
  "openbao_config_from_env_lookup fs parse_base open_file from_pem lookup =
     rbind (ok_or (first_env_value lookup ADDRESS_ENV_KEYS)
         (InvalidBaseUrl ''missing OPENBAO_ADDR, BAO_ADDR, or VAULT_ADDR'')) (\<lambda>(_, address).
     rbind (config_new parse_base address) (\<lambda>c0.
     rbind (env_bool lookup LOCAL_HTTP_ENV_KEYS) (\<lambda>local.
     rbind (if local then config_allow_localhost_http fs c0 else Inr c0) (\<lambda>c1.
     rbind (case first_env_value lookup NAMESPACE_ENV_KEYS of
         Some (_, ns) \<Rightarrow> config_namespace ns c1
       | None \<Rightarrow> Inr c1) (\<lambda>c2.
     rbind (env_certificate open_file from_pem lookup) (\<lambda>cert.
     rbind (env_bool lookup ROOTS_ONLY_ENV_KEYS) (\<lambda>roots_only.
     rbind (if roots_only
         then rbind (ok_or cert (InvalidTlsConfig
             ''root-only trust requires OPENBAO_CACERT, BAO_CACERT, or VAULT_CACERT''))
           (\<lambda>k. config_only_root_certificates [k] c2)
         else Inr (case cert of Some k \<Rightarrow> config_add_root_certificate k c2 | None \<Rightarrow> c2)) (\<lambda>c3.
     rbind (config_validate fs c3) (\<lambda>_. Inr c3)))))))))"

section \<open>Building a client\<close>

text \<open>What \<open>build_http_client\<close> gives the reqwest builder. Redirects are never followed and the
  transport never retries; those two settings are the constants of the record.\<close>

record http_settings =
  hs_timeout :: std_duration
  hs_connect_timeout :: std_duration
  hs_user_agent :: string
  hs_https_only :: bool
  hs_follow_redirects :: bool
  hs_transport_retry :: bool
  hs_min_tls :: tls_version
  hs_backend :: tls_backend
  hs_roots :: "certificate list"
  hs_roots_only :: bool
  hs_crls :: "string list"
  hs_identity :: "string option"

definition selected_backend :: "features \<Rightarrow> tls_backend" where
  "selected_backend fs = (if native_tls fs then Native else Rustls)"

text \<open>\<open>crls_from_pem\<close> parses a bundle again and \<open>build\<close> is reqwest's own \<open>build()\<close>.\<close>

definition build_http_client ::
  "features \<Rightarrow> (string \<Rightarrow> nat res) \<Rightarrow> (http_settings \<Rightarrow> unit res) \<Rightarrow> config \<Rightarrow> bool \<Rightarrow>
   (http_settings \<times> tls_backend) res" where
  "build_http_client fs crls_from_pem build c https_only =
     (let backend = selected_backend fs;
          settings = \<lparr>hs_timeout = timeout c, hs_connect_timeout = connect_timeout c,
            hs_user_agent = user_agent c, hs_https_only = https_only,
            hs_follow_redirects = False, hs_transport_retry = False,
            hs_min_tls = min_tls_version c, hs_backend = backend,
            hs_roots = root_certificates c,
            hs_roots_only = (root_certificate_mode c = OnlyConfigured),
            hs_crls = (if rustls_tls fs then crl_pem_bundles c else []),
            hs_identity = client_identity c\<rparr>
      in if crl_pem_bundles c \<noteq> [] \<and> backend \<noteq> Rustls
         then Inl (InvalidTlsConfig
           ''certificate revocation lists require the selected Rustls TLS backend'')
         else rbind (if rustls_tls fs then rtraverse crls_from_pem (crl_pem_bundles c) else Inr [])
           (\<lambda>_. rbind (build settings) (\<lambda>_. Inr (settings, backend))))"

text \<open>
  A held token: with the memory-lock feature its lock may be poisoned or its canaries damaged, and
  it knows whether the operating system locks its pages; without it only the text counts.
\<close>

record client_token =
  ct_value :: string
  ct_locked :: bool
  ct_poisoned :: bool
  ct_intact :: bool

record client =
  cl_config :: config
  cl_http :: http_settings
  cl_sensitive_http :: http_settings
  cl_tls_backend :: tls_backend
  cl_token :: "client_token option"
  cl_compatibility :: client_compatibility

definition client_build ::
  "features \<Rightarrow> (string \<Rightarrow> nat res) \<Rightarrow> (http_settings \<Rightarrow> unit res) \<Rightarrow> config \<Rightarrow> client res" where
  "client_build fs crls_from_pem build c =
     rbind (config_validate fs c) (\<lambda>_.
     rbind (build_http_client fs crls_from_pem build c (http_policy c = HttpsOnly))
       (\<lambda>(http, backend).
     rbind (build_http_client fs crls_from_pem build c True) (\<lambda>(sensitive, sensitive_backend).
       if backend \<noteq> sensitive_backend
       then Inl (Internal ''OpenBao HTTP clients selected different TLS backends'')
       else Inr \<lparr>cl_config = c, cl_http = http, cl_sensitive_http = sensitive,
         cl_tls_backend = backend, cl_token = None,
         cl_compatibility = client_compatibility_new (compatibility_policy c)\<rparr>)))"

definition clone_without_state :: "client \<Rightarrow> client" where
  "clone_without_state c = c\<lparr>cl_token := None\<rparr>"

section \<open>Every configuration a caller can build\<close>

inductive built :: "features \<Rightarrow> config \<Rightarrow> bool" for fs where
  new: "config_new parse_base t = Inr c \<Longrightarrow> built fs c"
| localhost: "built fs c \<Longrightarrow> config_allow_localhost_http fs c = Inr c' \<Longrightarrow> built fs c'"
| timeout: "built fs c \<Longrightarrow> config_timeout d c = Inr c' \<Longrightarrow> built fs c'"
| connect_timeout: "built fs c \<Longrightarrow> config_connect_timeout d c = Inr c' \<Longrightarrow> built fs c'"
| max_response_bytes: "built fs c \<Longrightarrow> config_max_response_bytes n c = Inr c' \<Longrightarrow> built fs c'"
| max_request_bytes: "built fs c \<Longrightarrow> config_max_request_bytes n c = Inr c' \<Longrightarrow> built fs c'"
| max_auth_token_bytes: "built fs c \<Longrightarrow> config_max_auth_token_bytes n c = Inr c' \<Longrightarrow> built fs c'"
| user_agent: "built fs c \<Longrightarrow> config_user_agent a c = Inr c' \<Longrightarrow> built fs c'"
| set_ns: "built fs c \<Longrightarrow> config_namespace a c = Inr c' \<Longrightarrow> built fs c'"
| header_mode: "built fs c \<Longrightarrow> built fs (config_header_mode m c)"
| policy: "built fs c \<Longrightarrow> built fs (config_compatibility_policy p c)"
| plugin: "built fs c \<Longrightarrow> config_external_plugin s c = Inr c' \<Longrightarrow> built fs c'"
| min_tls: "built fs c \<Longrightarrow> built fs (config_min_tls_version v c)"
| add_root: "built fs c \<Longrightarrow> built fs (config_add_root_certificate k c)"
| only_roots: "built fs c \<Longrightarrow> config_only_root_certificates ks c = Inr c' \<Longrightarrow> built fs c'"
| crl: "built fs c \<Longrightarrow> config_add_crl_pem fs parser pem c = Inr c' \<Longrightarrow> built fs c'"
| crl_bundle: "built fs c \<Longrightarrow> config_add_crl_pem_bundle fs parser pem c = Inr c' \<Longrightarrow> built fs c'"
| identity: "built fs c \<Longrightarrow> built fs (config_client_identity i c)"

definition timeout_ok :: "std_duration \<Rightarrow> bool" where
  "timeout_ok d \<longleftrightarrow> \<not> duration_is_zero d \<and> \<not> duration_less (duration_from_secs 300) d"

definition user_agent_ok :: "string \<Rightarrow> bool" where
  "user_agent_ok s \<longleftrightarrow> validate_user_agent s = Inr ()"

definition config_ok :: "config \<Rightarrow> bool" where
  "config_ok c \<longleftrightarrow>
     validate_base_url_components (base_url c) = Inr () \<and>
     timeout_ok (timeout c) \<and> timeout_ok (connect_timeout c) \<and>
     1024 \<le> max_request_bytes c \<and> max_request_bytes c \<le> 32 * 1024 * 1024 \<and>
     1024 \<le> max_response_bytes c \<and> max_response_bytes c \<le> 32 * 1024 * 1024 \<and>
     1 \<le> max_auth_token_bytes c \<and> max_auth_token_bytes c \<le> 1024 * 1024 \<and>
     user_agent_ok (user_agent c) \<and>
     is_none_or (\<lambda>n. \<exists>segs. validate_mount_path n = Inr segs \<and> join_path segs = n) (namespace c) \<and>
     length (external_plugins c) \<le> 32 \<and>
     sorted_wrt (\<lambda>a b. \<not> same_mount a b) (external_plugins c) \<and>
     (root_certificate_mode c = OnlyConfigured \<or> crl_pem_bundles c = [])"

lemmas setter_defs =
  config_allow_localhost_http_def config_timeout_def config_connect_timeout_def
  config_max_response_bytes_def config_max_request_bytes_def config_max_auth_token_bytes_def
  config_user_agent_def config_namespace_def config_header_mode_def
  config_compatibility_policy_def config_external_plugin_def config_min_tls_version_def
  config_add_root_certificate_def config_only_root_certificates_def config_add_crl_pem_def
  config_add_crl_pem_bundle_def config_client_identity_def

lemma default_user_agent: "user_agent_ok ''openbao-rust-client''"
  unfolding user_agent_ok_def by code_simp

lemma config_new_ok: "config_new parse_base t = Inr c \<Longrightarrow> config_ok c"
  using default_user_agent
  by (auto simp: config_new_def rbind_Inr_iff config_ok_def config_default_def limits timeout_ok_def
      duration_less_def duration_from_secs_def duration_is_zero_def)

lemma validate_crl:
  "config_validate fs c = Inr () \<Longrightarrow>
   root_certificate_mode c = OnlyConfigured \<or> crl_pem_bundles c = []"
  by (auto simp: config_validate_def rbind_Inr_iff split: if_splits)

lemma namespace_canonical:
  "validate_mount_path a = Inr segs \<Longrightarrow>
   \<exists>segs'. validate_mount_path (join_path segs) = Inr segs' \<and> join_path segs' = join_path segs"
  using mount_validator.canonical by blast

lemma built_ok: "built fs c \<Longrightarrow> config_ok c"
proof (induction rule: built.induct)
  case (new parse_base t c)
  then show ?case by (rule config_new_ok)
next
  case (localhost c c')
  then show ?case
    by (auto simp: config_ok_def config_allow_localhost_http_def rbind_Inr_iff Let_def)
next
  case (set_ns c a c')
  then show ?case
    using namespace_canonical [of a]
    by (auto simp: config_ok_def config_namespace_def rbind_Inr_iff)
next
  case (plugin c s c')
  then show ?case
    by (auto simp: config_ok_def config_external_plugin_def sorted_wrt_append list_ex_iff
        split: if_splits)
next
  case (crl c parser pem c')
  then show ?case
    using validate_crl [of fs c']
    by (auto simp: config_ok_def config_add_crl_pem_def rbind_Inr_iff Let_def)
next
  case (crl_bundle c parser pem c')
  then show ?case
    using validate_crl [of fs c']
    by (auto simp: config_ok_def config_add_crl_pem_bundle_def rbind_Inr_iff Let_def split: if_splits)
qed (auto simp: config_ok_def setter_defs rbind_Inr_iff limits timeout_ok_def user_agent_ok_def
    validate_max_auth_token_bytes_def split: if_splits)

text \<open>C38: Every configuration that any sequence of the public setters can build keeps the limits: time
  limits are positive and at most 300 seconds, body limits between 1 KiB and 32 MiB, the token
  limit at most 1 MiB, the user agent printable ASCII, the namespace a canonical mount path, at
  most 32 plugin selections on distinct mounts, and revocation lists only with configured roots.\<close>

theorem built_config_ok:
  assumes "built fs c"
  shows "config_ok c"
  using assms by (rule built_ok)

definition no_features :: features where
  "no_features = \<lparr>tls12_acknowledged = False, raw_api = False, raw_api_acknowledged = False,
     native_tls = False, rustls_tls = True, memory_lock = False\<rparr>"

text \<open>What \<open>Url::parse\<close> gives for an HTTPS address, and for an IPv6 loopback address over HTTP,
  where the host text has brackets.\<close>

definition https_url :: url where
  "https_url = \<lparr>url_scheme = ''https'', url_host_str = Some ''bao.example'', url_port = None,
     url_username = [], url_password = None, url_path = ''/'', url_query = None,
     url_fragment = None\<rparr>"

definition loopback6_url :: url where
  "loopback6_url = https_url\<lparr>url_scheme := ''http'', url_host_str := Some ''[::1]''\<rparr>"

lemma https_built: "built fs (config_default https_url)"
  by (rule built.new [of "\<lambda>_. Inr https_url" "''https://bao.example''"])
    (simp add: config_new_def https_url_def validate_base_url_components_def)

theorem built_config_ok_witness:
  "max_request_bytes ((config_default https_url)\<lparr>max_request_bytes := 2048\<rparr>) = 2048 \<and>
   config_ok ((config_default https_url)\<lparr>max_request_bytes := 2048\<rparr>)"
proof -
  have "config_max_request_bytes 2048 (config_default https_url) =
      Inr ((config_default https_url)\<lparr>max_request_bytes := 2048\<rparr>)"
    by (simp add: config_max_request_bytes_def limits)
  from built_config_ok [OF built.max_request_bytes [OF https_built this]] show ?thesis by simp
qed

section \<open>What a built client can send\<close>

lemma validate_scheme:
  "config_validate fs c = Inr () \<Longrightarrow>
   url_scheme (base_url c) = ''https'' \<or>
   url_scheme (base_url c) = ''http'' \<and> http_policy c = LocalhostHttpAllowed \<and>
     is_loopback_url (base_url c)"
  by (auto simp: config_validate_def rbind_Inr_iff split: if_splits)

lemma validate_tls: "config_validate fs c = Inr () \<Longrightarrow>
    min_tls_version c = TLS_1_3 \<or> min_tls_version c = TLS_1_2 \<and> tls12_acknowledged fs"
  by (cases "min_tls_version c")
    (auto simp: config_validate_def validate_min_tls_version_def rbind_Inr_iff split: if_splits)

lemma build_http_client_ok:
  "build_http_client fs crls build c only = Inr (h, b) \<Longrightarrow>
   hs_https_only h = only \<and> \<not> hs_follow_redirects h \<and> \<not> hs_transport_retry h \<and>
   hs_min_tls h = min_tls_version c \<and> b = selected_backend fs \<and> hs_backend h = b \<and>
   (hs_roots_only h \<longleftrightarrow> root_certificate_mode c = OnlyConfigured) \<and>
   (crl_pem_bundles c = [] \<or> b = Rustls)"
  by (auto simp: build_http_client_def Let_def rbind_Inr_iff split: if_splits)

text \<open>C11: A client that builds sends sensitive requests only over HTTPS, follows no redirect and never
  retries by itself, uses TLS 1.3 unless TLS 1.2 was acknowledged at compile time, and reaches
  plain HTTP only when the caller opted in and the base URL is a numeric loopback address.\<close>

theorem client_build_secure:
  assumes "client_build fs crls build c = Inr cl"
  shows "hs_https_only (cl_sensitive_http cl) \<and>
    (hs_https_only (cl_http cl) \<longleftrightarrow> http_policy c = HttpsOnly) \<and>
    \<not> hs_follow_redirects (cl_http cl) \<and> \<not> hs_follow_redirects (cl_sensitive_http cl) \<and>
    \<not> hs_transport_retry (cl_http cl) \<and> \<not> hs_transport_retry (cl_sensitive_http cl) \<and>
    (hs_min_tls (cl_http cl) = TLS_1_3 \<or>
      hs_min_tls (cl_http cl) = TLS_1_2 \<and> tls12_acknowledged fs) \<and>
    hs_min_tls (cl_sensitive_http cl) = hs_min_tls (cl_http cl) \<and>
    (url_scheme (base_url c) = ''https'' \<or>
      url_scheme (base_url c) = ''http'' \<and> http_policy c = LocalhostHttpAllowed \<and>
      is_loopback_url (base_url c)) \<and>
    cl_token cl = None \<and> cl_compatibility cl = client_compatibility_new (compatibility_policy c)"
proof -
  from assms obtain h b h' where v: "config_validate fs c = Inr ()"
    and h: "build_http_client fs crls build c (http_policy c = HttpsOnly) = Inr (h, b)"
    and s: "build_http_client fs crls build c True = Inr (h', b)"
    and cl: "cl = \<lparr>cl_config = c, cl_http = h, cl_sensitive_http = h', cl_tls_backend = b,
      cl_token = None, cl_compatibility = client_compatibility_new (compatibility_policy c)\<rparr>"
    by (auto simp: client_build_def rbind_Inr_iff split: if_splits)
  show ?thesis
    using build_http_client_ok [OF h] build_http_client_ok [OF s] validate_tls [OF v]
      validate_scheme [OF v] cl by auto
qed

lemma https_client_built:
  "\<exists>cl. client_build no_features (\<lambda>_. Inr 1) (\<lambda>_. Inr ()) (config_default https_url) = Inr cl"
proof -
  have "validate_base_url_components https_url = Inr ()"
    by (simp add: validate_base_url_components_def https_url_def)
  moreover have "url_scheme https_url = ''https''"
    by (simp add: https_url_def)
  ultimately have v: "config_validate no_features (config_default https_url) = Inr ()"
    by (simp add: config_validate_def config_default_def validate_min_tls_version_def
        validate_max_auth_token_bytes_def limits del: list.inject)
  have "\<exists>h. build_http_client no_features (\<lambda>_. Inr 1) (\<lambda>_. Inr ()) (config_default https_url) only =
      Inr (h, Rustls)" for only
    by (simp add: build_http_client_def config_default_def no_features_def selected_backend_def Let_def)
  then obtain h where "\<And>only. build_http_client no_features (\<lambda>_. Inr 1) (\<lambda>_. Inr ())
      (config_default https_url) only = Inr (h only, Rustls)"
    by metis
  with v show ?thesis by (simp add: client_build_def)
qed

theorem client_build_secure_witness:
  "\<exists>cl. client_build no_features (\<lambda>_. Inr 1) (\<lambda>_. Inr ()) (config_default https_url) = Inr cl \<and>
     hs_https_only (cl_sensitive_http cl) \<and> hs_min_tls (cl_http cl) = TLS_1_3"
proof -
  obtain cl where cl:
    "client_build no_features (\<lambda>_. Inr 1) (\<lambda>_. Inr ()) (config_default https_url) = Inr cl"
    using https_client_built ..
  have "\<not> tls12_acknowledged no_features" by (simp add: no_features_def)
  with client_build_secure [OF cl] cl show ?thesis by blast
qed

section \<open>Numeric loopback addresses\<close>

lemma bracketed_no_ip: "parse_ip_addr (CHR ''['' # h) = None"
proof -
  have d: "to_digit r CHR ''['' = None" for r
    by (simp add: to_digit_def is_ascii_digit_def is_ascii_lowercase_def is_ascii_uppercase_def)
  then have n: "read_number r k z b (CHR ''['' # h) = None" for r k z b
    by (simp add: read_number_def)
  have v4: "read_ipv4_addr (CHR ''['' # h) = None"
    using read_octets.simps(2) [of 0 3 "CHR ''['' # h"]
    by (simp add: read_ipv4_addr_def read_separator_def n)
  have "read_groups 8 0 8 (CHR ''['' # h) = ([], False, CHR ''['' # h)"
    using read_groups.simps(2) [of 8 0 7 "CHR ''['' # h"] by (simp add: read_separator_def n v4)
  then have "read_ipv6_addr (CHR ''['' # h) = None"
    by (cases h) (simp_all add: read_ipv6_addr_def)
  with v4 show ?thesis by (simp add: parse_ip_addr_def)
qed

text \<open>A base URL whose host text is bracketed, as the URL parser writes every IPv6 host, is never
  taken for a loopback address, so plain HTTP to an IPv6 loopback server is always rejected.\<close>

theorem bracketed_host_rejected:
  assumes "url_host_str (base_url c) = Some (CHR ''['' # h)" "url_scheme (base_url c) = ''http''"
  shows "\<not> is_loopback_url (base_url c) \<and> config_validate fs c \<noteq> Inr () \<and>
    (\<exists>e. config_allow_localhost_http fs c = Inl e)"
proof -
  have no: "\<not> is_loopback_url (base_url c)"
    using assms(1) by (simp add: is_loopback_url_def bracketed_no_ip)
  have "config_validate fs c' \<noteq> Inr ()" if "base_url c' = base_url c" for c'
    using validate_scheme [of fs c'] that no assms(2) by auto
  then have "config_validate fs c \<noteq> Inr ()"
    "config_validate fs (c\<lparr>http_policy := LocalhostHttpAllowed\<rparr>) \<noteq> Inr ()"
    by simp_all
  with no show ?thesis
    by (cases "config_validate fs (c\<lparr>http_policy := LocalhostHttpAllowed\<rparr>)")
      (auto simp: config_allow_localhost_http_def)
qed

theorem bracketed_host_rejected_witness:
  "\<exists>e. config_allow_localhost_http no_features (config_default loopback6_url) = Inl e"
  using bracketed_host_rejected [of "config_default loopback6_url" "''::1]''" no_features]
  by (simp add: config_default_def loopback6_url_def)

end
