(* ===== verification/Bao_Retry.thy ===== *)
theory Bao_Retry
  imports Complex_Main Bao_Config
begin

text \<open>
  \<open>RetryPolicy\<close> and \<open>request_json_with_retry\<close> of \<open>client.rs\<close>: the exponential delays with their
  jitter, computed on \<open>Duration\<close> as the standard library does, and the retry loop over the
  answers of the server. The operating system's random numbers, the clock and the shared
  counter are read by retry index from a record; a panic of \<open>mul_f64\<close> is the value \<open>None\<close>.
\<close>

section \<open>Arithmetic on durations\<close>

definition dur_nanos :: "std_duration \<Rightarrow> nat" where
  "dur_nanos d = unat (as_secs d) * 1000000000 + unat (subsec_nanos d)"

definition dur_ok :: "std_duration \<Rightarrow> bool" where
  "dur_ok d \<longleftrightarrow> unat (subsec_nanos d) < 1000000000"

definition DURATION_MAX :: std_duration where
  "DURATION_MAX = \<lparr>as_secs = - 1, subsec_nanos = 999999999\<rparr>"

definition duration_from_nanos :: "64 word \<Rightarrow> std_duration" where
  "duration_from_nanos n =
     \<lparr>as_secs = n div 1000000000, subsec_nanos = ucast (n mod 1000000000)\<rparr>"

definition duration_min :: "std_duration \<Rightarrow> std_duration \<Rightarrow> std_duration" where
  "duration_min a b = (if duration_less b a then b else a)"

text \<open>\<open>saturating_mul\<close> and \<open>saturating_add\<close> of the standard library, carries included.\<close>

definition duration_checked_mul :: "std_duration \<Rightarrow> 32 word \<Rightarrow> std_duration option" where
  "duration_checked_mul d rhs =
     (let total_nanos = (ucast (subsec_nanos d) :: 64 word) * ucast rhs;
          extra_secs = total_nanos div 1000000000;
          nanos = (ucast (total_nanos mod 1000000000) :: 32 word)
      in case checked_mul (as_secs d) (ucast rhs) of
           None \<Rightarrow> None
         | Some s \<Rightarrow> map_option (\<lambda>secs. \<lparr>as_secs = secs, subsec_nanos = nanos\<rparr>)
             (checked_add s extra_secs))"

definition duration_saturating_mul :: "std_duration \<Rightarrow> 32 word \<Rightarrow> std_duration" where
  "duration_saturating_mul d rhs =
     (case duration_checked_mul d rhs of Some r \<Rightarrow> r | None \<Rightarrow> DURATION_MAX)"

definition duration_checked_add :: "std_duration \<Rightarrow> std_duration \<Rightarrow> std_duration option" where
  "duration_checked_add a b =
     (case checked_add (as_secs a) (as_secs b) of
        None \<Rightarrow> None
      | Some secs \<Rightarrow>
          (let nanos = subsec_nanos a + subsec_nanos b in
           if 1000000000 \<le> nanos
           then map_option (\<lambda>s. \<lparr>as_secs = s, subsec_nanos = nanos - 1000000000\<rparr>)
             (checked_add secs 1)
           else Some \<lparr>as_secs = secs, subsec_nanos = nanos\<rparr>))"

definition duration_saturating_add :: "std_duration \<Rightarrow> std_duration \<Rightarrow> std_duration" where
  "duration_saturating_add a b =
     (case duration_checked_add a b of Some r \<Rightarrow> r | None \<Rightarrow> DURATION_MAX)"

text \<open>
  A non-negative \<open>f64\<close> in the normal range is a fraction of two naturals; \<open>f64_round\<close> gives the
  nearest one with a 53-bit significand, ties to even.
\<close>

type_synonym f64 = "nat \<times> nat"

fun bits :: "nat \<Rightarrow> nat" where
  "bits n = (if n = 0 then 0 else Suc (bits (n div 2)))"

declare bits.simps [simp del]

definition div_even :: "nat \<Rightarrow> nat \<Rightarrow> nat" where
  "div_even n d =
     (let q = n div d; r = n mod d in
      if 2 * r < d \<or> 2 * r = d \<and> even q then q else q + 1)"

definition f64_exponent :: "nat \<Rightarrow> nat \<Rightarrow> int" where
  "f64_exponent n d =
     (let k = int (bits n) - int (bits d) in
      if d * 2 ^ nat k \<le> n * 2 ^ nat (- k) then k else k - 1)"

fun f64_round :: "f64 \<Rightarrow> f64" where
  "f64_round (n, d) =
     (if n = 0 then (0, 1)
      else
        (let s = 52 - f64_exponent n d in
         if 0 \<le> s then (div_even (n * 2 ^ nat s) d, 2 ^ nat s)
         else (div_even n (d * 2 ^ nat (- s)) * 2 ^ nat (- s), 1)))"

fun f64_mul :: "f64 \<Rightarrow> f64 \<Rightarrow> f64" where
  "f64_mul (a, b) (c, d) = f64_round (a * c, b * d)"

fun f64_add :: "f64 \<Rightarrow> f64 \<Rightarrow> f64" where
  "f64_add (a, b) (c, d) = f64_round (a * d + c * b, b * d)"

definition as_secs_f64 :: "std_duration \<Rightarrow> f64" where
  "as_secs_f64 d =
     f64_add (f64_round (unat (as_secs d), 1)) (f64_round (unat (subsec_nanos d), 1000000000))"

text \<open>\<open>from_secs_f64\<close> rounds to whole nanoseconds, ties to even, and panics on overflow.\<close>

fun from_secs_f64 :: "f64 \<Rightarrow> std_duration option" where
  "from_secs_f64 (n, d) =
     (let nanos = div_even (n * 1000000000) d in
      if 2 ^ 64 \<le> nanos div 1000000000 then None
      else Some \<lparr>as_secs = word_of_nat (nanos div 1000000000),
        subsec_nanos = word_of_nat (nanos mod 1000000000)\<rparr>)"

definition mul_f64 :: "std_duration \<Rightarrow> f64 \<Rightarrow> std_duration option" where
  "mul_f64 d rhs = from_secs_f64 (f64_mul rhs (as_secs_f64 d))"

section \<open>The policy\<close>

definition MAX_RETRY_ATTEMPTS :: nat where "MAX_RETRY_ATTEMPTS = 8"
definition MAX_RETRY_DELAY :: std_duration where "MAX_RETRY_DELAY = duration_from_secs 60"
definition DEFAULT_RETRY_JITTER_PERCENT :: "8 word" where "DEFAULT_RETRY_JITTER_PERCENT = 20"

declare MAX_RETRY_ATTEMPTS_def [limits] MAX_RETRY_DELAY_def [limits]
  DEFAULT_RETRY_JITTER_PERCENT_def [limits]

record retry_policy =
  max_attempts :: nat
  initial_delay :: std_duration
  max_delay :: std_duration
  jitter_percent :: "8 word"

definition retry_exponential :: "nat \<Rightarrow> std_duration \<Rightarrow> std_duration \<Rightarrow> retry_policy res" where
  "retry_exponential attempts initial maximum =
     (if attempts = 0
      then Inl (InvalidParameter ''retry attempts must be greater than zero'')
      else if MAX_RETRY_ATTEMPTS < attempts
      then Inl (InvalidParameter ''retry attempts exceed maximum allowed value'')
      else if duration_is_zero initial \<or> duration_is_zero maximum
      then Inl (InvalidParameter ''retry delays must be greater than zero'')
      else if duration_less MAX_RETRY_DELAY initial \<or> duration_less MAX_RETRY_DELAY maximum
      then Inl (InvalidParameter ''retry delays exceed maximum allowed value'')
      else if duration_less maximum initial
      then Inl (InvalidParameter ''initial retry delay must not exceed maximum retry delay'')
      else Inr \<lparr>max_attempts = attempts, initial_delay = initial, max_delay = maximum,
        jitter_percent = DEFAULT_RETRY_JITTER_PERCENT\<rparr>)"

definition without_jitter :: "retry_policy \<Rightarrow> retry_policy" where
  "without_jitter p = p\<lparr>jitter_percent := 0\<rparr>"

text \<open>
  What the surroundings give at each retry: \<open>getrandom\<close>'s number or its failure, the nanoseconds of
  the clock and the value the shared counter had, and whether the weak fallback is compiled in.
\<close>

record retry_entropy =
  os_random :: "nat \<Rightarrow> 64 word option"
  clock_nanos :: "nat \<Rightarrow> 64 word"
  jitter_counter :: "nat \<Rightarrow> 64 word"
  weak_fallback :: bool


unbundle bit_operations_syntax

definition retry_jitter_fallback_seed :: "retry_entropy \<Rightarrow> nat \<Rightarrow> 64 word" where
  "retry_jitter_fallback_seed e retry_index =
     clock_nanos e retry_index XOR word_rotl 17 (jitter_counter e retry_index) XOR
     word_rotl 31 (word_of_nat retry_index)"

definition retry_jitter_nanos :: "retry_entropy \<Rightarrow> 64 word \<Rightarrow> nat \<Rightarrow> 64 word option" where
  "retry_jitter_nanos e max_nanos retry_index =
     (let modulus = saturating_add max_nanos 1 in
      case os_random e retry_index of
        Some seed \<Rightarrow> Some (seed mod modulus)
      | None \<Rightarrow>
          (if weak_fallback e then Some (retry_jitter_fallback_seed e retry_index mod modulus)
           else None))"

definition duration_to_saturating_nanos :: "std_duration \<Rightarrow> 64 word" where
  "duration_to_saturating_nanos d =
     (if dur_nanos d < 2 ^ 64 then word_of_nat (dur_nanos d) else - 1)"

definition add_jitter ::
  "retry_entropy \<Rightarrow> retry_policy \<Rightarrow> std_duration \<Rightarrow> nat \<Rightarrow> std_duration option" where
  "add_jitter e p base retry_index =
     (if jitter_percent p = 0 \<or> duration_is_zero base then Some base
      else Option.bind (mul_f64 base (f64_round (unat (jitter_percent p), 100))) (\<lambda>max_jitter.
        if duration_is_zero max_jitter then Some base
        else
          (let max_nanos = duration_to_saturating_nanos max_jitter in
           if max_nanos = 0 then Some base
           else case retry_jitter_nanos e max_nanos retry_index of
             None \<Rightarrow> Some base
           | Some jitter \<Rightarrow> Some (duration_min
               (duration_saturating_add base (duration_from_nanos jitter)) (max_delay p)))))"

definition retry_multiplier :: "nat \<Rightarrow> 32 word" where
  "retry_multiplier retry_index = push_bit (min retry_index 31) 1"

definition delay_for_retry :: "retry_entropy \<Rightarrow> retry_policy \<Rightarrow> nat \<Rightarrow> std_duration option" where
  "delay_for_retry e p retry_index =
     add_jitter e p
       (duration_min (duration_saturating_mul (initial_delay p) (retry_multiplier retry_index))
         (max_delay p)) retry_index"

section \<open>The retry loop\<close>

datatype retryable_method = RGet | RHead | RList

fun as_method :: "retryable_method \<Rightarrow> string res" where
  "as_method RGet = Inr ''GET''"
| "as_method RHead = Inr ''HEAD''"
| "as_method RList = Inr ''LIST''"

datatype retry_event = Sent string | Waited std_duration

text \<open>One request: nothing is sent unless the raw API is compiled in.\<close>

definition request_json ::
  "features \<Rightarrow> (nat \<Rightarrow> 'a res) \<Rightarrow> string \<Rightarrow> nat \<Rightarrow> 'a res \<times> retry_event list" where
  "request_json fs answer verb n =
     (case ensure_public_raw_api_enabled fs of
        Inl e \<Rightarrow> (Inl e, [])
      | Inr _ \<Rightarrow> (answer n, [Sent verb]))"

text \<open>\<open>answer n\<close> is what the \<open>n\<close>th request gives. The result is \<open>None\<close> only when a delay panics.\<close>

function retry_loop ::
  "features \<Rightarrow> (nat \<Rightarrow> 'a res) \<Rightarrow> retry_entropy \<Rightarrow> retry_policy \<Rightarrow> retryable_method \<Rightarrow> nat \<Rightarrow> nat \<Rightarrow>
   'a res option \<times> retry_event list" where
  "retry_loop fs answer e p m attempt retry_index =
     (case as_method m of
        Inl err \<Rightarrow> (Some (Inl err), [])
      | Inr verb \<Rightarrow>
          (case request_json fs answer verb attempt of
             (Inr response, events) \<Rightarrow> (Some (Inr response), events)
           | (Inl error, events) \<Rightarrow>
               (if attempt < max_attempts p \<and> is_temporary error
                then case delay_for_retry e p retry_index of
                    None \<Rightarrow> (None, events)
                  | Some d \<Rightarrow>
                      (let (result, later) =
                         retry_loop fs answer e p m (attempt + 1) (retry_index + 1)
                       in (result, events @ Waited d # later))
                else (Some (Inl error), events))))"
  by pat_completeness auto
termination
  by (relation "measure (\<lambda>(fs, answer, e, p, m, attempt, retry_index). max_attempts p - attempt)") auto

declare retry_loop.simps [simp del]

definition request_json_with_retry ::
  "features \<Rightarrow> (nat \<Rightarrow> 'a res) \<Rightarrow> retry_entropy \<Rightarrow> retry_policy \<Rightarrow> retryable_method \<Rightarrow>
   'a res option \<times> retry_event list" where
  "request_json_with_retry fs answer e p m = retry_loop fs answer e p m 1 0"

section \<open>Durations as nanoseconds\<close>

definition MAX_NANOS :: nat where "MAX_NANOS = 2 ^ 64 * 1000000000 - 1"

lemma dur_nanos_max [simp]: "dur_nanos DURATION_MAX = MAX_NANOS" "dur_ok DURATION_MAX"
  by (simp_all add: dur_nanos_def dur_ok_def DURATION_MAX_def MAX_NANOS_def unsigned_minus_1_eq_mask mask_eq_exp_minus_1)

lemma duration_less_iff:
  "dur_ok a \<Longrightarrow> dur_ok b \<Longrightarrow> duration_less a b \<longleftrightarrow> dur_nanos a < dur_nanos b"
  unfolding duration_less_def dur_ok_def dur_nanos_def word_less_nat_alt word_unat_eq_iff
  by arith

lemma duration_is_zero_iff: "duration_is_zero d \<longleftrightarrow> dur_nanos d = 0"
  unfolding duration_is_zero_def dur_nanos_def word_unat_eq_iff by simp

lemma dur_nanos_min:
  "dur_ok a \<Longrightarrow> dur_ok b \<Longrightarrow>
   dur_ok (duration_min a b) \<and> dur_nanos (duration_min a b) = min (dur_nanos a) (dur_nanos b)"
  by (auto simp: duration_min_def duration_less_iff)

lemma unat_ucast_down: "unat n < 2 ^ LENGTH('b) \<Longrightarrow> unat (ucast n :: 'b::len word) = unat n"
  for n :: "'a::len word"
  by (simp add: unsigned_ucast_eq take_bit_nat_eq_self)

lemma dur_nanos_from_nanos:
  "dur_ok (duration_from_nanos n) \<and> dur_nanos (duration_from_nanos n) = unat n"
proof -
  have r: "unat (n mod 1000000000) = unat n mod 1000000000"
    by (simp add: unat_mod)
  have "unat n mod 1000000000 < (1000000000::nat)" by simp
  then have "unat (ucast (n mod 1000000000) :: 32 word) = unat n mod 1000000000"
    using unat_ucast_down [of "n mod 1000000000", where 'b = 32] r by simp
  then show ?thesis
    by (simp add: dur_ok_def dur_nanos_def duration_from_nanos_def unat_div)
qed

lemma unat_ucast_up [simp]: "unat (ucast r :: 64 word) = unat r" for r :: "32 word"
  using unsigned_less [of r, where 'a = nat] by (intro unat_ucast_down) simp

lemma saturating_mul_nanos:
  assumes "dur_ok d"
  shows "dur_ok (duration_saturating_mul d r) \<and>
    dur_nanos (duration_saturating_mul d r) = min (dur_nanos d * unat r) MAX_NANOS"
proof -
  define s where "s = unat (as_secs d)"
  define n where "n = unat (subsec_nanos d) * unat r"
  define t where "t = (ucast (subsec_nanos d) :: 64 word) * ucast r"
  have rl: "unat r < 2 ^ 32" using unsigned_less [of r, where 'a = nat] by simp
  have "n \<le> 1000000000 * 2 ^ 32"
    unfolding n_def using assms rl by (intro mult_mono) (simp_all add: dur_ok_def)
  then have t: "unat t = n"
    by (simp add: t_def n_def unat_word_ariths)
  have total: "dur_nanos d * unat r = s * unat r * 1000000000 + n"
    by (simp add: dur_nanos_def s_def n_def algebra_simps)
  have md: "n mod 1000000000 < 1000000000" by simp
  have lo: "unat (ucast (t mod 1000000000) :: 32 word) = n mod 1000000000"
    using unat_ucast_down [of "t mod 1000000000", where 'b = 32] md t by (simp add: unat_mod)
  have hi: "unat (t div 1000000000) = n div 1000000000"
    using t by (simp add: unat_div)
  have split: "n = n div 1000000000 * 1000000000 + n mod 1000000000" by simp
  show ?thesis
  proof (cases "checked_mul (as_secs d) (ucast r :: 64 word)")
    case None
    then have "2 ^ 64 \<le> s * unat r" by (simp add: checked_mul_None s_def)
    with None total show ?thesis
      by (simp add: duration_saturating_mul_def duration_checked_mul_def Let_def MAX_NANOS_def)
  next
    case (Some x)
    then have x: "unat x = s * unat r" by (auto dest: checked_mul_Some simp: s_def)
    show ?thesis
    proof (cases "checked_add x (t div 1000000000)")
      case None
      then have "2 ^ 64 \<le> s * unat r + n div 1000000000"
        using x hi by (simp add: checked_add_None)
      then have "2 ^ 64 * 1000000000 \<le> dur_nanos d * unat r"
        unfolding total by (subst split) linarith
      with Some None show ?thesis
        by (simp add: duration_saturating_mul_def duration_checked_mul_def t_def MAX_NANOS_def)
    next
      case (Some y)
      then have y: "unat y = s * unat r + n div 1000000000"
        using x hi by (auto dest: checked_add_Some)
      have "unat y < 2 ^ 64" using unsigned_less [of y, where 'a = nat] by simp
      moreover have "dur_nanos d * unat r = unat y * 1000000000 + n mod 1000000000"
        unfolding total y by (subst split) (simp add: algebra_simps)
      ultimately show ?thesis
        using Some \<open>checked_mul _ _ = Some x\<close> lo md
        by (simp add: duration_saturating_mul_def duration_checked_mul_def t_def [symmetric]
            dur_ok_def dur_nanos_def [of "\<lparr>as_secs = y, subsec_nanos = _\<rparr>"] MAX_NANOS_def)
    qed
  qed
qed

lemma saturating_add_nanos:
  assumes "dur_ok a" "dur_ok b"
  shows "dur_ok (duration_saturating_add a b) \<and>
    dur_nanos (duration_saturating_add a b) = min (dur_nanos a + dur_nanos b) MAX_NANOS"
proof -
  define n where "n = subsec_nanos a + subsec_nanos b"
  have n: "unat n = unat (subsec_nanos a) + unat (subsec_nanos b)"
    using assms by (simp add: n_def dur_ok_def unat_word_ariths)
  then have nl: "unat n < 2000000000" using assms by (simp add: dur_ok_def)
  have total: "dur_nanos a + dur_nanos b =
      (unat (as_secs a) + unat (as_secs b)) * 1000000000 + unat n"
    by (simp add: dur_nanos_def n algebra_simps)
  show ?thesis
  proof (cases "checked_add (as_secs a) (as_secs b)")
    case None
    then have "2 ^ 64 \<le> unat (as_secs a) + unat (as_secs b)" by (simp add: checked_add_None)
    with None total show ?thesis
      by (simp add: duration_saturating_add_def duration_checked_add_def MAX_NANOS_def)
  next
    case (Some x)
    then have x: "unat x = unat (as_secs a) + unat (as_secs b)" by (rule checked_add_Some)
    have xl: "unat x < 2 ^ 64" using unsigned_less [of x, where 'a = nat] by simp
    show ?thesis
    proof (cases "1000000000 \<le> n")
      case False
      then have "unat n < 1000000000" by (simp add: word_le_nat_alt)
      with Some False total x xl show ?thesis
        by (simp add: duration_saturating_add_def duration_checked_add_def n_def [symmetric]
            dur_ok_def dur_nanos_def MAX_NANOS_def)
    next
      case True
      then have "1000000000 \<le> unat n" "unat (n - 1000000000) = unat n - 1000000000"
        by (simp_all add: word_le_nat_alt unat_sub)
      then show ?thesis
        using Some True total x xl nl checked_add_Some [of x 1] checked_add_None [of x 1]
          unsigned_less [where 'a = nat, of "the (checked_add x 1)"]
        by (cases "checked_add x 1")
          (simp_all add: duration_saturating_add_def duration_checked_add_def n_def [symmetric]
            dur_ok_def dur_nanos_def MAX_NANOS_def DURATION_MAX_def unsigned_minus_1_eq_mask
            mask_eq_exp_minus_1)
    qed
  qed
qed

section \<open>Rounding to binary64\<close>

definition fval :: "f64 \<Rightarrow> real" where
  "fval x = real (fst x) / real (snd x)"

lemma bits_upper: "n < 2 ^ bits n"
proof (induction n rule: bits.induct)
  case (1 n)
  show ?case
  proof (cases "n = 0")
    case False
    with 1 have "n div 2 < 2 ^ bits (n div 2)" by simp
    then have "n < 2 * 2 ^ bits (n div 2)" by linarith
    with False show ?thesis by (subst bits.simps) simp
  qed simp
qed

lemma bits_lower: "0 < n \<Longrightarrow> \<exists>k. bits n = Suc k \<and> 2 ^ k \<le> n"
proof (induction n rule: bits.induct)
  case (1 n)
  show ?case
  proof (cases "n div 2 = 0")
    case True
    with 1 show ?thesis by (subst bits.simps) (simp add: bits.simps [of 0])
  next
    case False
    with 1 obtain k where "bits (n div 2) = Suc k" "2 ^ k \<le> n div 2" by auto
    with 1 show ?thesis by (subst bits.simps) simp
  qed
qed

lemma f64_exponent_le:
  assumes "0 < n" "0 < d"
  defines "e \<equiv> f64_exponent n d"
  shows "d * 2 ^ nat e \<le> n * 2 ^ nat (- e)"
proof (cases "d * 2 ^ nat (int (bits n) - int (bits d)) \<le> n * 2 ^ nat (- (int (bits n) - int (bits d)))")
  case True
  then show ?thesis by (simp add: e_def f64_exponent_def Let_def)
next
  case False
  then have e: "e = int (bits n) - int (bits d) - 1" by (simp add: e_def f64_exponent_def Let_def)
  obtain k where k: "bits n = Suc k" "2 ^ k \<le> n" using bits_lower assms by blast
  have d: "d \<le> 2 ^ bits d" using bits_upper [of d] by simp
  show ?thesis
  proof (cases "bits d \<le> k")
    case True
    then have "nat e = k - bits d" "nat (- e) = 0" using e k by auto
    moreover have "d * 2 ^ (k - bits d) \<le> 2 ^ bits d * 2 ^ (k - bits d)" using d by simp
    ultimately show ?thesis using k True by (simp add: power_add [symmetric])
  next
    case False
    then have "nat e = 0" "nat (- e) = bits d - k" using e k by auto
    moreover have "2 ^ k * 2 ^ (bits d - k) \<le> n * 2 ^ (bits d - k)" using k by simp
    ultimately show ?thesis using d False by (simp add: power_add [symmetric])
  qed
qed

lemma div_even_le: "0 < d \<Longrightarrow> real (div_even n d) \<le> real n / real d + 1 / 2"
proof -
  assume d: "0 < d"
  have n: "real n = real (n div d) * real d + real (n mod d)"
    by (metis div_mult_mod_eq of_nat_add of_nat_mult)
  show ?thesis
  proof (cases "2 * (n mod d) < d \<or> 2 * (n mod d) = d \<and> even (n div d)")
    case True
    then have "div_even n d = n div d" by (simp add: div_even_def Let_def)
    moreover have "real (n div d) \<le> real n / real d" by (rule of_nat_div_le_of_nat)
    ultimately show ?thesis by simp
  next
    case False
    then have "div_even n d = n div d + 1" "d \<le> 2 * (n mod d)" by (auto simp: div_even_def Let_def)
    then show ?thesis using d n by (simp add: field_simps)
  qed
qed

lemma div_even_relative:
  assumes "0 < d" "d * 2 ^ 52 \<le> n"
  shows "real (div_even n d) \<le> real n / real d * (1 + 1 / 2 ^ 52)"
proof -
  have "real d * 2 ^ 52 \<le> real n"
    using assms(2) by (metis of_nat_le_iff of_nat_mult of_nat_numeral of_nat_power)
  then have "2 ^ 52 \<le> real n / real d" using assms(1) by (simp add: field_simps)
  then show ?thesis using div_even_le [OF assms(1), of n] by (simp add: algebra_simps)
qed

lemma f64_round_le:
  assumes "0 < snd x"
  shows "0 < snd (f64_round x) \<and> fval (f64_round x) \<le> fval x * (1 + 1 / 2 ^ 52)"
proof -
  obtain n d where x: "x = (n, d)" by (cases x)
  show ?thesis
  proof (cases "n = 0")
    case True
    then show ?thesis by (simp add: x fval_def)
  next
    case False
    define e where "e = f64_exponent n d"
    have d: "0 < d" using assms x by simp
    have le: "d * 2 ^ nat e \<le> n * 2 ^ nat (- e)"
      using f64_exponent_le [of n d] False d by (simp add: e_def)
    show ?thesis
    proof (cases "e \<le> 52")
      case True
      have "d * 2 ^ 52 \<le> n * 2 ^ nat (52 - e)"
      proof (cases "0 \<le> e")
        case True
        then have "52 = nat e + nat (52 - e)" using \<open>e \<le> 52\<close> by simp
        then have "d * 2 ^ 52 = d * 2 ^ nat e * 2 ^ nat (52 - e)" by (metis mult.assoc power_add)
        also have "\<dots> \<le> n * 2 ^ nat (52 - e)"
          using le True by (intro mult_right_mono) simp_all
        finally show ?thesis .
      next
        case False
        then have "nat (52 - e) = nat (- e) + 52" by simp
        with le False show ?thesis by (simp add: power_add)
      qed
      from div_even_relative [OF d this]
      have "real (div_even (n * 2 ^ nat (52 - e)) d) / 2 ^ nat (52 - e) \<le>
          real n / real d * (1 + 1 / 2 ^ 52)"
        by (simp add: field_simps)
      then show ?thesis using True False by (simp add: x fval_def e_def [symmetric] Let_def)
    next
      case big: False
      then have "nat e = 52 + nat (e - 52)" "nat (- e) = 0" by simp_all
      with le have "d * 2 ^ nat (e - 52) * 2 ^ 52 \<le> n" by (simp add: power_add algebra_simps)
      from div_even_relative [OF _ this] d
      have "real (div_even n (d * 2 ^ nat (e - 52))) * 2 ^ nat (e - 52) \<le>
          real n / real d * (1 + 1 / 2 ^ 52)"
        by (simp add: field_simps)
      then show ?thesis using big False by (simp add: x fval_def e_def [symmetric] Let_def)
    qed
  qed
qed

declare f64_round.simps [simp del]

lemma fval_nonneg [simp]: "0 \<le> fval x"
  by (simp add: fval_def)

lemma f64_mul_le:
  assumes "0 < snd x" "0 < snd y"
  shows "0 < snd (f64_mul x y) \<and> fval (f64_mul x y) \<le> fval x * fval y * (1 + 1 / 2 ^ 52)"
  using assms f64_round_le [of "(fst x * fst y, snd x * snd y)"]
  by (cases x; cases y) (simp add: fval_def)

lemma f64_add_le:
  assumes "0 < snd x" "0 < snd y"
  shows "0 < snd (f64_add x y) \<and> fval (f64_add x y) \<le> (fval x + fval y) * (1 + 1 / 2 ^ 52)"
  using assms f64_round_le [of "(fst x * snd y + fst y * snd x, snd x * snd y)"]
  by (cases x; cases y) (simp add: fval_def add_frac_eq)

lemma as_secs_f64_le:
  "0 < snd (as_secs_f64 d) \<and>
   fval (as_secs_f64 d) \<le> real (dur_nanos d) / 1000000000 * (1 + 1 / 2 ^ 52) ^ 2"
proof -
  let ?a = "f64_round (unat (as_secs d), 1)"
  let ?b = "f64_round (unat (subsec_nanos d), 1000000000)"
  have a: "0 < snd ?a" "fval ?a \<le> real (unat (as_secs d)) * (1 + 1 / 2 ^ 52)"
    using f64_round_le [of "(unat (as_secs d), 1)"] by (simp_all add: fval_def)
  have b: "0 < snd ?b" "fval ?b \<le> real (unat (subsec_nanos d)) / 1000000000 * (1 + 1 / 2 ^ 52)"
    using f64_round_le [of "(unat (subsec_nanos d), 1000000000)"]
    by (simp_all add: fval_def)
  have "real (dur_nanos d) / 1000000000 =
      real (unat (as_secs d)) + real (unat (subsec_nanos d)) / 1000000000"
    by (simp add: dur_nanos_def add_divide_distrib)
  then have "fval ?a + fval ?b \<le> real (dur_nanos d) / 1000000000 * (1 + 1 / 2 ^ 52)"
    using a(2) b(2) by (simp only: distrib_right)
  then have "(fval ?a + fval ?b) * (1 + 1 / 2 ^ 52) \<le>
      real (dur_nanos d) / 1000000000 * (1 + 1 / 2 ^ 52) * (1 + 1 / 2 ^ 52)"
    by (rule mult_right_mono) simp
  with f64_add_le [OF a(1) b(1)] show ?thesis
    by (simp add: as_secs_f64_def power2_eq_square mult.assoc)
qed

section \<open>Delays\<close>

lemma len64: "LENGTH(64) = 64" and len32: "LENGTH(32) = 32"
  by simp_all

lemma unat_word_of_nat_small: "n < 2 ^ LENGTH('w) \<Longrightarrow> unat (word_of_nat n :: 'w::len word) = n"
  by (simp add: unat_of_nat)

lemma mul_f64_percent:
  assumes d: "dur_nanos d \<le> 60000000000" and p: "percent \<le> 100"
  shows "\<exists>j. mul_f64 d (f64_round (percent, 100)) = Some j \<and> dur_ok j \<and>
    100 * dur_nanos j \<le> percent * dur_nanos d + 100"
proof -
  let ?r = "f64_round (percent, 100)"
  let ?v = "f64_mul ?r (as_secs_f64 d)"
  let ?u = "1 + 1 / 2 ^ 52 :: real"
  obtain n m where v: "?v = (n, m)" by (cases ?v)
  have r: "0 < snd ?r" "fval ?r \<le> real percent / 100 * ?u"
    using f64_round_le [of "(percent, 100)"] by (simp_all add: fval_def)
  have s: "0 < snd (as_secs_f64 d)" "fval (as_secs_f64 d) \<le> real (dur_nanos d) / 1000000000 * ?u ^ 2"
    using as_secs_f64_le [of d] by simp_all
  have m: "0 < m" and le: "fval ?v \<le> fval ?r * fval (as_secs_f64 d) * ?u"
    using f64_mul_le [OF r(1) s(1)] v by simp_all
  have "fval ?r * fval (as_secs_f64 d) \<le>
      real percent / 100 * ?u * (real (dur_nanos d) / 1000000000 * ?u ^ 2)"
    using r(2) s(2) by (intro mult_mono) simp_all
  then have m1: "fval ?r * fval (as_secs_f64 d) * ?u \<le>
      real percent / 100 * ?u * (real (dur_nanos d) / 1000000000 * ?u ^ 2) * ?u"
    by (rule mult_right_mono) simp
  note le
  also note m1
  also have "real percent / 100 * ?u * (real (dur_nanos d) / 1000000000 * ?u ^ 2) * ?u =
      real percent * real (dur_nanos d) / 100 / 1000000000 * ?u ^ 4"
    by (simp add: power2_eq_square power4_eq_xxxx mult_ac)
  also have "\<dots> \<le> real percent * real (dur_nanos d) / 100 / 1000000000 * (1 + 1 / 10 ^ 14)"
    by (rule mult_left_mono) (simp_all add: power4_eq_xxxx)
  finally have "fval ?v \<le> real percent * real (dur_nanos d) / 100 / 1000000000 * (1 + 1 / 10 ^ 14)" .
  then have v9: "fval ?v * 1000000000 \<le> real percent * real (dur_nanos d) / 100 * (1 + 1 / 10 ^ 14)"
    by simp
  have "real percent * real (dur_nanos d) \<le> 100 * 60000000000"
    using d p by (intro mult_mono) simp_all
  then have "real percent * real (dur_nanos d) / 100 / 10 ^ 14 \<le> 1 / 2" by simp
  then have w: "fval ?v * 1000000000 \<le> real percent * real (dur_nanos d) / 100 + 1 / 2"
    using v9 by (simp add: algebra_simps)
  define k where "k = div_even (n * 1000000000) m"
  have "real k \<le> real (n * 1000000000) / real m + 1 / 2"
    unfolding k_def using m by (rule div_even_le)
  also have "real (n * 1000000000) / real m = fval ?v * 1000000000"
    by (simp add: v fval_def)
  finally have "real k \<le> real percent * real (dur_nanos d) / 100 + 1" using w by simp
  then have "real (100 * k) \<le> real (percent * dur_nanos d + 100)" by simp
  then have k: "100 * k \<le> percent * dur_nanos d + 100" by (simp only: of_nat_le_iff)
  moreover have "percent * dur_nanos d \<le> 100 * 60000000000"
    using d p by (intro mult_mono) simp_all
  ultimately have kl: "k \<le> 60000000001" by linarith
  have "mul_f64 d ?r = Some \<lparr>as_secs = word_of_nat (k div 1000000000),
      subsec_nanos = word_of_nat (k mod 1000000000)\<rparr>" (is "_ = Some ?j")
    using kl by (simp add: mul_f64_def v k_def [symmetric])
  moreover have "k div 1000000000 < 2 ^ LENGTH(64)" "k mod 1000000000 < 2 ^ LENGTH(32)"
    using kl by simp_all
  note words = this [THEN unat_word_of_nat_small]
  have "k mod 1000000000 < 1000000000" by simp
  then have "dur_ok ?j"
    unfolding dur_ok_def std_duration.select_convs words(2) .
  moreover have "dur_nanos ?j = k"
    unfolding dur_nanos_def std_duration.select_convs words by (rule div_mult_mod_eq)
  ultimately show ?thesis using k by (intro exI [of _ ?j] conjI) (simp_all only:)
qed

lemma retry_jitter_nanos_le:
  "retry_jitter_nanos e n i = Some j \<Longrightarrow> 0 < n \<Longrightarrow> unat j \<le> unat n"
proof -
  assume j: "retry_jitter_nanos e n i = Some j" and "0 < n"
  then have n: "0 < unat n" by (simp add: word_less_nat_alt)
  then have "0 < unat (saturating_add n 1)" "unat (saturating_add n 1) \<le> Suc (unat n)"
    by (simp_all add: unat_saturating_add)
  moreover obtain seed where "j = seed mod saturating_add n 1"
    using j by (auto simp: retry_jitter_nanos_def Let_def split: option.splits if_splits)
  moreover have "unat seed mod unat (saturating_add n 1) < unat (saturating_add n 1)"
    using \<open>0 < unat (saturating_add n 1)\<close> by (rule mod_less_divisor)
  ultimately show ?thesis by (simp only: unat_mod)
qed

lemma saturating_nanos_le: "unat (duration_to_saturating_nanos d) \<le> dur_nanos d"
proof (cases "dur_nanos d < 2 ^ 64")
  case True
  then show ?thesis by (simp add: duration_to_saturating_nanos_def unat_word_of_nat_small)
next
  case False
  then show ?thesis
    by (simp add: duration_to_saturating_nanos_def unsigned_minus_1_eq_mask mask_eq_exp_minus_1)
qed

text \<open>Jitter only lengthens a delay, by at most the given percentage and a nanosecond.\<close>

lemma add_jitter_bounds:
  assumes base: "dur_ok base" "dur_nanos base \<le> dur_nanos (max_delay p)"
    and maximum: "dur_ok (max_delay p)" "dur_nanos (max_delay p) \<le> 60000000000"
    and percent: "unat (jitter_percent p) \<le> 100"
  shows "\<exists>d. add_jitter e p base i = Some d \<and> dur_ok d \<and>
    dur_nanos base \<le> dur_nanos d \<and> dur_nanos d \<le> dur_nanos (max_delay p) \<and>
    100 * dur_nanos d \<le> (100 + unat (jitter_percent p)) * dur_nanos base + 100"
proof -
  obtain m where m: "mul_f64 base (f64_round (unat (jitter_percent p), 100)) = Some m"
    and mb: "100 * dur_nanos m \<le> unat (jitter_percent p) * dur_nanos base + 100"
    using mul_f64_percent [of base "unat (jitter_percent p)"] base maximum percent by auto
  let ?n = "duration_to_saturating_nanos m"
  show ?thesis
  proof (cases "jitter_percent p = 0 \<or> duration_is_zero base \<or> duration_is_zero m \<or> ?n = 0 \<or>
      retry_jitter_nanos e ?n i = None")
    case True
    then have "add_jitter e p base i = Some base" by (auto simp: add_jitter_def m Let_def)
    then show ?thesis using base by (simp add: algebra_simps)
  next
    case False
    then obtain j where j: "retry_jitter_nanos e ?n i = Some j" by auto
    then have "unat j \<le> unat ?n"
      by (rule retry_jitter_nanos_le) (use False in \<open>simp add: word_neq_0_conv\<close>)
    then have jm: "unat j \<le> dur_nanos m" using saturating_nanos_le [of m] by (rule order_trans)
    let ?s = "duration_saturating_add base (duration_from_nanos j)"
    have s: "dur_ok ?s" "dur_nanos ?s = min (dur_nanos base + unat j) MAX_NANOS"
      using saturating_add_nanos [of base "duration_from_nanos j"] dur_nanos_from_nanos [of j] base(1)
      by simp_all
    let ?d = "duration_min ?s (max_delay p)"
    have d: "dur_ok ?d" "dur_nanos ?d = min (dur_nanos ?s) (dur_nanos (max_delay p))"
      using dur_nanos_min [OF s(1) maximum(1)] by simp_all
    have "add_jitter e p base i = Some ?d" using False j by (simp add: add_jitter_def m)
    moreover have "dur_nanos base \<le> MAX_NANOS" using base maximum by (simp add: MAX_NANOS_def)
    moreover have "100 * dur_nanos ?d \<le> 100 * (dur_nanos base + unat j)"
      unfolding d(2) s(2) by (intro mult_left_mono) simp_all
    then have "100 * dur_nanos ?d \<le> (100 + unat (jitter_percent p)) * dur_nanos base + 100"
      using jm mb unfolding distrib_left distrib_right by linarith
    ultimately show ?thesis using d s base by auto
  qed
qed

lemma retry_exponential_ok:
  assumes "retry_exponential n i m = Inr p" "dur_ok i" "dur_ok m"
  shows "1 \<le> n \<and> n \<le> 8 \<and> max_attempts p = n \<and> initial_delay p = i \<and> max_delay p = m \<and>
    jitter_percent p = 20 \<and> 0 < dur_nanos i \<and> dur_nanos i \<le> dur_nanos m \<and>
    dur_nanos m \<le> 60000000000"
proof -
  have "dur_ok MAX_RETRY_DELAY" "dur_nanos MAX_RETRY_DELAY = 60000000000"
    by (simp_all add: limits dur_ok_def dur_nanos_def duration_from_secs_def)
  with assms show ?thesis
    by (auto simp: retry_exponential_def duration_less_iff duration_is_zero_iff limits
        split: if_splits)
qed

text \<open>The delay before jitter: the initial delay doubled at each retry, at most the maximum.\<close>

definition backoff_nanos :: "retry_policy \<Rightarrow> nat \<Rightarrow> nat" where
  "backoff_nanos p k = min (dur_nanos (initial_delay p) * 2 ^ min k 31) (dur_nanos (max_delay p))"

lemma retry_multiplier_value: "unat (retry_multiplier k) = 2 ^ min k 31"
proof -
  have "(2::nat) ^ min k 31 < 2 ^ LENGTH(32)"
    by (rule power_strict_increasing) simp_all
  from unat_word_of_nat_small [OF this] show ?thesis
    by (simp add: retry_multiplier_def push_bit_eq_mult)
qed

lemma backoff_value:
  fixes p k
  assumes "dur_ok (initial_delay p)" "dur_ok (max_delay p)" "dur_nanos (max_delay p) \<le> 60000000000"
  defines "b \<equiv> duration_min (duration_saturating_mul (initial_delay p) (retry_multiplier k)) (max_delay p)"
  shows "dur_ok b" "dur_nanos b = backoff_nanos p k"
proof -
  let ?m = "duration_saturating_mul (initial_delay p) (retry_multiplier k)"
  have m: "dur_ok ?m" "dur_nanos ?m = min (dur_nanos (initial_delay p) * 2 ^ min k 31) MAX_NANOS"
    using saturating_mul_nanos [OF assms(1)] by (simp_all add: retry_multiplier_value)
  have "dur_ok b \<and> dur_nanos b = min (dur_nanos ?m) (dur_nanos (max_delay p))"
    unfolding b_def using m(1) assms(2) by (rule dur_nanos_min)
  moreover have "dur_nanos (max_delay p) \<le> MAX_NANOS" using assms(3) by (simp add: MAX_NANOS_def)
  ultimately show "dur_ok b" "dur_nanos b = backoff_nanos p k"
    unfolding m(2) backoff_nanos_def by (simp_all only: min.assoc min_absorb2)
qed

lemma delay_bounds:
  assumes p: "dur_ok (initial_delay p)" "dur_ok (max_delay p)"
    "dur_nanos (max_delay p) \<le> 60000000000" "unat (jitter_percent p) \<le> 100"
  shows "\<exists>d. delay_for_retry e p k = Some d \<and> dur_ok d \<and>
    backoff_nanos p k \<le> dur_nanos d \<and> dur_nanos d \<le> dur_nanos (max_delay p) \<and>
    100 * dur_nanos d \<le> (100 + unat (jitter_percent p)) * backoff_nanos p k + 100"
proof -
  note b = backoff_value [OF p(1,2,3), of k]
  have "backoff_nanos p k \<le> dur_nanos (max_delay p)"
    unfolding backoff_nanos_def by simp
  then have "dur_nanos (duration_min (duration_saturating_mul (initial_delay p) (retry_multiplier k))
      (max_delay p)) \<le> dur_nanos (max_delay p)"
    unfolding b(2) .
  from add_jitter_bounds [OF b(1) this p(2,3,4), of e k] show ?thesis
    unfolding delay_for_retry_def b(2) .
qed

text \<open>C39: Every retry delay of an accepted policy exists (no panic), is at least the doubled initial
  delay capped at the maximum, at most the maximum, and at most a fifth and a nanosecond above
  that capped value; without jitter it is exactly that value.\<close>

theorem delay_for_retry_bounds:
  assumes "retry_exponential n i m = Inr p" "dur_ok i" "dur_ok m"
  shows "(\<exists>d. delay_for_retry e p k = Some d \<and> dur_ok d \<and>
      min (dur_nanos i * 2 ^ min k 31) (dur_nanos m) \<le> dur_nanos d \<and> dur_nanos d \<le> dur_nanos m \<and>
      5 * dur_nanos d \<le> 6 * min (dur_nanos i * 2 ^ min k 31) (dur_nanos m) + 5) \<and>
    map_option dur_nanos (delay_for_retry e (without_jitter p) k) =
      Some (min (dur_nanos i * 2 ^ min k 31) (dur_nanos m))"
proof -
  note p = retry_exponential_ok [OF assms]
  have b: "backoff_nanos p k = min (dur_nanos i * 2 ^ min k 31) (dur_nanos m)"
    using p by (simp add: backoff_nanos_def)
  obtain d where d: "delay_for_retry e p k = Some d" "dur_ok d" "backoff_nanos p k \<le> dur_nanos d"
    "dur_nanos d \<le> dur_nanos m" "100 * dur_nanos d \<le> (100 + 20) * backoff_nanos p k + 100"
    using delay_bounds [of p e k] p assms by auto
  have "delay_for_retry e (without_jitter p) k =
      Some (duration_min (duration_saturating_mul i (retry_multiplier k)) m)"
    using p by (simp add: delay_for_retry_def add_jitter_def without_jitter_def)
  moreover have "dur_nanos (duration_min (duration_saturating_mul i (retry_multiplier k)) m) =
      backoff_nanos p k"
    using backoff_value(2) [of p k] p assms by simp
  ultimately have "map_option dur_nanos (delay_for_retry e (without_jitter p) k) =
      Some (backoff_nanos p k)" by simp
  moreover have "5 * dur_nanos d \<le> 6 * backoff_nanos p k + 5" using d(5) by simp
  ultimately show ?thesis using d(1,2,3,4) unfolding b by blast
qed

definition two_seconds :: std_duration where "two_seconds = duration_from_secs 2"

lemma two_seconds_nanos: "dur_ok two_seconds" "dur_nanos two_seconds = 2000000000"
  by (simp_all add: two_seconds_def duration_from_secs_def dur_ok_def dur_nanos_def)

lemma two_seconds_policy:
  "retry_exponential 3 two_seconds two_seconds = Inr \<lparr>max_attempts = 3,
     initial_delay = two_seconds, max_delay = two_seconds, jitter_percent = 20\<rparr>"
  by (simp add: retry_exponential_def limits duration_less_def duration_is_zero_def two_seconds_def
      duration_from_secs_def)

definition no_entropy :: retry_entropy where
  "no_entropy = \<lparr>os_random = \<lambda>_. None, clock_nanos = \<lambda>_. 0, jitter_counter = \<lambda>_. 0,
     weak_fallback = False\<rparr>"

theorem delay_for_retry_bounds_witness:
  "map_option dur_nanos (delay_for_retry no_entropy (without_jitter \<lparr>max_attempts = 3,
     initial_delay = two_seconds, max_delay = two_seconds, jitter_percent = 20\<rparr>) 1) = Some 2000000000"
  using delay_for_retry_bounds [OF two_seconds_policy two_seconds_nanos(1,1), of no_entropy 1]
  by (simp add: two_seconds_nanos(2))

section \<open>Attempts\<close>

text \<open>What a caller sees of \<open>k\<close> retries from retry \<open>i\<close> on: every retry is a request and a wait.\<close>

definition retry_trace ::
  "retry_entropy \<Rightarrow> retry_policy \<Rightarrow> string \<Rightarrow> nat \<Rightarrow> nat \<Rightarrow> retry_event list" where
  "retry_trace e p verb i k =
     concat (map (\<lambda>j. [Sent verb, Waited (the (delay_for_retry e p j))]) [i..<i + k]) @ [Sent verb]"

lemma retry_trace_0: "retry_trace e p verb i 0 = [Sent verb]"
  by (simp add: retry_trace_def)

lemma retry_trace_Suc:
  "retry_trace e p verb i (Suc k) =
     Sent verb # Waited (the (delay_for_retry e p i)) # retry_trace e p verb (Suc i) k"
  by (simp add: retry_trace_def upt_conv_Cons del: upt_Suc)

definition temporary_answer :: "'a res \<Rightarrow> bool" where
  "temporary_answer r \<longleftrightarrow> (case r of Inl err \<Rightarrow> is_temporary err | Inr _ \<Rightarrow> False)"

lemma retry_loop_step:
  assumes "ensure_public_raw_api_enabled fs = Inr ()" "as_method m = Inr verb"
    and "delay_for_retry e p i = Some d"
  shows "retry_loop fs answer e p m a i =
    (if a < max_attempts p \<and> temporary_answer (answer a)
     then (let (result, later) = retry_loop fs answer e p m (Suc a) (Suc i)
           in (result, Sent verb # Waited d # later))
     else (Some (answer a), [Sent verb]))"
  using assms
  by (subst retry_loop.simps)
    (auto simp: request_json_def temporary_answer_def split: sum.splits prod.splits)

lemma retry_loop_spec:
  assumes "ensure_public_raw_api_enabled fs = Inr ()" "as_method m = Inr verb"
    and "\<And>i. delay_for_retry e p i \<noteq> None" "a \<le> max_attempts p"
  shows "\<exists>k. a + k \<le> max_attempts p \<and> (\<forall>j < k. temporary_answer (answer (a + j))) \<and>
    (a + k = max_attempts p \<or> \<not> temporary_answer (answer (a + k))) \<and>
    retry_loop fs answer e p m a i = (Some (answer (a + k)), retry_trace e p verb i k)"
  using assms(4)
proof (induction "max_attempts p - a" arbitrary: a i)
  case 0
  obtain d where d: "delay_for_retry e p i = Some d" using assms(3) by blast
  from 0 show ?case
    by (intro exI [of _ 0]) (simp add: retry_loop_step [OF assms(1,2) d] retry_trace_0)
next
  case (Suc n)
  obtain d where d: "delay_for_retry e p i = Some d" using assms(3) by blast
  note step = retry_loop_step [OF assms(1,2) d, of answer a]
  show ?case
  proof (cases "temporary_answer (answer a)")
    case False
    then show ?thesis using Suc.prems
      by (intro exI [of _ 0]) (simp add: step retry_trace_0)
  next
    case True
    from Suc have "n = max_attempts p - Suc a" "Suc a \<le> max_attempts p" by simp_all
    from Suc.hyps(1) [OF this, of "Suc i"] obtain k where k: "Suc a + k \<le> max_attempts p"
      "\<forall>j < k. temporary_answer (answer (Suc a + j))"
      "Suc a + k = max_attempts p \<or> \<not> temporary_answer (answer (Suc a + k))"
      "retry_loop fs answer e p m (Suc a) (Suc i) =
        (Some (answer (Suc a + k)), retry_trace e p verb (Suc i) k)" by blast
    have "\<forall>j < Suc k. temporary_answer (answer (a + j))"
      using True k(2) by (auto simp: less_Suc_eq_0_disj)
    then show ?thesis using k True
      by (intro exI [of _ "Suc k"]) (simp add: step d retry_trace_Suc)
  qed
qed

text \<open>C10: The retry helper terminates with an answer: with the raw API compiled in it sends between one
  and the configured number of requests, with a wait between two of them, goes on only after a temporary
  error, and returns the first answer that is not one, or the last answer; without the raw API
  it sends nothing.\<close>

theorem request_json_with_retry_spec:
  assumes "retry_exponential n i m = Inr p" "dur_ok i" "dur_ok m"
  shows "if raw_api fs \<and> raw_api_acknowledged fs
    then (\<exists>k < n. request_json_with_retry fs answer e p meth =
        (Some (answer (Suc k)), retry_trace e p (the (ok_val (as_method meth))) 0 k) \<and>
      the (ok_val (as_method meth)) \<in> {''GET'', ''HEAD'', ''LIST''} \<and>
      list_all (\<lambda>j. temporary_answer (answer j)) [1..<Suc k] \<and>
      (Suc k = n \<or> \<not> temporary_answer (answer (Suc k))))
    else request_json_with_retry fs answer e p meth = (Some (Inl RawApiDisabled), [])"
proof (cases "raw_api fs \<and> raw_api_acknowledged fs")
  case True
  note p = retry_exponential_ok [OF assms]
  obtain verb where v: "as_method meth = Inr verb" "verb \<in> {''GET'', ''HEAD'', ''LIST''}"
    by (cases meth) simp_all
  have "delay_for_retry e p k \<noteq> None" for k
    using delay_bounds [of p e k] p assms by auto
  with True v p obtain k where k: "1 + k \<le> n" "\<forall>j < k. temporary_answer (answer (1 + j))"
    "1 + k = n \<or> \<not> temporary_answer (answer (1 + k))"
    "retry_loop fs answer e p meth 1 0 = (Some (answer (1 + k)), retry_trace e p verb 0 k)"
    using retry_loop_spec [of fs meth verb e p 1 answer 0]
    by (auto simp: ensure_public_raw_api_enabled_def)
  have "list_all (\<lambda>j. temporary_answer (answer j)) [1..<Suc k]"
    unfolding list_all_iff
  proof
    fix j assume "j \<in> set [1..<Suc k]"
    then show "temporary_answer (answer j)" using k(2) [rule_format, of "j - 1"] by auto
  qed
  moreover have "the (ok_val (as_method meth)) \<in> {''GET'', ''HEAD'', ''LIST''}"
    using v by (simp only: ok_val.simps option.sel)
  moreover have "k < n" "Suc k = n \<or> \<not> temporary_answer (answer (Suc k))"
    "request_json_with_retry fs answer e p meth =
      (Some (answer (Suc k)), retry_trace e p (the (ok_val (as_method meth))) 0 k)"
    using k v(1) by (simp_all add: request_json_with_retry_def)
  ultimately show ?thesis unfolding if_P [OF True] by blast
next
  case False
  obtain verb where "as_method meth = Inr verb" by (cases meth) simp_all
  with False show ?thesis
    by (auto simp: request_json_with_retry_def retry_loop.simps [of fs] request_json_def
        ensure_public_raw_api_enabled_def)
qed

text \<open>An answer that fails once with a temporary status and then succeeds.\<close>

theorem request_json_with_retry_witness:
  "fst (request_json_with_retry (no_features\<lparr>raw_api := True, raw_api_acknowledged := True\<rparr>)
     (\<lambda>n::nat. if n = 1 then Inl (Api 503 []) else Inr n) no_entropy \<lparr>max_attempts = 3,
       initial_delay = two_seconds, max_delay = two_seconds, jitter_percent = 20\<rparr> RList) =
   Some (Inr 2)"
proof -
  let ?fs = "no_features\<lparr>raw_api := True, raw_api_acknowledged := True\<rparr>"
  let ?answer = "\<lambda>n::nat. if n = 1 then Inl (Api 503 []) else Inr n"
  let ?p = "\<lparr>max_attempts = 3, initial_delay = two_seconds, max_delay = two_seconds,
    jitter_percent = 20\<rparr>"
  have t: "temporary_answer (?answer (Suc k)) \<longleftrightarrow> k = 0" for k
    by (simp add: temporary_answer_def)
  obtain k verb where "k < 3"
    "request_json_with_retry ?fs ?answer no_entropy ?p RList =
      (Some (?answer (Suc k)), retry_trace no_entropy ?p verb 0 k)"
    "list_all (\<lambda>j. temporary_answer (?answer j)) [1..<Suc k]"
    "Suc k = 3 \<or> \<not> temporary_answer (?answer (Suc k))"
    using request_json_with_retry_spec [OF two_seconds_policy two_seconds_nanos(1,1),
        of ?fs ?answer no_entropy RList] by auto
  moreover have "\<not> temporary_answer (?answer 2)" "\<not> temporary_answer (?answer 3)"
    by (simp_all add: temporary_answer_def)
  ultimately have "k = 1"
    using t [of k] by (auto simp: less_Suc_eq numeral_3_eq_3 numeral_2_eq_2)
  with \<open>request_json_with_retry _ _ _ _ _ = _\<close> show ?thesis by simp
qed

end
