(* ===== verification/Bao_Bodies.thy ===== *)
theory Bao_Bodies
  imports Bao_Config
begin

text \<open>
  The bounded bodies of \<open>client.rs\<close>: the sanitizing request buffer with the allocations it
  replaces, the bounded writer, JSON and form encoding into them, reading a response under the
  client's limit, the content-type checks and the exact-length request stream. Both writers
  satisfy the locale \<open>bounded_writer\<close>, in which the encoding of a payload is proved once.
\<close>

section \<open>Writers\<close>

text \<open>
  The \<open>sanitization\<close> crate and the allocator are inputs: what wiping leaves of the written part of
  an allocation, and the capacity \<open>Vec::with_capacity\<close> gives for a request.
\<close>

record sanitizer =
  wipe_bytes :: "string \<Rightarrow> string"
  wipe_vec :: "string \<Rightarrow> string"
  vec_capacity :: "nat \<Rightarrow> nat"

definition request_body_too_large :: error where
  "request_body_too_large = InvalidParameter ''OpenBao request exceeds configured client limit''"

text \<open>
  \<open>bb_mem\<close> is everything ever written into the current allocation, of which the first \<open>bb_len\<close>
  bytes are the vector; \<open>bb_released\<close> lists what each allocation held when it was given back.
\<close>

record body_buffer =
  bb_mem :: string
  bb_len :: nat
  bb_capacity :: nat
  bb_limit :: nat
  bb_exceeded :: bool
  bb_released :: "string list"

definition bb_bytes :: "body_buffer \<Rightarrow> string" where
  "bb_bytes b = take (bb_len b) (bb_mem b)"

definition body_buffer_new :: "nat \<Rightarrow> body_buffer" where
  "body_buffer_new limit = \<lparr>bb_mem = [], bb_len = 0, bb_capacity = 0, bb_limit = limit,
     bb_exceeded = False, bb_released = []\<rparr>"

definition wipe_allocation :: "sanitizer \<Rightarrow> body_buffer \<Rightarrow> body_buffer" where
  "wipe_allocation san b =
     b\<lparr>bb_mem := wipe_vec san (wipe_bytes san (bb_bytes b) @ drop (bb_len b) (bb_mem b)),
       bb_len := 0\<rparr>"

definition body_buffer_drop :: "sanitizer \<Rightarrow> body_buffer \<Rightarrow> string list" where
  "body_buffer_drop san b = bb_released b @ [bb_mem (wipe_allocation san b)]"

text \<open>\<open>Vec::extend_from_slice\<close>: within the capacity it writes in place; beyond it the vector would
  move by itself and give the old allocation back as it is.\<close>

definition vec_extend :: "sanitizer \<Rightarrow> string \<Rightarrow> body_buffer \<Rightarrow> body_buffer" where
  "vec_extend san input b =
     (let required = bb_len b + length input in
      if bb_capacity b < required
      then b\<lparr>bb_mem := bb_bytes b @ input, bb_len := required,
        bb_capacity := vec_capacity san required, bb_released := bb_released b @ [bb_mem b]\<rparr>
      else b\<lparr>bb_mem := bb_bytes b @ input @ drop required (bb_mem b), bb_len := required\<rparr>)"

text \<open>Growing copies into a larger allocation, wipes the old one and drops it, wiping it again.\<close>

definition grow_allocation :: "sanitizer \<Rightarrow> nat \<Rightarrow> body_buffer \<Rightarrow> body_buffer" where
  "grow_allocation san required b =
     (let capacity = vec_capacity san (max (max (bb_capacity b * 2) required) 8);
          old = wipe_allocation san b
      in b\<lparr>bb_mem := bb_bytes b, bb_capacity := capacity,
           bb_released := bb_released b @ [bb_mem (wipe_allocation san old)]\<rparr>)"

definition body_try_extend :: "sanitizer \<Rightarrow> string \<Rightarrow> body_buffer \<Rightarrow> unit res \<times> body_buffer" where
  "body_try_extend san input b =
     (if bb_limit b - bb_len b < length input
      then (Inl request_body_too_large, b\<lparr>bb_exceeded := True\<rparr>)
      else
        (let required = bb_len b + length input;
             b' = (if bb_capacity b < required then grow_allocation san required b else b)
         in (Inr (), vec_extend san input b')))"

record secret_writer =
  sw_bytes :: string
  sw_limit :: nat
  sw_exceeded :: bool

definition secret_writer_new :: "nat \<Rightarrow> secret_writer" where
  "secret_writer_new limit = \<lparr>sw_bytes = [], sw_limit = limit, sw_exceeded = False\<rparr>"

definition secret_try_extend :: "string \<Rightarrow> secret_writer \<Rightarrow> unit res \<times> secret_writer" where
  "secret_try_extend input w =
     (if sw_limit w - length (sw_bytes w) < length input
      then (Inl request_body_too_large, w\<lparr>sw_exceeded := True\<rparr>)
      else (Inr (), w\<lparr>sw_bytes := sw_bytes w @ input\<rparr>))"

text \<open>
  A \<open>Serialize\<close> value under \<open>serde_json::to_writer\<close> is the fragments it writes and whether it
  finishes after them. \<open>write_all\<close> never calls \<open>write\<close> for an empty fragment.
\<close>

type_synonym payload = "string list \<times> bool"

fun write_fragments ::
  "(string \<Rightarrow> 'w \<Rightarrow> unit res \<times> 'w) \<Rightarrow> string list \<Rightarrow> 'w \<Rightarrow> bool \<times> 'w" where
  "write_fragments put [] w = (True, w)"
| "write_fragments put (s # ss) w =
     (if s = [] then write_fragments put ss w
      else case put s w of
        (Inl e, w') \<Rightarrow> (False, w')
      | (Inr _, w') \<Rightarrow> write_fragments put ss w')"

fun to_writer :: "(string \<Rightarrow> 'w \<Rightarrow> unit res \<times> 'w) \<Rightarrow> payload \<Rightarrow> 'w \<Rightarrow> bool \<times> 'w" where
  "to_writer put (fragments, finishes) w =
     (case write_fragments put fragments w of (written, w') \<Rightarrow> (written \<and> finishes, w'))"

definition encode_failure :: "bool \<Rightarrow> error" where
  "encode_failure exceeded =
     (if exceeded then request_body_too_large
      else Decode ''OpenBao request could not be encoded'')"

definition encode_bounded_json :: "payload \<Rightarrow> nat \<Rightarrow> string res" where
  "encode_bounded_json payload limit =
     (case to_writer secret_try_extend payload (secret_writer_new limit) of (ok, w) \<Rightarrow>
       if \<not> ok then Inl (encode_failure (sw_exceeded w)) else Inr (sw_bytes w))"

text \<open>The body keeps its buffer, so that the allocation can be followed to its release; on an error
  the buffer is dropped at once.\<close>

definition encode_bounded_json_body ::
  "sanitizer \<Rightarrow> payload \<Rightarrow> body_buffer \<Rightarrow> body_buffer res \<times> string list" where
  "encode_bounded_json_body san payload buffer =
     (case to_writer (body_try_extend san) payload buffer of (ok, w) \<Rightarrow>
       if \<not> ok then (Inl (encode_failure (bb_exceeded w)), body_buffer_drop san w)
       else (Inr w, []))"

text \<open>\<open>form_bytes\<close> is \<open>url::form_urlencoded::byte_serialize\<close>, the pieces it yields.\<close>

fun extend_pieces :: "sanitizer \<Rightarrow> string list \<Rightarrow> body_buffer \<Rightarrow> unit res \<times> body_buffer" where
  "extend_pieces san [] b = (Inr (), b)"
| "extend_pieces san (p # ps) b =
     (case body_try_extend san p b of
        (Inl e, b') \<Rightarrow> (Inl e, b')
      | (Inr _, b') \<Rightarrow> extend_pieces san ps b')"

definition append_form_component ::
  "sanitizer \<Rightarrow> (string \<Rightarrow> string list) \<Rightarrow> string \<Rightarrow> body_buffer \<Rightarrow> unit res \<times> body_buffer" where
  "append_form_component san form_bytes value b = extend_pieces san (form_bytes value) b"

fun encode_form ::
  "sanitizer \<Rightarrow> (string \<Rightarrow> string list) \<Rightarrow> nat \<Rightarrow> (string \<times> string) list \<Rightarrow> body_buffer \<Rightarrow>
   unit res \<times> body_buffer" where
  "encode_form san form_bytes index [] b = (Inr (), b)"
| "encode_form san form_bytes index ((name, value) # rest) b =
     (case (if index \<noteq> 0 then body_try_extend san ''&'' b else (Inr (), b)) of
        (Inl e, b1) \<Rightarrow> (Inl e, b1)
      | (Inr _, b1) \<Rightarrow>
     (case append_form_component san form_bytes name b1 of
        (Inl e, b2) \<Rightarrow> (Inl e, b2)
      | (Inr _, b2) \<Rightarrow>
     (case body_try_extend san ''='' b2 of
        (Inl e, b3) \<Rightarrow> (Inl e, b3)
      | (Inr _, b3) \<Rightarrow>
     (case append_form_component san form_bytes value b3 of
        (Inl e, b4) \<Rightarrow> (Inl e, b4)
      | (Inr _, b4) \<Rightarrow> encode_form san form_bytes (index + 1) rest b4))))"

section \<open>Responses\<close>

text \<open>
  A response: its status, its header values by lower-case name, the announced length and the
  chunks as they arrive, an error ending the body. \<open>to_str\<close> is \<open>HeaderValue::to_str\<close>.
\<close>

record response =
  rs_status :: status_code
  rs_headers :: "string \<rightharpoonup> string"
  rs_content_length :: "nat option"
  rs_chunks :: "string res list"

type_synonym header_text = "string \<Rightarrow> string + string"

fun read_chunks :: "nat \<Rightarrow> string \<Rightarrow> string res list \<Rightarrow> string res" where
  "read_chunks limit body [] = Inr body"
| "read_chunks limit body (Inl e # chunks) = Inl e"
| "read_chunks limit body (Inr chunk # chunks) =
     (if limit < length body + length chunk
      then Inl (Decode ''OpenBao response exceeds client limit'')
      else read_chunks limit (body @ chunk) chunks)"

definition read_response_bytes :: "response \<Rightarrow> nat \<Rightarrow> string res" where
  "read_response_bytes r limit =
     (if (case rs_content_length r of Some n \<Rightarrow> limit < n | None \<Rightarrow> False)
      then Inl (Decode ''OpenBao response exceeds client limit'')
      else read_chunks limit [] (rs_chunks r))"

definition validate_json_content_type :: "header_text \<Rightarrow> response \<Rightarrow> unit res" where
  "validate_json_content_type to_str r =
     rbind (ok_or (rs_headers r ''content-type'') (Decode ''missing content-type header'')) (\<lambda>raw.
     rbind (rmap_err (\<lambda>m. Decode (''invalid content-type header: '' @ m)) (to_str raw)) (\<lambda>value.
       if \<not> eq_ignore_ascii_case (trim (hd (split_on CHR '';'' value))) ''application/json''
       then Inl (Decode ''unexpected content-type: expected application/json'')
       else Inr ()))"

definition header_media_type :: "header_text \<Rightarrow> string \<Rightarrow> string \<Rightarrow> string res" where
  "header_media_type to_str raw label =
     rbind (rmap_err (\<lambda>m. Decode (''invalid '' @ label @ '' header: '' @ m)) (to_str raw)) (\<lambda>value.
       let media_type = trim (hd (split_on CHR '';'' (hd (split_on CHR '','' value)))) in
       if media_type = [] then Inl (Decode (''missing '' @ label @ '' header''))
       else Inr media_type)"

definition validate_bytes_content_type ::
  "header_text \<Rightarrow> response \<Rightarrow> string \<Rightarrow> unit res" where
  "validate_bytes_content_type to_str r expected_raw =
     rbind (header_media_type to_str expected_raw ''expected binary content-type'') (\<lambda>expected.
       if expected = ''*/*'' then Inr ()
       else
         rbind (ok_or (rs_headers r ''content-type'') (Decode ''missing content-type header''))
           (\<lambda>raw.
         rbind (header_media_type to_str raw ''binary response content-type'') (\<lambda>actual.
           if \<not> eq_ignore_ascii_case actual expected
           then Inl (Decode (''unexpected content-type: expected '' @ expected))
           else Inr ())))"

definition schema_error :: error where
  "schema_error = Decode ''OpenBao response did not match expected schema''"

text \<open>\<open>from_json\<close> is the deserialiser of the expected type.\<close>

definition read_json_response ::
  "header_text \<Rightarrow> (string \<Rightarrow> 'a option) \<Rightarrow> response \<Rightarrow> nat \<Rightarrow> 'a res" where
  "read_json_response to_str from_json r limit =
     rbind (validate_json_content_type to_str r) (\<lambda>_.
     rbind (read_response_bytes r limit) (\<lambda>body. ok_or (from_json body) schema_error))"

definition read_public_api_errors ::
  "header_text \<Rightarrow> (string \<Rightarrow> string list option) \<Rightarrow> response \<Rightarrow> nat \<Rightarrow> string list" where
  "read_public_api_errors to_str errors_from_json r limit =
     (case read_json_response to_str errors_from_json r limit of
        Inl e \<Rightarrow> []
      | Inr errors \<Rightarrow> map sanitize_api_error errors)"

section \<open>The exact-length request stream\<close>

text \<open>The inner stream: what each poll of it gives; it stays finished once the list is used up.\<close>

datatype inner_poll = InnerPending | InnerChunk string | InnerFailed

datatype stream_poll = PollPending | PollChunk string | PollError string | PollEnd

record exact_stream =
  es_inner :: "inner_poll list"
  es_remaining :: "64 word"
  es_terminal :: bool

definition exact_stream_new :: "inner_poll list \<Rightarrow> 64 word \<Rightarrow> exact_stream" where
  "exact_stream_new inner content_length =
     \<lparr>es_inner = inner, es_remaining = content_length, es_terminal = False\<rparr>"

definition len_u64 :: "string \<Rightarrow> 64 word" where
  "len_u64 chunk = (if length chunk < 2 ^ 64 then word_of_nat (length chunk) else - 1)"

definition stream_poll_next :: "exact_stream \<Rightarrow> stream_poll \<times> exact_stream" where
  "stream_poll_next s =
     (if es_terminal s then (PollEnd, s)
      else case es_inner s of
        InnerPending # rest \<Rightarrow> (PollPending, s\<lparr>es_inner := rest\<rparr>)
      | InnerChunk chunk # rest \<Rightarrow>
          (let s' = s\<lparr>es_inner := rest\<rparr> in
           if chunk = []
           then (PollError ''OpenBao request stream produced an empty chunk'',
             s'\<lparr>es_terminal := True\<rparr>)
           else if es_remaining s < len_u64 chunk
           then (PollError ''OpenBao request stream exceeded declared length'',
             s'\<lparr>es_terminal := True\<rparr>)
           else (PollChunk chunk, s'\<lparr>es_remaining := es_remaining s - len_u64 chunk\<rparr>))
      | InnerFailed # rest \<Rightarrow>
          (PollError ''OpenBao request stream failed'', s\<lparr>es_inner := rest, es_terminal := True\<rparr>)
      | [] \<Rightarrow>
          (if es_remaining s = 0 then (PollEnd, s\<lparr>es_terminal := True\<rparr>)
           else (PollError ''OpenBao request stream ended before declared length'',
             s\<lparr>es_terminal := True\<rparr>)))"

text \<open>The HTTP body polls until the stream ends.\<close>

function stream_drain :: "exact_stream \<Rightarrow> stream_poll list" where
  "stream_drain s =
     (case stream_poll_next s of
        (PollEnd, s') \<Rightarrow> [PollEnd]
      | (p, s') \<Rightarrow> p # stream_drain s')"
  by pat_completeness auto
termination
  by (relation "measure (\<lambda>s. length (es_inner s) + (if es_terminal s then 0 else 1))")
    (auto simp: stream_poll_next_def Let_def split: if_splits list.splits inner_poll.splits)

declare stream_drain.simps [simp del]

section \<open>Paths in trace spans\<close>

definition span_safe_path :: "string \<Rightarrow> string" where
  "span_safe_path path =
     (case split_on CHR ''/'' (dropWhile (\<lambda>c. c = CHR ''/'') path) of
        [] \<Rightarrow> ''/<redacted>''
      | [version] \<Rightarrow> ''/'' @ version
      | [version, mount] \<Rightarrow> ''/'' @ version @ ''/'' @ mount
      | [version, mount, operation] \<Rightarrow> ''/'' @ version @ ''/'' @ mount @ ''/'' @ operation
      | version # mount # operation # _ \<Rightarrow>
          ''/'' @ version @ ''/'' @ mount @ ''/'' @ operation @ ''/<redacted>'')"

section \<open>What every bounded writer does\<close>

locale bounded_writer =
  fixes put :: "string \<Rightarrow> 'w \<Rightarrow> unit res \<times> 'w"
    and content :: "'w \<Rightarrow> string"
    and limit :: "'w \<Rightarrow> nat"
    and exceeded :: "'w \<Rightarrow> bool"
    and good :: "'w \<Rightarrow> bool"
  assumes put_fits: "good w \<Longrightarrow> length (content w) + length s \<le> limit w \<Longrightarrow>
      \<exists>w'. put s w = (Inr (), w') \<and> good w' \<and> content w' = content w @ s \<and> limit w' = limit w \<and>
        exceeded w' = exceeded w"
    and put_overflow: "good w \<Longrightarrow> limit w < length (content w) + length s \<Longrightarrow>
      \<exists>w'. put s w = (Inl request_body_too_large, w') \<and> good w' \<and> content w' = content w \<and>
        limit w' = limit w \<and> exceeded w'"
    and good_bounded: "good w \<Longrightarrow> length (content w) \<le> limit w"
begin

lemma write_fits:
  "good w \<Longrightarrow> length (content w) + length (concat ss) \<le> limit w \<Longrightarrow>
   \<exists>w'. write_fragments put ss w = (True, w') \<and> good w' \<and> content w' = content w @ concat ss \<and>
     exceeded w' = exceeded w"
proof (induction ss arbitrary: w)
  case (Cons s ss)
  then obtain w' where w': "put s w = (Inr (), w')" "good w'" "content w' = content w @ s"
    "limit w' = limit w" "exceeded w' = exceeded w"
    using put_fits [of w s] by auto
  with Cons.IH [of w'] Cons.prems show ?case by (cases "s = []") (auto dest: Cons.IH)
qed auto

lemma write_overflow:
  "good w \<Longrightarrow> limit w < length (content w) + length (concat ss) \<Longrightarrow>
   \<exists>w'. write_fragments put ss w = (False, w') \<and> good w' \<and> exceeded w'"
proof (induction ss arbitrary: w)
  case Nil
  then show ?case using good_bounded [of w] by simp
next
  case (Cons s ss)
  show ?case
  proof (cases "length (content w) + length s \<le> limit w")
    case True
    then obtain w' where "put s w = (Inr (), w')" "good w'" "content w' = content w @ s"
      "limit w' = limit w" using put_fits [of w s] Cons.prems by auto
    with Cons.IH [of w'] Cons.prems show ?thesis by (cases "s = []") (auto dest: Cons.IH)
  next
    case False
    moreover from this have "s \<noteq> []" using good_bounded [of w] Cons.prems by auto
    ultimately show ?thesis using put_overflow [of w s] Cons.prems by auto
  qed
qed

lemma put_good: "good w \<Longrightarrow> good (snd (put s w))"
  using put_fits [of w s] put_overflow [of w s] by (cases "length (content w) + length s \<le> limit w") auto

lemma to_writer_spec:
  assumes "good w" "content w = []" "\<not> exceeded w"
  shows "\<exists>w'. to_writer put (ss, finishes) w = (length (concat ss) \<le> limit w \<and> finishes, w') \<and>
    good w' \<and> (exceeded w' \<longleftrightarrow> limit w < length (concat ss)) \<and>
    (length (concat ss) \<le> limit w \<longrightarrow> content w' = concat ss)"
  using write_fits [of w ss] write_overflow [of w ss] assms
  by (cases "length (concat ss) \<le> limit w") auto

end

lemma secret_writer_bounded:
  "bounded_writer secret_try_extend sw_bytes sw_limit sw_exceeded
     (\<lambda>w. length (sw_bytes w) \<le> sw_limit w)"
  by unfold_locales (auto simp: secret_try_extend_def)

interpretation sw: bounded_writer secret_try_extend sw_bytes sw_limit sw_exceeded
    "\<lambda>w. length (sw_bytes w) \<le> sw_limit w"
  by (rule secret_writer_bounded)

text \<open>A good buffer: the vector is part of the allocation, within capacity and limit, and whatever
  was given back is zero.\<close>

definition zeros :: "string \<Rightarrow> bool" where
  "zeros s \<longleftrightarrow> list_all (\<lambda>c. c = CHR 0x00) s"

definition sanitizer_ok :: "sanitizer \<Rightarrow> bool" where
  "sanitizer_ok san \<longleftrightarrow>
     (\<forall>s. zeros (wipe_bytes san s)) \<and> (\<forall>s. zeros (wipe_vec san s)) \<and>
     (\<forall>n. n \<le> vec_capacity san n)"

definition buffer_ok :: "body_buffer \<Rightarrow> bool" where
  "buffer_ok b \<longleftrightarrow> bb_len b \<le> length (bb_mem b) \<and> bb_len b \<le> bb_capacity b \<and>
     bb_len b \<le> bb_limit b \<and> list_all zeros (bb_released b)"

lemma length_bb_bytes: "buffer_ok b \<Longrightarrow> length (bb_bytes b) = bb_len b"
  by (simp add: bb_bytes_def buffer_ok_def)

lemma body_writer_bounded:
  assumes "sanitizer_ok san"
  shows "bounded_writer (body_try_extend san) bb_bytes bb_limit bb_exceeded buffer_ok"
proof
  fix w :: body_buffer and s :: string
  assume ok: "buffer_ok w" and le: "length (bb_bytes w) + length s \<le> bb_limit w"
  let ?required = "bb_len w + length s"
  let ?b = "if bb_capacity w < ?required then grow_allocation san ?required w else w"
  have len: "length (bb_bytes w) = bb_len w" using ok by (rule length_bb_bytes)
  have "max (max (bb_capacity w * 2) ?required) 8 \<le>
      vec_capacity san (max (max (bb_capacity w * 2) ?required) 8)"
    using assms by (simp only: sanitizer_ok_def)
  then have cap: "?required \<le> vec_capacity san (max (max (bb_capacity w * 2) ?required) 8)"
    by (rule order_trans [rotated]) simp
  then have cap': "bb_len w \<le> vec_capacity san (max (max (bb_capacity w * 2) ?required) 8)"
    by simp
  have b: "buffer_ok ?b" "bb_bytes ?b = bb_bytes w" "bb_len ?b = bb_len w" "bb_limit ?b = bb_limit w"
    "bb_exceeded ?b = bb_exceeded w" "?required \<le> bb_capacity ?b"
    using ok assms cap cap' len
    by (auto simp: buffer_ok_def grow_allocation_def Let_def wipe_allocation_def sanitizer_ok_def
        bb_bytes_def)
  then have "buffer_ok (vec_extend san s ?b)" "bb_bytes (vec_extend san s ?b) = bb_bytes w @ s"
    "bb_limit (vec_extend san s ?b) = bb_limit w" "bb_exceeded (vec_extend san s ?b) = bb_exceeded w"
    using le len by (auto simp: vec_extend_def Let_def buffer_ok_def bb_bytes_def)
  moreover have "body_try_extend san s w = (Inr (), vec_extend san s ?b)"
    using le len by (simp add: body_try_extend_def Let_def)
  ultimately show "\<exists>w'. body_try_extend san s w = (Inr (), w') \<and> buffer_ok w' \<and>
      bb_bytes w' = bb_bytes w @ s \<and> bb_limit w' = bb_limit w \<and> bb_exceeded w' = bb_exceeded w"
    by blast
next
  fix w :: body_buffer and s :: string
  assume "buffer_ok w" "bb_limit w < length (bb_bytes w) + length s"
  then show "\<exists>w'. body_try_extend san s w = (Inl request_body_too_large, w') \<and> buffer_ok w' \<and>
      bb_bytes w' = bb_bytes w \<and> bb_limit w' = bb_limit w \<and> bb_exceeded w'"
    by (auto simp: body_try_extend_def buffer_ok_def bb_bytes_def)
next
  fix w assume "buffer_ok w"
  then show "length (bb_bytes w) \<le> bb_limit w"
    by (simp add: length_bb_bytes) (simp add: buffer_ok_def)
qed

text \<open>The zeroing sanitizer, on which the locale is interpreted.\<close>

definition zeroing :: sanitizer where
  "zeroing = \<lparr>wipe_bytes = map (\<lambda>_. CHR 0x00), wipe_vec = map (\<lambda>_. CHR 0x00),
     vec_capacity = (\<lambda>n. n)\<rparr>"

lemma zeroing_ok: "sanitizer_ok zeroing"
  by (simp add: sanitizer_ok_def zeroing_def zeros_def list_all_iff)

interpretation bb: bounded_writer "body_try_extend zeroing" bb_bytes bb_limit bb_exceeded buffer_ok
  by (rule body_writer_bounded [OF zeroing_ok])

section \<open>Encoding a payload\<close>

text \<open>Encoding a value as JSON gives the concatenation of what the serialiser writes when it
  finishes and fits the limit, the size error whenever what it writes exceeds the limit, and the
  encoding error only when a value that fits does not serialise.\<close>

theorem encode_bounded_json_eq:
  "encode_bounded_json (fragments, finishes) limit =
     (if limit < length (concat fragments) then Inl request_body_too_large
      else if finishes then Inr (concat fragments)
      else Inl (Decode ''OpenBao request could not be encoded''))"
proof -
  have "length (sw_bytes (secret_writer_new limit)) \<le> sw_limit (secret_writer_new limit)"
    "sw_bytes (secret_writer_new limit) = []" "\<not> sw_exceeded (secret_writer_new limit)"
    "sw_limit (secret_writer_new limit) = limit"
    by (simp_all add: secret_writer_new_def)
  with sw.to_writer_spec [of "secret_writer_new limit" fragments finishes] show ?thesis
    by (auto simp: encode_bounded_json_def encode_failure_def)
qed

lemma buffer_new_ok: "buffer_ok (body_buffer_new limit)"
  by (simp add: buffer_ok_def body_buffer_new_def)

lemma drop_zeros: "sanitizer_ok san \<Longrightarrow> buffer_ok b \<Longrightarrow> list_all zeros (body_buffer_drop san b)"
  by (simp add: body_buffer_drop_def wipe_allocation_def buffer_ok_def sanitizer_ok_def)

lemma encode_body_spec:
  assumes "sanitizer_ok san"
  shows "case encode_bounded_json_body san (fragments, finishes) (body_buffer_new limit) of
    (Inr b, released) \<Rightarrow> released = [] \<and> buffer_ok b \<and> bb_bytes b = concat fragments \<and>
      length (concat fragments) \<le> limit
  | (Inl e, released) \<Rightarrow> list_all zeros released \<and>
      Inl e = encode_bounded_json (fragments, finishes) limit"
proof -
  have "\<exists>w'. to_writer (body_try_extend san) (fragments, finishes) (body_buffer_new limit) =
      (length (concat fragments) \<le> limit \<and> finishes, w') \<and> buffer_ok w' \<and>
      (bb_exceeded w' \<longleftrightarrow> limit < length (concat fragments)) \<and>
      (length (concat fragments) \<le> limit \<longrightarrow> bb_bytes w' = concat fragments)"
    using bounded_writer.to_writer_spec [OF body_writer_bounded [OF assms], of "body_buffer_new limit"]
      buffer_new_ok
    by (simp add: body_buffer_new_def bb_bytes_def)
  then obtain w' where w': "to_writer (body_try_extend san) (fragments, finishes)
      (body_buffer_new limit) = (length (concat fragments) \<le> limit \<and> finishes, w')" "buffer_ok w'"
    "bb_exceeded w' \<longleftrightarrow> limit < length (concat fragments)"
    "length (concat fragments) \<le> limit \<longrightarrow> bb_bytes w' = concat fragments" by blast
  then show ?thesis
    using drop_zeros [OF assms w'(2)]
    by (cases "length (concat fragments) \<le> limit \<and> finishes")
      (auto simp: encode_bounded_json_body_def encode_failure_def encode_bounded_json_eq
        simp del: to_writer.simps)
qed

text \<open>Everything a buffer can go through before it is dropped: any sequence of writes.\<close>

definition write_all_to :: "sanitizer \<Rightarrow> string list \<Rightarrow> body_buffer \<Rightarrow> body_buffer" where
  "write_all_to san inputs b = foldl (\<lambda>b s. snd (body_try_extend san s b)) b inputs"

lemma write_all_ok: "sanitizer_ok san \<Longrightarrow> buffer_ok b \<Longrightarrow> buffer_ok (write_all_to san inputs b)"
  by (induction inputs arbitrary: b)
    (simp_all add: write_all_to_def bounded_writer.put_good [OF body_writer_bounded])

text \<open>C15: When the wiping functions zero what they are given, every allocation a request body ever
  used, whether replaced while the body grew or dropped at its end, holds only zero bytes when it
  is given back, whatever was written in between and whether or not a write failed.\<close>

theorem request_body_allocations_wiped:
  assumes "sanitizer_ok san"
  shows "list_all (list_all (\<lambda>c. c = CHR 0x00))
      (body_buffer_drop san (write_all_to san inputs (body_buffer_new limit))) \<and>
    length (bb_bytes (write_all_to san inputs (body_buffer_new limit))) \<le> limit"
proof -
  let ?b = "write_all_to san inputs (body_buffer_new limit)"
  have ok: "buffer_ok ?b" using assms buffer_new_ok by (rule write_all_ok)
  have "bb_limit (write_all_to san inputs b) = bb_limit b" if "buffer_ok b" for b
    using that
  proof (induction inputs arbitrary: b)
    case (Cons s inputs)
    from Cons.prems have "bb_limit (snd (body_try_extend san s b)) = bb_limit b"
      by (auto simp: body_try_extend_def vec_extend_def grow_allocation_def Let_def)
    with Cons show ?case
      by (simp add: write_all_to_def bounded_writer.put_good [OF body_writer_bounded [OF assms]])
  qed (simp add: write_all_to_def)
  from this [OF buffer_new_ok] have "bb_limit ?b = limit" by (simp add: body_buffer_new_def)
  with ok drop_zeros [OF assms ok] show ?thesis
    by (simp add: length_bb_bytes zeros_def [abs_def] list_all_iff) (simp add: buffer_ok_def)
qed

theorem request_body_allocations_wiped_witness:
  "bb_bytes (write_all_to zeroing [''secret'', '' token''] (body_buffer_new 64)) = ''secret token'' \<and>
   list_all (list_all (\<lambda>c. c = CHR 0x00))
     (body_buffer_drop zeroing (write_all_to zeroing [''secret'', '' token''] (body_buffer_new 64))) \<and>
   length (body_buffer_drop zeroing (write_all_to zeroing [''secret'', '' token''] (body_buffer_new 64))) = 3"
  using request_body_allocations_wiped [OF zeroing_ok, of "[''secret'', '' token'']" 64]
  by (simp add: write_all_to_def body_try_extend_def body_buffer_new_def Let_def grow_allocation_def
      vec_extend_def bb_bytes_def wipe_allocation_def zeroing_def body_buffer_drop_def)

section \<open>Reading a response\<close>

lemma read_chunks_iff:
  "length acc \<le> limit \<Longrightarrow> read_chunks limit acc chunks = Inr body \<longleftrightarrow>
   (\<exists>cs. chunks = map Inr cs \<and> body = acc @ concat cs \<and> length body \<le> limit)"
proof (induction limit acc chunks rule: read_chunks.induct)
  case (1 limit acc)
  then show ?case by auto
next
  case (2 limit acc e chunks)
  then show ?case by (auto simp: Cons_eq_map_conv)
next
  case (3 limit acc chunk chunks)
  show ?case
  proof (cases "limit < length acc + length chunk")
    case True
    then show ?thesis by (auto simp: Cons_eq_map_conv)
  next
    case False
    then show ?thesis using 3 by (auto simp: Cons_eq_map_conv)
  qed
qed

text \<open>A response is read exactly when no length above the limit was announced, every chunk
  arrives, and the chunks together stay within the limit; the result is then their
  concatenation, so no answer larger than the limit is ever kept.\<close>

theorem read_response_bytes_iff:
  "read_response_bytes r limit = Inr body \<longleftrightarrow>
   (case rs_content_length r of Some n \<Rightarrow> n \<le> limit | None \<Rightarrow> True) \<and>
   (\<exists>cs. rs_chunks r = map Inr cs \<and> body = concat cs \<and> length body \<le> limit)"
  using read_chunks_iff [of "[]" limit "rs_chunks r" body]
  by (auto simp: read_response_bytes_def split: option.splits)

lemma read_public_api_errors_bounded:
  "list_all (\<lambda>m. length m \<le> MAX_API_ERROR_BYTES) (read_public_api_errors to_str errors_from_json r limit)"
  by (auto simp: read_public_api_errors_def list_all_iff sanitize_api_error_length split: sum.splits)

section \<open>The declared length\<close>

definition inner_ok :: "inner_poll list \<Rightarrow> bool" where
  "inner_ok inner \<longleftrightarrow> list_all (\<lambda>p. case p of InnerPending \<Rightarrow> True | InnerChunk c \<Rightarrow> c \<noteq> []
     | InnerFailed \<Rightarrow> False) inner"

fun inner_bytes :: "inner_poll list \<Rightarrow> nat" where
  "inner_bytes [] = 0"
| "inner_bytes (InnerChunk c # ps) = length c + inner_bytes ps"
| "inner_bytes (_ # ps) = inner_bytes ps"

fun polled_bytes :: "stream_poll list \<Rightarrow> nat" where
  "polled_bytes [] = 0"
| "polled_bytes (PollChunk c # ps) = length c + polled_bytes ps"
| "polled_bytes (_ # ps) = polled_bytes ps"

definition streaming :: "stream_poll \<Rightarrow> bool" where
  "streaming p \<longleftrightarrow> (case p of PollPending \<Rightarrow> True | PollChunk c \<Rightarrow> c \<noteq> [] | _ \<Rightarrow> False)"

definition chunks_fit :: "inner_poll list \<Rightarrow> bool" where
  "chunks_fit inner \<longleftrightarrow>
     list_all (\<lambda>p. case p of InnerChunk c \<Rightarrow> length c < 2 ^ 64 | _ \<Rightarrow> True) inner"

lemma drain_terminal: "es_terminal s \<Longrightarrow> stream_drain s = [PollEnd]"
  by (simp add: stream_drain.simps [of s] stream_poll_next_def)

lemma drain_error:
  "stream_poll_next s = (PollError m, s') \<Longrightarrow> es_terminal s' \<Longrightarrow>
   stream_drain s = [PollError m, PollEnd]"
  by (simp add: stream_drain.simps [of s] drain_terminal)

lemma unat_len_u64: "length c < 2 ^ 64 \<Longrightarrow> unat (len_u64 c) = length c"
  by (simp add: len_u64_def unat_of_nat)

definition drained :: "inner_poll list \<Rightarrow> nat \<Rightarrow> stream_poll list \<Rightarrow> bool" where
  "drained inner n polls \<longleftrightarrow> (\<exists>pre post. polls = pre @ post \<and> list_all streaming pre \<and>
     (if inner_ok inner \<and> inner_bytes inner = n then post = [PollEnd] \<and> polled_bytes pre = n
      else (\<exists>m. post = [PollError m, PollEnd]) \<and> polled_bytes pre \<le> n))"

lemma drained_error:
  "\<not> (inner_ok inner \<and> inner_bytes inner = n) \<Longrightarrow> drained inner n [PollError m, PollEnd]"
  unfolding drained_def by (intro exI [of _ "[]"] exI [of _ "[PollError m, PollEnd]"]) auto

lemma drained_chunk:
  assumes "drained inner n polls" "c \<noteq> []"
  shows "drained (InnerChunk c # inner) (length c + n) (PollChunk c # polls)"
proof -
  have same: "inner_ok (InnerChunk c # inner) \<and> inner_bytes (InnerChunk c # inner) = length c + n \<longleftrightarrow>
      inner_ok inner \<and> inner_bytes inner = n"
    using assms(2) by (simp add: inner_ok_def)
  from assms(1) obtain pre post where "polls = pre @ post" "list_all streaming pre"
    "if inner_ok inner \<and> inner_bytes inner = n then post = [PollEnd] \<and> polled_bytes pre = n
      else (\<exists>m. post = [PollError m, PollEnd]) \<and> polled_bytes pre \<le> n"
    unfolding drained_def by blast
  then show ?thesis
    unfolding drained_def same using assms(2)
    by (intro exI [of _ "PollChunk c # pre"] exI [of _ post]) (auto simp: streaming_def)
qed

lemma drained_pending: "drained inner n polls \<Longrightarrow> drained (InnerPending # inner) n (PollPending # polls)"
proof -
  assume "drained inner n polls"
  then obtain pre post where "polls = pre @ post" "list_all streaming pre"
    "if inner_ok inner \<and> inner_bytes inner = n then post = [PollEnd] \<and> polled_bytes pre = n
      else (\<exists>m. post = [PollError m, PollEnd]) \<and> polled_bytes pre \<le> n"
    unfolding drained_def by blast
  then show ?thesis
    unfolding drained_def
    by (intro exI [of _ "PollPending # pre"] exI [of _ post]) (auto simp: streaming_def inner_ok_def)
qed

lemma drain_chunk:
  assumes "c \<noteq> []" "length c \<le> unat n" "length c < 2 ^ 64"
  shows "stream_drain \<lparr>es_inner = InnerChunk c # inner, es_remaining = n, es_terminal = False\<rparr> =
    PollChunk c # stream_drain \<lparr>es_inner = inner, es_remaining = n - len_u64 c, es_terminal = False\<rparr> \<and>
    unat (n - len_u64 c) = unat n - length c"
  using assms unat_len_u64 [OF assms(3)]
  by (simp add: stream_drain.simps [of "\<lparr>es_inner = InnerChunk c # _, es_remaining = _, es_terminal = _\<rparr>"]
      stream_poll_next_def Let_def word_less_nat_alt unat_sub word_le_nat_alt)

lemma drain_drained:
  "chunks_fit inner \<Longrightarrow>
   drained inner (unat n) (stream_drain \<lparr>es_inner = inner, es_remaining = n, es_terminal = False\<rparr>)"
proof (induction inner arbitrary: n)
  case Nil
  show ?case
  proof (cases "n = 0")
    case True
    then show ?thesis
      by (simp add: drained_def stream_drain.simps stream_poll_next_def inner_ok_def)
  next
    case False
    then have "\<not> (inner_ok [] \<and> inner_bytes [] = unat n)" by (simp add: word_unat_eq_iff)
    from drained_error [OF this] show ?thesis using False
      by (simp add: drain_error stream_poll_next_def)
  qed
next
  case (Cons p inner)
  let ?s = "\<lparr>es_inner = p # inner, es_remaining = n, es_terminal = False\<rparr>"
  have fit: "chunks_fit inner" using Cons.prems by (simp add: chunks_fit_def)
  show ?case
  proof (cases p)
    case InnerPending
    then have "stream_drain ?s =
        PollPending # stream_drain \<lparr>es_inner = inner, es_remaining = n, es_terminal = False\<rparr>"
      by (subst stream_drain.simps) (simp add: stream_poll_next_def)
    with drained_pending [OF Cons.IH [OF fit, of n]] InnerPending show ?thesis by simp
  next
    case InnerFailed
    then have "\<not> (inner_ok (p # inner) \<and> inner_bytes (p # inner) = unat n)"
      by (simp add: inner_ok_def)
    from drained_error [OF this] InnerFailed show ?thesis
      by (simp add: drain_error stream_poll_next_def)
  next
    case (InnerChunk c)
    have len: "length c < 2 ^ 64" using Cons.prems InnerChunk by (simp add: chunks_fit_def)
    show ?thesis
    proof (cases "c \<noteq> [] \<and> length c \<le> unat n")
      case True
      with drain_chunk [of c n inner] len
      have "stream_drain ?s = PollChunk c #
          stream_drain \<lparr>es_inner = inner, es_remaining = n - len_u64 c, es_terminal = False\<rparr>"
        and "unat (n - len_u64 c) = unat n - length c" by (simp_all add: InnerChunk)
      with drained_chunk [OF Cons.IH [OF fit, of "n - len_u64 c"], of c] True InnerChunk
      show ?thesis by simp
    next
      case False
      have "\<not> (inner_ok (p # inner) \<and> inner_bytes (p # inner) = unat n)"
        using False InnerChunk by (auto simp: inner_ok_def)
      note err = drained_error [OF this]
      have "c = [] \<or> c \<noteq> [] \<and> n < len_u64 c"
        using False unat_len_u64 [OF len] by (auto simp: word_less_nat_alt)
      then show ?thesis
        using err InnerChunk by (auto simp: drain_error stream_poll_next_def)
    qed
  qed
qed

text \<open>C23: A streamed upload with a declared length ends cleanly exactly when the source yields
  non-empty chunks without a failure and their bytes add up to the declared length; otherwise
  the body ends with one error and never carries more than the declared bytes before it.\<close>

theorem exact_length_stream_spec:
  assumes "chunks_fit inner"
  shows "\<exists>pre post. stream_drain (exact_stream_new inner n) = pre @ post \<and>
    list_all streaming pre \<and>
    (if inner_ok inner \<and> inner_bytes inner = unat n
     then post = [PollEnd] \<and> polled_bytes pre = unat n
     else (\<exists>m. post = [PollError m, PollEnd]) \<and> polled_bytes pre \<le> unat n)"
  using drain_drained [OF assms, of n] by (simp add: drained_def exact_stream_new_def)

theorem exact_length_stream_witness:
  "\<exists>pre m. stream_drain (exact_stream_new [InnerChunk ''ab'', InnerChunk ''cd''] 3) =
     pre @ [PollError m, PollEnd] \<and> polled_bytes pre \<le> 3"
proof -
  have "chunks_fit [InnerChunk ''ab'', InnerChunk ''cd'']" by (simp add: chunks_fit_def)
  from exact_length_stream_spec [OF this, of 3] show ?thesis by auto
qed

section \<open>Redaction\<close>

text \<open>A span never shows anything of a path after its third segment.\<close>

lemma span_safe_path_redacts:
  assumes "CHR ''/'' \<notin> set version" "version \<noteq> []" "CHR ''/'' \<notin> set mount" "CHR ''/'' \<notin> set operation"
  shows "span_safe_path (''/'' @ version @ ''/'' @ mount @ ''/'' @ operation @ ''/'' @ secret) =
    ''/'' @ version @ ''/'' @ mount @ ''/'' @ operation @ ''/<redacted>''"
proof -
  obtain v vs where v: "version = v # vs" using assms(2) by (cases version) auto
  with assms(1) have "dropWhile (\<lambda>c. c = CHR ''/'') (''/'' @ version @ ''/'' @ mount @ ''/'' @ operation @ ''/'' @ secret) =
      version @ ''/'' @ mount @ ''/'' @ operation @ ''/'' @ secret" by auto
  moreover have "split_on CHR ''/'' (version @ ''/'' @ mount @ ''/'' @ operation @ ''/'' @ secret) =
      version # mount # operation # split_on CHR ''/'' secret"
    using assms by (simp add: split_on_append_sep)
  ultimately show ?thesis
    by (cases "split_on CHR ''/'' secret") (simp_all add: span_safe_path_def)
qed

end
