(* ===== verification/Bao_Transport.thy ===== *)
theory Bao_Transport
  imports Bao_Bodies Bao_Dispatch
begin

text \<open>
  The transport of \<open>client.rs\<close>: authentication tokens and their headers, the URL of a request,
  and the functions that build and send one. An operation yields its result together with the
  requests it has sent and the client each went through, so that what leaves the process can be
  stated. The HTTP and URL crates and the network are the record \<open>http_env\<close>.
\<close>

section \<open>Requests\<close>

record header_value =
  hv_text :: string
  hv_sensitive :: bool

type_synonym header_list = "(string \<times> header_value) list"

definition from_static :: "string \<Rightarrow> header_value" where
  "from_static s = \<lparr>hv_text = s, hv_sensitive = False\<rparr>"

text \<open>\<open>HeaderMap::insert\<close> replaces what the name had.\<close>

definition insert_headers :: "header_list \<Rightarrow> (string \<rightharpoonup> header_value) \<Rightarrow> (string \<rightharpoonup> header_value)" where
  "insert_headers hs m = foldl (\<lambda>m (name, value). m(name \<mapsto> value)) m hs"

datatype request_body = BodyBytes body_buffer | BodyStream exact_stream

record http_request =
  rq_method :: string
  rq_url :: url
  rq_headers :: "string \<rightharpoonup> header_value"
  rq_body :: "request_body option"

definition request_new :: "string \<Rightarrow> url \<Rightarrow> http_request" where
  "request_new m u = \<lparr>rq_method = m, rq_url = u, rq_headers = Map.empty, rq_body = None\<rparr>"

definition set_header :: "string \<Rightarrow> header_value \<Rightarrow> http_request \<Rightarrow> http_request" where
  "set_header name value rq = rq\<lparr>rq_headers := (rq_headers rq)(name \<mapsto> value)\<rparr>"

text \<open>
  \<open>header_text_of\<close> is \<open>HeaderValue::from_str\<close> with its error text, \<open>header_to_str\<close> its inverse,
  \<open>percent\<close> and \<open>form_pair\<close> the encodings of the URL crate, \<open>form_bytes\<close> its byte serialiser,
  \<open>cannot_be_base\<close> its test of a URL without a path, \<open>send\<close> the network with the errors of reqwest
  already classified, \<open>lock_memory\<close> the locked string of the memory-lock feature,
  \<open>ensured\<close> the outcome of \<open>ensure_compatibility\<close>, and \<open>ops\<close> the generated operation table.
\<close>

record http_env =
  features_of :: features
  header_text_of :: "string \<Rightarrow> string + string"
  header_to_str :: header_text
  percent :: "string \<Rightarrow> string"
  form_pair :: "string \<Rightarrow> string"
  form_bytes :: "string \<Rightarrow> string list"
  cannot_be_base :: "url \<Rightarrow> bool"
  send :: "http_settings \<Rightarrow> http_request \<Rightarrow> response res"
  lock_memory :: "string \<Rightarrow> client_token option"
  san :: sanitizer
  ensured :: "compatibility_report res"
  ops :: "operation list"
  errors_from_json :: "string \<Rightarrow> string list option"

text \<open>An operation: its result and the requests sent, first to last.\<close>

type_synonym 'a sent = "'a res \<times> (http_settings \<times> http_request) list"

fun sbind :: "'a sent \<Rightarrow> ('a \<Rightarrow> 'b sent) \<Rightarrow> 'b sent" where
  "sbind (Inl e, log) f = (Inl e, log)"
| "sbind (Inr x, log) f = (case f x of (r, later) \<Rightarrow> (r, log @ later))"

definition pure :: "'a res \<Rightarrow> 'a sent" where
  "pure r = (r, [])"

definition execute_openbao_http_request ::
  "http_env \<Rightarrow> http_settings \<Rightarrow> http_request \<Rightarrow> response sent" where
  "execute_openbao_http_request env http outgoing = (send env http outgoing, [(http, outgoing)])"

section \<open>Tokens\<close>

definition sensitive_header_value :: "http_env \<Rightarrow> string \<Rightarrow> header_value res" where
  "sensitive_header_value env value =
     rmap (\<lambda>t. \<lparr>hv_text = t, hv_sensitive = True\<rparr>) (rmap_err InvalidHeader (header_text_of env value))"

definition token_header_for_value ::
  "http_env \<Rightarrow> string \<Rightarrow> header_mode \<Rightarrow> nat \<Rightarrow> (string \<times> header_value) res" where
  "token_header_for_value env token_value mode max_bytes =
     (if max_bytes < length token_value
      then Inl (InvalidHeader ''authentication token exceeds configured maximum length'')
      else
        (let trimmed = trim token_value in
         if trimmed = [] then Inl (InvalidHeader ''authentication token must not be empty'')
         else if length trimmed \<noteq> length token_value
         then Inl (InvalidHeader
           ''authentication token must not contain leading or trailing whitespace'')
         else case mode of
           VaultToken \<Rightarrow> rmap (Pair ''x-vault-token'') (sensitive_header_value env token_value)
         | Bearer \<Rightarrow>
             (if 2 ^ 64 \<le> length ''Bearer '' + length token_value
              then Inl (InvalidHeader ''authentication token length overflow'')
              else rmap (Pair ''authorization'')
                (rmap_err (\<lambda>_. InvalidHeader ''token must be valid for Authorization header use'')
                  (sensitive_header_value env (''Bearer '' @ token_value))))))"

definition validate_token_value_for_header ::
  "http_env \<Rightarrow> string \<Rightarrow> header_mode \<Rightarrow> nat \<Rightarrow> unit res" where
  "validate_token_value_for_header env token_value mode max_bytes =
     rmap (\<lambda>_. ()) (token_header_for_value env token_value mode max_bytes)"

definition token_from_secret_string :: "http_env \<Rightarrow> string \<Rightarrow> client_token res" where
  "token_from_secret_string env token =
     (if memory_lock (features_of env)
      then ok_or (lock_memory env token)
        (SecretMemoryProtection ''required token memory protection could not be established'')
      else Inr \<lparr>ct_value = token, ct_locked = False, ct_poisoned = False, ct_intact = True\<rparr>)"

definition token_from_locked :: "client_token \<Rightarrow> client_token res" where
  "token_from_locked token =
     (if \<not> ct_locked token
      then Inl (SecretMemoryProtection
        ''authentication token is not protected by an operating-system memory lock'')
      else Inr token)"

definition try_with_secret :: "http_env \<Rightarrow> client_token \<Rightarrow> (string \<Rightarrow> 'a) \<Rightarrow> 'a res" where
  "try_with_secret env token inspect =
     (if memory_lock (features_of env) \<and> ct_poisoned token
      then Inl (SecretMemoryProtection ''authentication token lock was poisoned'')
      else if memory_lock (features_of env) \<and> \<not> ct_intact token
      then Inl (SecretMemoryProtection
        ''authentication token integrity verification failed'')
      else Inr (inspect (ct_value token)))"

definition token_header_for ::
  "http_env \<Rightarrow> client_token \<Rightarrow> header_mode \<Rightarrow> nat \<Rightarrow> (string \<times> header_value) res" where
  "token_header_for env token mode max_bytes =
     rbind (try_with_secret env token (\<lambda>v. token_header_for_value env v mode max_bytes)) (\<lambda>r. r)"

definition with_validated_token :: "client \<Rightarrow> client_token \<Rightarrow> client" where
  "with_validated_token cl token = cl\<lparr>cl_token := Some token\<rparr>"

definition try_with_token :: "http_env \<Rightarrow> client \<Rightarrow> string \<Rightarrow> client res" where
  "try_with_token env cl token =
     rbind (validate_token_value_for_header env token (header_mode (cl_config cl))
         (max_auth_token_bytes (cl_config cl))) (\<lambda>_.
     rbind (token_from_secret_string env token) (\<lambda>t. Inr (with_validated_token cl t)))"

text \<open>A token the caller has already locked; its own integrity check comes before the header's.\<close>

definition try_with_locked_token :: "http_env \<Rightarrow> client \<Rightarrow> client_token \<Rightarrow> client res" where
  "try_with_locked_token env cl token =
     (if \<not> ct_locked token
      then Inl (SecretMemoryProtection
        ''authentication token is not protected by an operating-system memory lock'')
      else if \<not> ct_intact token
      then Inl (SecretMemoryProtection ''authentication token integrity verification failed'')
      else rbind (validate_token_value_for_header env (ct_value token)
          (header_mode (cl_config cl)) (max_auth_token_bytes (cl_config cl))) (\<lambda>_.
        rbind (token_from_locked token) (\<lambda>t. Inr (with_validated_token cl t))))"

section \<open>URLs\<close>

definition is_cleartext_url :: "url \<Rightarrow> bool" where
  "is_cleartext_url u \<longleftrightarrow> url_scheme u \<noteq> ''https''"

definition require_encrypted_transport_for_sensitive_request :: "url \<Rightarrow> unit res" where
  "require_encrypted_transport_for_sensitive_request u =
     (if is_cleartext_url u
      then Inl (InvalidBaseUrl
        ''refusing to send credentials or request bodies over plain HTTP'')
      else Inr ())"

text \<open>Clearing the segments and pushing \<open>v1\<close> and the validated ones, each percent-encoded; \<open>push\<close>
  would skip a dot segment, which validation excludes.\<close>

definition url_for_path :: "http_env \<Rightarrow> client \<Rightarrow> string \<Rightarrow> url res" where
  "url_for_path env cl path =
     (if cannot_be_base env (base_url (cl_config cl))
      then Inl (InvalidBaseUrl ''base URL cannot be a cannot-be-a-base URL'')
      else rbind (validate_endpoint_path path) (\<lambda>segments.
        Inr ((base_url (cl_config cl))
          \<lparr>url_path := concat (map (\<lambda>s. CHR ''/'' # percent env s) (''v1'' # segments))\<rparr>)))"

text \<open>\<open>query_pairs_mut().append_pair\<close>.\<close>

fun append_pairs :: "http_env \<Rightarrow> (string \<times> string) list \<Rightarrow> url \<Rightarrow> url" where
  "append_pairs env [] u = u"
| "append_pairs env ((k, v) # q) u =
     append_pairs env q (u\<lparr>url_query := Some
       ((case url_query u of None \<Rightarrow> [] | Some old \<Rightarrow> if old = [] then [] else old @ ''&'') @
        form_pair env k @ ''='' @ form_pair env v)\<rparr>)"

section \<open>Sending\<close>

definition http_for_sensitive_request :: "client \<Rightarrow> http_settings" where
  "http_for_sensitive_request cl = cl_sensitive_http cl"

definition sanitizing_body_buffer :: "client \<Rightarrow> body_buffer" where
  "sanitizing_body_buffer cl = body_buffer_new (max_request_bytes (cl_config cl))"

definition send_non_sensitive_json_request ::
  "http_env \<Rightarrow> client \<Rightarrow> string \<Rightarrow> url \<Rightarrow> response sent" where
  "send_non_sensitive_json_request env cl m u =
     execute_openbao_http_request env (cl_http cl)
       (set_header ''x-vault-request'' (from_static ''true'')
         (set_header ''accept'' (from_static ''application/json'') (request_new m u)))"

text \<open>The namespace and token headers, in the order in which all senders add them.\<close>

definition identity_headers :: "http_env \<Rightarrow> client \<Rightarrow> http_request \<Rightarrow> http_request res" where
  "identity_headers env cl rq =
     rbind (case namespace (cl_config cl) of
         None \<Rightarrow> Inr rq
       | Some ns \<Rightarrow> rmap (\<lambda>v. set_header ''x-vault-namespace'' v rq) (sensitive_header_value env ns))
       (\<lambda>rq1.
     case cl_token cl of
       None \<Rightarrow> Inr rq1
     | Some token \<Rightarrow>
         rmap (\<lambda>(name, value). set_header name value rq1)
           (token_header_for env token (header_mode (cl_config cl))
             (max_auth_token_bytes (cl_config cl))))"

definition send_sensitive_json_request ::
  "http_env \<Rightarrow> client \<Rightarrow> string \<Rightarrow> url \<Rightarrow> header_list \<Rightarrow> payload option \<Rightarrow> response sent" where
  "send_sensitive_json_request env cl m u headers body =
     sbind (pure (require_encrypted_transport_for_sensitive_request u)) (\<lambda>_.
       let rq0 = set_header ''x-vault-request'' (from_static ''true'')
             (set_header ''accept'' (from_static ''application/json'') (request_new m u));
           rq1 = rq0\<lparr>rq_headers := insert_headers headers (rq_headers rq0)\<rparr>
       in
       sbind (pure (identity_headers env cl rq1)) (\<lambda>rq2.
       sbind (case body of
           None \<Rightarrow> pure (Inr rq2)
         | Some payload \<Rightarrow>
             sbind (pure (fst (encode_bounded_json_body (san env) payload (sanitizing_body_buffer cl))))
               (\<lambda>encoded.
                 let rq3 = (if list_ex (\<lambda>(name, _). name = ''content-type'') headers then rq2
                   else set_header ''content-type'' (from_static ''application/json'') rq2)
                 in pure (Inr (rq3\<lparr>rq_body := Some (BodyBytes encoded)\<rparr>))))
         (\<lambda>rq. execute_openbao_http_request env (http_for_sensitive_request cl) rq)))"

definition send_sensitive_bytes_request ::
  "http_env \<Rightarrow> client \<Rightarrow> string \<Rightarrow> url \<Rightarrow> header_list \<Rightarrow> string option \<Rightarrow> response sent" where
  "send_sensitive_bytes_request env cl m u headers body =
     sbind (pure (require_encrypted_transport_for_sensitive_request u)) (\<lambda>_.
       let rq0 = request_new m u;
           rq1 = set_header ''x-vault-request'' (from_static ''true'')
             (rq0\<lparr>rq_headers := insert_headers headers (rq_headers rq0)\<rparr>)
       in
       sbind (pure (identity_headers env cl rq1)) (\<lambda>rq2.
       sbind (case body of
           None \<Rightarrow> pure (Inr rq2)
         | Some bytes \<Rightarrow>
             if max_request_bytes (cl_config cl) < length bytes
             then pure (Inl request_body_too_large)
             else
               (let rq3 = (if rq_headers rq2 ''content-type'' \<noteq> None then rq2
                  else set_header ''content-type'' (from_static ''application/octet-stream'') rq2)
                in case body_try_extend (san env) bytes (sanitizing_body_buffer cl) of
                     (Inl e, _) \<Rightarrow> pure (Inl e)
                   | (Inr _, b) \<Rightarrow> pure (Inr (rq3\<lparr>rq_body := Some (BodyBytes b)\<rparr>))))
         (\<lambda>rq. execute_openbao_http_request env (http_for_sensitive_request cl) rq)))"

text \<open>The caller has checked the transport and built the body.\<close>

definition send_sensitive_prevalidated_body_request ::
  "http_env \<Rightarrow> client \<Rightarrow> string \<Rightarrow> url \<Rightarrow> header_list \<Rightarrow> request_body \<Rightarrow> response sent" where
  "send_sensitive_prevalidated_body_request env cl m u headers body =
     (let rq0 = request_new m u;
          rq1 = set_header ''x-vault-request'' (from_static ''true'')
            (rq0\<lparr>rq_headers := insert_headers headers (rq_headers rq0)\<rparr>)
      in
      sbind (pure (identity_headers env cl rq1)) (\<lambda>rq2.
        execute_openbao_http_request env (http_for_sensitive_request cl)
          (rq2\<lparr>rq_body := Some body\<rparr>)))"

section \<open>Which tokens make a header\<close>

lemma sensitive_header_value_iff:
  "sensitive_header_value env t = Inr v \<longleftrightarrow>
     (\<exists>text. header_text_of env t = Inr text \<and> v = \<lparr>hv_text = text, hv_sensitive = True\<rparr>)"
  by (auto simp: sensitive_header_value_def rmap_Inr_iff)

lemma trim_full: "length (trim t) = length t \<longleftrightarrow> trim t = t"
  using trim_length_eq [of t] by auto

text \<open>A token yields an authentication header exactly when it is within the configured length, not
  empty, free of surrounding white space and a legal header text; the header is the one of the
  configured mode and is marked sensitive, so that it is never logged.\<close>

theorem token_header_for_value_iff:
  "token_header_for_value env t mode max_bytes = Inr (name, v) \<longleftrightarrow>
     length t \<le> max_bytes \<and> t \<noteq> [] \<and> trim t = t \<and> hv_sensitive v \<and>
     (if mode = VaultToken
      then name = ''x-vault-token'' \<and> header_text_of env t = Inr (hv_text v)
      else name = ''authorization'' \<and> length t + 7 < 2 ^ 64 \<and>
        header_text_of env (''Bearer '' @ t) = Inr (hv_text v))"
proof -
  have v: "v = \<lparr>hv_text = x, hv_sensitive = True\<rparr> \<longleftrightarrow> hv_sensitive v \<and> hv_text v = x" for x
    by (cases v) auto
  have guard: "\<not> (max_bytes < length t \<or> trim t = [] \<or> length (trim t) \<noteq> length t) \<longleftrightarrow>
      length t \<le> max_bytes \<and> t \<noteq> [] \<and> trim t = t"
    by (auto simp: trim_full)
  show ?thesis
  proof (cases "length t \<le> max_bytes \<and> t \<noteq> [] \<and> trim t = t")
    case True
    then show ?thesis
      by (cases mode) (auto simp: token_header_for_value_def rmap_Inr_iff sensitive_header_value_iff v)
  next
    case False
    then have "\<exists>e. token_header_for_value env t mode max_bytes = Inl e"
      unfolding guard [symmetric] by (auto simp: token_header_for_value_def Let_def)
    with False show ?thesis by auto
  qed
qed

lemma token_header_for_iff:
  "token_header_for env token mode n = Inr r \<longleftrightarrow>
     (memory_lock (features_of env) \<longrightarrow> \<not> ct_poisoned token \<and> ct_intact token) \<and>
     token_header_for_value env (ct_value token) mode n = Inr r"
  by (auto simp: token_header_for_def try_with_secret_def)

text \<open>A client that accepted a token can always build its header later.\<close>

lemma try_with_token_usable:
  assumes "try_with_token env cl t = Inr cl'" "\<not> memory_lock (features_of env)"
  shows "\<exists>token name v. cl' = cl\<lparr>cl_token := Some token\<rparr> \<and> ct_value token = t \<and>
    token_header_for env token (header_mode (cl_config cl')) (max_auth_token_bytes (cl_config cl')) =
      Inr (name, v)"
  using assms
  by (auto simp: try_with_token_def rbind_Inr_iff validate_token_value_for_header_def rmap_Inr_iff
      token_from_secret_string_def with_validated_token_def token_header_for_iff)

section \<open>What leaves the process\<close>

lemma pure_simps [simp]: "fst (pure r) = r" "snd (pure r) = []"
  by (simp_all add: pure_def)

lemma sbind_pure: "sbind (pure r) f = (case r of Inl e \<Rightarrow> pure (Inl e) | Inr x \<Rightarrow> f x)"
  by (cases r) (auto simp: pure_def split: prod.splits)

text \<open>Only the path and the query of the base URL change.\<close>

definition same_server :: "url \<Rightarrow> url \<Rightarrow> bool" where
  "same_server base u \<longleftrightarrow> u = base\<lparr>url_path := url_path u, url_query := url_query u\<rparr>"

definition api_path :: "http_env \<Rightarrow> string \<Rightarrow> bool" where
  "api_path env p \<longleftrightarrow> (\<exists>path segs. validate_endpoint_path path = Inr segs \<and>
     p = ''/'' @ percent env ''v1'' @ concat (map (\<lambda>s. CHR ''/'' # percent env s) segs))"

definition public_request :: "client \<Rightarrow> http_settings \<times> http_request \<Rightarrow> bool" where
  "public_request cl x \<longleftrightarrow> fst x = cl_http cl \<and> rq_body (snd x) = None \<and>
     rq_headers (snd x) = [''accept'' \<mapsto> from_static ''application/json'',
       ''x-vault-request'' \<mapsto> from_static ''true''] \<and>
     url_query (rq_url (snd x)) = url_query (base_url (cl_config cl))"

definition identified :: "http_env \<Rightarrow> client \<Rightarrow> (string \<rightharpoonup> header_value) \<Rightarrow> bool" where
  "identified env cl hs \<longleftrightarrow>
     (case cl_token cl of None \<Rightarrow> True
      | Some token \<Rightarrow> \<exists>name v. token_header_for env token (header_mode (cl_config cl))
          (max_auth_token_bytes (cl_config cl)) = Inr (name, v) \<and> hs name = Some v) \<and>
     (case namespace (cl_config cl) of None \<Rightarrow> True
      | Some ns \<Rightarrow> \<exists>v. sensitive_header_value env ns = Inr v \<and> hs ''x-vault-namespace'' = Some v)"

definition bounded_body :: "nat \<Rightarrow> request_body option \<Rightarrow> bool" where
  "bounded_body n body \<longleftrightarrow>
     (case body of Some (BodyBytes b) \<Rightarrow> length (bb_bytes b) \<le> n | _ \<Rightarrow> True)"

definition sensitive_request :: "http_env \<Rightarrow> client \<Rightarrow> http_settings \<times> http_request \<Rightarrow> bool" where
  "sensitive_request env cl x \<longleftrightarrow> fst x = cl_sensitive_http cl \<and>
     url_scheme (rq_url (snd x)) = ''https'' \<and> identified env cl (rq_headers (snd x)) \<and>
     bounded_body (max_request_bytes (cl_config cl)) (rq_body (snd x))"

definition request_safe :: "http_env \<Rightarrow> client \<Rightarrow> http_settings \<times> http_request \<Rightarrow> bool" where
  "request_safe env cl x \<longleftrightarrow> same_server (base_url (cl_config cl)) (rq_url (snd x)) \<and>
     api_path env (url_path (rq_url (snd x))) \<and> (public_request cl x \<or> sensitive_request env cl x)"

definition sent_safe :: "http_env \<Rightarrow> client \<Rightarrow> 'a sent \<Rightarrow> bool" where
  "sent_safe env cl m \<longleftrightarrow> length (snd m) \<le> 1 \<and> list_all (request_safe env cl) (snd m)"

named_theorems sent_intros \<open>what an operation sends, by the way it is composed\<close>

lemma sent_safe_pure [sent_intros]: "sent_safe env cl (pure r)"
  by (simp add: sent_safe_def)

lemma sent_safe_pure_bind [sent_intros]:
  "(\<And>x. r = Inr x \<Longrightarrow> sent_safe env cl (f x)) \<Longrightarrow> sent_safe env cl (sbind (pure r) f)"
  by (cases r) (auto simp: sbind_pure sent_safe_pure)

lemma sbind_silent: "(\<And>x. snd (f x) = []) \<Longrightarrow> snd (sbind m f) = snd m"
  by (cases "(m, f)" rule: sbind.cases) (auto simp: case_prod_unfold)

lemma sent_safe_bind:
  "sent_safe env cl m \<Longrightarrow> (\<And>x. snd (f x) = []) \<Longrightarrow> sent_safe env cl (sbind m f)"
  by (simp add: sent_safe_def sbind_silent)

definition api_url :: "http_env \<Rightarrow> client \<Rightarrow> url \<Rightarrow> bool" where
  "api_url env cl u \<longleftrightarrow> same_server (base_url (cl_config cl)) u \<and> api_path env (url_path u)"

lemma url_for_path_ok:
  "url_for_path env cl path = Inr u \<Longrightarrow>
   api_url env cl u \<and> url_query u = url_query (base_url (cl_config cl))"
proof -
  assume "url_for_path env cl path = Inr u"
  then obtain segs where segs: "validate_endpoint_path path = Inr segs"
    and u: "u = (base_url (cl_config cl))\<lparr>url_path :=
      ''/'' @ percent env ''v1'' @ concat (map (\<lambda>s. CHR ''/'' # percent env s) segs)\<rparr>"
    by (auto simp: url_for_path_def rbind_Inr_iff split: if_splits)
  then have "api_path env (url_path u)" unfolding api_path_def by auto
  then show ?thesis using u by (simp add: api_url_def same_server_def)
qed

lemma append_pairs_keeps:
  "url_path (append_pairs env q u) = url_path u \<and>
   (same_server base u \<longrightarrow> same_server base (append_pairs env q u))"
proof (induction env q u rule: append_pairs.induct)
  case (2 env k v q u)
  have "same_server base (u\<lparr>url_query := x\<rparr>)" if "same_server base u" for x
  proof -
    from that obtain p r where "u = base\<lparr>url_path := p, url_query := r\<rparr>"
      unfolding same_server_def by blast
    then show ?thesis by (simp add: same_server_def)
  qed
  with 2 show ?case by simp
qed simp

lemma api_url_query: "api_url env cl u \<Longrightarrow> api_url env cl (append_pairs env q u)"
  by (simp add: api_url_def append_pairs_keeps)

lemma try_extend_bounded:
  "body_try_extend s input b = (r, b') \<Longrightarrow> bb_len b \<le> bb_limit b \<Longrightarrow>
   bb_len b' \<le> bb_limit b' \<and> bb_limit b' = bb_limit b"
  by (auto simp: body_try_extend_def Let_def vec_extend_def grow_allocation_def split: if_splits)

lemma write_fragments_bounded:
  "write_fragments (body_try_extend s) ss b = (r, b') \<Longrightarrow> bb_len b \<le> bb_limit b \<Longrightarrow>
   bb_len b' \<le> bb_limit b' \<and> bb_limit b' = bb_limit b"
proof (induction ss arbitrary: b)
  case (Cons x ss)
  obtain r1 b1 where 1: "body_try_extend s x b = (r1, b1)" by fastforce
  from try_extend_bounded [OF 1 Cons.prems(2)] show ?case
    using Cons.IH [of b] Cons.IH [of b1] Cons.prems 1
    by (cases r1) (simp_all split: if_splits)
qed simp

lemma length_bytes_le: "length (bb_bytes b) \<le> bb_len b"
  by (simp add: bb_bytes_def)

lemma encoded_body_bounded:
  assumes "fst (encode_bounded_json_body s payload (sanitizing_body_buffer cl)) = Inr b"
  shows "length (bb_bytes b) \<le> max_request_bytes (cl_config cl)"
proof -
  obtain fs fin where "payload = (fs, fin)" by (cases payload)
  then obtain ok where "write_fragments (body_try_extend s) fs (sanitizing_body_buffer cl) = (ok, b)"
    using assms by (auto simp: encode_bounded_json_body_def split: prod.splits if_splits)
  from write_fragments_bounded [OF this] show ?thesis
    using length_bytes_le [of b] by (simp add: sanitizing_body_buffer_def body_buffer_new_def)
qed

lemma extend_pieces_bounded:
  "extend_pieces s ps b = (r, b') \<Longrightarrow> bb_len b \<le> bb_limit b \<Longrightarrow>
   bb_len b' \<le> bb_limit b' \<and> bb_limit b' = bb_limit b"
proof (induction ps arbitrary: b)
  case (Cons x ps)
  obtain r1 b1 where 1: "body_try_extend s x b = (r1, b1)" by fastforce
  from try_extend_bounded [OF 1 Cons.prems(2)] show ?case
    using Cons.IH [of b1] Cons.prems 1 by (cases r1) simp_all
qed simp

lemma encode_form_bounded:
  "encode_form s fb i fs b = (r, b') \<Longrightarrow> bb_len b \<le> bb_limit b \<Longrightarrow>
   bb_len b' \<le> bb_limit b' \<and> bb_limit b' = bb_limit b"
proof (induction s fb i fs b arbitrary: b' rule: encode_form.induct)
  case (2 s fb i name v rest b)
  obtain r1 b1 where p1: "(if i \<noteq> 0 then body_try_extend s ''&'' b else (Inr (), b)) = (r1, b1)"
    by fastforce
  obtain r2 b2 where p2: "append_form_component s fb name b1 = (r2, b2)" by fastforce
  obtain r3 b3 where p3: "body_try_extend s ''='' b2 = (r3, b3)" by fastforce
  obtain r4 b4 where p4: "append_form_component s fb v b3 = (r4, b4)" by fastforce
  have l1: "bb_len b1 \<le> bb_limit b1 \<and> bb_limit b1 = bb_limit b"
    using p1 2(3) by (auto dest: try_extend_bounded split: if_splits)
  then have l2: "bb_len b2 \<le> bb_limit b2 \<and> bb_limit b2 = bb_limit b"
    using p2 by (auto simp: append_form_component_def dest: extend_pieces_bounded)
  then have l3: "bb_len b3 \<le> bb_limit b3 \<and> bb_limit b3 = bb_limit b"
    using p3 by (auto dest: try_extend_bounded)
  then have l4: "bb_len b4 \<le> bb_limit b4 \<and> bb_limit b4 = bb_limit b"
    using p4 by (auto simp: append_form_component_def dest: extend_pieces_bounded)
  have step: "(case r1 of Inl e \<Rightarrow> (Inl e, b1) | Inr _ \<Rightarrow> (case r2 of Inl e \<Rightarrow> (Inl e, b2) | Inr _ \<Rightarrow>
      (case r3 of Inl e \<Rightarrow> (Inl e, b3) | Inr _ \<Rightarrow> (case r4 of Inl e \<Rightarrow> (Inl e, b4) | Inr _ \<Rightarrow>
        encode_form s fb (i + 1) rest b4)))) = (r, b')"
    using 2(2) by (simp only: encode_form.simps p1 p2 p3 p4 prod.case)
  have "bb_len b' \<le> bb_limit b' \<and> bb_limit b' = bb_limit b4"
    if "encode_form s fb (i + 1) rest b4 = (r, b')" "r1 = Inr u1" "r2 = Inr u2" "r3 = Inr u3"
      "r4 = Inr u4" for u1 u2 u3 u4
    using 2(1) [OF p1 [symmetric] that(2) p2 [symmetric] that(3) p3 [symmetric] that(4)
        p4 [symmetric] that(5) that(1)] l4 by simp
  then show ?case
    using step l1 l2 l3 l4 by (auto split: sum.splits)
qed simp

section \<open>What the senders send\<close>

fun token_header_name :: "header_mode \<Rightarrow> string" where
  "token_header_name VaultToken = ''x-vault-token''"
| "token_header_name Bearer = ''authorization''"

lemma token_header_named:
  "token_header_for env token mode n = Inr (name, v) \<Longrightarrow> name = token_header_name mode"
  by (cases mode) (auto simp: token_header_for_iff token_header_for_value_iff)

lemma token_header_name_distinct [simp]:
  "token_header_name mode \<noteq> ''x-vault-namespace''" "token_header_name mode \<noteq> ''content-type''"
  "''x-vault-namespace'' \<noteq> token_header_name mode" "''content-type'' \<noteq> token_header_name mode"
  by (cases mode; simp)+

lemma identity_headers_ok:
  assumes "identity_headers env cl rq = Inr rq'"
  shows "identified env cl (rq_headers rq') \<and> rq_url rq' = rq_url rq \<and> rq_body rq' = rq_body rq"
proof -
  obtain rq1 where ns: "(case namespace (cl_config cl) of None \<Rightarrow> Inr rq
      | Some ns \<Rightarrow> rmap (\<lambda>v. set_header ''x-vault-namespace'' v rq) (sensitive_header_value env ns)) =
      Inr rq1"
    and tk: "(case cl_token cl of None \<Rightarrow> Inr rq1 | Some token \<Rightarrow>
         rmap (\<lambda>(name, value). set_header name value rq1)
           (token_header_for env token (header_mode (cl_config cl))
             (max_auth_token_bytes (cl_config cl)))) = Inr rq'"
    using assms by (auto simp: identity_headers_def rbind_Inr_iff)
  have 1: "case namespace (cl_config cl) of None \<Rightarrow> True
      | Some ns \<Rightarrow> \<exists>v. sensitive_header_value env ns = Inr v \<and> rq_headers rq1 ''x-vault-namespace'' = Some v"
    "rq_url rq1 = rq_url rq" "rq_body rq1 = rq_body rq"
    using ns by (cases "namespace (cl_config cl)"; auto simp: rmap_Inr_iff set_header_def)+
  show ?thesis
  proof (cases "cl_token cl")
    case None
    with tk 1 show ?thesis by (cases "namespace (cl_config cl)") (simp_all add: identified_def)
  next
    case (Some token)
    with tk obtain v where v: "token_header_for env token (header_mode (cl_config cl))
        (max_auth_token_bytes (cl_config cl)) = Inr (token_header_name (header_mode (cl_config cl)), v)"
      and rq': "rq' = set_header (token_header_name (header_mode (cl_config cl))) v rq1"
      by (auto simp: rmap_Inr_iff dest: token_header_named)
    with 1 Some show ?thesis
      by (cases "namespace (cl_config cl)") (simp_all add: identified_def set_header_def)
  qed
qed

lemma identified_content_type:
  assumes "identified env cl hs"
  shows "identified env cl (hs(''content-type'' \<mapsto> v))"
proof (cases "cl_token cl")
  case None
  with assms show ?thesis by (cases "namespace (cl_config cl)") (simp_all add: identified_def)
next
  case (Some token)
  with assms obtain name w where "token_header_for env token (header_mode (cl_config cl))
      (max_auth_token_bytes (cl_config cl)) = Inr (name, w)" "hs name = Some w"
    by (auto simp: identified_def)
  with assms Some show ?thesis
    by (cases "namespace (cl_config cl)") (auto simp: identified_def dest: token_header_named)
qed

lemma execute_safe:
  "request_safe env cl (http, rq) \<Longrightarrow> sent_safe env cl (execute_openbao_http_request env http rq)"
  by (simp add: sent_safe_def execute_openbao_http_request_def)

lemma send_non_sensitive_safe:
  "api_url env cl u \<Longrightarrow> url_query u = url_query (base_url (cl_config cl)) \<Longrightarrow>
   sent_safe env cl (send_non_sensitive_json_request env cl m u)"
  unfolding send_non_sensitive_json_request_def
  by (rule execute_safe)
    (simp add: request_safe_def api_url_def public_request_def set_header_def request_new_def)

lemma execute_sensitive_safe:
  assumes "api_url env cl (rq_url rq)" "url_scheme (rq_url rq) = ''https''"
    "identified env cl (rq_headers rq)" "bounded_body (max_request_bytes (cl_config cl)) (rq_body rq)"
  shows "sent_safe env cl (execute_openbao_http_request env (http_for_sensitive_request cl) rq)"
  using assms
  by (intro execute_safe)
    (simp add: request_safe_def api_url_def sensitive_request_def http_for_sensitive_request_def)

lemma encrypted: "require_encrypted_transport_for_sensitive_request u = Inr x \<Longrightarrow> url_scheme u = ''https''"
  by (simp add: require_encrypted_transport_for_sensitive_request_def is_cleartext_url_def
      split: if_splits)

lemma identity_of_request:
  assumes "identity_headers env cl rq = Inr rq'" "rq_url rq = u" "rq_body rq = None"
  shows "identified env cl (rq_headers rq') \<and> rq_url rq' = u \<and> rq_body rq' = None"
  using identity_headers_ok [OF assms(1)] assms(2,3) by simp

lemma new_request_fields [simp]:
  "rq_url (request_new m u) = u" "rq_body (request_new m u) = None"
  "rq_url (set_header n v rq) = rq_url rq" "rq_body (set_header n v rq) = rq_body rq"
  by (simp_all add: request_new_def set_header_def)

lemma set_content_type_identified:
  "identified env cl (rq_headers rq) \<Longrightarrow>
   identified env cl (rq_headers (set_header ''content-type'' v rq))"
  by (simp add: set_header_def identified_content_type)

lemma send_sensitive_json_safe:
  assumes "api_url env cl u"
  shows "sent_safe env cl (send_sensitive_json_request env cl m u headers body)"
  unfolding send_sensitive_json_request_def Let_def
proof (intro sent_intros)
  fix enc rq
  assume https: "require_encrypted_transport_for_sensitive_request u = Inr enc"
  assume "identity_headers env cl (set_header ''x-vault-request'' (from_static ''true'')
      (set_header ''accept'' (from_static ''application/json'') (request_new m u))
      \<lparr>rq_headers := insert_headers headers (rq_headers (set_header ''x-vault-request''
        (from_static ''true'') (set_header ''accept'' (from_static ''application/json'')
        (request_new m u))))\<rparr>) = Inr rq"
  then have rq: "identified env cl (rq_headers rq) \<and> rq_url rq = u \<and> rq_body rq = None"
    by (rule identity_of_request) simp_all
  let ?send = "execute_openbao_http_request env (http_for_sensitive_request cl)"
  show "sent_safe env cl (sbind (case body of None \<Rightarrow> pure (Inr rq)
      | Some payload \<Rightarrow> sbind (pure (fst (encode_bounded_json_body (san env) payload
          (sanitizing_body_buffer cl)))) (\<lambda>encoded.
            pure (Inr ((if list_ex (\<lambda>(name, _). name = ''content-type'') headers then rq
              else set_header ''content-type'' (from_static ''application/json'') rq)
              \<lparr>rq_body := Some (BodyBytes encoded)\<rparr>)))) ?send)"
  proof (cases body)
    case None
    have "sent_safe env cl (?send rq)"
      using rq encrypted [OF https] assms by (intro execute_sensitive_safe) (simp_all add: bounded_body_def)
    then show ?thesis by (simp add: None sbind_pure)
  next
    case (Some payload)
    have "sent_safe env cl (?send ((if list_ex (\<lambda>(name, _). name = ''content-type'') headers then rq
        else set_header ''content-type'' (from_static ''application/json'') rq)
        \<lparr>rq_body := Some (BodyBytes b)\<rparr>))"
      if "fst (encode_bounded_json_body (san env) payload (sanitizing_body_buffer cl)) = Inr b" for b
      using rq encrypted [OF https] assms encoded_body_bounded [OF that] set_content_type_identified
      by (intro execute_sensitive_safe) (auto simp: bounded_body_def)
    then show ?thesis
      by (auto simp: Some sbind_pure sent_safe_pure split: sum.splits)
  qed
qed

lemma send_sensitive_bytes_safe:
  assumes "api_url env cl u"
  shows "sent_safe env cl (send_sensitive_bytes_request env cl m u headers body)"
  unfolding send_sensitive_bytes_request_def Let_def
proof (intro sent_intros)
  fix enc rq
  assume https: "require_encrypted_transport_for_sensitive_request u = Inr enc"
  assume "identity_headers env cl (set_header ''x-vault-request'' (from_static ''true'')
      ((request_new m u)\<lparr>rq_headers := insert_headers headers (rq_headers (request_new m u))\<rparr>)) = Inr rq"
  then have rq: "identified env cl (rq_headers rq) \<and> rq_url rq = u \<and> rq_body rq = None"
    by (rule identity_of_request) simp_all
  let ?send = "execute_openbao_http_request env (http_for_sensitive_request cl)"
  let ?typed = "if rq_headers rq ''content-type'' \<noteq> None then rq
    else set_header ''content-type'' (from_static ''application/octet-stream'') rq"
  show "sent_safe env cl (sbind (case body of None \<Rightarrow> pure (Inr rq)
      | Some bytes \<Rightarrow> if max_request_bytes (cl_config cl) < length bytes
          then pure (Inl request_body_too_large)
          else (case body_try_extend (san env) bytes (sanitizing_body_buffer cl) of
             (Inl e, _) \<Rightarrow> pure (Inl e)
           | (Inr _, b) \<Rightarrow> pure (Inr (?typed\<lparr>rq_body := Some (BodyBytes b)\<rparr>)))) ?send)"
  proof (cases body)
    case None
    have "sent_safe env cl (?send rq)"
      using rq encrypted [OF https] assms by (intro execute_sensitive_safe) (simp_all add: bounded_body_def)
    then show ?thesis by (simp add: None sbind_pure)
  next
    case (Some bytes)
    obtain r b where b: "body_try_extend (san env) bytes (sanitizing_body_buffer cl) = (r, b)"
      by fastforce
    have "length (bb_bytes b) \<le> max_request_bytes (cl_config cl)"
      using try_extend_bounded [OF b] length_bytes_le [of b]
      by (simp add: sanitizing_body_buffer_def body_buffer_new_def)
    then have "sent_safe env cl (?send (?typed\<lparr>rq_body := Some (BodyBytes b)\<rparr>))"
      using rq encrypted [OF https] assms set_content_type_identified
      by (intro execute_sensitive_safe) (auto simp: bounded_body_def)
    with b show ?thesis
      by (auto simp: Some sbind_pure sent_safe_pure split: sum.splits)
  qed
qed

lemma send_prevalidated_safe:
  assumes "api_url env cl u" "url_scheme u = ''https''"
    "bounded_body (max_request_bytes (cl_config cl)) (Some body)"
  shows "sent_safe env cl (send_sensitive_prevalidated_body_request env cl m u headers body)"
  unfolding send_sensitive_prevalidated_body_request_def Let_def
proof (intro sent_intros)
  fix rq
  assume "identity_headers env cl (set_header ''x-vault-request'' (from_static ''true'')
      ((request_new m u)\<lparr>rq_headers := insert_headers headers (rq_headers (request_new m u))\<rparr>)) = Inr rq"
  then have "identified env cl (rq_headers rq) \<and> rq_url rq = u \<and> rq_body rq = None"
    by (rule identity_of_request) simp_all
  with assms show "sent_safe env cl (execute_openbao_http_request env (http_for_sensitive_request cl)
      (rq\<lparr>rq_body := Some body\<rparr>))"
    by (intro execute_sensitive_safe) simp_all
qed

end
