(* ===== verification/Bao_Requests.thy ===== *)
theory Bao_Requests
  imports Bao_Transport
begin

text \<open>
  The request operations of \<open>client.rs\<close>: the generic JSON and byte requests, the typed requests that
  first resolve a registered or specified endpoint, and the compatibility probe. Each is the
  composition of the resolver, the URL, a sender and a reader of the response.
\<close>

section \<open>Generic requests\<close>

text \<open>\<open>from_json\<close> is the deserialiser of the result type.\<close>

definition api_failure :: "status_code \<Rightarrow> error" where
  "api_failure status = Api status []"

definition with_query :: "http_env \<Rightarrow> (string \<times> string) list \<Rightarrow> url \<Rightarrow> url" where
  "with_query env query u = (if query \<noteq> [] then append_pairs env query u else u)"

definition request_bytes_headers_accepting_internal ::
  "http_env \<Rightarrow> client \<Rightarrow> string \<Rightarrow> string \<Rightarrow> (string \<times> string) list \<Rightarrow> header_list \<Rightarrow>
   string option \<Rightarrow> status_code list \<Rightarrow> string sent" where
  "request_bytes_headers_accepting_internal env cl m path query headers body accepted_statuses =
     sbind (pure (ensured env)) (\<lambda>_.
     sbind (pure (url_for_path env cl path)) (\<lambda>u.
     sbind (send_sensitive_bytes_request env cl m (with_query env query u) headers body)
       (\<lambda>response.
       if rs_status response \<notin> set accepted_statuses
       then pure (Inl (api_failure (rs_status response)))
       else
         sbind (case find (\<lambda>(name, _). name = ''accept'') headers of
             Some (_, expected) \<Rightarrow>
               pure (validate_bytes_content_type (header_to_str env) response (hv_text expected))
           | None \<Rightarrow> pure (Inr ()))
         (\<lambda>_. pure (read_response_bytes response (max_response_bytes (cl_config cl)))))))"

definition accept_header :: "string option \<Rightarrow> header_list" where
  "accept_header accept = (case accept of None \<Rightarrow> [] | Some a \<Rightarrow> [(''accept'', from_static a)])"

definition request_bytes_accepting_internal ::
  "http_env \<Rightarrow> client \<Rightarrow> string \<Rightarrow> string \<Rightarrow> (string \<times> string) list \<Rightarrow> string option \<Rightarrow>
   string option \<Rightarrow> status_code list \<Rightarrow> string sent" where
  "request_bytes_accepting_internal env cl m path query accept body accepted_statuses =
     request_bytes_headers_accepting_internal env cl m path query (accept_header accept) body
       accepted_statuses"

definition request_bytes_accepting ::
  "http_env \<Rightarrow> client \<Rightarrow> string \<Rightarrow> string \<Rightarrow> (string \<times> string) list \<Rightarrow> string option \<Rightarrow>
   string option \<Rightarrow> status_code list \<Rightarrow> string sent" where
  "request_bytes_accepting env cl m path query accept body accepted_statuses =
     sbind (pure (ensure_public_raw_api_enabled (features_of env))) (\<lambda>_.
       request_bytes_accepting_internal env cl m path query accept body accepted_statuses)"

definition request_bytes_headers_accepting ::
  "http_env \<Rightarrow> client \<Rightarrow> string \<Rightarrow> string \<Rightarrow> (string \<times> string) list \<Rightarrow> header_list \<Rightarrow>
   string option \<Rightarrow> status_code list \<Rightarrow> string sent" where
  "request_bytes_headers_accepting env cl m path query headers body accepted_statuses =
     sbind (pure (ensure_public_raw_api_enabled (features_of env))) (\<lambda>_.
       request_bytes_headers_accepting_internal env cl m path query headers body
         accepted_statuses)"

definition is_sensitive_request ::
  "client \<Rightarrow> (string \<times> string) list \<Rightarrow> header_list \<Rightarrow> payload option \<Rightarrow> bool" where
  "is_sensitive_request cl query headers body \<longleftrightarrow>
     cl_token cl \<noteq> None \<or> namespace (cl_config cl) \<noteq> None \<or> query \<noteq> [] \<or> headers \<noteq> [] \<or>
     body \<noteq> None"

definition empty_json_result :: "(string \<Rightarrow> 'a option) \<Rightarrow> 'a res" where
  "empty_json_result from_json = ok_or (from_json ''{}'') schema_error"

definition request_json_query_headers_accepting ::
  "http_env \<Rightarrow> client \<Rightarrow> (string \<Rightarrow> 'a option) \<Rightarrow> string \<Rightarrow> string \<Rightarrow> (string \<times> string) list \<Rightarrow>
   header_list \<Rightarrow> payload option \<Rightarrow> status_code list \<Rightarrow> 'a sent" where
  "request_json_query_headers_accepting env cl from_json m path query headers body
     accepted_statuses =
     sbind (pure (ensured env)) (\<lambda>_.
     sbind (pure (url_for_path env cl path)) (\<lambda>u0.
       let u = with_query env query u0;
           is_sensitive = is_sensitive_request cl query headers body
       in
       sbind (if is_sensitive then send_sensitive_json_request env cl m u headers body
              else send_non_sensitive_json_request env cl m u) (\<lambda>response.
         let status = rs_status response; limit = max_response_bytes (cl_config cl) in
         if status \<notin> set accepted_statuses
         then (if is_sensitive then pure (Inl (api_failure status))
               else pure (Inl (Api status
                 (read_public_api_errors (header_to_str env) (errors_from_json env) response
                   limit))))
         else if status = 204 then pure (empty_json_result from_json)
         else pure (read_json_response (header_to_str env) from_json response limit))))"

definition request_json_query_accepting ::
  "http_env \<Rightarrow> client \<Rightarrow> (string \<Rightarrow> 'a option) \<Rightarrow> string \<Rightarrow> string \<Rightarrow> (string \<times> string) list \<Rightarrow>
   payload option \<Rightarrow> status_code list \<Rightarrow> 'a sent" where
  "request_json_query_accepting env cl from_json m path query body accepted_statuses =
     request_json_query_headers_accepting env cl from_json m path query [] body accepted_statuses"

definition request_json_secret_query_accepting ::
  "http_env \<Rightarrow> client \<Rightarrow> (string \<Rightarrow> 'a option) \<Rightarrow> string \<Rightarrow> string \<Rightarrow> (string \<times> string) list \<Rightarrow>
   payload option \<Rightarrow> status_code list \<Rightarrow> 'a sent" where
  "request_json_secret_query_accepting env cl from_json m path query body accepted_statuses =
     request_json_query_headers_accepting env cl from_json m path query [] body accepted_statuses"

definition request_json_accepting ::
  "http_env \<Rightarrow> client \<Rightarrow> (string \<Rightarrow> 'a option) \<Rightarrow> string \<Rightarrow> string \<Rightarrow> payload option \<Rightarrow>
   status_code list \<Rightarrow> 'a sent" where
  "request_json_accepting env cl from_json m path body accepted_statuses =
     request_json_query_accepting env cl from_json m path [] body accepted_statuses"

definition request_json_internal ::
  "http_env \<Rightarrow> client \<Rightarrow> (string \<Rightarrow> 'a option) \<Rightarrow> string \<Rightarrow> string \<Rightarrow> payload option \<Rightarrow> 'a sent" where
  "request_json_internal env cl from_json m path body =
     request_json_accepting env cl from_json m path body [200, 204]"

definition request_json_public ::
  "http_env \<Rightarrow> client \<Rightarrow> (string \<Rightarrow> 'a option) \<Rightarrow> string \<Rightarrow> string \<Rightarrow> payload option \<Rightarrow> 'a sent" where
  "request_json_public env cl from_json m path body =
     sbind (pure (ensure_public_raw_api_enabled (features_of env))) (\<lambda>_.
       request_json_internal env cl from_json m path body)"

section \<open>Requests by endpoint specification\<close>

definition request_resolved_literal_endpoint_json_accepting ::
  "http_env \<Rightarrow> client \<Rightarrow> (string \<Rightarrow> 'a option) \<Rightarrow> resolved_endpoint \<Rightarrow> string \<Rightarrow> payload option \<Rightarrow>
   status_code list \<Rightarrow> 'a sent" where
  "request_resolved_literal_endpoint_json_accepting env cl from_json resolved path body
     accepted_statuses =
     sbind (pure (request_resolved_literal resolved path)) (\<lambda>(m, path').
       request_json_query_headers_accepting env cl from_json m path' [] [] body
         accepted_statuses)"

definition request_literal_endpoint_json_accepting ::
  "http_env \<Rightarrow> client \<Rightarrow> (string \<Rightarrow> 'a option) \<Rightarrow> endpoint_spec \<Rightarrow> payload option \<Rightarrow>
   status_code list \<Rightarrow> 'a sent" where
  "request_literal_endpoint_json_accepting env cl from_json endpoint body accepted_statuses =
     sbind (pure (resolve_openbao_literal_endpoint (ops env) (ensured env) endpoint))
       (\<lambda>(resolved, path). request_resolved_literal_endpoint_json_accepting env cl from_json
         resolved path body accepted_statuses)"

definition request_literal_endpoint_secret_json ::
  "http_env \<Rightarrow> client \<Rightarrow> endpoint_spec \<Rightarrow> string sent" where
  "request_literal_endpoint_secret_json env cl endpoint =
     sbind (pure (resolve_openbao_literal_endpoint (ops env) (ensured env) endpoint))
       (\<lambda>(resolved, path).
     sbind (pure (url_for_path env cl path)) (\<lambda>u.
     sbind (send_sensitive_json_request env cl (re_method resolved) u [] None) (\<lambda>response.
       if rs_status response \<noteq> 200 then pure (Inl (api_failure (rs_status response)))
       else
         sbind (pure (validate_json_content_type (header_to_str env) response)) (\<lambda>_.
           pure (read_response_bytes response
             (min (max_response_bytes (cl_config cl)) (512 * 1024)))))))"

definition request_endpoint_json_query_headers_accepting ::
  "http_env \<Rightarrow> client \<Rightarrow> (string \<Rightarrow> 'a option) \<Rightarrow> endpoint_spec \<Rightarrow> string \<Rightarrow>
   (string \<times> string) list \<Rightarrow> header_list \<Rightarrow> payload option \<Rightarrow> status_code list \<Rightarrow> 'a sent" where
  "request_endpoint_json_query_headers_accepting env cl from_json endpoint path query headers body
     accepted_statuses =
     sbind (pure (resolve_openbao_endpoint (ops env) (ensured env) endpoint path query))
       (\<lambda>resolved. request_json_query_headers_accepting env cl from_json (re_method resolved) path
         query headers body accepted_statuses)"

definition request_endpoint_bytes_headers_accepting ::
  "http_env \<Rightarrow> client \<Rightarrow> endpoint_spec \<Rightarrow> string \<Rightarrow> (string \<times> string) list \<Rightarrow> header_list \<Rightarrow>
   string option \<Rightarrow> status_code list \<Rightarrow> string sent" where
  "request_endpoint_bytes_headers_accepting env cl endpoint path query headers body
     accepted_statuses =
     sbind (pure (resolve_openbao_endpoint (ops env) (ensured env) endpoint path query))
       (\<lambda>resolved. request_bytes_headers_accepting_internal env cl (re_method resolved) path query
         headers body accepted_statuses)"

section \<open>Requests by registered route\<close>

definition resolve_route ::
  "http_env \<Rightarrow> client \<Rightarrow> string \<Rightarrow> route_binding \<Rightarrow> (string \<times> string) list \<Rightarrow>
   (resolved_endpoint \<times> string) sent" where
  "resolve_route env cl m binding query =
     pure (resolve_registered_openbao_route (ops env) (external_plugins (cl_config cl))
       (ensured env) m binding query)"

text \<open>The body the registered JSON requests share once the binding is known.\<close>

definition request_route_json ::
  "http_env \<Rightarrow> client \<Rightarrow> (string \<Rightarrow> 'a option) \<Rightarrow> string \<Rightarrow> route_binding \<Rightarrow>
   (string \<times> string) list \<Rightarrow> header_list \<Rightarrow> payload option \<Rightarrow> status_code list \<Rightarrow> 'a sent" where
  "request_route_json env cl from_json m binding query headers body accepted_statuses =
     sbind (resolve_route env cl m binding query) (\<lambda>(resolved, wire).
       request_json_query_headers_accepting env cl from_json (re_method resolved) wire query
         headers body accepted_statuses)"

definition request_registered_json_query_headers_accepting ::
  "http_env \<Rightarrow> client \<Rightarrow> (string \<Rightarrow> 'a option) \<Rightarrow> string \<Rightarrow> string \<Rightarrow> string \<Rightarrow> string \<Rightarrow>
   (string \<times> string) list \<Rightarrow> header_list \<Rightarrow> payload option \<Rightarrow> status_code list \<Rightarrow> 'a sent" where
  "request_registered_json_query_headers_accepting env cl from_json scope_prefix m registry_path
     path query headers body accepted_statuses =
     sbind (pure (binding_registered scope_prefix registry_path path)) (\<lambda>binding.
       request_route_json env cl from_json m binding query headers body accepted_statuses)"

definition request_registered_secret_json_accepting ::
  "http_env \<Rightarrow> client \<Rightarrow> string \<Rightarrow> string \<Rightarrow> string \<Rightarrow> string \<Rightarrow> (string \<times> string) list \<Rightarrow>
   payload option \<Rightarrow> status_code list \<Rightarrow> string sent" where
  "request_registered_secret_json_accepting env cl scope_prefix m registry_path path query body
     accepted_statuses =
     sbind (pure (binding_registered scope_prefix registry_path path)) (\<lambda>binding.
     sbind (resolve_route env cl m binding query) (\<lambda>(resolved, wire).
     sbind (pure (url_for_path env cl wire)) (\<lambda>u.
     sbind (send_sensitive_json_request env cl (re_method resolved) (with_query env query u) []
         body) (\<lambda>response.
       if rs_status response \<notin> set accepted_statuses
       then pure (Inl (api_failure (rs_status response)))
       else
         sbind (if rs_status response \<noteq> 204
             then pure (validate_json_content_type (header_to_str env) response)
             else pure (Inr ()))
           (\<lambda>_. pure (read_response_bytes response (max_response_bytes (cl_config cl))))))))"

definition request_registered_form_json_headers_accepting ::
  "http_env \<Rightarrow> client \<Rightarrow> (string \<Rightarrow> 'a option) \<Rightarrow> string \<Rightarrow> string \<Rightarrow> string \<Rightarrow> string \<Rightarrow>
   header_list \<Rightarrow> (string \<times> string) list \<Rightarrow> status_code list \<Rightarrow> 'a sent" where
  "request_registered_form_json_headers_accepting env cl from_json scope_prefix m registry_path path
     headers form_fields accepted_statuses =
     sbind (pure (binding_registered scope_prefix registry_path path)) (\<lambda>binding.
     sbind (resolve_route env cl m binding []) (\<lambda>(resolved, wire).
     case encode_form (san env) (form_bytes env) 0 form_fields (sanitizing_body_buffer cl) of
       (Inl e, _) \<Rightarrow> pure (Inl e)
     | (Inr _, encoded) \<Rightarrow>
         (let request_headers = headers @ [(''accept'', from_static ''application/json''),
            (''content-type'', from_static ''application/x-www-form-urlencoded'')] in
         sbind (pure (url_for_path env cl wire)) (\<lambda>u.
         sbind (pure (require_encrypted_transport_for_sensitive_request u)) (\<lambda>_.
         sbind (send_sensitive_prevalidated_body_request env cl (re_method resolved) u
             request_headers (BodyBytes encoded)) (\<lambda>response.
           if rs_status response \<notin> set accepted_statuses
           then pure (Inl (api_failure (rs_status response)))
           else pure (read_json_response (header_to_str env) from_json response
             (max_response_bytes (cl_config cl)))))))))"

section \<open>Secret engines\<close>

definition request_secret_json_query_headers_accepting ::
  "http_env \<Rightarrow> client \<Rightarrow> (string \<Rightarrow> 'a option) \<Rightarrow> string \<Rightarrow> string \<Rightarrow> string \<Rightarrow> string \<Rightarrow> string \<Rightarrow>
   (string \<times> string) list \<Rightarrow> header_list \<Rightarrow> payload option \<Rightarrow> status_code list \<Rightarrow> 'a sent" where
  "request_secret_json_query_headers_accepting env cl from_json scope_prefix documented
     actual m path query headers body accepted_statuses =
     request_route_json env cl from_json m
       (SecretMount scope_prefix documented actual path) query headers body
       accepted_statuses"

definition request_secret_json_accepting ::
  "http_env \<Rightarrow> client \<Rightarrow> (string \<Rightarrow> 'a option) \<Rightarrow> string \<Rightarrow> string \<Rightarrow> string \<Rightarrow> string \<Rightarrow> string \<Rightarrow>
   payload option \<Rightarrow> status_code list \<Rightarrow> 'a sent" where
  "request_secret_json_accepting env cl from_json scope_prefix documented actual m path
     body accepted_statuses =
     request_secret_json_query_headers_accepting env cl from_json scope_prefix documented
       actual m path [] [] body accepted_statuses"

definition request_secret_json_internal ::
  "http_env \<Rightarrow> client \<Rightarrow> (string \<Rightarrow> 'a option) \<Rightarrow> string \<Rightarrow> string \<Rightarrow> string \<Rightarrow> string \<Rightarrow> string \<Rightarrow>
   payload option \<Rightarrow> 'a sent" where
  "request_secret_json_internal env cl from_json scope_prefix documented actual m path
     body =
     request_secret_json_accepting env cl from_json scope_prefix documented actual m path
       body [200, 204]"

definition request_secret_bytes_headers_accepting ::
  "http_env \<Rightarrow> client \<Rightarrow> string \<Rightarrow> string \<Rightarrow> string \<Rightarrow> string \<Rightarrow> string \<Rightarrow> (string \<times> string) list \<Rightarrow>
   header_list \<Rightarrow> string option \<Rightarrow> status_code list \<Rightarrow> string sent" where
  "request_secret_bytes_headers_accepting env cl scope_prefix documented actual m path
     query headers body accepted_statuses =
     sbind (resolve_route env cl m (SecretMount scope_prefix documented actual path) query)
       (\<lambda>(resolved, wire). request_bytes_headers_accepting_internal env cl (re_method resolved) wire
         query headers body accepted_statuses)"

section \<open>Auth methods\<close>

definition request_auth_json_query_headers_accepting ::
  "http_env \<Rightarrow> client \<Rightarrow> (string \<Rightarrow> 'a option) \<Rightarrow> string \<Rightarrow> string \<Rightarrow> string \<Rightarrow> string \<Rightarrow>
   (string \<times> string) list \<Rightarrow> header_list \<Rightarrow> payload option \<Rightarrow> status_code list \<Rightarrow> 'a sent" where
  "request_auth_json_query_headers_accepting env cl from_json documented actual m path
     query headers body accepted_statuses =
     request_route_json env cl from_json m (AuthMount documented actual path) query
       headers body accepted_statuses"

definition request_auth_json_query_accepting ::
  "http_env \<Rightarrow> client \<Rightarrow> (string \<Rightarrow> 'a option) \<Rightarrow> string \<Rightarrow> string \<Rightarrow> string \<Rightarrow> string \<Rightarrow>
   (string \<times> string) list \<Rightarrow> payload option \<Rightarrow> status_code list \<Rightarrow> 'a sent" where
  "request_auth_json_query_accepting env cl from_json documented actual m path query
     body accepted_statuses =
     request_auth_json_query_headers_accepting env cl from_json documented actual m path
       query [] body accepted_statuses"

definition request_auth_json_headers_accepting ::
  "http_env \<Rightarrow> client \<Rightarrow> (string \<Rightarrow> 'a option) \<Rightarrow> string \<Rightarrow> string \<Rightarrow> string \<Rightarrow> string \<Rightarrow> header_list \<Rightarrow>
   payload option \<Rightarrow> status_code list \<Rightarrow> 'a sent" where
  "request_auth_json_headers_accepting env cl from_json documented actual m path headers
     body accepted_statuses =
     request_auth_json_query_headers_accepting env cl from_json documented actual m path
       [] headers body accepted_statuses"

definition request_auth_json_accepting ::
  "http_env \<Rightarrow> client \<Rightarrow> (string \<Rightarrow> 'a option) \<Rightarrow> string \<Rightarrow> string \<Rightarrow> string \<Rightarrow> string \<Rightarrow>
   payload option \<Rightarrow> status_code list \<Rightarrow> 'a sent" where
  "request_auth_json_accepting env cl from_json documented actual m path body
     accepted_statuses =
     request_auth_json_query_headers_accepting env cl from_json documented actual m path
       [] [] body accepted_statuses"

definition request_auth_json_internal ::
  "http_env \<Rightarrow> client \<Rightarrow> (string \<Rightarrow> 'a option) \<Rightarrow> string \<Rightarrow> string \<Rightarrow> string \<Rightarrow> string \<Rightarrow>
   payload option \<Rightarrow> 'a sent" where
  "request_auth_json_internal env cl from_json documented actual m path body =
     request_auth_json_accepting env cl from_json documented actual m path body [200, 204]"

definition request_auth_secret_json_headers_accepting ::
  "http_env \<Rightarrow> client \<Rightarrow> (string \<Rightarrow> 'a option) \<Rightarrow> string \<Rightarrow> string \<Rightarrow> string \<Rightarrow> string \<Rightarrow> header_list \<Rightarrow>
   payload option \<Rightarrow> status_code list \<Rightarrow> 'a sent" where
  "request_auth_secret_json_headers_accepting env cl from_json documented actual m path
     headers body accepted_statuses =
     sbind (resolve_route env cl m (AuthMount documented actual path) [])
       (\<lambda>(resolved, wire).
     sbind (pure (url_for_path env cl wire)) (\<lambda>u.
     sbind (send_sensitive_json_request env cl (re_method resolved) u headers body) (\<lambda>response.
       if rs_status response \<notin> set accepted_statuses
       then pure (Inl (api_failure (rs_status response)))
       else if rs_status response = 204 then pure (empty_json_result from_json)
       else
         sbind (pure (validate_json_content_type (header_to_str env) response)) (\<lambda>_.
         sbind (pure (read_response_bytes response (max_response_bytes (cl_config cl)))) (\<lambda>body.
           pure (ok_or (from_json body) schema_error))))))"

definition request_auth_secret_json_internal ::
  "http_env \<Rightarrow> client \<Rightarrow> (string \<Rightarrow> 'a option) \<Rightarrow> string \<Rightarrow> string \<Rightarrow> string \<Rightarrow> string \<Rightarrow>
   payload option \<Rightarrow> 'a sent" where
  "request_auth_secret_json_internal env cl from_json documented actual m path body =
     request_auth_secret_json_headers_accepting env cl from_json documented actual m path
       [] body [200, 204]"

definition request_auth_json_secret_query_accepting ::
  "http_env \<Rightarrow> client \<Rightarrow> (string \<Rightarrow> 'a option) \<Rightarrow> string \<Rightarrow> string \<Rightarrow> string \<Rightarrow> string \<Rightarrow>
   (string \<times> string) list \<Rightarrow> payload option \<Rightarrow> status_code list \<Rightarrow> 'a sent" where
  "request_auth_json_secret_query_accepting env cl from_json documented actual m path
     query body accepted_statuses =
     sbind (resolve_route env cl m (AuthMount documented actual path) query)
       (\<lambda>(resolved, wire). request_json_secret_query_accepting env cl from_json (re_method resolved)
         wire query body accepted_statuses)"

section \<open>The system backend\<close>

definition request_sys_json_query_headers_accepting ::
  "http_env \<Rightarrow> client \<Rightarrow> (string \<Rightarrow> 'a option) \<Rightarrow> string \<Rightarrow> string \<Rightarrow> (string \<times> string) list \<Rightarrow>
   header_list \<Rightarrow> payload option \<Rightarrow> status_code list \<Rightarrow> 'a sent" where
  "request_sys_json_query_headers_accepting env cl from_json m path query headers body
     accepted_statuses =
     request_route_json env cl from_json m (RouteExact ''/sys/'' path) query headers body
       accepted_statuses"

definition request_sys_json_query_accepting ::
  "http_env \<Rightarrow> client \<Rightarrow> (string \<Rightarrow> 'a option) \<Rightarrow> string \<Rightarrow> string \<Rightarrow> (string \<times> string) list \<Rightarrow>
   payload option \<Rightarrow> status_code list \<Rightarrow> 'a sent" where
  "request_sys_json_query_accepting env cl from_json m path query body accepted_statuses =
     request_sys_json_query_headers_accepting env cl from_json m path query [] body
       accepted_statuses"

definition request_sys_json_headers_accepting ::
  "http_env \<Rightarrow> client \<Rightarrow> (string \<Rightarrow> 'a option) \<Rightarrow> string \<Rightarrow> string \<Rightarrow> header_list \<Rightarrow>
   payload option \<Rightarrow> status_code list \<Rightarrow> 'a sent" where
  "request_sys_json_headers_accepting env cl from_json m path headers body accepted_statuses =
     request_sys_json_query_headers_accepting env cl from_json m path [] headers body
       accepted_statuses"

definition request_sys_json_accepting ::
  "http_env \<Rightarrow> client \<Rightarrow> (string \<Rightarrow> 'a option) \<Rightarrow> string \<Rightarrow> string \<Rightarrow> payload option \<Rightarrow>
   status_code list \<Rightarrow> 'a sent" where
  "request_sys_json_accepting env cl from_json m path body accepted_statuses =
     request_sys_json_query_headers_accepting env cl from_json m path [] [] body accepted_statuses"

definition request_sys_json_internal ::
  "http_env \<Rightarrow> client \<Rightarrow> (string \<Rightarrow> 'a option) \<Rightarrow> string \<Rightarrow> string \<Rightarrow> payload option \<Rightarrow> 'a sent" where
  "request_sys_json_internal env cl from_json m path body =
     request_sys_json_accepting env cl from_json m path body [200, 204]"

definition request_sys_bytes_accepting_internal ::
  "http_env \<Rightarrow> client \<Rightarrow> string \<Rightarrow> string \<Rightarrow> (string \<times> string) list \<Rightarrow> string option \<Rightarrow>
   string option \<Rightarrow> status_code list \<Rightarrow> string sent" where
  "request_sys_bytes_accepting_internal env cl m path query accept body accepted_statuses =
     sbind (resolve_route env cl m (RouteExact ''/sys/'' path) query) (\<lambda>(resolved, wire).
       request_bytes_headers_accepting_internal env cl (re_method resolved) wire query
         (accept_header accept) body accepted_statuses)"

text \<open>\<open>query_pairs_mut\<close> without a guard leaves an empty query behind when there are no pairs.\<close>

definition request_sys_stream_internal ::
  "http_env \<Rightarrow> client \<Rightarrow> string \<Rightarrow> string \<Rightarrow> (string \<times> string) list \<Rightarrow> status_code list \<Rightarrow>
   response sent" where
  "request_sys_stream_internal env cl m path query accepted_statuses =
     sbind (resolve_route env cl m (RouteExact ''/sys/'' path) query) (\<lambda>(resolved, wire).
     sbind (pure (url_for_path env cl wire)) (\<lambda>u0.
       let u = append_pairs env query
             (u0\<lparr>url_query := Some (case url_query u0 of None \<Rightarrow> [] | Some q \<Rightarrow> q)\<rparr>) in
       sbind (send_sensitive_bytes_request env cl (re_method resolved) u [] None) (\<lambda>response.
         if rs_status response \<in> set accepted_statuses then pure (Inr response)
         else pure (Inl (api_failure (rs_status response))))))"

definition request_sys_exact_stream_accepting ::
  "http_env \<Rightarrow> client \<Rightarrow> string \<Rightarrow> string \<Rightarrow> inner_poll list \<Rightarrow> 64 word \<Rightarrow> status_code list \<Rightarrow>
   unit sent" where
  "request_sys_exact_stream_accepting env cl m path stream content_length accepted_statuses =
     sbind (resolve_route env cl m (RouteExact ''/sys/'' path) []) (\<lambda>(resolved, wire).
     sbind (pure (url_for_path env cl wire)) (\<lambda>u.
     sbind (pure (require_encrypted_transport_for_sensitive_request u)) (\<lambda>_.
     sbind (pure (rmap_err InvalidHeader
         (header_text_of env (dec_string (unat content_length))))) (\<lambda>len.
       let headers = [(''content-type'', from_static ''application/octet-stream''),
         (''content-length'', from_static len)] in
       sbind (send_sensitive_prevalidated_body_request env cl (re_method resolved) u headers
           (BodyStream (exact_stream_new stream content_length))) (\<lambda>response.
         if rs_status response \<in> set accepted_statuses then pure (Inr ())
         else pure (Inl (api_failure (rs_status response))))))))"

section \<open>The compatibility probe\<close>

definition MAX_COMPATIBILITY_HEALTH_BYTES :: nat where
  "MAX_COMPATIBILITY_HEALTH_BYTES = 64 * 1024"

declare MAX_COMPATIBILITY_HEALTH_BYTES_def [limits]

text \<open>\<open>health_version\<close> decodes the health document to its version text.\<close>

definition probe_request ::
  "http_env \<Rightarrow> client \<Rightarrow> (string \<Rightarrow> string option) \<Rightarrow>
   (cached_failure + openbao_version) \<times> (http_settings \<times> http_request) list" where
  "probe_request env cl health_version =
     (case url_for_path env cl ''sys/health'' of
        Inl e \<Rightarrow> (probe_openbao_version (Inl e) (Inl e) (Inl e), [])
      | Inr u \<Rightarrow>
          (case send_non_sensitive_json_request env cl ''GET'' u of
             (Inl e, log) \<Rightarrow> (probe_openbao_version (Inr ()) (Inl e) (Inl e), log)
           | (Inr response, log) \<Rightarrow>
               (probe_openbao_version (Inr ()) (Inr (rs_status response))
                  (read_json_response (header_to_str env) health_version response
                    (min (max_response_bytes (cl_config cl)) MAX_COMPATIBILITY_HEALTH_BYTES)),
                log)))"

section \<open>What every operation sends\<close>

lemma api_url_of: "url_for_path env cl path = Inr u \<Longrightarrow> api_url env cl u"
  by (simp add: url_for_path_ok)

lemma api_url_with_query: "api_url env cl u \<Longrightarrow> api_url env cl (with_query env q u)"
  by (simp add: with_query_def api_url_query)

lemma request_bytes_safe:
  "sent_safe env cl (request_bytes_headers_accepting_internal env cl m path query headers body st)"
  unfolding request_bytes_headers_accepting_internal_def
  by (intro sent_intros sent_safe_bind send_sensitive_bytes_safe api_url_with_query)
    (auto simp: api_url_of sbind_pure split: option.splits sum.splits)

lemma request_json_safe:
  "sent_safe env cl (request_json_query_headers_accepting env cl from_json m path query headers body st)"
  unfolding request_json_query_headers_accepting_def Let_def
proof (intro sent_intros sent_safe_bind)
  fix u assume u: "url_for_path env cl path = Inr u"
  show "sent_safe env cl (if is_sensitive_request cl query headers body
      then send_sensitive_json_request env cl m (with_query env query u) headers body
      else send_non_sensitive_json_request env cl m (with_query env query u))"
    using send_sensitive_json_safe [OF api_url_with_query [OF api_url_of [OF u]]]
      send_non_sensitive_safe [OF api_url_of [OF u]] url_for_path_ok [OF u]
    by (auto simp: with_query_def is_sensitive_request_def)
qed simp

lemma request_route_safe:
  "sent_safe env cl (request_route_json env cl from_json m binding query headers body st)"
  unfolding request_route_json_def resolve_route_def
  by (intro sent_intros) (auto simp: request_json_safe)

lemma request_secret_document_safe:
  "sent_safe env cl (request_registered_secret_json_accepting env cl sp m rp path query body st)"
  unfolding request_registered_secret_json_accepting_def resolve_route_def
  by (intro sent_intros)
    (auto intro!: sent_intros sent_safe_bind send_sensitive_json_safe api_url_with_query
      simp: api_url_of sbind_pure split: sum.splits)

lemma request_form_safe:
  "sent_safe env cl (request_registered_form_json_headers_accepting env cl from_json sp m rp path
     headers form st)"
proof -
  have "length (bb_bytes b) \<le> max_request_bytes (cl_config cl)"
    if "encode_form (san env) (form_bytes env) 0 form (sanitizing_body_buffer cl) = (r, b)" for r b
    using encode_form_bounded [OF that] length_bytes_le [of b]
    by (simp add: sanitizing_body_buffer_def body_buffer_new_def)
  then show ?thesis
    unfolding request_registered_form_json_headers_accepting_def resolve_route_def Let_def
    by (intro sent_intros)
      (auto intro!: sent_intros sent_safe_bind send_prevalidated_safe
        simp: api_url_of encrypted bounded_body_def split: sum.splits prod.splits)
qed

lemma request_literal_secret_safe:
  "sent_safe env cl (request_literal_endpoint_secret_json env cl endpoint)"
  unfolding request_literal_endpoint_secret_json_def
  by (intro sent_intros)
    (auto intro!: sent_intros sent_safe_bind send_sensitive_json_safe
      simp: api_url_of sbind_pure split: sum.splits)

lemma request_auth_secret_safe:
  "sent_safe env cl (request_auth_secret_json_headers_accepting env cl from_json d a m path headers
     body st)"
  unfolding request_auth_secret_json_headers_accepting_def resolve_route_def
  by (intro sent_intros)
    (auto intro!: sent_intros sent_safe_bind send_sensitive_json_safe
      simp: api_url_of sbind_pure split: sum.splits)

lemma request_sys_stream_safe:
  "sent_safe env cl (request_sys_stream_internal env cl m path query st)"
proof -
  have "api_url env cl (u\<lparr>url_query := q\<rparr>)" if "api_url env cl u" for u q
  proof -
    from that obtain p r where "u = (base_url (cl_config cl))\<lparr>url_path := p, url_query := r\<rparr>"
      unfolding api_url_def same_server_def by blast
    with that show ?thesis by (simp add: api_url_def same_server_def)
  qed
  then show ?thesis
    unfolding request_sys_stream_internal_def resolve_route_def Let_def
    by (intro sent_intros)
      (auto intro!: sent_intros sent_safe_bind send_sensitive_bytes_safe api_url_query
        simp: api_url_of)
qed

lemma request_exact_stream_safe:
  "sent_safe env cl (request_sys_exact_stream_accepting env cl m path stream n st)"
  unfolding request_sys_exact_stream_accepting_def resolve_route_def Let_def
  by (intro sent_intros)
    (auto intro!: sent_intros sent_safe_bind send_prevalidated_safe
      simp: api_url_of encrypted bounded_body_def)

lemma probe_safe:
  "list_all (public_request cl) (snd (probe_request env cl health)) \<and>
   list_all (request_safe env cl) (snd (probe_request env cl health))"
proof (cases "url_for_path env cl ''sys/health''")
  case (Inr u)
  then show ?thesis
    using send_non_sensitive_safe [of env cl u "''GET''"] url_for_path_ok [OF Inr]
    by (auto simp: probe_request_def sent_safe_def send_non_sensitive_json_request_def
        execute_openbao_http_request_def public_request_def set_header_def request_new_def
        split: sum.splits)
qed (simp add: probe_request_def)

lemmas request_ops_safe = request_bytes_safe request_json_safe request_route_safe
  request_secret_document_safe request_form_safe request_literal_secret_safe
  request_auth_secret_safe request_sys_stream_safe request_exact_stream_safe

lemmas request_defs =
  request_json_public_def
  request_json_internal_def
  request_json_accepting_def
  request_json_query_accepting_def
  request_bytes_accepting_def
  request_bytes_accepting_internal_def
  request_bytes_headers_accepting_def
  request_literal_endpoint_json_accepting_def
  request_resolved_literal_endpoint_json_accepting_def
  request_endpoint_json_query_headers_accepting_def
  request_endpoint_bytes_headers_accepting_def
  request_registered_json_query_headers_accepting_def
  request_secret_json_internal_def
  request_secret_json_accepting_def
  request_secret_json_query_headers_accepting_def
  request_secret_bytes_headers_accepting_def
  request_auth_json_internal_def
  request_auth_json_accepting_def
  request_auth_json_query_accepting_def
  request_auth_json_headers_accepting_def
  request_auth_json_query_headers_accepting_def
  request_auth_secret_json_internal_def
  request_auth_json_secret_query_accepting_def
  request_json_secret_query_accepting_def
  request_sys_json_internal_def
  request_sys_json_accepting_def
  request_sys_json_query_accepting_def
  request_sys_json_headers_accepting_def
  request_sys_json_query_headers_accepting_def
  request_sys_bytes_accepting_internal_def
  resolve_route_def


end
