(* ===== verification/Bao_Json.thy ===== *)
theory Bao_Json
  imports Bao_Paths Bao_Errors
begin

text \<open>
  The bounded deserialisers of \<open>response.rs\<close> and \<open>secrets/kv2.rs\<close>, and the pagination options of
  \<open>response.rs\<close>. A document is the value the JSON parser streams to them: members of an object in
  the order of the text, duplicates included. A syntax error of the text makes every deserialiser
  fail and is left to the parser.
\<close>

section \<open>Documents\<close>

text \<open>A number is what \<open>deserialize_any\<close> visits: a \<open>u64\<close>, a negative \<open>i64\<close>, or an \<open>f64\<close> as mantissa
  and exponent of two, \<open>None\<close> when it is not finite.\<close>

datatype json_number = PosInt "64 word" | NegInt "64 word" | Float "(int \<times> int) option"

datatype json =
    JNull
  | JBool bool
  | JNumber json_number
  | JString string
  | JArray "json list"
  | JObject "(string \<times> json) list"

type_synonym 'a decoded = "string + 'a"

definition MAX_API_ERRORS :: nat where "MAX_API_ERRORS = 16"
definition MAX_BOUNDED_JSON_DEPTH :: nat where "MAX_BOUNDED_JSON_DEPTH = 64"
definition MAX_BOUNDED_JSON_NODES :: nat where "MAX_BOUNDED_JSON_NODES = 262144"
definition MAX_BOUNDED_JSON_STRING_BYTES :: nat where
  "MAX_BOUNDED_JSON_STRING_BYTES = 16 * 1024 * 1024"
definition MAX_RESPONSE_STRINGS :: nat where "MAX_RESPONSE_STRINGS = 4096"
definition MAX_KV2_SUBKEY_NODES :: nat where "MAX_KV2_SUBKEY_NODES = MAX_RESPONSE_STRINGS"
definition MAX_KV2_SUBKEY_DEPTH :: nat where "MAX_KV2_SUBKEY_DEPTH = 64"

section \<open>Values under a budget\<close>

record json_budget =
  nodes_remaining :: nat
  string_bytes_remaining :: nat

definition json_budget_new :: json_budget where
  "json_budget_new = \<lparr>nodes_remaining = MAX_BOUNDED_JSON_NODES,
     string_bytes_remaining = MAX_BOUNDED_JSON_STRING_BYTES\<rparr>"

definition take_node :: "json_budget \<Rightarrow> json_budget decoded" where
  "take_node b =
     (if nodes_remaining b = 0 then Inl ''OpenBao JSON document exceeds node limit''
      else Inr (b\<lparr>nodes_remaining := nodes_remaining b - 1\<rparr>))"

definition take_string :: "nat \<Rightarrow> json_budget \<Rightarrow> json_budget decoded" where
  "take_string bytes b =
     (if string_bytes_remaining b < bytes
      then Inl ''OpenBao JSON document exceeds string byte limit''
      else Inr (b\<lparr>string_bytes_remaining := string_bytes_remaining b - bytes\<rparr>))"

fun finite_number :: "json_number \<Rightarrow> bool" where
  "finite_number (Float None) = False"
| "finite_number n = True"

text \<open>
  \<open>BoundedJsonValueSeed::deserialize\<close> with its visitor: the depth check, one node, then the value.
  An object is decoded into a map without order; it is written with its members as inserted.
\<close>

fun bounded_value :: "nat \<Rightarrow> json \<Rightarrow> json_budget \<Rightarrow> (json \<times> json_budget) decoded"
  and bounded_elements ::
    "nat \<Rightarrow> json list \<Rightarrow> json list \<Rightarrow> json_budget \<Rightarrow> (json list \<times> json_budget) decoded"
  and bounded_members ::
    "nat \<Rightarrow> (string \<times> json) list \<Rightarrow> (string \<times> json) list \<Rightarrow> json_budget \<Rightarrow>
     ((string \<times> json) list \<times> json_budget) decoded"
where
  "bounded_value depth document b =
     (if MAX_BOUNDED_JSON_DEPTH < depth then Inl ''OpenBao JSON document exceeds nesting limit''
      else rbind (take_node b) (\<lambda>b.
        case document of
          JNull \<Rightarrow> Inr (JNull, b)
        | JBool v \<Rightarrow> Inr (JBool v, b)
        | JNumber n \<Rightarrow>
            (if finite_number n then Inr (JNumber n, b)
             else Inl ''OpenBao JSON document contains a non-finite number'')
        | JString s \<Rightarrow> rmap (\<lambda>b. (JString s, b)) (take_string (length s) b)
        | JArray elements \<Rightarrow>
            rmap (\<lambda>(values, b). (JArray values, b)) (bounded_elements depth [] elements b)
        | JObject members \<Rightarrow>
            rmap (\<lambda>(values, b). (JObject values, b)) (bounded_members depth [] members b)))"
| "bounded_elements depth values [] b = Inr (values, b)"
| "bounded_elements depth values (e # rest) b =
     rbind (bounded_value (Suc depth) e b) (\<lambda>(v, b).
       bounded_elements depth (values @ [v]) rest b)"
| "bounded_members depth values [] b = Inr (values, b)"
| "bounded_members depth values ((key, e) # rest) b =
     rbind (take_string (length key) b) (\<lambda>b.
     rbind (bounded_value (Suc depth) e b) (\<lambda>(v, b).
       if key \<in> set (map fst values) then Inl ''OpenBao JSON document contains a duplicate key''
       else bounded_members depth (values @ [(key, v)]) rest b))"

definition bounded_json_value :: "json \<Rightarrow> json decoded" where
  "bounded_json_value document = rmap fst (bounded_value 0 document json_budget_new)"

text \<open>\<open>BoundedPrimitiveJsonValueSeed\<close>, for metadata values.\<close>

definition bounded_primitive :: "json \<Rightarrow> json_budget \<Rightarrow> (json \<times> json_budget) decoded" where
  "bounded_primitive document b =
     rbind (take_node b) (\<lambda>b.
       case document of
         JNull \<Rightarrow> Inr (JNull, b)
       | JBool v \<Rightarrow> Inr (JBool v, b)
       | JNumber n \<Rightarrow>
           (if finite_number n then Inr (JNumber n, b)
            else Inl ''OpenBao JSON metadata contains a non-finite number'')
       | JString s \<Rightarrow> rmap (\<lambda>b. (JString s, b)) (take_string (length s) b)
       | JArray _ \<Rightarrow> Inl ''OpenBao JSON metadata values must be primitive''
       | JObject _ \<Rightarrow> Inl ''OpenBao JSON metadata values must be primitive'')"

section \<open>The measures of a document\<close>

fun json_depth :: "json \<Rightarrow> nat" where
  "json_depth (JArray es) = fold max (map (\<lambda>e. Suc (json_depth e)) es) 0"
| "json_depth (JObject ms) = fold max (map (\<lambda>(k, e). Suc (json_depth e)) ms) 0"
| "json_depth _ = 0"

fun json_nodes :: "json \<Rightarrow> nat" and nodes_of :: "json list \<Rightarrow> nat"
  and keyed_nodes :: "(string \<times> json) list \<Rightarrow> nat" where
  "json_nodes (JArray es) = Suc (nodes_of es)"
| "json_nodes (JObject ms) = Suc (keyed_nodes ms)"
| "json_nodes _ = 1"
| "nodes_of [] = 0"
| "nodes_of (e # es) = json_nodes e + nodes_of es"
| "keyed_nodes [] = 0"
| "keyed_nodes ((k, e) # ms) = json_nodes e + keyed_nodes ms"

fun json_string_bytes :: "json \<Rightarrow> nat" and bytes_of :: "json list \<Rightarrow> nat"
  and keyed_bytes :: "(string \<times> json) list \<Rightarrow> nat" where
  "json_string_bytes (JString s) = length s"
| "json_string_bytes (JArray es) = bytes_of es"
| "json_string_bytes (JObject ms) = keyed_bytes ms"
| "json_string_bytes _ = 0"
| "bytes_of [] = 0"
| "bytes_of (e # es) = json_string_bytes e + bytes_of es"
| "keyed_bytes [] = 0"
| "keyed_bytes ((k, e) # ms) = length k + json_string_bytes e + keyed_bytes ms"

text \<open>Finite numbers, and no key twice in an object.\<close>

fun json_wf :: "json \<Rightarrow> bool" where
  "json_wf (JNumber n) = finite_number n"
| "json_wf (JArray es) = list_all json_wf es"
| "json_wf (JObject ms) = (distinct (map fst ms) \<and> list_all (\<lambda>(k, e). json_wf e) ms)"
| "json_wf _ = True"

section \<open>What the budget admits\<close>

definition charge :: "nat \<Rightarrow> nat \<Rightarrow> json_budget \<Rightarrow> json_budget" where
  "charge nodes bytes b =
     b\<lparr>nodes_remaining := nodes_remaining b - nodes,
       string_bytes_remaining := string_bytes_remaining b - bytes\<rparr>"

definition affordable :: "nat \<Rightarrow> nat \<Rightarrow> json_budget \<Rightarrow> bool" where
  "affordable nodes bytes b \<longleftrightarrow>
     nodes \<le> nodes_remaining b \<and> bytes \<le> string_bytes_remaining b"

lemma take_node_iff: "take_node b = Inr b' \<longleftrightarrow> affordable 1 0 b \<and> b' = charge 1 0 b"
  by (auto simp: take_node_def affordable_def charge_def)

lemma take_string_iff:
  "take_string n b = Inr b' \<longleftrightarrow> affordable 0 n b \<and> b' = charge 0 n b"
  by (auto simp: take_string_def affordable_def charge_def)

lemma charge_0 [simp]: "charge 0 0 b = b"
  by (simp add: charge_def)

lemma affordable_0 [simp]: "affordable 0 0 b"
  by (simp add: affordable_def)

lemma charge_charge [simp]: "charge n' s' (charge n s b) = charge (n + n') (s + s') b"
  by (simp add: charge_def)

lemma affordable_charge:
  "affordable n s b \<Longrightarrow> affordable n' s' (charge n s b) \<longleftrightarrow> affordable (n + n') (s + s') b"
  by (auto simp: charge_def affordable_def)

lemma affordable_mono: "affordable (n + n') (s + s') b \<Longrightarrow> affordable n s b"
  by (simp add: affordable_def)

definition admitted :: "nat \<Rightarrow> json \<Rightarrow> bool" where
  "admitted depth d \<longleftrightarrow> depth + json_depth d \<le> MAX_BOUNDED_JSON_DEPTH \<and> json_wf d"

lemma admitted_leaf:
  "json_depth d = 0 \<Longrightarrow> admitted depth d \<longleftrightarrow> depth \<le> MAX_BOUNDED_JSON_DEPTH \<and> json_wf d"
  by (simp add: admitted_def)

lemma admitted_array:
  "admitted depth (JArray es) \<longleftrightarrow>
     depth \<le> MAX_BOUNDED_JSON_DEPTH \<and> list_all (admitted (Suc depth)) es"
proof -
  have "depth + fold max xs 0 \<le> m \<longleftrightarrow> depth \<le> m \<and> list_all (\<lambda>x. depth + x \<le> m) xs" for xs m
    using fold_max_le [of xs 0 "m - depth"] by (auto simp: list_all_iff)
  then show ?thesis by (auto simp: admitted_def list_all_iff)
qed

lemma admitted_object:
  "admitted depth (JObject ms) \<longleftrightarrow>
     depth \<le> MAX_BOUNDED_JSON_DEPTH \<and> distinct (map fst ms) \<and>
     list_all (\<lambda>(k, e). admitted (Suc depth) e) ms"
proof -
  have "depth + fold max xs 0 \<le> m \<longleftrightarrow> depth \<le> m \<and> list_all (\<lambda>x. depth + x \<le> m) xs" for xs m
    using fold_max_le [of xs 0 "m - depth"] by (auto simp: list_all_iff)
  then show ?thesis by (auto simp: admitted_def list_all_iff)
qed

declare bounded_value.simps [simp del]

lemma bounded_value_spec:
  "\<And>v b'. bounded_value depth d b = Inr (v, b') \<longleftrightarrow>
     v = d \<and> admitted depth d \<and> affordable (json_nodes d) (json_string_bytes d) b \<and>
     b' = charge (json_nodes d) (json_string_bytes d) b"
  "\<And>vs b'. bounded_elements depth done_es es b = Inr (vs, b') \<longleftrightarrow>
     vs = done_es @ es \<and> list_all (admitted (Suc depth)) es \<and>
     affordable (nodes_of es) (bytes_of es) b \<and> b' = charge (nodes_of es) (bytes_of es) b"
  "\<And>vs b'. bounded_members depth kept ms b = Inr (vs, b') \<longleftrightarrow>
     vs = kept @ ms \<and> distinct (map fst ms) \<and> fst ` set kept \<inter> fst ` set ms = {} \<and>
     list_all (\<lambda>(k, e). admitted (Suc depth) e) ms \<and>
     affordable (keyed_nodes ms) (keyed_bytes ms) b \<and>
     b' = charge (keyed_nodes ms) (keyed_bytes ms) b"
proof (induction depth d b and depth done_es es b and depth kept ms b
    rule: bounded_value_bounded_elements_bounded_members.induct)
  case (1 depth d b)
  show ?case
  proof (cases "MAX_BOUNDED_JSON_DEPTH < depth")
    case True
    then have "\<not> admitted depth d" by (simp add: admitted_def)
    with True show ?thesis by (simp add: bounded_value.simps)
  next
    case depth: False
    show ?thesis
    proof (cases "affordable 1 0 b")
      case False
      then have "\<not> affordable (json_nodes d) s b" for s
        by (cases d) (auto simp: affordable_def)
      then show ?thesis
        using False by (cases "take_node b") (auto simp: bounded_value.simps take_node_iff)
    next
      case True
      then have node: "take_node b = Inr (charge 1 0 b)" by (simp add: take_node_iff)
      show ?thesis
      proof (cases d)
        case (JArray es)
        show ?thesis
          using 1(1) [OF depth node JArray] depth True affordable_charge [OF True]
          by (auto simp: JArray bounded_value.simps node rmap_Inr_iff admitted_array)
      next
        case (JObject ms)
        show ?thesis
          using 1(2) [OF depth node JObject] depth True affordable_charge [OF True]
          by (auto simp: JObject bounded_value.simps node rmap_Inr_iff admitted_object)
      next
        case (JString s)
        show ?thesis
          using depth True affordable_charge [OF True]
          by (auto simp: JString bounded_value.simps node rmap_Inr_iff admitted_leaf take_string_iff)
      qed (use depth True in \<open>auto simp: bounded_value.simps node admitted_leaf\<close>)
    qed
  qed
next
  case (2 depth done_es b)
  then show ?case by auto
next
  case (3 depth done_es e rest b)
  show ?case
  proof (cases "admitted (Suc depth) e \<and> affordable (json_nodes e) (json_string_bytes e) b")
    case True
    then have v: "bounded_value (Suc depth) e b =
        Inr (e, charge (json_nodes e) (json_string_bytes e) b)"
      using 3(1) by blast
    show ?thesis
      using 3(2) [OF v refl] True affordable_charge [of "json_nodes e" "json_string_bytes e" b]
      by (auto simp: v)
  next
    case False
    then have "bounded_value (Suc depth) e b \<noteq> Inr (v, b')" for v b'
      using 3(1) by blast
    then obtain m where "bounded_value (Suc depth) e b = Inl m"
      by (metis surj_pair sum.exhaust)
    then show ?thesis using False by (auto dest: affordable_mono)
  qed
next
  case (4 depth kept b)
  then show ?case by auto
next
  case (5 depth kept key e rest b)
  show ?case
  proof (cases "affordable 0 (length key) b \<and> admitted (Suc depth) e \<and>
      affordable (json_nodes e) (length key + json_string_bytes e) b")
    case True
    then have k: "take_string (length key) b = Inr (charge 0 (length key) b)"
      and e: "bounded_value (Suc depth) e (charge 0 (length key) b) =
        Inr (e, charge (json_nodes e) (length key + json_string_bytes e) b)"
      using 5(1) affordable_charge [of 0 "length key" b] by (auto simp: take_string_iff)
    show ?thesis
    proof (cases "key \<in> set (map fst kept)")
      case True
      have "bounded_members depth kept ((key, e) # rest) b =
          Inl ''OpenBao JSON document contains a duplicate key''"
        unfolding bounded_members.simps k rbind.simps e prod.case if_P [OF True] ..
      with True show ?thesis by auto
    next
      case new: False
      have s: "bounded_members depth kept ((key, e) # rest) b =
          bounded_members depth (kept @ [(key, e)]) rest
            (charge (json_nodes e) (length key + json_string_bytes e) b)"
        unfolding bounded_members.simps k rbind.simps e prod.case if_not_P [OF new] ..
      have a: "affordable (keyed_nodes rest) (keyed_bytes rest)
            (charge (json_nodes e) (length key + json_string_bytes e) b) \<longleftrightarrow>
          affordable (keyed_nodes ((key, e) # rest)) (keyed_bytes ((key, e) # rest)) b"
        using True by (simp add: affordable_charge add.assoc)
      have c: "charge (keyed_nodes rest) (keyed_bytes rest)
            (charge (json_nodes e) (length key + json_string_bytes e) b) =
          charge (keyed_nodes ((key, e) # rest)) (keyed_bytes ((key, e) # rest)) b"
        by (simp add: add.assoc)
      show ?thesis
      proof -
        have d: "fst ` set (kept @ [(key, e)]) \<inter> fst ` set rest = {} \<and> distinct (map fst rest) \<longleftrightarrow>
            fst ` set kept \<inter> fst ` set ((key, e) # rest) = {} \<and> distinct (map fst ((key, e) # rest))"
          using new by auto
        have l: "list_all (\<lambda>(k, e). admitted (Suc depth) e) ((key, e) # rest) \<longleftrightarrow>
            list_all (\<lambda>(k, e). admitted (Suc depth) e) rest"
          using True by simp
        have v: "(kept @ [(key, e)]) @ rest = kept @ (key, e) # rest" by simp
        show ?thesis unfolding s 5(2) [OF k e refl new] a c l v using d by argo
      qed
    qed
  next
    case False
    obtain m where m: "bounded_members depth kept ((key, e) # rest) b = Inl m"
    proof (cases "take_string (length key) b")
      case (Inr b1)
      then have "affordable 0 (length key) b" "b1 = charge 0 (length key) b"
        by (simp_all add: take_string_iff)
      then have "bounded_value (Suc depth) e b1 \<noteq> Inr (v, b')" for v b'
        using 5(1) [OF Inr] False affordable_charge [of 0 "length key" b] by auto
      then obtain m where "bounded_value (Suc depth) e b1 = Inl m"
        by (metis surj_pair sum.exhaust)
      with that [of m] Inr show ?thesis by simp
    qed (use that in simp)
    have "\<not> (admitted (Suc depth) e \<and>
        affordable (keyed_nodes ((key, e) # rest)) (keyed_bytes ((key, e) # rest)) b)"
      using False by (auto simp: affordable_def)
    then show ?thesis unfolding m by (simp del: keyed_nodes.simps keyed_bytes.simps) blast
  qed
qed

text \<open>C19: A JSON value of a response is decoded exactly when it nests at most 64 levels, has at most
  262144 nodes and 16 MiB of string and key bytes, repeats no key within an object and contains
  only finite numbers; the value decoded is the document.\<close>

theorem bounded_json_value_iff:
  "bounded_json_value d = Inr v \<longleftrightarrow>
     v = d \<and> json_depth d \<le> 64 \<and> json_nodes d \<le> 262144 \<and>
     json_string_bytes d \<le> 16 * 1024 * 1024 \<and> json_wf d"
proof -
  have "bounded_json_value d = Inr v \<longleftrightarrow> (\<exists>b. bounded_value 0 d json_budget_new = Inr (v, b))"
    by (auto simp: bounded_json_value_def rmap_Inr_iff)
  then show ?thesis
    by (auto simp: bounded_value_spec admitted_def affordable_def json_budget_new_def
        MAX_BOUNDED_JSON_DEPTH_def MAX_BOUNDED_JSON_NODES_def MAX_BOUNDED_JSON_STRING_BYTES_def)
qed

section \<open>Bounded lists and maps\<close>

text \<open>\<open>next_element::<String>\<close>: a value of another type is an error of the parser.\<close>

definition invalid_type :: string where "invalid_type = ''invalid type''"

fun as_string :: "json \<Rightarrow> string decoded" where
  "as_string (JString s) = Inr s"
| "as_string _ = Inl invalid_type"

text \<open>The loop of the list visitors: elements are decoded while there is room, then one more
  element is an error.\<close>

fun bounded_seq ::
  "nat \<Rightarrow> (json \<Rightarrow> 'a decoded) \<Rightarrow> string \<Rightarrow> 'a list \<Rightarrow> json list \<Rightarrow> 'a list decoded" where
  "bounded_seq limit elem message found [] = Inr found"
| "bounded_seq limit elem message found (e # rest) =
     (if length found < limit
      then rbind (elem e) (\<lambda>v. bounded_seq limit elem message (found @ [v]) rest)
      else Inl message)"

definition deserialize_bounded_string_vec :: "json \<Rightarrow> string list decoded" where
  "deserialize_bounded_string_vec document =
     (case document of
        JArray es \<Rightarrow> bounded_seq MAX_RESPONSE_STRINGS as_string
          ''OpenBao string list exceeds item limit'' [] es
      | _ \<Rightarrow> Inl invalid_type)"

definition deserialize_sanitized_bounded_string_vec :: "json \<Rightarrow> string list decoded" where
  "deserialize_sanitized_bounded_string_vec document =
     (case document of
        JArray es \<Rightarrow> bounded_seq MAX_RESPONSE_STRINGS (\<lambda>e. rmap sanitize_api_error (as_string e))
          ''OpenBao string list exceeds item limit'' [] es
      | _ \<Rightarrow> Inl invalid_type)"

definition deserialize_bounded_secret_string_vec :: "json \<Rightarrow> string list decoded" where
  "deserialize_bounded_secret_string_vec document =
     (case document of
        JArray es \<Rightarrow> bounded_seq MAX_RESPONSE_STRINGS as_string
          ''OpenBao secret string list exceeds item limit'' [] es
      | _ \<Rightarrow> Inl invalid_type)"

text \<open>The loop of the map visitors.\<close>

fun bounded_map ::
  "nat \<Rightarrow> (json \<Rightarrow> 'a decoded) \<Rightarrow> string \<Rightarrow> string \<Rightarrow> (string \<times> 'a) list \<Rightarrow>
   (string \<times> json) list \<Rightarrow> (string \<times> 'a) list decoded" where
  "bounded_map limit elem duplicate over found [] = Inr found"
| "bounded_map limit elem duplicate over found ((key, e) # rest) =
     (if length found < limit
      then rbind (elem e) (\<lambda>v.
        if key \<in> set (map fst found) then Inl duplicate
        else bounded_map limit elem duplicate over (found @ [(key, v)]) rest)
      else Inl over)"

definition deserialize_bounded_string_map :: "json \<Rightarrow> (string \<times> string) list decoded" where
  "deserialize_bounded_string_map document =
     (case document of
        JObject ms \<Rightarrow> bounded_map MAX_RESPONSE_STRINGS as_string
          ''OpenBao string map contains a duplicate key''
          ''OpenBao string map exceeds item limit'' [] ms
      | _ \<Rightarrow> Inl invalid_type)"

text \<open>\<open>kv2.rs\<close>: service configuration values and version maps; \<open>version_metadata\<close> is the derived
  deserialiser of one version.\<close>

definition deserialize_bounded_secret_map :: "json \<Rightarrow> (string \<times> string) list decoded" where
  "deserialize_bounded_secret_map document =
     (case document of
        JObject ms \<Rightarrow> bounded_map MAX_RESPONSE_STRINGS as_string
          ''OpenBao service config map contains a duplicate key''
          ''OpenBao service config map exceeds item limit'' [] ms
      | _ \<Rightarrow> Inl invalid_type)"

definition deserialize_bounded_version_metadata_map ::
  "(json \<Rightarrow> 'a decoded) \<Rightarrow> json \<Rightarrow> (string \<times> 'a) list decoded" where
  "deserialize_bounded_version_metadata_map version_metadata document =
     (case document of
        JObject ms \<Rightarrow> bounded_map MAX_RESPONSE_STRINGS version_metadata
          ''OpenBao KV v2 version map contains a duplicate key''
          ''OpenBao KV v2 version map exceeds item limit'' [] ms
      | _ \<Rightarrow> Inl invalid_type)"

text \<open>\<open>Option::<T>::deserialize\<close>: a null is \<open>None\<close>.\<close>

definition optionally :: "(json \<Rightarrow> 'a decoded) \<Rightarrow> json \<Rightarrow> 'a option decoded" where
  "optionally elem document = (if document = JNull then Inr None else rmap Some (elem document))"

definition deserialize_optional_bounded_string_vec :: "json \<Rightarrow> string list option decoded" where
  "deserialize_optional_bounded_string_vec = optionally deserialize_bounded_string_vec"

definition deserialize_optional_sanitized_bounded_string_vec ::
  "json \<Rightarrow> string list option decoded" where
  "deserialize_optional_sanitized_bounded_string_vec =
     optionally deserialize_sanitized_bounded_string_vec"

definition deserialize_optional_bounded_string_map ::
  "json \<Rightarrow> (string \<times> string) list option decoded" where
  "deserialize_optional_bounded_string_map = optionally deserialize_bounded_string_map"

definition deserialize_bounded_string_map_or_default ::
  "json \<Rightarrow> (string \<times> string) list decoded" where
  "deserialize_bounded_string_map_or_default document =
     rmap (\<lambda>m. case m of Some ms \<Rightarrow> ms | None \<Rightarrow> [])
       (deserialize_optional_bounded_string_map document)"

text \<open>\<open>BoundedStringList::try_new\<close>.\<close>

definition bounded_string_list_try_new :: "string list \<Rightarrow> string list res" where
  "bounded_string_list_try_new strings =
     (if MAX_RESPONSE_STRINGS < length strings
      then Inl (InvalidParameter ''OpenBao string list exceeds item limit'')
      else Inr strings)"

lemma bounded_seq_iff:
  "length found \<le> limit \<Longrightarrow>
   bounded_seq limit elem message found es = Inr vs \<longleftrightarrow>
     length found + length es \<le> limit \<and>
     (\<exists>new. vs = found @ new \<and> list_all2 (\<lambda>e v. elem e = Inr v) es new)"
proof (induction es arbitrary: found)
  case (Cons e es)
  show ?case
  proof (cases "length found < limit \<and> is_ok (elem e)")
    case True
    then obtain v where v: "elem e = Inr v" by (cases "elem e") auto
    have *: "(\<exists>new. vs = found @ new \<and> list_all2 (\<lambda>e v. elem e = Inr v) (e # es) new) \<longleftrightarrow>
        (\<exists>new. vs = (found @ [v]) @ new \<and> list_all2 (\<lambda>e v. elem e = Inr v) es new)"
      by (auto simp: list_all2_Cons1 v)
    show ?thesis using True Cons.IH [of "found @ [v]"] unfolding * by (auto simp: v)
  next
    case False
    then show ?thesis using Cons.prems
      by (cases "elem e") (auto simp: list_all2_Cons1)
  qed
qed auto

lemma bounded_map_iff:
  "length found \<le> limit \<Longrightarrow>
   bounded_map limit elem duplicate over found ms = Inr vs \<longleftrightarrow>
     length found + length ms \<le> limit \<and> distinct (map fst ms) \<and>
     fst ` set found \<inter> fst ` set ms = {} \<and>
     (\<exists>new. vs = found @ new \<and> list_all2 (\<lambda>(k, e) (k', v). k' = k \<and> elem e = Inr v) ms new)"
proof (induction ms arbitrary: found)
  case (Cons m ms)
  obtain key e where m: "m = (key, e)" by force
  show ?case
  proof (cases "length found < limit \<and> is_ok (elem e) \<and> key \<notin> set (map fst found)")
    case True
    then obtain v where v: "elem e = Inr v" by (cases "elem e") auto
    have *: "(\<exists>new. vs = found @ new \<and>
          list_all2 (\<lambda>(k, e) (k', v). k' = k \<and> elem e = Inr v) (m # ms) new) \<longleftrightarrow>
        (\<exists>new. vs = (found @ [(key, v)]) @ new \<and>
          list_all2 (\<lambda>(k, e) (k', v). k' = k \<and> elem e = Inr v) ms new)"
      by (auto simp: list_all2_Cons1 v m)
    have d: "fst ` set (found @ [(key, v)]) \<inter> fst ` set ms = {} \<and> distinct (map fst ms) \<longleftrightarrow>
        fst ` set found \<inter> fst ` set (m # ms) = {} \<and> distinct (map fst (m # ms))"
      using True by (auto simp: m)
    have s: "bounded_map limit elem duplicate over found (m # ms) =
        bounded_map limit elem duplicate over (found @ [(key, v)]) ms"
      using True by (auto simp: m v)
    have l: "length (found @ [(key, v)]) \<le> limit" using True by simp
    have n: "length (found @ [(key, v)]) + length ms = length found + length (m # ms)" by simp
    show ?thesis unfolding s * Cons.IH [OF l] n using d by blast
  next
    case False
    then show ?thesis using Cons.prems
      by (cases "elem e") (auto simp: list_all2_Cons1 m)
  qed
qed auto

lemma as_string_iff: "as_string e = Inr s \<longleftrightarrow> e = JString s"
  by (cases e) auto

text \<open>A string list is decoded exactly when it has at most 4096 elements, all of them strings.\<close>

lemma strings_of_iff: "list_all2 (\<lambda>e v. as_string e = Inr v) es vs \<longleftrightarrow> es = map JString vs"
  by (induction es arbitrary: vs) (auto simp: list_all2_Cons1 Cons_eq_map_conv as_string_iff)

lemma string_members_iff:
  "list_all2 (\<lambda>(k, e) (k', v). k' = k \<and> as_string e = Inr v) ms vs \<longleftrightarrow>
     ms = map (\<lambda>(k, v). (k, JString v)) vs"
  by (induction ms arbitrary: vs) (auto simp: list_all2_Cons1 Cons_eq_map_conv as_string_iff)

lemma deserialize_bounded_string_vec_iff:
  "deserialize_bounded_string_vec d = Inr vs \<longleftrightarrow>
     d = JArray (map JString vs) \<and> length vs \<le> 4096"
proof (cases d)
  case (JArray es)
  have "deserialize_bounded_string_vec d = Inr vs \<longleftrightarrow> length es \<le> 4096 \<and> es = map JString vs"
    unfolding deserialize_bounded_string_vec_def JArray json.case
    by (simp add: bounded_seq_iff strings_of_iff MAX_RESPONSE_STRINGS_def)
  also have "\<dots> \<longleftrightarrow> d = JArray (map JString vs) \<and> length vs \<le> 4096"
    unfolding JArray json.inject by (metis length_map)
  finally show ?thesis .
qed (simp_all add: deserialize_bounded_string_vec_def)

lemma bounded_string_members_iff:
  "bounded_map MAX_RESPONSE_STRINGS as_string duplicate over [] ms = Inr vs \<longleftrightarrow>
     ms = map (\<lambda>(k, v). (k, JString v)) vs \<and> distinct (map fst vs) \<and> length vs \<le> 4096"
proof -
  have keys: "map fst (map (\<lambda>(k, v). (k, JString v)) vs) = map fst vs"
    by (simp add: comp_def split_def)
  have "bounded_map MAX_RESPONSE_STRINGS as_string duplicate over [] ms = Inr vs \<longleftrightarrow>
      length ms \<le> 4096 \<and> distinct (map fst ms) \<and> ms = map (\<lambda>(k, v). (k, JString v)) vs"
    by (simp add: bounded_map_iff string_members_iff MAX_RESPONSE_STRINGS_def)
  then show ?thesis using keys by (metis length_map)
qed

text \<open>A service configuration of a KV secret is decoded exactly when it is an object of at most 4096
  members, all of them strings, with no key twice; the map decoded is that object.\<close>

theorem deserialize_bounded_secret_map_iff:
  "deserialize_bounded_secret_map d = Inr vs \<longleftrightarrow>
     d = JObject (map (\<lambda>(k, v). (k, JString v)) vs) \<and> distinct (map fst vs) \<and>
     length vs \<le> 4096"
  by (cases d) (simp_all add: deserialize_bounded_secret_map_def bounded_string_members_iff)

section \<open>The shape of a KV secret\<close>

fun bounded_subkeys :: "nat \<Rightarrow> json \<Rightarrow> nat \<Rightarrow> (json \<times> nat) decoded"
  and subkey_members ::
    "nat \<Rightarrow> (string \<times> json) list \<Rightarrow> (string \<times> json) list \<Rightarrow> nat \<Rightarrow>
     ((string \<times> json) list \<times> nat) decoded"
where
  "bounded_subkeys depth document remaining =
     (if MAX_KV2_SUBKEY_DEPTH < depth then Inl ''OpenBao KV subkey shape exceeds depth limit''
      else if remaining = 0 then Inl ''OpenBao KV subkey shape exceeds node limit''
      else case document of
          JNull \<Rightarrow> Inr (JNull, remaining - 1)
        | JObject ms \<Rightarrow>
            rmap (\<lambda>(found, remaining). (JObject found, remaining))
              (subkey_members depth [] ms (remaining - 1))
        | _ \<Rightarrow> Inl ''OpenBao KV subkey shape contains a non-null leaf'')"
| "subkey_members depth found [] remaining = Inr (found, remaining)"
| "subkey_members depth found ((key, e) # rest) remaining =
     (if 0 < remaining
      then rbind (bounded_subkeys (Suc depth) e remaining) (\<lambda>(v, remaining).
        if key \<in> set (map fst found)
        then Inl ''OpenBao KV subkey shape contains duplicate keys''
        else subkey_members depth (found @ [(key, v)]) rest remaining)
      else Inl ''OpenBao KV subkey shape exceeds node limit'')"

definition deserialize_bounded_subkeys :: "json \<Rightarrow> json decoded" where
  "deserialize_bounded_subkeys document =
     rmap fst (bounded_subkeys 0 document MAX_KV2_SUBKEY_NODES)"

fun subkey_shape :: "json \<Rightarrow> bool" where
  "subkey_shape JNull = True"
| "subkey_shape (JObject ms) = (distinct (map fst ms) \<and> list_all (\<lambda>(k, e). subkey_shape e) ms)"
| "subkey_shape _ = False"

definition subkey_admitted :: "nat \<Rightarrow> json \<Rightarrow> bool" where
  "subkey_admitted depth d \<longleftrightarrow> depth + json_depth d \<le> MAX_KV2_SUBKEY_DEPTH \<and> subkey_shape d"

lemma subkey_admitted_object:
  "subkey_admitted depth (JObject ms) \<longleftrightarrow>
     depth \<le> MAX_KV2_SUBKEY_DEPTH \<and> distinct (map fst ms) \<and>
     list_all (\<lambda>(k, e). subkey_admitted (Suc depth) e) ms"
proof -
  have "depth + fold max xs 0 \<le> m \<longleftrightarrow> depth \<le> m \<and> list_all (\<lambda>x. depth + x \<le> m) xs" for xs m
    using fold_max_le [of xs 0 "m - depth"] by (auto simp: list_all_iff)
  then show ?thesis by (auto simp: subkey_admitted_def list_all_iff)
qed

declare bounded_subkeys.simps [simp del]

lemma json_nodes_pos: "0 < json_nodes d"
  by (cases d) auto

lemma bounded_subkeys_spec:
  "\<And>v n. bounded_subkeys depth d remaining = Inr (v, n) \<longleftrightarrow>
     v = d \<and> subkey_admitted depth d \<and> json_nodes d + n = remaining"
  "\<And>vs n. subkey_members depth found ms remaining = Inr (vs, n) \<longleftrightarrow>
     vs = found @ ms \<and> distinct (map fst ms) \<and> fst ` set found \<inter> fst ` set ms = {} \<and>
     list_all (\<lambda>(k, e). subkey_admitted (Suc depth) e) ms \<and> keyed_nodes ms + n = remaining"
proof (induction depth d remaining and depth found ms remaining
    rule: bounded_subkeys_subkey_members.induct)
  case (1 depth d remaining)
  show ?case
  proof (cases "MAX_KV2_SUBKEY_DEPTH < depth \<or> remaining = 0")
    case True
    then show ?thesis using json_nodes_pos [of d]
      by (auto simp: bounded_subkeys.simps subkey_admitted_def)
  next
    case False
    show ?thesis
    proof (cases d)
      case (JObject ms)
      then show ?thesis using 1 False
        by (auto simp: bounded_subkeys.simps rmap_Inr_iff subkey_admitted_object)
    qed (use False in \<open>auto simp: bounded_subkeys.simps subkey_admitted_def\<close>)
  qed
next
  case (2 depth found remaining)
  then show ?case by auto
next
  case (3 depth found key e rest remaining)
  show ?case
  proof (cases "subkey_admitted (Suc depth) e \<and> json_nodes e \<le> remaining \<and>
      key \<notin> set (map fst found)")
    case True
    then have pos: "0 < remaining" using json_nodes_pos [of e] by simp
    have e: "bounded_subkeys (Suc depth) e remaining = Inr (e, remaining - json_nodes e)"
      using 3(1) [OF pos] True by simp
    have s: "subkey_members depth found ((key, e) # rest) remaining =
        subkey_members depth (found @ [(key, e)]) rest (remaining - json_nodes e)"
      using True pos by (simp add: e)
    have d: "fst ` set (found @ [(key, e)]) \<inter> fst ` set rest = {} \<and> distinct (map fst rest) \<longleftrightarrow>
        fst ` set found \<inter> fst ` set ((key, e) # rest) = {} \<and> distinct (map fst ((key, e) # rest))"
      using True by auto
    have n: "keyed_nodes rest + k = remaining - json_nodes e \<longleftrightarrow>
        keyed_nodes ((key, e) # rest) + k = remaining" for k
      using True by auto
    have l: "list_all (\<lambda>(k, e). subkey_admitted (Suc depth) e) ((key, e) # rest) \<longleftrightarrow>
        list_all (\<lambda>(k, e). subkey_admitted (Suc depth) e) rest"
      using True by simp
    have v: "(found @ [(key, e)]) @ rest = found @ (key, e) # rest" by simp
    have new: "\<not> key \<in> set (map fst found)" using True by simp
    show ?thesis unfolding s 3(2) [OF pos e refl new] n l v using d by argo
  next
    case False
    obtain m where m: "subkey_members depth found ((key, e) # rest) remaining = Inl m"
    proof (cases "0 < remaining")
      case pos: True
      show ?thesis
      proof (cases "bounded_subkeys (Suc depth) e remaining")
        case (Inr r)
        then obtain v n where r: "bounded_subkeys (Suc depth) e remaining = Inr (v, n)"
          by (cases r) simp
        then have "key \<in> set (map fst found)" using 3(1) [OF pos] False by auto
        then show ?thesis using that r pos by simp
      qed (use that pos in simp)
    qed (use that in simp)
    have "\<not> (subkey_admitted (Suc depth) e \<and> keyed_nodes ((key, e) # rest) + n = remaining \<and>
        fst ` set found \<inter> fst ` set ((key, e) # rest) = {})" for n
      using False by auto
    then show ?thesis unfolding m by (simp del: keyed_nodes.simps) blast
  qed
qed

text \<open>The recursive key shape of a KV secret is decoded exactly when every leaf is null (so no secret
  value can come along), no object repeats a key, and there are at most 64 levels and 4096 nodes.\<close>

theorem deserialize_bounded_subkeys_iff:
  "deserialize_bounded_subkeys d = Inr v \<longleftrightarrow>
     v = d \<and> subkey_shape d \<and> json_depth d \<le> 64 \<and> json_nodes d \<le> 4096"
proof -
  have "deserialize_bounded_subkeys d = Inr v \<longleftrightarrow>
      (\<exists>n. bounded_subkeys 0 d MAX_KV2_SUBKEY_NODES = Inr (v, n))"
    by (auto simp: deserialize_bounded_subkeys_def rmap_Inr_iff)
  also have "\<dots> \<longleftrightarrow> v = d \<and> subkey_admitted 0 d \<and> json_nodes d \<le> 4096"
    unfolding bounded_subkeys_spec
    by (auto simp: MAX_KV2_SUBKEY_NODES_def MAX_RESPONSE_STRINGS_def intro: le_add_diff_inverse)
  finally show ?thesis by (auto simp: subkey_admitted_def MAX_KV2_SUBKEY_DEPTH_def)
qed

section \<open>Error lists\<close>

text \<open>\<open>ErrorListVisitor\<close> keeps the first 16 errors and skips what follows, whatever it is.\<close>

fun error_list :: "string list \<Rightarrow> json list \<Rightarrow> string list decoded" where
  "error_list errors [] = Inr errors"
| "error_list errors (e # rest) =
     (if length errors < MAX_API_ERRORS
      then rbind (as_string e) (\<lambda>error. error_list (errors @ [error]) rest)
      else Inr errors)"

definition deserialize_error_list :: "json \<Rightarrow> string list decoded" where
  "deserialize_error_list document =
     (case document of JArray es \<Rightarrow> error_list [] es | _ \<Rightarrow> Inl invalid_type)"

text \<open>The derived deserialiser of \<open>ErrorEnvelope\<close>: unknown members are skipped, a missing list is
  empty; the derive also reads a struct from an array.\<close>

definition error_envelope :: "json \<Rightarrow> string list decoded" where
  "error_envelope document =
     (case document of
        JObject ms \<Rightarrow>
          (case filter (\<lambda>(k, e). k = ''errors'') ms of
             [] \<Rightarrow> Inr []
           | [(k, e)] \<Rightarrow> deserialize_error_list e
           | _ \<Rightarrow> Inl ''duplicate field `errors`'')
      | JArray [] \<Rightarrow> Inr []
      | JArray [e] \<Rightarrow> deserialize_error_list e
      | _ \<Rightarrow> Inl invalid_type)"

lemma error_list_iff:
  "length errors \<le> MAX_API_ERRORS \<Longrightarrow>
   error_list errors es = Inr r \<longleftrightarrow>
     (\<exists>new. r = errors @ new \<and> map JString new = take (MAX_API_ERRORS - length errors) es)"
proof (induction es arbitrary: errors)
  case (Cons e es)
  show ?case
  proof (cases "length errors < MAX_API_ERRORS")
    case True
    then have t: "take (MAX_API_ERRORS - length errors) (e # es) =
        e # take (MAX_API_ERRORS - length (errors @ [s])) es" for s
      using Suc_diff_Suc [OF True] by (simp flip: Suc_diff_Suc)
    show ?thesis
    proof (cases "as_string e")
      case (Inr s)
      then have e: "e = JString s" by (simp add: as_string_iff)
      have l: "length (errors @ [s]) \<le> MAX_API_ERRORS" using True by simp
      show ?thesis
        unfolding error_list.simps if_P [OF True] Inr rbind.simps Cons.IH [OF l] t [of s]
        by (auto simp: e map_eq_Cons_conv)
    next
      case (Inl m)
      then have "e \<noteq> JString s" for s by auto
      then show ?thesis unfolding t [of "[]"] using True Inl by (auto simp: map_eq_Cons_conv)
    qed
  qed (use Cons.prems in auto)
qed auto

text \<open>A list of errors is kept up to its sixteenth element; what follows is not looked at.\<close>

lemma deserialize_error_list_iff:
  "deserialize_error_list d = Inr r \<longleftrightarrow>
     (\<exists>es. d = JArray es \<and> map JString r = take 16 es)"
  using error_list_iff [of "[]"]
  by (cases d) (auto simp: deserialize_error_list_def MAX_API_ERRORS_def)

section \<open>Pagination\<close>

record list_page_options =
  lp_after :: "string option"
  lp_limit :: "64 word option"

definition list_page_new :: list_page_options where
  "list_page_new = \<lparr>lp_after = None, lp_limit = None\<rparr>"

definition list_page_after :: "string \<Rightarrow> list_page_options \<Rightarrow> list_page_options res" where
  "list_page_after cursor p =
     rbind (validate_endpoint_path cursor) (\<lambda>segments.
       if segments = [] then Inl (InvalidPath ''pagination cursor must not be empty'')
       else Inr (p\<lparr>lp_after := Some (join_with ''/'' segments)\<rparr>))"

definition list_page_limit :: "64 word \<Rightarrow> list_page_options \<Rightarrow> list_page_options res" where
  "list_page_limit limit p =
     (if limit = 0
      then Inl (InvalidParameter ''pagination limit must be greater than zero'')
      else if of_nat MAX_RESPONSE_STRINGS < limit
      then Inl (InvalidParameter ''pagination limit exceeds maximum allowed value'')
      else Inr (p\<lparr>lp_limit := Some limit\<rparr>))"

definition from_after_limit :: "string option \<Rightarrow> 64 word option \<Rightarrow> list_page_options res" where
  "from_after_limit after limit =
     rbind (case after of None \<Rightarrow> Inr list_page_new | Some a \<Rightarrow> list_page_after a list_page_new)
       (\<lambda>options. case limit of None \<Rightarrow> Inr options | Some l \<Rightarrow> list_page_limit l options)"

definition query_pairs :: "list_page_options \<Rightarrow> (string \<times> string) list" where
  "query_pairs p =
     (case lp_after p of None \<Rightarrow> [] | Some a \<Rightarrow> [(''after'', a)]) @
     (case lp_limit p of None \<Rightarrow> [] | Some l \<Rightarrow> [(''limit'', dec_string (unat l))])"

end
