(* ===== verification/Bao_Wire.thy ===== *)
theory Bao_Wire
  imports Bao_Requests Bao_Json
begin

text \<open>
  What the typed modules share: the response envelope, and the vocabulary for what a typed operation
  puts on the wire. \<open>sends\<close> says that an operation sends at most one request, with the given
  method, to the given path and query; each request operation of \<open>client.rs\<close> does.
\<close>

section \<open>Typed responses\<close>

text \<open>\<open>ResponseEnvelope\<close>: a lease, its duration, warnings, wrapping information beside the data.\<close>

record wrap_info =
  wi_token :: string
  wi_accessor :: "string option"
  wi_ttl :: "64 word"
  wi_creation_time :: "string option"
  wi_creation_path :: "string option"

record 'a response_envelope =
  env_data :: 'a
  env_lease_id :: string
  env_lease_duration :: "64 word"
  env_renewable :: bool
  env_warnings :: "string list option"
  env_wrap_info :: "wrap_info option"

definition smap :: "('a \<Rightarrow> 'b) \<Rightarrow> 'a sent \<Rightarrow> 'b sent" where
  "smap f s = (rmap f (fst s), snd s)"

text \<open>\<open>Err(error) if error.is_not_found() => Ok(None)\<close>.\<close>

definition optional_on_not_found :: "'a sent \<Rightarrow> 'a option sent" where
  "optional_on_not_found s =
     (case fst s of
        Inr x \<Rightarrow> Inr (Some x)
      | Inl e \<Rightarrow> if is_not_found e then Inr None else Inl e, snd s)"

lemma sent_safe_smap [simp]: "sent_safe env cl (smap f s) \<longleftrightarrow> sent_safe env cl s"
  by (simp add: sent_safe_def smap_def)

lemma sent_safe_optional [simp]:
  "sent_safe env cl (optional_on_not_found s) \<longleftrightarrow> sent_safe env cl s"
  by (simp add: sent_safe_def optional_on_not_found_def)

section \<open>Where a request goes\<close>

definition addressed ::
  "http_env \<Rightarrow> client \<Rightarrow> string \<Rightarrow> string \<Rightarrow> (string \<times> string) list \<Rightarrow>
   http_settings \<times> http_request \<Rightarrow> bool" where
  "addressed env cl m path query x \<longleftrightarrow>
     rq_method (snd x) = m \<and>
     (case url_for_path env cl path of
        Inl e \<Rightarrow> False
      | Inr u \<Rightarrow> rq_url (snd x) = with_query env query u)"

definition sends ::
  "http_env \<Rightarrow> client \<Rightarrow> string \<Rightarrow> string \<Rightarrow> (string \<times> string) list \<Rightarrow> 'a sent \<Rightarrow> bool" where
  "sends env cl m path query s \<longleftrightarrow>
     length (snd s) \<le> 1 \<and> list_all (addressed env cl m path query) (snd s)"

named_theorems sends_intros \<open>where the request of an operation goes, by the way it is composed\<close>

lemma sends_pure [sends_intros]: "sends env cl m path query (pure r)"
  by (simp add: sends_def)

lemma sends_pure_bind [sends_intros]:
  "(\<And>x. r = Inr x \<Longrightarrow> sends env cl m path query (f x)) \<Longrightarrow>
   sends env cl m path query (sbind (pure r) f)"
  by (cases r) (auto simp: sbind_pure sends_pure)

lemma snd_pure [simp]: "snd (pure r) = []"
  by (simp add: pure_def)

lemma sends_bind:
  "sends env cl m path query s \<Longrightarrow> (\<And>x. snd (f x) = []) \<Longrightarrow> sends env cl m path query (sbind s f)"
  by (simp add: sends_def sbind_silent)

lemma sends_smap [simp]: "sends env cl m path query (smap f s) \<longleftrightarrow> sends env cl m path query s"
  by (simp add: sends_def smap_def)

lemma sends_optional [simp]:
  "sends env cl m path query (optional_on_not_found s) \<longleftrightarrow> sends env cl m path query s"
  by (simp add: sends_def optional_on_not_found_def)

text \<open>The senders keep the method and the URL they are given.\<close>

definition posts :: "string \<Rightarrow> url \<Rightarrow> 'a sent \<Rightarrow> bool" where
  "posts m u s \<longleftrightarrow> length (snd s) \<le> 1 \<and> list_all (\<lambda>x. rq_method (snd x) = m \<and> rq_url (snd x) = u) (snd s)"

lemma sends_posts:
  "url_for_path env cl path = Inr u \<Longrightarrow> posts m (with_query env query u) s \<Longrightarrow>
   sends env cl m path query s"
  by (auto simp: sends_def posts_def addressed_def list_all_iff)

lemma identity_headers_target:
  "identity_headers env cl rq = Inr rq' \<Longrightarrow> rq_method rq' = rq_method rq \<and> rq_url rq' = rq_url rq"
  by (auto simp: identity_headers_def rbind_Inr_iff rmap_Inr_iff set_header_def split: option.splits)

lemma posts_pure_bind:
  "(\<And>x. r = Inr x \<Longrightarrow> posts m u (f x)) \<Longrightarrow> posts m u (sbind (pure r) f)"
  by (cases r) (auto simp: sbind_pure posts_def pure_def)

lemma posts_execute:
  "rq_method rq = m \<Longrightarrow> rq_url rq = u \<Longrightarrow> posts m u (execute_openbao_http_request env http rq)"
  by (simp add: posts_def execute_openbao_http_request_def)

lemma posts_public: "posts m u (send_non_sensitive_json_request env cl m u)"
  by (simp add: send_non_sensitive_json_request_def posts_execute set_header_def request_new_def)

lemma posts_silent_bind:
  "snd s = [] \<Longrightarrow> (\<And>x. fst s = Inr x \<Longrightarrow> posts m u (f x)) \<Longrightarrow> posts m u (sbind s f)"
  by (cases "(s, f)" rule: sbind.cases) (auto simp: posts_def split: prod.splits)

lemma insert_headers_keep:
  "rq_method (rq\<lparr>rq_headers := h\<rparr>) = rq_method rq" "rq_url (rq\<lparr>rq_headers := h\<rparr>) = rq_url rq"
  by simp_all

lemma set_header_target [simp]:
  "rq_method (set_header n v rq) = rq_method rq" "rq_url (set_header n v rq) = rq_url rq"
  by (simp_all add: set_header_def)

lemma request_new_target [simp]:
  "rq_method (request_new m u) = m" "rq_url (request_new m u) = u"
  by (simp_all add: request_new_def)

lemma posts_sensitive: "posts m u (send_sensitive_json_request env cl m u headers body)"
proof -
  have body: "rq_method rq' = rq_method rq \<and> rq_url rq' = rq_url rq"
    if "fst (case body of None \<Rightarrow> pure (Inr rq)
      | Some payload \<Rightarrow>
          sbind (pure (fst (encode_bounded_json_body (san env) payload (sanitizing_body_buffer cl))))
            (\<lambda>encoded. let rq3 = (if list_ex (\<lambda>(name, _). name = ''content-type'') headers then rq
                else set_header ''content-type'' (from_static ''application/json'') rq)
              in pure (Inr (rq3\<lparr>rq_body := Some (BodyBytes encoded)\<rparr>)))) = Inr rq'" for rq rq'
    using that
    by (cases body; cases "fst (encode_bounded_json_body (san env) (the body) (sanitizing_body_buffer cl))")
      (auto simp: pure_def Let_def split: if_splits)
  show ?thesis
    unfolding send_sensitive_json_request_def Let_def
  proof (intro posts_pure_bind posts_silent_bind posts_execute)
    fix x rq2 rq
    assume id: "identity_headers env cl
        ((set_header ''x-vault-request'' (from_static ''true'')
          (set_header ''accept'' (from_static ''application/json'') (request_new m u)))
         \<lparr>rq_headers := insert_headers headers (rq_headers
            (set_header ''x-vault-request'' (from_static ''true'')
              (set_header ''accept'' (from_static ''application/json'') (request_new m u))))\<rparr>) = Inr rq2"
      and rq: "fst (case body of None \<Rightarrow> pure (Inr rq2)
        | Some payload \<Rightarrow>
          sbind (pure (fst (encode_bounded_json_body (san env) payload (sanitizing_body_buffer cl))))
            (\<lambda>encoded. pure (Inr ((if list_ex (\<lambda>(name, _). name = ''content-type'') headers then rq2
                else set_header ''content-type'' (from_static ''application/json'') rq2)
              \<lparr>rq_body := Some (BodyBytes encoded)\<rparr>)))) = Inr rq"
    have "rq_method rq2 = m \<and> rq_url rq2 = u" using identity_headers_target [OF id] by simp
    then show "rq_method rq = m" "rq_url rq = u" using body [unfolded Let_def, OF rq] by simp_all
  next
    fix rq2
    show "snd (case body of None \<Rightarrow> pure (Inr rq2)
        | Some payload \<Rightarrow>
          sbind (pure (fst (encode_bounded_json_body (san env) payload (sanitizing_body_buffer cl))))
            (\<lambda>encoded. pure (Inr ((if list_ex (\<lambda>(name, _). name = ''content-type'') headers then rq2
                else set_header ''content-type'' (from_static ''application/json'') rq2)
              \<lparr>rq_body := Some (BodyBytes encoded)\<rparr>)))) = []"
      by (cases body; cases "fst (encode_bounded_json_body (san env) (the body) (sanitizing_body_buffer cl))")
        (auto simp: pure_def)
  qed
qed

lemma posts_bytes: "posts m u (send_sensitive_bytes_request env cl m u headers body)"
proof -
  let ?put = "\<lambda>rq2. case body of
      None \<Rightarrow> pure (Inr rq2)
    | Some bytes \<Rightarrow>
        if max_request_bytes (cl_config cl) < length bytes then pure (Inl request_body_too_large)
        else
          (case body_try_extend (san env) bytes (sanitizing_body_buffer cl) of
             (Inl e, _) \<Rightarrow> pure (Inl e)
           | (Inr _, b) \<Rightarrow> pure (Inr ((if rq_headers rq2 ''content-type'' \<noteq> None then rq2
               else set_header ''content-type'' (from_static ''application/octet-stream'') rq2)
              \<lparr>rq_body := Some (BodyBytes b)\<rparr>)))"
  have body: "snd (?put rq) = [] \<and>
      (fst (?put rq) = Inr rq' \<longrightarrow> rq_method rq' = rq_method rq \<and> rq_url rq' = rq_url rq)" for rq rq'
    by (cases body; cases "body_try_extend (san env) (the body) (sanitizing_body_buffer cl)")
      (auto simp: pure_def split: if_splits sum.splits)
  show ?thesis
    unfolding send_sensitive_bytes_request_def Let_def
  proof (intro posts_pure_bind posts_silent_bind posts_execute)
    fix x rq2 rq
    assume id: "identity_headers env cl
        (set_header ''x-vault-request'' (from_static ''true'')
          ((request_new m u)\<lparr>rq_headers := insert_headers headers (rq_headers (request_new m u))\<rparr>)) = Inr rq2"
      and rq: "fst (?put rq2) = Inr rq"
    have "rq_method rq2 = m \<and> rq_url rq2 = u" using identity_headers_target [OF id] by simp
    then show "rq_method rq = m" "rq_url rq = u" using body [of rq2 rq] rq by simp_all
  next
    fix rq2 show "snd (?put rq2) = []" using body by blast
  qed
qed

lemma posts_prevalidated:
  "posts m u (send_sensitive_prevalidated_body_request env cl m u headers body)"
  unfolding send_sensitive_prevalidated_body_request_def Let_def
  by (intro posts_pure_bind posts_execute) (auto dest: identity_headers_target)

subsection \<open>The request operations\<close>

lemma sends_json [sends_intros]:
  "sends env cl m path query
     (request_json_query_headers_accepting env cl from_json m path query headers body st)"
  unfolding request_json_query_headers_accepting_def Let_def
proof (intro sends_pure_bind sends_bind)
  fix u assume "url_for_path env cl path = Inr u"
  then show "sends env cl m path query
      (if is_sensitive_request cl query headers body
       then send_sensitive_json_request env cl m (with_query env query u) headers body
       else send_non_sensitive_json_request env cl m (with_query env query u))"
    by (auto intro: sends_posts posts_sensitive posts_public)
qed (auto simp: pure_def)

lemma sends_bytes [sends_intros]:
  "sends env cl m path query
     (request_bytes_headers_accepting_internal env cl m path query headers body st)"
  unfolding request_bytes_headers_accepting_internal_def
  by (intro sends_pure_bind sends_bind)
    (auto intro: sends_posts posts_bytes simp: sbind_silent split: option.splits)

lemma resolved_route:
  "resolve_registered_openbao_route table plugins outcome m binding query = Inr (r, wire) \<Longrightarrow>
   re_method r = m \<and> (\<exists>scope registry. binding_paths binding = Inr (scope, registry, wire))"
  unfolding resolve_registered_openbao_route_def
  by (auto simp: rbind_Inr_iff rmap_Inr_iff dest: resolve_registered_method)

text \<open>The wire path of a binding.\<close>

fun binding_wire :: "route_binding \<Rightarrow> string" where
  "binding_wire (RouteExact scope path) = path"
| "binding_wire (AuthMount documented actual wire) = wire"
| "binding_wire (SecretMount scope documented actual wire) = wire"
| "binding_wire (IdentityMount registry wire) = wire"

lemma binding_paths_wire:
  "binding_paths binding = Inr (scope, registry, wire) \<Longrightarrow> wire = binding_wire binding"
  by (cases binding) (auto simp: rmap_Inr_iff)

lemma sends_route [sends_intros]:
  "sends env cl m (binding_wire binding) query
     (request_route_json env cl from_json m binding query headers body st)"
  unfolding request_route_json_def resolve_route_def
proof (intro sends_pure_bind, clarify)
  fix r wire
  assume "resolve_registered_openbao_route (ops env) (external_plugins (cl_config cl)) (ensured env)
      m binding query = Inr (r, wire)"
  then have "re_method r = m" "wire = binding_wire binding"
    by (auto dest: resolved_route binding_paths_wire)
  then show "sends env cl m (binding_wire binding) query
      (request_json_query_headers_accepting env cl from_json (re_method r) wire query headers body st)"
    by (auto intro: sends_json)
qed

lemma sends_secret [sends_intros]:
  "sends env cl m path [] (request_secret_json_internal env cl from_json scope d a m path body)"
  "sends env cl m path [] (request_secret_json_accepting env cl from_json scope d a m path body st)"
  "sends env cl m path query
     (request_secret_json_query_headers_accepting env cl from_json scope d a m path query headers body st)"
  using sends_route [where binding = "SecretMount scope d a path"]
  by (simp_all add: request_secret_json_internal_def request_secret_json_accepting_def
      request_secret_json_query_headers_accepting_def)

lemma sends_auth [sends_intros]:
  "sends env cl m path [] (request_auth_json_internal env cl from_json d a m path body)"
  "sends env cl m path [] (request_auth_json_accepting env cl from_json d a m path body st)"
  "sends env cl m path query
     (request_auth_json_query_accepting env cl from_json d a m path query body st)"
  "sends env cl m path query
     (request_auth_json_query_headers_accepting env cl from_json d a m path query headers body st)"
  using sends_route [where binding = "AuthMount d a path"]
  by (simp_all add: request_auth_json_internal_def request_auth_json_accepting_def
      request_auth_json_query_accepting_def request_auth_json_query_headers_accepting_def)

lemma sends_sys [sends_intros]:
  "sends env cl m path [] (request_sys_json_internal env cl from_json m path body)"
  "sends env cl m path [] (request_sys_json_accepting env cl from_json m path body st)"
  "sends env cl m path query (request_sys_json_query_accepting env cl from_json m path query body st)"
  "sends env cl m path query
     (request_sys_json_query_headers_accepting env cl from_json m path query headers body st)"
  using sends_route [where binding = "RouteExact ''/sys/'' path"]
  by (simp_all add: request_sys_json_internal_def request_sys_json_accepting_def
      request_sys_json_query_accepting_def request_sys_json_query_headers_accepting_def)

section \<open>Joined paths\<close>

text \<open>A path joined from safe segments is read back as those segments, when it is accepted at all.\<close>

lemma endpoint_path_join:
  assumes "list_all safe_segment segs" "validate_endpoint_path (join_with ''/'' segs) = Inr w"
  shows "w = segs"
proof -
  have w: "list_all safe_segment w" "trim_matches CHR ''/'' (join_with ''/'' segs) = join_path w"
    using assms(2) by (simp_all add: validate_endpoint_path_def validate_path_iff)
  show ?thesis
  proof (cases "segs = []")
    case True
    with w have "join_path w = []" by (simp add: trim_matches_def)
    then show ?thesis
      using w(1) True join_with_eq_Nil [of w "''/''"] by (auto simp: list_all_iff safe_segment_def)
  next
    case False
    then have j: "join_path segs = join_path w" using trim_join_path [OF False assms(1)] w(2) by simp
    moreover have "join_path segs \<noteq> []"
      using False assms(1) join_with_eq_Nil [of segs "''/''"] by (auto simp: list_all_iff safe_segment_def)
    ultimately have "w \<noteq> []" by auto
    then have "split_on CHR ''/'' (join_path w) = w" by (rule split_on_join_path [OF _ w(1)])
    with split_on_join_path [OF False assms(1)] j show ?thesis by metis
  qed
qed

text \<open>The URL of a request below the API root, segment by segment.\<close>

definition wire_url :: "http_env \<Rightarrow> client \<Rightarrow> string list \<Rightarrow> url \<Rightarrow> bool" where
  "wire_url env cl segs u \<longleftrightarrow>
     same_server (base_url (cl_config cl)) u \<and>
     url_path u = concat (map (\<lambda>s. CHR ''/'' # percent env s) (''v1'' # segs))"

lemma url_for_joined:
  assumes "url_for_path env cl (join_with ''/'' segs) = Inr u" "list_all safe_segment segs"
  shows "wire_url env cl segs (with_query env query u)"
proof -
  from assms(1) obtain w where w: "validate_endpoint_path (join_with ''/'' segs) = Inr w"
    and u: "url_path u = concat (map (\<lambda>s. CHR ''/'' # percent env s) (''v1'' # w))"
    by (auto simp: url_for_path_def rbind_Inr_iff split: if_splits)
  have "same_server (base_url (cl_config cl)) (with_query env query u)"
    using api_url_with_query [OF api_url_of [OF assms(1)]] by (simp add: api_url_def)
  moreover have "url_path (with_query env query u) = url_path u"
    using append_pairs_keeps by (simp add: with_query_def)
  ultimately show ?thesis using u endpoint_path_join [OF assms(2) w] by (simp add: wire_url_def)
qed

text \<open>What \<open>sends\<close> means for a path that was joined from segments.\<close>

lemma sends_joined:
  assumes "sends env cl m (join_with ''/'' segs) query s" "list_all safe_segment segs"
  shows "list_all (\<lambda>(http, rq). rq_method rq = m \<and> wire_url env cl segs (rq_url rq)) (snd s)"
proof (cases "url_for_path env cl (join_with ''/'' segs)")
  case (Inr u)
  with assms(1) url_for_joined [OF Inr assms(2)] show ?thesis
    by (auto simp: sends_def addressed_def list_all_iff)
qed (use assms(1) in \<open>auto simp: sends_def addressed_def list_all_iff\<close>)

lemma validated_safe:
  "validate_mount_path v = Inr segs \<Longrightarrow> list_all safe_segment segs"
  "validate_endpoint_path v = Inr segs \<Longrightarrow> list_all safe_segment segs"
  by (simp_all add: validate_mount_path_def validate_endpoint_path_def validate_path_safe)

definition goes_to ::
  "http_env \<Rightarrow> client \<Rightarrow> string \<Rightarrow> string list \<Rightarrow> 'a sent \<Rightarrow> bool" where
  "goes_to env cl m segs s \<longleftrightarrow> length (snd s) \<le> 1 \<and>
     list_all (\<lambda>(http, rq). rq_method rq = m \<and> wire_url env cl segs (rq_url rq)) (snd s)"

lemma sends_goes_to:
  "sends env cl m (join_with ''/'' segs) query s \<Longrightarrow> list_all safe_segment segs \<Longrightarrow>
   goes_to env cl m segs s"
  using sends_joined [of env cl m segs query s] by (simp add: goes_to_def sends_def)

lemma goes_to_pure [simp]: "goes_to env cl m segs (pure r)"
  by (simp add: goes_to_def)

lemma goes_to_smap [simp]: "goes_to env cl m segs (smap f s) \<longleftrightarrow> goes_to env cl m segs s"
  by (simp add: goes_to_def smap_def)

lemma goes_to_optional [simp]:
  "goes_to env cl m segs (optional_on_not_found s) \<longleftrightarrow> goes_to env cl m segs s"
  by (simp add: goes_to_def optional_on_not_found_def)

lemma goes_to_pure_bind:
  "(\<And>x. r = Inr x \<Longrightarrow> goes_to env cl m segs (f x)) \<Longrightarrow> goes_to env cl m segs (sbind (pure r) f)"
  by (cases r) (auto simp: sbind_pure)

lemma goes_to_path:
  "(\<And>p. r = Inr p \<Longrightarrow> p = join_with ''/'' segs) \<Longrightarrow> list_all safe_segment segs \<Longrightarrow>
   (\<And>p. sends env cl m p query (f p)) \<Longrightarrow> goes_to env cl m segs (sbind (pure r) f)"
  by (rule goes_to_pure_bind) (metis sends_goes_to)

end
