(* ===== verification/Bao_Kv.thy ===== *)
theory Bao_Kv
  imports Bao_Wire
begin

text \<open>
  The key-value engines: \<open>secrets/kv1.rs\<close>, \<open>secrets/kv2.rs\<close> and \<open>secrets/cubbyhole.rs\<close>. A handle is
  the list of its mount segments. \<open>from_json\<close> is the deserialiser of the response document and
  \<open>to_json\<close> the serialiser of a payload.
\<close>

section \<open>Key-value engine, version 1\<close>

definition kv1 :: "string \<Rightarrow> string list res" where
  "kv1 mount = validate_mount_path mount"

definition kv1_path :: "string list \<Rightarrow> string \<Rightarrow> string res" where
  "kv1_path mount path =
     rbind (validate_endpoint_path path) (\<lambda>segments. Inr (join_with ''/'' (mount @ segments)))"

definition kv1_read ::
  "http_env \<Rightarrow> client \<Rightarrow> (string \<Rightarrow> 'a response_envelope option) \<Rightarrow> string list \<Rightarrow> string \<Rightarrow> 'a sent" where
  "kv1_read env cl from_json mount path =
     sbind (pure (kv1_path mount path)) (\<lambda>p.
       smap env_data (request_secret_json_internal env cl from_json ''/secret/'' ''secret''
         (join_with ''/'' mount) ''GET'' p None))"

definition kv1_write ::
  "http_env \<Rightarrow> client \<Rightarrow> (string \<Rightarrow> unit option) \<Rightarrow> string list \<Rightarrow> string \<Rightarrow> payload \<Rightarrow> unit sent" where
  "kv1_write env cl from_json mount path data =
     sbind (pure (kv1_path mount path)) (\<lambda>p.
       request_secret_json_internal env cl from_json ''/secret/'' ''secret''
         (join_with ''/'' mount) ''POST'' p (Some data))"

definition kv1_delete ::
  "http_env \<Rightarrow> client \<Rightarrow> (string \<Rightarrow> unit option) \<Rightarrow> string list \<Rightarrow> string \<Rightarrow> unit sent" where
  "kv1_delete env cl from_json mount path =
     sbind (pure (kv1_path mount path)) (\<lambda>p.
       request_secret_json_internal env cl from_json ''/secret/'' ''secret''
         (join_with ''/'' mount) ''DELETE'' p None)"

definition kv1_enumerate ::
  "http_env \<Rightarrow> client \<Rightarrow> (string \<Rightarrow> string list response_envelope option) \<Rightarrow> string list \<Rightarrow>
   string \<Rightarrow> string \<Rightarrow> string list sent" where
  "kv1_enumerate env cl from_json mount m path =
     sbind (pure (kv1_path mount path)) (\<lambda>p.
       smap env_data (request_secret_json_internal env cl from_json ''/secret/'' ''secret''
         (join_with ''/'' mount) m p None))"

definition kv1_list ::
  "http_env \<Rightarrow> client \<Rightarrow> (string \<Rightarrow> string list response_envelope option) \<Rightarrow> string list \<Rightarrow>
   string \<Rightarrow> string list sent" where
  "kv1_list env cl from_json mount path = kv1_enumerate env cl from_json mount ''LIST'' path"

definition kv1_scan ::
  "http_env \<Rightarrow> client \<Rightarrow> (string \<Rightarrow> string list response_envelope option) \<Rightarrow> string list \<Rightarrow>
   string \<Rightarrow> string list sent" where
  "kv1_scan env cl from_json mount path = kv1_enumerate env cl from_json mount ''SCAN'' path"

section \<open>Cubbyhole\<close>

definition cubbyhole_at :: "string \<Rightarrow> string list res" where
  "cubbyhole_at mount = validate_mount_path mount"

definition cubbyhole :: "string list res" where
  "cubbyhole = cubbyhole_at ''cubbyhole''"

definition cubbyhole_path :: "string list \<Rightarrow> string \<Rightarrow> string res" where
  "cubbyhole_path mount path =
     rbind (validate_endpoint_path path) (\<lambda>segments. Inr (join_with ''/'' (mount @ segments)))"

definition cubbyhole_read ::
  "http_env \<Rightarrow> client \<Rightarrow> (string \<Rightarrow> 'a response_envelope option) \<Rightarrow> string list \<Rightarrow> string \<Rightarrow> 'a sent" where
  "cubbyhole_read env cl from_json mount path =
     sbind (pure (cubbyhole_path mount path)) (\<lambda>p.
       smap env_data (request_secret_json_internal env cl from_json ''/cubbyhole/'' ''cubbyhole''
         (join_with ''/'' mount) ''GET'' p None))"

definition cubbyhole_read_optional ::
  "http_env \<Rightarrow> client \<Rightarrow> (string \<Rightarrow> 'a response_envelope option) \<Rightarrow> string list \<Rightarrow> string \<Rightarrow>
   'a option sent" where
  "cubbyhole_read_optional env cl from_json mount path =
     optional_on_not_found (cubbyhole_read env cl from_json mount path)"

definition cubbyhole_write ::
  "http_env \<Rightarrow> client \<Rightarrow> (string \<Rightarrow> unit option) \<Rightarrow> string list \<Rightarrow> string \<Rightarrow> payload \<Rightarrow> unit sent" where
  "cubbyhole_write env cl from_json mount path data =
     sbind (pure (cubbyhole_path mount path)) (\<lambda>p.
       request_secret_json_internal env cl from_json ''/cubbyhole/'' ''cubbyhole''
         (join_with ''/'' mount) ''POST'' p (Some data))"

definition cubbyhole_delete ::
  "http_env \<Rightarrow> client \<Rightarrow> (string \<Rightarrow> unit option) \<Rightarrow> string list \<Rightarrow> string \<Rightarrow> unit sent" where
  "cubbyhole_delete env cl from_json mount path =
     sbind (pure (cubbyhole_path mount path)) (\<lambda>p.
       request_secret_json_internal env cl from_json ''/cubbyhole/'' ''cubbyhole''
         (join_with ''/'' mount) ''DELETE'' p None)"

definition cubbyhole_list ::
  "http_env \<Rightarrow> client \<Rightarrow> (string \<Rightarrow> string list response_envelope option) \<Rightarrow> string list \<Rightarrow>
   string \<Rightarrow> string list sent" where
  "cubbyhole_list env cl from_json mount path =
     sbind (pure (cubbyhole_path mount path)) (\<lambda>p.
       smap env_data (request_secret_json_internal env cl from_json ''/cubbyhole/'' ''cubbyhole''
         (join_with ''/'' mount) ''LIST'' p None))"

section \<open>Key-value engine, version 2\<close>

record kv2_metadata =
  km_created_time :: string
  km_deletion_time :: string
  km_destroyed :: bool
  km_version :: "64 word"

record 'a kv2_secret =
  ks_data :: 'a
  ks_metadata :: kv2_metadata

text \<open>\<open>Kv2ServiceConfig\<close>: secret values by key.\<close>

type_synonym kv2_service_config = "(string \<times> string) list"

definition service_config_get :: "kv2_service_config \<Rightarrow> string \<Rightarrow> string option" where
  "service_config_get c key = map_of c key"

definition service_config_required :: "kv2_service_config \<Rightarrow> string \<Rightarrow> string res" where
  "service_config_required c key =
     ok_or (service_config_get c key)
       (InvalidParameter (''required config key `'' @ key @ ''` is missing''))"

text \<open>\<open>Kv2WritePayload\<close>: the data with an optional check-and-set version.\<close>

record 'a kv2_write_payload =
  wp_data :: 'a
  wp_cas :: "64 word option option"

definition kv2 :: "string \<Rightarrow> string list res" where
  "kv2 mount = validate_mount_path mount"

definition kv2_data_path :: "string list \<Rightarrow> string \<Rightarrow> string res" where
  "kv2_data_path mount path =
     rbind (validate_endpoint_path path) (\<lambda>segments.
       Inr (join_with ''/'' (mount @ [''data''] @ segments)))"

definition kv2_metadata_path :: "string list \<Rightarrow> string \<Rightarrow> string res" where
  "kv2_metadata_path mount path =
     rbind (validate_endpoint_path path) (\<lambda>segments.
       Inr (join_with ''/'' (mount @ [''metadata''] @ segments)))"

definition kv2_version_path :: "string list \<Rightarrow> string \<Rightarrow> string \<Rightarrow> string res" where
  "kv2_version_path mount operation path =
     rbind (validate_mount_path operation) (\<lambda>op_segments.
     rbind (validate_endpoint_path path) (\<lambda>segments.
       Inr (join_with ''/'' (mount @ op_segments @ segments))))"

definition kv2_mount_path :: "string list \<Rightarrow> string \<Rightarrow> string res" where
  "kv2_mount_path mount child =
     rbind (validate_mount_path child) (\<lambda>segments. Inr (join_with ''/'' (mount @ segments)))"

definition kv2_request ::
  "http_env \<Rightarrow> client \<Rightarrow> (string \<Rightarrow> 'a option) \<Rightarrow> string list \<Rightarrow> string \<Rightarrow> string \<Rightarrow> payload option \<Rightarrow>
   'a sent" where
  "kv2_request env cl from_json mount m path body =
     request_secret_json_internal env cl from_json ''/:secret-mount-path/'' ''secret''
       (join_with ''/'' mount) m path body"

definition kv2_request_query_headers ::
  "http_env \<Rightarrow> client \<Rightarrow> (string \<Rightarrow> 'a option) \<Rightarrow> string list \<Rightarrow> string \<Rightarrow> string \<Rightarrow>
   (string \<times> string) list \<Rightarrow> header_list \<Rightarrow> payload option \<Rightarrow> status_code list \<Rightarrow> 'a sent" where
  "kv2_request_query_headers env cl from_json mount m path query headers body accepted =
     request_secret_json_query_headers_accepting env cl from_json ''/:secret-mount-path/''
       ''secret'' (join_with ''/'' mount) m path query headers body accepted"

definition kv2_request_query ::
  "http_env \<Rightarrow> client \<Rightarrow> (string \<Rightarrow> 'a option) \<Rightarrow> string list \<Rightarrow> string \<Rightarrow> string \<Rightarrow>
   (string \<times> string) list \<Rightarrow> payload option \<Rightarrow> status_code list \<Rightarrow> 'a sent" where
  "kv2_request_query env cl from_json mount m path query body accepted =
     kv2_request_query_headers env cl from_json mount m path query [] body accepted"

subsection \<open>Reading\<close>

definition kv2_read ::
  "http_env \<Rightarrow> client \<Rightarrow> (string \<Rightarrow> 'a kv2_secret response_envelope option) \<Rightarrow> string list \<Rightarrow>
   string \<Rightarrow> 'a kv2_secret sent" where
  "kv2_read env cl from_json mount path =
     sbind (pure (kv2_data_path mount path)) (\<lambda>p.
       smap env_data (kv2_request env cl from_json mount ''GET'' p None))"

definition kv2_read_optional ::
  "http_env \<Rightarrow> client \<Rightarrow> (string \<Rightarrow> 'a kv2_secret response_envelope option) \<Rightarrow> string list \<Rightarrow>
   string \<Rightarrow> 'a kv2_secret option sent" where
  "kv2_read_optional env cl from_json mount path =
     optional_on_not_found (kv2_read env cl from_json mount path)"

definition kv2_read_data ::
  "http_env \<Rightarrow> client \<Rightarrow> (string \<Rightarrow> 'a kv2_secret response_envelope option) \<Rightarrow> string list \<Rightarrow>
   string \<Rightarrow> 'a sent" where
  "kv2_read_data env cl from_json mount path = smap ks_data (kv2_read env cl from_json mount path)"

definition kv2_read_data_optional ::
  "http_env \<Rightarrow> client \<Rightarrow> (string \<Rightarrow> 'a kv2_secret response_envelope option) \<Rightarrow> string list \<Rightarrow>
   string \<Rightarrow> 'a option sent" where
  "kv2_read_data_optional env cl from_json mount path =
     smap (map_option ks_data) (kv2_read_optional env cl from_json mount path)"

definition kv2_read_version ::
  "http_env \<Rightarrow> client \<Rightarrow> (string \<Rightarrow> 'a kv2_secret response_envelope option) \<Rightarrow> string list \<Rightarrow>
   string \<Rightarrow> 64 word \<Rightarrow> 'a kv2_secret sent" where
  "kv2_read_version env cl from_json mount path version =
     sbind (pure (kv2_data_path mount path)) (\<lambda>p.
       smap env_data (kv2_request_query env cl from_json mount ''GET'' p
         [(''version'', dec_string (unat version))] None [200]))"

definition kv2_read_data_version ::
  "http_env \<Rightarrow> client \<Rightarrow> (string \<Rightarrow> 'a kv2_secret response_envelope option) \<Rightarrow> string list \<Rightarrow>
   string \<Rightarrow> 64 word \<Rightarrow> 'a sent" where
  "kv2_read_data_version env cl from_json mount path version =
     smap ks_data (kv2_read_version env cl from_json mount path version)"

definition kv2_read_service_config ::
  "http_env \<Rightarrow> client \<Rightarrow> (string \<Rightarrow> kv2_service_config kv2_secret response_envelope option) \<Rightarrow>
   string list \<Rightarrow> string \<Rightarrow> kv2_service_config sent" where
  "kv2_read_service_config env cl from_json mount path = kv2_read_data env cl from_json mount path"

definition kv2_read_service_config_version ::
  "http_env \<Rightarrow> client \<Rightarrow> (string \<Rightarrow> kv2_service_config kv2_secret response_envelope option) \<Rightarrow>
   string list \<Rightarrow> string \<Rightarrow> 64 word \<Rightarrow> kv2_service_config sent" where
  "kv2_read_service_config_version env cl from_json mount path version =
     kv2_read_data_version env cl from_json mount path version"

subsection \<open>Writing\<close>

text \<open>The version of the write response is its \<open>version\<close> member.\<close>

record kv2_write_response =
  wr_created_time :: string
  wr_version :: "64 word"

definition kv2_write_with_options ::
  "http_env \<Rightarrow> client \<Rightarrow> (string \<Rightarrow> kv2_write_response response_envelope option) \<Rightarrow>
   ('a kv2_write_payload \<Rightarrow> payload) \<Rightarrow> string list \<Rightarrow> string \<Rightarrow> 'a \<Rightarrow> 64 word option option \<Rightarrow>
   kv2_write_response sent" where
  "kv2_write_with_options env cl from_json to_json mount path data options =
     sbind (pure (kv2_data_path mount path)) (\<lambda>p.
       smap env_data (kv2_request env cl from_json mount ''POST'' p
         (Some (to_json \<lparr>wp_data = data, wp_cas = options\<rparr>))))"

definition kv2_write ::
  "http_env \<Rightarrow> client \<Rightarrow> (string \<Rightarrow> kv2_write_response response_envelope option) \<Rightarrow>
   ('a kv2_write_payload \<Rightarrow> payload) \<Rightarrow> string list \<Rightarrow> string \<Rightarrow> 'a \<Rightarrow> kv2_write_response sent" where
  "kv2_write env cl from_json to_json mount path data =
     kv2_write_with_options env cl from_json to_json mount path data None"

definition kv2_write_service_config ::
  "http_env \<Rightarrow> client \<Rightarrow> (string \<Rightarrow> kv2_write_response response_envelope option) \<Rightarrow>
   (kv2_service_config kv2_write_payload \<Rightarrow> payload) \<Rightarrow> string list \<Rightarrow> string \<Rightarrow>
   kv2_service_config \<Rightarrow> kv2_write_response sent" where
  "kv2_write_service_config env cl from_json to_json mount path config =
     kv2_write env cl from_json to_json mount path config"

definition kv2_write_service_config_with_options ::
  "http_env \<Rightarrow> client \<Rightarrow> (string \<Rightarrow> kv2_write_response response_envelope option) \<Rightarrow>
   (kv2_service_config kv2_write_payload \<Rightarrow> payload) \<Rightarrow> string list \<Rightarrow> string \<Rightarrow>
   kv2_service_config \<Rightarrow> 64 word option option \<Rightarrow> kv2_write_response sent" where
  "kv2_write_service_config_with_options env cl from_json to_json mount path config options =
     kv2_write_with_options env cl from_json to_json mount path config options"

definition merge_patch :: header_list where
  "merge_patch = [(''content-type'', from_static ''application/merge-patch+json'')]"

definition kv2_patch_with_options ::
  "http_env \<Rightarrow> client \<Rightarrow> (string \<Rightarrow> kv2_write_response response_envelope option) \<Rightarrow>
   ('a kv2_write_payload \<Rightarrow> payload) \<Rightarrow> string list \<Rightarrow> string \<Rightarrow> 'a \<Rightarrow> 64 word option option \<Rightarrow>
   kv2_write_response sent" where
  "kv2_patch_with_options env cl from_json to_json mount path data options =
     sbind (pure (kv2_data_path mount path)) (\<lambda>p.
       smap env_data (kv2_request_query_headers env cl from_json mount ''PATCH'' p [] merge_patch
         (Some (to_json \<lparr>wp_data = data, wp_cas = options\<rparr>)) [200]))"

definition kv2_patch ::
  "http_env \<Rightarrow> client \<Rightarrow> (string \<Rightarrow> kv2_write_response response_envelope option) \<Rightarrow>
   ('a kv2_write_payload \<Rightarrow> payload) \<Rightarrow> string list \<Rightarrow> string \<Rightarrow> 'a \<Rightarrow> kv2_write_response sent" where
  "kv2_patch env cl from_json to_json mount path data =
     kv2_patch_with_options env cl from_json to_json mount path data None"

definition kv2_delete_latest ::
  "http_env \<Rightarrow> client \<Rightarrow> (string \<Rightarrow> unit option) \<Rightarrow> string list \<Rightarrow> string \<Rightarrow> unit sent" where
  "kv2_delete_latest env cl from_json mount path =
     sbind (pure (kv2_data_path mount path)) (\<lambda>p.
       kv2_request env cl from_json mount ''DELETE'' p None)"

definition kv2_delete_versions ::
  "http_env \<Rightarrow> client \<Rightarrow> (string \<Rightarrow> unit option) \<Rightarrow> (64 word list \<Rightarrow> payload) \<Rightarrow> string list \<Rightarrow>
   string \<Rightarrow> 64 word list \<Rightarrow> unit sent" where
  "kv2_delete_versions env cl from_json to_json mount path versions =
     sbind (pure (kv2_version_path mount ''delete'' path)) (\<lambda>p.
       kv2_request env cl from_json mount ''POST'' p (Some (to_json versions)))"

definition kv2_undelete_versions ::
  "http_env \<Rightarrow> client \<Rightarrow> (string \<Rightarrow> unit option) \<Rightarrow> (64 word list \<Rightarrow> payload) \<Rightarrow> string list \<Rightarrow>
   string \<Rightarrow> 64 word list \<Rightarrow> unit sent" where
  "kv2_undelete_versions env cl from_json to_json mount path versions =
     sbind (pure (kv2_version_path mount ''undelete'' path)) (\<lambda>p.
       kv2_request env cl from_json mount ''POST'' p (Some (to_json versions)))"

definition kv2_destroy_versions ::
  "http_env \<Rightarrow> client \<Rightarrow> (string \<Rightarrow> unit option) \<Rightarrow> (64 word list \<Rightarrow> payload) \<Rightarrow> string list \<Rightarrow>
   string \<Rightarrow> 64 word list \<Rightarrow> unit sent" where
  "kv2_destroy_versions env cl from_json to_json mount path versions =
     sbind (pure (kv2_version_path mount ''destroy'' path)) (\<lambda>p.
       kv2_request env cl from_json mount ''PUT'' p (Some (to_json versions)))"

subsection \<open>Listing and metadata\<close>

definition kv2_list_after ::
  "http_env \<Rightarrow> client \<Rightarrow> (string \<Rightarrow> string list response_envelope option) \<Rightarrow> string list \<Rightarrow> string \<Rightarrow>
   string option \<Rightarrow> 64 word option \<Rightarrow> string list sent" where
  "kv2_list_after env cl from_json mount path after limit =
     sbind (pure (from_after_limit after limit)) (\<lambda>page.
     sbind (pure (kv2_metadata_path mount path)) (\<lambda>p.
       smap env_data (kv2_request_query env cl from_json mount ''LIST'' p (query_pairs page) None
         [200])))"

definition kv2_list ::
  "http_env \<Rightarrow> client \<Rightarrow> (string \<Rightarrow> string list response_envelope option) \<Rightarrow> string list \<Rightarrow> string \<Rightarrow>
   string list sent" where
  "kv2_list env cl from_json mount path = kv2_list_after env cl from_json mount path None None"

definition kv2_enumerate_metadata ::
  "http_env \<Rightarrow> client \<Rightarrow> (string \<Rightarrow> string list response_envelope option) \<Rightarrow> string list \<Rightarrow> string \<Rightarrow>
   string \<Rightarrow> string \<Rightarrow> string option \<Rightarrow> 64 word option \<Rightarrow> string list sent" where
  "kv2_enumerate_metadata env cl from_json mount pre m path after limit =
     sbind (pure (from_after_limit after limit)) (\<lambda>page.
     sbind (pure (kv2_version_path mount pre path)) (\<lambda>p.
       smap env_data (kv2_request_query env cl from_json mount m p (query_pairs page) None
         [200])))"

definition kv2_scan ::
  "http_env \<Rightarrow> client \<Rightarrow> (string \<Rightarrow> string list response_envelope option) \<Rightarrow> string list \<Rightarrow> string \<Rightarrow>
   string option \<Rightarrow> 64 word option \<Rightarrow> string list sent" where
  "kv2_scan env cl from_json mount path after limit =
     kv2_enumerate_metadata env cl from_json mount ''metadata'' ''SCAN'' path after limit"

definition kv2_list_detailed_metadata ::
  "http_env \<Rightarrow> client \<Rightarrow> (string \<Rightarrow> string list response_envelope option) \<Rightarrow> string list \<Rightarrow> string \<Rightarrow>
   string option \<Rightarrow> 64 word option \<Rightarrow> string list sent" where
  "kv2_list_detailed_metadata env cl from_json mount path after limit =
     kv2_enumerate_metadata env cl from_json mount ''detailed-metadata'' ''LIST'' path after limit"

definition kv2_scan_detailed_metadata ::
  "http_env \<Rightarrow> client \<Rightarrow> (string \<Rightarrow> string list response_envelope option) \<Rightarrow> string list \<Rightarrow> string \<Rightarrow>
   string option \<Rightarrow> 64 word option \<Rightarrow> string list sent" where
  "kv2_scan_detailed_metadata env cl from_json mount path after limit =
     kv2_enumerate_metadata env cl from_json mount ''detailed-metadata'' ''SCAN'' path after limit"

text \<open>\<open>parse\<close> is the JSON parser, \<open>subkeys_document\<close> finds the shape in the response document; the shape
  itself is decoded under the bounds.\<close>

definition kv2_subkeys ::
  "http_env \<Rightarrow> client \<Rightarrow> (string \<Rightarrow> json response_envelope option) \<Rightarrow> string list \<Rightarrow> string \<Rightarrow>
   64 word option \<Rightarrow> 64 word option \<Rightarrow> json sent" where
  "kv2_subkeys env cl from_json mount path version depth =
     (if version = Some 0
      then pure (Inl (InvalidParameter ''KV v2 subkeys version must be greater than zero''))
      else
        (let query =
           (case version of None \<Rightarrow> [] | Some v \<Rightarrow> [(''version'', dec_string (unat v))]) @
           (case depth of None \<Rightarrow> [] | Some d \<Rightarrow> [(''depth'', dec_string (unat d))])
         in sbind (pure (kv2_version_path mount ''subkeys'' path)) (\<lambda>p.
           smap env_data (kv2_request_query env cl from_json mount ''GET'' p query None [200]))))"

definition kv2_config ::
  "http_env \<Rightarrow> client \<Rightarrow> (string \<Rightarrow> 'a response_envelope option) \<Rightarrow> string list \<Rightarrow> 'a sent" where
  "kv2_config env cl from_json mount =
     sbind (pure (kv2_mount_path mount ''config'')) (\<lambda>p.
       smap env_data (kv2_request env cl from_json mount ''GET'' p None))"

definition kv2_configure ::
  "http_env \<Rightarrow> client \<Rightarrow> (string \<Rightarrow> unit option) \<Rightarrow> ('a \<Rightarrow> payload) \<Rightarrow> string list \<Rightarrow> 'a \<Rightarrow> unit sent" where
  "kv2_configure env cl from_json to_json mount config =
     sbind (pure (kv2_mount_path mount ''config'')) (\<lambda>p.
       kv2_request env cl from_json mount ''POST'' p (Some (to_json config)))"

definition kv2_key_metadata ::
  "http_env \<Rightarrow> client \<Rightarrow> (string \<Rightarrow> 'a response_envelope option) \<Rightarrow> string list \<Rightarrow> string \<Rightarrow> 'a sent" where
  "kv2_key_metadata env cl from_json mount path =
     sbind (pure (kv2_metadata_path mount path)) (\<lambda>p.
       smap env_data (kv2_request env cl from_json mount ''GET'' p None))"

definition kv2_put_metadata ::
  "http_env \<Rightarrow> client \<Rightarrow> (string \<Rightarrow> unit option) \<Rightarrow> ('a \<Rightarrow> payload) \<Rightarrow> string list \<Rightarrow> string \<Rightarrow> 'a \<Rightarrow>
   unit sent" where
  "kv2_put_metadata env cl from_json to_json mount path options =
     sbind (pure (kv2_metadata_path mount path)) (\<lambda>p.
       kv2_request env cl from_json mount ''POST'' p (Some (to_json options)))"

definition kv2_patch_metadata ::
  "http_env \<Rightarrow> client \<Rightarrow> (string \<Rightarrow> unit option) \<Rightarrow> ('a \<Rightarrow> payload) \<Rightarrow> string list \<Rightarrow> string \<Rightarrow> 'a \<Rightarrow>
   unit sent" where
  "kv2_patch_metadata env cl from_json to_json mount path options =
     sbind (pure (kv2_metadata_path mount path)) (\<lambda>p.
       kv2_request_query_headers env cl from_json mount ''PATCH'' p [] merge_patch
         (Some (to_json options)) [200, 204])"

definition kv2_delete_metadata ::
  "http_env \<Rightarrow> client \<Rightarrow> (string \<Rightarrow> unit option) \<Rightarrow> string list \<Rightarrow> string \<Rightarrow> unit sent" where
  "kv2_delete_metadata env cl from_json mount path =
     sbind (pure (kv2_metadata_path mount path)) (\<lambda>p.
       kv2_request env cl from_json mount ''DELETE'' p None)"

section \<open>Where the requests go\<close>

lemma sends_kv2 [sends_intros]:
  "sends env cl m path [] (kv2_request env cl from_json mount m path body)"
  "sends env cl m path query
     (kv2_request_query env cl from_json mount m path query body st)"
  "sends env cl m path query
     (kv2_request_query_headers env cl from_json mount m path query headers body st)"
  by (simp_all add: kv2_request_def kv2_request_query_def kv2_request_query_headers_def sends_intros)

lemma kv2_handle_safe: "kv2 m = Inr mount \<Longrightarrow> list_all safe_segment mount"
  by (simp add: kv2_def validated_safe)

lemmas kv2_path_defs = kv2_data_path_def kv2_metadata_path_def kv2_version_path_def

lemmas kv2_data_ops = kv2_read_def kv2_read_data_def kv2_read_version_def
  kv2_read_service_config_def kv2_write_def kv2_write_with_options_def kv2_patch_def
  kv2_patch_with_options_def kv2_delete_latest_def

text \<open>The operations on the value of a secret go to its data path, those on its versions and its
  metadata to theirs.\<close>

lemma kv2_data_goes_to:
  assumes "list_all safe_segment mount" "validate_endpoint_path path = Inr segs"
  shows "goes_to env cl ''GET'' (mount @ [''data''] @ segs) (kv2_read env cl fj mount path)"
    and "goes_to env cl ''GET'' (mount @ [''data''] @ segs) (kv2_read_version env cl fj mount path v)"
    and "goes_to env cl ''POST'' (mount @ [''data''] @ segs)
      (kv2_write_with_options env cl fw tw mount path data options)"
    and "goes_to env cl ''PATCH'' (mount @ [''data''] @ segs)
      (kv2_patch_with_options env cl fw tw mount path data options)"
    and "goes_to env cl ''DELETE'' (mount @ [''data''] @ segs) (kv2_delete_latest env cl fu mount path)"
proof -
  have "safe_segment ''data''" by code_simp
  then have safe: "list_all safe_segment (mount @ [''data''] @ segs)"
    using assms validated_safe by simp
  note go = goes_to_path [OF _ safe]
  show "goes_to env cl ''GET'' (mount @ [''data''] @ segs) (kv2_read env cl fj mount path)"
    "goes_to env cl ''GET'' (mount @ [''data''] @ segs) (kv2_read_version env cl fj mount path v)"
    "goes_to env cl ''POST'' (mount @ [''data''] @ segs)
      (kv2_write_with_options env cl fw tw mount path data options)"
    "goes_to env cl ''PATCH'' (mount @ [''data''] @ segs)
      (kv2_patch_with_options env cl fw tw mount path data options)"
    "goes_to env cl ''DELETE'' (mount @ [''data''] @ segs) (kv2_delete_latest env cl fu mount path)"
    unfolding kv2_data_ops
    by (rule go, simp add: kv2_path_defs assms(2), (simp only: sends_smap)?, rule sends_kv2)+
qed

lemma kv2_version_goes_to:
  assumes "list_all safe_segment mount" "validate_endpoint_path path = Inr segs"
    and "validate_mount_path op_name = Inr [op_name]"
  shows "goes_to env cl m (mount @ [op_name] @ segs)
      (sbind (pure (kv2_version_path mount op_name path)) (\<lambda>p. kv2_request env cl fu mount m p body))"
    and "goes_to env cl m (mount @ [op_name] @ segs)
      (sbind (pure (kv2_version_path mount op_name path)) (\<lambda>p.
        smap f (kv2_request_query env cl fj mount m p query body st)))"
proof -
  have safe: "list_all safe_segment (mount @ [op_name] @ segs)"
    using assms validated_safe(1) [OF assms(3)] validated_safe(2) [OF assms(2)] by simp
  note go = goes_to_path [OF _ safe]
  show "goes_to env cl m (mount @ [op_name] @ segs)
      (sbind (pure (kv2_version_path mount op_name path)) (\<lambda>p. kv2_request env cl fu mount m p body))"
    "goes_to env cl m (mount @ [op_name] @ segs)
      (sbind (pure (kv2_version_path mount op_name path)) (\<lambda>p.
        smap f (kv2_request_query env cl fj mount m p query body st)))"
    by (rule go, simp add: kv2_path_defs assms(2,3), (simp only: sends_smap)?, rule sends_kv2)+
qed

lemma kv2_metadata_goes_to:
  assumes "list_all safe_segment mount" "validate_endpoint_path path = Inr segs"
  shows "goes_to env cl ''GET'' (mount @ [''metadata''] @ segs) (kv2_key_metadata env cl fj mount path)"
    and "goes_to env cl ''POST'' (mount @ [''metadata''] @ segs)
      (kv2_put_metadata env cl fu tj mount path options)"
    and "goes_to env cl ''DELETE'' (mount @ [''metadata''] @ segs)
      (kv2_delete_metadata env cl fu mount path)"
    and "goes_to env cl ''LIST'' (mount @ [''metadata''] @ segs)
      (kv2_list_after env cl fl mount path after limit)"
proof -
  have "safe_segment ''metadata''" by code_simp
  then have safe: "list_all safe_segment (mount @ [''metadata''] @ segs)"
    using assms validated_safe by simp
  note go = goes_to_path [OF _ safe]
  show "goes_to env cl ''GET'' (mount @ [''metadata''] @ segs) (kv2_key_metadata env cl fj mount path)"
    "goes_to env cl ''POST'' (mount @ [''metadata''] @ segs)
      (kv2_put_metadata env cl fu tj mount path options)"
    "goes_to env cl ''DELETE'' (mount @ [''metadata''] @ segs)
      (kv2_delete_metadata env cl fu mount path)"
    unfolding kv2_key_metadata_def kv2_put_metadata_def kv2_delete_metadata_def
    by (rule go, simp add: kv2_path_defs assms(2), (simp only: sends_smap)?, rule sends_kv2)+
  show "goes_to env cl ''LIST'' (mount @ [''metadata''] @ segs)
      (kv2_list_after env cl fl mount path after limit)"
    unfolding kv2_list_after_def
    by (rule goes_to_pure_bind, rule go, simp add: kv2_path_defs assms(2), simp only: sends_smap,
      rule sends_kv2)
qed


end
