(* ===== verification/Bao_Policy.thy ===== *)
theory Bao_Policy
  imports Bao_Validation Bao_Paths
begin

text \<open>
  The ACL policy builder, \<open>policy.rs\<close> and \<open>policy/control_groups.rs\<close>: rules are pushed one by one
  onto the builder, which keeps what was pushed before an error, and are rendered as HCL. The
  reader of this theory is the grammar of the rendered subset; reading a rendered document back
  gives the rules, so no path, duration or group name can change the structure of a policy.
\<close>

section \<open>Rules\<close>

definition MAX_POLICY_RULES :: nat where "MAX_POLICY_RULES = 128"
definition MAX_POLICY_BYTES :: nat where "MAX_POLICY_BYTES = 16 * 1024"
definition MAX_FACTORS :: nat where "MAX_FACTORS = 8"
definition MAX_GROUPS :: nat where "MAX_GROUPS = 16"

declare MAX_POLICY_RULES_def [limits] MAX_POLICY_BYTES_def [limits] MAX_FACTORS_def [limits]
  MAX_GROUPS_def [limits]

datatype acl_capability =
  CapCreate | CapRead | CapUpdate | CapDelete | CapList | CapPatch | CapSudo | CapDeny

fun capability_as_str :: "acl_capability \<Rightarrow> string" where
  "capability_as_str CapCreate = ''create''"
| "capability_as_str CapRead = ''read''"
| "capability_as_str CapUpdate = ''update''"
| "capability_as_str CapDelete = ''delete''"
| "capability_as_str CapList = ''list''"
| "capability_as_str CapPatch = ''patch''"
| "capability_as_str CapSudo = ''sudo''"
| "capability_as_str CapDeny = ''deny''"

record control_group_factor =
  cf_name :: string
  cf_groups :: "string list"
  cf_approvals :: "32 word"

record control_group_requirement =
  cg_ttl_seconds :: "64 word"
  cg_factors :: "control_group_factor list"

record acl_rule =
  ru_path :: string
  ru_capabilities :: "acl_capability list"
  ru_min_ttl :: "string option"
  ru_max_ttl :: "string option"
  ru_control_group :: "control_group_requirement option"

section \<open>Control groups\<close>

definition invalid_requirement :: error where
  "invalid_requirement =
     InvalidParameter ''invalid or oversized control-group policy requirement''"

definition valid_name :: "string \<Rightarrow> nat \<Rightarrow> bool" where
  "valid_name value limit \<longleftrightarrow>
     value \<noteq> [] \<and> length value \<le> limit \<and> is_ascii_alphanumeric (hd value) \<and>
     list_all (\<lambda>b. is_ascii_alphanumeric b \<or> b \<in> {CHR '' '', CHR ''.'', CHR ''_'', CHR ''-''}) value"

fun group_names :: "string list \<Rightarrow> string list \<Rightarrow> string list res" where
  "group_names names [] = Inr names"
| "group_names names (value # groups) =
     (if length names = MAX_GROUPS then Inl invalid_requirement
      else if \<not> valid_name value 128 \<or> value \<in> set names then Inl invalid_requirement
      else group_names (names @ [value]) groups)"

definition factor_new :: "string \<Rightarrow> string list \<Rightarrow> 32 word \<Rightarrow> control_group_factor res" where
  "factor_new name groups approvals =
     (if \<not> valid_name name 64 \<or> \<not> (1 \<le> approvals \<and> approvals \<le> 128) then Inl invalid_requirement
      else rbind (group_names [] groups) (\<lambda>names.
        if names = [] then Inl invalid_requirement
        else Inr \<lparr>cf_name = name, cf_groups = names, cf_approvals = approvals\<rparr>))"

fun checked_factors ::
  "control_group_factor list \<Rightarrow> control_group_factor list \<Rightarrow> control_group_factor list res" where
  "checked_factors checked [] = Inr checked"
| "checked_factors checked (factor # factors) =
     (if length checked = MAX_FACTORS \<or> list_ex (\<lambda>seen. cf_name seen = cf_name factor) checked
      then Inl invalid_requirement
      else checked_factors (checked @ [factor]) factors)"

definition requirement_new ::
  "std_duration \<Rightarrow> control_group_factor list \<Rightarrow> control_group_requirement res" where
  "requirement_new ttl factors =
     (if subsec_nanos ttl \<noteq> 0 \<or> \<not> (1 \<le> as_secs ttl \<and> as_secs ttl \<le> 86400)
      then Inl invalid_requirement
      else rbind (checked_factors [] factors) (\<lambda>checked.
        if checked = [] then Inl invalid_requirement
        else Inr \<lparr>cg_ttl_seconds = as_secs ttl, cg_factors = checked\<rparr>))"

fun checked_operations ::
  "acl_capability list \<Rightarrow> acl_capability list \<Rightarrow> acl_capability list res" where
  "checked_operations checked [] = Inr checked"
| "checked_operations checked (operation # operations) =
     (if length checked = 6 \<or> operation \<in> {CapDeny, CapSudo} \<or> operation \<in> set checked
      then Inl invalid_requirement
      else checked_operations (checked @ [operation]) operations)"

definition validate_operations :: "acl_capability list \<Rightarrow> acl_capability list res" where
  "validate_operations operations =
     rbind (checked_operations [] operations) (\<lambda>checked.
       if checked = [] then Inl invalid_requirement else Inr checked)"

section \<open>Pushing rules\<close>

text \<open>A builder is its rules; an operation gives a result and the builder it leaves behind.\<close>

type_synonym builder = "acl_rule list"
type_synonym pushed = "unit res \<times> builder"

fun and_then :: "pushed \<Rightarrow> (builder \<Rightarrow> pushed) \<Rightarrow> pushed" where
  "and_then (Inl e, b) f = (Inl e, b)"
| "and_then (Inr _, b) f = f b"

definition try_push :: "acl_rule res \<Rightarrow> builder \<Rightarrow> pushed" where
  "try_push r b = (case r of Inl e \<Rightarrow> (Inl e, b) | Inr rule \<Rightarrow> (Inr (), b @ [rule]))"

definition too_many_rules :: error where
  "too_many_rules = InvalidParameter ''ACL policy rule count exceeds maximum allowed length''"

definition shared_path_error :: error where
  "shared_path_error =
     InvalidParameter ''control-group rules cannot share an exact path with another rule''"

definition validate_capabilities :: "acl_capability list \<Rightarrow> acl_capability list res" where
  "validate_capabilities capabilities =
     (if capabilities = []
      then Inl (InvalidParameter ''ACL policy rule must include at least one capability'')
      else if CapDeny \<in> set capabilities \<and> 1 < length capabilities
      then Inl (InvalidParameter
        ''ACL deny capability must not be mixed with other capabilities'')
      else Inr capabilities)"

definition validate_wrapping_policy_ttl :: "string \<Rightarrow> string \<Rightarrow> string res" where
  "validate_wrapping_policy_ttl ttl field =
     rbind (validate_duration_parameter ttl field) (\<lambda>_. Inr ttl)"

definition validate_policy_path :: "string \<Rightarrow> string res" where
  "validate_policy_path path = rmap join_path (validate_mount_path path)"

definition validate_literal_segments :: "string list \<Rightarrow> string list res" where
  "validate_literal_segments segments =
     (if list_ex (\<lambda>segment. CHR ''*'' \<in> set segment \<or> CHR ''+'' \<in> set segment) segments
      then Inl (InvalidPath
        ''helper-generated ACL paths require literal mount, prefix, and key values'')
      else Inr segments)"

definition validate_literal_path :: "string \<Rightarrow> string list res" where
  "validate_literal_path path = rbind (validate_endpoint_path path) validate_literal_segments"

definition validate_literal_mount_path :: "string \<Rightarrow> string list res" where
  "validate_literal_mount_path path = rbind (validate_mount_path path) validate_literal_segments"

definition prefixed_engine_path :: "string \<Rightarrow> string \<Rightarrow> string \<Rightarrow> string res" where
  "prefixed_engine_path mount endpoint pre =
     rbind (validate_literal_mount_path mount) (\<lambda>segments.
     rbind (validate_literal_path pre) (\<lambda>tail.
       Inr (join_path (segments @ [endpoint] @ tail @ [''*'']))))"

definition engine_key_path :: "string \<Rightarrow> string \<Rightarrow> string \<Rightarrow> string res" where
  "engine_key_path mount endpoint key =
     rbind (validate_literal_mount_path mount) (\<lambda>segments.
     rbind (validate_literal_mount_path key) (\<lambda>tail.
       Inr (join_path (segments @ [endpoint] @ tail))))"

definition reject_control_group_collision :: "builder \<Rightarrow> string \<Rightarrow> unit res" where
  "reject_control_group_collision b path =
     (if list_ex (\<lambda>rule. ru_path rule = path \<and> ru_control_group rule \<noteq> None) b
      then Inl shared_path_error else Inr ())"

definition push_rule :: "string \<Rightarrow> acl_capability list \<Rightarrow> builder \<Rightarrow> pushed" where
  "push_rule path capabilities b =
     try_push
       (if MAX_POLICY_RULES \<le> length b then Inl too_many_rules
        else rbind (validate_capabilities capabilities) (\<lambda>capabilities.
          rbind (validate_policy_path path) (\<lambda>path.
          rbind (reject_control_group_collision b path) (\<lambda>_.
            Inr \<lparr>ru_path = path, ru_capabilities = capabilities, ru_min_ttl = None,
              ru_max_ttl = None, ru_control_group = None\<rparr>)))) b"

definition optional_ttl :: "string option \<Rightarrow> string \<Rightarrow> string option res" where
  "optional_ttl ttl field =
     (case ttl of None \<Rightarrow> Inr None
      | Some t \<Rightarrow> rmap Some (validate_wrapping_policy_ttl t field))"

definition push_rule_with_wrapping ::
  "string \<Rightarrow> acl_capability list \<Rightarrow> string option \<Rightarrow> string option \<Rightarrow> builder \<Rightarrow> pushed" where
  "push_rule_with_wrapping path capabilities min_ttl max_ttl b =
     try_push
       (if min_ttl = None \<and> max_ttl = None
        then Inl (InvalidParameter
          ''ACL wrapping rule must include min_wrapping_ttl or max_wrapping_ttl'')
        else if MAX_POLICY_RULES \<le> length b then Inl too_many_rules
        else rbind (validate_capabilities capabilities) (\<lambda>capabilities.
          rbind (validate_policy_path path) (\<lambda>path.
          rbind (reject_control_group_collision b path) (\<lambda>_.
          rbind (optional_ttl min_ttl ''min_wrapping_ttl'') (\<lambda>min_ttl.
          rbind (optional_ttl max_ttl ''max_wrapping_ttl'') (\<lambda>max_ttl.
            Inr \<lparr>ru_path = path, ru_capabilities = capabilities, ru_min_ttl = min_ttl,
              ru_max_ttl = max_ttl, ru_control_group = None\<rparr>)))))) b"

definition allow_path :: "string \<Rightarrow> acl_capability list \<Rightarrow> builder \<Rightarrow> pushed" where
  "allow_path path capabilities b = push_rule path capabilities b"

definition allow_path_with_wrapping ::
  "string \<Rightarrow> acl_capability list \<Rightarrow> string option \<Rightarrow> string option \<Rightarrow> builder \<Rightarrow> pushed" where
  "allow_path_with_wrapping path capabilities min_ttl max_ttl b =
     push_rule_with_wrapping path capabilities min_ttl max_ttl b"

definition deny_path :: "string \<Rightarrow> builder \<Rightarrow> pushed" where
  "deny_path path b = push_rule path [CapDeny] b"

definition allow_path_with_control_group ::
  "string \<Rightarrow> acl_capability list \<Rightarrow> control_group_requirement \<Rightarrow> builder \<Rightarrow> pushed" where
  "allow_path_with_control_group path capabilities requirement b =
     try_push
       (rbind (validate_operations capabilities) (\<lambda>capabilities.
          if MAX_POLICY_RULES \<le> length b then Inl too_many_rules
          else rbind (validate_policy_path path) (\<lambda>path.
            if list_ex (\<lambda>rule. ru_path rule = path) b then Inl shared_path_error
            else Inr \<lparr>ru_path = path, ru_capabilities = capabilities, ru_min_ttl = None,
              ru_max_ttl = None, ru_control_group = Some requirement\<rparr>))) b"

text \<open>The helpers compute their paths first and push two rules, the second only after the first.\<close>

definition push_pair ::
  "string res \<Rightarrow> string res \<Rightarrow> (string \<Rightarrow> builder \<Rightarrow> pushed) \<Rightarrow> (string \<Rightarrow> builder \<Rightarrow> pushed) \<Rightarrow>
   builder \<Rightarrow> pushed" where
  "push_pair first second push1 push2 b =
     (case first of Inl e \<Rightarrow> (Inl e, b)
      | Inr p1 \<Rightarrow> (case second of Inl e \<Rightarrow> (Inl e, b)
        | Inr p2 \<Rightarrow> and_then (push1 p1 b) (push2 p2)))"

definition kv2_write_data :: "acl_capability list" where
  "kv2_write_data = [CapCreate, CapRead, CapUpdate, CapPatch, CapDelete]"

definition kv2_write_metadata :: "acl_capability list" where
  "kv2_write_metadata = [CapRead, CapUpdate, CapDelete, CapList]"

definition allow_kv2_read_prefix :: "string \<Rightarrow> string \<Rightarrow> builder \<Rightarrow> pushed" where
  "allow_kv2_read_prefix mount pre b =
     push_pair (prefixed_engine_path mount ''data'' pre) (prefixed_engine_path mount ''metadata'' pre)
       (\<lambda>p. push_rule p [CapRead]) (\<lambda>p. push_rule p [CapList]) b"

definition allow_kv2_read_prefix_with_required_wrapping ::
  "string \<Rightarrow> string \<Rightarrow> string \<Rightarrow> builder \<Rightarrow> pushed" where
  "allow_kv2_read_prefix_with_required_wrapping mount pre min_ttl b =
     push_pair (prefixed_engine_path mount ''data'' pre) (prefixed_engine_path mount ''metadata'' pre)
       (\<lambda>p. push_rule_with_wrapping p [CapRead] (Some min_ttl) None)
       (\<lambda>p. push_rule p [CapList]) b"

definition allow_kv2_read_write_prefix :: "string \<Rightarrow> string \<Rightarrow> builder \<Rightarrow> pushed" where
  "allow_kv2_read_write_prefix mount pre b =
     push_pair (prefixed_engine_path mount ''data'' pre) (prefixed_engine_path mount ''metadata'' pre)
       (\<lambda>p. push_rule p kv2_write_data) (\<lambda>p. push_rule p kv2_write_metadata) b"

definition allow_kv2_read_write_prefix_with_required_wrapping ::
  "string \<Rightarrow> string \<Rightarrow> string \<Rightarrow> builder \<Rightarrow> pushed" where
  "allow_kv2_read_write_prefix_with_required_wrapping mount pre min_ttl b =
     push_pair (prefixed_engine_path mount ''data'' pre) (prefixed_engine_path mount ''metadata'' pre)
       (\<lambda>p. push_rule_with_wrapping p kv2_write_data (Some min_ttl) None)
       (\<lambda>p. push_rule p kv2_write_metadata) b"

text \<open>The transit helpers compute the second path only after the first rule is pushed.\<close>

definition push_key_pair ::
  "string \<Rightarrow> string \<Rightarrow> string \<Rightarrow> string \<Rightarrow> (string \<Rightarrow> builder \<Rightarrow> pushed) \<Rightarrow> builder \<Rightarrow> pushed" where
  "push_key_pair mount key endpoint1 endpoint2 push b =
     (case engine_key_path mount endpoint1 key of Inl e \<Rightarrow> (Inl e, b)
      | Inr p1 \<Rightarrow> and_then (push p1 b) (\<lambda>b1.
          case engine_key_path mount endpoint2 key of Inl e \<Rightarrow> (Inl e, b1)
          | Inr p2 \<Rightarrow> push p2 b1))"

definition allow_transit_encrypt_decrypt :: "string \<Rightarrow> string \<Rightarrow> builder \<Rightarrow> pushed" where
  "allow_transit_encrypt_decrypt mount key b =
     push_key_pair mount key ''encrypt'' ''decrypt'' (\<lambda>p. push_rule p [CapUpdate]) b"

definition allow_transit_encrypt_decrypt_with_required_wrapping ::
  "string \<Rightarrow> string \<Rightarrow> string \<Rightarrow> builder \<Rightarrow> pushed" where
  "allow_transit_encrypt_decrypt_with_required_wrapping mount key min_ttl b =
     push_key_pair mount key ''encrypt'' ''decrypt''
       (\<lambda>p. push_rule_with_wrapping p [CapUpdate] (Some min_ttl) None) b"

definition allow_transit_sign_verify :: "string \<Rightarrow> string \<Rightarrow> builder \<Rightarrow> pushed" where
  "allow_transit_sign_verify mount key b =
     push_key_pair mount key ''sign'' ''verify'' (\<lambda>p. push_rule p [CapUpdate]) b"

definition allow_transit_sign_verify_with_required_wrapping ::
  "string \<Rightarrow> string \<Rightarrow> string \<Rightarrow> builder \<Rightarrow> pushed" where
  "allow_transit_sign_verify_with_required_wrapping mount key min_ttl b =
     push_key_pair mount key ''sign'' ''verify''
       (\<lambda>p. push_rule_with_wrapping p [CapUpdate] (Some min_ttl) None) b"

section \<open>Rendering\<close>

abbreviation quote_char :: char where "quote_char \<equiv> CHR 0x22"
abbreviation backslash :: char where "backslash \<equiv> CHR 0x5C"
abbreviation newline :: string where "newline \<equiv> [CHR 0x0A]"

fun push_hcl_string :: "string \<Rightarrow> string" where
  "push_hcl_string [] = []"
| "push_hcl_string (c # cs) =
     (if c = quote_char then backslash # quote_char # push_hcl_string cs
      else if c = backslash then backslash # backslash # push_hcl_string cs
      else if c = CHR ''$'' \<and> cs \<noteq> [] \<and> hd cs = CHR ''{''
      then ''$${'' @ push_hcl_string (tl cs)
      else c # push_hcl_string cs)"

definition quoted :: "string \<Rightarrow> string" where
  "quoted s = quote_char # push_hcl_string s @ [quote_char]"

definition write_capabilities :: "acl_capability list \<Rightarrow> string" where
  "write_capabilities caps =
     join_with '', '' (map (\<lambda>c. quote_char # capability_as_str c @ [quote_char]) caps)"

definition write_factor :: "acl_capability list \<Rightarrow> control_group_factor \<Rightarrow> string" where
  "write_factor capabilities factor =
     ''    factor '' @ quoted (cf_name factor) @ '' {'' @ newline @
     ''      controlled_capabilities = ['' @ write_capabilities capabilities @ '']'' @ newline @
     ''      identity {'' @ newline @
     ''        group_names = ['' @ join_with '', '' (map quoted (cf_groups factor)) @ '']'' @ newline @
     ''        approvals = '' @ dec_string (unat (cf_approvals factor)) @ newline @
     ''      }'' @ newline @ ''    }'' @ newline"

definition write_hcl :: "acl_capability list \<Rightarrow> control_group_requirement \<Rightarrow> string" where
  "write_hcl capabilities requirement =
     ''  control_group = {'' @ newline @
     ''    ttl = '' @ quote_char # dec_string (unat (cg_ttl_seconds requirement)) @ ''s'' @ quote_char # newline @
     ''    self_auth_allowed = false'' @ newline @
     concat (map (write_factor capabilities) (cg_factors requirement)) @
     ''  }'' @ newline"

definition write_ttl :: "string \<Rightarrow> string option \<Rightarrow> string" where
  "write_ttl key ttl = (case ttl of None \<Rightarrow> [] | Some t \<Rightarrow> key @ quoted t @ newline)"

definition render_rule :: "acl_rule \<Rightarrow> string" where
  "render_rule rule =
     ''path '' @ quoted (ru_path rule) @ '' {'' @ newline @
     ''  capabilities = ['' @ write_capabilities (ru_capabilities rule) @ '']'' @ newline @
     write_ttl ''  min_wrapping_ttl = '' (ru_min_ttl rule) @
     write_ttl ''  max_wrapping_ttl = '' (ru_max_ttl rule) @
     (case ru_control_group rule of None \<Rightarrow> [] | Some g \<Rightarrow> write_hcl (ru_capabilities rule) g) @
     ''}'' @ newline"

fun build_loop :: "string \<Rightarrow> builder \<Rightarrow> string res" where
  "build_loop document [] = Inr document"
| "build_loop document (rule # rules) =
     (let document' = document @ render_rule rule in
      if MAX_POLICY_BYTES < length document'
      then Inl (InvalidParameter ''ACL policy document exceeds maximum allowed length'')
      else build_loop document' rules)"

definition build :: "builder \<Rightarrow> string res" where
  "build b = build_loop [] b"

definition build_write_request :: "builder \<Rightarrow> string res" where
  "build_write_request b =
     (if list_ex (\<lambda>rule. ru_control_group rule \<noteq> None) b
      then Inl (InvalidParameter
        ''control-group rules require build_control_group_write_request and the gated write helper'')
      else build b)"

definition build_control_group_write_request :: "builder \<Rightarrow> string res" where
  "build_control_group_write_request b =
     (if \<not> list_ex (\<lambda>rule. ru_control_group rule \<noteq> None) b
      then Inl (InvalidParameter
        ''control-group policy requires at least one protected rule'')
      else build b)"

section \<open>The grammar of a rendered policy\<close>

text \<open>Readers consume a prefix. A quoted string ends at the first bare quote; \<open>$${\<close> stands for
  \<open>${\<close>, and a bare \<open>${\<close> would begin a template, which the grammar does not have.\<close>

fun read_hcl :: "string \<Rightarrow> (string \<times> string) option" where
  "read_hcl [] = None"
| "read_hcl (c # cs) =
     (if c = quote_char then Some ([], cs)
      else if c = backslash
      then (case cs of [] \<Rightarrow> None
        | d # ds \<Rightarrow> if d = quote_char \<or> d = backslash
            then map_option (\<lambda>(v, r). (d # v, r)) (read_hcl ds) else None)
      else if c = CHR ''$'' \<and> prefix ''${'' cs
      then map_option (\<lambda>(v, r). (''${'' @ v, r)) (read_hcl (drop 2 cs))
      else if c = CHR ''$'' \<and> prefix ''{'' cs then None
      else map_option (\<lambda>(v, r). (c # v, r)) (read_hcl cs))"

definition read_quoted :: "string \<Rightarrow> (string \<times> string) option" where
  "read_quoted inp = Option.bind (strip_prefix [quote_char] inp) read_hcl"

type_synonym 'a reader = "string \<Rightarrow> ('a \<times> string) option"

definition rthen :: "'a reader \<Rightarrow> ('a \<Rightarrow> 'b reader) \<Rightarrow> 'b reader" where
  "rthen p f inp = Option.bind (p inp) (\<lambda>(x, r). f x r)"

definition lit :: "string \<Rightarrow> unit reader" where
  "lit s inp = map_option (\<lambda>r. ((), r)) (strip_prefix s inp)"

definition ret :: "'a \<Rightarrow> 'a reader" where
  "ret x inp = Some (x, inp)"

definition guard :: "bool \<Rightarrow> unit reader" where
  "guard b inp = (if b then Some ((), inp) else None)"

text \<open>A bracketed list: the items separated by a comma and a space, then the closing bracket.\<close>

fun read_items :: "'a reader \<Rightarrow> nat \<Rightarrow> 'a list reader" where
  "read_items item 0 inp = None"
| "read_items item (Suc n) inp =
     Option.bind (item inp) (\<lambda>(x, r).
       case strip_prefix '']'' r of
         Some r' \<Rightarrow> Some ([x], r')
       | None \<Rightarrow> Option.bind (strip_prefix '', '' r) (\<lambda>r'.
           map_option (\<lambda>(xs, q). (x # xs, q)) (read_items item n r')))"

definition read_list :: "'a reader \<Rightarrow> 'a list reader" where
  "read_list item inp =
     (case strip_prefix '']'' inp of
        Some r \<Rightarrow> Some ([], r)
      | None \<Rightarrow> read_items item (length inp) inp)"

definition capability_from_str :: "string \<Rightarrow> acl_capability option" where
  "capability_from_str s =
     find (\<lambda>c. capability_as_str c = s)
       [CapCreate, CapRead, CapUpdate, CapDelete, CapList, CapPatch, CapSudo, CapDeny]"

definition read_capability :: "acl_capability reader" where
  "read_capability inp =
     Option.bind (read_quoted inp) (\<lambda>(s, r). map_option (\<lambda>c. (c, r)) (capability_from_str s))"

definition read_number :: "nat reader" where
  "read_number inp =
     (let digits = takeWhile is_ascii_digit inp in
      if digits = [] then None else Some (dec_value digits, drop (length digits) inp))"

definition read_factor :: "acl_capability list \<Rightarrow> control_group_factor reader" where
  "read_factor capabilities =
     rthen (lit ''    factor '') (\<lambda>_. rthen read_quoted (\<lambda>name.
     rthen (lit ('' {'' @ newline @ ''      controlled_capabilities = [''))  (\<lambda>_.
     rthen (read_list read_capability) (\<lambda>caps. rthen (guard (caps = capabilities)) (\<lambda>_.
     rthen (lit (newline @ ''      identity {'' @ newline @ ''        group_names = ['')) (\<lambda>_.
     rthen (read_list read_quoted) (\<lambda>groups.
     rthen (lit (newline @ ''        approvals = '')) (\<lambda>_. rthen read_number (\<lambda>approvals.
     rthen (lit (newline @ ''      }'' @ newline @ ''    }'' @ newline)) (\<lambda>_.
       ret \<lparr>cf_name = name, cf_groups = groups, cf_approvals = word_of_nat approvals\<rparr>))))))))))"

fun read_factors :: "acl_capability list \<Rightarrow> nat \<Rightarrow> control_group_factor list reader" where
  "read_factors capabilities 0 inp = None"
| "read_factors capabilities (Suc n) inp =
     (case strip_prefix (''  }'' @ newline) inp of
        Some r \<Rightarrow> Some ([], r)
      | None \<Rightarrow> Option.bind (read_factor capabilities inp) (\<lambda>(f, r).
          map_option (\<lambda>(fs, q). (f # fs, q)) (read_factors capabilities n r)))"

definition read_control_group :: "acl_capability list \<Rightarrow> control_group_requirement option reader" where
  "read_control_group capabilities inp =
     (case strip_prefix (''  control_group = {'' @ newline @ ''    ttl = '' @ [quote_char]) inp of
        None \<Rightarrow> Some (None, inp)
      | Some r \<Rightarrow>
          rthen read_number (\<lambda>ttl.
          rthen (lit (''s'' @ quote_char # newline @ ''    self_auth_allowed = false'' @ newline)) (\<lambda>_.
          rthen (\<lambda>i. read_factors capabilities (Suc (length i)) i) (\<lambda>factors.
            ret (Some \<lparr>cg_ttl_seconds = word_of_nat ttl, cg_factors = factors\<rparr>)))) r)"

definition read_ttl :: "string \<Rightarrow> string option reader" where
  "read_ttl key inp =
     (case strip_prefix key inp of
        None \<Rightarrow> Some (None, inp)
      | Some r \<Rightarrow> rthen read_quoted (\<lambda>t. rthen (lit newline) (\<lambda>_. ret (Some t))) r)"

definition read_rule :: "acl_rule reader" where
  "read_rule =
     rthen (lit ''path '') (\<lambda>_. rthen read_quoted (\<lambda>path.
     rthen (lit ('' {'' @ newline @ ''  capabilities = [''))  (\<lambda>_.
     rthen (read_list read_capability) (\<lambda>capabilities. rthen (lit newline) (\<lambda>_.
     rthen (read_ttl ''  min_wrapping_ttl = '') (\<lambda>min_ttl.
     rthen (read_ttl ''  max_wrapping_ttl = '') (\<lambda>max_ttl.
     rthen (read_control_group capabilities) (\<lambda>requirement.
     rthen (lit (''}'' @ newline)) (\<lambda>_.
       ret \<lparr>ru_path = path, ru_capabilities = capabilities, ru_min_ttl = min_ttl,
         ru_max_ttl = max_ttl, ru_control_group = requirement\<rparr>)))))))))"

fun read_rules :: "nat \<Rightarrow> string \<Rightarrow> acl_rule list option" where
  "read_rules n [] = Some []"
| "read_rules 0 (c # cs) = None"
| "read_rules (Suc n) (c # cs) =
     Option.bind (read_rule (c # cs)) (\<lambda>(rule, r). map_option (Cons rule) (read_rules n r))"

definition read_policy :: "string \<Rightarrow> acl_rule list option" where
  "read_policy document = read_rules (length document) document"

section \<open>Reading back\<close>

lemma strip_prefix_append [simp]: "strip_prefix s (s @ r) = Some r"
  by (simp add: strip_prefix_def)

lemma push_starts_brace:
  "prefix ''{'' (push_hcl_string cs @ quote_char # r) \<longleftrightarrow> cs \<noteq> [] \<and> hd cs = CHR ''{''"
  by (cases cs) auto

lemma push_no_template: "\<not> prefix ''${'' (push_hcl_string cs @ quote_char # r)"
  using push_starts_brace [of "tl cs" r] by (cases cs) auto

lemma read_hcl_push [simp]: "read_hcl (push_hcl_string v @ quote_char # r) = Some (v, r)"
proof (induction v rule: push_hcl_string.induct)
  case (2 c cs)
  consider "c = quote_char" | "c = backslash" | "c = CHR ''$''" "cs \<noteq> []" "hd cs = CHR ''{''"
    | "c \<noteq> quote_char" "c \<noteq> backslash" "c = CHR ''$''" "\<not> (cs \<noteq> [] \<and> hd cs = CHR ''{'')"
    | "c \<noteq> quote_char" "c \<noteq> backslash" "c \<noteq> CHR ''$''" by blast
  then show ?case
  proof cases
    case 3
    then obtain ds where "cs = CHR ''{'' # ds" by (cases cs) auto
    with 3 2 show ?thesis by simp
  next
    case 4
    then have "\<not> prefix ''{'' (push_hcl_string cs @ quote_char # r)"
      "\<not> prefix ''${'' (push_hcl_string cs @ quote_char # r)"
      using push_starts_brace [of cs r] push_no_template [of cs r] by simp_all
    with 4 2 show ?thesis by (cases cs) simp_all
  qed (use 2 in simp_all)
qed simp

lemma read_quoted_quoted [simp]: "read_quoted (quoted v @ r) = Some (v, r)"
  by (simp add: read_quoted_def quoted_def strip_prefix_def)

text \<open>What reads back in front of any text composes.\<close>

definition reads :: "'a reader \<Rightarrow> 'a \<Rightarrow> string \<Rightarrow> bool" where
  "reads p x s \<longleftrightarrow> (\<forall>r. p (s @ r) = Some (x, r))"

lemma readsD: "reads p x s \<Longrightarrow> p (s @ r) = Some (x, r)"
  by (simp add: reads_def)

lemma rthen_lit: "rthen (lit s) f (s @ r) = f () r"
  by (simp add: rthen_def lit_def)

lemma rthen_reads: "reads p x s \<Longrightarrow> rthen p f (s @ r) = f x r"
  by (simp add: rthen_def readsD)

lemma rthen_guard: "rthen (guard True) f r = f () r"
  by (simp add: rthen_def guard_def)

lemma reads_quoted: "reads read_quoted v (quoted v)"
  by (simp add: reads_def)

lemma capability_reads:
  "reads read_capability c (quote_char # capability_as_str c @ [quote_char])"
  by (cases c) (simp_all add: reads_def read_capability_def read_quoted_def strip_prefix_def
      capability_from_str_def)

lemma number_reads:
  "r \<noteq> [] \<Longrightarrow> \<not> is_ascii_digit (hd r) \<Longrightarrow> read_number (dec_string n @ r) = Some (n, r)"
proof -
  assume r: "r \<noteq> []" "\<not> is_ascii_digit (hd r)"
  have "takeWhile is_ascii_digit (dec_string n @ r) = dec_string n"
    using r dec_string_digits [of n]
    by (subst takeWhile_append2) (auto simp: list_all_iff takeWhile_eq_Nil_iff)
  then show ?thesis by (simp add: read_number_def)
qed

lemma read_items_join:
  assumes "\<And>x. x \<in> set xs \<Longrightarrow> reads item x (w x)" "xs \<noteq> []" "length xs \<le> n"
  shows "read_items item n (join_with '', '' (map w xs) @ '']'' @ r) = Some (xs, r)"
  using assms
proof (induction xs arbitrary: n)
  case (Cons x xs)
  then obtain m where n: "n = Suc m" "length xs \<le> m" by (cases n) auto
  have x: "item (w x @ t) = Some (x, t)" for t
    using Cons.prems(1) [of x] by (simp add: readsD)
  show ?case
  proof (cases "xs = []")
    case True
    then show ?thesis by (simp add: n x strip_prefix_def)
  next
    case False
    with Cons n have "read_items item m (join_with '', '' (map w xs) @ '']'' @ r) = Some (xs, r)" by simp
    with False show ?thesis
      by (simp add: n x join_with_Cons strip_prefix_def)
  qed
qed simp

lemma join_with_length: "(\<And>x. x \<in> set xs \<Longrightarrow> w x \<noteq> []) \<Longrightarrow> length xs \<le> length (join_with sep (map w xs))"
proof (induction xs)
  case (Cons x xs)
  then show ?case by (cases "xs = []") (auto simp: join_with_Cons Suc_le_eq add_strict_increasing)
qed simp

lemma read_list_reads:
  assumes "\<And>x. x \<in> set xs \<Longrightarrow> reads item x (w x)" "\<And>x. x \<in> set xs \<Longrightarrow> \<exists>t. w x = quote_char # t"
  shows "reads (read_list item) xs (join_with '', '' (map w xs) @ '']'')"
  unfolding reads_def
proof
  fix r
  show "read_list item ((join_with '', '' (map w xs) @ '']'') @ r) = Some (xs, r)"
  proof (cases "xs = []")
    case True
    then show ?thesis by (simp add: read_list_def strip_prefix_def)
  next
    case False
    then obtain y ys where xs: "xs = y # ys" by (cases xs) auto
    obtain t where "w y = quote_char # t" using assms(2) [of y] xs by auto
    then have "\<exists>t. join_with '', '' (map w xs) @ '']'' @ r = quote_char # t"
      by (cases "ys = []") (simp_all add: xs join_with_Cons)
    then have "strip_prefix '']'' (join_with '', '' (map w xs) @ '']'' @ r) = None"
      by (auto simp: strip_prefix_def)
    moreover have "length xs \<le> length (join_with '', '' (map w xs) @ '']'' @ r)"
      using join_with_length [of xs w "'', ''"] assms(2) by fastforce
    then have "read_items item (length (join_with '', '' (map w xs) @ '']'' @ r))
        (join_with '', '' (map w xs) @ '']'' @ r) = Some (xs, r)"
      using assms(1) False by (intro read_items_join)
    ultimately show ?thesis by (simp only: read_list_def append_assoc option.case)
  qed
qed

lemma capabilities_read: "reads (read_list read_capability) caps (write_capabilities caps @ '']'')"
  unfolding write_capabilities_def by (rule read_list_reads) (simp_all add: capability_reads)

lemma names_read: "reads (read_list read_quoted) names (join_with '', '' (map quoted names) @ '']'')"
  by (rule read_list_reads, rule reads_quoted) (simp add: quoted_def)

lemma lit_reads: "reads (lit s) () s"
  by (simp add: reads_def lit_def)

lemma ret_end: "ret x r = Some (x, r)"
  by (simp add: ret_def)

lemma rthen_lit_append: "rthen (lit (a @ b)) f (a @ r) = rthen (lit b) f r"
  by (simp add: rthen_def lit_def strip_prefix_def)

lemma rthen_quoted: "rthen read_quoted f (quoted v @ r) = f v r"
  by (rule rthen_reads [OF reads_quoted])

lemma rthen_capabilities:
  "rthen (read_list read_capability) f (write_capabilities caps @ '']'' @ r) = f caps r"
  using rthen_reads [OF capabilities_read, of f caps r] by (simp only: append_assoc)

lemma rthen_names:
  "rthen (read_list read_quoted) f (join_with '', '' (map quoted names) @ '']'' @ r) = f names r"
  using rthen_reads [OF names_read, of f names r] by (simp only: append_assoc)

lemma rthen_number_newline: "rthen read_number f (dec_string n @ newline @ r) = f n (newline @ r)"
  using number_reads [of "newline @ r" n] by (simp add: rthen_def is_ascii_digit_def)

lemma rthen_number_s: "rthen read_number f (dec_string n @ ''s'' @ r) = f n (''s'' @ r)"
  using number_reads [of "''s'' @ r" n] by (simp add: rthen_def is_ascii_digit_def)

lemmas read_steps = rthen_lit rthen_lit_append rthen_quoted rthen_capabilities rthen_names
  rthen_number_newline rthen_number_s rthen_guard append_assoc ret_end refl

lemma factor_reads: "read_factor caps (write_factor caps f @ r) = Some (f, r)"
  unfolding read_factor_def write_factor_def by (simp only: read_steps) simp

lemma factor_not_end: "strip_prefix (''  }'' @ newline) (write_factor caps f @ r) = None"
  by (simp add: write_factor_def strip_prefix_def)

lemma factors_read:
  "length fs < n \<Longrightarrow> read_factors caps n (concat (map (write_factor caps) fs) @ ''  }'' @ newline @ r) = Some (fs, r)"
proof (induction fs arbitrary: n)
  case Nil
  then obtain m where "n = Suc m" by (cases n) auto
  then show ?case by (simp add: strip_prefix_def)
next
  case (Cons f fs)
  then obtain m where n: "n = Suc m" "length fs < m" by (cases n) auto
  have "read_factors caps m (concat (map (write_factor caps) fs) @ ''  }'' @ newline @ r) = Some (fs, r)"
    using Cons.IH n(2) .
  moreover have "concat (map (write_factor caps) (f # fs)) @ ''  }'' @ newline @ r =
      write_factor caps f @ concat (map (write_factor caps) fs) @ ''  }'' @ newline @ r"
    by simp
  ultimately show ?case
    by (simp only: n read_factors.simps factor_not_end factor_reads option.case bind.bind_lunit
        prod.case option.map)
qed

lemma factors_length: "length fs \<le> length (concat (map (write_factor caps) fs))"
  by (induction fs) (simp_all add: write_factor_def)

lemma control_group_reads:
  "read_control_group caps (write_hcl caps g @ r) = Some (Some g, r)"
proof -
  let ?fs = "concat (map (write_factor caps) (cg_factors g)) @ ''  }'' @ newline @ r"
  have "length (cg_factors g) < Suc (length ?fs)"
    using factors_length [of "cg_factors g" caps] by simp
  then have fs: "read_factors caps (Suc (length ?fs)) ?fs = Some (cg_factors g, r)"
    by (rule factors_read)
  have "strip_prefix (''  control_group = {'' @ newline @ ''    ttl = '' @ [quote_char]) (write_hcl caps g @ r) =
      Some (dec_string (unat (cg_ttl_seconds g)) @ ''s'' @ (quote_char # newline @
        ''    self_auth_allowed = false'' @ newline) @ ?fs)"
    by (simp add: write_hcl_def strip_prefix_def)
  then show ?thesis
    unfolding read_control_group_def
    by (simp only: option.case read_steps) (simp only: rthen_def fs bind.bind_lunit prod.case, simp add: ret_def)
qed

lemma rthen_ttl:
  "(ttl = None \<Longrightarrow> strip_prefix key r = None) \<Longrightarrow>
   rthen (read_ttl key) f (write_ttl key ttl @ r) = f ttl r"
proof (cases ttl)
  case None
  moreover assume "ttl = None \<Longrightarrow> strip_prefix key r = None"
  ultimately show ?thesis by (simp add: rthen_def read_ttl_def write_ttl_def)
next
  case (Some t)
  have "rthen read_quoted (\<lambda>t. rthen (lit newline) (\<lambda>_. ret (Some t))) (quoted t @ newline @ r) =
      Some (Some t, r)"
    by (simp only: read_steps)
  then show ?thesis by (simp add: Some rthen_def [of "read_ttl key"] read_ttl_def write_ttl_def)
qed

lemma rthen_control_group:
  "rthen (read_control_group caps) f ((case g of None \<Rightarrow> [] | Some g \<Rightarrow> write_hcl caps g) @ ''}'' @ r) =
   f g (''}'' @ r)"
proof (cases g)
  case None
  then show ?thesis by (simp add: rthen_def read_control_group_def strip_prefix_def)
next
  case (Some g')
  then show ?thesis
    using control_group_reads [of caps g' "''}'' @ r"] by (simp add: rthen_def)
qed

lemma rule_reads: "read_rule (render_rule rule @ r) = Some (rule, r)"
proof -
  let ?g = "case ru_control_group rule of None \<Rightarrow> [] | Some g \<Rightarrow> write_hcl (ru_capabilities rule) g"
  let ?max = "write_ttl ''  max_wrapping_ttl = '' (ru_max_ttl rule)"
  have g: "strip_prefix ''  max_wrapping_ttl = '' (?g @ ''}'' @ newline @ r) = None"
    "strip_prefix ''  min_wrapping_ttl = '' (?g @ ''}'' @ newline @ r) = None"
    by (cases "ru_control_group rule"; simp add: strip_prefix_def write_hcl_def)+
  have m: "strip_prefix ''  min_wrapping_ttl = '' (?max @ ?g @ ''}'' @ newline @ r) = None"
    using g(2) by (cases "ru_max_ttl rule") (simp_all add: write_ttl_def strip_prefix_def)
  show ?thesis
    unfolding read_rule_def render_rule_def
    by (simp only: read_steps rthen_ttl [OF m] rthen_ttl [OF g(1)] rthen_control_group) simp
qed

lemma build_loop_document:
  "build_loop doc rules = Inr out \<Longrightarrow> out = doc @ concat (map render_rule rules) \<and>
   (length doc \<le> MAX_POLICY_BYTES \<longrightarrow> length out \<le> MAX_POLICY_BYTES)"
  by (induction doc rules rule: build_loop.induct) (auto simp: Let_def split: if_splits)

lemma render_rule_not_Nil: "render_rule rule \<noteq> []"
  by (simp add: render_rule_def)

lemma read_rules_concat:
  "length rules \<le> n \<Longrightarrow> read_rules n (concat (map render_rule rules)) = Some rules"
proof (induction rules arbitrary: n)
  case (Cons rule rules)
  then obtain m where n: "n = Suc m" "length rules \<le> m" by (cases n) auto
  obtain c cs where "render_rule rule @ concat (map render_rule rules) = c # cs"
    using render_rule_not_Nil [of rule] by (cases "render_rule rule") auto
  then show ?case
    using n Cons.IH [OF n(2)] rule_reads [of rule "concat (map render_rule rules)"] by simp
qed simp

text \<open>C8: A policy document that renders reads back to exactly the builder's rules and fits the size
  limit: no path, duration, group name or label can close its quotes, open a template or change
  the rules of the document.\<close>

theorem policy_document_roundtrip:
  "case build rules of
     Inr document \<Rightarrow> read_policy document = Some rules \<and> length document \<le> 16 * 1024
   | Inl e \<Rightarrow> e = InvalidParameter ''ACL policy document exceeds maximum allowed length''"
proof (cases "build rules")
  case (Inl e)
  have "build_loop doc rs = Inl e \<Longrightarrow>
      e = InvalidParameter ''ACL policy document exceeds maximum allowed length''" for doc rs
    by (induction doc rs rule: build_loop.induct) (auto simp: Let_def split: if_splits)
  with Inl show ?thesis by (simp add: build_def)
next
  case (Inr document)
  then have "build_loop [] rules = Inr document" by (simp only: build_def)
  from build_loop_document [OF this]
  have d: "document = concat (map render_rule rules)" "length document \<le> MAX_POLICY_BYTES" by auto
  have "length rules \<le> length (concat (map render_rule rules))"
    by (induction rules) (auto simp: Suc_le_eq render_rule_not_Nil intro: add_strict_increasing)
  then have "read_policy document = Some rules"
    unfolding read_policy_def d(1) by (rule read_rules_concat)
  with Inr d(2) show ?thesis by (simp add: MAX_POLICY_BYTES_def)
qed

section \<open>Every builder\<close>

text \<open>A requirement exists only through its constructor, from factors made by theirs.\<close>

definition requirement_made :: "control_group_requirement \<Rightarrow> bool" where
  "requirement_made g \<longleftrightarrow> (\<exists>ttl factors. requirement_new ttl factors = Inr g \<and>
     (\<forall>f \<in> set factors. \<exists>name groups approvals. factor_new name groups approvals = Inr f))"

inductive policy_built :: "builder \<Rightarrow> bool" where
  new: "policy_built []"
| path: "policy_built b \<Longrightarrow> policy_built (snd (allow_path p caps b))"
| wrapping: "policy_built b \<Longrightarrow> policy_built (snd (allow_path_with_wrapping p caps mn mx b))"
| deny: "policy_built b \<Longrightarrow> policy_built (snd (deny_path p b))"
| group: "policy_built b \<Longrightarrow> requirement_made g \<Longrightarrow>
    policy_built (snd (allow_path_with_control_group p caps g b))"
| kv2_read: "policy_built b \<Longrightarrow> policy_built (snd (allow_kv2_read_prefix m p b))"
| kv2_read_wrapped: "policy_built b \<Longrightarrow>
    policy_built (snd (allow_kv2_read_prefix_with_required_wrapping m p ttl b))"
| kv2_write: "policy_built b \<Longrightarrow> policy_built (snd (allow_kv2_read_write_prefix m p b))"
| kv2_write_wrapped: "policy_built b \<Longrightarrow>
    policy_built (snd (allow_kv2_read_write_prefix_with_required_wrapping m p ttl b))"
| transit: "policy_built b \<Longrightarrow> policy_built (snd (allow_transit_encrypt_decrypt m k b))"
| transit_wrapped: "policy_built b \<Longrightarrow>
    policy_built (snd (allow_transit_encrypt_decrypt_with_required_wrapping m k ttl b))"
| transit_sign: "policy_built b \<Longrightarrow> policy_built (snd (allow_transit_sign_verify m k b))"
| transit_sign_wrapped: "policy_built b \<Longrightarrow>
    policy_built (snd (allow_transit_sign_verify_with_required_wrapping m k ttl b))"

definition requirement_ok :: "control_group_requirement \<Rightarrow> bool" where
  "requirement_ok g \<longleftrightarrow> 1 \<le> cg_ttl_seconds g \<and> cg_ttl_seconds g \<le> 86400 \<and>
     cg_factors g \<noteq> [] \<and> length (cg_factors g) \<le> 8 \<and> distinct (map cf_name (cg_factors g)) \<and>
     (\<forall>f \<in> set (cg_factors g). valid_name (cf_name f) 64 \<and> 1 \<le> cf_approvals f \<and>
        cf_approvals f \<le> 128 \<and> cf_groups f \<noteq> [] \<and> length (cf_groups f) \<le> 16 \<and>
        distinct (cf_groups f) \<and> (\<forall>n \<in> set (cf_groups f). valid_name n 128))"

definition rule_ok :: "acl_rule \<Rightarrow> bool" where
  "rule_ok rule \<longleftrightarrow>
     validate_policy_path (ru_path rule) = Inr (ru_path rule) \<and>
     ru_capabilities rule \<noteq> [] \<and>
     (CapDeny \<in> set (ru_capabilities rule) \<longrightarrow> ru_capabilities rule = [CapDeny]) \<and>
     is_none_or (\<lambda>t. validate_duration_string t False) (ru_min_ttl rule) \<and>
     is_none_or (\<lambda>t. validate_duration_string t False) (ru_max_ttl rule) \<and>
     is_none_or (\<lambda>g. requirement_ok g \<and> distinct (ru_capabilities rule) \<and>
        CapDeny \<notin> set (ru_capabilities rule) \<and> CapSudo \<notin> set (ru_capabilities rule))
       (ru_control_group rule)"

definition clash :: "acl_rule \<Rightarrow> acl_rule \<Rightarrow> bool" where
  "clash a b \<longleftrightarrow> ru_path a = ru_path b \<and> (ru_control_group a \<noteq> None \<or> ru_control_group b \<noteq> None)"

definition policy_ok :: "builder \<Rightarrow> bool" where
  "policy_ok b \<longleftrightarrow> length b \<le> 128 \<and> list_all rule_ok b \<and> sorted_wrt (\<lambda>x y. \<not> clash x y) b"

lemma group_names_ok:
  "group_names names gs = Inr r \<Longrightarrow> length names \<le> 16 \<Longrightarrow> distinct names \<Longrightarrow>
   (\<forall>n \<in> set names. valid_name n 128) \<Longrightarrow>
   length r \<le> 16 \<and> distinct r \<and> (\<forall>n \<in> set r. valid_name n 128)"
  by (induction names gs rule: group_names.induct) (auto simp: limits split: if_splits)

lemma factor_new_ok:
  "factor_new name gs approvals = Inr f \<Longrightarrow> valid_name (cf_name f) 64 \<and> 1 \<le> cf_approvals f \<and>
     cf_approvals f \<le> 128 \<and> cf_groups f \<noteq> [] \<and> length (cf_groups f) \<le> 16 \<and>
     distinct (cf_groups f) \<and> (\<forall>n \<in> set (cf_groups f). valid_name n 128)"
  using group_names_ok [of "[]" gs] by (auto simp: factor_new_def rbind_Inr_iff split: if_splits)

lemma checked_factors_ok:
  "checked_factors acc fs = Inr r \<Longrightarrow> length acc \<le> 8 \<Longrightarrow> distinct (map cf_name acc) \<Longrightarrow>
   length r \<le> 8 \<and> distinct (map cf_name r) \<and> set r = set acc \<union> set fs"
proof (induction acc fs rule: checked_factors.induct)
  case (2 checked factor factors)
  from 2(2) have guard: "\<not> (length checked = MAX_FACTORS \<or>
      list_ex (\<lambda>seen. cf_name seen = cf_name factor) checked)"
    and rest: "checked_factors (checked @ [factor]) factors = Inr r"
    by (simp_all split: if_splits)
  have "cf_name factor \<notin> cf_name ` set checked" using guard by (auto simp: list_ex_iff)
  with 2(1) [OF guard rest] 2(3,4) guard show ?case by (auto simp: limits)
qed simp

lemma requirement_made_ok: "requirement_made g \<Longrightarrow> requirement_ok g"
proof -
  assume "requirement_made g"
  then obtain ttl fs where g: "requirement_new ttl fs = Inr g"
    and fs: "\<forall>f \<in> set fs. \<exists>name gs approvals. factor_new name gs approvals = Inr f"
    unfolding requirement_made_def by blast
  from g obtain checked where c: "checked_factors [] fs = Inr checked" "checked \<noteq> []"
    and "1 \<le> as_secs ttl" "as_secs ttl \<le> 86400"
    and "g = \<lparr>cg_ttl_seconds = as_secs ttl, cg_factors = checked\<rparr>"
    by (auto simp: requirement_new_def rbind_Inr_iff split: if_splits)
  with checked_factors_ok [OF c(1)] fs factor_new_ok show ?thesis
    by (auto simp: requirement_ok_def)
qed

lemma checked_operations_ok:
  "checked_operations acc xs = Inr r \<Longrightarrow> distinct acc \<Longrightarrow> CapDeny \<notin> set acc \<Longrightarrow> CapSudo \<notin> set acc \<Longrightarrow>
   distinct r \<and> CapDeny \<notin> set r \<and> CapSudo \<notin> set r"
  by (induction acc xs rule: checked_operations.induct) (auto split: if_splits)

lemma validate_capabilities_ok:
  "validate_capabilities xs = Inr ys \<Longrightarrow> ys \<noteq> [] \<and> (CapDeny \<in> set ys \<longrightarrow> ys = [CapDeny])"
  by (cases xs; cases "tl xs") (auto simp: validate_capabilities_def split: if_splits)

lemma policy_path_canonical: "validate_policy_path p = Inr q \<Longrightarrow> validate_policy_path q = Inr q"
proof -
  assume "validate_policy_path p = Inr q"
  then obtain segs where "validate_mount_path p = Inr segs" "q = join_path segs"
    by (auto simp: validate_policy_path_def rmap_Inr_iff)
  then show ?thesis
    using mount_validator.canonical [of p segs] by (auto simp: validate_policy_path_def)
qed

lemma try_push_ok:
  "policy_ok b \<Longrightarrow> (\<And>rule. r = Inr rule \<Longrightarrow>
     rule_ok rule \<and> length b < 128 \<and> (\<forall>x \<in> set b. \<not> clash x rule)) \<Longrightarrow>
   policy_ok (snd (try_push r b))"
  by (cases r) (auto simp: try_push_def policy_ok_def sorted_wrt_append)

lemma no_collision:
  "reject_control_group_collision b p = Inr u \<Longrightarrow> ru_control_group rule = None \<Longrightarrow> ru_path rule = p \<Longrightarrow>
   x \<in> set b \<Longrightarrow> \<not> clash x rule"
  by (auto simp: reject_control_group_collision_def clash_def list_ex_iff split: if_splits)

lemma push_rule_ok: "policy_ok b \<Longrightarrow> policy_ok (snd (push_rule p caps b))"
  unfolding push_rule_def
proof (rule try_push_ok)
  fix rule
  assume "(if MAX_POLICY_RULES \<le> length b then Inl too_many_rules
      else rbind (validate_capabilities caps) (\<lambda>capabilities.
        rbind (validate_policy_path p) (\<lambda>path.
        rbind (reject_control_group_collision b path) (\<lambda>_.
          Inr \<lparr>ru_path = path, ru_capabilities = capabilities, ru_min_ttl = None,
            ru_max_ttl = None, ru_control_group = None\<rparr>)))) = Inr rule"
  then show "rule_ok rule \<and> length b < 128 \<and> (\<forall>x \<in> set b. \<not> clash x rule)"
    by (auto simp: rbind_Inr_iff limits rule_ok_def no_collision
        dest: validate_capabilities_ok policy_path_canonical split: if_splits)
qed

lemma optional_ttl_ok:
  "optional_ttl ttl field = Inr r \<Longrightarrow> is_none_or (\<lambda>t. validate_duration_string t False) r"
  by (auto simp: optional_ttl_def rmap_Inr_iff validate_wrapping_policy_ttl_def rbind_Inr_iff
      validate_duration_parameter_def split: option.splits if_splits)

lemma push_rule_with_wrapping_ok: "policy_ok b \<Longrightarrow> policy_ok (snd (push_rule_with_wrapping p caps mn mx b))"
  unfolding push_rule_with_wrapping_def
proof (rule try_push_ok)
  fix rule
  assume "(if mn = None \<and> mx = None
        then Inl (InvalidParameter
          ''ACL wrapping rule must include min_wrapping_ttl or max_wrapping_ttl'')
        else if MAX_POLICY_RULES \<le> length b then Inl too_many_rules
        else rbind (validate_capabilities caps) (\<lambda>capabilities.
          rbind (validate_policy_path p) (\<lambda>path.
          rbind (reject_control_group_collision b path) (\<lambda>_.
          rbind (optional_ttl mn ''min_wrapping_ttl'') (\<lambda>min_ttl.
          rbind (optional_ttl mx ''max_wrapping_ttl'') (\<lambda>max_ttl.
            Inr \<lparr>ru_path = path, ru_capabilities = capabilities, ru_min_ttl = min_ttl,
              ru_max_ttl = max_ttl, ru_control_group = None\<rparr>)))))) = Inr rule"
  then obtain cs q u tn tx where facts: "validate_capabilities caps = Inr cs" "validate_policy_path p = Inr q"
    "reject_control_group_collision b q = Inr u" "optional_ttl mn ''min_wrapping_ttl'' = Inr tn"
    "optional_ttl mx ''max_wrapping_ttl'' = Inr tx" "length b < 128"
    and rule: "rule = \<lparr>ru_path = q, ru_capabilities = cs, ru_min_ttl = tn,
              ru_max_ttl = tx, ru_control_group = None\<rparr>"
    by (auto simp: rbind_Inr_iff limits split: if_splits)
  have "rule_ok rule"
    using facts(1,2) optional_ttl_ok [OF facts(4)] optional_ttl_ok [OF facts(5)]
    by (auto simp: rule rule_ok_def dest: validate_capabilities_ok policy_path_canonical)
  then show "rule_ok rule \<and> length b < 128 \<and> (\<forall>x \<in> set b. \<not> clash x rule)"
    using facts no_collision [OF facts(3), of rule] by (simp add: rule)
qed

lemma control_group_rule_ok:
  "policy_ok b \<Longrightarrow> requirement_made g \<Longrightarrow> policy_ok (snd (allow_path_with_control_group p caps g b))"
  unfolding allow_path_with_control_group_def
proof (rule try_push_ok)
  fix rule
  assume g: "requirement_made g"
  assume "rbind (validate_operations caps) (\<lambda>capabilities.
          if MAX_POLICY_RULES \<le> length b then Inl too_many_rules
          else rbind (validate_policy_path p) (\<lambda>path.
            if list_ex (\<lambda>rule. ru_path rule = path) b then Inl shared_path_error
            else Inr \<lparr>ru_path = path, ru_capabilities = capabilities, ru_min_ttl = None,
              ru_max_ttl = None, ru_control_group = Some g\<rparr>)) = Inr rule"
  then obtain cs q where facts: "checked_operations [] caps = Inr cs" "cs \<noteq> []"
    "validate_policy_path p = Inr q" "\<not> list_ex (\<lambda>rule. ru_path rule = q) b" "length b < 128"
    and rule: "rule = \<lparr>ru_path = q, ru_capabilities = cs, ru_min_ttl = None,
              ru_max_ttl = None, ru_control_group = Some g\<rparr>"
    by (auto simp: rbind_Inr_iff limits validate_operations_def split: if_splits)
  with checked_operations_ok [OF facts(1)] requirement_made_ok [OF g] policy_path_canonical [OF facts(3)]
  show "rule_ok rule \<and> length b < 128 \<and> (\<forall>x \<in> set b. \<not> clash x rule)"
    by (auto simp: rule_ok_def clash_def list_ex_iff)
qed simp_all

lemma and_then_ok:
  "policy_ok (snd m) \<Longrightarrow> (\<And>b. policy_ok b \<Longrightarrow> policy_ok (snd (f b))) \<Longrightarrow> policy_ok (snd (and_then m f))"
  by (cases "(m, f)" rule: and_then.cases) auto

lemma push_pair_ok:
  "policy_ok b \<Longrightarrow> (\<And>p b. policy_ok b \<Longrightarrow> policy_ok (snd (f p b))) \<Longrightarrow>
   (\<And>p b. policy_ok b \<Longrightarrow> policy_ok (snd (g p b))) \<Longrightarrow> policy_ok (snd (push_pair x y f g b))"
  by (auto simp: push_pair_def and_then_ok split: sum.splits)

lemma push_key_pair_ok:
  "policy_ok b \<Longrightarrow> (\<And>p b. policy_ok b \<Longrightarrow> policy_ok (snd (f p b))) \<Longrightarrow>
   policy_ok (snd (push_key_pair m k x y f b))"
  by (auto simp: push_key_pair_def split: sum.splits intro!: and_then_ok)

lemmas builder_defs = allow_path_def allow_path_with_wrapping_def deny_path_def
  allow_kv2_read_prefix_def allow_kv2_read_prefix_with_required_wrapping_def
  allow_kv2_read_write_prefix_def allow_kv2_read_write_prefix_with_required_wrapping_def
  allow_transit_encrypt_decrypt_def allow_transit_encrypt_decrypt_with_required_wrapping_def
  allow_transit_sign_verify_def allow_transit_sign_verify_with_required_wrapping_def

text \<open>C35: Whatever operations a policy is built with, and whichever of them failed half-way, it has at
  most 128 rules with canonical paths and at least one capability each, deny stands alone,
  wrapping durations are valid, an approval requirement is within its bounds and never covers
  deny or sudo, and no rule shares its exact path with a rule that has one.\<close>

theorem policy_built_ok:
  assumes "policy_built b"
  shows "policy_ok b"
  using assms
proof induction
  case new
  show ?case by (simp add: policy_ok_def)
qed (auto simp: builder_defs intro!: push_rule_ok push_rule_with_wrapping_ok control_group_rule_ok
    push_pair_ok push_key_pair_ok)

theorem policy_built_ok_witness:
  "policy_ok (snd (allow_kv2_read_prefix ''secret'' ''app'' [])) \<and>
   map ru_path (snd (allow_kv2_read_prefix ''secret'' ''app'' [])) =
     [''secret/data/app/*'', ''secret/metadata/app/*'']"
proof -
  have "map ru_path (snd (allow_kv2_read_prefix ''secret'' ''app'' [])) =
     [''secret/data/app/*'', ''secret/metadata/app/*'']" by code_simp
  with policy_built_ok [OF kv2_read [OF new, of "''secret''" "''app''"]] show ?thesis by blast
qed

end
