(* ===== verification/Bao_Engine.thy ===== *)
theory Bao_Engine
  imports Bao_Kv Bao_Fields
begin

text \<open>
  What the typed secrets engines and auth methods share: the paths of a mounted handle, the check of
  versioned request fields, and the contract \<open>mounted_engine\<close> under which the
  operations of an engine are shown to stay below their mount.
\<close>

section \<open>Containers\<close>

text \<open>\<open>BTreeMap::insert\<close> on the list of its entries, and \<open>split_ascii_whitespace\<close>.\<close>

fun btree_insert :: "'k::linorder \<Rightarrow> 'v \<Rightarrow> ('k \<times> 'v) list \<Rightarrow> ('k \<times> 'v) list" where
  "btree_insert k v [] = [(k, v)]"
| "btree_insert k v ((k', v') # es) =
     (if k < k' then (k, v) # (k', v') # es
      else if k = k' then (k, v) # es
      else (k', v') # btree_insert k v es)"

definition is_ascii_alphabetic :: "char \<Rightarrow> bool" where
  "is_ascii_alphabetic c \<longleftrightarrow> is_ascii_lowercase c \<or> is_ascii_uppercase c"

fun ascii_words :: "string \<Rightarrow> string \<Rightarrow> string list" where
  "ascii_words word [] = (if word = [] then [] else [word])"
| "ascii_words word (c # cs) =
     (if is_ascii_whitespace c then (if word = [] then [] else [word]) @ ascii_words [] cs
      else ascii_words (word @ [c]) cs)"

definition split_ascii_whitespace :: "string \<Rightarrow> string list" where
  "split_ascii_whitespace s = ascii_words [] s"

lemma btree_insert_keys: "fst ` set (btree_insert k v es) = insert k (fst ` set es)"
  by (induction es) (force split: if_splits)+

lemma btree_insert_sorted:
  "sorted_wrt (<) (map fst es) \<Longrightarrow> sorted_wrt (<) (map fst (btree_insert k v es))"
proof (induction es)
  case (Cons e es)
  then show ?case by (cases e) (auto simp: btree_insert_keys)
qed simp

lemma btree_insert_map_of:
  "map_of (btree_insert k v es) = (map_of es)(k \<mapsto> v)"
  by (induction es) (auto simp: fun_eq_iff)

section \<open>Paths below a mount\<close>

text \<open>The loop of \<open>path\<close> in every engine: each part of the tail is validated and appended.\<close>

definition handle_path :: "string list \<Rightarrow> string list \<Rightarrow> string res" where
  "handle_path mount tail = rmap (join_with ''/'') (extend_segments mount tail)"

text \<open>\<open>Client::validate_versioned_request_fields\<close>: the report of the cache, then the fields.\<close>

definition client_validate_fields ::
  "http_env \<Rightarrow> (versioned_request_field \<times> bool) list \<Rightarrow> unit res" where
  "client_validate_fields env fields_set =
     rbind (ensured env) (\<lambda>report. validate_versioned_request_fields report fields_set)"

lemma extend_segments_iff:
  "extend_segments segs tail = rmap (\<lambda>ws. segs @ concat ws) (rtraverse validate_endpoint_path tail)"
proof (induction tail arbitrary: segs)
  case (Cons part tail)
  show ?case
  proof (cases "validate_endpoint_path part")
    case (Inr w)
    then show ?thesis
      using Cons.IH [of "segs @ w"] by (cases "rtraverse validate_endpoint_path tail") simp_all
  qed simp
qed simp

lemma handle_path_ok:
  "rtraverse validate_endpoint_path tail = Inr ws \<Longrightarrow>
   handle_path mount tail = Inr (join_with ''/'' (mount @ concat ws))"
  by (simp add: handle_path_def extend_segments_iff)

lemma traversed_safe:
  "rtraverse validate_endpoint_path tail = Inr ws \<Longrightarrow> list_all safe_segment (concat ws)"
proof (induction tail arbitrary: ws)
  case (Cons part tail)
  from Cons.prems obtain w ws' where "validate_endpoint_path part = Inr w"
    "rtraverse validate_endpoint_path tail = Inr ws'" "ws = w # ws'"
    by (auto simp: rbind_Inr_iff rmap_Inr_iff)
  with Cons.IH validated_safe(2) show ?case by simp
qed simp

text \<open>The loop as it is written with \<open>for\<close>.\<close>

lemma rmap_rbind: "rbind r (\<lambda>x. Inr (f x)) = rmap f r"
  by (cases r) simp_all

lemma rfold_segments:
  "rfold (\<lambda>part segments. rmap ((@) segments) (validate_endpoint_path part)) tail mount =
   extend_segments mount tail"
proof (induction tail arbitrary: mount)
  case (Cons part tail)
  then show ?case by (cases "validate_endpoint_path part") simp_all
qed simp

section \<open>Requests below a mount\<close>

text \<open>
  What an operation of a mounted handle may put on the wire: at most one request, safe, with the
  given verb, to a URL whose segments are those of the mount followed by safe ones.
\<close>

definition mounted_call ::
  "http_env \<Rightarrow> client \<Rightarrow> string \<Rightarrow> string list \<Rightarrow> 'a sent \<Rightarrow> bool" where
  "mounted_call env cl m mount s \<longleftrightarrow> sent_safe env cl s \<and> length (snd s) \<le> 1 \<and>
     list_all (\<lambda>(http, rq). rq_method rq = m \<and>
       (\<exists>segs. list_all safe_segment segs \<and> wire_url env cl (mount @ segs) (rq_url rq))) (snd s)"

text \<open>The requests of \<open>client.rs\<close> for a secrets mount, each to a path below the mount.\<close>

lemma secret_json_safe:
  "sent_safe env cl (request_secret_json_internal env cl from_json scope d a m path body)"
  "sent_safe env cl (request_secret_json_accepting env cl from_json scope d a m path body st)"
  "sent_safe env cl
     (request_secret_json_query_headers_accepting env cl from_json scope d a m path query headers body st)"
  by (simp_all add: request_secret_json_internal_def request_secret_json_accepting_def
      request_secret_json_query_headers_accepting_def request_route_safe)

lemma resolved_secret:
  assumes "resolve_route env cl m (SecretMount scope d a path) query = pure (Inr (r, wire))"
  shows "re_method r = m" "wire = path"
proof -
  from assms have *: "resolve_registered_openbao_route (ops env) (external_plugins (cl_config cl))
      (ensured env) m (SecretMount scope d a path) query = Inr (r, wire)"
    by (simp add: resolve_route_def pure_def)
  then show "re_method r = m" by (auto dest: resolved_route)
  from * have "wire = binding_wire (SecretMount scope d a path)"
    by (auto dest!: resolved_route dest: binding_paths_wire)
  then show "wire = path" by simp
qed

lemma secret_bytes_sends [sends_intros]:
  "sends env cl m path query
     (request_secret_bytes_headers_accepting env cl scope d a m path query headers body st)"
proof -
  obtain r where r: "resolve_route env cl m (SecretMount scope d a path) query = pure r"
    by (simp add: resolve_route_def)
  show ?thesis
  proof (cases r)
    case (Inr x)
    obtain rs wire where x: "x = (rs, wire)" by (cases x)
    have "re_method rs = m" "wire = path"
      using resolved_secret [of env cl m scope d a path query rs wire] r Inr x by simp_all
    then show ?thesis
      by (simp add: request_secret_bytes_headers_accepting_def r Inr x sbind_pure sends_bytes)
  qed (simp add: request_secret_bytes_headers_accepting_def r sbind_pure sends_pure)
qed

lemma secret_bytes_safe:
  "sent_safe env cl
     (request_secret_bytes_headers_accepting env cl scope d a m path query headers body st)"
  unfolding request_secret_bytes_headers_accepting_def resolve_route_def
  by (intro sent_intros) (auto simp: request_bytes_safe)

text \<open>A check that asks the compatibility cache sends nothing.\<close>

definition silent :: "'a sent \<Rightarrow> bool" where
  "silent s \<longleftrightarrow> snd s = []"

named_theorems silent_intros \<open>the checks that send nothing\<close>

lemma silent_pure [silent_intros]: "silent (pure r)"
  by (simp add: silent_def)

lemma silent_bind [silent_intros]:
  "silent s \<Longrightarrow> (\<And>x. silent (f x)) \<Longrightarrow> silent (sbind s f)"
  unfolding silent_def by (cases "(s, f)" rule: sbind.cases) (auto split: prod.splits)

lemma silent_case_prod [silent_intros]:
  "(\<And>x y. silent (f x y)) \<Longrightarrow> silent (case p of (x, y) \<Rightarrow> f x y)"
  by (simp split: prod.split)

lemma silent_if [silent_intros]: "silent s \<Longrightarrow> silent t \<Longrightarrow> silent (if b then s else t)"
  by simp

section \<open>Requests to a route\<close>

text \<open>
  What an operation with a documented route may do: when every part of the route is a valid path, at
  most one request, safe, with the given verb, to the segments of the mount followed by those of the
  parts; when a part is not valid, nothing.
\<close>

definition at_route ::
  "http_env \<Rightarrow> client \<Rightarrow> string \<Rightarrow> string list \<Rightarrow> string list \<Rightarrow> 'a sent \<Rightarrow> bool" where
  "at_route env cl m mount parts s \<longleftrightarrow> sent_safe env cl s \<and>
     (case rtraverse validate_endpoint_path parts of
        Inl _ \<Rightarrow> snd s = []
      | Inr segs \<Rightarrow> goes_to env cl m (mount @ concat segs) s)"

definition path_at :: "string list \<Rightarrow> string list \<Rightarrow> string \<Rightarrow> bool" where
  "path_at mount parts p \<longleftrightarrow>
     (\<exists>segs. rtraverse validate_endpoint_path parts = Inr segs \<and> p = join_with ''/'' (mount @ concat segs))"

fun optional_part :: "'a option \<Rightarrow> 'a list" where
  "optional_part None = []"
| "optional_part (Some part) = [part]"

named_theorems at_intros \<open>how a call to a route is composed\<close>

lemma at_pure [simp, intro]: "at_route env cl m mount parts (pure r)"
  by (simp add: at_route_def sent_safe_def pure_def goes_to_def split: sum.split)

lemma at_smap [simp]: "at_route env cl m mount parts (smap f s) \<longleftrightarrow> at_route env cl m mount parts s"
  by (simp add: at_route_def smap_def sent_safe_def goes_to_def split: sum.split)

lemma at_optional [simp]:
  "at_route env cl m mount parts (optional_on_not_found s) \<longleftrightarrow> at_route env cl m mount parts s"
  by (simp add: at_route_def optional_on_not_found_def sent_safe_def goes_to_def split: sum.split)

lemma at_pure_bind [at_intros]:
  "(\<And>x. r = Inr x \<Longrightarrow> at_route env cl m mount parts (f x)) \<Longrightarrow>
   at_route env cl m mount parts (sbind (pure r) f)"
  by (cases r) (auto simp: sbind_pure)

lemma at_if [at_intros]:
  "(b \<Longrightarrow> at_route env cl m mount parts s) \<Longrightarrow> (\<not> b \<Longrightarrow> at_route env cl m mount parts t) \<Longrightarrow>
   at_route env cl m mount parts (if b then s else t)"
  by simp

lemma at_case_prod [at_intros]:
  "(\<And>x y. p = (x, y) \<Longrightarrow> at_route env cl m mount parts (f x y)) \<Longrightarrow>
   at_route env cl m mount parts (case p of (x, y) \<Rightarrow> f x y)"
  by (cases p) simp

lemma at_smapI [at_intros]:
  "at_route env cl m mount parts s \<Longrightarrow> at_route env cl m mount parts (smap f s)"
  by simp

lemma at_after:
  "at_route env cl m mount parts s \<Longrightarrow> (\<And>x. silent (f x)) \<Longrightarrow>
   at_route env cl m mount parts (sbind s f)"
  unfolding silent_def at_route_def sent_safe_def goes_to_def by (simp add: sbind_silent split: sum.splits)

lemmas at_after_bind [at_intros] = at_after [where s = "sbind s g" for s g]
  and at_after_smap [at_intros] = at_after [where s = "smap g s" for s g]

lemma at_silent_bind:
  "silent s \<Longrightarrow> (\<And>x. fst s = Inr x \<Longrightarrow> at_route env cl m mount parts (f x)) \<Longrightarrow>
   at_route env cl m mount parts (sbind s f)"
  unfolding silent_def
  by (cases "(s, f)" rule: sbind.cases)
    (auto simp: at_route_def sent_safe_def goes_to_def split: prod.splits sum.splits)

lemma handle_path_at: "handle_path mount parts = Inr p \<Longrightarrow> path_at mount parts p"
  by (auto simp: path_at_def handle_path_def extend_segments_iff rmap_Inr_iff)

text \<open>
  A name that was validated on its own first, and its segments then appended one by one, takes the
  same route as the name itself.
\<close>

lemma mount_path_endpoint: "validate_mount_path name = Inr segs \<Longrightarrow> validate_endpoint_path name = Inr segs"
  by (simp add: validate_mount_path_def validate_endpoint_path_def validate_path_iff)

lemma length_join_part: "s \<in> set segs \<Longrightarrow> length s \<le> length (join_with sep segs)"
proof (induction segs)
  case (Cons x xs)
  then show ?case by (cases "xs = []") (auto simp: join_with_Cons)
qed simp

lemma part_endpoint:
  assumes "validate_endpoint_path name = Inr segs" "s \<in> set segs"
  shows "validate_endpoint_path s = Inr [s]"
proof -
  have safe: "list_all safe_segment [s]"
    using assms by (auto simp: validate_endpoint_path_def list_all_iff dest: validate_path_safe)
  have "length s \<le> MAX_PATH_BYTES"
    using validate_path_bounded [of name True segs] assms length_join_part [OF assms(2)]
    by (fastforce simp: validate_endpoint_path_def intro: le_trans)
  then show ?thesis
    using safe trim_join_path [OF _ safe]
    by (simp add: validate_endpoint_path_def validate_path_iff MAX_PATH_SEGMENTS_def)
qed

lemma parts_endpoint:
  "validate_endpoint_path name = Inr segs \<Longrightarrow> set ss \<subseteq> set segs \<Longrightarrow>
   rtraverse validate_endpoint_path ss = Inr (map (\<lambda>s. [s]) ss)"
  by (induction ss) (simp_all add: part_endpoint)

lemma rtraverse_append_Inr_iff:
  "rtraverse f (xs @ ys) = Inr zs \<longleftrightarrow>
   (\<exists>us vs. rtraverse f xs = Inr us \<and> rtraverse f ys = Inr vs \<and> zs = us @ vs)"
proof (induction xs arbitrary: zs)
  case (Cons x xs)
  then show ?case by (cases "f x") (auto simp: rmap_Inr_iff)
qed simp

lemma concat_singletons: "concat (map (\<lambda>s. [s]) ss) = ss"
  by (induction ss) simp_all

lemma named_path_at:
  assumes "validate_mount_path name = Inr segs" "path_at mount (pre @ segs @ post) p"
  shows "path_at mount (pre @ name # post) p"
  using assms(2) parts_endpoint [OF mount_path_endpoint [OF assms(1)], of segs]
    mount_path_endpoint [OF assms(1)]
  by (auto simp: path_at_def rtraverse_append_Inr_iff concat_singletons)

lemma joined_path_at:
  assumes "validate_mount_path name = Inr segs"
    "handle_path mount (pre @ [join_with ''/'' segs]) = Inr p"
  shows "path_at mount (pre @ [name]) p"
proof -
  have "validate_mount_path (join_with ''/'' segs) = Inr segs"
    using validate_path_join [of name False segs] assms(1) by (simp add: validate_mount_path_def)
  with assms show ?thesis
    by (auto simp: path_at_def handle_path_def extend_segments_iff rmap_Inr_iff
        rtraverse_append_Inr_iff dest!: mount_path_endpoint)
qed

lemma at_sends:
  assumes "sends env cl m p query s" "sent_safe env cl s" "path_at mount parts p"
    "list_all safe_segment mount"
  shows "at_route env cl m mount parts s"
proof -
  obtain segs where segs: "rtraverse validate_endpoint_path parts = Inr segs"
      "p = join_with ''/'' (mount @ concat segs)"
    using assms(3) by (auto simp: path_at_def)
  with assms(1,4) traversed_safe [OF segs(1)] have "goes_to env cl m (mount @ concat segs) s"
    by (auto intro: sends_goes_to)
  with segs(1) assms(2) show ?thesis by (simp add: at_route_def)
qed

text \<open>A call to a route stays below its mount.\<close>

lemma at_route_mounted: "at_route env cl m mount parts s \<Longrightarrow> mounted_call env cl m mount s"
  by (auto simp: at_route_def mounted_call_def goes_to_def list_all_iff split: sum.splits
      dest!: traversed_safe intro!: exI [of _ "concat segs" for segs])

named_theorems at_requests \<open>the requests to a route\<close>

lemma secret_at [at_requests]:
  assumes "list_all safe_segment mount" "path_at mount parts p"
  shows "at_route env cl m mount parts
      (request_secret_json_internal env cl from_json scope d a m p body)"
    and "at_route env cl m mount parts
      (request_secret_json_accepting env cl from_json scope d a m p body st)"
    and "at_route env cl m mount parts
      (request_secret_json_query_headers_accepting env cl from_json scope d a m p query headers body st)"
    and "at_route env cl m mount parts
      (request_secret_bytes_headers_accepting env cl scope d a m p query headers bytes st)"
  by (rule at_sends [OF _ _ assms(2,1)]; rule sends_secret secret_json_safe secret_bytes_sends
      secret_bytes_safe)+

section \<open>The contract of an engine\<close>

text \<open>
  What the operations of an engine rely on: its \<open>path\<close> is the loop above, and its plain request goes
  where it is told, with the verb it is told, safely. The route table of every engine rests on this.
\<close>

locale mounted_engine =
  fixes path :: "string list \<Rightarrow> string list \<Rightarrow> string res"
    and request :: "http_env \<Rightarrow> client \<Rightarrow> (string \<Rightarrow> 'a option) \<Rightarrow> string list \<Rightarrow> string \<Rightarrow> string \<Rightarrow>
      payload option \<Rightarrow> 'a sent"
  assumes path_handle: "path mount parts = handle_path mount parts"
    and request_sends: "sends env cl m p [] (request env cl from_json mount m p body)"
    and request_ok: "sent_safe env cl (request env cl from_json mount m p body)"
begin

lemma path_at: "path mount parts = Inr p \<Longrightarrow> path_at mount parts p"
  by (simp add: path_handle handle_path_at)

lemma request_at:
  "list_all safe_segment mount \<Longrightarrow> path_at mount parts p \<Longrightarrow>
   at_route env cl m mount parts (request env cl from_json mount m p body)"
  by (rule at_sends [OF request_sends request_ok])

text \<open>The request of a path that was just built.\<close>

lemma request_of_path:
  "list_all safe_segment mount \<Longrightarrow>
   at_route env cl m mount parts
     (sbind (pure (path mount parts)) (\<lambda>p. request env cl from_json mount m p body))"
  by (intro at_intros request_at path_at)

end

end
