(* ===== verification/Bao_Transit.thy ===== *)
theory Bao_Transit
  imports Bao_Engine
begin

text \<open>
  The transit engine, \<open>secrets/transit.rs\<close>: its keys, requests and payloads, the checks a request
  passes before it is sent, and every operation of a mounted handle. A handle is the list of its
  mount segments; \<open>from_json\<close> is the deserialiser of a response and \<open>to_json\<close> the serialiser of a
  payload. All cargo features are on. \<open>encode_base64\<close> and \<open>decode_base64\<close> are the functions of the
  base64 crate; the key wrapping of the import helper uses cryptographic crates and is left out.
\<close>

section \<open>Data and requests\<close>

text \<open>\<open>base64_encode_secret\<close>, \<open>decode_base64_secret\<close>: the crate's text has to be UTF-8.\<close>

definition transit_base64_encode_secret :: "(string \<Rightarrow> string option) \<Rightarrow> string \<Rightarrow> string res" where
  "transit_base64_encode_secret encode_base64 input =
     rbind (ok_or (encode_base64 input) (InvalidParameter ''base64 input is too large'')) (\<lambda>encoded.
       if valid_utf8 encoded then Inr encoded
       else Inl (Internal ''base64-ng produced non-UTF-8 text for standard base64 output''))"

definition transit_decode_base64_secret :: "(string \<Rightarrow> string option) \<Rightarrow> string \<Rightarrow> string res" where
  "transit_decode_base64_secret decode_base64 input =
     ok_or (decode_base64 input) (Decode ''OpenBao response contained invalid base64'')"

datatype transit_data_key_type =
    TransitDataKeyType_Plaintext | TransitDataKeyType_Wrapped

definition transit_data_key_type_as_path_segment ::
  "transit_data_key_type \<Rightarrow> string" where
  "transit_data_key_type_as_path_segment self =
     (case self of
        TransitDataKeyType_Plaintext \<Rightarrow> ''plaintext''
      | TransitDataKeyType_Wrapped \<Rightarrow> ''wrapped'')"

datatype transit_random_source =
    TransitRandomSource_Platform | TransitRandomSource_All

definition transit_random_source_as_path_segment ::
  "transit_random_source \<Rightarrow> string" where
  "transit_random_source_as_path_segment self =
     (case self of
        TransitRandomSource_Platform \<Rightarrow> ''platform''
      | TransitRandomSource_All \<Rightarrow> ''all'')"

datatype transit_hash_algorithm =
    TransitHashAlgorithm_Sha1 | TransitHashAlgorithm_Sha2_224 | TransitHashAlgorithm_Sha2_256
  | TransitHashAlgorithm_Sha2_384 | TransitHashAlgorithm_Sha2_512
  | TransitHashAlgorithm_Sha3_224 | TransitHashAlgorithm_Sha3_256
  | TransitHashAlgorithm_Sha3_384 | TransitHashAlgorithm_Sha3_512 | TransitHashAlgorithm_None

definition transit_hash_algorithm_as_path_segment ::
  "transit_hash_algorithm \<Rightarrow> string" where
  "transit_hash_algorithm_as_path_segment self =
     (case self of
        TransitHashAlgorithm_Sha1 \<Rightarrow> ''sha1''
      | TransitHashAlgorithm_Sha2_224 \<Rightarrow> ''sha2-224''
      | TransitHashAlgorithm_Sha2_256 \<Rightarrow> ''sha2-256''
      | TransitHashAlgorithm_Sha2_384 \<Rightarrow> ''sha2-384''
      | TransitHashAlgorithm_Sha2_512 \<Rightarrow> ''sha2-512''
      | TransitHashAlgorithm_Sha3_224 \<Rightarrow> ''sha3-224''
      | TransitHashAlgorithm_Sha3_256 \<Rightarrow> ''sha3-256''
      | TransitHashAlgorithm_Sha3_384 \<Rightarrow> ''sha3-384''
      | TransitHashAlgorithm_Sha3_512 \<Rightarrow> ''sha3-512''
      | TransitHashAlgorithm_None \<Rightarrow> ''none'')"

datatype transit_key_type =
    TransitKeyType_Aes128Gcm96 | TransitKeyType_Aes256Gcm96 | TransitKeyType_ChaCha20Poly1305
  | TransitKeyType_XChaCha20Poly1305 | TransitKeyType_Ed25519 | TransitKeyType_EcdsaP256
  | TransitKeyType_EcdsaP384 | TransitKeyType_EcdsaP521 | TransitKeyType_Rsa2048
  | TransitKeyType_Rsa3072 | TransitKeyType_Rsa4096 | TransitKeyType_Hmac

record transit_create_key_request =
  transit_create_key_request_key_type :: "transit_key_type option"
  transit_create_key_request_convergent_encryption :: "bool option"
  transit_create_key_request_derived :: "bool option"
  transit_create_key_request_exportable :: "bool option"
  transit_create_key_request_allow_plaintext_backup :: "bool option"
  transit_create_key_request_auto_rotate_period :: "string option"

definition transit_create_key_request_validate ::
  "transit_create_key_request \<Rightarrow> unit res" where
  "transit_create_key_request_validate self =
     (case transit_create_key_request_auto_rotate_period self of
        None \<Rightarrow> Inr ()
      | Some period \<Rightarrow> validate_duration_parameter period
        ''Transit auto_rotate_period'')"

record transit_update_key_request =
  transit_update_key_request_min_decryption_version :: "64 word option"
  transit_update_key_request_min_encryption_version :: "64 word option"
  transit_update_key_request_deletion_allowed :: "bool option"
  transit_update_key_request_exportable :: "bool option"
  transit_update_key_request_allow_plaintext_backup :: "bool option"
  transit_update_key_request_auto_rotate_period :: "string option"

definition transit_update_key_request_allow_deletion ::
  "transit_update_key_request \<Rightarrow> transit_update_key_request" where
  "transit_update_key_request_allow_deletion self =
     self\<lparr>transit_update_key_request_deletion_allowed := Some True\<rparr>"

definition transit_update_key_request_with_auto_rotate_period ::
  "transit_update_key_request \<Rightarrow> string \<Rightarrow>
   transit_update_key_request res" where
  "transit_update_key_request_with_auto_rotate_period self period =
     rbind (validate_duration_parameter period ''Transit auto_rotate_period'') (\<lambda>_.
     Inr (self\<lparr>transit_update_key_request_auto_rotate_period := Some period\<rparr>))"

definition transit_update_key_request_validate ::
  "transit_update_key_request \<Rightarrow> unit res" where
  "transit_update_key_request_validate self =
     (case transit_update_key_request_auto_rotate_period self of
        None \<Rightarrow> Inr ()
      | Some period \<Rightarrow> validate_duration_parameter period
        ''Transit auto_rotate_period'')"

datatype transit_import_hash_function =
    TransitImportHashFunction_Sha1 | TransitImportHashFunction_Sha224
  | TransitImportHashFunction_Sha256 | TransitImportHashFunction_Sha384
  | TransitImportHashFunction_Sha512

definition transit_import_hash_function_as_query_value ::
  "transit_import_hash_function \<Rightarrow> string" where
  "transit_import_hash_function_as_query_value self =
     (case self of
        TransitImportHashFunction_Sha1 \<Rightarrow> ''SHA1''
      | TransitImportHashFunction_Sha224 \<Rightarrow> ''SHA224''
      | TransitImportHashFunction_Sha256 \<Rightarrow> ''SHA256''
      | TransitImportHashFunction_Sha384 \<Rightarrow> ''SHA384''
      | TransitImportHashFunction_Sha512 \<Rightarrow> ''SHA512'')"

record transit_import_request =
  transit_import_request_ciphertext :: "string option"
  transit_import_request_public_key :: "string option"
  transit_import_request_key_type :: transit_key_type
  transit_import_request_hash_function :: "transit_import_hash_function option"
  transit_import_request_allow_rotation :: "bool option"
  transit_import_request_derived :: "bool option"
  transit_import_request_context :: "string option"
  transit_import_request_exportable :: "bool option"
  transit_import_request_allow_plaintext_backup :: "bool option"
  transit_import_request_auto_rotate_period :: "string option"

definition transit_validate_non_empty_secret ::
  "string \<Rightarrow> string \<Rightarrow> unit res" where
  "transit_validate_non_empty_secret secret label =
     (if secret = [] then Inl (InvalidParameter (label @ '' must not be empty''))
        else Inr ())"

definition transit_import_request_new ::
  "string \<Rightarrow> transit_key_type \<Rightarrow> transit_import_request res" where
  "transit_import_request_new ciphertext key_type =
     rbind (transit_validate_non_empty_secret ciphertext ''Transit import ciphertext'')
       (\<lambda>_.
     Inr \<lparr>transit_import_request_ciphertext = Some ciphertext,
       transit_import_request_public_key = None, transit_import_request_key_type = key_type,
       transit_import_request_hash_function = None,
       transit_import_request_allow_rotation = None, transit_import_request_derived = None,
       transit_import_request_context = None, transit_import_request_exportable = None,
       transit_import_request_allow_plaintext_backup = None,
       transit_import_request_auto_rotate_period = None\<rparr>)"

definition transit_validate_non_empty_public_key ::
  "string \<Rightarrow> string \<Rightarrow> unit res" where
  "transit_validate_non_empty_public_key public_key label =
     (if trim public_key = [] then Inl (InvalidParameter (label @ '' must not be empty''))
        else Inr ())"

definition transit_import_request_from_public_key ::
  "string \<Rightarrow> transit_key_type \<Rightarrow> transit_import_request res" where
  "transit_import_request_from_public_key public_key key_type =
     rbind (transit_validate_non_empty_public_key public_key ''Transit import public_key'')
       (\<lambda>_.
     Inr \<lparr>transit_import_request_ciphertext = None,
       transit_import_request_public_key = Some public_key,
       transit_import_request_key_type = key_type, transit_import_request_hash_function = None,
       transit_import_request_allow_rotation = None, transit_import_request_derived = None,
       transit_import_request_context = None, transit_import_request_exportable = None,
       transit_import_request_allow_plaintext_backup = None,
       transit_import_request_auto_rotate_period = None\<rparr>)"

definition transit_import_request_with_hash_function ::
  "transit_import_request \<Rightarrow> transit_import_hash_function \<Rightarrow>
   transit_import_request" where
  "transit_import_request_with_hash_function self hash_function =
     self\<lparr>transit_import_request_hash_function := Some hash_function\<rparr>"

definition transit_import_request_allow_rotation_set ::
  "transit_import_request \<Rightarrow> transit_import_request" where
  "transit_import_request_allow_rotation_set self =
     self\<lparr>transit_import_request_allow_rotation := Some True\<rparr>"

definition transit_import_request_with_context ::
  "transit_import_request \<Rightarrow> string \<Rightarrow> transit_import_request" where
  "transit_import_request_with_context self context_v =
     self\<lparr>transit_import_request_derived := Some True, transit_import_request_context :=
       Some context_v\<rparr>"

definition transit_import_request_exportable_set ::
  "transit_import_request \<Rightarrow> transit_import_request" where
  "transit_import_request_exportable_set self =
     self\<lparr>transit_import_request_exportable := Some True\<rparr>"

definition transit_import_request_allow_plaintext_backup_set ::
  "transit_import_request \<Rightarrow> transit_import_request" where
  "transit_import_request_allow_plaintext_backup_set self =
     self\<lparr>transit_import_request_allow_plaintext_backup := Some True\<rparr>"

definition transit_import_request_with_auto_rotate_period ::
  "transit_import_request \<Rightarrow> string \<Rightarrow> transit_import_request res" where
  "transit_import_request_with_auto_rotate_period self period =
     rbind (validate_duration_parameter period ''Transit auto_rotate_period'') (\<lambda>_.
     Inr (self\<lparr>transit_import_request_auto_rotate_period := Some period\<rparr>))"

definition transit_validate_import_material ::
  "string option \<Rightarrow> string option \<Rightarrow> string \<Rightarrow> unit res" where
  "transit_validate_import_material ciphertext public_key label =
     (case (ciphertext, public_key) of
        ((Some ciphertext), None) \<Rightarrow> transit_validate_non_empty_secret ciphertext
          ''Transit import ciphertext''
      | (None, (Some public_key)) \<Rightarrow> transit_validate_non_empty_public_key
        public_key ''Transit import public_key''
      | ((Some _), (Some _)) \<Rightarrow> Inl (InvalidParameter (label @
        '' must use either ciphertext or public_key, not both''))
      | (None, None) \<Rightarrow> Inl (InvalidParameter (label @
        '' requires ciphertext or public_key'')))"

definition transit_import_request_validate :: "transit_import_request \<Rightarrow> unit res" where
  "transit_import_request_validate self =
     rbind (transit_validate_import_material (transit_import_request_ciphertext self)
       (transit_import_request_public_key self) ''Transit import'') (\<lambda>_.
     (case transit_import_request_auto_rotate_period self of
        None \<Rightarrow> Inr ()
      | Some period \<Rightarrow> validate_duration_parameter period
        ''Transit auto_rotate_period''))"

record transit_import_version_request =
  transit_import_version_request_ciphertext :: "string option"
  transit_import_version_request_public_key :: "string option"
  transit_import_version_request_hash_function :: "transit_import_hash_function option"
  transit_import_version_request_context :: "string option"
  transit_import_version_request_version :: "64 word option"

definition transit_import_version_request_new ::
  "string \<Rightarrow> transit_import_version_request res" where
  "transit_import_version_request_new ciphertext =
     rbind (transit_validate_non_empty_secret ciphertext ''Transit import ciphertext'')
       (\<lambda>_.
     Inr \<lparr>transit_import_version_request_ciphertext = Some ciphertext,
       transit_import_version_request_public_key = None,
       transit_import_version_request_hash_function = None,
       transit_import_version_request_context = None,
       transit_import_version_request_version = None\<rparr>)"

definition transit_import_version_request_from_public_key ::
  "string \<Rightarrow> transit_import_version_request res" where
  "transit_import_version_request_from_public_key public_key =
     rbind (transit_validate_non_empty_public_key public_key ''Transit import public_key'')
       (\<lambda>_.
     Inr \<lparr>transit_import_version_request_ciphertext = None,
       transit_import_version_request_public_key = Some public_key,
       transit_import_version_request_hash_function = None,
       transit_import_version_request_context = None,
       transit_import_version_request_version = None\<rparr>)"

definition transit_import_version_request_with_hash_function ::
  "transit_import_version_request \<Rightarrow> transit_import_hash_function \<Rightarrow>
   transit_import_version_request" where
  "transit_import_version_request_with_hash_function self hash_function =
     self\<lparr>transit_import_version_request_hash_function := Some hash_function\<rparr>"

definition transit_import_version_request_with_context ::
  "transit_import_version_request \<Rightarrow> string \<Rightarrow>
   transit_import_version_request" where
  "transit_import_version_request_with_context self context_v =
     self\<lparr>transit_import_version_request_context := Some context_v\<rparr>"

definition transit_import_version_request_with_version ::
  "transit_import_version_request \<Rightarrow> 64 word \<Rightarrow>
   transit_import_version_request res" where
  "transit_import_version_request_with_version self ver =
     (if ver = 0 then Inl (InvalidParameter
       ''Transit import version must be greater than zero'')
        else Inr (self\<lparr>transit_import_version_request_version := Some ver\<rparr>))"

definition transit_import_version_request_validate ::
  "transit_import_version_request \<Rightarrow> unit res" where
  "transit_import_version_request_validate self =
     transit_validate_import_material (transit_import_version_request_ciphertext self)
       (transit_import_version_request_public_key self) ''Transit import''"

record transit_wrapped_import_key =
  transit_wrapped_import_key_ciphertext :: string
  transit_wrapped_import_key_hash_function :: transit_import_hash_function

definition MAX_TRANSIT_IMPORT_KEY_MATERIAL_BYTES :: nat where
  "MAX_TRANSIT_IMPORT_KEY_MATERIAL_BYTES = 16 * 1024"

definition transit_wrapped_import_key_into_import_request ::
  "transit_wrapped_import_key \<Rightarrow> transit_key_type \<Rightarrow>
   transit_import_request res" where
  "transit_wrapped_import_key_into_import_request self key_type =
     rbind (transit_import_request_new (transit_wrapped_import_key_ciphertext self) key_type)
       (\<lambda>v.
     Inr (transit_import_request_with_hash_function v (transit_wrapped_import_key_hash_function
       self)))"

definition transit_wrapped_import_key_into_import_version_request ::
  "transit_wrapped_import_key \<Rightarrow> transit_import_version_request res" where
  "transit_wrapped_import_key_into_import_version_request self =
     rbind (transit_import_version_request_new (transit_wrapped_import_key_ciphertext self))
       (\<lambda>v.
     Inr (transit_import_version_request_with_hash_function v
       (transit_wrapped_import_key_hash_function self)))"

record transit_cache_config =
  transit_cache_config_size :: "64 word"

definition transit_cache_config_new :: "64 word \<Rightarrow> transit_cache_config res" where
  "transit_cache_config_new sz =
     (if sz \<noteq> 0 \<and> sz < 10 then Inl (InvalidParameter
       ''Transit cache size must be 0 or at least 10'')
        else Inr \<lparr>transit_cache_config_size = sz\<rparr>)"

record transit_set_certificate_request =
  transit_set_certificate_request_version :: "64 word option"
  transit_set_certificate_request_certificate_chain :: string

definition transit_set_certificate_request_new ::
  "string \<Rightarrow> transit_set_certificate_request res" where
  "transit_set_certificate_request_new certificate_chain =
     (if trim certificate_chain = [] then Inl (InvalidParameter
       ''Transit certificate chain must not be empty'')
        else Inr \<lparr>transit_set_certificate_request_version = None,
          transit_set_certificate_request_certificate_chain = certificate_chain\<rparr>)"

definition transit_set_certificate_request_with_version ::
  "transit_set_certificate_request \<Rightarrow> 64 word \<Rightarrow>
   transit_set_certificate_request res" where
  "transit_set_certificate_request_with_version self ver =
     (if ver = 0 then Inl (InvalidParameter
       ''Transit certificate version must be greater than zero'')
        else Inr (self\<lparr>transit_set_certificate_request_version := Some ver\<rparr>))"

datatype transit_export_key_type =
    TransitExportKeyType_EncryptionKey | TransitExportKeyType_SigningKey
  | TransitExportKeyType_HmacKey | TransitExportKeyType_PublicKey
  | TransitExportKeyType_CertificateChain

definition transit_export_key_type_as_path_segment ::
  "transit_export_key_type \<Rightarrow> string" where
  "transit_export_key_type_as_path_segment self =
     (case self of
        TransitExportKeyType_EncryptionKey \<Rightarrow> ''encryption-key''
      | TransitExportKeyType_SigningKey \<Rightarrow> ''signing-key''
      | TransitExportKeyType_HmacKey \<Rightarrow> ''hmac-key''
      | TransitExportKeyType_PublicKey \<Rightarrow> ''public-key''
      | TransitExportKeyType_CertificateChain \<Rightarrow> ''certificate-chain'')"

record transit_restore_request =
  transit_restore_request_backup :: string
  transit_restore_request_force :: "bool option"

definition transit_restore_request_new :: "string \<Rightarrow> transit_restore_request" where
  "transit_restore_request_new backup =
     \<lparr>transit_restore_request_backup = backup,
       transit_restore_request_force = None\<rparr>"

definition transit_restore_request_force_set ::
  "transit_restore_request \<Rightarrow> transit_restore_request" where
  "transit_restore_request_force_set self =
     self\<lparr>transit_restore_request_force := Some True\<rparr>"

record transit_trim_request =
  transit_trim_request_min_available_version :: "64 word"

definition transit_trim_request_new :: "64 word \<Rightarrow> transit_trim_request res" where
  "transit_trim_request_new min_available_version =
     (if min_available_version = 0 then Inl (InvalidParameter
       ''Transit min_available_version must be greater than zero'')
        else Inr
          \<lparr>transit_trim_request_min_available_version = min_available_version\<rparr>)"

record transit_encrypt_request =
  transit_encrypt_request_plaintext :: string
  transit_encrypt_request_associated_data :: "string option"
  transit_encrypt_request_context :: "string option"
  transit_encrypt_request_key_version :: "64 word option"
  transit_encrypt_request_nonce :: "string option"

definition transit_encrypt_request_new :: "string \<Rightarrow> transit_encrypt_request" where
  "transit_encrypt_request_new plaintext =
     \<lparr>transit_encrypt_request_plaintext = plaintext,
       transit_encrypt_request_associated_data = None, transit_encrypt_request_context = None,
       transit_encrypt_request_key_version = None, transit_encrypt_request_nonce = None\<rparr>"

definition transit_encrypt_request_from_plaintext_bytes ::
  "(string \<Rightarrow> string option) \<Rightarrow> string \<Rightarrow>
   transit_encrypt_request res" where
  "transit_encrypt_request_from_plaintext_bytes encode_base64 plaintext =
     rbind (transit_base64_encode_secret encode_base64 plaintext) (\<lambda>v.
     Inr (transit_encrypt_request_new v))"

definition transit_encrypt_request_with_associated_data_bytes ::
  "(string \<Rightarrow> string option) \<Rightarrow> transit_encrypt_request \<Rightarrow>
   string \<Rightarrow> transit_encrypt_request res" where
  "transit_encrypt_request_with_associated_data_bytes encode_base64 self associated_data =
     rbind (transit_base64_encode_secret encode_base64 associated_data) (\<lambda>v.
     Inr (self\<lparr>transit_encrypt_request_associated_data := Some v\<rparr>))"

definition transit_encrypt_request_with_context_bytes ::
  "(string \<Rightarrow> string option) \<Rightarrow> transit_encrypt_request \<Rightarrow>
   string \<Rightarrow> transit_encrypt_request res" where
  "transit_encrypt_request_with_context_bytes encode_base64 self context_v =
     rbind (transit_base64_encode_secret encode_base64 context_v) (\<lambda>v.
     Inr (self\<lparr>transit_encrypt_request_context := Some v\<rparr>))"

definition transit_encrypt_request_with_nonce_bytes ::
  "(string \<Rightarrow> string option) \<Rightarrow> transit_encrypt_request \<Rightarrow>
   string \<Rightarrow> transit_encrypt_request res" where
  "transit_encrypt_request_with_nonce_bytes encode_base64 self nonce =
     rbind (transit_base64_encode_secret encode_base64 nonce) (\<lambda>v.
     Inr (self\<lparr>transit_encrypt_request_nonce := Some v\<rparr>))"

record transit_decrypt_request =
  transit_decrypt_request_ciphertext :: string
  transit_decrypt_request_associated_data :: "string option"
  transit_decrypt_request_context :: "string option"
  transit_decrypt_request_nonce :: "string option"

definition transit_decrypt_request_new :: "string \<Rightarrow> transit_decrypt_request" where
  "transit_decrypt_request_new ciphertext =
     \<lparr>transit_decrypt_request_ciphertext = ciphertext,
       transit_decrypt_request_associated_data = None, transit_decrypt_request_context = None,
       transit_decrypt_request_nonce = None\<rparr>"

definition transit_decrypt_request_with_associated_data_bytes ::
  "(string \<Rightarrow> string option) \<Rightarrow> transit_decrypt_request \<Rightarrow>
   string \<Rightarrow> transit_decrypt_request res" where
  "transit_decrypt_request_with_associated_data_bytes encode_base64 self associated_data =
     rbind (transit_base64_encode_secret encode_base64 associated_data) (\<lambda>v.
     Inr (self\<lparr>transit_decrypt_request_associated_data := Some v\<rparr>))"

definition transit_decrypt_request_with_context_bytes ::
  "(string \<Rightarrow> string option) \<Rightarrow> transit_decrypt_request \<Rightarrow>
   string \<Rightarrow> transit_decrypt_request res" where
  "transit_decrypt_request_with_context_bytes encode_base64 self context_v =
     rbind (transit_base64_encode_secret encode_base64 context_v) (\<lambda>v.
     Inr (self\<lparr>transit_decrypt_request_context := Some v\<rparr>))"

definition transit_decrypt_request_with_nonce_bytes ::
  "(string \<Rightarrow> string option) \<Rightarrow> transit_decrypt_request \<Rightarrow>
   string \<Rightarrow> transit_decrypt_request res" where
  "transit_decrypt_request_with_nonce_bytes encode_base64 self nonce =
     rbind (transit_base64_encode_secret encode_base64 nonce) (\<lambda>v.
     Inr (self\<lparr>transit_decrypt_request_nonce := Some v\<rparr>))"

record transit_decrypt_response =
  transit_decrypt_response_plaintext :: string

definition transit_decrypt_response_plaintext_bytes ::
  "(string \<Rightarrow> string option) \<Rightarrow> transit_decrypt_response \<Rightarrow>
   string res" where
  "transit_decrypt_response_plaintext_bytes decode_base64 self =
     transit_decode_base64_secret decode_base64 (transit_decrypt_response_plaintext self)"

record transit_rewrap_request =
  transit_rewrap_request_ciphertext :: string
  transit_rewrap_request_context :: "string option"
  transit_rewrap_request_key_version :: "64 word option"
  transit_rewrap_request_nonce :: "string option"

definition transit_rewrap_request_new :: "string \<Rightarrow> transit_rewrap_request" where
  "transit_rewrap_request_new ciphertext =
     \<lparr>transit_rewrap_request_ciphertext = ciphertext,
       transit_rewrap_request_context = None, transit_rewrap_request_key_version = None,
       transit_rewrap_request_nonce = None\<rparr>"

record transit_data_key_request =
  transit_data_key_request_associated_data :: "string option"
  transit_data_key_request_context :: "string option"
  transit_data_key_request_nonce :: "string option"
  transit_data_key_request_bits :: "64 word option"

definition transit_data_key_request_with_associated_data_bytes ::
  "(string \<Rightarrow> string option) \<Rightarrow> transit_data_key_request \<Rightarrow>
   string \<Rightarrow> transit_data_key_request res" where
  "transit_data_key_request_with_associated_data_bytes encode_base64 self associated_data =
     rbind (transit_base64_encode_secret encode_base64 associated_data) (\<lambda>v.
     Inr (self\<lparr>transit_data_key_request_associated_data := Some v\<rparr>))"

definition transit_data_key_request_with_context_bytes ::
  "(string \<Rightarrow> string option) \<Rightarrow> transit_data_key_request \<Rightarrow>
   string \<Rightarrow> transit_data_key_request res" where
  "transit_data_key_request_with_context_bytes encode_base64 self context_v =
     rbind (transit_base64_encode_secret encode_base64 context_v) (\<lambda>v.
     Inr (self\<lparr>transit_data_key_request_context := Some v\<rparr>))"

definition transit_data_key_request_with_nonce_bytes ::
  "(string \<Rightarrow> string option) \<Rightarrow> transit_data_key_request \<Rightarrow>
   string \<Rightarrow> transit_data_key_request res" where
  "transit_data_key_request_with_nonce_bytes encode_base64 self nonce =
     rbind (transit_base64_encode_secret encode_base64 nonce) (\<lambda>v.
     Inr (self\<lparr>transit_data_key_request_nonce := Some v\<rparr>))"

record transit_data_key_response =
  transit_data_key_response_plaintext :: "string option"
  transit_data_key_response_ciphertext :: string

definition transit_data_key_response_plaintext_bytes ::
  "(string \<Rightarrow> string option) \<Rightarrow> transit_data_key_response \<Rightarrow>
   string option res" where
  "transit_data_key_response_plaintext_bytes decode_base64 self =
     otranspose (map_option (transit_decode_base64_secret decode_base64)
       (transit_data_key_response_plaintext self))"

record transit_random_response =
  transit_random_response_random_bytes :: string

definition transit_random_response_random_bytes_set ::
  "(string \<Rightarrow> string option) \<Rightarrow> transit_random_response \<Rightarrow>
   string res" where
  "transit_random_response_random_bytes_set decode_base64 self =
     transit_decode_base64_secret decode_base64 (transit_random_response_random_bytes self)"

datatype transit_output_format =
    TransitOutputFormat_Hex | TransitOutputFormat_Base64

record transit_hash_request =
  transit_hash_request_input :: string
  transit_hash_request_format :: "transit_output_format option"

definition transit_hash_request_from_input_bytes ::
  "(string \<Rightarrow> string option) \<Rightarrow> string \<Rightarrow>
   transit_hash_request res" where
  "transit_hash_request_from_input_bytes encode_base64 input =
     rbind (transit_base64_encode_secret encode_base64 input) (\<lambda>v.
     Inr \<lparr>transit_hash_request_input = v, transit_hash_request_format = None\<rparr>)"

record transit_hmac_request =
  transit_hmac_request_input :: string
  transit_hmac_request_key_version :: "64 word option"

definition transit_hmac_request_from_input_bytes ::
  "(string \<Rightarrow> string option) \<Rightarrow> string \<Rightarrow>
   transit_hmac_request res" where
  "transit_hmac_request_from_input_bytes encode_base64 input =
     rbind (transit_base64_encode_secret encode_base64 input) (\<lambda>v.
     Inr \<lparr>transit_hmac_request_input = v,
       transit_hmac_request_key_version = None\<rparr>)"

datatype transit_signature_algorithm =
    TransitSignatureAlgorithm_Pss | TransitSignatureAlgorithm_Pkcs1v15

datatype transit_marshaling_algorithm =
    TransitMarshalingAlgorithm_Asn1 | TransitMarshalingAlgorithm_Jws

datatype transit_salt_length =
    TransitSaltLength_Auto | TransitSaltLength_Hash | TransitSaltLength_Value "64 word"

record transit_sign_request =
  transit_sign_request_input :: string
  transit_sign_request_key_version :: "64 word option"
  transit_sign_request_context :: "string option"
  transit_sign_request_prehashed :: "bool option"
  transit_sign_request_signature_algorithm :: "transit_signature_algorithm option"
  transit_sign_request_marshaling_algorithm :: "transit_marshaling_algorithm option"
  transit_sign_request_salt_length :: "transit_salt_length option"

definition transit_sign_request_new :: "string \<Rightarrow> transit_sign_request" where
  "transit_sign_request_new input =
     \<lparr>transit_sign_request_input = input, transit_sign_request_key_version = None,
       transit_sign_request_context = None, transit_sign_request_prehashed = None,
       transit_sign_request_signature_algorithm = None,
       transit_sign_request_marshaling_algorithm = None,
       transit_sign_request_salt_length = None\<rparr>"

definition transit_sign_request_with_marshaling_algorithm ::
  "transit_sign_request \<Rightarrow> transit_marshaling_algorithm \<Rightarrow>
   transit_sign_request" where
  "transit_sign_request_with_marshaling_algorithm self algorithm =
     self\<lparr>transit_sign_request_marshaling_algorithm := Some algorithm\<rparr>"

definition transit_sign_request_jws :: "string \<Rightarrow> transit_sign_request" where
  "transit_sign_request_jws input =
     transit_sign_request_with_marshaling_algorithm (transit_sign_request_new input)
       TransitMarshalingAlgorithm_Jws"

definition transit_sign_request_from_input_bytes ::
  "(string \<Rightarrow> string option) \<Rightarrow> string \<Rightarrow>
   transit_sign_request res" where
  "transit_sign_request_from_input_bytes encode_base64 input =
     rbind (transit_base64_encode_secret encode_base64 input) (\<lambda>v.
     Inr (transit_sign_request_new v))"

definition transit_sign_request_with_context_bytes ::
  "(string \<Rightarrow> string option) \<Rightarrow> transit_sign_request \<Rightarrow>
   string \<Rightarrow> transit_sign_request res" where
  "transit_sign_request_with_context_bytes encode_base64 self context_v =
     rbind (transit_base64_encode_secret encode_base64 context_v) (\<lambda>v.
     Inr (self\<lparr>transit_sign_request_context := Some v\<rparr>))"

definition transit_sign_request_with_key_version ::
  "transit_sign_request \<Rightarrow> 64 word \<Rightarrow> transit_sign_request" where
  "transit_sign_request_with_key_version self key_version =
     self\<lparr>transit_sign_request_key_version := Some key_version\<rparr>"

definition transit_sign_request_with_context ::
  "transit_sign_request \<Rightarrow> string \<Rightarrow> transit_sign_request" where
  "transit_sign_request_with_context self context_v =
     self\<lparr>transit_sign_request_context := Some context_v\<rparr>"

definition transit_sign_request_with_prehashed ::
  "transit_sign_request \<Rightarrow> bool \<Rightarrow> transit_sign_request" where
  "transit_sign_request_with_prehashed self prehashed =
     self\<lparr>transit_sign_request_prehashed := Some prehashed\<rparr>"

definition transit_sign_request_with_signature_algorithm ::
  "transit_sign_request \<Rightarrow> transit_signature_algorithm \<Rightarrow>
   transit_sign_request" where
  "transit_sign_request_with_signature_algorithm self algorithm =
     self\<lparr>transit_sign_request_signature_algorithm := Some algorithm\<rparr>"

definition transit_sign_request_with_salt_length ::
  "transit_sign_request \<Rightarrow> transit_salt_length \<Rightarrow> transit_sign_request" where
  "transit_sign_request_with_salt_length self salt_length =
     self\<lparr>transit_sign_request_salt_length := Some salt_length\<rparr>"

record transit_verify_request =
  transit_verify_request_input :: string
  transit_verify_request_signature :: "string option"
  transit_verify_request_hmac :: "string option"
  transit_verify_request_context :: "string option"
  transit_verify_request_prehashed :: "bool option"
  transit_verify_request_signature_algorithm :: "transit_signature_algorithm option"
  transit_verify_request_marshaling_algorithm :: "transit_marshaling_algorithm option"
  transit_verify_request_salt_length :: "transit_salt_length option"

definition transit_verify_request_new :: "string \<Rightarrow> transit_verify_request" where
  "transit_verify_request_new input =
     \<lparr>transit_verify_request_input = input, transit_verify_request_signature = None,
       transit_verify_request_hmac = None, transit_verify_request_context = None,
       transit_verify_request_prehashed = None,
       transit_verify_request_signature_algorithm = None,
       transit_verify_request_marshaling_algorithm = None,
       transit_verify_request_salt_length = None\<rparr>"

definition transit_verify_request_with_signature ::
  "transit_verify_request \<Rightarrow> string \<Rightarrow> transit_verify_request" where
  "transit_verify_request_with_signature self signature =
     self\<lparr>transit_verify_request_signature := Some signature\<rparr>"

definition transit_verify_request_from_base64_input_with_signature ::
  "string \<Rightarrow> string \<Rightarrow> transit_verify_request" where
  "transit_verify_request_from_base64_input_with_signature input signature =
     transit_verify_request_with_signature (transit_verify_request_new input) signature"

definition transit_verify_request_with_hmac ::
  "transit_verify_request \<Rightarrow> string \<Rightarrow> transit_verify_request" where
  "transit_verify_request_with_hmac self hmac =
     self\<lparr>transit_verify_request_hmac := Some hmac\<rparr>"

definition transit_verify_request_from_base64_input_with_hmac ::
  "string \<Rightarrow> string \<Rightarrow> transit_verify_request" where
  "transit_verify_request_from_base64_input_with_hmac input hmac =
     transit_verify_request_with_hmac (transit_verify_request_new input) hmac"

definition transit_verify_request_with_marshaling_algorithm ::
  "transit_verify_request \<Rightarrow> transit_marshaling_algorithm \<Rightarrow>
   transit_verify_request" where
  "transit_verify_request_with_marshaling_algorithm self algorithm =
     self\<lparr>transit_verify_request_marshaling_algorithm := Some algorithm\<rparr>"

definition transit_verify_request_jws_with_signature ::
  "string \<Rightarrow> string \<Rightarrow> transit_verify_request" where
  "transit_verify_request_jws_with_signature input signature =
     transit_verify_request_with_marshaling_algorithm
       (transit_verify_request_from_base64_input_with_signature input signature)
       TransitMarshalingAlgorithm_Jws"

definition transit_verify_request_from_input_bytes_with_signature ::
  "(string \<Rightarrow> string option) \<Rightarrow> string \<Rightarrow>
   string \<Rightarrow> transit_verify_request res" where
  "transit_verify_request_from_input_bytes_with_signature encode_base64 input signature =
     rbind (transit_base64_encode_secret encode_base64 input) (\<lambda>v.
     Inr (transit_verify_request_from_base64_input_with_signature v signature))"

definition transit_verify_request_from_input_bytes_with_hmac ::
  "(string \<Rightarrow> string option) \<Rightarrow> string \<Rightarrow>
   string \<Rightarrow> transit_verify_request res" where
  "transit_verify_request_from_input_bytes_with_hmac encode_base64 input hmac =
     rbind (transit_base64_encode_secret encode_base64 input) (\<lambda>v.
     Inr (transit_verify_request_from_base64_input_with_hmac v hmac))"

definition transit_verify_request_with_context_bytes ::
  "(string \<Rightarrow> string option) \<Rightarrow> transit_verify_request \<Rightarrow>
   string \<Rightarrow> transit_verify_request res" where
  "transit_verify_request_with_context_bytes encode_base64 self context_v =
     rbind (transit_base64_encode_secret encode_base64 context_v) (\<lambda>v.
     Inr (self\<lparr>transit_verify_request_context := Some v\<rparr>))"

definition transit_verify_request_with_context ::
  "transit_verify_request \<Rightarrow> string \<Rightarrow> transit_verify_request" where
  "transit_verify_request_with_context self context_v =
     self\<lparr>transit_verify_request_context := Some context_v\<rparr>"

definition transit_verify_request_with_prehashed ::
  "transit_verify_request \<Rightarrow> bool \<Rightarrow> transit_verify_request" where
  "transit_verify_request_with_prehashed self prehashed =
     self\<lparr>transit_verify_request_prehashed := Some prehashed\<rparr>"

definition transit_verify_request_with_signature_algorithm ::
  "transit_verify_request \<Rightarrow> transit_signature_algorithm \<Rightarrow>
   transit_verify_request" where
  "transit_verify_request_with_signature_algorithm self algorithm =
     self\<lparr>transit_verify_request_signature_algorithm := Some algorithm\<rparr>"

definition transit_verify_request_with_salt_length ::
  "transit_verify_request \<Rightarrow> transit_salt_length \<Rightarrow>
   transit_verify_request" where
  "transit_verify_request_with_salt_length self salt_length =
     self\<lparr>transit_verify_request_salt_length := Some salt_length\<rparr>"

section \<open>Operations\<close>

definition client_transit :: "string \<Rightarrow> string list res" where
  "client_transit mount = validate_mount_path mount"

definition transit_request ::
  "http_env \<Rightarrow> client \<Rightarrow> (string \<Rightarrow> 'a option) \<Rightarrow>
   string list \<Rightarrow> string \<Rightarrow> string \<Rightarrow>
   payload option \<Rightarrow> 'a sent" where
  "transit_request env cl from_json mount verb path body_v =
     (let mount = join_with ''/'' mount in
     request_secret_json_internal env cl from_json ''/transit/'' ''transit'' mount verb path
       body_v)"

definition transit_validate_key_name :: "string \<Rightarrow> string list res" where
  "transit_validate_key_name name = validate_mount_path name"

definition transit_path :: "string list \<Rightarrow> string list \<Rightarrow> string res" where
  "transit_path mount tail =
     (let segments = mount in
     rbind (rfold (\<lambda>segment segments. rbind (validate_endpoint_path segment)
       (\<lambda>p.
     let segments = segments @ p in
     Inr segments)) tail segments) (\<lambda>segments.
     Inr (join_with ''/'' segments)))"

definition transit_key_path ::
  "string list \<Rightarrow> string \<Rightarrow> string option \<Rightarrow> string res" where
  "transit_key_path mount name suf =
     (let segments = [''keys''] in
     rbind (transit_validate_key_name name) (\<lambda>name.
     let segments = segments @ name in
     let segments = (case suf of
        None \<Rightarrow> segments
      | Some suf \<Rightarrow> segments @ [suf]) in
     transit_path mount segments))"

definition transit_create_key ::
  "http_env \<Rightarrow> client \<Rightarrow>
   (string \<Rightarrow> unit option) \<Rightarrow>
   (transit_create_key_request \<Rightarrow> payload) \<Rightarrow> string list \<Rightarrow>
   string \<Rightarrow> transit_create_key_request \<Rightarrow> unit sent" where
  "transit_create_key env cl from_json to_json mount name request =
     sbind (pure (transit_create_key_request_validate request)) (\<lambda>_.
     sbind (pure (transit_key_path mount name None)) (\<lambda>p.
     transit_request env cl from_json mount ''POST'' p (Some (to_json request))))"

definition transit_read_key ::
  "http_env \<Rightarrow> client \<Rightarrow>
   (string \<Rightarrow> 'a response_envelope option) \<Rightarrow> string list \<Rightarrow>
   string \<Rightarrow> 'a sent" where
  "transit_read_key env cl from_json mount name =
     sbind (pure (transit_key_path mount name None)) (\<lambda>p.
     smap env_data (transit_request env cl from_json mount ''GET'' p None))"

definition transit_wrapping_key_call ::
  "http_env \<Rightarrow> client \<Rightarrow>
   (string \<Rightarrow> 'a response_envelope option) \<Rightarrow> string list \<Rightarrow>
   'a sent" where
  "transit_wrapping_key_call env cl from_json mount =
     sbind (pure (transit_path mount [''wrapping_key''])) (\<lambda>p.
     smap env_data (transit_request env cl from_json mount ''GET'' p None))"

definition transit_request_query ::
  "http_env \<Rightarrow> client \<Rightarrow> (string \<Rightarrow> 'a option) \<Rightarrow>
   string list \<Rightarrow> string \<Rightarrow> string \<Rightarrow>
   (string \<times> string) list \<Rightarrow> payload option \<Rightarrow>
   nat list \<Rightarrow> 'a sent" where
  "transit_request_query env cl from_json mount verb path query body_v accepted_statuses =
     (let mount = join_with ''/'' mount in
     request_secret_json_query_headers_accepting env cl from_json ''/transit/'' ''transit''
       mount verb path query [] body_v accepted_statuses)"

definition transit_list_keys_after ::
  "http_env \<Rightarrow> client \<Rightarrow>
   (string \<Rightarrow> 'a response_envelope option) \<Rightarrow> string list \<Rightarrow>
   string option \<Rightarrow> 64 word option \<Rightarrow> 'a sent" where
  "transit_list_keys_after env cl from_json mount after limit =
     sbind (pure (from_after_limit after limit)) (\<lambda>v.
     let query = query_pairs v in
     sbind (pure (transit_path mount [''keys''])) (\<lambda>p.
     smap env_data (transit_request_query env cl from_json mount ''LIST'' p query None [200])))"

definition transit_list_keys ::
  "http_env \<Rightarrow> client \<Rightarrow>
   (string \<Rightarrow> 'a response_envelope option) \<Rightarrow> string list \<Rightarrow>
   'a sent" where
  "transit_list_keys env cl from_json mount =
     transit_list_keys_after env cl from_json mount None None"

definition transit_request_accepting ::
  "http_env \<Rightarrow> client \<Rightarrow> (string \<Rightarrow> 'a option) \<Rightarrow>
   string list \<Rightarrow> string \<Rightarrow> string \<Rightarrow>
   payload option \<Rightarrow> nat list \<Rightarrow> 'a sent" where
  "transit_request_accepting env cl from_json mount verb path body_v accepted_statuses =
     (let mount = join_with ''/'' mount in
     request_secret_json_accepting env cl from_json ''/transit/'' ''transit'' mount verb path
       body_v accepted_statuses)"

definition transit_delete_key ::
  "http_env \<Rightarrow> client \<Rightarrow>
   (string \<Rightarrow> unit option) \<Rightarrow> string list \<Rightarrow>
   string \<Rightarrow> unit sent" where
  "transit_delete_key env cl from_json mount name =
     sbind (pure (transit_key_path mount name None)) (\<lambda>p.
     transit_request_accepting env cl from_json mount ''DELETE'' p None [200, 204])"

definition transit_update_key ::
  "http_env \<Rightarrow> client \<Rightarrow>
   (string \<Rightarrow> unit option) \<Rightarrow>
   (transit_update_key_request \<Rightarrow> payload) \<Rightarrow> string list \<Rightarrow>
   string \<Rightarrow> transit_update_key_request \<Rightarrow> unit sent" where
  "transit_update_key env cl from_json to_json mount name request =
     sbind (pure (transit_update_key_request_validate request)) (\<lambda>_.
     sbind (pure (transit_key_path mount name (Some ''config''))) (\<lambda>p.
     transit_request env cl from_json mount ''POST'' p (Some (to_json request))))"

definition transit_rotate_key ::
  "http_env \<Rightarrow> client \<Rightarrow>
   (string \<Rightarrow> unit option) \<Rightarrow> string list \<Rightarrow>
   string \<Rightarrow> unit sent" where
  "transit_rotate_key env cl from_json mount name =
     sbind (pure (transit_key_path mount name (Some ''rotate''))) (\<lambda>p.
     transit_request env cl from_json mount ''POST'' p None)"

record transit_import_payload =
  transit_import_payload_ciphertext :: "string option"
  transit_import_payload_public_key :: "string option"
  transit_import_payload_key_type :: transit_key_type
  transit_import_payload_hash_function :: "transit_import_hash_function option"
  transit_import_payload_allow_rotation :: "bool option"
  transit_import_payload_derived :: "bool option"
  transit_import_payload_context :: "string option"
  transit_import_payload_exportable :: "bool option"
  transit_import_payload_allow_plaintext_backup :: "bool option"
  transit_import_payload_auto_rotate_period :: "string option"

definition transit_import_key ::
  "http_env \<Rightarrow> client \<Rightarrow>
   (string \<Rightarrow> unit option) \<Rightarrow>
   (transit_import_payload \<Rightarrow> payload) \<Rightarrow> string list \<Rightarrow>
   string \<Rightarrow> transit_import_request \<Rightarrow> unit sent" where
  "transit_import_key env cl from_json to_json mount name request =
     sbind (pure (transit_import_request_validate request)) (\<lambda>_.
     let payload =
       \<lparr>transit_import_payload_ciphertext = transit_import_request_ciphertext request,
       transit_import_payload_public_key = transit_import_request_public_key request,
       transit_import_payload_key_type = transit_import_request_key_type request,
       transit_import_payload_hash_function = transit_import_request_hash_function request,
       transit_import_payload_allow_rotation = transit_import_request_allow_rotation request,
       transit_import_payload_derived = transit_import_request_derived request,
       transit_import_payload_context = transit_import_request_context request,
       transit_import_payload_exportable = transit_import_request_exportable request,
       transit_import_payload_allow_plaintext_backup = transit_import_request_allow_plaintext_backup request,
       transit_import_payload_auto_rotate_period = transit_import_request_auto_rotate_period request\<rparr>
       in
     sbind (pure (transit_key_path mount name (Some ''import''))) (\<lambda>p.
     transit_request env cl from_json mount ''POST'' p (Some (to_json payload))))"

record transit_import_version_payload =
  transit_import_version_payload_ciphertext :: "string option"
  transit_import_version_payload_public_key :: "string option"
  transit_import_version_payload_hash_function :: "transit_import_hash_function option"
  transit_import_version_payload_context :: "string option"
  transit_import_version_payload_version :: "64 word option"

definition transit_import_key_version ::
  "http_env \<Rightarrow> client \<Rightarrow>
   (string \<Rightarrow> unit option) \<Rightarrow>
   (transit_import_version_payload \<Rightarrow> payload) \<Rightarrow>
   string list \<Rightarrow> string \<Rightarrow>
   transit_import_version_request \<Rightarrow> unit sent" where
  "transit_import_key_version env cl from_json to_json mount name request =
     sbind (pure (transit_import_version_request_validate request)) (\<lambda>_.
     let payload =
       \<lparr>transit_import_version_payload_ciphertext = transit_import_version_request_ciphertext request,
       transit_import_version_payload_public_key = transit_import_version_request_public_key request,
       transit_import_version_payload_hash_function = transit_import_version_request_hash_function request,
       transit_import_version_payload_context = transit_import_version_request_context request,
       transit_import_version_payload_version = transit_import_version_request_version request\<rparr>
       in
     sbind (pure (transit_key_path mount name (Some ''import_version''))) (\<lambda>p.
     transit_request env cl from_json mount ''POST'' p (Some (to_json payload))))"

definition transit_soft_delete_key ::
  "http_env \<Rightarrow> client \<Rightarrow>
   (string \<Rightarrow> unit option) \<Rightarrow> string list \<Rightarrow>
   string \<Rightarrow> unit sent" where
  "transit_soft_delete_key env cl from_json mount name =
     sbind (pure (transit_key_path mount name (Some ''soft-delete''))) (\<lambda>p.
     transit_request_accepting env cl from_json mount ''DELETE'' p None [200, 204])"

definition transit_restore_soft_deleted_key ::
  "http_env \<Rightarrow> client \<Rightarrow>
   (string \<Rightarrow> unit option) \<Rightarrow> string list \<Rightarrow>
   string \<Rightarrow> unit sent" where
  "transit_restore_soft_deleted_key env cl from_json mount name =
     sbind (pure (transit_key_path mount name (Some ''soft-delete-restore''))) (\<lambda>p.
     transit_request env cl from_json mount ''POST'' p None)"

definition transit_byok_export_call ::
  "http_env \<Rightarrow> client \<Rightarrow>
   (string \<Rightarrow> 'a response_envelope option) \<Rightarrow> string list \<Rightarrow>
   string \<Rightarrow> string \<Rightarrow> 64 word option \<Rightarrow>
   transit_import_hash_function option \<Rightarrow> 'a sent" where
  "transit_byok_export_call env cl from_json mount destination source ver hash_function =
     (if ver = Some 0 then pure (Inl (InvalidParameter
       ''Transit key version must be greater than zero''))
        else let segments = [''byok-export''] in
        sbind (pure (transit_validate_key_name destination)) (\<lambda>destination.
        let segments = segments @ destination in
        sbind (pure (transit_validate_key_name source)) (\<lambda>source.
        let segments = segments @ source in
        let ver = map_option (\<lambda>val_v. dec_string (unat val_v)) ver in
        let segments = (case ver of
           None \<Rightarrow> segments
         | Some ver \<Rightarrow> segments @ [ver]) in
        let query = (case hash_function of None \<Rightarrow> [] | Some hash_v \<Rightarrow>
          [(''hash'', transit_import_hash_function_as_query_value hash_v)]) in
        sbind (pure (transit_path mount segments)) (\<lambda>p.
        smap env_data (transit_request_query env cl from_json mount ''GET'' p query None
          [200])))))"

record transit_global_key_config =
  transit_global_key_config_disable_upsert :: "bool option"

definition transit_write_global_key_config ::
  "http_env \<Rightarrow> client \<Rightarrow>
   (string \<Rightarrow> 'a response_envelope option) \<Rightarrow>
   (transit_global_key_config \<Rightarrow> payload) \<Rightarrow> string list \<Rightarrow>
   transit_global_key_config \<Rightarrow> 'a sent" where
  "transit_write_global_key_config env cl from_json to_json mount request =
     sbind (pure (transit_path mount [''config'', ''keys''])) (\<lambda>p.
     smap env_data (transit_request env cl from_json mount ''POST'' p (Some (to_json
       request))))"

definition transit_read_global_key_config ::
  "http_env \<Rightarrow> client \<Rightarrow>
   (string \<Rightarrow> 'a response_envelope option) \<Rightarrow> string list \<Rightarrow>
   'a sent" where
  "transit_read_global_key_config env cl from_json mount =
     sbind (pure (transit_path mount [''config'', ''keys''])) (\<lambda>p.
     smap env_data (transit_request env cl from_json mount ''GET'' p None))"

definition transit_export_key ::
  "http_env \<Rightarrow> client \<Rightarrow>
   (string \<Rightarrow> 'a response_envelope option) \<Rightarrow> string list \<Rightarrow>
   transit_export_key_type \<Rightarrow> string \<Rightarrow> 64 word option \<Rightarrow>
   'a sent" where
  "transit_export_key env cl from_json mount key_type name ver =
     (if ver = Some 0 then pure (Inl (InvalidParameter
       ''Transit key version must be greater than zero''))
        else let ver = map_option (\<lambda>ver. dec_string (unat ver)) ver in
        let segments = [''export'', transit_export_key_type_as_path_segment key_type] in
        sbind (pure (transit_validate_key_name name)) (\<lambda>name.
        let segments = segments @ name in
        let segments = (case ver of
           None \<Rightarrow> segments
         | Some ver \<Rightarrow> segments @ [ver]) in
        sbind (pure (transit_path mount segments)) (\<lambda>p.
        smap env_data (transit_request env cl from_json mount ''GET'' p None))))"

definition transit_backup_key ::
  "http_env \<Rightarrow> client \<Rightarrow>
   (string \<Rightarrow> 'a response_envelope option) \<Rightarrow> string list \<Rightarrow>
   string \<Rightarrow> 'a sent" where
  "transit_backup_key env cl from_json mount name =
     sbind (pure (transit_validate_key_name name)) (\<lambda>segments.
     let name = join_with ''/'' segments in
     sbind (pure (transit_path mount [''backup'', name])) (\<lambda>p.
     smap env_data (transit_request env cl from_json mount ''GET'' p None)))"

record transit_restore_payload =
  transit_restore_payload_backup :: string
  transit_restore_payload_force :: "bool option"

definition transit_restore_key ::
  "http_env \<Rightarrow> client \<Rightarrow>
   (string \<Rightarrow> unit option) \<Rightarrow>
   (transit_restore_payload \<Rightarrow> payload) \<Rightarrow> string list \<Rightarrow>
   string option \<Rightarrow> transit_restore_request \<Rightarrow> unit sent" where
  "transit_restore_key env cl from_json to_json mount name request =
     (let payload =
       \<lparr>transit_restore_payload_backup = transit_restore_request_backup request,
       transit_restore_payload_force = transit_restore_request_force request\<rparr> in
     sbind (pure (case name of
        Some name \<Rightarrow> rbind (transit_validate_key_name name) (\<lambda>segments.
        let name = join_with ''/'' segments in
        transit_path mount [''restore'', name])
      | None \<Rightarrow> transit_path mount [''restore''])) (\<lambda>path.
     transit_request env cl from_json mount ''POST'' path (Some (to_json payload))))"

definition transit_trim_key ::
  "http_env \<Rightarrow> client \<Rightarrow>
   (string \<Rightarrow> unit option) \<Rightarrow>
   (transit_trim_request \<Rightarrow> payload) \<Rightarrow> string list \<Rightarrow>
   string \<Rightarrow> transit_trim_request \<Rightarrow> unit sent" where
  "transit_trim_key env cl from_json to_json mount name request =
     sbind (pure (transit_key_path mount name (Some ''trim''))) (\<lambda>p.
     transit_request env cl from_json mount ''POST'' p (Some (to_json request)))"

definition transit_write_cache_config ::
  "http_env \<Rightarrow> client \<Rightarrow>
   (string \<Rightarrow> 'a response_envelope option) \<Rightarrow>
   (transit_cache_config \<Rightarrow> payload) \<Rightarrow> string list \<Rightarrow>
   transit_cache_config \<Rightarrow> 'a sent" where
  "transit_write_cache_config env cl from_json to_json mount request =
     sbind (pure (transit_cache_config_new (transit_cache_config_size request)))
       (\<lambda>request.
     sbind (pure (transit_path mount [''cache-config''])) (\<lambda>p.
     smap env_data (transit_request env cl from_json mount ''POST'' p (Some (to_json
       request)))))"

definition transit_read_cache_config ::
  "http_env \<Rightarrow> client \<Rightarrow>
   (string \<Rightarrow> 'a response_envelope option) \<Rightarrow> string list \<Rightarrow>
   'a sent" where
  "transit_read_cache_config env cl from_json mount =
     sbind (pure (transit_path mount [''cache-config''])) (\<lambda>p.
     smap env_data (transit_request env cl from_json mount ''GET'' p None))"

record transit_csr_request =
  transit_csr_request_version :: "64 word option"
  transit_csr_request_csr :: "string option"

definition transit_generate_csr ::
  "http_env \<Rightarrow> client \<Rightarrow>
   (string \<Rightarrow> 'a response_envelope option) \<Rightarrow>
   (transit_csr_request \<Rightarrow> payload) \<Rightarrow> string list \<Rightarrow>
   string \<Rightarrow> transit_csr_request \<Rightarrow> 'a sent" where
  "transit_generate_csr env cl from_json to_json mount name request =
     sbind (pure (transit_key_path mount name (Some ''csr''))) (\<lambda>p.
     smap env_data (transit_request env cl from_json mount ''POST'' p (Some (to_json
       request))))"

definition transit_set_certificate ::
  "http_env \<Rightarrow> client \<Rightarrow>
   (string \<Rightarrow> 'a response_envelope option) \<Rightarrow>
   (transit_set_certificate_request \<Rightarrow> payload) \<Rightarrow>
   string list \<Rightarrow> string \<Rightarrow>
   transit_set_certificate_request \<Rightarrow> 'a sent" where
  "transit_set_certificate env cl from_json to_json mount name request =
     sbind (pure (transit_key_path mount name (Some ''set-certificate''))) (\<lambda>p.
     smap env_data (transit_request env cl from_json mount ''POST'' p (Some (to_json
       request))))"

record transit_encrypt_payload =
  transit_encrypt_payload_plaintext :: string
  transit_encrypt_payload_associated_data :: "string option"
  transit_encrypt_payload_context :: "string option"
  transit_encrypt_payload_key_version :: "64 word option"
  transit_encrypt_payload_nonce :: "string option"

definition transit_encrypt_payload_of ::
  "transit_encrypt_request \<Rightarrow> transit_encrypt_payload" where
  "transit_encrypt_payload_of request =
     \<lparr>transit_encrypt_payload_plaintext = transit_encrypt_request_plaintext request,
       transit_encrypt_payload_associated_data = transit_encrypt_request_associated_data request,
       transit_encrypt_payload_context = transit_encrypt_request_context request,
       transit_encrypt_payload_key_version = transit_encrypt_request_key_version request,
       transit_encrypt_payload_nonce = transit_encrypt_request_nonce request\<rparr>"

definition transit_enveloped ::
  "http_env \<Rightarrow> client \<Rightarrow>
   (string \<Rightarrow> 'a response_envelope option) \<Rightarrow>
   ('b \<Rightarrow> payload) \<Rightarrow> string list \<Rightarrow> string \<Rightarrow>
   string \<Rightarrow> 'b \<Rightarrow> 'a sent" where
  "transit_enveloped env cl from_json to_json mount verb path request =
     smap env_data (transit_request env cl from_json mount verb path (Some (to_json request)))"

definition transit_operation_path ::
  "string list \<Rightarrow> string \<Rightarrow> string \<Rightarrow>
   transit_hash_algorithm option \<Rightarrow> string res" where
  "transit_operation_path mount operation name algorithm =
     (let segments = [operation] in
     rbind (transit_validate_key_name name) (\<lambda>name.
     let segments = segments @ name in
     let segments = (case algorithm of
        None \<Rightarrow> segments
      | Some algorithm \<Rightarrow> segments @ [transit_hash_algorithm_as_path_segment
        algorithm]) in
     transit_path mount segments))"

definition transit_encrypt ::
  "http_env \<Rightarrow> client \<Rightarrow>
   (string \<Rightarrow> 'a response_envelope option) \<Rightarrow>
   (transit_encrypt_payload \<Rightarrow> payload) \<Rightarrow> string list \<Rightarrow>
   string \<Rightarrow> transit_encrypt_request \<Rightarrow> 'a sent" where
  "transit_encrypt env cl from_json to_json mount name request =
     (let payload = transit_encrypt_payload_of request in
     sbind (pure (transit_operation_path mount ''encrypt'' name None)) (\<lambda>p.
     transit_enveloped env cl from_json to_json mount ''POST'' p payload))"

record transit_decrypt_payload =
  transit_decrypt_payload_ciphertext :: string
  transit_decrypt_payload_associated_data :: "string option"
  transit_decrypt_payload_context :: "string option"
  transit_decrypt_payload_nonce :: "string option"

definition transit_decrypt_payload_of ::
  "transit_decrypt_request \<Rightarrow> transit_decrypt_payload" where
  "transit_decrypt_payload_of request =
     \<lparr>transit_decrypt_payload_ciphertext = transit_decrypt_request_ciphertext request,
       transit_decrypt_payload_associated_data = transit_decrypt_request_associated_data request,
       transit_decrypt_payload_context = transit_decrypt_request_context request,
       transit_decrypt_payload_nonce = transit_decrypt_request_nonce request\<rparr>"

definition transit_decrypt ::
  "http_env \<Rightarrow> client \<Rightarrow>
   (string \<Rightarrow> 'a response_envelope option) \<Rightarrow>
   (transit_decrypt_payload \<Rightarrow> payload) \<Rightarrow> string list \<Rightarrow>
   string \<Rightarrow> transit_decrypt_request \<Rightarrow> 'a sent" where
  "transit_decrypt env cl from_json to_json mount name request =
     (let payload = transit_decrypt_payload_of request in
     sbind (pure (transit_operation_path mount ''decrypt'' name None)) (\<lambda>p.
     transit_enveloped env cl from_json to_json mount ''POST'' p payload))"

record transit_rewrap_payload =
  transit_rewrap_payload_ciphertext :: string
  transit_rewrap_payload_context :: "string option"
  transit_rewrap_payload_key_version :: "64 word option"
  transit_rewrap_payload_nonce :: "string option"

definition transit_rewrap_payload_of ::
  "transit_rewrap_request \<Rightarrow> transit_rewrap_payload" where
  "transit_rewrap_payload_of request =
     \<lparr>transit_rewrap_payload_ciphertext = transit_rewrap_request_ciphertext request,
       transit_rewrap_payload_context = transit_rewrap_request_context request,
       transit_rewrap_payload_key_version = transit_rewrap_request_key_version request,
       transit_rewrap_payload_nonce = transit_rewrap_request_nonce request\<rparr>"

definition transit_rewrap ::
  "http_env \<Rightarrow> client \<Rightarrow>
   (string \<Rightarrow> 'a response_envelope option) \<Rightarrow>
   (transit_rewrap_payload \<Rightarrow> payload) \<Rightarrow> string list \<Rightarrow>
   string \<Rightarrow> transit_rewrap_request \<Rightarrow> 'a sent" where
  "transit_rewrap env cl from_json to_json mount name request =
     (let payload = transit_rewrap_payload_of request in
     sbind (pure (transit_operation_path mount ''rewrap'' name None)) (\<lambda>p.
     transit_enveloped env cl from_json to_json mount ''POST'' p payload))"

record transit_data_key_payload =
  transit_data_key_payload_associated_data :: "string option"
  transit_data_key_payload_context :: "string option"
  transit_data_key_payload_nonce :: "string option"
  transit_data_key_payload_bits :: "64 word option"

definition transit_data_key ::
  "http_env \<Rightarrow> client \<Rightarrow>
   (string \<Rightarrow> 'a response_envelope option) \<Rightarrow>
   (transit_data_key_payload \<Rightarrow> payload) \<Rightarrow> string list \<Rightarrow>
   string \<Rightarrow> transit_data_key_type \<Rightarrow>
   transit_data_key_request \<Rightarrow> 'a sent" where
  "transit_data_key env cl from_json to_json mount name data_key_type request =
     sbind (pure (client_validate_fields env [(TRANSIT_DATA_KEY_ASSOCIATED_DATA,
       transit_data_key_request_associated_data request \<noteq> None)])) (\<lambda>_.
     let payload =
       \<lparr>transit_data_key_payload_associated_data = transit_data_key_request_associated_data request,
       transit_data_key_payload_context = transit_data_key_request_context request,
       transit_data_key_payload_nonce = transit_data_key_request_nonce request,
       transit_data_key_payload_bits = transit_data_key_request_bits request\<rparr> in
     sbind (pure (transit_path mount [''datakey'', transit_data_key_type_as_path_segment
       data_key_type, name])) (\<lambda>p.
     transit_enveloped env cl from_json to_json mount ''POST'' p payload))"

record transit_random_request =
  transit_random_request_format :: "transit_output_format option"

definition transit_random ::
  "http_env \<Rightarrow> client \<Rightarrow>
   (string \<Rightarrow> 'a response_envelope option) \<Rightarrow>
   (transit_random_request \<Rightarrow> payload) \<Rightarrow> string list \<Rightarrow>
   64 word option \<Rightarrow> transit_random_request \<Rightarrow> 'a sent" where
  "transit_random env cl from_json to_json mount bytes request =
     (let bytes = map_option (\<lambda>val_v. dec_string (unat val_v)) bytes in
     let segments = [''random''] in
     let segments = (case bytes of
        None \<Rightarrow> segments
      | Some bytes \<Rightarrow> segments @ [bytes]) in
     sbind (pure (transit_path mount segments)) (\<lambda>p.
     transit_enveloped env cl from_json to_json mount ''POST'' p request))"

definition transit_random_from_source ::
  "http_env \<Rightarrow> client \<Rightarrow>
   (string \<Rightarrow> 'a response_envelope option) \<Rightarrow>
   (transit_random_request \<Rightarrow> payload) \<Rightarrow> string list \<Rightarrow>
   transit_random_source \<Rightarrow> 64 word option \<Rightarrow>
   transit_random_request \<Rightarrow> 'a sent" where
  "transit_random_from_source env cl from_json to_json mount source bytes request =
     (let bytes = map_option (\<lambda>val_v. dec_string (unat val_v)) bytes in
     let segments = [''random'', transit_random_source_as_path_segment source] in
     let segments = (case bytes of
        None \<Rightarrow> segments
      | Some bytes \<Rightarrow> segments @ [bytes]) in
     sbind (pure (transit_path mount segments)) (\<lambda>p.
     transit_enveloped env cl from_json to_json mount ''POST'' p request))"

record transit_hash_payload =
  transit_hash_payload_input :: string
  transit_hash_payload_format :: "transit_output_format option"

definition transit_hash ::
  "http_env \<Rightarrow> client \<Rightarrow>
   (string \<Rightarrow> 'a response_envelope option) \<Rightarrow>
   (transit_hash_payload \<Rightarrow> payload) \<Rightarrow> string list \<Rightarrow>
   transit_hash_algorithm \<Rightarrow> transit_hash_request \<Rightarrow> 'a sent" where
  "transit_hash env cl from_json to_json mount algorithm request =
     (let payload = \<lparr>transit_hash_payload_input = transit_hash_request_input request,
       transit_hash_payload_format = transit_hash_request_format request\<rparr> in
     sbind (pure (transit_path mount [''hash'', transit_hash_algorithm_as_path_segment
       algorithm])) (\<lambda>p.
     transit_enveloped env cl from_json to_json mount ''POST'' p payload))"

record transit_hmac_payload =
  transit_hmac_payload_input :: string
  transit_hmac_payload_key_version :: "64 word option"

definition transit_hmac ::
  "http_env \<Rightarrow> client \<Rightarrow>
   (string \<Rightarrow> 'a response_envelope option) \<Rightarrow>
   (transit_hmac_payload \<Rightarrow> payload) \<Rightarrow> string list \<Rightarrow>
   string \<Rightarrow> transit_hash_algorithm option \<Rightarrow>
   transit_hmac_request \<Rightarrow> 'a sent" where
  "transit_hmac env cl from_json to_json mount name algorithm request =
     (let payload = \<lparr>transit_hmac_payload_input = transit_hmac_request_input request,
       transit_hmac_payload_key_version = transit_hmac_request_key_version request\<rparr> in
     sbind (pure (transit_operation_path mount ''hmac'' name algorithm)) (\<lambda>p.
     transit_enveloped env cl from_json to_json mount ''POST'' p payload))"

record transit_sign_payload =
  transit_sign_payload_input :: string
  transit_sign_payload_key_version :: "64 word option"
  transit_sign_payload_context :: "string option"
  transit_sign_payload_prehashed :: "bool option"
  transit_sign_payload_signature_algorithm :: "transit_signature_algorithm option"
  transit_sign_payload_marshaling_algorithm :: "transit_marshaling_algorithm option"
  transit_sign_payload_salt_length :: "transit_salt_length option"

definition transit_sign_payload_of :: "transit_sign_request \<Rightarrow> transit_sign_payload" where
  "transit_sign_payload_of request =
     \<lparr>transit_sign_payload_input = transit_sign_request_input request,
       transit_sign_payload_key_version = transit_sign_request_key_version request,
       transit_sign_payload_context = transit_sign_request_context request,
       transit_sign_payload_prehashed = transit_sign_request_prehashed request,
       transit_sign_payload_signature_algorithm = transit_sign_request_signature_algorithm request,
       transit_sign_payload_marshaling_algorithm = transit_sign_request_marshaling_algorithm request,
       transit_sign_payload_salt_length = transit_sign_request_salt_length request\<rparr>"

definition transit_sign ::
  "http_env \<Rightarrow> client \<Rightarrow>
   (string \<Rightarrow> 'a response_envelope option) \<Rightarrow>
   (transit_sign_payload \<Rightarrow> payload) \<Rightarrow> string list \<Rightarrow>
   string \<Rightarrow> transit_hash_algorithm option \<Rightarrow>
   transit_sign_request \<Rightarrow> 'a sent" where
  "transit_sign env cl from_json to_json mount name algorithm request =
     (let payload = transit_sign_payload_of request in
     sbind (pure (transit_operation_path mount ''sign'' name algorithm)) (\<lambda>p.
     transit_enveloped env cl from_json to_json mount ''POST'' p payload))"

record transit_verify_payload =
  transit_verify_payload_input :: string
  transit_verify_payload_signature :: "string option"
  transit_verify_payload_hmac :: "string option"
  transit_verify_payload_context :: "string option"
  transit_verify_payload_prehashed :: "bool option"
  transit_verify_payload_signature_algorithm :: "transit_signature_algorithm option"
  transit_verify_payload_marshaling_algorithm :: "transit_marshaling_algorithm option"
  transit_verify_payload_salt_length :: "transit_salt_length option"

definition transit_verify_payload_of ::
  "transit_verify_request \<Rightarrow> transit_verify_payload" where
  "transit_verify_payload_of request =
     \<lparr>transit_verify_payload_input = transit_verify_request_input request,
       transit_verify_payload_signature = transit_verify_request_signature request,
       transit_verify_payload_hmac = transit_verify_request_hmac request,
       transit_verify_payload_context = transit_verify_request_context request,
       transit_verify_payload_prehashed = transit_verify_request_prehashed request,
       transit_verify_payload_signature_algorithm = transit_verify_request_signature_algorithm request,
       transit_verify_payload_marshaling_algorithm = transit_verify_request_marshaling_algorithm request,
       transit_verify_payload_salt_length = transit_verify_request_salt_length request\<rparr>"

definition transit_verify ::
  "http_env \<Rightarrow> client \<Rightarrow>
   (string \<Rightarrow> 'a response_envelope option) \<Rightarrow>
   (transit_verify_payload \<Rightarrow> payload) \<Rightarrow> string list \<Rightarrow>
   string \<Rightarrow> transit_hash_algorithm option \<Rightarrow>
   transit_verify_request \<Rightarrow> 'a sent" where
  "transit_verify env cl from_json to_json mount name algorithm request =
     (let payload = transit_verify_payload_of request in
     sbind (pure (transit_operation_path mount ''verify'' name algorithm)) (\<lambda>p.
     transit_enveloped env cl from_json to_json mount ''POST'' p payload))"

record transit_batch_encrypt_request =
  transit_batch_encrypt_request_batch_input :: "transit_encrypt_request list"
  transit_batch_encrypt_request_partial_failure_response_code :: "16 word option"

definition MAX_TRANSIT_BATCH_ITEMS :: nat where
  "MAX_TRANSIT_BATCH_ITEMS = 1000"

definition transit_validate_batch_len :: "nat \<Rightarrow> unit res" where
  "transit_validate_batch_len len =
     (if len = 0 then Inl (InvalidParameter ''Transit batch_input must not be empty'')
        else (if MAX_TRANSIT_BATCH_ITEMS < len then Inl (InvalidParameter
          ''Transit batch_input exceeds item limit'')
           else Inr ()))"

definition transit_validate_partial_failure_response_code ::
  "16 word option \<Rightarrow> unit res" where
  "transit_validate_partial_failure_response_code code_v =
     (if is_some_and (\<lambda>code_v. \<not> (100 \<le> code_v \<and> code_v \<le> 599))
       code_v then Inl (InvalidParameter
       ''Transit partial_failure_response_code must be a valid HTTP status'')
        else Inr ())"

record 'a transit_batch_payload =
  transit_batch_payload_batch_input :: "'a list"
  transit_batch_payload_partial_failure_response_code :: "16 word option"

definition transit_batch_encrypt ::
  "http_env \<Rightarrow> client \<Rightarrow>
   (string \<Rightarrow> 'a response_envelope option) \<Rightarrow>
   (transit_encrypt_payload transit_batch_payload \<Rightarrow> payload) \<Rightarrow>
   string list \<Rightarrow> string \<Rightarrow> transit_batch_encrypt_request \<Rightarrow>
   'a sent" where
  "transit_batch_encrypt env cl from_json to_json mount name request =
     sbind (pure (transit_validate_batch_len (length (transit_batch_encrypt_request_batch_input
       request)))) (\<lambda>_.
     sbind (pure (transit_validate_partial_failure_response_code
       (transit_batch_encrypt_request_partial_failure_response_code request))) (\<lambda>_.
     let payload = \<lparr>transit_batch_payload_batch_input = map transit_encrypt_payload_of
       (transit_batch_encrypt_request_batch_input request),
       transit_batch_payload_partial_failure_response_code = transit_batch_encrypt_request_partial_failure_response_code
       request\<rparr> in
     sbind (pure (transit_operation_path mount ''encrypt'' name None)) (\<lambda>p.
     transit_enveloped env cl from_json to_json mount ''POST'' p payload)))"

record transit_batch_decrypt_request =
  transit_batch_decrypt_request_batch_input :: "transit_decrypt_request list"
  transit_batch_decrypt_request_partial_failure_response_code :: "16 word option"

definition transit_batch_decrypt ::
  "http_env \<Rightarrow> client \<Rightarrow>
   (string \<Rightarrow> 'a response_envelope option) \<Rightarrow>
   (transit_decrypt_payload transit_batch_payload \<Rightarrow> payload) \<Rightarrow>
   string list \<Rightarrow> string \<Rightarrow> transit_batch_decrypt_request \<Rightarrow>
   'a sent" where
  "transit_batch_decrypt env cl from_json to_json mount name request =
     sbind (pure (transit_validate_batch_len (length (transit_batch_decrypt_request_batch_input
       request)))) (\<lambda>_.
     sbind (pure (transit_validate_partial_failure_response_code
       (transit_batch_decrypt_request_partial_failure_response_code request))) (\<lambda>_.
     let payload = \<lparr>transit_batch_payload_batch_input = map transit_decrypt_payload_of
       (transit_batch_decrypt_request_batch_input request),
       transit_batch_payload_partial_failure_response_code = transit_batch_decrypt_request_partial_failure_response_code
       request\<rparr> in
     sbind (pure (transit_operation_path mount ''decrypt'' name None)) (\<lambda>p.
     transit_enveloped env cl from_json to_json mount ''POST'' p payload)))"

record transit_batch_rewrap_request =
  transit_batch_rewrap_request_batch_input :: "transit_rewrap_request list"

definition transit_batch_rewrap ::
  "http_env \<Rightarrow> client \<Rightarrow>
   (string \<Rightarrow> 'a response_envelope option) \<Rightarrow>
   (transit_rewrap_payload transit_batch_payload \<Rightarrow> payload) \<Rightarrow>
   string list \<Rightarrow> string \<Rightarrow> transit_batch_rewrap_request \<Rightarrow>
   'a sent" where
  "transit_batch_rewrap env cl from_json to_json mount name request =
     sbind (pure (transit_validate_batch_len (length (transit_batch_rewrap_request_batch_input
       request)))) (\<lambda>_.
     let payload = \<lparr>transit_batch_payload_batch_input = map transit_rewrap_payload_of
       (transit_batch_rewrap_request_batch_input request),
       transit_batch_payload_partial_failure_response_code = None\<rparr> in
     sbind (pure (transit_operation_path mount ''rewrap'' name None)) (\<lambda>p.
     transit_enveloped env cl from_json to_json mount ''POST'' p payload))"

record transit_batch_sign_request =
  transit_batch_sign_request_batch_input :: "transit_sign_request list"

definition transit_batch_sign ::
  "http_env \<Rightarrow> client \<Rightarrow>
   (string \<Rightarrow> 'a response_envelope option) \<Rightarrow>
   (transit_sign_payload transit_batch_payload \<Rightarrow> payload) \<Rightarrow>
   string list \<Rightarrow> string \<Rightarrow> transit_hash_algorithm option \<Rightarrow>
   transit_batch_sign_request \<Rightarrow> 'a sent" where
  "transit_batch_sign env cl from_json to_json mount name algorithm request =
     sbind (pure (transit_validate_batch_len (length (transit_batch_sign_request_batch_input
       request)))) (\<lambda>_.
     let payload = \<lparr>transit_batch_payload_batch_input = map transit_sign_payload_of
       (transit_batch_sign_request_batch_input request),
       transit_batch_payload_partial_failure_response_code = None\<rparr> in
     sbind (pure (transit_operation_path mount ''sign'' name algorithm)) (\<lambda>p.
     transit_enveloped env cl from_json to_json mount ''POST'' p payload))"

record transit_batch_verify_request =
  transit_batch_verify_request_batch_input :: "transit_verify_request list"

definition transit_batch_verify ::
  "http_env \<Rightarrow> client \<Rightarrow>
   (string \<Rightarrow> 'a response_envelope option) \<Rightarrow>
   (transit_verify_payload transit_batch_payload \<Rightarrow> payload) \<Rightarrow>
   string list \<Rightarrow> string \<Rightarrow> transit_hash_algorithm option \<Rightarrow>
   transit_batch_verify_request \<Rightarrow> 'a sent" where
  "transit_batch_verify env cl from_json to_json mount name algorithm request =
     sbind (pure (transit_validate_batch_len (length (transit_batch_verify_request_batch_input
       request)))) (\<lambda>_.
     let payload = \<lparr>transit_batch_payload_batch_input = map transit_verify_payload_of
       (transit_batch_verify_request_batch_input request),
       transit_batch_payload_partial_failure_response_code = None\<rparr> in
     sbind (pure (transit_operation_path mount ''verify'' name algorithm)) (\<lambda>p.
     transit_enveloped env cl from_json to_json mount ''POST'' p payload))"

record transit_batch_encrypt_item =
  transit_batch_encrypt_item_ciphertext :: "string option"
  transit_batch_encrypt_item_key_version :: "64 word option"
  transit_batch_encrypt_item_error :: "string option"

record transit_batch_decrypt_item =
  transit_batch_decrypt_item_plaintext :: "string option"
  transit_batch_decrypt_item_error :: "string option"

record transit_batch_rewrap_item =
  transit_batch_rewrap_item_ciphertext :: "string option"
  transit_batch_rewrap_item_error :: "string option"

record transit_batch_sign_item =
  transit_batch_sign_item_signature :: "string option"
  transit_batch_sign_item_error :: "string option"

record transit_batch_verify_item =
  transit_batch_verify_item_valid :: bool
  transit_batch_verify_item_error :: "string option"

section \<open>The routes of the engine\<close>

lemma transit_path_handle: "transit_path mount tail = handle_path mount tail"
  unfolding transit_path_def handle_path_def Let_def
  by (simp add: rfold_segments rmap_rbind)

interpretation transit: mounted_engine transit_path transit_request
  by unfold_locales (simp_all add: transit_path_handle transit_request_def Let_def sends_secret secret_json_safe)

named_theorems transit_paths
named_theorems transit_calls

lemmas [transit_paths] = transit.path_at

text \<open>The two path helpers: a validated name, then the rest of the route.\<close>

lemma transit_named_at [transit_paths]:
  "transit_validate_key_name name = Inr segs \<Longrightarrow>
   transit_path mount (a # b # segs) = Inr p \<Longrightarrow> path_at mount [a, b, name] p"
  "transit_validate_key_name name = Inr segs \<Longrightarrow>
   transit_path mount (a # b # segs @ [v]) = Inr p \<Longrightarrow> path_at mount [a, b, name, v] p"
  "transit_validate_key_name name = Inr segs \<Longrightarrow>
   transit_path mount [a, join_with ''/'' segs] = Inr p \<Longrightarrow> path_at mount [a, name] p"
  using named_path_at [of name segs mount "[a, b]" "[]" p]
    named_path_at [of name segs mount "[a, b]" "[v]" p] joined_path_at [of name segs mount "[a]" p]
  by (simp_all add: transit_validate_key_name_def transit_path_handle handle_path_at)

lemma transit_two_names_at:
  assumes "transit_validate_key_name destination = Inr xs" "transit_validate_key_name source = Inr ys"
    "transit_path mount (a # xs @ ys @ post) = Inr p"
  shows "path_at mount (a # destination # source # post) p"
  using named_path_at [of source ys mount "a # xs" post p] assms
    named_path_at [of destination xs mount "[a]" "source # post" p]
  by (simp add: transit_validate_key_name_def transit_path_handle handle_path_at)

lemmas [transit_paths] = transit_two_names_at transit_two_names_at [where post = "[]", simplified]

lemma transit_key_path_at [transit_paths]:
  "transit_key_path mount name None = Inr p \<Longrightarrow> path_at mount [''keys'', name] p"
  "transit_key_path mount name (Some suf) = Inr p \<Longrightarrow> path_at mount [''keys'', name, suf] p"
  using named_path_at [of name _ mount "[''keys'']" "[]" p]
    named_path_at [of name _ mount "[''keys'']" "[suf]" p]
  by (auto simp: transit_key_path_def Let_def rbind_Inr_iff transit_validate_key_name_def
      transit_path_handle handle_path_at)

lemma transit_operation_path_at [transit_paths]:
  "transit_operation_path mount operation name None = Inr p \<Longrightarrow> path_at mount [operation, name] p"
  "transit_operation_path mount operation name (Some algorithm) = Inr p \<Longrightarrow>
   path_at mount [operation, name, transit_hash_algorithm_as_path_segment algorithm] p"
  using named_path_at [of name _ mount "[operation]" "[]" p]
    named_path_at [of name _ mount "[operation]"
      "[transit_hash_algorithm_as_path_segment algorithm]" p]
  by (auto simp: transit_operation_path_def Let_def rbind_Inr_iff transit_validate_key_name_def
      transit_path_handle handle_path_at)

lemma transit_operation_path_any [transit_paths]:
  "transit_operation_path mount operation name algorithm = Inr p \<Longrightarrow>
   path_at mount (operation # name #
     optional_part (map_option transit_hash_algorithm_as_path_segment algorithm)) p"
  by (cases algorithm) (simp_all add: transit_operation_path_at)

lemma transit_request_at [transit_calls]:
  "list_all safe_segment mount \<Longrightarrow> path_at mount parts path \<Longrightarrow>
   at_route env cl verb mount parts (transit_request env cl from_json mount verb path body_v)"
  by (rule transit.request_at)

lemma transit_request_query_at [transit_calls]:
  "list_all safe_segment mount \<Longrightarrow> path_at mount parts path \<Longrightarrow>
   at_route env cl verb mount parts
     (transit_request_query env cl from_json mount verb path query body_v accepted_statuses)"
  by (auto simp: transit_request_query_def Let_def rbind_Inr_iff intro!: at_intros at_requests transit_calls
      intro: transit_paths silent_intros split: option.splits)

lemma transit_request_accepting_at [transit_calls]:
  "list_all safe_segment mount \<Longrightarrow> path_at mount parts path \<Longrightarrow>
   at_route env cl verb mount parts
     (transit_request_accepting env cl from_json mount verb path body_v accepted_statuses)"
  by (auto simp: transit_request_accepting_def Let_def rbind_Inr_iff intro!: at_intros at_requests transit_calls
      intro: transit_paths silent_intros split: option.splits)

lemma transit_enveloped_at [transit_calls]:
  "list_all safe_segment mount \<Longrightarrow> path_at mount parts path \<Longrightarrow>
   at_route env cl verb mount parts
     (transit_enveloped env cl from_json to_json mount verb path request)"
  by (auto simp: transit_enveloped_def Let_def rbind_Inr_iff intro!: at_intros at_requests transit_calls
      intro: transit_paths silent_intros split: option.splits)

lemma transit_keys_1_routes [transit_calls]:
  assumes "list_all safe_segment mount"
  shows "at_route env cl ''POST'' mount [''keys'', name]
        (transit_create_key env cl fj tj mount name request)"
    and "at_route env cl ''GET'' mount [''keys'', name] (transit_read_key env cl fj2 mount name)"
    and "at_route env cl ''GET'' mount [''wrapping_key''] (transit_wrapping_key_call env cl fj2 mount)"
    and "at_route env cl ''LIST'' mount [''keys'']
        (transit_list_keys_after env cl fj2 mount after limit)"
    and "at_route env cl ''LIST'' mount [''keys''] (transit_list_keys env cl fj2 mount)"
    and "at_route env cl ''DELETE'' mount [''keys'', name] (transit_delete_key env cl fj mount name)"
    and "at_route env cl ''POST'' mount [''keys'', name, ''config'']
        (transit_update_key env cl fj tj2 mount name request2)"
    and "at_route env cl ''POST'' mount [''keys'', name, ''rotate'']
        (transit_rotate_key env cl fj mount name)"
    and "at_route env cl ''POST'' mount [''keys'', name, ''import'']
        (transit_import_key env cl fj tj3 mount name request3)"
    and "at_route env cl ''POST'' mount [''keys'', name, ''import_version'']
        (transit_import_key_version env cl fj tj4 mount name request4)"
    and "at_route env cl ''DELETE'' mount [''keys'', name, ''soft-delete'']
        (transit_soft_delete_key env cl fj mount name)"
    and "at_route env cl ''POST'' mount [''keys'', name, ''soft-delete-restore'']
        (transit_restore_soft_deleted_key env cl fj mount name)"
  unfolding transit_create_key_def transit_read_key_def transit_wrapping_key_call_def
      transit_list_keys_after_def transit_list_keys_def transit_delete_key_def
      transit_update_key_def transit_rotate_key_def transit_import_key_def
      transit_import_key_version_def transit_soft_delete_key_def
      transit_restore_soft_deleted_key_def
  by (use assms in \<open>auto simp: Let_def rbind_Inr_iff
      intro!: at_intros at_requests transit_calls intro: transit_paths at_after silent_intros split: option.splits\<close>)

lemma transit_keys_2_routes [transit_calls]:
  assumes "list_all safe_segment mount"
  shows "at_route env cl ''GET'' mount ([''byok-export'', destination, source] @ optional_part
          (map_option (\<lambda>v. dec_string (unat v)) ver))
        (transit_byok_export_call env cl fj mount destination source ver hash_function)"
    and "at_route env cl ''POST'' mount [''config'', ''keys'']
        (transit_write_global_key_config env cl fj tj mount request)"
    and "at_route env cl ''GET'' mount [''config'', ''keys'']
        (transit_read_global_key_config env cl fj mount)"
    and "at_route env cl ''GET'' mount ([''export'', transit_export_key_type_as_path_segment
          key_type, name] @ optional_part (map_option (\<lambda>v. dec_string (unat v)) ver))
        (transit_export_key env cl fj mount key_type name ver)"
    and "at_route env cl ''GET'' mount [''backup'', name] (transit_backup_key env cl fj mount name)"
    and "at_route env cl ''POST'' mount (''restore'' # optional_part name2)
        (transit_restore_key env cl fj2 tj2 mount name2 request2)"
    and "at_route env cl ''POST'' mount [''keys'', name, ''trim'']
        (transit_trim_key env cl fj2 tj3 mount name request3)"
    and "at_route env cl ''POST'' mount [''cache-config'']
        (transit_write_cache_config env cl fj tj4 mount request4)"
    and "at_route env cl ''GET'' mount [''cache-config''] (transit_read_cache_config env cl fj mount)"
    and "at_route env cl ''POST'' mount [''keys'', name, ''csr'']
        (transit_generate_csr env cl fj tj5 mount name request5)"
    and "at_route env cl ''POST'' mount [''keys'', name, ''set-certificate'']
        (transit_set_certificate env cl fj tj6 mount name request6)"
  unfolding transit_byok_export_call_def transit_write_global_key_config_def
      transit_read_global_key_config_def transit_export_key_def transit_backup_key_def
      transit_restore_key_def transit_trim_key_def transit_write_cache_config_def
      transit_read_cache_config_def transit_generate_csr_def transit_set_certificate_def
  by (use assms in \<open>auto simp: Let_def rbind_Inr_iff
      intro!: at_intros at_requests transit_calls intro: transit_paths at_after silent_intros split: option.splits\<close>)

lemma transit_crypto_1_routes [transit_calls]:
  assumes "list_all safe_segment mount"
  shows "at_route env cl ''POST'' mount [''encrypt'', name]
        (transit_encrypt env cl fj tj mount name request)"
    and "at_route env cl ''POST'' mount [''decrypt'', name]
        (transit_decrypt env cl fj tj2 mount name request2)"
    and "at_route env cl ''POST'' mount [''rewrap'', name]
        (transit_rewrap env cl fj tj3 mount name request3)"
    and "at_route env cl ''POST'' mount [''datakey'', transit_data_key_type_as_path_segment
          data_key_type, name]
        (transit_data_key env cl fj tj4 mount name data_key_type request4)"
    and "at_route env cl ''POST'' mount (''random'' # optional_part (map_option (\<lambda>v.
          dec_string (unat v)) bytes))
        (transit_random env cl fj tj5 mount bytes request5)"
    and "at_route env cl ''POST'' mount ([''random'', transit_random_source_as_path_segment source]
          @ optional_part (map_option (\<lambda>v. dec_string (unat v)) bytes))
        (transit_random_from_source env cl fj tj5 mount source bytes request5)"
    and "at_route env cl ''POST'' mount [''hash'', transit_hash_algorithm_as_path_segment algorithm]
        (transit_hash env cl fj tj6 mount algorithm request6)"
    and "at_route env cl ''POST'' mount (''hmac'' # name # optional_part (map_option
          transit_hash_algorithm_as_path_segment algorithm2))
        (transit_hmac env cl fj tj7 mount name algorithm2 request7)"
  unfolding transit_encrypt_def transit_decrypt_def transit_rewrap_def transit_data_key_def
      transit_random_def transit_random_from_source_def transit_hash_def transit_hmac_def
  by (use assms in \<open>auto simp: Let_def rbind_Inr_iff
      intro!: at_intros at_requests transit_calls intro: transit_paths at_after silent_intros split: option.splits\<close>)

lemma transit_crypto_2_routes [transit_calls]:
  assumes "list_all safe_segment mount"
  shows "at_route env cl ''POST'' mount (''sign'' # name # optional_part (map_option
          transit_hash_algorithm_as_path_segment algorithm))
        (transit_sign env cl fj tj mount name algorithm request)"
    and "at_route env cl ''POST'' mount (''verify'' # name # optional_part (map_option
          transit_hash_algorithm_as_path_segment algorithm))
        (transit_verify env cl fj tj2 mount name algorithm request2)"
    and "at_route env cl ''POST'' mount [''encrypt'', name]
        (transit_batch_encrypt env cl fj tj3 mount name request3)"
    and "at_route env cl ''POST'' mount [''decrypt'', name]
        (transit_batch_decrypt env cl fj tj4 mount name request4)"
    and "at_route env cl ''POST'' mount [''rewrap'', name]
        (transit_batch_rewrap env cl fj tj5 mount name request5)"
    and "at_route env cl ''POST'' mount (''sign'' # name # optional_part (map_option
          transit_hash_algorithm_as_path_segment algorithm))
        (transit_batch_sign env cl fj tj6 mount name algorithm request6)"
    and "at_route env cl ''POST'' mount (''verify'' # name # optional_part (map_option
          transit_hash_algorithm_as_path_segment algorithm))
        (transit_batch_verify env cl fj tj7 mount name algorithm request7)"
  unfolding transit_sign_def transit_verify_def transit_batch_encrypt_def transit_batch_decrypt_def
      transit_batch_rewrap_def transit_batch_sign_def transit_batch_verify_def
  by (use assms in \<open>auto simp: Let_def rbind_Inr_iff
      intro!: at_intros at_requests transit_calls intro: transit_paths at_after silent_intros split: option.splits\<close>)

end
