(* ===== verification/Bao_Pki.thy ===== *)
theory Bao_Pki
  imports Bao_Engine
begin

text \<open>
  The PKI engine, \<open>secrets/pki.rs\<close> and its submodules \<open>authority.rs\<close>, \<open>signing.rs\<close> and
  \<open>extensions.rs\<close>: roles, requests and their checks, and every operation of a mounted handle, the
  public handle's included.
\<close>

section \<open>Data and requests\<close>

definition pki_validate_private_key_output_format ::
  "string option \<Rightarrow> bool \<Rightarrow> unit res" where
  "pki_validate_private_key_output_format fmt exports_private_key =
     (if exports_private_key \<and> is_some_and (\<lambda>val_v. eq_ignore_ascii_case val_v
       ''pem_bundle'') fmt then Inl (InvalidParameter
       ''PKI key export cannot use pem_bundle; use pem or der to keep private keys out of public fields'')
        else Inr ())"

definition pki_root_deletion_confirm :: unit where
  "pki_root_deletion_confirm = ()"

definition pki_identity_template_glob_override_acknowledge :: unit where
  "pki_identity_template_glob_override_acknowledge = ()"

datatype pki_key_generation_type =
    PkiKeyGenerationType_Internal | PkiKeyGenerationType_Exported
  | PkiKeyGenerationType_Existing

definition pki_key_generation_type_as_path_segment ::
  "pki_key_generation_type \<Rightarrow> string" where
  "pki_key_generation_type_as_path_segment self =
     (case self of
        PkiKeyGenerationType_Internal \<Rightarrow> ''internal''
      | PkiKeyGenerationType_Exported \<Rightarrow> ''exported''
      | PkiKeyGenerationType_Existing \<Rightarrow> ''existing'')"

record pki_issue_request =
  pki_issue_request_common_name :: string
  pki_issue_request_alt_names :: "string list"
  pki_issue_request_ip_sans :: "string list"
  pki_issue_request_uri_sans :: "string list"
  pki_issue_request_ttl :: "string option"
  pki_issue_request_format :: "string option"
  pki_issue_request_private_key_format :: "string option"
  pki_issue_request_exclude_cn_from_sans :: "bool option"
  pki_issue_request_skid :: "string option"
  pki_issue_request_require_matching_certificate_algorithms :: "bool option"

definition pki_issue_request_default :: pki_issue_request where
  "pki_issue_request_default =
     \<lparr>pki_issue_request_common_name = [], pki_issue_request_alt_names = [],
       pki_issue_request_ip_sans = [], pki_issue_request_uri_sans = [], pki_issue_request_ttl =
       None, pki_issue_request_format = None, pki_issue_request_private_key_format = None,
       pki_issue_request_exclude_cn_from_sans = None, pki_issue_request_skid = None,
       pki_issue_request_require_matching_certificate_algorithms = None\<rparr>"

definition pki_issue_request_new :: "string \<Rightarrow> pki_issue_request" where
  "pki_issue_request_new common_name =
     pki_issue_request_default\<lparr>pki_issue_request_common_name := common_name\<rparr>"

record pki_sign_verbatim_request =
  pki_sign_verbatim_request_csr :: string
  pki_sign_verbatim_request_key_usage :: "string list"
  pki_sign_verbatim_request_ext_key_usage :: "string list"
  pki_sign_verbatim_request_ext_key_usage_oids :: "string list"
  pki_sign_verbatim_request_ttl :: "string option"
  pki_sign_verbatim_request_format :: "string option"
  pki_sign_verbatim_request_not_before :: "string option"
  pki_sign_verbatim_request_not_after :: "string option"
  pki_sign_verbatim_request_signature_bits :: "64 word option"
  pki_sign_verbatim_request_use_pss :: "bool option"
  pki_sign_verbatim_request_remove_roots_from_chain :: "bool option"
  pki_sign_verbatim_request_user_ids :: "string list"
  pki_sign_verbatim_request_basic_constraints_valid_for_non_ca :: "bool option"
  pki_sign_verbatim_request_skid :: "string option"
  pki_sign_verbatim_request_require_matching_certificate_algorithms :: "bool option"

definition pki_sign_verbatim_request_default :: pki_sign_verbatim_request where
  "pki_sign_verbatim_request_default =
     \<lparr>pki_sign_verbatim_request_csr = [], pki_sign_verbatim_request_key_usage = [],
       pki_sign_verbatim_request_ext_key_usage = [],
       pki_sign_verbatim_request_ext_key_usage_oids = [], pki_sign_verbatim_request_ttl = None,
       pki_sign_verbatim_request_format = None, pki_sign_verbatim_request_not_before = None,
       pki_sign_verbatim_request_not_after = None, pki_sign_verbatim_request_signature_bits =
       None, pki_sign_verbatim_request_use_pss = None,
       pki_sign_verbatim_request_remove_roots_from_chain = None,
       pki_sign_verbatim_request_user_ids = [],
       pki_sign_verbatim_request_basic_constraints_valid_for_non_ca = None,
       pki_sign_verbatim_request_skid = None,
       pki_sign_verbatim_request_require_matching_certificate_algorithms = None\<rparr>"

definition pki_sign_verbatim_request_new :: "string \<Rightarrow> pki_sign_verbatim_request" where
  "pki_sign_verbatim_request_new csr =
     pki_sign_verbatim_request_default\<lparr>pki_sign_verbatim_request_csr := csr\<rparr>"

record pki_revoke_with_key_request =
  pki_revoke_with_key_request_serial_number :: string
  pki_revoke_with_key_request_private_key :: string

definition pki_revoke_with_key_request_new ::
  "string \<Rightarrow> string \<Rightarrow> pki_revoke_with_key_request" where
  "pki_revoke_with_key_request_new serial_number private_key =
     \<lparr>pki_revoke_with_key_request_serial_number = serial_number,
       pki_revoke_with_key_request_private_key = private_key\<rparr>"

section \<open>Operations\<close>

definition client_pki :: "string \<Rightarrow> string list res" where
  "client_pki mount = validate_mount_path mount"

definition client_pki_public :: "string \<Rightarrow> string list res" where
  "client_pki_public mount = validate_mount_path mount"

definition pki_public_bytes ::
  "http_env \<Rightarrow> client \<Rightarrow> string list \<Rightarrow> string \<Rightarrow>
   string \<Rightarrow> header_list \<Rightarrow> string option \<Rightarrow> string sent" where
  "pki_public_bytes env cl mount verb path headers body_v =
     (let mount = join_with ''/'' mount in
     request_secret_bytes_headers_accepting env cl ''/pki/'' ''pki'' mount verb path [] headers
       body_v [200])"

definition pki_public_path :: "string list \<Rightarrow> string list \<Rightarrow> string res" where
  "pki_public_path mount tail =
     (let segments = mount in
     rbind (rfold (\<lambda>segment segments. rbind (validate_endpoint_path segment)
       (\<lambda>p.
     let segments = segments @ p in
     Inr segments)) tail segments) (\<lambda>segments.
     Inr (join_with ''/'' segments)))"

definition pki_public_get ::
  "http_env \<Rightarrow> client \<Rightarrow> string list \<Rightarrow>
   string list \<Rightarrow> string \<Rightarrow> string sent" where
  "pki_public_get env cl mount tail accept =
     sbind (pure (pki_public_path mount tail)) (\<lambda>p.
     pki_public_bytes env cl mount ''GET'' p [(''accept'', from_static accept)] None)"

definition pki_public_ca_der ::
  "http_env \<Rightarrow> client \<Rightarrow> string list \<Rightarrow> string sent" where
  "pki_public_ca_der env cl mount =
     pki_public_get env cl mount [''ca''] ''application/pkix-cert''"

definition pki_public_ca_pem ::
  "http_env \<Rightarrow> client \<Rightarrow> string list \<Rightarrow> string sent" where
  "pki_public_ca_pem env cl mount =
     pki_public_get env cl mount [''ca'', ''pem''] ''application/x-pem-file''"

definition pki_public_ca_chain_pem ::
  "http_env \<Rightarrow> client \<Rightarrow> string list \<Rightarrow> string sent" where
  "pki_public_ca_chain_pem env cl mount =
     pki_public_get env cl mount [''ca_chain''] ''application/x-pem-file''"

definition pki_public_legacy_ca_der ::
  "http_env \<Rightarrow> client \<Rightarrow> string list \<Rightarrow> string sent" where
  "pki_public_legacy_ca_der env cl mount =
     pki_public_get env cl mount [''cert'', ''ca''] ''application/pkix-cert''"

definition pki_public_legacy_ca_chain_pem ::
  "http_env \<Rightarrow> client \<Rightarrow> string list \<Rightarrow> string sent" where
  "pki_public_legacy_ca_chain_pem env cl mount =
     pki_public_get env cl mount [''cert'', ''ca_chain''] ''application/x-pem-file''"

definition pki_public_crl_der ::
  "http_env \<Rightarrow> client \<Rightarrow> string list \<Rightarrow> string sent" where
  "pki_public_crl_der env cl mount =
     pki_public_get env cl mount [''crl''] ''application/pkix-crl''"

definition pki_public_crl_pem ::
  "http_env \<Rightarrow> client \<Rightarrow> string list \<Rightarrow> string sent" where
  "pki_public_crl_pem env cl mount =
     pki_public_get env cl mount [''crl'', ''pem''] ''application/x-pem-file''"

definition pki_public_delta_crl_der ::
  "http_env \<Rightarrow> client \<Rightarrow> string list \<Rightarrow> string sent" where
  "pki_public_delta_crl_der env cl mount =
     pki_public_get env cl mount [''crl'', ''delta''] ''application/pkix-crl''"

definition pki_public_delta_crl_pem ::
  "http_env \<Rightarrow> client \<Rightarrow> string list \<Rightarrow> string sent" where
  "pki_public_delta_crl_pem env cl mount =
     pki_public_get env cl mount [''crl'', ''delta'', ''pem''] ''application/x-pem-file''"

definition pki_public_legacy_crl_der ::
  "http_env \<Rightarrow> client \<Rightarrow> string list \<Rightarrow> string sent" where
  "pki_public_legacy_crl_der env cl mount =
     pki_public_get env cl mount [''cert'', ''crl''] ''application/pkix-crl''"

definition pki_public_legacy_delta_crl_der ::
  "http_env \<Rightarrow> client \<Rightarrow> string list \<Rightarrow> string sent" where
  "pki_public_legacy_delta_crl_der env cl mount =
     pki_public_get env cl mount [''cert'', ''delta-crl''] ''application/pkix-crl''"

definition pki_public_certificate_der ::
  "http_env \<Rightarrow> client \<Rightarrow> string list \<Rightarrow> string \<Rightarrow>
   string sent" where
  "pki_public_certificate_der env cl mount serial =
     pki_public_get env cl mount [''cert'', serial, ''raw''] ''application/pkix-cert''"

definition pki_public_certificate_pem ::
  "http_env \<Rightarrow> client \<Rightarrow> string list \<Rightarrow> string \<Rightarrow>
   string sent" where
  "pki_public_certificate_pem env cl mount serial =
     pki_public_get env cl mount [''cert'', serial, ''raw'', ''pem'']
       ''application/x-pem-file''"

datatype pki_public_format =
    PkiPublicFormat_Der | PkiPublicFormat_Pem | PkiPublicFormat_Json

definition pki_public_issuer_certificate ::
  "http_env \<Rightarrow> client \<Rightarrow> string list \<Rightarrow> string \<Rightarrow>
   pki_public_format \<Rightarrow> string sent" where
  "pki_public_issuer_certificate env cl mount issuer_ref fmt =
     (case (case fmt of
           PkiPublicFormat_Der \<Rightarrow> (''der'', ''application/pkix-cert'')
         | PkiPublicFormat_Pem \<Rightarrow> (''pem'', ''application/x-pem-file'')
         | PkiPublicFormat_Json \<Rightarrow> (''json'', ''application/json'')) of (suf,
           accept) \<Rightarrow>
        pki_public_get env cl mount [''issuer'', issuer_ref, suf] accept)"

definition pki_public_issuer_crl ::
  "http_env \<Rightarrow> client \<Rightarrow> string list \<Rightarrow> string \<Rightarrow>
   bool \<Rightarrow> pki_public_format \<Rightarrow> string sent" where
  "pki_public_issuer_crl env cl mount issuer_ref delta fmt =
     (case (case fmt of
           PkiPublicFormat_Der \<Rightarrow> (Some ''der'', ''application/pkix-crl'')
         | PkiPublicFormat_Pem \<Rightarrow> (Some ''pem'', ''application/x-pem-file'')
         | PkiPublicFormat_Json \<Rightarrow> (None, ''application/json'')) of (suf, accept)
           \<Rightarrow>
        let tail = [''issuer'', issuer_ref, ''crl''] in
        let tail = (if delta then tail @ [''delta'']
           else tail) in
        let tail = (case suf of
           None \<Rightarrow> tail
         | Some suf \<Rightarrow> tail @ [suf]) in
        pki_public_get env cl mount tail accept)"

definition pki_public_ocsp_post ::
  "http_env \<Rightarrow> client \<Rightarrow> string list \<Rightarrow> string \<Rightarrow>
   string sent" where
  "pki_public_ocsp_post env cl mount request_der =
     (if request_der = [] then pure (Inl (InvalidParameter ''OCSP request must not be empty''))
        else sbind (pure (pki_public_path mount [''ocsp''])) (\<lambda>p.
        pki_public_bytes env cl mount ''POST'' p [(''content-type'', from_static
          ''application/ocsp-request''), (''accept'', from_static
          ''application/ocsp-response'')] (Some request_der)))"

definition pki_public_ocsp_get_encoded ::
  "http_env \<Rightarrow> client \<Rightarrow> string list \<Rightarrow> string \<Rightarrow>
   string sent" where
  "pki_public_ocsp_get_encoded env cl mount encoded_request =
     (if encoded_request = [] \<or> (\<not> (list_all (\<lambda>byte_v. is_ascii_alphanumeric
       byte_v \<or> (byte_v = CHR ''-'' \<or> byte_v = CHR ''_'')) encoded_request)) then pure
       (Inl (InvalidParameter ''encoded OCSP request must be unpadded URL-safe base64''))
        else sbind (pure (pki_public_path mount [''ocsp'', encoded_request])) (\<lambda>p.
        pki_public_bytes env cl mount ''GET'' p [(''accept'', from_static
          ''application/ocsp-response'')] None))"

record pki_acme_eab_token =
  pki_acme_eab_token_created_on :: "string option"
  pki_acme_eab_token_id :: string
  pki_acme_eab_token_key_type :: "string option"
  pki_acme_eab_token_acme_directory :: "string option"
  pki_acme_eab_token_key :: string

record pki_acme_client_config =
  pki_acme_client_config_directory_url :: url
  pki_acme_client_config_external_account_binding :: "pki_acme_eab_token option"

datatype pki_acme_scope =
    PkiAcmeScope_Default | PkiAcmeScope_Issuer string | PkiAcmeScope_Role string
  | PkiAcmeScope_IssuerRole string string

definition pki_public_acme_client_config ::
  "http_env \<Rightarrow> client \<Rightarrow> string list \<Rightarrow>
   pki_acme_scope \<Rightarrow> pki_acme_eab_token option \<Rightarrow>
   pki_acme_client_config res" where
  "pki_public_acme_client_config env cl mount scope external_account_binding =
     rbind (case scope of
        PkiAcmeScope_Default \<Rightarrow> pki_public_path mount [''acme'', ''directory'']
      | PkiAcmeScope_Issuer issuer_ref \<Rightarrow> pki_public_path mount [''issuer'',
        issuer_ref, ''acme'', ''directory'']
      | PkiAcmeScope_Role role \<Rightarrow> pki_public_path mount [''roles'', role, ''acme'',
        ''directory'']
      | PkiAcmeScope_IssuerRole issuer_ref role \<Rightarrow> pki_public_path mount
        [''issuer'', issuer_ref, ''roles'', role, ''acme'', ''directory'']) (\<lambda>path.
     rbind (url_for_path env cl path) (\<lambda>p.
     Inr \<lparr>pki_acme_client_config_directory_url = p,
       pki_acme_client_config_external_account_binding = external_account_binding\<rparr>))"

definition pki_validate_authority_request_fields ::
  "http_env \<Rightarrow> client \<Rightarrow> string list \<Rightarrow> bool \<Rightarrow>
   unit sent" where
  "pki_validate_authority_request_fields env cl mount not_before_is_set =
     pure (client_validate_fields env [(PKI_AUTHORITY_NOT_BEFORE, not_before_is_set)])"

record pki_role =
  pki_role_issuer_ref :: "string option"
  pki_role_allowed_domains :: "string list"
  pki_role_allowed_domains_template :: "bool option"
  pki_role_allow_bare_domains :: "bool option"
  pki_role_allow_subdomains :: "bool option"
  pki_role_allow_glob_domains :: "bool option"
  pki_role_allow_any_name :: "bool option"
  pki_role_enforce_hostnames :: "bool option"
  pki_role_allow_ip_sans :: "bool option"
  pki_role_allowed_ip_sans_cidr :: "string list"
  pki_role_allowed_uri_sans :: "string list"
  pki_role_allowed_uri_sans_template :: "bool option"
  pki_role_allowed_other_sans :: "string list"
  pki_role_allowed_serial_numbers :: "string list"
  pki_role_allow_localhost :: "bool option"
  pki_role_allow_wildcard_certificates :: "bool option"
  pki_role_key_usage :: "string list"
  pki_role_ext_key_usage :: "string list"
  pki_role_ext_key_usage_oids :: "string list"
  pki_role_server_flag :: "bool option"
  pki_role_client_flag :: "bool option"
  pki_role_code_signing_flag :: "bool option"
  pki_role_email_protection_flag :: "bool option"
  pki_role_key_type :: "string option"
  pki_role_key_bits :: "64 word option"
  pki_role_ttl :: "string option"
  pki_role_max_ttl :: "string option"
  pki_role_not_before_duration :: "string option"
  pki_role_not_before_bound :: "string option"
  pki_role_not_before :: "string option"
  pki_role_not_after_bound :: "string option"
  pki_role_not_after :: "string option"
  pki_role_key_usage_critical :: "bool option"
  pki_role_basic_constraints_valid_for_non_ca :: "bool option"
  pki_role_no_store :: "bool option"
  pki_role_generate_lease :: "bool option"
  pki_role_require_cn :: "bool option"
  pki_role_policy_identifiers :: "string list"
  pki_role_cn_validations :: "string list"
  pki_role_allowed_user_ids :: "string list"
  pki_role_ou :: "string list"
  pki_role_organization :: "string list"
  pki_role_country :: "string list"
  pki_role_locality :: "string list"
  pki_role_province :: "string list"
  pki_role_street_address :: "string list"
  pki_role_postal_code :: "string list"
  pki_role_use_csr_common_name :: "bool option"
  pki_role_use_csr_sans :: "bool option"

definition pki_selects_mldsa ::
  "string option \<Rightarrow> 64 word option \<Rightarrow> bool res" where
  "pki_selects_mldsa key_type key_bits =
     (if \<not> (is_some_and (\<lambda>val_v. eq_ignore_ascii_case val_v ''mldsa'') key_type)
       then Inr False
        else (if \<not> (key_bits = None \<or> is_some_and (\<lambda>x. x = 0 \<or> x = 44
          \<or> x = 65 \<or> x = 87) key_bits) then Inl (InvalidParameter
          ''PKI ML-DSA key_bits must be 0, 44, 65 or 87'')
           else Inr True))"

definition pki_validate_pki_key_algorithm ::
  "http_env \<Rightarrow> client \<Rightarrow> string list \<Rightarrow>
   string option \<Rightarrow> 64 word option \<Rightarrow> unit sent" where
  "pki_validate_pki_key_algorithm env cl mount key_type key_bits =
     (let MLDSA = field_since ''pki.key'' ''key_type=mldsa'' (OpenBaoVersion 2 7 0) in
     sbind (pure (pki_selects_mldsa key_type key_bits)) (\<lambda>v.
     (if \<not> v then pure (Inr ())
        else pure (client_validate_fields env [(MLDSA, True)]))))"

definition pki_validate_role_request_fields ::
  "http_env \<Rightarrow> client \<Rightarrow> string list \<Rightarrow>
   pki_role \<Rightarrow> unit sent" where
  "pki_validate_role_request_fields env cl mount role =
     sbind (pki_validate_pki_key_algorithm env cl mount (pki_role_key_type role)
       (pki_role_key_bits role)) (\<lambda>_.
     pure (client_validate_fields env [(PKI_ROLE_NOT_BEFORE, pki_role_not_before role \<noteq>
       None), (PKI_ROLE_NOT_BEFORE_BOUND, pki_role_not_before_bound role \<noteq> None),
       (PKI_ROLE_NOT_AFTER_BOUND, pki_role_not_after_bound role \<noteq> None),
       (PKI_ROLE_ALLOWED_IP_SANS_CIDR, \<not> (pki_role_allowed_ip_sans_cidr role = []))]))"

definition pki_validate_sign_verbatim_request_fields ::
  "http_env \<Rightarrow> client \<Rightarrow> string list \<Rightarrow>
   pki_sign_verbatim_request \<Rightarrow> unit sent" where
  "pki_validate_sign_verbatim_request_fields env cl mount request =
     pure (client_validate_fields env [(PKI_SIGN_VERBATIM_NOT_BEFORE,
       pki_sign_verbatim_request_not_before request \<noteq> None)])"

record pki_generate_root_request =
  pki_generate_root_request_common_name :: string
  pki_generate_root_request_issuer_name :: "string option"
  pki_generate_root_request_key_name :: "string option"
  pki_generate_root_request_ttl :: "string option"
  pki_generate_root_request_alt_names :: "string list"
  pki_generate_root_request_ip_sans :: "string list"
  pki_generate_root_request_uri_sans :: "string list"
  pki_generate_root_request_other_sans :: "string list"
  pki_generate_root_request_format :: "string option"
  pki_generate_root_request_private_key_format :: "string option"
  pki_generate_root_request_key_type :: "string option"
  pki_generate_root_request_key_bits :: "64 word option"
  pki_generate_root_request_key_ref :: "string option"
  pki_generate_root_request_exclude_cn_from_sans :: "bool option"
  pki_generate_root_request_max_path_length :: "int option"
  pki_generate_root_request_permitted_dns_domains :: "string list"
  pki_generate_root_request_ou :: "string list"
  pki_generate_root_request_organization :: "string list"
  pki_generate_root_request_country :: "string list"
  pki_generate_root_request_locality :: "string list"
  pki_generate_root_request_province :: "string list"
  pki_generate_root_request_street_address :: "string list"
  pki_generate_root_request_postal_code :: "string list"
  pki_generate_root_request_serial_number :: "string option"
  pki_generate_root_request_not_before_duration :: "string option"
  pki_generate_root_request_not_before :: "string option"
  pki_generate_root_request_not_after :: "string option"
  pki_generate_root_request_key_usage :: "string list"
  pki_generate_root_request_ext_key_usage :: "string list"
  pki_generate_root_request_ext_key_usage_oids :: "string list"
  pki_generate_root_request_add_basic_constraints :: "bool option"
  pki_generate_root_request_revocation_signature_algorithm :: "string option"
  pki_generate_root_request_enable_aia_url_templating :: "bool option"

definition pki_request ::
  "http_env \<Rightarrow> client \<Rightarrow> (string \<Rightarrow> 'a option) \<Rightarrow>
   string list \<Rightarrow> string \<Rightarrow> string \<Rightarrow>
   payload option \<Rightarrow> 'a sent" where
  "pki_request env cl from_json mount verb path body_v =
     (let mount = join_with ''/'' mount in
     request_secret_json_internal env cl from_json ''/pki/'' ''pki'' mount verb path body_v)"

definition pki_enveloped ::
  "http_env \<Rightarrow> client \<Rightarrow>
   (string \<Rightarrow> 'a response_envelope option) \<Rightarrow> string list \<Rightarrow>
   string \<Rightarrow> string \<Rightarrow> payload option \<Rightarrow> 'a sent" where
  "pki_enveloped env cl from_json mount verb path request =
     smap env_data (pki_request env cl from_json mount verb path request)"

definition pki_path :: "string list \<Rightarrow> string list \<Rightarrow> string res" where
  "pki_path mount tail =
     (let segments = mount in
     rbind (rfold (\<lambda>segment segments. rbind (validate_endpoint_path segment)
       (\<lambda>p.
     let segments = segments @ p in
     Inr segments)) tail segments) (\<lambda>segments.
     Inr (join_with ''/'' segments)))"

definition pki_generate_root ::
  "http_env \<Rightarrow> client \<Rightarrow>
   (string \<Rightarrow> 'a response_envelope option) \<Rightarrow>
   (pki_generate_root_request \<Rightarrow> payload) \<Rightarrow> string list \<Rightarrow>
   pki_key_generation_type \<Rightarrow> pki_generate_root_request \<Rightarrow> 'a sent" where
  "pki_generate_root env cl from_json to_json mount generation_type request =
     sbind (pure (pki_validate_private_key_output_format (pki_generate_root_request_format
       request) (generation_type = PkiKeyGenerationType_Exported))) (\<lambda>_.
     sbind (pki_validate_pki_key_algorithm env cl mount (pki_generate_root_request_key_type
       request) (pki_generate_root_request_key_bits request)) (\<lambda>_.
     sbind (pki_validate_authority_request_fields env cl mount
       (pki_generate_root_request_not_before request \<noteq> None)) (\<lambda>_.
     sbind (pure (pki_path mount [''root'', ''generate'',
       pki_key_generation_type_as_path_segment generation_type])) (\<lambda>p.
     pki_enveloped env cl from_json mount ''POST'' p (Some (to_json request))))))"

definition pki_generate_issuer_root ::
  "http_env \<Rightarrow> client \<Rightarrow>
   (string \<Rightarrow> 'a response_envelope option) \<Rightarrow>
   (pki_generate_root_request \<Rightarrow> payload) \<Rightarrow> string list \<Rightarrow>
   pki_key_generation_type \<Rightarrow> pki_generate_root_request \<Rightarrow> 'a sent" where
  "pki_generate_issuer_root env cl from_json to_json mount generation_type request =
     sbind (pure (pki_validate_private_key_output_format (pki_generate_root_request_format
       request) (generation_type = PkiKeyGenerationType_Exported))) (\<lambda>_.
     sbind (pki_validate_pki_key_algorithm env cl mount (pki_generate_root_request_key_type
       request) (pki_generate_root_request_key_bits request)) (\<lambda>_.
     sbind (pki_validate_authority_request_fields env cl mount
       (pki_generate_root_request_not_before request \<noteq> None)) (\<lambda>_.
     sbind (pure (pki_path mount [''issuers'', ''generate'', ''root'',
       pki_key_generation_type_as_path_segment generation_type])) (\<lambda>p.
     pki_enveloped env cl from_json mount ''POST'' p (Some (to_json request))))))"

definition pki_rotate_root ::
  "http_env \<Rightarrow> client \<Rightarrow>
   (string \<Rightarrow> 'a response_envelope option) \<Rightarrow>
   (pki_generate_root_request \<Rightarrow> payload) \<Rightarrow> string list \<Rightarrow>
   pki_key_generation_type \<Rightarrow> pki_generate_root_request \<Rightarrow> 'a sent" where
  "pki_rotate_root env cl from_json to_json mount generation_type request =
     sbind (pure (pki_validate_private_key_output_format (pki_generate_root_request_format
       request) (generation_type = PkiKeyGenerationType_Exported))) (\<lambda>_.
     sbind (pki_validate_pki_key_algorithm env cl mount (pki_generate_root_request_key_type
       request) (pki_generate_root_request_key_bits request)) (\<lambda>_.
     sbind (pki_validate_authority_request_fields env cl mount
       (pki_generate_root_request_not_before request \<noteq> None)) (\<lambda>_.
     sbind (pure (pki_path mount [''root'', ''rotate'', pki_key_generation_type_as_path_segment
       generation_type])) (\<lambda>p.
     pki_enveloped env cl from_json mount ''POST'' p (Some (to_json request))))))"

record pki_issuers_config =
  pki_issuers_config_default :: "string option"
  pki_issuers_config_default_follows_latest_issuer :: "bool option"

definition pki_replace_root ::
  "http_env \<Rightarrow> client \<Rightarrow>
   (string \<Rightarrow> 'a response_envelope option) \<Rightarrow>
   (pki_issuers_config \<Rightarrow> payload) \<Rightarrow> string list \<Rightarrow>
   pki_issuers_config \<Rightarrow> 'a sent" where
  "pki_replace_root env cl from_json to_json mount config =
     sbind (pure (pki_path mount [''root'', ''replace''])) (\<lambda>p.
     pki_enveloped env cl from_json mount ''POST'' p (Some (to_json config)))"

record pki_generate_key_request =
  pki_generate_key_request_key_name :: "string option"
  pki_generate_key_request_key_type :: "string option"
  pki_generate_key_request_key_bits :: "64 word option"

definition pki_generate_key ::
  "http_env \<Rightarrow> client \<Rightarrow>
   (string \<Rightarrow> 'a response_envelope option) \<Rightarrow>
   (pki_generate_key_request \<Rightarrow> payload) \<Rightarrow> string list \<Rightarrow>
   pki_key_generation_type \<Rightarrow> pki_generate_key_request \<Rightarrow> 'a sent" where
  "pki_generate_key env cl from_json to_json mount generation_type request =
     sbind (pki_validate_pki_key_algorithm env cl mount (pki_generate_key_request_key_type
       request) (pki_generate_key_request_key_bits request)) (\<lambda>_.
     sbind (pure (pki_path mount [''keys'', ''generate'',
       pki_key_generation_type_as_path_segment generation_type])) (\<lambda>p.
     pki_enveloped env cl from_json mount ''POST'' p (Some (to_json request))))"

definition pki_request_accepting ::
  "http_env \<Rightarrow> client \<Rightarrow> (string \<Rightarrow> 'a option) \<Rightarrow>
   string list \<Rightarrow> string \<Rightarrow> string \<Rightarrow>
   payload option \<Rightarrow> nat list \<Rightarrow> 'a sent" where
  "pki_request_accepting env cl from_json mount verb path body_v accepted_statuses =
     (let mount = join_with ''/'' mount in
     request_secret_json_accepting env cl from_json ''/pki/'' ''pki'' mount verb path body_v
       accepted_statuses)"

definition pki_delete_root ::
  "http_env \<Rightarrow> client \<Rightarrow>
   (string \<Rightarrow> unit option) \<Rightarrow> string list \<Rightarrow>
   unit \<Rightarrow> unit sent" where
  "pki_delete_root env cl from_json mount confirmation =
     sbind (pure (pki_path mount [''root''])) (\<lambda>p.
     pki_request_accepting env cl from_json mount ''DELETE'' p None [200, 204])"

record pki_generate_intermediate_request =
  pki_generate_intermediate_request_common_name :: string
  pki_generate_intermediate_request_issuer_name :: "string option"
  pki_generate_intermediate_request_key_name :: "string option"
  pki_generate_intermediate_request_alt_names :: "string list"
  pki_generate_intermediate_request_ip_sans :: "string list"
  pki_generate_intermediate_request_uri_sans :: "string list"
  pki_generate_intermediate_request_other_sans :: "string list"
  pki_generate_intermediate_request_format :: "string option"
  pki_generate_intermediate_request_private_key_format :: "string option"
  pki_generate_intermediate_request_key_type :: "string option"
  pki_generate_intermediate_request_key_bits :: "64 word option"
  pki_generate_intermediate_request_key_ref :: "string option"
  pki_generate_intermediate_request_permitted_dns_domains :: "string list"
  pki_generate_intermediate_request_ou :: "string list"
  pki_generate_intermediate_request_organization :: "string list"
  pki_generate_intermediate_request_country :: "string list"
  pki_generate_intermediate_request_locality :: "string list"
  pki_generate_intermediate_request_province :: "string list"
  pki_generate_intermediate_request_street_address :: "string list"
  pki_generate_intermediate_request_postal_code :: "string list"
  pki_generate_intermediate_request_serial_number :: "string option"
  pki_generate_intermediate_request_not_before_duration :: "string option"
  pki_generate_intermediate_request_not_before :: "string option"
  pki_generate_intermediate_request_not_after :: "string option"
  pki_generate_intermediate_request_key_usage :: "string list"
  pki_generate_intermediate_request_ext_key_usage :: "string list"
  pki_generate_intermediate_request_ext_key_usage_oids :: "string list"
  pki_generate_intermediate_request_add_basic_constraints :: "bool option"
  pki_generate_intermediate_request_revocation_signature_algorithm :: "string option"
  pki_generate_intermediate_request_enable_aia_url_templating :: "bool option"

definition pki_generate_intermediate ::
  "http_env \<Rightarrow> client \<Rightarrow>
   (string \<Rightarrow> 'a response_envelope option) \<Rightarrow>
   (pki_generate_intermediate_request \<Rightarrow> payload) \<Rightarrow>
   string list \<Rightarrow> pki_key_generation_type \<Rightarrow>
   pki_generate_intermediate_request \<Rightarrow> 'a sent" where
  "pki_generate_intermediate env cl from_json to_json mount generation_type request =
     sbind (pure (pki_validate_private_key_output_format
       (pki_generate_intermediate_request_format request) (generation_type =
       PkiKeyGenerationType_Exported))) (\<lambda>_.
     sbind (pki_validate_pki_key_algorithm env cl mount
       (pki_generate_intermediate_request_key_type request)
       (pki_generate_intermediate_request_key_bits request)) (\<lambda>_.
     sbind (pki_validate_authority_request_fields env cl mount
       (pki_generate_intermediate_request_not_before request \<noteq> None)) (\<lambda>_.
     sbind (pure (pki_path mount [''intermediate'', ''generate'',
       pki_key_generation_type_as_path_segment generation_type])) (\<lambda>p.
     pki_enveloped env cl from_json mount ''POST'' p (Some (to_json request))))))"

definition pki_generate_issuer_intermediate ::
  "http_env \<Rightarrow> client \<Rightarrow>
   (string \<Rightarrow> 'a response_envelope option) \<Rightarrow>
   (pki_generate_intermediate_request \<Rightarrow> payload) \<Rightarrow>
   string list \<Rightarrow> pki_key_generation_type \<Rightarrow>
   pki_generate_intermediate_request \<Rightarrow> 'a sent" where
  "pki_generate_issuer_intermediate env cl from_json to_json mount generation_type request =
     sbind (pure (pki_validate_private_key_output_format
       (pki_generate_intermediate_request_format request) (generation_type =
       PkiKeyGenerationType_Exported))) (\<lambda>_.
     sbind (pki_validate_pki_key_algorithm env cl mount
       (pki_generate_intermediate_request_key_type request)
       (pki_generate_intermediate_request_key_bits request)) (\<lambda>_.
     sbind (pki_validate_authority_request_fields env cl mount
       (pki_generate_intermediate_request_not_before request \<noteq> None)) (\<lambda>_.
     sbind (pure (pki_path mount [''issuers'', ''generate'', ''intermediate'',
       pki_key_generation_type_as_path_segment generation_type])) (\<lambda>p.
     pki_enveloped env cl from_json mount ''POST'' p (Some (to_json request))))))"

record pki_sign_intermediate_request =
  pki_sign_intermediate_request_csr :: string
  pki_sign_intermediate_request_common_name :: "string option"
  pki_sign_intermediate_request_issuer_ref :: "string option"
  pki_sign_intermediate_request_issuer_name :: "string option"
  pki_sign_intermediate_request_ttl :: "string option"
  pki_sign_intermediate_request_format :: "string option"
  pki_sign_intermediate_request_use_csr_values :: "bool option"
  pki_sign_intermediate_request_max_path_length :: "int option"
  pki_sign_intermediate_request_permitted_dns_domains :: "string list"

definition pki_sign_intermediate ::
  "http_env \<Rightarrow> client \<Rightarrow>
   (string \<Rightarrow> 'a response_envelope option) \<Rightarrow>
   (pki_sign_intermediate_request \<Rightarrow> payload) \<Rightarrow>
   string list \<Rightarrow> pki_sign_intermediate_request \<Rightarrow> 'a sent" where
  "pki_sign_intermediate env cl from_json to_json mount request =
     sbind (pure (pki_path mount [''root'', ''sign-intermediate''])) (\<lambda>p.
     pki_enveloped env cl from_json mount ''POST'' p (Some (to_json request)))"

definition pki_sign_intermediate_with_issuer ::
  "http_env \<Rightarrow> client \<Rightarrow>
   (string \<Rightarrow> 'a response_envelope option) \<Rightarrow>
   (pki_sign_intermediate_request \<Rightarrow> payload) \<Rightarrow>
   string list \<Rightarrow> string \<Rightarrow> pki_sign_intermediate_request \<Rightarrow>
   'a sent" where
  "pki_sign_intermediate_with_issuer env cl from_json to_json mount issuer_ref request =
     sbind (pure (pki_path mount [''issuer'', issuer_ref, ''sign-intermediate''])) (\<lambda>p.
     pki_enveloped env cl from_json mount ''POST'' p (Some (to_json request)))"

record pki_sign_self_issued_request =
  pki_sign_self_issued_request_certificate :: string
  pki_sign_self_issued_request_issuer_name :: "string option"

definition pki_sign_self_issued ::
  "http_env \<Rightarrow> client \<Rightarrow>
   (string \<Rightarrow> 'a response_envelope option) \<Rightarrow>
   (pki_sign_self_issued_request \<Rightarrow> payload) \<Rightarrow>
   string list \<Rightarrow> pki_sign_self_issued_request \<Rightarrow> 'a sent" where
  "pki_sign_self_issued env cl from_json to_json mount request =
     sbind (pure (pki_path mount [''root'', ''sign-self-issued''])) (\<lambda>p.
     pki_enveloped env cl from_json mount ''POST'' p (Some (to_json request)))"

definition pki_sign_self_issued_with_issuer ::
  "http_env \<Rightarrow> client \<Rightarrow>
   (string \<Rightarrow> 'a response_envelope option) \<Rightarrow>
   (pki_sign_self_issued_request \<Rightarrow> payload) \<Rightarrow>
   string list \<Rightarrow> string \<Rightarrow> pki_sign_self_issued_request \<Rightarrow>
   'a sent" where
  "pki_sign_self_issued_with_issuer env cl from_json to_json mount issuer_ref request =
     sbind (pure (pki_path mount [''issuer'', issuer_ref, ''sign-self-issued''])) (\<lambda>p.
     pki_enveloped env cl from_json mount ''POST'' p (Some (to_json request)))"

definition pki_cross_sign_intermediate ::
  "http_env \<Rightarrow> client \<Rightarrow>
   (string \<Rightarrow> 'a response_envelope option) \<Rightarrow>
   (pki_sign_intermediate_request \<Rightarrow> payload) \<Rightarrow>
   string list \<Rightarrow> pki_sign_intermediate_request \<Rightarrow> 'a sent" where
  "pki_cross_sign_intermediate env cl from_json to_json mount request =
     sbind (pure (pki_path mount [''intermediate'', ''cross-sign''])) (\<lambda>p.
     pki_enveloped env cl from_json mount ''POST'' p (Some (to_json request)))"

record pki_set_signed_intermediate_request =
  pki_set_signed_intermediate_request_certificate :: string

definition pki_set_signed_intermediate ::
  "http_env \<Rightarrow> client \<Rightarrow>
   (string \<Rightarrow> unit option) \<Rightarrow>
   (pki_set_signed_intermediate_request \<Rightarrow> payload) \<Rightarrow>
   string list \<Rightarrow> pki_set_signed_intermediate_request \<Rightarrow> unit sent" where
  "pki_set_signed_intermediate env cl from_json to_json mount request =
     sbind (pure (pki_path mount [''intermediate'', ''set-signed''])) (\<lambda>p.
     pki_request env cl from_json mount ''POST'' p (Some (to_json request)))"

definition pki_write_role ::
  "http_env \<Rightarrow> client \<Rightarrow>
   (string \<Rightarrow> unit option) \<Rightarrow>
   (pki_role \<Rightarrow> payload) \<Rightarrow> string list \<Rightarrow>
   string \<Rightarrow> pki_role \<Rightarrow> unit sent" where
  "pki_write_role env cl from_json to_json mount name role =
     sbind (pki_validate_role_request_fields env cl mount role) (\<lambda>_.
     sbind (pure (pki_path mount [''roles'', name])) (\<lambda>p.
     pki_request env cl from_json mount ''POST'' p (Some (to_json role))))"

record pki_role_with_identity_template_globs =
  pki_role_with_identity_template_globs_role :: pki_role
  pki_role_with_identity_template_globs_allow_globs_in_identity_templates :: bool

definition pki_write_role_with_identity_template_globs ::
  "http_env \<Rightarrow> client \<Rightarrow>
   (string \<Rightarrow> unit option) \<Rightarrow>
   (pki_role_with_identity_template_globs \<Rightarrow> payload) \<Rightarrow>
   string list \<Rightarrow> string \<Rightarrow> pki_role \<Rightarrow> unit \<Rightarrow>
   unit sent" where
  "pki_write_role_with_identity_template_globs env cl from_json to_json mount name role
    acknowledgment =
     sbind (pki_validate_role_request_fields env cl mount role) (\<lambda>_.
     sbind (pure (client_validate_fields env [(PKI_ROLE_ALLOW_TEMPLATE_GLOBS, True)]))
       (\<lambda>_.
     let payload = \<lparr>pki_role_with_identity_template_globs_role = role,
       pki_role_with_identity_template_globs_allow_globs_in_identity_templates = True\<rparr>
       in
     sbind (pure (pki_path mount [''roles'', name])) (\<lambda>p.
     pki_request env cl from_json mount ''POST'' p (Some (to_json payload)))))"

definition pki_request_query_headers ::
  "http_env \<Rightarrow> client \<Rightarrow> (string \<Rightarrow> 'a option) \<Rightarrow>
   string list \<Rightarrow> string \<Rightarrow> string \<Rightarrow>
   (string \<times> string) list \<Rightarrow> header_list \<Rightarrow>
   payload option \<Rightarrow> nat list \<Rightarrow> 'a sent" where
  "pki_request_query_headers env cl from_json mount verb path query headers body_v
    accepted_statuses =
     (let mount = join_with ''/'' mount in
     request_secret_json_query_headers_accepting env cl from_json ''/pki/'' ''pki'' mount verb
       path query headers body_v accepted_statuses)"

definition pki_enveloped_with_headers ::
  "http_env \<Rightarrow> client \<Rightarrow>
   (string \<Rightarrow> 'a response_envelope option) \<Rightarrow> string list \<Rightarrow>
   string \<Rightarrow> string \<Rightarrow> header_list \<Rightarrow>
   payload option \<Rightarrow> 'a sent" where
  "pki_enveloped_with_headers env cl from_json mount verb path headers request =
     smap env_data (pki_request_query_headers env cl from_json mount verb path [] headers
       request [200])"

definition pki_patch_role_with_identity_template_globs ::
  "http_env \<Rightarrow> client \<Rightarrow>
   (string \<Rightarrow> 'a response_envelope option) \<Rightarrow>
   (pki_role_with_identity_template_globs \<Rightarrow> payload) \<Rightarrow>
   string list \<Rightarrow> string \<Rightarrow> pki_role \<Rightarrow> unit \<Rightarrow>
   'a sent" where
  "pki_patch_role_with_identity_template_globs env cl from_json to_json mount name patch_v
    acknowledgment =
     sbind (pki_validate_role_request_fields env cl mount patch_v) (\<lambda>_.
     sbind (pure (client_validate_fields env [(PKI_ROLE_ALLOW_TEMPLATE_GLOBS, True)]))
       (\<lambda>_.
     let payload = \<lparr>pki_role_with_identity_template_globs_role = patch_v,
       pki_role_with_identity_template_globs_allow_globs_in_identity_templates = True\<rparr>
       in
     sbind (pure (pki_path mount [''roles'', name])) (\<lambda>p.
     pki_enveloped_with_headers env cl from_json mount ''PATCH'' p merge_patch (Some (to_json
       payload)))))"

definition pki_patch_role ::
  "http_env \<Rightarrow> client \<Rightarrow>
   (string \<Rightarrow> 'a response_envelope option) \<Rightarrow>
   (pki_role \<Rightarrow> payload) \<Rightarrow> string list \<Rightarrow>
   string \<Rightarrow> pki_role \<Rightarrow> 'a sent" where
  "pki_patch_role env cl from_json to_json mount name patch_v =
     sbind (pki_validate_role_request_fields env cl mount patch_v) (\<lambda>_.
     sbind (pure (pki_path mount [''roles'', name])) (\<lambda>p.
     pki_enveloped_with_headers env cl from_json mount ''PATCH'' p merge_patch (Some (to_json
       patch_v))))"

definition pki_read_role ::
  "http_env \<Rightarrow> client \<Rightarrow>
   (string \<Rightarrow> 'a response_envelope option) \<Rightarrow> string list \<Rightarrow>
   string \<Rightarrow> 'a sent" where
  "pki_read_role env cl from_json mount name =
     sbind (pure (pki_path mount [''roles'', name])) (\<lambda>p.
     pki_enveloped env cl from_json mount ''GET'' p None)"

definition pki_read_role_details ::
  "http_env \<Rightarrow> client \<Rightarrow>
   (string \<Rightarrow> 'a response_envelope option) \<Rightarrow> string list \<Rightarrow>
   string \<Rightarrow> 'a sent" where
  "pki_read_role_details env cl from_json mount name =
     sbind (pure (pki_path mount [''roles'', name])) (\<lambda>p.
     pki_enveloped env cl from_json mount ''GET'' p None)"

definition pki_list_roles ::
  "http_env \<Rightarrow> client \<Rightarrow>
   (string \<Rightarrow> 'a response_envelope option) \<Rightarrow> string list \<Rightarrow>
   'a sent" where
  "pki_list_roles env cl from_json mount =
     sbind (pure (pki_path mount [''roles''])) (\<lambda>p.
     pki_enveloped env cl from_json mount ''LIST'' p None)"

definition pki_delete_role ::
  "http_env \<Rightarrow> client \<Rightarrow>
   (string \<Rightarrow> unit option) \<Rightarrow> string list \<Rightarrow>
   string \<Rightarrow> unit sent" where
  "pki_delete_role env cl from_json mount name =
     sbind (pure (pki_path mount [''roles'', name])) (\<lambda>p.
     pki_request_accepting env cl from_json mount ''DELETE'' p None [200, 204])"

definition pki_read_urls ::
  "http_env \<Rightarrow> client \<Rightarrow>
   (string \<Rightarrow> 'a response_envelope option) \<Rightarrow> string list \<Rightarrow>
   'a sent" where
  "pki_read_urls env cl from_json mount =
     sbind (pure (pki_path mount [''config'', ''urls''])) (\<lambda>p.
     pki_enveloped env cl from_json mount ''GET'' p None)"

record pki_urls_config =
  pki_urls_config_issuing_certificates :: "string list"
  pki_urls_config_crl_distribution_points :: "string list"
  pki_urls_config_ocsp_servers :: "string list"
  pki_urls_config_delta_crl_distribution_points :: "string list"
  pki_urls_config_enable_templating :: "bool option"
  pki_urls_config_enable_aia_url_templating :: "bool option"

definition pki_write_urls ::
  "http_env \<Rightarrow> client \<Rightarrow>
   (string \<Rightarrow> unit option) \<Rightarrow>
   (pki_urls_config \<Rightarrow> payload) \<Rightarrow> string list \<Rightarrow>
   pki_urls_config \<Rightarrow> unit sent" where
  "pki_write_urls env cl from_json to_json mount config =
     sbind (pure (pki_path mount [''config'', ''urls''])) (\<lambda>p.
     pki_request env cl from_json mount ''POST'' p (Some (to_json config)))"

definition pki_read_issuers_config ::
  "http_env \<Rightarrow> client \<Rightarrow>
   (string \<Rightarrow> 'a response_envelope option) \<Rightarrow> string list \<Rightarrow>
   'a sent" where
  "pki_read_issuers_config env cl from_json mount =
     sbind (pure (pki_path mount [''config'', ''issuers''])) (\<lambda>p.
     pki_enveloped env cl from_json mount ''GET'' p None)"

definition pki_write_issuers_config ::
  "http_env \<Rightarrow> client \<Rightarrow>
   (string \<Rightarrow> unit option) \<Rightarrow>
   (pki_issuers_config \<Rightarrow> payload) \<Rightarrow> string list \<Rightarrow>
   pki_issuers_config \<Rightarrow> unit sent" where
  "pki_write_issuers_config env cl from_json to_json mount config =
     sbind (pure (pki_path mount [''config'', ''issuers''])) (\<lambda>p.
     pki_request env cl from_json mount ''POST'' p (Some (to_json config)))"

definition pki_read_keys_config ::
  "http_env \<Rightarrow> client \<Rightarrow>
   (string \<Rightarrow> 'a response_envelope option) \<Rightarrow> string list \<Rightarrow>
   'a sent" where
  "pki_read_keys_config env cl from_json mount =
     sbind (pure (pki_path mount [''config'', ''keys''])) (\<lambda>p.
     pki_enveloped env cl from_json mount ''GET'' p None)"

record pki_keys_config =
  pki_keys_config_default :: "string option"

definition pki_write_keys_config ::
  "http_env \<Rightarrow> client \<Rightarrow>
   (string \<Rightarrow> unit option) \<Rightarrow>
   (pki_keys_config \<Rightarrow> payload) \<Rightarrow> string list \<Rightarrow>
   pki_keys_config \<Rightarrow> unit sent" where
  "pki_write_keys_config env cl from_json to_json mount config =
     sbind (pure (pki_path mount [''config'', ''keys''])) (\<lambda>p.
     pki_request env cl from_json mount ''POST'' p (Some (to_json config)))"

definition pki_read_cluster_config ::
  "http_env \<Rightarrow> client \<Rightarrow>
   (string \<Rightarrow> 'a response_envelope option) \<Rightarrow> string list \<Rightarrow>
   'a sent" where
  "pki_read_cluster_config env cl from_json mount =
     sbind (pure (pki_path mount [''config'', ''cluster''])) (\<lambda>p.
     pki_enveloped env cl from_json mount ''GET'' p None)"

record pki_cluster_config =
  pki_cluster_config_path :: "string option"
  pki_cluster_config_aia_path :: "string option"

definition pki_write_cluster_config ::
  "http_env \<Rightarrow> client \<Rightarrow>
   (string \<Rightarrow> unit option) \<Rightarrow>
   (pki_cluster_config \<Rightarrow> payload) \<Rightarrow> string list \<Rightarrow>
   pki_cluster_config \<Rightarrow> unit sent" where
  "pki_write_cluster_config env cl from_json to_json mount config =
     sbind (pure (pki_path mount [''config'', ''cluster''])) (\<lambda>p.
     pki_request env cl from_json mount ''POST'' p (Some (to_json config)))"

definition pki_read_crl_config ::
  "http_env \<Rightarrow> client \<Rightarrow>
   (string \<Rightarrow> 'a response_envelope option) \<Rightarrow> string list \<Rightarrow>
   'a sent" where
  "pki_read_crl_config env cl from_json mount =
     sbind (pure (pki_path mount [''config'', ''crl''])) (\<lambda>p.
     pki_enveloped env cl from_json mount ''GET'' p None)"

record pki_crl_config =
  pki_crl_config_expiry :: "string option"
  pki_crl_config_disable :: "bool option"
  pki_crl_config_ocsp_disable :: "bool option"
  pki_crl_config_auto_rebuild :: "bool option"
  pki_crl_config_auto_rebuild_grace_period :: "string option"
  pki_crl_config_enable_delta :: "bool option"
  pki_crl_config_delta_rebuild_interval :: "string option"
  pki_crl_config_ocsp_expiry :: "string option"
  pki_crl_config_unified_crl :: "bool option"
  pki_crl_config_unified_crl_on_existing_paths :: "bool option"
  pki_crl_config_cross_cluster_revocation :: "bool option"

definition pki_write_crl_config ::
  "http_env \<Rightarrow> client \<Rightarrow>
   (string \<Rightarrow> unit option) \<Rightarrow>
   (pki_crl_config \<Rightarrow> payload) \<Rightarrow> string list \<Rightarrow>
   pki_crl_config \<Rightarrow> unit sent" where
  "pki_write_crl_config env cl from_json to_json mount config =
     sbind (pure (pki_path mount [''config'', ''crl''])) (\<lambda>p.
     pki_request env cl from_json mount ''POST'' p (Some (to_json config)))"

definition pki_rotate_crl ::
  "http_env \<Rightarrow> client \<Rightarrow>
   (string \<Rightarrow> 'a response_envelope option) \<Rightarrow> string list \<Rightarrow>
   'a sent" where
  "pki_rotate_crl env cl from_json mount =
     sbind (pure (pki_path mount [''crl'', ''rotate''])) (\<lambda>p.
     pki_enveloped env cl from_json mount ''GET'' p None)"

definition pki_rotate_delta_crl ::
  "http_env \<Rightarrow> client \<Rightarrow>
   (string \<Rightarrow> 'a response_envelope option) \<Rightarrow> string list \<Rightarrow>
   'a sent" where
  "pki_rotate_delta_crl env cl from_json mount =
     sbind (pure (pki_path mount [''crl'', ''rotate-delta''])) (\<lambda>p.
     pki_enveloped env cl from_json mount ''GET'' p None)"

record pki_tidy_request =
  pki_tidy_request_tidy_cert_store :: "bool option"
  pki_tidy_request_tidy_revoked_certs :: "bool option"
  pki_tidy_request_tidy_revocation_queue :: "bool option"
  pki_tidy_request_safety_buffer :: "string option"
  pki_tidy_request_tidy_acme :: "bool option"
  pki_tidy_request_tidy_invalid_certs :: "bool option"
  pki_tidy_request_tidy_expired_issuers :: "bool option"
  pki_tidy_request_tidy_move_legacy_ca_bundle :: "bool option"
  pki_tidy_request_tidy_cross_cluster_revoked_certs :: "bool option"
  pki_tidy_request_tidy_revoked_cert_issuer_associations :: "bool option"
  pki_tidy_request_revocation_queue_safety_buffer :: "string option"
  pki_tidy_request_issuer_safety_buffer :: "string option"
  pki_tidy_request_pause_duration :: "string option"
  pki_tidy_request_page_size :: "64 word option"
  pki_tidy_request_maintain_stored_certificate_counts :: "bool option"
  pki_tidy_request_publish_stored_certificate_count_metrics :: "bool option"
  pki_tidy_request_acme_account_safety_buffer :: "string option"

definition pki_tidy ::
  "http_env \<Rightarrow> client \<Rightarrow>
   (string \<Rightarrow> unit option) \<Rightarrow>
   (pki_tidy_request \<Rightarrow> payload) \<Rightarrow> string list \<Rightarrow>
   pki_tidy_request \<Rightarrow> unit sent" where
  "pki_tidy env cl from_json to_json mount request =
     sbind (pure (client_validate_fields env [(PKI_TIDY_INVALID_CERTS,
       pki_tidy_request_tidy_invalid_certs request \<noteq> None), (PKI_TIDY_PAGE_SIZE,
       pki_tidy_request_page_size request \<noteq> None)])) (\<lambda>_.
     sbind (pure (pki_path mount [''tidy''])) (\<lambda>p.
     pki_request env cl from_json mount ''POST'' p (Some (to_json request))))"

definition pki_tidy_status_call ::
  "http_env \<Rightarrow> client \<Rightarrow>
   (string \<Rightarrow> 'a response_envelope option) \<Rightarrow> string list \<Rightarrow>
   'a sent" where
  "pki_tidy_status_call env cl from_json mount =
     sbind (pure (pki_path mount [''tidy-status''])) (\<lambda>p.
     pki_enveloped env cl from_json mount ''GET'' p None)"

definition pki_tidy_cancel ::
  "http_env \<Rightarrow> client \<Rightarrow>
   (string \<Rightarrow> 'a response_envelope option) \<Rightarrow> string list \<Rightarrow>
   'a sent" where
  "pki_tidy_cancel env cl from_json mount =
     sbind (pure (pki_path mount [''tidy-cancel''])) (\<lambda>p.
     pki_enveloped env cl from_json mount ''POST'' p None)"

definition pki_read_auto_tidy_config ::
  "http_env \<Rightarrow> client \<Rightarrow>
   (string \<Rightarrow> 'a response_envelope option) \<Rightarrow> string list \<Rightarrow>
   'a sent" where
  "pki_read_auto_tidy_config env cl from_json mount =
     sbind (pure (pki_path mount [''config'', ''auto-tidy''])) (\<lambda>p.
     pki_enveloped env cl from_json mount ''GET'' p None)"

record pki_auto_tidy_config =
  pki_auto_tidy_config_enabled :: "bool option"
  pki_auto_tidy_config_interval_duration :: "string option"
  pki_auto_tidy_config_tidy_cert_store :: "bool option"
  pki_auto_tidy_config_tidy_revoked_certs :: "bool option"
  pki_auto_tidy_config_tidy_revocation_queue :: "bool option"
  pki_auto_tidy_config_tidy_invalid_certs :: "bool option"
  pki_auto_tidy_config_tidy_expired_issuers :: "bool option"
  pki_auto_tidy_config_tidy_move_legacy_ca_bundle :: "bool option"
  pki_auto_tidy_config_tidy_cross_cluster_revoked_certs :: "bool option"
  pki_auto_tidy_config_tidy_revoked_cert_issuer_associations :: "bool option"
  pki_auto_tidy_config_safety_buffer :: "string option"
  pki_auto_tidy_config_revoked_safety_buffer :: "string option"
  pki_auto_tidy_config_revocation_queue_safety_buffer :: "string option"
  pki_auto_tidy_config_issuer_safety_buffer :: "string option"
  pki_auto_tidy_config_pause_duration :: "string option"
  pki_auto_tidy_config_page_size :: "64 word option"
  pki_auto_tidy_config_maintain_stored_certificate_counts :: "bool option"
  pki_auto_tidy_config_publish_stored_certificate_count_metrics :: "bool option"
  pki_auto_tidy_config_acme_account_safety_buffer :: "string option"

definition pki_write_auto_tidy_config ::
  "http_env \<Rightarrow> client \<Rightarrow>
   (string \<Rightarrow> unit option) \<Rightarrow>
   (pki_auto_tidy_config \<Rightarrow> payload) \<Rightarrow> string list \<Rightarrow>
   pki_auto_tidy_config \<Rightarrow> unit sent" where
  "pki_write_auto_tidy_config env cl from_json to_json mount config =
     sbind (pure (client_validate_fields env [(PKI_AUTO_TIDY_INVALID_CERTS,
       pki_auto_tidy_config_tidy_invalid_certs config \<noteq> None),
       (PKI_AUTO_TIDY_REVOKED_SAFETY_BUFFER, pki_auto_tidy_config_revoked_safety_buffer config
       \<noteq> None), (PKI_AUTO_TIDY_PAGE_SIZE, pki_auto_tidy_config_page_size config \<noteq>
       None)])) (\<lambda>_.
     sbind (pure (pki_path mount [''config'', ''auto-tidy''])) (\<lambda>p.
     pki_request env cl from_json mount ''POST'' p (Some (to_json config))))"

definition pki_issue ::
  "http_env \<Rightarrow> client \<Rightarrow>
   (string \<Rightarrow> 'a response_envelope option) \<Rightarrow>
   (pki_issue_request \<Rightarrow> payload) \<Rightarrow> string list \<Rightarrow>
   string \<Rightarrow> pki_issue_request \<Rightarrow> 'a sent" where
  "pki_issue env cl from_json to_json mount role request =
     sbind (pure (pki_validate_private_key_output_format (pki_issue_request_format request)
       True)) (\<lambda>_.
     sbind (pure (pki_path mount [''issue'', role])) (\<lambda>p.
     pki_enveloped env cl from_json mount ''POST'' p (Some (to_json request))))"

definition pki_issue_with_issuer ::
  "http_env \<Rightarrow> client \<Rightarrow>
   (string \<Rightarrow> 'a response_envelope option) \<Rightarrow>
   (pki_issue_request \<Rightarrow> payload) \<Rightarrow> string list \<Rightarrow>
   string \<Rightarrow> string \<Rightarrow> pki_issue_request \<Rightarrow> 'a sent" where
  "pki_issue_with_issuer env cl from_json to_json mount issuer_ref role request =
     sbind (pure (pki_validate_private_key_output_format (pki_issue_request_format request)
       True)) (\<lambda>_.
     sbind (pure (pki_path mount [''issuer'', issuer_ref, ''issue'', role])) (\<lambda>p.
     pki_enveloped env cl from_json mount ''POST'' p (Some (to_json request))))"

record pki_sign_request =
  pki_sign_request_csr :: string
  pki_sign_request_common_name :: "string option"
  pki_sign_request_alt_names :: "string list"
  pki_sign_request_ip_sans :: "string list"
  pki_sign_request_uri_sans :: "string list"
  pki_sign_request_ttl :: "string option"
  pki_sign_request_format :: "string option"
  pki_sign_request_skid :: "string option"
  pki_sign_request_require_matching_certificate_algorithms :: "bool option"

definition pki_sign ::
  "http_env \<Rightarrow> client \<Rightarrow>
   (string \<Rightarrow> 'a response_envelope option) \<Rightarrow>
   (pki_sign_request \<Rightarrow> payload) \<Rightarrow> string list \<Rightarrow>
   string \<Rightarrow> pki_sign_request \<Rightarrow> 'a sent" where
  "pki_sign env cl from_json to_json mount role request =
     sbind (pure (pki_path mount [''sign'', role])) (\<lambda>p.
     pki_enveloped env cl from_json mount ''POST'' p (Some (to_json request)))"

definition pki_sign_with_issuer ::
  "http_env \<Rightarrow> client \<Rightarrow>
   (string \<Rightarrow> 'a response_envelope option) \<Rightarrow>
   (pki_sign_request \<Rightarrow> payload) \<Rightarrow> string list \<Rightarrow>
   string \<Rightarrow> string \<Rightarrow> pki_sign_request \<Rightarrow> 'a sent" where
  "pki_sign_with_issuer env cl from_json to_json mount issuer_ref role request =
     sbind (pure (pki_path mount [''issuer'', issuer_ref, ''sign'', role])) (\<lambda>p.
     pki_enveloped env cl from_json mount ''POST'' p (Some (to_json request)))"

definition pki_sign_verbatim ::
  "http_env \<Rightarrow> client \<Rightarrow>
   (string \<Rightarrow> 'a response_envelope option) \<Rightarrow>
   (pki_sign_verbatim_request \<Rightarrow> payload) \<Rightarrow> string list \<Rightarrow>
   pki_sign_verbatim_request \<Rightarrow> 'a sent" where
  "pki_sign_verbatim env cl from_json to_json mount request =
     sbind (pki_validate_sign_verbatim_request_fields env cl mount request) (\<lambda>_.
     sbind (pure (pki_path mount [''sign-verbatim''])) (\<lambda>p.
     pki_enveloped env cl from_json mount ''POST'' p (Some (to_json request))))"

definition pki_sign_verbatim_at_role ::
  "http_env \<Rightarrow> client \<Rightarrow>
   (string \<Rightarrow> 'a response_envelope option) \<Rightarrow>
   (pki_sign_verbatim_request \<Rightarrow> payload) \<Rightarrow> string list \<Rightarrow>
   string \<Rightarrow> pki_sign_verbatim_request \<Rightarrow> 'a sent" where
  "pki_sign_verbatim_at_role env cl from_json to_json mount role request =
     sbind (pki_validate_sign_verbatim_request_fields env cl mount request) (\<lambda>_.
     sbind (pure (pki_path mount [''sign-verbatim'', role])) (\<lambda>p.
     pki_enveloped env cl from_json mount ''POST'' p (Some (to_json request))))"

definition pki_sign_verbatim_with_issuer ::
  "http_env \<Rightarrow> client \<Rightarrow>
   (string \<Rightarrow> 'a response_envelope option) \<Rightarrow>
   (pki_sign_verbatim_request \<Rightarrow> payload) \<Rightarrow> string list \<Rightarrow>
   string \<Rightarrow> pki_sign_verbatim_request \<Rightarrow> 'a sent" where
  "pki_sign_verbatim_with_issuer env cl from_json to_json mount issuer_ref request =
     sbind (pki_validate_sign_verbatim_request_fields env cl mount request) (\<lambda>_.
     sbind (pure (pki_path mount [''issuer'', issuer_ref, ''sign-verbatim''])) (\<lambda>p.
     pki_enveloped env cl from_json mount ''POST'' p (Some (to_json request))))"

definition pki_sign_verbatim_with_issuer_at_role ::
  "http_env \<Rightarrow> client \<Rightarrow>
   (string \<Rightarrow> 'a response_envelope option) \<Rightarrow>
   (pki_sign_verbatim_request \<Rightarrow> payload) \<Rightarrow> string list \<Rightarrow>
   string \<Rightarrow> string \<Rightarrow> pki_sign_verbatim_request \<Rightarrow> 'a sent" where
  "pki_sign_verbatim_with_issuer_at_role env cl from_json to_json mount issuer_ref role request =
     sbind (pki_validate_sign_verbatim_request_fields env cl mount request) (\<lambda>_.
     sbind (pure (pki_path mount [''issuer'', issuer_ref, ''sign-verbatim'', role]))
       (\<lambda>p.
     pki_enveloped env cl from_json mount ''POST'' p (Some (to_json request))))"

record pki_revoke_request =
  pki_revoke_request_serial_number :: string

definition pki_revoke ::
  "http_env \<Rightarrow> client \<Rightarrow>
   (string \<Rightarrow> 'a response_envelope option) \<Rightarrow>
   (pki_revoke_request \<Rightarrow> payload) \<Rightarrow> string list \<Rightarrow>
   pki_revoke_request \<Rightarrow> 'a sent" where
  "pki_revoke env cl from_json to_json mount request =
     sbind (pure (pki_path mount [''revoke''])) (\<lambda>p.
     pki_enveloped env cl from_json mount ''POST'' p (Some (to_json request)))"

definition pki_revoke_with_key ::
  "http_env \<Rightarrow> client \<Rightarrow>
   (string \<Rightarrow> 'a response_envelope option) \<Rightarrow>
   (pki_revoke_with_key_request \<Rightarrow> payload) \<Rightarrow>
   string list \<Rightarrow> pki_revoke_with_key_request \<Rightarrow> 'a sent" where
  "pki_revoke_with_key env cl from_json to_json mount request =
     sbind (pure (pki_path mount [''revoke-with-key''])) (\<lambda>p.
     pki_enveloped env cl from_json mount ''POST'' p (Some (to_json request)))"

definition pki_list_certificates ::
  "http_env \<Rightarrow> client \<Rightarrow>
   (string \<Rightarrow> 'a response_envelope option) \<Rightarrow> string list \<Rightarrow>
   'a sent" where
  "pki_list_certificates env cl from_json mount =
     sbind (pure (pki_path mount [''certs''])) (\<lambda>p.
     pki_enveloped env cl from_json mount ''LIST'' p None)"

definition pki_list_revoked_certificates ::
  "http_env \<Rightarrow> client \<Rightarrow>
   (string \<Rightarrow> 'a response_envelope option) \<Rightarrow> string list \<Rightarrow>
   'a sent" where
  "pki_list_revoked_certificates env cl from_json mount =
     sbind (pure (pki_path mount [''certs'', ''revoked''])) (\<lambda>p.
     pki_enveloped env cl from_json mount ''LIST'' p None)"

definition pki_list_revocation_queue ::
  "http_env \<Rightarrow> client \<Rightarrow>
   (string \<Rightarrow> 'a response_envelope option) \<Rightarrow> string list \<Rightarrow>
   'a sent" where
  "pki_list_revocation_queue env cl from_json mount =
     sbind (pure (pki_path mount [''certs'', ''revocation-queue''])) (\<lambda>p.
     pki_enveloped env cl from_json mount ''LIST'' p None)"

definition pki_request_query ::
  "http_env \<Rightarrow> client \<Rightarrow> (string \<Rightarrow> 'a option) \<Rightarrow>
   string list \<Rightarrow> string \<Rightarrow> string \<Rightarrow>
   (string \<times> string) list \<Rightarrow> payload option \<Rightarrow>
   nat list \<Rightarrow> 'a sent" where
  "pki_request_query env cl from_json mount verb path query body_v accepted_statuses =
     pki_request_query_headers env cl from_json mount verb path query [] body_v
       accepted_statuses"

definition pki_list_certificates_detailed ::
  "http_env \<Rightarrow> client \<Rightarrow>
   (string \<Rightarrow> 'a response_envelope option) \<Rightarrow> string list \<Rightarrow>
   string option \<Rightarrow> 64 word option \<Rightarrow> 'a sent" where
  "pki_list_certificates_detailed env cl from_json mount after limit =
     sbind (pure (from_after_limit after limit)) (\<lambda>v.
     let query = query_pairs v in
     let query = (''detailed'', ''true'') # query in
     sbind (pure (pki_path mount [''certs'', ''detailed''])) (\<lambda>p.
     smap env_data (pki_request_query env cl from_json mount ''LIST'' p query None [200])))"

definition pki_read_certificate ::
  "http_env \<Rightarrow> client \<Rightarrow>
   (string \<Rightarrow> 'a response_envelope option) \<Rightarrow> string list \<Rightarrow>
   string \<Rightarrow> 'a sent" where
  "pki_read_certificate env cl from_json mount serial =
     sbind (pure (pki_path mount [''cert'', serial])) (\<lambda>p.
     pki_enveloped env cl from_json mount ''GET'' p None)"

definition pki_resign_crls ::
  "http_env \<Rightarrow> client \<Rightarrow>
   (string \<Rightarrow> 'a response_envelope option) \<Rightarrow> string list \<Rightarrow>
   string \<Rightarrow> 'a sent" where
  "pki_resign_crls env cl from_json mount issuer_ref =
     sbind (pure (pki_path mount [''issuer'', issuer_ref, ''resign-crls''])) (\<lambda>p.
     pki_enveloped env cl from_json mount ''POST'' p None)"

record pki_revoked_certificate_entry =
  pki_revoked_certificate_entry_serial_number :: string
  pki_revoked_certificate_entry_revocation_time :: "64 word"

record pki_crl_extension =
  pki_crl_extension_id :: string
  pki_crl_extension_critical :: "bool option"
  pki_crl_extension_value :: string

record pki_sign_revocation_list_request =
  pki_sign_revocation_list_request_crl_number :: "64 word option"
  pki_sign_revocation_list_request_delta_crl_base_number :: "64 word option"
  pki_sign_revocation_list_request_format :: "string option"
  pki_sign_revocation_list_request_revoked_certs :: "pki_revoked_certificate_entry list"
  pki_sign_revocation_list_request_next_update :: "string option"
  pki_sign_revocation_list_request_revoked_safety_buffer :: "string option"
  pki_sign_revocation_list_request_extensions :: "pki_crl_extension list"

definition pki_sign_revocation_list ::
  "http_env \<Rightarrow> client \<Rightarrow>
   (string \<Rightarrow> 'a response_envelope option) \<Rightarrow>
   (pki_sign_revocation_list_request \<Rightarrow> payload) \<Rightarrow>
   string list \<Rightarrow> string \<Rightarrow>
   pki_sign_revocation_list_request \<Rightarrow> 'a sent" where
  "pki_sign_revocation_list env cl from_json to_json mount issuer_ref request =
     (if MAX_RESPONSE_STRINGS < length (pki_sign_revocation_list_request_extensions request)
       then pure (Inl (InvalidParameter ''PKI CRL extensions exceed item limit''))
        else sbind (pure (pki_path mount [''issuer'', issuer_ref, ''sign-revocation-list'']))
          (\<lambda>p.
        pki_enveloped env cl from_json mount ''POST'' p (Some (to_json request))))"

definition pki_list_issuers ::
  "http_env \<Rightarrow> client \<Rightarrow>
   (string \<Rightarrow> 'a response_envelope option) \<Rightarrow> string list \<Rightarrow>
   'a sent" where
  "pki_list_issuers env cl from_json mount =
     sbind (pure (pki_path mount [''issuers''])) (\<lambda>p.
     pki_enveloped env cl from_json mount ''LIST'' p None)"

definition pki_read_issuer ::
  "http_env \<Rightarrow> client \<Rightarrow>
   (string \<Rightarrow> 'a response_envelope option) \<Rightarrow> string list \<Rightarrow>
   string \<Rightarrow> 'a sent" where
  "pki_read_issuer env cl from_json mount issuer_ref =
     sbind (pure (pki_path mount [''issuer'', issuer_ref])) (\<lambda>p.
     pki_enveloped env cl from_json mount ''GET'' p None)"

definition pki_delete_issuer ::
  "http_env \<Rightarrow> client \<Rightarrow>
   (string \<Rightarrow> unit option) \<Rightarrow> string list \<Rightarrow>
   string \<Rightarrow> unit sent" where
  "pki_delete_issuer env cl from_json mount issuer_ref =
     sbind (pure (pki_path mount [''issuer'', issuer_ref])) (\<lambda>p.
     pki_request_accepting env cl from_json mount ''DELETE'' p None [200, 204])"

definition pki_list_keys ::
  "http_env \<Rightarrow> client \<Rightarrow>
   (string \<Rightarrow> 'a response_envelope option) \<Rightarrow> string list \<Rightarrow>
   'a sent" where
  "pki_list_keys env cl from_json mount =
     sbind (pure (pki_path mount [''keys''])) (\<lambda>p.
     pki_enveloped env cl from_json mount ''LIST'' p None)"

definition pki_read_key ::
  "http_env \<Rightarrow> client \<Rightarrow>
   (string \<Rightarrow> 'a response_envelope option) \<Rightarrow> string list \<Rightarrow>
   string \<Rightarrow> 'a sent" where
  "pki_read_key env cl from_json mount key_ref =
     sbind (pure (pki_path mount [''key'', key_ref])) (\<lambda>p.
     pki_enveloped env cl from_json mount ''GET'' p None)"

definition pki_delete_key ::
  "http_env \<Rightarrow> client \<Rightarrow>
   (string \<Rightarrow> unit option) \<Rightarrow> string list \<Rightarrow>
   string \<Rightarrow> unit sent" where
  "pki_delete_key env cl from_json mount key_ref =
     sbind (pure (pki_path mount [''key'', key_ref])) (\<lambda>p.
     pki_request_accepting env cl from_json mount ''DELETE'' p None [200, 204])"

record pki_issuer_patch =
  pki_issuer_patch_issuer_name :: "string option"
  pki_issuer_patch_manual_chain :: "string list option"
  pki_issuer_patch_usage :: "string list option"
  pki_issuer_patch_leaf_not_after_behavior :: "string option"
  pki_issuer_patch_revocation_signature_algorithm :: "string option"

definition pki_patch_issuer ::
  "http_env \<Rightarrow> client \<Rightarrow>
   (string \<Rightarrow> 'a response_envelope option) \<Rightarrow>
   (pki_issuer_patch \<Rightarrow> payload) \<Rightarrow> string list \<Rightarrow>
   string \<Rightarrow> pki_issuer_patch \<Rightarrow> 'a sent" where
  "pki_patch_issuer env cl from_json to_json mount issuer_ref patch_v =
     sbind (pure (pki_path mount [''issuer'', issuer_ref])) (\<lambda>p.
     pki_enveloped_with_headers env cl from_json mount ''PATCH'' p merge_patch (Some (to_json
       patch_v)))"

definition pki_revoke_issuer ::
  "http_env \<Rightarrow> client \<Rightarrow>
   (string \<Rightarrow> 'a response_envelope option) \<Rightarrow> string list \<Rightarrow>
   string \<Rightarrow> 'a sent" where
  "pki_revoke_issuer env cl from_json mount issuer_ref =
     sbind (pure (pki_path mount [''issuer'', issuer_ref, ''revoke''])) (\<lambda>p.
     pki_enveloped env cl from_json mount ''POST'' p None)"

record pki_pem_bundle_payload =
  pki_pem_bundle_payload_pem_bundle :: string

definition pki_import_ca_bundle ::
  "http_env \<Rightarrow> client \<Rightarrow>
   (string \<Rightarrow> 'a response_envelope option) \<Rightarrow>
   (pki_pem_bundle_payload \<Rightarrow> payload) \<Rightarrow> string list \<Rightarrow>
   string \<Rightarrow> 'a sent" where
  "pki_import_ca_bundle env cl from_json to_json mount pem_bundle =
     (let payload = \<lparr>pki_pem_bundle_payload_pem_bundle = pem_bundle\<rparr> in
     sbind (pure (pki_path mount [''config'', ''ca''])) (\<lambda>p.
     pki_enveloped env cl from_json mount ''POST'' p (Some (to_json payload))))"

definition pki_import_issuer_bundle ::
  "http_env \<Rightarrow> client \<Rightarrow>
   (string \<Rightarrow> 'a response_envelope option) \<Rightarrow>
   (pki_pem_bundle_payload \<Rightarrow> payload) \<Rightarrow> string list \<Rightarrow>
   string \<Rightarrow> 'a sent" where
  "pki_import_issuer_bundle env cl from_json to_json mount pem_bundle =
     (let payload = \<lparr>pki_pem_bundle_payload_pem_bundle = pem_bundle\<rparr> in
     sbind (pure (pki_path mount [''issuers'', ''import'', ''bundle''])) (\<lambda>p.
     pki_enveloped env cl from_json mount ''POST'' p (Some (to_json payload))))"

definition pki_import_issuer_certificates ::
  "http_env \<Rightarrow> client \<Rightarrow>
   (string \<Rightarrow> 'a response_envelope option) \<Rightarrow>
   (pki_pem_bundle_payload \<Rightarrow> payload) \<Rightarrow> string list \<Rightarrow>
   string \<Rightarrow> 'a sent" where
  "pki_import_issuer_certificates env cl from_json to_json mount pem_bundle =
     (let payload = \<lparr>pki_pem_bundle_payload_pem_bundle = pem_bundle\<rparr> in
     sbind (pure (pki_path mount [''issuers'', ''import'', ''cert''])) (\<lambda>p.
     pki_enveloped env cl from_json mount ''POST'' p (Some (to_json payload))))"

record pki_import_key_payload =
  pki_import_key_payload_pem_bundle :: string
  pki_import_key_payload_key_name :: "string option"

definition pki_import_key ::
  "http_env \<Rightarrow> client \<Rightarrow>
   (string \<Rightarrow> 'a response_envelope option) \<Rightarrow>
   (pki_import_key_payload \<Rightarrow> payload) \<Rightarrow> string list \<Rightarrow>
   string \<Rightarrow> string option \<Rightarrow> 'a sent" where
  "pki_import_key env cl from_json to_json mount pem_bundle key_name =
     (let payload = \<lparr>pki_import_key_payload_pem_bundle = pem_bundle,
       pki_import_key_payload_key_name = key_name\<rparr> in
     sbind (pure (pki_path mount [''keys'', ''import''])) (\<lambda>p.
     pki_enveloped env cl from_json mount ''POST'' p (Some (to_json payload))))"

record pki_rename_key_payload =
  pki_rename_key_payload_key_name :: string

definition pki_rename_key ::
  "http_env \<Rightarrow> client \<Rightarrow>
   (string \<Rightarrow> 'a response_envelope option) \<Rightarrow>
   (pki_rename_key_payload \<Rightarrow> payload) \<Rightarrow> string list \<Rightarrow>
   string \<Rightarrow> string \<Rightarrow> 'a sent" where
  "pki_rename_key env cl from_json to_json mount key_ref key_name =
     (let payload = \<lparr>pki_rename_key_payload_key_name = key_name\<rparr> in
     sbind (pure (pki_path mount [''key'', key_ref])) (\<lambda>p.
     pki_enveloped env cl from_json mount ''POST'' p (Some (to_json payload))))"

definition pki_read_acme_config ::
  "http_env \<Rightarrow> client \<Rightarrow>
   (string \<Rightarrow> 'a response_envelope option) \<Rightarrow> string list \<Rightarrow>
   'a sent" where
  "pki_read_acme_config env cl from_json mount =
     sbind (pure (pki_path mount [''config'', ''acme''])) (\<lambda>p.
     pki_enveloped env cl from_json mount ''GET'' p None)"

record pki_acme_config =
  pki_acme_config_allowed_issuers :: "string list"
  pki_acme_config_allowed_roles :: "string list"
  pki_acme_config_allow_role_ext_key_usage :: "bool option"
  pki_acme_config_default_directory_policy :: "string option"
  pki_acme_config_dns_resolver :: "string option"
  pki_acme_config_eab_policy :: "string option"
  pki_acme_config_enabled :: "bool option"

definition pki_write_acme_config ::
  "http_env \<Rightarrow> client \<Rightarrow>
   (string \<Rightarrow> 'a response_envelope option) \<Rightarrow>
   (pki_acme_config \<Rightarrow> payload) \<Rightarrow> string list \<Rightarrow>
   pki_acme_config \<Rightarrow> 'a sent" where
  "pki_write_acme_config env cl from_json to_json mount config =
     sbind (pure (pki_path mount [''config'', ''acme''])) (\<lambda>p.
     pki_enveloped env cl from_json mount ''POST'' p (Some (to_json config)))"

definition pki_generate_acme_eab ::
  "http_env \<Rightarrow> client \<Rightarrow>
   (string \<Rightarrow> 'a response_envelope option) \<Rightarrow> string list \<Rightarrow>
   'a sent" where
  "pki_generate_acme_eab env cl from_json mount =
     sbind (pure (pki_path mount [''acme'', ''new-eab''])) (\<lambda>p.
     pki_enveloped env cl from_json mount ''POST'' p None)"

definition pki_generate_issuer_acme_eab ::
  "http_env \<Rightarrow> client \<Rightarrow>
   (string \<Rightarrow> 'a response_envelope option) \<Rightarrow> string list \<Rightarrow>
   string \<Rightarrow> 'a sent" where
  "pki_generate_issuer_acme_eab env cl from_json mount issuer_ref =
     sbind (pure (pki_path mount [''issuer'', issuer_ref, ''acme'', ''new-eab''])) (\<lambda>p.
     pki_enveloped env cl from_json mount ''POST'' p None)"

definition pki_generate_role_acme_eab ::
  "http_env \<Rightarrow> client \<Rightarrow>
   (string \<Rightarrow> 'a response_envelope option) \<Rightarrow> string list \<Rightarrow>
   string \<Rightarrow> 'a sent" where
  "pki_generate_role_acme_eab env cl from_json mount role =
     sbind (pure (pki_path mount [''roles'', role, ''acme'', ''new-eab''])) (\<lambda>p.
     pki_enveloped env cl from_json mount ''POST'' p None)"

definition pki_generate_issuer_role_acme_eab ::
  "http_env \<Rightarrow> client \<Rightarrow>
   (string \<Rightarrow> 'a response_envelope option) \<Rightarrow> string list \<Rightarrow>
   string \<Rightarrow> string \<Rightarrow> 'a sent" where
  "pki_generate_issuer_role_acme_eab env cl from_json mount issuer_ref role =
     sbind (pure (pki_path mount [''issuer'', issuer_ref, ''roles'', role, ''acme'',
       ''new-eab''])) (\<lambda>p.
     pki_enveloped env cl from_json mount ''POST'' p None)"

definition pki_list_acme_eab_tokens ::
  "http_env \<Rightarrow> client \<Rightarrow>
   (string \<Rightarrow> 'a response_envelope option) \<Rightarrow> string list \<Rightarrow>
   'a sent" where
  "pki_list_acme_eab_tokens env cl from_json mount =
     sbind (pure (pki_path mount [''eab''])) (\<lambda>p.
     pki_enveloped env cl from_json mount ''LIST'' p None)"

definition pki_delete_acme_eab_token ::
  "http_env \<Rightarrow> client \<Rightarrow>
   (string \<Rightarrow> unit option) \<Rightarrow> string list \<Rightarrow>
   string \<Rightarrow> unit sent" where
  "pki_delete_acme_eab_token env cl from_json mount key_id =
     sbind (pure (pki_path mount [''eab'', key_id])) (\<lambda>p.
     pki_request_accepting env cl from_json mount ''DELETE'' p None [200, 204])"

record pki_cel_role_request =
  pki_cel_role_request_expression :: "string option"
  pki_cel_role_request_description :: "string option"

definition pki_write_cel_role ::
  "http_env \<Rightarrow> client \<Rightarrow>
   (string \<Rightarrow> unit option) \<Rightarrow>
   (pki_cel_role_request \<Rightarrow> payload) \<Rightarrow> string list \<Rightarrow>
   string \<Rightarrow> pki_cel_role_request \<Rightarrow> unit sent" where
  "pki_write_cel_role env cl from_json to_json mount name role =
     sbind (pure (pki_path mount [''cel'', ''roles'', name])) (\<lambda>p.
     pki_request env cl from_json mount ''POST'' p (Some (to_json role)))"

definition pki_patch_cel_role ::
  "http_env \<Rightarrow> client \<Rightarrow>
   (string \<Rightarrow> 'a response_envelope option) \<Rightarrow>
   (pki_cel_role_request \<Rightarrow> payload) \<Rightarrow> string list \<Rightarrow>
   string \<Rightarrow> pki_cel_role_request \<Rightarrow> 'a sent" where
  "pki_patch_cel_role env cl from_json to_json mount name patch_v =
     sbind (pure (pki_path mount [''cel'', ''roles'', name])) (\<lambda>p.
     pki_enveloped_with_headers env cl from_json mount ''PATCH'' p merge_patch (Some (to_json
       patch_v)))"

definition pki_read_cel_role ::
  "http_env \<Rightarrow> client \<Rightarrow>
   (string \<Rightarrow> 'a response_envelope option) \<Rightarrow> string list \<Rightarrow>
   string \<Rightarrow> 'a sent" where
  "pki_read_cel_role env cl from_json mount name =
     sbind (pure (pki_path mount [''cel'', ''roles'', name])) (\<lambda>p.
     pki_enveloped env cl from_json mount ''GET'' p None)"

definition pki_list_cel_roles ::
  "http_env \<Rightarrow> client \<Rightarrow>
   (string \<Rightarrow> 'a response_envelope option) \<Rightarrow> string list \<Rightarrow>
   'a sent" where
  "pki_list_cel_roles env cl from_json mount =
     sbind (pure (pki_path mount [''cel'', ''roles''])) (\<lambda>p.
     pki_enveloped env cl from_json mount ''LIST'' p None)"

definition pki_delete_cel_role ::
  "http_env \<Rightarrow> client \<Rightarrow>
   (string \<Rightarrow> unit option) \<Rightarrow> string list \<Rightarrow>
   string \<Rightarrow> unit sent" where
  "pki_delete_cel_role env cl from_json mount name =
     sbind (pure (pki_path mount [''cel'', ''roles'', name])) (\<lambda>p.
     pki_request_accepting env cl from_json mount ''DELETE'' p None [200, 204])"

definition pki_cel_issue ::
  "http_env \<Rightarrow> client \<Rightarrow>
   (string \<Rightarrow> 'a response_envelope option) \<Rightarrow>
   (pki_issue_request \<Rightarrow> payload) \<Rightarrow> string list \<Rightarrow>
   string \<Rightarrow> pki_issue_request \<Rightarrow> 'a sent" where
  "pki_cel_issue env cl from_json to_json mount role request =
     sbind (pure (pki_path mount [''cel'', ''issue'', role])) (\<lambda>p.
     pki_enveloped env cl from_json mount ''POST'' p (Some (to_json request)))"

definition pki_cel_sign ::
  "http_env \<Rightarrow> client \<Rightarrow>
   (string \<Rightarrow> 'a response_envelope option) \<Rightarrow>
   (pki_sign_request \<Rightarrow> payload) \<Rightarrow> string list \<Rightarrow>
   string \<Rightarrow> pki_sign_request \<Rightarrow> 'a sent" where
  "pki_cel_sign env cl from_json to_json mount role request =
     sbind (pure (pki_path mount [''cel'', ''sign'', role])) (\<lambda>p.
     pki_enveloped env cl from_json mount ''POST'' p (Some (to_json request)))"

definition pki_acme_directory_url ::
  "http_env \<Rightarrow> client \<Rightarrow> string list \<Rightarrow> url res" where
  "pki_acme_directory_url env cl mount =
     rbind (pki_path mount [''acme'', ''directory'']) (\<lambda>p.
     url_for_path env cl p)"

definition pki_issuer_acme_directory_url ::
  "http_env \<Rightarrow> client \<Rightarrow> string list \<Rightarrow> string \<Rightarrow>
   url res" where
  "pki_issuer_acme_directory_url env cl mount issuer_ref =
     rbind (pki_path mount [''issuer'', issuer_ref, ''acme'', ''directory'']) (\<lambda>p.
     url_for_path env cl p)"

definition pki_role_acme_directory_url ::
  "http_env \<Rightarrow> client \<Rightarrow> string list \<Rightarrow> string \<Rightarrow>
   url res" where
  "pki_role_acme_directory_url env cl mount role =
     rbind (pki_path mount [''roles'', role, ''acme'', ''directory'']) (\<lambda>p.
     url_for_path env cl p)"

definition pki_issuer_role_acme_directory_url ::
  "http_env \<Rightarrow> client \<Rightarrow> string list \<Rightarrow> string \<Rightarrow>
   string \<Rightarrow> url res" where
  "pki_issuer_role_acme_directory_url env cl mount issuer_ref role =
     rbind (pki_path mount [''issuer'', issuer_ref, ''roles'', role, ''acme'', ''directory''])
       (\<lambda>p.
     url_for_path env cl p)"

datatype pki_authority_key_source =
    PkiAuthorityKeySource_Internal | PkiAuthorityKeySource_Exported
  | PkiAuthorityKeySource_Existing | PkiAuthorityKeySource_Kms string

definition pki_authority_key_source_segment :: "pki_authority_key_source \<Rightarrow> string" where
  "pki_authority_key_source_segment self =
     (case self of
        PkiAuthorityKeySource_Internal \<Rightarrow> ''internal''
      | PkiAuthorityKeySource_Exported \<Rightarrow> ''exported''
      | PkiAuthorityKeySource_Existing \<Rightarrow> ''existing''
      | PkiAuthorityKeySource_Kms _ \<Rightarrow> ''kms'')"

definition pki_authority_key_source_reference ::
  "pki_authority_key_source \<Rightarrow> string option" where
  "pki_authority_key_source_reference self =
     (case self of
        PkiAuthorityKeySource_Kms reference \<Rightarrow> Some reference
      | _ \<Rightarrow> None)"

definition pki_validate_kms_fields ::
  "string option \<Rightarrow> 64 word option \<Rightarrow> string option \<Rightarrow>
   string option \<Rightarrow> unit res" where
  "pki_validate_kms_fields key_type key_bits key_ref private_key_format =
     (if key_type \<noteq> None \<or> key_bits \<noteq> None \<or> key_ref \<noteq> None \<or>
       private_key_format \<noteq> None then Inl (InvalidParameter
       ''PKI KMS generation cannot set key_type, key_bits, key_ref or private_key_format'')
        else Inr ())"

definition pki_authority_key_source_validate ::
  "pki_authority_key_source \<Rightarrow> string option \<Rightarrow>
   64 word option \<Rightarrow> string option \<Rightarrow> string option \<Rightarrow>
   unit res" where
  "pki_authority_key_source_validate self key_type key_bits key_ref private_key_format =
     (case self of
        PkiAuthorityKeySource_Kms _ \<Rightarrow> pki_validate_kms_fields key_type key_bits
          key_ref private_key_format
      | PkiAuthorityKeySource_Existing \<Rightarrow> (if key_type \<noteq> None \<or> key_bits
        \<noteq> None \<or> private_key_format \<noteq> None then Inl (InvalidParameter
        ''existing PKI keys cannot set key_type, key_bits or private_key_format'')
           else rbind (ok_or key_ref (InvalidParameter
             ''existing PKI generation requires an explicit key_ref'')) (\<lambda>reference.
           rbind (if reference = [] \<or> 256 < length reference then Inr True
              else rbind (validate_mount_path reference) (\<lambda>p.
              Inr (length p \<noteq> 1))) (\<lambda>v.
           (if v \<or> CHR ''/'' \<in> set reference then Inl (InvalidParameter
             ''existing PKI key_ref must be a bounded single reference'')
              else Inr ()))))
      | PkiAuthorityKeySource_Internal \<Rightarrow> (if key_ref \<noteq> None then Inl
        (InvalidParameter ''new PKI key generation cannot set key_ref'')
           else Inr ())
      | PkiAuthorityKeySource_Exported \<Rightarrow> (if key_ref \<noteq> None then Inl
        (InvalidParameter ''new PKI key generation cannot set key_ref'')
           else Inr ()))"

record pki_signature_options =
  pki_signature_options_use_pss :: "bool option"
  pki_signature_options_signature_bits :: "64 word option"

definition pki_require_signing_options_profile ::
  "http_env \<Rightarrow> client \<Rightarrow> string list \<Rightarrow> unit sent" where
  "pki_require_signing_options_profile env cl mount =
     (let OPTIONS = field_since ''pki.signing'' ''signing_options'' (OpenBaoVersion 2 7 0) in
     pure (client_validate_fields env [(OPTIONS, True)]))"

record 'a authority_payload =
  authority_payload_request :: "'a"
  authority_payload_signature :: pki_signature_options
  authority_payload_external_key_ref :: "string option"

definition pki_generate_root_signed ::
  "http_env \<Rightarrow> client \<Rightarrow>
   (string \<Rightarrow> 'a response_envelope option) \<Rightarrow>
   (pki_generate_root_request authority_payload \<Rightarrow> payload) \<Rightarrow>
   string list \<Rightarrow> string list \<Rightarrow> pki_authority_key_source \<Rightarrow>
   pki_generate_root_request \<Rightarrow> pki_signature_options \<Rightarrow> 'a sent" where
  "pki_generate_root_signed env cl from_json to_json mount pre source request signature =
     sbind (pure (pki_validate_private_key_output_format (pki_generate_root_request_format
       request) (source = PkiAuthorityKeySource_Exported))) (\<lambda>_.
     sbind (pure (pki_authority_key_source_validate source (pki_generate_root_request_key_type
       request) (pki_generate_root_request_key_bits request) (pki_generate_root_request_key_ref
       request) (pki_generate_root_request_private_key_format request))) (\<lambda>_.
     sbind (pki_require_signing_options_profile env cl mount) (\<lambda>_.
     sbind (pki_validate_pki_key_algorithm env cl mount (pki_generate_root_request_key_type
       request) (pki_generate_root_request_key_bits request)) (\<lambda>_.
     sbind (pki_validate_authority_request_fields env cl mount
       (pki_generate_root_request_not_before request \<noteq> None)) (\<lambda>_.
     let parts = pre in
     let parts = parts @ [pki_authority_key_source_segment source] in
     sbind (pure (pki_path mount parts)) (\<lambda>p.
     pki_enveloped env cl from_json mount ''POST'' p (Some (to_json
       \<lparr>authority_payload_request = request, authority_payload_signature = signature,
       authority_payload_external_key_ref = pki_authority_key_source_reference source\<rparr>))))))))"

definition pki_generate_intermediate_signed ::
  "http_env \<Rightarrow> client \<Rightarrow>
   (string \<Rightarrow> 'a response_envelope option) \<Rightarrow>
   (pki_generate_intermediate_request authority_payload \<Rightarrow> payload) \<Rightarrow>
   string list \<Rightarrow> string list \<Rightarrow> pki_authority_key_source \<Rightarrow>
   pki_generate_intermediate_request \<Rightarrow> pki_signature_options \<Rightarrow>
   'a sent" where
  "pki_generate_intermediate_signed env cl from_json to_json mount parts source request
    signature =
     sbind (pure (pki_validate_private_key_output_format
       (pki_generate_intermediate_request_format request) (source =
       PkiAuthorityKeySource_Exported))) (\<lambda>_.
     sbind (pure (pki_authority_key_source_validate source
       (pki_generate_intermediate_request_key_type request)
       (pki_generate_intermediate_request_key_bits request)
       (pki_generate_intermediate_request_key_ref request)
       (pki_generate_intermediate_request_private_key_format request))) (\<lambda>_.
     sbind (pki_require_signing_options_profile env cl mount) (\<lambda>_.
     sbind (pki_validate_pki_key_algorithm env cl mount
       (pki_generate_intermediate_request_key_type request)
       (pki_generate_intermediate_request_key_bits request)) (\<lambda>_.
     sbind (pki_validate_authority_request_fields env cl mount
       (pki_generate_intermediate_request_not_before request \<noteq> None)) (\<lambda>_.
     sbind (pure (pki_path mount parts)) (\<lambda>p.
     pki_enveloped env cl from_json mount ''POST'' p (Some (to_json
       \<lparr>authority_payload_request = request, authority_payload_signature = signature,
       authority_payload_external_key_ref = pki_authority_key_source_reference source\<rparr>))))))))"

definition pki_generate_root_with_signature_options ::
  "http_env \<Rightarrow> client \<Rightarrow>
   (string \<Rightarrow> 'a response_envelope option) \<Rightarrow>
   (pki_generate_root_request authority_payload \<Rightarrow> payload) \<Rightarrow>
   string list \<Rightarrow> pki_authority_key_source \<Rightarrow>
   pki_generate_root_request \<Rightarrow> pki_signature_options \<Rightarrow> 'a sent" where
  "pki_generate_root_with_signature_options env cl from_json to_json mount source request
    signature =
     pki_generate_root_signed env cl from_json to_json mount [''root'', ''generate''] source
       request signature"

definition pki_generate_issuer_root_with_signature_options ::
  "http_env \<Rightarrow> client \<Rightarrow>
   (string \<Rightarrow> 'a response_envelope option) \<Rightarrow>
   (pki_generate_root_request authority_payload \<Rightarrow> payload) \<Rightarrow>
   string list \<Rightarrow> pki_authority_key_source \<Rightarrow>
   pki_generate_root_request \<Rightarrow> pki_signature_options \<Rightarrow> 'a sent" where
  "pki_generate_issuer_root_with_signature_options env cl from_json to_json mount source
    request signature =
     pki_generate_root_signed env cl from_json to_json mount [''issuers'', ''generate'',
       ''root''] source request signature"

definition pki_rotate_root_with_signature_options ::
  "http_env \<Rightarrow> client \<Rightarrow>
   (string \<Rightarrow> 'a response_envelope option) \<Rightarrow>
   (pki_generate_root_request authority_payload \<Rightarrow> payload) \<Rightarrow>
   string list \<Rightarrow> pki_authority_key_source \<Rightarrow>
   pki_generate_root_request \<Rightarrow> pki_signature_options \<Rightarrow> 'a sent" where
  "pki_rotate_root_with_signature_options env cl from_json to_json mount source request
    signature =
     pki_generate_root_signed env cl from_json to_json mount [''root'', ''rotate''] source
       request signature"

definition pki_generate_intermediate_with_signature_options ::
  "http_env \<Rightarrow> client \<Rightarrow>
   (string \<Rightarrow> 'a response_envelope option) \<Rightarrow>
   (pki_generate_intermediate_request authority_payload \<Rightarrow> payload) \<Rightarrow>
   string list \<Rightarrow> pki_authority_key_source \<Rightarrow>
   pki_generate_intermediate_request \<Rightarrow> pki_signature_options \<Rightarrow>
   'a sent" where
  "pki_generate_intermediate_with_signature_options env cl from_json to_json mount source
    request signature =
     pki_generate_intermediate_signed env cl from_json to_json mount [''intermediate'',
       ''generate'', pki_authority_key_source_segment source] source request signature"

definition pki_generate_issuer_intermediate_with_signature_options ::
  "http_env \<Rightarrow> client \<Rightarrow>
   (string \<Rightarrow> 'a response_envelope option) \<Rightarrow>
   (pki_generate_intermediate_request authority_payload \<Rightarrow> payload) \<Rightarrow>
   string list \<Rightarrow> pki_authority_key_source \<Rightarrow>
   pki_generate_intermediate_request \<Rightarrow> pki_signature_options \<Rightarrow>
   'a sent" where
  "pki_generate_issuer_intermediate_with_signature_options env cl from_json to_json mount
    source request signature =
     pki_generate_intermediate_signed env cl from_json to_json mount [''issuers'',
       ''generate'', ''intermediate'', pki_authority_key_source_segment source] source request
       signature"

definition pki_sign_intermediate_with_signature_options ::
  "http_env \<Rightarrow> client \<Rightarrow>
   (string \<Rightarrow> 'a response_envelope option) \<Rightarrow>
   (pki_sign_intermediate_request authority_payload \<Rightarrow> payload) \<Rightarrow>
   string list \<Rightarrow> pki_sign_intermediate_request \<Rightarrow>
   pki_signature_options \<Rightarrow> 'a sent" where
  "pki_sign_intermediate_with_signature_options env cl from_json to_json mount request
    signature =
     sbind (pki_require_signing_options_profile env cl mount) (\<lambda>_.
     sbind (pure (pki_path mount [''root'', ''sign-intermediate''])) (\<lambda>p.
     pki_enveloped env cl from_json mount ''POST'' p (Some (to_json
       \<lparr>authority_payload_request = request, authority_payload_signature = signature,
       authority_payload_external_key_ref = None\<rparr>))))"

definition pki_sign_intermediate_with_issuer_and_signature_options ::
  "http_env \<Rightarrow> client \<Rightarrow>
   (string \<Rightarrow> 'a response_envelope option) \<Rightarrow>
   (pki_sign_intermediate_request authority_payload \<Rightarrow> payload) \<Rightarrow>
   string list \<Rightarrow> string \<Rightarrow> pki_sign_intermediate_request \<Rightarrow>
   pki_signature_options \<Rightarrow> 'a sent" where
  "pki_sign_intermediate_with_issuer_and_signature_options env cl from_json to_json mount
    issuer_ref request signature =
     sbind (pure (pki_path mount [''issuer'', issuer_ref, ''sign-intermediate'']))
       (\<lambda>path.
     sbind (pki_require_signing_options_profile env cl mount) (\<lambda>_.
     pki_enveloped env cl from_json mount ''POST'' path (Some (to_json
       \<lparr>authority_payload_request = request, authority_payload_signature = signature,
       authority_payload_external_key_ref = None\<rparr>))))"

definition pki_cross_sign_intermediate_csr ::
  "http_env \<Rightarrow> client \<Rightarrow>
   (string \<Rightarrow> 'a response_envelope option) \<Rightarrow>
   (pki_generate_intermediate_request authority_payload \<Rightarrow> payload) \<Rightarrow>
   string list \<Rightarrow> pki_generate_intermediate_request \<Rightarrow>
   pki_signature_options \<Rightarrow> 'a sent" where
  "pki_cross_sign_intermediate_csr env cl from_json to_json mount request signature =
     pki_generate_intermediate_signed env cl from_json to_json mount [''intermediate'',
       ''cross-sign''] PkiAuthorityKeySource_Existing request signature"

definition pki_signature_options_with_pss ::
  "pki_signature_options \<Rightarrow> bool \<Rightarrow> pki_signature_options" where
  "pki_signature_options_with_pss self enabled =
     self\<lparr>pki_signature_options_use_pss := Some enabled\<rparr>"

definition pki_signature_options_with_signature_bits ::
  "pki_signature_options \<Rightarrow> 64 word \<Rightarrow> pki_signature_options res" where
  "pki_signature_options_with_signature_bits self bits_v =
     (if \<not> (bits_v = 0 \<or> bits_v = 256 \<or> bits_v = 384 \<or> bits_v = 512) then Inl
       (InvalidParameter ''PKI signature_bits must be 0, 256, 384 or 512'')
        else Inr (self\<lparr>pki_signature_options_signature_bits := Some bits_v\<rparr>))"

record pki_role_signing_options =
  pki_role_signing_options_signature :: pki_signature_options
  pki_role_signing_options_allow_globs_in_identity_templates :: "bool option"

definition pki_role_signing_options_new ::
  "pki_signature_options \<Rightarrow> pki_role_signing_options" where
  "pki_role_signing_options_new signature =
     \<lparr>pki_role_signing_options_signature = signature,
       pki_role_signing_options_allow_globs_in_identity_templates = None\<rparr>"

definition pki_role_signing_options_with_identity_template_globs ::
  "pki_role_signing_options \<Rightarrow> unit \<Rightarrow> pki_role_signing_options" where
  "pki_role_signing_options_with_identity_template_globs self ack =
     self\<lparr>pki_role_signing_options_allow_globs_in_identity_templates := Some
       True\<rparr>"

record pki_issuance_key =
  pki_issuance_key_key_type :: string
  pki_issuance_key_key_bits :: "64 word"

definition pki_issuance_key_rsa :: "64 word \<Rightarrow> pki_issuance_key res" where
  "pki_issuance_key_rsa bits_v =
     (if \<not> (bits_v = 0 \<or> bits_v = 2048 \<or> bits_v = 3072 \<or> bits_v = 4096 \<or>
       bits_v = 8192) then Inl (InvalidParameter ''invalid PKI RSA key size'')
        else Inr \<lparr>pki_issuance_key_key_type = ''rsa'',
          pki_issuance_key_key_bits = bits_v\<rparr>)"

definition pki_issuance_key_ec :: "64 word \<Rightarrow> pki_issuance_key res" where
  "pki_issuance_key_ec bits_v =
     (if \<not> (bits_v = 0 \<or> bits_v = 224 \<or> bits_v = 256 \<or> bits_v = 384 \<or>
       bits_v = 521) then Inl (InvalidParameter ''invalid PKI EC key size'')
        else Inr \<lparr>pki_issuance_key_key_type = ''ec'',
          pki_issuance_key_key_bits = bits_v\<rparr>)"

definition pki_issuance_key_ed25519 :: pki_issuance_key where
  "pki_issuance_key_ed25519 =
     \<lparr>pki_issuance_key_key_type = ''ed25519'', pki_issuance_key_key_bits = 0\<rparr>"

datatype pki_mldsa_parameter_set =
    PkiMldsaParameterSet_MlDsa44 | PkiMldsaParameterSet_MlDsa65 | PkiMldsaParameterSet_MlDsa87

definition pki_mldsa_parameter_set_key_bits :: "pki_mldsa_parameter_set \<Rightarrow> 64 word" where
  "pki_mldsa_parameter_set_key_bits self =
     (case self of
        PkiMldsaParameterSet_MlDsa44 \<Rightarrow> 44
      | PkiMldsaParameterSet_MlDsa65 \<Rightarrow> 65
      | PkiMldsaParameterSet_MlDsa87 \<Rightarrow> 87)"

definition pki_issuance_key_mldsa :: "pki_mldsa_parameter_set \<Rightarrow> pki_issuance_key" where
  "pki_issuance_key_mldsa parameters =
     \<lparr>pki_issuance_key_key_type = ''mldsa'',
       pki_issuance_key_key_bits = pki_mldsa_parameter_set_key_bits parameters\<rparr>"

definition pki_validate_role_signing_options ::
  "http_env \<Rightarrow> client \<Rightarrow> string list \<Rightarrow>
   pki_role \<Rightarrow> pki_role_signing_options \<Rightarrow> unit sent" where
  "pki_validate_role_signing_options env cl mount role options_v =
     sbind (pki_require_signing_options_profile env cl mount) (\<lambda>_.
     sbind (pki_validate_role_request_fields env cl mount role) (\<lambda>_.
     sbind (pure (client_validate_fields env [(PKI_ROLE_ALLOW_TEMPLATE_GLOBS,
       pki_role_signing_options_allow_globs_in_identity_templates options_v \<noteq> None)]))
       (\<lambda>_.
     pure (Inr ()))))"

record role_payload =
  role_payload_role :: pki_role
  role_payload_options :: pki_role_signing_options

definition pki_write_role_with_signing_options ::
  "http_env \<Rightarrow> client \<Rightarrow>
   (string \<Rightarrow> unit option) \<Rightarrow>
   (role_payload \<Rightarrow> payload) \<Rightarrow> string list \<Rightarrow>
   string \<Rightarrow> pki_role \<Rightarrow> pki_role_signing_options \<Rightarrow>
   unit sent" where
  "pki_write_role_with_signing_options env cl from_json to_json mount name role opts =
     sbind (pure (pki_path mount [''roles'', name])) (\<lambda>path.
     sbind (pki_validate_role_signing_options env cl mount role opts) (\<lambda>_.
     pki_request env cl from_json mount ''POST'' path (Some (to_json
       \<lparr>role_payload_role = role, role_payload_options = opts\<rparr>))))"

definition pki_patch_role_with_signing_options ::
  "http_env \<Rightarrow> client \<Rightarrow>
   (string \<Rightarrow> 'a response_envelope option) \<Rightarrow>
   (role_payload \<Rightarrow> payload) \<Rightarrow> string list \<Rightarrow>
   string \<Rightarrow> pki_role \<Rightarrow> pki_role_signing_options \<Rightarrow> 'a sent" where
  "pki_patch_role_with_signing_options env cl from_json to_json mount name role opts =
     sbind (pure (pki_path mount [''roles'', name])) (\<lambda>path.
     sbind (pki_validate_role_signing_options env cl mount role opts) (\<lambda>_.
     pki_enveloped_with_headers env cl from_json mount ''PATCH'' path merge_patch (Some
       (to_json \<lparr>role_payload_role = role, role_payload_options = opts\<rparr>))))"

definition pki_read_role_signing_details ::
  "http_env \<Rightarrow> client \<Rightarrow>
   (string \<Rightarrow> 'a response_envelope option) \<Rightarrow> string list \<Rightarrow>
   string \<Rightarrow> 'a sent" where
  "pki_read_role_signing_details env cl from_json mount name =
     sbind (pure (pki_path mount [''roles'', name])) (\<lambda>p.
     pki_enveloped env cl from_json mount ''GET'' p None)"

record issue_payload =
  issue_payload_request :: pki_issue_request
  issue_payload_key :: pki_issuance_key

definition pki_issue_with_key ::
  "http_env \<Rightarrow> client \<Rightarrow>
   (string \<Rightarrow> 'a response_envelope option) \<Rightarrow>
   (issue_payload \<Rightarrow> payload) \<Rightarrow> string list \<Rightarrow>
   string \<Rightarrow> pki_issue_request \<Rightarrow> pki_issuance_key \<Rightarrow>
   'a sent" where
  "pki_issue_with_key env cl from_json to_json mount role request key =
     sbind (pure (pki_validate_private_key_output_format (pki_issue_request_format request)
       True)) (\<lambda>_.
     sbind (pure (pki_path mount [''issue'', role])) (\<lambda>path.
     sbind (pki_require_signing_options_profile env cl mount) (\<lambda>_.
     pki_enveloped env cl from_json mount ''POST'' path (Some (to_json
       \<lparr>issue_payload_request = request, issue_payload_key = key\<rparr>)))))"

definition pki_issue_with_issuer_and_key ::
  "http_env \<Rightarrow> client \<Rightarrow>
   (string \<Rightarrow> 'a response_envelope option) \<Rightarrow>
   (issue_payload \<Rightarrow> payload) \<Rightarrow> string list \<Rightarrow>
   string \<Rightarrow> string \<Rightarrow> pki_issue_request \<Rightarrow>
   pki_issuance_key \<Rightarrow> 'a sent" where
  "pki_issue_with_issuer_and_key env cl from_json to_json mount issuer_ref role request key =
     sbind (pure (pki_validate_private_key_output_format (pki_issue_request_format request)
       True)) (\<lambda>_.
     sbind (pure (pki_path mount [''issuer'', issuer_ref, ''issue'', role])) (\<lambda>path.
     sbind (pki_require_signing_options_profile env cl mount) (\<lambda>_.
     pki_enveloped env cl from_json mount ''POST'' path (Some (to_json
       \<lparr>issue_payload_request = request, issue_payload_key = key\<rparr>)))))"

record 'a cel_payload =
  cel_payload_request :: "'a"
  cel_payload_signature :: pki_signature_options
  cel_payload_key :: "pki_issuance_key option"

definition pki_cel_issue_with_options ::
  "http_env \<Rightarrow> client \<Rightarrow>
   (string \<Rightarrow> 'a response_envelope option) \<Rightarrow>
   (pki_issue_request cel_payload \<Rightarrow> payload) \<Rightarrow>
   string list \<Rightarrow> string \<Rightarrow> pki_issue_request \<Rightarrow>
   pki_issuance_key option \<Rightarrow> pki_signature_options \<Rightarrow> 'a sent" where
  "pki_cel_issue_with_options env cl from_json to_json mount role request key signature =
     sbind (pure (pki_path mount [''cel'', ''issue'', role])) (\<lambda>path.
     sbind (pki_require_signing_options_profile env cl mount) (\<lambda>_.
     pki_enveloped env cl from_json mount ''POST'' path (Some (to_json
       \<lparr>cel_payload_request = request, cel_payload_signature = signature,
       cel_payload_key = key\<rparr>))))"

definition pki_cel_sign_with_signature_options ::
  "http_env \<Rightarrow> client \<Rightarrow>
   (string \<Rightarrow> 'a response_envelope option) \<Rightarrow>
   (pki_sign_request cel_payload \<Rightarrow> payload) \<Rightarrow>
   string list \<Rightarrow> string \<Rightarrow> pki_sign_request \<Rightarrow>
   pki_signature_options \<Rightarrow> 'a sent" where
  "pki_cel_sign_with_signature_options env cl from_json to_json mount role request signature =
     sbind (pure (pki_path mount [''cel'', ''sign'', role])) (\<lambda>path.
     sbind (pki_require_signing_options_profile env cl mount) (\<lambda>_.
     pki_enveloped env cl from_json mount ''POST'' path (Some (to_json
       \<lparr>cel_payload_request = request, cel_payload_signature = signature,
       cel_payload_key = None\<rparr>))))"

definition pki_external_key_reference_new ::
  "string \<Rightarrow> string \<Rightarrow> string res" where
  "pki_external_key_reference_new config key =
     rbind (each (\<lambda>name. let word = (\<lambda>byte_v. is_ascii_alphanumeric byte_v
       \<or> byte_v = CHR ''_'') in
     (if ((256 < length name \<or> (\<not> (is_some_and word (if name = [] then None else Some
       (hd name))))) \<or> (\<not> (is_some_and word (if name = [] then None else Some (last
       name))))) \<or> (\<not> (list_all (\<lambda>byte_v. word byte_v \<or> (byte_v = CHR
       ''-'' \<or> byte_v = CHR ''.'')) name)) then Inl (InvalidParameter
       ''invalid bounded PKI external-key registry name'')
        else Inr ())) [config, key]) (\<lambda>_.
     Inr (config @ '':'' @ key))"

definition pki_external_key_reference_as_str :: "string \<Rightarrow> string" where
  "pki_external_key_reference_as_str self = self"

record 'a kms_payload =
  kms_payload_request :: "'a"
  kms_payload_external_key_ref :: string

definition pki_root_kms_payload ::
  "pki_generate_root_request \<Rightarrow> string \<Rightarrow>
   pki_generate_root_request kms_payload res" where
  "pki_root_kms_payload request reference =
     rbind (pki_validate_kms_fields (pki_generate_root_request_key_type request)
       (pki_generate_root_request_key_bits request) (pki_generate_root_request_key_ref request)
       (pki_generate_root_request_private_key_format request)) (\<lambda>_.
     Inr \<lparr>kms_payload_request = request,
       kms_payload_external_key_ref = reference\<rparr>)"

definition pki_intermediate_kms_payload ::
  "pki_generate_intermediate_request \<Rightarrow> string \<Rightarrow>
   pki_generate_intermediate_request kms_payload res" where
  "pki_intermediate_kms_payload request reference =
     rbind (pki_validate_kms_fields (pki_generate_intermediate_request_key_type request)
       (pki_generate_intermediate_request_key_bits request)
       (pki_generate_intermediate_request_key_ref request)
       (pki_generate_intermediate_request_private_key_format request)) (\<lambda>_.
     Inr \<lparr>kms_payload_request = request,
       kms_payload_external_key_ref = reference\<rparr>)"

definition pki_key_kms_payload ::
  "pki_generate_key_request \<Rightarrow> string \<Rightarrow>
   pki_generate_key_request kms_payload res" where
  "pki_key_kms_payload request reference =
     rbind (pki_validate_kms_fields (pki_generate_key_request_key_type request)
       (pki_generate_key_request_key_bits request) None None) (\<lambda>_.
     Inr \<lparr>kms_payload_request = request,
       kms_payload_external_key_ref = reference\<rparr>)"

definition pki_generate_root_request_with_mldsa ::
  "pki_generate_root_request \<Rightarrow> pki_mldsa_parameter_set \<Rightarrow>
   pki_generate_root_request" where
  "pki_generate_root_request_with_mldsa self parameters =
     self\<lparr>pki_generate_root_request_key_type := Some ''mldsa'',
       pki_generate_root_request_key_bits := Some (pki_mldsa_parameter_set_key_bits
       parameters)\<rparr>"

definition pki_generate_intermediate_request_with_mldsa ::
  "pki_generate_intermediate_request \<Rightarrow> pki_mldsa_parameter_set \<Rightarrow>
   pki_generate_intermediate_request" where
  "pki_generate_intermediate_request_with_mldsa self parameters =
     self\<lparr>pki_generate_intermediate_request_key_type := Some ''mldsa'',
       pki_generate_intermediate_request_key_bits := Some (pki_mldsa_parameter_set_key_bits
       parameters)\<rparr>"

definition pki_generate_key_request_with_mldsa ::
  "pki_generate_key_request \<Rightarrow> pki_mldsa_parameter_set \<Rightarrow>
   pki_generate_key_request" where
  "pki_generate_key_request_with_mldsa self parameters =
     self\<lparr>pki_generate_key_request_key_type := Some ''mldsa'',
       pki_generate_key_request_key_bits := Some (pki_mldsa_parameter_set_key_bits
       parameters)\<rparr>"

definition pki_role_with_mldsa ::
  "pki_role \<Rightarrow> pki_mldsa_parameter_set \<Rightarrow> pki_role" where
  "pki_role_with_mldsa self parameters =
     self\<lparr>pki_role_key_type := Some ''mldsa'', pki_role_key_bits := Some
       (pki_mldsa_parameter_set_key_bits parameters)\<rparr>"

definition pki_require_kms_profile ::
  "http_env \<Rightarrow> client \<Rightarrow> string list \<Rightarrow> unit sent" where
  "pki_require_kms_profile env cl mount =
     (let KMS = field_since ''pki.generation'' ''external_key_ref'' (OpenBaoVersion 2 7 0) in
     pure (client_validate_fields env [(KMS, True)]))"

definition pki_generate_root_kms ::
  "http_env \<Rightarrow> client \<Rightarrow>
   (string \<Rightarrow> 'a response_envelope option) \<Rightarrow>
   (pki_generate_root_request kms_payload \<Rightarrow> payload) \<Rightarrow>
   string list \<Rightarrow> string \<Rightarrow> pki_generate_root_request \<Rightarrow>
   'a sent" where
  "pki_generate_root_kms env cl from_json to_json mount reference request =
     sbind (pure (pki_root_kms_payload request reference)) (\<lambda>payload.
     sbind (pki_require_kms_profile env cl mount) (\<lambda>_.
     sbind (pki_validate_authority_request_fields env cl mount
       (pki_generate_root_request_not_before request \<noteq> None)) (\<lambda>_.
     sbind (pure (pki_path mount [''root'', ''generate'', ''kms''])) (\<lambda>p.
     pki_enveloped env cl from_json mount ''POST'' p (Some (to_json payload))))))"

definition pki_generate_issuer_root_kms ::
  "http_env \<Rightarrow> client \<Rightarrow>
   (string \<Rightarrow> 'a response_envelope option) \<Rightarrow>
   (pki_generate_root_request kms_payload \<Rightarrow> payload) \<Rightarrow>
   string list \<Rightarrow> string \<Rightarrow> pki_generate_root_request \<Rightarrow>
   'a sent" where
  "pki_generate_issuer_root_kms env cl from_json to_json mount reference request =
     sbind (pure (pki_root_kms_payload request reference)) (\<lambda>payload.
     sbind (pki_require_kms_profile env cl mount) (\<lambda>_.
     sbind (pki_validate_authority_request_fields env cl mount
       (pki_generate_root_request_not_before request \<noteq> None)) (\<lambda>_.
     sbind (pure (pki_path mount [''issuers'', ''generate'', ''root'', ''kms''])) (\<lambda>p.
     pki_enveloped env cl from_json mount ''POST'' p (Some (to_json payload))))))"

definition pki_rotate_root_kms ::
  "http_env \<Rightarrow> client \<Rightarrow>
   (string \<Rightarrow> 'a response_envelope option) \<Rightarrow>
   (pki_generate_root_request kms_payload \<Rightarrow> payload) \<Rightarrow>
   string list \<Rightarrow> string \<Rightarrow> pki_generate_root_request \<Rightarrow>
   'a sent" where
  "pki_rotate_root_kms env cl from_json to_json mount reference request =
     sbind (pure (pki_root_kms_payload request reference)) (\<lambda>payload.
     sbind (pki_require_kms_profile env cl mount) (\<lambda>_.
     sbind (pki_validate_authority_request_fields env cl mount
       (pki_generate_root_request_not_before request \<noteq> None)) (\<lambda>_.
     sbind (pure (pki_path mount [''root'', ''rotate'', ''kms''])) (\<lambda>p.
     pki_enveloped env cl from_json mount ''POST'' p (Some (to_json payload))))))"

definition pki_generate_intermediate_kms ::
  "http_env \<Rightarrow> client \<Rightarrow>
   (string \<Rightarrow> 'a response_envelope option) \<Rightarrow>
   (pki_generate_intermediate_request kms_payload \<Rightarrow> payload) \<Rightarrow>
   string list \<Rightarrow> string \<Rightarrow>
   pki_generate_intermediate_request \<Rightarrow> 'a sent" where
  "pki_generate_intermediate_kms env cl from_json to_json mount reference request =
     sbind (pure (pki_intermediate_kms_payload request reference)) (\<lambda>payload.
     sbind (pki_require_kms_profile env cl mount) (\<lambda>_.
     sbind (pki_validate_authority_request_fields env cl mount
       (pki_generate_intermediate_request_not_before request \<noteq> None)) (\<lambda>_.
     sbind (pure (pki_path mount [''intermediate'', ''generate'', ''kms''])) (\<lambda>p.
     pki_enveloped env cl from_json mount ''POST'' p (Some (to_json payload))))))"

definition pki_generate_issuer_intermediate_kms ::
  "http_env \<Rightarrow> client \<Rightarrow>
   (string \<Rightarrow> 'a response_envelope option) \<Rightarrow>
   (pki_generate_intermediate_request kms_payload \<Rightarrow> payload) \<Rightarrow>
   string list \<Rightarrow> string \<Rightarrow>
   pki_generate_intermediate_request \<Rightarrow> 'a sent" where
  "pki_generate_issuer_intermediate_kms env cl from_json to_json mount reference request =
     sbind (pure (pki_intermediate_kms_payload request reference)) (\<lambda>payload.
     sbind (pki_require_kms_profile env cl mount) (\<lambda>_.
     sbind (pki_validate_authority_request_fields env cl mount
       (pki_generate_intermediate_request_not_before request \<noteq> None)) (\<lambda>_.
     sbind (pure (pki_path mount [''issuers'', ''generate'', ''intermediate'', ''kms'']))
       (\<lambda>p.
     pki_enveloped env cl from_json mount ''POST'' p (Some (to_json payload))))))"

definition pki_generate_key_kms ::
  "http_env \<Rightarrow> client \<Rightarrow>
   (string \<Rightarrow> 'a response_envelope option) \<Rightarrow>
   (pki_generate_key_request kms_payload \<Rightarrow> payload) \<Rightarrow>
   string list \<Rightarrow> string \<Rightarrow> pki_generate_key_request \<Rightarrow>
   'a sent" where
  "pki_generate_key_kms env cl from_json to_json mount reference request =
     sbind (pure (pki_key_kms_payload request reference)) (\<lambda>payload.
     sbind (pki_require_kms_profile env cl mount) (\<lambda>_.
     sbind (pure (pki_path mount [''keys'', ''generate'', ''kms''])) (\<lambda>p.
     pki_enveloped env cl from_json mount ''POST'' p (Some (to_json payload)))))"

section \<open>The routes of the engine\<close>

lemma pki_path_handle: "pki_path mount tail = handle_path mount tail"
  unfolding pki_path_def handle_path_def Let_def
  by (simp add: rfold_segments rmap_rbind)

interpretation pki: mounted_engine pki_path pki_request
  by unfold_locales (simp_all add: pki_path_handle pki_request_def Let_def sends_secret secret_json_safe)

named_theorems pki_paths
named_theorems pki_calls

lemmas [pki_paths] = pki.path_at

lemma pki_validate_authority_request_fields_silent [silent_intros]: "silent (pki_validate_authority_request_fields env cl mount not_before_is_set)"
  by (auto simp: pki_validate_authority_request_fields_def Let_def intro!: silent_intros split: option.splits)

lemma pki_validate_pki_key_algorithm_silent [silent_intros]: "silent (pki_validate_pki_key_algorithm env cl mount key_type key_bits)"
  by (auto simp: pki_validate_pki_key_algorithm_def Let_def intro!: silent_intros split: option.splits)

lemma pki_validate_role_request_fields_silent [silent_intros]: "silent (pki_validate_role_request_fields env cl mount role)"
  by (auto simp: pki_validate_role_request_fields_def Let_def intro!: silent_intros split: option.splits)

lemma pki_validate_sign_verbatim_request_fields_silent [silent_intros]: "silent (pki_validate_sign_verbatim_request_fields env cl mount request)"
  by (auto simp: pki_validate_sign_verbatim_request_fields_def Let_def intro!: silent_intros split: option.splits)

lemma pki_request_at [pki_calls]:
  "list_all safe_segment mount \<Longrightarrow> path_at mount parts path \<Longrightarrow>
   at_route env cl verb mount parts (pki_request env cl from_json mount verb path body_v)"
  by (rule pki.request_at)

lemma pki_enveloped_at [pki_calls]:
  "list_all safe_segment mount \<Longrightarrow> path_at mount parts path \<Longrightarrow>
   at_route env cl verb mount parts (pki_enveloped env cl from_json mount verb path request)"
  by (auto simp: pki_enveloped_def Let_def rbind_Inr_iff intro!: at_intros at_requests pki_calls
      intro: pki_paths silent_intros split: option.splits)

lemma pki_request_accepting_at [pki_calls]:
  "list_all safe_segment mount \<Longrightarrow> path_at mount parts path \<Longrightarrow>
   at_route env cl verb mount parts
     (pki_request_accepting env cl from_json mount verb path body_v accepted_statuses)"
  by (auto simp: pki_request_accepting_def Let_def rbind_Inr_iff intro!: at_intros at_requests pki_calls
      intro: pki_paths silent_intros split: option.splits)

lemma pki_request_query_headers_at [pki_calls]:
  "list_all safe_segment mount \<Longrightarrow> path_at mount parts path \<Longrightarrow>
   at_route env cl verb mount parts
     (pki_request_query_headers env cl from_json mount verb path query headers body_v
       accepted_statuses)"
  by (auto simp: pki_request_query_headers_def Let_def rbind_Inr_iff intro!: at_intros at_requests pki_calls
      intro: pki_paths silent_intros split: option.splits)

lemma pki_enveloped_with_headers_at [pki_calls]:
  "list_all safe_segment mount \<Longrightarrow> path_at mount parts path \<Longrightarrow>
   at_route env cl verb mount parts
     (pki_enveloped_with_headers env cl from_json mount verb path headers request)"
  by (auto simp: pki_enveloped_with_headers_def Let_def rbind_Inr_iff intro!: at_intros at_requests pki_calls
      intro: pki_paths silent_intros split: option.splits)

lemma pki_request_query_at [pki_calls]:
  "list_all safe_segment mount \<Longrightarrow> path_at mount parts path \<Longrightarrow>
   at_route env cl verb mount parts
     (pki_request_query env cl from_json mount verb path query body_v accepted_statuses)"
  by (auto simp: pki_request_query_def Let_def rbind_Inr_iff intro!: at_intros at_requests pki_calls
      intro: pki_paths silent_intros split: option.splits)

lemma pki_require_signing_options_profile_silent [silent_intros]: "silent (pki_require_signing_options_profile env cl mount)"
  by (auto simp: pki_require_signing_options_profile_def Let_def intro!: silent_intros split: option.splits)

lemma pki_validate_role_signing_options_silent [silent_intros]: "silent (pki_validate_role_signing_options env cl mount role options_v)"
  by (auto simp: pki_validate_role_signing_options_def Let_def intro!: silent_intros split: option.splits)

lemma pki_require_kms_profile_silent [silent_intros]: "silent (pki_require_kms_profile env cl mount)"
  by (auto simp: pki_require_kms_profile_def Let_def intro!: silent_intros split: option.splits)

lemma pki_root_routes [pki_calls]:
  assumes "list_all safe_segment mount"
  shows "at_route env cl ''POST'' mount [''root'', ''generate'',
          pki_key_generation_type_as_path_segment generation_type]
        (pki_generate_root env cl fj tj mount generation_type request)"
    and "at_route env cl ''POST'' mount [''root'', ''rotate'',
          pki_key_generation_type_as_path_segment generation_type]
        (pki_rotate_root env cl fj tj mount generation_type request)"
    and "at_route env cl ''POST'' mount [''root'', ''replace'']
        (pki_replace_root env cl fj tj2 mount config)"
    and "at_route env cl ''DELETE'' mount [''root''] (pki_delete_root env cl fj2 mount confirmation)"
    and "at_route env cl ''POST'' mount [''root'', ''sign-intermediate'']
        (pki_sign_intermediate env cl fj tj3 mount request2)"
    and "at_route env cl ''POST'' mount [''root'', ''sign-self-issued'']
        (pki_sign_self_issued env cl fj tj4 mount request3)"
    and "at_route env cl ''POST'' mount [''root'', ''generate'', pki_authority_key_source_segment
          source]
        (pki_generate_root_with_signature_options env cl fj tj5 mount source request signature)"
    and "at_route env cl ''POST'' mount [''root'', ''rotate'', pki_authority_key_source_segment
          source]
        (pki_rotate_root_with_signature_options env cl fj tj5 mount source request signature)"
    and "at_route env cl ''POST'' mount [''root'', ''sign-intermediate'']
        (pki_sign_intermediate_with_signature_options env cl fj tj6 mount request2 signature)"
    and "at_route env cl ''POST'' mount [''root'', ''generate'', ''kms'']
        (pki_generate_root_kms env cl fj tj7 mount reference request)"
    and "at_route env cl ''POST'' mount [''root'', ''rotate'', ''kms'']
        (pki_rotate_root_kms env cl fj tj7 mount reference request)"
  unfolding pki_generate_root_def pki_rotate_root_def pki_replace_root_def pki_delete_root_def
      pki_sign_intermediate_def pki_sign_self_issued_def
      pki_generate_root_with_signature_options_def pki_rotate_root_with_signature_options_def
      pki_sign_intermediate_with_signature_options_def pki_generate_root_kms_def
      pki_rotate_root_kms_def pki_generate_root_signed_def
  by (use assms in \<open>auto simp: Let_def rbind_Inr_iff
      split: pki_public_format.splits
      intro!: at_intros at_requests pki_calls at_silent_bind intro: pki_paths at_after silent_intros split: option.splits\<close>)

lemma pki_issuers_routes [pki_calls]:
  assumes "list_all safe_segment mount"
  shows "at_route env cl ''POST'' mount [''issuers'', ''generate'', ''root'',
          pki_key_generation_type_as_path_segment generation_type]
        (pki_generate_issuer_root env cl fj tj mount generation_type request)"
    and "at_route env cl ''POST'' mount [''issuers'', ''generate'', ''intermediate'',
          pki_key_generation_type_as_path_segment generation_type]
        (pki_generate_issuer_intermediate env cl fj tj2 mount generation_type request2)"
    and "at_route env cl ''LIST'' mount [''issuers''] (pki_list_issuers env cl fj mount)"
    and "at_route env cl ''POST'' mount [''issuers'', ''import'', ''bundle'']
        (pki_import_issuer_bundle env cl fj tj3 mount pem_bundle)"
    and "at_route env cl ''POST'' mount [''issuers'', ''import'', ''cert'']
        (pki_import_issuer_certificates env cl fj tj3 mount pem_bundle)"
    and "at_route env cl ''POST'' mount [''issuers'', ''generate'', ''root'',
          pki_authority_key_source_segment source]
        (pki_generate_issuer_root_with_signature_options env cl fj tj4 mount source request
          signature)"
    and "at_route env cl ''POST'' mount [''issuers'', ''generate'', ''intermediate'',
          pki_authority_key_source_segment source]
        (pki_generate_issuer_intermediate_with_signature_options env cl fj tj5 mount source
          request2 signature)"
    and "at_route env cl ''POST'' mount [''issuers'', ''generate'', ''root'', ''kms'']
        (pki_generate_issuer_root_kms env cl fj tj6 mount reference request)"
    and "at_route env cl ''POST'' mount [''issuers'', ''generate'', ''intermediate'', ''kms'']
        (pki_generate_issuer_intermediate_kms env cl fj tj7 mount reference request2)"
  unfolding pki_generate_issuer_root_def pki_generate_issuer_intermediate_def pki_list_issuers_def
      pki_import_issuer_bundle_def pki_import_issuer_certificates_def
      pki_generate_issuer_root_with_signature_options_def
      pki_generate_issuer_intermediate_with_signature_options_def pki_generate_issuer_root_kms_def
      pki_generate_issuer_intermediate_kms_def pki_generate_root_signed_def
      pki_generate_intermediate_signed_def
  by (use assms in \<open>auto simp: Let_def rbind_Inr_iff
      split: pki_public_format.splits
      intro!: at_intros at_requests pki_calls at_silent_bind intro: pki_paths at_after silent_intros split: option.splits\<close>)

lemma pki_keys_routes [pki_calls]:
  assumes "list_all safe_segment mount"
  shows "at_route env cl ''POST'' mount [''keys'', ''generate'',
          pki_key_generation_type_as_path_segment generation_type]
        (pki_generate_key env cl fj tj mount generation_type request)"
    and "at_route env cl ''LIST'' mount [''keys''] (pki_list_keys env cl fj mount)"
    and "at_route env cl ''POST'' mount [''keys'', ''import'']
        (pki_import_key env cl fj tj2 mount pem_bundle key_name)"
    and "at_route env cl ''POST'' mount [''keys'', ''generate'', ''kms'']
        (pki_generate_key_kms env cl fj tj3 mount reference request)"
  unfolding pki_generate_key_def pki_list_keys_def pki_import_key_def pki_generate_key_kms_def
  by (use assms in \<open>auto simp: Let_def rbind_Inr_iff
      split: pki_public_format.splits
      intro!: at_intros at_requests pki_calls at_silent_bind intro: pki_paths at_after silent_intros split: option.splits\<close>)

lemma pki_intermediate_routes [pki_calls]:
  assumes "list_all safe_segment mount"
  shows "at_route env cl ''POST'' mount [''intermediate'', ''generate'',
          pki_key_generation_type_as_path_segment generation_type]
        (pki_generate_intermediate env cl fj tj mount generation_type request)"
    and "at_route env cl ''POST'' mount [''intermediate'', ''cross-sign'']
        (pki_cross_sign_intermediate env cl fj tj2 mount request2)"
    and "at_route env cl ''POST'' mount [''intermediate'', ''set-signed'']
        (pki_set_signed_intermediate env cl fj2 tj3 mount request3)"
    and "at_route env cl ''POST'' mount [''intermediate'', ''generate'',
          pki_authority_key_source_segment source]
        (pki_generate_intermediate_with_signature_options env cl fj tj4 mount source request
          signature)"
    and "at_route env cl ''POST'' mount [''intermediate'', ''cross-sign'']
        (pki_cross_sign_intermediate_csr env cl fj tj4 mount request signature)"
    and "at_route env cl ''POST'' mount [''intermediate'', ''generate'', ''kms'']
        (pki_generate_intermediate_kms env cl fj tj5 mount reference request)"
  unfolding pki_generate_intermediate_def pki_cross_sign_intermediate_def pki_set_signed_intermediate_def
      pki_generate_intermediate_with_signature_options_def pki_cross_sign_intermediate_csr_def
      pki_generate_intermediate_kms_def pki_generate_intermediate_signed_def
  by (use assms in \<open>auto simp: Let_def rbind_Inr_iff
      split: pki_public_format.splits
      intro!: at_intros at_requests pki_calls at_silent_bind intro: pki_paths at_after silent_intros split: option.splits\<close>)

lemma pki_issuer_1_routes [pki_calls]:
  assumes "list_all safe_segment mount"
  shows "at_route env cl ''POST'' mount [''issuer'', issuer_ref, ''sign-intermediate'']
        (pki_sign_intermediate_with_issuer env cl fj tj mount issuer_ref request)"
    and "at_route env cl ''POST'' mount [''issuer'', issuer_ref, ''sign-self-issued'']
        (pki_sign_self_issued_with_issuer env cl fj tj2 mount issuer_ref request2)"
    and "at_route env cl ''POST'' mount [''issuer'', issuer_ref, ''issue'', role]
        (pki_issue_with_issuer env cl fj tj3 mount issuer_ref role request3)"
    and "at_route env cl ''POST'' mount [''issuer'', issuer_ref, ''sign'', role]
        (pki_sign_with_issuer env cl fj tj4 mount issuer_ref role request4)"
    and "at_route env cl ''POST'' mount [''issuer'', issuer_ref, ''sign-verbatim'']
        (pki_sign_verbatim_with_issuer env cl fj tj5 mount issuer_ref request5)"
    and "at_route env cl ''POST'' mount [''issuer'', issuer_ref, ''sign-verbatim'', role]
        (pki_sign_verbatim_with_issuer_at_role env cl fj tj5 mount issuer_ref role request5)"
    and "at_route env cl ''POST'' mount [''issuer'', issuer_ref, ''resign-crls'']
        (pki_resign_crls env cl fj mount issuer_ref)"
    and "at_route env cl ''POST'' mount [''issuer'', issuer_ref, ''sign-revocation-list'']
        (pki_sign_revocation_list env cl fj tj6 mount issuer_ref request6)"
  unfolding pki_sign_intermediate_with_issuer_def pki_sign_self_issued_with_issuer_def
      pki_issue_with_issuer_def pki_sign_with_issuer_def pki_sign_verbatim_with_issuer_def
      pki_sign_verbatim_with_issuer_at_role_def pki_resign_crls_def pki_sign_revocation_list_def
  by (use assms in \<open>auto simp: Let_def rbind_Inr_iff
      split: pki_public_format.splits
      intro!: at_intros at_requests pki_calls at_silent_bind intro: pki_paths at_after silent_intros split: option.splits\<close>)

lemma pki_issuer_2_routes [pki_calls]:
  assumes "list_all safe_segment mount"
  shows "at_route env cl ''GET'' mount [''issuer'', issuer_ref]
        (pki_read_issuer env cl fj mount issuer_ref)"
    and "at_route env cl ''DELETE'' mount [''issuer'', issuer_ref]
        (pki_delete_issuer env cl fj2 mount issuer_ref)"
    and "at_route env cl ''PATCH'' mount [''issuer'', issuer_ref]
        (pki_patch_issuer env cl fj tj mount issuer_ref patch_v)"
    and "at_route env cl ''POST'' mount [''issuer'', issuer_ref, ''revoke'']
        (pki_revoke_issuer env cl fj mount issuer_ref)"
    and "at_route env cl ''POST'' mount [''issuer'', issuer_ref, ''acme'', ''new-eab'']
        (pki_generate_issuer_acme_eab env cl fj mount issuer_ref)"
    and "at_route env cl ''POST'' mount [''issuer'', issuer_ref, ''roles'', role, ''acme'',
          ''new-eab'']
        (pki_generate_issuer_role_acme_eab env cl fj mount issuer_ref role)"
    and "at_route env cl ''POST'' mount [''issuer'', issuer_ref, ''sign-intermediate'']
        (pki_sign_intermediate_with_issuer_and_signature_options env cl fj tj2 mount issuer_ref
          request signature)"
    and "at_route env cl ''POST'' mount [''issuer'', issuer_ref, ''issue'', role]
        (pki_issue_with_issuer_and_key env cl fj tj3 mount issuer_ref role request2 key)"
  unfolding pki_read_issuer_def pki_delete_issuer_def pki_patch_issuer_def pki_revoke_issuer_def
      pki_generate_issuer_acme_eab_def pki_generate_issuer_role_acme_eab_def
      pki_sign_intermediate_with_issuer_and_signature_options_def
      pki_issue_with_issuer_and_key_def
  by (use assms in \<open>auto simp: Let_def rbind_Inr_iff
      split: pki_public_format.splits
      intro!: at_intros at_requests pki_calls at_silent_bind intro: pki_paths at_after silent_intros split: option.splits\<close>)

lemma pki_roles_routes [pki_calls]:
  assumes "list_all safe_segment mount"
  shows "at_route env cl ''POST'' mount [''roles'', name]
        (pki_write_role env cl fj tj mount name role)"
    and "at_route env cl ''POST'' mount [''roles'', name]
        (pki_write_role_with_identity_template_globs env cl fj tj2 mount name role acknowledgment)"
    and "at_route env cl ''PATCH'' mount [''roles'', name]
        (pki_patch_role_with_identity_template_globs env cl fj2 tj2 mount name patch_v
          acknowledgment)"
    and "at_route env cl ''PATCH'' mount [''roles'', name]
        (pki_patch_role env cl fj2 tj mount name patch_v)"
    and "at_route env cl ''GET'' mount [''roles'', name] (pki_read_role env cl fj2 mount name)"
    and "at_route env cl ''GET'' mount [''roles'', name] (pki_read_role_details env cl fj2 mount name)"
    and "at_route env cl ''LIST'' mount [''roles''] (pki_list_roles env cl fj2 mount)"
    and "at_route env cl ''DELETE'' mount [''roles'', name] (pki_delete_role env cl fj mount name)"
    and "at_route env cl ''POST'' mount [''roles'', role2, ''acme'', ''new-eab'']
        (pki_generate_role_acme_eab env cl fj2 mount role2)"
    and "at_route env cl ''POST'' mount [''roles'', name]
        (pki_write_role_with_signing_options env cl fj tj3 mount name role opts)"
    and "at_route env cl ''PATCH'' mount [''roles'', name]
        (pki_patch_role_with_signing_options env cl fj2 tj3 mount name role opts)"
    and "at_route env cl ''GET'' mount [''roles'', name]
        (pki_read_role_signing_details env cl fj2 mount name)"
  unfolding pki_write_role_def pki_write_role_with_identity_template_globs_def
      pki_patch_role_with_identity_template_globs_def pki_patch_role_def pki_read_role_def
      pki_read_role_details_def pki_list_roles_def pki_delete_role_def
      pki_generate_role_acme_eab_def pki_write_role_with_signing_options_def
      pki_patch_role_with_signing_options_def pki_read_role_signing_details_def
  by (use assms in \<open>auto simp: Let_def rbind_Inr_iff
      split: pki_public_format.splits
      intro!: at_intros at_requests pki_calls at_silent_bind intro: pki_paths at_after silent_intros split: option.splits\<close>)

lemma pki_config_1_routes [pki_calls]:
  assumes "list_all safe_segment mount"
  shows "at_route env cl ''GET'' mount [''config'', ''urls''] (pki_read_urls env cl fj mount)"
    and "at_route env cl ''POST'' mount [''config'', ''urls'']
        (pki_write_urls env cl fj2 tj mount config)"
    and "at_route env cl ''GET'' mount [''config'', ''issuers'']
        (pki_read_issuers_config env cl fj mount)"
    and "at_route env cl ''POST'' mount [''config'', ''issuers'']
        (pki_write_issuers_config env cl fj2 tj2 mount config2)"
    and "at_route env cl ''GET'' mount [''config'', ''keys''] (pki_read_keys_config env cl fj mount)"
    and "at_route env cl ''POST'' mount [''config'', ''keys'']
        (pki_write_keys_config env cl fj2 tj3 mount config3)"
    and "at_route env cl ''GET'' mount [''config'', ''cluster'']
        (pki_read_cluster_config env cl fj mount)"
    and "at_route env cl ''POST'' mount [''config'', ''cluster'']
        (pki_write_cluster_config env cl fj2 tj4 mount config4)"
  unfolding pki_read_urls_def pki_write_urls_def pki_read_issuers_config_def pki_write_issuers_config_def
      pki_read_keys_config_def pki_write_keys_config_def pki_read_cluster_config_def
      pki_write_cluster_config_def
  by (use assms in \<open>auto simp: Let_def rbind_Inr_iff
      split: pki_public_format.splits
      intro!: at_intros at_requests pki_calls intro: pki_paths at_after silent_intros split: option.splits\<close>)

lemma pki_config_2_routes [pki_calls]:
  assumes "list_all safe_segment mount"
  shows "at_route env cl ''GET'' mount [''config'', ''crl''] (pki_read_crl_config env cl fj mount)"
    and "at_route env cl ''POST'' mount [''config'', ''crl'']
        (pki_write_crl_config env cl fj2 tj mount config)"
    and "at_route env cl ''GET'' mount [''config'', ''auto-tidy'']
        (pki_read_auto_tidy_config env cl fj mount)"
    and "at_route env cl ''POST'' mount [''config'', ''auto-tidy'']
        (pki_write_auto_tidy_config env cl fj2 tj2 mount config2)"
    and "at_route env cl ''POST'' mount [''config'', ''ca'']
        (pki_import_ca_bundle env cl fj tj3 mount pem_bundle)"
    and "at_route env cl ''GET'' mount [''config'', ''acme''] (pki_read_acme_config env cl fj mount)"
    and "at_route env cl ''POST'' mount [''config'', ''acme'']
        (pki_write_acme_config env cl fj tj4 mount config3)"
  unfolding pki_read_crl_config_def pki_write_crl_config_def pki_read_auto_tidy_config_def
      pki_write_auto_tidy_config_def pki_import_ca_bundle_def pki_read_acme_config_def
      pki_write_acme_config_def
  by (use assms in \<open>auto simp: Let_def rbind_Inr_iff
      split: pki_public_format.splits
      intro!: at_intros at_requests pki_calls intro: pki_paths at_after silent_intros split: option.splits\<close>)

lemma pki_certs_routes [pki_calls]:
  assumes "list_all safe_segment mount"
  shows "at_route env cl ''LIST'' mount [''certs''] (pki_list_certificates env cl fj mount)"
    and "at_route env cl ''LIST'' mount [''certs'', ''revoked'']
        (pki_list_revoked_certificates env cl fj mount)"
    and "at_route env cl ''LIST'' mount [''certs'', ''revocation-queue'']
        (pki_list_revocation_queue env cl fj mount)"
    and "at_route env cl ''LIST'' mount [''certs'', ''detailed'']
        (pki_list_certificates_detailed env cl fj mount after limit)"
  unfolding pki_list_certificates_def pki_list_revoked_certificates_def pki_list_revocation_queue_def
      pki_list_certificates_detailed_def
  by (use assms in \<open>auto simp: Let_def rbind_Inr_iff
      split: pki_public_format.splits
      intro!: at_intros at_requests pki_calls intro: pki_paths at_after silent_intros split: option.splits\<close>)

lemma pki_key_routes [pki_calls]:
  assumes "list_all safe_segment mount"
  shows "at_route env cl ''GET'' mount [''key'', key_ref] (pki_read_key env cl fj mount key_ref)"
    and "at_route env cl ''DELETE'' mount [''key'', key_ref] (pki_delete_key env cl fj2 mount key_ref)"
    and "at_route env cl ''POST'' mount [''key'', key_ref]
        (pki_rename_key env cl fj tj mount key_ref key_name)"
  unfolding pki_read_key_def pki_delete_key_def pki_rename_key_def
  by (use assms in \<open>auto simp: Let_def rbind_Inr_iff
      split: pki_public_format.splits
      intro!: at_intros at_requests pki_calls intro: pki_paths at_after silent_intros split: option.splits\<close>)

lemma pki_cel_routes [pki_calls]:
  assumes "list_all safe_segment mount"
  shows "at_route env cl ''POST'' mount [''cel'', ''roles'', name]
        (pki_write_cel_role env cl fj tj mount name role)"
    and "at_route env cl ''PATCH'' mount [''cel'', ''roles'', name]
        (pki_patch_cel_role env cl fj2 tj mount name patch_v)"
    and "at_route env cl ''GET'' mount [''cel'', ''roles'', name]
        (pki_read_cel_role env cl fj2 mount name)"
    and "at_route env cl ''LIST'' mount [''cel'', ''roles''] (pki_list_cel_roles env cl fj2 mount)"
    and "at_route env cl ''DELETE'' mount [''cel'', ''roles'', name]
        (pki_delete_cel_role env cl fj mount name)"
    and "at_route env cl ''POST'' mount [''cel'', ''issue'', role2]
        (pki_cel_issue env cl fj2 tj2 mount role2 request)"
    and "at_route env cl ''POST'' mount [''cel'', ''sign'', role2]
        (pki_cel_sign env cl fj2 tj3 mount role2 request2)"
    and "at_route env cl ''POST'' mount [''cel'', ''issue'', role2]
        (pki_cel_issue_with_options env cl fj2 tj4 mount role2 request key signature)"
    and "at_route env cl ''POST'' mount [''cel'', ''sign'', role2]
        (pki_cel_sign_with_signature_options env cl fj2 tj5 mount role2 request2 signature)"
  unfolding pki_write_cel_role_def pki_patch_cel_role_def pki_read_cel_role_def pki_list_cel_roles_def
      pki_delete_cel_role_def pki_cel_issue_def pki_cel_sign_def pki_cel_issue_with_options_def
      pki_cel_sign_with_signature_options_def
  by (use assms in \<open>auto simp: Let_def rbind_Inr_iff
      split: pki_public_format.splits
      intro!: at_intros at_requests pki_calls at_silent_bind intro: pki_paths at_after silent_intros split: option.splits\<close>)

lemma pki_other_1_routes [pki_calls]:
  assumes "list_all safe_segment mount"
  shows "at_route env cl ''GET'' mount [''crl'', ''rotate''] (pki_rotate_crl env cl fj mount)"
    and "at_route env cl ''GET'' mount [''crl'', ''rotate-delta'']
        (pki_rotate_delta_crl env cl fj mount)"
    and "at_route env cl ''POST'' mount [''tidy''] (pki_tidy env cl fj2 tj mount request)"
    and "at_route env cl ''GET'' mount [''tidy-status''] (pki_tidy_status_call env cl fj mount)"
    and "at_route env cl ''POST'' mount [''tidy-cancel''] (pki_tidy_cancel env cl fj mount)"
    and "at_route env cl ''POST'' mount [''issue'', role]
        (pki_issue env cl fj tj2 mount role request2)"
    and "at_route env cl ''POST'' mount [''sign'', role] (pki_sign env cl fj tj3 mount role request3)"
    and "at_route env cl ''POST'' mount [''sign-verbatim'']
        (pki_sign_verbatim env cl fj tj4 mount request4)"
  unfolding pki_rotate_crl_def pki_rotate_delta_crl_def pki_tidy_def pki_tidy_status_call_def
      pki_tidy_cancel_def pki_issue_def pki_sign_def pki_sign_verbatim_def
  by (use assms in \<open>auto simp: Let_def rbind_Inr_iff
      split: pki_public_format.splits
      intro!: at_intros at_requests pki_calls at_silent_bind intro: pki_paths at_after silent_intros split: option.splits\<close>)

lemma pki_other_2_routes [pki_calls]:
  assumes "list_all safe_segment mount"
  shows "at_route env cl ''POST'' mount [''sign-verbatim'', role]
        (pki_sign_verbatim_at_role env cl fj tj mount role request)"
    and "at_route env cl ''POST'' mount [''revoke''] (pki_revoke env cl fj tj2 mount request2)"
    and "at_route env cl ''POST'' mount [''revoke-with-key'']
        (pki_revoke_with_key env cl fj tj3 mount request3)"
    and "at_route env cl ''GET'' mount [''cert'', serial]
        (pki_read_certificate env cl fj mount serial)"
    and "at_route env cl ''POST'' mount [''acme'', ''new-eab'']
        (pki_generate_acme_eab env cl fj mount)"
    and "at_route env cl ''LIST'' mount [''eab''] (pki_list_acme_eab_tokens env cl fj mount)"
    and "at_route env cl ''DELETE'' mount [''eab'', key_id]
        (pki_delete_acme_eab_token env cl fj2 mount key_id)"
    and "at_route env cl ''POST'' mount [''issue'', role]
        (pki_issue_with_key env cl fj tj4 mount role request4 key)"
  unfolding pki_sign_verbatim_at_role_def pki_revoke_def pki_revoke_with_key_def pki_read_certificate_def
      pki_generate_acme_eab_def pki_list_acme_eab_tokens_def pki_delete_acme_eab_token_def
      pki_issue_with_key_def
  by (use assms in \<open>auto simp: Let_def rbind_Inr_iff
      split: pki_public_format.splits
      intro!: at_intros at_requests pki_calls at_silent_bind intro: pki_paths at_after silent_intros split: option.splits\<close>)

text \<open>The public handle.\<close>

lemma pki_public_path_at [pki_paths]: "pki_public_path mount tail = Inr p \<Longrightarrow> path_at mount tail p"
  by (rule handle_path_at) (simp add: pki_public_path_def handle_path_def Let_def rfold_segments rmap_rbind)

lemma pki_public_bytes_at [pki_calls]:
  "list_all safe_segment mount \<Longrightarrow> path_at mount parts path \<Longrightarrow>
   at_route env cl verb mount parts (pki_public_bytes env cl mount verb path headers body_v)"
  by (auto simp: pki_public_bytes_def Let_def rbind_Inr_iff intro!: at_intros at_requests pki_calls
      intro: pki_paths silent_intros split: option.splits)

lemma pki_public_cert_routes [pki_calls]:
  assumes "list_all safe_segment mount"
  shows "at_route env cl ''GET'' mount [''cert'', ''ca''] (pki_public_legacy_ca_der env cl mount)"
    and "at_route env cl ''GET'' mount [''cert'', ''ca_chain'']
        (pki_public_legacy_ca_chain_pem env cl mount)"
    and "at_route env cl ''GET'' mount [''cert'', ''crl''] (pki_public_legacy_crl_der env cl mount)"
    and "at_route env cl ''GET'' mount [''cert'', ''delta-crl'']
        (pki_public_legacy_delta_crl_der env cl mount)"
    and "at_route env cl ''GET'' mount [''cert'', serial, ''raw'']
        (pki_public_certificate_der env cl mount serial)"
    and "at_route env cl ''GET'' mount [''cert'', serial, ''raw'', ''pem'']
        (pki_public_certificate_pem env cl mount serial)"
  unfolding pki_public_legacy_ca_der_def pki_public_legacy_ca_chain_pem_def pki_public_legacy_crl_der_def
      pki_public_legacy_delta_crl_der_def pki_public_certificate_der_def
      pki_public_certificate_pem_def pki_public_get_def
  by (use assms in \<open>auto simp: Let_def rbind_Inr_iff
      split: pki_public_format.splits
      intro!: at_intros at_requests pki_calls intro: pki_paths at_after silent_intros split: option.splits\<close>)

lemma pki_public_crl_routes [pki_calls]:
  assumes "list_all safe_segment mount"
  shows "at_route env cl ''GET'' mount [''crl''] (pki_public_crl_der env cl mount)"
    and "at_route env cl ''GET'' mount [''crl'', ''pem''] (pki_public_crl_pem env cl mount)"
    and "at_route env cl ''GET'' mount [''crl'', ''delta''] (pki_public_delta_crl_der env cl mount)"
    and "at_route env cl ''GET'' mount [''crl'', ''delta'', ''pem'']
        (pki_public_delta_crl_pem env cl mount)"
  unfolding pki_public_crl_der_def pki_public_crl_pem_def pki_public_delta_crl_der_def
      pki_public_delta_crl_pem_def pki_public_get_def
  by (use assms in \<open>auto simp: Let_def rbind_Inr_iff
      split: pki_public_format.splits
      intro!: at_intros at_requests pki_calls intro: pki_paths at_after silent_intros split: option.splits\<close>)

lemma pki_public_other_routes [pki_calls]:
  assumes "list_all safe_segment mount"
  shows "at_route env cl ''GET'' mount [''ca''] (pki_public_ca_der env cl mount)"
    and "at_route env cl ''GET'' mount [''ca'', ''pem''] (pki_public_ca_pem env cl mount)"
    and "at_route env cl ''GET'' mount [''ca_chain''] (pki_public_ca_chain_pem env cl mount)"
    and "at_route env cl ''GET'' mount [''issuer'', issuer_ref, (case fmt of PkiPublicFormat_Der
          \<Rightarrow> ''der'' | PkiPublicFormat_Pem \<Rightarrow> ''pem'' | PkiPublicFormat_Json
          \<Rightarrow> ''json'')]
        (pki_public_issuer_certificate env cl mount issuer_ref fmt)"
    and "at_route env cl ''GET'' mount ([''issuer'', issuer_ref, ''crl''] @ (if delta then
          [''delta''] else []) @ (case fmt of PkiPublicFormat_Der \<Rightarrow> [''der''] |
          PkiPublicFormat_Pem \<Rightarrow> [''pem''] | PkiPublicFormat_Json \<Rightarrow> []))
        (pki_public_issuer_crl env cl mount issuer_ref delta fmt)"
    and "at_route env cl ''POST'' mount [''ocsp''] (pki_public_ocsp_post env cl mount request_der)"
    and "at_route env cl ''GET'' mount [''ocsp'', encoded_request]
        (pki_public_ocsp_get_encoded env cl mount encoded_request)"
  unfolding pki_public_ca_der_def pki_public_ca_pem_def pki_public_ca_chain_pem_def
      pki_public_issuer_certificate_def pki_public_issuer_crl_def pki_public_ocsp_post_def
      pki_public_ocsp_get_encoded_def pki_public_get_def
  by (use assms in \<open>auto simp: Let_def rbind_Inr_iff
      split: pki_public_format.splits
      intro!: at_intros at_requests pki_calls intro: pki_paths at_after silent_intros split: option.splits\<close>)

end
