(* ===== verification/Bao_Ssh.thy ===== *)
theory Bao_Ssh
  imports Bao_Engine
begin

text \<open>
  The SSH engine, \<open>secrets/ssh.rs\<close>: roles, issuers, credentials, signing, with the checks of each
  request and every operation of a mounted handle.
\<close>

section \<open>Data and requests\<close>

definition ssh_public_key_as_str :: "string \<Rightarrow> string" where
  "ssh_public_key_as_str self = self"

definition ssh_public_key_into_string :: "string \<Rightarrow> string" where
  "ssh_public_key_into_string self = self"

definition ssh_identity_template_comma_override_acknowledge :: unit where
  "ssh_identity_template_comma_override_acknowledge = ()"

definition ssh_identity_template_wildcard_override_acknowledge :: unit where
  "ssh_identity_template_wildcard_override_acknowledge = ()"

record ssh_identity_template_overrides =
  ssh_identity_template_overrides_allow_commas :: bool
  ssh_identity_template_overrides_allow_wildcards :: bool

definition ssh_identity_template_overrides_acknowledge_commas ::
  "ssh_identity_template_overrides" where
  "ssh_identity_template_overrides_acknowledge_commas =
     \<lparr>ssh_identity_template_overrides_allow_commas = True,
       ssh_identity_template_overrides_allow_wildcards = False\<rparr>"

definition ssh_identity_template_overrides_acknowledge_wildcards ::
  "ssh_identity_template_overrides" where
  "ssh_identity_template_overrides_acknowledge_wildcards =
     \<lparr>ssh_identity_template_overrides_allow_commas = False,
       ssh_identity_template_overrides_allow_wildcards = True\<rparr>"

definition ssh_identity_template_overrides_acknowledge_both ::
  "ssh_identity_template_overrides" where
  "ssh_identity_template_overrides_acknowledge_both =
     \<lparr>ssh_identity_template_overrides_allow_commas = True,
       ssh_identity_template_overrides_allow_wildcards = True\<rparr>"

datatype ssh_role_key_type =
    SshRoleKeyType_Otp | SshRoleKeyType_Ca

record ssh_role_request =
  ssh_role_request_algorithm_signer :: "string option"
  ssh_role_request_default_user :: "string option"
  ssh_role_request_default_user_template :: "bool option"
  ssh_role_request_cidr_list :: "string option"
  ssh_role_request_port :: "16 word option"
  ssh_role_request_key_type :: "ssh_role_key_type option"
  ssh_role_request_allowed_users :: "string option"
  ssh_role_request_allowed_users_template :: "bool option"
  ssh_role_request_allow_user_certificates :: "bool option"
  ssh_role_request_allow_host_certificates :: "bool option"
  ssh_role_request_allow_bare_domains :: "bool option"
  ssh_role_request_allow_subdomains :: "bool option"
  ssh_role_request_allow_empty_principals :: "bool option"
  ssh_role_request_allow_user_key_ids :: "bool option"
  ssh_role_request_allowed_domains :: "string option"
  ssh_role_request_allowed_domains_template :: "bool option"
  ssh_role_request_allowed_user_key_lengths :: "(string \<times> 16 word list) list"
  ssh_role_request_default_extensions :: "(string \<times> string) list"
  ssh_role_request_default_extensions_template :: "bool option"
  ssh_role_request_allowed_extensions :: "string option"
  ssh_role_request_default_critical_options :: "(string \<times> string) list"
  ssh_role_request_allowed_critical_options :: "string option"
  ssh_role_request_ttl :: "string option"
  ssh_role_request_max_ttl :: "string option"
  ssh_role_request_exclude_cidr_list :: "string option"
  ssh_role_request_key_id_format :: "string option"
  ssh_role_request_not_before_duration :: "string option"
  ssh_role_request_issuer_ref :: "string option"

definition ssh_role_request_default :: ssh_role_request where
  "ssh_role_request_default =
     \<lparr>ssh_role_request_algorithm_signer = None, ssh_role_request_default_user = None,
       ssh_role_request_default_user_template = None, ssh_role_request_cidr_list = None,
       ssh_role_request_port = None, ssh_role_request_key_type = None,
       ssh_role_request_allowed_users = None, ssh_role_request_allowed_users_template = None,
       ssh_role_request_allow_user_certificates = None,
       ssh_role_request_allow_host_certificates = None, ssh_role_request_allow_bare_domains =
       None, ssh_role_request_allow_subdomains = None, ssh_role_request_allow_empty_principals
       = None, ssh_role_request_allow_user_key_ids = None, ssh_role_request_allowed_domains =
       None, ssh_role_request_allowed_domains_template = None,
       ssh_role_request_allowed_user_key_lengths = [], ssh_role_request_default_extensions =
       [], ssh_role_request_default_extensions_template = None,
       ssh_role_request_allowed_extensions = None, ssh_role_request_default_critical_options =
       [], ssh_role_request_allowed_critical_options = None, ssh_role_request_ttl = None,
       ssh_role_request_max_ttl = None, ssh_role_request_exclude_cidr_list = None,
       ssh_role_request_key_id_format = None, ssh_role_request_not_before_duration = None,
       ssh_role_request_issuer_ref = None\<rparr>"

definition ssh_role_request_otp :: "string \<Rightarrow> string \<Rightarrow> ssh_role_request" where
  "ssh_role_request_otp default_user cidr_list =
     ssh_role_request_default\<lparr>ssh_role_request_key_type := Some SshRoleKeyType_Otp,
       ssh_role_request_default_user := Some default_user, ssh_role_request_cidr_list := Some
       cidr_list\<rparr>"

definition ssh_role_request_ca :: "string \<Rightarrow> ssh_role_request" where
  "ssh_role_request_ca allowed_users =
     ssh_role_request_default\<lparr>ssh_role_request_key_type := Some SshRoleKeyType_Ca,
       ssh_role_request_allowed_users := Some allowed_users,
       ssh_role_request_allow_user_certificates := Some True\<rparr>"

definition ssh_role_request_with_ttl ::
  "ssh_role_request \<Rightarrow> string \<Rightarrow> ssh_role_request" where
  "ssh_role_request_with_ttl self ttl = self\<lparr>ssh_role_request_ttl := Some ttl\<rparr>"

definition ssh_role_request_with_max_ttl ::
  "ssh_role_request \<Rightarrow> string \<Rightarrow> ssh_role_request" where
  "ssh_role_request_with_max_ttl self max_ttl =
     self\<lparr>ssh_role_request_max_ttl := Some max_ttl\<rparr>"

definition MAX_SSH_FIELD_BYTES :: nat where
  "MAX_SSH_FIELD_BYTES = 4096"

definition ssh_validate_optional_ssh_field ::
  "string option \<Rightarrow> string \<Rightarrow> unit res" where
  "ssh_validate_optional_ssh_field val_v field =
     (case val_v of
        None \<Rightarrow> Inr ()
      | Some val_v \<Rightarrow>
        (if val_v = [] then Inl (InvalidParameter (field @ '' must not be empty''))
           else (if MAX_SSH_FIELD_BYTES < length val_v then Inl (InvalidParameter (field @
             '' exceeds maximum allowed length''))
              else (if list_ex is_ascii_control val_v then Inl (InvalidParameter (field @
                '' must not contain control characters''))
                 else Inr ()))))"

definition ssh_validate_optional_duration ::
  "string option \<Rightarrow> string \<Rightarrow> unit res" where
  "ssh_validate_optional_duration val_v field =
     (case val_v of
        None \<Rightarrow> Inr ()
      | Some val_v \<Rightarrow> validate_duration_parameter val_v field)"

definition ssh_role_request_validate :: "ssh_role_request \<Rightarrow> unit res" where
  "ssh_role_request_validate self =
     rbind (ssh_validate_optional_ssh_field (ssh_role_request_default_user self)
       ''ssh default_user'') (\<lambda>_.
     rbind (ssh_validate_optional_ssh_field (ssh_role_request_cidr_list self)
       ''ssh cidr_list'') (\<lambda>_.
     rbind (ssh_validate_optional_ssh_field (ssh_role_request_allowed_users self)
       ''ssh allowed_users'') (\<lambda>_.
     rbind (ssh_validate_optional_ssh_field (ssh_role_request_allowed_domains self)
       ''ssh allowed_domains'') (\<lambda>_.
     rbind (ssh_validate_optional_ssh_field (ssh_role_request_exclude_cidr_list self)
       ''ssh exclude_cidr_list'') (\<lambda>_.
     rbind (ssh_validate_optional_ssh_field (ssh_role_request_key_id_format self)
       ''ssh key_id_format'') (\<lambda>_.
     rbind (ssh_validate_optional_duration (ssh_role_request_ttl self) ''ssh role ttl'')
       (\<lambda>_.
     rbind (ssh_validate_optional_duration (ssh_role_request_max_ttl self)
       ''ssh role max_ttl'') (\<lambda>_.
     rbind (ssh_validate_optional_duration (ssh_role_request_not_before_duration self)
       ''ssh role not_before_duration'') (\<lambda>_.
     (if MAX_RESPONSE_STRINGS < length (ssh_role_request_allowed_user_key_lengths self) \<or>
       list_ex (\<lambda>lengths. MAX_RESPONSE_STRINGS < length lengths) (map snd
       (ssh_role_request_allowed_user_key_lengths self)) then Inl (InvalidParameter
       ''SSH allowed_user_key_lengths exceeds item limit'')
        else Inr ()))))))))))"

record ssh_credentials_request =
  ssh_credentials_request_username :: "string option"
  ssh_credentials_request_ip :: ip_addr

definition ssh_credentials_request_new :: "ip_addr \<Rightarrow> ssh_credentials_request" where
  "ssh_credentials_request_new ip =
     \<lparr>ssh_credentials_request_username = None, ssh_credentials_request_ip = ip\<rparr>"

definition ssh_credentials_request_with_username ::
  "ssh_credentials_request \<Rightarrow> string \<Rightarrow> ssh_credentials_request" where
  "ssh_credentials_request_with_username self username =
     self\<lparr>ssh_credentials_request_username := Some username\<rparr>"

datatype ssh_certificate_type =
    SshCertificateType_User | SshCertificateType_Host

record ssh_sign_request =
  ssh_sign_request_public_key :: string
  ssh_sign_request_ttl :: "string option"
  ssh_sign_request_valid_principals :: "string option"
  ssh_sign_request_cert_type :: "ssh_certificate_type option"
  ssh_sign_request_key_id :: "string option"
  ssh_sign_request_critical_options :: "(string \<times> string) list"
  ssh_sign_request_extensions :: "(string \<times> string) list"

definition ssh_sign_request_new :: "string \<Rightarrow> ssh_sign_request" where
  "ssh_sign_request_new public_key =
     \<lparr>ssh_sign_request_public_key = public_key, ssh_sign_request_ttl = None,
       ssh_sign_request_valid_principals = None, ssh_sign_request_cert_type = None,
       ssh_sign_request_key_id = None, ssh_sign_request_critical_options = [],
       ssh_sign_request_extensions = []\<rparr>"

definition ssh_sign_request_with_valid_principals ::
  "ssh_sign_request \<Rightarrow> string \<Rightarrow> ssh_sign_request" where
  "ssh_sign_request_with_valid_principals self principals =
     self\<lparr>ssh_sign_request_valid_principals := Some principals\<rparr>"

definition MAX_SSH_PUBLIC_KEY_BYTES :: nat where
  "MAX_SSH_PUBLIC_KEY_BYTES = 16 * 1024"

definition validate_ssh_public_key :: "string \<Rightarrow> unit res" where
  "validate_ssh_public_key public_key =
     (let trimmed = trim public_key in
     (if trimmed = [] then Inl (InvalidParameter ''SSH public key must not be empty'')
        else (if MAX_SSH_PUBLIC_KEY_BYTES < length trimmed then Inl (InvalidParameter
          ''SSH public key exceeds maximum allowed length'')
           else (if list_ex is_ascii_control trimmed then Inl (InvalidParameter
             ''SSH public key must not contain control characters'')
              else let ALLOWED_PREFIXES = [''ssh-rsa '', ''rsa-sha2-256 '', ''rsa-sha2-512 '',
                ''ssh-ed25519 '', ''sk-ssh-ed25519@openssh.com '', ''ecdsa-sha2-nistp256 '',
                ''ecdsa-sha2-nistp384 '', ''ecdsa-sha2-nistp521 ''] in
              (if \<not> (list_ex (\<lambda>pre. prefix pre trimmed) ALLOWED_PREFIXES) then Inl
                (InvalidParameter ''SSH public key must use an approved algorithm prefix'')
                 else Inr ())))))"

definition ssh_sign_request_validate :: "ssh_sign_request \<Rightarrow> unit res" where
  "ssh_sign_request_validate self =
     rbind (validate_ssh_public_key (ssh_sign_request_public_key self)) (\<lambda>_.
     rbind (ssh_validate_optional_duration (ssh_sign_request_ttl self) ''ssh sign ttl'')
       (\<lambda>_.
     ssh_validate_optional_ssh_field (ssh_sign_request_valid_principals self)
       ''ssh valid_principals''))"

datatype ssh_issue_key_type =
    SshIssueKeyType_Rsa | SshIssueKeyType_Ed25519 | SshIssueKeyType_Ec

record ssh_issue_request =
  ssh_issue_request_key_type :: "ssh_issue_key_type option"
  ssh_issue_request_key_bits :: "16 word option"
  ssh_issue_request_ttl :: "string option"
  ssh_issue_request_valid_principals :: "string option"
  ssh_issue_request_cert_type :: "ssh_certificate_type option"
  ssh_issue_request_key_id :: "string option"
  ssh_issue_request_critical_options :: "(string \<times> string) list"
  ssh_issue_request_extensions :: "(string \<times> string) list"

definition ssh_issue_request_default :: ssh_issue_request where
  "ssh_issue_request_default =
     \<lparr>ssh_issue_request_key_type = None, ssh_issue_request_key_bits = None,
       ssh_issue_request_ttl = None, ssh_issue_request_valid_principals = None,
       ssh_issue_request_cert_type = None, ssh_issue_request_key_id = None,
       ssh_issue_request_critical_options = [], ssh_issue_request_extensions = []\<rparr>"

definition ssh_issue_request_new :: "ssh_issue_key_type \<Rightarrow> ssh_issue_request" where
  "ssh_issue_request_new key_type =
     ssh_issue_request_default\<lparr>ssh_issue_request_key_type := Some key_type\<rparr>"

definition MIN_RSA_KEY_BITS :: "16 word" where
  "MIN_RSA_KEY_BITS = 3072"

definition validate_ssh_issue_key_bits ::
  "ssh_issue_key_type option \<Rightarrow> 16 word option \<Rightarrow> unit res" where
  "validate_ssh_issue_key_bits key_type key_bits =
     (case key_bits of
        None \<Rightarrow> Inr ()
      | Some key_bits \<Rightarrow>
        (case case_option SshIssueKeyType_Rsa (\<lambda>x. x) key_type of
           SshIssueKeyType_Rsa \<Rightarrow> (if key_bits < MIN_RSA_KEY_BITS then Inl
             (InvalidParameter ''SSH RSA key_bits must be at least 3072'')
              else (case case_option SshIssueKeyType_Rsa (\<lambda>x. x) key_type of
                 SshIssueKeyType_Ec \<Rightarrow> (if \<not> (key_bits = 256 \<or> key_bits =
                   384 \<or> key_bits = 521) then Inl (InvalidParameter
                   ''SSH EC key_bits must be 256, 384, or 521'')
                    else (case case_option SshIssueKeyType_Rsa (\<lambda>x. x) key_type of
                       SshIssueKeyType_Ed25519 \<Rightarrow> Inl (InvalidParameter
                         ''SSH Ed25519 key_bits must be omitted'')
                     | _ \<Rightarrow> Inr ()))
               | _ \<Rightarrow> (case case_option SshIssueKeyType_Rsa (\<lambda>x. x) key_type
                 of
                    SshIssueKeyType_Ed25519 \<Rightarrow> Inl (InvalidParameter
                      ''SSH Ed25519 key_bits must be omitted'')
                  | _ \<Rightarrow> Inr ())))
         | _ \<Rightarrow> (case case_option SshIssueKeyType_Rsa (\<lambda>x. x) key_type of
              SshIssueKeyType_Ec \<Rightarrow> (if \<not> (key_bits = 256 \<or> key_bits = 384
                \<or> key_bits = 521) then Inl (InvalidParameter
                ''SSH EC key_bits must be 256, 384, or 521'')
                 else (case case_option SshIssueKeyType_Rsa (\<lambda>x. x) key_type of
                    SshIssueKeyType_Ed25519 \<Rightarrow> Inl (InvalidParameter
                      ''SSH Ed25519 key_bits must be omitted'')
                  | _ \<Rightarrow> Inr ()))
            | _ \<Rightarrow> (case case_option SshIssueKeyType_Rsa (\<lambda>x. x) key_type of
                 SshIssueKeyType_Ed25519 \<Rightarrow> Inl (InvalidParameter
                   ''SSH Ed25519 key_bits must be omitted'')
               | _ \<Rightarrow> Inr ()))))"

definition ssh_issue_request_validate :: "ssh_issue_request \<Rightarrow> unit res" where
  "ssh_issue_request_validate self =
     rbind (ssh_validate_optional_duration (ssh_issue_request_ttl self) ''ssh issue ttl'')
       (\<lambda>_.
     rbind (validate_ssh_issue_key_bits (ssh_issue_request_key_type self)
       (ssh_issue_request_key_bits self)) (\<lambda>_.
     ssh_validate_optional_ssh_field (ssh_issue_request_valid_principals self)
       ''ssh valid_principals''))"

definition ssh_issue_request_with_key_bits ::
  "ssh_issue_request \<Rightarrow> 16 word \<Rightarrow> ssh_issue_request res" where
  "ssh_issue_request_with_key_bits self key_bits =
     rbind (ssh_issue_request_validate (self\<lparr>ssh_issue_request_key_bits := Some
       key_bits\<rparr>)) (\<lambda>_.
     Inr (self\<lparr>ssh_issue_request_key_bits := Some key_bits\<rparr>))"

record ssh_issuer_config_request =
  ssh_issuer_config_request_default_issuer :: string

definition ssh_issuer_config_request_new :: "string \<Rightarrow> ssh_issuer_config_request" where
  "ssh_issuer_config_request_new default_issuer =
     \<lparr>ssh_issuer_config_request_default_issuer = default_issuer\<rparr>"

record ssh_ca_submit_request =
  ssh_ca_submit_request_private_key :: "string option"
  ssh_ca_submit_request_public_key :: "string option"
  ssh_ca_submit_request_generate_signing_key :: "bool option"
  ssh_ca_submit_request_key_type :: "string option"
  ssh_ca_submit_request_key_bits :: "16 word option"
  ssh_ca_submit_request_set_default :: "bool option"

definition ssh_ca_submit_request_generate :: ssh_ca_submit_request where
  "ssh_ca_submit_request_generate =
     \<lparr>ssh_ca_submit_request_private_key = None, ssh_ca_submit_request_public_key = None,
       ssh_ca_submit_request_generate_signing_key = Some True,
       ssh_ca_submit_request_key_type = None, ssh_ca_submit_request_key_bits = None,
       ssh_ca_submit_request_set_default = None\<rparr>"

definition ssh_ca_submit_request_from_key_pair ::
  "string \<Rightarrow> string \<Rightarrow> ssh_ca_submit_request" where
  "ssh_ca_submit_request_from_key_pair private_key public_key =
     \<lparr>ssh_ca_submit_request_private_key = Some private_key,
       ssh_ca_submit_request_public_key = Some public_key,
       ssh_ca_submit_request_generate_signing_key = Some False,
       ssh_ca_submit_request_key_type = None, ssh_ca_submit_request_key_bits = None,
       ssh_ca_submit_request_set_default = None\<rparr>"

definition ssh_ca_submit_request_with_key_type ::
  "ssh_ca_submit_request \<Rightarrow> string \<Rightarrow> ssh_ca_submit_request" where
  "ssh_ca_submit_request_with_key_type self key_type =
     self\<lparr>ssh_ca_submit_request_key_type := Some key_type\<rparr>"

definition ssh_ca_submit_request_with_key_bits ::
  "ssh_ca_submit_request \<Rightarrow> 16 word \<Rightarrow> ssh_ca_submit_request" where
  "ssh_ca_submit_request_with_key_bits self key_bits =
     self\<lparr>ssh_ca_submit_request_key_bits := Some key_bits\<rparr>"

definition ssh_ca_submit_request_with_set_default ::
  "ssh_ca_submit_request \<Rightarrow> bool \<Rightarrow> ssh_ca_submit_request" where
  "ssh_ca_submit_request_with_set_default self set_default =
     self\<lparr>ssh_ca_submit_request_set_default := Some set_default\<rparr>"

record ssh_ca_submit_payload =
  ssh_ca_submit_payload_private_key :: "string option"
  ssh_ca_submit_payload_public_key :: "string option"
  ssh_ca_submit_payload_generate_signing_key :: "bool option"
  ssh_ca_submit_payload_key_type :: "string option"
  ssh_ca_submit_payload_key_bits :: "16 word option"
  ssh_ca_submit_payload_set_default :: "bool option"

definition ssh_ca_submit_request_payload ::
  "ssh_ca_submit_request \<Rightarrow> ssh_ca_submit_payload" where
  "ssh_ca_submit_request_payload self =
     \<lparr>ssh_ca_submit_payload_private_key = ssh_ca_submit_request_private_key self,
       ssh_ca_submit_payload_public_key = ssh_ca_submit_request_public_key self,
       ssh_ca_submit_payload_generate_signing_key = ssh_ca_submit_request_generate_signing_key self,
       ssh_ca_submit_payload_key_type = ssh_ca_submit_request_key_type self,
       ssh_ca_submit_payload_key_bits = ssh_ca_submit_request_key_bits self,
       ssh_ca_submit_payload_set_default = ssh_ca_submit_request_set_default self\<rparr>"

record ssh_issuer_update_request =
  ssh_issuer_update_request_issuer_name :: "string option"

definition ssh_issuer_update_request_new :: "string \<Rightarrow> ssh_issuer_update_request" where
  "ssh_issuer_update_request_new issuer_name =
     \<lparr>ssh_issuer_update_request_issuer_name = Some issuer_name\<rparr>"

record ssh_verify_request =
  ssh_verify_request_otp :: string

definition ssh_verify_request_new :: "string \<Rightarrow> ssh_verify_request" where
  "ssh_verify_request_new otp = \<lparr>ssh_verify_request_otp = otp\<rparr>"

section \<open>Operations\<close>

definition client_ssh :: "string \<Rightarrow> string list res" where
  "client_ssh mount = validate_mount_path mount"

definition client_ssh_public :: "string \<Rightarrow> string list res" where
  "client_ssh_public mount = validate_mount_path mount"

definition ssh_public_path :: "string list \<Rightarrow> string list \<Rightarrow> string res" where
  "ssh_public_path mount tail =
     (let segments = mount in
     rbind (rfold (\<lambda>segment segments. rbind (validate_endpoint_path segment)
       (\<lambda>p.
     let segments = segments @ p in
     Inr segments)) tail segments) (\<lambda>segments.
     Inr (join_with ''/'' segments)))"

definition ssh_public_read ::
  "http_env \<Rightarrow> client \<Rightarrow> string list \<Rightarrow>
   string list \<Rightarrow> string sent" where
  "ssh_public_read env cl mount tail =
     sbind (pure (ssh_public_path mount tail)) (\<lambda>path.
     sbind (request_secret_bytes_headers_accepting env cl ''/ssh/'' ''ssh'' (join_with ''/''
       mount) ''GET'' path [] [(''accept'', from_static ''text/plain'')] None [200])
       (\<lambda>body_v.
     (if MAX_SSH_PUBLIC_KEY_BYTES < length body_v then pure (Inl (Decode
       ''SSH public-key response exceeds maximum allowed length''))
        else sbind (pure (rmap_err (\<lambda>_. Decode
          ''SSH public-key response is not UTF-8'') (if valid_utf8 body_v then Inr body_v else
          Inl ()))) (\<lambda>key.
        sbind (pure (validate_ssh_public_key key)) (\<lambda>_.
        pure (Inr key))))))"

definition ssh_public_public_key ::
  "http_env \<Rightarrow> client \<Rightarrow> string list \<Rightarrow> string sent" where
  "ssh_public_public_key env cl mount = ssh_public_read env cl mount [''public_key'']"

definition ssh_public_issuer_public_key ::
  "http_env \<Rightarrow> client \<Rightarrow> string list \<Rightarrow> string \<Rightarrow>
   string sent" where
  "ssh_public_issuer_public_key env cl mount issuer_ref =
     ssh_public_read env cl mount [''issuer'', issuer_ref, ''public_key'']"

definition ssh_request_query ::
  "http_env \<Rightarrow> client \<Rightarrow> (string \<Rightarrow> 'a option) \<Rightarrow>
   string list \<Rightarrow> string \<Rightarrow> string \<Rightarrow>
   (string \<times> string) list \<Rightarrow> payload option \<Rightarrow>
   nat list \<Rightarrow> 'a sent" where
  "ssh_request_query env cl from_json mount verb path query body_v accepted_statuses =
     request_secret_json_query_headers_accepting env cl from_json ''/ssh/'' ''ssh'' (join_with
       ''/'' mount) verb path query [] body_v accepted_statuses"

definition ssh_path :: "string list \<Rightarrow> string list \<Rightarrow> string res" where
  "ssh_path mount tail =
     (let segments = mount in
     rbind (rfold (\<lambda>segment segments. rbind (validate_endpoint_path segment)
       (\<lambda>p.
     let segments = segments @ p in
     Inr segments)) tail segments) (\<lambda>segments.
     Inr (join_with ''/'' segments)))"

definition ssh_list_roles_after ::
  "http_env \<Rightarrow> client \<Rightarrow>
   (string \<Rightarrow> 'a response_envelope option) \<Rightarrow> string list \<Rightarrow>
   string option \<Rightarrow> 64 word option \<Rightarrow> 'a sent" where
  "ssh_list_roles_after env cl from_json mount after limit =
     sbind (pure (from_after_limit after limit)) (\<lambda>v.
     let query = query_pairs v in
     sbind (pure (ssh_path mount [''roles''])) (\<lambda>p.
     smap env_data (ssh_request_query env cl from_json mount ''LIST'' p query None [200])))"

definition ssh_list_roles ::
  "http_env \<Rightarrow> client \<Rightarrow>
   (string \<Rightarrow> 'a response_envelope option) \<Rightarrow> string list \<Rightarrow>
   'a sent" where
  "ssh_list_roles env cl from_json mount =
     ssh_list_roles_after env cl from_json mount None None"

record ssh_lookup_payload =
  ssh_lookup_payload_ip :: ip_addr

definition ssh_request ::
  "http_env \<Rightarrow> client \<Rightarrow> (string \<Rightarrow> 'a option) \<Rightarrow>
   string list \<Rightarrow> string \<Rightarrow> string \<Rightarrow>
   payload option \<Rightarrow> 'a sent" where
  "ssh_request env cl from_json mount verb path body_v =
     request_secret_json_internal env cl from_json ''/ssh/'' ''ssh'' (join_with ''/'' mount)
       verb path body_v"

definition ssh_lookup_roles_by_ip ::
  "http_env \<Rightarrow> client \<Rightarrow>
   (string \<Rightarrow> 'a response_envelope option) \<Rightarrow>
   (ssh_lookup_payload \<Rightarrow> payload) \<Rightarrow> string list \<Rightarrow>
   ip_addr \<Rightarrow> 'a sent" where
  "ssh_lookup_roles_by_ip env cl from_json to_json mount ip =
     (let payload = \<lparr>ssh_lookup_payload_ip = ip\<rparr> in
     sbind (pure (ssh_path mount [''lookup''])) (\<lambda>p.
     smap env_data (ssh_request env cl from_json mount ''POST'' p (Some (to_json payload)))))"

definition ssh_write_role ::
  "http_env \<Rightarrow> client \<Rightarrow>
   (string \<Rightarrow> unit option) \<Rightarrow>
   (ssh_role_request \<Rightarrow> payload) \<Rightarrow> string list \<Rightarrow>
   string \<Rightarrow> ssh_role_request \<Rightarrow> unit sent" where
  "ssh_write_role env cl from_json to_json mount name request =
     sbind (pure (ssh_role_request_validate request)) (\<lambda>_.
     sbind (pure (client_validate_fields env [(SSH_ROLE_ALLOW_EMPTY_PRINCIPALS,
       ssh_role_request_allow_empty_principals request \<noteq> None), (SSH_ROLE_ISSUER_REF,
       ssh_role_request_issuer_ref request \<noteq> None)])) (\<lambda>_.
     sbind (pure (ssh_path mount [''roles'', name])) (\<lambda>p.
     ssh_request env cl from_json mount ''POST'' p (Some (to_json request)))))"

record ssh_role_with_identity_template_overrides =
  ssh_role_with_identity_template_overrides_request :: ssh_role_request
  ssh_role_with_identity_template_overrides_allow_commas_in_identity_templates :: "bool option"
  ssh_role_with_identity_template_overrides_allow_wildcards_in_identity_templates :: "bool option"

definition ssh_write_role_with_identity_template_commas ::
  "http_env \<Rightarrow> client \<Rightarrow>
   (string \<Rightarrow> unit option) \<Rightarrow>
   (ssh_role_with_identity_template_overrides \<Rightarrow> payload) \<Rightarrow>
   string list \<Rightarrow> string \<Rightarrow> ssh_role_request \<Rightarrow>
   unit \<Rightarrow> unit sent" where
  "ssh_write_role_with_identity_template_commas env cl from_json to_json mount name request
    acknowledgment =
     sbind (pure (ssh_role_request_validate request)) (\<lambda>_.
     sbind (pure (client_validate_fields env [(SSH_ROLE_ALLOW_EMPTY_PRINCIPALS,
       ssh_role_request_allow_empty_principals request \<noteq> None), (SSH_ROLE_ISSUER_REF,
       ssh_role_request_issuer_ref request \<noteq> None), (SSH_ROLE_ALLOW_TEMPLATE_COMMAS,
       True)])) (\<lambda>_.
     let payload = \<lparr>ssh_role_with_identity_template_overrides_request = request,
       ssh_role_with_identity_template_overrides_allow_commas_in_identity_templates = Some True,
       ssh_role_with_identity_template_overrides_allow_wildcards_in_identity_templates = None\<rparr>
       in
     sbind (pure (ssh_path mount [''roles'', name])) (\<lambda>p.
     ssh_request env cl from_json mount ''POST'' p (Some (to_json payload)))))"

definition ssh_write_role_with_identity_template_wildcards ::
  "http_env \<Rightarrow> client \<Rightarrow>
   (string \<Rightarrow> unit option) \<Rightarrow>
   (ssh_role_with_identity_template_overrides \<Rightarrow> payload) \<Rightarrow>
   string list \<Rightarrow> string \<Rightarrow> ssh_role_request \<Rightarrow>
   unit \<Rightarrow> unit sent" where
  "ssh_write_role_with_identity_template_wildcards env cl from_json to_json mount name request
    acknowledgment =
     sbind (pure (ssh_role_request_validate request)) (\<lambda>_.
     sbind (pure (client_validate_fields env [(SSH_ROLE_ALLOW_EMPTY_PRINCIPALS,
       ssh_role_request_allow_empty_principals request \<noteq> None), (SSH_ROLE_ISSUER_REF,
       ssh_role_request_issuer_ref request \<noteq> None), (SSH_ROLE_ALLOW_TEMPLATE_WILDCARDS,
       True)])) (\<lambda>_.
     let payload = \<lparr>ssh_role_with_identity_template_overrides_request = request,
       ssh_role_with_identity_template_overrides_allow_commas_in_identity_templates = None,
       ssh_role_with_identity_template_overrides_allow_wildcards_in_identity_templates = Some True\<rparr>
       in
     sbind (pure (ssh_path mount [''roles'', name])) (\<lambda>p.
     ssh_request env cl from_json mount ''POST'' p (Some (to_json payload)))))"

definition ssh_write_role_with_identity_template_overrides ::
  "http_env \<Rightarrow> client \<Rightarrow>
   (string \<Rightarrow> unit option) \<Rightarrow>
   (ssh_role_with_identity_template_overrides \<Rightarrow> payload) \<Rightarrow>
   string list \<Rightarrow> string \<Rightarrow> ssh_role_request \<Rightarrow>
   ssh_identity_template_overrides \<Rightarrow> unit sent" where
  "ssh_write_role_with_identity_template_overrides env cl from_json to_json mount name request
    overrides =
     sbind (pure (ssh_role_request_validate request)) (\<lambda>_.
     sbind (pure (client_validate_fields env [(SSH_ROLE_ALLOW_EMPTY_PRINCIPALS,
       ssh_role_request_allow_empty_principals request \<noteq> None), (SSH_ROLE_ISSUER_REF,
       ssh_role_request_issuer_ref request \<noteq> None), (SSH_ROLE_ALLOW_TEMPLATE_COMMAS,
       True), (SSH_ROLE_ALLOW_TEMPLATE_WILDCARDS, True)])) (\<lambda>_.
     let payload = \<lparr>ssh_role_with_identity_template_overrides_request = request,
       ssh_role_with_identity_template_overrides_allow_commas_in_identity_templates = Some
       (ssh_identity_template_overrides_allow_commas overrides),
       ssh_role_with_identity_template_overrides_allow_wildcards_in_identity_templates = Some
       (ssh_identity_template_overrides_allow_wildcards overrides)\<rparr> in
     sbind (pure (ssh_path mount [''roles'', name])) (\<lambda>p.
     ssh_request env cl from_json mount ''POST'' p (Some (to_json payload)))))"

definition ssh_read_role ::
  "http_env \<Rightarrow> client \<Rightarrow>
   (string \<Rightarrow> 'a response_envelope option) \<Rightarrow> string list \<Rightarrow>
   string \<Rightarrow> 'a sent" where
  "ssh_read_role env cl from_json mount name =
     sbind (pure (ssh_path mount [''roles'', name])) (\<lambda>p.
     smap env_data (ssh_request env cl from_json mount ''GET'' p None))"

definition ssh_read_role_details ::
  "http_env \<Rightarrow> client \<Rightarrow>
   (string \<Rightarrow> 'a response_envelope option) \<Rightarrow> string list \<Rightarrow>
   string \<Rightarrow> 'a sent" where
  "ssh_read_role_details env cl from_json mount name =
     sbind (pure (ssh_path mount [''roles'', name])) (\<lambda>p.
     smap env_data (ssh_request env cl from_json mount ''GET'' p None))"

definition ssh_read_role_template_details ::
  "http_env \<Rightarrow> client \<Rightarrow>
   (string \<Rightarrow> 'a response_envelope option) \<Rightarrow> string list \<Rightarrow>
   string \<Rightarrow> 'a sent" where
  "ssh_read_role_template_details env cl from_json mount name =
     sbind (pure (ssh_path mount [''roles'', name])) (\<lambda>p.
     smap env_data (ssh_request env cl from_json mount ''GET'' p None))"

definition ssh_delete_role ::
  "http_env \<Rightarrow> client \<Rightarrow>
   (string \<Rightarrow> unit option) \<Rightarrow> string list \<Rightarrow>
   string \<Rightarrow> unit sent" where
  "ssh_delete_role env cl from_json mount name =
     sbind (pure (ssh_path mount [''roles'', name])) (\<lambda>p.
     ssh_request env cl from_json mount ''DELETE'' p None)"

definition ssh_read_zero_address_roles ::
  "http_env \<Rightarrow> client \<Rightarrow>
   (string \<Rightarrow> 'a response_envelope option) \<Rightarrow> string list \<Rightarrow>
   'a sent" where
  "ssh_read_zero_address_roles env cl from_json mount =
     sbind (pure (ssh_path mount [''config'', ''zeroaddress''])) (\<lambda>p.
     smap env_data (ssh_request env cl from_json mount ''GET'' p None))"

record ssh_payload =
  ssh_payload_roles :: "string list"

definition ssh_write_zero_address_roles ::
  "http_env \<Rightarrow> client \<Rightarrow>
   (string \<Rightarrow> unit option) \<Rightarrow>
   (ssh_payload \<Rightarrow> payload) \<Rightarrow> string list \<Rightarrow>
   string list \<Rightarrow> unit sent" where
  "ssh_write_zero_address_roles env cl from_json to_json mount roles =
     sbind (pure (ssh_path mount [''config'', ''zeroaddress''])) (\<lambda>p.
     ssh_request env cl from_json mount ''POST'' p (Some (to_json
       \<lparr>ssh_payload_roles = roles\<rparr>)))"

definition ssh_delete_zero_address_roles ::
  "http_env \<Rightarrow> client \<Rightarrow>
   (string \<Rightarrow> unit option) \<Rightarrow> string list \<Rightarrow> unit sent" where
  "ssh_delete_zero_address_roles env cl from_json mount =
     sbind (pure (ssh_path mount [''config'', ''zeroaddress''])) (\<lambda>p.
     ssh_request env cl from_json mount ''DELETE'' p None)"

definition ssh_credentials_call ::
  "http_env \<Rightarrow> client \<Rightarrow>
   (string \<Rightarrow> 'a response_envelope option) \<Rightarrow>
   (ssh_credentials_request \<Rightarrow> payload) \<Rightarrow> string list \<Rightarrow>
   string \<Rightarrow> ssh_credentials_request \<Rightarrow> 'a sent" where
  "ssh_credentials_call env cl from_json to_json mount role request =
     sbind (pure (ssh_path mount [''creds'', role])) (\<lambda>p.
     smap env_data (ssh_request env cl from_json mount ''POST'' p (Some (to_json request))))"

definition ssh_read_issuer_config ::
  "http_env \<Rightarrow> client \<Rightarrow>
   (string \<Rightarrow> 'a response_envelope option) \<Rightarrow> string list \<Rightarrow>
   'a sent" where
  "ssh_read_issuer_config env cl from_json mount =
     sbind (pure (ssh_path mount [''config'', ''issuers''])) (\<lambda>p.
     smap env_data (ssh_request env cl from_json mount ''GET'' p None))"

definition ssh_write_issuer_config ::
  "http_env \<Rightarrow> client \<Rightarrow>
   (string \<Rightarrow> 'a response_envelope option) \<Rightarrow>
   (ssh_issuer_config_request \<Rightarrow> payload) \<Rightarrow> string list \<Rightarrow>
   ssh_issuer_config_request \<Rightarrow> 'a sent" where
  "ssh_write_issuer_config env cl from_json to_json mount request =
     sbind (pure (ssh_path mount [''config'', ''issuers''])) (\<lambda>p.
     smap env_data (ssh_request env cl from_json mount ''POST'' p (Some (to_json request))))"

definition ssh_list_issuers_after ::
  "http_env \<Rightarrow> client \<Rightarrow>
   (string \<Rightarrow> 'a response_envelope option) \<Rightarrow> string list \<Rightarrow>
   string option \<Rightarrow> 64 word option \<Rightarrow> 'a sent" where
  "ssh_list_issuers_after env cl from_json mount after limit =
     sbind (pure (from_after_limit after limit)) (\<lambda>v.
     let query = query_pairs v in
     sbind (pure (ssh_path mount [''issuers''])) (\<lambda>p.
     smap env_data (ssh_request_query env cl from_json mount ''LIST'' p query None [200])))"

definition ssh_list_issuers ::
  "http_env \<Rightarrow> client \<Rightarrow>
   (string \<Rightarrow> 'a response_envelope option) \<Rightarrow> string list \<Rightarrow>
   'a sent" where
  "ssh_list_issuers env cl from_json mount =
     ssh_list_issuers_after env cl from_json mount None None"

definition ssh_submit_default_ca ::
  "http_env \<Rightarrow> client \<Rightarrow>
   (string \<Rightarrow> 'a response_envelope option) \<Rightarrow>
   (ssh_ca_submit_payload \<Rightarrow> payload) \<Rightarrow> string list \<Rightarrow>
   ssh_ca_submit_request \<Rightarrow> 'a sent" where
  "ssh_submit_default_ca env cl from_json to_json mount request =
     (let payload = ssh_ca_submit_request_payload request in
     sbind (pure (ssh_path mount [''config'', ''ca''])) (\<lambda>p.
     smap env_data (ssh_request env cl from_json mount ''POST'' p (Some (to_json payload)))))"

definition ssh_submit_issuer ::
  "http_env \<Rightarrow> client \<Rightarrow>
   (string \<Rightarrow> 'a response_envelope option) \<Rightarrow>
   (ssh_ca_submit_payload \<Rightarrow> payload) \<Rightarrow> string list \<Rightarrow>
   string option \<Rightarrow> ssh_ca_submit_request \<Rightarrow> 'a sent" where
  "ssh_submit_issuer env cl from_json to_json mount issuer_name request =
     (let payload = ssh_ca_submit_request_payload request in
     sbind (pure (case issuer_name of
        None \<Rightarrow> ssh_path mount [''issuers'', ''import'']
      | Some issuer_name \<Rightarrow> ssh_path mount [''issuers'', ''import'', issuer_name]))
        (\<lambda>path.
     smap env_data (ssh_request env cl from_json mount ''POST'' path (Some (to_json
       payload)))))"

definition ssh_read_issuer ::
  "http_env \<Rightarrow> client \<Rightarrow>
   (string \<Rightarrow> 'a response_envelope option) \<Rightarrow> string list \<Rightarrow>
   string \<Rightarrow> 'a sent" where
  "ssh_read_issuer env cl from_json mount issuer_ref =
     sbind (pure (ssh_path mount [''issuer'', issuer_ref])) (\<lambda>p.
     smap env_data (ssh_request env cl from_json mount ''GET'' p None))"

definition ssh_update_issuer ::
  "http_env \<Rightarrow> client \<Rightarrow>
   (string \<Rightarrow> 'a response_envelope option) \<Rightarrow>
   (ssh_issuer_update_request \<Rightarrow> payload) \<Rightarrow> string list \<Rightarrow>
   string \<Rightarrow> ssh_issuer_update_request \<Rightarrow> 'a sent" where
  "ssh_update_issuer env cl from_json to_json mount issuer_ref request =
     sbind (pure (ssh_path mount [''issuer'', issuer_ref])) (\<lambda>p.
     smap env_data (ssh_request env cl from_json mount ''POST'' p (Some (to_json request))))"

definition ssh_read_ca_public_key ::
  "http_env \<Rightarrow> client \<Rightarrow>
   (string \<Rightarrow> 'a response_envelope option) \<Rightarrow> string list \<Rightarrow>
   'a sent" where
  "ssh_read_ca_public_key env cl from_json mount =
     sbind (pure (ssh_path mount [''config'', ''ca''])) (\<lambda>p.
     smap env_data (ssh_request env cl from_json mount ''GET'' p None))"

definition ssh_request_accepting ::
  "http_env \<Rightarrow> client \<Rightarrow> (string \<Rightarrow> 'a option) \<Rightarrow>
   string list \<Rightarrow> string \<Rightarrow> string \<Rightarrow>
   payload option \<Rightarrow> nat list \<Rightarrow> 'a sent" where
  "ssh_request_accepting env cl from_json mount verb path body_v accepted_statuses =
     request_secret_json_accepting env cl from_json ''/ssh/'' ''ssh'' (join_with ''/'' mount)
       verb path body_v accepted_statuses"

definition ssh_delete_ca_information ::
  "http_env \<Rightarrow> client \<Rightarrow>
   (string \<Rightarrow> unit option) \<Rightarrow> string list \<Rightarrow> unit sent" where
  "ssh_delete_ca_information env cl from_json mount =
     sbind (pure (ssh_path mount [''config'', ''ca''])) (\<lambda>p.
     ssh_request_accepting env cl from_json mount ''DELETE'' p None [200, 204])"

definition ssh_delete_issuer ::
  "http_env \<Rightarrow> client \<Rightarrow>
   (string \<Rightarrow> unit option) \<Rightarrow> string list \<Rightarrow>
   string \<Rightarrow> unit sent" where
  "ssh_delete_issuer env cl from_json mount issuer_ref =
     sbind (pure (ssh_path mount [''issuer'', issuer_ref])) (\<lambda>p.
     ssh_request_accepting env cl from_json mount ''DELETE'' p None [200, 204])"

definition ssh_sign ::
  "http_env \<Rightarrow> client \<Rightarrow>
   (string \<Rightarrow> 'a response_envelope option) \<Rightarrow>
   (ssh_sign_request \<Rightarrow> payload) \<Rightarrow> string list \<Rightarrow>
   string \<Rightarrow> ssh_sign_request \<Rightarrow> 'a sent" where
  "ssh_sign env cl from_json to_json mount role request =
     sbind (pure (ssh_sign_request_validate request)) (\<lambda>_.
     sbind (pure (ssh_path mount [''sign'', role])) (\<lambda>p.
     smap env_data (ssh_request env cl from_json mount ''POST'' p (Some (to_json request)))))"

definition ssh_issue ::
  "http_env \<Rightarrow> client \<Rightarrow>
   (string \<Rightarrow> 'a response_envelope option) \<Rightarrow>
   (ssh_issue_request \<Rightarrow> payload) \<Rightarrow> string list \<Rightarrow>
   string \<Rightarrow> ssh_issue_request \<Rightarrow> 'a sent" where
  "ssh_issue env cl from_json to_json mount role request =
     sbind (pure (ssh_issue_request_validate request)) (\<lambda>_.
     sbind (pure (ssh_path mount [''issue'', role])) (\<lambda>p.
     smap env_data (ssh_request env cl from_json mount ''POST'' p (Some (to_json request)))))"

record ssh_verify_payload =
  ssh_verify_payload_otp :: string

definition ssh_verify ::
  "http_env \<Rightarrow> client \<Rightarrow>
   (string \<Rightarrow> 'a response_envelope option) \<Rightarrow>
   (ssh_verify_payload \<Rightarrow> payload) \<Rightarrow> string list \<Rightarrow>
   ssh_verify_request \<Rightarrow> 'a sent" where
  "ssh_verify env cl from_json to_json mount request =
     (let payload = \<lparr>ssh_verify_payload_otp = ssh_verify_request_otp request\<rparr> in
     sbind (pure (ssh_path mount [''verify''])) (\<lambda>p.
     smap env_data (ssh_request env cl from_json mount ''POST'' p (Some (to_json payload)))))"

section \<open>The routes of the engine\<close>

lemma ssh_path_handle: "ssh_path mount tail = handle_path mount tail"
  unfolding ssh_path_def handle_path_def Let_def
  by (simp add: rfold_segments rmap_rbind)

interpretation ssh: mounted_engine ssh_path ssh_request
  by unfold_locales (simp_all add: ssh_path_handle ssh_request_def Let_def sends_secret secret_json_safe)

named_theorems ssh_paths
named_theorems ssh_calls

lemmas [ssh_paths] = ssh.path_at

lemma ssh_request_query_at [ssh_calls]:
  "list_all safe_segment mount \<Longrightarrow> path_at mount parts path \<Longrightarrow>
   at_route env cl verb mount parts
     (ssh_request_query env cl from_json mount verb path query body_v accepted_statuses)"
  by (auto simp: ssh_request_query_def Let_def rbind_Inr_iff intro!: at_intros at_requests ssh_calls
      intro: ssh_paths silent_intros split: option.splits)

lemma ssh_request_at [ssh_calls]:
  "list_all safe_segment mount \<Longrightarrow> path_at mount parts path \<Longrightarrow>
   at_route env cl verb mount parts (ssh_request env cl from_json mount verb path body_v)"
  by (rule ssh.request_at)

lemma ssh_request_accepting_at [ssh_calls]:
  "list_all safe_segment mount \<Longrightarrow> path_at mount parts path \<Longrightarrow>
   at_route env cl verb mount parts
     (ssh_request_accepting env cl from_json mount verb path body_v accepted_statuses)"
  by (auto simp: ssh_request_accepting_def Let_def rbind_Inr_iff intro!: at_intros at_requests ssh_calls
      intro: ssh_paths silent_intros split: option.splits)

lemma ssh_roles_routes [ssh_calls]:
  assumes "list_all safe_segment mount"
  shows "at_route env cl ''LIST'' mount [''roles''] (ssh_list_roles_after env cl fj mount after limit)"
    and "at_route env cl ''LIST'' mount [''roles''] (ssh_list_roles env cl fj mount)"
    and "at_route env cl ''POST'' mount [''roles'', name]
        (ssh_write_role env cl fj2 tj mount name request)"
    and "at_route env cl ''POST'' mount [''roles'', name]
        (ssh_write_role_with_identity_template_commas env cl fj2 tj2 mount name request
          acknowledgment)"
    and "at_route env cl ''POST'' mount [''roles'', name]
        (ssh_write_role_with_identity_template_wildcards env cl fj2 tj2 mount name request
          acknowledgment)"
    and "at_route env cl ''POST'' mount [''roles'', name]
        (ssh_write_role_with_identity_template_overrides env cl fj2 tj2 mount name request
          overrides)"
    and "at_route env cl ''GET'' mount [''roles'', name] (ssh_read_role env cl fj mount name)"
    and "at_route env cl ''GET'' mount [''roles'', name] (ssh_read_role_details env cl fj mount name)"
    and "at_route env cl ''GET'' mount [''roles'', name]
        (ssh_read_role_template_details env cl fj mount name)"
    and "at_route env cl ''DELETE'' mount [''roles'', name] (ssh_delete_role env cl fj2 mount name)"
  unfolding ssh_list_roles_after_def ssh_list_roles_def ssh_write_role_def
      ssh_write_role_with_identity_template_commas_def
      ssh_write_role_with_identity_template_wildcards_def
      ssh_write_role_with_identity_template_overrides_def ssh_read_role_def
      ssh_read_role_details_def ssh_read_role_template_details_def ssh_delete_role_def
  by (use assms in \<open>auto simp: Let_def rbind_Inr_iff
      intro!: at_intros at_requests ssh_calls intro: ssh_paths at_after silent_intros split: option.splits\<close>)

lemma ssh_config_routes [ssh_calls]:
  assumes "list_all safe_segment mount"
  shows "at_route env cl ''GET'' mount [''config'', ''zeroaddress'']
        (ssh_read_zero_address_roles env cl fj mount)"
    and "at_route env cl ''POST'' mount [''config'', ''zeroaddress'']
        (ssh_write_zero_address_roles env cl fj2 tj mount roles)"
    and "at_route env cl ''DELETE'' mount [''config'', ''zeroaddress'']
        (ssh_delete_zero_address_roles env cl fj2 mount)"
    and "at_route env cl ''GET'' mount [''config'', ''issuers'']
        (ssh_read_issuer_config env cl fj mount)"
    and "at_route env cl ''POST'' mount [''config'', ''issuers'']
        (ssh_write_issuer_config env cl fj tj2 mount request)"
    and "at_route env cl ''POST'' mount [''config'', ''ca'']
        (ssh_submit_default_ca env cl fj tj3 mount request2)"
    and "at_route env cl ''GET'' mount [''config'', ''ca''] (ssh_read_ca_public_key env cl fj mount)"
    and "at_route env cl ''DELETE'' mount [''config'', ''ca'']
        (ssh_delete_ca_information env cl fj2 mount)"
  unfolding ssh_read_zero_address_roles_def ssh_write_zero_address_roles_def
      ssh_delete_zero_address_roles_def ssh_read_issuer_config_def ssh_write_issuer_config_def
      ssh_submit_default_ca_def ssh_read_ca_public_key_def ssh_delete_ca_information_def
  by (use assms in \<open>auto simp: Let_def rbind_Inr_iff
      intro!: at_intros at_requests ssh_calls intro: ssh_paths at_after silent_intros split: option.splits\<close>)

lemma ssh_issuers_routes [ssh_calls]:
  assumes "list_all safe_segment mount"
  shows "at_route env cl ''LIST'' mount [''issuers'']
        (ssh_list_issuers_after env cl fj mount after limit)"
    and "at_route env cl ''LIST'' mount [''issuers''] (ssh_list_issuers env cl fj mount)"
    and "at_route env cl ''POST'' mount ([''issuers'', ''import''] @ optional_part issuer_name)
        (ssh_submit_issuer env cl fj tj mount issuer_name request)"
  unfolding ssh_list_issuers_after_def ssh_list_issuers_def ssh_submit_issuer_def
  by (use assms in \<open>auto simp: Let_def rbind_Inr_iff
      intro!: at_intros at_requests ssh_calls intro: ssh_paths at_after silent_intros split: option.splits\<close>)

lemma ssh_issuer_routes [ssh_calls]:
  assumes "list_all safe_segment mount"
  shows "at_route env cl ''GET'' mount [''issuer'', issuer_ref]
        (ssh_read_issuer env cl fj mount issuer_ref)"
    and "at_route env cl ''POST'' mount [''issuer'', issuer_ref]
        (ssh_update_issuer env cl fj tj mount issuer_ref request)"
    and "at_route env cl ''DELETE'' mount [''issuer'', issuer_ref]
        (ssh_delete_issuer env cl fj2 mount issuer_ref)"
  unfolding ssh_read_issuer_def ssh_update_issuer_def ssh_delete_issuer_def
  by (use assms in \<open>auto simp: Let_def rbind_Inr_iff
      intro!: at_intros at_requests ssh_calls intro: ssh_paths at_after silent_intros split: option.splits\<close>)

lemma ssh_other_routes [ssh_calls]:
  assumes "list_all safe_segment mount"
  shows "at_route env cl ''POST'' mount [''lookup''] (ssh_lookup_roles_by_ip env cl fj tj mount ip)"
    and "at_route env cl ''POST'' mount [''creds'', role]
        (ssh_credentials_call env cl fj tj2 mount role request)"
    and "at_route env cl ''POST'' mount [''sign'', role] (ssh_sign env cl fj tj3 mount role request2)"
    and "at_route env cl ''POST'' mount [''issue'', role]
        (ssh_issue env cl fj tj4 mount role request3)"
    and "at_route env cl ''POST'' mount [''verify''] (ssh_verify env cl fj tj5 mount request4)"
  unfolding ssh_lookup_roles_by_ip_def ssh_credentials_call_def ssh_sign_def ssh_issue_def ssh_verify_def
  by (use assms in \<open>auto simp: Let_def rbind_Inr_iff
      intro!: at_intros at_requests ssh_calls intro: ssh_paths at_after silent_intros split: option.splits\<close>)

text \<open>The public handle.\<close>

lemma ssh_public_path_at [ssh_paths]: "ssh_public_path mount tail = Inr p \<Longrightarrow> path_at mount tail p"
  by (rule handle_path_at) (simp add: ssh_public_path_def handle_path_def Let_def rfold_segments rmap_rbind)

lemma ssh_public_other_routes [ssh_calls]:
  assumes "list_all safe_segment mount"
  shows "at_route env cl ''GET'' mount [''public_key''] (ssh_public_public_key env cl mount)"
    and "at_route env cl ''GET'' mount [''issuer'', issuer_ref, ''public_key'']
        (ssh_public_issuer_public_key env cl mount issuer_ref)"
  unfolding ssh_public_public_key_def ssh_public_issuer_public_key_def ssh_public_read_def
  by (use assms in \<open>auto simp: Let_def rbind_Inr_iff
      intro!: at_intros at_requests secret_at(4) [THEN at_after] ssh_calls silent_intros intro: ssh_paths\<close>)

end
