(* ===== verification/Bao_Kubernetes.thy ===== *)
theory Bao_Kubernetes
  imports Bao_Engine
begin

text \<open>
  The Kubernetes secrets engine, \<open>secrets/kubernetes.rs\<close>.
\<close>

section \<open>Data and requests\<close>

record kubernetes_secrets_config =
  kubernetes_secrets_config_kubernetes_host :: "string option"
  kubernetes_secrets_config_kubernetes_ca_cert :: "string option"
  kubernetes_secrets_config_service_account_jwt :: "string option"
  kubernetes_secrets_config_disable_local_ca_jwt :: "bool option"

definition kubernetes_secrets_config_validate ::
  "(string \<Rightarrow> url option) \<Rightarrow> kubernetes_secrets_config \<Rightarrow>
   unit res" where
  "kubernetes_secrets_config_validate parse_url self =
     (case kubernetes_secrets_config_kubernetes_host self of
        None \<Rightarrow> Inr ()
      | Some host \<Rightarrow> validate_https_endpoint parse_url host
        ''kubernetes secrets kubernetes_host'')"

record kubernetes_secrets_role =
  kubernetes_secrets_role_name :: "string option"
  kubernetes_secrets_role_allowed_kubernetes_namespaces :: "string list"
  kubernetes_secrets_role_allowed_kubernetes_namespace_selector :: "string option"
  kubernetes_secrets_role_token_max_ttl :: "string option"
  kubernetes_secrets_role_token_default_ttl :: "string option"
  kubernetes_secrets_role_token_default_audiences :: "string option"
  kubernetes_secrets_role_service_account_name :: "string option"
  kubernetes_secrets_role_kubernetes_role_name :: "string option"
  kubernetes_secrets_role_kubernetes_role_type :: "string option"
  kubernetes_secrets_role_generated_role_rules :: "string option"
  kubernetes_secrets_role_name_template :: "string option"
  kubernetes_secrets_role_extra_annotations :: "(string \<times> string) list"
  kubernetes_secrets_role_extra_labels :: "(string \<times> string) list"
  kubernetes_secrets_role_additional_metadata :: "(string \<times> string) list"

definition kubernetes_secrets_role_default :: kubernetes_secrets_role where
  "kubernetes_secrets_role_default =
     \<lparr>kubernetes_secrets_role_name = None,
       kubernetes_secrets_role_allowed_kubernetes_namespaces = [],
       kubernetes_secrets_role_allowed_kubernetes_namespace_selector = None,
       kubernetes_secrets_role_token_max_ttl = None, kubernetes_secrets_role_token_default_ttl
       = None, kubernetes_secrets_role_token_default_audiences = None,
       kubernetes_secrets_role_service_account_name = None,
       kubernetes_secrets_role_kubernetes_role_name = None,
       kubernetes_secrets_role_kubernetes_role_type = None,
       kubernetes_secrets_role_generated_role_rules = None,
       kubernetes_secrets_role_name_template = None, kubernetes_secrets_role_extra_annotations
       = [], kubernetes_secrets_role_extra_labels = [],
       kubernetes_secrets_role_additional_metadata = []\<rparr>"

definition kubernetes_secrets_role_for_service_account ::
  "string \<Rightarrow> kubernetes_secrets_role" where
  "kubernetes_secrets_role_for_service_account service_account_name =
     kubernetes_secrets_role_default\<lparr>kubernetes_secrets_role_service_account_name :=
       Some service_account_name\<rparr>"

definition kubernetes_secrets_role_for_kubernetes_role ::
  "string \<Rightarrow> kubernetes_secrets_role" where
  "kubernetes_secrets_role_for_kubernetes_role kubernetes_role_name =
     kubernetes_secrets_role_default\<lparr>kubernetes_secrets_role_kubernetes_role_name :=
       Some kubernetes_role_name\<rparr>"

definition kubernetes_secrets_role_for_generated_role_rules ::
  "string \<Rightarrow> kubernetes_secrets_role" where
  "kubernetes_secrets_role_for_generated_role_rules generated_role_rules =
     kubernetes_secrets_role_default\<lparr>kubernetes_secrets_role_generated_role_rules :=
       Some generated_role_rules\<rparr>"

definition kubernetes_secrets_role_with_allowed_namespace ::
  "kubernetes_secrets_role \<Rightarrow> string \<Rightarrow> kubernetes_secrets_role" where
  "kubernetes_secrets_role_with_allowed_namespace self ns =
     self\<lparr>kubernetes_secrets_role_allowed_kubernetes_namespaces := kubernetes_secrets_role_allowed_kubernetes_namespaces
       self @ [ns]\<rparr>"

definition kubernetes_secrets_validate_duration_or_seconds ::
  "string \<Rightarrow> string \<Rightarrow> bool \<Rightarrow> unit res" where
  "kubernetes_secrets_validate_duration_or_seconds val_v field allow_zero =
     (if (is_some_and (\<lambda>seconds. allow_zero \<or> 0 < seconds) (parse_unsigned
       18446744073709551616 val_v)) \<or> validate_duration_string val_v allow_zero then Inr ()
        else Inl (InvalidParameter (field @
          '' must be a duration such as 30s, 5m, or 1h or an unsigned second count'')))"

definition kubernetes_secrets_role_with_token_default_ttl ::
  "kubernetes_secrets_role \<Rightarrow> string \<Rightarrow> kubernetes_secrets_role res" where
  "kubernetes_secrets_role_with_token_default_ttl self ttl =
     rbind (kubernetes_secrets_validate_duration_or_seconds ttl
       ''kubernetes secrets token_default_ttl'' True) (\<lambda>_.
     Inr (self\<lparr>kubernetes_secrets_role_token_default_ttl := Some ttl\<rparr>))"

definition kubernetes_secrets_role_with_token_default_ttl_duration ::
  "kubernetes_secrets_role \<Rightarrow> std_duration \<Rightarrow>
   kubernetes_secrets_role res" where
  "kubernetes_secrets_role_with_token_default_ttl_duration self ttl =
     rbind (nonzero_duration_to_bao_string ttl ''kubernetes secrets token_default_ttl'')
       (\<lambda>v.
     kubernetes_secrets_role_with_token_default_ttl self v)"

definition kubernetes_secrets_role_with_token_max_ttl ::
  "kubernetes_secrets_role \<Rightarrow> string \<Rightarrow> kubernetes_secrets_role res" where
  "kubernetes_secrets_role_with_token_max_ttl self ttl =
     rbind (kubernetes_secrets_validate_duration_or_seconds ttl
       ''kubernetes secrets token_max_ttl'' True) (\<lambda>_.
     Inr (self\<lparr>kubernetes_secrets_role_token_max_ttl := Some ttl\<rparr>))"

definition kubernetes_secrets_role_with_token_max_ttl_duration ::
  "kubernetes_secrets_role \<Rightarrow> std_duration \<Rightarrow>
   kubernetes_secrets_role res" where
  "kubernetes_secrets_role_with_token_max_ttl_duration self ttl =
     rbind (nonzero_duration_to_bao_string ttl ''kubernetes secrets token_max_ttl'')
       (\<lambda>v.
     kubernetes_secrets_role_with_token_max_ttl self v)"

definition kubernetes_secrets_role_validate :: "kubernetes_secrets_role \<Rightarrow> unit res" where
  "kubernetes_secrets_role_validate self =
     (let mode_count = ((if kubernetes_secrets_role_service_account_name self \<noteq> None
       then 1 else 0 :: nat) + (if kubernetes_secrets_role_kubernetes_role_name self \<noteq>
       None then 1 else 0 :: nat)) + (if kubernetes_secrets_role_generated_role_rules self
       \<noteq> None then 1 else 0 :: nat) in
     (if mode_count \<noteq> 1 then Inl (InvalidParameter
       ''exactly one Kubernetes secrets role mode must be set'')
        else rbind (case kubernetes_secrets_role_token_default_ttl self of
           None \<Rightarrow> Inr ()
         | Some ttl \<Rightarrow> kubernetes_secrets_validate_duration_or_seconds ttl
           ''kubernetes secrets token_default_ttl'' True) (\<lambda>_.
        (case kubernetes_secrets_role_token_max_ttl self of
           None \<Rightarrow> Inr ()
         | Some ttl \<Rightarrow> kubernetes_secrets_validate_duration_or_seconds ttl
           ''kubernetes secrets token_max_ttl'' True))))"

record kubernetes_credentials_request =
  kubernetes_credentials_request_kubernetes_namespace :: "string option"
  kubernetes_credentials_request_cluster_role_binding :: "bool option"
  kubernetes_credentials_request_ttl :: "string option"
  kubernetes_credentials_request_audiences :: "string option"

definition kubernetes_credentials_request_default :: kubernetes_credentials_request where
  "kubernetes_credentials_request_default =
     \<lparr>kubernetes_credentials_request_kubernetes_namespace = None,
       kubernetes_credentials_request_cluster_role_binding = None,
       kubernetes_credentials_request_ttl = None, kubernetes_credentials_request_audiences =
       None\<rparr>"

definition kubernetes_credentials_request_new :: kubernetes_credentials_request where
  "kubernetes_credentials_request_new = kubernetes_credentials_request_default"

definition kubernetes_credentials_request_with_namespace ::
  "kubernetes_credentials_request \<Rightarrow> string \<Rightarrow>
   kubernetes_credentials_request" where
  "kubernetes_credentials_request_with_namespace self ns =
     self\<lparr>kubernetes_credentials_request_kubernetes_namespace := Some ns\<rparr>"

definition kubernetes_credentials_request_with_cluster_role_binding ::
  "kubernetes_credentials_request \<Rightarrow> bool \<Rightarrow>
   kubernetes_credentials_request" where
  "kubernetes_credentials_request_with_cluster_role_binding self enabled =
     self\<lparr>kubernetes_credentials_request_cluster_role_binding := Some enabled\<rparr>"

definition kubernetes_credentials_request_with_ttl ::
  "kubernetes_credentials_request \<Rightarrow> string \<Rightarrow>
   kubernetes_credentials_request res" where
  "kubernetes_credentials_request_with_ttl self ttl =
     rbind (kubernetes_secrets_validate_duration_or_seconds ttl
       ''kubernetes secrets credential ttl'' False) (\<lambda>_.
     Inr (self\<lparr>kubernetes_credentials_request_ttl := Some ttl\<rparr>))"

definition kubernetes_credentials_request_with_ttl_duration ::
  "kubernetes_credentials_request \<Rightarrow> std_duration \<Rightarrow>
   kubernetes_credentials_request res" where
  "kubernetes_credentials_request_with_ttl_duration self ttl =
     rbind (nonzero_duration_to_bao_string ttl ''kubernetes secrets credential ttl'')
       (\<lambda>v.
     kubernetes_credentials_request_with_ttl self v)"

section \<open>Operations\<close>

definition client_kubernetes_secrets_at :: "string \<Rightarrow> string list res" where
  "client_kubernetes_secrets_at mount = validate_mount_path mount"

definition client_kubernetes_secrets :: "string list res" where
  "client_kubernetes_secrets = client_kubernetes_secrets_at ''kubernetes''"

definition kubernetes_secrets_request ::
  "http_env \<Rightarrow> client \<Rightarrow> (string \<Rightarrow> 'a option) \<Rightarrow>
   string list \<Rightarrow> string \<Rightarrow> string \<Rightarrow>
   payload option \<Rightarrow> 'a sent" where
  "kubernetes_secrets_request env cl from_json mount verb path body_v =
     request_secret_json_internal env cl from_json ''/kubernetes/'' ''kubernetes'' (join_with
       ''/'' mount) verb path body_v"

definition kubernetes_secrets_path ::
  "string list \<Rightarrow> string list \<Rightarrow> string res" where
  "kubernetes_secrets_path mount tail =
     (let segments = mount in
     rbind (rfold (\<lambda>segment segments. rbind (validate_endpoint_path segment)
       (\<lambda>p.
     let segments = segments @ p in
     Inr segments)) tail segments) (\<lambda>segments.
     Inr (join_with ''/'' segments)))"

definition kubernetes_secrets_write_config ::
  "http_env \<Rightarrow> client \<Rightarrow>
   (string \<Rightarrow> unit option) \<Rightarrow>
   (kubernetes_secrets_config \<Rightarrow> payload) \<Rightarrow> string list \<Rightarrow>
   (string \<Rightarrow> url option) \<Rightarrow> kubernetes_secrets_config \<Rightarrow>
   unit sent" where
  "kubernetes_secrets_write_config env cl from_json to_json mount parse_url config =
     sbind (pure (kubernetes_secrets_config_validate parse_url config)) (\<lambda>_.
     sbind (pure (kubernetes_secrets_path mount [''config''])) (\<lambda>p.
     kubernetes_secrets_request env cl from_json mount ''POST'' p (Some (to_json config))))"

definition kubernetes_secrets_read_config ::
  "http_env \<Rightarrow> client \<Rightarrow>
   (string \<Rightarrow> 'a response_envelope option) \<Rightarrow> string list \<Rightarrow>
   'a sent" where
  "kubernetes_secrets_read_config env cl from_json mount =
     sbind (pure (kubernetes_secrets_path mount [''config''])) (\<lambda>p.
     smap env_data (kubernetes_secrets_request env cl from_json mount ''GET'' p None))"

definition kubernetes_secrets_request_accepting ::
  "http_env \<Rightarrow> client \<Rightarrow> (string \<Rightarrow> 'a option) \<Rightarrow>
   string list \<Rightarrow> string \<Rightarrow> string \<Rightarrow>
   payload option \<Rightarrow> nat list \<Rightarrow> 'a sent" where
  "kubernetes_secrets_request_accepting env cl from_json mount verb path body_v
    accepted_statuses =
     request_secret_json_accepting env cl from_json ''/kubernetes/'' ''kubernetes'' (join_with
       ''/'' mount) verb path body_v accepted_statuses"

definition kubernetes_secrets_delete_config ::
  "http_env \<Rightarrow> client \<Rightarrow>
   (string \<Rightarrow> unit option) \<Rightarrow> string list \<Rightarrow> unit sent" where
  "kubernetes_secrets_delete_config env cl from_json mount =
     sbind (pure (kubernetes_secrets_path mount [''config''])) (\<lambda>p.
     kubernetes_secrets_request_accepting env cl from_json mount ''DELETE'' p None [200, 204])"

definition kubernetes_secrets_write_role ::
  "http_env \<Rightarrow> client \<Rightarrow>
   (string \<Rightarrow> unit option) \<Rightarrow>
   (kubernetes_secrets_role \<Rightarrow> payload) \<Rightarrow> string list \<Rightarrow>
   string \<Rightarrow> kubernetes_secrets_role \<Rightarrow> unit sent" where
  "kubernetes_secrets_write_role env cl from_json to_json mount name role =
     sbind (pure (kubernetes_secrets_role_validate role)) (\<lambda>_.
     sbind (pure (kubernetes_secrets_path mount [''roles'', name])) (\<lambda>p.
     kubernetes_secrets_request env cl from_json mount ''POST'' p (Some (to_json role))))"

definition kubernetes_secrets_read_role ::
  "http_env \<Rightarrow> client \<Rightarrow>
   (string \<Rightarrow> 'a response_envelope option) \<Rightarrow> string list \<Rightarrow>
   string \<Rightarrow> 'a sent" where
  "kubernetes_secrets_read_role env cl from_json mount name =
     sbind (pure (kubernetes_secrets_path mount [''roles'', name])) (\<lambda>p.
     smap env_data (kubernetes_secrets_request env cl from_json mount ''GET'' p None))"

definition kubernetes_secrets_request_query ::
  "http_env \<Rightarrow> client \<Rightarrow> (string \<Rightarrow> 'a option) \<Rightarrow>
   string list \<Rightarrow> string \<Rightarrow> string \<Rightarrow>
   (string \<times> string) list \<Rightarrow> payload option \<Rightarrow>
   nat list \<Rightarrow> 'a sent" where
  "kubernetes_secrets_request_query env cl from_json mount verb path query body_v
    accepted_statuses =
     request_secret_json_query_headers_accepting env cl from_json ''/kubernetes/''
       ''kubernetes'' (join_with ''/'' mount) verb path query [] body_v accepted_statuses"

definition kubernetes_secrets_list_roles_after ::
  "http_env \<Rightarrow> client \<Rightarrow>
   (string \<Rightarrow> 'a response_envelope option) \<Rightarrow> string list \<Rightarrow>
   string option \<Rightarrow> 64 word option \<Rightarrow> 'a sent" where
  "kubernetes_secrets_list_roles_after env cl from_json mount after limit =
     sbind (pure (from_after_limit after limit)) (\<lambda>v.
     let query = query_pairs v in
     sbind (pure (kubernetes_secrets_path mount [''roles''])) (\<lambda>p.
     smap env_data (kubernetes_secrets_request_query env cl from_json mount ''LIST'' p query
       None [200])))"

definition kubernetes_secrets_list_roles ::
  "http_env \<Rightarrow> client \<Rightarrow>
   (string \<Rightarrow> 'a response_envelope option) \<Rightarrow> string list \<Rightarrow>
   'a sent" where
  "kubernetes_secrets_list_roles env cl from_json mount =
     kubernetes_secrets_list_roles_after env cl from_json mount None None"

definition kubernetes_secrets_delete_role ::
  "http_env \<Rightarrow> client \<Rightarrow>
   (string \<Rightarrow> unit option) \<Rightarrow> string list \<Rightarrow>
   string \<Rightarrow> unit sent" where
  "kubernetes_secrets_delete_role env cl from_json mount name =
     sbind (pure (kubernetes_secrets_path mount [''roles'', name])) (\<lambda>p.
     kubernetes_secrets_request_accepting env cl from_json mount ''DELETE'' p None [200, 204])"

record kubernetes_credentials =
  kubernetes_credentials_service_account_name :: string
  kubernetes_credentials_service_account_namespace :: string
  kubernetes_credentials_service_account_token :: string
  kubernetes_credentials_lease_id :: string
  kubernetes_credentials_lease_duration :: "64 word"
  kubernetes_credentials_renewable :: bool

record kubernetes_credential_data =
  kubernetes_credential_data_service_account_name :: string
  kubernetes_credential_data_service_account_namespace :: string
  kubernetes_credential_data_service_account_token :: string

definition kubernetes_secrets_kubernetes_credentials_from_envelope ::
  "kubernetes_credential_data response_envelope \<Rightarrow> kubernetes_credentials" where
  "kubernetes_secrets_kubernetes_credentials_from_envelope envelope =
     \<lparr>kubernetes_credentials_service_account_name = kubernetes_credential_data_service_account_name
       (env_data envelope),
       kubernetes_credentials_service_account_namespace = kubernetes_credential_data_service_account_namespace
       (env_data envelope),
       kubernetes_credentials_service_account_token = kubernetes_credential_data_service_account_token
       (env_data envelope), kubernetes_credentials_lease_id = env_lease_id envelope,
       kubernetes_credentials_lease_duration = env_lease_duration envelope,
       kubernetes_credentials_renewable = env_renewable envelope\<rparr>"

definition kubernetes_secrets_credentials ::
  "http_env \<Rightarrow> client \<Rightarrow>
   (string \<Rightarrow> kubernetes_credential_data response_envelope option) \<Rightarrow>
   (kubernetes_credentials_request \<Rightarrow> payload) \<Rightarrow>
   string list \<Rightarrow> string \<Rightarrow>
   kubernetes_credentials_request \<Rightarrow> kubernetes_credentials sent" where
  "kubernetes_secrets_credentials env cl from_json to_json mount role request =
     sbind (pure (case kubernetes_credentials_request_ttl request of
        None \<Rightarrow> Inr ()
      | Some ttl \<Rightarrow> kubernetes_secrets_validate_duration_or_seconds ttl
        ''kubernetes secrets credential ttl'' False)) (\<lambda>_.
     sbind (pure (kubernetes_secrets_path mount [''creds'', role])) (\<lambda>p.
     smap (\<lambda>envelope. kubernetes_secrets_kubernetes_credentials_from_envelope envelope)
       (kubernetes_secrets_request env cl from_json mount ''POST'' p (Some (to_json
       request)))))"

section \<open>The routes of the engine\<close>

lemma kubernetes_secrets_path_handle: "kubernetes_secrets_path mount tail = handle_path mount tail"
  unfolding kubernetes_secrets_path_def handle_path_def Let_def
  by (simp add: rfold_segments rmap_rbind)

interpretation kubernetes_secrets: mounted_engine kubernetes_secrets_path kubernetes_secrets_request
  by unfold_locales (simp_all add: kubernetes_secrets_path_handle kubernetes_secrets_request_def Let_def sends_secret secret_json_safe)

named_theorems kubernetes_secrets_paths
named_theorems kubernetes_secrets_calls

lemmas [kubernetes_secrets_paths] = kubernetes_secrets.path_at

lemma kubernetes_secrets_request_at [kubernetes_secrets_calls]:
  "list_all safe_segment mount \<Longrightarrow> path_at mount parts path \<Longrightarrow>
   at_route env cl verb mount parts
     (kubernetes_secrets_request env cl from_json mount verb path body_v)"
  by (rule kubernetes_secrets.request_at)

lemma kubernetes_secrets_request_accepting_at [kubernetes_secrets_calls]:
  "list_all safe_segment mount \<Longrightarrow> path_at mount parts path \<Longrightarrow>
   at_route env cl verb mount parts
     (kubernetes_secrets_request_accepting env cl from_json mount verb path body_v
       accepted_statuses)"
  by (auto simp: kubernetes_secrets_request_accepting_def Let_def rbind_Inr_iff intro!: at_intros at_requests kubernetes_secrets_calls
      intro: kubernetes_secrets_paths silent_intros split: option.splits)

lemma kubernetes_secrets_request_query_at [kubernetes_secrets_calls]:
  "list_all safe_segment mount \<Longrightarrow> path_at mount parts path \<Longrightarrow>
   at_route env cl verb mount parts
     (kubernetes_secrets_request_query env cl from_json mount verb path query body_v
       accepted_statuses)"
  by (auto simp: kubernetes_secrets_request_query_def Let_def rbind_Inr_iff intro!: at_intros at_requests kubernetes_secrets_calls
      intro: kubernetes_secrets_paths silent_intros split: option.splits)

lemma kubernetes_secrets_config_routes [kubernetes_secrets_calls]:
  assumes "list_all safe_segment mount"
  shows "at_route env cl ''POST'' mount [''config'']
        (kubernetes_secrets_write_config env cl fj tj mount parse_url config)"
    and "at_route env cl ''GET'' mount [''config''] (kubernetes_secrets_read_config env cl fj2 mount)"
    and "at_route env cl ''DELETE'' mount [''config'']
        (kubernetes_secrets_delete_config env cl fj mount)"
  unfolding kubernetes_secrets_write_config_def kubernetes_secrets_read_config_def
      kubernetes_secrets_delete_config_def
  by (use assms in \<open>auto simp: Let_def rbind_Inr_iff
      intro!: at_intros at_requests kubernetes_secrets_calls intro: kubernetes_secrets_paths at_after silent_intros split: option.splits\<close>)

lemma kubernetes_secrets_roles_routes [kubernetes_secrets_calls]:
  assumes "list_all safe_segment mount"
  shows "at_route env cl ''POST'' mount [''roles'', name]
        (kubernetes_secrets_write_role env cl fj tj mount name role)"
    and "at_route env cl ''GET'' mount [''roles'', name]
        (kubernetes_secrets_read_role env cl fj2 mount name)"
    and "at_route env cl ''LIST'' mount [''roles'']
        (kubernetes_secrets_list_roles_after env cl fj2 mount after limit)"
    and "at_route env cl ''LIST'' mount [''roles''] (kubernetes_secrets_list_roles env cl fj2 mount)"
    and "at_route env cl ''DELETE'' mount [''roles'', name]
        (kubernetes_secrets_delete_role env cl fj mount name)"
  unfolding kubernetes_secrets_write_role_def kubernetes_secrets_read_role_def
      kubernetes_secrets_list_roles_after_def kubernetes_secrets_list_roles_def
      kubernetes_secrets_delete_role_def
  by (use assms in \<open>auto simp: Let_def rbind_Inr_iff
      intro!: at_intros at_requests kubernetes_secrets_calls intro: kubernetes_secrets_paths at_after silent_intros split: option.splits\<close>)

lemma kubernetes_secrets_other_routes [kubernetes_secrets_calls]:
  assumes "list_all safe_segment mount"
  shows "at_route env cl ''POST'' mount [''creds'', role]
        (kubernetes_secrets_credentials env cl fj tj mount role request)"
  unfolding kubernetes_secrets_credentials_def
  by (use assms in \<open>auto simp: Let_def rbind_Inr_iff
      intro!: at_intros at_requests kubernetes_secrets_calls intro: kubernetes_secrets_paths at_after silent_intros split: option.splits\<close>)

end
