(* ===== verification/Bao_Ldap.thy ===== *)
theory Bao_Ldap
  imports Bao_Engine
begin

text \<open>
  The LDAP secrets engine, \<open>secrets/ldap.rs\<close>: its configuration, static and dynamic roles and the
  service account library.
\<close>

section \<open>Data and requests\<close>

record ldap_config =
  ldap_config_binddn :: string
  ldap_config_bindpass :: string
  ldap_config_url :: "string option"
  ldap_config_password_policy :: "string option"
  ldap_config_schema :: "string option"
  ldap_config_userdn :: "string option"
  ldap_config_userattr :: "string option"
  ldap_config_upndomain :: "string option"
  ldap_config_connection_timeout :: "string option"
  ldap_config_request_timeout :: "string option"
  ldap_config_starttls :: "bool option"
  ldap_config_insecure_tls :: "bool option"
  ldap_config_certificate :: "string option"
  ldap_config_client_tls_cert :: "string option"
  ldap_config_client_tls_key :: "string option"
  ldap_config_length :: "64 word option"

definition ldap_config_new :: "string \<Rightarrow> string \<Rightarrow> ldap_config" where
  "ldap_config_new binddn bindpass =
     \<lparr>ldap_config_binddn = binddn, ldap_config_bindpass = bindpass,
       ldap_config_url = None, ldap_config_password_policy = None, ldap_config_schema = None,
       ldap_config_userdn = None, ldap_config_userattr = None, ldap_config_upndomain = None,
       ldap_config_connection_timeout = None, ldap_config_request_timeout = None,
       ldap_config_starttls = None, ldap_config_insecure_tls = None,
       ldap_config_certificate = None, ldap_config_client_tls_cert = None,
       ldap_config_client_tls_key = None, ldap_config_length = None\<rparr>"

definition ldap_config_with_url :: "ldap_config \<Rightarrow> string \<Rightarrow> ldap_config" where
  "ldap_config_with_url self url = self\<lparr>ldap_config_url := Some url\<rparr>"

definition ldap_config_with_schema ::
  "ldap_config \<Rightarrow> string \<Rightarrow> ldap_config" where
  "ldap_config_with_schema self schema = self\<lparr>ldap_config_schema := Some schema\<rparr>"

definition ldap_validate_duration_or_seconds ::
  "string \<Rightarrow> string \<Rightarrow> bool \<Rightarrow> unit res" where
  "ldap_validate_duration_or_seconds val_v field allow_zero =
     (if (is_some_and (\<lambda>seconds. allow_zero \<or> 0 < seconds) (parse_unsigned
       18446744073709551616 val_v)) \<or> validate_duration_string val_v allow_zero then Inr ()
        else Inl (InvalidParameter (field @
          '' must be a duration such as 30s, 5m, or 1h or an unsigned second count'')))"

definition ldap_config_validate ::
  "bool \<Rightarrow> (string \<Rightarrow> url option) \<Rightarrow>
   ldap_config \<Rightarrow> unit res" where
  "ldap_config_validate insecure_ldap_tls parse_url self =
     (if ldap_config_bindpass self = [] then Inl (InvalidParameter
       ''LDAP configuration writes require an explicit bind password'')
        else (if \<not> insecure_ldap_tls \<and> ldap_config_insecure_tls self = Some True then
          Inl (InvalidParameter
          ''ldap insecure_tls=true requires the insecure-ldap-tls-acknowledged Cargo feature because it disables LDAP TLS certificate verification'')
           else (if ldap_config_insecure_tls self = Some True then Inl (InvalidParameter
             ''ldap insecure_tls=true must not be combined with bindpass because credentials would cross an unverified TLS connection'')
              else rbind (validate_ldap_urls parse_url (ldap_config_url self)
                (ldap_config_starttls self) ''LDAP'' True) (\<lambda>_.
              rbind (case ldap_config_connection_timeout self of
                 None \<Rightarrow> Inr ()
               | Some val_v \<Rightarrow> ldap_validate_duration_or_seconds val_v
                 ''LDAP connection_timeout'' True) (\<lambda>_.
              (case ldap_config_request_timeout self of
                 None \<Rightarrow> Inr ()
               | Some val_v \<Rightarrow> ldap_validate_duration_or_seconds val_v
                 ''LDAP request_timeout'' True))))))"

definition ldap_empty_bind_password :: string where
  "ldap_empty_bind_password = []"

record ldap_static_role =
  ldap_static_role_username :: string
  ldap_static_role_dn :: "string option"
  ldap_static_role_rotation_period :: "string option"
  ldap_static_role_last_vault_rotation :: "string option"

definition ldap_static_role_default :: ldap_static_role where
  "ldap_static_role_default =
     \<lparr>ldap_static_role_username = [], ldap_static_role_dn = None,
       ldap_static_role_rotation_period = None, ldap_static_role_last_vault_rotation =
       None\<rparr>"

definition ldap_static_role_new :: "string \<Rightarrow> ldap_static_role" where
  "ldap_static_role_new username =
     ldap_static_role_default\<lparr>ldap_static_role_username := username\<rparr>"

definition ldap_static_role_with_rotation_period ::
  "ldap_static_role \<Rightarrow> string \<Rightarrow> ldap_static_role res" where
  "ldap_static_role_with_rotation_period self rotation_period =
     rbind (ldap_validate_duration_or_seconds rotation_period
       ''LDAP static role rotation_period'' False) (\<lambda>_.
     Inr (self\<lparr>ldap_static_role_rotation_period := Some rotation_period\<rparr>))"

definition ldap_static_role_with_rotation_period_duration ::
  "ldap_static_role \<Rightarrow> std_duration \<Rightarrow> ldap_static_role res" where
  "ldap_static_role_with_rotation_period_duration self rotation_period =
     rbind (nonzero_duration_to_bao_string rotation_period
       ''LDAP static role rotation_period'') (\<lambda>v.
     ldap_static_role_with_rotation_period self v)"

definition ldap_static_role_validate :: "ldap_static_role \<Rightarrow> unit res" where
  "ldap_static_role_validate self =
     (case ldap_static_role_rotation_period self of
        None \<Rightarrow> Inr ()
      | Some val_v \<Rightarrow> ldap_validate_duration_or_seconds val_v
        ''LDAP static role rotation_period'' False)"

record ldap_dynamic_role =
  ldap_dynamic_role_creation_ldif :: string
  ldap_dynamic_role_deletion_ldif :: string
  ldap_dynamic_role_rollback_ldif :: "string option"
  ldap_dynamic_role_username_template :: "string option"
  ldap_dynamic_role_default_ttl :: "string option"
  ldap_dynamic_role_max_ttl :: "string option"

definition ldap_dynamic_role_default :: ldap_dynamic_role where
  "ldap_dynamic_role_default =
     \<lparr>ldap_dynamic_role_creation_ldif = [], ldap_dynamic_role_deletion_ldif = [],
       ldap_dynamic_role_rollback_ldif = None, ldap_dynamic_role_username_template = None,
       ldap_dynamic_role_default_ttl = None, ldap_dynamic_role_max_ttl = None\<rparr>"

definition ldap_dynamic_role_new ::
  "string \<Rightarrow> string \<Rightarrow> ldap_dynamic_role" where
  "ldap_dynamic_role_new creation_ldif deletion_ldif =
     ldap_dynamic_role_default\<lparr>ldap_dynamic_role_creation_ldif := creation_ldif,
       ldap_dynamic_role_deletion_ldif := deletion_ldif\<rparr>"

definition ldap_dynamic_role_with_default_ttl ::
  "ldap_dynamic_role \<Rightarrow> string \<Rightarrow> ldap_dynamic_role res" where
  "ldap_dynamic_role_with_default_ttl self default_ttl =
     rbind (ldap_validate_duration_or_seconds default_ttl ''LDAP dynamic role default_ttl''
       True) (\<lambda>_.
     Inr (self\<lparr>ldap_dynamic_role_default_ttl := Some default_ttl\<rparr>))"

definition ldap_dynamic_role_validate :: "ldap_dynamic_role \<Rightarrow> unit res" where
  "ldap_dynamic_role_validate self =
     rbind (case ldap_dynamic_role_default_ttl self of
        None \<Rightarrow> Inr ()
      | Some val_v \<Rightarrow> ldap_validate_duration_or_seconds val_v
        ''LDAP dynamic role default_ttl'' True) (\<lambda>_.
     (case ldap_dynamic_role_max_ttl self of
        None \<Rightarrow> Inr ()
      | Some val_v \<Rightarrow> ldap_validate_duration_or_seconds val_v
        ''LDAP dynamic role max_ttl'' True))"

record ldap_library_set =
  ldap_library_set_service_account_names :: "string list"
  ldap_library_set_ttl :: "string option"
  ldap_library_set_max_ttl :: "string option"
  ldap_library_set_disable_check_in_enforcement :: "bool option"

definition ldap_library_set_default :: ldap_library_set where
  "ldap_library_set_default =
     \<lparr>ldap_library_set_service_account_names = [], ldap_library_set_ttl = None,
       ldap_library_set_max_ttl = None, ldap_library_set_disable_check_in_enforcement =
       None\<rparr>"

definition ldap_library_set_new :: "string list \<Rightarrow> ldap_library_set" where
  "ldap_library_set_new service_account_names =
     ldap_library_set_default\<lparr>ldap_library_set_service_account_names :=
       service_account_names\<rparr>"

definition ldap_library_set_with_ttl ::
  "ldap_library_set \<Rightarrow> string \<Rightarrow> ldap_library_set res" where
  "ldap_library_set_with_ttl self ttl =
     rbind (ldap_validate_duration_or_seconds ttl ''LDAP library ttl'' True) (\<lambda>_.
     Inr (self\<lparr>ldap_library_set_ttl := Some ttl\<rparr>))"

definition ldap_validate_count ::
  "nat \<Rightarrow> string \<Rightarrow> bool \<Rightarrow> unit res" where
  "ldap_validate_count count_v field require_non_empty =
     (if require_non_empty \<and> count_v = 0 then Inl (InvalidParameter (field @
       '' must include at least one item''))
        else (if MAX_RESPONSE_STRINGS < count_v then Inl (InvalidParameter (field @
          '' exceeds maximum item count''))
           else Inr ()))"

definition ldap_library_set_validate :: "ldap_library_set \<Rightarrow> unit res" where
  "ldap_library_set_validate self =
     rbind (ldap_validate_count (length (ldap_library_set_service_account_names self))
       ''LDAP library service accounts'' True) (\<lambda>_.
     rbind (case ldap_library_set_ttl self of
        None \<Rightarrow> Inr ()
      | Some val_v \<Rightarrow> ldap_validate_duration_or_seconds val_v ''LDAP library ttl''
        True) (\<lambda>_.
     (case ldap_library_set_max_ttl self of
        None \<Rightarrow> Inr ()
      | Some val_v \<Rightarrow> ldap_validate_duration_or_seconds val_v
        ''LDAP library max_ttl'' True)))"

record ldap_check_out_request =
  ldap_check_out_request_ttl :: "string option"

definition ldap_check_out_request_default :: ldap_check_out_request where
  "ldap_check_out_request_default = \<lparr>ldap_check_out_request_ttl = None\<rparr>"

definition ldap_check_out_request_new :: ldap_check_out_request where
  "ldap_check_out_request_new = ldap_check_out_request_default"

definition ldap_check_out_request_with_ttl ::
  "ldap_check_out_request \<Rightarrow> string \<Rightarrow> ldap_check_out_request res" where
  "ldap_check_out_request_with_ttl self ttl =
     rbind (ldap_validate_duration_or_seconds ttl ''LDAP library checkout ttl'' False)
       (\<lambda>_.
     Inr (self\<lparr>ldap_check_out_request_ttl := Some ttl\<rparr>))"

definition ldap_check_out_request_validate :: "ldap_check_out_request \<Rightarrow> unit res" where
  "ldap_check_out_request_validate self =
     (case ldap_check_out_request_ttl self of
        None \<Rightarrow> Inr ()
      | Some val_v \<Rightarrow> ldap_validate_duration_or_seconds val_v
        ''LDAP library checkout ttl'' False)"

record ldap_check_in_request =
  ldap_check_in_request_service_account_names :: "string list"

definition ldap_check_in_request_new :: "string list \<Rightarrow> ldap_check_in_request" where
  "ldap_check_in_request_new service_account_names =
     \<lparr>ldap_check_in_request_service_account_names = service_account_names\<rparr>"

definition ldap_check_in_request_validate :: "ldap_check_in_request \<Rightarrow> unit res" where
  "ldap_check_in_request_validate self =
     ldap_validate_count (length (ldap_check_in_request_service_account_names self))
       ''LDAP check-in service accounts'' False"

section \<open>Operations\<close>

definition client_ldap_at :: "string \<Rightarrow> string list res" where
  "client_ldap_at mount = validate_mount_path mount"

definition client_ldap :: "string list res" where
  "client_ldap = client_ldap_at ''ldap''"

definition ldap_request ::
  "http_env \<Rightarrow> client \<Rightarrow> (string \<Rightarrow> 'a option) \<Rightarrow>
   string list \<Rightarrow> string \<Rightarrow> string \<Rightarrow>
   payload option \<Rightarrow> 'a sent" where
  "ldap_request env cl from_json mount verb path body_v =
     request_secret_json_internal env cl from_json ''/ldap/'' ''ldap'' (join_with ''/'' mount)
       verb path body_v"

definition ldap_path :: "string list \<Rightarrow> string list \<Rightarrow> string res" where
  "ldap_path mount tail =
     (let segments = mount in
     rbind (rfold (\<lambda>segment segments. rbind (validate_endpoint_path segment)
       (\<lambda>p.
     let segments = segments @ p in
     Inr segments)) tail segments) (\<lambda>segments.
     Inr (join_with ''/'' segments)))"

definition ldap_write_config ::
  "http_env \<Rightarrow> client \<Rightarrow>
   (string \<Rightarrow> unit option) \<Rightarrow>
   (ldap_config \<Rightarrow> payload) \<Rightarrow> string list \<Rightarrow>
   bool \<Rightarrow> (string \<Rightarrow> url option) \<Rightarrow>
   ldap_config \<Rightarrow> unit sent" where
  "ldap_write_config env cl from_json to_json mount insecure_ldap_tls parse_url config =
     sbind (pure (ldap_config_validate insecure_ldap_tls parse_url config)) (\<lambda>_.
     sbind (pure (ldap_path mount [''config''])) (\<lambda>p.
     ldap_request env cl from_json mount ''POST'' p (Some (to_json config))))"

definition ldap_read_config ::
  "http_env \<Rightarrow> client \<Rightarrow>
   (string \<Rightarrow> 'a response_envelope option) \<Rightarrow> string list \<Rightarrow>
   'a sent" where
  "ldap_read_config env cl from_json mount =
     sbind (pure (ldap_path mount [''config''])) (\<lambda>p.
     smap env_data (ldap_request env cl from_json mount ''GET'' p None))"

definition ldap_request_accepting ::
  "http_env \<Rightarrow> client \<Rightarrow> (string \<Rightarrow> 'a option) \<Rightarrow>
   string list \<Rightarrow> string \<Rightarrow> string \<Rightarrow>
   payload option \<Rightarrow> nat list \<Rightarrow> 'a sent" where
  "ldap_request_accepting env cl from_json mount verb path body_v accepted_statuses =
     request_secret_json_accepting env cl from_json ''/ldap/'' ''ldap'' (join_with ''/'' mount)
       verb path body_v accepted_statuses"

definition ldap_delete_at ::
  "http_env \<Rightarrow> client \<Rightarrow>
   (string \<Rightarrow> unit option) \<Rightarrow> string list \<Rightarrow>
   string list \<Rightarrow> unit sent" where
  "ldap_delete_at env cl from_json mount tail =
     sbind (pure (ldap_path mount tail)) (\<lambda>p.
     ldap_request_accepting env cl from_json mount ''DELETE'' p None [200, 204])"

definition ldap_delete_config ::
  "http_env \<Rightarrow> client \<Rightarrow>
   (string \<Rightarrow> unit option) \<Rightarrow> string list \<Rightarrow> unit sent" where
  "ldap_delete_config env cl from_json mount =
     ldap_delete_at env cl from_json mount [''config'']"

definition ldap_rotate_root ::
  "http_env \<Rightarrow> client \<Rightarrow>
   (string \<Rightarrow> unit option) \<Rightarrow>
   (unit \<Rightarrow> payload) \<Rightarrow> string list \<Rightarrow> unit sent" where
  "ldap_rotate_root env cl from_json to_json mount =
     sbind (pure (ldap_path mount [''rotate-root''])) (\<lambda>p.
     ldap_request env cl from_json mount ''POST'' p (Some (to_json ())))"

definition ldap_write_static_role ::
  "http_env \<Rightarrow> client \<Rightarrow>
   (string \<Rightarrow> unit option) \<Rightarrow>
   (ldap_static_role \<Rightarrow> payload) \<Rightarrow> string list \<Rightarrow>
   string \<Rightarrow> ldap_static_role \<Rightarrow> unit sent" where
  "ldap_write_static_role env cl from_json to_json mount name role =
     sbind (pure (ldap_static_role_validate role)) (\<lambda>_.
     sbind (pure (ldap_path mount [''static-role'', name])) (\<lambda>p.
     ldap_request env cl from_json mount ''POST'' p (Some (to_json role))))"

definition ldap_read_static_role ::
  "http_env \<Rightarrow> client \<Rightarrow>
   (string \<Rightarrow> 'a response_envelope option) \<Rightarrow> string list \<Rightarrow>
   string \<Rightarrow> 'a sent" where
  "ldap_read_static_role env cl from_json mount name =
     sbind (pure (ldap_path mount [''static-role'', name])) (\<lambda>p.
     smap env_data (ldap_request env cl from_json mount ''GET'' p None))"

definition ldap_request_query ::
  "http_env \<Rightarrow> client \<Rightarrow> (string \<Rightarrow> 'a option) \<Rightarrow>
   string list \<Rightarrow> string \<Rightarrow> string \<Rightarrow>
   (string \<times> string) list \<Rightarrow> payload option \<Rightarrow>
   nat list \<Rightarrow> 'a sent" where
  "ldap_request_query env cl from_json mount verb path query body_v accepted_statuses =
     request_secret_json_query_headers_accepting env cl from_json ''/ldap/'' ''ldap''
       (join_with ''/'' mount) verb path query [] body_v accepted_statuses"

definition ldap_list_at ::
  "http_env \<Rightarrow> client \<Rightarrow>
   (string \<Rightarrow> 'a response_envelope option) \<Rightarrow> string list \<Rightarrow>
   string list \<Rightarrow> 'a sent" where
  "ldap_list_at env cl from_json mount tail =
     (let static_roles = tail = [''static-role''] in
     sbind (pure (if static_roles then Inr ''GET''
        else Inr ''LIST'')) (\<lambda>verb.
     let query = (if static_roles then [(''list'', ''true'')]
        else []) in
     sbind (pure (ldap_path mount tail)) (\<lambda>p.
     smap env_data (ldap_request_query env cl from_json mount verb p query None [200]))))"

definition ldap_list_static_roles ::
  "http_env \<Rightarrow> client \<Rightarrow>
   (string \<Rightarrow> 'a response_envelope option) \<Rightarrow> string list \<Rightarrow>
   'a sent" where
  "ldap_list_static_roles env cl from_json mount =
     ldap_list_at env cl from_json mount [''static-role'']"

definition ldap_delete_static_role ::
  "http_env \<Rightarrow> client \<Rightarrow>
   (string \<Rightarrow> unit option) \<Rightarrow> string list \<Rightarrow>
   string \<Rightarrow> unit sent" where
  "ldap_delete_static_role env cl from_json mount name =
     ldap_delete_at env cl from_json mount [''static-role'', name]"

definition ldap_static_credentials_call ::
  "http_env \<Rightarrow> client \<Rightarrow>
   (string \<Rightarrow> 'a response_envelope option) \<Rightarrow> string list \<Rightarrow>
   string \<Rightarrow> 'a sent" where
  "ldap_static_credentials_call env cl from_json mount name =
     sbind (pure (ldap_path mount [''static-cred'', name])) (\<lambda>p.
     smap env_data (ldap_request env cl from_json mount ''GET'' p None))"

definition ldap_rotate_static_role ::
  "http_env \<Rightarrow> client \<Rightarrow>
   (string \<Rightarrow> unit option) \<Rightarrow>
   (unit \<Rightarrow> payload) \<Rightarrow> string list \<Rightarrow> string \<Rightarrow>
   unit sent" where
  "ldap_rotate_static_role env cl from_json to_json mount name =
     sbind (pure (ldap_path mount [''rotate-role'', name])) (\<lambda>p.
     ldap_request env cl from_json mount ''POST'' p (Some (to_json ())))"

definition ldap_write_dynamic_role ::
  "http_env \<Rightarrow> client \<Rightarrow>
   (string \<Rightarrow> unit option) \<Rightarrow>
   (ldap_dynamic_role \<Rightarrow> payload) \<Rightarrow> string list \<Rightarrow>
   string \<Rightarrow> ldap_dynamic_role \<Rightarrow> unit sent" where
  "ldap_write_dynamic_role env cl from_json to_json mount name role =
     sbind (pure (ldap_dynamic_role_validate role)) (\<lambda>_.
     sbind (pure (ldap_path mount [''role'', name])) (\<lambda>p.
     ldap_request env cl from_json mount ''POST'' p (Some (to_json role))))"

definition ldap_read_dynamic_role ::
  "http_env \<Rightarrow> client \<Rightarrow>
   (string \<Rightarrow> 'a response_envelope option) \<Rightarrow> string list \<Rightarrow>
   string \<Rightarrow> 'a sent" where
  "ldap_read_dynamic_role env cl from_json mount name =
     sbind (pure (ldap_path mount [''role'', name])) (\<lambda>p.
     smap env_data (ldap_request env cl from_json mount ''GET'' p None))"

definition ldap_delete_dynamic_role ::
  "http_env \<Rightarrow> client \<Rightarrow>
   (string \<Rightarrow> unit option) \<Rightarrow> string list \<Rightarrow>
   string \<Rightarrow> unit sent" where
  "ldap_delete_dynamic_role env cl from_json mount name =
     ldap_delete_at env cl from_json mount [''role'', name]"

record ldap_dynamic_credentials =
  ldap_dynamic_credentials_username :: string
  ldap_dynamic_credentials_password :: string
  ldap_dynamic_credentials_distinguished_names :: "string list"
  ldap_dynamic_credentials_lease_id :: string
  ldap_dynamic_credentials_lease_duration :: "64 word"
  ldap_dynamic_credentials_renewable :: bool

record ldap_dynamic_credential_data =
  ldap_dynamic_credential_data_username :: string
  ldap_dynamic_credential_data_password :: string
  ldap_dynamic_credential_data_distinguished_names :: "string list"

definition ldap_dynamic_credentials_call ::
  "http_env \<Rightarrow> client \<Rightarrow>
   (string \<Rightarrow> ldap_dynamic_credential_data response_envelope option) \<Rightarrow>
   string list \<Rightarrow> string \<Rightarrow> ldap_dynamic_credentials sent" where
  "ldap_dynamic_credentials_call env cl from_json mount name =
     sbind (pure (ldap_path mount [''creds'', name])) (\<lambda>p.
     smap (\<lambda>envelope.
       \<lparr>ldap_dynamic_credentials_username = ldap_dynamic_credential_data_username (env_data envelope),
       ldap_dynamic_credentials_password = ldap_dynamic_credential_data_password (env_data envelope),
       ldap_dynamic_credentials_distinguished_names = ldap_dynamic_credential_data_distinguished_names
       (env_data envelope), ldap_dynamic_credentials_lease_id = env_lease_id envelope,
       ldap_dynamic_credentials_lease_duration = env_lease_duration envelope,
       ldap_dynamic_credentials_renewable = env_renewable envelope\<rparr>) (ldap_request env
       cl from_json mount ''GET'' p None))"

definition ldap_write_library_set ::
  "http_env \<Rightarrow> client \<Rightarrow>
   (string \<Rightarrow> unit option) \<Rightarrow>
   (ldap_library_set \<Rightarrow> payload) \<Rightarrow> string list \<Rightarrow>
   string \<Rightarrow> ldap_library_set \<Rightarrow> unit sent" where
  "ldap_write_library_set env cl from_json to_json mount name set_v =
     sbind (pure (ldap_library_set_validate set_v)) (\<lambda>_.
     sbind (pure (ldap_path mount [''library'', name])) (\<lambda>p.
     ldap_request env cl from_json mount ''POST'' p (Some (to_json set_v))))"

definition ldap_read_library_set ::
  "http_env \<Rightarrow> client \<Rightarrow>
   (string \<Rightarrow> 'a response_envelope option) \<Rightarrow> string list \<Rightarrow>
   string \<Rightarrow> 'a sent" where
  "ldap_read_library_set env cl from_json mount name =
     sbind (pure (ldap_path mount [''library'', name])) (\<lambda>p.
     smap env_data (ldap_request env cl from_json mount ''GET'' p None))"

definition ldap_list_library_sets ::
  "http_env \<Rightarrow> client \<Rightarrow>
   (string \<Rightarrow> 'a response_envelope option) \<Rightarrow> string list \<Rightarrow>
   'a sent" where
  "ldap_list_library_sets env cl from_json mount =
     ldap_list_at env cl from_json mount [''library'']"

definition ldap_delete_library_set ::
  "http_env \<Rightarrow> client \<Rightarrow>
   (string \<Rightarrow> unit option) \<Rightarrow> string list \<Rightarrow>
   string \<Rightarrow> unit sent" where
  "ldap_delete_library_set env cl from_json mount name =
     ldap_delete_at env cl from_json mount [''library'', name]"

definition ldap_library_status_call ::
  "http_env \<Rightarrow> client \<Rightarrow>
   (string \<Rightarrow> 'a response_envelope option) \<Rightarrow> string list \<Rightarrow>
   string \<Rightarrow> 'a sent" where
  "ldap_library_status_call env cl from_json mount name =
     sbind (pure (ldap_path mount [''library'', name, ''status''])) (\<lambda>p.
     smap env_data (ldap_request env cl from_json mount ''GET'' p None))"

record ldap_check_out =
  ldap_check_out_service_account_name :: string
  ldap_check_out_password :: string
  ldap_check_out_lease_id :: string
  ldap_check_out_lease_duration :: "64 word"
  ldap_check_out_renewable :: bool

record ldap_check_out_data =
  ldap_check_out_data_service_account_name :: string
  ldap_check_out_data_password :: string

definition ldap_check_out_call ::
  "http_env \<Rightarrow> client \<Rightarrow>
   (string \<Rightarrow> ldap_check_out_data response_envelope option) \<Rightarrow>
   (ldap_check_out_request \<Rightarrow> payload) \<Rightarrow> string list \<Rightarrow>
   string \<Rightarrow> ldap_check_out_request \<Rightarrow> ldap_check_out sent" where
  "ldap_check_out_call env cl from_json to_json mount name request =
     sbind (pure (ldap_check_out_request_validate request)) (\<lambda>_.
     sbind (pure (ldap_path mount [''library'', name, ''check-out''])) (\<lambda>p.
     smap (\<lambda>envelope.
       \<lparr>ldap_check_out_service_account_name = ldap_check_out_data_service_account_name
       (env_data envelope),
       ldap_check_out_password = ldap_check_out_data_password (env_data envelope),
       ldap_check_out_lease_id = env_lease_id envelope,
       ldap_check_out_lease_duration = env_lease_duration envelope,
       ldap_check_out_renewable = env_renewable envelope\<rparr>) (ldap_request env cl
       from_json mount ''POST'' p (Some (to_json request)))))"

definition ldap_check_in_call ::
  "http_env \<Rightarrow> client \<Rightarrow>
   (string \<Rightarrow> 'a response_envelope option) \<Rightarrow>
   (ldap_check_in_request \<Rightarrow> payload) \<Rightarrow> string list \<Rightarrow>
   string \<Rightarrow> ldap_check_in_request \<Rightarrow> 'a sent" where
  "ldap_check_in_call env cl from_json to_json mount name request =
     sbind (pure (ldap_check_in_request_validate request)) (\<lambda>_.
     sbind (pure (ldap_path mount [''library'', name, ''check-in''])) (\<lambda>p.
     smap env_data (ldap_request env cl from_json mount ''POST'' p (Some (to_json request)))))"

definition ldap_force_check_in ::
  "http_env \<Rightarrow> client \<Rightarrow>
   (string \<Rightarrow> 'a response_envelope option) \<Rightarrow>
   (ldap_check_in_request \<Rightarrow> payload) \<Rightarrow> string list \<Rightarrow>
   string \<Rightarrow> ldap_check_in_request \<Rightarrow> 'a sent" where
  "ldap_force_check_in env cl from_json to_json mount name request =
     sbind (pure (ldap_check_in_request_validate request)) (\<lambda>_.
     sbind (pure (ldap_path mount [''library'', ''manage'', name, ''check-in''])) (\<lambda>p.
     smap env_data (ldap_request env cl from_json mount ''POST'' p (Some (to_json request)))))"

section \<open>The routes of the engine\<close>

lemma ldap_path_handle: "ldap_path mount tail = handle_path mount tail"
  unfolding ldap_path_def handle_path_def Let_def
  by (simp add: rfold_segments rmap_rbind)

interpretation ldap: mounted_engine ldap_path ldap_request
  by unfold_locales (simp_all add: ldap_path_handle ldap_request_def Let_def sends_secret secret_json_safe)

named_theorems ldap_paths
named_theorems ldap_calls

lemmas [ldap_paths] = ldap.path_at

lemma ldap_request_at [ldap_calls]:
  "list_all safe_segment mount \<Longrightarrow> path_at mount parts path \<Longrightarrow>
   at_route env cl verb mount parts (ldap_request env cl from_json mount verb path body_v)"
  by (rule ldap.request_at)

lemma ldap_request_accepting_at [ldap_calls]:
  "list_all safe_segment mount \<Longrightarrow> path_at mount parts path \<Longrightarrow>
   at_route env cl verb mount parts
     (ldap_request_accepting env cl from_json mount verb path body_v accepted_statuses)"
  by (auto simp: ldap_request_accepting_def Let_def rbind_Inr_iff intro!: at_intros at_requests ldap_calls
      intro: ldap_paths silent_intros split: option.splits)

lemma ldap_request_query_at [ldap_calls]:
  "list_all safe_segment mount \<Longrightarrow> path_at mount parts path \<Longrightarrow>
   at_route env cl verb mount parts
     (ldap_request_query env cl from_json mount verb path query body_v accepted_statuses)"
  by (auto simp: ldap_request_query_def Let_def rbind_Inr_iff intro!: at_intros at_requests ldap_calls
      intro: ldap_paths silent_intros split: option.splits)

lemma ldap_config_routes [ldap_calls]:
  assumes "list_all safe_segment mount"
  shows "at_route env cl ''POST'' mount [''config'']
        (ldap_write_config env cl fj tj mount insecure_ldap_tls parse_url config)"
    and "at_route env cl ''GET'' mount [''config''] (ldap_read_config env cl fj2 mount)"
    and "at_route env cl ''DELETE'' mount [''config''] (ldap_delete_config env cl fj mount)"
  unfolding ldap_write_config_def ldap_read_config_def ldap_delete_config_def ldap_delete_at_def
  by (use assms in \<open>auto simp: Let_def rbind_Inr_iff
      intro!: at_intros at_requests ldap_calls intro: ldap_paths at_after silent_intros split: option.splits\<close>)

lemma ldap_static_role_routes [ldap_calls]:
  assumes "list_all safe_segment mount"
  shows "at_route env cl ''POST'' mount [''static-role'', name]
        (ldap_write_static_role env cl fj tj mount name role)"
    and "at_route env cl ''GET'' mount [''static-role'', name]
        (ldap_read_static_role env cl fj2 mount name)"
    and "at_route env cl ''GET'' mount [''static-role''] (ldap_list_static_roles env cl fj2 mount)"
    and "at_route env cl ''DELETE'' mount [''static-role'', name]
        (ldap_delete_static_role env cl fj mount name)"
  unfolding ldap_write_static_role_def ldap_read_static_role_def ldap_list_static_roles_def
      ldap_delete_static_role_def ldap_list_at_def ldap_delete_at_def
  by (use assms in \<open>auto simp: Let_def rbind_Inr_iff
      intro!: at_intros at_requests ldap_calls intro: ldap_paths at_after silent_intros split: option.splits\<close>)

lemma ldap_role_routes [ldap_calls]:
  assumes "list_all safe_segment mount"
  shows "at_route env cl ''POST'' mount [''role'', name]
        (ldap_write_dynamic_role env cl fj tj mount name role)"
    and "at_route env cl ''GET'' mount [''role'', name] (ldap_read_dynamic_role env cl fj2 mount name)"
    and "at_route env cl ''DELETE'' mount [''role'', name]
        (ldap_delete_dynamic_role env cl fj mount name)"
  unfolding ldap_write_dynamic_role_def ldap_read_dynamic_role_def ldap_delete_dynamic_role_def
      ldap_delete_at_def
  by (use assms in \<open>auto simp: Let_def rbind_Inr_iff
      intro!: at_intros at_requests ldap_calls intro: ldap_paths at_after silent_intros split: option.splits\<close>)

lemma ldap_library_routes [ldap_calls]:
  assumes "list_all safe_segment mount"
  shows "at_route env cl ''POST'' mount [''library'', name]
        (ldap_write_library_set env cl fj tj mount name set_v)"
    and "at_route env cl ''GET'' mount [''library'', name]
        (ldap_read_library_set env cl fj2 mount name)"
    and "at_route env cl ''LIST'' mount [''library''] (ldap_list_library_sets env cl fj2 mount)"
    and "at_route env cl ''DELETE'' mount [''library'', name]
        (ldap_delete_library_set env cl fj mount name)"
    and "at_route env cl ''GET'' mount [''library'', name, ''status'']
        (ldap_library_status_call env cl fj2 mount name)"
    and "at_route env cl ''POST'' mount [''library'', name, ''check-out'']
        (ldap_check_out_call env cl fj3 tj2 mount name request)"
    and "at_route env cl ''POST'' mount [''library'', name, ''check-in'']
        (ldap_check_in_call env cl fj2 tj3 mount name request2)"
    and "at_route env cl ''POST'' mount [''library'', ''manage'', name, ''check-in'']
        (ldap_force_check_in env cl fj2 tj3 mount name request2)"
  unfolding ldap_write_library_set_def ldap_read_library_set_def ldap_list_library_sets_def
      ldap_delete_library_set_def ldap_library_status_call_def ldap_check_out_call_def
      ldap_check_in_call_def ldap_force_check_in_def ldap_list_at_def ldap_delete_at_def
  by (use assms in \<open>auto simp: Let_def rbind_Inr_iff
      intro!: at_intros at_requests ldap_calls intro: ldap_paths at_after silent_intros split: option.splits\<close>)

lemma ldap_other_routes [ldap_calls]:
  assumes "list_all safe_segment mount"
  shows "at_route env cl ''POST'' mount [''rotate-root''] (ldap_rotate_root env cl fj tj mount)"
    and "at_route env cl ''GET'' mount [''static-cred'', name]
        (ldap_static_credentials_call env cl fj2 mount name)"
    and "at_route env cl ''POST'' mount [''rotate-role'', name]
        (ldap_rotate_static_role env cl fj tj mount name)"
    and "at_route env cl ''GET'' mount [''creds'', name]
        (ldap_dynamic_credentials_call env cl fj3 mount name)"
  unfolding ldap_rotate_root_def ldap_static_credentials_call_def ldap_rotate_static_role_def
      ldap_dynamic_credentials_call_def
  by (use assms in \<open>auto simp: Let_def rbind_Inr_iff
      intro!: at_intros at_requests ldap_calls intro: ldap_paths at_after silent_intros split: option.splits\<close>)

end
