(* ===== verification/Bao_Rabbitmq.thy ===== *)
theory Bao_Rabbitmq
  imports Bao_Engine
begin

text \<open>
  The RabbitMQ secrets engine, \<open>secrets/rabbitmq.rs\<close>.
\<close>

section \<open>Data and requests\<close>

record rabbit_mq_connection_config =
  rabbit_mq_connection_config_connection_uri :: string
  rabbit_mq_connection_config_username :: string
  rabbit_mq_connection_config_password :: string
  rabbit_mq_connection_config_verify_connection :: "bool option"
  rabbit_mq_connection_config_password_policy :: "string option"
  rabbit_mq_connection_config_username_template :: "string option"

definition rabbit_mq_connection_config_new ::
  "string \<Rightarrow> string \<Rightarrow> string \<Rightarrow> rabbit_mq_connection_config" where
  "rabbit_mq_connection_config_new connection_uri username password =
     \<lparr>rabbit_mq_connection_config_connection_uri = connection_uri,
       rabbit_mq_connection_config_username = username,
       rabbit_mq_connection_config_password = password,
       rabbit_mq_connection_config_verify_connection = None,
       rabbit_mq_connection_config_password_policy = None,
       rabbit_mq_connection_config_username_template = None\<rparr>"

definition rabbit_mq_connection_config_with_verify_connection ::
  "rabbit_mq_connection_config \<Rightarrow> bool \<Rightarrow> rabbit_mq_connection_config" where
  "rabbit_mq_connection_config_with_verify_connection self verify_connection =
     self\<lparr>rabbit_mq_connection_config_verify_connection := Some
       verify_connection\<rparr>"

definition rabbit_mq_connection_config_with_password_policy ::
  "rabbit_mq_connection_config \<Rightarrow> string \<Rightarrow> rabbit_mq_connection_config" where
  "rabbit_mq_connection_config_with_password_policy self password_policy =
     self\<lparr>rabbit_mq_connection_config_password_policy := Some password_policy\<rparr>"

definition rabbit_mq_connection_config_with_username_template ::
  "rabbit_mq_connection_config \<Rightarrow> string \<Rightarrow> rabbit_mq_connection_config" where
  "rabbit_mq_connection_config_with_username_template self username_template =
     self\<lparr>rabbit_mq_connection_config_username_template := Some
       username_template\<rparr>"

definition rabbit_mq_connection_config_validate ::
  "rabbit_mq_connection_config \<Rightarrow> unit res" where
  "rabbit_mq_connection_config_validate self =
     validate_secret_https_endpoint (rabbit_mq_connection_config_connection_uri self)
       ''RabbitMQ connection_uri''"

record rabbit_mq_lease_config =
  rabbit_mq_lease_config_ttl :: "64 word option"
  rabbit_mq_lease_config_max_ttl :: "64 word option"

definition rabbit_mq_lease_config_new ::
  "64 word \<Rightarrow> 64 word \<Rightarrow> rabbit_mq_lease_config" where
  "rabbit_mq_lease_config_new ttl max_ttl =
     \<lparr>rabbit_mq_lease_config_ttl = Some ttl,
       rabbit_mq_lease_config_max_ttl = Some max_ttl\<rparr>"

record rabbit_mq_role =
  rabbit_mq_role_tags :: "string option"
  rabbit_mq_role_vhosts :: "string option"
  rabbit_mq_role_vhost_topics :: "string option"

definition rabbit_mq_role_default :: rabbit_mq_role where
  "rabbit_mq_role_default =
     \<lparr>rabbit_mq_role_tags = None, rabbit_mq_role_vhosts = None,
       rabbit_mq_role_vhost_topics = None\<rparr>"

definition rabbit_mq_role_new :: rabbit_mq_role where
  "rabbit_mq_role_new = rabbit_mq_role_default"

definition rabbit_mq_role_with_tags ::
  "rabbit_mq_role \<Rightarrow> string \<Rightarrow> rabbit_mq_role" where
  "rabbit_mq_role_with_tags self tags = self\<lparr>rabbit_mq_role_tags := Some tags\<rparr>"

definition rabbit_mq_role_validate ::
  "(string \<Rightarrow> json_value option) \<Rightarrow> rabbit_mq_role \<Rightarrow>
   unit res" where
  "rabbit_mq_role_validate parse_json self =
     rbind (case rabbit_mq_role_vhosts self of
        None \<Rightarrow> Inr ()
      | Some vhosts \<Rightarrow> validate_json_object_string parse_json vhosts
        ''rabbitmq vhosts'') (\<lambda>_.
     (case rabbit_mq_role_vhost_topics self of
        None \<Rightarrow> Inr ()
      | Some vhost_topics \<Rightarrow> validate_json_object_string parse_json vhost_topics
        ''rabbitmq vhost_topics''))"

definition rabbit_mq_role_with_vhosts ::
  "(string \<Rightarrow> json_value option) \<Rightarrow> rabbit_mq_role \<Rightarrow>
   string \<Rightarrow> rabbit_mq_role res" where
  "rabbit_mq_role_with_vhosts parse_json self vhosts =
     rbind (rabbit_mq_role_validate parse_json (self\<lparr>rabbit_mq_role_vhosts := Some
       vhosts\<rparr>)) (\<lambda>_.
     Inr (self\<lparr>rabbit_mq_role_vhosts := Some vhosts\<rparr>))"

definition rabbit_mq_role_with_vhost_topics ::
  "(string \<Rightarrow> json_value option) \<Rightarrow> rabbit_mq_role \<Rightarrow>
   string \<Rightarrow> rabbit_mq_role res" where
  "rabbit_mq_role_with_vhost_topics parse_json self vhost_topics =
     rbind (rabbit_mq_role_validate parse_json (self\<lparr>rabbit_mq_role_vhost_topics := Some
       vhost_topics\<rparr>)) (\<lambda>_.
     Inr (self\<lparr>rabbit_mq_role_vhost_topics := Some vhost_topics\<rparr>))"

section \<open>Operations\<close>

definition client_rabbitmq_at :: "string \<Rightarrow> string list res" where
  "client_rabbitmq_at mount = validate_mount_path mount"

definition client_rabbitmq :: "string list res" where
  "client_rabbitmq = client_rabbitmq_at ''rabbitmq''"

definition rabbitmq_request ::
  "http_env \<Rightarrow> client \<Rightarrow> (string \<Rightarrow> 'a option) \<Rightarrow>
   string list \<Rightarrow> string \<Rightarrow> string \<Rightarrow>
   payload option \<Rightarrow> 'a sent" where
  "rabbitmq_request env cl from_json mount verb path body_v =
     request_secret_json_internal env cl from_json ''/rabbitmq/'' ''rabbitmq'' (join_with ''/''
       mount) verb path body_v"

definition rabbitmq_path :: "string list \<Rightarrow> string list \<Rightarrow> string res" where
  "rabbitmq_path mount tail =
     (let segments = mount in
     rbind (rfold (\<lambda>segment segments. rbind (validate_endpoint_path segment)
       (\<lambda>p.
     let segments = segments @ p in
     Inr segments)) tail segments) (\<lambda>segments.
     Inr (join_with ''/'' segments)))"

definition rabbitmq_configure_connection ::
  "http_env \<Rightarrow> client \<Rightarrow>
   (string \<Rightarrow> unit option) \<Rightarrow>
   (rabbit_mq_connection_config \<Rightarrow> payload) \<Rightarrow>
   string list \<Rightarrow> rabbit_mq_connection_config \<Rightarrow> unit sent" where
  "rabbitmq_configure_connection env cl from_json to_json mount config =
     sbind (pure (rabbit_mq_connection_config_validate config)) (\<lambda>_.
     sbind (pure (rabbitmq_path mount [''config'', ''connection''])) (\<lambda>p.
     rabbitmq_request env cl from_json mount ''POST'' p (Some (to_json config))))"

definition rabbitmq_configure_lease ::
  "http_env \<Rightarrow> client \<Rightarrow>
   (string \<Rightarrow> unit option) \<Rightarrow>
   (rabbit_mq_lease_config \<Rightarrow> payload) \<Rightarrow> string list \<Rightarrow>
   rabbit_mq_lease_config \<Rightarrow> unit sent" where
  "rabbitmq_configure_lease env cl from_json to_json mount config =
     sbind (pure (rabbitmq_path mount [''config'', ''lease''])) (\<lambda>p.
     rabbitmq_request env cl from_json mount ''POST'' p (Some (to_json config)))"

definition rabbitmq_write_role ::
  "http_env \<Rightarrow> client \<Rightarrow>
   (string \<Rightarrow> unit option) \<Rightarrow>
   (rabbit_mq_role \<Rightarrow> payload) \<Rightarrow> string list \<Rightarrow>
   (string \<Rightarrow> json_value option) \<Rightarrow> string \<Rightarrow>
   rabbit_mq_role \<Rightarrow> unit sent" where
  "rabbitmq_write_role env cl from_json to_json mount parse_json name role =
     sbind (pure (rabbit_mq_role_validate parse_json role)) (\<lambda>_.
     sbind (pure (rabbitmq_path mount [''roles'', name])) (\<lambda>p.
     rabbitmq_request env cl from_json mount ''POST'' p (Some (to_json role))))"

definition rabbitmq_read_role ::
  "http_env \<Rightarrow> client \<Rightarrow>
   (string \<Rightarrow> 'a response_envelope option) \<Rightarrow> string list \<Rightarrow>
   string \<Rightarrow> 'a sent" where
  "rabbitmq_read_role env cl from_json mount name =
     sbind (pure (rabbitmq_path mount [''roles'', name])) (\<lambda>p.
     smap env_data (rabbitmq_request env cl from_json mount ''GET'' p None))"

definition rabbitmq_request_query ::
  "http_env \<Rightarrow> client \<Rightarrow> (string \<Rightarrow> 'a option) \<Rightarrow>
   string list \<Rightarrow> string \<Rightarrow> string \<Rightarrow>
   (string \<times> string) list \<Rightarrow> payload option \<Rightarrow>
   nat list \<Rightarrow> 'a sent" where
  "rabbitmq_request_query env cl from_json mount verb path query body_v accepted_statuses =
     request_secret_json_query_headers_accepting env cl from_json ''/rabbitmq/'' ''rabbitmq''
       (join_with ''/'' mount) verb path query [] body_v accepted_statuses"

definition rabbitmq_list_roles_after ::
  "http_env \<Rightarrow> client \<Rightarrow>
   (string \<Rightarrow> 'a response_envelope option) \<Rightarrow> string list \<Rightarrow>
   string option \<Rightarrow> 64 word option \<Rightarrow> 'a sent" where
  "rabbitmq_list_roles_after env cl from_json mount after limit =
     sbind (pure (from_after_limit after limit)) (\<lambda>v.
     let query = query_pairs v in
     sbind (pure (rabbitmq_path mount [''roles''])) (\<lambda>p.
     smap env_data (rabbitmq_request_query env cl from_json mount ''LIST'' p query None
       [200])))"

definition rabbitmq_list_roles ::
  "http_env \<Rightarrow> client \<Rightarrow>
   (string \<Rightarrow> 'a response_envelope option) \<Rightarrow> string list \<Rightarrow>
   'a sent" where
  "rabbitmq_list_roles env cl from_json mount =
     rabbitmq_list_roles_after env cl from_json mount None None"

definition rabbitmq_request_accepting ::
  "http_env \<Rightarrow> client \<Rightarrow> (string \<Rightarrow> 'a option) \<Rightarrow>
   string list \<Rightarrow> string \<Rightarrow> string \<Rightarrow>
   payload option \<Rightarrow> nat list \<Rightarrow> 'a sent" where
  "rabbitmq_request_accepting env cl from_json mount verb path body_v accepted_statuses =
     request_secret_json_accepting env cl from_json ''/rabbitmq/'' ''rabbitmq'' (join_with
       ''/'' mount) verb path body_v accepted_statuses"

definition rabbitmq_delete_role ::
  "http_env \<Rightarrow> client \<Rightarrow>
   (string \<Rightarrow> unit option) \<Rightarrow> string list \<Rightarrow>
   string \<Rightarrow> unit sent" where
  "rabbitmq_delete_role env cl from_json mount name =
     sbind (pure (rabbitmq_path mount [''roles'', name])) (\<lambda>p.
     rabbitmq_request_accepting env cl from_json mount ''DELETE'' p None [200, 204])"

record rabbit_mq_credentials =
  rabbit_mq_credentials_username :: string
  rabbit_mq_credentials_password :: string
  rabbit_mq_credentials_lease_id :: string
  rabbit_mq_credentials_lease_duration :: "64 word"
  rabbit_mq_credentials_renewable :: bool

record rabbit_mq_credential_data =
  rabbit_mq_credential_data_username :: string
  rabbit_mq_credential_data_password :: string

definition rabbitmq_credentials_from_envelope ::
  "rabbit_mq_credential_data response_envelope \<Rightarrow> rabbit_mq_credentials" where
  "rabbitmq_credentials_from_envelope envelope =
     \<lparr>rabbit_mq_credentials_username = rabbit_mq_credential_data_username (env_data envelope),
       rabbit_mq_credentials_password = rabbit_mq_credential_data_password (env_data envelope),
       rabbit_mq_credentials_lease_id = env_lease_id envelope,
       rabbit_mq_credentials_lease_duration = env_lease_duration envelope,
       rabbit_mq_credentials_renewable = env_renewable envelope\<rparr>"

definition rabbitmq_credentials ::
  "http_env \<Rightarrow> client \<Rightarrow>
   (string \<Rightarrow> rabbit_mq_credential_data response_envelope option) \<Rightarrow>
   string list \<Rightarrow> string \<Rightarrow> rabbit_mq_credentials sent" where
  "rabbitmq_credentials env cl from_json mount name =
     sbind (pure (rabbitmq_path mount [''creds'', name])) (\<lambda>p.
     smap (\<lambda>envelope. rabbitmq_credentials_from_envelope envelope) (rabbitmq_request
       env cl from_json mount ''GET'' p None))"

section \<open>The routes of the engine\<close>

lemma rabbitmq_path_handle: "rabbitmq_path mount tail = handle_path mount tail"
  unfolding rabbitmq_path_def handle_path_def Let_def
  by (simp add: rfold_segments rmap_rbind)

interpretation rabbitmq: mounted_engine rabbitmq_path rabbitmq_request
  by unfold_locales (simp_all add: rabbitmq_path_handle rabbitmq_request_def Let_def sends_secret secret_json_safe)

named_theorems rabbitmq_paths
named_theorems rabbitmq_calls

lemmas [rabbitmq_paths] = rabbitmq.path_at

lemma rabbitmq_request_at [rabbitmq_calls]:
  "list_all safe_segment mount \<Longrightarrow> path_at mount parts path \<Longrightarrow>
   at_route env cl verb mount parts (rabbitmq_request env cl from_json mount verb path body_v)"
  by (rule rabbitmq.request_at)

lemma rabbitmq_request_query_at [rabbitmq_calls]:
  "list_all safe_segment mount \<Longrightarrow> path_at mount parts path \<Longrightarrow>
   at_route env cl verb mount parts
     (rabbitmq_request_query env cl from_json mount verb path query body_v accepted_statuses)"
  by (auto simp: rabbitmq_request_query_def Let_def rbind_Inr_iff intro!: at_intros at_requests rabbitmq_calls
      intro: rabbitmq_paths silent_intros split: option.splits)

lemma rabbitmq_request_accepting_at [rabbitmq_calls]:
  "list_all safe_segment mount \<Longrightarrow> path_at mount parts path \<Longrightarrow>
   at_route env cl verb mount parts
     (rabbitmq_request_accepting env cl from_json mount verb path body_v accepted_statuses)"
  by (auto simp: rabbitmq_request_accepting_def Let_def rbind_Inr_iff intro!: at_intros at_requests rabbitmq_calls
      intro: rabbitmq_paths silent_intros split: option.splits)

lemma rabbitmq_roles_routes [rabbitmq_calls]:
  assumes "list_all safe_segment mount"
  shows "at_route env cl ''POST'' mount [''roles'', name]
        (rabbitmq_write_role env cl fj tj mount parse_json name role)"
    and "at_route env cl ''GET'' mount [''roles'', name] (rabbitmq_read_role env cl fj2 mount name)"
    and "at_route env cl ''LIST'' mount [''roles'']
        (rabbitmq_list_roles_after env cl fj2 mount after limit)"
    and "at_route env cl ''LIST'' mount [''roles''] (rabbitmq_list_roles env cl fj2 mount)"
    and "at_route env cl ''DELETE'' mount [''roles'', name]
        (rabbitmq_delete_role env cl fj mount name)"
  unfolding rabbitmq_write_role_def rabbitmq_read_role_def rabbitmq_list_roles_after_def
      rabbitmq_list_roles_def rabbitmq_delete_role_def
  by (use assms in \<open>auto simp: Let_def rbind_Inr_iff
      intro!: at_intros at_requests rabbitmq_calls intro: rabbitmq_paths at_after silent_intros split: option.splits\<close>)

lemma rabbitmq_other_routes [rabbitmq_calls]:
  assumes "list_all safe_segment mount"
  shows "at_route env cl ''POST'' mount [''config'', ''connection'']
        (rabbitmq_configure_connection env cl fj tj mount config)"
    and "at_route env cl ''POST'' mount [''config'', ''lease'']
        (rabbitmq_configure_lease env cl fj tj2 mount config2)"
    and "at_route env cl ''GET'' mount [''creds'', name] (rabbitmq_credentials env cl fj2 mount name)"
  unfolding rabbitmq_configure_connection_def rabbitmq_configure_lease_def rabbitmq_credentials_def
  by (use assms in \<open>auto simp: Let_def rbind_Inr_iff
      intro!: at_intros at_requests rabbitmq_calls intro: rabbitmq_paths at_after silent_intros split: option.splits\<close>)

end
