(* ===== verification/Bao_Totp.thy ===== *)
theory Bao_Totp
  imports Bao_Engine
begin

text \<open>
  The TOTP engine, \<open>secrets/totp.rs\<close>.
\<close>

section \<open>Data and requests\<close>

datatype totp_algorithm =
    TotpAlgorithm_Sha1 | TotpAlgorithm_Sha256 | TotpAlgorithm_Sha512

definition totp_algorithm_as_str :: "totp_algorithm \<Rightarrow> string" where
  "totp_algorithm_as_str self =
     (case self of
        TotpAlgorithm_Sha1 \<Rightarrow> ''SHA1''
      | TotpAlgorithm_Sha256 \<Rightarrow> ''SHA256''
      | TotpAlgorithm_Sha512 \<Rightarrow> ''SHA512'')"

datatype totp_period =
    TotpPeriod_Seconds "64 word" | TotpPeriod_Duration string

definition totp_period_seconds :: "64 word \<Rightarrow> totp_period" where
  "totp_period_seconds seconds = TotpPeriod_Seconds seconds"

definition totp_period_duration :: "string \<Rightarrow> totp_period" where
  "totp_period_duration duration = TotpPeriod_Duration duration"

record totp_key_create_request =
  totp_key_create_request_generate :: "bool option"
  totp_key_create_request_exported :: "bool option"
  totp_key_create_request_key_size :: "64 word option"
  totp_key_create_request_url :: "string option"
  totp_key_create_request_key :: "string option"
  totp_key_create_request_issuer :: "string option"
  totp_key_create_request_account_name :: "string option"
  totp_key_create_request_period :: "totp_period option"
  totp_key_create_request_algorithm :: "totp_algorithm option"
  totp_key_create_request_digits :: "8 word option"
  totp_key_create_request_skew :: "8 word option"
  totp_key_create_request_qr_size :: "64 word option"

definition totp_key_create_request_default :: totp_key_create_request where
  "totp_key_create_request_default =
     \<lparr>totp_key_create_request_generate = None, totp_key_create_request_exported = None,
       totp_key_create_request_key_size = None, totp_key_create_request_url = None,
       totp_key_create_request_key = None, totp_key_create_request_issuer = None,
       totp_key_create_request_account_name = None, totp_key_create_request_period = None,
       totp_key_create_request_algorithm = None, totp_key_create_request_digits = None,
       totp_key_create_request_skew = None, totp_key_create_request_qr_size = None\<rparr>"

definition totp_key_create_request_generated ::
  "string \<Rightarrow> string \<Rightarrow> totp_key_create_request" where
  "totp_key_create_request_generated issuer account_name =
     totp_key_create_request_default\<lparr>totp_key_create_request_generate := Some True,
       totp_key_create_request_exported := Some True, totp_key_create_request_issuer := Some
       issuer, totp_key_create_request_account_name := Some account_name\<rparr>"

definition totp_key_create_request_from_url :: "string \<Rightarrow> totp_key_create_request" where
  "totp_key_create_request_from_url url =
     totp_key_create_request_default\<lparr>totp_key_create_request_url := Some url\<rparr>"

definition totp_key_create_request_from_key :: "string \<Rightarrow> totp_key_create_request" where
  "totp_key_create_request_from_key key =
     totp_key_create_request_default\<lparr>totp_key_create_request_key := Some key\<rparr>"

definition totp_key_create_request_with_algorithm ::
  "totp_key_create_request \<Rightarrow> totp_algorithm \<Rightarrow> totp_key_create_request" where
  "totp_key_create_request_with_algorithm self algorithm =
     self\<lparr>totp_key_create_request_algorithm := Some algorithm\<rparr>"

definition totp_key_create_request_with_digits ::
  "totp_key_create_request \<Rightarrow> 8 word \<Rightarrow> totp_key_create_request" where
  "totp_key_create_request_with_digits self digits =
     self\<lparr>totp_key_create_request_digits := Some digits\<rparr>"

record totp_validate_request =
  totp_validate_request_code :: string

definition totp_validate_request_new :: "string \<Rightarrow> totp_validate_request" where
  "totp_validate_request_new code_v = \<lparr>totp_validate_request_code = code_v\<rparr>"

section \<open>Operations\<close>

definition client_totp :: "string \<Rightarrow> string list res" where
  "client_totp mount = validate_mount_path mount"

record totp_key_create_payload =
  totp_key_create_payload_generate :: "bool option"
  totp_key_create_payload_exported :: "bool option"
  totp_key_create_payload_key_size :: "64 word option"
  totp_key_create_payload_url :: "string option"
  totp_key_create_payload_key :: "string option"
  totp_key_create_payload_issuer :: "string option"
  totp_key_create_payload_account_name :: "string option"
  totp_key_create_payload_period :: "totp_period option"
  totp_key_create_payload_algorithm :: "totp_algorithm option"
  totp_key_create_payload_digits :: "8 word option"
  totp_key_create_payload_skew :: "8 word option"
  totp_key_create_payload_qr_size :: "64 word option"

record totp_key_create_response =
  totp_key_create_response_barcode :: "string option"
  totp_key_create_response_url :: "string option"

record 'a optional_data_envelope =
  optional_data_envelope_data :: "'a option"

definition totp_request_accepting ::
  "http_env \<Rightarrow> client \<Rightarrow> (string \<Rightarrow> 'a option) \<Rightarrow>
   string list \<Rightarrow> string \<Rightarrow> string \<Rightarrow>
   payload option \<Rightarrow> nat list \<Rightarrow> 'a sent" where
  "totp_request_accepting env cl from_json mount verb path body_v accepted_statuses =
     request_secret_json_accepting env cl from_json ''/totp/'' ''totp'' (join_with ''/'' mount)
       verb path body_v accepted_statuses"

definition totp_path ::
  "string list \<Rightarrow> string \<Rightarrow> string \<Rightarrow> string res" where
  "totp_path mount operation name =
     (let segments = mount in
     rbind (validate_mount_path operation) (\<lambda>p.
     let segments = segments @ p in
     rbind (validate_endpoint_path name) (\<lambda>p.
     let segments = segments @ p in
     Inr (join_with ''/'' segments))))"

definition totp_key_create_response_default :: totp_key_create_response where
  "totp_key_create_response_default =
     \<lparr>totp_key_create_response_barcode = None, totp_key_create_response_url =
       None\<rparr>"

definition totp_create_key ::
  "http_env \<Rightarrow> client \<Rightarrow>
   (string \<Rightarrow> totp_key_create_response optional_data_envelope option) \<Rightarrow>
   (totp_key_create_payload \<Rightarrow> payload) \<Rightarrow> string list \<Rightarrow>
   string \<Rightarrow> totp_key_create_request \<Rightarrow> totp_key_create_response sent" where
  "totp_create_key env cl from_json to_json mount name request =
     (let payload =
       \<lparr>totp_key_create_payload_generate = totp_key_create_request_generate request,
       totp_key_create_payload_exported = totp_key_create_request_exported request,
       totp_key_create_payload_key_size = totp_key_create_request_key_size request,
       totp_key_create_payload_url = totp_key_create_request_url request,
       totp_key_create_payload_key = totp_key_create_request_key request,
       totp_key_create_payload_issuer = totp_key_create_request_issuer request,
       totp_key_create_payload_account_name = totp_key_create_request_account_name request,
       totp_key_create_payload_period = totp_key_create_request_period request,
       totp_key_create_payload_algorithm = totp_key_create_request_algorithm request,
       totp_key_create_payload_digits = totp_key_create_request_digits request,
       totp_key_create_payload_skew = totp_key_create_request_skew request,
       totp_key_create_payload_qr_size = totp_key_create_request_qr_size request\<rparr> in
     sbind (pure (totp_path mount ''keys'' name)) (\<lambda>p.
     smap (\<lambda>envelope. case_option totp_key_create_response_default (\<lambda>x. x)
       (optional_data_envelope_data envelope)) (totp_request_accepting env cl from_json mount
       ''POST'' p (Some (to_json payload)) [200, 204])))"

definition totp_request ::
  "http_env \<Rightarrow> client \<Rightarrow> (string \<Rightarrow> 'a option) \<Rightarrow>
   string list \<Rightarrow> string \<Rightarrow> string \<Rightarrow>
   payload option \<Rightarrow> 'a sent" where
  "totp_request env cl from_json mount verb path body_v =
     request_secret_json_internal env cl from_json ''/totp/'' ''totp'' (join_with ''/'' mount)
       verb path body_v"

definition totp_read_key ::
  "http_env \<Rightarrow> client \<Rightarrow>
   (string \<Rightarrow> 'a response_envelope option) \<Rightarrow> string list \<Rightarrow>
   string \<Rightarrow> 'a sent" where
  "totp_read_key env cl from_json mount name =
     sbind (pure (totp_path mount ''keys'' name)) (\<lambda>p.
     smap env_data (totp_request env cl from_json mount ''GET'' p None))"

definition totp_request_query ::
  "http_env \<Rightarrow> client \<Rightarrow> (string \<Rightarrow> 'a option) \<Rightarrow>
   string list \<Rightarrow> string \<Rightarrow> string \<Rightarrow>
   (string \<times> string) list \<Rightarrow> payload option \<Rightarrow>
   nat list \<Rightarrow> 'a sent" where
  "totp_request_query env cl from_json mount verb path query body_v accepted_statuses =
     request_secret_json_query_headers_accepting env cl from_json ''/totp/'' ''totp''
       (join_with ''/'' mount) verb path query [] body_v accepted_statuses"

definition totp_list_keys_after ::
  "http_env \<Rightarrow> client \<Rightarrow>
   (string \<Rightarrow> 'a response_envelope option) \<Rightarrow> string list \<Rightarrow>
   string option \<Rightarrow> 64 word option \<Rightarrow> 'a sent" where
  "totp_list_keys_after env cl from_json mount after limit =
     sbind (pure (from_after_limit after limit)) (\<lambda>v.
     let query = query_pairs v in
     sbind (pure (totp_path mount ''keys'' [])) (\<lambda>p.
     smap env_data (totp_request_query env cl from_json mount ''LIST'' p query None [200])))"

definition totp_list_keys ::
  "http_env \<Rightarrow> client \<Rightarrow>
   (string \<Rightarrow> 'a response_envelope option) \<Rightarrow> string list \<Rightarrow>
   'a sent" where
  "totp_list_keys env cl from_json mount =
     totp_list_keys_after env cl from_json mount None None"

definition totp_delete_key ::
  "http_env \<Rightarrow> client \<Rightarrow>
   (string \<Rightarrow> unit option) \<Rightarrow> string list \<Rightarrow>
   string \<Rightarrow> unit sent" where
  "totp_delete_key env cl from_json mount name =
     sbind (pure (totp_path mount ''keys'' name)) (\<lambda>p.
     totp_request env cl from_json mount ''DELETE'' p None)"

definition totp_generate_code ::
  "http_env \<Rightarrow> client \<Rightarrow>
   (string \<Rightarrow> 'a response_envelope option) \<Rightarrow> string list \<Rightarrow>
   string \<Rightarrow> 'a sent" where
  "totp_generate_code env cl from_json mount name =
     sbind (pure (totp_path mount ''code'' name)) (\<lambda>p.
     smap env_data (totp_request env cl from_json mount ''GET'' p None))"

definition totp_generate_code_details ::
  "http_env \<Rightarrow> client \<Rightarrow>
   (string \<Rightarrow> 'a response_envelope option) \<Rightarrow> string list \<Rightarrow>
   string \<Rightarrow> 'a sent" where
  "totp_generate_code_details env cl from_json mount name =
     sbind (pure (totp_path mount ''code'' name)) (\<lambda>p.
     smap env_data (totp_request env cl from_json mount ''GET'' p None))"

record totp_validate_payload =
  totp_validate_payload_code :: string

definition totp_validate_code ::
  "http_env \<Rightarrow> client \<Rightarrow>
   (string \<Rightarrow> 'a response_envelope option) \<Rightarrow>
   (totp_validate_payload \<Rightarrow> payload) \<Rightarrow> string list \<Rightarrow>
   string \<Rightarrow> totp_validate_request \<Rightarrow> 'a sent" where
  "totp_validate_code env cl from_json to_json mount name request =
     (let payload =
       \<lparr>totp_validate_payload_code = totp_validate_request_code request\<rparr> in
     sbind (pure (totp_path mount ''code'' name)) (\<lambda>p.
     smap env_data (totp_request env cl from_json mount ''POST'' p (Some (to_json payload)))))"

section \<open>The routes of the engine\<close>

text \<open>The path of a TOTP key: an operation, then the name of the key.\<close>

lemma totp_path_handle: "totp_path mount operation name =
    rbind (validate_mount_path operation) (\<lambda>_. handle_path mount [operation, name])"
proof (cases "validate_mount_path operation")
  case (Inr ws)
  then have "validate_endpoint_path operation = Inr ws"
    by (auto simp: validate_mount_path_def validate_endpoint_path_def validate_path_def Let_def
        split: if_splits option.splits)
  with Inr show ?thesis
    by (simp add: totp_path_def handle_path_def Let_def rmap_rbind)
      (cases "validate_endpoint_path name"; simp)
qed (simp add: totp_path_def)

interpretation totp: mounted_engine handle_path totp_request
  by unfold_locales (simp_all add: totp_request_def Let_def sends_secret secret_json_safe)

named_theorems totp_paths
named_theorems totp_calls

lemma totp_path_at [totp_paths]: "totp_path mount operation name = Inr p \<Longrightarrow> path_at mount [operation, name] p"
  by (auto simp: totp_path_handle rbind_Inr_iff intro: handle_path_at)

lemma totp_request_accepting_at [totp_calls]:
  "list_all safe_segment mount \<Longrightarrow> path_at mount parts path \<Longrightarrow>
   at_route env cl verb mount parts
     (totp_request_accepting env cl from_json mount verb path body_v accepted_statuses)"
  by (auto simp: totp_request_accepting_def Let_def rbind_Inr_iff intro!: at_intros at_requests totp_calls
      intro: totp_paths silent_intros split: option.splits)

lemma totp_request_at [totp_calls]:
  "list_all safe_segment mount \<Longrightarrow> path_at mount parts path \<Longrightarrow>
   at_route env cl verb mount parts (totp_request env cl from_json mount verb path body_v)"
  by (rule totp.request_at)

lemma totp_request_query_at [totp_calls]:
  "list_all safe_segment mount \<Longrightarrow> path_at mount parts path \<Longrightarrow>
   at_route env cl verb mount parts
     (totp_request_query env cl from_json mount verb path query body_v accepted_statuses)"
  by (auto simp: totp_request_query_def Let_def rbind_Inr_iff intro!: at_intros at_requests totp_calls
      intro: totp_paths silent_intros split: option.splits)

lemma totp_keys_routes [totp_calls]:
  assumes "list_all safe_segment mount"
  shows "at_route env cl ''POST'' mount [''keys'', name]
        (totp_create_key env cl fj tj mount name request)"
    and "at_route env cl ''GET'' mount [''keys'', name] (totp_read_key env cl fj2 mount name)"
    and "at_route env cl ''LIST'' mount [''keys'', []]
        (totp_list_keys_after env cl fj2 mount after limit)"
    and "at_route env cl ''LIST'' mount [''keys'', []] (totp_list_keys env cl fj2 mount)"
    and "at_route env cl ''DELETE'' mount [''keys'', name] (totp_delete_key env cl fj3 mount name)"
  unfolding totp_create_key_def totp_read_key_def totp_list_keys_after_def totp_list_keys_def
      totp_delete_key_def
  by (use assms in \<open>auto simp: Let_def rbind_Inr_iff
      intro!: at_intros at_requests totp_calls intro: totp_paths at_after silent_intros split: option.splits\<close>)

lemma totp_code_routes [totp_calls]:
  assumes "list_all safe_segment mount"
  shows "at_route env cl ''GET'' mount [''code'', name] (totp_generate_code env cl fj mount name)"
    and "at_route env cl ''GET'' mount [''code'', name]
        (totp_generate_code_details env cl fj mount name)"
    and "at_route env cl ''POST'' mount [''code'', name]
        (totp_validate_code env cl fj tj mount name request)"
  unfolding totp_generate_code_def totp_generate_code_details_def totp_validate_code_def
  by (use assms in \<open>auto simp: Let_def rbind_Inr_iff
      intro!: at_intros at_requests totp_calls intro: totp_paths at_after silent_intros split: option.splits\<close>)

end
