(* ===== verification/Bao_Identity.thy ===== *)
theory Bao_Identity
  imports Bao_Engine
begin

text \<open>
  The identity engine, \<open>secrets/identity.rs\<close>: entities, groups, aliases, OIDC and MFA methods.
\<close>

section \<open>Data and requests\<close>

record identity_entity_request =
  identity_entity_request_name :: "string option"
  identity_entity_request_metadata :: "(string \<times> string) list"
  identity_entity_request_policies :: "string list"
  identity_entity_request_disabled :: "bool option"

definition identity_entity_request_default :: identity_entity_request where
  "identity_entity_request_default =
     \<lparr>identity_entity_request_name = None, identity_entity_request_metadata = [],
       identity_entity_request_policies = [], identity_entity_request_disabled = None\<rparr>"

definition identity_entity_request_named :: "string \<Rightarrow> identity_entity_request" where
  "identity_entity_request_named name =
     identity_entity_request_default\<lparr>identity_entity_request_name := Some name\<rparr>"

definition identity_entity_request_with_policy ::
  "identity_entity_request \<Rightarrow> string \<Rightarrow> identity_entity_request" where
  "identity_entity_request_with_policy self policy =
     self\<lparr>identity_entity_request_policies := identity_entity_request_policies self @
       [policy]\<rparr>"

definition identity_entity_request_with_metadata ::
  "identity_entity_request \<Rightarrow> string \<Rightarrow> string \<Rightarrow>
   identity_entity_request" where
  "identity_entity_request_with_metadata self key val_v =
     self\<lparr>identity_entity_request_metadata := btree_insert key val_v
       (identity_entity_request_metadata self)\<rparr>"

definition IDENTITY_LIST_LIMIT :: nat where
  "IDENTITY_LIST_LIMIT = MAX_RESPONSE_STRINGS"

definition identity_validate_string_count :: "nat \<Rightarrow> string \<Rightarrow> unit res" where
  "identity_validate_string_count count_v field =
     (if count_v \<le> IDENTITY_LIST_LIMIT then Inr ()
        else Inl (InvalidParameter (field @ '' exceeds maximum item count'')))"

definition identity_entity_request_validate :: "identity_entity_request \<Rightarrow> unit res" where
  "identity_entity_request_validate self =
     rbind (identity_validate_string_count (length (identity_entity_request_policies self))
       ''identity entity policies'') (\<lambda>_.
     identity_validate_string_count (length (identity_entity_request_metadata self))
       ''identity entity metadata'')"

record identity_entity_batch_delete_request =
  identity_entity_batch_delete_request_entity_ids :: "string list"

definition identity_entity_batch_delete_request_new ::
  "string list \<Rightarrow> identity_entity_batch_delete_request" where
  "identity_entity_batch_delete_request_new entity_ids =
     \<lparr>identity_entity_batch_delete_request_entity_ids = entity_ids\<rparr>"

definition identity_entity_batch_delete_request_validate ::
  "identity_entity_batch_delete_request \<Rightarrow> unit res" where
  "identity_entity_batch_delete_request_validate self =
     (if identity_entity_batch_delete_request_entity_ids self = [] then Inl (InvalidParameter
       ''identity entity batch delete requires at least one entity ID'')
        else identity_validate_string_count (length
          (identity_entity_batch_delete_request_entity_ids self)) ''identity entity IDs'')"

record identity_entity_lookup_request =
  identity_entity_lookup_request_id :: "string option"
  identity_entity_lookup_request_name :: "string option"
  identity_entity_lookup_request_alias_id :: "string option"
  identity_entity_lookup_request_alias_name :: "string option"
  identity_entity_lookup_request_alias_mount_accessor :: "string option"

definition identity_entity_lookup_request_default :: identity_entity_lookup_request where
  "identity_entity_lookup_request_default =
     \<lparr>identity_entity_lookup_request_id = None, identity_entity_lookup_request_name =
       None, identity_entity_lookup_request_alias_id = None,
       identity_entity_lookup_request_alias_name = None,
       identity_entity_lookup_request_alias_mount_accessor = None\<rparr>"

definition identity_entity_lookup_request_by_id ::
  "string \<Rightarrow> identity_entity_lookup_request" where
  "identity_entity_lookup_request_by_id id_v =
     identity_entity_lookup_request_default\<lparr>identity_entity_lookup_request_id := Some
       id_v\<rparr>"

definition identity_entity_lookup_request_by_name ::
  "string \<Rightarrow> identity_entity_lookup_request" where
  "identity_entity_lookup_request_by_name name =
     identity_entity_lookup_request_default\<lparr>identity_entity_lookup_request_name := Some
       name\<rparr>"

definition identity_entity_lookup_request_by_alias ::
  "string \<Rightarrow> string \<Rightarrow> identity_entity_lookup_request" where
  "identity_entity_lookup_request_by_alias alias_name alias_mount_accessor =
     identity_entity_lookup_request_default\<lparr>identity_entity_lookup_request_alias_name :=
       Some alias_name, identity_entity_lookup_request_alias_mount_accessor := Some
       alias_mount_accessor\<rparr>"

definition identity_entity_lookup_request_validate ::
  "identity_entity_lookup_request \<Rightarrow> unit res" where
  "identity_entity_lookup_request_validate self =
     (let identifiers = length (List.map_filter (\<lambda>x. x)
       [identity_entity_lookup_request_id self, identity_entity_lookup_request_name self,
       identity_entity_lookup_request_alias_id self, identity_entity_lookup_request_alias_name
       self]) in
     (if identifiers = 0 then Inl (InvalidParameter
       ''identity entity lookup requires an id, name, alias_id, or alias_name'')
        else (if list_ex (\<lambda>val_v. trim val_v = []) (List.map_filter (\<lambda>x. x)
          [identity_entity_lookup_request_id self, identity_entity_lookup_request_name self,
          identity_entity_lookup_request_alias_id self,
          identity_entity_lookup_request_alias_name self,
          identity_entity_lookup_request_alias_mount_accessor self]) then Inl (InvalidParameter
          ''identity entity lookup fields must not be empty'')
           else (if identity_entity_lookup_request_alias_name self \<noteq> None \<and>
             identity_entity_lookup_request_alias_mount_accessor self = None then Inl
             (InvalidParameter ''identity alias lookup requires alias_mount_accessor'')
              else Inr ()))))"

record identity_entity_merge_request =
  identity_entity_merge_request_to_entity_id :: string
  identity_entity_merge_request_from_entity_ids :: "string list"
  identity_entity_merge_request_force :: "bool option"
  identity_entity_merge_request_conflicting_alias_ids_to_keep :: "string list"

definition identity_entity_merge_request_new ::
  "string \<Rightarrow> string list \<Rightarrow> identity_entity_merge_request" where
  "identity_entity_merge_request_new to_entity_id from_entity_ids =
     \<lparr>identity_entity_merge_request_to_entity_id = to_entity_id,
       identity_entity_merge_request_from_entity_ids = from_entity_ids,
       identity_entity_merge_request_force = None,
       identity_entity_merge_request_conflicting_alias_ids_to_keep = []\<rparr>"

definition identity_entity_merge_request_force_set ::
  "identity_entity_merge_request \<Rightarrow> identity_entity_merge_request" where
  "identity_entity_merge_request_force_set self =
     self\<lparr>identity_entity_merge_request_force := Some True\<rparr>"

definition identity_entity_merge_request_keep_conflicting_aliases ::
  "identity_entity_merge_request \<Rightarrow> string list \<Rightarrow>
   identity_entity_merge_request" where
  "identity_entity_merge_request_keep_conflicting_aliases self alias_ids =
     self\<lparr>identity_entity_merge_request_conflicting_alias_ids_to_keep := alias_ids\<rparr>"

definition identity_entity_merge_request_validate ::
  "identity_entity_merge_request \<Rightarrow> unit res" where
  "identity_entity_merge_request_validate self =
     (if trim (identity_entity_merge_request_to_entity_id self) = [] then Inl (InvalidParameter
       ''identity merge target entity ID must not be empty'')
        else (if identity_entity_merge_request_from_entity_ids self = [] then Inl
          (InvalidParameter ''identity merge requires at least one source entity ID'')
           else rbind (identity_validate_string_count (length
             (identity_entity_merge_request_from_entity_ids self))
             ''identity merge source entity IDs'') (\<lambda>_.
           (if list_ex (\<lambda>id_v. trim id_v = [])
             (identity_entity_merge_request_from_entity_ids self) then Inl (InvalidParameter
             ''identity merge source entity IDs must not be empty'')
              else rbind (identity_validate_string_count (length
                (identity_entity_merge_request_conflicting_alias_ids_to_keep self))
                ''identity merge conflicting alias IDs'') (\<lambda>_.
              (if list_ex (\<lambda>id_v. trim id_v = [])
                (identity_entity_merge_request_conflicting_alias_ids_to_keep self) then Inl
                (InvalidParameter ''identity merge conflicting alias IDs must not be empty'')
                 else Inr ()))))))"

datatype identity_group_type =
    IdentityGroupType_Internal | IdentityGroupType_External

definition identity_group_type_as_str :: "identity_group_type \<Rightarrow> string" where
  "identity_group_type_as_str self =
     (case self of
        IdentityGroupType_Internal \<Rightarrow> ''internal''
      | IdentityGroupType_External \<Rightarrow> ''external'')"

record identity_group_request =
  identity_group_request_name :: "string option"
  identity_group_request_group_type :: "identity_group_type option"
  identity_group_request_policies :: "string list"
  identity_group_request_member_entity_ids :: "string list"
  identity_group_request_member_group_ids :: "string list"
  identity_group_request_metadata :: "(string \<times> string) list"

definition identity_group_request_default :: identity_group_request where
  "identity_group_request_default =
     \<lparr>identity_group_request_name = None, identity_group_request_group_type = None,
       identity_group_request_policies = [], identity_group_request_member_entity_ids = [],
       identity_group_request_member_group_ids = [], identity_group_request_metadata =
       []\<rparr>"

definition identity_group_request_internal :: "string \<Rightarrow> identity_group_request" where
  "identity_group_request_internal name =
     identity_group_request_default\<lparr>identity_group_request_name := Some name,
       identity_group_request_group_type := Some IdentityGroupType_Internal\<rparr>"

definition identity_group_request_external :: "string \<Rightarrow> identity_group_request" where
  "identity_group_request_external name =
     identity_group_request_default\<lparr>identity_group_request_name := Some name,
       identity_group_request_group_type := Some IdentityGroupType_External\<rparr>"

definition identity_group_request_with_policy ::
  "identity_group_request \<Rightarrow> string \<Rightarrow> identity_group_request" where
  "identity_group_request_with_policy self policy =
     self\<lparr>identity_group_request_policies := identity_group_request_policies self @
       [policy]\<rparr>"

definition identity_group_request_with_member_entity_id ::
  "identity_group_request \<Rightarrow> string \<Rightarrow> identity_group_request" where
  "identity_group_request_with_member_entity_id self entity_id =
     self\<lparr>identity_group_request_member_entity_ids := identity_group_request_member_entity_ids
       self @ [entity_id]\<rparr>"

definition identity_group_request_with_metadata ::
  "identity_group_request \<Rightarrow> string \<Rightarrow> string \<Rightarrow>
   identity_group_request" where
  "identity_group_request_with_metadata self key val_v =
     self\<lparr>identity_group_request_metadata := btree_insert key val_v
       (identity_group_request_metadata self)\<rparr>"

definition identity_group_request_validate :: "identity_group_request \<Rightarrow> unit res" where
  "identity_group_request_validate self =
     rbind (identity_validate_string_count (length (identity_group_request_policies self))
       ''identity group policies'') (\<lambda>_.
     rbind (identity_validate_string_count (length (identity_group_request_member_entity_ids
       self)) ''identity group member entity IDs'') (\<lambda>_.
     rbind (identity_validate_string_count (length (identity_group_request_member_group_ids
       self)) ''identity group member group IDs'') (\<lambda>_.
     identity_validate_string_count (length (identity_group_request_metadata self))
       ''identity group metadata'')))"

record identity_group_lookup_request =
  identity_group_lookup_request_id :: "string option"
  identity_group_lookup_request_name :: "string option"
  identity_group_lookup_request_alias_id :: "string option"
  identity_group_lookup_request_alias_name :: "string option"
  identity_group_lookup_request_alias_mount_accessor :: "string option"

definition identity_group_lookup_request_default :: identity_group_lookup_request where
  "identity_group_lookup_request_default =
     \<lparr>identity_group_lookup_request_id = None, identity_group_lookup_request_name =
       None, identity_group_lookup_request_alias_id = None,
       identity_group_lookup_request_alias_name = None,
       identity_group_lookup_request_alias_mount_accessor = None\<rparr>"

definition identity_group_lookup_request_by_id ::
  "string \<Rightarrow> identity_group_lookup_request" where
  "identity_group_lookup_request_by_id id_v =
     identity_group_lookup_request_default\<lparr>identity_group_lookup_request_id := Some
       id_v\<rparr>"

definition identity_group_lookup_request_by_name ::
  "string \<Rightarrow> identity_group_lookup_request" where
  "identity_group_lookup_request_by_name name =
     identity_group_lookup_request_default\<lparr>identity_group_lookup_request_name := Some
       name\<rparr>"

definition identity_group_lookup_request_by_alias ::
  "string \<Rightarrow> string \<Rightarrow> identity_group_lookup_request" where
  "identity_group_lookup_request_by_alias alias_name alias_mount_accessor =
     identity_group_lookup_request_default\<lparr>identity_group_lookup_request_alias_name :=
       Some alias_name, identity_group_lookup_request_alias_mount_accessor := Some
       alias_mount_accessor\<rparr>"

definition identity_group_lookup_request_validate ::
  "identity_group_lookup_request \<Rightarrow> unit res" where
  "identity_group_lookup_request_validate self =
     (let identifiers = length (List.map_filter (\<lambda>x. x)
       [identity_group_lookup_request_id self, identity_group_lookup_request_name self,
       identity_group_lookup_request_alias_id self, identity_group_lookup_request_alias_name
       self]) in
     (if identifiers = 0 then Inl (InvalidParameter
       ''identity group lookup requires an id, name, alias_id, or alias_name'')
        else (if list_ex (\<lambda>val_v. trim val_v = []) (List.map_filter (\<lambda>x. x)
          [identity_group_lookup_request_id self, identity_group_lookup_request_name self,
          identity_group_lookup_request_alias_id self, identity_group_lookup_request_alias_name
          self, identity_group_lookup_request_alias_mount_accessor self]) then Inl
          (InvalidParameter ''identity group lookup fields must not be empty'')
           else (if identity_group_lookup_request_alias_name self \<noteq> None \<and>
             identity_group_lookup_request_alias_mount_accessor self = None then Inl
             (InvalidParameter ''identity group alias lookup requires alias_mount_accessor'')
              else Inr ()))))"

record identity_entity_alias_request =
  identity_entity_alias_request_name :: string
  identity_entity_alias_request_canonical_id :: string
  identity_entity_alias_request_mount_accessor :: string
  identity_entity_alias_request_id :: "string option"
  identity_entity_alias_request_custom_metadata :: "(string \<times> string) list"

definition identity_entity_alias_request_new ::
  "string \<Rightarrow> string \<Rightarrow> string \<Rightarrow>
   identity_entity_alias_request" where
  "identity_entity_alias_request_new name canonical_id mount_accessor =
     \<lparr>identity_entity_alias_request_name = name,
       identity_entity_alias_request_canonical_id = canonical_id,
       identity_entity_alias_request_mount_accessor = mount_accessor,
       identity_entity_alias_request_id = None,
       identity_entity_alias_request_custom_metadata = []\<rparr>"

definition identity_entity_alias_request_with_id ::
  "identity_entity_alias_request \<Rightarrow> string \<Rightarrow>
   identity_entity_alias_request" where
  "identity_entity_alias_request_with_id self id_v =
     self\<lparr>identity_entity_alias_request_id := Some id_v\<rparr>"

definition identity_entity_alias_request_with_custom_metadata ::
  "identity_entity_alias_request \<Rightarrow> string \<Rightarrow> string \<Rightarrow>
   identity_entity_alias_request" where
  "identity_entity_alias_request_with_custom_metadata self key val_v =
     self\<lparr>identity_entity_alias_request_custom_metadata := btree_insert key val_v
       (identity_entity_alias_request_custom_metadata self)\<rparr>"

definition identity_entity_alias_request_validate ::
  "identity_entity_alias_request \<Rightarrow> unit res" where
  "identity_entity_alias_request_validate self =
     identity_validate_string_count (length (identity_entity_alias_request_custom_metadata
       self)) ''identity entity alias metadata''"

record identity_group_alias_request =
  identity_group_alias_request_name :: string
  identity_group_alias_request_canonical_id :: string
  identity_group_alias_request_mount_accessor :: string
  identity_group_alias_request_id :: "string option"

definition identity_group_alias_request_new ::
  "string \<Rightarrow> string \<Rightarrow> string \<Rightarrow>
   identity_group_alias_request" where
  "identity_group_alias_request_new name canonical_id mount_accessor =
     \<lparr>identity_group_alias_request_name = name,
       identity_group_alias_request_canonical_id = canonical_id,
       identity_group_alias_request_mount_accessor = mount_accessor,
       identity_group_alias_request_id = None\<rparr>"

definition identity_group_alias_request_with_id ::
  "identity_group_alias_request \<Rightarrow> string \<Rightarrow>
   identity_group_alias_request" where
  "identity_group_alias_request_with_id self id_v =
     self\<lparr>identity_group_alias_request_id := Some id_v\<rparr>"

record identity_oidc_config_request =
  identity_oidc_config_request_issuer :: "string option"

definition identity_oidc_config_request_new ::
  "string \<Rightarrow> identity_oidc_config_request" where
  "identity_oidc_config_request_new issuer =
     \<lparr>identity_oidc_config_request_issuer = Some issuer\<rparr>"

record identity_oidc_key_request =
  identity_oidc_key_request_rotation_period :: "string option"
  identity_oidc_key_request_verification_ttl :: "string option"
  identity_oidc_key_request_allowed_client_ids :: "string list"
  identity_oidc_key_request_algorithm :: "string option"

definition identity_oidc_key_request_default :: identity_oidc_key_request where
  "identity_oidc_key_request_default =
     \<lparr>identity_oidc_key_request_rotation_period = None,
       identity_oidc_key_request_verification_ttl = None,
       identity_oidc_key_request_allowed_client_ids = [], identity_oidc_key_request_algorithm =
       None\<rparr>"

definition identity_oidc_key_request_new :: identity_oidc_key_request where
  "identity_oidc_key_request_new = identity_oidc_key_request_default"

definition identity_oidc_key_request_with_rotation_period ::
  "identity_oidc_key_request \<Rightarrow> string \<Rightarrow> identity_oidc_key_request" where
  "identity_oidc_key_request_with_rotation_period self rotation_period =
     self\<lparr>identity_oidc_key_request_rotation_period := Some rotation_period\<rparr>"

definition identity_oidc_key_request_with_verification_ttl ::
  "identity_oidc_key_request \<Rightarrow> string \<Rightarrow> identity_oidc_key_request" where
  "identity_oidc_key_request_with_verification_ttl self verification_ttl =
     self\<lparr>identity_oidc_key_request_verification_ttl := Some verification_ttl\<rparr>"

section \<open>Operations\<close>

definition identity_oidc_key_request_with_allowed_client_id ::
  "identity_oidc_key_request \<Rightarrow> string \<Rightarrow> identity_oidc_key_request" where
  "identity_oidc_key_request_with_allowed_client_id self client_id =
     self\<lparr>identity_oidc_key_request_allowed_client_ids := identity_oidc_key_request_allowed_client_ids
       self @ [client_id]\<rparr>"

definition identity_oidc_key_request_with_algorithm ::
  "identity_oidc_key_request \<Rightarrow> string \<Rightarrow> identity_oidc_key_request" where
  "identity_oidc_key_request_with_algorithm self algorithm =
     self\<lparr>identity_oidc_key_request_algorithm := Some algorithm\<rparr>"

definition identity_oidc_key_request_validate ::
  "identity_oidc_key_request \<Rightarrow> unit res" where
  "identity_oidc_key_request_validate self =
     rbind (case identity_oidc_key_request_rotation_period self of
        None \<Rightarrow> Inr ()
      | Some rotation_period \<Rightarrow> validate_duration_parameter rotation_period
        ''identity OIDC key rotation_period'') (\<lambda>_.
     rbind (case identity_oidc_key_request_verification_ttl self of
        None \<Rightarrow> Inr ()
      | Some verification_ttl \<Rightarrow> validate_duration_parameter verification_ttl
        ''identity OIDC key verification_ttl'') (\<lambda>_.
     identity_validate_string_count (length (identity_oidc_key_request_allowed_client_ids
       self)) ''identity OIDC allowed client IDs''))"

record identity_oidc_key_rotate_request =
  identity_oidc_key_rotate_request_verification_ttl :: "string option"

definition identity_oidc_key_rotate_request_default :: identity_oidc_key_rotate_request where
  "identity_oidc_key_rotate_request_default =
     \<lparr>identity_oidc_key_rotate_request_verification_ttl = None\<rparr>"

definition identity_oidc_key_rotate_request_new :: identity_oidc_key_rotate_request where
  "identity_oidc_key_rotate_request_new = identity_oidc_key_rotate_request_default"

definition identity_oidc_key_rotate_request_with_verification_ttl ::
  "identity_oidc_key_rotate_request \<Rightarrow> string \<Rightarrow>
   identity_oidc_key_rotate_request" where
  "identity_oidc_key_rotate_request_with_verification_ttl self verification_ttl =
     self\<lparr>identity_oidc_key_rotate_request_verification_ttl := Some
       verification_ttl\<rparr>"

definition identity_oidc_key_rotate_request_validate ::
  "identity_oidc_key_rotate_request \<Rightarrow> unit res" where
  "identity_oidc_key_rotate_request_validate self =
     (case identity_oidc_key_rotate_request_verification_ttl self of
        None \<Rightarrow> Inr ()
      | Some verification_ttl \<Rightarrow> validate_duration_parameter verification_ttl
        ''identity OIDC key rotation verification_ttl'')"

record identity_oidc_role_request =
  identity_oidc_role_request_key :: string
  identity_oidc_role_request_template :: "string option"
  identity_oidc_role_request_client_id :: "string option"
  identity_oidc_role_request_ttl :: "string option"

definition identity_oidc_role_request_default :: identity_oidc_role_request where
  "identity_oidc_role_request_default =
     \<lparr>identity_oidc_role_request_key = [], identity_oidc_role_request_template = None,
       identity_oidc_role_request_client_id = None, identity_oidc_role_request_ttl =
       None\<rparr>"

definition identity_oidc_role_request_new :: "string \<Rightarrow> identity_oidc_role_request" where
  "identity_oidc_role_request_new key =
     identity_oidc_role_request_default\<lparr>identity_oidc_role_request_key := key\<rparr>"

definition identity_oidc_role_request_with_template ::
  "identity_oidc_role_request \<Rightarrow> string \<Rightarrow> identity_oidc_role_request" where
  "identity_oidc_role_request_with_template self template =
     self\<lparr>identity_oidc_role_request_template := Some template\<rparr>"

definition identity_oidc_role_request_with_client_id ::
  "identity_oidc_role_request \<Rightarrow> string \<Rightarrow> identity_oidc_role_request" where
  "identity_oidc_role_request_with_client_id self client_id =
     self\<lparr>identity_oidc_role_request_client_id := Some client_id\<rparr>"

definition identity_oidc_role_request_with_ttl ::
  "identity_oidc_role_request \<Rightarrow> string \<Rightarrow> identity_oidc_role_request" where
  "identity_oidc_role_request_with_ttl self ttl =
     self\<lparr>identity_oidc_role_request_ttl := Some ttl\<rparr>"

definition identity_oidc_role_request_validate ::
  "identity_oidc_role_request \<Rightarrow> unit res" where
  "identity_oidc_role_request_validate self =
     (if trim (identity_oidc_role_request_key self) = [] then Inl (InvalidParameter
       ''identity OIDC role key must not be empty'')
        else (case identity_oidc_role_request_ttl self of
           None \<Rightarrow> Inr ()
         | Some ttl \<Rightarrow> validate_duration_parameter ttl ''identity OIDC role ttl''))"

record identity_oidc_authorize_request =
  identity_oidc_authorize_request_scope :: string
  identity_oidc_authorize_request_client_id :: string
  identity_oidc_authorize_request_redirect_uri :: string
  identity_oidc_authorize_request_state :: "string option"
  identity_oidc_authorize_request_nonce :: "string option"
  identity_oidc_authorize_request_max_age :: "64 word option"
  identity_oidc_authorize_request_code_challenge :: "string option"
  identity_oidc_authorize_request_code_challenge_method :: "string option"

definition identity_oidc_authorize_request_new ::
  "string \<Rightarrow> string \<Rightarrow> string \<Rightarrow>
   identity_oidc_authorize_request" where
  "identity_oidc_authorize_request_new client_id redirect_uri scope =
     \<lparr>identity_oidc_authorize_request_scope = scope,
       identity_oidc_authorize_request_client_id = client_id,
       identity_oidc_authorize_request_redirect_uri = redirect_uri,
       identity_oidc_authorize_request_state = None,
       identity_oidc_authorize_request_nonce = None,
       identity_oidc_authorize_request_max_age = None,
       identity_oidc_authorize_request_code_challenge = None,
       identity_oidc_authorize_request_code_challenge_method = None\<rparr>"

definition identity_oidc_authorize_request_with_state ::
  "identity_oidc_authorize_request \<Rightarrow> string \<Rightarrow>
   identity_oidc_authorize_request" where
  "identity_oidc_authorize_request_with_state self state =
     self\<lparr>identity_oidc_authorize_request_state := Some state\<rparr>"

definition identity_oidc_authorize_request_with_nonce ::
  "identity_oidc_authorize_request \<Rightarrow> string \<Rightarrow>
   identity_oidc_authorize_request" where
  "identity_oidc_authorize_request_with_nonce self nonce =
     self\<lparr>identity_oidc_authorize_request_nonce := Some nonce\<rparr>"

definition identity_oidc_authorize_request_with_max_age ::
  "identity_oidc_authorize_request \<Rightarrow> 64 word \<Rightarrow>
   identity_oidc_authorize_request" where
  "identity_oidc_authorize_request_with_max_age self max_age =
     self\<lparr>identity_oidc_authorize_request_max_age := Some max_age\<rparr>"

definition identity_oidc_authorize_request_with_pkce ::
  "identity_oidc_authorize_request \<Rightarrow> string \<Rightarrow> string \<Rightarrow>
   identity_oidc_authorize_request" where
  "identity_oidc_authorize_request_with_pkce self challenge verb =
     self\<lparr>identity_oidc_authorize_request_code_challenge := Some challenge,
       identity_oidc_authorize_request_code_challenge_method := Some verb\<rparr>"

definition identity_oidc_authorize_request_validate ::
  "identity_oidc_authorize_request \<Rightarrow> unit res" where
  "identity_oidc_authorize_request_validate self =
     (if trim (identity_oidc_authorize_request_client_id self) = [] \<or> trim
       (identity_oidc_authorize_request_redirect_uri self) = [] \<or> \<not> (list_ex
       (\<lambda>scope. scope = ''openid'') (split_ascii_whitespace
       (identity_oidc_authorize_request_scope self))) then Inl (InvalidParameter
       ''identity OIDC authorization requires client_id, redirect_uri, and openid scope'')
        else (if (identity_oidc_authorize_request_code_challenge self \<noteq> None) \<noteq>
          (identity_oidc_authorize_request_code_challenge_method self \<noteq> None) then Inl
          (InvalidParameter
          ''identity OIDC PKCE challenge and method must be supplied together'')
           else (case identity_oidc_authorize_request_code_challenge_method self of
              None \<Rightarrow> Inr ()
            | Some verb \<Rightarrow> (if \<not> (verb = ''S256'' \<or> verb = ''plain'') then
              Inl (InvalidParameter ''identity OIDC PKCE method must be S256 or plain'')
                 else Inr ()))))"

datatype identity_oidc_grant_type =
    IdentityOidcGrantType_AuthorizationCode | IdentityOidcGrantType_ClientCredentials

record identity_oidc_provider_token_request =
  identity_oidc_provider_token_request_grant_type :: identity_oidc_grant_type
  identity_oidc_provider_token_request_code :: "string option"
  identity_oidc_provider_token_request_redirect_uri :: "string option"
  identity_oidc_provider_token_request_client_id :: "string option"
  identity_oidc_provider_token_request_client_secret :: "string option"
  identity_oidc_provider_token_request_code_verifier :: "string option"
  identity_oidc_provider_token_request_scope :: "string option"
  identity_oidc_provider_token_request_basic_auth :: bool

definition identity_oidc_provider_token_request_authorization_code ::
  "string \<Rightarrow> string \<Rightarrow> identity_oidc_provider_token_request" where
  "identity_oidc_provider_token_request_authorization_code code_v redirect_uri =
     \<lparr>identity_oidc_provider_token_request_grant_type = IdentityOidcGrantType_AuthorizationCode,
       identity_oidc_provider_token_request_code = Some code_v,
       identity_oidc_provider_token_request_redirect_uri = Some redirect_uri,
       identity_oidc_provider_token_request_client_id = None,
       identity_oidc_provider_token_request_client_secret = None,
       identity_oidc_provider_token_request_code_verifier = None,
       identity_oidc_provider_token_request_scope = None,
       identity_oidc_provider_token_request_basic_auth = False\<rparr>"

definition identity_oidc_provider_token_request_client_credentials ::
  "string \<Rightarrow> identity_oidc_provider_token_request" where
  "identity_oidc_provider_token_request_client_credentials scope =
     \<lparr>identity_oidc_provider_token_request_grant_type = IdentityOidcGrantType_ClientCredentials,
       identity_oidc_provider_token_request_code = None,
       identity_oidc_provider_token_request_redirect_uri = None,
       identity_oidc_provider_token_request_client_id = None,
       identity_oidc_provider_token_request_client_secret = None,
       identity_oidc_provider_token_request_code_verifier = None,
       identity_oidc_provider_token_request_scope = Some scope,
       identity_oidc_provider_token_request_basic_auth = False\<rparr>"

definition identity_oidc_provider_token_request_with_post_credentials ::
  "identity_oidc_provider_token_request \<Rightarrow> string \<Rightarrow>
   string option \<Rightarrow> identity_oidc_provider_token_request" where
  "identity_oidc_provider_token_request_with_post_credentials self client_id client_secret =
     self\<lparr>identity_oidc_provider_token_request_client_id := Some client_id,
       identity_oidc_provider_token_request_client_secret := client_secret,
       identity_oidc_provider_token_request_basic_auth := False\<rparr>"

definition identity_oidc_provider_token_request_with_basic_credentials ::
  "identity_oidc_provider_token_request \<Rightarrow> string \<Rightarrow>
   string \<Rightarrow> identity_oidc_provider_token_request" where
  "identity_oidc_provider_token_request_with_basic_credentials self client_id client_secret =
     self\<lparr>identity_oidc_provider_token_request_client_id := Some client_id,
       identity_oidc_provider_token_request_client_secret := Some client_secret,
       identity_oidc_provider_token_request_basic_auth := True\<rparr>"

definition identity_oidc_provider_token_request_with_code_verifier ::
  "identity_oidc_provider_token_request \<Rightarrow> string \<Rightarrow>
   identity_oidc_provider_token_request" where
  "identity_oidc_provider_token_request_with_code_verifier self verifier =
     self\<lparr>identity_oidc_provider_token_request_code_verifier := Some verifier\<rparr>"

definition identity_oidc_provider_token_request_validate ::
  "identity_oidc_provider_token_request \<Rightarrow> unit res" where
  "identity_oidc_provider_token_request_validate self =
     rbind (case identity_oidc_provider_token_request_grant_type self of
        IdentityOidcGrantType_AuthorizationCode \<Rightarrow> (if (is_none_or (\<lambda>val_v.
          val_v = []) (identity_oidc_provider_token_request_code self)) \<or> is_none_or
          (\<lambda>x. x = []) (identity_oidc_provider_token_request_redirect_uri self) then
          Inl (InvalidParameter
          ''identity OIDC authorization_code requires code and redirect_uri'')
           else (case identity_oidc_provider_token_request_grant_type self of
              IdentityOidcGrantType_ClientCredentials \<Rightarrow> (if is_none_or
                (\<lambda>scope. \<not> (list_ex (\<lambda>val_v. val_v = ''openid'')
                (split_ascii_whitespace scope))) (identity_oidc_provider_token_request_scope
                self) then Inl (InvalidParameter
                ''identity OIDC client_credentials requires openid scope'')
                 else Inr ())
            | _ \<Rightarrow> Inr ()))
      | _ \<Rightarrow> (case identity_oidc_provider_token_request_grant_type self of
           IdentityOidcGrantType_ClientCredentials \<Rightarrow> (if is_none_or
             (\<lambda>scope. \<not> (list_ex (\<lambda>val_v. val_v = ''openid'')
             (split_ascii_whitespace scope))) (identity_oidc_provider_token_request_scope self)
             then Inl (InvalidParameter
             ''identity OIDC client_credentials requires openid scope'')
              else Inr ())
         | _ \<Rightarrow> Inr ())) (\<lambda>_.
     (if identity_oidc_provider_token_request_basic_auth self \<and> ((is_none_or (\<lambda>x.
       x = []) (identity_oidc_provider_token_request_client_id self)) \<or> is_none_or
       (\<lambda>secret. secret = []) (identity_oidc_provider_token_request_client_secret
       self)) then Inl (InvalidParameter
       ''identity OIDC Basic authentication requires client ID and secret'')
        else Inr ()))"

record identity_oidc_introspect_request =
  identity_oidc_introspect_request_token :: string
  identity_oidc_introspect_request_client_id :: "string option"

definition identity_oidc_introspect_request_new ::
  "string \<Rightarrow> identity_oidc_introspect_request" where
  "identity_oidc_introspect_request_new token =
     \<lparr>identity_oidc_introspect_request_token = token,
       identity_oidc_introspect_request_client_id = None\<rparr>"

definition identity_oidc_introspect_request_with_client_id ::
  "identity_oidc_introspect_request \<Rightarrow> string \<Rightarrow>
   identity_oidc_introspect_request" where
  "identity_oidc_introspect_request_with_client_id self client_id =
     self\<lparr>identity_oidc_introspect_request_client_id := Some client_id\<rparr>"

record identity_oidc_provider_request =
  identity_oidc_provider_request_issuer :: "string option"
  identity_oidc_provider_request_allowed_client_ids :: "string list"
  identity_oidc_provider_request_scopes_supported :: "string list"

definition identity_oidc_provider_request_default :: identity_oidc_provider_request where
  "identity_oidc_provider_request_default =
     \<lparr>identity_oidc_provider_request_issuer = None,
       identity_oidc_provider_request_allowed_client_ids = [],
       identity_oidc_provider_request_scopes_supported = []\<rparr>"

definition identity_oidc_provider_request_new :: identity_oidc_provider_request where
  "identity_oidc_provider_request_new = identity_oidc_provider_request_default"

definition identity_oidc_provider_request_with_issuer ::
  "identity_oidc_provider_request \<Rightarrow> string \<Rightarrow>
   identity_oidc_provider_request" where
  "identity_oidc_provider_request_with_issuer self issuer =
     self\<lparr>identity_oidc_provider_request_issuer := Some issuer\<rparr>"

definition identity_oidc_provider_request_with_allowed_client_id ::
  "identity_oidc_provider_request \<Rightarrow> string \<Rightarrow>
   identity_oidc_provider_request" where
  "identity_oidc_provider_request_with_allowed_client_id self client_id =
     self\<lparr>identity_oidc_provider_request_allowed_client_ids := identity_oidc_provider_request_allowed_client_ids
       self @ [client_id]\<rparr>"

definition identity_oidc_provider_request_with_scope_supported ::
  "identity_oidc_provider_request \<Rightarrow> string \<Rightarrow>
   identity_oidc_provider_request" where
  "identity_oidc_provider_request_with_scope_supported self scope =
     self\<lparr>identity_oidc_provider_request_scopes_supported := identity_oidc_provider_request_scopes_supported
       self @ [scope]\<rparr>"

definition identity_oidc_provider_request_validate ::
  "identity_oidc_provider_request \<Rightarrow> unit res" where
  "identity_oidc_provider_request_validate self =
     rbind (identity_validate_string_count (length
       (identity_oidc_provider_request_allowed_client_ids self))
       ''identity OIDC provider allowed client IDs'') (\<lambda>_.
     identity_validate_string_count (length (identity_oidc_provider_request_scopes_supported
       self)) ''identity OIDC provider supported scopes'')"

record identity_oidc_scope_request =
  identity_oidc_scope_request_template :: "string option"
  identity_oidc_scope_request_description :: "string option"

definition identity_oidc_scope_request_default :: identity_oidc_scope_request where
  "identity_oidc_scope_request_default =
     \<lparr>identity_oidc_scope_request_template = None,
       identity_oidc_scope_request_description = None\<rparr>"

definition identity_oidc_scope_request_new :: identity_oidc_scope_request where
  "identity_oidc_scope_request_new = identity_oidc_scope_request_default"

definition identity_oidc_scope_request_with_template ::
  "identity_oidc_scope_request \<Rightarrow> string \<Rightarrow> identity_oidc_scope_request" where
  "identity_oidc_scope_request_with_template self template =
     self\<lparr>identity_oidc_scope_request_template := Some template\<rparr>"

definition identity_oidc_scope_request_with_description ::
  "identity_oidc_scope_request \<Rightarrow> string \<Rightarrow> identity_oidc_scope_request" where
  "identity_oidc_scope_request_with_description self description =
     self\<lparr>identity_oidc_scope_request_description := Some description\<rparr>"

datatype identity_oidc_client_type =
    IdentityOidcClientType_Confidential | IdentityOidcClientType_Public

definition identity_oidc_client_type_as_str :: "identity_oidc_client_type \<Rightarrow> string" where
  "identity_oidc_client_type_as_str self =
     (case self of
        IdentityOidcClientType_Confidential \<Rightarrow> ''confidential''
      | IdentityOidcClientType_Public \<Rightarrow> ''public'')"

record identity_oidc_client_request =
  identity_oidc_client_request_key :: "string option"
  identity_oidc_client_request_redirect_uris :: "string list"
  identity_oidc_client_request_assignments :: "string list"
  identity_oidc_client_request_client_type :: "identity_oidc_client_type option"
  identity_oidc_client_request_id_token_ttl :: "string option"
  identity_oidc_client_request_access_token_ttl :: "string option"

definition identity_oidc_client_request_default :: identity_oidc_client_request where
  "identity_oidc_client_request_default =
     \<lparr>identity_oidc_client_request_key = None,
       identity_oidc_client_request_redirect_uris = [],
       identity_oidc_client_request_assignments = [], identity_oidc_client_request_client_type
       = None, identity_oidc_client_request_id_token_ttl = None,
       identity_oidc_client_request_access_token_ttl = None\<rparr>"

definition identity_oidc_client_request_new :: identity_oidc_client_request where
  "identity_oidc_client_request_new = identity_oidc_client_request_default"

definition identity_oidc_client_request_with_key ::
  "identity_oidc_client_request \<Rightarrow> string \<Rightarrow>
   identity_oidc_client_request" where
  "identity_oidc_client_request_with_key self key =
     self\<lparr>identity_oidc_client_request_key := Some key\<rparr>"

definition identity_oidc_client_request_with_redirect_uri ::
  "identity_oidc_client_request \<Rightarrow> string \<Rightarrow>
   identity_oidc_client_request" where
  "identity_oidc_client_request_with_redirect_uri self redirect_uri =
     self\<lparr>identity_oidc_client_request_redirect_uris := identity_oidc_client_request_redirect_uris
       self @ [redirect_uri]\<rparr>"

definition identity_oidc_client_request_with_assignment ::
  "identity_oidc_client_request \<Rightarrow> string \<Rightarrow>
   identity_oidc_client_request" where
  "identity_oidc_client_request_with_assignment self assignment =
     self\<lparr>identity_oidc_client_request_assignments := identity_oidc_client_request_assignments
       self @ [assignment]\<rparr>"

definition identity_oidc_client_request_with_client_type ::
  "identity_oidc_client_request \<Rightarrow> identity_oidc_client_type \<Rightarrow>
   identity_oidc_client_request" where
  "identity_oidc_client_request_with_client_type self client_type =
     self\<lparr>identity_oidc_client_request_client_type := Some client_type\<rparr>"

definition identity_oidc_client_request_with_id_token_ttl ::
  "identity_oidc_client_request \<Rightarrow> string \<Rightarrow>
   identity_oidc_client_request" where
  "identity_oidc_client_request_with_id_token_ttl self ttl =
     self\<lparr>identity_oidc_client_request_id_token_ttl := Some ttl\<rparr>"

definition identity_oidc_client_request_with_access_token_ttl ::
  "identity_oidc_client_request \<Rightarrow> string \<Rightarrow>
   identity_oidc_client_request" where
  "identity_oidc_client_request_with_access_token_ttl self ttl =
     self\<lparr>identity_oidc_client_request_access_token_ttl := Some ttl\<rparr>"

definition identity_oidc_client_request_validate ::
  "identity_oidc_client_request \<Rightarrow> unit res" where
  "identity_oidc_client_request_validate self =
     rbind (identity_validate_string_count (length (identity_oidc_client_request_redirect_uris
       self)) ''identity OIDC client redirect URIs'') (\<lambda>_.
     rbind (identity_validate_string_count (length (identity_oidc_client_request_assignments
       self)) ''identity OIDC client assignments'') (\<lambda>_.
     rbind (case identity_oidc_client_request_id_token_ttl self of
        None \<Rightarrow> Inr ()
      | Some ttl \<Rightarrow> validate_duration_parameter ttl
        ''identity OIDC client id_token_ttl'') (\<lambda>_.
     (case identity_oidc_client_request_access_token_ttl self of
        None \<Rightarrow> Inr ()
      | Some ttl \<Rightarrow> validate_duration_parameter ttl
        ''identity OIDC client access_token_ttl''))))"

record identity_oidc_assignment_request =
  identity_oidc_assignment_request_entity_ids :: "string list"
  identity_oidc_assignment_request_group_ids :: "string list"

definition identity_oidc_assignment_request_default :: identity_oidc_assignment_request where
  "identity_oidc_assignment_request_default =
     \<lparr>identity_oidc_assignment_request_entity_ids = [],
       identity_oidc_assignment_request_group_ids = []\<rparr>"

definition identity_oidc_assignment_request_new :: identity_oidc_assignment_request where
  "identity_oidc_assignment_request_new = identity_oidc_assignment_request_default"

definition identity_oidc_assignment_request_with_entity_id ::
  "identity_oidc_assignment_request \<Rightarrow> string \<Rightarrow>
   identity_oidc_assignment_request" where
  "identity_oidc_assignment_request_with_entity_id self entity_id =
     self\<lparr>identity_oidc_assignment_request_entity_ids := identity_oidc_assignment_request_entity_ids
       self @ [entity_id]\<rparr>"

definition identity_oidc_assignment_request_with_group_id ::
  "identity_oidc_assignment_request \<Rightarrow> string \<Rightarrow>
   identity_oidc_assignment_request" where
  "identity_oidc_assignment_request_with_group_id self group_id =
     self\<lparr>identity_oidc_assignment_request_group_ids := identity_oidc_assignment_request_group_ids
       self @ [group_id]\<rparr>"

definition identity_oidc_assignment_request_validate ::
  "identity_oidc_assignment_request \<Rightarrow> unit res" where
  "identity_oidc_assignment_request_validate self =
     rbind (identity_validate_string_count (length (identity_oidc_assignment_request_entity_ids
       self)) ''identity OIDC assignment entity IDs'') (\<lambda>_.
     identity_validate_string_count (length (identity_oidc_assignment_request_group_ids self))
       ''identity OIDC assignment group IDs'')"

record identity_mfa_duo_method_request =
  identity_mfa_duo_method_request_method_name :: string
  identity_mfa_duo_method_request_username_format :: "string option"
  identity_mfa_duo_method_request_secret_key :: string
  identity_mfa_duo_method_request_integration_key :: string
  identity_mfa_duo_method_request_api_hostname :: string
  identity_mfa_duo_method_request_push_info :: "string option"
  identity_mfa_duo_method_request_use_passcode :: "bool option"

definition identity_mfa_duo_method_request_new ::
  "string \<Rightarrow> string \<Rightarrow> string \<Rightarrow> string \<Rightarrow>
   identity_mfa_duo_method_request" where
  "identity_mfa_duo_method_request_new method_name secret_key integration_key api_hostname =
     \<lparr>identity_mfa_duo_method_request_method_name = method_name,
       identity_mfa_duo_method_request_username_format = None,
       identity_mfa_duo_method_request_secret_key = secret_key,
       identity_mfa_duo_method_request_integration_key = integration_key,
       identity_mfa_duo_method_request_api_hostname = api_hostname,
       identity_mfa_duo_method_request_push_info = None,
       identity_mfa_duo_method_request_use_passcode = None\<rparr>"

definition identity_mfa_duo_method_request_with_username_format ::
  "identity_mfa_duo_method_request \<Rightarrow> string \<Rightarrow>
   identity_mfa_duo_method_request" where
  "identity_mfa_duo_method_request_with_username_format self username_format =
     self\<lparr>identity_mfa_duo_method_request_username_format := Some
       username_format\<rparr>"

definition identity_mfa_duo_method_request_with_push_info ::
  "identity_mfa_duo_method_request \<Rightarrow> string \<Rightarrow>
   identity_mfa_duo_method_request" where
  "identity_mfa_duo_method_request_with_push_info self push_info =
     self\<lparr>identity_mfa_duo_method_request_push_info := Some push_info\<rparr>"

definition identity_mfa_duo_method_request_with_use_passcode ::
  "identity_mfa_duo_method_request \<Rightarrow> bool \<Rightarrow>
   identity_mfa_duo_method_request" where
  "identity_mfa_duo_method_request_with_use_passcode self use_passcode =
     self\<lparr>identity_mfa_duo_method_request_use_passcode := Some use_passcode\<rparr>"

definition identity_validate_required :: "string \<Rightarrow> string \<Rightarrow> unit res" where
  "identity_validate_required val_v field =
     (if trim val_v = [] then Inl (InvalidParameter (field @ '' must not be empty''))
        else Inr ())"

definition identity_mfa_duo_method_request_validate ::
  "identity_mfa_duo_method_request \<Rightarrow> unit res" where
  "identity_mfa_duo_method_request_validate self =
     rbind (identity_validate_required (identity_mfa_duo_method_request_method_name self)
       ''identity MFA Duo method_name'') (\<lambda>_.
     identity_validate_required (identity_mfa_duo_method_request_api_hostname self)
       ''identity MFA Duo api_hostname'')"

record identity_mfa_okta_method_request =
  identity_mfa_okta_method_request_method_name :: string
  identity_mfa_okta_method_request_username_format :: "string option"
  identity_mfa_okta_method_request_org_name :: string
  identity_mfa_okta_method_request_api_token :: string
  identity_mfa_okta_method_request_base_url :: "string option"
  identity_mfa_okta_method_request_primary_email :: "bool option"

definition identity_mfa_okta_method_request_new ::
  "string \<Rightarrow> string \<Rightarrow> string \<Rightarrow>
   identity_mfa_okta_method_request" where
  "identity_mfa_okta_method_request_new method_name org_name api_token =
     \<lparr>identity_mfa_okta_method_request_method_name = method_name,
       identity_mfa_okta_method_request_username_format = None,
       identity_mfa_okta_method_request_org_name = org_name,
       identity_mfa_okta_method_request_api_token = api_token,
       identity_mfa_okta_method_request_base_url = None,
       identity_mfa_okta_method_request_primary_email = None\<rparr>"

definition identity_mfa_okta_method_request_with_username_format ::
  "identity_mfa_okta_method_request \<Rightarrow> string \<Rightarrow>
   identity_mfa_okta_method_request" where
  "identity_mfa_okta_method_request_with_username_format self username_format =
     self\<lparr>identity_mfa_okta_method_request_username_format := Some
       username_format\<rparr>"

definition identity_mfa_okta_method_request_with_base_url ::
  "identity_mfa_okta_method_request \<Rightarrow> string \<Rightarrow>
   identity_mfa_okta_method_request" where
  "identity_mfa_okta_method_request_with_base_url self base_url_v =
     self\<lparr>identity_mfa_okta_method_request_base_url := Some base_url_v\<rparr>"

definition identity_mfa_okta_method_request_with_primary_email ::
  "identity_mfa_okta_method_request \<Rightarrow> bool \<Rightarrow>
   identity_mfa_okta_method_request" where
  "identity_mfa_okta_method_request_with_primary_email self primary_email =
     self\<lparr>identity_mfa_okta_method_request_primary_email := Some primary_email\<rparr>"

definition identity_mfa_okta_method_request_validate ::
  "identity_mfa_okta_method_request \<Rightarrow> unit res" where
  "identity_mfa_okta_method_request_validate self =
     rbind (identity_validate_required (identity_mfa_okta_method_request_method_name self)
       ''identity MFA Okta method_name'') (\<lambda>_.
     identity_validate_required (identity_mfa_okta_method_request_org_name self)
       ''identity MFA Okta org_name'')"

record identity_mfa_ping_id_method_request =
  identity_mfa_ping_id_method_request_method_name :: string
  identity_mfa_ping_id_method_request_username_format :: "string option"
  identity_mfa_ping_id_method_request_settings_file_base64 :: string

definition identity_mfa_ping_id_method_request_new ::
  "string \<Rightarrow> string \<Rightarrow> identity_mfa_ping_id_method_request" where
  "identity_mfa_ping_id_method_request_new method_name settings_file_base64 =
     \<lparr>identity_mfa_ping_id_method_request_method_name = method_name,
       identity_mfa_ping_id_method_request_username_format = None,
       identity_mfa_ping_id_method_request_settings_file_base64 = settings_file_base64\<rparr>"

definition identity_mfa_ping_id_method_request_with_username_format ::
  "identity_mfa_ping_id_method_request \<Rightarrow> string \<Rightarrow>
   identity_mfa_ping_id_method_request" where
  "identity_mfa_ping_id_method_request_with_username_format self username_format =
     self\<lparr>identity_mfa_ping_id_method_request_username_format := Some
       username_format\<rparr>"

definition identity_mfa_ping_id_method_request_validate ::
  "identity_mfa_ping_id_method_request \<Rightarrow> unit res" where
  "identity_mfa_ping_id_method_request_validate self =
     identity_validate_required (identity_mfa_ping_id_method_request_method_name self)
       ''identity MFA PingID method_name''"

record identity_mfa_totp_method_request =
  identity_mfa_totp_method_request_method_name :: string
  identity_mfa_totp_method_request_issuer :: "string option"
  identity_mfa_totp_method_request_period :: "64 word option"
  identity_mfa_totp_method_request_key_size :: "64 word option"
  identity_mfa_totp_method_request_qr_size :: "64 word option"
  identity_mfa_totp_method_request_algorithm :: "string option"
  identity_mfa_totp_method_request_digits :: "64 word option"
  identity_mfa_totp_method_request_skew :: "64 word option"
  identity_mfa_totp_method_request_max_validation_attempts :: "64 word option"

definition identity_mfa_totp_method_request_default :: identity_mfa_totp_method_request where
  "identity_mfa_totp_method_request_default =
     \<lparr>identity_mfa_totp_method_request_method_name = [],
       identity_mfa_totp_method_request_issuer = None, identity_mfa_totp_method_request_period
       = None, identity_mfa_totp_method_request_key_size = None,
       identity_mfa_totp_method_request_qr_size = None,
       identity_mfa_totp_method_request_algorithm = None,
       identity_mfa_totp_method_request_digits = None, identity_mfa_totp_method_request_skew =
       None, identity_mfa_totp_method_request_max_validation_attempts = None\<rparr>"

definition identity_mfa_totp_method_request_new ::
  "string \<Rightarrow> identity_mfa_totp_method_request" where
  "identity_mfa_totp_method_request_new method_name =
     identity_mfa_totp_method_request_default\<lparr>identity_mfa_totp_method_request_method_name
       := method_name\<rparr>"

definition identity_mfa_totp_method_request_with_issuer ::
  "identity_mfa_totp_method_request \<Rightarrow> string \<Rightarrow>
   identity_mfa_totp_method_request" where
  "identity_mfa_totp_method_request_with_issuer self issuer =
     self\<lparr>identity_mfa_totp_method_request_issuer := Some issuer\<rparr>"

definition identity_mfa_totp_method_request_validate ::
  "identity_mfa_totp_method_request \<Rightarrow> unit res" where
  "identity_mfa_totp_method_request_validate self =
     identity_validate_required (identity_mfa_totp_method_request_method_name self)
       ''identity MFA TOTP method_name''"

record identity_mfa_totp_generate_request =
  identity_mfa_totp_generate_request_method_id :: string

definition identity_mfa_totp_generate_request_new ::
  "string \<Rightarrow> identity_mfa_totp_generate_request" where
  "identity_mfa_totp_generate_request_new method_id =
     \<lparr>identity_mfa_totp_generate_request_method_id = method_id\<rparr>"

definition identity_mfa_totp_generate_request_validate ::
  "identity_mfa_totp_generate_request \<Rightarrow> unit res" where
  "identity_mfa_totp_generate_request_validate self =
     identity_validate_required (identity_mfa_totp_generate_request_method_id self)
       ''identity MFA TOTP method_id''"

record identity_mfa_totp_admin_request =
  identity_mfa_totp_admin_request_method_id :: string
  identity_mfa_totp_admin_request_entity_id :: string

definition identity_mfa_totp_admin_request_new ::
  "string \<Rightarrow> string \<Rightarrow> identity_mfa_totp_admin_request" where
  "identity_mfa_totp_admin_request_new method_id entity_id =
     \<lparr>identity_mfa_totp_admin_request_method_id = method_id,
       identity_mfa_totp_admin_request_entity_id = entity_id\<rparr>"

definition identity_mfa_totp_admin_request_validate ::
  "identity_mfa_totp_admin_request \<Rightarrow> unit res" where
  "identity_mfa_totp_admin_request_validate self =
     rbind (identity_validate_required (identity_mfa_totp_admin_request_method_id self)
       ''identity MFA TOTP method_id'') (\<lambda>_.
     identity_validate_required (identity_mfa_totp_admin_request_entity_id self)
       ''identity MFA TOTP entity_id'')"

record identity_mfa_login_enforcement_request =
  identity_mfa_login_enforcement_request_mfa_method_ids :: "string list"
  identity_mfa_login_enforcement_request_auth_method_accessors :: "string list"
  identity_mfa_login_enforcement_request_auth_method_types :: "string list"
  identity_mfa_login_enforcement_request_identity_group_ids :: "string list"
  identity_mfa_login_enforcement_request_identity_entity_ids :: "string list"

definition identity_mfa_login_enforcement_request_default :: identity_mfa_login_enforcement_request where
  "identity_mfa_login_enforcement_request_default =
     \<lparr>identity_mfa_login_enforcement_request_mfa_method_ids = [],
       identity_mfa_login_enforcement_request_auth_method_accessors = [],
       identity_mfa_login_enforcement_request_auth_method_types = [],
       identity_mfa_login_enforcement_request_identity_group_ids = [],
       identity_mfa_login_enforcement_request_identity_entity_ids = []\<rparr>"

definition identity_mfa_login_enforcement_request_new ::
  "identity_mfa_login_enforcement_request" where
  "identity_mfa_login_enforcement_request_new = identity_mfa_login_enforcement_request_default"

definition identity_mfa_login_enforcement_request_with_mfa_method_id ::
  "identity_mfa_login_enforcement_request \<Rightarrow> string \<Rightarrow>
   identity_mfa_login_enforcement_request" where
  "identity_mfa_login_enforcement_request_with_mfa_method_id self method_id =
     self\<lparr>identity_mfa_login_enforcement_request_mfa_method_ids := identity_mfa_login_enforcement_request_mfa_method_ids
       self @ [method_id]\<rparr>"

definition identity_mfa_login_enforcement_request_with_auth_method_accessor ::
  "identity_mfa_login_enforcement_request \<Rightarrow> string \<Rightarrow>
   identity_mfa_login_enforcement_request" where
  "identity_mfa_login_enforcement_request_with_auth_method_accessor self accessor =
     self\<lparr>identity_mfa_login_enforcement_request_auth_method_accessors := identity_mfa_login_enforcement_request_auth_method_accessors
       self @ [accessor]\<rparr>"

definition identity_mfa_login_enforcement_request_with_auth_method_type ::
  "identity_mfa_login_enforcement_request \<Rightarrow> string \<Rightarrow>
   identity_mfa_login_enforcement_request" where
  "identity_mfa_login_enforcement_request_with_auth_method_type self method_type =
     self\<lparr>identity_mfa_login_enforcement_request_auth_method_types := identity_mfa_login_enforcement_request_auth_method_types
       self @ [method_type]\<rparr>"

definition identity_mfa_login_enforcement_request_with_identity_group_id ::
  "identity_mfa_login_enforcement_request \<Rightarrow> string \<Rightarrow>
   identity_mfa_login_enforcement_request" where
  "identity_mfa_login_enforcement_request_with_identity_group_id self group_id =
     self\<lparr>identity_mfa_login_enforcement_request_identity_group_ids := identity_mfa_login_enforcement_request_identity_group_ids
       self @ [group_id]\<rparr>"

definition identity_mfa_login_enforcement_request_with_identity_entity_id ::
  "identity_mfa_login_enforcement_request \<Rightarrow> string \<Rightarrow>
   identity_mfa_login_enforcement_request" where
  "identity_mfa_login_enforcement_request_with_identity_entity_id self entity_id =
     self\<lparr>identity_mfa_login_enforcement_request_identity_entity_ids := identity_mfa_login_enforcement_request_identity_entity_ids
       self @ [entity_id]\<rparr>"

definition identity_mfa_login_enforcement_request_validate ::
  "identity_mfa_login_enforcement_request \<Rightarrow> unit res" where
  "identity_mfa_login_enforcement_request_validate self =
     (if identity_mfa_login_enforcement_request_mfa_method_ids self = [] then Inl
       (InvalidParameter
       ''identity MFA login enforcement requires at least one MFA method ID'')
        else (if identity_mfa_login_enforcement_request_auth_method_accessors self = [] \<and>
          identity_mfa_login_enforcement_request_auth_method_types self = [] \<and>
          identity_mfa_login_enforcement_request_identity_group_ids self = [] \<and>
          identity_mfa_login_enforcement_request_identity_entity_ids self = [] then Inl
          (InvalidParameter
          ''identity MFA login enforcement requires at least one auth or identity condition'')
           else rbind (identity_validate_string_count (length
             (identity_mfa_login_enforcement_request_mfa_method_ids self))
             ''identity MFA login enforcement method IDs'') (\<lambda>_.
           rbind (identity_validate_string_count (length
             (identity_mfa_login_enforcement_request_auth_method_accessors self))
             ''identity MFA login enforcement auth method accessors'') (\<lambda>_.
           rbind (identity_validate_string_count (length
             (identity_mfa_login_enforcement_request_auth_method_types self))
             ''identity MFA login enforcement auth method types'') (\<lambda>_.
           rbind (identity_validate_string_count (length
             (identity_mfa_login_enforcement_request_identity_group_ids self))
             ''identity MFA login enforcement group IDs'') (\<lambda>_.
           identity_validate_string_count (length
             (identity_mfa_login_enforcement_request_identity_entity_ids self))
             ''identity MFA login enforcement entity IDs''))))))"

definition client_identity_oidc_provider_at :: "string \<Rightarrow> string list res" where
  "client_identity_oidc_provider_at mount = validate_mount_path mount"

definition client_identity_oidc_provider :: "string list res" where
  "client_identity_oidc_provider = client_identity_oidc_provider_at ''identity''"

definition client_identity_oidc_authorization_at :: "string \<Rightarrow> string list res" where
  "client_identity_oidc_authorization_at mount = validate_mount_path mount"

definition client_identity_oidc_authorization :: "string list res" where
  "client_identity_oidc_authorization = client_identity_oidc_authorization_at ''identity''"

definition identity_oidc_provider_path ::
  "string list \<Rightarrow> string \<Rightarrow> string \<Rightarrow> string res" where
  "identity_oidc_provider_path mount provider operation =
     (let segments = mount in
     let segments = segments @ [''oidc'', ''provider''] in
     rbind (validate_mount_path provider) (\<lambda>p.
     let segments = segments @ p in
     rbind (validate_endpoint_path operation) (\<lambda>p.
     let segments = segments @ p in
     Inr (join_with ''/'' segments))))"

definition oidc_authorization_path ::
  "string list \<Rightarrow> string \<Rightarrow> string \<Rightarrow> string res" where
  "oidc_authorization_path mount provider operation =
     identity_oidc_provider_path mount provider operation"

definition identity_oidc_provider_registry_path ::
  "string \<Rightarrow> string \<Rightarrow> string res" where
  "identity_oidc_provider_registry_path provider operation =
     rbind (validate_mount_path provider) (\<lambda>p.
     let provider = join_with ''/'' p in
     rbind (validate_endpoint_path operation) (\<lambda>p.
     let operation = join_with ''/'' p in
     Inr (''identity/oidc/provider/'' @ provider @ ''/'' @ operation)))"

definition oidc_authorization_registry_path ::
  "string list \<Rightarrow> string \<Rightarrow> string \<Rightarrow> string res" where
  "oidc_authorization_registry_path mount provider operation =
     identity_oidc_provider_registry_path provider operation"

definition oidc_authorization_authorize ::
  "http_env \<Rightarrow> client \<Rightarrow> (string \<Rightarrow> 'a option) \<Rightarrow>
   (identity_oidc_authorize_request \<Rightarrow> payload) \<Rightarrow>
   string list \<Rightarrow> string \<Rightarrow>
   identity_oidc_authorize_request \<Rightarrow> 'a sent" where
  "oidc_authorization_authorize env cl from_json to_json mount provider request =
     sbind (pure (identity_oidc_authorize_request_validate request)) (\<lambda>_.
     sbind (pure (oidc_authorization_path mount provider ''authorize'')) (\<lambda>path.
     sbind (pure (oidc_authorization_registry_path mount provider ''authorize''))
       (\<lambda>registry_path.
     request_registered_json_query_headers_accepting env cl from_json ''/identity/'' ''POST''
       registry_path path [] [] (Some (to_json request)) [200])))"

definition oidc_authorization_authorize_get ::
  "http_env \<Rightarrow> client \<Rightarrow> (string \<Rightarrow> 'a option) \<Rightarrow>
   string list \<Rightarrow> string \<Rightarrow>
   identity_oidc_authorize_request \<Rightarrow> 'a sent" where
  "oidc_authorization_authorize_get env cl from_json mount provider request =
     sbind (pure (identity_oidc_authorize_request_validate request)) (\<lambda>_.
     let max_age = map_option (\<lambda>val_v. dec_string (unat val_v))
       (identity_oidc_authorize_request_max_age request) in
     let query = [(''response_type'', ''code''), (''client_id'',
       identity_oidc_authorize_request_client_id request), (''redirect_uri'',
       identity_oidc_authorize_request_redirect_uri request), (''scope'',
       identity_oidc_authorize_request_scope request)] in
     let query = (case identity_oidc_authorize_request_state request of
        None \<Rightarrow> query
      | Some state \<Rightarrow> query @ [(''state'', state)]) in
     let query = (case identity_oidc_authorize_request_nonce request of
        None \<Rightarrow> query
      | Some nonce \<Rightarrow> query @ [(''nonce'', nonce)]) in
     let query = (case max_age of
        None \<Rightarrow> query
      | Some val_v \<Rightarrow> query @ [(''max_age'', val_v)]) in
     let query = (case identity_oidc_authorize_request_code_challenge request of
        None \<Rightarrow> query
      | Some challenge \<Rightarrow> query @ [(''code_challenge'', challenge)]) in
     let query = (case identity_oidc_authorize_request_code_challenge_method request of
        None \<Rightarrow> query
      | Some verb \<Rightarrow> query @ [(''code_challenge_method'', verb)]) in
     sbind (pure (oidc_authorization_path mount provider ''authorize'')) (\<lambda>path.
     sbind (pure (oidc_authorization_registry_path mount provider ''authorize''))
       (\<lambda>registry_path.
     request_registered_json_query_headers_accepting env cl from_json ''/identity/'' ''GET''
       registry_path path query [] None [200])))"

definition oidc_provider_path ::
  "string list \<Rightarrow> string \<Rightarrow> string \<Rightarrow> string res" where
  "oidc_provider_path mount provider operation =
     identity_oidc_provider_path mount provider operation"

definition oidc_provider_registry_path ::
  "string list \<Rightarrow> string \<Rightarrow> string \<Rightarrow> string res" where
  "oidc_provider_registry_path mount provider operation =
     identity_oidc_provider_registry_path provider operation"

definition client_identity_at :: "string \<Rightarrow> string list res" where
  "client_identity_at mount = validate_mount_path mount"

definition client_identity :: "string list res" where
  "client_identity = client_identity_at ''identity''"

definition identity_request ::
  "http_env \<Rightarrow> client \<Rightarrow> (string \<Rightarrow> 'a option) \<Rightarrow>
   string list \<Rightarrow> string \<Rightarrow> string \<Rightarrow>
   payload option \<Rightarrow> 'a sent" where
  "identity_request env cl from_json mount verb path body_v =
     request_secret_json_internal env cl from_json ''/identity/'' ''identity'' (join_with ''/''
       mount) verb path body_v"

definition identity_path :: "string list \<Rightarrow> string list \<Rightarrow> string res" where
  "identity_path mount tail =
     (let segments = mount in
     rbind (rfold (\<lambda>segment segments. rbind (validate_endpoint_path segment)
       (\<lambda>p.
     let segments = segments @ p in
     Inr segments)) tail segments) (\<lambda>segments.
     Inr (join_with ''/'' segments)))"

definition identity_write_entity ::
  "http_env \<Rightarrow> client \<Rightarrow>
   (string \<Rightarrow> 'a response_envelope option) \<Rightarrow>
   (identity_entity_request \<Rightarrow> payload) \<Rightarrow> string list \<Rightarrow>
   identity_entity_request \<Rightarrow> 'a sent" where
  "identity_write_entity env cl from_json to_json mount request =
     sbind (pure (identity_entity_request_validate request)) (\<lambda>_.
     sbind (pure (identity_path mount [''entity''])) (\<lambda>p.
     smap env_data (identity_request env cl from_json mount ''POST'' p (Some (to_json
       request)))))"

definition identity_read_entity_by_id ::
  "http_env \<Rightarrow> client \<Rightarrow>
   (string \<Rightarrow> 'a response_envelope option) \<Rightarrow> string list \<Rightarrow>
   string \<Rightarrow> 'a sent" where
  "identity_read_entity_by_id env cl from_json mount id_v =
     sbind (pure (identity_path mount [''entity'', ''id'', id_v])) (\<lambda>p.
     smap env_data (identity_request env cl from_json mount ''GET'' p None))"

definition identity_update_entity_by_id ::
  "http_env \<Rightarrow> client \<Rightarrow>
   (string \<Rightarrow> 'a response_envelope option) \<Rightarrow>
   (identity_entity_request \<Rightarrow> payload) \<Rightarrow> string list \<Rightarrow>
   string \<Rightarrow> identity_entity_request \<Rightarrow> 'a sent" where
  "identity_update_entity_by_id env cl from_json to_json mount id_v request =
     sbind (pure (identity_entity_request_validate request)) (\<lambda>_.
     sbind (pure (identity_path mount [''entity'', ''id'', id_v])) (\<lambda>p.
     smap env_data (identity_request env cl from_json mount ''POST'' p (Some (to_json
       request)))))"

definition identity_request_accepting ::
  "http_env \<Rightarrow> client \<Rightarrow> (string \<Rightarrow> 'a option) \<Rightarrow>
   string list \<Rightarrow> string \<Rightarrow> string \<Rightarrow>
   payload option \<Rightarrow> nat list \<Rightarrow> 'a sent" where
  "identity_request_accepting env cl from_json mount verb path body_v accepted_statuses =
     request_secret_json_accepting env cl from_json ''/identity/'' ''identity'' (join_with
       ''/'' mount) verb path body_v accepted_statuses"

definition identity_delete_at ::
  "http_env \<Rightarrow> client \<Rightarrow>
   (string \<Rightarrow> unit option) \<Rightarrow> string list \<Rightarrow>
   string list \<Rightarrow> unit sent" where
  "identity_delete_at env cl from_json mount tail =
     sbind (pure (identity_path mount tail)) (\<lambda>p.
     identity_request_accepting env cl from_json mount ''DELETE'' p None [200, 204])"

definition identity_delete_entity_by_id ::
  "http_env \<Rightarrow> client \<Rightarrow>
   (string \<Rightarrow> unit option) \<Rightarrow> string list \<Rightarrow>
   string \<Rightarrow> unit sent" where
  "identity_delete_entity_by_id env cl from_json mount id_v =
     identity_delete_at env cl from_json mount [''entity'', ''id'', id_v]"

definition identity_batch_delete_entities ::
  "http_env \<Rightarrow> client \<Rightarrow>
   (string \<Rightarrow> unit option) \<Rightarrow>
   (identity_entity_batch_delete_request \<Rightarrow> payload) \<Rightarrow>
   string list \<Rightarrow> identity_entity_batch_delete_request \<Rightarrow> unit sent" where
  "identity_batch_delete_entities env cl from_json to_json mount request =
     sbind (pure (identity_entity_batch_delete_request_validate request)) (\<lambda>_.
     sbind (pure (identity_path mount [''entity'', ''batch-delete''])) (\<lambda>p.
     identity_request env cl from_json mount ''POST'' p (Some (to_json request))))"

definition identity_lookup_entity ::
  "http_env \<Rightarrow> client \<Rightarrow>
   (string \<Rightarrow> 'a response_envelope option) \<Rightarrow>
   (identity_entity_lookup_request \<Rightarrow> payload) \<Rightarrow>
   string list \<Rightarrow> identity_entity_lookup_request \<Rightarrow> 'a sent" where
  "identity_lookup_entity env cl from_json to_json mount request =
     sbind (pure (identity_entity_lookup_request_validate request)) (\<lambda>_.
     sbind (pure (identity_path mount [''lookup'', ''entity''])) (\<lambda>p.
     smap env_data (identity_request env cl from_json mount ''POST'' p (Some (to_json
       request)))))"

definition identity_merge_entities ::
  "http_env \<Rightarrow> client \<Rightarrow>
   (string \<Rightarrow> unit option) \<Rightarrow>
   (identity_entity_merge_request \<Rightarrow> payload) \<Rightarrow>
   string list \<Rightarrow> identity_entity_merge_request \<Rightarrow> unit sent" where
  "identity_merge_entities env cl from_json to_json mount request =
     sbind (pure (identity_entity_merge_request_validate request)) (\<lambda>_.
     sbind (pure (identity_path mount [''entity'', ''merge''])) (\<lambda>p.
     identity_request env cl from_json mount ''POST'' p (Some (to_json request))))"

definition identity_request_query ::
  "http_env \<Rightarrow> client \<Rightarrow> (string \<Rightarrow> 'a option) \<Rightarrow>
   string list \<Rightarrow> string \<Rightarrow> string \<Rightarrow>
   (string \<times> string) list \<Rightarrow> payload option \<Rightarrow>
   nat list \<Rightarrow> 'a sent" where
  "identity_request_query env cl from_json mount verb path query body_v accepted_statuses =
     request_secret_json_query_headers_accepting env cl from_json ''/identity/'' ''identity''
       (join_with ''/'' mount) verb path query [] body_v accepted_statuses"

definition identity_list_at ::
  "http_env \<Rightarrow> client \<Rightarrow>
   (string \<Rightarrow> 'a response_envelope option) \<Rightarrow> string list \<Rightarrow>
   string list \<Rightarrow> 'a sent" where
  "identity_list_at env cl from_json mount tail =
     sbind (pure (identity_path mount tail)) (\<lambda>p.
     smap env_data (identity_request_query env cl from_json mount ''LIST'' p [] None [200]))"

definition identity_list_entity_ids ::
  "http_env \<Rightarrow> client \<Rightarrow>
   (string \<Rightarrow> 'a response_envelope option) \<Rightarrow> string list \<Rightarrow>
   'a sent" where
  "identity_list_entity_ids env cl from_json mount =
     identity_list_at env cl from_json mount [''entity'', ''id'']"

definition identity_write_entity_by_name ::
  "http_env \<Rightarrow> client \<Rightarrow>
   (string \<Rightarrow> 'a response_envelope option) \<Rightarrow>
   (identity_entity_request \<Rightarrow> payload) \<Rightarrow> string list \<Rightarrow>
   string \<Rightarrow> identity_entity_request \<Rightarrow> 'a sent" where
  "identity_write_entity_by_name env cl from_json to_json mount name request =
     sbind (pure (identity_entity_request_validate request)) (\<lambda>_.
     sbind (pure (identity_path mount [''entity'', ''name'', name])) (\<lambda>p.
     smap env_data (identity_request env cl from_json mount ''POST'' p (Some (to_json
       request)))))"

definition identity_read_entity_by_name ::
  "http_env \<Rightarrow> client \<Rightarrow>
   (string \<Rightarrow> 'a response_envelope option) \<Rightarrow> string list \<Rightarrow>
   string \<Rightarrow> 'a sent" where
  "identity_read_entity_by_name env cl from_json mount name =
     sbind (pure (identity_path mount [''entity'', ''name'', name])) (\<lambda>p.
     smap env_data (identity_request env cl from_json mount ''GET'' p None))"

definition identity_delete_entity_by_name ::
  "http_env \<Rightarrow> client \<Rightarrow>
   (string \<Rightarrow> unit option) \<Rightarrow> string list \<Rightarrow>
   string \<Rightarrow> unit sent" where
  "identity_delete_entity_by_name env cl from_json mount name =
     identity_delete_at env cl from_json mount [''entity'', ''name'', name]"

definition identity_list_entity_names ::
  "http_env \<Rightarrow> client \<Rightarrow>
   (string \<Rightarrow> 'a response_envelope option) \<Rightarrow> string list \<Rightarrow>
   'a sent" where
  "identity_list_entity_names env cl from_json mount =
     identity_list_at env cl from_json mount [''entity'', ''name'']"

definition identity_write_group ::
  "http_env \<Rightarrow> client \<Rightarrow>
   (string \<Rightarrow> 'a response_envelope option) \<Rightarrow>
   (identity_group_request \<Rightarrow> payload) \<Rightarrow> string list \<Rightarrow>
   identity_group_request \<Rightarrow> 'a sent" where
  "identity_write_group env cl from_json to_json mount request =
     sbind (pure (identity_group_request_validate request)) (\<lambda>_.
     sbind (pure (identity_path mount [''group''])) (\<lambda>p.
     smap env_data (identity_request env cl from_json mount ''POST'' p (Some (to_json
       request)))))"

definition identity_read_group_by_id ::
  "http_env \<Rightarrow> client \<Rightarrow>
   (string \<Rightarrow> 'a response_envelope option) \<Rightarrow> string list \<Rightarrow>
   string \<Rightarrow> 'a sent" where
  "identity_read_group_by_id env cl from_json mount id_v =
     sbind (pure (identity_path mount [''group'', ''id'', id_v])) (\<lambda>p.
     smap env_data (identity_request env cl from_json mount ''GET'' p None))"

definition identity_update_group_by_id ::
  "http_env \<Rightarrow> client \<Rightarrow>
   (string \<Rightarrow> 'a response_envelope option) \<Rightarrow>
   (identity_group_request \<Rightarrow> payload) \<Rightarrow> string list \<Rightarrow>
   string \<Rightarrow> identity_group_request \<Rightarrow> 'a sent" where
  "identity_update_group_by_id env cl from_json to_json mount id_v request =
     sbind (pure (identity_group_request_validate request)) (\<lambda>_.
     sbind (pure (identity_path mount [''group'', ''id'', id_v])) (\<lambda>p.
     smap env_data (identity_request env cl from_json mount ''POST'' p (Some (to_json
       request)))))"

definition identity_delete_group_by_id ::
  "http_env \<Rightarrow> client \<Rightarrow>
   (string \<Rightarrow> unit option) \<Rightarrow> string list \<Rightarrow>
   string \<Rightarrow> unit sent" where
  "identity_delete_group_by_id env cl from_json mount id_v =
     identity_delete_at env cl from_json mount [''group'', ''id'', id_v]"

definition identity_list_group_ids ::
  "http_env \<Rightarrow> client \<Rightarrow>
   (string \<Rightarrow> 'a response_envelope option) \<Rightarrow> string list \<Rightarrow>
   'a sent" where
  "identity_list_group_ids env cl from_json mount =
     identity_list_at env cl from_json mount [''group'', ''id'']"

definition identity_lookup_group ::
  "http_env \<Rightarrow> client \<Rightarrow>
   (string \<Rightarrow> 'a response_envelope option) \<Rightarrow>
   (identity_group_lookup_request \<Rightarrow> payload) \<Rightarrow>
   string list \<Rightarrow> identity_group_lookup_request \<Rightarrow> 'a sent" where
  "identity_lookup_group env cl from_json to_json mount request =
     sbind (pure (identity_group_lookup_request_validate request)) (\<lambda>_.
     sbind (pure (identity_path mount [''lookup'', ''group''])) (\<lambda>p.
     smap env_data (identity_request env cl from_json mount ''POST'' p (Some (to_json
       request)))))"

definition identity_write_group_by_name ::
  "http_env \<Rightarrow> client \<Rightarrow>
   (string \<Rightarrow> 'a response_envelope option) \<Rightarrow>
   (identity_group_request \<Rightarrow> payload) \<Rightarrow> string list \<Rightarrow>
   string \<Rightarrow> identity_group_request \<Rightarrow> 'a sent" where
  "identity_write_group_by_name env cl from_json to_json mount name request =
     sbind (pure (identity_group_request_validate request)) (\<lambda>_.
     sbind (pure (identity_path mount [''group'', ''name'', name])) (\<lambda>p.
     smap env_data (identity_request env cl from_json mount ''POST'' p (Some (to_json
       request)))))"

definition identity_read_group_by_name ::
  "http_env \<Rightarrow> client \<Rightarrow>
   (string \<Rightarrow> 'a response_envelope option) \<Rightarrow> string list \<Rightarrow>
   string \<Rightarrow> 'a sent" where
  "identity_read_group_by_name env cl from_json mount name =
     sbind (pure (identity_path mount [''group'', ''name'', name])) (\<lambda>p.
     smap env_data (identity_request env cl from_json mount ''GET'' p None))"

definition identity_delete_group_by_name ::
  "http_env \<Rightarrow> client \<Rightarrow>
   (string \<Rightarrow> unit option) \<Rightarrow> string list \<Rightarrow>
   string \<Rightarrow> unit sent" where
  "identity_delete_group_by_name env cl from_json mount name =
     identity_delete_at env cl from_json mount [''group'', ''name'', name]"

definition identity_list_group_names ::
  "http_env \<Rightarrow> client \<Rightarrow>
   (string \<Rightarrow> 'a response_envelope option) \<Rightarrow> string list \<Rightarrow>
   'a sent" where
  "identity_list_group_names env cl from_json mount =
     identity_list_at env cl from_json mount [''group'', ''name'']"

definition identity_write_entity_alias ::
  "http_env \<Rightarrow> client \<Rightarrow>
   (string \<Rightarrow> 'a response_envelope option) \<Rightarrow>
   (identity_entity_alias_request \<Rightarrow> payload) \<Rightarrow>
   string list \<Rightarrow> identity_entity_alias_request \<Rightarrow> 'a sent" where
  "identity_write_entity_alias env cl from_json to_json mount request =
     sbind (pure (identity_entity_alias_request_validate request)) (\<lambda>_.
     sbind (pure (identity_path mount [''entity-alias''])) (\<lambda>p.
     smap env_data (identity_request env cl from_json mount ''POST'' p (Some (to_json
       request)))))"

definition identity_read_entity_alias_by_id ::
  "http_env \<Rightarrow> client \<Rightarrow>
   (string \<Rightarrow> 'a response_envelope option) \<Rightarrow> string list \<Rightarrow>
   string \<Rightarrow> 'a sent" where
  "identity_read_entity_alias_by_id env cl from_json mount id_v =
     sbind (pure (identity_path mount [''entity-alias'', ''id'', id_v])) (\<lambda>p.
     smap env_data (identity_request env cl from_json mount ''GET'' p None))"

definition identity_delete_entity_alias_by_id ::
  "http_env \<Rightarrow> client \<Rightarrow>
   (string \<Rightarrow> unit option) \<Rightarrow> string list \<Rightarrow>
   string \<Rightarrow> unit sent" where
  "identity_delete_entity_alias_by_id env cl from_json mount id_v =
     identity_delete_at env cl from_json mount [''entity-alias'', ''id'', id_v]"

definition identity_list_entity_alias_ids ::
  "http_env \<Rightarrow> client \<Rightarrow>
   (string \<Rightarrow> 'a response_envelope option) \<Rightarrow> string list \<Rightarrow>
   'a sent" where
  "identity_list_entity_alias_ids env cl from_json mount =
     identity_list_at env cl from_json mount [''entity-alias'', ''id'']"

definition identity_write_group_alias ::
  "http_env \<Rightarrow> client \<Rightarrow>
   (string \<Rightarrow> 'a response_envelope option) \<Rightarrow>
   (identity_group_alias_request \<Rightarrow> payload) \<Rightarrow>
   string list \<Rightarrow> identity_group_alias_request \<Rightarrow> 'a sent" where
  "identity_write_group_alias env cl from_json to_json mount request =
     sbind (pure (identity_path mount [''group-alias''])) (\<lambda>p.
     smap env_data (identity_request env cl from_json mount ''POST'' p (Some (to_json
       request))))"

definition identity_read_group_alias_by_id ::
  "http_env \<Rightarrow> client \<Rightarrow>
   (string \<Rightarrow> 'a response_envelope option) \<Rightarrow> string list \<Rightarrow>
   string \<Rightarrow> 'a sent" where
  "identity_read_group_alias_by_id env cl from_json mount id_v =
     sbind (pure (identity_path mount [''group-alias'', ''id'', id_v])) (\<lambda>p.
     smap env_data (identity_request env cl from_json mount ''GET'' p None))"

definition identity_delete_group_alias_by_id ::
  "http_env \<Rightarrow> client \<Rightarrow>
   (string \<Rightarrow> unit option) \<Rightarrow> string list \<Rightarrow>
   string \<Rightarrow> unit sent" where
  "identity_delete_group_alias_by_id env cl from_json mount id_v =
     identity_delete_at env cl from_json mount [''group-alias'', ''id'', id_v]"

definition identity_list_group_alias_ids ::
  "http_env \<Rightarrow> client \<Rightarrow>
   (string \<Rightarrow> 'a response_envelope option) \<Rightarrow> string list \<Rightarrow>
   'a sent" where
  "identity_list_group_alias_ids env cl from_json mount =
     identity_list_at env cl from_json mount [''group-alias'', ''id'']"

definition identity_write_oidc_config ::
  "http_env \<Rightarrow> client \<Rightarrow>
   (string \<Rightarrow> unit option) \<Rightarrow>
   (identity_oidc_config_request \<Rightarrow> payload) \<Rightarrow>
   string list \<Rightarrow> identity_oidc_config_request \<Rightarrow> unit sent" where
  "identity_write_oidc_config env cl from_json to_json mount request =
     sbind (pure (identity_path mount [''oidc'', ''config''])) (\<lambda>p.
     identity_request env cl from_json mount ''POST'' p (Some (to_json request)))"

definition identity_read_oidc_config ::
  "http_env \<Rightarrow> client \<Rightarrow>
   (string \<Rightarrow> 'a response_envelope option) \<Rightarrow> string list \<Rightarrow>
   'a sent" where
  "identity_read_oidc_config env cl from_json mount =
     sbind (pure (identity_path mount [''oidc'', ''config''])) (\<lambda>p.
     smap env_data (identity_request env cl from_json mount ''GET'' p None))"

definition identity_write_oidc_key ::
  "http_env \<Rightarrow> client \<Rightarrow>
   (string \<Rightarrow> unit option) \<Rightarrow>
   (identity_oidc_key_request \<Rightarrow> payload) \<Rightarrow> string list \<Rightarrow>
   string \<Rightarrow> identity_oidc_key_request \<Rightarrow> unit sent" where
  "identity_write_oidc_key env cl from_json to_json mount name request =
     sbind (pure (identity_oidc_key_request_validate request)) (\<lambda>_.
     sbind (pure (identity_path mount [''oidc'', ''key'', name])) (\<lambda>p.
     identity_request env cl from_json mount ''POST'' p (Some (to_json request))))"

definition identity_read_oidc_key ::
  "http_env \<Rightarrow> client \<Rightarrow>
   (string \<Rightarrow> 'a response_envelope option) \<Rightarrow> string list \<Rightarrow>
   string \<Rightarrow> 'a sent" where
  "identity_read_oidc_key env cl from_json mount name =
     sbind (pure (identity_path mount [''oidc'', ''key'', name])) (\<lambda>p.
     smap env_data (identity_request env cl from_json mount ''GET'' p None))"

definition identity_delete_oidc_key ::
  "http_env \<Rightarrow> client \<Rightarrow>
   (string \<Rightarrow> unit option) \<Rightarrow> string list \<Rightarrow>
   string \<Rightarrow> unit sent" where
  "identity_delete_oidc_key env cl from_json mount name =
     identity_delete_at env cl from_json mount [''oidc'', ''key'', name]"

definition identity_list_oidc_keys ::
  "http_env \<Rightarrow> client \<Rightarrow>
   (string \<Rightarrow> 'a response_envelope option) \<Rightarrow> string list \<Rightarrow>
   'a sent" where
  "identity_list_oidc_keys env cl from_json mount =
     identity_list_at env cl from_json mount [''oidc'', ''key'']"

definition identity_rotate_oidc_key ::
  "http_env \<Rightarrow> client \<Rightarrow>
   (string \<Rightarrow> unit option) \<Rightarrow>
   (identity_oidc_key_rotate_request \<Rightarrow> payload) \<Rightarrow>
   string list \<Rightarrow> string \<Rightarrow>
   identity_oidc_key_rotate_request \<Rightarrow> unit sent" where
  "identity_rotate_oidc_key env cl from_json to_json mount name request =
     sbind (pure (identity_oidc_key_rotate_request_validate request)) (\<lambda>_.
     sbind (pure (identity_path mount [''oidc'', ''key'', name, ''rotate''])) (\<lambda>p.
     identity_request env cl from_json mount ''POST'' p (Some (to_json request))))"

definition identity_write_oidc_role ::
  "http_env \<Rightarrow> client \<Rightarrow>
   (string \<Rightarrow> unit option) \<Rightarrow>
   (identity_oidc_role_request \<Rightarrow> payload) \<Rightarrow> string list \<Rightarrow>
   string \<Rightarrow> identity_oidc_role_request \<Rightarrow> unit sent" where
  "identity_write_oidc_role env cl from_json to_json mount name request =
     sbind (pure (identity_oidc_role_request_validate request)) (\<lambda>_.
     sbind (pure (identity_path mount [''oidc'', ''role'', name])) (\<lambda>p.
     identity_request env cl from_json mount ''POST'' p (Some (to_json request))))"

definition identity_read_oidc_role ::
  "http_env \<Rightarrow> client \<Rightarrow>
   (string \<Rightarrow> 'a response_envelope option) \<Rightarrow> string list \<Rightarrow>
   string \<Rightarrow> 'a sent" where
  "identity_read_oidc_role env cl from_json mount name =
     sbind (pure (identity_path mount [''oidc'', ''role'', name])) (\<lambda>p.
     smap env_data (identity_request env cl from_json mount ''GET'' p None))"

definition identity_delete_oidc_role ::
  "http_env \<Rightarrow> client \<Rightarrow>
   (string \<Rightarrow> unit option) \<Rightarrow> string list \<Rightarrow>
   string \<Rightarrow> unit sent" where
  "identity_delete_oidc_role env cl from_json mount name =
     identity_delete_at env cl from_json mount [''oidc'', ''role'', name]"

definition identity_list_oidc_roles ::
  "http_env \<Rightarrow> client \<Rightarrow>
   (string \<Rightarrow> 'a response_envelope option) \<Rightarrow> string list \<Rightarrow>
   'a sent" where
  "identity_list_oidc_roles env cl from_json mount =
     identity_list_at env cl from_json mount [''oidc'', ''role'']"

definition identity_generate_oidc_token ::
  "http_env \<Rightarrow> client \<Rightarrow>
   (string \<Rightarrow> 'a response_envelope option) \<Rightarrow> string list \<Rightarrow>
   string \<Rightarrow> 'a sent" where
  "identity_generate_oidc_token env cl from_json mount name =
     sbind (pure (identity_path mount [''oidc'', ''token'', name])) (\<lambda>p.
     smap env_data (identity_request env cl from_json mount ''GET'' p None))"

record identity_oidc_introspect_payload =
  identity_oidc_introspect_payload_token :: string
  identity_oidc_introspect_payload_client_id :: "string option"

definition identity_introspect_oidc_token ::
  "http_env \<Rightarrow> client \<Rightarrow> (string \<Rightarrow> 'a option) \<Rightarrow>
   (identity_oidc_introspect_payload \<Rightarrow> payload) \<Rightarrow>
   string list \<Rightarrow> identity_oidc_introspect_request \<Rightarrow> 'a sent" where
  "identity_introspect_oidc_token env cl from_json to_json mount request =
     (let payload =
       \<lparr>identity_oidc_introspect_payload_token = identity_oidc_introspect_request_token request,
       identity_oidc_introspect_payload_client_id = identity_oidc_introspect_request_client_id request\<rparr>
       in
     sbind (pure (identity_path mount [''oidc'', ''introspect''])) (\<lambda>p.
     identity_request env cl from_json mount ''POST'' p (Some (to_json payload))))"

definition identity_read_oidc_discovery ::
  "http_env \<Rightarrow> client \<Rightarrow> (string \<Rightarrow> 'a option) \<Rightarrow>
   string list \<Rightarrow> 'a sent" where
  "identity_read_oidc_discovery env cl from_json mount =
     sbind (pure (identity_path mount [''oidc'', ''.well-known'', ''openid-configuration'']))
       (\<lambda>p.
     identity_request env cl from_json mount ''GET'' p None)"

definition identity_read_oidc_jwks ::
  "http_env \<Rightarrow> client \<Rightarrow> (string \<Rightarrow> 'a option) \<Rightarrow>
   string list \<Rightarrow> 'a sent" where
  "identity_read_oidc_jwks env cl from_json mount =
     sbind (pure (identity_path mount [''oidc'', ''.well-known'', ''keys''])) (\<lambda>p.
     identity_request env cl from_json mount ''GET'' p None)"

definition identity_write_oidc_provider ::
  "http_env \<Rightarrow> client \<Rightarrow>
   (string \<Rightarrow> unit option) \<Rightarrow>
   (identity_oidc_provider_request \<Rightarrow> payload) \<Rightarrow>
   string list \<Rightarrow> string \<Rightarrow>
   identity_oidc_provider_request \<Rightarrow> unit sent" where
  "identity_write_oidc_provider env cl from_json to_json mount name request =
     sbind (pure (identity_oidc_provider_request_validate request)) (\<lambda>_.
     sbind (pure (identity_path mount [''oidc'', ''provider'', name])) (\<lambda>p.
     identity_request env cl from_json mount ''POST'' p (Some (to_json request))))"

definition identity_read_oidc_provider ::
  "http_env \<Rightarrow> client \<Rightarrow>
   (string \<Rightarrow> 'a response_envelope option) \<Rightarrow> string list \<Rightarrow>
   string \<Rightarrow> 'a sent" where
  "identity_read_oidc_provider env cl from_json mount name =
     sbind (pure (identity_path mount [''oidc'', ''provider'', name])) (\<lambda>p.
     smap env_data (identity_request env cl from_json mount ''GET'' p None))"

definition identity_list_oidc_providers_with_client_id ::
  "http_env \<Rightarrow> client \<Rightarrow>
   (string \<Rightarrow> 'a response_envelope option) \<Rightarrow> string list \<Rightarrow>
   string option \<Rightarrow> 'a sent" where
  "identity_list_oidc_providers_with_client_id env cl from_json mount client_id =
     (let query = [] in
     let query = (case client_id of
        None \<Rightarrow> query
      | Some client_id \<Rightarrow> query @ [(''allowed_client_id'', client_id)]) in
     sbind (pure (identity_path mount [''oidc'', ''provider''])) (\<lambda>p.
     smap env_data (identity_request_query env cl from_json mount ''LIST'' p query None
       [200])))"

definition identity_list_oidc_providers ::
  "http_env \<Rightarrow> client \<Rightarrow>
   (string \<Rightarrow> 'a response_envelope option) \<Rightarrow> string list \<Rightarrow>
   'a sent" where
  "identity_list_oidc_providers env cl from_json mount =
     identity_list_oidc_providers_with_client_id env cl from_json mount None"

definition identity_list_oidc_providers_for_client_id ::
  "http_env \<Rightarrow> client \<Rightarrow>
   (string \<Rightarrow> 'a response_envelope option) \<Rightarrow> string list \<Rightarrow>
   string \<Rightarrow> 'a sent" where
  "identity_list_oidc_providers_for_client_id env cl from_json mount client_id =
     (if trim client_id = [] then pure (Inl (InvalidParameter
       ''identity OIDC provider client_id must not be empty''))
        else identity_list_oidc_providers_with_client_id env cl from_json mount (Some
          client_id))"

definition identity_delete_oidc_provider ::
  "http_env \<Rightarrow> client \<Rightarrow>
   (string \<Rightarrow> unit option) \<Rightarrow> string list \<Rightarrow>
   string \<Rightarrow> unit sent" where
  "identity_delete_oidc_provider env cl from_json mount name =
     identity_delete_at env cl from_json mount [''oidc'', ''provider'', name]"

definition identity_write_oidc_scope ::
  "http_env \<Rightarrow> client \<Rightarrow>
   (string \<Rightarrow> unit option) \<Rightarrow>
   (identity_oidc_scope_request \<Rightarrow> payload) \<Rightarrow>
   string list \<Rightarrow> string \<Rightarrow> identity_oidc_scope_request \<Rightarrow>
   unit sent" where
  "identity_write_oidc_scope env cl from_json to_json mount name request =
     sbind (pure (identity_path mount [''oidc'', ''scope'', name])) (\<lambda>p.
     identity_request env cl from_json mount ''POST'' p (Some (to_json request)))"

definition identity_read_oidc_scope ::
  "http_env \<Rightarrow> client \<Rightarrow>
   (string \<Rightarrow> 'a response_envelope option) \<Rightarrow> string list \<Rightarrow>
   string \<Rightarrow> 'a sent" where
  "identity_read_oidc_scope env cl from_json mount name =
     sbind (pure (identity_path mount [''oidc'', ''scope'', name])) (\<lambda>p.
     smap env_data (identity_request env cl from_json mount ''GET'' p None))"

definition identity_list_oidc_scopes ::
  "http_env \<Rightarrow> client \<Rightarrow>
   (string \<Rightarrow> 'a response_envelope option) \<Rightarrow> string list \<Rightarrow>
   'a sent" where
  "identity_list_oidc_scopes env cl from_json mount =
     identity_list_at env cl from_json mount [''oidc'', ''scope'']"

definition identity_delete_oidc_scope ::
  "http_env \<Rightarrow> client \<Rightarrow>
   (string \<Rightarrow> unit option) \<Rightarrow> string list \<Rightarrow>
   string \<Rightarrow> unit sent" where
  "identity_delete_oidc_scope env cl from_json mount name =
     identity_delete_at env cl from_json mount [''oidc'', ''scope'', name]"

definition identity_write_oidc_client ::
  "http_env \<Rightarrow> client \<Rightarrow>
   (string \<Rightarrow> unit option) \<Rightarrow>
   (identity_oidc_client_request \<Rightarrow> payload) \<Rightarrow>
   string list \<Rightarrow> string \<Rightarrow> identity_oidc_client_request \<Rightarrow>
   unit sent" where
  "identity_write_oidc_client env cl from_json to_json mount name request =
     sbind (pure (identity_oidc_client_request_validate request)) (\<lambda>_.
     sbind (pure (identity_path mount [''oidc'', ''client'', name])) (\<lambda>p.
     identity_request env cl from_json mount ''POST'' p (Some (to_json request))))"

definition identity_read_oidc_client ::
  "http_env \<Rightarrow> client \<Rightarrow>
   (string \<Rightarrow> 'a response_envelope option) \<Rightarrow> string list \<Rightarrow>
   string \<Rightarrow> 'a sent" where
  "identity_read_oidc_client env cl from_json mount name =
     sbind (pure (identity_path mount [''oidc'', ''client'', name])) (\<lambda>p.
     smap env_data (identity_request env cl from_json mount ''GET'' p None))"

definition identity_list_oidc_clients ::
  "http_env \<Rightarrow> client \<Rightarrow>
   (string \<Rightarrow> 'a response_envelope option) \<Rightarrow> string list \<Rightarrow>
   'a sent" where
  "identity_list_oidc_clients env cl from_json mount =
     identity_list_at env cl from_json mount [''oidc'', ''client'']"

definition identity_delete_oidc_client ::
  "http_env \<Rightarrow> client \<Rightarrow>
   (string \<Rightarrow> unit option) \<Rightarrow> string list \<Rightarrow>
   string \<Rightarrow> unit sent" where
  "identity_delete_oidc_client env cl from_json mount name =
     identity_delete_at env cl from_json mount [''oidc'', ''client'', name]"

definition identity_write_oidc_assignment ::
  "http_env \<Rightarrow> client \<Rightarrow>
   (string \<Rightarrow> unit option) \<Rightarrow>
   (identity_oidc_assignment_request \<Rightarrow> payload) \<Rightarrow>
   string list \<Rightarrow> string \<Rightarrow>
   identity_oidc_assignment_request \<Rightarrow> unit sent" where
  "identity_write_oidc_assignment env cl from_json to_json mount name request =
     sbind (pure (identity_oidc_assignment_request_validate request)) (\<lambda>_.
     sbind (pure (identity_path mount [''oidc'', ''assignment'', name])) (\<lambda>p.
     identity_request env cl from_json mount ''POST'' p (Some (to_json request))))"

definition identity_read_oidc_assignment ::
  "http_env \<Rightarrow> client \<Rightarrow>
   (string \<Rightarrow> 'a response_envelope option) \<Rightarrow> string list \<Rightarrow>
   string \<Rightarrow> 'a sent" where
  "identity_read_oidc_assignment env cl from_json mount name =
     sbind (pure (identity_path mount [''oidc'', ''assignment'', name])) (\<lambda>p.
     smap env_data (identity_request env cl from_json mount ''GET'' p None))"

definition identity_list_oidc_assignments ::
  "http_env \<Rightarrow> client \<Rightarrow>
   (string \<Rightarrow> 'a response_envelope option) \<Rightarrow> string list \<Rightarrow>
   'a sent" where
  "identity_list_oidc_assignments env cl from_json mount =
     identity_list_at env cl from_json mount [''oidc'', ''assignment'']"

definition identity_delete_oidc_assignment ::
  "http_env \<Rightarrow> client \<Rightarrow>
   (string \<Rightarrow> unit option) \<Rightarrow> string list \<Rightarrow>
   string \<Rightarrow> unit sent" where
  "identity_delete_oidc_assignment env cl from_json mount name =
     identity_delete_at env cl from_json mount [''oidc'', ''assignment'', name]"

definition identity_read_oidc_provider_discovery ::
  "http_env \<Rightarrow> client \<Rightarrow> (string \<Rightarrow> 'a option) \<Rightarrow>
   string list \<Rightarrow> string \<Rightarrow> 'a sent" where
  "identity_read_oidc_provider_discovery env cl from_json mount name =
     sbind (pure (identity_path mount [''oidc'', ''provider'', name, ''.well-known'',
       ''openid-configuration''])) (\<lambda>p.
     identity_request env cl from_json mount ''GET'' p None)"

definition identity_read_oidc_provider_jwks ::
  "http_env \<Rightarrow> client \<Rightarrow> (string \<Rightarrow> 'a option) \<Rightarrow>
   string list \<Rightarrow> string \<Rightarrow> 'a sent" where
  "identity_read_oidc_provider_jwks env cl from_json mount name =
     sbind (pure (identity_path mount [''oidc'', ''provider'', name, ''.well-known'',
       ''keys''])) (\<lambda>p.
     identity_request env cl from_json mount ''GET'' p None)"

definition identity_post_empty ::
  "http_env \<Rightarrow> client \<Rightarrow>
   (string \<Rightarrow> unit option) \<Rightarrow> ('a \<Rightarrow> payload) \<Rightarrow>
   string list \<Rightarrow> string list \<Rightarrow> 'a \<Rightarrow> unit sent" where
  "identity_post_empty env cl from_json to_json mount tail request =
     sbind (pure (identity_path mount tail)) (\<lambda>p.
     identity_request env cl from_json mount ''POST'' p (Some (to_json request)))"

definition identity_create_mfa_duo_method ::
  "http_env \<Rightarrow> client \<Rightarrow>
   (string \<Rightarrow> unit option) \<Rightarrow>
   (identity_mfa_duo_method_request \<Rightarrow> payload) \<Rightarrow>
   string list \<Rightarrow> identity_mfa_duo_method_request \<Rightarrow> unit sent" where
  "identity_create_mfa_duo_method env cl from_json to_json mount request =
     sbind (pure (identity_mfa_duo_method_request_validate request)) (\<lambda>_.
     identity_post_empty env cl from_json to_json mount [''mfa'', ''method'', ''duo''] request)"

definition identity_write_mfa_duo_method ::
  "http_env \<Rightarrow> client \<Rightarrow>
   (string \<Rightarrow> unit option) \<Rightarrow>
   (identity_mfa_duo_method_request \<Rightarrow> payload) \<Rightarrow>
   string list \<Rightarrow> string \<Rightarrow>
   identity_mfa_duo_method_request \<Rightarrow> unit sent" where
  "identity_write_mfa_duo_method env cl from_json to_json mount method_id request =
     sbind (pure (identity_mfa_duo_method_request_validate request)) (\<lambda>_.
     identity_post_empty env cl from_json to_json mount [''mfa'', ''method'', ''duo'',
       method_id] request)"

definition identity_read_at ::
  "http_env \<Rightarrow> client \<Rightarrow>
   (string \<Rightarrow> 'a response_envelope option) \<Rightarrow> string list \<Rightarrow>
   string list \<Rightarrow> 'a sent" where
  "identity_read_at env cl from_json mount tail =
     sbind (pure (identity_path mount tail)) (\<lambda>p.
     smap env_data (identity_request env cl from_json mount ''GET'' p None))"

definition identity_read_mfa_duo_method ::
  "http_env \<Rightarrow> client \<Rightarrow>
   (string \<Rightarrow> 'a response_envelope option) \<Rightarrow> string list \<Rightarrow>
   string \<Rightarrow> 'a sent" where
  "identity_read_mfa_duo_method env cl from_json mount id_v =
     identity_read_at env cl from_json mount [''mfa'', ''method'', ''duo'', id_v]"

definition identity_delete_mfa_duo_method ::
  "http_env \<Rightarrow> client \<Rightarrow>
   (string \<Rightarrow> unit option) \<Rightarrow> string list \<Rightarrow>
   string \<Rightarrow> unit sent" where
  "identity_delete_mfa_duo_method env cl from_json mount id_v =
     identity_delete_at env cl from_json mount [''mfa'', ''method'', ''duo'', id_v]"

definition identity_list_mfa_duo_methods ::
  "http_env \<Rightarrow> client \<Rightarrow>
   (string \<Rightarrow> 'a response_envelope option) \<Rightarrow> string list \<Rightarrow>
   'a sent" where
  "identity_list_mfa_duo_methods env cl from_json mount =
     identity_list_at env cl from_json mount [''mfa'', ''method'', ''duo'']"

definition identity_create_mfa_okta_method ::
  "http_env \<Rightarrow> client \<Rightarrow>
   (string \<Rightarrow> unit option) \<Rightarrow>
   (identity_mfa_okta_method_request \<Rightarrow> payload) \<Rightarrow>
   string list \<Rightarrow> identity_mfa_okta_method_request \<Rightarrow> unit sent" where
  "identity_create_mfa_okta_method env cl from_json to_json mount request =
     sbind (pure (identity_mfa_okta_method_request_validate request)) (\<lambda>_.
     identity_post_empty env cl from_json to_json mount [''mfa'', ''method'', ''okta'']
       request)"

definition identity_write_mfa_okta_method ::
  "http_env \<Rightarrow> client \<Rightarrow>
   (string \<Rightarrow> unit option) \<Rightarrow>
   (identity_mfa_okta_method_request \<Rightarrow> payload) \<Rightarrow>
   string list \<Rightarrow> string \<Rightarrow>
   identity_mfa_okta_method_request \<Rightarrow> unit sent" where
  "identity_write_mfa_okta_method env cl from_json to_json mount method_id request =
     sbind (pure (identity_mfa_okta_method_request_validate request)) (\<lambda>_.
     identity_post_empty env cl from_json to_json mount [''mfa'', ''method'', ''okta'',
       method_id] request)"

definition identity_read_mfa_okta_method ::
  "http_env \<Rightarrow> client \<Rightarrow>
   (string \<Rightarrow> 'a response_envelope option) \<Rightarrow> string list \<Rightarrow>
   string \<Rightarrow> 'a sent" where
  "identity_read_mfa_okta_method env cl from_json mount id_v =
     identity_read_at env cl from_json mount [''mfa'', ''method'', ''okta'', id_v]"

definition identity_delete_mfa_okta_method ::
  "http_env \<Rightarrow> client \<Rightarrow>
   (string \<Rightarrow> unit option) \<Rightarrow> string list \<Rightarrow>
   string \<Rightarrow> unit sent" where
  "identity_delete_mfa_okta_method env cl from_json mount id_v =
     identity_delete_at env cl from_json mount [''mfa'', ''method'', ''okta'', id_v]"

definition identity_list_mfa_okta_methods ::
  "http_env \<Rightarrow> client \<Rightarrow>
   (string \<Rightarrow> 'a response_envelope option) \<Rightarrow> string list \<Rightarrow>
   'a sent" where
  "identity_list_mfa_okta_methods env cl from_json mount =
     identity_list_at env cl from_json mount [''mfa'', ''method'', ''okta'']"

definition identity_create_mfa_pingid_method ::
  "http_env \<Rightarrow> client \<Rightarrow>
   (string \<Rightarrow> unit option) \<Rightarrow>
   (identity_mfa_ping_id_method_request \<Rightarrow> payload) \<Rightarrow>
   string list \<Rightarrow> identity_mfa_ping_id_method_request \<Rightarrow> unit sent" where
  "identity_create_mfa_pingid_method env cl from_json to_json mount request =
     sbind (pure (identity_mfa_ping_id_method_request_validate request)) (\<lambda>_.
     identity_post_empty env cl from_json to_json mount [''mfa'', ''method'', ''pingid'']
       request)"

definition identity_write_mfa_pingid_method ::
  "http_env \<Rightarrow> client \<Rightarrow>
   (string \<Rightarrow> unit option) \<Rightarrow>
   (identity_mfa_ping_id_method_request \<Rightarrow> payload) \<Rightarrow>
   string list \<Rightarrow> string \<Rightarrow>
   identity_mfa_ping_id_method_request \<Rightarrow> unit sent" where
  "identity_write_mfa_pingid_method env cl from_json to_json mount method_id request =
     sbind (pure (identity_mfa_ping_id_method_request_validate request)) (\<lambda>_.
     identity_post_empty env cl from_json to_json mount [''mfa'', ''method'', ''pingid'',
       method_id] request)"

definition identity_read_mfa_pingid_method ::
  "http_env \<Rightarrow> client \<Rightarrow>
   (string \<Rightarrow> 'a response_envelope option) \<Rightarrow> string list \<Rightarrow>
   string \<Rightarrow> 'a sent" where
  "identity_read_mfa_pingid_method env cl from_json mount id_v =
     identity_read_at env cl from_json mount [''mfa'', ''method'', ''pingid'', id_v]"

definition identity_delete_mfa_pingid_method ::
  "http_env \<Rightarrow> client \<Rightarrow>
   (string \<Rightarrow> unit option) \<Rightarrow> string list \<Rightarrow>
   string \<Rightarrow> unit sent" where
  "identity_delete_mfa_pingid_method env cl from_json mount id_v =
     identity_delete_at env cl from_json mount [''mfa'', ''method'', ''pingid'', id_v]"

definition identity_list_mfa_pingid_methods ::
  "http_env \<Rightarrow> client \<Rightarrow>
   (string \<Rightarrow> 'a response_envelope option) \<Rightarrow> string list \<Rightarrow>
   'a sent" where
  "identity_list_mfa_pingid_methods env cl from_json mount =
     identity_list_at env cl from_json mount [''mfa'', ''method'', ''pingid'']"

definition identity_create_mfa_totp_method ::
  "http_env \<Rightarrow> client \<Rightarrow>
   (string \<Rightarrow> unit option) \<Rightarrow>
   (identity_mfa_totp_method_request \<Rightarrow> payload) \<Rightarrow>
   string list \<Rightarrow> identity_mfa_totp_method_request \<Rightarrow> unit sent" where
  "identity_create_mfa_totp_method env cl from_json to_json mount request =
     sbind (pure (identity_mfa_totp_method_request_validate request)) (\<lambda>_.
     identity_post_empty env cl from_json to_json mount [''mfa'', ''method'', ''totp'']
       request)"

definition identity_write_mfa_totp_method ::
  "http_env \<Rightarrow> client \<Rightarrow>
   (string \<Rightarrow> unit option) \<Rightarrow>
   (identity_mfa_totp_method_request \<Rightarrow> payload) \<Rightarrow>
   string list \<Rightarrow> string \<Rightarrow>
   identity_mfa_totp_method_request \<Rightarrow> unit sent" where
  "identity_write_mfa_totp_method env cl from_json to_json mount method_id request =
     sbind (pure (identity_mfa_totp_method_request_validate request)) (\<lambda>_.
     identity_post_empty env cl from_json to_json mount [''mfa'', ''method'', ''totp'',
       method_id] request)"

definition identity_read_mfa_totp_method ::
  "http_env \<Rightarrow> client \<Rightarrow>
   (string \<Rightarrow> 'a response_envelope option) \<Rightarrow> string list \<Rightarrow>
   string \<Rightarrow> 'a sent" where
  "identity_read_mfa_totp_method env cl from_json mount id_v =
     identity_read_at env cl from_json mount [''mfa'', ''method'', ''totp'', id_v]"

definition identity_delete_mfa_totp_method ::
  "http_env \<Rightarrow> client \<Rightarrow>
   (string \<Rightarrow> unit option) \<Rightarrow> string list \<Rightarrow>
   string \<Rightarrow> unit sent" where
  "identity_delete_mfa_totp_method env cl from_json mount id_v =
     identity_delete_at env cl from_json mount [''mfa'', ''method'', ''totp'', id_v]"

definition identity_list_mfa_totp_methods ::
  "http_env \<Rightarrow> client \<Rightarrow>
   (string \<Rightarrow> 'a response_envelope option) \<Rightarrow> string list \<Rightarrow>
   'a sent" where
  "identity_list_mfa_totp_methods env cl from_json mount =
     identity_list_at env cl from_json mount [''mfa'', ''method'', ''totp'']"

definition identity_post_data ::
  "http_env \<Rightarrow> client \<Rightarrow>
   (string \<Rightarrow> 'b response_envelope option) \<Rightarrow>
   ('a \<Rightarrow> payload) \<Rightarrow> string list \<Rightarrow>
   string list \<Rightarrow> 'a \<Rightarrow> 'b sent" where
  "identity_post_data env cl from_json to_json mount tail request =
     sbind (pure (identity_path mount tail)) (\<lambda>p.
     smap env_data (identity_request env cl from_json mount ''POST'' p (Some (to_json
       request))))"

definition identity_generate_mfa_totp_secret ::
  "http_env \<Rightarrow> client \<Rightarrow>
   (string \<Rightarrow> 'b response_envelope option) \<Rightarrow>
   (identity_mfa_totp_generate_request \<Rightarrow> payload) \<Rightarrow>
   string list \<Rightarrow> identity_mfa_totp_generate_request \<Rightarrow> 'b sent" where
  "identity_generate_mfa_totp_secret env cl from_json to_json mount request =
     sbind (pure (identity_mfa_totp_generate_request_validate request)) (\<lambda>_.
     identity_post_data env cl from_json to_json mount [''mfa'', ''method'', ''totp'',
       ''generate''] request)"

definition identity_admin_generate_mfa_totp_secret ::
  "http_env \<Rightarrow> client \<Rightarrow>
   (string \<Rightarrow> 'b response_envelope option) \<Rightarrow>
   (identity_mfa_totp_admin_request \<Rightarrow> payload) \<Rightarrow>
   string list \<Rightarrow> identity_mfa_totp_admin_request \<Rightarrow> 'b sent" where
  "identity_admin_generate_mfa_totp_secret env cl from_json to_json mount request =
     sbind (pure (identity_mfa_totp_admin_request_validate request)) (\<lambda>_.
     identity_post_data env cl from_json to_json mount [''mfa'', ''method'', ''totp'',
       ''admin-generate''] request)"

definition identity_admin_destroy_mfa_totp_secret ::
  "http_env \<Rightarrow> client \<Rightarrow>
   (string \<Rightarrow> unit option) \<Rightarrow>
   (identity_mfa_totp_admin_request \<Rightarrow> payload) \<Rightarrow>
   string list \<Rightarrow> identity_mfa_totp_admin_request \<Rightarrow> unit sent" where
  "identity_admin_destroy_mfa_totp_secret env cl from_json to_json mount request =
     sbind (pure (identity_mfa_totp_admin_request_validate request)) (\<lambda>_.
     identity_post_empty env cl from_json to_json mount [''mfa'', ''method'', ''totp'',
       ''admin-destroy''] request)"

definition identity_write_mfa_login_enforcement ::
  "http_env \<Rightarrow> client \<Rightarrow>
   (string \<Rightarrow> unit option) \<Rightarrow>
   (identity_mfa_login_enforcement_request \<Rightarrow> payload) \<Rightarrow>
   string list \<Rightarrow> string \<Rightarrow>
   identity_mfa_login_enforcement_request \<Rightarrow> unit sent" where
  "identity_write_mfa_login_enforcement env cl from_json to_json mount name request =
     sbind (pure (identity_mfa_login_enforcement_request_validate request)) (\<lambda>_.
     identity_post_empty env cl from_json to_json mount [''mfa'', ''login-enforcement'', name]
       request)"

definition identity_read_mfa_login_enforcement ::
  "http_env \<Rightarrow> client \<Rightarrow>
   (string \<Rightarrow> 'a response_envelope option) \<Rightarrow> string list \<Rightarrow>
   string \<Rightarrow> 'a sent" where
  "identity_read_mfa_login_enforcement env cl from_json mount name =
     identity_read_at env cl from_json mount [''mfa'', ''login-enforcement'', name]"

definition identity_delete_mfa_login_enforcement ::
  "http_env \<Rightarrow> client \<Rightarrow>
   (string \<Rightarrow> unit option) \<Rightarrow> string list \<Rightarrow>
   string \<Rightarrow> unit sent" where
  "identity_delete_mfa_login_enforcement env cl from_json mount name =
     identity_delete_at env cl from_json mount [''mfa'', ''login-enforcement'', name]"

definition identity_list_mfa_login_enforcements ::
  "http_env \<Rightarrow> client \<Rightarrow>
   (string \<Rightarrow> 'a response_envelope option) \<Rightarrow> string list \<Rightarrow>
   'a sent" where
  "identity_list_mfa_login_enforcements env cl from_json mount =
     identity_list_at env cl from_json mount [''mfa'', ''login-enforcement'']"

section \<open>The routes of the engine\<close>

lemma identity_path_handle: "identity_path mount tail = handle_path mount tail"
  unfolding identity_path_def handle_path_def Let_def
  by (simp add: rfold_segments rmap_rbind)

interpretation identity: mounted_engine identity_path identity_request
  by unfold_locales (simp_all add: identity_path_handle identity_request_def Let_def sends_secret secret_json_safe)

named_theorems identity_paths
named_theorems identity_calls

lemmas [identity_paths] = identity.path_at

lemma identity_request_at [identity_calls]:
  "list_all safe_segment mount \<Longrightarrow> path_at mount parts path \<Longrightarrow>
   at_route env cl verb mount parts (identity_request env cl from_json mount verb path body_v)"
  by (rule identity.request_at)

lemma identity_request_accepting_at [identity_calls]:
  "list_all safe_segment mount \<Longrightarrow> path_at mount parts path \<Longrightarrow>
   at_route env cl verb mount parts
     (identity_request_accepting env cl from_json mount verb path body_v accepted_statuses)"
  by (auto simp: identity_request_accepting_def Let_def rbind_Inr_iff intro!: at_intros at_requests identity_calls
      intro: identity_paths silent_intros split: option.splits)

lemma identity_request_query_at [identity_calls]:
  "list_all safe_segment mount \<Longrightarrow> path_at mount parts path \<Longrightarrow>
   at_route env cl verb mount parts
     (identity_request_query env cl from_json mount verb path query body_v accepted_statuses)"
  by (auto simp: identity_request_query_def Let_def rbind_Inr_iff intro!: at_intros at_requests identity_calls
      intro: identity_paths silent_intros split: option.splits)

lemma identity_entity_routes [identity_calls]:
  assumes "list_all safe_segment mount"
  shows "at_route env cl ''POST'' mount [''entity'']
        (identity_write_entity env cl fj tj mount request)"
    and "at_route env cl ''GET'' mount [''entity'', ''id'', id_v]
        (identity_read_entity_by_id env cl fj mount id_v)"
    and "at_route env cl ''POST'' mount [''entity'', ''id'', id_v]
        (identity_update_entity_by_id env cl fj tj mount id_v request)"
    and "at_route env cl ''DELETE'' mount [''entity'', ''id'', id_v]
        (identity_delete_entity_by_id env cl fj2 mount id_v)"
    and "at_route env cl ''POST'' mount [''entity'', ''batch-delete'']
        (identity_batch_delete_entities env cl fj2 tj2 mount request2)"
    and "at_route env cl ''POST'' mount [''entity'', ''merge'']
        (identity_merge_entities env cl fj2 tj3 mount request3)"
    and "at_route env cl ''LIST'' mount [''entity'', ''id'']
        (identity_list_entity_ids env cl fj mount)"
    and "at_route env cl ''POST'' mount [''entity'', ''name'', name]
        (identity_write_entity_by_name env cl fj tj mount name request)"
    and "at_route env cl ''GET'' mount [''entity'', ''name'', name]
        (identity_read_entity_by_name env cl fj mount name)"
    and "at_route env cl ''DELETE'' mount [''entity'', ''name'', name]
        (identity_delete_entity_by_name env cl fj2 mount name)"
    and "at_route env cl ''LIST'' mount [''entity'', ''name'']
        (identity_list_entity_names env cl fj mount)"
  unfolding identity_write_entity_def identity_read_entity_by_id_def identity_update_entity_by_id_def
      identity_delete_entity_by_id_def identity_batch_delete_entities_def
      identity_merge_entities_def identity_list_entity_ids_def identity_write_entity_by_name_def
      identity_read_entity_by_name_def identity_delete_entity_by_name_def
      identity_list_entity_names_def identity_delete_at_def identity_list_at_def
  by (use assms in \<open>auto simp: Let_def rbind_Inr_iff
      intro!: at_intros at_requests identity_calls intro: identity_paths at_after silent_intros split: option.splits\<close>)

lemma identity_group_routes [identity_calls]:
  assumes "list_all safe_segment mount"
  shows "at_route env cl ''POST'' mount [''group''] (identity_write_group env cl fj tj mount request)"
    and "at_route env cl ''GET'' mount [''group'', ''id'', id_v]
        (identity_read_group_by_id env cl fj mount id_v)"
    and "at_route env cl ''POST'' mount [''group'', ''id'', id_v]
        (identity_update_group_by_id env cl fj tj mount id_v request)"
    and "at_route env cl ''DELETE'' mount [''group'', ''id'', id_v]
        (identity_delete_group_by_id env cl fj2 mount id_v)"
    and "at_route env cl ''LIST'' mount [''group'', ''id''] (identity_list_group_ids env cl fj mount)"
    and "at_route env cl ''POST'' mount [''group'', ''name'', name]
        (identity_write_group_by_name env cl fj tj mount name request)"
    and "at_route env cl ''GET'' mount [''group'', ''name'', name]
        (identity_read_group_by_name env cl fj mount name)"
    and "at_route env cl ''DELETE'' mount [''group'', ''name'', name]
        (identity_delete_group_by_name env cl fj2 mount name)"
    and "at_route env cl ''LIST'' mount [''group'', ''name'']
        (identity_list_group_names env cl fj mount)"
  unfolding identity_write_group_def identity_read_group_by_id_def identity_update_group_by_id_def
      identity_delete_group_by_id_def identity_list_group_ids_def identity_write_group_by_name_def
      identity_read_group_by_name_def identity_delete_group_by_name_def
      identity_list_group_names_def identity_delete_at_def identity_list_at_def
  by (use assms in \<open>auto simp: Let_def rbind_Inr_iff
      intro!: at_intros at_requests identity_calls intro: identity_paths at_after silent_intros split: option.splits\<close>)

lemma identity_entity_alias_routes [identity_calls]:
  assumes "list_all safe_segment mount"
  shows "at_route env cl ''POST'' mount [''entity-alias'']
        (identity_write_entity_alias env cl fj tj mount request)"
    and "at_route env cl ''GET'' mount [''entity-alias'', ''id'', id_v]
        (identity_read_entity_alias_by_id env cl fj mount id_v)"
    and "at_route env cl ''DELETE'' mount [''entity-alias'', ''id'', id_v]
        (identity_delete_entity_alias_by_id env cl fj2 mount id_v)"
    and "at_route env cl ''LIST'' mount [''entity-alias'', ''id'']
        (identity_list_entity_alias_ids env cl fj mount)"
  unfolding identity_write_entity_alias_def identity_read_entity_alias_by_id_def
      identity_delete_entity_alias_by_id_def identity_list_entity_alias_ids_def
      identity_delete_at_def identity_list_at_def
  by (use assms in \<open>auto simp: Let_def rbind_Inr_iff
      intro!: at_intros at_requests identity_calls intro: identity_paths at_after silent_intros split: option.splits\<close>)

lemma identity_group_alias_routes [identity_calls]:
  assumes "list_all safe_segment mount"
  shows "at_route env cl ''POST'' mount [''group-alias'']
        (identity_write_group_alias env cl fj tj mount request)"
    and "at_route env cl ''GET'' mount [''group-alias'', ''id'', id_v]
        (identity_read_group_alias_by_id env cl fj mount id_v)"
    and "at_route env cl ''DELETE'' mount [''group-alias'', ''id'', id_v]
        (identity_delete_group_alias_by_id env cl fj2 mount id_v)"
    and "at_route env cl ''LIST'' mount [''group-alias'', ''id'']
        (identity_list_group_alias_ids env cl fj mount)"
  unfolding identity_write_group_alias_def identity_read_group_alias_by_id_def
      identity_delete_group_alias_by_id_def identity_list_group_alias_ids_def
      identity_delete_at_def identity_list_at_def
  by (use assms in \<open>auto simp: Let_def rbind_Inr_iff
      intro!: at_intros at_requests identity_calls intro: identity_paths at_after silent_intros split: option.splits\<close>)

lemma identity_oidc_1_routes [identity_calls]:
  assumes "list_all safe_segment mount"
  shows "at_route env cl ''POST'' mount [''oidc'', ''config'']
        (identity_write_oidc_config env cl fj tj mount request)"
    and "at_route env cl ''GET'' mount [''oidc'', ''config'']
        (identity_read_oidc_config env cl fj2 mount)"
    and "at_route env cl ''POST'' mount [''oidc'', ''key'', name]
        (identity_write_oidc_key env cl fj tj2 mount name request2)"
    and "at_route env cl ''GET'' mount [''oidc'', ''key'', name]
        (identity_read_oidc_key env cl fj2 mount name)"
    and "at_route env cl ''DELETE'' mount [''oidc'', ''key'', name]
        (identity_delete_oidc_key env cl fj mount name)"
    and "at_route env cl ''LIST'' mount [''oidc'', ''key''] (identity_list_oidc_keys env cl fj2 mount)"
    and "at_route env cl ''POST'' mount [''oidc'', ''key'', name, ''rotate'']
        (identity_rotate_oidc_key env cl fj tj3 mount name request3)"
    and "at_route env cl ''POST'' mount [''oidc'', ''role'', name]
        (identity_write_oidc_role env cl fj tj4 mount name request4)"
    and "at_route env cl ''GET'' mount [''oidc'', ''role'', name]
        (identity_read_oidc_role env cl fj2 mount name)"
    and "at_route env cl ''DELETE'' mount [''oidc'', ''role'', name]
        (identity_delete_oidc_role env cl fj mount name)"
    and "at_route env cl ''LIST'' mount [''oidc'', ''role'']
        (identity_list_oidc_roles env cl fj2 mount)"
    and "at_route env cl ''GET'' mount [''oidc'', ''token'', name]
        (identity_generate_oidc_token env cl fj2 mount name)"
  unfolding identity_write_oidc_config_def identity_read_oidc_config_def identity_write_oidc_key_def
      identity_read_oidc_key_def identity_delete_oidc_key_def identity_list_oidc_keys_def
      identity_rotate_oidc_key_def identity_write_oidc_role_def identity_read_oidc_role_def
      identity_delete_oidc_role_def identity_list_oidc_roles_def identity_generate_oidc_token_def
      identity_delete_at_def identity_list_at_def
  by (use assms in \<open>auto simp: Let_def rbind_Inr_iff
      intro!: at_intros at_requests identity_calls intro: identity_paths at_after silent_intros split: option.splits\<close>)

lemma identity_oidc_2_routes [identity_calls]:
  assumes "list_all safe_segment mount"
  shows "at_route env cl ''POST'' mount [''oidc'', ''introspect'']
        (identity_introspect_oidc_token env cl fj tj mount request)"
    and "at_route env cl ''GET'' mount [''oidc'', ''.well-known'', ''openid-configuration'']
        (identity_read_oidc_discovery env cl fj mount)"
    and "at_route env cl ''GET'' mount [''oidc'', ''.well-known'', ''keys'']
        (identity_read_oidc_jwks env cl fj mount)"
    and "at_route env cl ''POST'' mount [''oidc'', ''provider'', name]
        (identity_write_oidc_provider env cl fj2 tj2 mount name request2)"
    and "at_route env cl ''GET'' mount [''oidc'', ''provider'', name]
        (identity_read_oidc_provider env cl fj3 mount name)"
    and "at_route env cl ''LIST'' mount [''oidc'', ''provider'']
        (identity_list_oidc_providers env cl fj3 mount)"
    and "at_route env cl ''LIST'' mount [''oidc'', ''provider'']
        (identity_list_oidc_providers_for_client_id env cl fj3 mount client_id)"
    and "at_route env cl ''DELETE'' mount [''oidc'', ''provider'', name]
        (identity_delete_oidc_provider env cl fj2 mount name)"
    and "at_route env cl ''POST'' mount [''oidc'', ''scope'', name]
        (identity_write_oidc_scope env cl fj2 tj3 mount name request3)"
    and "at_route env cl ''GET'' mount [''oidc'', ''scope'', name]
        (identity_read_oidc_scope env cl fj3 mount name)"
    and "at_route env cl ''LIST'' mount [''oidc'', ''scope'']
        (identity_list_oidc_scopes env cl fj3 mount)"
    and "at_route env cl ''DELETE'' mount [''oidc'', ''scope'', name]
        (identity_delete_oidc_scope env cl fj2 mount name)"
  unfolding identity_introspect_oidc_token_def identity_read_oidc_discovery_def
      identity_read_oidc_jwks_def identity_write_oidc_provider_def identity_read_oidc_provider_def
      identity_list_oidc_providers_def identity_list_oidc_providers_for_client_id_def
      identity_delete_oidc_provider_def identity_write_oidc_scope_def identity_read_oidc_scope_def
      identity_list_oidc_scopes_def identity_delete_oidc_scope_def
      identity_list_oidc_providers_with_client_id_def identity_delete_at_def identity_list_at_def
  by (use assms in \<open>auto simp: Let_def rbind_Inr_iff
      intro!: at_intros at_requests identity_calls intro: identity_paths at_after silent_intros split: option.splits\<close>)

lemma identity_oidc_3_routes [identity_calls]:
  assumes "list_all safe_segment mount"
  shows "at_route env cl ''POST'' mount [''oidc'', ''client'', name]
        (identity_write_oidc_client env cl fj tj mount name request)"
    and "at_route env cl ''GET'' mount [''oidc'', ''client'', name]
        (identity_read_oidc_client env cl fj2 mount name)"
    and "at_route env cl ''LIST'' mount [''oidc'', ''client'']
        (identity_list_oidc_clients env cl fj2 mount)"
    and "at_route env cl ''DELETE'' mount [''oidc'', ''client'', name]
        (identity_delete_oidc_client env cl fj mount name)"
    and "at_route env cl ''POST'' mount [''oidc'', ''assignment'', name]
        (identity_write_oidc_assignment env cl fj tj2 mount name request2)"
    and "at_route env cl ''GET'' mount [''oidc'', ''assignment'', name]
        (identity_read_oidc_assignment env cl fj2 mount name)"
    and "at_route env cl ''LIST'' mount [''oidc'', ''assignment'']
        (identity_list_oidc_assignments env cl fj2 mount)"
    and "at_route env cl ''DELETE'' mount [''oidc'', ''assignment'', name]
        (identity_delete_oidc_assignment env cl fj mount name)"
    and "at_route env cl ''GET'' mount [''oidc'', ''provider'', name, ''.well-known'',
          ''openid-configuration'']
        (identity_read_oidc_provider_discovery env cl fj3 mount name)"
    and "at_route env cl ''GET'' mount [''oidc'', ''provider'', name, ''.well-known'', ''keys'']
        (identity_read_oidc_provider_jwks env cl fj3 mount name)"
  unfolding identity_write_oidc_client_def identity_read_oidc_client_def identity_list_oidc_clients_def
      identity_delete_oidc_client_def identity_write_oidc_assignment_def
      identity_read_oidc_assignment_def identity_list_oidc_assignments_def
      identity_delete_oidc_assignment_def identity_read_oidc_provider_discovery_def
      identity_read_oidc_provider_jwks_def identity_list_at_def identity_delete_at_def
  by (use assms in \<open>auto simp: Let_def rbind_Inr_iff
      intro!: at_intros at_requests identity_calls intro: identity_paths at_after silent_intros split: option.splits\<close>)

lemma identity_mfa_1_routes [identity_calls]:
  assumes "list_all safe_segment mount"
  shows "at_route env cl ''POST'' mount [''mfa'', ''method'', ''duo'']
        (identity_create_mfa_duo_method env cl fj tj mount request)"
    and "at_route env cl ''POST'' mount [''mfa'', ''method'', ''duo'', method_id]
        (identity_write_mfa_duo_method env cl fj tj mount method_id request)"
    and "at_route env cl ''GET'' mount [''mfa'', ''method'', ''duo'', id_v]
        (identity_read_mfa_duo_method env cl fj2 mount id_v)"
    and "at_route env cl ''DELETE'' mount [''mfa'', ''method'', ''duo'', id_v]
        (identity_delete_mfa_duo_method env cl fj mount id_v)"
    and "at_route env cl ''LIST'' mount [''mfa'', ''method'', ''duo'']
        (identity_list_mfa_duo_methods env cl fj2 mount)"
    and "at_route env cl ''POST'' mount [''mfa'', ''method'', ''okta'']
        (identity_create_mfa_okta_method env cl fj tj2 mount request2)"
    and "at_route env cl ''POST'' mount [''mfa'', ''method'', ''okta'', method_id]
        (identity_write_mfa_okta_method env cl fj tj2 mount method_id request2)"
    and "at_route env cl ''GET'' mount [''mfa'', ''method'', ''okta'', id_v]
        (identity_read_mfa_okta_method env cl fj2 mount id_v)"
    and "at_route env cl ''DELETE'' mount [''mfa'', ''method'', ''okta'', id_v]
        (identity_delete_mfa_okta_method env cl fj mount id_v)"
    and "at_route env cl ''LIST'' mount [''mfa'', ''method'', ''okta'']
        (identity_list_mfa_okta_methods env cl fj2 mount)"
    and "at_route env cl ''POST'' mount [''mfa'', ''method'', ''pingid'']
        (identity_create_mfa_pingid_method env cl fj tj3 mount request3)"
    and "at_route env cl ''POST'' mount [''mfa'', ''method'', ''pingid'', method_id]
        (identity_write_mfa_pingid_method env cl fj tj3 mount method_id request3)"
    and "at_route env cl ''GET'' mount [''mfa'', ''method'', ''pingid'', id_v]
        (identity_read_mfa_pingid_method env cl fj2 mount id_v)"
    and "at_route env cl ''DELETE'' mount [''mfa'', ''method'', ''pingid'', id_v]
        (identity_delete_mfa_pingid_method env cl fj mount id_v)"
  unfolding identity_create_mfa_duo_method_def identity_write_mfa_duo_method_def
      identity_read_mfa_duo_method_def identity_delete_mfa_duo_method_def
      identity_list_mfa_duo_methods_def identity_create_mfa_okta_method_def
      identity_write_mfa_okta_method_def identity_read_mfa_okta_method_def
      identity_delete_mfa_okta_method_def identity_list_mfa_okta_methods_def
      identity_create_mfa_pingid_method_def identity_write_mfa_pingid_method_def
      identity_read_mfa_pingid_method_def identity_delete_mfa_pingid_method_def
      identity_post_empty_def identity_read_at_def identity_delete_at_def identity_list_at_def
  by (use assms in \<open>auto simp: Let_def rbind_Inr_iff
      intro!: at_intros at_requests identity_calls intro: identity_paths at_after silent_intros split: option.splits\<close>)

lemma identity_mfa_2_routes [identity_calls]:
  assumes "list_all safe_segment mount"
  shows "at_route env cl ''LIST'' mount [''mfa'', ''method'', ''pingid'']
        (identity_list_mfa_pingid_methods env cl fj mount)"
    and "at_route env cl ''POST'' mount [''mfa'', ''method'', ''totp'']
        (identity_create_mfa_totp_method env cl fj2 tj mount request)"
    and "at_route env cl ''POST'' mount [''mfa'', ''method'', ''totp'', method_id]
        (identity_write_mfa_totp_method env cl fj2 tj mount method_id request)"
    and "at_route env cl ''GET'' mount [''mfa'', ''method'', ''totp'', id_v]
        (identity_read_mfa_totp_method env cl fj mount id_v)"
    and "at_route env cl ''DELETE'' mount [''mfa'', ''method'', ''totp'', id_v]
        (identity_delete_mfa_totp_method env cl fj2 mount id_v)"
    and "at_route env cl ''LIST'' mount [''mfa'', ''method'', ''totp'']
        (identity_list_mfa_totp_methods env cl fj mount)"
    and "at_route env cl ''POST'' mount [''mfa'', ''method'', ''totp'', ''generate'']
        (identity_generate_mfa_totp_secret env cl fj3 tj2 mount request2)"
    and "at_route env cl ''POST'' mount [''mfa'', ''method'', ''totp'', ''admin-generate'']
        (identity_admin_generate_mfa_totp_secret env cl fj3 tj3 mount request3)"
    and "at_route env cl ''POST'' mount [''mfa'', ''method'', ''totp'', ''admin-destroy'']
        (identity_admin_destroy_mfa_totp_secret env cl fj2 tj3 mount request3)"
    and "at_route env cl ''POST'' mount [''mfa'', ''login-enforcement'', name]
        (identity_write_mfa_login_enforcement env cl fj2 tj4 mount name request4)"
    and "at_route env cl ''GET'' mount [''mfa'', ''login-enforcement'', name]
        (identity_read_mfa_login_enforcement env cl fj mount name)"
    and "at_route env cl ''DELETE'' mount [''mfa'', ''login-enforcement'', name]
        (identity_delete_mfa_login_enforcement env cl fj2 mount name)"
    and "at_route env cl ''LIST'' mount [''mfa'', ''login-enforcement'']
        (identity_list_mfa_login_enforcements env cl fj mount)"
  unfolding identity_list_mfa_pingid_methods_def identity_create_mfa_totp_method_def
      identity_write_mfa_totp_method_def identity_read_mfa_totp_method_def
      identity_delete_mfa_totp_method_def identity_list_mfa_totp_methods_def
      identity_generate_mfa_totp_secret_def identity_admin_generate_mfa_totp_secret_def
      identity_admin_destroy_mfa_totp_secret_def identity_write_mfa_login_enforcement_def
      identity_read_mfa_login_enforcement_def identity_delete_mfa_login_enforcement_def
      identity_list_mfa_login_enforcements_def identity_list_at_def identity_post_empty_def
      identity_read_at_def identity_delete_at_def identity_post_data_def
  by (use assms in \<open>auto simp: Let_def rbind_Inr_iff
      intro!: at_intros at_requests identity_calls intro: identity_paths at_after silent_intros split: option.splits\<close>)

lemma identity_other_routes [identity_calls]:
  assumes "list_all safe_segment mount"
  shows "at_route env cl ''POST'' mount [''lookup'', ''entity'']
        (identity_lookup_entity env cl fj tj mount request)"
    and "at_route env cl ''POST'' mount [''lookup'', ''group'']
        (identity_lookup_group env cl fj tj2 mount request2)"
  unfolding identity_lookup_entity_def identity_lookup_group_def
  by (use assms in \<open>auto simp: Let_def rbind_Inr_iff
      intro!: at_intros at_requests identity_calls intro: identity_paths at_after silent_intros split: option.splits\<close>)

end
