(* ===== verification/Bao_Dsn.thy ===== *)
theory Bao_Dsn
  imports Bao_Engine
begin

text \<open>
  The connection strings of the database engine, \<open>secrets/database.rs\<close>: whether a PostgreSQL URI or
  keyword DSN, or a MySQL DSN, selects encrypted and verified TCP transport. Strings are bytes; the
  index loops of the source are recursions on the rest of the input.
\<close>

section \<open>Bytes\<close>

definition hex_value :: "char \<Rightarrow> nat option" where
  "hex_value b =
     (if 48 \<le> byte b \<and> byte b \<le> 57 then Some (byte b - 48)
      else if 97 \<le> byte b \<and> byte b \<le> 102 then Some (byte b - 97 + 10)
      else if 65 \<le> byte b \<and> byte b \<le> 70 then Some (byte b - 65 + 10)
      else None)"

fun percent_decode_strict :: "string \<Rightarrow> string option" where
  "percent_decode_strict [] = Some []"
| "percent_decode_strict (b # bs) =
     (if b = CHR ''%'' then
        (case bs of
           high # low # rest \<Rightarrow>
             (case (hex_value high, hex_value low) of
                (Some h, Some l) \<Rightarrow>
                  map_option (Cons (char_of (16 * h + l))) (percent_decode_strict rest)
              | _ \<Rightarrow> None)
         | _ \<Rightarrow> None)
      else map_option (Cons (if b = CHR ''+'' then CHR '' '' else b)) (percent_decode_strict bs))"

definition ascii_eq_ignore_case :: "string \<Rightarrow> string \<Rightarrow> bool" where
  "ascii_eq_ignore_case val_v expected \<longleftrightarrow>
     length val_v = length expected \<and>
     list_all (\<lambda>(left, right). eq_ignore_ascii_case [left] [right]) (zip val_v expected)"

text \<open>\<open>str::find\<close>: where a pattern first occurs.\<close>

definition find_str :: "string \<Rightarrow> string \<Rightarrow> nat option" where
  "find_str pat s = map_option (\<lambda>(before, _). length before) (split_once pat s)"

section \<open>Hosts\<close>

definition postgres_host_is_windows_absolute_path :: "string \<Rightarrow> bool" where
  "postgres_host_is_windows_absolute_path host \<longleftrightarrow>
     (case host of
        b0 # b1 # rest \<Rightarrow> is_ascii_alphabetic b0 \<and> b1 = CHR '':'' \<and>
          (case rest of [] \<Rightarrow> True | b2 # _ \<Rightarrow> b2 \<noteq> CHR '':'')
      | _ \<Rightarrow> False)"

definition explicit_tcp_host :: "string \<Rightarrow> bool" where
  "explicit_tcp_host host0 \<longleftrightarrow>
     (let host = trim host0 in
      host \<noteq> [] \<and> list_all (\<lambda>b. \<not> is_ascii_whitespace b \<and> \<not> is_ascii_control b) host \<and>
      \<not> list_ex (\<lambda>c. c = CHR ''/'' \<or> c = CHR 0x5C) host \<and>
      \<not> postgres_host_is_windows_absolute_path host)"

definition postgres_hosts_are_explicit_tcp :: "string \<Rightarrow> bool" where
  "postgres_hosts_are_explicit_tcp hosts \<longleftrightarrow>
     valid_utf8 hosts \<and> list_all explicit_tcp_host (split_on CHR '','' hosts)"

definition postgres_uri_port_is_valid :: "string \<Rightarrow> bool" where
  "postgres_uri_port_is_valid port \<longleftrightarrow>
     port \<noteq> [] \<and> list_all is_ascii_digit port \<and>
     is_some_and (\<lambda>p. p \<noteq> 0) (parse_unsigned 65536 port)"

definition host_with_port :: "string \<Rightarrow> string option" where
  "host_with_port host_and_port =
     (if host_and_port = [] then Some []
      else
        (case strip_prefix ''['' host_and_port of
           Some bracketed \<Rightarrow>
             (case split_once '']'' bracketed of
                None \<Rightarrow> None
              | Some (host, remainder) \<Rightarrow>
                  if host = [] \<or> list_ex (\<lambda>c. c = CHR ''['' \<or> c = CHR '']'') host then None
                  else if remainder = [] then Some host
                  else
                    (case strip_prefix '':'' remainder of
                       None \<Rightarrow> None
                     | Some port \<Rightarrow> if postgres_uri_port_is_valid port then Some host else None))
         | None \<Rightarrow>
             if list_ex (\<lambda>c. c \<in> {CHR ''['', CHR '']'', CHR ''%''}) host_and_port then None
             else
               (case rsplit_once CHR '':'' host_and_port of
                  Some (host, port) \<Rightarrow>
                    if host = [] \<or> CHR '':'' \<in> set host \<or> \<not> postgres_uri_port_is_valid port
                    then None else Some host
                | None \<Rightarrow> Some host_and_port)))"

definition postgres_uri_authority_host :: "string \<Rightarrow> string option" where
  "postgres_uri_authority_host authority =
     (case rsplit_once CHR ''@'' authority of
        Some (userinfo, host_and_port) \<Rightarrow>
          if CHR ''@'' \<in> set userinfo \<or> userinfo = [] then None else host_with_port host_and_port
      | None \<Rightarrow> host_with_port authority)"

section \<open>PostgreSQL\<close>

definition checked_keys :: "string list" where
  "checked_keys = [''sslmode'', ''host'', ''service'', ''servicefile'']"

text \<open>A key that is one of the checked ones but for its case: another parser may take it for the key.\<close>

definition misspelt_key :: "string \<Rightarrow> bool" where
  "misspelt_key key \<longleftrightarrow>
     key \<noteq> ''sslmode'' \<and> key \<noteq> ''host'' \<and> key \<noteq> ''service'' \<and> key \<noteq> ''servicefile'' \<and>
     list_ex (ascii_eq_ignore_case key) checked_keys"

text \<open>One parameter of either syntax, with its decoded value: the two flags of the source loops are
  whether a mode was seen and the host override. \<open>None\<close> is the source's \<open>return false\<close>.\<close>

definition take_parameter ::
  "string list \<Rightarrow> string \<Rightarrow> string option \<Rightarrow> bool \<times> string option \<Rightarrow> (bool \<times> string option) option" where
  "take_parameter allowed_modes key val_v st =
     (case st of (tls_mode, host) \<Rightarrow>
        if misspelt_key key then None
        else if key = ''sslmode'' then
          if tls_mode then None
          else
            (case val_v of
               None \<Rightarrow> None
             | Some m \<Rightarrow> if m \<in> set allowed_modes then Some (True, host) else None)
        else if key = ''host'' then
          if host \<noteq> None then None
          else (case val_v of None \<Rightarrow> None | Some h \<Rightarrow> Some (tls_mode, Some h))
        else if key = ''service'' \<or> key = ''servicefile'' then None
        else Some (tls_mode, host))"

fun uri_parameters ::
  "string list \<Rightarrow> string list \<Rightarrow> bool \<times> string option \<Rightarrow> (bool \<times> string option) option" where
  "uri_parameters allowed_modes [] st = Some st"
| "uri_parameters allowed_modes (parameter # rest) st =
     (let (key, val_v) = (case split_once ''='' parameter of Some kv \<Rightarrow> kv | None \<Rightarrow> (parameter, []))
      in case percent_decode_strict key of
           None \<Rightarrow> None
         | Some key \<Rightarrow>
             (case take_parameter allowed_modes key (percent_decode_strict val_v) st of
                None \<Rightarrow> None
              | Some st' \<Rightarrow> uri_parameters allowed_modes rest st'))"

definition postgres_dsn_uses_uri_syntax :: "string \<Rightarrow> bool" where
  "postgres_dsn_uses_uri_syntax dsn \<longleftrightarrow>
     prefix ''postgresql://'' dsn \<or> prefix ''postgres://'' dsn"

text \<open>What follows the scheme of a URI.\<close>

definition strip_scheme :: "string \<Rightarrow> string option" where
  "strip_scheme dsn =
     (case strip_prefix ''postgresql://'' dsn of
        Some uri \<Rightarrow> Some uri
      | None \<Rightarrow> strip_prefix ''postgres://'' dsn)"

definition postgres_uri_uses_tcp_tls_modes :: "string \<Rightarrow> string list \<Rightarrow> bool" where
  "postgres_uri_uses_tcp_tls_modes dsn allowed_modes \<longleftrightarrow>
     (case strip_scheme dsn of
        None \<Rightarrow> False
      | Some uri \<Rightarrow>
          if list_ex (\<lambda>b. is_ascii_whitespace b \<or> is_ascii_control b) dsn \<or> CHR ''#'' \<in> set uri
          then False
          else
            (case split_once ''?'' uri of
               None \<Rightarrow> False
             | Some (location, query) \<Rightarrow>
                 (case postgres_uri_authority_host (takeWhile (\<lambda>c. c \<noteq> CHR ''/'') location) of
                    None \<Rightarrow> False
                  | Some authority_host \<Rightarrow>
                      (case uri_parameters allowed_modes (split_on CHR ''&'' query) (False, None) of
                         None \<Rightarrow> False
                       | Some (tls_mode, host_override) \<Rightarrow>
                           tls_mode \<and>
                           (case host_override of
                              Some host \<Rightarrow> postgres_hosts_are_explicit_tcp host
                            | None \<Rightarrow> authority_host \<noteq> [] \<and>
                                postgres_hosts_are_explicit_tcp authority_host)))))"

definition postgres_dsn_has_unsupported_uri_like_prefix :: "string \<Rightarrow> bool" where
  "postgres_dsn_has_unsupported_uri_like_prefix dsn \<longleftrightarrow>
     (case split_ascii_whitespace dsn of
        [] \<Rightarrow> False
      | first # _ \<Rightarrow>
          (case find_str ''://'' first of
             None \<Rightarrow> False
           | Some scheme_separator \<Rightarrow>
               is_none_or (\<lambda>assignment. scheme_separator < assignment) (find_str ''='' first)))"

subsection \<open>Keyword DSNs\<close>

fun decode_keyword_value :: "string \<Rightarrow> string option" where
  "decode_keyword_value [] = Some []"
| "decode_keyword_value (b # bs) =
     (if b = CHR 0x5C
      then (case bs of [] \<Rightarrow> None | c # cs \<Rightarrow> map_option (Cons c) (decode_keyword_value cs))
      else map_option (Cons b) (decode_keyword_value bs))"

text \<open>The value loop: the raw bytes of the value, whether it ended after a backslash, and the rest.\<close>

fun scan_value :: "bool \<Rightarrow> bool \<Rightarrow> string \<Rightarrow> string \<times> bool \<times> string" where
  "scan_value quoted escaped [] = ([], escaped, [])"
| "scan_value quoted escaped (b # bs) =
     (if escaped then (case scan_value quoted False bs of (v, e, r) \<Rightarrow> (b # v, e, r))
      else if b = CHR 0x5C then (case scan_value quoted True bs of (v, e, r) \<Rightarrow> (b # v, e, r))
      else if (if quoted then b = CHR 0x27 else is_ascii_whitespace b) then ([], False, b # bs)
      else (case scan_value quoted False bs of (v, e, r) \<Rightarrow> (b # v, e, r)))"

text \<open>One \<open>key = value\<close> from where a key starts: the key, the raw value and the rest.\<close>

definition keyword_parameter :: "string \<Rightarrow> (string \<times> string \<times> string) option" where
  "keyword_parameter rest =
     (let in_key = (\<lambda>b. \<not> is_ascii_whitespace b \<and> b \<noteq> CHR ''='');
          key = takeWhile in_key rest
      in case dropWhile is_ascii_whitespace (dropWhile in_key rest) of
           [] \<Rightarrow> None
         | b # after \<Rightarrow>
             if b \<noteq> CHR ''='' then None
             else
               (let v = dropWhile is_ascii_whitespace after
                in case v of
                     q # v' \<Rightarrow>
                       if q = CHR 0x27 then
                         (case scan_value True False v' of
                            (raw, _, end_v) \<Rightarrow>
                              (case end_v of
                                 [] \<Rightarrow> None
                               | _ # more_v \<Rightarrow>
                                   if is_some_and (\<lambda>b. \<not> is_ascii_whitespace b)
                                        (case more_v of [] \<Rightarrow> None | b # _ \<Rightarrow> Some b)
                                   then None else Some (key, raw, more_v)))
                       else
                         (case scan_value False False v of
                            (raw, escaped, end_v) \<Rightarrow>
                              if escaped then None else Some (key, raw, end_v))
                   | [] \<Rightarrow> Some (key, [], [])))"

lemma scan_value_rest: "scan_value quoted escaped s = (v, e, r) \<Longrightarrow> length r \<le> length s"
  by (induction quoted escaped s arbitrary: v e r rule: scan_value.induct)
    (auto split: if_splits prod.splits intro: le_SucI)

lemma keyword_parameter_rest: "keyword_parameter rest = Some (k, v, r) \<Longrightarrow> length r < length rest"
proof -
  assume k: "keyword_parameter rest = Some (k, v, r)"
  let ?in = "\<lambda>b. \<not> is_ascii_whitespace b \<and> b \<noteq> CHR ''=''"
  obtain b after where a: "dropWhile is_ascii_whitespace (dropWhile ?in rest) = b # after"
    using k by (cases "dropWhile is_ascii_whitespace (dropWhile ?in rest)")
      (auto simp: keyword_parameter_def)
  have "length (b # after) \<le> length rest"
    using length_dropWhile_le [of is_ascii_whitespace "dropWhile ?in rest"]
      length_dropWhile_le [of ?in rest] a by simp
  moreover have "length r \<le> length after"
  proof (cases "dropWhile is_ascii_whitespace after")
    case Nil
    with k a show ?thesis
      by (auto simp: keyword_parameter_def Let_def simp del: dropWhile_eq_Nil_conv split: if_splits)
  next
    case (Cons q v')
    have "length (q # v') \<le> length after"
      using length_dropWhile_le [of is_ascii_whitespace after] Cons by simp
    with k a Cons show ?thesis
      by (auto simp: keyword_parameter_def Let_def length_dropWhile_le split: if_splits prod.splits list.splits
          dest!: scan_value_rest)
  qed
  ultimately show ?thesis by simp
qed

function keyword_parameters ::
  "string list \<Rightarrow> string \<Rightarrow> bool \<times> string option \<Rightarrow> (bool \<times> string option) option" where
  "keyword_parameters allowed_modes dsn st =
     (case dropWhile is_ascii_whitespace dsn of
        [] \<Rightarrow> Some st
      | b # bs \<Rightarrow>
          (case keyword_parameter (b # bs) of
             None \<Rightarrow> None
           | Some (key, raw, rest) \<Rightarrow>
               (case take_parameter allowed_modes key (decode_keyword_value raw) st of
                  None \<Rightarrow> None
                | Some st' \<Rightarrow> keyword_parameters allowed_modes rest st')))"
  by pat_completeness auto
termination
proof (relation "measure (\<lambda>(_, dsn, _). length dsn)", goal_cases)
  case (2 allowed_modes dsn st b bs x key y raw rest st')
  then have "length rest < length (b # bs)" by (auto dest: keyword_parameter_rest)
  with 2(1) length_dropWhile_le [of is_ascii_whitespace dsn] show ?case by simp
qed simp

declare keyword_parameters.simps [simp del]

definition postgres_keyword_dsn_uses_tcp_tls_modes :: "string \<Rightarrow> string list \<Rightarrow> bool" where
  "postgres_keyword_dsn_uses_tcp_tls_modes dsn allowed_modes \<longleftrightarrow>
     (case keyword_parameters allowed_modes dsn (False, None) of
        None \<Rightarrow> False
      | Some (tls_mode, host) \<Rightarrow> tls_mode \<and> is_some_and postgres_hosts_are_explicit_tcp host)"

definition postgres_dsn_uses_tcp_tls_modes :: "string \<Rightarrow> string list \<Rightarrow> bool" where
  "postgres_dsn_uses_tcp_tls_modes dsn allowed_modes \<longleftrightarrow>
     (if postgres_dsn_uses_uri_syntax dsn then postgres_uri_uses_tcp_tls_modes dsn allowed_modes
      else if postgres_dsn_has_unsupported_uri_like_prefix dsn then False
      else postgres_keyword_dsn_uses_tcp_tls_modes dsn allowed_modes)"

definition postgres_dsn_uses_hardened_tcp_tls :: "string \<Rightarrow> bool" where
  "postgres_dsn_uses_hardened_tcp_tls dsn =
     postgres_dsn_uses_tcp_tls_modes dsn [''verify-full'']"

definition postgres_dsn_requires_encrypted_tcp_tls :: "string \<Rightarrow> bool" where
  "postgres_dsn_requires_encrypted_tcp_tls dsn =
     postgres_dsn_uses_tcp_tls_modes dsn [''require'', ''verify-ca'', ''verify-full'']"

section \<open>MySQL\<close>

datatype my_sql_dsn_tls_mode =
    MySqlDsnTlsMode_EncryptedWithoutVerification | MySqlDsnTlsMode_Verified

fun mysql_parameters ::
  "string list \<Rightarrow> my_sql_dsn_tls_mode option \<Rightarrow> my_sql_dsn_tls_mode option" where
  "mysql_parameters [] mode_v = mode_v"
| "mysql_parameters (parameter # rest) mode_v =
     (let (key, val_v) = (case split_once ''='' parameter of Some kv \<Rightarrow> kv | None \<Rightarrow> (parameter, []))
      in case percent_decode_strict key of
           None \<Rightarrow> None
         | Some key \<Rightarrow>
             if key \<noteq> ''tls'' then mysql_parameters rest mode_v
             else if mode_v \<noteq> None then None
             else
               (case percent_decode_strict val_v of
                  None \<Rightarrow> None
                | Some v \<Rightarrow>
                    if v = ''true'' then mysql_parameters rest (Some MySqlDsnTlsMode_Verified)
                    else if v = ''skip-verify''
                    then mysql_parameters rest (Some MySqlDsnTlsMode_EncryptedWithoutVerification)
                    else None))"

definition mysql_dsn_tcp_tls_mode :: "string \<Rightarrow> my_sql_dsn_tls_mode option" where
  "mysql_dsn_tcp_tls_mode dsn =
     (if dsn = [] \<or> list_ex (\<lambda>b. is_ascii_control b \<or> is_ascii_whitespace b) dsn then None
      else
        (case rsplit_once CHR ''@'' dsn of
           None \<Rightarrow> None
         | Some (_, network) \<Rightarrow>
             (case strip_prefix ''tcp('' network of
                None \<Rightarrow> None
              | Some rest \<Rightarrow>
                  (case split_once '')'' rest of
                     None \<Rightarrow> None
                   | Some (host, remainder) \<Rightarrow>
                       if \<not> prefix ''/'' remainder then None
                       else if \<not> postgres_hosts_are_explicit_tcp host then None
                       else
                         (case split_once ''?'' dsn of
                            None \<Rightarrow> None
                          | Some (_, query) \<Rightarrow>
                              mysql_parameters (split_on CHR ''&'' query) None)))))"

section \<open>The parameters as a list\<close>

text \<open>
  What the loops decide, on the list of all parameters: first all of them are read, then the checked
  keys are looked at.
\<close>

fun take_parameters ::
  "string list \<Rightarrow> (string \<times> string option) list \<Rightarrow> bool \<times> string option \<Rightarrow>
   (bool \<times> string option) option" where
  "take_parameters allowed_modes [] st = Some st"
| "take_parameters allowed_modes ((key, val_v) # ps) st =
     Option.bind (take_parameter allowed_modes key val_v st) (take_parameters allowed_modes ps)"

function keyword_pairs :: "string \<Rightarrow> (string \<times> string option) list option" where
  "keyword_pairs dsn =
     (case dropWhile is_ascii_whitespace dsn of
        [] \<Rightarrow> Some []
      | b # bs \<Rightarrow>
          (case keyword_parameter (b # bs) of
             None \<Rightarrow> None
           | Some (key, raw, rest) \<Rightarrow>
               map_option (Cons (key, decode_keyword_value raw)) (keyword_pairs rest)))"
  by pat_completeness auto
termination
proof (relation "measure length", goal_cases)
  case (2 dsn b bs x key y raw rest)
  then have "length rest < length (b # bs)" by (auto dest: keyword_parameter_rest)
  with 2(1) length_dropWhile_le [of is_ascii_whitespace dsn] show ?case by simp
qed simp

declare keyword_pairs.simps [simp del]

fun uri_pairs :: "string list \<Rightarrow> (string \<times> string option) list option" where
  "uri_pairs [] = Some []"
| "uri_pairs (parameter # rest) =
     (let (key, val_v) = (case split_once ''='' parameter of Some kv \<Rightarrow> kv | None \<Rightarrow> (parameter, []))
      in case percent_decode_strict key of
           None \<Rightarrow> None
         | Some key \<Rightarrow> map_option (Cons (key, percent_decode_strict val_v)) (uri_pairs rest))"

definition vals_of :: "string \<Rightarrow> (string \<times> string option) list \<Rightarrow> string option list" where
  "vals_of key ps = map snd (filter (\<lambda>p. fst p = key) ps)"

text \<open>No key is a misspelt checked one and none points at a service file.\<close>

definition plain_keys :: "(string \<times> string option) list \<Rightarrow> bool" where
  "plain_keys ps \<longleftrightarrow>
     list_all (\<lambda>p. \<not> misspelt_key (fst p) \<and> fst p \<noteq> ''service'' \<and> fst p \<noteq> ''servicefile'') ps"

text \<open>Exactly one mode is given, and it is an allowed one.\<close>

definition one_mode :: "string list \<Rightarrow> (string \<times> string option) list \<Rightarrow> bool" where
  "one_mode allowed_modes ps \<longleftrightarrow> (\<exists>m \<in> set allowed_modes. vals_of ''sslmode'' ps = [Some m])"

lemma vals_of_Nil [simp]: "vals_of key [] = []"
  by (simp add: vals_of_def)

lemma vals_of_Cons [simp]:
  "vals_of key ((k, v) # ps) = (if k = key then v # vals_of key ps else vals_of key ps)"
  by (simp add: vals_of_def)

lemma not_misspelt [simp]: "\<not> misspelt_key ''sslmode''" "\<not> misspelt_key ''host''"
  by (simp_all add: misspelt_key_def)

lemma take_parameter_cases:
  "take_parameter ms key v (t, h) =
     (if key = ''sslmode'' then
        (case v of Some m \<Rightarrow> if \<not> t \<and> m \<in> set ms then Some (True, h) else None | None \<Rightarrow> None)
      else if key = ''host'' then
        (case v of Some x \<Rightarrow> if h = None then Some (t, Some x) else None | None \<Rightarrow> None)
      else if misspelt_key key \<or> key = ''service'' \<or> key = ''servicefile'' then None
      else Some (t, h))"
  by (cases v) (auto simp: take_parameter_def)

lemma take_parameters_iff:
  "take_parameters ms ps (t, h) = Some (t', h') \<longleftrightarrow>
     plain_keys ps \<and>
     (vals_of ''sslmode'' ps = [] \<and> t' = t \<or> \<not> t \<and> t' \<and> one_mode ms ps) \<and>
     (vals_of ''host'' ps = [] \<and> h' = h \<or> (\<exists>x. h = None \<and> h' = Some x \<and> vals_of ''host'' ps = [Some x]))"
proof (induction ps arbitrary: t h)
  case Nil
  then show ?case by (auto simp: plain_keys_def one_mode_def)
next
  case (Cons p ps)
  obtain key v where p: "p = (key, v)" by (cases p)
  show ?case
  proof (cases "key = ''sslmode''")
    case True
    then show ?thesis
      using Cons.IH by (cases v) (auto simp: p take_parameter_cases plain_keys_def one_mode_def)
  next
    case key: False
    show ?thesis
    proof (cases "key = ''host''")
      case True
      then show ?thesis
        using Cons.IH by (cases v) (auto simp: p take_parameter_cases plain_keys_def one_mode_def)
    next
      case False
      with key show ?thesis
        using Cons.IH by (auto simp: p take_parameter_cases plain_keys_def one_mode_def)
    qed
  qed
qed

lemma keyword_parameters_pairs:
  "keyword_parameters ms dsn st = Option.bind (keyword_pairs dsn) (\<lambda>ps. take_parameters ms ps st)"
proof (induction ms dsn st rule: keyword_parameters.induct)
  case (1 ms dsn st)
  show ?case
  proof (cases "dropWhile is_ascii_whitespace dsn")
    case Nil
    then show ?thesis
      by (simp add: keyword_parameters.simps [of ms dsn] keyword_pairs.simps [of dsn]
          del: dropWhile_eq_Nil_conv)
  next
    case (Cons b bs)
    show ?thesis
    proof (cases "keyword_parameter (b # bs)")
      case None
      with Cons show ?thesis
        by (simp add: keyword_parameters.simps [of ms dsn] keyword_pairs.simps [of dsn])
    next
      case (Some p)
      obtain key raw rest where p: "p = (key, raw, rest)" by (cases p)
      let ?v = "decode_keyword_value raw"
      have step: "keyword_parameters ms dsn st =
          Option.bind (take_parameter ms key ?v st) (keyword_parameters ms rest)"
        using Cons Some p
        by (simp add: keyword_parameters.simps [of ms dsn] split: option.splits)
      have pairs: "keyword_pairs dsn = map_option (Cons (key, ?v)) (keyword_pairs rest)"
        using Cons Some p by (simp add: keyword_pairs.simps [of dsn])
      show ?thesis
      proof (cases "take_parameter ms key ?v st")
        case None
        then show ?thesis by (cases "keyword_pairs rest") (simp_all add: step pairs)
      next
        case (Some st')
        have "keyword_parameters ms rest st' =
            Option.bind (keyword_pairs rest) (\<lambda>ps. take_parameters ms ps st')"
          using "1.IH" Cons \<open>keyword_parameter (b # bs) = Some p\<close> p Some by blast
        then show ?thesis by (cases "keyword_pairs rest") (simp_all add: step pairs Some)
      qed
    qed
  qed
qed

lemma uri_parameters_pairs:
  "uri_parameters ms qs st = Option.bind (uri_pairs qs) (\<lambda>ps. take_parameters ms ps st)"
proof (induction ms qs st rule: uri_parameters.induct)
  case (2 ms parameter rest st)
  obtain k v where kv: "(case split_once ''='' parameter of Some kv \<Rightarrow> kv | None \<Rightarrow> (parameter, [])) = (k, v)"
    by fastforce
  show ?case
  proof (cases "percent_decode_strict k")
    case (Some key)
    with 2 kv show ?thesis
      by (cases "take_parameter ms key (percent_decode_strict v) st"; cases "uri_pairs rest")
        (auto simp del: split_once.simps)
  qed (simp add: kv del: split_once.simps)
qed simp

section \<open>What an accepted DSN is\<close>

lemma keyword_dsn_iff:
  "postgres_keyword_dsn_uses_tcp_tls_modes dsn ms \<longleftrightarrow>
     (\<exists>ps host. keyword_pairs dsn = Some ps \<and> plain_keys ps \<and> one_mode ms ps \<and>
        vals_of ''host'' ps = [Some host] \<and> postgres_hosts_are_explicit_tcp host)"
proof (cases "keyword_pairs dsn")
  case None
  then show ?thesis
    by (simp add: postgres_keyword_dsn_uses_tcp_tls_modes_def keyword_parameters_pairs)
next
  case (Some ps)
  then have "postgres_keyword_dsn_uses_tcp_tls_modes dsn ms \<longleftrightarrow>
      (\<exists>host. take_parameters ms ps (False, None) = Some (True, Some host) \<and>
        postgres_hosts_are_explicit_tcp host)"
    by (auto simp: postgres_keyword_dsn_uses_tcp_tls_modes_def keyword_parameters_pairs is_some_and_def
        split: option.splits prod.splits)
  also have "\<dots> \<longleftrightarrow> (\<exists>host. plain_keys ps \<and> one_mode ms ps \<and> vals_of ''host'' ps = [Some host] \<and>
      postgres_hosts_are_explicit_tcp host)"
    by (auto simp: take_parameters_iff)
  finally show ?thesis using Some by auto
qed

text \<open>The host a URI connects to: the override if there is one, the authority's otherwise.\<close>

definition uri_host :: "string \<Rightarrow> (string \<times> string option) list \<Rightarrow> string option" where
  "uri_host authority_host ps =
     (case vals_of ''host'' ps of
        [] \<Rightarrow> if authority_host = [] then None else Some authority_host
      | [Some h] \<Rightarrow> Some h
      | _ \<Rightarrow> None)"

lemma uri_dsn_iff:
  "postgres_uri_uses_tcp_tls_modes dsn ms \<longleftrightarrow>
     (\<exists>uri location query authority_host ps host.
        strip_scheme dsn = Some uri \<and>
        list_all (\<lambda>b. \<not> is_ascii_whitespace b \<and> \<not> is_ascii_control b) dsn \<and> CHR ''#'' \<notin> set uri \<and>
        split_once ''?'' uri = Some (location, query) \<and>
        postgres_uri_authority_host (takeWhile (\<lambda>c. c \<noteq> CHR ''/'') location) = Some authority_host \<and>
        uri_pairs (split_on CHR ''&'' query) = Some ps \<and> plain_keys ps \<and> one_mode ms ps \<and>
        uri_host authority_host ps = Some host \<and> postgres_hosts_are_explicit_tcp host)"
    (is "?lhs \<longleftrightarrow> ?rhs")
proof -
  have fold: "(case uri_parameters ms (split_on CHR ''&'' query) (False, None) of
                 None \<Rightarrow> False
               | Some (tls_mode, host_override) \<Rightarrow>
                   tls_mode \<and>
                   (case host_override of
                      Some host \<Rightarrow> postgres_hosts_are_explicit_tcp host
                    | None \<Rightarrow> authority_host \<noteq> [] \<and> postgres_hosts_are_explicit_tcp authority_host)) \<longleftrightarrow>
      (\<exists>ps host. uri_pairs (split_on CHR ''&'' query) = Some ps \<and> plain_keys ps \<and> one_mode ms ps \<and>
        uri_host authority_host ps = Some host \<and> postgres_hosts_are_explicit_tcp host)"
    for query authority_host
  proof (cases "uri_pairs (split_on CHR ''&'' query)")
    case (Some ps)
    have host: "(case ov of Some host \<Rightarrow> postgres_hosts_are_explicit_tcp host
          | None \<Rightarrow> authority_host \<noteq> [] \<and> postgres_hosts_are_explicit_tcp authority_host) \<longleftrightarrow>
        (\<exists>host. uri_host authority_host ps = Some host \<and> postgres_hosts_are_explicit_tcp host)"
      if "vals_of ''host'' ps = [] \<and> ov = None \<or> (\<exists>x. ov = Some x \<and> vals_of ''host'' ps = [Some x])" for ov
      using that by (auto simp: uri_host_def)
    show ?thesis
    proof (cases "take_parameters ms ps (False, None)")
      case None
      have "\<not> (plain_keys ps \<and> one_mode ms ps \<and> uri_host authority_host ps \<noteq> None)"
      proof
        assume a: "plain_keys ps \<and> one_mode ms ps \<and> uri_host authority_host ps \<noteq> None"
        then have "vals_of ''host'' ps = [] \<or> (\<exists>x. vals_of ''host'' ps = [Some x])"
          by (auto simp: uri_host_def split: list.splits option.splits if_splits)
        then have "\<exists>h'. take_parameters ms ps (False, None) = Some (True, h')"
          using a by (auto simp: take_parameters_iff)
        with None show False by simp
      qed
      then show ?thesis by (auto simp: uri_parameters_pairs Some None)
    next
      case st: (Some st)
      obtain t' ov where t': "st = (t', ov)" by (cases st)
      from st [unfolded t' take_parameters_iff]
      have f: "plain_keys ps" "t' \<longleftrightarrow> one_mode ms ps"
        "vals_of ''host'' ps = [] \<and> ov = None \<or> (\<exists>x. ov = Some x \<and> vals_of ''host'' ps = [Some x])"
        by (auto simp: one_mode_def)
      show ?thesis using host [OF f(3)] f(1,2) by (simp add: uri_parameters_pairs Some st t')
    qed
  qed (simp add: uri_parameters_pairs)
  have clean: "list_ex (\<lambda>b. is_ascii_whitespace b \<or> is_ascii_control b) dsn \<longleftrightarrow>
      \<not> list_all (\<lambda>b. \<not> is_ascii_whitespace b \<and> \<not> is_ascii_control b) dsn"
    by (simp add: list_ex_iff list_all_iff)
  show ?thesis
    unfolding postgres_uri_uses_tcp_tls_modes_def fold clean
    by (cases "strip_scheme dsn") (auto simp del: split_once_char_None split: option.splits prod.splits)
qed

text \<open>Every mode of a hardened DSN is an encrypted one.\<close>

lemma one_mode_mono: "set ms \<subseteq> set ms' \<Longrightarrow> one_mode ms ps \<Longrightarrow> one_mode ms' ps"
  by (auto simp: one_mode_def)

lemma dsn_modes_mono:
  assumes "set ms \<subseteq> set ms'" "postgres_dsn_uses_tcp_tls_modes dsn ms"
  shows "postgres_dsn_uses_tcp_tls_modes dsn ms'"
  using assms(2) one_mode_mono [OF assms(1)]
  unfolding postgres_dsn_uses_tcp_tls_modes_def uri_dsn_iff keyword_dsn_iff
  by (simp split: if_splits; blast)

lemma hardened_is_encrypted:
  "postgres_dsn_uses_hardened_tcp_tls dsn \<Longrightarrow> postgres_dsn_requires_encrypted_tcp_tls dsn"
  unfolding postgres_dsn_uses_hardened_tcp_tls_def postgres_dsn_requires_encrypted_tcp_tls_def
  by (erule dsn_modes_mono [rotated]) simp

text \<open>C17:
  A PostgreSQL connection string counts as hardened exactly when its whole parameter list parses, no
  checked key is misspelt and no service file is named, sslmode is given once and is verify-full,
  and the one host that is in force is an explicit TCP host: a later parameter, another spelling or an
  escaped key cannot weaken it. The index loops of the code decide just this on the list of parameters.\<close>

theorem hardened_dsn_iff:
  "postgres_dsn_uses_hardened_tcp_tls dsn \<longleftrightarrow>
     (if postgres_dsn_uses_uri_syntax dsn
      then \<exists>uri location query authority_host ps host.
        strip_scheme dsn = Some uri \<and>
        list_all (\<lambda>b. \<not> is_ascii_whitespace b \<and> \<not> is_ascii_control b) dsn \<and> CHR ''#'' \<notin> set uri \<and>
        split_once ''?'' uri = Some (location, query) \<and>
        postgres_uri_authority_host (takeWhile (\<lambda>c. c \<noteq> CHR ''/'') location) = Some authority_host \<and>
        uri_pairs (split_on CHR ''&'' query) = Some ps \<and> plain_keys ps \<and>
        vals_of ''sslmode'' ps = [Some ''verify-full''] \<and>
        uri_host authority_host ps = Some host \<and> postgres_hosts_are_explicit_tcp host
      else \<not> postgres_dsn_has_unsupported_uri_like_prefix dsn \<and>
        (\<exists>ps host. keyword_pairs dsn = Some ps \<and> plain_keys ps \<and>
           vals_of ''sslmode'' ps = [Some ''verify-full''] \<and>
           vals_of ''host'' ps = [Some host] \<and> postgres_hosts_are_explicit_tcp host))"
  by (simp add: postgres_dsn_uses_hardened_tcp_tls_def postgres_dsn_uses_tcp_tls_modes_def
      uri_dsn_iff keyword_dsn_iff one_mode_def)

section \<open>Credentials that look like parameters\<close>

text \<open>
  The MySQL parser takes its parameters from the first question mark of the whole string, which may stand
  in the password: here the driver sees no parameter at all, and the string is classified as verified.
\<close>

lemma mysql_password_parameters:
  "mysql_dsn_tcp_tls_mode ''user:p?tls=true&x@tcp(db:3306)/app'' = Some MySqlDsnTlsMode_Verified \<and>
   rsplit_once CHR ''@'' ''user:p?tls=true&x@tcp(db:3306)/app'' = Some (''user:p?tls=true&x'', ''tcp(db:3306)/app'') \<and>
   CHR ''?'' \<notin> set ''tcp(db:3306)/app''"
  by code_simp

end
