(* ===== verification/Bao_Database.thy ===== *)
theory Bao_Database
  imports Bao_Dsn
begin

text \<open>
  The database engine, \<open>secrets/database.rs\<close>: connections, roles and credentials. The checks of the
  connection strings are those of \<open>Bao_Dsn\<close>. \<open>insecure_database_tls\<close> says whether the cargo feature
  \<open>insecure-database-tls-acknowledged\<close> is on.
\<close>

section \<open>Data and requests\<close>

record postgre_sql_connection_options =
  postgre_sql_connection_options_connection_url :: string
  postgre_sql_connection_options_username :: "string option"
  postgre_sql_connection_options_password :: "string option"
  postgre_sql_connection_options_max_open_connections :: "32 word option"
  postgre_sql_connection_options_max_idle_connections :: "int option"
  postgre_sql_connection_options_max_connection_lifetime :: "string option"
  postgre_sql_connection_options_username_template :: "string option"
  postgre_sql_connection_options_disable_escaping :: "bool option"
  postgre_sql_connection_options_password_authentication :: "string option"

datatype my_sql_plugin =
    MySqlPlugin_MySql | MySqlPlugin_Aurora | MySqlPlugin_Rds | MySqlPlugin_Legacy

record my_sql_connection_options =
  my_sql_connection_options_plugin :: my_sql_plugin
  my_sql_connection_options_connection_url :: string
  my_sql_connection_options_username :: "string option"
  my_sql_connection_options_password :: "string option"
  my_sql_connection_options_max_open_connections :: "32 word option"
  my_sql_connection_options_max_idle_connections :: "int option"
  my_sql_connection_options_max_connection_lifetime :: "string option"
  my_sql_connection_options_tls_certificate_key :: "string option"
  my_sql_connection_options_tls_ca :: "string option"
  my_sql_connection_options_tls_server_name :: "string option"
  my_sql_connection_options_tls_skip_verify :: "bool option"
  my_sql_connection_options_username_template :: "string option"
  my_sql_connection_options_disable_escaping :: "bool option"

record cassandra_connection_options =
  cassandra_connection_options_hosts :: string
  cassandra_connection_options_username :: string
  cassandra_connection_options_password :: string
  cassandra_connection_options_port :: "16 word option"
  cassandra_connection_options_tls :: "bool option"
  cassandra_connection_options_insecure_tls :: "bool option"
  cassandra_connection_options_tls_server_name :: "string option"
  cassandra_connection_options_pem_bundle :: "string option"
  cassandra_connection_options_pem_json :: "string option"
  cassandra_connection_options_skip_verification :: "bool option"
  cassandra_connection_options_protocol_version :: "8 word option"
  cassandra_connection_options_connect_timeout :: "string option"
  cassandra_connection_options_local_datacenter :: "string option"
  cassandra_connection_options_socket_keep_alive :: "string option"
  cassandra_connection_options_consistency :: "string option"
  cassandra_connection_options_username_template :: "string option"

record influx_db_connection_options =
  influx_db_connection_options_host :: string
  influx_db_connection_options_username :: string
  influx_db_connection_options_password :: string
  influx_db_connection_options_port :: "16 word option"
  influx_db_connection_options_tls :: "bool option"
  influx_db_connection_options_insecure_tls :: "bool option"
  influx_db_connection_options_pem_bundle :: "string option"
  influx_db_connection_options_pem_json :: "string option"
  influx_db_connection_options_connect_timeout :: "string option"
  influx_db_connection_options_username_template :: "string option"

record valkey_connection_options =
  valkey_connection_options_host :: string
  valkey_connection_options_port :: "16 word"
  valkey_connection_options_username :: string
  valkey_connection_options_password :: string
  valkey_connection_options_tls :: "bool option"
  valkey_connection_options_insecure_tls :: "bool option"

datatype database_builtin_connection_config =
    DatabaseBuiltinConnectionConfig_PostgreSql postgre_sql_connection_options
  | DatabaseBuiltinConnectionConfig_MySql my_sql_connection_options
  | DatabaseBuiltinConnectionConfig_Cassandra cassandra_connection_options
  | DatabaseBuiltinConnectionConfig_InfluxDb influx_db_connection_options
  | DatabaseBuiltinConnectionConfig_Valkey valkey_connection_options

record database_connection_config =
  database_connection_config_plugin_name :: string
  database_connection_config_plugin_version :: "string option"
  database_connection_config_verify_connection :: "bool option"
  database_connection_config_allowed_roles :: "string list"
  database_connection_config_root_rotation_statements :: "string list"
  database_connection_config_password_policy :: "string option"
  database_connection_config_connection_url :: "string option"
  database_connection_config_username :: "string option"
  database_connection_config_password :: "string option"
  database_connection_config_disable_escaping :: "bool option"
  database_connection_config_extra :: "(string \<times> string) list"
  database_connection_config_builtin_options :: "database_builtin_connection_config option"

definition database_connection_config_default :: database_connection_config where
  "database_connection_config_default =
     \<lparr>database_connection_config_plugin_name = [],
       database_connection_config_plugin_version = None,
       database_connection_config_verify_connection = None,
       database_connection_config_allowed_roles = [],
       database_connection_config_root_rotation_statements = [],
       database_connection_config_password_policy = None,
       database_connection_config_connection_url = None, database_connection_config_username =
       None, database_connection_config_password = None,
       database_connection_config_disable_escaping = None, database_connection_config_extra =
       [], database_connection_config_builtin_options = None\<rparr>"

definition database_connection_config_new :: "string \<Rightarrow> database_connection_config" where
  "database_connection_config_new plugin_name =
     database_connection_config_default\<lparr>database_connection_config_plugin_name :=
       plugin_name\<rparr>"

definition my_sql_plugin_plugin_name :: "my_sql_plugin \<Rightarrow> string" where
  "my_sql_plugin_plugin_name self =
     (case self of
        MySqlPlugin_MySql \<Rightarrow> ''mysql-database-plugin''
      | MySqlPlugin_Aurora \<Rightarrow> ''mysql-aurora-database-plugin''
      | MySqlPlugin_Rds \<Rightarrow> ''mysql-rds-database-plugin''
      | MySqlPlugin_Legacy \<Rightarrow> ''mysql-legacy-database-plugin'')"

definition database_builtin_connection_config_plugin_name ::
  "database_builtin_connection_config \<Rightarrow> string" where
  "database_builtin_connection_config_plugin_name self =
     (case self of
        DatabaseBuiltinConnectionConfig_PostgreSql _ \<Rightarrow>
          ''postgresql-database-plugin''
      | DatabaseBuiltinConnectionConfig_MySql opts \<Rightarrow> my_sql_plugin_plugin_name
        (my_sql_connection_options_plugin opts)
      | DatabaseBuiltinConnectionConfig_Cassandra _ \<Rightarrow> ''cassandra-database-plugin''
      | DatabaseBuiltinConnectionConfig_InfluxDb _ \<Rightarrow> ''influxdb-database-plugin''
      | DatabaseBuiltinConnectionConfig_Valkey _ \<Rightarrow> ''valkey-database-plugin'')"

definition database_connection_config_builtin ::
  "database_builtin_connection_config \<Rightarrow> database_connection_config" where
  "database_connection_config_builtin opts =
     database_connection_config_default\<lparr>database_connection_config_plugin_name :=
       database_builtin_connection_config_plugin_name opts,
       database_connection_config_builtin_options := Some opts\<rparr>"

definition REVIEWED_BUILTIN_DATABASE_PLUGINS :: "string list" where
  "REVIEWED_BUILTIN_DATABASE_PLUGINS = [''postgresql-database-plugin'', ''mysql-database-plugin'', ''mysql-aurora-database-plugin'', ''mysql-rds-database-plugin'', ''mysql-legacy-database-plugin'', ''cassandra-database-plugin'', ''influxdb-database-plugin'', ''valkey-database-plugin'']"

record database_transport_security =
  database_transport_security_encrypted :: bool
  database_transport_security_peer_verified :: bool

definition database_mysql_transport_security ::
  "my_sql_connection_options \<Rightarrow> database_transport_security" where
  "database_mysql_transport_security opts =
     (let dsn_tls = mysql_dsn_tcp_tls_mode (my_sql_connection_options_connection_url opts) in
     let configured_ca = is_some_and (\<lambda>certificate. \<not> (trim certificate = []))
       (my_sql_connection_options_tls_ca opts) in
     let encrypted = configured_ca \<or> dsn_tls \<noteq> None in
     let peer_verified = encrypted \<and> my_sql_connection_options_tls_skip_verify opts
       \<noteq> Some True \<and> (configured_ca \<or> dsn_tls = Some MySqlDsnTlsMode_Verified)
       in
     \<lparr>database_transport_security_encrypted = encrypted,
       database_transport_security_peer_verified = peer_verified\<rparr>)"

definition database_builtin_connection_config_transport_security ::
  "database_builtin_connection_config \<Rightarrow> database_transport_security" where
  "database_builtin_connection_config_transport_security self =
     (case self of
        DatabaseBuiltinConnectionConfig_PostgreSql opts \<Rightarrow> let dsn =
          postgre_sql_connection_options_connection_url opts in
        \<lparr>database_transport_security_encrypted = postgres_dsn_requires_encrypted_tcp_tls dsn,
          database_transport_security_peer_verified = postgres_dsn_uses_hardened_tcp_tls dsn\<rparr>
      | DatabaseBuiltinConnectionConfig_MySql opts \<Rightarrow>
        database_mysql_transport_security opts
      | DatabaseBuiltinConnectionConfig_Cassandra opts \<Rightarrow>
        \<lparr>database_transport_security_encrypted = cassandra_connection_options_tls opts \<noteq> Some False,
        database_transport_security_peer_verified = cassandra_connection_options_tls opts
        \<noteq> Some False \<and> cassandra_connection_options_insecure_tls opts \<noteq> Some
        True\<rparr>
      | DatabaseBuiltinConnectionConfig_InfluxDb opts \<Rightarrow>
        \<lparr>database_transport_security_encrypted = influx_db_connection_options_tls opts \<noteq> Some False,
        database_transport_security_peer_verified = influx_db_connection_options_tls opts
        \<noteq> Some False \<and> influx_db_connection_options_insecure_tls opts \<noteq> Some
        True\<rparr>
      | DatabaseBuiltinConnectionConfig_Valkey opts \<Rightarrow>
        \<lparr>database_transport_security_encrypted = valkey_connection_options_tls opts = Some True,
        database_transport_security_peer_verified = valkey_connection_options_tls opts = Some
        True \<and> valkey_connection_options_insecure_tls opts \<noteq> Some True\<rparr>)"

definition database_validate_optional_database_duration ::
  "string option \<Rightarrow> string \<Rightarrow> unit res" where
  "database_validate_optional_database_duration val_v field =
     (case val_v of
        None \<Rightarrow> Inr ()
      | Some val_v \<Rightarrow> validate_duration_parameter val_v field)"

definition database_connection_config_validate ::
  "bool \<Rightarrow> database_connection_config \<Rightarrow> unit res" where
  "database_connection_config_validate insecure_database_tls self =
     (if trim (database_connection_config_plugin_name self) = [] then Inl (InvalidParameter
       ''database plugin_name must not be empty'')
        else (if database_connection_config_builtin_options self = None \<and>
          (database_connection_config_plugin_name self) \<in> set
          REVIEWED_BUILTIN_DATABASE_PLUGINS then Inl (InvalidParameter
          ''reviewed built-in database plugins require DatabaseConnectionConfig::builtin'')
           else (if MAX_RESPONSE_STRINGS < length (database_connection_config_allowed_roles
             self) \<or> MAX_RESPONSE_STRINGS < length
             (database_connection_config_root_rotation_statements self) \<or>
             MAX_RESPONSE_STRINGS < length (database_connection_config_extra self) then Inl
             (InvalidParameter ''database connection configuration exceeds item limit'')
              else let required = (\<lambda>val_v field. (if trim val_v = [] then Inl
                (InvalidParameter (field @ '' must not be empty''))
                 else Inr ())) in
              let transport_security = map_option
                database_builtin_connection_config_transport_security
                (database_connection_config_builtin_options self) in
              (if is_some_and (\<lambda>security. \<not> (database_transport_security_encrypted
                security)) transport_security then Inl (InvalidParameter
                ''reviewed built-in database plugins require encrypted TCP transport'')
                 else let lacks_peer_verification = is_some_and (\<lambda>security. \<not>
                   (database_transport_security_peer_verified security)) transport_security in
                 (if \<not> insecure_database_tls \<and> lacks_peer_verification then Inl
                   (InvalidParameter
                   ''database TLS verification bypass requires the insecure-database-tls-acknowledged Cargo feature'')
                    else (case database_connection_config_builtin_options self of
                       Some (DatabaseBuiltinConnectionConfig_PostgreSql opts) \<Rightarrow>
                         rbind (required (postgre_sql_connection_options_connection_url opts)
                         ''PostgreSQL connection_url'') (\<lambda>_.
                       database_validate_optional_database_duration
                         (postgre_sql_connection_options_max_connection_lifetime opts)
                         ''PostgreSQL max_connection_lifetime'')
                     | Some (DatabaseBuiltinConnectionConfig_MySql opts) \<Rightarrow> rbind
                       (required (my_sql_connection_options_connection_url opts)
                       ''MySQL connection_url'') (\<lambda>_.
                       database_validate_optional_database_duration
                         (my_sql_connection_options_max_connection_lifetime opts)
                         ''MySQL max_connection_lifetime'')
                     | Some (DatabaseBuiltinConnectionConfig_Cassandra opts) \<Rightarrow>
                       rbind (required (cassandra_connection_options_hosts opts)
                       ''Cassandra hosts'') (\<lambda>_.
                       rbind (required (cassandra_connection_options_username opts)
                         ''Cassandra username'') (\<lambda>_.
                       rbind (required (cassandra_connection_options_password opts)
                         ''Cassandra password'') (\<lambda>_.
                       (if cassandra_connection_options_port opts = Some 0 \<or>
                         cassandra_connection_options_protocol_version opts = Some 0 then Inl
                         (InvalidParameter
                         ''Cassandra port and protocol_version must be non-zero'')
                          else (if cassandra_connection_options_pem_bundle opts \<noteq> None
                            \<and> cassandra_connection_options_pem_json opts \<noteq> None
                            then Inl (InvalidParameter
                            ''Cassandra pem_bundle and pem_json are mutually exclusive'')
                             else (if cassandra_connection_options_insecure_tls opts = Some
                               True \<and> cassandra_connection_options_tls opts = Some False
                               then Inl (InvalidParameter
                               ''Cassandra insecure_tls conflicts with tls=false'')
                             else rbind (database_validate_optional_database_duration
                               (cassandra_connection_options_connect_timeout opts)
                               ''Cassandra connect_timeout'') (\<lambda>_.
                             database_validate_optional_database_duration
                               (cassandra_connection_options_socket_keep_alive opts)
                               ''Cassandra socket_keep_alive'')))))))
                     | Some (DatabaseBuiltinConnectionConfig_InfluxDb opts) \<Rightarrow> rbind
                       (required (influx_db_connection_options_host opts) ''InfluxDB host'')
                       (\<lambda>_.
                       rbind (required (influx_db_connection_options_username opts)
                         ''InfluxDB username'') (\<lambda>_.
                       rbind (required (influx_db_connection_options_password opts)
                         ''InfluxDB password'') (\<lambda>_.
                       (if influx_db_connection_options_port opts = Some 0 then Inl
                         (InvalidParameter ''InfluxDB port must be non-zero'')
                          else (if influx_db_connection_options_pem_bundle opts \<noteq> None
                            \<and> influx_db_connection_options_pem_json opts \<noteq> None
                            then Inl (InvalidParameter
                            ''InfluxDB pem_bundle and pem_json are mutually exclusive'')
                             else (if influx_db_connection_options_insecure_tls opts = Some
                               True \<and> influx_db_connection_options_tls opts = Some False
                               then Inl (InvalidParameter
                               ''InfluxDB insecure_tls conflicts with tls=false'')
                             else database_validate_optional_database_duration
                               (influx_db_connection_options_connect_timeout opts)
                               ''InfluxDB connect_timeout''))))))
                     | Some (DatabaseBuiltinConnectionConfig_Valkey opts) \<Rightarrow> rbind
                       (required (valkey_connection_options_host opts) ''Valkey host'')
                       (\<lambda>_.
                       rbind (required (valkey_connection_options_username opts)
                         ''Valkey username'') (\<lambda>_.
                       rbind (required (valkey_connection_options_password opts)
                         ''Valkey password'') (\<lambda>_.
                       (if valkey_connection_options_port opts = 0 then Inl (InvalidParameter
                         ''Valkey port must be non-zero'')
                          else (if valkey_connection_options_insecure_tls opts = Some True
                            \<and> valkey_connection_options_tls opts = Some False then Inl
                            (InvalidParameter ''Valkey insecure_tls conflicts with tls=false'')
                             else Inr ())))))
                     | None \<Rightarrow> Inr ()))))))"

definition postgre_sql_connection_options_default :: postgre_sql_connection_options where
  "postgre_sql_connection_options_default =
     \<lparr>postgre_sql_connection_options_connection_url = [],
       postgre_sql_connection_options_username = None, postgre_sql_connection_options_password
       = None, postgre_sql_connection_options_max_open_connections = None,
       postgre_sql_connection_options_max_idle_connections = None,
       postgre_sql_connection_options_max_connection_lifetime = None,
       postgre_sql_connection_options_username_template = None,
       postgre_sql_connection_options_disable_escaping = None,
       postgre_sql_connection_options_password_authentication = None\<rparr>"

definition postgre_sql_connection_options_new ::
  "string \<Rightarrow> postgre_sql_connection_options" where
  "postgre_sql_connection_options_new connection_url =
     postgre_sql_connection_options_default\<lparr>postgre_sql_connection_options_connection_url
       := connection_url\<rparr>"

definition my_sql_connection_options_new ::
  "my_sql_plugin \<Rightarrow> string \<Rightarrow> my_sql_connection_options" where
  "my_sql_connection_options_new plugin connection_url =
     \<lparr>my_sql_connection_options_plugin = plugin,
       my_sql_connection_options_connection_url = connection_url,
       my_sql_connection_options_username = None, my_sql_connection_options_password = None,
       my_sql_connection_options_max_open_connections = None,
       my_sql_connection_options_max_idle_connections = None,
       my_sql_connection_options_max_connection_lifetime = None,
       my_sql_connection_options_tls_certificate_key = None,
       my_sql_connection_options_tls_ca = None,
       my_sql_connection_options_tls_server_name = None,
       my_sql_connection_options_tls_skip_verify = None,
       my_sql_connection_options_username_template = None,
       my_sql_connection_options_disable_escaping = None\<rparr>"

definition cassandra_connection_options_default :: cassandra_connection_options where
  "cassandra_connection_options_default =
     \<lparr>cassandra_connection_options_hosts = [], cassandra_connection_options_username =
       [], cassandra_connection_options_password = [], cassandra_connection_options_port =
       None, cassandra_connection_options_tls = None, cassandra_connection_options_insecure_tls
       = None, cassandra_connection_options_tls_server_name = None,
       cassandra_connection_options_pem_bundle = None, cassandra_connection_options_pem_json =
       None, cassandra_connection_options_skip_verification = None,
       cassandra_connection_options_protocol_version = None,
       cassandra_connection_options_connect_timeout = None,
       cassandra_connection_options_local_datacenter = None,
       cassandra_connection_options_socket_keep_alive = None,
       cassandra_connection_options_consistency = None,
       cassandra_connection_options_username_template = None\<rparr>"

definition cassandra_connection_options_new ::
  "string \<Rightarrow> string \<Rightarrow> string \<Rightarrow>
   cassandra_connection_options" where
  "cassandra_connection_options_new hosts username password =
     cassandra_connection_options_default\<lparr>cassandra_connection_options_hosts := hosts,
       cassandra_connection_options_username := username, cassandra_connection_options_password
       := password\<rparr>"

definition influx_db_connection_options_default :: influx_db_connection_options where
  "influx_db_connection_options_default =
     \<lparr>influx_db_connection_options_host = [], influx_db_connection_options_username =
       [], influx_db_connection_options_password = [], influx_db_connection_options_port =
       None, influx_db_connection_options_tls = None, influx_db_connection_options_insecure_tls
       = None, influx_db_connection_options_pem_bundle = None,
       influx_db_connection_options_pem_json = None,
       influx_db_connection_options_connect_timeout = None,
       influx_db_connection_options_username_template = None\<rparr>"

definition influx_db_connection_options_new ::
  "string \<Rightarrow> string \<Rightarrow> string \<Rightarrow>
   influx_db_connection_options" where
  "influx_db_connection_options_new host username password =
     influx_db_connection_options_default\<lparr>influx_db_connection_options_host := host,
       influx_db_connection_options_username := username, influx_db_connection_options_password
       := password\<rparr>"

definition valkey_connection_options_new ::
  "string \<Rightarrow> 16 word \<Rightarrow> string \<Rightarrow> string \<Rightarrow>
   valkey_connection_options" where
  "valkey_connection_options_new host port username password =
     \<lparr>valkey_connection_options_host = host, valkey_connection_options_port = port,
       valkey_connection_options_username = username,
       valkey_connection_options_password = password,
       valkey_connection_options_tls = Some True,
       valkey_connection_options_insecure_tls = None\<rparr>"

record database_credential_config =
  database_credential_config_values :: "(string \<times> string) list"

definition database_credential_config_new :: database_credential_config where
  "database_credential_config_new = \<lparr>database_credential_config_values = []\<rparr>"

definition database_credential_config_len :: "database_credential_config \<Rightarrow> nat" where
  "database_credential_config_len self = length (database_credential_config_values self)"

definition database_credential_config_is_empty ::
  "database_credential_config \<Rightarrow> bool" where
  "database_credential_config_is_empty self \<longleftrightarrow>
     database_credential_config_values self = []"

definition database_credential_config_get ::
  "database_credential_config \<Rightarrow> string \<Rightarrow> string option" where
  "database_credential_config_get self key =
     map_of (database_credential_config_values self) key"

definition database_credential_config_iter ::
  "database_credential_config \<Rightarrow> (string \<times> string) list" where
  "database_credential_config_iter self = database_credential_config_values self"

definition database_credential_config_into_inner ::
  "database_credential_config \<Rightarrow> (string \<times> string) list" where
  "database_credential_config_into_inner self = database_credential_config_values self"

record database_role =
  database_role_db_name :: string
  database_role_creation_statements :: "string list"
  database_role_default_ttl :: "string option"
  database_role_max_ttl :: "string option"
  database_role_revocation_statements :: "string list"
  database_role_rollback_statements :: "string list"
  database_role_renew_statements :: "string list"
  database_role_credential_type :: "string option"
  database_role_credential_config :: database_credential_config

definition database_credential_config_default :: database_credential_config where
  "database_credential_config_default = \<lparr>database_credential_config_values = []\<rparr>"

definition database_role_default :: database_role where
  "database_role_default =
     \<lparr>database_role_db_name = [], database_role_creation_statements = [],
       database_role_default_ttl = None, database_role_max_ttl = None,
       database_role_revocation_statements = [], database_role_rollback_statements = [],
       database_role_renew_statements = [], database_role_credential_type = None,
       database_role_credential_config = database_credential_config_default\<rparr>"

definition database_role_new :: "string \<Rightarrow> database_role" where
  "database_role_new db_name =
     database_role_default\<lparr>database_role_db_name := db_name\<rparr>"

definition database_role_with_creation_statement ::
  "database_role \<Rightarrow> string \<Rightarrow> database_role" where
  "database_role_with_creation_statement self statement =
     self\<lparr>database_role_creation_statements := database_role_creation_statements self @
       [statement]\<rparr>"

record database_static_role =
  database_static_role_db_name :: string
  database_static_role_username :: string
  database_static_role_rotation_period :: "string option"
  database_static_role_rotation_statements :: "string list"
  database_static_role_credential_type :: "string option"
  database_static_role_credential_config :: database_credential_config

definition database_static_role_default :: database_static_role where
  "database_static_role_default =
     \<lparr>database_static_role_db_name = [], database_static_role_username = [],
       database_static_role_rotation_period = None, database_static_role_rotation_statements =
       [], database_static_role_credential_type = None, database_static_role_credential_config
       = database_credential_config_default\<rparr>"

definition database_static_role_new ::
  "string \<Rightarrow> string \<Rightarrow> database_static_role" where
  "database_static_role_new db_name username =
     database_static_role_default\<lparr>database_static_role_db_name := db_name,
       database_static_role_username := username\<rparr>"

section \<open>Operations\<close>

definition client_database :: "string \<Rightarrow> string list res" where
  "client_database mount = validate_mount_path mount"

definition database_request ::
  "http_env \<Rightarrow> client \<Rightarrow> (string \<Rightarrow> 'a option) \<Rightarrow>
   string list \<Rightarrow> string \<Rightarrow> string \<Rightarrow>
   payload option \<Rightarrow> 'a sent" where
  "database_request env cl from_json mount verb path body_v =
     request_secret_json_internal env cl from_json ''/database/'' ''database'' (join_with ''/''
       mount) verb path body_v"

definition database_path :: "string list \<Rightarrow> string list \<Rightarrow> string res" where
  "database_path mount tail =
     (let segments = mount in
     rbind (rfold (\<lambda>segment segments. rbind (validate_endpoint_path segment)
       (\<lambda>p.
     let segments = segments @ p in
     Inr segments)) tail segments) (\<lambda>segments.
     Inr (join_with ''/'' segments)))"

definition database_configure_connection ::
  "http_env \<Rightarrow> client \<Rightarrow>
   (string \<Rightarrow> unit option) \<Rightarrow>
   (database_connection_config \<Rightarrow> payload) \<Rightarrow> string list \<Rightarrow>
   bool \<Rightarrow> string \<Rightarrow> database_connection_config \<Rightarrow> unit sent" where
  "database_configure_connection env cl from_json to_json mount insecure_database_tls name
    config =
     sbind (pure (database_connection_config_validate insecure_database_tls config))
       (\<lambda>_.
     sbind (pure (database_path mount [''config'', name])) (\<lambda>p.
     database_request env cl from_json mount ''POST'' p (Some (to_json config))))"

definition database_read_connection ::
  "http_env \<Rightarrow> client \<Rightarrow>
   (string \<Rightarrow> 'a response_envelope option) \<Rightarrow> string list \<Rightarrow>
   string \<Rightarrow> 'a sent" where
  "database_read_connection env cl from_json mount name =
     sbind (pure (database_path mount [''config'', name])) (\<lambda>p.
     smap env_data (database_request env cl from_json mount ''GET'' p None))"

definition database_request_query ::
  "http_env \<Rightarrow> client \<Rightarrow> (string \<Rightarrow> 'a option) \<Rightarrow>
   string list \<Rightarrow> string \<Rightarrow> string \<Rightarrow>
   (string \<times> string) list \<Rightarrow> payload option \<Rightarrow>
   nat list \<Rightarrow> 'a sent" where
  "database_request_query env cl from_json mount verb path query body_v accepted_statuses =
     request_secret_json_query_headers_accepting env cl from_json ''/database/'' ''database''
       (join_with ''/'' mount) verb path query [] body_v accepted_statuses"

definition database_list_at ::
  "http_env \<Rightarrow> client \<Rightarrow>
   (string \<Rightarrow> 'a response_envelope option) \<Rightarrow> string list \<Rightarrow>
   string \<Rightarrow> string option \<Rightarrow> 64 word option \<Rightarrow> 'a sent" where
  "database_list_at env cl from_json mount segment after limit =
     sbind (pure (from_after_limit after limit)) (\<lambda>v.
     let query = query_pairs v in
     sbind (pure (database_path mount [segment])) (\<lambda>p.
     smap env_data (database_request_query env cl from_json mount ''LIST'' p query None
       [200])))"

definition database_list_connections ::
  "http_env \<Rightarrow> client \<Rightarrow>
   (string \<Rightarrow> 'a response_envelope option) \<Rightarrow> string list \<Rightarrow>
   'a sent" where
  "database_list_connections env cl from_json mount =
     database_list_at env cl from_json mount ''config'' None None"

definition database_request_accepting ::
  "http_env \<Rightarrow> client \<Rightarrow> (string \<Rightarrow> 'a option) \<Rightarrow>
   string list \<Rightarrow> string \<Rightarrow> string \<Rightarrow>
   payload option \<Rightarrow> nat list \<Rightarrow> 'a sent" where
  "database_request_accepting env cl from_json mount verb path body_v accepted_statuses =
     request_secret_json_accepting env cl from_json ''/database/'' ''database'' (join_with
       ''/'' mount) verb path body_v accepted_statuses"

definition database_delete_at ::
  "http_env \<Rightarrow> client \<Rightarrow>
   (string \<Rightarrow> unit option) \<Rightarrow> string list \<Rightarrow>
   string \<Rightarrow> string \<Rightarrow> unit sent" where
  "database_delete_at env cl from_json mount segment name =
     sbind (pure (database_path mount [segment, name])) (\<lambda>p.
     database_request_accepting env cl from_json mount ''DELETE'' p None [200, 204])"

definition database_delete_connection ::
  "http_env \<Rightarrow> client \<Rightarrow>
   (string \<Rightarrow> unit option) \<Rightarrow> string list \<Rightarrow>
   string \<Rightarrow> unit sent" where
  "database_delete_connection env cl from_json mount name =
     database_delete_at env cl from_json mount ''config'' name"

definition database_reset_connection ::
  "http_env \<Rightarrow> client \<Rightarrow>
   (string \<Rightarrow> unit option) \<Rightarrow>
   (unit \<Rightarrow> payload) \<Rightarrow> string list \<Rightarrow> string \<Rightarrow>
   unit sent" where
  "database_reset_connection env cl from_json to_json mount name =
     sbind (pure (database_path mount [''reset'', name])) (\<lambda>p.
     database_request env cl from_json mount ''POST'' p (Some (to_json ())))"

definition database_rotate_root ::
  "http_env \<Rightarrow> client \<Rightarrow>
   (string \<Rightarrow> unit option) \<Rightarrow>
   (unit \<Rightarrow> payload) \<Rightarrow> string list \<Rightarrow> string \<Rightarrow>
   unit sent" where
  "database_rotate_root env cl from_json to_json mount name =
     sbind (pure (database_path mount [''rotate-root'', name])) (\<lambda>p.
     database_request env cl from_json mount ''POST'' p (Some (to_json ())))"

definition database_write_role ::
  "http_env \<Rightarrow> client \<Rightarrow>
   (string \<Rightarrow> unit option) \<Rightarrow>
   (database_role \<Rightarrow> payload) \<Rightarrow> string list \<Rightarrow>
   string \<Rightarrow> database_role \<Rightarrow> unit sent" where
  "database_write_role env cl from_json to_json mount name role =
     sbind (pure (database_path mount [''roles'', name])) (\<lambda>p.
     database_request env cl from_json mount ''POST'' p (Some (to_json role)))"

definition database_read_role ::
  "http_env \<Rightarrow> client \<Rightarrow>
   (string \<Rightarrow> 'a response_envelope option) \<Rightarrow> string list \<Rightarrow>
   string \<Rightarrow> 'a sent" where
  "database_read_role env cl from_json mount name =
     sbind (pure (database_path mount [''roles'', name])) (\<lambda>p.
     smap env_data (database_request env cl from_json mount ''GET'' p None))"

definition database_list_roles_after ::
  "http_env \<Rightarrow> client \<Rightarrow>
   (string \<Rightarrow> 'a response_envelope option) \<Rightarrow> string list \<Rightarrow>
   string option \<Rightarrow> 64 word option \<Rightarrow> 'a sent" where
  "database_list_roles_after env cl from_json mount after limit =
     database_list_at env cl from_json mount ''roles'' after limit"

definition database_list_roles ::
  "http_env \<Rightarrow> client \<Rightarrow>
   (string \<Rightarrow> 'a response_envelope option) \<Rightarrow> string list \<Rightarrow>
   'a sent" where
  "database_list_roles env cl from_json mount =
     database_list_roles_after env cl from_json mount None None"

definition database_delete_role ::
  "http_env \<Rightarrow> client \<Rightarrow>
   (string \<Rightarrow> unit option) \<Rightarrow> string list \<Rightarrow>
   string \<Rightarrow> unit sent" where
  "database_delete_role env cl from_json mount name =
     database_delete_at env cl from_json mount ''roles'' name"

record database_credentials =
  database_credentials_username :: string
  database_credentials_password :: "string option"
  database_credentials_private_key :: "string option"
  database_credentials_certificate :: "string option"
  database_credentials_issuing_ca :: "string option"
  database_credentials_ca_chain :: "string list"
  database_credentials_lease_id :: string
  database_credentials_lease_duration :: "64 word"
  database_credentials_renewable :: bool

record database_credential_data =
  database_credential_data_username :: string
  database_credential_data_password :: "string option"
  database_credential_data_private_key :: "string option"
  database_credential_data_certificate :: "string option"
  database_credential_data_issuing_ca :: "string option"
  database_credential_data_ca_chain :: "string list"

definition database_credentials_from_envelope ::
  "database_credential_data response_envelope \<Rightarrow> database_credentials" where
  "database_credentials_from_envelope envelope =
     \<lparr>database_credentials_username = database_credential_data_username (env_data envelope),
       database_credentials_password = database_credential_data_password (env_data envelope),
       database_credentials_private_key = database_credential_data_private_key (env_data envelope),
       database_credentials_certificate = database_credential_data_certificate (env_data envelope),
       database_credentials_issuing_ca = database_credential_data_issuing_ca (env_data envelope),
       database_credentials_ca_chain = database_credential_data_ca_chain (env_data envelope),
       database_credentials_lease_id = env_lease_id envelope,
       database_credentials_lease_duration = env_lease_duration envelope,
       database_credentials_renewable = env_renewable envelope\<rparr>"

definition database_credentials_call ::
  "http_env \<Rightarrow> client \<Rightarrow>
   (string \<Rightarrow> database_credential_data response_envelope option) \<Rightarrow>
   string list \<Rightarrow> string \<Rightarrow> database_credentials sent" where
  "database_credentials_call env cl from_json mount name =
     sbind (pure (database_path mount [''creds'', name])) (\<lambda>p.
     smap (\<lambda>envelope. database_credentials_from_envelope envelope) (database_request
       env cl from_json mount ''GET'' p None))"

definition database_write_static_role ::
  "http_env \<Rightarrow> client \<Rightarrow>
   (string \<Rightarrow> unit option) \<Rightarrow>
   (database_static_role \<Rightarrow> payload) \<Rightarrow> string list \<Rightarrow>
   string \<Rightarrow> database_static_role \<Rightarrow> unit sent" where
  "database_write_static_role env cl from_json to_json mount name role =
     sbind (pure (database_path mount [''static-roles'', name])) (\<lambda>p.
     database_request env cl from_json mount ''POST'' p (Some (to_json role)))"

definition database_read_static_role ::
  "http_env \<Rightarrow> client \<Rightarrow>
   (string \<Rightarrow> 'a response_envelope option) \<Rightarrow> string list \<Rightarrow>
   string \<Rightarrow> 'a sent" where
  "database_read_static_role env cl from_json mount name =
     sbind (pure (database_path mount [''static-roles'', name])) (\<lambda>p.
     smap env_data (database_request env cl from_json mount ''GET'' p None))"

definition database_list_static_roles_after ::
  "http_env \<Rightarrow> client \<Rightarrow>
   (string \<Rightarrow> 'a response_envelope option) \<Rightarrow> string list \<Rightarrow>
   string option \<Rightarrow> 64 word option \<Rightarrow> 'a sent" where
  "database_list_static_roles_after env cl from_json mount after limit =
     database_list_at env cl from_json mount ''static-roles'' after limit"

definition database_list_static_roles ::
  "http_env \<Rightarrow> client \<Rightarrow>
   (string \<Rightarrow> 'a response_envelope option) \<Rightarrow> string list \<Rightarrow>
   'a sent" where
  "database_list_static_roles env cl from_json mount =
     database_list_static_roles_after env cl from_json mount None None"

definition database_delete_static_role ::
  "http_env \<Rightarrow> client \<Rightarrow>
   (string \<Rightarrow> unit option) \<Rightarrow> string list \<Rightarrow>
   string \<Rightarrow> unit sent" where
  "database_delete_static_role env cl from_json mount name =
     database_delete_at env cl from_json mount ''static-roles'' name"

definition database_static_credentials_call ::
  "http_env \<Rightarrow> client \<Rightarrow>
   (string \<Rightarrow> 'a response_envelope option) \<Rightarrow> string list \<Rightarrow>
   string \<Rightarrow> 'a sent" where
  "database_static_credentials_call env cl from_json mount name =
     sbind (pure (database_path mount [''static-creds'', name])) (\<lambda>p.
     smap env_data (database_request env cl from_json mount ''GET'' p None))"

definition database_rotate_static_role ::
  "http_env \<Rightarrow> client \<Rightarrow>
   (string \<Rightarrow> unit option) \<Rightarrow>
   (unit \<Rightarrow> payload) \<Rightarrow> string list \<Rightarrow> string \<Rightarrow>
   unit sent" where
  "database_rotate_static_role env cl from_json to_json mount name =
     sbind (pure (database_path mount [''rotate-role'', name])) (\<lambda>p.
     database_request env cl from_json mount ''POST'' p (Some (to_json ())))"

section \<open>The routes of the engine\<close>

lemma database_path_handle: "database_path mount tail = handle_path mount tail"
  unfolding database_path_def handle_path_def Let_def
  by (simp add: rfold_segments rmap_rbind)

interpretation database: mounted_engine database_path database_request
  by unfold_locales (simp_all add: database_path_handle database_request_def Let_def sends_secret secret_json_safe)

named_theorems database_paths
named_theorems database_calls

lemmas [database_paths] = database.path_at

lemma database_request_at [database_calls]:
  "list_all safe_segment mount \<Longrightarrow> path_at mount parts path \<Longrightarrow>
   at_route env cl verb mount parts (database_request env cl from_json mount verb path body_v)"
  by (rule database.request_at)

lemma database_request_query_at [database_calls]:
  "list_all safe_segment mount \<Longrightarrow> path_at mount parts path \<Longrightarrow>
   at_route env cl verb mount parts
     (database_request_query env cl from_json mount verb path query body_v accepted_statuses)"
  by (auto simp: database_request_query_def Let_def rbind_Inr_iff intro!: at_intros at_requests database_calls
      intro: database_paths silent_intros split: option.splits)

lemma database_request_accepting_at [database_calls]:
  "list_all safe_segment mount \<Longrightarrow> path_at mount parts path \<Longrightarrow>
   at_route env cl verb mount parts
     (database_request_accepting env cl from_json mount verb path body_v accepted_statuses)"
  by (auto simp: database_request_accepting_def Let_def rbind_Inr_iff intro!: at_intros at_requests database_calls
      intro: database_paths silent_intros split: option.splits)

lemma database_config_routes [database_calls]:
  assumes "list_all safe_segment mount"
  shows "at_route env cl ''POST'' mount [''config'', name]
        (database_configure_connection env cl fj tj mount insecure_database_tls name config)"
    and "at_route env cl ''GET'' mount [''config'', name]
        (database_read_connection env cl fj2 mount name)"
    and "at_route env cl ''LIST'' mount [''config''] (database_list_connections env cl fj2 mount)"
    and "at_route env cl ''DELETE'' mount [''config'', name]
        (database_delete_connection env cl fj mount name)"
  unfolding database_configure_connection_def database_read_connection_def database_list_connections_def
      database_delete_connection_def database_list_at_def database_delete_at_def
  by (use assms in \<open>auto simp: Let_def rbind_Inr_iff
      intro!: at_intros at_requests database_calls intro: database_paths at_after silent_intros split: option.splits\<close>)

lemma database_roles_routes [database_calls]:
  assumes "list_all safe_segment mount"
  shows "at_route env cl ''POST'' mount [''roles'', name]
        (database_write_role env cl fj tj mount name role)"
    and "at_route env cl ''GET'' mount [''roles'', name] (database_read_role env cl fj2 mount name)"
    and "at_route env cl ''LIST'' mount [''roles'']
        (database_list_roles_after env cl fj2 mount after limit)"
    and "at_route env cl ''LIST'' mount [''roles''] (database_list_roles env cl fj2 mount)"
    and "at_route env cl ''DELETE'' mount [''roles'', name]
        (database_delete_role env cl fj mount name)"
  unfolding database_write_role_def database_read_role_def database_list_roles_after_def
      database_list_roles_def database_delete_role_def database_list_at_def database_delete_at_def
  by (use assms in \<open>auto simp: Let_def rbind_Inr_iff
      intro!: at_intros at_requests database_calls intro: database_paths at_after silent_intros split: option.splits\<close>)

lemma database_static_roles_routes [database_calls]:
  assumes "list_all safe_segment mount"
  shows "at_route env cl ''POST'' mount [''static-roles'', name]
        (database_write_static_role env cl fj tj mount name role)"
    and "at_route env cl ''GET'' mount [''static-roles'', name]
        (database_read_static_role env cl fj2 mount name)"
    and "at_route env cl ''LIST'' mount [''static-roles'']
        (database_list_static_roles_after env cl fj2 mount after limit)"
    and "at_route env cl ''LIST'' mount [''static-roles'']
        (database_list_static_roles env cl fj2 mount)"
    and "at_route env cl ''DELETE'' mount [''static-roles'', name]
        (database_delete_static_role env cl fj mount name)"
  unfolding database_write_static_role_def database_read_static_role_def
      database_list_static_roles_after_def database_list_static_roles_def
      database_delete_static_role_def database_list_at_def database_delete_at_def
  by (use assms in \<open>auto simp: Let_def rbind_Inr_iff
      intro!: at_intros at_requests database_calls intro: database_paths at_after silent_intros split: option.splits\<close>)

lemma database_other_routes [database_calls]:
  assumes "list_all safe_segment mount"
  shows "at_route env cl ''POST'' mount [''reset'', name]
        (database_reset_connection env cl fj tj mount name)"
    and "at_route env cl ''POST'' mount [''rotate-root'', name]
        (database_rotate_root env cl fj tj mount name)"
    and "at_route env cl ''GET'' mount [''creds'', name]
        (database_credentials_call env cl fj2 mount name)"
    and "at_route env cl ''GET'' mount [''static-creds'', name]
        (database_static_credentials_call env cl fj3 mount name)"
    and "at_route env cl ''POST'' mount [''rotate-role'', name]
        (database_rotate_static_role env cl fj tj mount name)"
  unfolding database_reset_connection_def database_rotate_root_def database_credentials_call_def
      database_static_credentials_call_def database_rotate_static_role_def
  by (use assms in \<open>auto simp: Let_def rbind_Inr_iff
      intro!: at_intros at_requests database_calls intro: database_paths at_after silent_intros split: option.splits\<close>)

end
