(* ===== verification/Bao_Auth.thy ===== *)
theory Bao_Auth
  imports Bao_Engine
begin

text \<open>
  What the auth methods and the system backend share: the bounded encoding of name mappings
  (\<open>auth/mapping.rs\<close>), the user names of \<open>auth/userpass.rs\<close> and \<open>auth/radius.rs\<close>, bcrypt hashes, the
  Negotiate header of \<open>auth/kerberos.rs\<close>, and where their requests go.
\<close>

section \<open>Mappings\<close>

definition MAX_MAPPING_ITEMS :: nat where [limits]: "MAX_MAPPING_ITEMS = 4096"
definition MAX_MAPPING_BYTES :: nat where [limits]: "MAX_MAPPING_BYTES = 1024 * 1024"

definition mapping_validate_name :: "string \<Rightarrow> string \<Rightarrow> unit res" where
  "mapping_validate_name val_v field =
     (if MAX_MAPPING_BYTES < length val_v
      then Inl (InvalidParameter (field @ '' exceeds the byte limit''))
      else if trim val_v = [] \<or> CHR '','' \<in> set val_v \<or> list_ex is_ascii_control val_v
      then Inl (InvalidParameter (field @ '' contains an invalid name''))
      else Inr ())"

definition mapping_encoded_length :: "string list \<Rightarrow> string \<Rightarrow> nat res" where
  "mapping_encoded_length vals field =
     (if MAX_MAPPING_ITEMS < length vals
      then Inl (InvalidParameter (field @ '' exceeds the item limit''))
      else
        rbind (rfold (\<lambda>val_v len.
            if len + length val_v \<le> MAX_MAPPING_BYTES then Inr (len + length val_v)
            else Inl (InvalidParameter (field @ '' exceeds the byte limit'')))
          vals (length vals - 1)) (\<lambda>len.
        rbind (each (\<lambda>val_v. mapping_validate_name val_v field) vals) (\<lambda>_. Inr len)))"

definition mapping_output :: "string list \<Rightarrow> string" where
  "mapping_output vals =
     foldl (\<lambda>output (i, val_v). (if i \<noteq> 0 then output @ '','' else output) @ val_v) []
       (enumerate 0 vals)"

text \<open>\<open>can_reserve\<close> says whether the allocator grants a reservation.\<close>

definition mapping_encode_values :: "(nat \<Rightarrow> bool) \<Rightarrow> string list \<Rightarrow> string \<Rightarrow> string res" where
  "mapping_encode_values can_reserve vals field =
     rbind (mapping_encoded_length vals field) (\<lambda>len.
       if \<not> can_reserve len then Inl (InvalidParameter (field @ '' allocation failed''))
       else Inr (mapping_output vals))"

definition mapping_name_ok :: "string \<Rightarrow> bool" where
  "mapping_name_ok v \<longleftrightarrow> trim v \<noteq> [] \<and> CHR '','' \<notin> set v \<and> \<not> list_ex is_ascii_control v"

lemma mapping_validate_name_iff:
  "mapping_validate_name v field = Inr () \<longleftrightarrow> length v \<le> MAX_MAPPING_BYTES \<and> mapping_name_ok v"
  by (auto simp: mapping_validate_name_def mapping_name_ok_def)

lemma mapping_sum:
  "rfold (\<lambda>val_v len. if len + length val_v \<le> b then Inr (len + length val_v) else Inl e) vs n = Inr m \<longleftrightarrow>
   m = n + sum_list (map length vs) \<and> (vs = [] \<or> m \<le> b)"
proof (induction vs arbitrary: n)
  case (Cons v vs)
  show ?case
  proof (cases "n + length v \<le> b")
    case True
    then show ?thesis using Cons.IH [of "n + length v"] by (auto simp: add.assoc)
  next
    case False
    then show ?thesis by simp
  qed
qed auto

lemma mapping_joined:
  "foldl (\<lambda>output (i, v). (if 0 < i then output @ '','' else output) @ v) acc (enumerate (Suc n) vs) =
   acc @ concat (map (\<lambda>v. '','' @ v) vs)"
proof (induction vs arbitrary: acc n)
  case (Cons v vs)
  show ?case using Cons.IH [of "acc @ '','' @ v" "Suc n"] by simp
qed simp

lemma join_with_comma: "join_with '','' (v # vs) = v @ concat (map (\<lambda>v. '','' @ v) vs)"
proof (induction vs arbitrary: v)
  case (Cons w vs)
  then show ?case by (simp add: join_with_Cons)
qed simp

lemma mapping_output_eq: "mapping_output vs = join_with '','' vs"
proof (cases vs)
  case (Cons v ws)
  then show ?thesis using mapping_joined [of v 0 ws] by (simp add: mapping_output_def join_with_comma)
qed (simp add: mapping_output_def)

lemma length_join_comma:
  "length (join_with '','' vs) = length vs - 1 + sum_list (map length vs)"
proof (cases vs)
  case (Cons v ws)
  have "length (concat (map (\<lambda>v. '','' @ v) ws)) = length ws + sum_list (map length ws)"
    by (induction ws) simp_all
  with Cons show ?thesis by (simp add: join_with_comma)
qed simp

text \<open>A mapping is encoded exactly when it has at most 4096 names, each a name without commas and
  control characters, and their text with the commas fits in a mebibyte that the allocator grants;
  the encoding is then the names joined by commas, which splits back into exactly those names.\<close>

theorem mapping_encode_values_iff:
  "mapping_encode_values can_reserve vs field = Inr t \<longleftrightarrow>
     t = join_with '','' vs \<and> (vs = [] \<or> split_on CHR '','' t = vs) \<and>
     length vs \<le> MAX_MAPPING_ITEMS \<and> list_all mapping_name_ok vs \<and>
     length t \<le> MAX_MAPPING_BYTES \<and> can_reserve (length t)"
proof -
  have splits: "split_on CHR '','' (join_with '','' vs) = vs" if "list_all mapping_name_ok vs" "vs \<noteq> []"
    using split_join [of vs "CHR '',''"] that by (auto simp: mapping_name_ok_def list_all_iff)
  have "length v \<le> length (join_with '','' vs)" if "v \<in> set vs" for v
    by (rule length_join_part [OF that])
  then have names: "length (join_with '','' vs) \<le> MAX_MAPPING_BYTES \<Longrightarrow>
      each (\<lambda>v. mapping_validate_name v field) vs = Inr () \<longleftrightarrow> list_all mapping_name_ok vs"
    by (auto simp: each_ok_iff mapping_validate_name_iff list_all_iff intro: order_trans)
  have "mapping_encoded_length vs field = Inr n \<longleftrightarrow>
      length vs \<le> MAX_MAPPING_ITEMS \<and> n = length (join_with '','' vs) \<and> n \<le> MAX_MAPPING_BYTES \<and>
      list_all mapping_name_ok vs" for n
    using names unfolding mapping_encoded_length_def length_join_comma
    by (auto simp: rbind_Inr_iff mapping_sum)
  then show ?thesis
    using splits by (auto simp: mapping_encode_values_def rbind_Inr_iff mapping_output_eq)
qed

section \<open>The Negotiate header\<close>

definition negotiate_header :: "http_env \<Rightarrow> string \<Rightarrow> header_value res" where
  "negotiate_header env spnego_token =
     (if trim spnego_token = [] then Inl (InvalidHeader ''Kerberos SPNEGO token must not be empty'')
      else sensitive_header_value env (''Negotiate '' @ spnego_token))"

text \<open>\<open>HeaderValue::from_str\<close>, not marked sensitive; the error is its text.\<close>

definition header_from_str :: "http_env \<Rightarrow> string \<Rightarrow> string + header_value" where
  "header_from_str env v =
     map_sum id (\<lambda>t. \<lparr>hv_text = t, hv_sensitive = False\<rparr>) (header_text_of env v)"

section \<open>Helpers of the system backend\<close>

text \<open>\<open>char::is_control\<close>, and \<open>Client::compatibility_report\<close>, which asks the cache.\<close>

definition is_control :: "string \<Rightarrow> bool" where
  "is_control ch \<longleftrightarrow> (let n = code_point ch in n < 32 \<or> 127 \<le> n \<and> n \<le> 159)"

definition compatibility_report_of :: "http_env \<Rightarrow> compatibility_report sent" where
  "compatibility_report_of env = pure (ensured env)"

lemma compatibility_report_silent [silent_intros]: "silent (compatibility_report_of env)"
  by (simp add: compatibility_report_of_def silent_pure)

section \<open>Paths written as texts\<close>

text \<open>
  These modules format the path instead of joining segments. A text is the path of a route when its
  pieces are the segments of the route, or when the route has a part that is not a valid path and the
  text is not one either.
\<close>

definition text_at :: "string list \<Rightarrow> string list \<Rightarrow> string \<Rightarrow> bool" where
  "text_at mount parts p \<longleftrightarrow> path_at mount parts p \<or>
     (\<exists>e. rtraverse validate_endpoint_path parts = Inl e) \<and> (\<exists>e. validate_endpoint_path p = Inl e)"

lemma text_atI:
  "(case rtraverse validate_endpoint_path parts of
      Inl _ \<Rightarrow> False
    | Inr segs \<Rightarrow> p = join_with ''/'' (mount @ concat segs)) \<Longrightarrow> text_at mount parts p"
  by (auto simp: text_at_def path_at_def split: sum.splits)

lemma at_sends_text:
  assumes "sends env cl m p query s" "sent_safe env cl s" "text_at mount parts p"
    "list_all safe_segment mount"
  shows "at_route env cl m mount parts s"
proof (cases "path_at mount parts p")
  case True
  with assms show ?thesis by (intro at_sends)
next
  case False
  then obtain e e' where e: "rtraverse validate_endpoint_path parts = Inl e"
      "validate_endpoint_path p = Inl e'"
    using assms(3) by (auto simp: text_at_def)
  then have "\<exists>e. url_for_path env cl p = Inl e" by (simp add: url_for_path_def)
  with assms(1) have "snd s = []" by (cases "snd s") (auto simp: sends_def addressed_def)
  with e(1) assms(2) show ?thesis by (simp add: at_route_def)
qed

lemma literal_endpoint:
  assumes "safe_segment s" "length s \<le> MAX_PATH_BYTES"
  shows "validate_endpoint_path s = Inr [s]"
  using assms trim_join_path [of "[s]"]
  by (simp add: validate_endpoint_path_def validate_path_iff MAX_PATH_SEGMENTS_def)

lemma safe_auth [simp]: "safe_segment ''auth''" and safe_sys [simp]: "safe_segment ''sys''"
  by code_simp+

text \<open>What a validated name is.\<close>

named_theorems name_dests \<open>what the names that were checked are\<close>

lemma mount_path_part [name_dests]:
  "validate_mount_path name = Inr segs \<Longrightarrow> validate_endpoint_path name = Inr segs \<and> segs \<noteq> []"
  by (auto simp: validate_mount_path_def validate_path_iff mount_path_endpoint
      dest: mount_path_endpoint)

text \<open>
  A name that is a segment but was not checked for its bytes or its length: when it is not a valid path,
  neither is a text that contains it.
\<close>

definition plain_name :: "string \<Rightarrow> bool" where
  "plain_name v \<longleftrightarrow> v \<noteq> [] \<and> last v \<noteq> CHR ''.'' \<and> CHR ''/'' \<notin> set v"

lemma valid_text:
  assumes "validate_endpoint_path p = Inr segs"
  shows "length p \<le> MAX_PATH_BYTES" "list_all (\<lambda>c. byte c < 128 \<and> \<not> path_byte_is_forbidden c) p"
proof -
  from assms have "length p \<le> MAX_PATH_BYTES \<and> is_ascii p \<and> \<not> list_ex path_byte_is_forbidden p"
    by (auto simp: validate_endpoint_path_def validate_path_def Let_def forbidden_byte_error_None
        split: if_splits option.splits)
  then show "length p \<le> MAX_PATH_BYTES" "list_all (\<lambda>c. byte c < 128 \<and> \<not> path_byte_is_forbidden c) p"
    by (auto simp: is_ascii_def list_all_iff list_ex_iff)
qed

lemma plain_endpoint:
  assumes "plain_name name" "length name \<le> MAX_PATH_BYTES"
    "list_all (\<lambda>c. byte c < 128 \<and> \<not> path_byte_is_forbidden c) name"
  shows "validate_endpoint_path name = Inr [name]"
  using assms by (intro literal_endpoint) (auto simp: safe_segment_def plain_name_def list_all_iff)

lemma join_part: "s \<in> set segs \<Longrightarrow> set s \<subseteq> set (join_with sep segs)"
proof (induction segs)
  case (Cons x xs)
  then show ?case by (cases "xs = []") (auto simp: join_with_Cons)
qed simp

lemma text_at_plain:
  assumes "plain_name name" "rtraverse validate_endpoint_path pre = Inr ws"
    "rtraverse validate_endpoint_path post = Inr vs"
    "p = join_with ''/'' (mount @ concat ws @ name # concat vs)"
  shows "text_at mount (pre @ name # post) p"
proof (cases "length name \<le> MAX_PATH_BYTES \<and>
    list_all (\<lambda>c. byte c < 128 \<and> \<not> path_byte_is_forbidden c) name")
  case True
  then show ?thesis
    using assms(2-4) plain_endpoint [OF assms(1)]
    by (auto simp: text_at_def path_at_def rtraverse_append_Inr_iff)
next
  case False
  have name: "validate_endpoint_path name \<noteq> Inr ss" for ss
    using False valid_text [of name ss] by auto
  then have "rtraverse validate_endpoint_path (pre @ name # post) \<noteq> Inr us" for us
    by (auto simp: rtraverse_append_Inr_iff rbind_Inr_iff)
  then have "\<exists>e. rtraverse validate_endpoint_path (pre @ name # post) = Inl e"
    by (cases "rtraverse validate_endpoint_path (pre @ name # post)") auto
  moreover have "\<exists>e. validate_endpoint_path p = Inl e"
  proof (cases "validate_endpoint_path p")
    case (Inr ss)
    have "name \<in> set (mount @ concat ws @ name # concat vs)" by simp
    then have "length name \<le> length p" "set name \<subseteq> set p"
      using length_join_part join_part assms(4) by metis+
    then show ?thesis using False valid_text [OF Inr] by (auto simp: list_all_iff)
  qed simp
  ultimately show ?thesis by (simp add: text_at_def)
qed

lemma text_at_name:
  "plain_name u \<Longrightarrow> validate_endpoint_path k = Inr [k] \<Longrightarrow>
   p = join_with ''/'' (mount @ [k, u]) \<Longrightarrow> text_at mount [k, u] p"
  "plain_name u \<Longrightarrow> validate_endpoint_path k = Inr [k] \<Longrightarrow> validate_endpoint_path l = Inr [l] \<Longrightarrow>
   p = join_with ''/'' (mount @ [k, u, l]) \<Longrightarrow> text_at mount [k, u, l] p"
  using text_at_plain [of u "[k]" "[[k]]" "[]" "[]" p mount]
    text_at_plain [of u "[k]" "[[k]]" "[l]" "[[l]]" p mount]
  by simp_all

lemma plain_username:
  assumes "u \<noteq> []" "last u \<noteq> CHR ''.''"
    "list_all (\<lambda>c. is_ascii_alphanumeric c \<or> c = CHR ''_'' \<or> c = CHR ''-'' \<or> c = CHR ''.'') u"
  shows "plain_name u"
  using assms unfolding plain_name_def
  by (auto simp: list_all_iff is_ascii_alphanumeric_def is_ascii_lowercase_def is_ascii_uppercase_def
      is_ascii_digit_def)

section \<open>The requests of the auth methods and the system backend\<close>

lemma sends_auth_more [sends_intros]:
  "sends env cl m path [] (request_auth_json_headers_accepting env cl from_json d a m path headers body st)"
  using sends_auth(4) [where query = "[]"] by (simp add: request_auth_json_headers_accepting_def)

lemma sends_route_bind:
  "(\<And>r. re_method r = m \<Longrightarrow> sends env cl m (binding_wire binding) query (f (r, binding_wire binding))) \<Longrightarrow>
   sends env cl m (binding_wire binding) query (sbind (resolve_route env cl m binding query) f)"
  unfolding resolve_route_def
  by (intro sends_pure_bind) (auto dest!: resolved_route dest: binding_paths_wire)

lemma sends_auth_secret [sends_intros]:
  "sends env cl m path query
     (request_auth_json_secret_query_accepting env cl from_json d a m path query body st)"
  unfolding request_auth_json_secret_query_accepting_def request_json_secret_query_accepting_def
  by (rule sends_route_bind [where binding = "AuthMount d a path", simplified])
    (auto intro: sends_json)

lemma with_no_query [simp]: "with_query env [] u = u"
  by (simp add: with_query_def)

lemma sends_auth_document [sends_intros]:
  "sends env cl m path []
     (request_auth_secret_json_headers_accepting env cl from_json d a m path headers body st)"
  "sends env cl m path [] (request_auth_secret_json_internal env cl from_json d a m path body)"
proof -
  have "sends env cl (re_method r) path []
      (sbind (pure (url_for_path env cl path)) (\<lambda>u.
       sbind (send_sensitive_json_request env cl (re_method r) u headers body) (\<lambda>response.
         if rs_status response \<notin> set st then pure (Inl (api_failure (rs_status response)))
         else if rs_status response = 204 then pure (empty_json_result from_json)
         else sbind (pure (validate_json_content_type (header_to_str env) response)) (\<lambda>_.
           sbind (pure (read_response_bytes response (max_response_bytes (cl_config cl)))) (\<lambda>body.
             pure (ok_or (from_json body) schema_error))))))" for r headers st
    by (intro sends_pure_bind sends_bind sends_posts)
      (auto intro: posts_sensitive simp: pure_def sbind_silent)
  then show "sends env cl m path []
      (request_auth_secret_json_headers_accepting env cl from_json d a m path headers body st)" for headers st
    unfolding request_auth_secret_json_headers_accepting_def
    by (intro sends_route_bind [where binding = "AuthMount d a path" and query = "[]", simplified]) auto
  then show "sends env cl m path [] (request_auth_secret_json_internal env cl from_json d a m path body)"
    by (simp add: request_auth_secret_json_internal_def)
qed

lemma auth_safe:
  "sent_safe env cl (request_auth_json_internal env cl from_json d a m path body)"
  "sent_safe env cl (request_auth_json_accepting env cl from_json d a m path body st)"
  "sent_safe env cl (request_auth_json_query_accepting env cl from_json d a m path query body st)"
  "sent_safe env cl (request_auth_json_headers_accepting env cl from_json d a m path headers body st)"
  "sent_safe env cl
     (request_auth_json_query_headers_accepting env cl from_json d a m path query headers body st)"
  "sent_safe env cl
     (request_auth_json_secret_query_accepting env cl from_json d a m path query body st)"
  "sent_safe env cl
     (request_auth_secret_json_headers_accepting env cl from_json d a m path headers body st)"
  "sent_safe env cl (request_auth_secret_json_internal env cl from_json d a m path body)"
  unfolding request_defs resolve_route_def
  by (intro sent_intros request_ops_safe; auto intro: sent_intros request_ops_safe)+

lemma auth_at [at_requests]:
  assumes "list_all safe_segment mount" "text_at mount parts p"
  shows "at_route env cl m mount parts (request_auth_json_internal env cl from_json d a m p body)"
    and "at_route env cl m mount parts (request_auth_json_accepting env cl from_json d a m p body st)"
    and "at_route env cl m mount parts
      (request_auth_json_query_accepting env cl from_json d a m p query body st)"
    and "at_route env cl m mount parts
      (request_auth_json_headers_accepting env cl from_json d a m p headers body st)"
    and "at_route env cl m mount parts
      (request_auth_json_query_headers_accepting env cl from_json d a m p query headers body st)"
    and "at_route env cl m mount parts
      (request_auth_json_secret_query_accepting env cl from_json d a m p query body st)"
    and "at_route env cl m mount parts
      (request_auth_secret_json_headers_accepting env cl from_json d a m p headers body st)"
    and "at_route env cl m mount parts
      (request_auth_secret_json_internal env cl from_json d a m p body)"
  by (rule at_sends_text [OF _ _ assms(2,1)]; rule sends_auth sends_auth_more sends_auth_secret
      sends_auth_document auth_safe)+

lemmas [at_requests] = auth_at [THEN at_after]

lemma sends_sys_more [sends_intros]:
  "sends env cl m path [] (request_sys_json_headers_accepting env cl from_json m path headers body st)"
  "sends env cl m path query
     (request_sys_bytes_accepting_internal env cl m path query accept bytes st)"
proof -
  show "sends env cl m path [] (request_sys_json_headers_accepting env cl from_json m path headers body st)"
    using sends_sys(4) [where query = "[]"] by (simp add: request_sys_json_headers_accepting_def)
  show "sends env cl m path query (request_sys_bytes_accepting_internal env cl m path query accept bytes st)"
    unfolding request_sys_bytes_accepting_internal_def
    by (rule sends_route_bind [where binding = "RouteExact ''/sys/'' path", simplified])
      (auto intro: sends_bytes)
qed

lemma sys_safe:
  "sent_safe env cl (request_sys_json_internal env cl from_json m path body)"
  "sent_safe env cl (request_sys_json_accepting env cl from_json m path body st)"
  "sent_safe env cl (request_sys_json_query_accepting env cl from_json m path query body st)"
  "sent_safe env cl (request_sys_json_headers_accepting env cl from_json m path headers body st)"
  "sent_safe env cl
     (request_sys_json_query_headers_accepting env cl from_json m path query headers body st)"
  "sent_safe env cl (request_sys_bytes_accepting_internal env cl m path query accept bytes st)"
  unfolding request_defs resolve_route_def
  by (intro sent_intros request_ops_safe; auto intro: sent_intros request_ops_safe)+

lemma sys_at [at_requests]:
  assumes "list_all safe_segment mount" "text_at mount parts p"
  shows "at_route env cl m mount parts (request_sys_json_internal env cl from_json m p body)"
    and "at_route env cl m mount parts (request_sys_json_accepting env cl from_json m p body st)"
    and "at_route env cl m mount parts
      (request_sys_json_query_accepting env cl from_json m p query body st)"
    and "at_route env cl m mount parts
      (request_sys_json_headers_accepting env cl from_json m p headers body st)"
    and "at_route env cl m mount parts
      (request_sys_json_query_headers_accepting env cl from_json m p query headers body st)"
    and "at_route env cl m mount parts
      (request_sys_bytes_accepting_internal env cl m p query accept bytes st)"
  by (rule at_sends_text [OF _ _ assms(2,1)]; rule sends_sys sends_sys_more sys_safe)+

lemmas [at_requests] = sys_at [THEN at_after]

end
