(* ===== verification/Bao_Approle.thy ===== *)
theory Bao_Approle
  imports Bao_Auth
begin

text \<open>
  The AppRole method, \<open>auth/approle.rs\<close>: roles and secret ids, their checks, the login and every operation
  of the administration handle.
  A handle is its mount path; \<open>from_json\<close> and \<open>to_json\<close> are the deserialiser of a response and the
  serialiser of a payload.
\<close>

section \<open>Data and requests\<close>

record app_role_role_request =
  app_role_role_request_bind_secret_id :: "bool option"
  app_role_role_request_secret_id_bound_cidrs :: "string list"
  app_role_role_request_secret_id_num_uses :: "64 word option"
  app_role_role_request_secret_id_ttl :: "string option"
  app_role_role_request_local_secret_ids :: "bool option"
  app_role_role_request_token_ttl :: "string option"
  app_role_role_request_token_max_ttl :: "string option"
  app_role_role_request_token_policies :: "string list"
  app_role_role_request_policies :: "string list"
  app_role_role_request_token_bound_cidrs :: "string list"
  app_role_role_request_token_strictly_bind_ip :: "bool option"
  app_role_role_request_token_explicit_max_ttl :: "string option"
  app_role_role_request_token_no_default_policy :: "bool option"
  app_role_role_request_token_num_uses :: "64 word option"
  app_role_role_request_token_period :: "string option"
  app_role_role_request_token_type :: "string option"

definition app_role_role_request_default :: app_role_role_request where
  "app_role_role_request_default =
     \<lparr>app_role_role_request_bind_secret_id = None,
       app_role_role_request_secret_id_bound_cidrs = [],
       app_role_role_request_secret_id_num_uses = None, app_role_role_request_secret_id_ttl =
       None, app_role_role_request_local_secret_ids = None, app_role_role_request_token_ttl =
       None, app_role_role_request_token_max_ttl = None, app_role_role_request_token_policies =
       [], app_role_role_request_policies = [], app_role_role_request_token_bound_cidrs = [],
       app_role_role_request_token_strictly_bind_ip = None,
       app_role_role_request_token_explicit_max_ttl = None,
       app_role_role_request_token_no_default_policy = None,
       app_role_role_request_token_num_uses = None, app_role_role_request_token_period = None,
       app_role_role_request_token_type = None\<rparr>"

definition app_role_role_request_new :: app_role_role_request where
  "app_role_role_request_new = app_role_role_request_default"

definition app_role_role_request_with_token_policy ::
  "app_role_role_request \<Rightarrow> string \<Rightarrow> app_role_role_request" where
  "app_role_role_request_with_token_policy self policy =
     self\<lparr>app_role_role_request_token_policies := app_role_role_request_token_policies
       self @ [policy]\<rparr>"

definition app_role_role_request_with_token_ttl ::
  "app_role_role_request \<Rightarrow> string \<Rightarrow> app_role_role_request res" where
  "app_role_role_request_with_token_ttl self ttl =
     rbind (validate_duration_parameter ttl ''approle token_ttl'') (\<lambda>_.
     Inr (self\<lparr>app_role_role_request_token_ttl := Some ttl\<rparr>))"

definition app_role_role_request_with_token_ttl_duration ::
  "app_role_role_request \<Rightarrow> std_duration \<Rightarrow> app_role_role_request res" where
  "app_role_role_request_with_token_ttl_duration self ttl =
     rbind (nonzero_duration_to_bao_string ttl ''approle token_ttl'') (\<lambda>v.
     app_role_role_request_with_token_ttl self v)"

definition app_role_role_request_with_secret_id_ttl ::
  "app_role_role_request \<Rightarrow> string \<Rightarrow> app_role_role_request res" where
  "app_role_role_request_with_secret_id_ttl self ttl =
     rbind (validate_duration_parameter ttl ''approle secret_id_ttl'') (\<lambda>_.
     Inr (self\<lparr>app_role_role_request_secret_id_ttl := Some ttl\<rparr>))"

definition app_role_role_request_with_secret_id_ttl_duration ::
  "app_role_role_request \<Rightarrow> std_duration \<Rightarrow> app_role_role_request res" where
  "app_role_role_request_with_secret_id_ttl_duration self ttl =
     rbind (nonzero_duration_to_bao_string ttl ''approle secret_id_ttl'') (\<lambda>v.
     app_role_role_request_with_secret_id_ttl self v)"

definition approle_validate_string_list_len ::
  "string list \<Rightarrow> string \<Rightarrow> unit res" where
  "approle_validate_string_list_len vals field =
     (if MAX_RESPONSE_STRINGS < length vals then Inl (InvalidParameter (field @
       '' exceeds item limit''))
        else Inr ())"

definition app_role_role_request_validate :: "app_role_role_request \<Rightarrow> unit res" where
  "app_role_role_request_validate self =
     rbind (approle_validate_string_list_len (app_role_role_request_token_policies self)
       ''approle token_policies'') (\<lambda>_.
     rbind (approle_validate_string_list_len (app_role_role_request_policies self)
       ''approle policies'') (\<lambda>_.
     rbind (approle_validate_string_list_len (app_role_role_request_secret_id_bound_cidrs self)
       ''approle secret_id_bound_cidrs'') (\<lambda>_.
     rbind (approle_validate_string_list_len (app_role_role_request_token_bound_cidrs self)
       ''approle token_bound_cidrs'') (\<lambda>_.
     rbind (validate_cidr_list (app_role_role_request_secret_id_bound_cidrs self)
       ''approle secret_id_bound_cidrs'') (\<lambda>_.
     validate_cidr_list (app_role_role_request_token_bound_cidrs self)
       ''approle token_bound_cidrs'')))))"

record app_role_secret_id_request =
  app_role_secret_id_request_metadata :: "string option"
  app_role_secret_id_request_cidr_list :: "string list"
  app_role_secret_id_request_token_bound_cidrs :: "string list"
  app_role_secret_id_request_num_uses :: "64 word option"
  app_role_secret_id_request_ttl :: "string option"

definition app_role_secret_id_request_default :: app_role_secret_id_request where
  "app_role_secret_id_request_default =
     \<lparr>app_role_secret_id_request_metadata = None, app_role_secret_id_request_cidr_list =
       [], app_role_secret_id_request_token_bound_cidrs = [],
       app_role_secret_id_request_num_uses = None, app_role_secret_id_request_ttl =
       None\<rparr>"

definition app_role_secret_id_request_new :: app_role_secret_id_request where
  "app_role_secret_id_request_new = app_role_secret_id_request_default"

definition app_role_secret_id_request_with_ttl ::
  "app_role_secret_id_request \<Rightarrow> string \<Rightarrow>
   app_role_secret_id_request res" where
  "app_role_secret_id_request_with_ttl self ttl =
     rbind (validate_duration_parameter ttl ''approle secret_id ttl'') (\<lambda>_.
     Inr (self\<lparr>app_role_secret_id_request_ttl := Some ttl\<rparr>))"

definition app_role_secret_id_request_with_ttl_duration ::
  "app_role_secret_id_request \<Rightarrow> std_duration \<Rightarrow>
   app_role_secret_id_request res" where
  "app_role_secret_id_request_with_ttl_duration self ttl =
     rbind (nonzero_duration_to_bao_string ttl ''approle secret_id ttl'') (\<lambda>v.
     app_role_secret_id_request_with_ttl self v)"

definition app_role_secret_id_request_with_metadata ::
  "(string \<Rightarrow> json_value option) \<Rightarrow>
   app_role_secret_id_request \<Rightarrow> string \<Rightarrow>
   app_role_secret_id_request res" where
  "app_role_secret_id_request_with_metadata parse_json self metadata =
     rbind (validate_json_object_string parse_json metadata ''approle secret_id metadata'')
       (\<lambda>_.
     Inr (self\<lparr>app_role_secret_id_request_metadata := Some metadata\<rparr>))"

definition app_role_secret_id_request_with_cidr ::
  "app_role_secret_id_request \<Rightarrow> string \<Rightarrow>
   app_role_secret_id_request res" where
  "app_role_secret_id_request_with_cidr self cidr =
     rbind (validate_cidr cidr ''approle secret_id cidr_list'') (\<lambda>_.
     Inr
       (self\<lparr>app_role_secret_id_request_cidr_list := app_role_secret_id_request_cidr_list
       self @ [cidr]\<rparr>))"

definition app_role_secret_id_request_with_token_bound_cidr ::
  "app_role_secret_id_request \<Rightarrow> string \<Rightarrow>
   app_role_secret_id_request res" where
  "app_role_secret_id_request_with_token_bound_cidr self cidr =
     rbind (validate_cidr cidr ''approle secret_id token_bound_cidrs'') (\<lambda>_.
     Inr
       (self\<lparr>app_role_secret_id_request_token_bound_cidrs := app_role_secret_id_request_token_bound_cidrs
       self @ [cidr]\<rparr>))"

definition app_role_secret_id_request_validate ::
  "(string \<Rightarrow> json_value option) \<Rightarrow>
   app_role_secret_id_request \<Rightarrow> unit res" where
  "app_role_secret_id_request_validate parse_json self =
     rbind (case app_role_secret_id_request_metadata self of
        None \<Rightarrow> Inr ()
      | Some metadata \<Rightarrow> validate_json_object_string parse_json metadata
        ''approle secret_id metadata'') (\<lambda>_.
     rbind (validate_cidr_list (app_role_secret_id_request_cidr_list self)
       ''approle secret_id cidr_list'') (\<lambda>_.
     rbind (validate_cidr_list (app_role_secret_id_request_token_bound_cidrs self)
       ''approle secret_id token_bound_cidrs'') (\<lambda>_.
     (case app_role_secret_id_request_ttl self of
        None \<Rightarrow> Inr ()
      | Some ttl \<Rightarrow> validate_duration_parameter ttl ''approle secret_id ttl''))))"

record app_role_custom_secret_id_request =
  app_role_custom_secret_id_request_secret_id :: string
  app_role_custom_secret_id_request_metadata :: "string option"
  app_role_custom_secret_id_request_cidr_list :: "string list"
  app_role_custom_secret_id_request_token_bound_cidrs :: "string list"
  app_role_custom_secret_id_request_num_uses :: "64 word option"
  app_role_custom_secret_id_request_ttl :: "string option"

definition app_role_custom_secret_id_request_default :: app_role_custom_secret_id_request where
  "app_role_custom_secret_id_request_default =
     \<lparr>app_role_custom_secret_id_request_secret_id = [],
       app_role_custom_secret_id_request_metadata = None,
       app_role_custom_secret_id_request_cidr_list = [],
       app_role_custom_secret_id_request_token_bound_cidrs = [],
       app_role_custom_secret_id_request_num_uses = None, app_role_custom_secret_id_request_ttl
       = None\<rparr>"

definition app_role_custom_secret_id_request_new ::
  "string \<Rightarrow> app_role_custom_secret_id_request" where
  "app_role_custom_secret_id_request_new secret_id =
     app_role_custom_secret_id_request_default\<lparr>app_role_custom_secret_id_request_secret_id
       := secret_id\<rparr>"

definition app_role_custom_secret_id_request_with_metadata ::
  "(string \<Rightarrow> json_value option) \<Rightarrow>
   app_role_custom_secret_id_request \<Rightarrow> string \<Rightarrow>
   app_role_custom_secret_id_request res" where
  "app_role_custom_secret_id_request_with_metadata parse_json self metadata =
     rbind (validate_json_object_string parse_json metadata
       ''approle custom secret_id metadata'') (\<lambda>_.
     Inr (self\<lparr>app_role_custom_secret_id_request_metadata := Some metadata\<rparr>))"

definition app_role_custom_secret_id_request_with_cidr ::
  "app_role_custom_secret_id_request \<Rightarrow> string \<Rightarrow>
   app_role_custom_secret_id_request res" where
  "app_role_custom_secret_id_request_with_cidr self cidr =
     rbind (validate_cidr cidr ''approle custom secret_id cidr_list'') (\<lambda>_.
     Inr
       (self\<lparr>app_role_custom_secret_id_request_cidr_list := app_role_custom_secret_id_request_cidr_list
       self @ [cidr]\<rparr>))"

definition app_role_custom_secret_id_request_with_token_bound_cidr ::
  "app_role_custom_secret_id_request \<Rightarrow> string \<Rightarrow>
   app_role_custom_secret_id_request res" where
  "app_role_custom_secret_id_request_with_token_bound_cidr self cidr =
     rbind (validate_cidr cidr ''approle custom secret_id token_bound_cidrs'') (\<lambda>_.
     Inr
       (self\<lparr>app_role_custom_secret_id_request_token_bound_cidrs := app_role_custom_secret_id_request_token_bound_cidrs
       self @ [cidr]\<rparr>))"

definition app_role_custom_secret_id_request_with_ttl ::
  "app_role_custom_secret_id_request \<Rightarrow> string \<Rightarrow>
   app_role_custom_secret_id_request res" where
  "app_role_custom_secret_id_request_with_ttl self ttl =
     rbind (validate_duration_parameter ttl ''approle custom secret_id ttl'') (\<lambda>_.
     Inr (self\<lparr>app_role_custom_secret_id_request_ttl := Some ttl\<rparr>))"

definition app_role_custom_secret_id_request_with_ttl_duration ::
  "app_role_custom_secret_id_request \<Rightarrow> std_duration \<Rightarrow>
   app_role_custom_secret_id_request res" where
  "app_role_custom_secret_id_request_with_ttl_duration self ttl =
     rbind (nonzero_duration_to_bao_string ttl ''approle custom secret_id ttl'') (\<lambda>v.
     app_role_custom_secret_id_request_with_ttl self v)"

definition app_role_custom_secret_id_request_validate ::
  "(string \<Rightarrow> json_value option) \<Rightarrow>
   app_role_custom_secret_id_request \<Rightarrow> unit res" where
  "app_role_custom_secret_id_request_validate parse_json self =
     rbind (case app_role_custom_secret_id_request_metadata self of
        None \<Rightarrow> Inr ()
      | Some metadata \<Rightarrow> validate_json_object_string parse_json metadata
        ''approle custom secret_id metadata'') (\<lambda>_.
     rbind (validate_cidr_list (app_role_custom_secret_id_request_cidr_list self)
       ''approle custom secret_id cidr_list'') (\<lambda>_.
     rbind (validate_cidr_list (app_role_custom_secret_id_request_token_bound_cidrs self)
       ''approle custom secret_id token_bound_cidrs'') (\<lambda>_.
     (case app_role_custom_secret_id_request_ttl self of
        None \<Rightarrow> Inr ()
      | Some ttl \<Rightarrow> validate_duration_parameter ttl
        ''approle custom secret_id ttl''))))"

section \<open>Operations\<close>

definition client_approle_at :: "string \<Rightarrow> string res" where
  "client_approle_at mount =
     rbind (validate_mount_path mount) (\<lambda>p.
     let mount = join_with ''/'' p in
     Inr mount)"

definition client_approle :: "string res" where
  "client_approle = client_approle_at ''approle''"

record login_request =
  login_request_role_id :: string
  login_request_secret_id :: string

record login_auth =
  login_auth_client_token :: string
  login_auth_accessor :: string
  login_auth_policies :: "string list"
  login_auth_lease_duration :: "64 word"
  login_auth_renewable :: bool

record login_response =
  login_response_auth :: "login_auth option"

definition approle_login_response ::
  "http_env \<Rightarrow> client \<Rightarrow>
   (string \<Rightarrow> login_response option) \<Rightarrow>
   (login_request \<Rightarrow> payload) \<Rightarrow> string \<Rightarrow>
   string \<Rightarrow> string \<Rightarrow> login_response sent" where
  "approle_login_response env cl from_json to_json mount role_id secret_id =
     (let request = \<lparr>login_request_role_id = role_id,
       login_request_secret_id = secret_id\<rparr> in
     request_auth_json_internal env cl from_json ''approle'' mount ''POST'' (''auth/'' @ mount
       @ ''/login'') (Some (to_json request)))"

record login_metadata =
  login_metadata_accessor :: string
  login_metadata_policies :: "string list"
  login_metadata_lease_duration :: "64 word"
  login_metadata_renewable :: bool

definition approle_split_login_auth ::
  "login_auth \<Rightarrow> string \<times> login_metadata" where
  "approle_split_login_auth auth =
     (let metadata = \<lparr>login_metadata_accessor = login_auth_accessor auth,
       login_metadata_policies = login_auth_policies auth,
       login_metadata_lease_duration = login_auth_lease_duration auth,
       login_metadata_renewable = login_auth_renewable auth\<rparr> in
     (login_auth_client_token auth, metadata))"

definition client_login_approle ::
  "http_env \<Rightarrow> client \<Rightarrow>
   (string \<Rightarrow> login_response option) \<Rightarrow>
   (login_request \<Rightarrow> payload) \<Rightarrow> string \<Rightarrow>
   string \<Rightarrow> (client \<times> login_metadata) sent" where
  "client_login_approle env cl from_json to_json role_id secret_id =
     sbind (pure client_approle) (\<lambda>v.
     sbind (approle_login_response env cl from_json to_json v role_id secret_id) (\<lambda>v2.
     sbind (pure (ok_or (login_response_auth v2) (MissingField ''auth''))) (\<lambda>response.
     (case approle_split_login_auth response of (token, metadata) \<Rightarrow>
        sbind (pure (try_with_token env cl token)) (\<lambda>v.
        pure (Inr (v, metadata)))))))"

definition client_approle_admin_at :: "string \<Rightarrow> string res" where
  "client_approle_admin_at mount =
     rbind (validate_mount_path mount) (\<lambda>p.
     Inr (join_with ''/'' p))"

definition client_approle_admin :: "string res" where
  "client_approle_admin = client_approle_admin_at ''approle''"

definition approle_login ::
  "http_env \<Rightarrow> client \<Rightarrow>
   (string \<Rightarrow> login_response option) \<Rightarrow>
   (login_request \<Rightarrow> payload) \<Rightarrow> string \<Rightarrow>
   string \<Rightarrow> string \<Rightarrow> (client \<times> login_metadata) sent" where
  "approle_login env cl from_json to_json mount role_id secret_id =
     sbind (approle_login_response env cl from_json to_json mount role_id secret_id)
       (\<lambda>v.
     sbind (pure (ok_or (login_response_auth v) (MissingField ''auth''))) (\<lambda>response.
     (case approle_split_login_auth response of (token, metadata) \<Rightarrow>
        sbind (pure (try_with_token env (clone_without_state cl) token)) (\<lambda>v.
        pure (Inr (v, metadata))))))"

definition approle_admin_list_roles ::
  "http_env \<Rightarrow> client \<Rightarrow>
   (string \<Rightarrow> 'a response_envelope option) \<Rightarrow> string \<Rightarrow>
   'a sent" where
  "approle_admin_list_roles env cl from_json mount =
     smap env_data (request_auth_json_internal env cl from_json ''approle'' mount ''LIST''
       (''auth/'' @ mount @ ''/role'') None)"

definition approle_admin_write_role ::
  "http_env \<Rightarrow> client \<Rightarrow>
   (string \<Rightarrow> unit option) \<Rightarrow>
   (app_role_role_request \<Rightarrow> payload) \<Rightarrow> string \<Rightarrow>
   string \<Rightarrow> app_role_role_request \<Rightarrow> unit sent" where
  "approle_admin_write_role env cl from_json to_json mount name role =
     sbind (pure (app_role_role_request_validate role)) (\<lambda>_.
     sbind (pure (validate_mount_path name)) (\<lambda>p.
     let name = join_with ''/'' p in
     request_auth_json_internal env cl from_json ''approle'' mount ''POST'' (''auth/'' @ mount
       @ ''/role/'' @ name) (Some (to_json role))))"

definition approle_admin_read_role ::
  "http_env \<Rightarrow> client \<Rightarrow>
   (string \<Rightarrow> 'a response_envelope option) \<Rightarrow> string \<Rightarrow>
   string \<Rightarrow> 'a sent" where
  "approle_admin_read_role env cl from_json mount name =
     sbind (pure (validate_mount_path name)) (\<lambda>p.
     let name = join_with ''/'' p in
     smap env_data (request_auth_json_internal env cl from_json ''approle'' mount ''GET''
       (''auth/'' @ mount @ ''/role/'' @ name) None))"

definition approle_admin_role_property_path ::
  "string \<Rightarrow> string \<Rightarrow> string \<Rightarrow> string res" where
  "approle_admin_role_property_path mount role_name segment =
     rbind (validate_mount_path role_name) (\<lambda>p.
     let role_name = join_with ''/'' p in
     Inr (''auth/'' @ mount @ ''/role/'' @ role_name @ ''/'' @ segment))"

definition approle_admin_read_role_property ::
  "http_env \<Rightarrow> client \<Rightarrow>
   (string \<Rightarrow> 'a response_envelope option) \<Rightarrow> string \<Rightarrow>
   string \<Rightarrow> string \<Rightarrow> 'a sent" where
  "approle_admin_read_role_property env cl from_json mount role_name segment =
     sbind (pure (approle_admin_role_property_path mount role_name segment)) (\<lambda>path.
     smap env_data (request_auth_json_internal env cl from_json ''approle'' mount ''GET'' path
       None))"

record string_list_property =
  string_list_property_values :: "string list"

definition approle_admin_read_token_policies ::
  "http_env \<Rightarrow> client \<Rightarrow>
   (string \<Rightarrow> string_list_property response_envelope option) \<Rightarrow>
   string \<Rightarrow> string \<Rightarrow> string list sent" where
  "approle_admin_read_token_policies env cl from_json mount role_name =
     sbind (approle_admin_read_role_property env cl from_json mount role_name ''policies'')
       (\<lambda>v.
     pure (Inr (string_list_property_values v)))"

definition approle_collect_string_list ::
  "string list \<Rightarrow> string \<Rightarrow> string list res" where
  "approle_collect_string_list vals field =
     rbind (approle_validate_string_list_len vals field) (\<lambda>_.
     Inr vals)"

definition approle_admin_write_role_property ::
  "http_env \<Rightarrow> client \<Rightarrow>
   (string \<Rightarrow> unit option) \<Rightarrow> ('p \<Rightarrow> payload) \<Rightarrow>
   string \<Rightarrow> string \<Rightarrow> string \<Rightarrow> 'p \<Rightarrow> unit sent" where
  "approle_admin_write_role_property env cl from_json to_json mount role_name segment payload =
     sbind (pure (approle_admin_role_property_path mount role_name segment)) (\<lambda>path.
     request_auth_json_internal env cl from_json ''approle'' mount ''POST'' path (Some (to_json
       payload)))"

record policies_payload =
  policies_payload_token_policies :: "string list"

definition approle_admin_write_token_policies ::
  "http_env \<Rightarrow> client \<Rightarrow>
   (string \<Rightarrow> unit option) \<Rightarrow>
   (policies_payload \<Rightarrow> payload) \<Rightarrow> string \<Rightarrow>
   string \<Rightarrow> string list \<Rightarrow> unit sent" where
  "approle_admin_write_token_policies env cl from_json to_json mount role_name policies =
     sbind (pure (approle_collect_string_list policies ''approle token_policies''))
       (\<lambda>policies.
     approle_admin_write_role_property env cl from_json to_json mount role_name ''policies''
       \<lparr>policies_payload_token_policies = policies\<rparr>)"

definition approle_admin_delete_role_property ::
  "http_env \<Rightarrow> client \<Rightarrow>
   (string \<Rightarrow> unit option) \<Rightarrow> string \<Rightarrow> string \<Rightarrow>
   string \<Rightarrow> unit sent" where
  "approle_admin_delete_role_property env cl from_json mount role_name segment =
     sbind (pure (approle_admin_role_property_path mount role_name segment)) (\<lambda>path.
     request_auth_json_accepting env cl from_json ''approle'' mount ''DELETE'' path None [200,
       204])"

definition approle_admin_delete_token_policies ::
  "http_env \<Rightarrow> client \<Rightarrow>
   (string \<Rightarrow> unit option) \<Rightarrow> string \<Rightarrow> string \<Rightarrow>
   unit sent" where
  "approle_admin_delete_token_policies env cl from_json mount role_name =
     approle_admin_delete_role_property env cl from_json mount role_name ''policies''"

record u64_property =
  u64_property_value :: "64 word"

definition approle_admin_read_secret_id_num_uses ::
  "http_env \<Rightarrow> client \<Rightarrow>
   (string \<Rightarrow> u64_property response_envelope option) \<Rightarrow>
   string \<Rightarrow> string \<Rightarrow> 64 word sent" where
  "approle_admin_read_secret_id_num_uses env cl from_json mount role_name =
     sbind (approle_admin_read_role_property env cl from_json mount role_name
       ''secret-id-num-uses'') (\<lambda>v.
     pure (Inr (u64_property_value v)))"

record secret_id_num_uses_payload =
  secret_id_num_uses_payload_secret_id_num_uses :: "64 word"

definition approle_admin_write_secret_id_num_uses ::
  "http_env \<Rightarrow> client \<Rightarrow>
   (string \<Rightarrow> unit option) \<Rightarrow>
   (secret_id_num_uses_payload \<Rightarrow> payload) \<Rightarrow> string \<Rightarrow>
   string \<Rightarrow> 64 word \<Rightarrow> unit sent" where
  "approle_admin_write_secret_id_num_uses env cl from_json to_json mount role_name uses =
     approle_admin_write_role_property env cl from_json to_json mount role_name
       ''secret-id-num-uses''
       \<lparr>secret_id_num_uses_payload_secret_id_num_uses = uses\<rparr>"

definition approle_admin_delete_secret_id_num_uses ::
  "http_env \<Rightarrow> client \<Rightarrow>
   (string \<Rightarrow> unit option) \<Rightarrow> string \<Rightarrow> string \<Rightarrow>
   unit sent" where
  "approle_admin_delete_secret_id_num_uses env cl from_json mount role_name =
     approle_admin_delete_role_property env cl from_json mount role_name ''secret-id-num-uses''"

record duration_property =
  duration_property_value :: string

definition approle_admin_read_secret_id_ttl ::
  "http_env \<Rightarrow> client \<Rightarrow>
   (string \<Rightarrow> duration_property response_envelope option) \<Rightarrow>
   string \<Rightarrow> string \<Rightarrow> string sent" where
  "approle_admin_read_secret_id_ttl env cl from_json mount role_name =
     sbind (approle_admin_read_role_property env cl from_json mount role_name
       ''secret-id-ttl'') (\<lambda>v.
     pure (Inr (duration_property_value v)))"

record secret_id_ttl_payload =
  secret_id_ttl_payload_secret_id_ttl :: string

definition approle_admin_write_secret_id_ttl ::
  "http_env \<Rightarrow> client \<Rightarrow>
   (string \<Rightarrow> unit option) \<Rightarrow>
   (secret_id_ttl_payload \<Rightarrow> payload) \<Rightarrow> string \<Rightarrow>
   string \<Rightarrow> string \<Rightarrow> unit sent" where
  "approle_admin_write_secret_id_ttl env cl from_json to_json mount role_name ttl =
     sbind (pure (validate_duration_parameter ttl ''approle secret_id_ttl'')) (\<lambda>_.
     approle_admin_write_role_property env cl from_json to_json mount role_name
       ''secret-id-ttl'' \<lparr>secret_id_ttl_payload_secret_id_ttl = ttl\<rparr>)"

definition approle_admin_delete_secret_id_ttl ::
  "http_env \<Rightarrow> client \<Rightarrow>
   (string \<Rightarrow> unit option) \<Rightarrow> string \<Rightarrow> string \<Rightarrow>
   unit sent" where
  "approle_admin_delete_secret_id_ttl env cl from_json mount role_name =
     approle_admin_delete_role_property env cl from_json mount role_name ''secret-id-ttl''"

definition approle_admin_read_token_ttl ::
  "http_env \<Rightarrow> client \<Rightarrow>
   (string \<Rightarrow> duration_property response_envelope option) \<Rightarrow>
   string \<Rightarrow> string \<Rightarrow> string sent" where
  "approle_admin_read_token_ttl env cl from_json mount role_name =
     sbind (approle_admin_read_role_property env cl from_json mount role_name ''token-ttl'')
       (\<lambda>v.
     pure (Inr (duration_property_value v)))"

record token_ttl_payload =
  token_ttl_payload_token_ttl :: string

definition approle_admin_write_token_ttl ::
  "http_env \<Rightarrow> client \<Rightarrow>
   (string \<Rightarrow> unit option) \<Rightarrow>
   (token_ttl_payload \<Rightarrow> payload) \<Rightarrow> string \<Rightarrow>
   string \<Rightarrow> string \<Rightarrow> unit sent" where
  "approle_admin_write_token_ttl env cl from_json to_json mount role_name ttl =
     sbind (pure (validate_duration_parameter ttl ''approle token_ttl'')) (\<lambda>_.
     approle_admin_write_role_property env cl from_json to_json mount role_name ''token-ttl''
       \<lparr>token_ttl_payload_token_ttl = ttl\<rparr>)"

definition approle_admin_delete_token_ttl ::
  "http_env \<Rightarrow> client \<Rightarrow>
   (string \<Rightarrow> unit option) \<Rightarrow> string \<Rightarrow> string \<Rightarrow>
   unit sent" where
  "approle_admin_delete_token_ttl env cl from_json mount role_name =
     approle_admin_delete_role_property env cl from_json mount role_name ''token-ttl''"

definition approle_admin_read_token_max_ttl ::
  "http_env \<Rightarrow> client \<Rightarrow>
   (string \<Rightarrow> duration_property response_envelope option) \<Rightarrow>
   string \<Rightarrow> string \<Rightarrow> string sent" where
  "approle_admin_read_token_max_ttl env cl from_json mount role_name =
     sbind (approle_admin_read_role_property env cl from_json mount role_name
       ''token-max-ttl'') (\<lambda>v.
     pure (Inr (duration_property_value v)))"

record token_max_ttl_payload =
  token_max_ttl_payload_token_max_ttl :: string

definition approle_admin_write_token_max_ttl ::
  "http_env \<Rightarrow> client \<Rightarrow>
   (string \<Rightarrow> unit option) \<Rightarrow>
   (token_max_ttl_payload \<Rightarrow> payload) \<Rightarrow> string \<Rightarrow>
   string \<Rightarrow> string \<Rightarrow> unit sent" where
  "approle_admin_write_token_max_ttl env cl from_json to_json mount role_name ttl =
     sbind (pure (validate_duration_parameter ttl ''approle token_max_ttl'')) (\<lambda>_.
     approle_admin_write_role_property env cl from_json to_json mount role_name
       ''token-max-ttl'' \<lparr>token_max_ttl_payload_token_max_ttl = ttl\<rparr>)"

definition approle_admin_delete_token_max_ttl ::
  "http_env \<Rightarrow> client \<Rightarrow>
   (string \<Rightarrow> unit option) \<Rightarrow> string \<Rightarrow> string \<Rightarrow>
   unit sent" where
  "approle_admin_delete_token_max_ttl env cl from_json mount role_name =
     approle_admin_delete_role_property env cl from_json mount role_name ''token-max-ttl''"

record bind_secret_id_property =
  bind_secret_id_property_bind_secret_id :: bool

definition approle_admin_read_bind_secret_id ::
  "http_env \<Rightarrow> client \<Rightarrow>
   (string \<Rightarrow> bind_secret_id_property response_envelope option) \<Rightarrow>
   string \<Rightarrow> string \<Rightarrow> bool sent" where
  "approle_admin_read_bind_secret_id env cl from_json mount role_name =
     sbind (approle_admin_read_role_property env cl from_json mount role_name
       ''bind-secret-id'') (\<lambda>v.
     pure (Inr (bind_secret_id_property_bind_secret_id v)))"

record bind_secret_id_payload =
  bind_secret_id_payload_bind_secret_id :: bool

definition approle_admin_write_bind_secret_id ::
  "http_env \<Rightarrow> client \<Rightarrow>
   (string \<Rightarrow> unit option) \<Rightarrow>
   (bind_secret_id_payload \<Rightarrow> payload) \<Rightarrow> string \<Rightarrow>
   string \<Rightarrow> bool \<Rightarrow> unit sent" where
  "approle_admin_write_bind_secret_id env cl from_json to_json mount role_name bind =
     approle_admin_write_role_property env cl from_json to_json mount role_name
       ''bind-secret-id'' \<lparr>bind_secret_id_payload_bind_secret_id = bind\<rparr>"

definition approle_admin_delete_bind_secret_id ::
  "http_env \<Rightarrow> client \<Rightarrow>
   (string \<Rightarrow> unit option) \<Rightarrow> string \<Rightarrow> string \<Rightarrow>
   unit sent" where
  "approle_admin_delete_bind_secret_id env cl from_json mount role_name =
     approle_admin_delete_role_property env cl from_json mount role_name ''bind-secret-id''"

definition approle_admin_read_secret_id_bound_cidrs ::
  "http_env \<Rightarrow> client \<Rightarrow>
   (string \<Rightarrow> string_list_property response_envelope option) \<Rightarrow>
   string \<Rightarrow> string \<Rightarrow> string list sent" where
  "approle_admin_read_secret_id_bound_cidrs env cl from_json mount role_name =
     sbind (approle_admin_read_role_property env cl from_json mount role_name
       ''secret-id-bound-cidrs'') (\<lambda>v.
     pure (Inr (string_list_property_values v)))"

record secret_id_bound_cidrs_payload =
  secret_id_bound_cidrs_payload_secret_id_bound_cidrs :: "string list"

definition approle_admin_write_secret_id_bound_cidrs ::
  "http_env \<Rightarrow> client \<Rightarrow>
   (string \<Rightarrow> unit option) \<Rightarrow>
   (secret_id_bound_cidrs_payload \<Rightarrow> payload) \<Rightarrow> string \<Rightarrow>
   string \<Rightarrow> string list \<Rightarrow> unit sent" where
  "approle_admin_write_secret_id_bound_cidrs env cl from_json to_json mount role_name cidrs =
     sbind (pure (approle_collect_string_list cidrs ''approle secret_id_bound_cidrs''))
       (\<lambda>cidrs.
     sbind (pure (validate_cidr_list cidrs ''approle secret_id_bound_cidrs'')) (\<lambda>_.
     approle_admin_write_role_property env cl from_json to_json mount role_name
       ''secret-id-bound-cidrs''
       \<lparr>secret_id_bound_cidrs_payload_secret_id_bound_cidrs = cidrs\<rparr>))"

definition approle_admin_delete_secret_id_bound_cidrs ::
  "http_env \<Rightarrow> client \<Rightarrow>
   (string \<Rightarrow> unit option) \<Rightarrow> string \<Rightarrow> string \<Rightarrow>
   unit sent" where
  "approle_admin_delete_secret_id_bound_cidrs env cl from_json mount role_name =
     approle_admin_delete_role_property env cl from_json mount role_name
       ''secret-id-bound-cidrs''"

definition approle_admin_read_token_bound_cidrs ::
  "http_env \<Rightarrow> client \<Rightarrow>
   (string \<Rightarrow> string_list_property response_envelope option) \<Rightarrow>
   string \<Rightarrow> string \<Rightarrow> string list sent" where
  "approle_admin_read_token_bound_cidrs env cl from_json mount role_name =
     sbind (approle_admin_read_role_property env cl from_json mount role_name
       ''token-bound-cidrs'') (\<lambda>v.
     pure (Inr (string_list_property_values v)))"

record token_bound_cidrs_payload =
  token_bound_cidrs_payload_token_bound_cidrs :: "string list"

definition approle_admin_write_token_bound_cidrs ::
  "http_env \<Rightarrow> client \<Rightarrow>
   (string \<Rightarrow> unit option) \<Rightarrow>
   (token_bound_cidrs_payload \<Rightarrow> payload) \<Rightarrow> string \<Rightarrow>
   string \<Rightarrow> string list \<Rightarrow> unit sent" where
  "approle_admin_write_token_bound_cidrs env cl from_json to_json mount role_name cidrs =
     sbind (pure (approle_collect_string_list cidrs ''approle token_bound_cidrs''))
       (\<lambda>cidrs.
     sbind (pure (validate_cidr_list cidrs ''approle token_bound_cidrs'')) (\<lambda>_.
     approle_admin_write_role_property env cl from_json to_json mount role_name
       ''token-bound-cidrs''
       \<lparr>token_bound_cidrs_payload_token_bound_cidrs = cidrs\<rparr>))"

definition approle_admin_delete_token_bound_cidrs ::
  "http_env \<Rightarrow> client \<Rightarrow>
   (string \<Rightarrow> unit option) \<Rightarrow> string \<Rightarrow> string \<Rightarrow>
   unit sent" where
  "approle_admin_delete_token_bound_cidrs env cl from_json mount role_name =
     approle_admin_delete_role_property env cl from_json mount role_name ''token-bound-cidrs''"

definition approle_admin_read_token_period ::
  "http_env \<Rightarrow> client \<Rightarrow>
   (string \<Rightarrow> duration_property response_envelope option) \<Rightarrow>
   string \<Rightarrow> string \<Rightarrow> string sent" where
  "approle_admin_read_token_period env cl from_json mount role_name =
     sbind (approle_admin_read_role_property env cl from_json mount role_name ''period'')
       (\<lambda>v.
     pure (Inr (duration_property_value v)))"

record token_period_payload =
  token_period_payload_period :: string

definition approle_admin_write_token_period ::
  "http_env \<Rightarrow> client \<Rightarrow>
   (string \<Rightarrow> unit option) \<Rightarrow>
   (token_period_payload \<Rightarrow> payload) \<Rightarrow> string \<Rightarrow>
   string \<Rightarrow> string \<Rightarrow> unit sent" where
  "approle_admin_write_token_period env cl from_json to_json mount role_name period =
     sbind (pure (validate_duration_parameter period ''approle token_period'')) (\<lambda>_.
     approle_admin_write_role_property env cl from_json to_json mount role_name ''period''
       \<lparr>token_period_payload_period = period\<rparr>)"

definition approle_admin_delete_token_period ::
  "http_env \<Rightarrow> client \<Rightarrow>
   (string \<Rightarrow> unit option) \<Rightarrow> string \<Rightarrow> string \<Rightarrow>
   unit sent" where
  "approle_admin_delete_token_period env cl from_json mount role_name =
     approle_admin_delete_role_property env cl from_json mount role_name ''period''"

definition approle_admin_delete_role ::
  "http_env \<Rightarrow> client \<Rightarrow>
   (string \<Rightarrow> unit option) \<Rightarrow> string \<Rightarrow> string \<Rightarrow>
   unit sent" where
  "approle_admin_delete_role env cl from_json mount name =
     sbind (pure (validate_mount_path name)) (\<lambda>p.
     let name = join_with ''/'' p in
     request_auth_json_accepting env cl from_json ''approle'' mount ''DELETE'' (''auth/'' @
       mount @ ''/role/'' @ name) None [200, 204])"

definition approle_admin_read_role_id ::
  "http_env \<Rightarrow> client \<Rightarrow>
   (string \<Rightarrow> 'a response_envelope option) \<Rightarrow> string \<Rightarrow>
   string \<Rightarrow> 'a sent" where
  "approle_admin_read_role_id env cl from_json mount name =
     sbind (pure (validate_mount_path name)) (\<lambda>p.
     let name = join_with ''/'' p in
     smap env_data (request_auth_json_internal env cl from_json ''approle'' mount ''GET''
       (''auth/'' @ mount @ ''/role/'' @ name @ ''/role-id'') None))"

record role_id_request =
  role_id_request_role_id :: string

definition approle_admin_write_role_id ::
  "http_env \<Rightarrow> client \<Rightarrow>
   (string \<Rightarrow> 'a response_envelope option) \<Rightarrow>
   (role_id_request \<Rightarrow> payload) \<Rightarrow> string \<Rightarrow>
   string \<Rightarrow> string \<Rightarrow> 'a sent" where
  "approle_admin_write_role_id env cl from_json to_json mount name role_id =
     sbind (pure (validate_mount_path name)) (\<lambda>p.
     let name = join_with ''/'' p in
     let request = \<lparr>role_id_request_role_id = role_id\<rparr> in
     smap env_data (request_auth_json_internal env cl from_json ''approle'' mount ''POST''
       (''auth/'' @ mount @ ''/role/'' @ name @ ''/role-id'') (Some (to_json request))))"

definition approle_admin_generate_secret_id ::
  "http_env \<Rightarrow> client \<Rightarrow>
   (string \<Rightarrow> 'a response_envelope option) \<Rightarrow>
   (app_role_secret_id_request \<Rightarrow> payload) \<Rightarrow> string \<Rightarrow>
   (string \<Rightarrow> json_value option) \<Rightarrow> string \<Rightarrow>
   app_role_secret_id_request \<Rightarrow> 'a sent" where
  "approle_admin_generate_secret_id env cl from_json to_json mount parse_json role_name request =
     sbind (pure (app_role_secret_id_request_validate parse_json request)) (\<lambda>_.
     sbind (pure (validate_mount_path role_name)) (\<lambda>p.
     let role_name = join_with ''/'' p in
     smap env_data (request_auth_json_internal env cl from_json ''approle'' mount ''POST''
       (''auth/'' @ mount @ ''/role/'' @ role_name @ ''/secret-id'') (Some (to_json
       request)))))"

definition approle_admin_list_secret_id_accessors ::
  "http_env \<Rightarrow> client \<Rightarrow>
   (string \<Rightarrow> 'a response_envelope option) \<Rightarrow> string \<Rightarrow>
   string \<Rightarrow> 'a sent" where
  "approle_admin_list_secret_id_accessors env cl from_json mount role_name =
     sbind (pure (validate_mount_path role_name)) (\<lambda>p.
     let role_name = join_with ''/'' p in
     smap env_data (request_auth_json_internal env cl from_json ''approle'' mount ''LIST''
       (''auth/'' @ mount @ ''/role/'' @ role_name @ ''/secret-id'') None))"

record secret_id_lookup_request =
  secret_id_lookup_request_secret_id :: string

definition approle_admin_lookup_secret_id ::
  "http_env \<Rightarrow> client \<Rightarrow>
   (string \<Rightarrow> 'a response_envelope option) \<Rightarrow>
   (secret_id_lookup_request \<Rightarrow> payload) \<Rightarrow> string \<Rightarrow>
   string \<Rightarrow> string \<Rightarrow> 'a sent" where
  "approle_admin_lookup_secret_id env cl from_json to_json mount role_name secret_id =
     sbind (pure (validate_mount_path role_name)) (\<lambda>p.
     let role_name = join_with ''/'' p in
     let request = \<lparr>secret_id_lookup_request_secret_id = secret_id\<rparr> in
     smap env_data (request_auth_json_internal env cl from_json ''approle'' mount ''POST''
       (''auth/'' @ mount @ ''/role/'' @ role_name @ ''/secret-id/lookup'') (Some (to_json
       request))))"

definition approle_admin_destroy_secret_id ::
  "http_env \<Rightarrow> client \<Rightarrow>
   (string \<Rightarrow> unit option) \<Rightarrow>
   (secret_id_lookup_request \<Rightarrow> payload) \<Rightarrow> string \<Rightarrow>
   string \<Rightarrow> string \<Rightarrow> unit sent" where
  "approle_admin_destroy_secret_id env cl from_json to_json mount role_name secret_id =
     sbind (pure (validate_mount_path role_name)) (\<lambda>p.
     let role_name = join_with ''/'' p in
     let request = \<lparr>secret_id_lookup_request_secret_id = secret_id\<rparr> in
     request_auth_json_internal env cl from_json ''approle'' mount ''POST'' (''auth/'' @ mount
       @ ''/role/'' @ role_name @ ''/secret-id/destroy'') (Some (to_json request)))"

record secret_id_accessor_lookup_request =
  secret_id_accessor_lookup_request_secret_id_accessor :: string

definition approle_admin_lookup_secret_id_accessor ::
  "http_env \<Rightarrow> client \<Rightarrow>
   (string \<Rightarrow> 'a response_envelope option) \<Rightarrow>
   (secret_id_accessor_lookup_request \<Rightarrow> payload) \<Rightarrow>
   string \<Rightarrow> string \<Rightarrow> string \<Rightarrow> 'a sent" where
  "approle_admin_lookup_secret_id_accessor env cl from_json to_json mount role_name accessor =
     sbind (pure (validate_mount_path role_name)) (\<lambda>p.
     let role_name = join_with ''/'' p in
     let request =
       \<lparr>secret_id_accessor_lookup_request_secret_id_accessor = accessor\<rparr> in
     smap env_data (request_auth_json_internal env cl from_json ''approle'' mount ''POST''
       (''auth/'' @ mount @ ''/role/'' @ role_name @ ''/secret-id-accessor/lookup'') (Some
       (to_json request))))"

definition approle_admin_destroy_secret_id_accessor ::
  "http_env \<Rightarrow> client \<Rightarrow>
   (string \<Rightarrow> unit option) \<Rightarrow>
   (secret_id_accessor_lookup_request \<Rightarrow> payload) \<Rightarrow>
   string \<Rightarrow> string \<Rightarrow> string \<Rightarrow> unit sent" where
  "approle_admin_destroy_secret_id_accessor env cl from_json to_json mount role_name accessor =
     sbind (pure (validate_mount_path role_name)) (\<lambda>p.
     let role_name = join_with ''/'' p in
     let request =
       \<lparr>secret_id_accessor_lookup_request_secret_id_accessor = accessor\<rparr> in
     request_auth_json_internal env cl from_json ''approle'' mount ''POST'' (''auth/'' @ mount
       @ ''/role/'' @ role_name @ ''/secret-id-accessor/destroy'') (Some (to_json request)))"

record app_role_custom_secret_id_payload =
  app_role_custom_secret_id_payload_secret_id :: string
  app_role_custom_secret_id_payload_metadata :: "string option"
  app_role_custom_secret_id_payload_cidr_list :: "string list"
  app_role_custom_secret_id_payload_token_bound_cidrs :: "string list"
  app_role_custom_secret_id_payload_num_uses :: "64 word option"
  app_role_custom_secret_id_payload_ttl :: "string option"

definition approle_admin_create_custom_secret_id ::
  "http_env \<Rightarrow> client \<Rightarrow>
   (string \<Rightarrow> 'a response_envelope option) \<Rightarrow>
   (app_role_custom_secret_id_payload \<Rightarrow> payload) \<Rightarrow>
   string \<Rightarrow> (string \<Rightarrow> json_value option) \<Rightarrow>
   string \<Rightarrow> app_role_custom_secret_id_request \<Rightarrow> 'a sent" where
  "approle_admin_create_custom_secret_id env cl from_json to_json mount parse_json role_name
    request =
     sbind (pure (app_role_custom_secret_id_request_validate parse_json request)) (\<lambda>_.
     sbind (pure (validate_mount_path role_name)) (\<lambda>p.
     let role_name = join_with ''/'' p in
     let payload =
       \<lparr>app_role_custom_secret_id_payload_secret_id = app_role_custom_secret_id_request_secret_id request,
       app_role_custom_secret_id_payload_metadata = app_role_custom_secret_id_request_metadata request,
       app_role_custom_secret_id_payload_cidr_list = app_role_custom_secret_id_request_cidr_list request,
       app_role_custom_secret_id_payload_token_bound_cidrs = app_role_custom_secret_id_request_token_bound_cidrs request,
       app_role_custom_secret_id_payload_num_uses = app_role_custom_secret_id_request_num_uses request,
       app_role_custom_secret_id_payload_ttl = app_role_custom_secret_id_request_ttl request\<rparr>
       in
     smap env_data (request_auth_json_internal env cl from_json ''approle'' mount ''POST''
       (''auth/'' @ mount @ ''/role/'' @ role_name @ ''/custom-secret-id'') (Some (to_json
       payload)))))"

definition approle_admin_tidy_secret_ids ::
  "http_env \<Rightarrow> client \<Rightarrow>
   (string \<Rightarrow> unit option) \<Rightarrow> string \<Rightarrow> unit sent" where
  "approle_admin_tidy_secret_ids env cl from_json mount =
     request_auth_json_internal env cl from_json ''approle'' mount ''POST'' (''auth/'' @ mount
       @ ''/tidy/secret-id'') None"

section \<open>The routes of the method\<close>

lemma approle_literals [simp]:
  "validate_endpoint_path ''bind-secret-id'' = Inr [''bind-secret-id'']"
  "validate_endpoint_path ''custom-secret-id'' = Inr [''custom-secret-id'']"
  "validate_endpoint_path ''destroy'' = Inr [''destroy'']"
  "validate_endpoint_path ''login'' = Inr [''login'']"
  "validate_endpoint_path ''lookup'' = Inr [''lookup'']"
  "validate_endpoint_path ''period'' = Inr [''period'']"
  "validate_endpoint_path ''policies'' = Inr [''policies'']"
  "validate_endpoint_path ''role'' = Inr [''role'']"
  "validate_endpoint_path ''role-id'' = Inr [''role-id'']"
  "validate_endpoint_path ''secret-id'' = Inr [''secret-id'']"
  "validate_endpoint_path ''secret-id-accessor'' = Inr [''secret-id-accessor'']"
  "validate_endpoint_path ''secret-id-bound-cidrs'' = Inr [''secret-id-bound-cidrs'']"
  "validate_endpoint_path ''secret-id-num-uses'' = Inr [''secret-id-num-uses'']"
  "validate_endpoint_path ''secret-id-ttl'' = Inr [''secret-id-ttl'']"
  "validate_endpoint_path ''tidy'' = Inr [''tidy'']"
  "validate_endpoint_path ''token-bound-cidrs'' = Inr [''token-bound-cidrs'']"
  "validate_endpoint_path ''token-max-ttl'' = Inr [''token-max-ttl'']"
  "validate_endpoint_path ''token-ttl'' = Inr [''token-ttl'']"
  by (rule literal_endpoint; code_simp)+

lemma approle_routes:
  assumes "list_all safe_segment mount" "mount \<noteq> []"
  shows "at_route env cl ''POST'' (''auth'' # mount) [''login'']
      (approle_login env cl fj tj (join_with ''/'' mount) role_id secret_id)"
  unfolding approle_login_def approle_login_response_def
  by (use assms in \<open>auto simp: Let_def rbind_Inr_iff safe_auth join_with_Cons join_with_append
      intro!: at_intros at_requests text_atI silent_intros intro: at_after
      dest!: name_dests split: option.splits\<close>)

lemma approle_admin_routes_1:
  assumes "list_all safe_segment mount" "mount \<noteq> []"
  shows "at_route env cl ''LIST'' (''auth'' # mount) [''role'']
      (approle_admin_list_roles env cl fj (join_with ''/'' mount))"
    and "at_route env cl ''POST'' (''auth'' # mount) [''role'', name]
      (approle_admin_write_role env cl fj2 tj (join_with ''/'' mount) name role)"
    and "at_route env cl ''GET'' (''auth'' # mount) [''role'', name]
      (approle_admin_read_role env cl fj (join_with ''/'' mount) name)"
    and "at_route env cl ''GET'' (''auth'' # mount) [''role'', role_name, ''policies'']
      (approle_admin_read_token_policies env cl fj3 (join_with ''/'' mount) role_name)"
    and "at_route env cl ''POST'' (''auth'' # mount) [''role'', role_name, ''policies'']
      (approle_admin_write_token_policies env cl fj2 tj2 (join_with ''/'' mount) role_name
        policies)"
    and "at_route env cl ''DELETE'' (''auth'' # mount) [''role'', role_name, ''policies'']
      (approle_admin_delete_token_policies env cl fj2 (join_with ''/'' mount) role_name)"
    and "at_route env cl ''GET'' (''auth'' # mount) [''role'', role_name, ''secret-id-num-uses'']
      (approle_admin_read_secret_id_num_uses env cl fj4 (join_with ''/'' mount) role_name)"
    and "at_route env cl ''POST'' (''auth'' # mount) [''role'', role_name, ''secret-id-num-uses'']
      (approle_admin_write_secret_id_num_uses env cl fj2 tj3 (join_with ''/'' mount) role_name
        uses)"
    and "at_route env cl ''DELETE'' (''auth'' # mount) [''role'', role_name,
        ''secret-id-num-uses'']
      (approle_admin_delete_secret_id_num_uses env cl fj2 (join_with ''/'' mount) role_name)"
    and "at_route env cl ''GET'' (''auth'' # mount) [''role'', role_name, ''secret-id-ttl'']
      (approle_admin_read_secret_id_ttl env cl fj5 (join_with ''/'' mount) role_name)"
    and "at_route env cl ''POST'' (''auth'' # mount) [''role'', role_name, ''secret-id-ttl'']
      (approle_admin_write_secret_id_ttl env cl fj2 tj4 (join_with ''/'' mount) role_name ttl)"
    and "at_route env cl ''DELETE'' (''auth'' # mount) [''role'', role_name, ''secret-id-ttl'']
      (approle_admin_delete_secret_id_ttl env cl fj2 (join_with ''/'' mount) role_name)"
    and "at_route env cl ''GET'' (''auth'' # mount) [''role'', role_name, ''token-ttl'']
      (approle_admin_read_token_ttl env cl fj5 (join_with ''/'' mount) role_name)"
    and "at_route env cl ''POST'' (''auth'' # mount) [''role'', role_name, ''token-ttl'']
      (approle_admin_write_token_ttl env cl fj2 tj5 (join_with ''/'' mount) role_name ttl)"
  unfolding approle_admin_list_roles_def approle_admin_write_role_def approle_admin_read_role_def
      approle_admin_read_token_policies_def approle_admin_read_role_property_def
      approle_admin_role_property_path_def approle_admin_write_token_policies_def
      approle_admin_write_role_property_def approle_admin_delete_token_policies_def
      approle_admin_delete_role_property_def approle_admin_read_secret_id_num_uses_def
      approle_admin_write_secret_id_num_uses_def approle_admin_delete_secret_id_num_uses_def
      approle_admin_read_secret_id_ttl_def approle_admin_write_secret_id_ttl_def
      approle_admin_delete_secret_id_ttl_def approle_admin_read_token_ttl_def
      approle_admin_write_token_ttl_def
  by (use assms in \<open>auto simp: Let_def rbind_Inr_iff safe_auth join_with_Cons join_with_append
      intro!: at_intros at_requests text_atI silent_intros intro: at_after
      dest!: name_dests split: option.splits\<close>)

lemma approle_admin_routes_2:
  assumes "list_all safe_segment mount" "mount \<noteq> []"
  shows "at_route env cl ''DELETE'' (''auth'' # mount) [''role'', role_name, ''token-ttl'']
      (approle_admin_delete_token_ttl env cl fj (join_with ''/'' mount) role_name)"
    and "at_route env cl ''GET'' (''auth'' # mount) [''role'', role_name, ''token-max-ttl'']
      (approle_admin_read_token_max_ttl env cl fj2 (join_with ''/'' mount) role_name)"
    and "at_route env cl ''POST'' (''auth'' # mount) [''role'', role_name, ''token-max-ttl'']
      (approle_admin_write_token_max_ttl env cl fj tj (join_with ''/'' mount) role_name ttl)"
    and "at_route env cl ''DELETE'' (''auth'' # mount) [''role'', role_name, ''token-max-ttl'']
      (approle_admin_delete_token_max_ttl env cl fj (join_with ''/'' mount) role_name)"
    and "at_route env cl ''GET'' (''auth'' # mount) [''role'', role_name, ''bind-secret-id'']
      (approle_admin_read_bind_secret_id env cl fj3 (join_with ''/'' mount) role_name)"
    and "at_route env cl ''POST'' (''auth'' # mount) [''role'', role_name, ''bind-secret-id'']
      (approle_admin_write_bind_secret_id env cl fj tj2 (join_with ''/'' mount) role_name
        bind)"
    and "at_route env cl ''DELETE'' (''auth'' # mount) [''role'', role_name, ''bind-secret-id'']
      (approle_admin_delete_bind_secret_id env cl fj (join_with ''/'' mount) role_name)"
    and "at_route env cl ''GET'' (''auth'' # mount) [''role'', role_name,
        ''secret-id-bound-cidrs'']
      (approle_admin_read_secret_id_bound_cidrs env cl fj4 (join_with ''/'' mount) role_name)"
    and "at_route env cl ''POST'' (''auth'' # mount) [''role'', role_name,
        ''secret-id-bound-cidrs'']
      (approle_admin_write_secret_id_bound_cidrs env cl fj tj3 (join_with ''/'' mount)
        role_name cidrs)"
    and "at_route env cl ''DELETE'' (''auth'' # mount) [''role'', role_name,
        ''secret-id-bound-cidrs'']
      (approle_admin_delete_secret_id_bound_cidrs env cl fj (join_with ''/'' mount) role_name)"
    and "at_route env cl ''GET'' (''auth'' # mount) [''role'', role_name, ''token-bound-cidrs'']
      (approle_admin_read_token_bound_cidrs env cl fj4 (join_with ''/'' mount) role_name)"
    and "at_route env cl ''POST'' (''auth'' # mount) [''role'', role_name, ''token-bound-cidrs'']
      (approle_admin_write_token_bound_cidrs env cl fj tj4 (join_with ''/'' mount) role_name
        cidrs)"
    and "at_route env cl ''DELETE'' (''auth'' # mount) [''role'', role_name, ''token-bound-cidrs'']
      (approle_admin_delete_token_bound_cidrs env cl fj (join_with ''/'' mount) role_name)"
    and "at_route env cl ''GET'' (''auth'' # mount) [''role'', role_name, ''period'']
      (approle_admin_read_token_period env cl fj2 (join_with ''/'' mount) role_name)"
  unfolding approle_admin_delete_token_ttl_def approle_admin_delete_role_property_def
      approle_admin_role_property_path_def approle_admin_read_token_max_ttl_def
      approle_admin_read_role_property_def approle_admin_write_token_max_ttl_def
      approle_admin_write_role_property_def approle_admin_delete_token_max_ttl_def
      approle_admin_read_bind_secret_id_def approle_admin_write_bind_secret_id_def
      approle_admin_delete_bind_secret_id_def approle_admin_read_secret_id_bound_cidrs_def
      approle_admin_write_secret_id_bound_cidrs_def
      approle_admin_delete_secret_id_bound_cidrs_def approle_admin_read_token_bound_cidrs_def
      approle_admin_write_token_bound_cidrs_def approle_admin_delete_token_bound_cidrs_def
      approle_admin_read_token_period_def
  by (use assms in \<open>auto simp: Let_def rbind_Inr_iff safe_auth join_with_Cons join_with_append
      intro!: at_intros at_requests text_atI silent_intros intro: at_after
      dest!: name_dests split: option.splits\<close>)

lemma approle_admin_routes_3:
  assumes "list_all safe_segment mount" "mount \<noteq> []"
  shows "at_route env cl ''POST'' (''auth'' # mount) [''role'', role_name, ''period'']
      (approle_admin_write_token_period env cl fj tj (join_with ''/'' mount) role_name period)"
    and "at_route env cl ''DELETE'' (''auth'' # mount) [''role'', role_name, ''period'']
      (approle_admin_delete_token_period env cl fj (join_with ''/'' mount) role_name)"
    and "at_route env cl ''DELETE'' (''auth'' # mount) [''role'', name]
      (approle_admin_delete_role env cl fj (join_with ''/'' mount) name)"
    and "at_route env cl ''GET'' (''auth'' # mount) [''role'', name, ''role-id'']
      (approle_admin_read_role_id env cl fj2 (join_with ''/'' mount) name)"
    and "at_route env cl ''POST'' (''auth'' # mount) [''role'', name, ''role-id'']
      (approle_admin_write_role_id env cl fj2 tj2 (join_with ''/'' mount) name role_id)"
    and "at_route env cl ''POST'' (''auth'' # mount) [''role'', role_name, ''secret-id'']
      (approle_admin_generate_secret_id env cl fj2 tj3 (join_with ''/'' mount) parse_json
        role_name request)"
    and "at_route env cl ''LIST'' (''auth'' # mount) [''role'', role_name, ''secret-id'']
      (approle_admin_list_secret_id_accessors env cl fj2 (join_with ''/'' mount) role_name)"
    and "at_route env cl ''POST'' (''auth'' # mount) [''role'', role_name, ''secret-id'',
        ''lookup'']
      (approle_admin_lookup_secret_id env cl fj2 tj4 (join_with ''/'' mount) role_name
        secret_id)"
    and "at_route env cl ''POST'' (''auth'' # mount) [''role'', role_name, ''secret-id'',
        ''destroy'']
      (approle_admin_destroy_secret_id env cl fj tj4 (join_with ''/'' mount) role_name
        secret_id)"
    and "at_route env cl ''POST'' (''auth'' # mount) [''role'', role_name, ''secret-id-accessor'',
        ''lookup'']
      (approle_admin_lookup_secret_id_accessor env cl fj2 tj5 (join_with ''/'' mount)
        role_name accessor)"
    and "at_route env cl ''POST'' (''auth'' # mount) [''role'', role_name, ''secret-id-accessor'',
        ''destroy'']
      (approle_admin_destroy_secret_id_accessor env cl fj tj5 (join_with ''/'' mount)
        role_name accessor)"
    and "at_route env cl ''POST'' (''auth'' # mount) [''role'', role_name, ''custom-secret-id'']
      (approle_admin_create_custom_secret_id env cl fj2 tj6 (join_with ''/'' mount) parse_json
        role_name request2)"
    and "at_route env cl ''POST'' (''auth'' # mount) [''tidy'', ''secret-id'']
      (approle_admin_tidy_secret_ids env cl fj (join_with ''/'' mount))"
  unfolding approle_admin_write_token_period_def approle_admin_write_role_property_def
      approle_admin_role_property_path_def approle_admin_delete_token_period_def
      approle_admin_delete_role_property_def approle_admin_delete_role_def
      approle_admin_read_role_id_def approle_admin_write_role_id_def
      approle_admin_generate_secret_id_def approle_admin_list_secret_id_accessors_def
      approle_admin_lookup_secret_id_def approle_admin_destroy_secret_id_def
      approle_admin_lookup_secret_id_accessor_def approle_admin_destroy_secret_id_accessor_def
      approle_admin_create_custom_secret_id_def approle_admin_tidy_secret_ids_def
  by (use assms in \<open>auto simp: Let_def rbind_Inr_iff safe_auth join_with_Cons join_with_append
      intro!: at_intros at_requests text_atI silent_intros intro: at_after
      dest!: name_dests split: option.splits\<close>)

end
