(* ===== verification/Bao_Cert.thy ===== *)
theory Bao_Cert
  imports Bao_Auth
begin

text \<open>
  The TLS certificate method, \<open>auth/cert.rs\<close>.
  A handle is its mount path; \<open>from_json\<close> and \<open>to_json\<close> are the deserialiser of a response and the
  serialiser of a payload.
\<close>

section \<open>Data and requests\<close>

record cert_role =
  cert_role_certificate :: string
  cert_role_allowed_names :: string
  cert_role_allowed_common_names :: "string list"
  cert_role_allowed_dns_sans :: "string list"
  cert_role_allowed_email_sans :: "string list"
  cert_role_allowed_uri_sans :: "string list"
  cert_role_allowed_organizational_units :: "string list"
  cert_role_required_extensions :: "string list"
  cert_role_allowed_metadata_extensions :: "string list"
  cert_role_ocsp_enabled :: "bool option"
  cert_role_ocsp_ca_certificates :: string
  cert_role_ocsp_servers_override :: "string list"
  cert_role_ocsp_fail_open :: "bool option"
  cert_role_ocsp_query_all_servers :: "bool option"
  cert_role_display_name :: string
  cert_role_policies :: "string list"
  cert_role_token_policies :: "string list"
  cert_role_token_bound_cidrs :: "string list"
  cert_role_token_strictly_bind_ip :: "bool option"
  cert_role_token_ttl :: "string option"
  cert_role_token_max_ttl :: "string option"
  cert_role_token_explicit_max_ttl :: "string option"
  cert_role_token_no_default_policy :: "bool option"
  cert_role_token_num_uses :: "64 word option"
  cert_role_token_period :: "string option"
  cert_role_token_type :: "string option"

definition cert_role_validate :: "cert_role \<Rightarrow> unit res" where
  "cert_role_validate self =
     validate_cidr_list (cert_role_token_bound_cidrs self) ''cert auth token_bound_cidrs''"

section \<open>Operations\<close>

definition client_cert_at :: "string \<Rightarrow> string res" where
  "client_cert_at mount =
     rbind (validate_mount_path mount) (\<lambda>p.
     Inr (join_with ''/'' p))"

definition client_cert :: "string res" where
  "client_cert = client_cert_at ''cert''"

record cert_login_request =
  cert_login_request_name :: "string option"

record cert_login_auth =
  cert_login_auth_client_token :: string
  cert_login_auth_accessor :: "string option"
  cert_login_auth_policies :: "string list"
  cert_login_auth_lease_duration :: "64 word"
  cert_login_auth_renewable :: bool
  cert_login_auth_metadata :: "(string \<times> string) list"

record cert_login_response =
  cert_login_response_auth :: "cert_login_auth option"

definition cert_login_response_call ::
  "http_env \<Rightarrow> client \<Rightarrow>
   (string \<Rightarrow> cert_login_response option) \<Rightarrow>
   (cert_login_request \<Rightarrow> payload) \<Rightarrow> string \<Rightarrow>
   string option \<Rightarrow> cert_login_auth sent" where
  "cert_login_response_call env cl from_json to_json mount role =
     sbind (pure (case role of
        Some role \<Rightarrow> rbind (validate_mount_path role) (\<lambda>p.
        Inr (Some (join_with ''/'' p)))
      | None \<Rightarrow> Inr None)) (\<lambda>role.
     let request = \<lparr>cert_login_request_name = role\<rparr> in
     sbind (request_auth_json_internal env cl from_json ''cert'' mount ''POST'' (''auth/'' @
       mount @ ''/login'') (Some (to_json request))) (\<lambda>response.
     pure (ok_or (cert_login_response_auth response) (MissingField ''auth''))))"

record cert_login_metadata =
  cert_login_metadata_accessor :: "string option"
  cert_login_metadata_policies :: "string list"
  cert_login_metadata_lease_duration :: "64 word"
  cert_login_metadata_renewable :: bool
  cert_login_metadata_metadata :: "(string \<times> string) list"

definition cert_split_login_auth ::
  "cert_login_auth \<Rightarrow> string \<times> cert_login_metadata" where
  "cert_split_login_auth auth =
     (let metadata = \<lparr>cert_login_metadata_accessor = cert_login_auth_accessor auth,
       cert_login_metadata_policies = cert_login_auth_policies auth,
       cert_login_metadata_lease_duration = cert_login_auth_lease_duration auth,
       cert_login_metadata_renewable = cert_login_auth_renewable auth,
       cert_login_metadata_metadata = cert_login_auth_metadata auth\<rparr> in
     (cert_login_auth_client_token auth, metadata))"

definition client_login_cert ::
  "http_env \<Rightarrow> client \<Rightarrow>
   (string \<Rightarrow> cert_login_response option) \<Rightarrow>
   (cert_login_request \<Rightarrow> payload) \<Rightarrow> string option \<Rightarrow>
   (client \<times> cert_login_metadata) sent" where
  "client_login_cert env cl from_json to_json role =
     sbind (pure client_cert) (\<lambda>v.
     sbind (cert_login_response_call env cl from_json to_json v role) (\<lambda>response.
     (case cert_split_login_auth response of (token, metadata) \<Rightarrow>
        sbind (pure (try_with_token env cl token)) (\<lambda>v.
        pure (Inr (v, metadata))))))"

definition client_cert_admin_at :: "string \<Rightarrow> string res" where
  "client_cert_admin_at mount =
     rbind (validate_mount_path mount) (\<lambda>p.
     Inr (join_with ''/'' p))"

definition client_cert_admin :: "string res" where
  "client_cert_admin = client_cert_admin_at ''cert''"

definition cert_login ::
  "http_env \<Rightarrow> client \<Rightarrow>
   (string \<Rightarrow> cert_login_response option) \<Rightarrow>
   (cert_login_request \<Rightarrow> payload) \<Rightarrow> string \<Rightarrow>
   string option \<Rightarrow> (client \<times> cert_login_metadata) sent" where
  "cert_login env cl from_json to_json mount role =
     sbind (cert_login_response_call env cl from_json to_json mount role) (\<lambda>response.
     (case cert_split_login_auth response of (token, metadata) \<Rightarrow>
        sbind (pure (try_with_token env (clone_without_state cl) token)) (\<lambda>v.
        pure (Inr (v, metadata)))))"

record cert_auth_config =
  cert_auth_config_disable_binding :: "bool option"
  cert_auth_config_enable_identity_alias_metadata :: "bool option"
  cert_auth_config_ocsp_cache_size :: "64 word option"

definition cert_admin_configure ::
  "http_env \<Rightarrow> client \<Rightarrow>
   (string \<Rightarrow> unit option) \<Rightarrow>
   (cert_auth_config \<Rightarrow> payload) \<Rightarrow> string \<Rightarrow>
   cert_auth_config \<Rightarrow> unit sent" where
  "cert_admin_configure env cl from_json to_json mount config =
     request_auth_json_internal env cl from_json ''cert'' mount ''POST'' (''auth/'' @ mount @
       ''/config'') (Some (to_json config))"

definition cert_admin_write_role ::
  "http_env \<Rightarrow> client \<Rightarrow>
   (string \<Rightarrow> unit option) \<Rightarrow>
   (cert_role \<Rightarrow> payload) \<Rightarrow> string \<Rightarrow> string \<Rightarrow>
   cert_role \<Rightarrow> unit sent" where
  "cert_admin_write_role env cl from_json to_json mount name role =
     sbind (pure (cert_role_validate role)) (\<lambda>_.
     sbind (pure (validate_mount_path name)) (\<lambda>p.
     let name = join_with ''/'' p in
     request_auth_json_internal env cl from_json ''cert'' mount ''POST'' (''auth/'' @ mount @
       ''/certs/'' @ name) (Some (to_json role))))"

definition cert_admin_read_role ::
  "http_env \<Rightarrow> client \<Rightarrow>
   (string \<Rightarrow> 'a response_envelope option) \<Rightarrow> string \<Rightarrow>
   string \<Rightarrow> 'a sent" where
  "cert_admin_read_role env cl from_json mount name =
     sbind (pure (validate_mount_path name)) (\<lambda>p.
     let name = join_with ''/'' p in
     smap env_data (request_auth_json_internal env cl from_json ''cert'' mount ''GET''
       (''auth/'' @ mount @ ''/certs/'' @ name) None))"

definition cert_admin_list_roles ::
  "http_env \<Rightarrow> client \<Rightarrow>
   (string \<Rightarrow> 'a response_envelope option) \<Rightarrow> string \<Rightarrow>
   string option \<Rightarrow> 64 word option \<Rightarrow> 'a sent" where
  "cert_admin_list_roles env cl from_json mount after limit =
     sbind (pure (from_after_limit after limit)) (\<lambda>v.
     let query = query_pairs v in
     smap env_data (request_auth_json_query_accepting env cl from_json ''cert'' mount ''LIST''
       (''auth/'' @ mount @ ''/certs'') query None [200]))"

definition cert_admin_delete_role ::
  "http_env \<Rightarrow> client \<Rightarrow>
   (string \<Rightarrow> unit option) \<Rightarrow> string \<Rightarrow> string \<Rightarrow>
   unit sent" where
  "cert_admin_delete_role env cl from_json mount name =
     sbind (pure (validate_mount_path name)) (\<lambda>p.
     let name = join_with ''/'' p in
     request_auth_json_accepting env cl from_json ''cert'' mount ''DELETE'' (''auth/'' @ mount
       @ ''/certs/'' @ name) None [200, 204])"

record cert_crl =
  cert_crl_crl :: string
  cert_crl_url :: string

definition cert_admin_write_crl ::
  "http_env \<Rightarrow> client \<Rightarrow>
   (string \<Rightarrow> unit option) \<Rightarrow>
   (cert_crl \<Rightarrow> payload) \<Rightarrow> string \<Rightarrow> string \<Rightarrow>
   cert_crl \<Rightarrow> unit sent" where
  "cert_admin_write_crl env cl from_json to_json mount name crl =
     sbind (pure (validate_mount_path name)) (\<lambda>p.
     let name = join_with ''/'' p in
     request_auth_json_internal env cl from_json ''cert'' mount ''POST'' (''auth/'' @ mount @
       ''/crls/'' @ name) (Some (to_json crl)))"

definition cert_admin_read_crl ::
  "http_env \<Rightarrow> client \<Rightarrow>
   (string \<Rightarrow> 'a response_envelope option) \<Rightarrow> string \<Rightarrow>
   string \<Rightarrow> 'a sent" where
  "cert_admin_read_crl env cl from_json mount name =
     sbind (pure (validate_mount_path name)) (\<lambda>p.
     let name = join_with ''/'' p in
     smap env_data (request_auth_json_internal env cl from_json ''cert'' mount ''GET''
       (''auth/'' @ mount @ ''/crls/'' @ name) None))"

definition cert_admin_list_crls ::
  "http_env \<Rightarrow> client \<Rightarrow>
   (string \<Rightarrow> 'a response_envelope option) \<Rightarrow> string \<Rightarrow>
   string option \<Rightarrow> 64 word option \<Rightarrow> 'a sent" where
  "cert_admin_list_crls env cl from_json mount after limit =
     sbind (pure (from_after_limit after limit)) (\<lambda>v.
     let query = query_pairs v in
     smap env_data (request_auth_json_query_accepting env cl from_json ''cert'' mount ''LIST''
       (''auth/'' @ mount @ ''/crls'') query None [200]))"

definition cert_admin_delete_crl ::
  "http_env \<Rightarrow> client \<Rightarrow>
   (string \<Rightarrow> unit option) \<Rightarrow> string \<Rightarrow> string \<Rightarrow>
   unit sent" where
  "cert_admin_delete_crl env cl from_json mount name =
     sbind (pure (validate_mount_path name)) (\<lambda>p.
     let name = join_with ''/'' p in
     request_auth_json_accepting env cl from_json ''cert'' mount ''DELETE'' (''auth/'' @ mount
       @ ''/crls/'' @ name) None [200, 204])"

section \<open>The routes of the method\<close>

lemma cert_literals [simp]:
  "validate_endpoint_path ''certs'' = Inr [''certs'']"
  "validate_endpoint_path ''config'' = Inr [''config'']"
  "validate_endpoint_path ''crls'' = Inr [''crls'']"
  "validate_endpoint_path ''login'' = Inr [''login'']"
  by (rule literal_endpoint; code_simp)+

lemma cert_routes:
  assumes "list_all safe_segment mount" "mount \<noteq> []"
  shows "at_route env cl ''POST'' (''auth'' # mount) [''login'']
      (cert_login env cl fj tj (join_with ''/'' mount) role)"
  unfolding cert_login_def cert_login_response_call_def
  by (use assms in \<open>auto simp: Let_def rbind_Inr_iff safe_auth join_with_Cons join_with_append
      intro!: at_intros at_requests text_atI silent_intros intro: at_after
      dest!: name_dests split: option.splits\<close>)

lemma cert_admin_routes:
  assumes "list_all safe_segment mount" "mount \<noteq> []"
  shows "at_route env cl ''POST'' (''auth'' # mount) [''config'']
      (cert_admin_configure env cl fj tj (join_with ''/'' mount) config)"
    and "at_route env cl ''POST'' (''auth'' # mount) [''certs'', name]
      (cert_admin_write_role env cl fj tj2 (join_with ''/'' mount) name role)"
    and "at_route env cl ''GET'' (''auth'' # mount) [''certs'', name]
      (cert_admin_read_role env cl fj2 (join_with ''/'' mount) name)"
    and "at_route env cl ''LIST'' (''auth'' # mount) [''certs'']
      (cert_admin_list_roles env cl fj2 (join_with ''/'' mount) after limit)"
    and "at_route env cl ''DELETE'' (''auth'' # mount) [''certs'', name]
      (cert_admin_delete_role env cl fj (join_with ''/'' mount) name)"
    and "at_route env cl ''POST'' (''auth'' # mount) [''crls'', name]
      (cert_admin_write_crl env cl fj tj3 (join_with ''/'' mount) name crl)"
    and "at_route env cl ''GET'' (''auth'' # mount) [''crls'', name]
      (cert_admin_read_crl env cl fj2 (join_with ''/'' mount) name)"
    and "at_route env cl ''LIST'' (''auth'' # mount) [''crls'']
      (cert_admin_list_crls env cl fj2 (join_with ''/'' mount) after limit)"
    and "at_route env cl ''DELETE'' (''auth'' # mount) [''crls'', name]
      (cert_admin_delete_crl env cl fj (join_with ''/'' mount) name)"
  unfolding cert_admin_configure_def cert_admin_write_role_def cert_admin_read_role_def
      cert_admin_list_roles_def cert_admin_delete_role_def cert_admin_write_crl_def
      cert_admin_read_crl_def cert_admin_list_crls_def cert_admin_delete_crl_def
  by (use assms in \<open>auto simp: Let_def rbind_Inr_iff safe_auth join_with_Cons join_with_append
      intro!: at_intros at_requests text_atI silent_intros intro: at_after
      dest!: name_dests split: option.splits\<close>)

end
