(* ===== verification/Bao_Jwt.thy ===== *)
theory Bao_Jwt
  imports Bao_Auth
begin

text \<open>
  The JWT and OIDC method, \<open>auth/jwt.rs\<close>: configuration, roles, CEL programs and roles, the OIDC flows, the
  logins and every operation of the administration handle.
  A handle is its mount path; \<open>from_json\<close> and \<open>to_json\<close> are the deserialiser of a response and the
  serialiser of a payload.
\<close>

section \<open>Data and requests\<close>

record jwt_config =
  jwt_config_oidc_discovery_url :: "string option"
  jwt_config_oidc_discovery_ca_pem :: "string option"
  jwt_config_jwks_url :: "string option"
  jwt_config_jwks_ca_pem :: "string option"
  jwt_config_jwt_validation_pubkeys :: "string list"
  jwt_config_bound_issuer :: "string option"
  jwt_config_jwt_supported_algs :: "string list"
  jwt_config_default_role :: "string option"
  jwt_config_oidc_client_id :: "string option"
  jwt_config_oidc_client_secret :: "string option"
  jwt_config_oidc_response_mode :: "string option"
  jwt_config_oidc_response_types :: "string list"
  jwt_config_provider_config :: "(string \<times> string) list"
  jwt_config_override_allowed_server_names :: "string list"
  jwt_config_skip_jwks_validation :: "bool option"
  jwt_config_namespace_in_state :: "bool option"

definition jwt_config_default :: jwt_config where
  "jwt_config_default =
     \<lparr>jwt_config_oidc_discovery_url = None, jwt_config_oidc_discovery_ca_pem = None,
       jwt_config_jwks_url = None, jwt_config_jwks_ca_pem = None,
       jwt_config_jwt_validation_pubkeys = [], jwt_config_bound_issuer = None,
       jwt_config_jwt_supported_algs = [], jwt_config_default_role = None,
       jwt_config_oidc_client_id = None, jwt_config_oidc_client_secret = None,
       jwt_config_oidc_response_mode = None, jwt_config_oidc_response_types = [],
       jwt_config_provider_config = [], jwt_config_override_allowed_server_names = [],
       jwt_config_skip_jwks_validation = None, jwt_config_namespace_in_state = None\<rparr>"

definition jwt_config_kubernetes_provider :: jwt_config where
  "jwt_config_kubernetes_provider =
     jwt_config_default\<lparr>jwt_config_provider_config := [(''provider'',
       ''kubernetes'')]\<rparr>"

definition jwt_config_uses_kubernetes_provider :: "jwt_config \<Rightarrow> bool" where
  "jwt_config_uses_kubernetes_provider self \<longleftrightarrow>
     map_of (jwt_config_provider_config self) ''provider'' = Some ''kubernetes''"

definition jwt_config_validate ::
  "(string \<Rightarrow> url option) \<Rightarrow> jwt_config \<Rightarrow> unit res" where
  "jwt_config_validate parse_url self =
     rbind (case jwt_config_oidc_discovery_url self of
        None \<Rightarrow> Inr ()
      | Some val_v \<Rightarrow> validate_https_endpoint parse_url val_v
        ''oidc_discovery_url'') (\<lambda>_.
     rbind (case jwt_config_jwks_url self of
        None \<Rightarrow> Inr ()
      | Some val_v \<Rightarrow> validate_https_endpoint parse_url val_v ''jwks_url'')
        (\<lambda>_.
     (if \<not> (jwt_config_uses_kubernetes_provider self) then Inr ()
        else (if length (jwt_config_provider_config self) \<noteq> 1 then Inl (InvalidParameter
          ''JWT Kubernetes provider_config accepts only provider=kubernetes'')
           else (if jwt_config_oidc_discovery_url self \<noteq> None \<or>
             jwt_config_oidc_discovery_ca_pem self \<noteq> None \<or> jwt_config_jwks_url self
             \<noteq> None \<or> jwt_config_jwks_ca_pem self \<noteq> None \<or> \<not>
             (jwt_config_jwt_validation_pubkeys self = []) then Inl (InvalidParameter
             ''JWT Kubernetes provider must be the sole signing-key source'')
              else Inr ())))))"

datatype jwt_leeway =
    JwtLeeway_Seconds "64 word" | JwtLeeway_Duration string | JwtLeeway_DisableTimeValidation

definition jwt_leeway_seconds :: "64 word \<Rightarrow> jwt_leeway" where
  "jwt_leeway_seconds seconds = JwtLeeway_Seconds seconds"

definition jwt_leeway_duration :: "string \<Rightarrow> jwt_leeway" where
  "jwt_leeway_duration duration = JwtLeeway_Duration duration"

record jwt_role =
  jwt_role_role_type :: "string option"
  jwt_role_bound_audiences :: "string list"
  jwt_role_bound_subject :: "string option"
  jwt_role_bound_claims_type :: "string option"
  jwt_role_bound_claims :: "(string \<times> string) list"
  jwt_role_user_claim :: "string option"
  jwt_role_user_claim_json_pointer :: "bool option"
  jwt_role_groups_claim :: "string option"
  jwt_role_claim_mappings :: "(string \<times> string) list"
  jwt_role_clock_skew_leeway :: "jwt_leeway option"
  jwt_role_expiration_leeway :: "jwt_leeway option"
  jwt_role_not_before_leeway :: "jwt_leeway option"
  jwt_role_allowed_redirect_uris :: "string list"
  jwt_role_oidc_scopes :: "string list"
  jwt_role_callback_mode :: "string option"
  jwt_role_poll_interval :: "64 word option"
  jwt_role_oidc_disable_confirmation :: "bool option"
  jwt_role_verbose_oidc_logging :: "bool option"
  jwt_role_max_age :: "string option"
  jwt_role_token_policies_template_claims :: "bool option"
  jwt_role_token_policies :: "string list"
  jwt_role_policies :: "string list"
  jwt_role_token_ttl :: "string option"
  jwt_role_token_max_ttl :: "string option"
  jwt_role_token_period :: "string option"
  jwt_role_token_explicit_max_ttl :: "string option"
  jwt_role_token_type :: "string option"
  jwt_role_token_bound_cidrs :: "string list"
  jwt_role_token_num_uses :: "64 word option"
  jwt_role_token_no_default_policy :: "bool option"

definition jwt_role_default :: jwt_role where
  "jwt_role_default =
     \<lparr>jwt_role_role_type = None, jwt_role_bound_audiences = [], jwt_role_bound_subject =
       None, jwt_role_bound_claims_type = None, jwt_role_bound_claims = [], jwt_role_user_claim
       = None, jwt_role_user_claim_json_pointer = None, jwt_role_groups_claim = None,
       jwt_role_claim_mappings = [], jwt_role_clock_skew_leeway = None,
       jwt_role_expiration_leeway = None, jwt_role_not_before_leeway = None,
       jwt_role_allowed_redirect_uris = [], jwt_role_oidc_scopes = [], jwt_role_callback_mode =
       None, jwt_role_poll_interval = None, jwt_role_oidc_disable_confirmation = None,
       jwt_role_verbose_oidc_logging = None, jwt_role_max_age = None,
       jwt_role_token_policies_template_claims = None, jwt_role_token_policies = [],
       jwt_role_policies = [], jwt_role_token_ttl = None, jwt_role_token_max_ttl = None,
       jwt_role_token_period = None, jwt_role_token_explicit_max_ttl = None,
       jwt_role_token_type = None, jwt_role_token_bound_cidrs = [], jwt_role_token_num_uses =
       None, jwt_role_token_no_default_policy = None\<rparr>"

definition jwt_role_new :: "string \<Rightarrow> jwt_role" where
  "jwt_role_new user_claim =
     jwt_role_default\<lparr>jwt_role_user_claim := Some user_claim\<rparr>"

definition jwt_role_validate :: "jwt_role \<Rightarrow> unit res" where
  "jwt_role_validate self =
     rbind (case jwt_role_max_age self of
        None \<Rightarrow> Inr ()
      | Some max_age \<Rightarrow> validate_duration_parameter max_age ''jwt auth max_age'')
        (\<lambda>_.
     (case jwt_role_callback_mode self of
        None \<Rightarrow> validate_cidr_list (jwt_role_token_bound_cidrs self)
          ''jwt auth token_bound_cidrs''
      | Some callback_mode \<Rightarrow> (if \<not> (callback_mode = ''client'' \<or>
        callback_mode = ''direct'' \<or> callback_mode = ''device'') then Inl (InvalidParameter
        ''jwt auth callback_mode must be client, direct, or device'')
           else validate_cidr_list (jwt_role_token_bound_cidrs self)
             ''jwt auth token_bound_cidrs'')))"

record jwt_cel_variable =
  jwt_cel_variable_name :: string
  jwt_cel_variable_expression :: string

definition jwt_cel_variable_expression_set :: "jwt_cel_variable \<Rightarrow> string" where
  "jwt_cel_variable_expression_set self = jwt_cel_variable_expression self"

record jwt_cel_program =
  jwt_cel_program_variables :: "jwt_cel_variable list"
  jwt_cel_program_expression :: string

definition MAX_CEL_VARIABLES :: nat where
  "MAX_CEL_VARIABLES = 128"

definition MAX_CEL_EXPRESSION_BYTES :: nat where
  "MAX_CEL_EXPRESSION_BYTES = 256 * 1024"

definition jwt_validate_cel_expression :: "string \<Rightarrow> unit res" where
  "jwt_validate_cel_expression val_v =
     (if trim val_v = [] then Inl (InvalidParameter ''JWT CEL expression must not be empty'')
        else (if MAX_CEL_EXPRESSION_BYTES < length val_v then Inl (InvalidParameter
          ''JWT CEL expression exceeds size limit'')
           else Inr ()))"

definition MAX_CEL_IDENTIFIER_BYTES :: nat where
  "MAX_CEL_IDENTIFIER_BYTES = 256"

definition jwt_validate_cel_identifier :: "string \<Rightarrow> unit res" where
  "jwt_validate_cel_identifier val_v =
     (if val_v = [] \<or> MAX_CEL_IDENTIFIER_BYTES < length val_v \<or> (\<not>
       (is_ascii_alphabetic (val_v ! 0) \<or> val_v ! 0 = CHR ''_'')) \<or> (\<not> (list_all
       (\<lambda>byte_v. is_ascii_alphanumeric byte_v \<or> byte_v = CHR ''_'') (drop 1
       val_v))) then Inl (InvalidParameter
       ''JWT CEL variable name must be a bounded ASCII identifier'')
        else Inr ())"

definition MAX_CEL_PROGRAM_BYTES :: nat where
  "MAX_CEL_PROGRAM_BYTES = 1024 * 1024"

definition jwt_cel_program_validate :: "jwt_cel_program \<Rightarrow> unit res" where
  "jwt_cel_program_validate self =
     (if MAX_CEL_VARIABLES < length (jwt_cel_program_variables self) then Inl (InvalidParameter
       ''JWT CEL program exceeds variable limit'')
        else rbind (jwt_validate_cel_expression (jwt_cel_program_expression self)) (\<lambda>_.
        let total = length (jwt_cel_program_expression self) in
        let names = [] in
        rbind (rfold (\<lambda>variable (names, total). rbind (jwt_validate_cel_identifier
          (jwt_cel_variable_name variable)) (\<lambda>_.
        rbind (jwt_validate_cel_expression (jwt_cel_variable_expression variable)) (\<lambda>_.
        (if jwt_cel_variable_name variable \<in> set names then Inl (InvalidParameter
          ''JWT CEL variable names must be unique'')
           else let names = names @ [jwt_cel_variable_name variable] in
           rbind (ok_or (Option.bind (Some (total + (length (jwt_cel_variable_name variable))))
             (\<lambda>total. Some (total + (length (jwt_cel_variable_expression variable)))))
             (InvalidParameter ''JWT CEL program is too large'')) (\<lambda>v.
           let total = v in
           (if MAX_CEL_PROGRAM_BYTES < total then Inl (InvalidParameter
             ''JWT CEL program exceeds total size limit'')
              else Inr (names, total))))))) (jwt_cel_program_variables self) (names, total))
                (\<lambda>(names, total).
        Inr ())))"

definition jwt_cel_program_new :: "string \<Rightarrow> jwt_cel_program res" where
  "jwt_cel_program_new expression =
     (let program = \<lparr>jwt_cel_program_variables = [],
       jwt_cel_program_expression = expression\<rparr> in
     rbind (jwt_cel_program_validate program) (\<lambda>_.
     Inr program))"

definition jwt_cel_program_with_variable ::
  "jwt_cel_program \<Rightarrow> string \<Rightarrow> string \<Rightarrow>
   jwt_cel_program res" where
  "jwt_cel_program_with_variable self name expression =
     rbind (jwt_cel_program_validate
       (self\<lparr>jwt_cel_program_variables := jwt_cel_program_variables self @
       [\<lparr>jwt_cel_variable_name = name,
       jwt_cel_variable_expression = expression\<rparr>]\<rparr>)) (\<lambda>_.
     Inr (self\<lparr>jwt_cel_program_variables := jwt_cel_program_variables self @
       [\<lparr>jwt_cel_variable_name = name,
       jwt_cel_variable_expression = expression\<rparr>]\<rparr>))"

definition jwt_cel_program_expression_set :: "jwt_cel_program \<Rightarrow> string" where
  "jwt_cel_program_expression_set self = jwt_cel_program_expression self"

record jwt_cel_claim_validation_acknowledgement =
  jwt_cel_claim_validation_acknowledgement__private :: unit

definition jwt_cel_claim_validation_acknowledgement_all_authorization_claims_are_constrained_in_cel ::
  "jwt_cel_claim_validation_acknowledgement" where
  "jwt_cel_claim_validation_acknowledgement_all_authorization_claims_are_constrained_in_cel =
     \<lparr>jwt_cel_claim_validation_acknowledgement__private = ()\<rparr>"

record jwt_cel_role_request =
  jwt_cel_role_request_cel_program :: jwt_cel_program
  jwt_cel_role_request_message :: "string option"
  jwt_cel_role_request_clock_skew_leeway :: "jwt_leeway option"
  jwt_cel_role_request_expiration_leeway :: "jwt_leeway option"
  jwt_cel_role_request_not_before_leeway :: "jwt_leeway option"
  jwt_cel_role_request_bound_audiences :: "string list"
  jwt_cel_role_request_claim_validation_acknowledged :: bool

definition jwt_cel_role_request_new :: "jwt_cel_program \<Rightarrow> jwt_cel_role_request" where
  "jwt_cel_role_request_new cel_program =
     \<lparr>jwt_cel_role_request_cel_program = cel_program,
       jwt_cel_role_request_message = None, jwt_cel_role_request_clock_skew_leeway = None,
       jwt_cel_role_request_expiration_leeway = None,
       jwt_cel_role_request_not_before_leeway = None,
       jwt_cel_role_request_bound_audiences = [],
       jwt_cel_role_request_claim_validation_acknowledged = False\<rparr>"

definition jwt_cel_role_request_acknowledge_claim_validation ::
  "jwt_cel_role_request \<Rightarrow> jwt_cel_claim_validation_acknowledgement \<Rightarrow>
   jwt_cel_role_request" where
  "jwt_cel_role_request_acknowledge_claim_validation self x =
     self\<lparr>jwt_cel_role_request_claim_validation_acknowledged := True\<rparr>"

definition MAX_CEL_AUDIENCES :: nat where
  "MAX_CEL_AUDIENCES = MAX_RESPONSE_STRINGS"

definition jwt_validate_cel_audiences :: "string list \<Rightarrow> unit res" where
  "jwt_validate_cel_audiences audiences =
     (if MAX_CEL_AUDIENCES < length audiences then Inl (InvalidParameter
       ''JWT CEL bound_audiences exceeds item limit'')
        else Inr ())"

definition MAX_CEL_MESSAGE_BYTES :: nat where
  "MAX_CEL_MESSAGE_BYTES = 64 * 1024"

definition jwt_validate_cel_leeway :: "jwt_leeway option \<Rightarrow> unit res" where
  "jwt_validate_cel_leeway leeway =
     (case leeway of
        None \<Rightarrow> Inr ()
      | Some (JwtLeeway_Duration duration) \<Rightarrow> validate_duration_parameter duration
        ''JWT CEL leeway'')"

definition jwt_cel_role_request_validate :: "jwt_cel_role_request \<Rightarrow> unit res" where
  "jwt_cel_role_request_validate self =
     (if \<not> (jwt_cel_role_request_claim_validation_acknowledged self) then Inl
       (InvalidParameter
       ''OpenBao JWT CEL roles require explicit acknowledgement that the CEL program constrains aud, sub, and every authorization-relevant claim; bound_audiences does not reject a missing aud claim'')
        else rbind (jwt_cel_program_validate (jwt_cel_role_request_cel_program self))
          (\<lambda>_.
        rbind (jwt_validate_cel_audiences (jwt_cel_role_request_bound_audiences self))
          (\<lambda>_.
        (if is_some_and (\<lambda>message. MAX_CEL_MESSAGE_BYTES < length message)
          (jwt_cel_role_request_message self) then Inl (InvalidParameter
          ''JWT CEL role message exceeds size limit'')
           else each (\<lambda>leeway. jwt_validate_cel_leeway leeway)
             [jwt_cel_role_request_clock_skew_leeway self,
             jwt_cel_role_request_expiration_leeway self,
             jwt_cel_role_request_not_before_leeway self]))))"

record jwt_cel_role_patch =
  jwt_cel_role_patch_cel_program :: "jwt_cel_program option"
  jwt_cel_role_patch_message :: "string option"
  jwt_cel_role_patch_clock_skew_leeway :: "jwt_leeway option"
  jwt_cel_role_patch_expiration_leeway :: "jwt_leeway option"
  jwt_cel_role_patch_not_before_leeway :: "jwt_leeway option"
  jwt_cel_role_patch_bound_audiences :: "string list option"

definition jwt_cel_role_patch_validate :: "jwt_cel_role_patch \<Rightarrow> unit res" where
  "jwt_cel_role_patch_validate self =
     (if jwt_cel_role_patch_cel_program self = None \<and> jwt_cel_role_patch_message self =
       None \<and> jwt_cel_role_patch_clock_skew_leeway self = None \<and>
       jwt_cel_role_patch_expiration_leeway self = None \<and>
       jwt_cel_role_patch_not_before_leeway self = None \<and>
       jwt_cel_role_patch_bound_audiences self = None then Inl (InvalidParameter
       ''JWT CEL role patch must select at least one field'')
        else rbind (case jwt_cel_role_patch_cel_program self of
           None \<Rightarrow> Inr ()
         | Some program \<Rightarrow> jwt_cel_program_validate program) (\<lambda>_.
        (if is_some_and (\<lambda>message. MAX_CEL_MESSAGE_BYTES < length message)
          (jwt_cel_role_patch_message self) then Inl (InvalidParameter
          ''JWT CEL role message exceeds size limit'')
           else rbind (each (\<lambda>leeway. jwt_validate_cel_leeway leeway)
             [jwt_cel_role_patch_clock_skew_leeway self, jwt_cel_role_patch_expiration_leeway
             self, jwt_cel_role_patch_not_before_leeway self]) (\<lambda>_.
           (case jwt_cel_role_patch_bound_audiences self of
              None \<Rightarrow> Inr ()
            | Some audiences \<Rightarrow> jwt_validate_cel_audiences audiences)))))"

record jwt_cel_role =
  jwt_cel_role_name :: string
  jwt_cel_role_cel_program :: jwt_cel_program
  jwt_cel_role_message :: "string option"
  jwt_cel_role_clock_skew_leeway :: "jwt_leeway option"
  jwt_cel_role_expiration_leeway :: "jwt_leeway option"
  jwt_cel_role_not_before_leeway :: "jwt_leeway option"
  jwt_cel_role_bound_audiences :: "string list"

definition jwt_cel_role_validate :: "jwt_cel_role \<Rightarrow> unit res" where
  "jwt_cel_role_validate self =
     rbind (jwt_cel_program_validate (jwt_cel_role_cel_program self)) (\<lambda>_.
     (if is_some_and (\<lambda>message. MAX_CEL_MESSAGE_BYTES < length message)
       (jwt_cel_role_message self) then Inl (InvalidParameter
       ''JWT CEL role message exceeds size limit'')
        else rbind (each (\<lambda>leeway. jwt_validate_cel_leeway leeway)
          [jwt_cel_role_clock_skew_leeway self, jwt_cel_role_expiration_leeway self,
          jwt_cel_role_not_before_leeway self]) (\<lambda>_.
        jwt_validate_cel_audiences (jwt_cel_role_bound_audiences self))))"

record oidc_auth_url_request =
  oidc_auth_url_request_role :: "string option"
  oidc_auth_url_request_redirect_uri :: "string option"
  oidc_auth_url_request_client_nonce :: "string option"

definition oidc_auth_url_request_default :: oidc_auth_url_request where
  "oidc_auth_url_request_default =
     \<lparr>oidc_auth_url_request_role = None, oidc_auth_url_request_redirect_uri = None,
       oidc_auth_url_request_client_nonce = None\<rparr>"

definition oidc_auth_url_request_new :: "string \<Rightarrow> oidc_auth_url_request" where
  "oidc_auth_url_request_new redirect_uri =
     oidc_auth_url_request_default\<lparr>oidc_auth_url_request_redirect_uri := Some
       redirect_uri\<rparr>"

definition oidc_auth_url_request_device :: oidc_auth_url_request where
  "oidc_auth_url_request_device = oidc_auth_url_request_default"

definition oidc_auth_url_request_with_role ::
  "oidc_auth_url_request \<Rightarrow> string \<Rightarrow> oidc_auth_url_request" where
  "oidc_auth_url_request_with_role self role =
     self\<lparr>oidc_auth_url_request_role := Some role\<rparr>"

section \<open>Operations\<close>

definition oidc_auth_url_request_with_client_nonce ::
  "oidc_auth_url_request \<Rightarrow> string \<Rightarrow> oidc_auth_url_request" where
  "oidc_auth_url_request_with_client_nonce self client_nonce =
     self\<lparr>oidc_auth_url_request_client_nonce := Some client_nonce\<rparr>"

definition jwt_validate_oidc_plain_value ::
  "string \<Rightarrow> nat \<Rightarrow> string \<Rightarrow> string \<Rightarrow> unit res" where
  "jwt_validate_oidc_plain_value val_v maximum empty_error length_error =
     (if trim val_v = [] then Inl (InvalidParameter empty_error)
        else (if maximum < length val_v then Inl (InvalidParameter length_error)
           else Inr ()))"

definition MAX_OIDC_REDIRECT_URI_BYTES :: nat where
  "MAX_OIDC_REDIRECT_URI_BYTES = 8 * 1024"

definition jwt_validate_oidc_secret_value ::
  "string \<Rightarrow> nat \<Rightarrow> string \<Rightarrow> string \<Rightarrow> unit res" where
  "jwt_validate_oidc_secret_value val_v maximum empty_error length_error =
     jwt_validate_oidc_plain_value val_v maximum empty_error length_error"

definition MAX_OIDC_NONCE_BYTES :: nat where
  "MAX_OIDC_NONCE_BYTES = 4 * 1024"

definition oidc_auth_url_request_validate :: "oidc_auth_url_request \<Rightarrow> unit res" where
  "oidc_auth_url_request_validate self =
     rbind (case oidc_auth_url_request_role self of
        None \<Rightarrow> Inr ()
      | Some role \<Rightarrow> rbind (validate_mount_path role) (\<lambda>_.
        Inr ())) (\<lambda>_.
     rbind (case oidc_auth_url_request_redirect_uri self of
        None \<Rightarrow> Inr ()
      | Some redirect_uri \<Rightarrow> jwt_validate_oidc_plain_value redirect_uri
        MAX_OIDC_REDIRECT_URI_BYTES ''OIDC redirect_uri must not be empty''
        ''OIDC redirect_uri exceeds the maximum length'') (\<lambda>_.
     (case oidc_auth_url_request_client_nonce self of
        None \<Rightarrow> Inr ()
      | Some client_nonce \<Rightarrow> jwt_validate_oidc_secret_value client_nonce
        MAX_OIDC_NONCE_BYTES ''OIDC client_nonce must not be empty''
        ''OIDC client_nonce exceeds the maximum length'')))"

record oidc_callback_request =
  oidc_callback_request_state :: string
  oidc_callback_request_code :: "string option"
  oidc_callback_request_id_token :: "string option"
  oidc_callback_request_client_nonce :: "string option"
  oidc_callback_request_error :: "string option"
  oidc_callback_request_error_description :: "string option"
  oidc_callback_request_error_uri :: "string option"

definition oidc_callback_request_with_code ::
  "string \<Rightarrow> string \<Rightarrow> oidc_callback_request" where
  "oidc_callback_request_with_code state code_v =
     \<lparr>oidc_callback_request_state = state, oidc_callback_request_code = Some code_v,
       oidc_callback_request_id_token = None, oidc_callback_request_client_nonce = None,
       oidc_callback_request_error = None, oidc_callback_request_error_description = None,
       oidc_callback_request_error_uri = None\<rparr>"

definition oidc_callback_request_with_id_token ::
  "string \<Rightarrow> string \<Rightarrow> oidc_callback_request" where
  "oidc_callback_request_with_id_token state id_token =
     \<lparr>oidc_callback_request_state = state, oidc_callback_request_code = None,
       oidc_callback_request_id_token = Some id_token,
       oidc_callback_request_client_nonce = None, oidc_callback_request_error = None,
       oidc_callback_request_error_description = None,
       oidc_callback_request_error_uri = None\<rparr>"

definition oidc_callback_request_with_provider_error ::
  "string \<Rightarrow> string \<Rightarrow> oidc_callback_request" where
  "oidc_callback_request_with_provider_error state error =
     \<lparr>oidc_callback_request_state = state, oidc_callback_request_code = None,
       oidc_callback_request_id_token = None, oidc_callback_request_client_nonce = None,
       oidc_callback_request_error = Some error,
       oidc_callback_request_error_description = None,
       oidc_callback_request_error_uri = None\<rparr>"

definition oidc_callback_request_with_provider_error_details ::
  "oidc_callback_request \<Rightarrow> string option \<Rightarrow>
   string option \<Rightarrow> oidc_callback_request" where
  "oidc_callback_request_with_provider_error_details self description uri =
     self\<lparr>oidc_callback_request_error_description := description,
       oidc_callback_request_error_uri := uri\<rparr>"

definition oidc_callback_request_with_client_nonce ::
  "oidc_callback_request \<Rightarrow> string \<Rightarrow> oidc_callback_request" where
  "oidc_callback_request_with_client_nonce self client_nonce =
     self\<lparr>oidc_callback_request_client_nonce := Some client_nonce\<rparr>"

definition MAX_OIDC_STATE_BYTES :: nat where
  "MAX_OIDC_STATE_BYTES = 4 * 1024"

definition MAX_OIDC_CREDENTIAL_BYTES :: nat where
  "MAX_OIDC_CREDENTIAL_BYTES = 64 * 1024"

definition jwt_validate_oidc_credential :: "string \<Rightarrow> unit res" where
  "jwt_validate_oidc_credential val_v =
     (if val_v = [] then Inl (InvalidParameter
       ''OIDC callback requires one non-empty credential'')
        else (if MAX_OIDC_CREDENTIAL_BYTES < length val_v then Inl (InvalidParameter
          ''OIDC callback credential exceeds the maximum length'')
           else Inr ()))"

definition oidc_callback_request_validate :: "oidc_callback_request \<Rightarrow> unit res" where
  "oidc_callback_request_validate self =
     rbind (jwt_validate_oidc_secret_value (oidc_callback_request_state self)
       MAX_OIDC_STATE_BYTES ''OIDC state must not be empty''
       ''OIDC state exceeds the maximum length'') (\<lambda>_.
     rbind (case (oidc_callback_request_code self, oidc_callback_request_id_token self,
       oidc_callback_request_error self) of
        ((Some code_v), None, None) \<Rightarrow> jwt_validate_oidc_credential code_v
      | (None, (Some id_token), None) \<Rightarrow> jwt_validate_oidc_credential id_token
      | (None, None, (Some error)) \<Rightarrow> jwt_validate_oidc_credential error
      | ((Some _), (Some _), _) \<Rightarrow> Inl (InvalidParameter
        ''OIDC callback accepts exactly one of code, id_token, or error'')
      | ((Some _), _, (Some _)) \<Rightarrow> Inl (InvalidParameter
        ''OIDC callback accepts exactly one of code, id_token, or error'')
      | (_, (Some _), (Some _)) \<Rightarrow> Inl (InvalidParameter
        ''OIDC callback accepts exactly one of code, id_token, or error'')
      | _ \<Rightarrow> Inl (InvalidParameter
        ''OIDC callback requires one non-empty credential'')) (\<lambda>_.
     rbind (case oidc_callback_request_client_nonce self of
        None \<Rightarrow> Inr ()
      | Some client_nonce \<Rightarrow> jwt_validate_oidc_secret_value client_nonce
        MAX_OIDC_NONCE_BYTES ''OIDC client_nonce must not be empty''
        ''OIDC client_nonce exceeds the maximum length'') (\<lambda>_.
     rbind (each (\<lambda>val_v. jwt_validate_oidc_credential val_v) (List.map_filter
       (\<lambda>x. x) [oidc_callback_request_error_description self,
       oidc_callback_request_error_uri self])) (\<lambda>_.
     (if oidc_callback_request_error self = None \<and>
       (oidc_callback_request_error_description self \<noteq> None \<or>
       oidc_callback_request_error_uri self \<noteq> None) then Inl (InvalidParameter
       ''OIDC callback error details require an error value'')
        else Inr ())))))"

record oidc_poll_request =
  oidc_poll_request_state :: string
  oidc_poll_request_client_nonce :: "string option"

definition oidc_poll_request_new :: "string \<Rightarrow> oidc_poll_request" where
  "oidc_poll_request_new state =
     \<lparr>oidc_poll_request_state = state, oidc_poll_request_client_nonce = None\<rparr>"

definition oidc_poll_request_with_client_nonce ::
  "oidc_poll_request \<Rightarrow> string \<Rightarrow> oidc_poll_request" where
  "oidc_poll_request_with_client_nonce self client_nonce =
     self\<lparr>oidc_poll_request_client_nonce := Some client_nonce\<rparr>"

definition oidc_poll_request_validate :: "oidc_poll_request \<Rightarrow> unit res" where
  "oidc_poll_request_validate self =
     rbind (jwt_validate_oidc_secret_value (oidc_poll_request_state self) MAX_OIDC_STATE_BYTES
       ''OIDC state must not be empty'' ''OIDC state exceeds the maximum length'') (\<lambda>_.
     (case oidc_poll_request_client_nonce self of
        None \<Rightarrow> Inr ()
      | Some client_nonce \<Rightarrow> jwt_validate_oidc_secret_value client_nonce
        MAX_OIDC_NONCE_BYTES ''OIDC client_nonce must not be empty''
        ''OIDC client_nonce exceeds the maximum length''))"

definition client_jwt_at :: "string \<Rightarrow> string res" where
  "client_jwt_at mount =
     rbind (validate_mount_path mount) (\<lambda>p.
     Inr (join_with ''/'' p))"

definition client_jwt :: "string res" where
  "client_jwt = client_jwt_at ''jwt''"

record jwt_login_request =
  jwt_login_request_role :: "string option"
  jwt_login_request_jwt :: string

record jwt_login_auth =
  jwt_login_auth_client_token :: string
  jwt_login_auth_accessor :: string
  jwt_login_auth_policies :: "string list"
  jwt_login_auth_lease_duration :: "64 word"
  jwt_login_auth_renewable :: bool
  jwt_login_auth_metadata :: "(string \<times> string) list"

record jwt_login_response =
  jwt_login_response_auth :: "jwt_login_auth option"

definition jwt_login_response_call ::
  "http_env \<Rightarrow> client \<Rightarrow>
   (string \<Rightarrow> jwt_login_response option) \<Rightarrow>
   (jwt_login_request \<Rightarrow> payload) \<Rightarrow> string \<Rightarrow>
   string option \<Rightarrow> string \<Rightarrow> jwt_login_auth sent" where
  "jwt_login_response_call env cl from_json to_json mount role jwt =
     sbind (pure (otranspose (map_option (\<lambda>role. rmap (\<lambda>segments. join_with
       ''/'' segments) (validate_mount_path role)) role))) (\<lambda>role.
     let request = \<lparr>jwt_login_request_role = role, jwt_login_request_jwt = jwt\<rparr>
       in
     sbind (request_auth_json_internal env cl from_json ''jwt'' mount ''POST'' (''auth/'' @
       mount @ ''/login'') (Some (to_json request))) (\<lambda>response.
     pure (ok_or (jwt_login_response_auth response) (MissingField ''auth''))))"

record jwt_login_metadata =
  jwt_login_metadata_accessor :: string
  jwt_login_metadata_policies :: "string list"
  jwt_login_metadata_lease_duration :: "64 word"
  jwt_login_metadata_renewable :: bool
  jwt_login_metadata_metadata :: "(string \<times> string) list"

definition jwt_split_login_auth ::
  "jwt_login_auth \<Rightarrow> string \<times> jwt_login_metadata" where
  "jwt_split_login_auth auth =
     (let metadata = \<lparr>jwt_login_metadata_accessor = jwt_login_auth_accessor auth,
       jwt_login_metadata_policies = jwt_login_auth_policies auth,
       jwt_login_metadata_lease_duration = jwt_login_auth_lease_duration auth,
       jwt_login_metadata_renewable = jwt_login_auth_renewable auth,
       jwt_login_metadata_metadata = jwt_login_auth_metadata auth\<rparr> in
     (jwt_login_auth_client_token auth, metadata))"

definition client_login_jwt ::
  "http_env \<Rightarrow> client \<Rightarrow>
   (string \<Rightarrow> jwt_login_response option) \<Rightarrow>
   (jwt_login_request \<Rightarrow> payload) \<Rightarrow> string option \<Rightarrow>
   string \<Rightarrow> (client \<times> jwt_login_metadata) sent" where
  "client_login_jwt env cl from_json to_json role jwt =
     sbind (pure client_jwt) (\<lambda>v.
     sbind (jwt_login_response_call env cl from_json to_json v role jwt) (\<lambda>response.
     (case jwt_split_login_auth response of (token, metadata) \<Rightarrow>
        sbind (pure (try_with_token env cl token)) (\<lambda>v.
        pure (Inr (v, metadata))))))"

definition jwt_login_cel_response ::
  "http_env \<Rightarrow> client \<Rightarrow>
   (string \<Rightarrow> jwt_login_response option) \<Rightarrow>
   (jwt_login_request \<Rightarrow> payload) \<Rightarrow> string \<Rightarrow>
   string option \<Rightarrow> string \<Rightarrow> jwt_login_auth sent" where
  "jwt_login_cel_response env cl from_json to_json mount role jwt =
     sbind (pure (otranspose (map_option (\<lambda>role. rmap (\<lambda>segments. join_with
       ''/'' segments) (validate_mount_path role)) role))) (\<lambda>role.
     let request = \<lparr>jwt_login_request_role = role, jwt_login_request_jwt = jwt\<rparr>
       in
     sbind (request_auth_secret_json_internal env cl from_json ''jwt'' mount ''POST''
       (''auth/'' @ mount @ ''/cel/login'') (Some (to_json request))) (\<lambda>response.
     pure (ok_or (jwt_login_response_auth response) (MissingField ''auth''))))"

definition client_login_jwt_cel ::
  "http_env \<Rightarrow> client \<Rightarrow>
   (string \<Rightarrow> jwt_login_response option) \<Rightarrow>
   (jwt_login_request \<Rightarrow> payload) \<Rightarrow> string option \<Rightarrow>
   string \<Rightarrow> (client \<times> jwt_login_metadata) sent" where
  "client_login_jwt_cel env cl from_json to_json role jwt =
     sbind (pure client_jwt) (\<lambda>v.
     sbind (jwt_login_cel_response env cl from_json to_json v role jwt) (\<lambda>response.
     (case jwt_split_login_auth response of (token, metadata) \<Rightarrow>
        sbind (pure (try_with_token env cl token)) (\<lambda>v.
        pure (Inr (v, metadata))))))"

definition client_jwt_admin_at :: "string \<Rightarrow> string res" where
  "client_jwt_admin_at mount =
     rbind (validate_mount_path mount) (\<lambda>p.
     Inr (join_with ''/'' p))"

definition client_jwt_admin :: "string res" where
  "client_jwt_admin = client_jwt_admin_at ''jwt''"

definition jwt_oidc_auth_url ::
  "http_env \<Rightarrow> client \<Rightarrow>
   (string \<Rightarrow> 'a response_envelope option) \<Rightarrow>
   (oidc_auth_url_request \<Rightarrow> payload) \<Rightarrow> string \<Rightarrow>
   oidc_auth_url_request \<Rightarrow> 'a sent" where
  "jwt_oidc_auth_url env cl from_json to_json mount request =
     sbind (pure (oidc_auth_url_request_validate request)) (\<lambda>_.
     smap env_data (request_auth_json_internal env cl from_json ''jwt'' mount ''POST''
       (''auth/'' @ mount @ ''/oidc/auth_url'') (Some (to_json request))))"

definition jwt_oidc_callback_response ::
  "http_env \<Rightarrow> client \<Rightarrow>
   (string \<Rightarrow> jwt_login_response option) \<Rightarrow> string \<Rightarrow>
   oidc_callback_request \<Rightarrow> jwt_login_auth sent" where
  "jwt_oidc_callback_response env cl from_json mount request =
     sbind (pure (oidc_callback_request_validate request)) (\<lambda>_.
     let query = [(''state'', oidc_callback_request_state request)] in
     let query = (case oidc_callback_request_code request of
        None \<Rightarrow> query
      | Some code_v \<Rightarrow> query @ [(''code'', code_v)]) in
     let query = (case oidc_callback_request_id_token request of
        None \<Rightarrow> query
      | Some id_token \<Rightarrow> query @ [(''id_token'', id_token)]) in
     let query = (case oidc_callback_request_client_nonce request of
        None \<Rightarrow> query
      | Some client_nonce \<Rightarrow> query @ [(''client_nonce'', client_nonce)]) in
     let query = (case oidc_callback_request_error request of
        None \<Rightarrow> query
      | Some error \<Rightarrow> query @ [(''error'', error)]) in
     let query = (case oidc_callback_request_error_description request of
        None \<Rightarrow> query
      | Some description \<Rightarrow> query @ [(''error_description'', description)]) in
     let query = (case oidc_callback_request_error_uri request of
        None \<Rightarrow> query
      | Some uri \<Rightarrow> query @ [(''error_uri'', uri)]) in
     sbind (request_auth_json_secret_query_accepting env cl from_json ''jwt'' mount ''GET''
       (''auth/'' @ mount @ ''/oidc/callback'') query None [200]) (\<lambda>response.
     pure (ok_or (jwt_login_response_auth response) (MissingField ''auth''))))"

definition jwt_oidc_callback ::
  "http_env \<Rightarrow> client \<Rightarrow>
   (string \<Rightarrow> jwt_login_response option) \<Rightarrow> string \<Rightarrow>
   oidc_callback_request \<Rightarrow> (client \<times> jwt_login_metadata) sent" where
  "jwt_oidc_callback env cl from_json mount request =
     sbind (jwt_oidc_callback_response env cl from_json mount request) (\<lambda>response.
     (case jwt_split_login_auth response of (token, metadata) \<Rightarrow>
        sbind (pure (try_with_token env (clone_without_state cl) token)) (\<lambda>v.
        pure (Inr (v, metadata)))))"

definition jwt_oidc_poll_response ::
  "http_env \<Rightarrow> client \<Rightarrow>
   (string \<Rightarrow> jwt_login_response option) \<Rightarrow> string \<Rightarrow>
   oidc_poll_request \<Rightarrow> jwt_login_auth sent" where
  "jwt_oidc_poll_response env cl from_json mount request =
     sbind (pure (oidc_poll_request_validate request)) (\<lambda>_.
     let query = [(''state'', oidc_poll_request_state request)] in
     let query = (case oidc_poll_request_client_nonce request of
        None \<Rightarrow> query
      | Some client_nonce \<Rightarrow> query @ [(''client_nonce'', client_nonce)]) in
     sbind (request_auth_json_secret_query_accepting env cl from_json ''jwt'' mount ''GET''
       (''auth/'' @ mount @ ''/oidc/poll'') query None [200]) (\<lambda>response.
     pure (ok_or (jwt_login_response_auth response) (MissingField ''auth''))))"

definition jwt_oidc_poll ::
  "http_env \<Rightarrow> client \<Rightarrow>
   (string \<Rightarrow> jwt_login_response option) \<Rightarrow> string \<Rightarrow>
   oidc_poll_request \<Rightarrow> (client \<times> jwt_login_metadata) sent" where
  "jwt_oidc_poll env cl from_json mount request =
     sbind (jwt_oidc_poll_response env cl from_json mount request) (\<lambda>response.
     (case jwt_split_login_auth response of (token, metadata) \<Rightarrow>
        sbind (pure (try_with_token env (clone_without_state cl) token)) (\<lambda>v.
        pure (Inr (v, metadata)))))"

definition jwt_login ::
  "http_env \<Rightarrow> client \<Rightarrow>
   (string \<Rightarrow> jwt_login_response option) \<Rightarrow>
   (jwt_login_request \<Rightarrow> payload) \<Rightarrow> string \<Rightarrow>
   string option \<Rightarrow> string \<Rightarrow> (client \<times> jwt_login_metadata) sent" where
  "jwt_login env cl from_json to_json mount role jwt =
     sbind (jwt_login_response_call env cl from_json to_json mount role jwt)
       (\<lambda>response.
     (case jwt_split_login_auth response of (token, metadata) \<Rightarrow>
        sbind (pure (try_with_token env (clone_without_state cl) token)) (\<lambda>v.
        pure (Inr (v, metadata)))))"

definition jwt_login_cel ::
  "http_env \<Rightarrow> client \<Rightarrow>
   (string \<Rightarrow> jwt_login_response option) \<Rightarrow>
   (jwt_login_request \<Rightarrow> payload) \<Rightarrow> string \<Rightarrow>
   string option \<Rightarrow> string \<Rightarrow> (client \<times> jwt_login_metadata) sent" where
  "jwt_login_cel env cl from_json to_json mount role jwt =
     sbind (jwt_login_cel_response env cl from_json to_json mount role jwt) (\<lambda>response.
     (case jwt_split_login_auth response of (token, metadata) \<Rightarrow>
        sbind (pure (try_with_token env (clone_without_state cl) token)) (\<lambda>v.
        pure (Inr (v, metadata)))))"

record jwt_config_payload =
  jwt_config_payload_oidc_discovery_url :: "string option"
  jwt_config_payload_oidc_discovery_ca_pem :: "string option"
  jwt_config_payload_jwks_url :: "string option"
  jwt_config_payload_jwks_ca_pem :: "string option"
  jwt_config_payload_jwt_validation_pubkeys :: "string list"
  jwt_config_payload_bound_issuer :: "string option"
  jwt_config_payload_jwt_supported_algs :: "string list"
  jwt_config_payload_default_role :: "string option"
  jwt_config_payload_oidc_client_id :: "string option"
  jwt_config_payload_oidc_client_secret :: "string option"
  jwt_config_payload_oidc_response_mode :: "string option"
  jwt_config_payload_oidc_response_types :: "string list"
  jwt_config_payload_provider_config :: "(string \<times> string) list"
  jwt_config_payload_override_allowed_server_names :: "string list"
  jwt_config_payload_skip_jwks_validation :: "bool option"
  jwt_config_payload_namespace_in_state :: "bool option"

definition jwt_admin_configure ::
  "http_env \<Rightarrow> client \<Rightarrow>
   (string \<Rightarrow> unit option) \<Rightarrow>
   (jwt_config_payload \<Rightarrow> payload) \<Rightarrow> string \<Rightarrow>
   (string \<Rightarrow> url option) \<Rightarrow> jwt_config \<Rightarrow> unit sent" where
  "jwt_admin_configure env cl from_json to_json mount parse_url config =
     sbind (pure (jwt_config_validate parse_url config)) (\<lambda>_.
     sbind (pure (client_validate_fields env [(JWT_CONFIG_SKIP_JWKS_VALIDATION,
       jwt_config_skip_jwks_validation config \<noteq> None),
       (JWT_CONFIG_OVERRIDE_ALLOWED_SERVER_NAMES, \<not>
       (jwt_config_override_allowed_server_names config = [])),
       (JWT_CONFIG_KUBERNETES_PROVIDER, jwt_config_uses_kubernetes_provider config)]))
       (\<lambda>_.
     let payload =
       \<lparr>jwt_config_payload_oidc_discovery_url = jwt_config_oidc_discovery_url config,
       jwt_config_payload_oidc_discovery_ca_pem = jwt_config_oidc_discovery_ca_pem config,
       jwt_config_payload_jwks_url = jwt_config_jwks_url config,
       jwt_config_payload_jwks_ca_pem = jwt_config_jwks_ca_pem config,
       jwt_config_payload_jwt_validation_pubkeys = jwt_config_jwt_validation_pubkeys config,
       jwt_config_payload_bound_issuer = jwt_config_bound_issuer config,
       jwt_config_payload_jwt_supported_algs = jwt_config_jwt_supported_algs config,
       jwt_config_payload_default_role = jwt_config_default_role config,
       jwt_config_payload_oidc_client_id = jwt_config_oidc_client_id config,
       jwt_config_payload_oidc_client_secret = jwt_config_oidc_client_secret config,
       jwt_config_payload_oidc_response_mode = jwt_config_oidc_response_mode config,
       jwt_config_payload_oidc_response_types = jwt_config_oidc_response_types config,
       jwt_config_payload_provider_config = jwt_config_provider_config config,
       jwt_config_payload_override_allowed_server_names = jwt_config_override_allowed_server_names config,
       jwt_config_payload_skip_jwks_validation = jwt_config_skip_jwks_validation config,
       jwt_config_payload_namespace_in_state = jwt_config_namespace_in_state config\<rparr> in
     request_auth_json_internal env cl from_json ''jwt'' mount ''POST'' (''auth/'' @ mount @
       ''/config'') (Some (to_json payload))))"

definition jwt_admin_read_config ::
  "http_env \<Rightarrow> client \<Rightarrow>
   (string \<Rightarrow> 'a response_envelope option) \<Rightarrow> string \<Rightarrow>
   'a sent" where
  "jwt_admin_read_config env cl from_json mount =
     smap env_data (request_auth_json_internal env cl from_json ''jwt'' mount ''GET''
       (''auth/'' @ mount @ ''/config'') None)"

definition jwt_admin_write_role ::
  "http_env \<Rightarrow> client \<Rightarrow>
   (string \<Rightarrow> unit option) \<Rightarrow>
   (jwt_role \<Rightarrow> payload) \<Rightarrow> string \<Rightarrow> string \<Rightarrow>
   jwt_role \<Rightarrow> unit sent" where
  "jwt_admin_write_role env cl from_json to_json mount name role =
     sbind (pure (jwt_role_validate role)) (\<lambda>_.
     sbind (pure (client_validate_fields env [(JWT_ROLE_CALLBACK_MODE, jwt_role_callback_mode
       role \<noteq> None), (JWT_ROLE_POLL_INTERVAL, jwt_role_poll_interval role \<noteq>
       None), (JWT_ROLE_TOKEN_POLICY_TEMPLATES, jwt_role_token_policies_template_claims role
       \<noteq> None), (JWT_ROLE_DISABLE_CONFIRMATION, jwt_role_oidc_disable_confirmation role
       \<noteq> None)])) (\<lambda>_.
     sbind (pure (validate_mount_path name)) (\<lambda>p.
     let name = join_with ''/'' p in
     request_auth_json_internal env cl from_json ''jwt'' mount ''POST'' (''auth/'' @ mount @
       ''/role/'' @ name) (Some (to_json role)))))"

definition jwt_admin_read_role ::
  "http_env \<Rightarrow> client \<Rightarrow>
   (string \<Rightarrow> 'a response_envelope option) \<Rightarrow> string \<Rightarrow>
   string \<Rightarrow> 'a sent" where
  "jwt_admin_read_role env cl from_json mount name =
     sbind (pure (validate_mount_path name)) (\<lambda>p.
     let name = join_with ''/'' p in
     smap env_data (request_auth_json_internal env cl from_json ''jwt'' mount ''GET''
       (''auth/'' @ mount @ ''/role/'' @ name) None))"

definition jwt_admin_list_roles ::
  "http_env \<Rightarrow> client \<Rightarrow>
   (string \<Rightarrow> 'a response_envelope option) \<Rightarrow> string \<Rightarrow>
   'a sent" where
  "jwt_admin_list_roles env cl from_json mount =
     smap env_data (request_auth_json_internal env cl from_json ''jwt'' mount ''LIST''
       (''auth/'' @ mount @ ''/role'') None)"

definition jwt_admin_delete_role ::
  "http_env \<Rightarrow> client \<Rightarrow>
   (string \<Rightarrow> unit option) \<Rightarrow> string \<Rightarrow> string \<Rightarrow>
   unit sent" where
  "jwt_admin_delete_role env cl from_json mount name =
     sbind (pure (validate_mount_path name)) (\<lambda>p.
     let name = join_with ''/'' p in
     request_auth_json_accepting env cl from_json ''jwt'' mount ''DELETE'' (''auth/'' @ mount @
       ''/role/'' @ name) None [200, 204])"

definition jwt_admin_write_cel_role ::
  "http_env \<Rightarrow> client \<Rightarrow>
   (string \<Rightarrow> 'a response_envelope option) \<Rightarrow>
   (jwt_cel_role_request \<Rightarrow> payload) \<Rightarrow> string \<Rightarrow>
   string \<Rightarrow> jwt_cel_role_request \<Rightarrow> 'a sent" where
  "jwt_admin_write_cel_role env cl from_json to_json mount name role =
     sbind (pure (jwt_cel_role_request_validate role)) (\<lambda>_.
     sbind (pure (validate_mount_path name)) (\<lambda>p.
     let name = join_with ''/'' p in
     smap env_data (request_auth_secret_json_internal env cl from_json ''jwt'' mount ''POST''
       (''auth/'' @ mount @ ''/cel/role/'' @ name) (Some (to_json role)))))"

definition jwt_admin_patch_cel_role_acknowledged ::
  "http_env \<Rightarrow> client \<Rightarrow>
   (string \<Rightarrow> 'a response_envelope option) \<Rightarrow>
   (jwt_cel_role_patch \<Rightarrow> payload) \<Rightarrow> string \<Rightarrow>
   string \<Rightarrow> jwt_cel_role_patch \<Rightarrow>
   jwt_cel_claim_validation_acknowledgement \<Rightarrow> 'a sent" where
  "jwt_admin_patch_cel_role_acknowledged env cl from_json to_json mount name patch_v x =
     sbind (pure (jwt_cel_role_patch_validate patch_v)) (\<lambda>_.
     sbind (pure (validate_mount_path name)) (\<lambda>p.
     let name = join_with ''/'' p in
     smap env_data (request_auth_secret_json_headers_accepting env cl from_json ''jwt'' mount
       ''PATCH'' (''auth/'' @ mount @ ''/cel/role/'' @ name) merge_patch (Some (to_json
       patch_v)) [200])))"

definition jwt_admin_read_cel_role ::
  "http_env \<Rightarrow> client \<Rightarrow>
   (string \<Rightarrow> 'a response_envelope option) \<Rightarrow> string \<Rightarrow>
   string \<Rightarrow> 'a sent" where
  "jwt_admin_read_cel_role env cl from_json mount name =
     sbind (pure (validate_mount_path name)) (\<lambda>p.
     let name = join_with ''/'' p in
     smap env_data (request_auth_secret_json_internal env cl from_json ''jwt'' mount ''GET''
       (''auth/'' @ mount @ ''/cel/role/'' @ name) None))"

definition jwt_admin_list_cel_roles_page ::
  "http_env \<Rightarrow> client \<Rightarrow>
   (string \<Rightarrow> 'a response_envelope option) \<Rightarrow> string \<Rightarrow>
   string option \<Rightarrow> 64 word option \<Rightarrow> 'a sent" where
  "jwt_admin_list_cel_roles_page env cl from_json mount after limit =
     sbind (pure (case after of
        None \<Rightarrow> Inr ()
      | Some after \<Rightarrow> rbind (validate_mount_path after) (\<lambda>_.
        Inr ()))) (\<lambda>_.
     sbind (pure (from_after_limit after limit)) (\<lambda>v.
     let query = query_pairs v in
     smap env_data (request_auth_json_query_accepting env cl from_json ''jwt'' mount ''LIST''
       (''auth/'' @ mount @ ''/cel/role'') query None [200])))"

definition jwt_admin_list_cel_roles ::
  "http_env \<Rightarrow> client \<Rightarrow>
   (string \<Rightarrow> 'a response_envelope option) \<Rightarrow> string \<Rightarrow>
   'a sent" where
  "jwt_admin_list_cel_roles env cl from_json mount =
     jwt_admin_list_cel_roles_page env cl from_json mount None None"

definition jwt_admin_delete_cel_role ::
  "http_env \<Rightarrow> client \<Rightarrow>
   (string \<Rightarrow> unit option) \<Rightarrow> string \<Rightarrow> string \<Rightarrow>
   unit sent" where
  "jwt_admin_delete_cel_role env cl from_json mount name =
     sbind (pure (validate_mount_path name)) (\<lambda>p.
     let name = join_with ''/'' p in
     request_auth_json_accepting env cl from_json ''jwt'' mount ''DELETE'' (''auth/'' @ mount @
       ''/cel/role/'' @ name) None [200, 204])"

section \<open>The routes of the method\<close>

lemma jwt_literals [simp]:
  "validate_endpoint_path ''auth_url'' = Inr [''auth_url'']"
  "validate_endpoint_path ''callback'' = Inr [''callback'']"
  "validate_endpoint_path ''cel'' = Inr [''cel'']"
  "validate_endpoint_path ''config'' = Inr [''config'']"
  "validate_endpoint_path ''login'' = Inr [''login'']"
  "validate_endpoint_path ''oidc'' = Inr [''oidc'']"
  "validate_endpoint_path ''poll'' = Inr [''poll'']"
  "validate_endpoint_path ''role'' = Inr [''role'']"
  by (rule literal_endpoint; code_simp)+

lemma jwt_routes:
  assumes "list_all safe_segment mount" "mount \<noteq> []"
  shows "at_route env cl ''POST'' (''auth'' # mount) [''oidc'', ''auth_url'']
      (jwt_oidc_auth_url env cl fj tj (join_with ''/'' mount) request)"
    and "at_route env cl ''GET'' (''auth'' # mount) [''oidc'', ''callback'']
      (jwt_oidc_callback env cl fj2 (join_with ''/'' mount) request2)"
    and "at_route env cl ''GET'' (''auth'' # mount) [''oidc'', ''poll'']
      (jwt_oidc_poll env cl fj2 (join_with ''/'' mount) request3)"
    and "at_route env cl ''POST'' (''auth'' # mount) [''login'']
      (jwt_login env cl fj2 tj2 (join_with ''/'' mount) role jwt)"
    and "at_route env cl ''POST'' (''auth'' # mount) [''cel'', ''login'']
      (jwt_login_cel env cl fj2 tj2 (join_with ''/'' mount) role jwt)"
  unfolding jwt_oidc_auth_url_def jwt_oidc_callback_def jwt_oidc_callback_response_def jwt_oidc_poll_def
      jwt_oidc_poll_response_def jwt_login_def jwt_login_response_call_def jwt_login_cel_def
      jwt_login_cel_response_def
  by (use assms in \<open>auto simp: Let_def rbind_Inr_iff safe_auth join_with_Cons join_with_append
      intro!: at_intros at_requests text_atI silent_intros intro: at_after
      dest!: name_dests split: option.splits\<close>)

lemma jwt_admin_routes:
  assumes "list_all safe_segment mount" "mount \<noteq> []"
  shows "at_route env cl ''POST'' (''auth'' # mount) [''config'']
      (jwt_admin_configure env cl fj tj (join_with ''/'' mount) parse_url config)"
    and "at_route env cl ''GET'' (''auth'' # mount) [''config'']
      (jwt_admin_read_config env cl fj2 (join_with ''/'' mount))"
    and "at_route env cl ''POST'' (''auth'' # mount) [''role'', name]
      (jwt_admin_write_role env cl fj tj2 (join_with ''/'' mount) name role)"
    and "at_route env cl ''GET'' (''auth'' # mount) [''role'', name]
      (jwt_admin_read_role env cl fj2 (join_with ''/'' mount) name)"
    and "at_route env cl ''LIST'' (''auth'' # mount) [''role'']
      (jwt_admin_list_roles env cl fj2 (join_with ''/'' mount))"
    and "at_route env cl ''DELETE'' (''auth'' # mount) [''role'', name]
      (jwt_admin_delete_role env cl fj (join_with ''/'' mount) name)"
    and "at_route env cl ''POST'' (''auth'' # mount) [''cel'', ''role'', name]
      (jwt_admin_write_cel_role env cl fj2 tj3 (join_with ''/'' mount) name role2)"
    and "at_route env cl ''PATCH'' (''auth'' # mount) [''cel'', ''role'', name]
      (jwt_admin_patch_cel_role_acknowledged env cl fj2 tj4 (join_with ''/'' mount) name
        patch_v x)"
    and "at_route env cl ''GET'' (''auth'' # mount) [''cel'', ''role'', name]
      (jwt_admin_read_cel_role env cl fj2 (join_with ''/'' mount) name)"
    and "at_route env cl ''LIST'' (''auth'' # mount) [''cel'', ''role'']
      (jwt_admin_list_cel_roles_page env cl fj2 (join_with ''/'' mount) after limit)"
    and "at_route env cl ''LIST'' (''auth'' # mount) [''cel'', ''role'']
      (jwt_admin_list_cel_roles env cl fj2 (join_with ''/'' mount))"
    and "at_route env cl ''DELETE'' (''auth'' # mount) [''cel'', ''role'', name]
      (jwt_admin_delete_cel_role env cl fj (join_with ''/'' mount) name)"
  unfolding jwt_admin_configure_def jwt_admin_read_config_def jwt_admin_write_role_def
      jwt_admin_read_role_def jwt_admin_list_roles_def jwt_admin_delete_role_def
      jwt_admin_write_cel_role_def jwt_admin_patch_cel_role_acknowledged_def
      jwt_admin_read_cel_role_def jwt_admin_list_cel_roles_page_def jwt_admin_list_cel_roles_def
      jwt_admin_delete_cel_role_def
  by (use assms in \<open>auto simp: Let_def rbind_Inr_iff safe_auth join_with_Cons join_with_append
      intro!: at_intros at_requests text_atI silent_intros intro: at_after
      dest!: name_dests split: option.splits\<close>)

end
