(* ===== verification/Bao_Kerberos.thy ===== *)
theory Bao_Kerberos
  imports Bao_Auth
begin

text \<open>
  The Kerberos method, \<open>auth/kerberos.rs\<close>. \<open>insecure_ldap_tls\<close> says whether the cargo feature
  \<open>insecure-ldap-tls-acknowledged\<close> is on.
  A handle is its mount path; \<open>from_json\<close> and \<open>to_json\<close> are the deserialiser of a response and the
  serialiser of a payload.
\<close>

section \<open>Data and requests\<close>

record kerberos_config =
  kerberos_config_keytab :: "string option"
  kerberos_config_service_account :: string
  kerberos_config_remove_instance_name :: "bool option"
  kerberos_config_add_group_aliases :: "bool option"

definition kerberos_config_default :: kerberos_config where
  "kerberos_config_default =
     \<lparr>kerberos_config_keytab = None, kerberos_config_service_account = [],
       kerberos_config_remove_instance_name = None, kerberos_config_add_group_aliases =
       None\<rparr>"

definition kerberos_config_new :: "string \<Rightarrow> string \<Rightarrow> kerberos_config" where
  "kerberos_config_new service_account keytab =
     kerberos_config_default\<lparr>kerberos_config_keytab := Some keytab,
       kerberos_config_service_account := service_account\<rparr>"

definition kerberos_config_remove_instance_name_set ::
  "kerberos_config \<Rightarrow> bool \<Rightarrow> kerberos_config" where
  "kerberos_config_remove_instance_name_set self enabled =
     self\<lparr>kerberos_config_remove_instance_name := Some enabled\<rparr>"

definition kerberos_config_add_group_aliases_set ::
  "kerberos_config \<Rightarrow> bool \<Rightarrow> kerberos_config" where
  "kerberos_config_add_group_aliases_set self enabled =
     self\<lparr>kerberos_config_add_group_aliases := Some enabled\<rparr>"

definition kerberos_config_validate :: "kerberos_config \<Rightarrow> unit res" where
  "kerberos_config_validate self =
     (if trim (kerberos_config_service_account self) = [] then Inl (InvalidParameter
       ''Kerberos service_account must not be empty'')
        else (case kerberos_config_keytab self of
           None \<Rightarrow> Inl (InvalidParameter
             ''Kerberos keytab must be provided when writing config'')
         | Some keytab \<Rightarrow>
           (if trim keytab = [] then Inl (InvalidParameter
             ''Kerberos keytab must not be empty'')
              else Inr ())))"

record kerberos_ldap_config =
  kerberos_ldap_config_url :: "string option"
  kerberos_ldap_config_case_sensitive_names :: "bool option"
  kerberos_ldap_config_starttls :: "bool option"
  kerberos_ldap_config_tls_min_version :: "string option"
  kerberos_ldap_config_tls_max_version :: "string option"
  kerberos_ldap_config_insecure_tls :: "bool option"
  kerberos_ldap_config_certificate :: "string option"
  kerberos_ldap_config_binddn :: "string option"
  kerberos_ldap_config_bindpass :: "string option"
  kerberos_ldap_config_userdn :: "string option"
  kerberos_ldap_config_userattr :: "string option"
  kerberos_ldap_config_discoverdn :: "bool option"
  kerberos_ldap_config_deny_null_bind :: "bool option"
  kerberos_ldap_config_upndomain :: "string option"
  kerberos_ldap_config_groupfilter :: "string option"
  kerberos_ldap_config_groupdn :: "string option"
  kerberos_ldap_config_groupattr :: "string option"
  kerberos_ldap_config_token_policies :: "string list"
  kerberos_ldap_config_policies :: "string list"
  kerberos_ldap_config_token_bound_cidrs :: "string list"
  kerberos_ldap_config_token_strictly_bind_ip :: "bool option"
  kerberos_ldap_config_token_ttl :: "string option"
  kerberos_ldap_config_token_max_ttl :: "string option"
  kerberos_ldap_config_token_explicit_max_ttl :: "string option"
  kerberos_ldap_config_token_no_default_policy :: "bool option"
  kerberos_ldap_config_token_num_uses :: "64 word option"
  kerberos_ldap_config_token_period :: "string option"
  kerberos_ldap_config_token_type :: "string option"

definition kerberos_ldap_config_default :: kerberos_ldap_config where
  "kerberos_ldap_config_default =
     \<lparr>kerberos_ldap_config_url = None, kerberos_ldap_config_case_sensitive_names = None,
       kerberos_ldap_config_starttls = None, kerberos_ldap_config_tls_min_version = None,
       kerberos_ldap_config_tls_max_version = None, kerberos_ldap_config_insecure_tls = None,
       kerberos_ldap_config_certificate = None, kerberos_ldap_config_binddn = None,
       kerberos_ldap_config_bindpass = None, kerberos_ldap_config_userdn = None,
       kerberos_ldap_config_userattr = None, kerberos_ldap_config_discoverdn = None,
       kerberos_ldap_config_deny_null_bind = None, kerberos_ldap_config_upndomain = None,
       kerberos_ldap_config_groupfilter = None, kerberos_ldap_config_groupdn = None,
       kerberos_ldap_config_groupattr = None, kerberos_ldap_config_token_policies = [],
       kerberos_ldap_config_policies = [], kerberos_ldap_config_token_bound_cidrs = [],
       kerberos_ldap_config_token_strictly_bind_ip = None, kerberos_ldap_config_token_ttl =
       None, kerberos_ldap_config_token_max_ttl = None,
       kerberos_ldap_config_token_explicit_max_ttl = None,
       kerberos_ldap_config_token_no_default_policy = None, kerberos_ldap_config_token_num_uses
       = None, kerberos_ldap_config_token_period = None, kerberos_ldap_config_token_type =
       None\<rparr>"

definition kerberos_ldap_config_new :: kerberos_ldap_config where
  "kerberos_ldap_config_new = kerberos_ldap_config_default"

definition kerberos_ldap_config_with_url ::
  "kerberos_ldap_config \<Rightarrow> string \<Rightarrow> kerberos_ldap_config" where
  "kerberos_ldap_config_with_url self url =
     self\<lparr>kerberos_ldap_config_url := Some url\<rparr>"

definition kerberos_ldap_config_with_bind ::
  "kerberos_ldap_config \<Rightarrow> string \<Rightarrow> string \<Rightarrow>
   kerberos_ldap_config" where
  "kerberos_ldap_config_with_bind self binddn bindpass =
     self\<lparr>kerberos_ldap_config_binddn := Some binddn, kerberos_ldap_config_bindpass :=
       Some bindpass\<rparr>"

definition kerberos_ldap_config_with_token_policy ::
  "kerberos_ldap_config \<Rightarrow> string \<Rightarrow> kerberos_ldap_config" where
  "kerberos_ldap_config_with_token_policy self policy =
     self\<lparr>kerberos_ldap_config_token_policies := kerberos_ldap_config_token_policies
       self @ [policy]\<rparr>"

definition kerberos_ldap_config_with_token_bound_cidr ::
  "kerberos_ldap_config \<Rightarrow> string \<Rightarrow> kerberos_ldap_config res" where
  "kerberos_ldap_config_with_token_bound_cidr self cidr =
     rbind (validate_cidr cidr ''Kerberos LDAP token_bound_cidrs'') (\<lambda>_.
     Inr
       (self\<lparr>kerberos_ldap_config_token_bound_cidrs := kerberos_ldap_config_token_bound_cidrs
       self @ [cidr]\<rparr>))"

definition kerberos_duration_or_seconds_is_valid ::
  "string \<Rightarrow> bool \<Rightarrow> bool" where
  "kerberos_duration_or_seconds_is_valid val_v allow_zero \<longleftrightarrow>
     (is_some_and (\<lambda>seconds. allow_zero \<or> 0 < seconds) (parse_unsigned
       18446744073709551616 val_v)) \<or> validate_duration_string val_v allow_zero"

definition kerberos_validate_optional_duration ::
  "string option \<Rightarrow> string \<Rightarrow> unit res" where
  "kerberos_validate_optional_duration val_v field =
     (case val_v of
        None \<Rightarrow> Inr ()
      | Some val_v \<Rightarrow> (if \<not> (kerberos_duration_or_seconds_is_valid val_v True)
        then Inl (InvalidParameter (field @
        '' must be seconds or a duration such as 0s, 30s, 5m, or 1h''))
           else Inr ()))"

definition kerberos_ldap_config_validate ::
  "bool \<Rightarrow> (string \<Rightarrow> url option) \<Rightarrow>
   kerberos_ldap_config \<Rightarrow> unit res" where
  "kerberos_ldap_config_validate insecure_ldap_tls parse_url self =
     (if \<not> insecure_ldap_tls \<and> kerberos_ldap_config_insecure_tls self = Some True
       then Inl (InvalidParameter
       ''Kerberos LDAP insecure_tls=true requires the insecure-ldap-tls-acknowledged Cargo feature because it disables LDAP TLS certificate verification'')
        else (if kerberos_ldap_config_insecure_tls self = Some True \<and>
          kerberos_ldap_config_bindpass self \<noteq> None then Inl (InvalidParameter
          ''Kerberos LDAP insecure_tls=true must not be combined with bindpass because credentials would cross an unverified TLS connection'')
           else let require_encrypted_transport = \<not> insecure_ldap_tls \<or>
             kerberos_ldap_config_bindpass self \<noteq> None in
           rbind (validate_ldap_urls parse_url (kerberos_ldap_config_url self)
             (kerberos_ldap_config_starttls self) ''Kerberos LDAP''
             require_encrypted_transport) (\<lambda>_.
           rbind (validate_cidr_list (kerberos_ldap_config_token_bound_cidrs self)
             ''Kerberos LDAP token_bound_cidrs'') (\<lambda>_.
           (if kerberos_ldap_config_token_strictly_bind_ip self = Some True \<and> \<not>
             (kerberos_ldap_config_token_bound_cidrs self = []) then Inl (InvalidParameter
             ''Kerberos LDAP token_strictly_bind_ip conflicts with token_bound_cidrs'')
              else rbind (kerberos_validate_optional_duration (kerberos_ldap_config_token_ttl
                self) ''Kerberos LDAP token_ttl'') (\<lambda>_.
              rbind (kerberos_validate_optional_duration (kerberos_ldap_config_token_max_ttl
                self) ''Kerberos LDAP token_max_ttl'') (\<lambda>_.
              rbind (kerberos_validate_optional_duration
                (kerberos_ldap_config_token_explicit_max_ttl self)
                ''Kerberos LDAP token_explicit_max_ttl'') (\<lambda>_.
              rbind (kerberos_validate_optional_duration (kerberos_ldap_config_token_period
                self) ''Kerberos LDAP token_period'') (\<lambda>_.
              rbind (validate_optional_ldap_tls_version (kerberos_ldap_config_tls_min_version
                self) ''Kerberos LDAP tls_min_version'') (\<lambda>_.
              validate_optional_ldap_tls_version (kerberos_ldap_config_tls_max_version self)
                ''Kerberos LDAP tls_max_version''))))))))))"

record kerberos_group_request =
  kerberos_group_request_policies :: "string list"

definition kerberos_group_request_new :: "string \<Rightarrow> kerberos_group_request" where
  "kerberos_group_request_new policy =
     \<lparr>kerberos_group_request_policies = [policy]\<rparr>"

definition kerberos_group_request_with_policy ::
  "kerberos_group_request \<Rightarrow> string \<Rightarrow> kerberos_group_request" where
  "kerberos_group_request_with_policy self policy =
     self\<lparr>kerberos_group_request_policies := kerberos_group_request_policies self @
       [policy]\<rparr>"

section \<open>Operations\<close>

definition client_kerberos_auth_at :: "string \<Rightarrow> string res" where
  "client_kerberos_auth_at mount =
     rbind (validate_mount_path mount) (\<lambda>p.
     Inr (join_with ''/'' p))"

definition client_kerberos_auth :: "string res" where
  "client_kerberos_auth = client_kerberos_auth_at ''kerberos''"

record kerberos_login_auth =
  kerberos_login_auth_client_token :: string
  kerberos_login_auth_accessor :: "string option"
  kerberos_login_auth_policies :: "string list"
  kerberos_login_auth_lease_duration :: "64 word"
  kerberos_login_auth_renewable :: bool
  kerberos_login_auth_metadata :: "(string \<times> string) list"

record kerberos_login_response =
  kerberos_login_response_auth :: "kerberos_login_auth option"

definition kerberos_login_response_call ::
  "http_env \<Rightarrow> client \<Rightarrow>
   (string \<Rightarrow> kerberos_login_response option) \<Rightarrow> string \<Rightarrow>
   string \<Rightarrow> kerberos_login_auth sent" where
  "kerberos_login_response_call env cl from_json mount spnego_token =
     sbind (pure (negotiate_header env spnego_token)) (\<lambda>header.
     sbind (request_auth_json_headers_accepting env cl from_json ''kerberos'' mount ''POST''
       (''auth/'' @ mount @ ''/login'') [(''authorization'', header)] None [200])
       (\<lambda>response.
     pure (ok_or (kerberos_login_response_auth response) (MissingField ''auth''))))"

record kerberos_login_metadata =
  kerberos_login_metadata_accessor :: "string option"
  kerberos_login_metadata_policies :: "string list"
  kerberos_login_metadata_lease_duration :: "64 word"
  kerberos_login_metadata_renewable :: bool
  kerberos_login_metadata_metadata :: "(string \<times> string) list"

definition kerberos_split_login_auth ::
  "kerberos_login_auth \<Rightarrow> string \<times> kerberos_login_metadata" where
  "kerberos_split_login_auth auth =
     (let metadata =
       \<lparr>kerberos_login_metadata_accessor = kerberos_login_auth_accessor auth,
       kerberos_login_metadata_policies = kerberos_login_auth_policies auth,
       kerberos_login_metadata_lease_duration = kerberos_login_auth_lease_duration auth,
       kerberos_login_metadata_renewable = kerberos_login_auth_renewable auth,
       kerberos_login_metadata_metadata = kerberos_login_auth_metadata auth\<rparr> in
     (kerberos_login_auth_client_token auth, metadata))"

definition client_login_kerberos ::
  "http_env \<Rightarrow> client \<Rightarrow>
   (string \<Rightarrow> kerberos_login_response option) \<Rightarrow> string \<Rightarrow>
   (client \<times> kerberos_login_metadata) sent" where
  "client_login_kerberos env cl from_json spnego_token =
     sbind (pure client_kerberos_auth) (\<lambda>v.
     sbind (kerberos_login_response_call env cl from_json v spnego_token) (\<lambda>response.
     (case kerberos_split_login_auth response of (token, metadata) \<Rightarrow>
        sbind (pure (try_with_token env cl token)) (\<lambda>v.
        pure (Inr (v, metadata))))))"

definition client_kerberos_auth_admin_at :: "string \<Rightarrow> string res" where
  "client_kerberos_auth_admin_at mount =
     rbind (validate_mount_path mount) (\<lambda>p.
     Inr (join_with ''/'' p))"

definition client_kerberos_auth_admin :: "string res" where
  "client_kerberos_auth_admin = client_kerberos_auth_admin_at ''kerberos''"

definition kerberos_login ::
  "http_env \<Rightarrow> client \<Rightarrow>
   (string \<Rightarrow> kerberos_login_response option) \<Rightarrow> string \<Rightarrow>
   string \<Rightarrow> (client \<times> kerberos_login_metadata) sent" where
  "kerberos_login env cl from_json mount spnego_token =
     sbind (kerberos_login_response_call env cl from_json mount spnego_token)
       (\<lambda>response.
     (case kerberos_split_login_auth response of (token, metadata) \<Rightarrow>
        sbind (pure (try_with_token env (clone_without_state cl) token)) (\<lambda>v.
        pure (Inr (v, metadata)))))"

record kerberos_config_payload =
  kerberos_config_payload_keytab :: string
  kerberos_config_payload_service_account :: string
  kerberos_config_payload_remove_instance_name :: "bool option"
  kerberos_config_payload_add_group_aliases :: "bool option"
  kerberos_config_payload_decode_pac :: "bool option"

definition kerberos_admin_configure ::
  "http_env \<Rightarrow> client \<Rightarrow>
   (string \<Rightarrow> unit option) \<Rightarrow>
   (kerberos_config_payload \<Rightarrow> payload) \<Rightarrow> string \<Rightarrow>
   kerberos_config \<Rightarrow> unit sent" where
  "kerberos_admin_configure env cl from_json to_json mount config =
     sbind (pure (kerberos_config_validate config)) (\<lambda>_.
     sbind (pure (ok_or (kerberos_config_keytab config) (MissingField ''keytab'')))
       (\<lambda>keytab.
     let payload = \<lparr>kerberos_config_payload_keytab = keytab,
       kerberos_config_payload_service_account = kerberos_config_service_account config,
       kerberos_config_payload_remove_instance_name = kerberos_config_remove_instance_name config,
       kerberos_config_payload_add_group_aliases = kerberos_config_add_group_aliases config,
       kerberos_config_payload_decode_pac = None\<rparr> in
     request_auth_json_internal env cl from_json ''kerberos'' mount ''POST'' (''auth/'' @ mount
       @ ''/config'') (Some (to_json payload))))"

definition kerberos_admin_configure_with_decode_pac ::
  "http_env \<Rightarrow> client \<Rightarrow>
   (string \<Rightarrow> unit option) \<Rightarrow>
   (kerberos_config_payload \<Rightarrow> payload) \<Rightarrow> string \<Rightarrow>
   kerberos_config \<Rightarrow> bool \<Rightarrow> unit sent" where
  "kerberos_admin_configure_with_decode_pac env cl from_json to_json mount config decode_pac =
     sbind (pure (kerberos_config_validate config)) (\<lambda>_.
     sbind (pure (client_validate_fields env [(KERBEROS_CONFIG_DECODE_PAC, True)]))
       (\<lambda>_.
     sbind (pure (ok_or (kerberos_config_keytab config) (MissingField ''Kerberos keytab'')))
       (\<lambda>keytab.
     let payload = \<lparr>kerberos_config_payload_keytab = keytab,
       kerberos_config_payload_service_account = kerberos_config_service_account config,
       kerberos_config_payload_remove_instance_name = kerberos_config_remove_instance_name config,
       kerberos_config_payload_add_group_aliases = kerberos_config_add_group_aliases config,
       kerberos_config_payload_decode_pac = Some decode_pac\<rparr> in
     request_auth_json_internal env cl from_json ''kerberos'' mount ''POST'' (''auth/'' @ mount
       @ ''/config'') (Some (to_json payload)))))"

definition kerberos_admin_read_config ::
  "http_env \<Rightarrow> client \<Rightarrow>
   (string \<Rightarrow> 'a response_envelope option) \<Rightarrow> string \<Rightarrow>
   'a sent" where
  "kerberos_admin_read_config env cl from_json mount =
     smap env_data (request_auth_json_internal env cl from_json ''kerberos'' mount ''GET''
       (''auth/'' @ mount @ ''/config'') None)"

definition kerberos_admin_read_config_details ::
  "http_env \<Rightarrow> client \<Rightarrow>
   (string \<Rightarrow> 'a response_envelope option) \<Rightarrow> string \<Rightarrow>
   'a sent" where
  "kerberos_admin_read_config_details env cl from_json mount =
     smap env_data (request_auth_json_internal env cl from_json ''kerberos'' mount ''GET''
       (''auth/'' @ mount @ ''/config'') None)"

record kerberos_ldap_config_payload =
  kerberos_ldap_config_payload_url :: "string option"
  kerberos_ldap_config_payload_case_sensitive_names :: "bool option"
  kerberos_ldap_config_payload_starttls :: "bool option"
  kerberos_ldap_config_payload_tls_min_version :: "string option"
  kerberos_ldap_config_payload_tls_max_version :: "string option"
  kerberos_ldap_config_payload_insecure_tls :: "bool option"
  kerberos_ldap_config_payload_certificate :: "string option"
  kerberos_ldap_config_payload_binddn :: "string option"
  kerberos_ldap_config_payload_bindpass :: "string option"
  kerberos_ldap_config_payload_userdn :: "string option"
  kerberos_ldap_config_payload_userattr :: "string option"
  kerberos_ldap_config_payload_discoverdn :: "bool option"
  kerberos_ldap_config_payload_deny_null_bind :: "bool option"
  kerberos_ldap_config_payload_upndomain :: "string option"
  kerberos_ldap_config_payload_groupfilter :: "string option"
  kerberos_ldap_config_payload_groupdn :: "string option"
  kerberos_ldap_config_payload_groupattr :: "string option"
  kerberos_ldap_config_payload_token_policies :: "string list"
  kerberos_ldap_config_payload_policies :: "string list"
  kerberos_ldap_config_payload_token_bound_cidrs :: "string list"
  kerberos_ldap_config_payload_token_strictly_bind_ip :: "bool option"
  kerberos_ldap_config_payload_token_ttl :: "string option"
  kerberos_ldap_config_payload_token_max_ttl :: "string option"
  kerberos_ldap_config_payload_token_explicit_max_ttl :: "string option"
  kerberos_ldap_config_payload_token_no_default_policy :: "bool option"
  kerberos_ldap_config_payload_token_num_uses :: "64 word option"
  kerberos_ldap_config_payload_token_period :: "string option"
  kerberos_ldap_config_payload_token_type :: "string option"

definition kerberos_admin_configure_ldap ::
  "http_env \<Rightarrow> client \<Rightarrow>
   (string \<Rightarrow> unit option) \<Rightarrow>
   (kerberos_ldap_config_payload \<Rightarrow> payload) \<Rightarrow> string \<Rightarrow>
   bool \<Rightarrow> (string \<Rightarrow> url option) \<Rightarrow>
   kerberos_ldap_config \<Rightarrow> unit sent" where
  "kerberos_admin_configure_ldap env cl from_json to_json mount insecure_ldap_tls parse_url
    config =
     sbind (pure (kerberos_ldap_config_validate insecure_ldap_tls parse_url config))
       (\<lambda>_.
     let payload = \<lparr>kerberos_ldap_config_payload_url = kerberos_ldap_config_url config,
       kerberos_ldap_config_payload_case_sensitive_names = kerberos_ldap_config_case_sensitive_names config,
       kerberos_ldap_config_payload_starttls = kerberos_ldap_config_starttls config,
       kerberos_ldap_config_payload_tls_min_version = kerberos_ldap_config_tls_min_version config,
       kerberos_ldap_config_payload_tls_max_version = kerberos_ldap_config_tls_max_version config,
       kerberos_ldap_config_payload_insecure_tls = kerberos_ldap_config_insecure_tls config,
       kerberos_ldap_config_payload_certificate = kerberos_ldap_config_certificate config,
       kerberos_ldap_config_payload_binddn = kerberos_ldap_config_binddn config,
       kerberos_ldap_config_payload_bindpass = kerberos_ldap_config_bindpass config,
       kerberos_ldap_config_payload_userdn = kerberos_ldap_config_userdn config,
       kerberos_ldap_config_payload_userattr = kerberos_ldap_config_userattr config,
       kerberos_ldap_config_payload_discoverdn = kerberos_ldap_config_discoverdn config,
       kerberos_ldap_config_payload_deny_null_bind = kerberos_ldap_config_deny_null_bind config,
       kerberos_ldap_config_payload_upndomain = kerberos_ldap_config_upndomain config,
       kerberos_ldap_config_payload_groupfilter = kerberos_ldap_config_groupfilter config,
       kerberos_ldap_config_payload_groupdn = kerberos_ldap_config_groupdn config,
       kerberos_ldap_config_payload_groupattr = kerberos_ldap_config_groupattr config,
       kerberos_ldap_config_payload_token_policies = kerberos_ldap_config_token_policies config,
       kerberos_ldap_config_payload_policies = kerberos_ldap_config_policies config,
       kerberos_ldap_config_payload_token_bound_cidrs = kerberos_ldap_config_token_bound_cidrs config,
       kerberos_ldap_config_payload_token_strictly_bind_ip = kerberos_ldap_config_token_strictly_bind_ip config,
       kerberos_ldap_config_payload_token_ttl = kerberos_ldap_config_token_ttl config,
       kerberos_ldap_config_payload_token_max_ttl = kerberos_ldap_config_token_max_ttl config,
       kerberos_ldap_config_payload_token_explicit_max_ttl = kerberos_ldap_config_token_explicit_max_ttl config,
       kerberos_ldap_config_payload_token_no_default_policy = kerberos_ldap_config_token_no_default_policy config,
       kerberos_ldap_config_payload_token_num_uses = kerberos_ldap_config_token_num_uses config,
       kerberos_ldap_config_payload_token_period = kerberos_ldap_config_token_period config,
       kerberos_ldap_config_payload_token_type = kerberos_ldap_config_token_type config\<rparr>
       in
     request_auth_json_internal env cl from_json ''kerberos'' mount ''POST'' (''auth/'' @ mount
       @ ''/config/ldap'') (Some (to_json payload)))"

definition kerberos_admin_read_ldap_config ::
  "http_env \<Rightarrow> client \<Rightarrow>
   (string \<Rightarrow> 'a response_envelope option) \<Rightarrow> string \<Rightarrow>
   'a sent" where
  "kerberos_admin_read_ldap_config env cl from_json mount =
     smap env_data (request_auth_json_internal env cl from_json ''kerberos'' mount ''GET''
       (''auth/'' @ mount @ ''/config/ldap'') None)"

definition validate_kerberos_group_name :: "string \<Rightarrow> string res" where
  "validate_kerberos_group_name name =
     (if name = [] then Inl (InvalidPath ''Kerberos LDAP group name must not be empty'')
        else (if list_ex is_ascii_control name then Inl (InvalidPath
          ''Kerberos LDAP group name must not contain control characters'')
           else (if list_ex (\<lambda>c. c \<in> set [(CHR 0x5C), CHR ''/'', CHR ''?'', CHR
             ''#'']) name then Inl (InvalidPath
             ''Kerberos LDAP group name must not contain slash, backslash, query, or fragment characters'')
              else (if name = ''.'' \<or> name = ''..'' \<or> suffix [CHR ''.''] name then Inl
                (InvalidPath
                ''Kerberos LDAP group name must not be relative or end in a period'')
                 else Inr name))))"

record kerberos_group_payload =
  kerberos_group_payload_policies :: string

definition kerberos_admin_write_group ::
  "http_env \<Rightarrow> client \<Rightarrow>
   (string \<Rightarrow> unit option) \<Rightarrow>
   (kerberos_group_payload \<Rightarrow> payload) \<Rightarrow> string \<Rightarrow>
   (nat \<Rightarrow> bool) \<Rightarrow> string \<Rightarrow>
   kerberos_group_request \<Rightarrow> unit sent" where
  "kerberos_admin_write_group env cl from_json to_json mount can_reserve name group_name =
     sbind (pure (validate_kerberos_group_name name)) (\<lambda>name.
     sbind (pure (mapping_encode_values can_reserve (kerberos_group_request_policies
       group_name) ''Kerberos policies'')) (\<lambda>v.
     let payload = \<lparr>kerberos_group_payload_policies = v\<rparr> in
     request_auth_json_internal env cl from_json ''kerberos'' mount ''POST'' (''auth/'' @ mount
       @ ''/groups/'' @ name) (Some (to_json payload))))"

definition kerberos_admin_read_group ::
  "http_env \<Rightarrow> client \<Rightarrow>
   (string \<Rightarrow> 'a response_envelope option) \<Rightarrow> string \<Rightarrow>
   string \<Rightarrow> 'a sent" where
  "kerberos_admin_read_group env cl from_json mount name =
     sbind (pure (validate_kerberos_group_name name)) (\<lambda>name.
     smap env_data (request_auth_json_internal env cl from_json ''kerberos'' mount ''GET''
       (''auth/'' @ mount @ ''/groups/'' @ name) None))"

definition kerberos_admin_delete_group ::
  "http_env \<Rightarrow> client \<Rightarrow>
   (string \<Rightarrow> unit option) \<Rightarrow> string \<Rightarrow> string \<Rightarrow>
   unit sent" where
  "kerberos_admin_delete_group env cl from_json mount name =
     sbind (pure (validate_kerberos_group_name name)) (\<lambda>name.
     request_auth_json_accepting env cl from_json ''kerberos'' mount ''DELETE'' (''auth/'' @
       mount @ ''/groups/'' @ name) None [200, 204])"

definition kerberos_admin_list_groups_page ::
  "http_env \<Rightarrow> client \<Rightarrow>
   (string \<Rightarrow> 'a response_envelope option) \<Rightarrow> string \<Rightarrow>
   string option \<Rightarrow> 64 word option \<Rightarrow> 'a sent" where
  "kerberos_admin_list_groups_page env cl from_json mount after limit =
     sbind (pure (case after of
        None \<Rightarrow> Inr ()
      | Some after \<Rightarrow> rbind (validate_kerberos_group_name after) (\<lambda>_.
        Inr ()))) (\<lambda>_.
     sbind (pure (from_after_limit after limit)) (\<lambda>v.
     let query = query_pairs v in
     smap env_data (request_auth_json_query_accepting env cl from_json ''kerberos'' mount
       ''LIST'' (''auth/'' @ mount @ ''/groups'') query None [200])))"

definition kerberos_admin_list_groups ::
  "http_env \<Rightarrow> client \<Rightarrow>
   (string \<Rightarrow> 'a response_envelope option) \<Rightarrow> string \<Rightarrow>
   'a sent" where
  "kerberos_admin_list_groups env cl from_json mount =
     kerberos_admin_list_groups_page env cl from_json mount None None"

section \<open>The routes of the method\<close>

lemma kerberos_literals [simp]:
  "validate_endpoint_path ''config'' = Inr [''config'']"
  "validate_endpoint_path ''groups'' = Inr [''groups'']"
  "validate_endpoint_path ''ldap'' = Inr [''ldap'']"
  "validate_endpoint_path ''login'' = Inr [''login'']"
  by (rule literal_endpoint; code_simp)+

lemma plain_ldap [simp]: "plain_name ''ldap''"
  by code_simp

lemma kerberos_group_name [name_dests]:
  "validate_kerberos_group_name u = Inr x \<Longrightarrow> x = u \<and> plain_name u"
  by (auto simp: validate_kerberos_group_name_def plain_name_def list_ex_iff suffix_char_iff
      split: if_splits)

lemma kerberos_routes:
  assumes "list_all safe_segment mount" "mount \<noteq> []"
  shows "at_route env cl ''POST'' (''auth'' # mount) [''login'']
      (kerberos_login env cl fj (join_with ''/'' mount) spnego_token)"
  unfolding kerberos_login_def kerberos_login_response_call_def
  by (use assms in \<open>auto simp: Let_def rbind_Inr_iff safe_auth join_with_Cons join_with_append
      intro!: at_intros at_requests text_at_name silent_intros intro: text_atI at_after
      dest!: name_dests split: option.splits\<close>)

lemma kerberos_admin_routes:
  assumes "list_all safe_segment mount" "mount \<noteq> []"
  shows "at_route env cl ''POST'' (''auth'' # mount) [''config'']
      (kerberos_admin_configure env cl fj tj (join_with ''/'' mount) config)"
    and "at_route env cl ''POST'' (''auth'' # mount) [''config'']
      (kerberos_admin_configure_with_decode_pac env cl fj tj (join_with ''/'' mount) config
        decode_pac)"
    and "at_route env cl ''GET'' (''auth'' # mount) [''config'']
      (kerberos_admin_read_config env cl fj2 (join_with ''/'' mount))"
    and "at_route env cl ''GET'' (''auth'' # mount) [''config'']
      (kerberos_admin_read_config_details env cl fj2 (join_with ''/'' mount))"
    and "at_route env cl ''POST'' (''auth'' # mount) [''config'', ''ldap'']
      (kerberos_admin_configure_ldap env cl fj tj2 (join_with ''/'' mount) insecure_ldap_tls
        parse_url config2)"
    and "at_route env cl ''GET'' (''auth'' # mount) [''config'', ''ldap'']
      (kerberos_admin_read_ldap_config env cl fj2 (join_with ''/'' mount))"
    and "at_route env cl ''POST'' (''auth'' # mount) [''groups'', name]
      (kerberos_admin_write_group env cl fj tj3 (join_with ''/'' mount) can_reserve name
        group_name)"
    and "at_route env cl ''GET'' (''auth'' # mount) [''groups'', name]
      (kerberos_admin_read_group env cl fj2 (join_with ''/'' mount) name)"
    and "at_route env cl ''DELETE'' (''auth'' # mount) [''groups'', name]
      (kerberos_admin_delete_group env cl fj (join_with ''/'' mount) name)"
    and "at_route env cl ''LIST'' (''auth'' # mount) [''groups'']
      (kerberos_admin_list_groups_page env cl fj2 (join_with ''/'' mount) after limit)"
    and "at_route env cl ''LIST'' (''auth'' # mount) [''groups'']
      (kerberos_admin_list_groups env cl fj2 (join_with ''/'' mount))"
  unfolding kerberos_admin_configure_def kerberos_admin_configure_with_decode_pac_def
      kerberos_admin_read_config_def kerberos_admin_read_config_details_def
      kerberos_admin_configure_ldap_def kerberos_admin_read_ldap_config_def
      kerberos_admin_write_group_def kerberos_admin_read_group_def
      kerberos_admin_delete_group_def kerberos_admin_list_groups_page_def
      kerberos_admin_list_groups_def
  by (use assms in \<open>auto simp: Let_def rbind_Inr_iff safe_auth join_with_Cons join_with_append
      intro!: at_intros at_requests text_at_name silent_intros intro: text_atI at_after
      dest!: name_dests split: option.splits\<close>)

end
