(* ===== verification/Bao_Kubernetes_Auth.thy ===== *)
theory Bao_Kubernetes_Auth
  imports Bao_Auth
begin

text \<open>
  The Kubernetes method, \<open>auth/kubernetes.rs\<close>.
  A handle is its mount path; \<open>from_json\<close> and \<open>to_json\<close> are the deserialiser of a response and the
  serialiser of a payload.
\<close>

section \<open>Data and requests\<close>

record kubernetes_config =
  kubernetes_config_disable_iss_validation :: "bool option"
  kubernetes_config_issuer :: "string option"
  kubernetes_config_kubernetes_host :: "string option"
  kubernetes_config_kubernetes_ca_cert :: "string option"
  kubernetes_config_token_reviewer_jwt :: "string option"
  kubernetes_config_pem_keys :: "string list"
  kubernetes_config_disable_local_ca_jwt :: "bool option"

definition kubernetes_config_validate ::
  "(string \<Rightarrow> url option) \<Rightarrow> kubernetes_config \<Rightarrow> unit res" where
  "kubernetes_config_validate parse_url self =
     (case kubernetes_config_kubernetes_host self of
        None \<Rightarrow> Inr ()
      | Some host \<Rightarrow> validate_https_endpoint parse_url host
        ''kubernetes auth kubernetes_host'')"

record kubernetes_role =
  kubernetes_role_bound_service_account_names :: "string list"
  kubernetes_role_bound_service_account_namespaces :: "string list"
  kubernetes_role_bound_service_account_namespace_selector :: "string option"
  kubernetes_role_audience :: "string option"
  kubernetes_role_alias_name_source :: "string option"
  kubernetes_role_policies :: "string list"
  kubernetes_role_token_policies :: "string list"
  kubernetes_role_token_ttl :: "string option"
  kubernetes_role_token_max_ttl :: "string option"
  kubernetes_role_token_explicit_max_ttl :: "string option"
  kubernetes_role_token_period :: "string option"
  kubernetes_role_token_bound_cidrs :: "string list"
  kubernetes_role_token_strictly_bind_ip :: "bool option"
  kubernetes_role_token_no_default_policy :: "bool option"
  kubernetes_role_token_num_uses :: "64 word option"
  kubernetes_role_token_type :: "string option"

definition kubernetes_role_validate ::
  "(string \<Rightarrow> json_value option) \<Rightarrow> kubernetes_role \<Rightarrow>
   unit res" where
  "kubernetes_role_validate parse_json self =
     rbind (each (\<lambda>(val_v, field). (case val_v of
        None \<Rightarrow> Inr ()
      | Some val_v \<Rightarrow> validate_duration_parameter val_v field))
        [(kubernetes_role_token_ttl self, ''kubernetes auth token_ttl''),
        (kubernetes_role_token_max_ttl self, ''kubernetes auth token_max_ttl''),
        (kubernetes_role_token_explicit_max_ttl self,
        ''kubernetes auth token_explicit_max_ttl''), (kubernetes_role_token_period self,
        ''kubernetes auth token_period'')]) (\<lambda>_.
     rbind (validate_cidr_list (kubernetes_role_token_bound_cidrs self)
       ''kubernetes auth token_bound_cidrs'') (\<lambda>_.
     (case kubernetes_role_bound_service_account_namespace_selector self of
        None \<Rightarrow> Inr ()
      | Some selector \<Rightarrow> validate_json_object_string parse_json selector
        ''kubernetes auth namespace selector'')))"

section \<open>Operations\<close>

definition client_kubernetes_at :: "string \<Rightarrow> string res" where
  "client_kubernetes_at mount =
     rbind (validate_mount_path mount) (\<lambda>p.
     Inr (join_with ''/'' p))"

definition client_kubernetes :: "string res" where
  "client_kubernetes = client_kubernetes_at ''kubernetes''"

record kubernetes_login_request =
  kubernetes_login_request_role :: string
  kubernetes_login_request_jwt :: string

record kubernetes_login_auth =
  kubernetes_login_auth_client_token :: string
  kubernetes_login_auth_accessor :: string
  kubernetes_login_auth_policies :: "string list"
  kubernetes_login_auth_lease_duration :: "64 word"
  kubernetes_login_auth_renewable :: bool
  kubernetes_login_auth_metadata :: "(string \<times> string) list"

record kubernetes_login_response =
  kubernetes_login_response_auth :: "kubernetes_login_auth option"

definition kubernetes_auth_login_response ::
  "http_env \<Rightarrow> client \<Rightarrow>
   (string \<Rightarrow> kubernetes_login_response option) \<Rightarrow>
   (kubernetes_login_request \<Rightarrow> payload) \<Rightarrow> string \<Rightarrow>
   string \<Rightarrow> string \<Rightarrow> kubernetes_login_auth sent" where
  "kubernetes_auth_login_response env cl from_json to_json mount role jwt =
     sbind (pure (validate_mount_path role)) (\<lambda>p.
     let role = join_with ''/'' p in
     let request = \<lparr>kubernetes_login_request_role = role,
       kubernetes_login_request_jwt = jwt\<rparr> in
     sbind (request_auth_json_internal env cl from_json ''kubernetes'' mount ''POST''
       (''auth/'' @ mount @ ''/login'') (Some (to_json request))) (\<lambda>response.
     pure (ok_or (kubernetes_login_response_auth response) (MissingField ''auth''))))"

record kubernetes_login_metadata =
  kubernetes_login_metadata_accessor :: string
  kubernetes_login_metadata_policies :: "string list"
  kubernetes_login_metadata_lease_duration :: "64 word"
  kubernetes_login_metadata_renewable :: bool
  kubernetes_login_metadata_metadata :: "(string \<times> string) list"

definition kubernetes_auth_split_login_auth ::
  "kubernetes_login_auth \<Rightarrow> string \<times> kubernetes_login_metadata" where
  "kubernetes_auth_split_login_auth auth =
     (let metadata =
       \<lparr>kubernetes_login_metadata_accessor = kubernetes_login_auth_accessor auth,
       kubernetes_login_metadata_policies = kubernetes_login_auth_policies auth,
       kubernetes_login_metadata_lease_duration = kubernetes_login_auth_lease_duration auth,
       kubernetes_login_metadata_renewable = kubernetes_login_auth_renewable auth,
       kubernetes_login_metadata_metadata = kubernetes_login_auth_metadata auth\<rparr> in
     (kubernetes_login_auth_client_token auth, metadata))"

definition client_login_kubernetes ::
  "http_env \<Rightarrow> client \<Rightarrow>
   (string \<Rightarrow> kubernetes_login_response option) \<Rightarrow>
   (kubernetes_login_request \<Rightarrow> payload) \<Rightarrow> string \<Rightarrow>
   string \<Rightarrow> (client \<times> kubernetes_login_metadata) sent" where
  "client_login_kubernetes env cl from_json to_json role jwt =
     sbind (pure client_kubernetes) (\<lambda>v.
     sbind (kubernetes_auth_login_response env cl from_json to_json v role jwt)
       (\<lambda>response.
     (case kubernetes_auth_split_login_auth response of (token, metadata) \<Rightarrow>
        sbind (pure (try_with_token env cl token)) (\<lambda>v.
        pure (Inr (v, metadata))))))"

definition client_kubernetes_admin_at :: "string \<Rightarrow> string res" where
  "client_kubernetes_admin_at mount =
     rbind (validate_mount_path mount) (\<lambda>p.
     Inr (join_with ''/'' p))"

definition client_kubernetes_admin :: "string res" where
  "client_kubernetes_admin = client_kubernetes_admin_at ''kubernetes''"

definition kubernetes_auth_login ::
  "http_env \<Rightarrow> client \<Rightarrow>
   (string \<Rightarrow> kubernetes_login_response option) \<Rightarrow>
   (kubernetes_login_request \<Rightarrow> payload) \<Rightarrow> string \<Rightarrow>
   string \<Rightarrow> string \<Rightarrow> (client \<times> kubernetes_login_metadata) sent" where
  "kubernetes_auth_login env cl from_json to_json mount role jwt =
     sbind (kubernetes_auth_login_response env cl from_json to_json mount role jwt)
       (\<lambda>response.
     (case kubernetes_auth_split_login_auth response of (token, metadata) \<Rightarrow>
        sbind (pure (try_with_token env (clone_without_state cl) token)) (\<lambda>v.
        pure (Inr (v, metadata)))))"

record kubernetes_config_payload =
  kubernetes_config_payload_disable_iss_validation :: "bool option"
  kubernetes_config_payload_issuer :: "string option"
  kubernetes_config_payload_kubernetes_host :: "string option"
  kubernetes_config_payload_kubernetes_ca_cert :: "string option"
  kubernetes_config_payload_token_reviewer_jwt :: "string option"
  kubernetes_config_payload_pem_keys :: "string list"
  kubernetes_config_payload_disable_local_ca_jwt :: "bool option"

definition kubernetes_admin_configure ::
  "http_env \<Rightarrow> client \<Rightarrow>
   (string \<Rightarrow> unit option) \<Rightarrow>
   (kubernetes_config_payload \<Rightarrow> payload) \<Rightarrow> string \<Rightarrow>
   (string \<Rightarrow> url option) \<Rightarrow> kubernetes_config \<Rightarrow> unit sent" where
  "kubernetes_admin_configure env cl from_json to_json mount parse_url config =
     sbind (pure (kubernetes_config_validate parse_url config)) (\<lambda>_.
     let payload =
       \<lparr>kubernetes_config_payload_disable_iss_validation = kubernetes_config_disable_iss_validation config,
       kubernetes_config_payload_issuer = kubernetes_config_issuer config,
       kubernetes_config_payload_kubernetes_host = kubernetes_config_kubernetes_host config,
       kubernetes_config_payload_kubernetes_ca_cert = kubernetes_config_kubernetes_ca_cert config,
       kubernetes_config_payload_token_reviewer_jwt = kubernetes_config_token_reviewer_jwt config,
       kubernetes_config_payload_pem_keys = kubernetes_config_pem_keys config,
       kubernetes_config_payload_disable_local_ca_jwt = kubernetes_config_disable_local_ca_jwt config\<rparr>
       in
     request_auth_json_internal env cl from_json ''kubernetes'' mount ''POST'' (''auth/'' @
       mount @ ''/config'') (Some (to_json payload)))"

definition kubernetes_admin_read_config ::
  "http_env \<Rightarrow> client \<Rightarrow>
   (string \<Rightarrow> 'a response_envelope option) \<Rightarrow> string \<Rightarrow>
   'a sent" where
  "kubernetes_admin_read_config env cl from_json mount =
     smap env_data (request_auth_json_internal env cl from_json ''kubernetes'' mount ''GET''
       (''auth/'' @ mount @ ''/config'') None)"

definition kubernetes_admin_write_role ::
  "http_env \<Rightarrow> client \<Rightarrow>
   (string \<Rightarrow> unit option) \<Rightarrow>
   (kubernetes_role \<Rightarrow> payload) \<Rightarrow> string \<Rightarrow>
   (string \<Rightarrow> json_value option) \<Rightarrow> string \<Rightarrow>
   kubernetes_role \<Rightarrow> unit sent" where
  "kubernetes_admin_write_role env cl from_json to_json mount parse_json name role =
     sbind (pure (kubernetes_role_validate parse_json role)) (\<lambda>_.
     sbind (pure (validate_mount_path name)) (\<lambda>p.
     let name = join_with ''/'' p in
     request_auth_json_internal env cl from_json ''kubernetes'' mount ''POST'' (''auth/'' @
       mount @ ''/role/'' @ name) (Some (to_json role))))"

definition kubernetes_admin_read_role ::
  "http_env \<Rightarrow> client \<Rightarrow>
   (string \<Rightarrow> 'a response_envelope option) \<Rightarrow> string \<Rightarrow>
   string \<Rightarrow> 'a sent" where
  "kubernetes_admin_read_role env cl from_json mount name =
     sbind (pure (validate_mount_path name)) (\<lambda>p.
     let name = join_with ''/'' p in
     smap env_data (request_auth_json_internal env cl from_json ''kubernetes'' mount ''GET''
       (''auth/'' @ mount @ ''/role/'' @ name) None))"

definition kubernetes_admin_list_roles ::
  "http_env \<Rightarrow> client \<Rightarrow>
   (string \<Rightarrow> 'a response_envelope option) \<Rightarrow> string \<Rightarrow>
   'a sent" where
  "kubernetes_admin_list_roles env cl from_json mount =
     smap env_data (request_auth_json_internal env cl from_json ''kubernetes'' mount ''LIST''
       (''auth/'' @ mount @ ''/role'') None)"

definition kubernetes_admin_delete_role ::
  "http_env \<Rightarrow> client \<Rightarrow>
   (string \<Rightarrow> unit option) \<Rightarrow> string \<Rightarrow> string \<Rightarrow>
   unit sent" where
  "kubernetes_admin_delete_role env cl from_json mount name =
     sbind (pure (validate_mount_path name)) (\<lambda>p.
     let name = join_with ''/'' p in
     request_auth_json_accepting env cl from_json ''kubernetes'' mount ''DELETE'' (''auth/'' @
       mount @ ''/role/'' @ name) None [200, 204])"

section \<open>The routes of the method\<close>

lemma kubernetes_auth_literals [simp]:
  "validate_endpoint_path ''config'' = Inr [''config'']"
  "validate_endpoint_path ''login'' = Inr [''login'']"
  "validate_endpoint_path ''role'' = Inr [''role'']"
  by (rule literal_endpoint; code_simp)+

lemma kubernetes_auth_routes:
  assumes "list_all safe_segment mount" "mount \<noteq> []"
  shows "at_route env cl ''POST'' (''auth'' # mount) [''login'']
      (kubernetes_auth_login env cl fj tj (join_with ''/'' mount) role jwt)"
  unfolding kubernetes_auth_login_def kubernetes_auth_login_response_def
  by (use assms in \<open>auto simp: Let_def rbind_Inr_iff safe_auth join_with_Cons join_with_append
      intro!: at_intros at_requests text_atI silent_intros intro: at_after
      dest!: name_dests split: option.splits\<close>)

lemma kubernetes_admin_routes:
  assumes "list_all safe_segment mount" "mount \<noteq> []"
  shows "at_route env cl ''POST'' (''auth'' # mount) [''config'']
      (kubernetes_admin_configure env cl fj tj (join_with ''/'' mount) parse_url config)"
    and "at_route env cl ''GET'' (''auth'' # mount) [''config'']
      (kubernetes_admin_read_config env cl fj2 (join_with ''/'' mount))"
    and "at_route env cl ''POST'' (''auth'' # mount) [''role'', name]
      (kubernetes_admin_write_role env cl fj tj2 (join_with ''/'' mount) parse_json name role)"
    and "at_route env cl ''GET'' (''auth'' # mount) [''role'', name]
      (kubernetes_admin_read_role env cl fj2 (join_with ''/'' mount) name)"
    and "at_route env cl ''LIST'' (''auth'' # mount) [''role'']
      (kubernetes_admin_list_roles env cl fj2 (join_with ''/'' mount))"
    and "at_route env cl ''DELETE'' (''auth'' # mount) [''role'', name]
      (kubernetes_admin_delete_role env cl fj (join_with ''/'' mount) name)"
  unfolding kubernetes_admin_configure_def kubernetes_admin_read_config_def
      kubernetes_admin_write_role_def kubernetes_admin_read_role_def
      kubernetes_admin_list_roles_def kubernetes_admin_delete_role_def
  by (use assms in \<open>auto simp: Let_def rbind_Inr_iff safe_auth join_with_Cons join_with_append
      intro!: at_intros at_requests text_atI silent_intros intro: at_after
      dest!: name_dests split: option.splits\<close>)

end
