(* ===== verification/Bao_Ldap_Auth.thy ===== *)
theory Bao_Ldap_Auth
  imports Bao_Auth
begin

text \<open>
  The LDAP method, \<open>auth/ldap.rs\<close>.
  A handle is its mount path; \<open>from_json\<close> and \<open>to_json\<close> are the deserialiser of a response and the
  serialiser of a payload.
\<close>

section \<open>Data and requests\<close>

record ldap_auth_config =
  ldap_auth_config_url :: "string option"
  ldap_auth_config_case_sensitive_names :: "bool option"
  ldap_auth_config_connection_timeout :: "string option"
  ldap_auth_config_request_timeout :: "string option"
  ldap_auth_config_starttls :: "bool option"
  ldap_auth_config_tls_min_version :: "string option"
  ldap_auth_config_tls_max_version :: "string option"
  ldap_auth_config_insecure_tls :: "bool option"
  ldap_auth_config_certificate :: "string option"
  ldap_auth_config_client_tls_cert :: "string option"
  ldap_auth_config_client_tls_key :: "string option"
  ldap_auth_config_binddn :: "string option"
  ldap_auth_config_bindpass :: "string option"
  ldap_auth_config_userdn :: "string option"
  ldap_auth_config_userattr :: "string option"
  ldap_auth_config_discoverdn :: "bool option"
  ldap_auth_config_deny_null_bind :: "bool option"
  ldap_auth_config_upndomain :: "string option"
  ldap_auth_config_userfilter :: "string option"
  ldap_auth_config_anonymous_group_search :: "bool option"
  ldap_auth_config_groupfilter :: "string option"
  ldap_auth_config_groupdn :: "string option"
  ldap_auth_config_groupattr :: "string option"
  ldap_auth_config_username_as_alias :: "bool option"
  ldap_auth_config_dereference_aliases :: "string option"
  ldap_auth_config_max_page_size :: "64 word option"
  ldap_auth_config_use_token_groups :: "bool option"
  ldap_auth_config_token_policies :: "string list"
  ldap_auth_config_policies :: "string list"
  ldap_auth_config_token_bound_cidrs :: "string list"
  ldap_auth_config_token_strictly_bind_ip :: "bool option"
  ldap_auth_config_token_ttl :: "string option"
  ldap_auth_config_token_max_ttl :: "string option"
  ldap_auth_config_token_explicit_max_ttl :: "string option"
  ldap_auth_config_token_no_default_policy :: "bool option"
  ldap_auth_config_token_num_uses :: "64 word option"
  ldap_auth_config_token_period :: "string option"
  ldap_auth_config_token_type :: "string option"

definition ldap_auth_config_default :: ldap_auth_config where
  "ldap_auth_config_default =
     \<lparr>ldap_auth_config_url = None, ldap_auth_config_case_sensitive_names = None,
       ldap_auth_config_connection_timeout = None, ldap_auth_config_request_timeout = None,
       ldap_auth_config_starttls = None, ldap_auth_config_tls_min_version = None,
       ldap_auth_config_tls_max_version = None, ldap_auth_config_insecure_tls = None,
       ldap_auth_config_certificate = None, ldap_auth_config_client_tls_cert = None,
       ldap_auth_config_client_tls_key = None, ldap_auth_config_binddn = None,
       ldap_auth_config_bindpass = None, ldap_auth_config_userdn = None,
       ldap_auth_config_userattr = None, ldap_auth_config_discoverdn = None,
       ldap_auth_config_deny_null_bind = None, ldap_auth_config_upndomain = None,
       ldap_auth_config_userfilter = None, ldap_auth_config_anonymous_group_search = None,
       ldap_auth_config_groupfilter = None, ldap_auth_config_groupdn = None,
       ldap_auth_config_groupattr = None, ldap_auth_config_username_as_alias = None,
       ldap_auth_config_dereference_aliases = None, ldap_auth_config_max_page_size = None,
       ldap_auth_config_use_token_groups = None, ldap_auth_config_token_policies = [],
       ldap_auth_config_policies = [], ldap_auth_config_token_bound_cidrs = [],
       ldap_auth_config_token_strictly_bind_ip = None, ldap_auth_config_token_ttl = None,
       ldap_auth_config_token_max_ttl = None, ldap_auth_config_token_explicit_max_ttl = None,
       ldap_auth_config_token_no_default_policy = None, ldap_auth_config_token_num_uses = None,
       ldap_auth_config_token_period = None, ldap_auth_config_token_type = None\<rparr>"

definition ldap_auth_config_new :: ldap_auth_config where
  "ldap_auth_config_new = ldap_auth_config_default"

definition ldap_auth_config_with_url ::
  "ldap_auth_config \<Rightarrow> string \<Rightarrow> ldap_auth_config" where
  "ldap_auth_config_with_url self url = self\<lparr>ldap_auth_config_url := Some url\<rparr>"

definition ldap_auth_config_with_bind ::
  "ldap_auth_config \<Rightarrow> string \<Rightarrow> string \<Rightarrow> ldap_auth_config" where
  "ldap_auth_config_with_bind self binddn bindpass =
     self\<lparr>ldap_auth_config_binddn := Some binddn, ldap_auth_config_bindpass := Some
       bindpass\<rparr>"

definition ldap_auth_config_with_token_policy ::
  "ldap_auth_config \<Rightarrow> string \<Rightarrow> ldap_auth_config" where
  "ldap_auth_config_with_token_policy self policy =
     self\<lparr>ldap_auth_config_token_policies := ldap_auth_config_token_policies self @
       [policy]\<rparr>"

definition ldap_auth_config_with_token_bound_cidr ::
  "ldap_auth_config \<Rightarrow> string \<Rightarrow> ldap_auth_config res" where
  "ldap_auth_config_with_token_bound_cidr self cidr =
     rbind (validate_cidr cidr ''LDAP auth token_bound_cidrs'') (\<lambda>_.
     Inr (self\<lparr>ldap_auth_config_token_bound_cidrs := ldap_auth_config_token_bound_cidrs
       self @ [cidr]\<rparr>))"

definition ldap_auth_duration_or_seconds_is_valid ::
  "string \<Rightarrow> bool \<Rightarrow> bool" where
  "ldap_auth_duration_or_seconds_is_valid val_v allow_zero \<longleftrightarrow>
     (is_some_and (\<lambda>seconds. allow_zero \<or> 0 < seconds) (parse_unsigned
       18446744073709551616 val_v)) \<or> validate_duration_string val_v allow_zero"

definition ldap_auth_validate_optional_duration ::
  "string option \<Rightarrow> string \<Rightarrow> unit res" where
  "ldap_auth_validate_optional_duration val_v field =
     (case val_v of
        None \<Rightarrow> Inr ()
      | Some val_v \<Rightarrow> (if \<not> (ldap_auth_duration_or_seconds_is_valid val_v True)
        then Inl (InvalidParameter (field @
        '' must be seconds or a duration such as 0s, 30s, 5m, or 1h''))
           else Inr ()))"

definition ldap_auth_validate_optional_alias_mode :: "string option \<Rightarrow> unit res" where
  "ldap_auth_validate_optional_alias_mode val_v =
     (case val_v of
        None \<Rightarrow> Inr ()
      | Some val_v \<Rightarrow> (if \<not> (val_v = ''never'' \<or> val_v = ''finding'' \<or>
        val_v = ''searching'' \<or> val_v = ''always'') then Inl (InvalidParameter
        ''LDAP auth dereference_aliases must be never, finding, searching, or always'')
           else Inr ()))"

definition ldap_auth_config_validate ::
  "bool \<Rightarrow> (string \<Rightarrow> url option) \<Rightarrow>
   ldap_auth_config \<Rightarrow> unit res" where
  "ldap_auth_config_validate insecure_ldap_tls parse_url self =
     (if \<not> insecure_ldap_tls \<and> ldap_auth_config_insecure_tls self = Some True then
       Inl (InvalidParameter
       ''LDAP auth insecure_tls=true requires the insecure-ldap-tls-acknowledged Cargo feature because it disables LDAP TLS certificate verification'')
        else (if ldap_auth_config_insecure_tls self = Some True \<and>
          (ldap_auth_config_bindpass self \<noteq> None \<or> ldap_auth_config_client_tls_key
          self \<noteq> None) then Inl (InvalidParameter
          ''LDAP auth insecure_tls=true must not be combined with bindpass or client_tls_key because credentials would cross an unverified TLS connection'')
           else let require_encrypted_transport = \<not> insecure_ldap_tls \<or>
             ldap_auth_config_bindpass self \<noteq> None \<or> ldap_auth_config_client_tls_key
             self \<noteq> None in
           rbind (validate_ldap_urls parse_url (ldap_auth_config_url self)
             (ldap_auth_config_starttls self) ''LDAP auth'' require_encrypted_transport)
             (\<lambda>_.
           rbind (validate_cidr_list (ldap_auth_config_token_bound_cidrs self)
             ''LDAP auth token_bound_cidrs'') (\<lambda>_.
           (if ldap_auth_config_token_strictly_bind_ip self = Some True \<and> \<not>
             (ldap_auth_config_token_bound_cidrs self = []) then Inl (InvalidParameter
             ''LDAP auth token_strictly_bind_ip conflicts with token_bound_cidrs'')
              else rbind (ldap_auth_validate_optional_duration
                (ldap_auth_config_connection_timeout self) ''LDAP auth connection_timeout'')
                (\<lambda>_.
              rbind (ldap_auth_validate_optional_duration (ldap_auth_config_request_timeout
                self) ''LDAP auth request_timeout'') (\<lambda>_.
              rbind (ldap_auth_validate_optional_duration (ldap_auth_config_token_ttl self)
                ''LDAP auth token_ttl'') (\<lambda>_.
              rbind (ldap_auth_validate_optional_duration (ldap_auth_config_token_max_ttl self)
                ''LDAP auth token_max_ttl'') (\<lambda>_.
              rbind (ldap_auth_validate_optional_duration
                (ldap_auth_config_token_explicit_max_ttl self)
                ''LDAP auth token_explicit_max_ttl'') (\<lambda>_.
              rbind (ldap_auth_validate_optional_duration (ldap_auth_config_token_period self)
                ''LDAP auth token_period'') (\<lambda>_.
              rbind (validate_optional_ldap_tls_version (ldap_auth_config_tls_min_version self)
                ''LDAP auth tls_min_version'') (\<lambda>_.
              rbind (validate_optional_ldap_tls_version (ldap_auth_config_tls_max_version self)
                ''LDAP auth tls_max_version'') (\<lambda>_.
              ldap_auth_validate_optional_alias_mode (ldap_auth_config_dereference_aliases
                self))))))))))))))"

record ldap_auth_mapping_request =
  ldap_auth_mapping_request_policies :: "string list"
  ldap_auth_mapping_request_groups :: "string list"

definition ldap_auth_mapping_request_new :: "string \<Rightarrow> ldap_auth_mapping_request" where
  "ldap_auth_mapping_request_new policy =
     \<lparr>ldap_auth_mapping_request_policies = [policy],
       ldap_auth_mapping_request_groups = []\<rparr>"

definition ldap_auth_mapping_request_with_policy ::
  "ldap_auth_mapping_request \<Rightarrow> string \<Rightarrow> ldap_auth_mapping_request" where
  "ldap_auth_mapping_request_with_policy self policy =
     self\<lparr>ldap_auth_mapping_request_policies := ldap_auth_mapping_request_policies self
       @ [policy]\<rparr>"

definition ldap_auth_mapping_request_with_group ::
  "ldap_auth_mapping_request \<Rightarrow> string \<Rightarrow> ldap_auth_mapping_request" where
  "ldap_auth_mapping_request_with_group self group_name =
     self\<lparr>ldap_auth_mapping_request_groups := ldap_auth_mapping_request_groups self @
       [group_name]\<rparr>"

section \<open>Operations\<close>

definition client_ldap_auth_at :: "string \<Rightarrow> string res" where
  "client_ldap_auth_at mount =
     rbind (validate_mount_path mount) (\<lambda>p.
     Inr (join_with ''/'' p))"

definition client_ldap_auth :: "string res" where
  "client_ldap_auth = client_ldap_auth_at ''ldap''"

definition ldap_auth_validate_ldap_path_name :: "string \<Rightarrow> string res" where
  "ldap_auth_validate_ldap_path_name name =
     (if name = [] then Inl (InvalidPath ''LDAP auth path name must not be empty'')
        else (if \<not> (is_ascii name) then Inl (InvalidPath
          ''LDAP auth path name must contain only ASCII characters'')
           else (if list_ex is_ascii_control name then Inl (InvalidPath
             ''LDAP auth path name must not contain control characters'')
              else (if CHR '' '' \<in> set name then Inl (InvalidPath
                ''LDAP auth path name must not contain spaces'')
                 else (if list_ex (\<lambda>c. c \<in> set [CHR ''*'', CHR ''('', CHR '')''])
                   name then Inl (InvalidPath
                   ''LDAP auth path name must not contain LDAP filter special characters'')
                    else (if list_ex (\<lambda>c. c \<in> set [(CHR 0x5C), CHR ''/'', CHR
                      ''?'', CHR ''#'']) name then Inl (InvalidPath
                      ''LDAP auth path name must not contain slash, backslash, query, or fragment characters'')
                       else (if name = ''.'' \<or> name = ''..'' \<or> suffix [CHR ''.''] name
                         then Inl (InvalidPath
                         ''LDAP auth path name must not be relative or end in a period'')
                          else Inr name)))))))"

record ldap_auth_login_request =
  ldap_auth_login_request_password :: string

record ldap_auth_login_auth =
  ldap_auth_login_auth_client_token :: string
  ldap_auth_login_auth_accessor :: "string option"
  ldap_auth_login_auth_policies :: "string list"
  ldap_auth_login_auth_lease_duration :: "64 word"
  ldap_auth_login_auth_renewable :: bool
  ldap_auth_login_auth_metadata :: "(string \<times> string) list"

record ldap_auth_login_response =
  ldap_auth_login_response_auth :: "ldap_auth_login_auth option"

definition ldap_auth_login_response_call ::
  "http_env \<Rightarrow> client \<Rightarrow>
   (string \<Rightarrow> ldap_auth_login_response option) \<Rightarrow>
   (ldap_auth_login_request \<Rightarrow> payload) \<Rightarrow> string \<Rightarrow>
   string \<Rightarrow> string \<Rightarrow> ldap_auth_login_auth sent" where
  "ldap_auth_login_response_call env cl from_json to_json mount username password =
     sbind (pure (ldap_auth_validate_ldap_path_name username)) (\<lambda>username.
     let request = \<lparr>ldap_auth_login_request_password = password\<rparr> in
     sbind (request_auth_json_internal env cl from_json ''ldap'' mount ''POST'' (''auth/'' @
       mount @ ''/login/'' @ username) (Some (to_json request))) (\<lambda>response.
     pure (ok_or (ldap_auth_login_response_auth response) (MissingField ''auth''))))"

record ldap_auth_login_metadata =
  ldap_auth_login_metadata_accessor :: "string option"
  ldap_auth_login_metadata_policies :: "string list"
  ldap_auth_login_metadata_lease_duration :: "64 word"
  ldap_auth_login_metadata_renewable :: bool
  ldap_auth_login_metadata_metadata :: "(string \<times> string) list"

definition ldap_auth_split_login_auth ::
  "ldap_auth_login_auth \<Rightarrow> string \<times> ldap_auth_login_metadata" where
  "ldap_auth_split_login_auth auth =
     (let metadata =
       \<lparr>ldap_auth_login_metadata_accessor = ldap_auth_login_auth_accessor auth,
       ldap_auth_login_metadata_policies = ldap_auth_login_auth_policies auth,
       ldap_auth_login_metadata_lease_duration = ldap_auth_login_auth_lease_duration auth,
       ldap_auth_login_metadata_renewable = ldap_auth_login_auth_renewable auth,
       ldap_auth_login_metadata_metadata = ldap_auth_login_auth_metadata auth\<rparr> in
     (ldap_auth_login_auth_client_token auth, metadata))"

definition client_login_ldap ::
  "http_env \<Rightarrow> client \<Rightarrow>
   (string \<Rightarrow> ldap_auth_login_response option) \<Rightarrow>
   (ldap_auth_login_request \<Rightarrow> payload) \<Rightarrow> string \<Rightarrow>
   string \<Rightarrow> (client \<times> ldap_auth_login_metadata) sent" where
  "client_login_ldap env cl from_json to_json username password =
     sbind (pure client_ldap_auth) (\<lambda>v.
     sbind (ldap_auth_login_response_call env cl from_json to_json v username password)
       (\<lambda>response.
     (case ldap_auth_split_login_auth response of (token, metadata) \<Rightarrow>
        sbind (pure (try_with_token env cl token)) (\<lambda>v.
        pure (Inr (v, metadata))))))"

definition client_ldap_auth_admin_at :: "string \<Rightarrow> string res" where
  "client_ldap_auth_admin_at mount =
     rbind (validate_mount_path mount) (\<lambda>p.
     Inr (join_with ''/'' p))"

definition client_ldap_auth_admin :: "string res" where
  "client_ldap_auth_admin = client_ldap_auth_admin_at ''ldap''"

definition ldap_auth_login ::
  "http_env \<Rightarrow> client \<Rightarrow>
   (string \<Rightarrow> ldap_auth_login_response option) \<Rightarrow>
   (ldap_auth_login_request \<Rightarrow> payload) \<Rightarrow> string \<Rightarrow>
   string \<Rightarrow> string \<Rightarrow> (client \<times> ldap_auth_login_metadata) sent" where
  "ldap_auth_login env cl from_json to_json mount username password =
     sbind (ldap_auth_login_response_call env cl from_json to_json mount username password)
       (\<lambda>response.
     (case ldap_auth_split_login_auth response of (token, metadata) \<Rightarrow>
        sbind (pure (try_with_token env (clone_without_state cl) token)) (\<lambda>v.
        pure (Inr (v, metadata)))))"

record ldap_auth_config_payload =
  ldap_auth_config_payload_url :: "string option"
  ldap_auth_config_payload_case_sensitive_names :: "bool option"
  ldap_auth_config_payload_connection_timeout :: "string option"
  ldap_auth_config_payload_request_timeout :: "string option"
  ldap_auth_config_payload_starttls :: "bool option"
  ldap_auth_config_payload_tls_min_version :: "string option"
  ldap_auth_config_payload_tls_max_version :: "string option"
  ldap_auth_config_payload_insecure_tls :: "bool option"
  ldap_auth_config_payload_certificate :: "string option"
  ldap_auth_config_payload_client_tls_cert :: "string option"
  ldap_auth_config_payload_client_tls_key :: "string option"
  ldap_auth_config_payload_binddn :: "string option"
  ldap_auth_config_payload_bindpass :: "string option"
  ldap_auth_config_payload_userdn :: "string option"
  ldap_auth_config_payload_userattr :: "string option"
  ldap_auth_config_payload_discoverdn :: "bool option"
  ldap_auth_config_payload_deny_null_bind :: "bool option"
  ldap_auth_config_payload_upndomain :: "string option"
  ldap_auth_config_payload_userfilter :: "string option"
  ldap_auth_config_payload_anonymous_group_search :: "bool option"
  ldap_auth_config_payload_groupfilter :: "string option"
  ldap_auth_config_payload_groupdn :: "string option"
  ldap_auth_config_payload_groupattr :: "string option"
  ldap_auth_config_payload_username_as_alias :: "bool option"
  ldap_auth_config_payload_dereference_aliases :: "string option"
  ldap_auth_config_payload_max_page_size :: "64 word option"
  ldap_auth_config_payload_use_token_groups :: "bool option"
  ldap_auth_config_payload_token_policies :: "string list"
  ldap_auth_config_payload_policies :: "string list"
  ldap_auth_config_payload_token_bound_cidrs :: "string list"
  ldap_auth_config_payload_token_strictly_bind_ip :: "bool option"
  ldap_auth_config_payload_token_ttl :: "string option"
  ldap_auth_config_payload_token_max_ttl :: "string option"
  ldap_auth_config_payload_token_explicit_max_ttl :: "string option"
  ldap_auth_config_payload_token_no_default_policy :: "bool option"
  ldap_auth_config_payload_token_num_uses :: "64 word option"
  ldap_auth_config_payload_token_period :: "string option"
  ldap_auth_config_payload_token_type :: "string option"

definition ldap_auth_admin_configure ::
  "http_env \<Rightarrow> client \<Rightarrow>
   (string \<Rightarrow> unit option) \<Rightarrow>
   (ldap_auth_config_payload \<Rightarrow> payload) \<Rightarrow> string \<Rightarrow>
   bool \<Rightarrow> (string \<Rightarrow> url option) \<Rightarrow>
   ldap_auth_config \<Rightarrow> unit sent" where
  "ldap_auth_admin_configure env cl from_json to_json mount insecure_ldap_tls parse_url config =
     sbind (pure (ldap_auth_config_validate insecure_ldap_tls parse_url config)) (\<lambda>_.
     let payload = \<lparr>ldap_auth_config_payload_url = ldap_auth_config_url config,
       ldap_auth_config_payload_case_sensitive_names = ldap_auth_config_case_sensitive_names config,
       ldap_auth_config_payload_connection_timeout = ldap_auth_config_connection_timeout config,
       ldap_auth_config_payload_request_timeout = ldap_auth_config_request_timeout config,
       ldap_auth_config_payload_starttls = ldap_auth_config_starttls config,
       ldap_auth_config_payload_tls_min_version = ldap_auth_config_tls_min_version config,
       ldap_auth_config_payload_tls_max_version = ldap_auth_config_tls_max_version config,
       ldap_auth_config_payload_insecure_tls = ldap_auth_config_insecure_tls config,
       ldap_auth_config_payload_certificate = ldap_auth_config_certificate config,
       ldap_auth_config_payload_client_tls_cert = ldap_auth_config_client_tls_cert config,
       ldap_auth_config_payload_client_tls_key = ldap_auth_config_client_tls_key config,
       ldap_auth_config_payload_binddn = ldap_auth_config_binddn config,
       ldap_auth_config_payload_bindpass = ldap_auth_config_bindpass config,
       ldap_auth_config_payload_userdn = ldap_auth_config_userdn config,
       ldap_auth_config_payload_userattr = ldap_auth_config_userattr config,
       ldap_auth_config_payload_discoverdn = ldap_auth_config_discoverdn config,
       ldap_auth_config_payload_deny_null_bind = ldap_auth_config_deny_null_bind config,
       ldap_auth_config_payload_upndomain = ldap_auth_config_upndomain config,
       ldap_auth_config_payload_userfilter = ldap_auth_config_userfilter config,
       ldap_auth_config_payload_anonymous_group_search = ldap_auth_config_anonymous_group_search config,
       ldap_auth_config_payload_groupfilter = ldap_auth_config_groupfilter config,
       ldap_auth_config_payload_groupdn = ldap_auth_config_groupdn config,
       ldap_auth_config_payload_groupattr = ldap_auth_config_groupattr config,
       ldap_auth_config_payload_username_as_alias = ldap_auth_config_username_as_alias config,
       ldap_auth_config_payload_dereference_aliases = ldap_auth_config_dereference_aliases config,
       ldap_auth_config_payload_max_page_size = ldap_auth_config_max_page_size config,
       ldap_auth_config_payload_use_token_groups = ldap_auth_config_use_token_groups config,
       ldap_auth_config_payload_token_policies = ldap_auth_config_token_policies config,
       ldap_auth_config_payload_policies = ldap_auth_config_policies config,
       ldap_auth_config_payload_token_bound_cidrs = ldap_auth_config_token_bound_cidrs config,
       ldap_auth_config_payload_token_strictly_bind_ip = ldap_auth_config_token_strictly_bind_ip config,
       ldap_auth_config_payload_token_ttl = ldap_auth_config_token_ttl config,
       ldap_auth_config_payload_token_max_ttl = ldap_auth_config_token_max_ttl config,
       ldap_auth_config_payload_token_explicit_max_ttl = ldap_auth_config_token_explicit_max_ttl config,
       ldap_auth_config_payload_token_no_default_policy = ldap_auth_config_token_no_default_policy config,
       ldap_auth_config_payload_token_num_uses = ldap_auth_config_token_num_uses config,
       ldap_auth_config_payload_token_period = ldap_auth_config_token_period config,
       ldap_auth_config_payload_token_type = ldap_auth_config_token_type config\<rparr> in
     request_auth_json_internal env cl from_json ''ldap'' mount ''POST'' (''auth/'' @ mount @
       ''/config'') (Some (to_json payload)))"

definition ldap_auth_admin_read_config ::
  "http_env \<Rightarrow> client \<Rightarrow>
   (string \<Rightarrow> 'a response_envelope option) \<Rightarrow> string \<Rightarrow>
   'a sent" where
  "ldap_auth_admin_read_config env cl from_json mount =
     smap env_data (request_auth_json_internal env cl from_json ''ldap'' mount ''GET''
       (''auth/'' @ mount @ ''/config'') None)"

record ldap_auth_mapping_payload =
  ldap_auth_mapping_payload_policies :: string
  ldap_auth_mapping_payload_groups :: string

definition ldap_auth_admin_write_mapping ::
  "http_env \<Rightarrow> client \<Rightarrow>
   (string \<Rightarrow> unit option) \<Rightarrow>
   (ldap_auth_mapping_payload \<Rightarrow> payload) \<Rightarrow> string \<Rightarrow>
   (nat \<Rightarrow> bool) \<Rightarrow> string \<Rightarrow> string \<Rightarrow>
   ldap_auth_mapping_request \<Rightarrow> unit sent" where
  "ldap_auth_admin_write_mapping env cl from_json to_json mount can_reserve kind name mapping =
     sbind (pure (ldap_auth_validate_ldap_path_name name)) (\<lambda>name.
     sbind (pure (mapping_encode_values can_reserve (ldap_auth_mapping_request_policies
       mapping) ''LDAP policies'')) (\<lambda>v.
     sbind (pure (mapping_encode_values can_reserve (ldap_auth_mapping_request_groups mapping)
       ''LDAP groups'')) (\<lambda>v2.
     let payload = \<lparr>ldap_auth_mapping_payload_policies = v,
       ldap_auth_mapping_payload_groups = v2\<rparr> in
     request_auth_json_internal env cl from_json ''ldap'' mount ''POST'' (''auth/'' @ mount @
       ''/'' @ kind @ ''/'' @ name) (Some (to_json payload)))))"

definition ldap_auth_admin_write_group ::
  "http_env \<Rightarrow> client \<Rightarrow>
   (string \<Rightarrow> unit option) \<Rightarrow>
   (ldap_auth_mapping_payload \<Rightarrow> payload) \<Rightarrow> string \<Rightarrow>
   (nat \<Rightarrow> bool) \<Rightarrow> string \<Rightarrow>
   ldap_auth_mapping_request \<Rightarrow> unit sent" where
  "ldap_auth_admin_write_group env cl from_json to_json mount can_reserve name group_name =
     ldap_auth_admin_write_mapping env cl from_json to_json mount can_reserve ''groups'' name
       group_name"

definition ldap_auth_admin_read_mapping ::
  "http_env \<Rightarrow> client \<Rightarrow>
   (string \<Rightarrow> 'a response_envelope option) \<Rightarrow> string \<Rightarrow>
   string \<Rightarrow> string \<Rightarrow> 'a sent" where
  "ldap_auth_admin_read_mapping env cl from_json mount kind name =
     sbind (pure (ldap_auth_validate_ldap_path_name name)) (\<lambda>name.
     smap env_data (request_auth_json_internal env cl from_json ''ldap'' mount ''GET''
       (''auth/'' @ mount @ ''/'' @ kind @ ''/'' @ name) None))"

definition ldap_auth_admin_read_group ::
  "http_env \<Rightarrow> client \<Rightarrow>
   (string \<Rightarrow> 'a response_envelope option) \<Rightarrow> string \<Rightarrow>
   string \<Rightarrow> 'a sent" where
  "ldap_auth_admin_read_group env cl from_json mount name =
     ldap_auth_admin_read_mapping env cl from_json mount ''groups'' name"

definition ldap_auth_admin_delete_mapping ::
  "http_env \<Rightarrow> client \<Rightarrow>
   (string \<Rightarrow> unit option) \<Rightarrow> string \<Rightarrow> string \<Rightarrow>
   string \<Rightarrow> unit sent" where
  "ldap_auth_admin_delete_mapping env cl from_json mount kind name =
     sbind (pure (ldap_auth_validate_ldap_path_name name)) (\<lambda>name.
     request_auth_json_accepting env cl from_json ''ldap'' mount ''DELETE'' (''auth/'' @ mount
       @ ''/'' @ kind @ ''/'' @ name) None [200, 204])"

definition ldap_auth_admin_delete_group ::
  "http_env \<Rightarrow> client \<Rightarrow>
   (string \<Rightarrow> unit option) \<Rightarrow> string \<Rightarrow> string \<Rightarrow>
   unit sent" where
  "ldap_auth_admin_delete_group env cl from_json mount name =
     ldap_auth_admin_delete_mapping env cl from_json mount ''groups'' name"

definition ldap_auth_admin_list_mapping_names ::
  "http_env \<Rightarrow> client \<Rightarrow>
   (string \<Rightarrow> 'a response_envelope option) \<Rightarrow> string \<Rightarrow>
   string \<Rightarrow> 'a sent" where
  "ldap_auth_admin_list_mapping_names env cl from_json mount kind =
     smap env_data (request_auth_json_internal env cl from_json ''ldap'' mount ''LIST''
       (''auth/'' @ mount @ ''/'' @ kind) None)"

definition ldap_auth_admin_list_groups ::
  "http_env \<Rightarrow> client \<Rightarrow>
   (string \<Rightarrow> 'a response_envelope option) \<Rightarrow> string \<Rightarrow>
   'a sent" where
  "ldap_auth_admin_list_groups env cl from_json mount =
     ldap_auth_admin_list_mapping_names env cl from_json mount ''groups''"

definition ldap_auth_admin_write_user ::
  "http_env \<Rightarrow> client \<Rightarrow>
   (string \<Rightarrow> unit option) \<Rightarrow>
   (ldap_auth_mapping_payload \<Rightarrow> payload) \<Rightarrow> string \<Rightarrow>
   (nat \<Rightarrow> bool) \<Rightarrow> string \<Rightarrow>
   ldap_auth_mapping_request \<Rightarrow> unit sent" where
  "ldap_auth_admin_write_user env cl from_json to_json mount can_reserve username user =
     ldap_auth_admin_write_mapping env cl from_json to_json mount can_reserve ''users''
       username user"

definition ldap_auth_admin_read_user ::
  "http_env \<Rightarrow> client \<Rightarrow>
   (string \<Rightarrow> 'a response_envelope option) \<Rightarrow> string \<Rightarrow>
   string \<Rightarrow> 'a sent" where
  "ldap_auth_admin_read_user env cl from_json mount username =
     ldap_auth_admin_read_mapping env cl from_json mount ''users'' username"

definition ldap_auth_admin_delete_user ::
  "http_env \<Rightarrow> client \<Rightarrow>
   (string \<Rightarrow> unit option) \<Rightarrow> string \<Rightarrow> string \<Rightarrow>
   unit sent" where
  "ldap_auth_admin_delete_user env cl from_json mount username =
     ldap_auth_admin_delete_mapping env cl from_json mount ''users'' username"

definition ldap_auth_admin_list_users ::
  "http_env \<Rightarrow> client \<Rightarrow>
   (string \<Rightarrow> 'a response_envelope option) \<Rightarrow> string \<Rightarrow>
   'a sent" where
  "ldap_auth_admin_list_users env cl from_json mount =
     ldap_auth_admin_list_mapping_names env cl from_json mount ''users''"

section \<open>The routes of the method\<close>

lemma ldap_auth_literals [simp]:
  "validate_endpoint_path ''config'' = Inr [''config'']"
  "validate_endpoint_path ''groups'' = Inr [''groups'']"
  "validate_endpoint_path ''login'' = Inr [''login'']"
  "validate_endpoint_path ''users'' = Inr [''users'']"
  by (rule literal_endpoint; code_simp)+

lemma ldap_auth_path_name [name_dests]:
  "ldap_auth_validate_ldap_path_name u = Inr x \<Longrightarrow> x = u \<and> plain_name u"
  by (auto simp: ldap_auth_validate_ldap_path_name_def plain_name_def list_ex_iff suffix_char_iff
      split: if_splits)

lemma ldap_auth_routes:
  assumes "list_all safe_segment mount" "mount \<noteq> []"
  shows "at_route env cl ''POST'' (''auth'' # mount) [''login'', username]
      (ldap_auth_login env cl fj tj (join_with ''/'' mount) username password)"
  unfolding ldap_auth_login_def ldap_auth_login_response_call_def
  by (use assms in \<open>auto simp: Let_def rbind_Inr_iff safe_auth join_with_Cons join_with_append
      intro!: at_intros at_requests text_at_name silent_intros intro: text_atI at_after
      dest!: name_dests split: option.splits\<close>)

lemma ldap_auth_admin_routes:
  assumes "list_all safe_segment mount" "mount \<noteq> []"
  shows "at_route env cl ''POST'' (''auth'' # mount) [''config'']
      (ldap_auth_admin_configure env cl fj tj (join_with ''/'' mount) insecure_ldap_tls
        parse_url config)"
    and "at_route env cl ''GET'' (''auth'' # mount) [''config'']
      (ldap_auth_admin_read_config env cl fj2 (join_with ''/'' mount))"
    and "at_route env cl ''POST'' (''auth'' # mount) [''groups'', name]
      (ldap_auth_admin_write_group env cl fj tj2 (join_with ''/'' mount) can_reserve name
        group_name)"
    and "at_route env cl ''GET'' (''auth'' # mount) [''groups'', name]
      (ldap_auth_admin_read_group env cl fj2 (join_with ''/'' mount) name)"
    and "at_route env cl ''DELETE'' (''auth'' # mount) [''groups'', name]
      (ldap_auth_admin_delete_group env cl fj (join_with ''/'' mount) name)"
    and "at_route env cl ''LIST'' (''auth'' # mount) [''groups'']
      (ldap_auth_admin_list_groups env cl fj2 (join_with ''/'' mount))"
    and "at_route env cl ''POST'' (''auth'' # mount) [''users'', username]
      (ldap_auth_admin_write_user env cl fj tj2 (join_with ''/'' mount) can_reserve username
        user)"
    and "at_route env cl ''GET'' (''auth'' # mount) [''users'', username]
      (ldap_auth_admin_read_user env cl fj2 (join_with ''/'' mount) username)"
    and "at_route env cl ''DELETE'' (''auth'' # mount) [''users'', username]
      (ldap_auth_admin_delete_user env cl fj (join_with ''/'' mount) username)"
    and "at_route env cl ''LIST'' (''auth'' # mount) [''users'']
      (ldap_auth_admin_list_users env cl fj2 (join_with ''/'' mount))"
  unfolding ldap_auth_admin_configure_def ldap_auth_admin_read_config_def
      ldap_auth_admin_write_group_def ldap_auth_admin_write_mapping_def
      ldap_auth_admin_read_group_def ldap_auth_admin_read_mapping_def
      ldap_auth_admin_delete_group_def ldap_auth_admin_delete_mapping_def
      ldap_auth_admin_list_groups_def ldap_auth_admin_list_mapping_names_def
      ldap_auth_admin_write_user_def ldap_auth_admin_read_user_def
      ldap_auth_admin_delete_user_def ldap_auth_admin_list_users_def
  by (use assms in \<open>auto simp: Let_def rbind_Inr_iff safe_auth join_with_Cons join_with_append
      intro!: at_intros at_requests text_at_name silent_intros intro: text_atI at_after
      dest!: name_dests split: option.splits\<close>)

end
