(* ===== verification/Bao_Radius.thy ===== *)
theory Bao_Radius
  imports Bao_Auth
begin

text \<open>
  The RADIUS method, \<open>auth/radius.rs\<close>.
  A handle is its mount path; \<open>from_json\<close> and \<open>to_json\<close> are the deserialiser of a response and the
  serialiser of a payload.
\<close>

section \<open>Data and requests\<close>

record radius_config =
  radius_config_host :: string
  radius_config_secret :: string
  radius_config_port :: "16 word option"
  radius_config_unregistered_user_policies :: "string option"
  radius_config_dial_timeout :: "64 word option"
  radius_config_nas_port :: "64 word option"
  radius_config_token_policies :: "string list"
  radius_config_policies :: "string list"
  radius_config_token_bound_cidrs :: "string list"
  radius_config_token_strictly_bind_ip :: "bool option"
  radius_config_token_ttl :: "string option"
  radius_config_token_max_ttl :: "string option"
  radius_config_token_explicit_max_ttl :: "string option"
  radius_config_token_no_default_policy :: "bool option"
  radius_config_token_num_uses :: "64 word option"
  radius_config_token_period :: "string option"
  radius_config_token_type :: "string option"

definition radius_config_default :: radius_config where
  "radius_config_default =
     \<lparr>radius_config_host = [], radius_config_secret = [], radius_config_port = None,
       radius_config_unregistered_user_policies = None, radius_config_dial_timeout = None,
       radius_config_nas_port = None, radius_config_token_policies = [], radius_config_policies
       = [], radius_config_token_bound_cidrs = [], radius_config_token_strictly_bind_ip = None,
       radius_config_token_ttl = None, radius_config_token_max_ttl = None,
       radius_config_token_explicit_max_ttl = None, radius_config_token_no_default_policy =
       None, radius_config_token_num_uses = None, radius_config_token_period = None,
       radius_config_token_type = None\<rparr>"

definition radius_config_new :: "string \<Rightarrow> string \<Rightarrow> radius_config" where
  "radius_config_new host secret =
     radius_config_default\<lparr>radius_config_host := host, radius_config_secret :=
       secret\<rparr>"

definition radius_config_with_port ::
  "radius_config \<Rightarrow> 16 word \<Rightarrow> radius_config" where
  "radius_config_with_port self port = self\<lparr>radius_config_port := Some port\<rparr>"

definition radius_config_with_token_policy ::
  "radius_config \<Rightarrow> string \<Rightarrow> radius_config" where
  "radius_config_with_token_policy self policy =
     self\<lparr>radius_config_token_policies := radius_config_token_policies self @
       [policy]\<rparr>"

definition radius_config_with_token_bound_cidr ::
  "radius_config \<Rightarrow> string \<Rightarrow> radius_config res" where
  "radius_config_with_token_bound_cidr self cidr =
     rbind (validate_cidr cidr ''RADIUS token_bound_cidrs'') (\<lambda>_.
     Inr (self\<lparr>radius_config_token_bound_cidrs := radius_config_token_bound_cidrs self @
       [cidr]\<rparr>))"

definition validate_radius_duration :: "string \<Rightarrow> string \<Rightarrow> unit res" where
  "validate_radius_duration val_v field =
     (if validate_duration_string val_v True then Inr ()
        else Inl (InvalidParameter (field @
          '' must be a duration such as 0s, 30s, 5m, or 1h'')))"

definition radius_config_with_token_ttl ::
  "radius_config \<Rightarrow> string \<Rightarrow> radius_config res" where
  "radius_config_with_token_ttl self ttl =
     rbind (validate_radius_duration ttl ''RADIUS token_ttl'') (\<lambda>_.
     Inr (self\<lparr>radius_config_token_ttl := Some ttl\<rparr>))"

definition radius_config_with_token_ttl_duration ::
  "radius_config \<Rightarrow> std_duration \<Rightarrow> radius_config res" where
  "radius_config_with_token_ttl_duration self ttl =
     rbind (nonzero_duration_to_bao_string ttl ''RADIUS token_ttl'') (\<lambda>v.
     radius_config_with_token_ttl self v)"

definition radius_config_validate :: "radius_config \<Rightarrow> unit res" where
  "radius_config_validate self =
     (if trim (radius_config_host self) = [] then Inl (InvalidParameter
       ''RADIUS host must not be empty'')
        else (if list_ex is_ascii_control (radius_config_host self) then Inl (InvalidParameter
          ''RADIUS host must not contain control characters'')
           else rbind (validate_cidr_list (radius_config_token_bound_cidrs self)
             ''RADIUS token_bound_cidrs'') (\<lambda>_.
           (if radius_config_token_strictly_bind_ip self = Some True \<and> \<not>
             (radius_config_token_bound_cidrs self = []) then Inl (InvalidParameter
             ''RADIUS token_strictly_bind_ip conflicts with token_bound_cidrs'')
              else rbind (case radius_config_token_ttl self of
                 None \<Rightarrow> Inr ()
               | Some ttl \<Rightarrow> validate_radius_duration ttl ''RADIUS token_ttl'')
                 (\<lambda>_.
              rbind (case radius_config_token_max_ttl self of
                 None \<Rightarrow> Inr ()
               | Some ttl \<Rightarrow> validate_radius_duration ttl ''RADIUS token_max_ttl'')
                 (\<lambda>_.
              rbind (case radius_config_token_explicit_max_ttl self of
                 None \<Rightarrow> Inr ()
               | Some ttl \<Rightarrow> validate_radius_duration ttl
                 ''RADIUS token_explicit_max_ttl'') (\<lambda>_.
              (case radius_config_token_period self of
                 None \<Rightarrow> Inr ()
               | Some period \<Rightarrow> validate_radius_duration period
                 ''RADIUS token_period''))))))))"

record radius_user_request =
  radius_user_request_policies :: "string list"

definition radius_user_request_new :: "string \<Rightarrow> radius_user_request" where
  "radius_user_request_new policy = \<lparr>radius_user_request_policies = [policy]\<rparr>"

definition radius_user_request_with_policy ::
  "radius_user_request \<Rightarrow> string \<Rightarrow> radius_user_request" where
  "radius_user_request_with_policy self policy =
     self\<lparr>radius_user_request_policies := radius_user_request_policies self @
       [policy]\<rparr>"

definition validate_radius_policy_name :: "string \<Rightarrow> string \<Rightarrow> unit res" where
  "validate_radius_policy_name policy field = mapping_validate_name policy field"

definition radius_user_request_try_with_policy ::
  "radius_user_request \<Rightarrow> string \<Rightarrow> radius_user_request res" where
  "radius_user_request_try_with_policy self policy =
     rbind (validate_radius_policy_name policy ''RADIUS user policies'') (\<lambda>_.
     Inr (self\<lparr>radius_user_request_policies := radius_user_request_policies self @
       [policy]\<rparr>))"

definition validate_radius_policy_names ::
  "string list \<Rightarrow> string \<Rightarrow> unit res" where
  "validate_radius_policy_names policies field =
     rmap (\<lambda>_. ()) (mapping_encoded_length policies field)"

definition radius_user_request_validate :: "radius_user_request \<Rightarrow> unit res" where
  "radius_user_request_validate self =
     validate_radius_policy_names (radius_user_request_policies self) ''RADIUS user policies''"

section \<open>Operations\<close>

definition client_radius_at :: "string \<Rightarrow> string res" where
  "client_radius_at mount =
     rbind (validate_mount_path mount) (\<lambda>p.
     Inr (join_with ''/'' p))"

definition client_radius :: "string res" where
  "client_radius = client_radius_at ''radius''"

definition validate_radius_username :: "string \<Rightarrow> string res" where
  "validate_radius_username username =
     (if username = [] then Inl (InvalidPath ''RADIUS username must not be empty'')
        else (if username ! 0 = CHR ''-'' \<or> username ! 0 = CHR ''.'' \<or> last username =
          CHR ''.'' then Inl (InvalidPath
          (''RADIUS username must not begin with '-' or '.', or end with '.'' @ [CHR 0x27]))
           else (if \<not> (list_all (\<lambda>byte_v. is_ascii_alphanumeric byte_v \<or>
             (byte_v = CHR ''_'' \<or> byte_v = CHR ''-'' \<or> byte_v = CHR ''.'')) username)
             then Inl (InvalidPath
             (''RADIUS username may only contain ASCII alphanumeric, '_', '-', or '.'' @ [CHR
             0x27]))
              else Inr username)))"

record radius_login_request =
  radius_login_request_password :: string

record radius_login_auth =
  radius_login_auth_client_token :: string
  radius_login_auth_accessor :: string
  radius_login_auth_policies :: "string list"
  radius_login_auth_lease_duration :: "64 word"
  radius_login_auth_renewable :: bool
  radius_login_auth_metadata :: "(string \<times> string) list"

record radius_login_response =
  radius_login_response_auth :: "radius_login_auth option"

definition radius_login_response_call ::
  "http_env \<Rightarrow> client \<Rightarrow>
   (string \<Rightarrow> radius_login_response option) \<Rightarrow>
   (radius_login_request \<Rightarrow> payload) \<Rightarrow> string \<Rightarrow>
   string \<Rightarrow> string \<Rightarrow> radius_login_auth sent" where
  "radius_login_response_call env cl from_json to_json mount username password =
     sbind (pure (validate_radius_username username)) (\<lambda>username.
     let request = \<lparr>radius_login_request_password = password\<rparr> in
     sbind (request_auth_json_internal env cl from_json ''radius'' mount ''POST'' (''auth/'' @
       mount @ ''/login/'' @ username) (Some (to_json request))) (\<lambda>response.
     pure (ok_or (radius_login_response_auth response) (MissingField ''auth''))))"

record radius_login_metadata =
  radius_login_metadata_accessor :: string
  radius_login_metadata_policies :: "string list"
  radius_login_metadata_lease_duration :: "64 word"
  radius_login_metadata_renewable :: bool
  radius_login_metadata_metadata :: "(string \<times> string) list"

definition radius_split_login_auth ::
  "radius_login_auth \<Rightarrow> string \<times> radius_login_metadata" where
  "radius_split_login_auth auth =
     (let metadata = \<lparr>radius_login_metadata_accessor = radius_login_auth_accessor auth,
       radius_login_metadata_policies = radius_login_auth_policies auth,
       radius_login_metadata_lease_duration = radius_login_auth_lease_duration auth,
       radius_login_metadata_renewable = radius_login_auth_renewable auth,
       radius_login_metadata_metadata = radius_login_auth_metadata auth\<rparr> in
     (radius_login_auth_client_token auth, metadata))"

definition client_login_radius ::
  "http_env \<Rightarrow> client \<Rightarrow>
   (string \<Rightarrow> radius_login_response option) \<Rightarrow>
   (radius_login_request \<Rightarrow> payload) \<Rightarrow> string \<Rightarrow>
   string \<Rightarrow> (client \<times> radius_login_metadata) sent" where
  "client_login_radius env cl from_json to_json username password =
     sbind (pure client_radius) (\<lambda>v.
     sbind (radius_login_response_call env cl from_json to_json v username password)
       (\<lambda>response.
     (case radius_split_login_auth response of (token, metadata) \<Rightarrow>
        sbind (pure (try_with_token env cl token)) (\<lambda>v.
        pure (Inr (v, metadata))))))"

definition client_radius_admin_at :: "string \<Rightarrow> string res" where
  "client_radius_admin_at mount =
     rbind (validate_mount_path mount) (\<lambda>p.
     Inr (join_with ''/'' p))"

definition client_radius_admin :: "string res" where
  "client_radius_admin = client_radius_admin_at ''radius''"

definition radius_login ::
  "http_env \<Rightarrow> client \<Rightarrow>
   (string \<Rightarrow> radius_login_response option) \<Rightarrow>
   (radius_login_request \<Rightarrow> payload) \<Rightarrow> string \<Rightarrow>
   string \<Rightarrow> string \<Rightarrow> (client \<times> radius_login_metadata) sent" where
  "radius_login env cl from_json to_json mount username password =
     sbind (radius_login_response_call env cl from_json to_json mount username password)
       (\<lambda>response.
     (case radius_split_login_auth response of (token, metadata) \<Rightarrow>
        sbind (pure (try_with_token env (clone_without_state cl) token)) (\<lambda>v.
        pure (Inr (v, metadata)))))"

record radius_config_payload =
  radius_config_payload_host :: string
  radius_config_payload_secret :: string
  radius_config_payload_port :: "16 word option"
  radius_config_payload_unregistered_user_policies :: "string option"
  radius_config_payload_dial_timeout :: "64 word option"
  radius_config_payload_nas_port :: "64 word option"
  radius_config_payload_token_policies :: "string list"
  radius_config_payload_policies :: "string list"
  radius_config_payload_token_bound_cidrs :: "string list"
  radius_config_payload_token_strictly_bind_ip :: "bool option"
  radius_config_payload_token_ttl :: "string option"
  radius_config_payload_token_max_ttl :: "string option"
  radius_config_payload_token_explicit_max_ttl :: "string option"
  radius_config_payload_token_no_default_policy :: "bool option"
  radius_config_payload_token_num_uses :: "64 word option"
  radius_config_payload_token_period :: "string option"
  radius_config_payload_token_type :: "string option"

definition radius_admin_configure ::
  "http_env \<Rightarrow> client \<Rightarrow>
   (string \<Rightarrow> unit option) \<Rightarrow>
   (radius_config_payload \<Rightarrow> payload) \<Rightarrow> string \<Rightarrow>
   radius_config \<Rightarrow> unit sent" where
  "radius_admin_configure env cl from_json to_json mount config =
     sbind (pure (radius_config_validate config)) (\<lambda>_.
     let payload = \<lparr>radius_config_payload_host = radius_config_host config,
       radius_config_payload_secret = radius_config_secret config,
       radius_config_payload_port = radius_config_port config,
       radius_config_payload_unregistered_user_policies = radius_config_unregistered_user_policies config,
       radius_config_payload_dial_timeout = radius_config_dial_timeout config,
       radius_config_payload_nas_port = radius_config_nas_port config,
       radius_config_payload_token_policies = radius_config_token_policies config,
       radius_config_payload_policies = radius_config_policies config,
       radius_config_payload_token_bound_cidrs = radius_config_token_bound_cidrs config,
       radius_config_payload_token_strictly_bind_ip = radius_config_token_strictly_bind_ip config,
       radius_config_payload_token_ttl = radius_config_token_ttl config,
       radius_config_payload_token_max_ttl = radius_config_token_max_ttl config,
       radius_config_payload_token_explicit_max_ttl = radius_config_token_explicit_max_ttl config,
       radius_config_payload_token_no_default_policy = radius_config_token_no_default_policy config,
       radius_config_payload_token_num_uses = radius_config_token_num_uses config,
       radius_config_payload_token_period = radius_config_token_period config,
       radius_config_payload_token_type = radius_config_token_type config\<rparr> in
     request_auth_json_internal env cl from_json ''radius'' mount ''POST'' (''auth/'' @ mount @
       ''/config'') (Some (to_json payload)))"

record radius_user_payload =
  radius_user_payload_policies :: string

definition radius_admin_write_user ::
  "http_env \<Rightarrow> client \<Rightarrow>
   (string \<Rightarrow> unit option) \<Rightarrow>
   (radius_user_payload \<Rightarrow> payload) \<Rightarrow> string \<Rightarrow>
   (nat \<Rightarrow> bool) \<Rightarrow> string \<Rightarrow>
   radius_user_request \<Rightarrow> unit sent" where
  "radius_admin_write_user env cl from_json to_json mount can_reserve username user =
     sbind (pure (validate_radius_username username)) (\<lambda>username.
     sbind (pure (radius_user_request_validate user)) (\<lambda>_.
     sbind (pure (mapping_encode_values can_reserve (radius_user_request_policies user)
       ''RADIUS user policies'')) (\<lambda>v.
     let payload = \<lparr>radius_user_payload_policies = v\<rparr> in
     request_auth_json_internal env cl from_json ''radius'' mount ''POST'' (''auth/'' @ mount @
       ''/users/'' @ username) (Some (to_json payload)))))"

definition radius_admin_read_user ::
  "http_env \<Rightarrow> client \<Rightarrow>
   (string \<Rightarrow> 'a response_envelope option) \<Rightarrow> string \<Rightarrow>
   string \<Rightarrow> 'a sent" where
  "radius_admin_read_user env cl from_json mount username =
     sbind (pure (validate_radius_username username)) (\<lambda>username.
     smap env_data (request_auth_json_internal env cl from_json ''radius'' mount ''GET''
       (''auth/'' @ mount @ ''/users/'' @ username) None))"

definition radius_admin_delete_user ::
  "http_env \<Rightarrow> client \<Rightarrow>
   (string \<Rightarrow> unit option) \<Rightarrow> string \<Rightarrow> string \<Rightarrow>
   unit sent" where
  "radius_admin_delete_user env cl from_json mount username =
     sbind (pure (validate_radius_username username)) (\<lambda>username.
     request_auth_json_accepting env cl from_json ''radius'' mount ''DELETE'' (''auth/'' @
       mount @ ''/users/'' @ username) None [200, 204])"

definition radius_admin_list_users_page ::
  "http_env \<Rightarrow> client \<Rightarrow>
   (string \<Rightarrow> 'a response_envelope option) \<Rightarrow> string \<Rightarrow>
   string option \<Rightarrow> 64 word option \<Rightarrow> 'a sent" where
  "radius_admin_list_users_page env cl from_json mount after limit =
     sbind (pure (case after of
        None \<Rightarrow> Inr ()
      | Some after \<Rightarrow> rbind (validate_radius_username after) (\<lambda>_.
        Inr ()))) (\<lambda>_.
     sbind (pure (from_after_limit after limit)) (\<lambda>v.
     let query = query_pairs v in
     smap env_data (request_auth_json_query_accepting env cl from_json ''radius'' mount
       ''LIST'' (''auth/'' @ mount @ ''/users'') query None [200])))"

definition radius_admin_list_users ::
  "http_env \<Rightarrow> client \<Rightarrow>
   (string \<Rightarrow> 'a response_envelope option) \<Rightarrow> string \<Rightarrow>
   'a sent" where
  "radius_admin_list_users env cl from_json mount =
     radius_admin_list_users_page env cl from_json mount None None"

section \<open>The routes of the method\<close>

lemma radius_literals [simp]:
  "validate_endpoint_path ''config'' = Inr [''config'']"
  "validate_endpoint_path ''login'' = Inr [''login'']"
  "validate_endpoint_path ''users'' = Inr [''users'']"
  by (rule literal_endpoint; code_simp)+

lemma radius_username [name_dests]:
  "validate_radius_username u = Inr x \<Longrightarrow> x = u \<and> plain_name u"
  by (auto simp: validate_radius_username_def intro!: plain_username split: if_splits)

lemma radius_routes:
  assumes "list_all safe_segment mount" "mount \<noteq> []"
  shows "at_route env cl ''POST'' (''auth'' # mount) [''login'', username]
      (radius_login env cl fj tj (join_with ''/'' mount) username password)"
  unfolding radius_login_def radius_login_response_call_def
  by (use assms in \<open>auto simp: Let_def rbind_Inr_iff safe_auth join_with_Cons join_with_append
      intro!: at_intros at_requests text_at_name silent_intros intro: text_atI at_after
      dest!: name_dests split: option.splits\<close>)

lemma radius_admin_routes:
  assumes "list_all safe_segment mount" "mount \<noteq> []"
  shows "at_route env cl ''POST'' (''auth'' # mount) [''config'']
      (radius_admin_configure env cl fj tj (join_with ''/'' mount) config)"
    and "at_route env cl ''POST'' (''auth'' # mount) [''users'', username]
      (radius_admin_write_user env cl fj tj2 (join_with ''/'' mount) can_reserve username
        user)"
    and "at_route env cl ''GET'' (''auth'' # mount) [''users'', username]
      (radius_admin_read_user env cl fj2 (join_with ''/'' mount) username)"
    and "at_route env cl ''DELETE'' (''auth'' # mount) [''users'', username]
      (radius_admin_delete_user env cl fj (join_with ''/'' mount) username)"
    and "at_route env cl ''LIST'' (''auth'' # mount) [''users'']
      (radius_admin_list_users_page env cl fj2 (join_with ''/'' mount) after limit)"
    and "at_route env cl ''LIST'' (''auth'' # mount) [''users'']
      (radius_admin_list_users env cl fj2 (join_with ''/'' mount))"
  unfolding radius_admin_configure_def radius_admin_write_user_def radius_admin_read_user_def
      radius_admin_delete_user_def radius_admin_list_users_page_def radius_admin_list_users_def
  by (use assms in \<open>auto simp: Let_def rbind_Inr_iff safe_auth join_with_Cons join_with_append
      intro!: at_intros at_requests text_at_name silent_intros intro: text_atI at_after
      dest!: name_dests split: option.splits\<close>)

end
