(* ===== verification/Bao_Token.thy ===== *)
theory Bao_Token
  imports Bao_Auth
begin

text \<open>
  The token method, \<open>auth/token.rs\<close>: creation, lookup, renewal, revocation and token roles.
  A handle is its mount path; \<open>from_json\<close> and \<open>to_json\<close> are the deserialiser of a response and the
  serialiser of a payload.
\<close>

section \<open>Data and requests\<close>

record token_create_request =
  token_create_request_id :: "string option"
  token_create_request_entity_alias :: "string option"
  token_create_request_role_name :: "string option"
  token_create_request_policies :: "string list"
  token_create_request_meta :: "(string \<times> string) list"
  token_create_request_display_name :: "string option"
  token_create_request_ttl :: "string option"
  token_create_request_lease :: "string option"
  token_create_request_explicit_max_ttl :: "string option"
  token_create_request_period :: "string option"
  token_create_request_num_uses :: "64 word option"
  token_create_request_renewable :: "bool option"
  token_create_request_no_parent :: "bool option"
  token_create_request_no_default_policy :: "bool option"
  token_create_request_token_type :: "string option"

definition token_create_request_with_policies ::
  "token_create_request \<Rightarrow> string list \<Rightarrow> token_create_request" where
  "token_create_request_with_policies self policies =
     self\<lparr>token_create_request_policies := policies\<rparr>"

definition token_create_request_without_default_policy ::
  "token_create_request \<Rightarrow> token_create_request" where
  "token_create_request_without_default_policy self =
     self\<lparr>token_create_request_no_default_policy := Some True\<rparr>"

definition token_create_request_with_ttl ::
  "token_create_request \<Rightarrow> string \<Rightarrow> token_create_request res" where
  "token_create_request_with_ttl self ttl =
     rbind (validate_duration_parameter ttl ''token ttl'') (\<lambda>_.
     Inr (self\<lparr>token_create_request_ttl := Some ttl\<rparr>))"

definition token_create_request_with_ttl_duration ::
  "token_create_request \<Rightarrow> std_duration \<Rightarrow> token_create_request res" where
  "token_create_request_with_ttl_duration self ttl =
     rbind (nonzero_duration_to_bao_string ttl ''token ttl'') (\<lambda>v.
     token_create_request_with_ttl self v)"

definition token_create_request_with_explicit_max_ttl ::
  "token_create_request \<Rightarrow> string \<Rightarrow> token_create_request res" where
  "token_create_request_with_explicit_max_ttl self explicit_max_ttl =
     rbind (validate_duration_parameter explicit_max_ttl ''token explicit_max_ttl'')
       (\<lambda>_.
     Inr (self\<lparr>token_create_request_explicit_max_ttl := Some explicit_max_ttl\<rparr>))"

definition token_create_request_with_explicit_max_ttl_duration ::
  "token_create_request \<Rightarrow> std_duration \<Rightarrow> token_create_request res" where
  "token_create_request_with_explicit_max_ttl_duration self explicit_max_ttl =
     rbind (nonzero_duration_to_bao_string explicit_max_ttl ''token explicit_max_ttl'')
       (\<lambda>v.
     token_create_request_with_explicit_max_ttl self v)"

definition token_create_request_with_period ::
  "token_create_request \<Rightarrow> string \<Rightarrow> token_create_request res" where
  "token_create_request_with_period self period =
     rbind (validate_duration_parameter period ''token period'') (\<lambda>_.
     Inr (self\<lparr>token_create_request_period := Some period\<rparr>))"

definition token_create_request_with_period_duration ::
  "token_create_request \<Rightarrow> std_duration \<Rightarrow> token_create_request res" where
  "token_create_request_with_period_duration self period =
     rbind (nonzero_duration_to_bao_string period ''token period'') (\<lambda>v.
     token_create_request_with_period self v)"

definition token_create_request_validate :: "token_create_request \<Rightarrow> unit res" where
  "token_create_request_validate self =
     rbind (case token_create_request_ttl self of
        None \<Rightarrow> Inr ()
      | Some ttl \<Rightarrow> validate_duration_parameter ttl ''token ttl'') (\<lambda>_.
     rbind (case token_create_request_lease self of
        None \<Rightarrow> Inr ()
      | Some lease \<Rightarrow> validate_duration_parameter lease ''token lease'')
        (\<lambda>_.
     (if is_some_and (\<lambda>id_v. id_v = []) (token_create_request_id self) then Inl
       (InvalidParameter ''explicit token ID must not be empty'')
        else rbind (case token_create_request_explicit_max_ttl self of
           None \<Rightarrow> Inr ()
         | Some explicit_max_ttl \<Rightarrow> validate_duration_parameter explicit_max_ttl
           ''token explicit_max_ttl'') (\<lambda>_.
        (case token_create_request_period self of
           None \<Rightarrow> Inr ()
         | Some period \<Rightarrow> validate_duration_parameter period ''token period'')))))"

record token_role =
  token_role_allowed_policies :: "string list"
  token_role_allowed_policies_glob :: "string list"
  token_role_disallowed_policies :: "string list"
  token_role_disallowed_policies_glob :: "string list"
  token_role_token_policies :: "string list"
  token_role_orphan :: "bool option"
  token_role_renewable :: "bool option"
  token_role_path_suffix :: "string option"
  token_role_allowed_entity_aliases :: "string list"
  token_role_token_type :: "string option"
  token_role_token_ttl :: "string option"
  token_role_token_max_ttl :: "string option"
  token_role_token_explicit_max_ttl :: "string option"
  token_role_token_period :: "string option"
  token_role_token_num_uses :: "64 word option"
  token_role_token_no_default_policy :: "bool option"
  token_role_token_strictly_bind_ip :: "bool option"
  token_role_token_bound_cidrs :: "string list"

definition token_role_with_allowed_policies ::
  "token_role \<Rightarrow> string list \<Rightarrow> token_role" where
  "token_role_with_allowed_policies self policies =
     self\<lparr>token_role_allowed_policies := policies\<rparr>"

definition token_role_with_token_ttl ::
  "token_role \<Rightarrow> string \<Rightarrow> token_role res" where
  "token_role_with_token_ttl self token_ttl =
     rbind (validate_duration_parameter token_ttl ''token role token_ttl'') (\<lambda>_.
     Inr (self\<lparr>token_role_token_ttl := Some token_ttl\<rparr>))"

definition token_role_validate :: "token_role \<Rightarrow> unit res" where
  "token_role_validate self =
     rbind (case token_role_token_ttl self of
        None \<Rightarrow> Inr ()
      | Some token_ttl \<Rightarrow> validate_duration_parameter token_ttl
        ''token role token_ttl'') (\<lambda>_.
     rbind (case token_role_token_max_ttl self of
        None \<Rightarrow> Inr ()
      | Some token_max_ttl \<Rightarrow> validate_duration_parameter token_max_ttl
        ''token role token_max_ttl'') (\<lambda>_.
     rbind (case token_role_token_explicit_max_ttl self of
        None \<Rightarrow> Inr ()
      | Some token_explicit_max_ttl \<Rightarrow> validate_duration_parameter
        token_explicit_max_ttl ''token role token_explicit_max_ttl'') (\<lambda>_.
     rbind (case token_role_token_period self of
        None \<Rightarrow> Inr ()
      | Some token_period \<Rightarrow> validate_duration_parameter token_period
        ''token role token_period'') (\<lambda>_.
     validate_cidr_list (token_role_token_bound_cidrs self) ''token role bound CIDR''))))"

section \<open>Operations\<close>

definition client_token :: unit where
  "client_token = ()"

record token_auth =
  token_auth_client_token :: string
  token_auth_accessor :: string
  token_auth_policies :: "string list"
  token_auth_token_policies :: "string list"
  token_auth_metadata :: "(string \<times> string) list"
  token_auth_lease_duration :: "64 word"
  token_auth_renewable :: bool
  token_auth_entity_id :: "string option"
  token_auth_token_type :: "string option"
  token_auth_orphan :: bool

record token_auth_envelope =
  token_auth_envelope_auth :: "token_auth option"

definition token_create_at ::
  "http_env \<Rightarrow> client \<Rightarrow>
   (string \<Rightarrow> token_auth_envelope option) \<Rightarrow>
   (token_create_request \<Rightarrow> payload) \<Rightarrow> string option \<Rightarrow>
   token_create_request \<Rightarrow> token_auth sent" where
  "token_create_at env cl from_json to_json role_name request =
     sbind (pure (token_create_request_validate request)) (\<lambda>_.
     sbind (pure (case role_name of
        Some role_name \<Rightarrow> rbind (validate_mount_path role_name) (\<lambda>p.
        let role_name = join_with ''/'' p in
        Inr (''auth/token/create/'' @ role_name))
      | None \<Rightarrow> Inr ''auth/token/create'')) (\<lambda>path.
     sbind (request_auth_json_internal env cl from_json ''token'' ''token'' ''POST'' path (Some
       (to_json request))) (\<lambda>envelope.
     pure (ok_or (token_auth_envelope_auth envelope) (MissingField ''auth'')))))"

definition token_create ::
  "http_env \<Rightarrow> client \<Rightarrow>
   (string \<Rightarrow> token_auth_envelope option) \<Rightarrow>
   (token_create_request \<Rightarrow> payload) \<Rightarrow>
   token_create_request \<Rightarrow> token_auth sent" where
  "token_create env cl from_json to_json request =
     token_create_at env cl from_json to_json None request"

definition token_create_orphan ::
  "http_env \<Rightarrow> client \<Rightarrow>
   (string \<Rightarrow> token_auth_envelope option) \<Rightarrow>
   (token_create_request \<Rightarrow> payload) \<Rightarrow>
   token_create_request \<Rightarrow> token_auth sent" where
  "token_create_orphan env cl from_json to_json request =
     sbind (pure (token_create_request_validate request)) (\<lambda>_.
     sbind (request_auth_json_internal env cl from_json ''token'' ''token'' ''POST''
       ''auth/token/create-orphan'' (Some (to_json request))) (\<lambda>envelope.
     pure (ok_or (token_auth_envelope_auth envelope) (MissingField ''auth''))))"

definition token_lookup_self ::
  "http_env \<Rightarrow> client \<Rightarrow>
   (string \<Rightarrow> 'a response_envelope option) \<Rightarrow> 'a sent" where
  "token_lookup_self env cl from_json =
     smap env_data (request_auth_json_internal env cl from_json ''token'' ''token'' ''GET''
       ''auth/token/lookup-self'' None)"

record token_payload =
  token_payload_token :: string

definition token_lookup ::
  "http_env \<Rightarrow> client \<Rightarrow>
   (string \<Rightarrow> 'a response_envelope option) \<Rightarrow>
   (token_payload \<Rightarrow> payload) \<Rightarrow> string \<Rightarrow> 'a sent" where
  "token_lookup env cl from_json to_json token =
     (let payload = \<lparr>token_payload_token = token\<rparr> in
     smap env_data (request_auth_json_internal env cl from_json ''token'' ''token'' ''POST''
       ''auth/token/lookup'' (Some (to_json payload))))"

record accessor_payload =
  accessor_payload_accessor :: string

definition token_lookup_accessor ::
  "http_env \<Rightarrow> client \<Rightarrow>
   (string \<Rightarrow> 'a response_envelope option) \<Rightarrow>
   (accessor_payload \<Rightarrow> payload) \<Rightarrow> string \<Rightarrow> 'a sent" where
  "token_lookup_accessor env cl from_json to_json accessor =
     (let payload = \<lparr>accessor_payload_accessor = accessor\<rparr> in
     smap env_data (request_auth_json_internal env cl from_json ''token'' ''token'' ''POST''
       ''auth/token/lookup-accessor'' (Some (to_json payload))))"

definition token_list_accessors ::
  "http_env \<Rightarrow> client \<Rightarrow>
   (string \<Rightarrow> 'a response_envelope option) \<Rightarrow> 'a sent" where
  "token_list_accessors env cl from_json =
     smap env_data (request_auth_json_internal env cl from_json ''token'' ''token'' ''LIST''
       ''auth/token/accessors'' None)"

definition token_validate_renew_increment :: "string option \<Rightarrow> unit res" where
  "token_validate_renew_increment increment =
     (case increment of
        None \<Rightarrow> Inr ()
      | Some increment \<Rightarrow> validate_duration_parameter increment
        ''token renewal increment'')"

record renew_payload =
  renew_payload_token :: "string option"
  renew_payload_increment :: "string option"

definition token_renew_self ::
  "http_env \<Rightarrow> client \<Rightarrow>
   (string \<Rightarrow> token_auth_envelope option) \<Rightarrow>
   (renew_payload \<Rightarrow> payload) \<Rightarrow> string option \<Rightarrow>
   token_auth sent" where
  "token_renew_self env cl from_json to_json increment =
     sbind (pure (token_validate_renew_increment increment)) (\<lambda>_.
     let payload = \<lparr>renew_payload_token = None,
       renew_payload_increment = increment\<rparr> in
     sbind (request_auth_json_internal env cl from_json ''token'' ''token'' ''POST''
       ''auth/token/renew-self'' (Some (to_json payload))) (\<lambda>envelope.
     pure (ok_or (token_auth_envelope_auth envelope) (MissingField ''auth''))))"

definition token_renew ::
  "http_env \<Rightarrow> client \<Rightarrow>
   (string \<Rightarrow> token_auth_envelope option) \<Rightarrow>
   (renew_payload \<Rightarrow> payload) \<Rightarrow> string \<Rightarrow>
   string option \<Rightarrow> token_auth sent" where
  "token_renew env cl from_json to_json token increment =
     sbind (pure (token_validate_renew_increment increment)) (\<lambda>_.
     let payload = \<lparr>renew_payload_token = Some token,
       renew_payload_increment = increment\<rparr> in
     sbind (request_auth_json_internal env cl from_json ''token'' ''token'' ''POST''
       ''auth/token/renew'' (Some (to_json payload))) (\<lambda>envelope.
     pure (ok_or (token_auth_envelope_auth envelope) (MissingField ''auth''))))"

record renew_accessor_payload =
  renew_accessor_payload_accessor :: string
  renew_accessor_payload_increment :: "string option"

definition token_renew_accessor ::
  "http_env \<Rightarrow> client \<Rightarrow>
   (string \<Rightarrow> token_auth_envelope option) \<Rightarrow>
   (renew_accessor_payload \<Rightarrow> payload) \<Rightarrow> string \<Rightarrow>
   string option \<Rightarrow> token_auth sent" where
  "token_renew_accessor env cl from_json to_json accessor increment =
     sbind (pure (token_validate_renew_increment increment)) (\<lambda>_.
     let payload = \<lparr>renew_accessor_payload_accessor = accessor,
       renew_accessor_payload_increment = increment\<rparr> in
     sbind (request_auth_json_internal env cl from_json ''token'' ''token'' ''POST''
       ''auth/token/renew-accessor'' (Some (to_json payload))) (\<lambda>envelope.
     pure (ok_or (token_auth_envelope_auth envelope) (MissingField ''auth''))))"

definition token_revoke ::
  "http_env \<Rightarrow> client \<Rightarrow>
   (string \<Rightarrow> unit option) \<Rightarrow>
   (token_payload \<Rightarrow> payload) \<Rightarrow> string \<Rightarrow> unit sent" where
  "token_revoke env cl from_json to_json token =
     (let payload = \<lparr>token_payload_token = token\<rparr> in
     request_auth_json_internal env cl from_json ''token'' ''token'' ''POST''
       ''auth/token/revoke'' (Some (to_json payload)))"

definition token_revoke_orphan ::
  "http_env \<Rightarrow> client \<Rightarrow>
   (string \<Rightarrow> unit option) \<Rightarrow>
   (token_payload \<Rightarrow> payload) \<Rightarrow> string \<Rightarrow> unit sent" where
  "token_revoke_orphan env cl from_json to_json token =
     (let payload = \<lparr>token_payload_token = token\<rparr> in
     request_auth_json_internal env cl from_json ''token'' ''token'' ''POST''
       ''auth/token/revoke-orphan'' (Some (to_json payload)))"

definition token_revoke_self ::
  "http_env \<Rightarrow> client \<Rightarrow>
   (string \<Rightarrow> unit option) \<Rightarrow> unit sent" where
  "token_revoke_self env cl from_json =
     request_auth_json_internal env cl from_json ''token'' ''token'' ''POST''
       ''auth/token/revoke-self'' None"

definition token_revoke_accessor ::
  "http_env \<Rightarrow> client \<Rightarrow>
   (string \<Rightarrow> unit option) \<Rightarrow>
   (accessor_payload \<Rightarrow> payload) \<Rightarrow> string \<Rightarrow> unit sent" where
  "token_revoke_accessor env cl from_json to_json accessor =
     (let payload = \<lparr>accessor_payload_accessor = accessor\<rparr> in
     request_auth_json_internal env cl from_json ''token'' ''token'' ''POST''
       ''auth/token/revoke-accessor'' (Some (to_json payload)))"

definition token_write_role ::
  "http_env \<Rightarrow> client \<Rightarrow>
   (string \<Rightarrow> unit option) \<Rightarrow>
   (token_role \<Rightarrow> payload) \<Rightarrow> string \<Rightarrow>
   token_role \<Rightarrow> unit sent" where
  "token_write_role env cl from_json to_json role_name role =
     sbind (pure (token_role_validate role)) (\<lambda>_.
     sbind (pure (validate_mount_path role_name)) (\<lambda>p.
     let role_name = join_with ''/'' p in
     request_auth_json_internal env cl from_json ''token'' ''token'' ''POST''
       (''auth/token/roles/'' @ role_name) (Some (to_json role))))"

definition token_read_role ::
  "http_env \<Rightarrow> client \<Rightarrow>
   (string \<Rightarrow> 'a response_envelope option) \<Rightarrow> string \<Rightarrow>
   'a sent" where
  "token_read_role env cl from_json role_name =
     sbind (pure (validate_mount_path role_name)) (\<lambda>p.
     let role_name = join_with ''/'' p in
     smap env_data (request_auth_json_internal env cl from_json ''token'' ''token'' ''GET''
       (''auth/token/roles/'' @ role_name) None))"

definition token_list_roles ::
  "http_env \<Rightarrow> client \<Rightarrow>
   (string \<Rightarrow> 'a response_envelope option) \<Rightarrow> 'a sent" where
  "token_list_roles env cl from_json =
     smap env_data (request_auth_json_internal env cl from_json ''token'' ''token'' ''LIST''
       ''auth/token/roles'' None)"

definition token_delete_role ::
  "http_env \<Rightarrow> client \<Rightarrow>
   (string \<Rightarrow> unit option) \<Rightarrow> string \<Rightarrow> unit sent" where
  "token_delete_role env cl from_json role_name =
     sbind (pure (validate_mount_path role_name)) (\<lambda>p.
     let role_name = join_with ''/'' p in
     request_auth_json_accepting env cl from_json ''token'' ''token'' ''DELETE''
       (''auth/token/roles/'' @ role_name) None [200, 204])"

definition token_tidy ::
  "http_env \<Rightarrow> client \<Rightarrow>
   (string \<Rightarrow> unit option) \<Rightarrow> unit sent" where
  "token_tidy env cl from_json =
     request_auth_json_internal env cl from_json ''token'' ''token'' ''POST''
       ''auth/token/tidy'' None"

section \<open>The routes of the method\<close>

lemma token_literals [simp]:
  "validate_endpoint_path ''accessors'' = Inr [''accessors'']"
  "validate_endpoint_path ''create'' = Inr [''create'']"
  "validate_endpoint_path ''create-orphan'' = Inr [''create-orphan'']"
  "validate_endpoint_path ''lookup'' = Inr [''lookup'']"
  "validate_endpoint_path ''lookup-accessor'' = Inr [''lookup-accessor'']"
  "validate_endpoint_path ''lookup-self'' = Inr [''lookup-self'']"
  "validate_endpoint_path ''renew'' = Inr [''renew'']"
  "validate_endpoint_path ''renew-accessor'' = Inr [''renew-accessor'']"
  "validate_endpoint_path ''renew-self'' = Inr [''renew-self'']"
  "validate_endpoint_path ''revoke'' = Inr [''revoke'']"
  "validate_endpoint_path ''revoke-accessor'' = Inr [''revoke-accessor'']"
  "validate_endpoint_path ''revoke-orphan'' = Inr [''revoke-orphan'']"
  "validate_endpoint_path ''revoke-self'' = Inr [''revoke-self'']"
  "validate_endpoint_path ''roles'' = Inr [''roles'']"
  "validate_endpoint_path ''tidy'' = Inr [''tidy'']"
  "validate_endpoint_path ''token'' = Inr [''token'']"
  by (rule literal_endpoint; code_simp)+

lemma safe_token [simp]: "safe_segment ''token''"
  by code_simp

lemma token_routes_1:
  "at_route env cl ''POST'' [''auth''] ([''token'', ''create''] @ optional_part role_name)
      (token_create_at env cl fj tj role_name request)"
  "at_route env cl ''POST'' [''auth''] [''token'', ''create'']
      (token_create env cl fj tj request)"
  "at_route env cl ''POST'' [''auth''] [''token'', ''create-orphan'']
      (token_create_orphan env cl fj tj request)"
  "at_route env cl ''GET'' [''auth''] [''token'', ''lookup-self'']
      (token_lookup_self env cl fj2)"
  "at_route env cl ''POST'' [''auth''] [''token'', ''lookup'']
      (token_lookup env cl fj2 tj2 token)"
  "at_route env cl ''POST'' [''auth''] [''token'', ''lookup-accessor'']
      (token_lookup_accessor env cl fj2 tj3 accessor)"
  "at_route env cl ''LIST'' [''auth''] [''token'', ''accessors'']
      (token_list_accessors env cl fj2)"
  "at_route env cl ''POST'' [''auth''] [''token'', ''renew-self'']
      (token_renew_self env cl fj tj4 increment)"
  "at_route env cl ''POST'' [''auth''] [''token'', ''renew'']
      (token_renew env cl fj tj4 token increment)"
  "at_route env cl ''POST'' [''auth''] [''token'', ''renew-accessor'']
      (token_renew_accessor env cl fj tj5 accessor increment)"
  "at_route env cl ''POST'' [''auth''] [''token'', ''revoke'']
      (token_revoke env cl fj3 tj2 token)"
  "at_route env cl ''POST'' [''auth''] [''token'', ''revoke-orphan'']
      (token_revoke_orphan env cl fj3 tj2 token)"
  "at_route env cl ''POST'' [''auth''] [''token'', ''revoke-self'']
      (token_revoke_self env cl fj3)"
  "at_route env cl ''POST'' [''auth''] [''token'', ''revoke-accessor'']
      (token_revoke_accessor env cl fj3 tj3 accessor)"
  unfolding token_create_at_def token_create_def token_create_orphan_def token_lookup_self_def
      token_lookup_def token_lookup_accessor_def token_list_accessors_def token_renew_self_def
      token_renew_def token_renew_accessor_def token_revoke_def token_revoke_orphan_def
      token_revoke_self_def token_revoke_accessor_def
  by (auto simp: Let_def rbind_Inr_iff safe_auth join_with_Cons join_with_append
      intro!: at_intros at_requests text_atI silent_intros intro: at_after
      dest!: name_dests split: option.splits)

lemma token_routes_2:
  "at_route env cl ''POST'' [''auth''] [''token'', ''roles'', role_name]
      (token_write_role env cl fj tj role_name role)"
  "at_route env cl ''GET'' [''auth''] [''token'', ''roles'', role_name]
      (token_read_role env cl fj2 role_name)"
  "at_route env cl ''LIST'' [''auth''] [''token'', ''roles''] (token_list_roles env cl fj2)"
  "at_route env cl ''DELETE'' [''auth''] [''token'', ''roles'', role_name]
      (token_delete_role env cl fj role_name)"
  "at_route env cl ''POST'' [''auth''] [''token'', ''tidy''] (token_tidy env cl fj)"
  unfolding token_write_role_def token_read_role_def token_list_roles_def token_delete_role_def
      token_tidy_def
  by (auto simp: Let_def rbind_Inr_iff safe_auth join_with_Cons join_with_append
      intro!: at_intros at_requests text_atI silent_intros intro: at_after
      dest!: name_dests split: option.splits)

end
