(* ===== verification/Bao_Userpass.thy ===== *)
theory Bao_Userpass
  imports Bao_Auth
begin

text \<open>
  The user name and password method, \<open>auth/userpass.rs\<close>.
  A handle is its mount path; \<open>from_json\<close> and \<open>to_json\<close> are the deserialiser of a response and the
  serialiser of a payload.
\<close>

section \<open>Data and requests\<close>

definition userpass_validate_bcrypt_hash :: "string \<Rightarrow> unit res" where
  "userpass_validate_bcrypt_hash hash_v =
     (let valid_prefix = ((((length hash_v = 60 \<and> hash_v ! 0 = CHR ''$'' \<and> hash_v ! 1
       = CHR ''2'' \<and> ((hash_v ! 2) = CHR ''a'' \<or> (hash_v ! 2) = CHR ''b'' \<or>
       (hash_v ! 2) = CHR ''y'')) \<and> hash_v ! 3 = CHR ''$'') \<and> is_ascii_digit (hash_v
       ! 4)) \<and> is_ascii_digit (hash_v ! 5)) \<and> hash_v ! 6 = CHR ''$'' in
     (if \<not> valid_prefix \<or> (\<not> (list_all (\<lambda>byte_v. is_ascii_alphanumeric
       byte_v \<or> (byte_v = CHR ''.'' \<or> byte_v = CHR ''/'')) (drop 7 hash_v))) then Inl
       (InvalidParameter ''userpass password_hash must be a valid bcrypt hash'')
        else let cost = ((byte (hash_v ! 4) - byte (CHR ''0'')) * 10) + (byte (hash_v ! 5) -
          byte (CHR ''0'')) in
        (if \<not> (5 \<le> cost \<and> cost \<le> 12) then Inl (InvalidParameter
          ''userpass bcrypt cost must be between 5 and 12'')
           else Inr ())))"

definition userpass_password_hash_bcrypt :: "string \<Rightarrow> string res" where
  "userpass_password_hash_bcrypt hash_v =
     rbind (userpass_validate_bcrypt_hash hash_v) (\<lambda>_.
     Inr hash_v)"

definition userpass_password_hash_expose_secret :: "string \<Rightarrow> string" where
  "userpass_password_hash_expose_secret self = self"

record userpass_user_settings =
  userpass_user_settings_token_policies :: "string list"
  userpass_user_settings_policies :: "string list"
  userpass_user_settings_token_ttl :: "string option"
  userpass_user_settings_token_max_ttl :: "string option"
  userpass_user_settings_token_period :: "string option"
  userpass_user_settings_token_explicit_max_ttl :: "string option"
  userpass_user_settings_token_type :: "string option"
  userpass_user_settings_token_bound_cidrs :: "string list"
  userpass_user_settings_token_num_uses :: "64 word option"
  userpass_user_settings_token_no_default_policy :: "bool option"

definition userpass_user_settings_with_policy ::
  "userpass_user_settings \<Rightarrow> string \<Rightarrow> userpass_user_settings" where
  "userpass_user_settings_with_policy self policy =
     self\<lparr>userpass_user_settings_token_policies := userpass_user_settings_token_policies
       self @ [policy]\<rparr>"

definition userpass_user_settings_with_token_bound_cidr ::
  "userpass_user_settings \<Rightarrow> string \<Rightarrow> userpass_user_settings res" where
  "userpass_user_settings_with_token_bound_cidr self cidr =
     rbind (validate_cidr cidr ''userpass token_bound_cidrs'') (\<lambda>_.
     Inr
       (self\<lparr>userpass_user_settings_token_bound_cidrs := userpass_user_settings_token_bound_cidrs
       self @ [cidr]\<rparr>))"

definition userpass_user_settings_validate :: "userpass_user_settings \<Rightarrow> unit res" where
  "userpass_user_settings_validate self =
     validate_cidr_list (userpass_user_settings_token_bound_cidrs self)
       ''userpass token_bound_cidrs''"

record userpass_hashed_user_request =
  userpass_hashed_user_request_password_hash :: string
  userpass_hashed_user_request_settings :: userpass_user_settings

definition userpass_user_settings_default :: userpass_user_settings where
  "userpass_user_settings_default =
     \<lparr>userpass_user_settings_token_policies = [], userpass_user_settings_policies = [],
       userpass_user_settings_token_ttl = None, userpass_user_settings_token_max_ttl = None,
       userpass_user_settings_token_period = None,
       userpass_user_settings_token_explicit_max_ttl = None, userpass_user_settings_token_type
       = None, userpass_user_settings_token_bound_cidrs = [],
       userpass_user_settings_token_num_uses = None,
       userpass_user_settings_token_no_default_policy = None\<rparr>"

definition userpass_hashed_user_request_new ::
  "string \<Rightarrow> userpass_hashed_user_request" where
  "userpass_hashed_user_request_new password_hash =
     \<lparr>userpass_hashed_user_request_password_hash = password_hash,
       userpass_hashed_user_request_settings = userpass_user_settings_default\<rparr>"

record userpass_user_request =
  userpass_user_request_password :: string
  userpass_user_request_token_policies :: "string list"
  userpass_user_request_policies :: "string list"
  userpass_user_request_token_ttl :: "string option"
  userpass_user_request_token_max_ttl :: "string option"
  userpass_user_request_token_period :: "string option"
  userpass_user_request_token_explicit_max_ttl :: "string option"
  userpass_user_request_token_type :: "string option"
  userpass_user_request_token_bound_cidrs :: "string list"
  userpass_user_request_token_num_uses :: "64 word option"
  userpass_user_request_token_no_default_policy :: "bool option"

definition userpass_user_request_default :: userpass_user_request where
  "userpass_user_request_default =
     \<lparr>userpass_user_request_password = [], userpass_user_request_token_policies = [],
       userpass_user_request_policies = [], userpass_user_request_token_ttl = None,
       userpass_user_request_token_max_ttl = None, userpass_user_request_token_period = None,
       userpass_user_request_token_explicit_max_ttl = None, userpass_user_request_token_type =
       None, userpass_user_request_token_bound_cidrs = [], userpass_user_request_token_num_uses
       = None, userpass_user_request_token_no_default_policy = None\<rparr>"

definition userpass_user_request_new :: "string \<Rightarrow> userpass_user_request" where
  "userpass_user_request_new password =
     userpass_user_request_default\<lparr>userpass_user_request_password := password\<rparr>"

definition userpass_user_request_with_policy ::
  "userpass_user_request \<Rightarrow> string \<Rightarrow> userpass_user_request" where
  "userpass_user_request_with_policy self policy =
     self\<lparr>userpass_user_request_token_policies := userpass_user_request_token_policies
       self @ [policy]\<rparr>"

definition userpass_user_request_with_token_bound_cidr ::
  "userpass_user_request \<Rightarrow> string \<Rightarrow> userpass_user_request res" where
  "userpass_user_request_with_token_bound_cidr self cidr =
     rbind (validate_cidr cidr ''userpass token_bound_cidrs'') (\<lambda>_.
     Inr
       (self\<lparr>userpass_user_request_token_bound_cidrs := userpass_user_request_token_bound_cidrs
       self @ [cidr]\<rparr>))"

definition userpass_user_request_validate :: "userpass_user_request \<Rightarrow> unit res" where
  "userpass_user_request_validate self =
     (if userpass_user_request_password self = [] then Inl (InvalidParameter
       ''userpass password must not be empty'')
        else validate_cidr_list (userpass_user_request_token_bound_cidrs self)
          ''userpass token_bound_cidrs'')"

section \<open>Operations\<close>

definition client_userpass_at :: "string \<Rightarrow> string res" where
  "client_userpass_at mount =
     rbind (validate_mount_path mount) (\<lambda>p.
     Inr (join_with ''/'' p))"

definition client_userpass :: "string res" where
  "client_userpass = client_userpass_at ''userpass''"

definition userpass_validate_username :: "string \<Rightarrow> string res" where
  "userpass_validate_username username =
     (if username = [] then Inl (InvalidPath ''userpass username must not be empty'')
        else (if username ! 0 = CHR ''-'' \<or> username ! 0 = CHR ''.'' \<or> last username =
          CHR ''.'' then Inl (InvalidPath
          (''userpass username must not begin with '-' or '.', or end with '.'' @ [CHR 0x27]))
           else (if \<not> (list_all (\<lambda>byte_v. is_ascii_alphanumeric byte_v \<or>
             (byte_v = CHR ''_'' \<or> byte_v = CHR ''-'' \<or> byte_v = CHR ''.'')) username)
             then Inl (InvalidPath
             (''userpass username may only contain ASCII alphanumeric, '_', '-', or '.'' @ [CHR
             0x27]))
              else Inr username)))"

record userpass_login_request =
  userpass_login_request_password :: string

record userpass_login_auth =
  userpass_login_auth_client_token :: string
  userpass_login_auth_accessor :: string
  userpass_login_auth_policies :: "string list"
  userpass_login_auth_lease_duration :: "64 word"
  userpass_login_auth_renewable :: bool
  userpass_login_auth_metadata :: "(string \<times> string) list"

record userpass_login_response =
  userpass_login_response_auth :: "userpass_login_auth option"

definition userpass_login_response_call ::
  "http_env \<Rightarrow> client \<Rightarrow>
   (string \<Rightarrow> userpass_login_response option) \<Rightarrow>
   (userpass_login_request \<Rightarrow> payload) \<Rightarrow> string \<Rightarrow>
   string \<Rightarrow> string \<Rightarrow> userpass_login_auth sent" where
  "userpass_login_response_call env cl from_json to_json mount username password =
     sbind (pure (userpass_validate_username username)) (\<lambda>username.
     let request = \<lparr>userpass_login_request_password = password\<rparr> in
     sbind (request_auth_json_internal env cl from_json ''userpass'' mount ''POST'' (''auth/''
       @ mount @ ''/login/'' @ username) (Some (to_json request))) (\<lambda>response.
     pure (ok_or (userpass_login_response_auth response) (MissingField ''auth''))))"

record userpass_login_metadata =
  userpass_login_metadata_accessor :: string
  userpass_login_metadata_policies :: "string list"
  userpass_login_metadata_lease_duration :: "64 word"
  userpass_login_metadata_renewable :: bool
  userpass_login_metadata_metadata :: "(string \<times> string) list"

definition userpass_split_login_auth ::
  "userpass_login_auth \<Rightarrow> string \<times> userpass_login_metadata" where
  "userpass_split_login_auth auth =
     (let metadata =
       \<lparr>userpass_login_metadata_accessor = userpass_login_auth_accessor auth,
       userpass_login_metadata_policies = userpass_login_auth_policies auth,
       userpass_login_metadata_lease_duration = userpass_login_auth_lease_duration auth,
       userpass_login_metadata_renewable = userpass_login_auth_renewable auth,
       userpass_login_metadata_metadata = userpass_login_auth_metadata auth\<rparr> in
     (userpass_login_auth_client_token auth, metadata))"

definition client_login_userpass ::
  "http_env \<Rightarrow> client \<Rightarrow>
   (string \<Rightarrow> userpass_login_response option) \<Rightarrow>
   (userpass_login_request \<Rightarrow> payload) \<Rightarrow> string \<Rightarrow>
   string \<Rightarrow> (client \<times> userpass_login_metadata) sent" where
  "client_login_userpass env cl from_json to_json username password =
     sbind (pure client_userpass) (\<lambda>v.
     sbind (userpass_login_response_call env cl from_json to_json v username password)
       (\<lambda>response.
     (case userpass_split_login_auth response of (token, metadata) \<Rightarrow>
        sbind (pure (try_with_token env cl token)) (\<lambda>v.
        pure (Inr (v, metadata))))))"

definition client_userpass_admin_at :: "string \<Rightarrow> string res" where
  "client_userpass_admin_at mount =
     rbind (validate_mount_path mount) (\<lambda>p.
     Inr (join_with ''/'' p))"

definition client_userpass_admin :: "string res" where
  "client_userpass_admin = client_userpass_admin_at ''userpass''"

definition userpass_login ::
  "http_env \<Rightarrow> client \<Rightarrow>
   (string \<Rightarrow> userpass_login_response option) \<Rightarrow>
   (userpass_login_request \<Rightarrow> payload) \<Rightarrow> string \<Rightarrow>
   string \<Rightarrow> string \<Rightarrow> (client \<times> userpass_login_metadata) sent" where
  "userpass_login env cl from_json to_json mount username password =
     sbind (userpass_login_response_call env cl from_json to_json mount username password)
       (\<lambda>response.
     (case userpass_split_login_auth response of (token, metadata) \<Rightarrow>
        sbind (pure (try_with_token env (clone_without_state cl) token)) (\<lambda>v.
        pure (Inr (v, metadata)))))"

record userpass_user_payload =
  userpass_user_payload_password :: "string option"
  userpass_user_payload_password_hash :: "string option"
  userpass_user_payload_token_policies :: "string list"
  userpass_user_payload_policies :: "string list"
  userpass_user_payload_token_ttl :: "string option"
  userpass_user_payload_token_max_ttl :: "string option"
  userpass_user_payload_token_period :: "string option"
  userpass_user_payload_token_explicit_max_ttl :: "string option"
  userpass_user_payload_token_type :: "string option"
  userpass_user_payload_token_bound_cidrs :: "string list"
  userpass_user_payload_token_num_uses :: "64 word option"
  userpass_user_payload_token_no_default_policy :: "bool option"

definition userpass_admin_write_user ::
  "http_env \<Rightarrow> client \<Rightarrow>
   (string \<Rightarrow> unit option) \<Rightarrow>
   (userpass_user_payload \<Rightarrow> payload) \<Rightarrow> string \<Rightarrow>
   string \<Rightarrow> userpass_user_request \<Rightarrow> unit sent" where
  "userpass_admin_write_user env cl from_json to_json mount username user =
     sbind (pure (userpass_user_request_validate user)) (\<lambda>_.
     sbind (pure (userpass_validate_username username)) (\<lambda>username.
     let payload =
       \<lparr>userpass_user_payload_password = Some (userpass_user_request_password user),
       userpass_user_payload_password_hash = None,
       userpass_user_payload_token_policies = userpass_user_request_token_policies user,
       userpass_user_payload_policies = userpass_user_request_policies user,
       userpass_user_payload_token_ttl = userpass_user_request_token_ttl user,
       userpass_user_payload_token_max_ttl = userpass_user_request_token_max_ttl user,
       userpass_user_payload_token_period = userpass_user_request_token_period user,
       userpass_user_payload_token_explicit_max_ttl = userpass_user_request_token_explicit_max_ttl user,
       userpass_user_payload_token_type = userpass_user_request_token_type user,
       userpass_user_payload_token_bound_cidrs = userpass_user_request_token_bound_cidrs user,
       userpass_user_payload_token_num_uses = userpass_user_request_token_num_uses user,
       userpass_user_payload_token_no_default_policy = userpass_user_request_token_no_default_policy user\<rparr>
       in
     request_auth_json_internal env cl from_json ''userpass'' mount ''POST'' (''auth/'' @ mount
       @ ''/users/'' @ username) (Some (to_json payload))))"

definition userpass_admin_write_hashed_user ::
  "http_env \<Rightarrow> client \<Rightarrow>
   (string \<Rightarrow> unit option) \<Rightarrow>
   (userpass_user_payload \<Rightarrow> payload) \<Rightarrow> string \<Rightarrow>
   string \<Rightarrow> userpass_hashed_user_request \<Rightarrow> unit sent" where
  "userpass_admin_write_hashed_user env cl from_json to_json mount username user =
     sbind (pure (userpass_user_settings_validate (userpass_hashed_user_request_settings
       user))) (\<lambda>_.
     sbind (pure (client_validate_fields env [(USERPASS_USER_PASSWORD_HASH, True)]))
       (\<lambda>_.
     sbind (pure (userpass_validate_username username)) (\<lambda>username.
     let settings = userpass_hashed_user_request_settings user in
     let payload = \<lparr>userpass_user_payload_password = None,
       userpass_user_payload_password_hash = Some (userpass_hashed_user_request_password_hash user),
       userpass_user_payload_token_policies = userpass_user_settings_token_policies settings,
       userpass_user_payload_policies = userpass_user_settings_policies settings,
       userpass_user_payload_token_ttl = userpass_user_settings_token_ttl settings,
       userpass_user_payload_token_max_ttl = userpass_user_settings_token_max_ttl settings,
       userpass_user_payload_token_period = userpass_user_settings_token_period settings,
       userpass_user_payload_token_explicit_max_ttl = userpass_user_settings_token_explicit_max_ttl settings,
       userpass_user_payload_token_type = userpass_user_settings_token_type settings,
       userpass_user_payload_token_bound_cidrs = userpass_user_settings_token_bound_cidrs settings,
       userpass_user_payload_token_num_uses = userpass_user_settings_token_num_uses settings,
       userpass_user_payload_token_no_default_policy = userpass_user_settings_token_no_default_policy settings\<rparr>
       in
     request_auth_json_internal env cl from_json ''userpass'' mount ''POST'' (''auth/'' @ mount
       @ ''/users/'' @ username) (Some (to_json payload)))))"

definition userpass_admin_read_user ::
  "http_env \<Rightarrow> client \<Rightarrow>
   (string \<Rightarrow> 'a response_envelope option) \<Rightarrow> string \<Rightarrow>
   string \<Rightarrow> 'a sent" where
  "userpass_admin_read_user env cl from_json mount username =
     sbind (pure (userpass_validate_username username)) (\<lambda>username.
     smap env_data (request_auth_json_internal env cl from_json ''userpass'' mount ''GET''
       (''auth/'' @ mount @ ''/users/'' @ username) None))"

definition userpass_admin_delete_user ::
  "http_env \<Rightarrow> client \<Rightarrow>
   (string \<Rightarrow> unit option) \<Rightarrow> string \<Rightarrow> string \<Rightarrow>
   unit sent" where
  "userpass_admin_delete_user env cl from_json mount username =
     sbind (pure (userpass_validate_username username)) (\<lambda>username.
     request_auth_json_accepting env cl from_json ''userpass'' mount ''DELETE'' (''auth/'' @
       mount @ ''/users/'' @ username) None [200, 204])"

record userpass_password_request =
  userpass_password_request_password :: "string option"
  userpass_password_request_password_hash :: "string option"

definition userpass_admin_update_password ::
  "http_env \<Rightarrow> client \<Rightarrow>
   (string \<Rightarrow> unit option) \<Rightarrow>
   (userpass_password_request \<Rightarrow> payload) \<Rightarrow> string \<Rightarrow>
   string \<Rightarrow> string \<Rightarrow> unit sent" where
  "userpass_admin_update_password env cl from_json to_json mount username password =
     (if password = [] then pure (Inl (InvalidParameter
       ''userpass password must not be empty''))
        else sbind (pure (userpass_validate_username username)) (\<lambda>username.
        let request = \<lparr>userpass_password_request_password = Some password,
          userpass_password_request_password_hash = None\<rparr> in
        request_auth_json_internal env cl from_json ''userpass'' mount ''POST'' (''auth/'' @
          mount @ ''/users/'' @ username @ ''/password'') (Some (to_json request))))"

definition userpass_admin_update_password_hash ::
  "http_env \<Rightarrow> client \<Rightarrow>
   (string \<Rightarrow> unit option) \<Rightarrow>
   (userpass_password_request \<Rightarrow> payload) \<Rightarrow> string \<Rightarrow>
   string \<Rightarrow> string \<Rightarrow> unit sent" where
  "userpass_admin_update_password_hash env cl from_json to_json mount username password_hash =
     sbind (pure (client_validate_fields env [(USERPASS_PASSWORD_PASSWORD_HASH, True)]))
       (\<lambda>_.
     sbind (pure (userpass_validate_username username)) (\<lambda>username.
     let request = \<lparr>userpass_password_request_password = None,
       userpass_password_request_password_hash = Some password_hash\<rparr> in
     request_auth_json_internal env cl from_json ''userpass'' mount ''POST'' (''auth/'' @ mount
       @ ''/users/'' @ username @ ''/password'') (Some (to_json request))))"

record userpass_policies_request =
  userpass_policies_request_token_policies :: "string list"

definition userpass_admin_update_policies ::
  "http_env \<Rightarrow> client \<Rightarrow>
   (string \<Rightarrow> unit option) \<Rightarrow>
   (userpass_policies_request \<Rightarrow> payload) \<Rightarrow> string \<Rightarrow>
   string \<Rightarrow> string list \<Rightarrow> unit sent" where
  "userpass_admin_update_policies env cl from_json to_json mount username policies =
     sbind (pure (userpass_validate_username username)) (\<lambda>username.
     let request = \<lparr>userpass_policies_request_token_policies = policies\<rparr> in
     request_auth_json_internal env cl from_json ''userpass'' mount ''POST'' (''auth/'' @ mount
       @ ''/users/'' @ username @ ''/policies'') (Some (to_json request)))"

definition userpass_admin_list_users ::
  "http_env \<Rightarrow> client \<Rightarrow>
   (string \<Rightarrow> 'a response_envelope option) \<Rightarrow> string \<Rightarrow>
   'a sent" where
  "userpass_admin_list_users env cl from_json mount =
     smap env_data (request_auth_json_internal env cl from_json ''userpass'' mount ''LIST''
       (''auth/'' @ mount @ ''/users'') None)"

section \<open>The routes of the method\<close>

lemma userpass_literals [simp]:
  "validate_endpoint_path ''login'' = Inr [''login'']"
  "validate_endpoint_path ''password'' = Inr [''password'']"
  "validate_endpoint_path ''policies'' = Inr [''policies'']"
  "validate_endpoint_path ''users'' = Inr [''users'']"
  by (rule literal_endpoint; code_simp)+

lemma userpass_username [name_dests]:
  "userpass_validate_username u = Inr x \<Longrightarrow> x = u \<and> plain_name u"
  by (auto simp: userpass_validate_username_def intro!: plain_username split: if_splits)

lemma userpass_routes:
  assumes "list_all safe_segment mount" "mount \<noteq> []"
  shows "at_route env cl ''POST'' (''auth'' # mount) [''login'', username]
      (userpass_login env cl fj tj (join_with ''/'' mount) username password)"
  unfolding userpass_login_def userpass_login_response_call_def
  by (use assms in \<open>auto simp: Let_def rbind_Inr_iff safe_auth join_with_Cons join_with_append
      intro!: at_intros at_requests text_at_name silent_intros intro: text_atI at_after
      dest!: name_dests split: option.splits\<close>)

lemma userpass_admin_routes:
  assumes "list_all safe_segment mount" "mount \<noteq> []"
  shows "at_route env cl ''POST'' (''auth'' # mount) [''users'', username]
      (userpass_admin_write_user env cl fj tj (join_with ''/'' mount) username user)"
    and "at_route env cl ''POST'' (''auth'' # mount) [''users'', username]
      (userpass_admin_write_hashed_user env cl fj tj (join_with ''/'' mount) username user2)"
    and "at_route env cl ''GET'' (''auth'' # mount) [''users'', username]
      (userpass_admin_read_user env cl fj2 (join_with ''/'' mount) username)"
    and "at_route env cl ''DELETE'' (''auth'' # mount) [''users'', username]
      (userpass_admin_delete_user env cl fj (join_with ''/'' mount) username)"
    and "at_route env cl ''POST'' (''auth'' # mount) [''users'', username, ''password'']
      (userpass_admin_update_password env cl fj tj2 (join_with ''/'' mount) username password)"
    and "at_route env cl ''POST'' (''auth'' # mount) [''users'', username, ''password'']
      (userpass_admin_update_password_hash env cl fj tj2 (join_with ''/'' mount) username
        password_hash)"
    and "at_route env cl ''POST'' (''auth'' # mount) [''users'', username, ''policies'']
      (userpass_admin_update_policies env cl fj tj3 (join_with ''/'' mount) username policies)"
    and "at_route env cl ''LIST'' (''auth'' # mount) [''users'']
      (userpass_admin_list_users env cl fj2 (join_with ''/'' mount))"
  unfolding userpass_admin_write_user_def userpass_admin_write_hashed_user_def
      userpass_admin_read_user_def userpass_admin_delete_user_def
      userpass_admin_update_password_def userpass_admin_update_password_hash_def
      userpass_admin_update_policies_def userpass_admin_list_users_def
  by (use assms in \<open>auto simp: Let_def rbind_Inr_iff safe_auth join_with_Cons join_with_append
      intro!: at_intros at_requests text_at_name silent_intros intro: text_atI at_after
      dest!: name_dests split: option.splits\<close>)

end
