(* ===== verification/Bao_Sys_Data.thy ===== *)
theory Bao_Sys_Data
  imports Bao_Auth
begin

text \<open>
  The requests of the system backend, \<open>sys.rs\<close>, and their checks. \<open>from_json\<close> is the deserialiser of a response and
  \<open>to_json\<close> the serialiser of a payload; \<open>encode_base64\<close>, \<open>decode_base64\<close>, \<open>decode_token_base64\<close> (the
  alphabet without padding) and \<open>valid_base64\<close> are functions of the base64 crate.
\<close>

section \<open>Data and requests\<close>

text \<open>A finite \<open>f64\<close> is \<open>m * 2 powr e\<close>; only its sign is looked at.\<close>

datatype f64 = F64_NaN | F64_Infinite bool | F64_Finite int int

fun f64_is_finite :: "f64 \<Rightarrow> bool" where
  "f64_is_finite (F64_Finite m e) \<longleftrightarrow> True"
| "f64_is_finite _ \<longleftrightarrow> False"

fun f64_le_zero :: "f64 \<Rightarrow> bool" where
  "f64_le_zero (F64_Finite m e) \<longleftrightarrow> m \<le> 0"
| "f64_le_zero (F64_Infinite negative) \<longleftrightarrow> negative"
| "f64_le_zero F64_NaN \<longleftrightarrow> False"

text \<open>\<open>StatusCode::from_u16\<close> takes the codes from 100 to 999.\<close>

definition openbao_status :: "nat \<Rightarrow> nat res" where
  "openbao_status code =
     (if 100 \<le> code \<and> code < 1000 then Inr code
      else Inl (Internal ''invalid OpenBao health status code''))"

definition require_loopback_dev_target :: "client \<Rightarrow> unit res" where
  "require_loopback_dev_target cl =
     (case url_host_str (base_url (cl_config cl)) of
       None \<Rightarrow> Inl (InvalidBaseUrl ''dev bootstrap requires a numeric loopback OpenBao host'')
     | Some host \<Rightarrow>
         (if \<not> is_some_and is_loopback_addr (parse_ip_addr host)
          then Inl (InvalidBaseUrl ''dev bootstrap is restricted to numeric loopback OpenBao hosts'')
          else Inr ()))"

text \<open>The profiles that were reviewed for workflow CAS and for the latest plugin selection.\<close>

definition reviewed_profile :: "compatibility_report \<Rightarrow> bool" where
  "reviewed_profile report \<longleftrightarrow>
     \<not> (report_status report \<noteq> Verified \<or>
       report_policy report \<notin> {Some KindExact, Some KindAutomaticStrict} \<or>
       \<not> is_some_and (\<lambda>v. v \<in> {OpenBaoVersion 2 7 0, OpenBaoVersion 2 7 1, OpenBaoVersion 2 7 2})
         (profile_version report) \<or>
       detected_version report \<noteq> profile_version report)"

definition validate_workflow_cas_profile :: "compatibility_report \<Rightarrow> unit res" where
  "validate_workflow_cas_profile report =
     (if \<not> reviewed_profile report
      then Inl (InvalidParameter
        ''workflow CAS requires an exact verified reviewed OpenBao 2.7 profile'')
      else Inr ())"

definition validate_latest_plugin_profile :: "compatibility_report \<Rightarrow> unit res" where
  "validate_latest_plugin_profile report =
     (if \<not> reviewed_profile report
      then Inl (InvalidParameter
        ''latest plugin selection requires an exact verified reviewed OpenBao 2.7 profile'')
      else Inr ())"

text \<open>
  Workflow data. \<open>valid_json\<close> is the syntax check of \<open>serde_json\<close>, and \<open>envelope_data\<close> what it finds
  under \<open>data\<close>, as raw text: nothing when the document is not an object of that shape.
\<close>

definition MAX_WORKFLOW_DATA_BYTES :: nat where "MAX_WORKFLOW_DATA_BYTES = 8 * 1024 * 1024"

definition validate_workflow_json :: "(string \<Rightarrow> bool) \<Rightarrow> string \<Rightarrow> unit res" where
  "validate_workflow_json valid_json contents =
     (if MAX_WORKFLOW_DATA_BYTES < length contents
      then Inl (InvalidParameter ''workflow JSON exceeds byte limit'')
      else if \<not> valid_json contents
      then Inl (InvalidParameter ''workflow data must be valid JSON'')
      else if \<not> prefix ''{'' (trim_start contents)
      then Inl (InvalidParameter ''workflow data must be a JSON object'')
      else Inr ())"

record workflow_data =
  workflow_data_contents :: string

definition workflow_data_from_json_bytes :: "(string \<Rightarrow> bool) \<Rightarrow> string \<Rightarrow> workflow_data res" where
  "workflow_data_from_json_bytes valid_json contents =
     rbind (validate_workflow_json valid_json contents) (\<lambda>_.
       Inr \<lparr>workflow_data_contents = contents\<rparr>)"

definition workflow_data_empty :: workflow_data where
  "workflow_data_empty = \<lparr>workflow_data_contents = ''{}''\<rparr>"

definition workflow_data_from_envelope ::
  "(string \<Rightarrow> bool) \<Rightarrow> (string \<Rightarrow> string option option) \<Rightarrow> string \<Rightarrow> workflow_data res" where
  "workflow_data_from_envelope valid_json envelope_data body =
     (case envelope_data body of
       None \<Rightarrow> Inl (Decode ''OpenBao workflow response did not match schema'')
     | Some None \<Rightarrow> Inr workflow_data_empty
     | Some (Some raw) \<Rightarrow>
         (if raw = ''null'' then Inr workflow_data_empty
          else workflow_data_from_json_bytes valid_json raw))"

definition workflow_typed_data_from_envelope ::
  "(string \<Rightarrow> 'a option) \<Rightarrow> (string \<Rightarrow> string option option) \<Rightarrow> string \<Rightarrow> 'a res" where
  "workflow_typed_data_from_envelope from_json envelope_data body =
     (case envelope_data body of
       Some (Some raw) \<Rightarrow>
         ok_or (from_json raw) (Decode ''OpenBao workflow data did not match schema'')
     | _ \<Rightarrow> Inl (Decode ''OpenBao workflow response did not match schema''))"

definition encode_sys_base64_secret :: "(string \<Rightarrow> string option) \<Rightarrow> string \<Rightarrow> string res" where
  "encode_sys_base64_secret encode_base64 input =
     rbind (ok_or (encode_base64 input) (InvalidParameter ''base64 input is too large'')) (\<lambda>encoded.
       if valid_utf8 encoded then Inr encoded
       else Inl (Internal ''base64-ng produced non-UTF-8 text for standard base64 output''))"

definition decode_sys_base64_secret :: "(string \<Rightarrow> string option) \<Rightarrow> string \<Rightarrow> string res" where
  "decode_sys_base64_secret decode_base64 input =
     ok_or (decode_base64 input) (Decode ''OpenBao response contained invalid base64'')"

definition MAX_SYSTEM_RESPONSE_METADATA_BYTES :: nat where
  "MAX_SYSTEM_RESPONSE_METADATA_BYTES = 4096"

definition validate_system_response_metadata :: "string \<Rightarrow> string + unit" where
  "validate_system_response_metadata val_v =
     (if MAX_SYSTEM_RESPONSE_METADATA_BYTES < length val_v
      then Inl ''system response metadata exceeds byte limit''
      else if list_ex is_control (utf8_chars val_v)
      then Inl ''system response metadata contains control characters''
      else Inr ())"

text \<open>
  The token of a generation ceremony is XORed with the one-time password; both are bytes.
\<close>

definition MAX_GENERATED_TOKEN_BYTES :: nat where "MAX_GENERATED_TOKEN_BYTES = 16 * 1024"

definition xor_bytes :: "string \<Rightarrow> string \<Rightarrow> string" where
  "xor_bytes bytes otp =
     map2 (\<lambda>b k. char_of (of_char b XOR of_char k :: nat)) bytes otp"

definition decode_operator_token ::
  "(string \<Rightarrow> string option) \<Rightarrow> string \<Rightarrow> string \<Rightarrow> string res" where
  "decode_operator_token decode_token_base64 encoded otp =
     (if encoded = [] \<or> MAX_GENERATED_TOKEN_BYTES * 2 < length encoded
      then Inl (InvalidParameter ''encoded operator token is empty or exceeds the supported limit'')
      else if otp = [] \<or> MAX_GENERATED_TOKEN_BYTES < length otp
      then Inl (InvalidParameter ''operator token OTP is empty or exceeds the supported limit'')
      else rbind (ok_or (decode_token_base64 encoded)
          (Decode ''encoded operator token is not valid unpadded base64'')) (\<lambda>token.
        if length token \<noteq> length otp
        then Inl (InvalidParameter ''decoded operator token and OTP lengths differ'')
        else if valid_utf8 (xor_bytes token otp) then Inr (xor_bytes token otp)
        else Inl (Decode ''decoded operator token is not valid UTF-8'')))"

text \<open>A rotation backup with one share per fingerprint.\<close>

definition single_rotation_shares ::
  "(string \<times> string list) list \<Rightarrow> (string \<times> string) list res" where
  "single_rotation_shares groups =
     rtraverse (\<lambda>(fingerprint, shares).
       if length shares \<noteq> 1
       then Inl (Decode ''rotation backup requires operator_rotate_backup_grouped for non-singleton share groups'')
       else rbind (ok_or (if shares = [] then None else Some (last shares))
           (Decode ''rotation backup share is missing'')) (\<lambda>share.
         Inr (fingerprint, share))) groups"

text \<open>
  The reviewed endpoint specifications of root token generation and of the request inspection, as
  the generated registry has them.
\<close>

definition GENERATED_SYS_GENERATE_ROOT_CANCEL :: endpoint_spec where
  "GENERATED_SYS_GENERATE_ROOT_CANCEL =
     \<lparr>spec_id = ''sys.generate-root.cancel'',
      spec_variants = [
        \<lparr>ev_operation_id = ''openbao.delete.sys.generate.root.attempt.a9b55a062f0bddfd'',
          ev_minimum = OpenBaoVersion 2 0 0, ev_maximum = OpenBaoVersion 2 5 5\<rparr>,
        \<lparr>ev_operation_id = ''openbao.delete.sys.generate.root.token.attempt.76b869404ef9c2aa'',
          ev_minimum = OpenBaoVersion 2 6 0, ev_maximum = OpenBaoVersion 2 7 0\<rparr>,
        \<lparr>ev_operation_id = ''openbao.delete.sys.generate.root.token.attempt.76b869404ef9c2aa'',
          ev_minimum = OpenBaoVersion 2 7 1, ev_maximum = OpenBaoVersion 2 7 1\<rparr>,
        \<lparr>ev_operation_id = ''openbao.delete.sys.generate.root.token.attempt.76b869404ef9c2aa'',
          ev_minimum = OpenBaoVersion 2 7 2, ev_maximum = OpenBaoVersion 2 7 2\<rparr>]\<rparr>"

definition GENERATED_SYS_GENERATE_ROOT_START :: endpoint_spec where
  "GENERATED_SYS_GENERATE_ROOT_START =
     \<lparr>spec_id = ''sys.generate-root.start'',
      spec_variants = [
        \<lparr>ev_operation_id = ''openbao.post.sys.generate.root.attempt.970bb5dfc6bba2b2'',
          ev_minimum = OpenBaoVersion 2 0 0, ev_maximum = OpenBaoVersion 2 5 5\<rparr>,
        \<lparr>ev_operation_id = ''openbao.post.sys.generate.root.token.attempt.532d9c8f9c22306d'',
          ev_minimum = OpenBaoVersion 2 6 0, ev_maximum = OpenBaoVersion 2 7 0\<rparr>,
        \<lparr>ev_operation_id = ''openbao.post.sys.generate.root.token.attempt.532d9c8f9c22306d'',
          ev_minimum = OpenBaoVersion 2 7 1, ev_maximum = OpenBaoVersion 2 7 1\<rparr>,
        \<lparr>ev_operation_id = ''openbao.post.sys.generate.root.token.attempt.532d9c8f9c22306d'',
          ev_minimum = OpenBaoVersion 2 7 2, ev_maximum = OpenBaoVersion 2 7 2\<rparr>]\<rparr>"

definition GENERATED_SYS_GENERATE_ROOT_STATUS :: endpoint_spec where
  "GENERATED_SYS_GENERATE_ROOT_STATUS =
     \<lparr>spec_id = ''sys.generate-root.status'',
      spec_variants = [
        \<lparr>ev_operation_id = ''openbao.get.sys.generate.root.attempt.f6f4fd06542ba4f7'',
          ev_minimum = OpenBaoVersion 2 0 0, ev_maximum = OpenBaoVersion 2 5 5\<rparr>,
        \<lparr>ev_operation_id = ''openbao.get.sys.generate.root.token.attempt.4c6a9904e9da8d8a'',
          ev_minimum = OpenBaoVersion 2 6 0, ev_maximum = OpenBaoVersion 2 7 0\<rparr>,
        \<lparr>ev_operation_id = ''openbao.get.sys.generate.root.token.attempt.4c6a9904e9da8d8a'',
          ev_minimum = OpenBaoVersion 2 7 1, ev_maximum = OpenBaoVersion 2 7 1\<rparr>,
        \<lparr>ev_operation_id = ''openbao.get.sys.generate.root.token.attempt.4c6a9904e9da8d8a'',
          ev_minimum = OpenBaoVersion 2 7 2, ev_maximum = OpenBaoVersion 2 7 2\<rparr>]\<rparr>"

definition GENERATED_SYS_GENERATE_ROOT_UPDATE :: endpoint_spec where
  "GENERATED_SYS_GENERATE_ROOT_UPDATE =
     \<lparr>spec_id = ''sys.generate-root.update'',
      spec_variants = [
        \<lparr>ev_operation_id = ''openbao.post.sys.generate.root.update.1b76d7f10b884e9e'',
          ev_minimum = OpenBaoVersion 2 0 0, ev_maximum = OpenBaoVersion 2 5 5\<rparr>,
        \<lparr>ev_operation_id = ''openbao.post.sys.generate.root.token.update.741304409be7b3ee'',
          ev_minimum = OpenBaoVersion 2 6 0, ev_maximum = OpenBaoVersion 2 7 0\<rparr>,
        \<lparr>ev_operation_id = ''openbao.post.sys.generate.root.token.update.741304409be7b3ee'',
          ev_minimum = OpenBaoVersion 2 7 1, ev_maximum = OpenBaoVersion 2 7 1\<rparr>,
        \<lparr>ev_operation_id = ''openbao.post.sys.generate.root.token.update.741304409be7b3ee'',
          ev_minimum = OpenBaoVersion 2 7 2, ev_maximum = OpenBaoVersion 2 7 2\<rparr>]\<rparr>"

definition GENERATED_SYS_INTERNAL_REQUEST_INSPECTION :: endpoint_spec where
  "GENERATED_SYS_INTERNAL_REQUEST_INSPECTION =
     \<lparr>spec_id = ''sys.internal-request-inspection'',
      spec_variants = [
        \<lparr>ev_operation_id = ''openbao.get.sys.internal.inspect.request.root.885b10e9019aa2b4'',
          ev_minimum = OpenBaoVersion 2 5 5, ev_maximum = OpenBaoVersion 2 5 5\<rparr>,
        \<lparr>ev_operation_id = ''openbao.get.sys.internal.inspect.request.260346bda50bbaf2'',
          ev_minimum = OpenBaoVersion 2 7 0, ev_maximum = OpenBaoVersion 2 7 0\<rparr>,
        \<lparr>ev_operation_id = ''openbao.get.sys.internal.inspect.request.260346bda50bbaf2'',
          ev_minimum = OpenBaoVersion 2 7 1, ev_maximum = OpenBaoVersion 2 7 1\<rparr>,
        \<lparr>ev_operation_id = ''openbao.get.sys.internal.inspect.request.260346bda50bbaf2'',
          ev_minimum = OpenBaoVersion 2 7 2, ev_maximum = OpenBaoVersion 2 7 2\<rparr>]\<rparr>"

text \<open>The calls of root token generation: the endpoint decides between the two response shapes.\<close>

definition sys_request_generate_root_json ::
  "http_env \<Rightarrow> client \<Rightarrow> (string \<Rightarrow> 'a option) \<Rightarrow> (string \<Rightarrow> 'a response_envelope option) \<Rightarrow>
   endpoint_spec \<Rightarrow> payload option \<Rightarrow> 'a sent" where
  "sys_request_generate_root_json env cl from_json from_envelope endpoint body =
     sbind (pure (resolve_openbao_literal_endpoint (ops env) (ensured env) endpoint))
       (\<lambda>(resolved, path).
         if path \<in> {''sys/generate-root/attempt'', ''sys/generate-root/update''}
         then request_resolved_literal_endpoint_json_accepting env cl from_json resolved path body [200]
         else if path \<in> {''sys/generate-root-token/attempt'', ''sys/generate-root-token/update''}
         then smap env_data (request_resolved_literal_endpoint_json_accepting env cl from_envelope
           resolved path body [200])
         else pure (Inl (Internal ''root generation selected an unreviewed route'')))"

record init_status =
  init_status_initialized :: bool

record unseal_status =
  unseal_status_sealed :: bool
  unseal_status_n :: "64 word option"
  unseal_status_t :: "64 word option"
  unseal_status_progress :: "64 word option"
  unseal_status_version :: string
  unseal_status_cluster_name :: "string option"
  unseal_status_cluster_id :: "string option"

record init_payload =
  init_payload_secret_shares :: "8 word"
  init_payload_secret_threshold :: "8 word"

datatype monitor_log_level =
    MonitorLogLevel_Trace | MonitorLogLevel_Debug | MonitorLogLevel_Info | MonitorLogLevel_Warn
  | MonitorLogLevel_Error

definition monitor_log_level_as_str :: "monitor_log_level \<Rightarrow> string" where
  "monitor_log_level_as_str self =
     (case self of
        MonitorLogLevel_Trace \<Rightarrow> ''trace''
      | MonitorLogLevel_Debug \<Rightarrow> ''debug''
      | MonitorLogLevel_Info \<Rightarrow> ''info''
      | MonitorLogLevel_Warn \<Rightarrow> ''warn''
      | MonitorLogLevel_Error \<Rightarrow> ''error'')"

datatype monitor_log_format =
    MonitorLogFormat_Standard | MonitorLogFormat_Json

definition monitor_log_format_as_str :: "monitor_log_format \<Rightarrow> string" where
  "monitor_log_format_as_str self =
     (case self of
        MonitorLogFormat_Standard \<Rightarrow> ''standard''
      | MonitorLogFormat_Json \<Rightarrow> ''json'')"

record monitor_options =
  monitor_options_log_level :: monitor_log_level
  monitor_options_log_format :: monitor_log_format
  monitor_options_max_frame_bytes :: nat

definition DEFAULT_MONITOR_FRAME_BYTES :: nat where
  "DEFAULT_MONITOR_FRAME_BYTES = 64 * 1024"

definition monitor_options_default :: monitor_options where
  "monitor_options_default =
     \<lparr>monitor_options_log_level = MonitorLogLevel_Info,
       monitor_options_log_format = MonitorLogFormat_Standard,
       monitor_options_max_frame_bytes = DEFAULT_MONITOR_FRAME_BYTES\<rparr>"

definition monitor_options_with_log_level ::
  "monitor_options \<Rightarrow> monitor_log_level \<Rightarrow> monitor_options" where
  "monitor_options_with_log_level self log_level =
     self\<lparr>monitor_options_log_level := log_level\<rparr>"

definition monitor_options_with_log_format ::
  "monitor_options \<Rightarrow> monitor_log_format \<Rightarrow> monitor_options" where
  "monitor_options_with_log_format self log_format =
     self\<lparr>monitor_options_log_format := log_format\<rparr>"

definition MAX_MONITOR_FRAME_BYTES :: nat where
  "MAX_MONITOR_FRAME_BYTES = 1024 * 1024"

definition monitor_options_with_max_frame_bytes ::
  "monitor_options \<Rightarrow> nat \<Rightarrow> monitor_options res" where
  "monitor_options_with_max_frame_bytes self max_frame_bytes =
     (if \<not> (1 \<le> max_frame_bytes \<and> max_frame_bytes \<le> MAX_MONITOR_FRAME_BYTES)
       then Inl (InvalidParameter ''monitor frame limit must be between 1 byte and 1 MiB'')
        else Inr (self\<lparr>monitor_options_max_frame_bytes := max_frame_bytes\<rparr>))"

record monitor_frame =
  monitor_frame_format :: monitor_log_format
  monitor_frame_contents :: string

definition monitor_frame_format_set :: "monitor_frame \<Rightarrow> monitor_log_format" where
  "monitor_frame_format_set self = monitor_frame_format self"

definition monitor_frame_len :: "monitor_frame \<Rightarrow> nat" where
  "monitor_frame_len self = length (monitor_frame_contents self)"

definition monitor_frame_is_empty :: "monitor_frame \<Rightarrow> bool" where
  "monitor_frame_is_empty self \<longleftrightarrow> monitor_frame_contents self = []"

datatype raw_encoding =
    RawEncoding_None | RawEncoding_Base64

definition raw_encoding_as_query_value :: "raw_encoding \<Rightarrow> string option" where
  "raw_encoding_as_query_value self =
     (case self of
        RawEncoding_None \<Rightarrow> None
      | RawEncoding_Base64 \<Rightarrow> Some ''base64'')"

definition raw_encoding_is_none :: "raw_encoding \<Rightarrow> bool" where
  "raw_encoding_is_none val_v \<longleftrightarrow> val_v = RawEncoding_None"

datatype raw_compression =
    RawCompression_None | RawCompression_Gzip | RawCompression_Snappy

definition raw_compression_as_wire_value :: "raw_compression \<Rightarrow> string" where
  "raw_compression_as_wire_value self =
     (case self of
        RawCompression_None \<Rightarrow> []
      | RawCompression_Gzip \<Rightarrow> ''gzip''
      | RawCompression_Snappy \<Rightarrow> ''snappy'')"

record raw_read_options =
  raw_read_options_compressed :: bool
  raw_read_options_encoding :: raw_encoding

definition raw_read_options_default :: raw_read_options where
  "raw_read_options_default =
     \<lparr>raw_read_options_compressed = True,
       raw_read_options_encoding = RawEncoding_None\<rparr>"

definition raw_read_options_new :: raw_read_options where
  "raw_read_options_new = raw_read_options_default"

definition raw_read_options_with_compressed ::
  "raw_read_options \<Rightarrow> bool \<Rightarrow> raw_read_options" where
  "raw_read_options_with_compressed self compressed =
     self\<lparr>raw_read_options_compressed := compressed\<rparr>"

definition raw_read_options_with_encoding ::
  "raw_read_options \<Rightarrow> raw_encoding \<Rightarrow> raw_read_options" where
  "raw_read_options_with_encoding self encoding =
     self\<lparr>raw_read_options_encoding := encoding\<rparr>"

record raw_write_request =
  raw_write_request_value :: string
  raw_write_request_compression_type :: "raw_compression option"
  raw_write_request_encoding :: raw_encoding

definition raw_write_request_new :: "string \<Rightarrow> raw_write_request" where
  "raw_write_request_new val_v =
     \<lparr>raw_write_request_value = val_v, raw_write_request_compression_type = None,
       raw_write_request_encoding = RawEncoding_None\<rparr>"

definition raw_write_request_with_compression ::
  "raw_write_request \<Rightarrow> raw_compression \<Rightarrow> raw_write_request" where
  "raw_write_request_with_compression self compression =
     self\<lparr>raw_write_request_compression_type := Some compression\<rparr>"

definition raw_write_request_with_encoding ::
  "raw_write_request \<Rightarrow> raw_encoding \<Rightarrow> raw_write_request" where
  "raw_write_request_with_encoding self encoding =
     self\<lparr>raw_write_request_encoding := encoding\<rparr>"

datatype pprof_profile =
    PprofProfile_Allocs | PprofProfile_Block | PprofProfile_Cmdline | PprofProfile_Goroutine
  | PprofProfile_Heap | PprofProfile_Mutex | PprofProfile_Profile | PprofProfile_Symbol
  | PprofProfile_Threadcreate | PprofProfile_Trace

definition pprof_profile_as_path_segment :: "pprof_profile \<Rightarrow> string" where
  "pprof_profile_as_path_segment self =
     (case self of
        PprofProfile_Allocs \<Rightarrow> ''allocs''
      | PprofProfile_Block \<Rightarrow> ''block''
      | PprofProfile_Cmdline \<Rightarrow> ''cmdline''
      | PprofProfile_Goroutine \<Rightarrow> ''goroutine''
      | PprofProfile_Heap \<Rightarrow> ''heap''
      | PprofProfile_Mutex \<Rightarrow> ''mutex''
      | PprofProfile_Profile \<Rightarrow> ''profile''
      | PprofProfile_Symbol \<Rightarrow> ''symbol''
      | PprofProfile_Threadcreate \<Rightarrow> ''threadcreate''
      | PprofProfile_Trace \<Rightarrow> ''trace'')"

record pprof_options =
  pprof_options_seconds :: "16 word option"
  pprof_options_debug :: "8 word option"

definition pprof_options_default :: pprof_options where
  "pprof_options_default =
     \<lparr>pprof_options_seconds = None, pprof_options_debug = None\<rparr>"

definition pprof_options_new :: pprof_options where
  "pprof_options_new = pprof_options_default"

definition pprof_options_with_seconds ::
  "pprof_options \<Rightarrow> 16 word \<Rightarrow> pprof_options" where
  "pprof_options_with_seconds self seconds =
     self\<lparr>pprof_options_seconds := Some seconds\<rparr>"

definition pprof_options_with_debug ::
  "pprof_options \<Rightarrow> 8 word \<Rightarrow> pprof_options" where
  "pprof_options_with_debug self debug = self\<lparr>pprof_options_debug := Some debug\<rparr>"

record cors_config_request =
  cors_config_request_allowed_origins :: "string list"
  cors_config_request_allowed_headers :: "string list"

definition cors_config_request_new :: "string list \<Rightarrow> cors_config_request" where
  "cors_config_request_new allowed_origins =
     \<lparr>cors_config_request_allowed_origins = allowed_origins,
       cors_config_request_allowed_headers = []\<rparr>"

definition cors_config_request_with_allowed_header ::
  "cors_config_request \<Rightarrow> string \<Rightarrow> cors_config_request" where
  "cors_config_request_with_allowed_header self header =
     self\<lparr>cors_config_request_allowed_headers := cors_config_request_allowed_headers
       self @ [header]\<rparr>"

definition sys_validate_cors_origins ::
  "(string \<Rightarrow> url option) \<Rightarrow> string list \<Rightarrow> unit res" where
  "sys_validate_cors_origins parse_url origins =
     (if origins = [] then Inl (InvalidParameter
       ''CORS allowed_origins must contain at least one origin'')
        else (if MAX_RESPONSE_STRINGS < length origins then Inl (InvalidParameter
          ''CORS allowed_origins exceeds maximum item count'')
           else each (\<lambda>origin. let trimmed = trim origin in
           (if trimmed = [] then Inl (InvalidParameter
             ''CORS allowed origin must not be empty'')
              else (if trimmed \<noteq> origin then Inl (InvalidParameter
                ''CORS allowed origin must not contain leading or trailing whitespace'')
                 else (if trimmed = ''*'' \<or> eq_ignore_ascii_case trimmed ''null'' then Inl
                   (InvalidParameter
                   ''CORS wildcard '*' and 'null' origins are not allowed because they permit ambiguous authenticated requests to OpenBao'')
                    else (if list_ex is_ascii_control origin then Inl (InvalidParameter
                      ''CORS allowed origin must not contain control characters'')
                       else rbind (rmap_err (\<lambda>_. InvalidParameter
                         ''CORS allowed origin must be a valid https:// URL'') (case parse_url
                         origin of None \<Rightarrow> Inl () | Some u \<Rightarrow> Inr u))
                         (\<lambda>parsed.
                       (if url_scheme parsed \<noteq> ''https'' then Inl (InvalidParameter
                         ''CORS allowed origin must use the https:// scheme'')
                          else (if url_host_str parsed = None \<or> url_username parsed
                            \<noteq> [] \<or> url_password parsed \<noteq> None \<or> url_query
                            parsed \<noteq> None \<or> url_fragment parsed \<noteq> None \<or>
                            url_path parsed \<noteq> ''/'' then Inl (InvalidParameter
                            ''CORS allowed origin must be an origin only, such as https://app.example.com'')
                             else Inr ())))))))) origins))"

definition sys_validate_http_header_names ::
  "(string \<Rightarrow> string option) \<Rightarrow> string list \<Rightarrow>
   string \<Rightarrow> unit res" where
  "sys_validate_http_header_names header_name headers field =
     (if MAX_RESPONSE_STRINGS < length headers then Inl (InvalidParameter (field @
       '' list exceeds maximum item count''))
        else each (\<lambda>header. rbind (rmap_err (\<lambda>_. InvalidParameter (field @
          '' must contain valid HTTP header names'')) (case header_name header of None
          \<Rightarrow> Inl () | Some n \<Rightarrow> Inr n)) (\<lambda>_.
        Inr ())) headers)"

definition cors_config_request_validate ::
  "(string \<Rightarrow> string option) \<Rightarrow>
   (string \<Rightarrow> url option) \<Rightarrow> cors_config_request \<Rightarrow> unit res" where
  "cors_config_request_validate header_name parse_url self =
     rbind (sys_validate_cors_origins parse_url (cors_config_request_allowed_origins self))
       (\<lambda>_.
     sys_validate_http_header_names header_name (cors_config_request_allowed_headers self)
       ''CORS allowed header'')"

datatype logger_level =
    LoggerLevel_Trace | LoggerLevel_Debug | LoggerLevel_Info | LoggerLevel_Warn
  | LoggerLevel_Error

definition logger_level_as_str :: "logger_level \<Rightarrow> string" where
  "logger_level_as_str self =
     (case self of
        LoggerLevel_Trace \<Rightarrow> ''trace''
      | LoggerLevel_Debug \<Rightarrow> ''debug''
      | LoggerLevel_Info \<Rightarrow> ''info''
      | LoggerLevel_Warn \<Rightarrow> ''warn''
      | LoggerLevel_Error \<Rightarrow> ''error'')"

definition logger_levels_get ::
  "(string \<times> string) list \<Rightarrow> string \<Rightarrow> string option" where
  "logger_levels_get self logger = map_of self logger"

definition logger_levels_as_map ::
  "(string \<times> string) list \<Rightarrow> (string \<times> string) list" where
  "logger_levels_as_map self = self"

definition logger_levels_into_inner ::
  "(string \<times> string) list \<Rightarrow> (string \<times> string) list" where
  "logger_levels_into_inner self = self"

datatype sys_random_source =
    SysRandomSource_Platform | SysRandomSource_All

definition sys_random_source_as_path_segment :: "sys_random_source \<Rightarrow> string" where
  "sys_random_source_as_path_segment self =
     (case self of
        SysRandomSource_Platform \<Rightarrow> ''platform''
      | SysRandomSource_All \<Rightarrow> ''all'')"

datatype sys_hash_algorithm =
    SysHashAlgorithm_Sha2_224 | SysHashAlgorithm_Sha2_256 | SysHashAlgorithm_Sha2_384
  | SysHashAlgorithm_Sha2_512 | SysHashAlgorithm_Sha3_224 | SysHashAlgorithm_Sha3_256
  | SysHashAlgorithm_Sha3_384 | SysHashAlgorithm_Sha3_512

definition sys_hash_algorithm_as_path_segment :: "sys_hash_algorithm \<Rightarrow> string" where
  "sys_hash_algorithm_as_path_segment self =
     (case self of
        SysHashAlgorithm_Sha2_224 \<Rightarrow> ''sha2-224''
      | SysHashAlgorithm_Sha2_256 \<Rightarrow> ''sha2-256''
      | SysHashAlgorithm_Sha2_384 \<Rightarrow> ''sha2-384''
      | SysHashAlgorithm_Sha2_512 \<Rightarrow> ''sha2-512''
      | SysHashAlgorithm_Sha3_224 \<Rightarrow> ''sha3-224''
      | SysHashAlgorithm_Sha3_256 \<Rightarrow> ''sha3-256''
      | SysHashAlgorithm_Sha3_384 \<Rightarrow> ''sha3-384''
      | SysHashAlgorithm_Sha3_512 \<Rightarrow> ''sha3-512'')"

datatype sys_tools_output_format =
    SysToolsOutputFormat_Hex | SysToolsOutputFormat_Base64

record sys_random_request =
  sys_random_request_bytes :: "64 word option"
  sys_random_request_format :: "sys_tools_output_format option"

definition sys_random_request_default :: sys_random_request where
  "sys_random_request_default =
     \<lparr>sys_random_request_bytes = None, sys_random_request_format = None\<rparr>"

definition sys_random_request_new :: sys_random_request where
  "sys_random_request_new = sys_random_request_default"

definition sys_random_request_with_bytes ::
  "sys_random_request \<Rightarrow> 64 word \<Rightarrow> sys_random_request" where
  "sys_random_request_with_bytes self bytes =
     self\<lparr>sys_random_request_bytes := Some bytes\<rparr>"

definition sys_random_request_with_format ::
  "sys_random_request \<Rightarrow> sys_tools_output_format \<Rightarrow> sys_random_request" where
  "sys_random_request_with_format self fmt =
     self\<lparr>sys_random_request_format := Some fmt\<rparr>"

definition MAX_SYS_RANDOM_BYTES :: "64 word" where
  "MAX_SYS_RANDOM_BYTES = 1048576"

definition validate_sys_random_bytes :: "64 word \<Rightarrow> unit res" where
  "validate_sys_random_bytes bytes =
     (if bytes = 0 then Inl (InvalidParameter
       ''system random byte count must be greater than zero'')
        else (if MAX_SYS_RANDOM_BYTES < bytes then Inl (InvalidParameter
          (''system random byte count must not exceed '' @ dec_string (unat
          MAX_SYS_RANDOM_BYTES)))
           else Inr ()))"

definition sys_random_request_validate :: "sys_random_request \<Rightarrow> unit res" where
  "sys_random_request_validate self =
     (case sys_random_request_bytes self of
        None \<Rightarrow> Inr ()
      | Some bytes \<Rightarrow> validate_sys_random_bytes bytes)"

record sys_random_response =
  sys_random_response_random_bytes :: string

definition sys_random_response_random_bytes_set ::
  "(string \<Rightarrow> string option) \<Rightarrow> sys_random_response \<Rightarrow>
   string res" where
  "sys_random_response_random_bytes_set decode_base64 self =
     decode_sys_base64_secret decode_base64 (sys_random_response_random_bytes self)"

record sys_hash_request =
  sys_hash_request_input :: string
  sys_hash_request_format :: "sys_tools_output_format option"

definition sys_hash_request_from_base64_input :: "string \<Rightarrow> sys_hash_request" where
  "sys_hash_request_from_base64_input input =
     \<lparr>sys_hash_request_input = input, sys_hash_request_format = None\<rparr>"

definition sys_hash_request_from_input_bytes ::
  "(string \<Rightarrow> string option) \<Rightarrow> string \<Rightarrow>
   sys_hash_request res" where
  "sys_hash_request_from_input_bytes encode_base64 input =
     rbind (encode_sys_base64_secret encode_base64 input) (\<lambda>v.
     Inr \<lparr>sys_hash_request_input = v, sys_hash_request_format = None\<rparr>)"

definition sys_hash_request_with_format ::
  "sys_hash_request \<Rightarrow> sys_tools_output_format \<Rightarrow> sys_hash_request" where
  "sys_hash_request_with_format self fmt =
     self\<lparr>sys_hash_request_format := Some fmt\<rparr>"

record sys_hash_response =
  sys_hash_response_sum :: string

definition sys_hash_response_sum_bytes ::
  "(string \<Rightarrow> string option) \<Rightarrow> sys_hash_response \<Rightarrow>
   string res" where
  "sys_hash_response_sum_bytes decode_base64 self =
     decode_sys_base64_secret decode_base64 (sys_hash_response_sum self)"

record namespace_request =
  namespace_request_custom_metadata :: "(string \<times> string) list"

definition namespace_request_default :: namespace_request where
  "namespace_request_default = \<lparr>namespace_request_custom_metadata = []\<rparr>"

definition namespace_request_new :: namespace_request where
  "namespace_request_new = namespace_request_default"

definition namespace_request_with_metadata ::
  "namespace_request \<Rightarrow> string \<Rightarrow> string \<Rightarrow>
   namespace_request" where
  "namespace_request_with_metadata self key val_v =
     self\<lparr>namespace_request_custom_metadata := btree_insert key val_v
       (namespace_request_custom_metadata self)\<rparr>"

record sealable_namespace_request =
  sealable_namespace_request_key_shares :: "8 word"
  sealable_namespace_request_key_threshold :: "8 word"
  sealable_namespace_request_pgp_keys :: "string list"
  sealable_namespace_request_custom_metadata :: "(string \<times> string) list"

definition sys_validate_key_share_options ::
  "8 word \<Rightarrow> 8 word \<Rightarrow> unit res" where
  "sys_validate_key_share_options secret_shares secret_threshold =
     (if secret_shares = 0 then Inl (InvalidParameter
       ''secret_shares must be greater than zero'')
        else (if secret_threshold = 0 then Inl (InvalidParameter
          ''secret_threshold must be greater than zero'')
           else (if secret_shares < secret_threshold then Inl (InvalidParameter
             ''secret_threshold must be less than or equal to secret_shares'')
              else Inr ())))"

definition sys_validate_namespace_key_share_options ::
  "8 word \<Rightarrow> 8 word \<Rightarrow> unit res" where
  "sys_validate_namespace_key_share_options key_shares key_threshold =
     rbind (sys_validate_key_share_options key_shares key_threshold) (\<lambda>_.
     (if 1 < key_shares \<and> key_threshold < 2 then Inl (InvalidParameter
       ''namespace key_threshold must be at least two when multiple shares are configured'')
        else Inr ()))"

definition sealable_namespace_request_new ::
  "8 word \<Rightarrow> 8 word \<Rightarrow> sealable_namespace_request res" where
  "sealable_namespace_request_new key_shares key_threshold =
     rbind (sys_validate_namespace_key_share_options key_shares key_threshold) (\<lambda>_.
     Inr \<lparr>sealable_namespace_request_key_shares = key_shares,
       sealable_namespace_request_key_threshold = key_threshold,
       sealable_namespace_request_pgp_keys = [],
       sealable_namespace_request_custom_metadata = []\<rparr>)"

definition sys_validate_namespace_metadata ::
  "(string \<times> string) list \<Rightarrow> unit res" where
  "sys_validate_namespace_metadata metadata =
     (if MAX_RESPONSE_STRINGS < length metadata then Inl (InvalidParameter
       ''namespace metadata exceeds maximum item count'')
        else each (\<lambda>(key, val_v). (if MAX_SYSTEM_RESPONSE_METADATA_BYTES < length key
          \<or> MAX_SYSTEM_RESPONSE_METADATA_BYTES < length val_v then Inl (InvalidParameter
          ''namespace metadata exceeds byte limit'')
           else (if list_ex is_control (utf8_chars key) \<or> list_ex is_control (utf8_chars
             val_v) then Inl (InvalidParameter
             ''namespace metadata must not contain control characters'')
              else Inr ()))) metadata)"

definition sealable_namespace_request_with_metadata ::
  "sealable_namespace_request \<Rightarrow> string \<Rightarrow> string \<Rightarrow>
   sealable_namespace_request res" where
  "sealable_namespace_request_with_metadata self key val_v =
     rbind (sys_validate_namespace_metadata (sealable_namespace_request_custom_metadata
       (self\<lparr>sealable_namespace_request_custom_metadata := btree_insert key val_v
       (sealable_namespace_request_custom_metadata self)\<rparr>))) (\<lambda>_.
     Inr (self\<lparr>sealable_namespace_request_custom_metadata := btree_insert key val_v
       (sealable_namespace_request_custom_metadata self)\<rparr>))"

definition MAX_NAMESPACE_KEY_SHARES :: nat where
  "MAX_NAMESPACE_KEY_SHARES = 255"

definition MAX_NAMESPACE_PGP_KEY_BYTES :: nat where
  "MAX_NAMESPACE_PGP_KEY_BYTES = 64 * 1024"

definition sys_validate_sealable_namespace_request ::
  "(string \<Rightarrow> bool) \<Rightarrow> sealable_namespace_request \<Rightarrow>
   unit res" where
  "sys_validate_sealable_namespace_request valid_base64 request =
     rbind (sys_validate_namespace_key_share_options (sealable_namespace_request_key_shares
       request) (sealable_namespace_request_key_threshold request)) (\<lambda>_.
     rbind (sys_validate_namespace_metadata (sealable_namespace_request_custom_metadata
       request)) (\<lambda>_.
     (if \<not> (sealable_namespace_request_pgp_keys request = []) \<and> length
       (sealable_namespace_request_pgp_keys request) \<noteq> unat
       (sealable_namespace_request_key_shares request) then Inl (InvalidParameter
       ''namespace PGP key count must equal key share count'')
        else each (\<lambda>key. (if key = [] \<or> MAX_NAMESPACE_PGP_KEY_BYTES < length key
          then Inl (InvalidParameter ''namespace PGP key is empty or exceeds byte limit'')
           else (if \<not> (is_ascii key) \<or> list_ex is_ascii_control key \<or> (\<not>
             is_ok (if valid_base64 key then Inr () else Inl ())) then Inl (InvalidParameter
             ''namespace PGP keys must be canonical standard base64 text'')
              else Inr ()))) (sealable_namespace_request_pgp_keys request))))"

definition sealable_namespace_request_with_pgp_keys ::
  "(string \<Rightarrow> bool) \<Rightarrow> sealable_namespace_request \<Rightarrow>
   string list \<Rightarrow> sealable_namespace_request res" where
  "sealable_namespace_request_with_pgp_keys valid_base64 self keys =
     (let collected = [] in
     rbind (rfold (\<lambda>key collected. (if MAX_NAMESPACE_KEY_SHARES \<le> length collected
       then Inl (InvalidParameter ''namespace PGP key list exceeds maximum share count'')
        else let collected = collected @ [key] in
        Inr collected)) keys collected) (\<lambda>collected.
     rbind (sys_validate_sealable_namespace_request valid_base64
       (self\<lparr>sealable_namespace_request_pgp_keys := collected\<rparr>)) (\<lambda>_.
     Inr (self\<lparr>sealable_namespace_request_pgp_keys := collected\<rparr>))))"

definition sealable_namespace_request_seal_document ::
  "sealable_namespace_request \<Rightarrow> string" where
  "sealable_namespace_request_seal_document self =
     ''seal \"shamir\" { shares = '' @ dec_string (unat (sealable_namespace_request_key_shares
       self)) @ '' threshold = '' @ dec_string (unat (sealable_namespace_request_key_threshold
       self)) @ '' }''"

record sealed_namespace_deletion =
  sealed_namespace_deletion_force :: bool

definition sealed_namespace_deletion_confirm :: sealed_namespace_deletion where
  "sealed_namespace_deletion_confirm = \<lparr>sealed_namespace_deletion_force = False\<rparr>"

definition sealed_namespace_deletion_confirm_recursive :: sealed_namespace_deletion where
  "sealed_namespace_deletion_confirm_recursive =
     \<lparr>sealed_namespace_deletion_force = True\<rparr>"

record rate_limit_quota_config =
  rate_limit_quota_config_rate_limit_exempt_paths :: "string list"
  rate_limit_quota_config_enable_rate_limit_audit_logging :: bool
  rate_limit_quota_config_enable_rate_limit_response_headers :: bool

definition rate_limit_quota_config_default :: rate_limit_quota_config where
  "rate_limit_quota_config_default =
     \<lparr>rate_limit_quota_config_rate_limit_exempt_paths = [],
       rate_limit_quota_config_enable_rate_limit_audit_logging = False,
       rate_limit_quota_config_enable_rate_limit_response_headers = False\<rparr>"

definition rate_limit_quota_config_new :: rate_limit_quota_config where
  "rate_limit_quota_config_new = rate_limit_quota_config_default"

definition rate_limit_quota_config_with_exempt_path ::
  "rate_limit_quota_config \<Rightarrow> string \<Rightarrow> rate_limit_quota_config" where
  "rate_limit_quota_config_with_exempt_path self path =
     self\<lparr>rate_limit_quota_config_rate_limit_exempt_paths := rate_limit_quota_config_rate_limit_exempt_paths
       self @ [path]\<rparr>"

definition rate_limit_quota_config_try_with_exempt_path ::
  "rate_limit_quota_config \<Rightarrow> string \<Rightarrow> rate_limit_quota_config res" where
  "rate_limit_quota_config_try_with_exempt_path self path =
     (if trim_matches (CHR ''/'') path = [] then Inl (InvalidPath
       ''rate limit exempt path must not be empty'')
        else rbind (validate_endpoint_path path) (\<lambda>validated.
        Inr
          (self\<lparr>rate_limit_quota_config_rate_limit_exempt_paths := rate_limit_quota_config_rate_limit_exempt_paths
          self @ [path]\<rparr>)))"

record raft_join_request =
  raft_join_request_leader_api_addr :: string
  raft_join_request_retry :: "bool option"
  raft_join_request_leader_ca_cert :: "string option"
  raft_join_request_leader_client_cert :: "string option"
  raft_join_request_leader_client_key :: "string option"
  raft_join_request_leader_tls_servername :: "string option"
  raft_join_request_auto_join :: "string option"
  raft_join_request_auto_join_scheme :: "string option"
  raft_join_request_auto_join_port :: "16 word option"
  raft_join_request_non_voter :: "bool option"

definition raft_join_request_default :: raft_join_request where
  "raft_join_request_default =
     \<lparr>raft_join_request_leader_api_addr = [], raft_join_request_retry = None,
       raft_join_request_leader_ca_cert = None, raft_join_request_leader_client_cert = None,
       raft_join_request_leader_client_key = None, raft_join_request_leader_tls_servername =
       None, raft_join_request_auto_join = None, raft_join_request_auto_join_scheme = None,
       raft_join_request_auto_join_port = None, raft_join_request_non_voter = None\<rparr>"

definition raft_join_request_new :: "string \<Rightarrow> raft_join_request" where
  "raft_join_request_new leader_api_addr =
     raft_join_request_default\<lparr>raft_join_request_leader_api_addr :=
       leader_api_addr\<rparr>"

definition raft_join_request_with_leader_client_key ::
  "raft_join_request \<Rightarrow> string \<Rightarrow> raft_join_request" where
  "raft_join_request_with_leader_client_key self key =
     self\<lparr>raft_join_request_leader_client_key := Some key\<rparr>"

definition raft_join_request_with_auto_join ::
  "raft_join_request \<Rightarrow> string \<Rightarrow> raft_join_request" where
  "raft_join_request_with_auto_join self auto_join =
     self\<lparr>raft_join_request_auto_join := Some auto_join\<rparr>"

definition raft_join_request_validate ::
  "(string \<Rightarrow> url option) \<Rightarrow> raft_join_request \<Rightarrow> unit res" where
  "raft_join_request_validate parse_url self =
     rbind (rmap_err (\<lambda>_. InvalidParameter
       ''Raft leader_api_addr must be a valid URL'') (case parse_url
       (raft_join_request_leader_api_addr self) of None \<Rightarrow> Inl () | Some u
       \<Rightarrow> Inr u)) (\<lambda>leader_url.
     (if url_scheme leader_url \<noteq> ''https'' then Inl (InvalidParameter
       ''Raft leader_api_addr must use https://'')
        else (case raft_join_request_auto_join_scheme self of
           None \<Rightarrow> (case raft_join_request_auto_join_port self of
              None \<Rightarrow> Inr ()
            | Some port \<Rightarrow> (if port = 0 then Inl (InvalidParameter
              ''Raft auto_join_port must be greater than zero'')
                 else Inr ()))
         | Some scheme_v \<Rightarrow> (if scheme_v \<noteq> ''https'' then Inl
           (InvalidParameter ''Raft auto_join_scheme must be https'')
              else (case raft_join_request_auto_join_port self of
                 None \<Rightarrow> Inr ()
               | Some port \<Rightarrow> (if port = 0 then Inl (InvalidParameter
                 ''Raft auto_join_port must be greater than zero'')
                    else Inr ()))))))"

record raft_peer_request =
  raft_peer_request_server_id :: string
  raft_peer_request_dr_operation_token :: "string option"

definition raft_peer_request_new :: "string \<Rightarrow> raft_peer_request" where
  "raft_peer_request_new server_id =
     \<lparr>raft_peer_request_server_id = server_id,
       raft_peer_request_dr_operation_token = None\<rparr>"

definition raft_peer_request_with_dr_operation_token ::
  "raft_peer_request \<Rightarrow> string \<Rightarrow> raft_peer_request" where
  "raft_peer_request_with_dr_operation_token self token =
     self\<lparr>raft_peer_request_dr_operation_token := Some token\<rparr>"

definition sys_validate_raft_server_id :: "string \<Rightarrow> unit res" where
  "sys_validate_raft_server_id server_id =
     (if server_id = [] then Inl (InvalidParameter ''Raft server_id must not be empty'')
        else (if 256 < length server_id then Inl (InvalidParameter
          ''Raft server_id exceeds maximum length'')
           else (if list_ex is_ascii_control server_id then Inl (InvalidParameter
             ''Raft server_id must not contain control characters'')
              else Inr ())))"

definition raft_peer_request_validate :: "raft_peer_request \<Rightarrow> unit res" where
  "raft_peer_request_validate self =
     sys_validate_raft_server_id (raft_peer_request_server_id self)"

record raft_autopilot_config =
  raft_autopilot_config_cleanup_dead_servers :: "bool option"
  raft_autopilot_config_dead_server_last_contact_threshold :: "string option"
  raft_autopilot_config_last_contact_threshold :: "string option"
  raft_autopilot_config_max_trailing_logs :: "string option"
  raft_autopilot_config_min_quorum :: "string option"
  raft_autopilot_config_server_stabilization_time :: "string option"

definition raft_autopilot_config_default :: raft_autopilot_config where
  "raft_autopilot_config_default =
     \<lparr>raft_autopilot_config_cleanup_dead_servers = None,
       raft_autopilot_config_dead_server_last_contact_threshold = None,
       raft_autopilot_config_last_contact_threshold = None,
       raft_autopilot_config_max_trailing_logs = None, raft_autopilot_config_min_quorum = None,
       raft_autopilot_config_server_stabilization_time = None\<rparr>"

definition raft_autopilot_config_new :: raft_autopilot_config where
  "raft_autopilot_config_new = raft_autopilot_config_default"

definition raft_autopilot_config_with_last_contact_threshold ::
  "raft_autopilot_config \<Rightarrow> string \<Rightarrow> raft_autopilot_config" where
  "raft_autopilot_config_with_last_contact_threshold self threshold =
     self\<lparr>raft_autopilot_config_last_contact_threshold := Some threshold\<rparr>"

definition raft_autopilot_config_try_with_last_contact_threshold ::
  "raft_autopilot_config \<Rightarrow> string \<Rightarrow> raft_autopilot_config res" where
  "raft_autopilot_config_try_with_last_contact_threshold self threshold =
     rbind (validate_duration_parameter threshold ''raft autopilot last_contact_threshold'')
       (\<lambda>_.
     Inr (self\<lparr>raft_autopilot_config_last_contact_threshold := Some threshold\<rparr>))"

definition raft_autopilot_config_with_server_stabilization_time ::
  "raft_autopilot_config \<Rightarrow> string \<Rightarrow> raft_autopilot_config" where
  "raft_autopilot_config_with_server_stabilization_time self duration =
     self\<lparr>raft_autopilot_config_server_stabilization_time := Some duration\<rparr>"

definition raft_autopilot_config_try_with_server_stabilization_time ::
  "raft_autopilot_config \<Rightarrow> string \<Rightarrow> raft_autopilot_config res" where
  "raft_autopilot_config_try_with_server_stabilization_time self duration =
     rbind (validate_duration_parameter duration ''raft autopilot server_stabilization_time'')
       (\<lambda>_.
     Inr (self\<lparr>raft_autopilot_config_server_stabilization_time := Some
       duration\<rparr>))"

definition sys_validate_optional_duration_string ::
  "string option \<Rightarrow> string \<Rightarrow> unit res" where
  "sys_validate_optional_duration_string val_v field =
     (case val_v of
        None \<Rightarrow> Inr ()
      | Some val_v \<Rightarrow> (if \<not> (validate_duration_string val_v False) then Inl
        (InvalidParameter (field @ '' must be a positive duration such as 30s, 5m, or 1h''))
           else Inr ()))"

definition sys_validate_optional_positive_integer ::
  "string option \<Rightarrow> string \<Rightarrow> unit res" where
  "sys_validate_optional_positive_integer val_v field =
     (case val_v of
        None \<Rightarrow> Inr ()
      | Some val_v \<Rightarrow> (if \<not> (is_some_and (\<lambda>number. 0 < number)
        (parse_unsigned 18446744073709551616 val_v)) then Inl (InvalidParameter (field @
        '' must be a positive integer''))
           else Inr ()))"

definition raft_autopilot_config_validate :: "raft_autopilot_config \<Rightarrow> unit res" where
  "raft_autopilot_config_validate self =
     rbind (sys_validate_optional_duration_string
       (raft_autopilot_config_dead_server_last_contact_threshold self)
       ''Raft Autopilot dead_server_last_contact_threshold'') (\<lambda>_.
     rbind (sys_validate_optional_duration_string (raft_autopilot_config_last_contact_threshold
       self) ''Raft Autopilot last_contact_threshold'') (\<lambda>_.
     rbind (sys_validate_optional_duration_string
       (raft_autopilot_config_server_stabilization_time self)
       ''Raft Autopilot server_stabilization_time'') (\<lambda>_.
     rbind (sys_validate_optional_positive_integer (raft_autopilot_config_max_trailing_logs
       self) ''Raft Autopilot max_trailing_logs'') (\<lambda>_.
     sys_validate_optional_positive_integer (raft_autopilot_config_min_quorum self)
       ''Raft Autopilot min_quorum''))))"

record remount_request =
  remount_request_from :: string
  remount_request_to :: string

definition remount_request_new :: "string \<Rightarrow> string \<Rightarrow> remount_request" where
  "remount_request_new src_path dst_path =
     \<lparr>remount_request_from = src_path, remount_request_to = dst_path\<rparr>"

definition sys_validate_remount_endpoint_path ::
  "string \<Rightarrow> string \<Rightarrow> unit res" where
  "sys_validate_remount_endpoint_path path field =
     (if trim_matches (CHR ''/'') path = [] then Inl (InvalidPath (field @
       '' must not be empty''))
        else rbind (validate_endpoint_path path) (\<lambda>segments.
        Inr ()))"

definition remount_request_validate :: "remount_request \<Rightarrow> unit res" where
  "remount_request_validate self =
     rbind (sys_validate_remount_endpoint_path (remount_request_from self) ''remount source'')
       (\<lambda>_.
     rbind (sys_validate_remount_endpoint_path (remount_request_to self)
       ''remount destination'') (\<lambda>_.
     (if trim_matches (CHR ''/'') (remount_request_from self) = trim_matches (CHR ''/'')
       (remount_request_to self) then Inl (InvalidParameter
       ''remount source and destination must differ'')
        else Inr ())))"

record rate_limit_quota_request =
  rate_limit_quota_request_path :: "string option"
  rate_limit_quota_request_rate :: f64
  rate_limit_quota_request_interval :: "string option"
  rate_limit_quota_request_block_interval :: "string option"
  rate_limit_quota_request_role :: "string option"

definition rate_limit_quota_request_new :: "f64 \<Rightarrow> rate_limit_quota_request" where
  "rate_limit_quota_request_new rate =
     \<lparr>rate_limit_quota_request_path = None, rate_limit_quota_request_rate = rate,
       rate_limit_quota_request_interval = None,
       rate_limit_quota_request_block_interval = None,
       rate_limit_quota_request_role = None\<rparr>"

definition rate_limit_quota_request_with_path ::
  "rate_limit_quota_request \<Rightarrow> string \<Rightarrow> rate_limit_quota_request" where
  "rate_limit_quota_request_with_path self path =
     self\<lparr>rate_limit_quota_request_path := Some path\<rparr>"

definition rate_limit_quota_request_try_with_path ::
  "rate_limit_quota_request \<Rightarrow> string \<Rightarrow> rate_limit_quota_request res" where
  "rate_limit_quota_request_try_with_path self path =
     rbind (validate_endpoint_path path) (\<lambda>validated.
     Inr (self\<lparr>rate_limit_quota_request_path := Some path\<rparr>))"

definition rate_limit_quota_request_with_interval ::
  "rate_limit_quota_request \<Rightarrow> string \<Rightarrow> rate_limit_quota_request" where
  "rate_limit_quota_request_with_interval self interval =
     self\<lparr>rate_limit_quota_request_interval := Some interval\<rparr>"

definition rate_limit_quota_request_try_with_interval ::
  "rate_limit_quota_request \<Rightarrow> string \<Rightarrow> rate_limit_quota_request res" where
  "rate_limit_quota_request_try_with_interval self interval =
     rbind (validate_duration_parameter interval ''rate limit interval'') (\<lambda>_.
     Inr (self\<lparr>rate_limit_quota_request_interval := Some interval\<rparr>))"

definition rate_limit_quota_request_with_block_interval ::
  "rate_limit_quota_request \<Rightarrow> string \<Rightarrow> rate_limit_quota_request" where
  "rate_limit_quota_request_with_block_interval self block_interval =
     self\<lparr>rate_limit_quota_request_block_interval := Some block_interval\<rparr>"

definition rate_limit_quota_request_try_with_block_interval ::
  "rate_limit_quota_request \<Rightarrow> string \<Rightarrow> rate_limit_quota_request res" where
  "rate_limit_quota_request_try_with_block_interval self block_interval =
     rbind (validate_duration_parameter block_interval ''rate limit block_interval'')
       (\<lambda>_.
     Inr (self\<lparr>rate_limit_quota_request_block_interval := Some block_interval\<rparr>))"

definition rate_limit_quota_request_with_role ::
  "rate_limit_quota_request \<Rightarrow> string \<Rightarrow> rate_limit_quota_request" where
  "rate_limit_quota_request_with_role self role =
     self\<lparr>rate_limit_quota_request_role := Some role\<rparr>"

record operator_unseal_request =
  operator_unseal_request_key :: string
  operator_unseal_request_reset :: "bool option"
  operator_unseal_request_migrate :: "bool option"

definition operator_unseal_request_new :: "string \<Rightarrow> operator_unseal_request" where
  "operator_unseal_request_new key =
     \<lparr>operator_unseal_request_key = key, operator_unseal_request_reset = None,
       operator_unseal_request_migrate = None\<rparr>"

record operator_key_shares_request =
  operator_key_shares_request_secret_shares :: "8 word"
  operator_key_shares_request_secret_threshold :: "8 word"
  operator_key_shares_request_stored_shares :: "8 word option"
  operator_key_shares_request_pgp_keys :: "string list"
  operator_key_shares_request_backup :: "bool option"
  operator_key_shares_request_require_verification :: "bool option"

definition operator_key_shares_request_default :: operator_key_shares_request where
  "operator_key_shares_request_default =
     \<lparr>operator_key_shares_request_secret_shares = 0,
       operator_key_shares_request_secret_threshold = 0,
       operator_key_shares_request_stored_shares = None, operator_key_shares_request_pgp_keys =
       [], operator_key_shares_request_backup = None,
       operator_key_shares_request_require_verification = None\<rparr>"

definition operator_key_shares_request_new ::
  "8 word \<Rightarrow> 8 word \<Rightarrow> operator_key_shares_request res" where
  "operator_key_shares_request_new secret_shares secret_threshold =
     rbind (sys_validate_key_share_options secret_shares secret_threshold) (\<lambda>_.
     Inr (operator_key_shares_request_default\<lparr>operator_key_shares_request_secret_shares
       := secret_shares, operator_key_shares_request_secret_threshold :=
       secret_threshold\<rparr>))"

record operator_key_share_update_request =
  operator_key_share_update_request_key :: string
  operator_key_share_update_request_nonce :: string

definition operator_key_share_update_request_new ::
  "string \<Rightarrow> string \<Rightarrow> operator_key_share_update_request" where
  "operator_key_share_update_request_new key nonce =
     \<lparr>operator_key_share_update_request_key = key,
       operator_key_share_update_request_nonce = nonce\<rparr>"

record operator_token_generation_start_request =
  operator_token_generation_start_request_pgp_key :: "string option"

definition operator_token_generation_start_request_default :: operator_token_generation_start_request where
  "operator_token_generation_start_request_default =
     \<lparr>operator_token_generation_start_request_pgp_key = None\<rparr>"

definition operator_token_generation_start_request_new ::
  "operator_token_generation_start_request" where
  "operator_token_generation_start_request_new =
     operator_token_generation_start_request_default"

definition operator_token_generation_start_request_with_pgp_key ::
  "operator_token_generation_start_request \<Rightarrow> string \<Rightarrow>
   operator_token_generation_start_request" where
  "operator_token_generation_start_request_with_pgp_key self pgp_key =
     self\<lparr>operator_token_generation_start_request_pgp_key := Some pgp_key\<rparr>"

record decode_token_request =
  decode_token_request_encoded_token :: string
  decode_token_request_otp :: string

definition decode_token_request_new ::
  "string \<Rightarrow> string \<Rightarrow> decode_token_request" where
  "decode_token_request_new encoded_token otp =
     \<lparr>decode_token_request_encoded_token = encoded_token,
       decode_token_request_otp = otp\<rparr>"

datatype operator_rotate_target =
    OperatorRotateTarget_Root | OperatorRotateTarget_Recovery

definition operator_rotate_target_path_segment :: "operator_rotate_target \<Rightarrow> string" where
  "operator_rotate_target_path_segment self =
     (case self of
        OperatorRotateTarget_Root \<Rightarrow> ''root''
      | OperatorRotateTarget_Recovery \<Rightarrow> ''recovery'')"

datatype internal_router_target =
    InternalRouterTarget_Root | InternalRouterTarget_Storage | InternalRouterTarget_Accessor
  | InternalRouterTarget_Uuid

definition internal_router_target_path_segment :: "internal_router_target \<Rightarrow> string" where
  "internal_router_target_path_segment self =
     (case self of
        InternalRouterTarget_Root \<Rightarrow> ''root''
      | InternalRouterTarget_Storage \<Rightarrow> ''storage''
      | InternalRouterTarget_Accessor \<Rightarrow> ''accessor''
      | InternalRouterTarget_Uuid \<Rightarrow> ''uuid'')"

record dev_bootstrap_options =
  dev_bootstrap_options_secret_shares :: "8 word"
  dev_bootstrap_options_secret_threshold :: "8 word"

definition sys_validate_dev_bootstrap_options ::
  "8 word \<Rightarrow> 8 word \<Rightarrow> unit res" where
  "sys_validate_dev_bootstrap_options secret_shares secret_threshold =
     (if secret_shares = 0 then Inl (InvalidParameter
       ''secret_shares must be greater than zero'')
        else (if secret_threshold = 0 then Inl (InvalidParameter
          ''secret_threshold must be greater than zero'')
           else (if secret_shares < secret_threshold then Inl (InvalidParameter
             ''secret_threshold must be less than or equal to secret_shares'')
              else Inr ())))"

definition dev_bootstrap_options_new ::
  "8 word \<Rightarrow> 8 word \<Rightarrow> dev_bootstrap_options res" where
  "dev_bootstrap_options_new secret_shares secret_threshold =
     rbind (sys_validate_dev_bootstrap_options secret_shares secret_threshold) (\<lambda>_.
     Inr \<lparr>dev_bootstrap_options_secret_shares = secret_shares,
       dev_bootstrap_options_secret_threshold = secret_threshold\<rparr>)"

definition dev_bootstrap_options_single_key :: dev_bootstrap_options where
  "dev_bootstrap_options_single_key =
     \<lparr>dev_bootstrap_options_secret_shares = 1,
       dev_bootstrap_options_secret_threshold = 1\<rparr>"

definition dev_bootstrap_options_default :: dev_bootstrap_options where
  "dev_bootstrap_options_default = dev_bootstrap_options_single_key"

record dev_bootstrap_acknowledgement =
  dev_bootstrap_acknowledgement__private :: unit

definition dev_bootstrap_acknowledgement_confirm_disposable_target ::
  "dev_bootstrap_acknowledgement" where
  "dev_bootstrap_acknowledgement_confirm_disposable_target =
     \<lparr>dev_bootstrap_acknowledgement__private = ()\<rparr>"

datatype lease_duration =
    LeaseDuration_Seconds "64 word" | LeaseDuration_Duration string

record user_lockout_config =
  user_lockout_config_lockout_threshold :: "64 word option"
  user_lockout_config_lockout_duration :: "lease_duration option"
  user_lockout_config_lockout_counter_reset_duration :: "lease_duration option"
  user_lockout_config_lockout_disable :: "bool option"

record mount_config =
  mount_config_description :: "string option"
  mount_config_default_lease_ttl :: "lease_duration option"
  mount_config_max_lease_ttl :: "lease_duration option"
  mount_config_force_no_cache :: "bool option"
  mount_config_audit_non_hmac_request_keys :: "string list option"
  mount_config_audit_non_hmac_response_keys :: "string list option"
  mount_config_listing_visibility :: "string option"
  mount_config_passthrough_request_headers :: "string list option"
  mount_config_allowed_response_headers :: "string list option"
  mount_config_plugin_version :: "string option"
  mount_config_token_type :: "string option"
  mount_config_user_lockout_config :: "user_lockout_config option"

record mount_enable_request =
  mount_enable_request_backend_type :: string
  mount_enable_request_description :: "string option"
  mount_enable_request_config :: "mount_config option"
  mount_enable_request_options :: "(string \<times> string) list"
  mount_enable_request_local :: "bool option"
  mount_enable_request_seal_wrap :: "bool option"
  mount_enable_request_external_entropy_access :: "bool option"

definition mount_enable_request_default :: mount_enable_request where
  "mount_enable_request_default =
     \<lparr>mount_enable_request_backend_type = [], mount_enable_request_description = None,
       mount_enable_request_config = None, mount_enable_request_options = [],
       mount_enable_request_local = None, mount_enable_request_seal_wrap = None,
       mount_enable_request_external_entropy_access = None\<rparr>"

definition mount_enable_request_new :: "string \<Rightarrow> mount_enable_request" where
  "mount_enable_request_new backend_type =
     mount_enable_request_default\<lparr>mount_enable_request_backend_type :=
       backend_type\<rparr>"

definition mount_enable_request_kv2 :: mount_enable_request where
  "mount_enable_request_kv2 =
     (let opts = [] in
     let opts = btree_insert ''version'' ''2'' opts in
     mount_enable_request_default\<lparr>mount_enable_request_backend_type := ''kv'',
       mount_enable_request_options := opts\<rparr>)"

definition mount_enable_request_with_description ::
  "mount_enable_request \<Rightarrow> string \<Rightarrow> mount_enable_request" where
  "mount_enable_request_with_description self description =
     self\<lparr>mount_enable_request_description := Some description\<rparr>"

definition mount_config_default :: mount_config where
  "mount_config_default =
     \<lparr>mount_config_description = None, mount_config_default_lease_ttl = None,
       mount_config_max_lease_ttl = None, mount_config_force_no_cache = None,
       mount_config_audit_non_hmac_request_keys = None,
       mount_config_audit_non_hmac_response_keys = None, mount_config_listing_visibility =
       None, mount_config_passthrough_request_headers = None,
       mount_config_allowed_response_headers = None, mount_config_plugin_version = None,
       mount_config_token_type = None, mount_config_user_lockout_config = None\<rparr>"

definition mount_enable_request_with_default_lease_ttl ::
  "mount_enable_request \<Rightarrow> string \<Rightarrow> mount_enable_request res" where
  "mount_enable_request_with_default_lease_ttl self ttl =
     rbind (validate_duration_parameter ttl ''mount default_lease_ttl'') (\<lambda>_.
     Inr (self\<lparr>mount_enable_request_config := Some ((case_option mount_config_default
       (\<lambda>x. x) (mount_enable_request_config
       self))\<lparr>mount_config_default_lease_ttl := Some (LeaseDuration_Duration
       ttl)\<rparr>)\<rparr>))"

definition mount_enable_request_with_max_lease_ttl ::
  "mount_enable_request \<Rightarrow> string \<Rightarrow> mount_enable_request res" where
  "mount_enable_request_with_max_lease_ttl self ttl =
     rbind (validate_duration_parameter ttl ''mount max_lease_ttl'') (\<lambda>_.
     Inr (self\<lparr>mount_enable_request_config := Some ((case_option mount_config_default
       (\<lambda>x. x) (mount_enable_request_config self))\<lparr>mount_config_max_lease_ttl :=
       Some (LeaseDuration_Duration ttl)\<rparr>)\<rparr>))"

record auth_enable_request =
  auth_enable_request_backend_type :: string
  auth_enable_request_description :: "string option"
  auth_enable_request_config :: "mount_config option"
  auth_enable_request_local :: "bool option"

definition auth_enable_request_default :: auth_enable_request where
  "auth_enable_request_default =
     \<lparr>auth_enable_request_backend_type = [], auth_enable_request_description = None,
       auth_enable_request_config = None, auth_enable_request_local = None\<rparr>"

definition auth_enable_request_new :: "string \<Rightarrow> auth_enable_request" where
  "auth_enable_request_new backend_type =
     auth_enable_request_default\<lparr>auth_enable_request_backend_type :=
       backend_type\<rparr>"

definition auth_enable_request_with_description ::
  "auth_enable_request \<Rightarrow> string \<Rightarrow> auth_enable_request" where
  "auth_enable_request_with_description self description =
     self\<lparr>auth_enable_request_description := Some description\<rparr>"

definition auth_enable_request_with_default_lease_ttl ::
  "auth_enable_request \<Rightarrow> string \<Rightarrow> auth_enable_request res" where
  "auth_enable_request_with_default_lease_ttl self ttl =
     rbind (validate_duration_parameter ttl ''auth default_lease_ttl'') (\<lambda>_.
     Inr (self\<lparr>auth_enable_request_config := Some ((case_option mount_config_default
       (\<lambda>x. x) (auth_enable_request_config self))\<lparr>mount_config_default_lease_ttl
       := Some (LeaseDuration_Duration ttl)\<rparr>)\<rparr>))"

definition auth_enable_request_with_max_lease_ttl ::
  "auth_enable_request \<Rightarrow> string \<Rightarrow> auth_enable_request res" where
  "auth_enable_request_with_max_lease_ttl self ttl =
     rbind (validate_duration_parameter ttl ''auth max_lease_ttl'') (\<lambda>_.
     Inr (self\<lparr>auth_enable_request_config := Some ((case_option mount_config_default
       (\<lambda>x. x) (auth_enable_request_config self))\<lparr>mount_config_max_lease_ttl :=
       Some (LeaseDuration_Duration ttl)\<rparr>)\<rparr>))"

record wrapping_context =
  wrapping_context_client :: client
  wrapping_context_ttl :: header_value

definition sys_validate_wrapping_ttl :: "string \<Rightarrow> unit res" where
  "sys_validate_wrapping_ttl ttl =
     (if validate_duration_string ttl False then Inr ()
        else Inl (InvalidHeader
          ''wrapping TTL must be a positive duration such as 30s, 5m, or 1h''))"

definition wrapping_context_new ::
  "http_env \<Rightarrow> client \<Rightarrow> string \<Rightarrow> wrapping_context res" where
  "wrapping_context_new env client ttl =
     rbind (sys_validate_wrapping_ttl ttl) (\<lambda>_.
     rbind (rmap_err InvalidHeader (header_from_str env ttl)) (\<lambda>ttl.
     Inr \<lparr>wrapping_context_client = client, wrapping_context_ttl = ttl\<rparr>))"

record workflow_write_request =
  workflow_write_request_workflow :: string
  workflow_write_request_description :: "string option"
  workflow_write_request_cas :: "int option"
  workflow_write_request_cas_required :: bool
  workflow_write_request_allow_unauthenticated :: bool

definition MAX_WORKFLOW_DEFINITION_BYTES :: nat where
  "MAX_WORKFLOW_DEFINITION_BYTES = 1024 * 1024"

definition sys_validate_workflow_definition :: "string \<Rightarrow> unit res" where
  "sys_validate_workflow_definition workflow =
     (if workflow = [] then Inl (InvalidParameter ''workflow definition must not be empty'')
        else (if MAX_WORKFLOW_DEFINITION_BYTES < length workflow then Inl (InvalidParameter
          ''workflow definition exceeds byte limit'')
           else (if (CHR 0x00) \<in> set workflow then Inl (InvalidParameter
             ''workflow definition must not contain NUL'')
              else Inr ())))"

definition workflow_write_request_new :: "string \<Rightarrow> workflow_write_request res" where
  "workflow_write_request_new workflow =
     rbind (sys_validate_workflow_definition workflow) (\<lambda>_.
     Inr \<lparr>workflow_write_request_workflow = workflow,
       workflow_write_request_description = None, workflow_write_request_cas = None,
       workflow_write_request_cas_required = False,
       workflow_write_request_allow_unauthenticated = False\<rparr>)"

definition workflow_write_request_with_description ::
  "workflow_write_request \<Rightarrow> string \<Rightarrow> workflow_write_request res" where
  "workflow_write_request_with_description self description =
     rbind (rmap_err (\<lambda>_. InvalidParameter ''workflow description is invalid'')
       (validate_system_response_metadata description)) (\<lambda>_.
     Inr (self\<lparr>workflow_write_request_description := Some description\<rparr>))"

definition workflow_write_request_with_cas ::
  "workflow_write_request \<Rightarrow> int \<Rightarrow> workflow_write_request res" where
  "workflow_write_request_with_cas self ver =
     (if ver < - 1 then Inl (InvalidParameter
       ''workflow cas must be -1 or a non-negative version'')
        else Inr (self\<lparr>workflow_write_request_cas := Some ver\<rparr>))"

definition workflow_write_request_require_cas ::
  "workflow_write_request \<Rightarrow> bool \<Rightarrow> workflow_write_request" where
  "workflow_write_request_require_cas self required =
     self\<lparr>workflow_write_request_cas_required := required\<rparr>"

definition workflow_write_request_allow_unauthenticated_set ::
  "workflow_write_request \<Rightarrow> bool \<Rightarrow> workflow_write_request" where
  "workflow_write_request_allow_unauthenticated_set self allowed =
     self\<lparr>workflow_write_request_allow_unauthenticated := allowed\<rparr>"

definition workflow_data_len :: "workflow_data \<Rightarrow> nat" where
  "workflow_data_len self = length (workflow_data_contents self)"

definition workflow_data_is_empty :: "workflow_data \<Rightarrow> bool" where
  "workflow_data_is_empty self \<longleftrightarrow> workflow_data_contents self = []"

record acl_identity_template_overrides =
  acl_identity_template_overrides_allow_slashes :: bool
  acl_identity_template_overrides_allow_wildcards :: bool

definition acl_identity_template_overrides_acknowledge_slashes ::
  "acl_identity_template_overrides" where
  "acl_identity_template_overrides_acknowledge_slashes =
     \<lparr>acl_identity_template_overrides_allow_slashes = True,
       acl_identity_template_overrides_allow_wildcards = False\<rparr>"

definition acl_identity_template_overrides_acknowledge_wildcards ::
  "acl_identity_template_overrides" where
  "acl_identity_template_overrides_acknowledge_wildcards =
     \<lparr>acl_identity_template_overrides_allow_slashes = False,
       acl_identity_template_overrides_allow_wildcards = True\<rparr>"

definition acl_identity_template_overrides_acknowledge_slashes_and_wildcards ::
  "acl_identity_template_overrides" where
  "acl_identity_template_overrides_acknowledge_slashes_and_wildcards =
     \<lparr>acl_identity_template_overrides_allow_slashes = True,
       acl_identity_template_overrides_allow_wildcards = True\<rparr>"

definition sys_is_false :: "bool \<Rightarrow> bool" where
  "sys_is_false val_v \<longleftrightarrow> \<not> val_v"

record policy_write_request =
  policy_write_request_policy :: string
  policy_write_request_expiration :: "string option"
  policy_write_request_ttl :: "string option"
  policy_write_request_cas :: "int option"
  policy_write_request_cas_required :: "bool option"

definition policy_write_request_default :: policy_write_request where
  "policy_write_request_default =
     \<lparr>policy_write_request_policy = [], policy_write_request_expiration = None,
       policy_write_request_ttl = None, policy_write_request_cas = None,
       policy_write_request_cas_required = None\<rparr>"

definition policy_write_request_new :: "string \<Rightarrow> policy_write_request" where
  "policy_write_request_new policy =
     policy_write_request_default\<lparr>policy_write_request_policy := policy\<rparr>"

definition policy_write_request_with_ttl ::
  "policy_write_request \<Rightarrow> string \<Rightarrow> policy_write_request" where
  "policy_write_request_with_ttl self ttl =
     self\<lparr>policy_write_request_ttl := Some ttl\<rparr>"

definition policy_write_request_validate :: "policy_write_request \<Rightarrow> unit res" where
  "policy_write_request_validate self =
     (if policy_write_request_expiration self \<noteq> None \<and> policy_write_request_ttl
       self \<noteq> None then Inl (InvalidParameter
       ''policy expiration and ttl are mutually exclusive'')
        else (case policy_write_request_ttl self of
           None \<Rightarrow> Inr ()
         | Some ttl \<Rightarrow> validate_duration_parameter ttl ''policy ttl''))"

record policy_patch_request =
  policy_patch_request_policy :: "string option"
  policy_patch_request_expiration :: "string option"
  policy_patch_request_ttl :: "string option"
  policy_patch_request_cas :: "int option"
  policy_patch_request_cas_required :: "bool option"

definition policy_patch_request_new :: policy_patch_request where
  "policy_patch_request_new =
     \<lparr>policy_patch_request_policy = None, policy_patch_request_expiration = None,
       policy_patch_request_ttl = None, policy_patch_request_cas = None,
       policy_patch_request_cas_required = None\<rparr>"

definition policy_patch_request_with_policy ::
  "policy_patch_request \<Rightarrow> string \<Rightarrow> policy_patch_request" where
  "policy_patch_request_with_policy self policy =
     self\<lparr>policy_patch_request_policy := Some policy\<rparr>"

definition policy_patch_request_with_ttl ::
  "policy_patch_request \<Rightarrow> string \<Rightarrow> policy_patch_request" where
  "policy_patch_request_with_ttl self ttl =
     self\<lparr>policy_patch_request_ttl := Some ttl\<rparr>"

definition policy_patch_request_validate :: "policy_patch_request \<Rightarrow> unit res" where
  "policy_patch_request_validate self =
     (if policy_patch_request_policy self = None \<and> policy_patch_request_expiration self =
       None \<and> policy_patch_request_ttl self = None \<and> policy_patch_request_cas self =
       None \<and> policy_patch_request_cas_required self = None then Inl (InvalidParameter
       ''ACL policy patch must select at least one field'')
        else (if policy_patch_request_expiration self \<noteq> None \<and>
          policy_patch_request_ttl self \<noteq> None then Inl (InvalidParameter
          ''policy expiration and ttl are mutually exclusive'')
           else rbind (case policy_patch_request_ttl self of
              None \<Rightarrow> Inr ()
            | Some ttl \<Rightarrow> validate_duration_parameter ttl ''policy ttl'')
              (\<lambda>_.
           (if is_some_and (\<lambda>cas. cas < 1) (policy_patch_request_cas self) then Inl
             (InvalidParameter
             ''ACL policy PATCH cas must be a positive existing policy version'')
              else Inr ()))))"

record password_policy_write_request =
  password_policy_write_request_policy :: string

definition password_policy_write_request_new ::
  "string \<Rightarrow> password_policy_write_request" where
  "password_policy_write_request_new policy =
     \<lparr>password_policy_write_request_policy = policy\<rparr>"

datatype capability =
    Capability_Create | Capability_Read | Capability_Update | Capability_Delete
  | Capability_List | Capability_Patch | Capability_Sudo | Capability_Deny | Capability_Root
  | Capability_Unknown string

definition capability_from_name :: "string \<Rightarrow> capability" where
  "capability_from_name name =
     (if name = ''create'' then Capability_Create
        else (if name = ''read'' then Capability_Read
           else (if name = ''update'' then Capability_Update
              else (if name = ''delete'' then Capability_Delete
                 else (if name = ''list'' then Capability_List
                    else (if name = ''patch'' then Capability_Patch
                       else (if name = ''sudo'' then Capability_Sudo
                          else (if name = ''deny'' then Capability_Deny
                             else (if name = ''root'' then Capability_Root
                             else Capability_Unknown name)))))))))"

definition capability_as_str :: "capability \<Rightarrow> string" where
  "capability_as_str self =
     (case self of
        Capability_Create \<Rightarrow> ''create''
      | Capability_Read \<Rightarrow> ''read''
      | Capability_Update \<Rightarrow> ''update''
      | Capability_Delete \<Rightarrow> ''delete''
      | Capability_List \<Rightarrow> ''list''
      | Capability_Patch \<Rightarrow> ''patch''
      | Capability_Sudo \<Rightarrow> ''sudo''
      | Capability_Deny \<Rightarrow> ''deny''
      | Capability_Root \<Rightarrow> ''root''
      | Capability_Unknown name \<Rightarrow> name)"

record capability_view =
  capability_view_capabilities :: "string list"

definition capability_view_raw :: "capability_view \<Rightarrow> string list" where
  "capability_view_raw self = capability_view_capabilities self"

definition capability_view_iter :: "capability_view \<Rightarrow> capability list" where
  "capability_view_iter self = map capability_from_name (capability_view_capabilities self)"

definition capability_view_contains_name ::
  "capability_view \<Rightarrow> string \<Rightarrow> bool" where
  "capability_view_contains_name self capability \<longleftrightarrow>
     list_ex (\<lambda>candidate. candidate = capability) (capability_view_capabilities self)"

definition capability_view_contains ::
  "capability_view \<Rightarrow> capability \<Rightarrow> bool" where
  "capability_view_contains self capability \<longleftrightarrow>
     capability_view_contains_name self (capability_as_str capability)"

definition capability_view_is_denied :: "capability_view \<Rightarrow> bool" where
  "capability_view_is_denied self \<longleftrightarrow>
     capability_view_contains_name self (capability_as_str Capability_Deny)"

definition capability_view_is_permitted :: "capability_view \<Rightarrow> bool" where
  "capability_view_is_permitted self \<longleftrightarrow>
     \<not> (capability_view_capabilities self = []) \<and> \<not> (capability_view_is_denied
       self)"

definition capability_view_allows ::
  "capability_view \<Rightarrow> capability \<Rightarrow> bool" where
  "capability_view_allows self capability \<longleftrightarrow>
     \<not> (capability_view_is_denied self) \<and> (capability_view_contains_name self
       (capability_as_str Capability_Root) \<or> capability_view_contains self capability)"

definition capability_view_can_create :: "capability_view \<Rightarrow> bool" where
  "capability_view_can_create self \<longleftrightarrow>
     capability_view_allows self Capability_Create"

definition capability_view_can_read :: "capability_view \<Rightarrow> bool" where
  "capability_view_can_read self \<longleftrightarrow>
     capability_view_allows self Capability_Read"

definition capability_view_can_update :: "capability_view \<Rightarrow> bool" where
  "capability_view_can_update self \<longleftrightarrow>
     capability_view_allows self Capability_Update"

definition capability_view_can_delete :: "capability_view \<Rightarrow> bool" where
  "capability_view_can_delete self \<longleftrightarrow>
     capability_view_allows self Capability_Delete"

definition capability_view_can_list :: "capability_view \<Rightarrow> bool" where
  "capability_view_can_list self \<longleftrightarrow>
     capability_view_allows self Capability_List"

definition capability_view_can_patch :: "capability_view \<Rightarrow> bool" where
  "capability_view_can_patch self \<longleftrightarrow>
     capability_view_allows self Capability_Patch"

definition capability_view_can_sudo :: "capability_view \<Rightarrow> bool" where
  "capability_view_can_sudo self \<longleftrightarrow>
     capability_view_allows self Capability_Sudo"

record resultant_acl_path =
  resultant_acl_path_capabilities :: "string list"

definition resultant_acl_path_capabilities_set ::
  "resultant_acl_path \<Rightarrow> capability_view" where
  "resultant_acl_path_capabilities_set self =
     \<lparr>capability_view_capabilities = resultant_acl_path_capabilities self\<rparr>"

record mfa_validate_request =
  mfa_validate_request_mfa_request_id :: string
  mfa_validate_request_mfa_payload :: "(string \<times> string list) list"

definition mfa_validate_request_new :: "string \<Rightarrow> mfa_validate_request" where
  "mfa_validate_request_new mfa_request_id =
     \<lparr>mfa_validate_request_mfa_request_id = mfa_request_id,
       mfa_validate_request_mfa_payload = []\<rparr>"

definition mfa_validate_request_with_passcode ::
  "mfa_validate_request \<Rightarrow> string \<Rightarrow> string \<Rightarrow>
   mfa_validate_request" where
  "mfa_validate_request_with_passcode self method_id_or_name passcode =
     self\<lparr>mfa_validate_request_mfa_payload := btree_insert method_id_or_name
       (case_option [] (\<lambda>x. x) (map_of (mfa_validate_request_mfa_payload self)
       method_id_or_name) @ [passcode]) (mfa_validate_request_mfa_payload self)\<rparr>"

definition mfa_validate_request_with_passcodes ::
  "mfa_validate_request \<Rightarrow> string \<Rightarrow> string list \<Rightarrow>
   mfa_validate_request" where
  "mfa_validate_request_with_passcodes self method_id_or_name passcodes =
     self\<lparr>mfa_validate_request_mfa_payload := btree_insert method_id_or_name
       (case_option [] (\<lambda>x. x) (map_of (mfa_validate_request_mfa_payload self)
       method_id_or_name) @ passcodes) (mfa_validate_request_mfa_payload self)\<rparr>"

definition mfa_validate_request_validate :: "mfa_validate_request \<Rightarrow> unit res" where
  "mfa_validate_request_validate self =
     (if trim (mfa_validate_request_mfa_request_id self) = [] then Inl (InvalidParameter
       ''MFA request ID must not be empty'')
        else (if mfa_validate_request_mfa_payload self = [] then Inl (InvalidParameter
          ''MFA validation requires at least one method credential'')
           else (if MAX_RESPONSE_STRINGS < length (mfa_validate_request_mfa_payload self) then
             Inl (InvalidParameter ''MFA validation method count exceeds item limit'')
              else each (\<lambda>(verb, passcodes). (if trim verb = [] then Inl
                (InvalidParameter ''MFA validation method IDs must not be empty'')
                 else (if passcodes = [] \<or> MAX_RESPONSE_STRINGS < length passcodes then Inl
                   (InvalidParameter
                   ''MFA validation passcode list must be non-empty and bounded'')
                    else Inr ()))) (mfa_validate_request_mfa_payload self))))"

record capabilities =
  capabilities_capabilities :: "string list"
  capabilities_by_path :: "(string \<times> string list) list"

definition capabilities_single_path :: "capabilities \<Rightarrow> capability_view" where
  "capabilities_single_path self =
     \<lparr>capability_view_capabilities = capabilities_capabilities self\<rparr>"

definition capabilities_is_permitted :: "capabilities \<Rightarrow> bool" where
  "capabilities_is_permitted self \<longleftrightarrow>
     capability_view_is_permitted (capabilities_single_path self)"

definition capabilities_for_path ::
  "capabilities \<Rightarrow> string \<Rightarrow> capability_view option" where
  "capabilities_for_path self path =
     (let path = dropWhile (\<lambda>c. c = CHR ''/'') path in
     map_option (\<lambda>capabilities.
       \<lparr>capability_view_capabilities = capabilities\<rparr>) (map_of
       (capabilities_by_path self) path))"

definition capabilities_paths ::
  "capabilities \<Rightarrow> (string \<times> capability_view) list" where
  "capabilities_paths self =
     map (\<lambda>(path, capabilities). (path,
       \<lparr>capability_view_capabilities = capabilities\<rparr>)) (capabilities_by_path
       self)"

definition capabilities_can_read_path :: "capabilities \<Rightarrow> string \<Rightarrow> bool" where
  "capabilities_can_read_path self path \<longleftrightarrow>
     is_some_and capability_view_can_read (capabilities_for_path self path)"

definition capabilities_can_update_path ::
  "capabilities \<Rightarrow> string \<Rightarrow> bool" where
  "capabilities_can_update_path self path \<longleftrightarrow>
     is_some_and capability_view_can_update (capabilities_for_path self path)"

definition capabilities_can_delete_path ::
  "capabilities \<Rightarrow> string \<Rightarrow> bool" where
  "capabilities_can_delete_path self path \<longleftrightarrow>
     is_some_and capability_view_can_delete (capabilities_for_path self path)"

definition capabilities_can_list_path :: "capabilities \<Rightarrow> string \<Rightarrow> bool" where
  "capabilities_can_list_path self path \<longleftrightarrow>
     is_some_and capability_view_can_list (capabilities_for_path self path)"

record audit_enable_request =
  audit_enable_request_backend_type :: string
  audit_enable_request_description :: "string option"
  audit_enable_request_options :: "(string \<times> string) list"
  audit_enable_request_local :: "bool option"

definition audit_enable_request_default :: audit_enable_request where
  "audit_enable_request_default =
     \<lparr>audit_enable_request_backend_type = [], audit_enable_request_description = None,
       audit_enable_request_options = [], audit_enable_request_local = None\<rparr>"

definition audit_enable_request_new :: "string \<Rightarrow> audit_enable_request" where
  "audit_enable_request_new backend_type =
     audit_enable_request_default\<lparr>audit_enable_request_backend_type :=
       backend_type\<rparr>"

definition audit_enable_request_with_description ::
  "audit_enable_request \<Rightarrow> string \<Rightarrow> audit_enable_request" where
  "audit_enable_request_with_description self description =
     self\<lparr>audit_enable_request_description := Some description\<rparr>"

record audited_request_header_config =
  audited_request_header_config_hmac :: bool

definition audited_request_header_config_new ::
  "bool \<Rightarrow> audited_request_header_config" where
  "audited_request_header_config_new hmac =
     \<lparr>audited_request_header_config_hmac = hmac\<rparr>"

datatype plugin_type =
    PluginType_Auth | PluginType_Database | PluginType_Secret

definition plugin_type_as_path_segment :: "plugin_type \<Rightarrow> string" where
  "plugin_type_as_path_segment self =
     (case self of
        PluginType_Auth \<Rightarrow> ''auth''
      | PluginType_Database \<Rightarrow> ''database''
      | PluginType_Secret \<Rightarrow> ''secret'')"

datatype raft_peer_operation =
    RaftPeerOperation_Remove | RaftPeerOperation_Promote | RaftPeerOperation_Demote

definition raft_peer_operation_as_path_segment :: "raft_peer_operation \<Rightarrow> string" where
  "raft_peer_operation_as_path_segment self =
     (case self of
        RaftPeerOperation_Remove \<Rightarrow> ''remove-peer''
      | RaftPeerOperation_Promote \<Rightarrow> ''promote''
      | RaftPeerOperation_Demote \<Rightarrow> ''demote'')"

definition client_sys :: unit where
  "client_sys = ()"

definition sys_logger_path :: "string \<Rightarrow> string res" where
  "sys_logger_path name =
     rbind (validate_mount_path name) (\<lambda>segments.
     (if length segments \<noteq> 1 then Inl (InvalidPath
       ''logger name must be a single path segment'')
        else Inr (join_with ''/'' [''sys/loggers'', segments ! 0])))"

definition sys_workflow_path :: "string \<Rightarrow> string \<Rightarrow> string res" where
  "sys_workflow_path pre path =
     rbind (validate_endpoint_path path) (\<lambda>segments.
     (if segments = [] then Inl (InvalidPath ''workflow path must not be empty'')
        else Inr (pre @ ''/'' @ join_with ''/'' segments)))"

record operator_init_request =
  operator_init_request_secret_shares :: "8 word option"
  operator_init_request_secret_threshold :: "8 word option"
  operator_init_request_pgp_keys :: "string list"
  operator_init_request_root_token_pgp_key :: "string option"
  operator_init_request_recovery_shares :: "8 word option"
  operator_init_request_recovery_threshold :: "8 word option"
  operator_init_request_recovery_pgp_keys :: "string list"
  operator_init_request_stored_shares :: "8 word option"

record operator_unseal_payload =
  operator_unseal_payload_key :: string
  operator_unseal_payload_reset :: "bool option"
  operator_unseal_payload_migrate :: "bool option"

record unseal_payload =
  unseal_payload_key :: string

record workflow_write_payload =
  workflow_write_payload_workflow :: string
  workflow_write_payload_description :: "string option"
  workflow_write_payload_cas :: "int option"
  workflow_write_payload_cas_required :: bool
  workflow_write_payload_allow_unauthenticated :: bool

record sys_random_payload =
  sys_random_payload_format :: "sys_tools_output_format option"

definition sys_random_path ::
  "sys_random_source option \<Rightarrow> 64 word option \<Rightarrow> string" where
  "sys_random_path source bytes =
     (let segments = [''sys/tools/random''] in
     let bytes = map_option (\<lambda>val_v. dec_string (unat val_v)) bytes in
     let segments = (case source of
        None \<Rightarrow> segments
      | Some source \<Rightarrow> segments @ [sys_random_source_as_path_segment source]) in
     let segments = (case bytes of
        None \<Rightarrow> segments
      | Some bytes \<Rightarrow> segments @ [bytes]) in
     join_with ''/'' segments)"

record sys_hash_payload =
  sys_hash_payload_input :: string
  sys_hash_payload_format :: "sys_tools_output_format option"

definition sys_hash_path :: "sys_hash_algorithm \<Rightarrow> string" where
  "sys_hash_path algorithm =
     join_with ''/'' [''sys/tools/hash'', sys_hash_algorithm_as_path_segment algorithm]"

record operator_key_share_update_payload =
  operator_key_share_update_payload_key :: string
  operator_key_share_update_payload_nonce :: string

definition sys_rotate_init_path :: "operator_rotate_target \<Rightarrow> string" where
  "sys_rotate_init_path target =
     ''sys/rotate/'' @ operator_rotate_target_path_segment target @ ''/init''"

definition sys_rotate_update_path :: "operator_rotate_target \<Rightarrow> string" where
  "sys_rotate_update_path target =
     ''sys/rotate/'' @ operator_rotate_target_path_segment target @ ''/update''"

definition sys_rotate_verify_path :: "operator_rotate_target \<Rightarrow> string" where
  "sys_rotate_verify_path target =
     ''sys/rotate/'' @ operator_rotate_target_path_segment target @ ''/verify''"

definition sys_rotation_verify_cancel_path :: "operator_rotate_target \<Rightarrow> string" where
  "sys_rotation_verify_cancel_path target =
     ''sys/rotation/'' @ operator_rotate_target_path_segment target @ ''/verify''"

record operator_rotation_backup =
  operator_rotation_backup_nonce :: "string option"
  operator_rotation_backup_keys :: "(string \<times> string list) list"
  operator_rotation_backup_keys_base64 :: "(string \<times> string list) list"

definition sys_rotate_backup_path :: "operator_rotate_target \<Rightarrow> string" where
  "sys_rotate_backup_path target =
     ''sys/rotate/'' @ operator_rotate_target_path_segment target @ ''/backup''"

record operator_recovery_key_backup =
  operator_recovery_key_backup_nonce :: "string option"
  operator_recovery_key_backup_keys :: "(string \<times> string) list"
  operator_recovery_key_backup_keys_base64 :: "(string \<times> string) list"

record operator_rotation_config =
  operator_rotation_config_enabled :: "bool option"
  operator_rotation_config_interval :: "lease_duration option"
  operator_rotation_config_max_operations :: "64 word option"

definition sys_raw_storage_path :: "string \<Rightarrow> string res" where
  "sys_raw_storage_path path =
     rbind (validate_endpoint_path path) (\<lambda>segments.
     (if segments = [] then Inl (InvalidPath ''raw storage path must not be empty'')
        else Inr (join_with ''/'' [''sys/raw'', join_with ''/'' segments])))"

record raw_write_payload =
  raw_write_payload_value :: string
  raw_write_payload_compression_type :: "string option"
  raw_write_payload_encoding :: raw_encoding

definition MAX_SYS_PPROF_SECONDS :: "16 word" where
  "MAX_SYS_PPROF_SECONDS = 300"

definition sys_validate_pprof_options ::
  "pprof_profile \<Rightarrow> pprof_options \<Rightarrow> unit res" where
  "sys_validate_pprof_options profile opts =
     rbind (case pprof_options_seconds opts of
        None \<Rightarrow> Inr ()
      | Some seconds \<Rightarrow> (if \<not> (profile = PprofProfile_Profile \<or> profile =
        PprofProfile_Trace) then Inl (InvalidParameter
        ''pprof seconds is supported only for profile and trace'')
           else (if seconds = 0 \<or> MAX_SYS_PPROF_SECONDS < seconds then Inl
             (InvalidParameter (''pprof seconds must be between 1 and '' @ dec_string (unat
             MAX_SYS_PPROF_SECONDS)))
              else Inr ()))) (\<lambda>_.
     (case pprof_options_debug opts of
        None \<Rightarrow> Inr ()
      | Some debug \<Rightarrow> (if \<not> (profile = PprofProfile_Goroutine) then Inl
        (InvalidParameter ''pprof debug is supported only for goroutine'')
           else (if 2 < debug then Inl (InvalidParameter ''pprof debug must be 0, 1, or 2'')
              else Inr ()))))"

definition sys_pprof_path :: "pprof_profile \<Rightarrow> string" where
  "sys_pprof_path profile =
     join_with ''/'' [''sys/pprof'', pprof_profile_as_path_segment profile]"

definition sys_path ::
  "string \<Rightarrow> string \<Rightarrow> string option \<Rightarrow> string res" where
  "sys_path pre mount_path suf =
     (let segments = [pre] in
     rbind (validate_mount_path mount_path) (\<lambda>p.
     let segments = segments @ p in
     let segments = (case suf of
        None \<Rightarrow> segments
      | Some suf \<Rightarrow> segments @ [suf]) in
     Inr (join_with ''/'' segments)))"

definition sys_internal_ui_mount_path :: "string \<Rightarrow> string res" where
  "sys_internal_ui_mount_path path =
     (if trim_matches (CHR ''/'') path = [] then Inl (InvalidPath
       ''UI mount path must not be empty'')
        else rbind (validate_endpoint_path path) (\<lambda>p.
        Inr (join_with ''/'' [''sys/internal/ui/mounts'', join_with ''/'' p])))"

definition sys_ui_header_path ::
  "(string \<Rightarrow> string option) \<Rightarrow> string \<Rightarrow> string res" where
  "sys_ui_header_path header_name name =
     rbind (rmap_err (\<lambda>_. InvalidParameter
       ''UI header name must be a valid HTTP header name'') (case header_name name of None
       \<Rightarrow> Inl () | Some n \<Rightarrow> Inr n)) (\<lambda>name.
     Inr (join_with ''/'' [''sys/config/ui/headers'', name]))"

record ui_header_config =
  ui_header_config_values :: "string list"
  ui_header_config_multivalue :: "bool option"
  ui_header_config_value :: "string option"

record policy_patch_with_identity_template_overrides =
  policy_patch_with_identity_template_overrides_request :: policy_patch_request
  policy_patch_with_identity_template_overrides_allow_slashes_in_identity_templates :: bool
  policy_patch_with_identity_template_overrides_allow_wildcards_in_identity_templates :: bool

record policy_write_with_identity_template_overrides =
  policy_write_with_identity_template_overrides_request :: policy_write_request
  policy_write_with_identity_template_overrides_allow_slashes_in_identity_templates :: bool
  policy_write_with_identity_template_overrides_allow_wildcards_in_identity_templates :: bool

definition sys_validate_capability_paths :: "string list \<Rightarrow> string list res" where
  "sys_validate_capability_paths paths =
     (let validated = [] in
     rbind (rfold (\<lambda>path validated. (if trim_matches (CHR ''/'') path = [] then Inl
       (InvalidPath ''capability path must not be empty'')
        else rbind (validate_endpoint_path path) (\<lambda>p.
        let validated = validated @ [join_with ''/'' p] in
        Inr validated))) paths validated) (\<lambda>validated.
     (if validated = [] then Inl (InvalidPath ''at least one capability path is required'')
        else Inr validated)))"

record capabilities_payload =
  capabilities_payload_paths :: "string list"
  capabilities_payload_token :: "string option"
  capabilities_payload_accessor :: "string option"

record mfa_validate_auth =
  mfa_validate_auth_client_token :: string
  mfa_validate_auth_accessor :: string
  mfa_validate_auth_policies :: "string list"
  mfa_validate_auth_token_policies :: "string list"
  mfa_validate_auth_identity_policies :: "string list option"
  mfa_validate_auth_metadata :: "(string \<times> string) list"
  mfa_validate_auth_orphan :: bool
  mfa_validate_auth_entity_id :: "string option"
  mfa_validate_auth_lease_duration :: "64 word"
  mfa_validate_auth_renewable :: bool

record mfa_validate_envelope =
  mfa_validate_envelope_auth :: "mfa_validate_auth option"

record audit_device =
  audit_device_backend_type :: string
  audit_device_description :: "string option"
  audit_device_options :: "(string \<times> string) list"
  audit_device_local :: bool

record audit_hash_payload =
  audit_hash_payload_input :: string

definition sys_audited_request_header_path ::
  "(string \<Rightarrow> string option) \<Rightarrow> string \<Rightarrow> string res" where
  "sys_audited_request_header_path header_name name =
     rbind (rmap_err (\<lambda>_. InvalidParameter
       ''audited request header name must be a valid HTTP header name'') (case header_name name
       of None \<Rightarrow> Inl () | Some n \<Rightarrow> Inr n)) (\<lambda>name.
     Inr (join_with ''/'' [''sys/config/auditing/request-headers'', name]))"

record lease_lookup_payload =
  lease_lookup_payload_lease_id :: string

definition sys_validate_lease_id :: "string \<Rightarrow> string res" where
  "sys_validate_lease_id lease_id =
     (if lease_id = [] then Inl (InvalidPath ''lease ID must not be empty'')
        else (if 512 < length lease_id then Inl (InvalidPath
          ''lease ID exceeds maximum allowed length'')
           else (if list_ex is_ascii_control lease_id then Inl (InvalidPath
             ''lease ID must not contain control characters'')
              else Inr lease_id)))"

definition sys_validate_query_string_value ::
  "string \<Rightarrow> string \<Rightarrow> unit res" where
  "sys_validate_query_string_value val_v kind =
     (if val_v = [] then Inl (InvalidPath (kind @ '' must not be empty''))
        else (if list_ex is_ascii_control val_v then Inl (InvalidPath (kind @
          '' must not contain control characters''))
           else Inr ()))"

definition sys_validate_lease_prefix :: "string \<Rightarrow> string res" where
  "sys_validate_lease_prefix pre =
     (if pre = [] then Inl (InvalidPath ''lease prefix must not be empty'')
        else (if 512 < length pre then Inl (InvalidPath
          ''lease prefix exceeds maximum allowed length'')
           else (if list_ex is_ascii_control pre then Inl (InvalidPath
             ''lease prefix must not contain control characters'')
              else rbind (validate_endpoint_path pre) (\<lambda>p.
              Inr (join_with ''/'' p)))))"

record lease_renew_payload =
  lease_renew_payload_lease_id :: string
  lease_renew_payload_increment :: "64 word option"

record lease_renewal =
  lease_renewal_lease_id :: string
  lease_renewal_lease_duration :: "64 word"
  lease_renewal_renewable :: bool

record lease_revoke_payload =
  lease_revoke_payload_lease_id :: string

definition sys_plugin_catalog_type_path :: "plugin_type \<Rightarrow> string res" where
  "sys_plugin_catalog_type_path plugin_type =
     Inr (join_with ''/'' [''sys/plugins/catalog'', plugin_type_as_path_segment plugin_type])"

record plugin_register_request =
  plugin_register_request_version :: "string option"
  plugin_register_request_sha256 :: string
  plugin_register_request_command :: string
  plugin_register_request_args :: "string list"
  plugin_register_request_env :: "string list"
  plugin_register_request_oci :: "bool option"

definition sys_validate_sha256_hex :: "string \<Rightarrow> string \<Rightarrow> unit res" where
  "sys_validate_sha256_hex val_v field =
     (if length val_v \<noteq> 64 then Inl (InvalidPath (field @
       '' must be a 64-character SHA-256 hex digest''))
        else (if \<not> (list_all (\<lambda>byte_v. byte (CHR ''0'') \<le> byte byte_v \<and>
          byte byte_v \<le> byte (CHR ''9'') \<or> byte (CHR ''a'') \<le> byte byte_v \<and>
          byte byte_v \<le> byte (CHR ''f'')) val_v) then Inl (InvalidPath (field @
          '' must contain only lowercase hexadecimal characters''))
           else Inr ()))"

record plugin_register_payload =
  plugin_register_payload_version :: "string option"
  plugin_register_payload_sha256 :: string
  plugin_register_payload_command :: string
  plugin_register_payload_args :: "string list"
  plugin_register_payload_env :: "string list"
  plugin_register_payload_oci :: "bool option"

definition sys_plugin_catalog_entry_path ::
  "plugin_type \<Rightarrow> string \<Rightarrow> string res" where
  "sys_plugin_catalog_entry_path plugin_type name =
     (let segments = [''sys/plugins/catalog'', plugin_type_as_path_segment plugin_type] in
     rbind (validate_mount_path name) (\<lambda>p.
     let segments = segments @ p in
     Inr (join_with ''/'' segments)))"

definition sys_plugin_version_query ::
  "string option \<Rightarrow> (string \<times> string) list res" where
  "sys_plugin_version_query ver =
     (case ver of
        Some ver \<Rightarrow> rbind (sys_validate_query_string_value ver ''plugin version'')
          (\<lambda>_.
        Inr [(''version'', ver)])
      | None \<Rightarrow> Inr [])"

record plugin_reload_request =
  plugin_reload_request_plugin :: "string option"
  plugin_reload_request_mounts :: "string list"
  plugin_reload_request_scope :: "string option"

record plugin_reload_payload =
  plugin_reload_payload_plugin :: "string option"
  plugin_reload_payload_mounts :: "string list"
  plugin_reload_payload_scope :: "string option"

definition sys_validate_plugin_reload_request ::
  "plugin_reload_request \<Rightarrow> plugin_reload_payload res" where
  "sys_validate_plugin_reload_request request =
     (let has_plugin = is_some_and (\<lambda>val_v. \<not> (val_v = []))
       (plugin_reload_request_plugin request) in
     let has_mounts = \<not> (plugin_reload_request_mounts request = []) in
     rbind (case (has_plugin, has_mounts) of
        (True, False) \<Rightarrow> Inr ()
      | (False, True) \<Rightarrow> Inr ()
      | (False, False) \<Rightarrow> Inl (InvalidPath
        ''plugin reload requires a plugin name or mount paths'')
      | (True, True) \<Rightarrow> Inl (InvalidPath
        ''plugin reload accepts either plugin or mounts, not both'')) (\<lambda>_.
     rbind (case plugin_reload_request_plugin request of
        Some plugin \<Rightarrow> (if \<not> (plugin = []) then rbind (validate_mount_path
          plugin) (\<lambda>segments.
           Inr (Some plugin))
           else Inr None)
      | _ \<Rightarrow> Inr None) (\<lambda>plugin.
     let mounts = [] in
     rbind (rfold (\<lambda>mount mounts. rbind (validate_mount_path mount) (\<lambda>p.
     let mounts = mounts @ [join_with ''/'' p] in
     Inr mounts)) (plugin_reload_request_mounts request) mounts) (\<lambda>mounts.
     rbind (case plugin_reload_request_scope request of
        None \<Rightarrow> Inr ()
      | Some scope \<Rightarrow> sys_validate_query_string_value scope ''plugin reload scope'')
        (\<lambda>_.
     Inr \<lparr>plugin_reload_payload_plugin = plugin, plugin_reload_payload_mounts = mounts,
       plugin_reload_payload_scope = plugin_reload_request_scope request\<rparr>)))))"

record logger_level_payload =
  logger_level_payload_level :: string

record cors_config_request_with_credentials =
  cors_config_request_with_credentials_request :: cors_config_request
  cors_config_request_with_credentials_allow_credentials :: bool

definition sys_validate_namespace_request :: "namespace_request \<Rightarrow> unit res" where
  "sys_validate_namespace_request request =
     sys_validate_namespace_metadata (namespace_request_custom_metadata request)"

definition sys_validate_namespace_path :: "string \<Rightarrow> string list res" where
  "sys_validate_namespace_path path =
     (if suffix [CHR ''/''] path then Inl (InvalidPath
       ''namespace path must not end with a slash'')
        else rbind (validate_mount_path path) (\<lambda>segments.
        rbind (each (\<lambda>segment. (if CHR '' '' \<in> set segment then Inl (InvalidPath
          ''namespace path segments must not contain spaces'')
           else (if segment = ''root'' \<or> segment = ''sys'' \<or> segment = ''audit'' \<or>
             segment = ''auth'' \<or> segment = ''cubbyhole'' \<or> segment = ''identity'' then
             Inl (InvalidPath
             ''namespace path segment uses a reserved OpenBao namespace name'')
              else Inr ()))) segments) (\<lambda>_.
        Inr segments)))"

definition sys_namespace_path :: "string \<Rightarrow> string res" where
  "sys_namespace_path path =
     rbind (sys_validate_namespace_path path) (\<lambda>segments.
     Inr (join_with ''/'' [''sys/namespaces'', join_with ''/'' segments]))"

record sealable_namespace_payload =
  sealable_namespace_payload_custom_metadata :: "(string \<times> string) list"
  sealable_namespace_payload_seal :: string
  sealable_namespace_payload_pgp_keys :: "string list option"

record namespace_clear_metadata_request =
  namespace_clear_metadata_request_custom_metadata :: "(string \<times> string) list option"

definition MAX_NAMESPACE_UNSEAL_KEY_BYTES :: nat where
  "MAX_NAMESPACE_UNSEAL_KEY_BYTES = 4096"

definition sys_validate_namespace_unseal_key :: "string \<Rightarrow> unit res" where
  "sys_validate_namespace_unseal_key key =
     (let invalid = key = [] \<or> MAX_NAMESPACE_UNSEAL_KEY_BYTES < length key \<or> list_ex
       is_ascii_control key in
     (if invalid then Inl (InvalidParameter
       ''namespace unseal key is empty, oversized, or contains control characters'')
        else Inr ()))"

record namespace_unseal_payload =
  namespace_unseal_payload_key :: "string option"
  namespace_unseal_payload_reset :: "bool option"

record sealed_namespace_deletion_status =
  sealed_namespace_deletion_status_status :: string

record optional_sealed_namespace_deletion_envelope =
  optional_sealed_namespace_deletion_envelope_data :: "sealed_namespace_deletion_status option"

definition sys_validate_rate_limit_quota_config ::
  "rate_limit_quota_config \<Rightarrow> unit res" where
  "sys_validate_rate_limit_quota_config request =
     (if MAX_RESPONSE_STRINGS < length (rate_limit_quota_config_rate_limit_exempt_paths
       request) then Inl (InvalidParameter
       ''rate limit exempt paths exceed maximum item count'')
        else each (\<lambda>path. (if trim_matches (CHR ''/'') path = [] then Inl (InvalidPath
          ''rate limit exempt path must not be empty'')
           else rbind (validate_endpoint_path path) (\<lambda>validated.
           Inr ()))) (rate_limit_quota_config_rate_limit_exempt_paths request))"

definition sys_validate_rate_limit_quota_request ::
  "rate_limit_quota_request \<Rightarrow> unit res" where
  "sys_validate_rate_limit_quota_request request =
     (if \<not> (f64_is_finite (rate_limit_quota_request_rate request)) \<or> f64_le_zero
       (rate_limit_quota_request_rate request) then Inl (InvalidParameter
       ''rate limit quota rate must be a positive finite number'')
        else rbind (case rate_limit_quota_request_path request of
           None \<Rightarrow> Inr ()
         | Some path \<Rightarrow> rbind (validate_endpoint_path path) (\<lambda>validated.
           Inr ())) (\<lambda>_.
        rbind (case rate_limit_quota_request_interval request of
           None \<Rightarrow> Inr ()
         | Some interval \<Rightarrow> validate_duration_parameter interval
           ''rate limit interval'') (\<lambda>_.
        rbind (case rate_limit_quota_request_block_interval request of
           None \<Rightarrow> Inr ()
         | Some block_interval \<Rightarrow> validate_duration_parameter block_interval
           ''rate limit block_interval'') (\<lambda>_.
        (case rate_limit_quota_request_role request of
           None \<Rightarrow> Inr ()
         | Some role \<Rightarrow> sys_validate_query_string_value role
           ''rate limit role'')))))"

definition sys_single_path_segment :: "string \<Rightarrow> string \<Rightarrow> string res" where
  "sys_single_path_segment val_v kind =
     rbind (validate_mount_path val_v) (\<lambda>segments.
     (if length segments \<noteq> 1 then Inl (InvalidPath (kind @
       '' must be a single path segment''))
        else Inr (segments ! 0)))"

definition sys_rate_limit_quota_path :: "string \<Rightarrow> string res" where
  "sys_rate_limit_quota_path name =
     rbind (sys_single_path_segment name ''quota name'') (\<lambda>v.
     Inr (join_with ''/'' [''sys/quotas/rate-limit'', v]))"

record locked_users_payload =
  locked_users_payload_mount_accessor :: string

definition sys_locked_user_unlock_path ::
  "string \<Rightarrow> string \<Rightarrow> string res" where
  "sys_locked_user_unlock_path mount_accessor alias_identifier =
     rbind (sys_single_path_segment mount_accessor ''mount accessor'') (\<lambda>v.
     rbind (sys_single_path_segment alias_identifier ''alias identifier'') (\<lambda>v2.
     Inr (join_with ''/'' [''sys/locked-users'', v, ''unlock'', v2])))"

record raft_join_payload =
  raft_join_payload_leader_api_addr :: string
  raft_join_payload_retry :: "bool option"
  raft_join_payload_leader_ca_cert :: "string option"
  raft_join_payload_leader_client_cert :: "string option"
  raft_join_payload_leader_client_key :: "string option"
  raft_join_payload_leader_tls_servername :: "string option"
  raft_join_payload_auto_join :: "string option"
  raft_join_payload_auto_join_scheme :: "string option"
  raft_join_payload_auto_join_port :: "16 word option"
  raft_join_payload_non_voter :: "bool option"

record raft_peer_payload =
  raft_peer_payload_server_id :: string
  raft_peer_payload_dr_operation_token :: "string option"

definition MAX_RAFT_SNAPSHOT_BYTES :: "64 word" where
  "MAX_RAFT_SNAPSHOT_BYTES = (256 * 1024) * 1024"

definition sys_validate_raft_snapshot_length :: "64 word \<Rightarrow> unit res" where
  "sys_validate_raft_snapshot_length snapshot_len =
     (if snapshot_len = 0 then Inl (InvalidParameter
       ''Raft snapshot payload must not be empty'')
        else (if MAX_RAFT_SNAPSHOT_BYTES < snapshot_len then Inl (InvalidParameter
          (''Raft snapshot payload exceeds maximum allowed size of '' @ dec_string (unat
          MAX_RAFT_SNAPSHOT_BYTES) @ '' bytes''))
           else Inr ()))"

definition sys_validate_raft_snapshot :: "string \<Rightarrow> unit res" where
  "sys_validate_raft_snapshot snapshot =
     sys_validate_raft_snapshot_length (case_sum (\<lambda>_. 18446744073709551615)
       (\<lambda>x. x) (if length snapshot < 2 ^ 64 then Inr (of_nat (length snapshot)) else
       Inl ()))"

definition sys_remount_status_path :: "string \<Rightarrow> string res" where
  "sys_remount_status_path migration_id =
     rbind (sys_single_path_segment migration_id ''migration id'') (\<lambda>v.
     Inr (join_with ''/'' [''sys/remount/status'', v]))"

definition sys_validate_explicit_wrapping_token :: "string \<Rightarrow> unit res" where
  "sys_validate_explicit_wrapping_token token =
     (if token = [] \<or> (64 * 1024) < length token \<or> (\<not> (list_all (\<lambda>byte_v.
       33 \<le> byte byte_v \<and> byte byte_v \<le> 126) token)) then Inl (InvalidParameter
       ''wrapping token must be 1..=65536 visible ASCII bytes'')
        else Inr ())"

record wrapping_token_payload =
  wrapping_token_payload_token :: string

end
