(* ===== verification/Bao_Sys.thy ===== *)
theory Bao_Sys
  imports Bao_Sys_Data
begin

text \<open>
  The operations of the \<open>Sys\<close> handle, \<open>sys.rs\<close>. The handle holds nothing but the client, so an
  operation is a function of the client and the request.
\<close>

section \<open>Operations\<close>

definition sys_init_status ::
  "http_env \<Rightarrow> client \<Rightarrow> (string \<Rightarrow> 'a option) \<Rightarrow>
   'a sent" where
  "sys_init_status env cl from_json =
     request_sys_json_internal env cl from_json ''GET'' ''sys/init'' None"

definition sys_health ::
  "http_env \<Rightarrow> client \<Rightarrow> (string \<Rightarrow> 'a option) \<Rightarrow>
   'a sent" where
  "sys_health env cl from_json =
     sbind (pure (openbao_status 472)) (\<lambda>v.
     sbind (pure (openbao_status 473)) (\<lambda>v2.
     request_sys_json_accepting env cl from_json ''GET'' ''sys/health'' None [200, 204, 429,
       501, 503, v, v2]))"

definition sys_health_head :: "http_env \<Rightarrow> client \<Rightarrow> unit sent" where
  "sys_health_head env cl =
     sbind (pure (openbao_status 472)) (\<lambda>v.
     sbind (pure (openbao_status 473)) (\<lambda>v2.
     sbind (request_sys_bytes_accepting_internal env cl ''HEAD'' ''sys/health'' [] None None
       [200, 204, 429, 501, 503, v, v2]) (\<lambda>_.
     pure (Inr ()))))"

definition sys_seal_status ::
  "http_env \<Rightarrow> client \<Rightarrow> (string \<Rightarrow> 'a option) \<Rightarrow>
   'a sent" where
  "sys_seal_status env cl from_json =
     request_sys_json_internal env cl from_json ''GET'' ''sys/seal-status'' None"

definition sys_seal_status_details ::
  "http_env \<Rightarrow> client \<Rightarrow> (string \<Rightarrow> 'a option) \<Rightarrow>
   'a sent" where
  "sys_seal_status_details env cl from_json =
     request_sys_json_internal env cl from_json ''GET'' ''sys/seal-status'' None"

definition sys_leader_status ::
  "http_env \<Rightarrow> client \<Rightarrow> (string \<Rightarrow> 'a option) \<Rightarrow>
   'a sent" where
  "sys_leader_status env cl from_json =
     request_sys_json_internal env cl from_json ''GET'' ''sys/leader'' None"

definition sys_ha_status ::
  "http_env \<Rightarrow> client \<Rightarrow> (string \<Rightarrow> 'a option) \<Rightarrow>
   'a sent" where
  "sys_ha_status env cl from_json =
     request_sys_json_internal env cl from_json ''GET'' ''sys/ha-status'' None"

definition sys_key_status ::
  "http_env \<Rightarrow> client \<Rightarrow> (string \<Rightarrow> 'a option) \<Rightarrow>
   'a sent" where
  "sys_key_status env cl from_json =
     request_sys_json_internal env cl from_json ''GET'' ''sys/key-status'' None"

definition sys_openapi_document ::
  "http_env \<Rightarrow> client \<Rightarrow>
   (string \<Rightarrow> json_value option) \<Rightarrow> bool \<Rightarrow> json_value sent" where
  "sys_openapi_document env cl from_json generic_mount_paths =
     request_sys_json_query_accepting env cl from_json ''GET'' ''sys/internal/specs/openapi''
       [(''generic_mount_paths'', (if generic_mount_paths then ''true'' else ''false''))] None
       [200]"

definition sys_ui_namespaces ::
  "http_env \<Rightarrow> client \<Rightarrow> (string \<Rightarrow> 'a option) \<Rightarrow>
   'a sent" where
  "sys_ui_namespaces env cl from_json =
     request_sys_json_internal env cl from_json ''GET'' ''sys/internal/ui/namespaces'' None"

definition sys_ui_mounts ::
  "http_env \<Rightarrow> client \<Rightarrow> (string \<Rightarrow> 'a option) \<Rightarrow>
   'a sent" where
  "sys_ui_mounts env cl from_json =
     request_sys_json_internal env cl from_json ''GET'' ''sys/internal/ui/mounts'' None"

definition sys_metrics_json ::
  "http_env \<Rightarrow> client \<Rightarrow>
   (string \<Rightarrow> json_value option) \<Rightarrow> json_value sent" where
  "sys_metrics_json env cl from_json =
     request_sys_json_query_accepting env cl from_json ''GET'' ''sys/metrics'' [(''format'',
       ''json'')] None [200]"

definition sys_metrics_prometheus :: "http_env \<Rightarrow> client \<Rightarrow> string sent" where
  "sys_metrics_prometheus env cl =
     sbind (request_sys_bytes_accepting_internal env cl ''GET'' ''sys/metrics'' [(''format'',
       ''prometheus'')] (Some ''text/plain'') None [200]) (\<lambda>body_v.
     pure (rmap_err (\<lambda>_. Decode ''OpenBao metrics response was not valid UTF-8'') (if
       valid_utf8 body_v then Inr body_v else Inl ())))"

definition sys_host_info_json ::
  "http_env \<Rightarrow> client \<Rightarrow>
   (string \<Rightarrow> json_value response_envelope option) \<Rightarrow> json_value sent" where
  "sys_host_info_json env cl from_json =
     smap env_data (request_sys_json_internal env cl from_json ''GET'' ''sys/host-info'' None)"

definition sys_sanitized_config_state_json ::
  "http_env \<Rightarrow> client \<Rightarrow>
   (string \<Rightarrow> json_value option) \<Rightarrow> json_value sent" where
  "sys_sanitized_config_state_json env cl from_json =
     request_sys_json_internal env cl from_json ''GET'' ''sys/config/state/sanitized'' None"

definition sys_logger_levels ::
  "http_env \<Rightarrow> client \<Rightarrow> (string \<Rightarrow> 'a option) \<Rightarrow>
   'a sent" where
  "sys_logger_levels env cl from_json =
     request_sys_json_internal env cl from_json ''GET'' ''sys/loggers'' None"

definition sys_logger_level ::
  "http_env \<Rightarrow> client \<Rightarrow> (string \<Rightarrow> 'a option) \<Rightarrow>
   string \<Rightarrow> 'a sent" where
  "sys_logger_level env cl from_json name =
     sbind (pure (sys_logger_path name)) (\<lambda>p.
     request_sys_json_internal env cl from_json ''GET'' p None)"

definition sys_execute_unauthenticated_workflow ::
  "http_env \<Rightarrow> client \<Rightarrow>
   (workflow_data \<Rightarrow> payload) \<Rightarrow>
   (string \<Rightarrow> string option option) \<Rightarrow>
   (string \<Rightarrow> bool) \<Rightarrow> string \<Rightarrow> workflow_data \<Rightarrow>
   workflow_data sent" where
  "sys_execute_unauthenticated_workflow env cl to_json envelope_data valid_json path input =
     sbind (pure (sys_workflow_path ''sys/workflows/unauthed-execute'' path)) (\<lambda>path.
     sbind (request_registered_secret_json_accepting env cl ''/sys/'' ''POST'' path path []
       (Some (to_json input)) [200]) (\<lambda>body_v.
     pure (workflow_data_from_envelope valid_json envelope_data body_v)))"

definition sys_operator_init ::
  "http_env \<Rightarrow> client \<Rightarrow> (string \<Rightarrow> 'a option) \<Rightarrow>
   (operator_init_request \<Rightarrow> payload) \<Rightarrow>
   operator_init_request \<Rightarrow> 'a sent" where
  "sys_operator_init env cl from_json to_json request =
     sbind (pure (case (operator_init_request_secret_shares request,
       operator_init_request_secret_threshold request) of
        ((Some shares), (Some threshold)) \<Rightarrow> sys_validate_key_share_options shares
          threshold
      | _ \<Rightarrow> Inr ())) (\<lambda>_.
     sbind (pure (case (operator_init_request_recovery_shares request,
       operator_init_request_recovery_threshold request) of
        ((Some shares), (Some threshold)) \<Rightarrow> sys_validate_key_share_options shares
          threshold
      | _ \<Rightarrow> Inr ())) (\<lambda>_.
     sbind (pure (client_validate_fields env [(OPERATOR_INIT_STORED_SHARES,
       operator_init_request_stored_shares request \<noteq> None)])) (\<lambda>_.
     request_sys_json_internal env cl from_json ''POST'' ''sys/init'' (Some (to_json
       request)))))"

definition sys_operator_unseal ::
  "http_env \<Rightarrow> client \<Rightarrow> (string \<Rightarrow> 'a option) \<Rightarrow>
   (operator_unseal_payload \<Rightarrow> payload) \<Rightarrow>
   operator_unseal_request \<Rightarrow> 'a sent" where
  "sys_operator_unseal env cl from_json to_json request =
     request_sys_json_internal env cl from_json ''POST'' ''sys/unseal'' (Some (to_json
       \<lparr>operator_unseal_payload_key = operator_unseal_request_key request,
       operator_unseal_payload_reset = operator_unseal_request_reset request,
       operator_unseal_payload_migrate = operator_unseal_request_migrate request\<rparr>))"

definition sys_operator_unseal_details ::
  "http_env \<Rightarrow> client \<Rightarrow> (string \<Rightarrow> 'a option) \<Rightarrow>
   (operator_unseal_payload \<Rightarrow> payload) \<Rightarrow>
   operator_unseal_request \<Rightarrow> 'a sent" where
  "sys_operator_unseal_details env cl from_json to_json request =
     request_sys_json_internal env cl from_json ''POST'' ''sys/unseal'' (Some (to_json
       \<lparr>operator_unseal_payload_key = operator_unseal_request_key request,
       operator_unseal_payload_reset = operator_unseal_request_reset request,
       operator_unseal_payload_migrate = operator_unseal_request_migrate request\<rparr>))"

definition sys_unseal_once ::
  "http_env \<Rightarrow> client \<Rightarrow> (string \<Rightarrow> 'a option) \<Rightarrow>
   (unseal_payload \<Rightarrow> payload) \<Rightarrow> string \<Rightarrow> 'a sent" where
  "sys_unseal_once env cl from_json to_json key =
     request_sys_json_internal env cl from_json ''POST'' ''sys/unseal'' (Some (to_json
       \<lparr>unseal_payload_key = key\<rparr>))"

definition sys_scan_workflows ::
  "http_env \<Rightarrow> client \<Rightarrow> (string \<Rightarrow> 'a option) \<Rightarrow>
   (string \<Rightarrow> string option option) \<Rightarrow> list_page_options \<Rightarrow>
   'a sent" where
  "sys_scan_workflows env cl from_json envelope_data opts =
     (let query = query_pairs opts in
     sbind (request_registered_secret_json_accepting env cl ''/sys/'' ''SCAN''
       ''sys/workflows/manage'' ''sys/workflows/manage'' query None [200]) (\<lambda>body_v.
     pure (workflow_typed_data_from_envelope from_json envelope_data body_v)))"

definition sys_read_workflow ::
  "http_env \<Rightarrow> client \<Rightarrow> (string \<Rightarrow> 'a option) \<Rightarrow>
   (string \<Rightarrow> string option option) \<Rightarrow> string \<Rightarrow> 'a sent" where
  "sys_read_workflow env cl from_json envelope_data path =
     sbind (pure (sys_workflow_path ''sys/workflows/manage'' path)) (\<lambda>path.
     sbind (request_registered_secret_json_accepting env cl ''/sys/'' ''GET'' path path [] None
       [200]) (\<lambda>body_v.
     pure (workflow_typed_data_from_envelope from_json envelope_data body_v)))"

definition sys_write_workflow ::
  "http_env \<Rightarrow> client \<Rightarrow> (string \<Rightarrow> 'a option) \<Rightarrow>
   (workflow_write_payload \<Rightarrow> payload) \<Rightarrow>
   (string \<Rightarrow> string option option) \<Rightarrow> string \<Rightarrow>
   workflow_write_request \<Rightarrow> 'a sent" where
  "sys_write_workflow env cl from_json to_json envelope_data path request =
     sbind (pure (sys_validate_workflow_definition (workflow_write_request_workflow request)))
       (\<lambda>_.
     sbind (pure (sys_workflow_path ''sys/workflows/manage'' path)) (\<lambda>path.
     sbind (if workflow_write_request_cas request \<noteq> None \<or>
       workflow_write_request_cas_required request then sbind (compatibility_report_of env)
       (\<lambda>v.
        sbind (pure (validate_workflow_cas_profile v)) (\<lambda>_.
        pure (Inr ())))
        else pure (Inr ())) (\<lambda>_.
     let payload =
       \<lparr>workflow_write_payload_workflow = workflow_write_request_workflow request,
       workflow_write_payload_description = workflow_write_request_description request,
       workflow_write_payload_cas = workflow_write_request_cas request,
       workflow_write_payload_cas_required = workflow_write_request_cas_required request,
       workflow_write_payload_allow_unauthenticated = workflow_write_request_allow_unauthenticated request\<rparr>
       in
     sbind (request_registered_secret_json_accepting env cl ''/sys/'' ''POST'' path path []
       (Some (to_json payload)) [200]) (\<lambda>body_v.
     pure (workflow_typed_data_from_envelope from_json envelope_data body_v)))))"

definition sys_delete_workflow ::
  "http_env \<Rightarrow> client \<Rightarrow> string \<Rightarrow> unit sent" where
  "sys_delete_workflow env cl path =
     sbind (pure (sys_workflow_path ''sys/workflows/manage'' path)) (\<lambda>path.
     sbind (request_registered_secret_json_accepting env cl ''/sys/'' ''DELETE'' path path []
       None [204]) (\<lambda>_.
     pure (Inr ())))"

definition sys_execute_workflow ::
  "http_env \<Rightarrow> client \<Rightarrow>
   (workflow_data \<Rightarrow> payload) \<Rightarrow>
   (string \<Rightarrow> string option option) \<Rightarrow>
   (string \<Rightarrow> bool) \<Rightarrow> string \<Rightarrow> workflow_data \<Rightarrow>
   workflow_data sent" where
  "sys_execute_workflow env cl to_json envelope_data valid_json path input =
     sbind (pure (sys_workflow_path ''sys/workflows/execute'' path)) (\<lambda>path.
     sbind (request_registered_secret_json_accepting env cl ''/sys/'' ''POST'' path path []
       (Some (to_json input)) [200]) (\<lambda>body_v.
     pure (workflow_data_from_envelope valid_json envelope_data body_v)))"

definition sys_trace_workflow ::
  "http_env \<Rightarrow> client \<Rightarrow>
   (workflow_data \<Rightarrow> payload) \<Rightarrow>
   (string \<Rightarrow> string option option) \<Rightarrow>
   (string \<Rightarrow> bool) \<Rightarrow> string \<Rightarrow> workflow_data \<Rightarrow>
   workflow_data sent" where
  "sys_trace_workflow env cl to_json envelope_data valid_json path input =
     sbind (pure (sys_workflow_path ''sys/workflows/trace'' path)) (\<lambda>path.
     sbind (request_registered_secret_json_accepting env cl ''/sys/'' ''POST'' path path []
       (Some (to_json input)) [200]) (\<lambda>body_v.
     pure (workflow_data_from_envelope valid_json envelope_data body_v)))"

definition sys_random ::
  "http_env \<Rightarrow> client \<Rightarrow>
   (string \<Rightarrow> 'a response_envelope option) \<Rightarrow>
   (sys_random_payload \<Rightarrow> payload) \<Rightarrow> sys_random_request \<Rightarrow>
   'a sent" where
  "sys_random env cl from_json to_json request =
     sbind (pure (sys_random_request_validate request)) (\<lambda>_.
     let payload =
       \<lparr>sys_random_payload_format = sys_random_request_format request\<rparr> in
     smap env_data (request_sys_json_internal env cl from_json ''POST'' (sys_random_path None
       (sys_random_request_bytes request)) (Some (to_json payload))))"

definition sys_random_from_source ::
  "http_env \<Rightarrow> client \<Rightarrow>
   (string \<Rightarrow> 'a response_envelope option) \<Rightarrow>
   (sys_random_payload \<Rightarrow> payload) \<Rightarrow> sys_random_source \<Rightarrow>
   sys_random_request \<Rightarrow> 'a sent" where
  "sys_random_from_source env cl from_json to_json source request =
     sbind (pure (sys_random_request_validate request)) (\<lambda>_.
     let payload =
       \<lparr>sys_random_payload_format = sys_random_request_format request\<rparr> in
     smap env_data (request_sys_json_internal env cl from_json ''POST'' (sys_random_path (Some
       source) (sys_random_request_bytes request)) (Some (to_json payload))))"

definition sys_hash ::
  "http_env \<Rightarrow> client \<Rightarrow>
   (string \<Rightarrow> 'a response_envelope option) \<Rightarrow>
   (sys_hash_payload \<Rightarrow> payload) \<Rightarrow> sys_hash_algorithm \<Rightarrow>
   sys_hash_request \<Rightarrow> 'a sent" where
  "sys_hash env cl from_json to_json algorithm request =
     (let payload = \<lparr>sys_hash_payload_input = sys_hash_request_input request,
       sys_hash_payload_format = sys_hash_request_format request\<rparr> in
     smap env_data (request_sys_json_internal env cl from_json ''POST'' (sys_hash_path
       algorithm) (Some (to_json payload))))"

definition sys_operator_seal ::
  "http_env \<Rightarrow> client \<Rightarrow>
   (string \<Rightarrow> unit option) \<Rightarrow> unit sent" where
  "sys_operator_seal env cl from_json =
     request_sys_json_internal env cl from_json ''POST'' ''sys/seal'' None"

definition sys_operator_rotate_keyring ::
  "http_env \<Rightarrow> client \<Rightarrow>
   (string \<Rightarrow> unit option) \<Rightarrow> unit sent" where
  "sys_operator_rotate_keyring env cl from_json =
     request_sys_json_internal env cl from_json ''POST'' ''sys/rotate/keyring'' None"

definition sys_step_down_leader ::
  "http_env \<Rightarrow> client \<Rightarrow>
   (string \<Rightarrow> unit option) \<Rightarrow> unit sent" where
  "sys_step_down_leader env cl from_json =
     request_sys_json_internal env cl from_json ''POST'' ''sys/step-down'' None"

definition sys_operator_rekey_status ::
  "http_env \<Rightarrow> client \<Rightarrow> (string \<Rightarrow> 'a option) \<Rightarrow>
   'a sent" where
  "sys_operator_rekey_status env cl from_json =
     request_sys_json_internal env cl from_json ''GET'' ''sys/rekey/init'' None"

definition sys_operator_rekey_start ::
  "http_env \<Rightarrow> client \<Rightarrow> (string \<Rightarrow> 'a option) \<Rightarrow>
   (operator_key_shares_request \<Rightarrow> payload) \<Rightarrow>
   operator_key_shares_request \<Rightarrow> 'a sent" where
  "sys_operator_rekey_start env cl from_json to_json request =
     sbind (pure (sys_validate_key_share_options (operator_key_shares_request_secret_shares
       request) (operator_key_shares_request_secret_threshold request))) (\<lambda>_.
     sbind (pure (client_validate_fields env [(OPERATOR_REKEY_STORED_SHARES,
       operator_key_shares_request_stored_shares request \<noteq> None)])) (\<lambda>_.
     request_sys_json_internal env cl from_json ''POST'' ''sys/rekey/init'' (Some (to_json
       request))))"

definition sys_operator_rekey_cancel ::
  "http_env \<Rightarrow> client \<Rightarrow>
   (string \<Rightarrow> unit option) \<Rightarrow> unit sent" where
  "sys_operator_rekey_cancel env cl from_json =
     request_sys_json_internal env cl from_json ''DELETE'' ''sys/rekey/init'' None"

definition sys_operator_rekey_update ::
  "http_env \<Rightarrow> client \<Rightarrow> (string \<Rightarrow> 'a option) \<Rightarrow>
   (operator_key_share_update_payload \<Rightarrow> payload) \<Rightarrow>
   operator_key_share_update_request \<Rightarrow> 'a sent" where
  "sys_operator_rekey_update env cl from_json to_json request =
     request_sys_json_internal env cl from_json ''POST'' ''sys/rekey/update'' (Some (to_json
       \<lparr>operator_key_share_update_payload_key = operator_key_share_update_request_key request,
       operator_key_share_update_payload_nonce = operator_key_share_update_request_nonce request\<rparr>))"

definition sys_operator_rekey_backup ::
  "http_env \<Rightarrow> client \<Rightarrow> (string \<Rightarrow> 'a option) \<Rightarrow>
   'a sent" where
  "sys_operator_rekey_backup env cl from_json =
     request_sys_json_internal env cl from_json ''GET'' ''sys/rekey/backup'' None"

definition sys_operator_rekey_delete_backup ::
  "http_env \<Rightarrow> client \<Rightarrow>
   (string \<Rightarrow> unit option) \<Rightarrow> unit sent" where
  "sys_operator_rekey_delete_backup env cl from_json =
     request_sys_json_internal env cl from_json ''DELETE'' ''sys/rekey/backup'' None"

definition sys_operator_rekey_verify_status ::
  "http_env \<Rightarrow> client \<Rightarrow> (string \<Rightarrow> 'a option) \<Rightarrow>
   'a sent" where
  "sys_operator_rekey_verify_status env cl from_json =
     request_sys_json_internal env cl from_json ''GET'' ''sys/rekey/verify'' None"

definition sys_operator_rekey_verify_cancel ::
  "http_env \<Rightarrow> client \<Rightarrow> (string \<Rightarrow> 'a option) \<Rightarrow>
   'a sent" where
  "sys_operator_rekey_verify_cancel env cl from_json =
     request_sys_json_internal env cl from_json ''DELETE'' ''sys/rekey/verify'' None"

definition sys_operator_rekey_verify_update ::
  "http_env \<Rightarrow> client \<Rightarrow> (string \<Rightarrow> 'a option) \<Rightarrow>
   (operator_key_share_update_payload \<Rightarrow> payload) \<Rightarrow>
   operator_key_share_update_request \<Rightarrow> 'a sent" where
  "sys_operator_rekey_verify_update env cl from_json to_json request =
     request_sys_json_internal env cl from_json ''POST'' ''sys/rekey/verify'' (Some (to_json
       \<lparr>operator_key_share_update_payload_key = operator_key_share_update_request_key request,
       operator_key_share_update_payload_nonce = operator_key_share_update_request_nonce request\<rparr>))"

definition sys_operator_rotate_status ::
  "http_env \<Rightarrow> client \<Rightarrow>
   (string \<Rightarrow> 'a response_envelope option) \<Rightarrow>
   operator_rotate_target \<Rightarrow> 'a sent" where
  "sys_operator_rotate_status env cl from_json target =
     smap env_data (request_sys_json_internal env cl from_json ''GET'' (sys_rotate_init_path
       target) None)"

definition sys_operator_rotate_start ::
  "http_env \<Rightarrow> client \<Rightarrow>
   (string \<Rightarrow> 'a response_envelope option) \<Rightarrow>
   (operator_key_shares_request \<Rightarrow> payload) \<Rightarrow>
   operator_rotate_target \<Rightarrow> operator_key_shares_request \<Rightarrow> 'a sent" where
  "sys_operator_rotate_start env cl from_json to_json target request =
     sbind (pure (sys_validate_key_share_options (operator_key_shares_request_secret_shares
       request) (operator_key_shares_request_secret_threshold request))) (\<lambda>_.
     sbind (pure (client_validate_fields env [(OPERATOR_REKEY_STORED_SHARES,
       operator_key_shares_request_stored_shares request \<noteq> None)])) (\<lambda>_.
     smap env_data (request_sys_json_internal env cl from_json ''POST'' (sys_rotate_init_path
       target) (Some (to_json request)))))"

definition sys_operator_rotate_cancel ::
  "http_env \<Rightarrow> client \<Rightarrow>
   (string \<Rightarrow> unit option) \<Rightarrow> operator_rotate_target \<Rightarrow>
   unit sent" where
  "sys_operator_rotate_cancel env cl from_json target =
     request_sys_json_internal env cl from_json ''DELETE'' (sys_rotate_init_path target) None"

definition sys_operator_rotate_update ::
  "http_env \<Rightarrow> client \<Rightarrow>
   (string \<Rightarrow> 'a response_envelope option) \<Rightarrow>
   (operator_key_share_update_payload \<Rightarrow> payload) \<Rightarrow>
   operator_rotate_target \<Rightarrow> operator_key_share_update_request \<Rightarrow>
   'a sent" where
  "sys_operator_rotate_update env cl from_json to_json target request =
     smap env_data (request_sys_json_internal env cl from_json ''POST'' (sys_rotate_update_path
       target) (Some (to_json
       \<lparr>operator_key_share_update_payload_key = operator_key_share_update_request_key request,
       operator_key_share_update_payload_nonce = operator_key_share_update_request_nonce request\<rparr>)))"

definition sys_operator_rotate_barrier ::
  "http_env \<Rightarrow> client \<Rightarrow>
   (string \<Rightarrow> unit option) \<Rightarrow> unit sent" where
  "sys_operator_rotate_barrier env cl from_json =
     request_sys_json_internal env cl from_json ''POST'' ''sys/rotate'' None"

definition sys_operator_rotate_root_key ::
  "http_env \<Rightarrow> client \<Rightarrow>
   (string \<Rightarrow> unit option) \<Rightarrow> unit sent" where
  "sys_operator_rotate_root_key env cl from_json =
     request_sys_json_internal env cl from_json ''POST'' ''sys/rotate/root'' None"

definition sys_operator_rotate_verify_status ::
  "http_env \<Rightarrow> client \<Rightarrow>
   (string \<Rightarrow> 'a response_envelope option) \<Rightarrow>
   operator_rotate_target \<Rightarrow> 'a sent" where
  "sys_operator_rotate_verify_status env cl from_json target =
     smap env_data (request_sys_json_internal env cl from_json ''GET'' (sys_rotate_verify_path
       target) None)"

definition sys_operator_rotate_verify_update ::
  "http_env \<Rightarrow> client \<Rightarrow>
   (string \<Rightarrow> 'a response_envelope option) \<Rightarrow>
   (operator_key_share_update_payload \<Rightarrow> payload) \<Rightarrow>
   operator_rotate_target \<Rightarrow> operator_key_share_update_request \<Rightarrow>
   'a sent" where
  "sys_operator_rotate_verify_update env cl from_json to_json target request =
     smap env_data (request_sys_json_internal env cl from_json ''POST'' (sys_rotate_verify_path
       target) (Some (to_json
       \<lparr>operator_key_share_update_payload_key = operator_key_share_update_request_key request,
       operator_key_share_update_payload_nonce = operator_key_share_update_request_nonce request\<rparr>)))"

definition sys_operator_rotate_verify_cancel ::
  "http_env \<Rightarrow> client \<Rightarrow>
   (string \<Rightarrow> 'a response_envelope option) \<Rightarrow>
   operator_rotate_target \<Rightarrow> 'a sent" where
  "sys_operator_rotate_verify_cancel env cl from_json target =
     smap env_data (request_sys_json_internal env cl from_json ''DELETE''
       (sys_rotation_verify_cancel_path target) None)"

definition sys_operator_rotate_backup_grouped ::
  "http_env \<Rightarrow> client \<Rightarrow>
   (string \<Rightarrow> operator_rotation_backup response_envelope option) \<Rightarrow>
   operator_rotate_target \<Rightarrow> operator_rotation_backup sent" where
  "sys_operator_rotate_backup_grouped env cl from_json target =
     smap env_data (request_sys_json_internal env cl from_json ''GET'' (sys_rotate_backup_path
       target) None)"

definition sys_operator_rotate_backup ::
  "http_env \<Rightarrow> client \<Rightarrow>
   (string \<Rightarrow> operator_rotation_backup response_envelope option) \<Rightarrow>
   operator_rotate_target \<Rightarrow> operator_recovery_key_backup sent" where
  "sys_operator_rotate_backup env cl from_json target =
     sbind (sys_operator_rotate_backup_grouped env cl from_json target) (\<lambda>backup.
     sbind (pure (single_rotation_shares (operator_rotation_backup_keys backup))) (\<lambda>v.
     sbind (pure (single_rotation_shares (operator_rotation_backup_keys_base64 backup)))
       (\<lambda>v2.
     pure (Inr
       \<lparr>operator_recovery_key_backup_nonce = operator_rotation_backup_nonce backup,
       operator_recovery_key_backup_keys = v,
       operator_recovery_key_backup_keys_base64 = v2\<rparr>))))"

definition sys_operator_rotate_delete_backup ::
  "http_env \<Rightarrow> client \<Rightarrow>
   (string \<Rightarrow> unit option) \<Rightarrow> operator_rotate_target \<Rightarrow>
   unit sent" where
  "sys_operator_rotate_delete_backup env cl from_json target =
     request_sys_json_internal env cl from_json ''DELETE'' (sys_rotate_backup_path target) None"

definition sys_operator_rotation_config ::
  "http_env \<Rightarrow> client \<Rightarrow>
   (string \<Rightarrow> 'a response_envelope option) \<Rightarrow> 'a sent" where
  "sys_operator_rotation_config env cl from_json =
     smap env_data (request_sys_json_internal env cl from_json ''GET'' ''sys/rotate/config''
       None)"

definition sys_operator_write_rotation_config ::
  "http_env \<Rightarrow> client \<Rightarrow>
   (string \<Rightarrow> unit option) \<Rightarrow>
   (operator_rotation_config \<Rightarrow> payload) \<Rightarrow>
   operator_rotation_config \<Rightarrow> unit sent" where
  "sys_operator_write_rotation_config env cl from_json to_json config =
     sbind (pure (client_validate_fields env [(ROTATION_INTERVAL,
       operator_rotation_config_interval config \<noteq> None)])) (\<lambda>_.
     request_sys_json_internal env cl from_json ''POST'' ''sys/rotate/config'' (Some (to_json
       config)))"

definition sys_operator_keyring_rotation_config ::
  "http_env \<Rightarrow> client \<Rightarrow>
   (string \<Rightarrow> 'a response_envelope option) \<Rightarrow> 'a sent" where
  "sys_operator_keyring_rotation_config env cl from_json =
     smap env_data (request_sys_json_internal env cl from_json ''GET''
       ''sys/rotate/keyring/config'' None)"

definition sys_operator_write_keyring_rotation_config ::
  "http_env \<Rightarrow> client \<Rightarrow>
   (string \<Rightarrow> unit option) \<Rightarrow>
   (operator_rotation_config \<Rightarrow> payload) \<Rightarrow>
   operator_rotation_config \<Rightarrow> unit sent" where
  "sys_operator_write_keyring_rotation_config env cl from_json to_json config =
     request_sys_json_internal env cl from_json ''POST'' ''sys/rotate/keyring/config'' (Some
       (to_json config))"

definition sys_operator_generate_root_cancel ::
  "http_env \<Rightarrow> client \<Rightarrow>
   (string \<Rightarrow> unit option) \<Rightarrow> unit sent" where
  "sys_operator_generate_root_cancel env cl from_json =
     request_literal_endpoint_json_accepting env cl from_json
       GENERATED_SYS_GENERATE_ROOT_CANCEL None [200, 204]"

definition sys_operator_generate_recovery_token_status ::
  "http_env \<Rightarrow> client \<Rightarrow> (string \<Rightarrow> 'a option) \<Rightarrow>
   'a sent" where
  "sys_operator_generate_recovery_token_status env cl from_json =
     request_sys_json_internal env cl from_json ''GET'' ''sys/generate-recovery-token/attempt''
       None"

definition sys_operator_generate_recovery_token_start ::
  "http_env \<Rightarrow> client \<Rightarrow> (string \<Rightarrow> 'a option) \<Rightarrow>
   (operator_token_generation_start_request \<Rightarrow> payload) \<Rightarrow>
   operator_token_generation_start_request \<Rightarrow> 'a sent" where
  "sys_operator_generate_recovery_token_start env cl from_json to_json request =
     request_sys_json_internal env cl from_json ''POST''
       ''sys/generate-recovery-token/attempt'' (Some (to_json request))"

definition sys_operator_generate_recovery_token_cancel ::
  "http_env \<Rightarrow> client \<Rightarrow>
   (string \<Rightarrow> unit option) \<Rightarrow> unit sent" where
  "sys_operator_generate_recovery_token_cancel env cl from_json =
     request_sys_json_internal env cl from_json ''DELETE''
       ''sys/generate-recovery-token/attempt'' None"

definition sys_operator_generate_recovery_token_update ::
  "http_env \<Rightarrow> client \<Rightarrow> (string \<Rightarrow> 'a option) \<Rightarrow>
   (operator_key_share_update_payload \<Rightarrow> payload) \<Rightarrow>
   operator_key_share_update_request \<Rightarrow> 'a sent" where
  "sys_operator_generate_recovery_token_update env cl from_json to_json request =
     request_sys_json_internal env cl from_json ''POST'' ''sys/generate-recovery-token/update''
       (Some (to_json
       \<lparr>operator_key_share_update_payload_key = operator_key_share_update_request_key request,
       operator_key_share_update_payload_nonce = operator_key_share_update_request_nonce request\<rparr>))"

definition sys_operator_rekey_recovery_key_status ::
  "http_env \<Rightarrow> client \<Rightarrow> (string \<Rightarrow> 'a option) \<Rightarrow>
   'a sent" where
  "sys_operator_rekey_recovery_key_status env cl from_json =
     request_sys_json_internal env cl from_json ''GET'' ''sys/rekey-recovery-key/init'' None"

definition sys_operator_rekey_recovery_key_start ::
  "http_env \<Rightarrow> client \<Rightarrow> (string \<Rightarrow> 'a option) \<Rightarrow>
   (operator_key_shares_request \<Rightarrow> payload) \<Rightarrow>
   operator_key_shares_request \<Rightarrow> 'a sent" where
  "sys_operator_rekey_recovery_key_start env cl from_json to_json request =
     sbind (pure (sys_validate_key_share_options (operator_key_shares_request_secret_shares
       request) (operator_key_shares_request_secret_threshold request))) (\<lambda>_.
     sbind (pure (client_validate_fields env [(OPERATOR_REKEY_STORED_SHARES,
       operator_key_shares_request_stored_shares request \<noteq> None)])) (\<lambda>_.
     request_sys_json_internal env cl from_json ''POST'' ''sys/rekey-recovery-key/init'' (Some
       (to_json request))))"

definition sys_operator_rekey_recovery_key_cancel ::
  "http_env \<Rightarrow> client \<Rightarrow>
   (string \<Rightarrow> unit option) \<Rightarrow> unit sent" where
  "sys_operator_rekey_recovery_key_cancel env cl from_json =
     request_sys_json_internal env cl from_json ''DELETE'' ''sys/rekey-recovery-key/init'' None"

definition sys_operator_rekey_recovery_key_update ::
  "http_env \<Rightarrow> client \<Rightarrow> (string \<Rightarrow> 'a option) \<Rightarrow>
   (operator_key_share_update_payload \<Rightarrow> payload) \<Rightarrow>
   operator_key_share_update_request \<Rightarrow> 'a sent" where
  "sys_operator_rekey_recovery_key_update env cl from_json to_json request =
     request_sys_json_internal env cl from_json ''POST'' ''sys/rekey-recovery-key/update''
       (Some (to_json
       \<lparr>operator_key_share_update_payload_key = operator_key_share_update_request_key request,
       operator_key_share_update_payload_nonce = operator_key_share_update_request_nonce request\<rparr>))"

definition sys_operator_rekey_recovery_key_verify_status ::
  "http_env \<Rightarrow> client \<Rightarrow> (string \<Rightarrow> 'a option) \<Rightarrow>
   'a sent" where
  "sys_operator_rekey_recovery_key_verify_status env cl from_json =
     request_sys_json_internal env cl from_json ''GET'' ''sys/rekey-recovery-key/verify'' None"

definition sys_operator_rekey_recovery_key_verify_cancel ::
  "http_env \<Rightarrow> client \<Rightarrow> (string \<Rightarrow> 'a option) \<Rightarrow>
   'a sent" where
  "sys_operator_rekey_recovery_key_verify_cancel env cl from_json =
     request_sys_json_internal env cl from_json ''DELETE'' ''sys/rekey-recovery-key/verify''
       None"

definition sys_operator_rekey_recovery_key_verify_update ::
  "http_env \<Rightarrow> client \<Rightarrow> (string \<Rightarrow> 'a option) \<Rightarrow>
   (operator_key_share_update_payload \<Rightarrow> payload) \<Rightarrow>
   operator_key_share_update_request \<Rightarrow> 'a sent" where
  "sys_operator_rekey_recovery_key_verify_update env cl from_json to_json request =
     request_sys_json_internal env cl from_json ''POST'' ''sys/rekey-recovery-key/verify''
       (Some (to_json
       \<lparr>operator_key_share_update_payload_key = operator_key_share_update_request_key request,
       operator_key_share_update_payload_nonce = operator_key_share_update_request_nonce request\<rparr>))"

definition sys_operator_rekey_recovery_key_backup ::
  "http_env \<Rightarrow> client \<Rightarrow> (string \<Rightarrow> 'a option) \<Rightarrow>
   'a sent" where
  "sys_operator_rekey_recovery_key_backup env cl from_json =
     request_sys_json_internal env cl from_json ''GET'' ''sys/rekey/recovery-key-backup'' None"

definition sys_operator_rekey_recovery_key_delete_backup ::
  "http_env \<Rightarrow> client \<Rightarrow>
   (string \<Rightarrow> unit option) \<Rightarrow> unit sent" where
  "sys_operator_rekey_recovery_key_delete_backup env cl from_json =
     request_sys_json_internal env cl from_json ''DELETE'' ''sys/rekey/recovery-key-backup''
       None"

definition sys_raw_read ::
  "http_env \<Rightarrow> client \<Rightarrow>
   (string \<Rightarrow> 'a response_envelope option) \<Rightarrow> string \<Rightarrow>
   raw_read_options \<Rightarrow> 'a sent" where
  "sys_raw_read env cl from_json path opts =
     (let query = [(''compressed'', (if raw_read_options_compressed opts then ''true'' else
       ''false''))] in
     let query = (case raw_encoding_as_query_value (raw_read_options_encoding opts) of
        None \<Rightarrow> query
      | Some encoding \<Rightarrow> query @ [(''encoding'', encoding)]) in
     sbind (pure (sys_raw_storage_path path)) (\<lambda>p.
     smap env_data (request_sys_json_query_accepting env cl from_json ''GET'' p query None
       [200])))"

definition sys_raw_write ::
  "http_env \<Rightarrow> client \<Rightarrow>
   (string \<Rightarrow> unit option) \<Rightarrow>
   (raw_write_payload \<Rightarrow> payload) \<Rightarrow> string \<Rightarrow>
   raw_write_request \<Rightarrow> unit sent" where
  "sys_raw_write env cl from_json to_json path request =
     (let payload = \<lparr>raw_write_payload_value = raw_write_request_value request,
       raw_write_payload_compression_type = map_option raw_compression_as_wire_value
       (raw_write_request_compression_type request),
       raw_write_payload_encoding = raw_write_request_encoding request\<rparr> in
     sbind (pure (sys_raw_storage_path path)) (\<lambda>p.
     request_sys_json_accepting env cl from_json ''POST'' p (Some (to_json payload)) [200,
       204]))"

definition sys_raw_write_uncompressed ::
  "http_env \<Rightarrow> client \<Rightarrow>
   (string \<Rightarrow> unit option) \<Rightarrow>
   (raw_write_payload \<Rightarrow> payload) \<Rightarrow> string \<Rightarrow>
   string \<Rightarrow> raw_encoding \<Rightarrow> unit sent" where
  "sys_raw_write_uncompressed env cl from_json to_json path val_v encoding =
     sbind (pure (sys_raw_storage_path path)) (\<lambda>path.
     sbind (pure (client_validate_fields env [(RAW_UNCOMPRESSED_WRITE, True)])) (\<lambda>_.
     let payload = \<lparr>raw_write_payload_value = val_v,
       raw_write_payload_compression_type = Some ''none'',
       raw_write_payload_encoding = encoding\<rparr> in
     request_sys_json_accepting env cl from_json ''POST'' path (Some (to_json payload)) [200,
       204]))"

definition sys_raw_list ::
  "http_env \<Rightarrow> client \<Rightarrow>
   (string \<Rightarrow> 'a response_envelope option) \<Rightarrow> string \<Rightarrow>
   'a sent" where
  "sys_raw_list env cl from_json pre =
     sbind (pure (sys_raw_storage_path pre)) (\<lambda>p.
     smap env_data (request_sys_json_query_accepting env cl from_json ''GET'' p [(''list'',
       ''true'')] None [200]))"

definition sys_raw_delete ::
  "http_env \<Rightarrow> client \<Rightarrow>
   (string \<Rightarrow> unit option) \<Rightarrow> string \<Rightarrow> unit sent" where
  "sys_raw_delete env cl from_json path =
     sbind (pure (sys_raw_storage_path path)) (\<lambda>p.
     request_sys_json_accepting env cl from_json ''DELETE'' p None [200, 204])"

definition sys_pprof ::
  "http_env \<Rightarrow> client \<Rightarrow> pprof_profile \<Rightarrow>
   pprof_options \<Rightarrow> string sent" where
  "sys_pprof env cl profile opts =
     sbind (pure (sys_validate_pprof_options profile opts)) (\<lambda>_.
     let query = [] in
     let query = (case pprof_options_seconds opts of
        None \<Rightarrow> query
      | Some seconds \<Rightarrow> query @ [(''seconds'', dec_string (unat seconds))]) in
     let query = (case pprof_options_debug opts of
        None \<Rightarrow> query
      | Some debug \<Rightarrow> query @ [(''debug'', dec_string (unat debug))]) in
     request_sys_bytes_accepting_internal env cl ''GET'' (sys_pprof_path profile) query None
       None [200])"

definition sys_list_mounts ::
  "http_env \<Rightarrow> client \<Rightarrow>
   (string \<Rightarrow> 'a response_envelope option) \<Rightarrow> 'a sent" where
  "sys_list_mounts env cl from_json =
     smap env_data (request_sys_json_internal env cl from_json ''GET'' ''sys/mounts'' None)"

definition sys_read_mount ::
  "http_env \<Rightarrow> client \<Rightarrow>
   (string \<Rightarrow> 'a response_envelope option) \<Rightarrow> string \<Rightarrow>
   'a sent" where
  "sys_read_mount env cl from_json mount_path =
     sbind (pure (sys_path ''sys/mounts'' mount_path None)) (\<lambda>p.
     smap env_data (request_sys_json_internal env cl from_json ''GET'' p None))"

definition sys_validate_latest_plugin_selection ::
  "http_env \<Rightarrow> client \<Rightarrow> mount_config option \<Rightarrow> unit sent" where
  "sys_validate_latest_plugin_selection env cl config =
     sbind (if Option.bind config mount_config_plugin_version = Some ''latest'' then sbind
       (compatibility_report_of env) (\<lambda>v.
        sbind (pure (validate_latest_plugin_profile v)) (\<lambda>_.
        pure (Inr ())))
        else pure (Inr ())) (\<lambda>_.
     pure (Inr ()))"

definition sys_enable_mount ::
  "http_env \<Rightarrow> client \<Rightarrow>
   (string \<Rightarrow> unit option) \<Rightarrow>
   (mount_enable_request \<Rightarrow> payload) \<Rightarrow> string \<Rightarrow>
   mount_enable_request \<Rightarrow> unit sent" where
  "sys_enable_mount env cl from_json to_json mount_path request =
     sbind (pure (sys_path ''sys/mounts'' mount_path None)) (\<lambda>path.
     sbind (sys_validate_latest_plugin_selection env cl (mount_enable_request_config request))
       (\<lambda>_.
     request_sys_json_internal env cl from_json ''POST'' path (Some (to_json request))))"

definition sys_enable_kv2 ::
  "http_env \<Rightarrow> client \<Rightarrow>
   (string \<Rightarrow> unit option) \<Rightarrow>
   (mount_enable_request \<Rightarrow> payload) \<Rightarrow> string \<Rightarrow>
   string option \<Rightarrow> unit sent" where
  "sys_enable_kv2 env cl from_json to_json mount_path description =
     (let request = mount_enable_request_kv2 in
     let request = (case description of
        None \<Rightarrow> request
      | Some description \<Rightarrow> let request =
        request\<lparr>mount_enable_request_description := Some description\<rparr> in
        request) in
     sys_enable_mount env cl from_json to_json mount_path request)"

definition sys_disable_mount ::
  "http_env \<Rightarrow> client \<Rightarrow>
   (string \<Rightarrow> unit option) \<Rightarrow> string \<Rightarrow> unit sent" where
  "sys_disable_mount env cl from_json mount_path =
     sbind (pure (sys_path ''sys/mounts'' mount_path None)) (\<lambda>p.
     request_sys_json_accepting env cl from_json ''DELETE'' p None [200, 204])"

definition sys_read_mount_tune ::
  "http_env \<Rightarrow> client \<Rightarrow> (string \<Rightarrow> 'a option) \<Rightarrow>
   string \<Rightarrow> 'a sent" where
  "sys_read_mount_tune env cl from_json mount_path =
     sbind (pure (sys_path ''sys/mounts'' mount_path (Some ''tune''))) (\<lambda>p.
     request_sys_json_internal env cl from_json ''GET'' p None)"

definition sys_tune_mount ::
  "http_env \<Rightarrow> client \<Rightarrow>
   (string \<Rightarrow> unit option) \<Rightarrow>
   (mount_config \<Rightarrow> payload) \<Rightarrow> string \<Rightarrow>
   mount_config \<Rightarrow> unit sent" where
  "sys_tune_mount env cl from_json to_json mount_path config =
     sbind (pure (sys_path ''sys/mounts'' mount_path (Some ''tune''))) (\<lambda>path.
     sbind (sys_validate_latest_plugin_selection env cl (Some config)) (\<lambda>_.
     request_sys_json_internal env cl from_json ''POST'' path (Some (to_json config))))"

definition sys_list_auth_methods ::
  "http_env \<Rightarrow> client \<Rightarrow>
   (string \<Rightarrow> 'a response_envelope option) \<Rightarrow> 'a sent" where
  "sys_list_auth_methods env cl from_json =
     smap env_data (request_sys_json_internal env cl from_json ''GET'' ''sys/auth'' None)"

definition sys_read_auth_method ::
  "http_env \<Rightarrow> client \<Rightarrow>
   (string \<Rightarrow> 'a response_envelope option) \<Rightarrow> string \<Rightarrow>
   'a sent" where
  "sys_read_auth_method env cl from_json mount_path =
     sbind (pure (sys_path ''sys/auth'' mount_path None)) (\<lambda>p.
     smap env_data (request_sys_json_internal env cl from_json ''GET'' p None))"

definition sys_enable_auth_method ::
  "http_env \<Rightarrow> client \<Rightarrow>
   (string \<Rightarrow> unit option) \<Rightarrow>
   (auth_enable_request \<Rightarrow> payload) \<Rightarrow> string \<Rightarrow>
   auth_enable_request \<Rightarrow> unit sent" where
  "sys_enable_auth_method env cl from_json to_json mount_path request =
     sbind (pure (sys_path ''sys/auth'' mount_path None)) (\<lambda>path.
     sbind (sys_validate_latest_plugin_selection env cl (auth_enable_request_config request))
       (\<lambda>_.
     request_sys_json_internal env cl from_json ''POST'' path (Some (to_json request))))"

definition sys_disable_auth_method ::
  "http_env \<Rightarrow> client \<Rightarrow>
   (string \<Rightarrow> unit option) \<Rightarrow> string \<Rightarrow> unit sent" where
  "sys_disable_auth_method env cl from_json mount_path =
     sbind (pure (sys_path ''sys/auth'' mount_path None)) (\<lambda>p.
     request_sys_json_accepting env cl from_json ''DELETE'' p None [200, 204])"

definition sys_read_auth_tune ::
  "http_env \<Rightarrow> client \<Rightarrow> (string \<Rightarrow> 'a option) \<Rightarrow>
   string \<Rightarrow> 'a sent" where
  "sys_read_auth_tune env cl from_json mount_path =
     sbind (pure (sys_path ''sys/auth'' mount_path (Some ''tune''))) (\<lambda>p.
     request_sys_json_internal env cl from_json ''GET'' p None)"

definition sys_tune_auth_method ::
  "http_env \<Rightarrow> client \<Rightarrow>
   (string \<Rightarrow> unit option) \<Rightarrow>
   (mount_config \<Rightarrow> payload) \<Rightarrow> string \<Rightarrow>
   mount_config \<Rightarrow> unit sent" where
  "sys_tune_auth_method env cl from_json to_json mount_path config =
     sbind (pure (sys_path ''sys/auth'' mount_path (Some ''tune''))) (\<lambda>path.
     sbind (sys_validate_latest_plugin_selection env cl (Some config)) (\<lambda>_.
     request_sys_json_internal env cl from_json ''POST'' path (Some (to_json config))))"

definition sys_ui_mount_details ::
  "http_env \<Rightarrow> client \<Rightarrow> (string \<Rightarrow> 'a option) \<Rightarrow>
   string \<Rightarrow> 'a sent" where
  "sys_ui_mount_details env cl from_json path =
     sbind (pure (sys_internal_ui_mount_path path)) (\<lambda>p.
     request_sys_json_internal env cl from_json ''GET'' p None)"

definition sys_ui_feature_flags ::
  "http_env \<Rightarrow> client \<Rightarrow> (string \<Rightarrow> 'a option) \<Rightarrow>
   'a sent" where
  "sys_ui_feature_flags env cl from_json =
     request_registered_json_query_headers_accepting env cl from_json ''/sys/'' ''GET''
       ''sys/internal/ui/feature-flags'' ''sys/internal/ui/feature-flags'' [] [] None [200]"

definition sys_list_ui_headers ::
  "http_env \<Rightarrow> client \<Rightarrow> (string \<Rightarrow> 'a option) \<Rightarrow>
   'a sent" where
  "sys_list_ui_headers env cl from_json =
     request_sys_json_internal env cl from_json ''LIST'' ''sys/config/ui/headers'' None"

definition sys_read_ui_header ::
  "http_env \<Rightarrow> client \<Rightarrow>
   (string \<Rightarrow> 'a response_envelope option) \<Rightarrow>
   (string \<Rightarrow> string option) \<Rightarrow> string \<Rightarrow> 'a sent" where
  "sys_read_ui_header env cl from_json header_name name =
     sbind (pure (sys_ui_header_path header_name name)) (\<lambda>p.
     smap env_data (request_sys_json_internal env cl from_json ''GET'' p None))"

definition sys_write_ui_header ::
  "http_env \<Rightarrow> client \<Rightarrow>
   (string \<Rightarrow> unit option) \<Rightarrow>
   (ui_header_config \<Rightarrow> payload) \<Rightarrow>
   (string \<Rightarrow> string option) \<Rightarrow> string \<Rightarrow>
   ui_header_config \<Rightarrow> unit sent" where
  "sys_write_ui_header env cl from_json to_json header_name name config =
     (if MAX_RESPONSE_STRINGS < length (ui_header_config_values config) then pure (Inl
       (InvalidParameter ''UI header value list exceeds item limit''))
        else sbind (pure (sys_ui_header_path header_name name)) (\<lambda>p.
        request_sys_json_internal env cl from_json ''POST'' p (Some (to_json config))))"

definition sys_delete_ui_header ::
  "http_env \<Rightarrow> client \<Rightarrow>
   (string \<Rightarrow> unit option) \<Rightarrow>
   (string \<Rightarrow> string option) \<Rightarrow> string \<Rightarrow> unit sent" where
  "sys_delete_ui_header env cl from_json header_name name =
     sbind (pure (sys_ui_header_path header_name name)) (\<lambda>p.
     request_sys_json_accepting env cl from_json ''DELETE'' p None [200, 204])"

definition sys_internal_entity_counters ::
  "http_env \<Rightarrow> client \<Rightarrow>
   (string \<Rightarrow> 'a response_envelope option) \<Rightarrow> 'a sent" where
  "sys_internal_entity_counters env cl from_json =
     smap env_data (request_sys_json_internal env cl from_json ''GET''
       ''sys/internal/counters/entities'' None)"

definition sys_internal_token_counters ::
  "http_env \<Rightarrow> client \<Rightarrow>
   (string \<Rightarrow> 'a response_envelope option) \<Rightarrow> 'a sent" where
  "sys_internal_token_counters env cl from_json =
     smap env_data (request_sys_json_internal env cl from_json ''GET''
       ''sys/internal/counters/tokens'' None)"

definition sys_internal_router_inspection ::
  "http_env \<Rightarrow> client \<Rightarrow>
   (string \<Rightarrow> 'a response_envelope option) \<Rightarrow>
   internal_router_target \<Rightarrow> 'a sent" where
  "sys_internal_router_inspection env cl from_json target =
     smap env_data (request_sys_json_internal env cl from_json ''GET''
       (''sys/internal/inspect/router/'' @ internal_router_target_path_segment target) None)"

definition sys_list_policies ::
  "http_env \<Rightarrow> client \<Rightarrow>
   (string \<Rightarrow> 'a response_envelope option) \<Rightarrow> 'a sent" where
  "sys_list_policies env cl from_json =
     smap env_data (request_sys_json_internal env cl from_json ''LIST'' ''sys/policies/acl''
       None)"

definition sys_list_policies_with_prefix ::
  "http_env \<Rightarrow> client \<Rightarrow>
   (string \<Rightarrow> 'a response_envelope option) \<Rightarrow> string \<Rightarrow>
   'a sent" where
  "sys_list_policies_with_prefix env cl from_json pre =
     sbind (pure (sys_path ''sys/policies/acl'' pre None)) (\<lambda>p.
     smap env_data (request_sys_json_internal env cl from_json ''LIST'' p None))"

definition sys_read_policy ::
  "http_env \<Rightarrow> client \<Rightarrow>
   (string \<Rightarrow> 'a response_envelope option) \<Rightarrow> string \<Rightarrow>
   'a sent" where
  "sys_read_policy env cl from_json name =
     sbind (pure (sys_path ''sys/policies/acl'' name None)) (\<lambda>p.
     smap env_data (request_sys_json_internal env cl from_json ''GET'' p None))"

definition sys_read_policy_details ::
  "http_env \<Rightarrow> client \<Rightarrow>
   (string \<Rightarrow> 'a response_envelope option) \<Rightarrow> string \<Rightarrow>
   'a sent" where
  "sys_read_policy_details env cl from_json name =
     sbind (pure (sys_path ''sys/policies/acl'' name None)) (\<lambda>p.
     smap env_data (request_sys_json_internal env cl from_json ''GET'' p None))"

definition sys_write_policy ::
  "http_env \<Rightarrow> client \<Rightarrow>
   (string \<Rightarrow> unit option) \<Rightarrow>
   (policy_write_request \<Rightarrow> payload) \<Rightarrow> string \<Rightarrow>
   policy_write_request \<Rightarrow> unit sent" where
  "sys_write_policy env cl from_json to_json name request =
     sbind (pure (policy_write_request_validate request)) (\<lambda>_.
     sbind (pure (client_validate_fields env [(POLICY_EXPIRATION,
       policy_write_request_expiration request \<noteq> None), (POLICY_TTL,
       policy_write_request_ttl request \<noteq> None), (POLICY_CAS, policy_write_request_cas
       request \<noteq> None), (POLICY_CAS_REQUIRED, policy_write_request_cas_required request
       \<noteq> None)])) (\<lambda>_.
     sbind (pure (sys_path ''sys/policies/acl'' name None)) (\<lambda>p.
     request_sys_json_internal env cl from_json ''POST'' p (Some (to_json request)))))"

definition sys_patch_policy ::
  "http_env \<Rightarrow> client \<Rightarrow>
   (string \<Rightarrow> unit option) \<Rightarrow>
   (policy_patch_request \<Rightarrow> payload) \<Rightarrow> string \<Rightarrow>
   policy_patch_request \<Rightarrow> unit sent" where
  "sys_patch_policy env cl from_json to_json name request =
     sbind (pure (policy_patch_request_validate request)) (\<lambda>_.
     sbind (pure (client_validate_fields env [(POLICY_EXPIRATION,
       policy_patch_request_expiration request \<noteq> None), (POLICY_TTL,
       policy_patch_request_ttl request \<noteq> None), (POLICY_CAS, policy_patch_request_cas
       request \<noteq> None), (POLICY_CAS_REQUIRED, policy_patch_request_cas_required request
       \<noteq> None)])) (\<lambda>_.
     sbind (pure (sys_path ''sys/policies/acl'' name None)) (\<lambda>p.
     request_sys_json_headers_accepting env cl from_json ''PATCH'' p merge_patch (Some (to_json
       request)) [200, 204])))"

definition sys_patch_policy_with_identity_template_overrides ::
  "http_env \<Rightarrow> client \<Rightarrow>
   (string \<Rightarrow> unit option) \<Rightarrow>
   (policy_patch_with_identity_template_overrides \<Rightarrow> payload) \<Rightarrow>
   string \<Rightarrow> policy_patch_request \<Rightarrow>
   acl_identity_template_overrides \<Rightarrow> unit sent" where
  "sys_patch_policy_with_identity_template_overrides env cl from_json to_json name request
    overrides =
     sbind (pure (policy_patch_request_validate request)) (\<lambda>_.
     sbind (pure (client_validate_fields env [(POLICY_EXPIRATION,
       policy_patch_request_expiration request \<noteq> None), (POLICY_TTL,
       policy_patch_request_ttl request \<noteq> None), (POLICY_CAS, policy_patch_request_cas
       request \<noteq> None), (POLICY_CAS_REQUIRED, policy_patch_request_cas_required request
       \<noteq> None), (POLICY_ALLOW_TEMPLATE_SLASHES,
       acl_identity_template_overrides_allow_slashes overrides),
       (POLICY_ALLOW_TEMPLATE_WILDCARDS, acl_identity_template_overrides_allow_wildcards
       overrides)])) (\<lambda>_.
     let payload = \<lparr>policy_patch_with_identity_template_overrides_request = request,
       policy_patch_with_identity_template_overrides_allow_slashes_in_identity_templates = acl_identity_template_overrides_allow_slashes overrides,
       policy_patch_with_identity_template_overrides_allow_wildcards_in_identity_templates = acl_identity_template_overrides_allow_wildcards overrides\<rparr>
       in
     sbind (pure (sys_path ''sys/policies/acl'' name None)) (\<lambda>p.
     request_sys_json_headers_accepting env cl from_json ''PATCH'' p merge_patch (Some (to_json
       payload)) [200, 204])))"

definition sys_write_policy_with_identity_template_overrides ::
  "http_env \<Rightarrow> client \<Rightarrow>
   (string \<Rightarrow> unit option) \<Rightarrow>
   (policy_write_with_identity_template_overrides \<Rightarrow> payload) \<Rightarrow>
   string \<Rightarrow> policy_write_request \<Rightarrow>
   acl_identity_template_overrides \<Rightarrow> unit sent" where
  "sys_write_policy_with_identity_template_overrides env cl from_json to_json name request
    overrides =
     sbind (pure (policy_write_request_validate request)) (\<lambda>_.
     sbind (pure (client_validate_fields env [(POLICY_EXPIRATION,
       policy_write_request_expiration request \<noteq> None), (POLICY_TTL,
       policy_write_request_ttl request \<noteq> None), (POLICY_CAS, policy_write_request_cas
       request \<noteq> None), (POLICY_CAS_REQUIRED, policy_write_request_cas_required request
       \<noteq> None), (POLICY_ALLOW_TEMPLATE_SLASHES,
       acl_identity_template_overrides_allow_slashes overrides),
       (POLICY_ALLOW_TEMPLATE_WILDCARDS, acl_identity_template_overrides_allow_wildcards
       overrides)])) (\<lambda>_.
     let payload = \<lparr>policy_write_with_identity_template_overrides_request = request,
       policy_write_with_identity_template_overrides_allow_slashes_in_identity_templates = acl_identity_template_overrides_allow_slashes overrides,
       policy_write_with_identity_template_overrides_allow_wildcards_in_identity_templates = acl_identity_template_overrides_allow_wildcards overrides\<rparr>
       in
     sbind (pure (sys_path ''sys/policies/acl'' name None)) (\<lambda>p.
     request_sys_json_internal env cl from_json ''POST'' p (Some (to_json payload)))))"

definition sys_delete_policy ::
  "http_env \<Rightarrow> client \<Rightarrow>
   (string \<Rightarrow> unit option) \<Rightarrow> string \<Rightarrow> unit sent" where
  "sys_delete_policy env cl from_json name =
     sbind (pure (sys_path ''sys/policies/acl'' name None)) (\<lambda>p.
     request_sys_json_accepting env cl from_json ''DELETE'' p None [200, 204])"

definition sys_list_policies_detailed ::
  "http_env \<Rightarrow> client \<Rightarrow>
   (string \<Rightarrow> 'a response_envelope option) \<Rightarrow> 'a sent" where
  "sys_list_policies_detailed env cl from_json =
     smap env_data (request_sys_json_internal env cl from_json ''LIST''
       ''sys/policies/detailed/acl'' None)"

definition sys_list_policies_detailed_with_prefix ::
  "http_env \<Rightarrow> client \<Rightarrow>
   (string \<Rightarrow> 'a response_envelope option) \<Rightarrow> string \<Rightarrow>
   'a sent" where
  "sys_list_policies_detailed_with_prefix env cl from_json pre =
     sbind (pure (sys_path ''sys/policies/detailed/acl'' pre None)) (\<lambda>p.
     smap env_data (request_sys_json_internal env cl from_json ''LIST'' p None))"

definition sys_list_password_policies ::
  "http_env \<Rightarrow> client \<Rightarrow> (string \<Rightarrow> 'a option) \<Rightarrow>
   'a sent" where
  "sys_list_password_policies env cl from_json =
     request_sys_json_internal env cl from_json ''LIST'' ''sys/policies/password'' None"

definition sys_read_password_policy ::
  "http_env \<Rightarrow> client \<Rightarrow> (string \<Rightarrow> 'a option) \<Rightarrow>
   string \<Rightarrow> 'a sent" where
  "sys_read_password_policy env cl from_json name =
     sbind (pure (sys_path ''sys/policies/password'' name None)) (\<lambda>p.
     request_sys_json_internal env cl from_json ''GET'' p None)"

definition sys_write_password_policy ::
  "http_env \<Rightarrow> client \<Rightarrow>
   (string \<Rightarrow> unit option) \<Rightarrow>
   (password_policy_write_request \<Rightarrow> payload) \<Rightarrow> string \<Rightarrow>
   password_policy_write_request \<Rightarrow> unit sent" where
  "sys_write_password_policy env cl from_json to_json name request =
     sbind (pure (sys_path ''sys/policies/password'' name None)) (\<lambda>p.
     request_sys_json_internal env cl from_json ''POST'' p (Some (to_json request)))"

definition sys_delete_password_policy ::
  "http_env \<Rightarrow> client \<Rightarrow>
   (string \<Rightarrow> unit option) \<Rightarrow> string \<Rightarrow> unit sent" where
  "sys_delete_password_policy env cl from_json name =
     sbind (pure (sys_path ''sys/policies/password'' name None)) (\<lambda>p.
     request_sys_json_accepting env cl from_json ''DELETE'' p None [200, 204])"

definition sys_generate_password ::
  "http_env \<Rightarrow> client \<Rightarrow> (string \<Rightarrow> 'a option) \<Rightarrow>
   string \<Rightarrow> 'a sent" where
  "sys_generate_password env cl from_json name =
     sbind (pure (sys_path ''sys/policies/password'' name (Some ''generate''))) (\<lambda>p.
     request_sys_json_internal env cl from_json ''GET'' p None)"

definition sys_capabilities_self ::
  "http_env \<Rightarrow> client \<Rightarrow>
   (string \<Rightarrow> 'a response_envelope option) \<Rightarrow>
   (capabilities_payload \<Rightarrow> payload) \<Rightarrow> string list \<Rightarrow>
   'a sent" where
  "sys_capabilities_self env cl from_json to_json paths =
     sbind (pure (sys_validate_capability_paths paths)) (\<lambda>paths.
     let payload = \<lparr>capabilities_payload_paths = paths,
       capabilities_payload_token = None, capabilities_payload_accessor = None\<rparr> in
     smap env_data (request_sys_json_internal env cl from_json ''POST''
       ''sys/capabilities-self'' (Some (to_json payload))))"

definition sys_capabilities ::
  "http_env \<Rightarrow> client \<Rightarrow>
   (string \<Rightarrow> 'a response_envelope option) \<Rightarrow>
   (capabilities_payload \<Rightarrow> payload) \<Rightarrow> string \<Rightarrow>
   string list \<Rightarrow> 'a sent" where
  "sys_capabilities env cl from_json to_json token paths =
     sbind (pure (sys_validate_capability_paths paths)) (\<lambda>paths.
     let payload = \<lparr>capabilities_payload_paths = paths,
       capabilities_payload_token = Some token, capabilities_payload_accessor = None\<rparr> in
     smap env_data (request_sys_json_internal env cl from_json ''POST'' ''sys/capabilities''
       (Some (to_json payload))))"

definition sys_capabilities_accessor ::
  "http_env \<Rightarrow> client \<Rightarrow>
   (string \<Rightarrow> 'a response_envelope option) \<Rightarrow>
   (capabilities_payload \<Rightarrow> payload) \<Rightarrow> string \<Rightarrow>
   string list \<Rightarrow> 'a sent" where
  "sys_capabilities_accessor env cl from_json to_json accessor paths =
     sbind (pure (sys_validate_capability_paths paths)) (\<lambda>paths.
     let payload = \<lparr>capabilities_payload_paths = paths,
       capabilities_payload_token = None, capabilities_payload_accessor = Some accessor\<rparr>
       in
     smap env_data (request_sys_json_internal env cl from_json ''POST''
       ''sys/capabilities-accessor'' (Some (to_json payload))))"

definition sys_resultant_acl ::
  "http_env \<Rightarrow> client \<Rightarrow> (string \<Rightarrow> 'a option) \<Rightarrow>
   'a sent" where
  "sys_resultant_acl env cl from_json =
     request_sys_json_internal env cl from_json ''GET'' ''sys/internal/ui/resultant-acl'' None"

definition sys_in_flight_requests ::
  "http_env \<Rightarrow> client \<Rightarrow> (string \<Rightarrow> 'a option) \<Rightarrow>
   'a sent" where
  "sys_in_flight_requests env cl from_json =
     request_sys_json_internal env cl from_json ''GET'' ''sys/in-flight-req'' None"

definition sys_validate_mfa ::
  "http_env \<Rightarrow> client \<Rightarrow>
   (string \<Rightarrow> mfa_validate_envelope option) \<Rightarrow>
   (mfa_validate_request \<Rightarrow> payload) \<Rightarrow>
   mfa_validate_request \<Rightarrow> mfa_validate_auth sent" where
  "sys_validate_mfa env cl from_json to_json request =
     sbind (pure (mfa_validate_request_validate request)) (\<lambda>_.
     sbind (request_sys_json_internal env cl from_json ''POST'' ''sys/mfa/validate'' (Some
       (to_json request))) (\<lambda>envelope.
     pure (ok_or (mfa_validate_envelope_auth envelope) (MissingField ''auth''))))"

definition sys_list_audit_devices ::
  "http_env \<Rightarrow> client \<Rightarrow> (string \<Rightarrow> 'a option) \<Rightarrow>
   'a sent" where
  "sys_list_audit_devices env cl from_json =
     request_sys_json_internal env cl from_json ''GET'' ''sys/audit'' None"

definition sys_enable_audit_device ::
  "http_env \<Rightarrow> client \<Rightarrow>
   (string \<Rightarrow> unit option) \<Rightarrow>
   (audit_enable_request \<Rightarrow> payload) \<Rightarrow> string \<Rightarrow>
   audit_enable_request \<Rightarrow> unit sent" where
  "sys_enable_audit_device env cl from_json to_json path request =
     sbind (pure (sys_path ''sys/audit'' path None)) (\<lambda>p.
     request_sys_json_internal env cl from_json ''POST'' p (Some (to_json request)))"

definition sys_disable_audit_device ::
  "http_env \<Rightarrow> client \<Rightarrow>
   (string \<Rightarrow> unit option) \<Rightarrow> string \<Rightarrow> unit sent" where
  "sys_disable_audit_device env cl from_json path =
     sbind (pure (sys_path ''sys/audit'' path None)) (\<lambda>p.
     request_sys_json_accepting env cl from_json ''DELETE'' p None [200, 204])"

definition sys_audit_hash ::
  "http_env \<Rightarrow> client \<Rightarrow> (string \<Rightarrow> 'a option) \<Rightarrow>
   (audit_hash_payload \<Rightarrow> payload) \<Rightarrow> string \<Rightarrow>
   string \<Rightarrow> 'a sent" where
  "sys_audit_hash env cl from_json to_json path input =
     (let payload = \<lparr>audit_hash_payload_input = input\<rparr> in
     sbind (pure (sys_path ''sys/audit-hash'' path None)) (\<lambda>p.
     request_sys_json_internal env cl from_json ''POST'' p (Some (to_json payload))))"

definition sys_list_audited_request_headers ::
  "http_env \<Rightarrow> client \<Rightarrow> (string \<Rightarrow> 'a option) \<Rightarrow>
   'a sent" where
  "sys_list_audited_request_headers env cl from_json =
     request_sys_json_internal env cl from_json ''GET'' ''sys/config/auditing/request-headers''
       None"

definition sys_read_audited_request_header ::
  "http_env \<Rightarrow> client \<Rightarrow>
   (string \<Rightarrow> (string \<times> audited_request_header_config) list option) \<Rightarrow>
   (string \<Rightarrow> string option) \<Rightarrow> string \<Rightarrow>
   audited_request_header_config sent" where
  "sys_read_audited_request_header env cl from_json header_name name =
     sbind (pure (sys_audited_request_header_path header_name name)) (\<lambda>p.
     sbind (request_sys_json_internal env cl from_json ''GET'' p None) (\<lambda>headers.
     pure (ok_or (if map snd headers = [] then None else Some (hd (map snd headers)))
       (MissingField ''audited request header''))))"

definition sys_write_audited_request_header ::
  "http_env \<Rightarrow> client \<Rightarrow>
   (string \<Rightarrow> unit option) \<Rightarrow>
   (audited_request_header_config \<Rightarrow> payload) \<Rightarrow>
   (string \<Rightarrow> string option) \<Rightarrow> string \<Rightarrow>
   audited_request_header_config \<Rightarrow> unit sent" where
  "sys_write_audited_request_header env cl from_json to_json header_name name config =
     sbind (pure (sys_audited_request_header_path header_name name)) (\<lambda>p.
     request_sys_json_accepting env cl from_json ''POST'' p (Some (to_json config)) [200, 204])"

definition sys_delete_audited_request_header ::
  "http_env \<Rightarrow> client \<Rightarrow>
   (string \<Rightarrow> unit option) \<Rightarrow>
   (string \<Rightarrow> string option) \<Rightarrow> string \<Rightarrow> unit sent" where
  "sys_delete_audited_request_header env cl from_json header_name name =
     sbind (pure (sys_audited_request_header_path header_name name)) (\<lambda>p.
     request_sys_json_accepting env cl from_json ''DELETE'' p None [200, 204])"

definition sys_lookup_lease ::
  "http_env \<Rightarrow> client \<Rightarrow>
   (string \<Rightarrow> 'a response_envelope option) \<Rightarrow>
   (lease_lookup_payload \<Rightarrow> payload) \<Rightarrow> string \<Rightarrow> 'a sent" where
  "sys_lookup_lease env cl from_json to_json lease_id =
     sbind (pure (sys_validate_lease_id lease_id)) (\<lambda>segments.
     let payload = \<lparr>lease_lookup_payload_lease_id = segments\<rparr> in
     smap env_data (request_sys_json_internal env cl from_json ''POST'' ''sys/leases/lookup''
       (Some (to_json payload))))"

definition sys_lookup_lease_details ::
  "http_env \<Rightarrow> client \<Rightarrow>
   (string \<Rightarrow> 'a response_envelope option) \<Rightarrow>
   (lease_lookup_payload \<Rightarrow> payload) \<Rightarrow> string \<Rightarrow> 'a sent" where
  "sys_lookup_lease_details env cl from_json to_json lease_id =
     sbind (pure (sys_validate_lease_id lease_id)) (\<lambda>segments.
     let payload = \<lparr>lease_lookup_payload_lease_id = segments\<rparr> in
     smap env_data (request_sys_json_internal env cl from_json ''POST'' ''sys/leases/lookup''
       (Some (to_json payload))))"

definition sys_list_leases ::
  "http_env \<Rightarrow> client \<Rightarrow>
   (string \<Rightarrow> 'a response_envelope option) \<Rightarrow> string \<Rightarrow>
   'a sent" where
  "sys_list_leases env cl from_json lease_type =
     sbind (pure (sys_validate_query_string_value lease_type ''lease type'')) (\<lambda>_.
     smap env_data (request_sys_json_query_accepting env cl from_json ''GET'' ''sys/leases''
       [(''type'', lease_type)] None [200]))"

definition sys_list_lease_ids ::
  "http_env \<Rightarrow> client \<Rightarrow>
   (string \<Rightarrow> 'a response_envelope option) \<Rightarrow> string \<Rightarrow>
   'a sent" where
  "sys_list_lease_ids env cl from_json pre =
     sbind (pure (sys_validate_lease_prefix pre)) (\<lambda>pre.
     smap env_data (request_sys_json_internal env cl from_json ''LIST'' (''sys/leases/lookup/''
       @ pre) None))"

definition sys_renew_lease ::
  "http_env \<Rightarrow> client \<Rightarrow>
   (string \<Rightarrow> unit option response_envelope option) \<Rightarrow>
   (lease_renew_payload \<Rightarrow> payload) \<Rightarrow> string \<Rightarrow>
   64 word option \<Rightarrow> lease_renewal sent" where
  "sys_renew_lease env cl from_json to_json lease_id increment_seconds_v =
     sbind (pure (sys_validate_lease_id lease_id)) (\<lambda>segments.
     let payload = \<lparr>lease_renew_payload_lease_id = segments,
       lease_renew_payload_increment = increment_seconds_v\<rparr> in
     smap (\<lambda>envelope. \<lparr>lease_renewal_lease_id = env_lease_id envelope,
       lease_renewal_lease_duration = env_lease_duration envelope,
       lease_renewal_renewable = env_renewable envelope\<rparr>) (request_sys_json_internal env
       cl from_json ''POST'' ''sys/leases/renew'' (Some (to_json payload))))"

definition sys_revoke_lease ::
  "http_env \<Rightarrow> client \<Rightarrow>
   (string \<Rightarrow> unit option) \<Rightarrow>
   (lease_revoke_payload \<Rightarrow> payload) \<Rightarrow> string \<Rightarrow> unit sent" where
  "sys_revoke_lease env cl from_json to_json lease_id =
     sbind (pure (sys_validate_lease_id lease_id)) (\<lambda>segments.
     let payload = \<lparr>lease_revoke_payload_lease_id = segments\<rparr> in
     request_sys_json_accepting env cl from_json ''POST'' ''sys/leases/revoke'' (Some (to_json
       payload)) [200, 204])"

definition sys_revoke_lease_prefix ::
  "http_env \<Rightarrow> client \<Rightarrow>
   (string \<Rightarrow> unit option) \<Rightarrow> string \<Rightarrow>
   bool option \<Rightarrow> unit sent" where
  "sys_revoke_lease_prefix env cl from_json pre sync =
     sbind (pure (sys_validate_lease_prefix pre)) (\<lambda>pre.
     let query = (case sync of None \<Rightarrow> [] | Some sync \<Rightarrow> [(''sync'', (if
       sync then ''true'' else ''false''))]) in
     request_sys_json_query_accepting env cl from_json ''POST'' (''sys/leases/revoke-prefix/''
       @ pre) query None [200, 204])"

definition sys_force_revoke_lease_prefix ::
  "http_env \<Rightarrow> client \<Rightarrow>
   (string \<Rightarrow> unit option) \<Rightarrow> string \<Rightarrow> unit sent" where
  "sys_force_revoke_lease_prefix env cl from_json pre =
     sbind (pure (sys_validate_lease_prefix pre)) (\<lambda>pre.
     request_sys_json_accepting env cl from_json ''POST'' (''sys/leases/revoke-force/'' @ pre)
       None [200, 204])"

definition sys_tidy_leases ::
  "http_env \<Rightarrow> client \<Rightarrow>
   (string \<Rightarrow> unit option) \<Rightarrow> unit sent" where
  "sys_tidy_leases env cl from_json =
     request_sys_json_accepting env cl from_json ''POST'' ''sys/leases/tidy'' None [200, 204]"

definition sys_count_leases ::
  "http_env \<Rightarrow> client \<Rightarrow>
   (string \<Rightarrow> 'a response_envelope option) \<Rightarrow>
   string option \<Rightarrow> 'a sent" where
  "sys_count_leases env cl from_json lease_type =
     sbind (pure (case lease_type of
        Some lease_type \<Rightarrow> rbind (sys_validate_query_string_value lease_type
          ''lease type'') (\<lambda>_.
        Inr [(''type'', lease_type)])
      | None \<Rightarrow> Inr [])) (\<lambda>query.
     smap env_data (request_sys_json_query_accepting env cl from_json ''GET''
       ''sys/leases/count'' query None [200]))"

definition sys_list_plugins ::
  "http_env \<Rightarrow> client \<Rightarrow>
   (string \<Rightarrow> 'a response_envelope option) \<Rightarrow> 'a sent" where
  "sys_list_plugins env cl from_json =
     smap env_data (request_sys_json_internal env cl from_json ''GET'' ''sys/plugins/catalog''
       None)"

definition sys_list_plugins_by_type ::
  "http_env \<Rightarrow> client \<Rightarrow>
   (string \<Rightarrow> 'a response_envelope option) \<Rightarrow> plugin_type \<Rightarrow>
   'a sent" where
  "sys_list_plugins_by_type env cl from_json plugin_type =
     sbind (pure (sys_plugin_catalog_type_path plugin_type)) (\<lambda>p.
     smap env_data (request_sys_json_internal env cl from_json ''LIST'' p None))"

definition sys_register_plugin ::
  "http_env \<Rightarrow> client \<Rightarrow>
   (string \<Rightarrow> unit option) \<Rightarrow>
   (plugin_register_payload \<Rightarrow> payload) \<Rightarrow> plugin_type \<Rightarrow>
   string \<Rightarrow> plugin_register_request \<Rightarrow> unit sent" where
  "sys_register_plugin env cl from_json to_json plugin_type name request =
     sbind (pure (sys_validate_sha256_hex (plugin_register_request_sha256 request)
       ''plugin SHA-256'')) (\<lambda>_.
     sbind (pure (client_validate_fields env [(PLUGIN_OCI, plugin_register_request_oci request
       \<noteq> None)])) (\<lambda>_.
     let payload =
       \<lparr>plugin_register_payload_version = plugin_register_request_version request,
       plugin_register_payload_sha256 = plugin_register_request_sha256 request,
       plugin_register_payload_command = plugin_register_request_command request,
       plugin_register_payload_args = plugin_register_request_args request,
       plugin_register_payload_env = plugin_register_request_env request,
       plugin_register_payload_oci = plugin_register_request_oci request\<rparr> in
     sbind (pure (sys_plugin_catalog_entry_path plugin_type name)) (\<lambda>p.
     request_sys_json_internal env cl from_json ''POST'' p (Some (to_json payload)))))"

definition sys_read_plugin ::
  "http_env \<Rightarrow> client \<Rightarrow>
   (string \<Rightarrow> 'a response_envelope option) \<Rightarrow> plugin_type \<Rightarrow>
   string \<Rightarrow> string option \<Rightarrow> 'a sent" where
  "sys_read_plugin env cl from_json plugin_type name ver =
     sbind (pure (sys_plugin_version_query ver)) (\<lambda>query.
     sbind (pure (sys_plugin_catalog_entry_path plugin_type name)) (\<lambda>p.
     smap env_data (request_sys_json_query_accepting env cl from_json ''GET'' p query None
       [200])))"

definition sys_delete_plugin ::
  "http_env \<Rightarrow> client \<Rightarrow>
   (string \<Rightarrow> unit option) \<Rightarrow> plugin_type \<Rightarrow>
   string \<Rightarrow> string option \<Rightarrow> unit sent" where
  "sys_delete_plugin env cl from_json plugin_type name ver =
     sbind (pure (sys_plugin_version_query ver)) (\<lambda>query.
     sbind (pure (sys_plugin_catalog_entry_path plugin_type name)) (\<lambda>p.
     request_sys_json_query_accepting env cl from_json ''DELETE'' p query None [200, 204]))"

definition sys_reload_plugin_backend ::
  "http_env \<Rightarrow> client \<Rightarrow>
   (string \<Rightarrow> unit option) \<Rightarrow>
   (plugin_reload_payload \<Rightarrow> payload) \<Rightarrow>
   plugin_reload_request \<Rightarrow> unit sent" where
  "sys_reload_plugin_backend env cl from_json to_json request =
     sbind (pure (sys_validate_plugin_reload_request request)) (\<lambda>payload.
     request_sys_json_internal env cl from_json ''POST'' ''sys/plugins/reload/backend'' (Some
       (to_json payload)))"

definition sys_set_logger_levels ::
  "http_env \<Rightarrow> client \<Rightarrow>
   (string \<Rightarrow> unit option) \<Rightarrow>
   (logger_level_payload \<Rightarrow> payload) \<Rightarrow> logger_level \<Rightarrow>
   unit sent" where
  "sys_set_logger_levels env cl from_json to_json level =
     request_sys_json_internal env cl from_json ''POST'' ''sys/loggers'' (Some (to_json
       \<lparr>logger_level_payload_level = logger_level_as_str level\<rparr>))"

definition sys_set_logger_level ::
  "http_env \<Rightarrow> client \<Rightarrow>
   (string \<Rightarrow> unit option) \<Rightarrow>
   (logger_level_payload \<Rightarrow> payload) \<Rightarrow> string \<Rightarrow>
   logger_level \<Rightarrow> unit sent" where
  "sys_set_logger_level env cl from_json to_json name level =
     sbind (pure (sys_logger_path name)) (\<lambda>p.
     request_sys_json_internal env cl from_json ''POST'' p (Some (to_json
       \<lparr>logger_level_payload_level = logger_level_as_str level\<rparr>)))"

definition sys_reset_logger_levels ::
  "http_env \<Rightarrow> client \<Rightarrow>
   (string \<Rightarrow> unit option) \<Rightarrow> unit sent" where
  "sys_reset_logger_levels env cl from_json =
     request_sys_json_accepting env cl from_json ''DELETE'' ''sys/loggers'' None [200, 204]"

definition sys_reset_logger_level ::
  "http_env \<Rightarrow> client \<Rightarrow>
   (string \<Rightarrow> unit option) \<Rightarrow> string \<Rightarrow> unit sent" where
  "sys_reset_logger_level env cl from_json name =
     sbind (pure (sys_logger_path name)) (\<lambda>p.
     request_sys_json_accepting env cl from_json ''DELETE'' p None [200, 204])"

definition sys_cors_config ::
  "http_env \<Rightarrow> client \<Rightarrow> (string \<Rightarrow> 'a option) \<Rightarrow>
   'a sent" where
  "sys_cors_config env cl from_json =
     request_sys_json_internal env cl from_json ''GET'' ''sys/config/cors'' None"

definition sys_cors_config_details ::
  "http_env \<Rightarrow> client \<Rightarrow> (string \<Rightarrow> 'a option) \<Rightarrow>
   'a sent" where
  "sys_cors_config_details env cl from_json =
     request_sys_json_internal env cl from_json ''GET'' ''sys/config/cors'' None"

definition sys_write_cors_config ::
  "http_env \<Rightarrow> client \<Rightarrow>
   (string \<Rightarrow> unit option) \<Rightarrow>
   (cors_config_request \<Rightarrow> payload) \<Rightarrow>
   (string \<Rightarrow> string option) \<Rightarrow>
   (string \<Rightarrow> url option) \<Rightarrow> cors_config_request \<Rightarrow>
   unit sent" where
  "sys_write_cors_config env cl from_json to_json header_name parse_url request =
     sbind (pure (cors_config_request_validate header_name parse_url request)) (\<lambda>_.
     request_sys_json_internal env cl from_json ''POST'' ''sys/config/cors'' (Some (to_json
       request)))"

definition sys_write_cors_config_with_credentials ::
  "http_env \<Rightarrow> client \<Rightarrow>
   (string \<Rightarrow> unit option) \<Rightarrow>
   (cors_config_request_with_credentials \<Rightarrow> payload) \<Rightarrow>
   (string \<Rightarrow> string option) \<Rightarrow>
   (string \<Rightarrow> url option) \<Rightarrow> cors_config_request \<Rightarrow>
   bool \<Rightarrow> unit sent" where
  "sys_write_cors_config_with_credentials env cl from_json to_json header_name parse_url
    request allow_credentials =
     sbind (pure (cors_config_request_validate header_name parse_url request)) (\<lambda>_.
     sbind (pure (client_validate_fields env [(CORS_ALLOW_CREDENTIALS, True)])) (\<lambda>_.
     request_sys_json_internal env cl from_json ''POST'' ''sys/config/cors'' (Some (to_json
       \<lparr>cors_config_request_with_credentials_request = request,
       cors_config_request_with_credentials_allow_credentials = allow_credentials\<rparr>))))"

definition sys_delete_cors_config ::
  "http_env \<Rightarrow> client \<Rightarrow>
   (string \<Rightarrow> unit option) \<Rightarrow> unit sent" where
  "sys_delete_cors_config env cl from_json =
     request_sys_json_accepting env cl from_json ''DELETE'' ''sys/config/cors'' None [200, 204]"

definition sys_version_history ::
  "http_env \<Rightarrow> client \<Rightarrow> (string \<Rightarrow> 'a option) \<Rightarrow>
   'a sent" where
  "sys_version_history env cl from_json =
     request_sys_json_internal env cl from_json ''LIST'' ''sys/version-history'' None"

definition sys_version_history_details ::
  "http_env \<Rightarrow> client \<Rightarrow> (string \<Rightarrow> 'a option) \<Rightarrow>
   'a sent" where
  "sys_version_history_details env cl from_json =
     request_sys_json_internal env cl from_json ''LIST'' ''sys/version-history'' None"

definition sys_list_namespaces ::
  "http_env \<Rightarrow> client \<Rightarrow>
   (string \<Rightarrow> 'a response_envelope option) \<Rightarrow> 'a sent" where
  "sys_list_namespaces env cl from_json =
     smap env_data (request_sys_json_internal env cl from_json ''LIST'' ''sys/namespaces''
       None)"

definition sys_create_namespace ::
  "http_env \<Rightarrow> client \<Rightarrow>
   (string \<Rightarrow> unit option) \<Rightarrow>
   (namespace_request \<Rightarrow> payload) \<Rightarrow> string \<Rightarrow>
   namespace_request \<Rightarrow> unit sent" where
  "sys_create_namespace env cl from_json to_json path request =
     sbind (pure (sys_validate_namespace_request request)) (\<lambda>_.
     sbind (pure (sys_namespace_path path)) (\<lambda>p.
     request_sys_json_accepting env cl from_json ''POST'' p (Some (to_json request)) [200,
       204]))"

definition sys_create_sealable_namespace ::
  "http_env \<Rightarrow> client \<Rightarrow>
   (string \<Rightarrow> 'a response_envelope option) \<Rightarrow>
   (sealable_namespace_payload \<Rightarrow> payload) \<Rightarrow>
   (string \<Rightarrow> bool) \<Rightarrow> string \<Rightarrow>
   sealable_namespace_request \<Rightarrow> 'a sent" where
  "sys_create_sealable_namespace env cl from_json to_json valid_base64 path request =
     sbind (pure (sys_namespace_path path)) (\<lambda>path.
     sbind (pure (sys_validate_sealable_namespace_request valid_base64 request)) (\<lambda>_.
     sbind (pure (client_validate_fields env [(NAMESPACE_SEAL_CONFIG, True)])) (\<lambda>_.
     let payload =
       \<lparr>sealable_namespace_payload_custom_metadata = sealable_namespace_request_custom_metadata request,
       sealable_namespace_payload_seal = sealable_namespace_request_seal_document request,
       sealable_namespace_payload_pgp_keys = (if \<not> (sealable_namespace_request_pgp_keys
       request = []) then Some (sealable_namespace_request_pgp_keys request) else None)\<rparr>
       in
     smap env_data (request_sys_json_internal env cl from_json ''POST'' path (Some (to_json
       payload))))))"

definition sys_read_namespace ::
  "http_env \<Rightarrow> client \<Rightarrow> (string \<Rightarrow> 'a option) \<Rightarrow>
   string \<Rightarrow> 'a sent" where
  "sys_read_namespace env cl from_json path =
     sbind (pure (sys_namespace_path path)) (\<lambda>p.
     request_sys_json_internal env cl from_json ''GET'' p None)"

definition sys_patch_namespace ::
  "http_env \<Rightarrow> client \<Rightarrow>
   (string \<Rightarrow> unit option) \<Rightarrow>
   (namespace_request \<Rightarrow> payload) \<Rightarrow> string \<Rightarrow>
   namespace_request \<Rightarrow> unit sent" where
  "sys_patch_namespace env cl from_json to_json path request =
     sbind (pure (sys_validate_namespace_request request)) (\<lambda>_.
     sbind (pure (sys_namespace_path path)) (\<lambda>p.
     request_sys_json_headers_accepting env cl from_json ''PATCH'' p merge_patch (Some (to_json
       request)) [200, 204]))"

definition sys_clear_namespace_metadata ::
  "http_env \<Rightarrow> client \<Rightarrow>
   (string \<Rightarrow> unit option) \<Rightarrow>
   (namespace_clear_metadata_request \<Rightarrow> payload) \<Rightarrow>
   string \<Rightarrow> unit sent" where
  "sys_clear_namespace_metadata env cl from_json to_json path =
     (let request = \<lparr>namespace_clear_metadata_request_custom_metadata = None\<rparr> in
     sbind (pure (sys_namespace_path path)) (\<lambda>p.
     request_sys_json_headers_accepting env cl from_json ''PATCH'' p merge_patch (Some (to_json
       request)) [200, 204]))"

definition sys_delete_namespace ::
  "http_env \<Rightarrow> client \<Rightarrow>
   (string \<Rightarrow> unit option) \<Rightarrow> string \<Rightarrow> unit sent" where
  "sys_delete_namespace env cl from_json path =
     sbind (pure (sys_namespace_path path)) (\<lambda>p.
     request_sys_json_accepting env cl from_json ''DELETE'' p None [200, 204])"

definition sys_namespace_seal_status ::
  "http_env \<Rightarrow> client \<Rightarrow>
   (string \<Rightarrow> 'a response_envelope option) \<Rightarrow> string \<Rightarrow>
   'a sent" where
  "sys_namespace_seal_status env cl from_json path =
     sbind (pure (sys_namespace_path path)) (\<lambda>p.
     let path = p @ ''/seal-status'' in
     smap env_data (request_sys_json_internal env cl from_json ''GET'' path None))"

definition sys_seal_namespace ::
  "http_env \<Rightarrow> client \<Rightarrow>
   (string \<Rightarrow> unit option) \<Rightarrow> string \<Rightarrow> unit sent" where
  "sys_seal_namespace env cl from_json path =
     sbind (pure (sys_namespace_path path)) (\<lambda>p.
     let path = p @ ''/seal'' in
     request_sys_json_accepting env cl from_json ''POST'' path None [200, 204])"

definition sys_namespace_unseal ::
  "http_env \<Rightarrow> client \<Rightarrow>
   (string \<Rightarrow> 'a response_envelope option) \<Rightarrow>
   (namespace_unseal_payload \<Rightarrow> payload) \<Rightarrow> string \<Rightarrow>
   string option \<Rightarrow> bool \<Rightarrow> 'a sent" where
  "sys_namespace_unseal env cl from_json to_json path key reset =
     sbind (pure (sys_namespace_path path)) (\<lambda>p.
     let path = p @ ''/unseal'' in
     let payload = \<lparr>namespace_unseal_payload_key = key,
       namespace_unseal_payload_reset = (if reset then Some True else None)\<rparr> in
     smap env_data (request_sys_json_internal env cl from_json ''POST'' path (Some (to_json
       payload))))"

definition sys_unseal_namespace ::
  "http_env \<Rightarrow> client \<Rightarrow>
   (string \<Rightarrow> 'a response_envelope option) \<Rightarrow>
   (namespace_unseal_payload \<Rightarrow> payload) \<Rightarrow> string \<Rightarrow>
   string \<Rightarrow> 'a sent" where
  "sys_unseal_namespace env cl from_json to_json path key =
     sbind (pure (sys_validate_namespace_unseal_key key)) (\<lambda>_.
     sys_namespace_unseal env cl from_json to_json path (Some key) False)"

definition sys_reset_namespace_unseal ::
  "http_env \<Rightarrow> client \<Rightarrow>
   (string \<Rightarrow> 'a response_envelope option) \<Rightarrow>
   (namespace_unseal_payload \<Rightarrow> payload) \<Rightarrow> string \<Rightarrow>
   'a sent" where
  "sys_reset_namespace_unseal env cl from_json to_json path =
     sys_namespace_unseal env cl from_json to_json path None True"

definition sys_delete_sealed_namespace ::
  "http_env \<Rightarrow> client \<Rightarrow>
   (string \<Rightarrow> optional_sealed_namespace_deletion_envelope option) \<Rightarrow>
   string \<Rightarrow> sealed_namespace_deletion \<Rightarrow>
   sealed_namespace_deletion_status option sent" where
  "sys_delete_sealed_namespace env cl from_json path confirmation =
     sbind (pure (sys_namespace_path path)) (\<lambda>p.
     let path = p @ ''/delete-sealed'' in
     let query = (case (if sealed_namespace_deletion_force confirmation then Some (''force'',
       ''true'') else None) of None \<Rightarrow> [] | Some x \<Rightarrow> [x]) in
     smap (\<lambda>envelope. optional_sealed_namespace_deletion_envelope_data envelope)
       (request_sys_json_query_accepting env cl from_json ''DELETE'' path query None [200]))"

definition sys_read_rate_limit_quota_config ::
  "http_env \<Rightarrow> client \<Rightarrow>
   (string \<Rightarrow> 'a response_envelope option) \<Rightarrow> 'a sent" where
  "sys_read_rate_limit_quota_config env cl from_json =
     smap env_data (request_sys_json_internal env cl from_json ''GET'' ''sys/quotas/config''
       None)"

definition sys_write_rate_limit_quota_config ::
  "http_env \<Rightarrow> client \<Rightarrow>
   (string \<Rightarrow> unit option) \<Rightarrow>
   (rate_limit_quota_config \<Rightarrow> payload) \<Rightarrow>
   rate_limit_quota_config \<Rightarrow> unit sent" where
  "sys_write_rate_limit_quota_config env cl from_json to_json request =
     sbind (pure (sys_validate_rate_limit_quota_config request)) (\<lambda>_.
     request_sys_json_internal env cl from_json ''POST'' ''sys/quotas/config'' (Some (to_json
       request)))"

definition sys_list_rate_limit_quotas ::
  "http_env \<Rightarrow> client \<Rightarrow>
   (string \<Rightarrow> 'a response_envelope option) \<Rightarrow> 'a sent" where
  "sys_list_rate_limit_quotas env cl from_json =
     smap env_data (request_sys_json_internal env cl from_json ''LIST''
       ''sys/quotas/rate-limit'' None)"

definition sys_write_rate_limit_quota ::
  "http_env \<Rightarrow> client \<Rightarrow>
   (string \<Rightarrow> unit option) \<Rightarrow>
   (rate_limit_quota_request \<Rightarrow> payload) \<Rightarrow> string \<Rightarrow>
   rate_limit_quota_request \<Rightarrow> unit sent" where
  "sys_write_rate_limit_quota env cl from_json to_json name request =
     sbind (pure (sys_validate_rate_limit_quota_request request)) (\<lambda>_.
     sbind (pure (sys_rate_limit_quota_path name)) (\<lambda>p.
     request_sys_json_internal env cl from_json ''POST'' p (Some (to_json request))))"

definition sys_read_rate_limit_quota ::
  "http_env \<Rightarrow> client \<Rightarrow>
   (string \<Rightarrow> 'a response_envelope option) \<Rightarrow> string \<Rightarrow>
   'a sent" where
  "sys_read_rate_limit_quota env cl from_json name =
     sbind (pure (sys_rate_limit_quota_path name)) (\<lambda>p.
     smap env_data (request_sys_json_internal env cl from_json ''GET'' p None))"

definition sys_delete_rate_limit_quota ::
  "http_env \<Rightarrow> client \<Rightarrow>
   (string \<Rightarrow> unit option) \<Rightarrow> string \<Rightarrow> unit sent" where
  "sys_delete_rate_limit_quota env cl from_json name =
     sbind (pure (sys_rate_limit_quota_path name)) (\<lambda>p.
     request_sys_json_accepting env cl from_json ''DELETE'' p None [200, 204])"

definition sys_list_locked_users ::
  "http_env \<Rightarrow> client \<Rightarrow>
   (string \<Rightarrow> 'a response_envelope option) \<Rightarrow> 'a sent" where
  "sys_list_locked_users env cl from_json =
     smap env_data (request_sys_json_internal env cl from_json ''GET'' ''sys/locked-users''
       None)"

definition sys_list_locked_users_for_accessor ::
  "http_env \<Rightarrow> client \<Rightarrow>
   (string \<Rightarrow> 'a response_envelope option) \<Rightarrow>
   (locked_users_payload \<Rightarrow> payload) \<Rightarrow> string \<Rightarrow> 'a sent" where
  "sys_list_locked_users_for_accessor env cl from_json to_json mount_accessor =
     sbind (pure (sys_single_path_segment mount_accessor ''mount accessor''))
       (\<lambda>mount_accessor.
     let payload = \<lparr>locked_users_payload_mount_accessor = mount_accessor\<rparr> in
     smap env_data (request_sys_json_internal env cl from_json ''GET'' ''sys/locked-users''
       (Some (to_json payload))))"

definition sys_unlock_user ::
  "http_env \<Rightarrow> client \<Rightarrow>
   (string \<Rightarrow> unit option) \<Rightarrow> string \<Rightarrow> string \<Rightarrow>
   unit sent" where
  "sys_unlock_user env cl from_json mount_accessor alias_identifier =
     sbind (pure (sys_locked_user_unlock_path mount_accessor alias_identifier)) (\<lambda>p.
     request_sys_json_accepting env cl from_json ''POST'' p None [200, 204])"

definition sys_raft_join ::
  "http_env \<Rightarrow> client \<Rightarrow> (string \<Rightarrow> 'a option) \<Rightarrow>
   (raft_join_payload \<Rightarrow> payload) \<Rightarrow>
   (string \<Rightarrow> url option) \<Rightarrow> raft_join_request \<Rightarrow> 'a sent" where
  "sys_raft_join env cl from_json to_json parse_url request =
     sbind (pure (raft_join_request_validate parse_url request)) (\<lambda>_.
     sbind (pure (client_validate_fields env [(RAFT_JOIN_NON_VOTER, raft_join_request_non_voter
       request \<noteq> None)])) (\<lambda>_.
     let payload =
       \<lparr>raft_join_payload_leader_api_addr = raft_join_request_leader_api_addr request,
       raft_join_payload_retry = raft_join_request_retry request,
       raft_join_payload_leader_ca_cert = raft_join_request_leader_ca_cert request,
       raft_join_payload_leader_client_cert = raft_join_request_leader_client_cert request,
       raft_join_payload_leader_client_key = raft_join_request_leader_client_key request,
       raft_join_payload_leader_tls_servername = raft_join_request_leader_tls_servername request,
       raft_join_payload_auto_join = raft_join_request_auto_join request,
       raft_join_payload_auto_join_scheme = raft_join_request_auto_join_scheme request,
       raft_join_payload_auto_join_port = raft_join_request_auto_join_port request,
       raft_join_payload_non_voter = raft_join_request_non_voter request\<rparr> in
     request_sys_json_internal env cl from_json ''POST'' ''sys/storage/raft/join'' (Some
       (to_json payload))))"

definition sys_raft_configuration ::
  "http_env \<Rightarrow> client \<Rightarrow>
   (string \<Rightarrow> 'a response_envelope option) \<Rightarrow> 'a sent" where
  "sys_raft_configuration env cl from_json =
     smap env_data (request_sys_json_internal env cl from_json ''GET''
       ''sys/storage/raft/configuration'' None)"

definition sys_raft_peer_operation ::
  "http_env \<Rightarrow> client \<Rightarrow>
   (string \<Rightarrow> unit option) \<Rightarrow>
   (raft_peer_payload \<Rightarrow> payload) \<Rightarrow> raft_peer_operation \<Rightarrow>
   raft_peer_request \<Rightarrow> unit sent" where
  "sys_raft_peer_operation env cl from_json to_json operation request =
     sbind (pure (raft_peer_request_validate request)) (\<lambda>_.
     let payload = \<lparr>raft_peer_payload_server_id = raft_peer_request_server_id request,
       raft_peer_payload_dr_operation_token = raft_peer_request_dr_operation_token request\<rparr>
       in
     request_sys_json_accepting env cl from_json ''POST'' (''sys/storage/raft/'' @
       raft_peer_operation_as_path_segment operation) (Some (to_json payload)) [200, 204])"

definition sys_raft_remove_peer ::
  "http_env \<Rightarrow> client \<Rightarrow>
   (string \<Rightarrow> unit option) \<Rightarrow>
   (raft_peer_payload \<Rightarrow> payload) \<Rightarrow> raft_peer_request \<Rightarrow>
   unit sent" where
  "sys_raft_remove_peer env cl from_json to_json request =
     sys_raft_peer_operation env cl from_json to_json RaftPeerOperation_Remove request"

definition sys_raft_promote_peer ::
  "http_env \<Rightarrow> client \<Rightarrow>
   (string \<Rightarrow> unit option) \<Rightarrow>
   (raft_peer_payload \<Rightarrow> payload) \<Rightarrow> raft_peer_request \<Rightarrow>
   unit sent" where
  "sys_raft_promote_peer env cl from_json to_json request =
     sys_raft_peer_operation env cl from_json to_json RaftPeerOperation_Promote request"

definition sys_raft_demote_peer ::
  "http_env \<Rightarrow> client \<Rightarrow>
   (string \<Rightarrow> unit option) \<Rightarrow>
   (raft_peer_payload \<Rightarrow> payload) \<Rightarrow> raft_peer_request \<Rightarrow>
   unit sent" where
  "sys_raft_demote_peer env cl from_json to_json request =
     sys_raft_peer_operation env cl from_json to_json RaftPeerOperation_Demote request"

definition sys_raft_bootstrap ::
  "http_env \<Rightarrow> client \<Rightarrow>
   (string \<Rightarrow> unit option) \<Rightarrow> unit sent" where
  "sys_raft_bootstrap env cl from_json =
     request_sys_json_accepting env cl from_json ''POST'' ''sys/storage/raft/bootstrap'' None
       [200, 204]"

definition sys_raft_snapshot :: "http_env \<Rightarrow> client \<Rightarrow> string sent" where
  "sys_raft_snapshot env cl =
     request_sys_bytes_accepting_internal env cl ''GET'' ''sys/storage/raft/snapshot'' [] (Some
       ''application/octet-stream'') None [200]"

definition sys_raft_restore_snapshot ::
  "http_env \<Rightarrow> client \<Rightarrow> string \<Rightarrow> unit sent" where
  "sys_raft_restore_snapshot env cl snapshot =
     sbind (pure (sys_validate_raft_snapshot snapshot)) (\<lambda>_.
     sbind (request_sys_bytes_accepting_internal env cl ''POST'' ''sys/storage/raft/snapshot''
       [] None (Some snapshot) [200, 204]) (\<lambda>_.
     pure (Inr ())))"

definition sys_raft_force_restore_snapshot ::
  "http_env \<Rightarrow> client \<Rightarrow> string \<Rightarrow> unit sent" where
  "sys_raft_force_restore_snapshot env cl snapshot =
     sbind (pure (sys_validate_raft_snapshot snapshot)) (\<lambda>_.
     sbind (request_sys_bytes_accepting_internal env cl ''POST''
       ''sys/storage/raft/snapshot-force'' [] None (Some snapshot) [200, 204]) (\<lambda>_.
     pure (Inr ())))"

definition sys_raft_autopilot_state_json ::
  "http_env \<Rightarrow> client \<Rightarrow>
   (string \<Rightarrow> json_value option) \<Rightarrow> json_value sent" where
  "sys_raft_autopilot_state_json env cl from_json =
     request_sys_json_internal env cl from_json ''GET'' ''sys/storage/raft/autopilot/state''
       None"

definition sys_raft_autopilot_config ::
  "http_env \<Rightarrow> client \<Rightarrow> (string \<Rightarrow> 'a option) \<Rightarrow>
   'a sent" where
  "sys_raft_autopilot_config env cl from_json =
     request_sys_json_internal env cl from_json ''GET''
       ''sys/storage/raft/autopilot/configuration'' None"

definition sys_write_raft_autopilot_config ::
  "http_env \<Rightarrow> client \<Rightarrow>
   (string \<Rightarrow> unit option) \<Rightarrow>
   (raft_autopilot_config \<Rightarrow> payload) \<Rightarrow>
   raft_autopilot_config \<Rightarrow> unit sent" where
  "sys_write_raft_autopilot_config env cl from_json to_json config =
     sbind (pure (raft_autopilot_config_validate config)) (\<lambda>_.
     request_sys_json_internal env cl from_json ''POST''
       ''sys/storage/raft/autopilot/configuration'' (Some (to_json config)))"

definition sys_remount ::
  "http_env \<Rightarrow> client \<Rightarrow> (string \<Rightarrow> 'a option) \<Rightarrow>
   (remount_request \<Rightarrow> payload) \<Rightarrow> remount_request \<Rightarrow>
   'a sent" where
  "sys_remount env cl from_json to_json request =
     sbind (pure (remount_request_validate request)) (\<lambda>_.
     request_sys_json_internal env cl from_json ''POST'' ''sys/remount'' (Some (to_json
       request)))"

definition sys_remount_status ::
  "http_env \<Rightarrow> client \<Rightarrow> (string \<Rightarrow> 'a option) \<Rightarrow>
   string \<Rightarrow> 'a sent" where
  "sys_remount_status env cl from_json migration_id =
     sbind (pure (sys_remount_status_path migration_id)) (\<lambda>p.
     request_sys_json_internal env cl from_json ''GET'' p None)"

definition sys_wrapping_lookup ::
  "http_env \<Rightarrow> client \<Rightarrow>
   (string \<Rightarrow> 'a response_envelope option) \<Rightarrow>
   (wrapping_token_payload \<Rightarrow> payload) \<Rightarrow> string \<Rightarrow> 'a sent" where
  "sys_wrapping_lookup env cl from_json to_json token =
     sbind (pure (sys_validate_explicit_wrapping_token token)) (\<lambda>_.
     let payload = \<lparr>wrapping_token_payload_token = token\<rparr> in
     smap env_data (request_sys_json_internal env cl from_json ''POST'' ''sys/wrapping/lookup''
       (Some (to_json payload))))"

definition sys_wrapping_wrap ::
  "http_env \<Rightarrow> client \<Rightarrow>
   (string \<Rightarrow> unit option response_envelope option) \<Rightarrow>
   ('a \<Rightarrow> payload) \<Rightarrow> string \<Rightarrow> 'a \<Rightarrow>
   wrap_info sent" where
  "sys_wrapping_wrap env cl from_json to_json ttl data_v =
     sbind (pure (sys_validate_wrapping_ttl ttl)) (\<lambda>_.
     sbind (pure (rmap_err InvalidHeader (header_from_str env ttl))) (\<lambda>ttl.
     sbind (request_sys_json_headers_accepting env cl from_json ''POST'' ''sys/wrapping/wrap''
       [(''x-vault-wrap-ttl'', ttl)] (Some (to_json data_v)) [200]) (\<lambda>envelope.
     pure (ok_or (env_wrap_info envelope) (MissingField ''wrap_info'')))))"

definition sys_wrapping_rewrap ::
  "http_env \<Rightarrow> client \<Rightarrow>
   (string \<Rightarrow> unit option response_envelope option) \<Rightarrow>
   (wrapping_token_payload \<Rightarrow> payload) \<Rightarrow> string \<Rightarrow>
   wrap_info sent" where
  "sys_wrapping_rewrap env cl from_json to_json token =
     sbind (pure (sys_validate_explicit_wrapping_token token)) (\<lambda>_.
     let payload = \<lparr>wrapping_token_payload_token = token\<rparr> in
     sbind (request_sys_json_internal env cl from_json ''POST'' ''sys/wrapping/rewrap'' (Some
       (to_json payload))) (\<lambda>envelope.
     pure (ok_or (env_wrap_info envelope) (MissingField ''wrap_info''))))"

definition sys_wrapping_unwrap ::
  "http_env \<Rightarrow> client \<Rightarrow> (string \<Rightarrow> 'a response_envelope option) \<Rightarrow>
   (wrapping_token_payload \<Rightarrow> payload) \<Rightarrow> string option \<Rightarrow> 'a sent" where
  "sys_wrapping_unwrap env cl from_json to_json token =
     (case token of
       Some token \<Rightarrow>
         sbind (pure (sys_validate_explicit_wrapping_token token)) (\<lambda>_.
         smap env_data (request_sys_json_internal env cl from_json ''POST'' ''sys/wrapping/unwrap''
           (Some (to_json \<lparr>wrapping_token_payload_token = token\<rparr>))))
     | None \<Rightarrow>
         smap env_data (request_sys_json_internal env cl from_json ''POST'' ''sys/wrapping/unwrap''
           None))"

definition sys_operator_generate_root_status ::
  "http_env \<Rightarrow> client \<Rightarrow> (string \<Rightarrow> 'a option) \<Rightarrow> (string \<Rightarrow> 'a response_envelope option) \<Rightarrow> 'a sent" where
  "sys_operator_generate_root_status env cl from_json from_envelope =
     sys_request_generate_root_json env cl from_json from_envelope GENERATED_SYS_GENERATE_ROOT_STATUS None"

definition sys_operator_generate_root_start ::
  "http_env \<Rightarrow> client \<Rightarrow> (string \<Rightarrow> 'a option) \<Rightarrow> (string \<Rightarrow> 'a response_envelope option) \<Rightarrow>
   (operator_token_generation_start_request \<Rightarrow> payload) \<Rightarrow> operator_token_generation_start_request \<Rightarrow>
   'a sent" where
  "sys_operator_generate_root_start env cl from_json from_envelope to_json request =
     sys_request_generate_root_json env cl from_json from_envelope GENERATED_SYS_GENERATE_ROOT_START
       (Some (to_json request))"

definition sys_operator_generate_root_update ::
  "http_env \<Rightarrow> client \<Rightarrow> (string \<Rightarrow> 'a option) \<Rightarrow> (string \<Rightarrow> 'a response_envelope option) \<Rightarrow>
   (operator_key_share_update_payload \<Rightarrow> payload) \<Rightarrow> operator_key_share_update_request \<Rightarrow> 'a sent" where
  "sys_operator_generate_root_update env cl from_json from_envelope to_json request =
     sys_request_generate_root_json env cl from_json from_envelope GENERATED_SYS_GENERATE_ROOT_UPDATE
       (Some (to_json \<lparr>operator_key_share_update_payload_key = operator_key_share_update_request_key request,
         operator_key_share_update_payload_nonce = operator_key_share_update_request_nonce request\<rparr>))"

definition sys_operator_decode_token ::
  "(string \<Rightarrow> string option) \<Rightarrow> decode_token_request \<Rightarrow> string sent" where
  "sys_operator_decode_token decode_token_base64 request =
     pure (decode_operator_token decode_token_base64 (decode_token_request_encoded_token request)
       (decode_token_request_otp request))"

definition sys_raft_restore_snapshot_stream ::
  "http_env \<Rightarrow> client \<Rightarrow> inner_poll list \<Rightarrow> 64 word \<Rightarrow> unit sent" where
  "sys_raft_restore_snapshot_stream env cl stream snapshot_len =
     sbind (pure (sys_validate_raft_snapshot_length snapshot_len)) (\<lambda>_.
       request_sys_exact_stream_accepting env cl ''POST'' ''sys/storage/raft/snapshot'' stream
         snapshot_len [200, 204])"

definition sys_raft_force_restore_snapshot_stream ::
  "http_env \<Rightarrow> client \<Rightarrow> inner_poll list \<Rightarrow> 64 word \<Rightarrow> unit sent" where
  "sys_raft_force_restore_snapshot_stream env cl stream snapshot_len =
     sbind (pure (sys_validate_raft_snapshot_length snapshot_len)) (\<lambda>_.
       request_sys_exact_stream_accepting env cl ''POST'' ''sys/storage/raft/snapshot-force'' stream
         snapshot_len [200, 204])"

text \<open>A list request that finds nothing is an empty list.\<close>

definition sys_list_workflows ::
  "http_env \<Rightarrow> client \<Rightarrow> (string \<Rightarrow> 'a option) \<Rightarrow> (string \<Rightarrow> string option option) \<Rightarrow> 'a \<Rightarrow> 'a sent" where
  "sys_list_workflows env cl from_json envelope_data empty_list =
     (case request_registered_secret_json_accepting env cl ''/sys/'' ''LIST'' ''sys/workflows/manage''
         ''sys/workflows/manage'' [] None [200] of
       (Inr body, log) \<Rightarrow> (workflow_typed_data_from_envelope from_json envelope_data body, log)
     | (Inl (Api status errors), log) \<Rightarrow>
         ((if status = 404 then Inr empty_list else Inl (Api status errors)), log)
     | (Inl e, log) \<Rightarrow> (Inl e, log))"

text \<open>
  The development bootstrap: initialise, submit up to the threshold of keys until the server is
  unsealed, and keep a client with the root token.
\<close>

record init_response =
  init_response_keys :: "string list"
  init_response_keys_base64 :: "string list"
  init_response_root_token :: string

record dev_bootstrap =
  dev_bootstrap_client :: client
  dev_bootstrap_root_token :: string
  dev_bootstrap_unseal_keys :: "string list"
  dev_bootstrap_unseal_keys_base64 :: "string list"
  dev_bootstrap_unseal_status :: unseal_status

fun unseal_loop ::
  "(string \<Rightarrow> unseal_status sent) \<Rightarrow> string list \<Rightarrow> unseal_status option \<Rightarrow> unseal_status option sent" where
  "unseal_loop unseal_once [] unseal_status = pure (Inr unseal_status)"
| "unseal_loop unseal_once (key # keys) unseal_status =
     sbind (unseal_once key) (\<lambda>status.
       if \<not> unseal_status_sealed status then pure (Inr (Some status))
       else unseal_loop unseal_once keys (Some status))"

definition sys_bootstrap_dev_acknowledged ::
  "http_env \<Rightarrow> client \<Rightarrow> (string \<Rightarrow> init_status option) \<Rightarrow> (string \<Rightarrow> init_response option) \<Rightarrow>
   (string \<Rightarrow> unseal_status option) \<Rightarrow> (init_payload \<Rightarrow> payload) \<Rightarrow> (unseal_payload \<Rightarrow> payload) \<Rightarrow>
   dev_bootstrap_options \<Rightarrow> dev_bootstrap sent" where
  "sys_bootstrap_dev_acknowledged env cl from_status from_init from_unseal to_init to_unseal opts =
     sbind (pure (sys_validate_dev_bootstrap_options (dev_bootstrap_options_secret_shares opts)
       (dev_bootstrap_options_secret_threshold opts))) (\<lambda>_.
     sbind (pure (require_loopback_dev_target cl)) (\<lambda>_.
     sbind (sys_init_status env cl from_status) (\<lambda>init_status.
     if init_status_initialized init_status
     then pure (Inl (InvalidParameter
       ''dev bootstrap refuses to run against an already initialized OpenBao instance''))
     else
       sbind (request_sys_json_internal env cl from_init ''POST'' ''sys/init'' (Some (to_init
         \<lparr>init_payload_secret_shares = dev_bootstrap_options_secret_shares opts,
          init_payload_secret_threshold = dev_bootstrap_options_secret_threshold opts\<rparr>)))
         (\<lambda>init_response.
       if init_response_root_token init_response = [] then pure (Inl (MissingField ''root_token''))
       else if length (init_response_keys init_response) <
           unat (dev_bootstrap_options_secret_threshold opts)
       then pure (Inl (MissingField ''keys''))
       else
         sbind (unseal_loop (\<lambda>key. sys_unseal_once env cl from_unseal to_unseal key)
           (take (unat (dev_bootstrap_options_secret_threshold opts))
             (init_response_keys init_response)) None) (\<lambda>found.
         sbind (pure (ok_or found (MissingField ''unseal status''))) (\<lambda>unseal_status.
         if unseal_status_sealed unseal_status
         then pure (Inl (Decode
           ''OpenBao remained sealed after submitting the configured dev threshold''))
         else
           sbind (pure (try_with_token env (clone_without_state cl)
             (init_response_root_token init_response))) (\<lambda>client.
           pure (Inr \<lparr>dev_bootstrap_client = client,
             dev_bootstrap_root_token = init_response_root_token init_response,
             dev_bootstrap_unseal_keys = init_response_keys init_response,
             dev_bootstrap_unseal_keys_base64 = init_response_keys_base64 init_response,
             dev_bootstrap_unseal_status = unseal_status\<rparr>))))))))"

end
