(* ===== verification/Bao_Sys_Routes.thy ===== *)
theory Bao_Sys_Routes
  imports Bao_Sys
begin

text \<open>
  The route table of the system backend: the verb and the path of the one request an operation sends.
\<close>

section \<open>The routes of the system backend\<close>

lemma sys_literals [simp]:
  "validate_endpoint_path ''accessor'' = Inr [''accessor'']"
  "validate_endpoint_path ''acl'' = Inr [''acl'']"
  "validate_endpoint_path ''allocs'' = Inr [''allocs'']"
  "validate_endpoint_path ''attempt'' = Inr [''attempt'']"
  "validate_endpoint_path ''audit'' = Inr [''audit'']"
  "validate_endpoint_path ''audit-hash'' = Inr [''audit-hash'']"
  "validate_endpoint_path ''auditing'' = Inr [''auditing'']"
  "validate_endpoint_path ''auth'' = Inr [''auth'']"
  "validate_endpoint_path ''autopilot'' = Inr [''autopilot'']"
  "validate_endpoint_path ''backend'' = Inr [''backend'']"
  "validate_endpoint_path ''backup'' = Inr [''backup'']"
  "validate_endpoint_path ''block'' = Inr [''block'']"
  "validate_endpoint_path ''bootstrap'' = Inr [''bootstrap'']"
  "validate_endpoint_path ''capabilities'' = Inr [''capabilities'']"
  "validate_endpoint_path ''capabilities-accessor'' = Inr [''capabilities-accessor'']"
  "validate_endpoint_path ''capabilities-self'' = Inr [''capabilities-self'']"
  "validate_endpoint_path ''catalog'' = Inr [''catalog'']"
  "validate_endpoint_path ''cmdline'' = Inr [''cmdline'']"
  "validate_endpoint_path ''config'' = Inr [''config'']"
  "validate_endpoint_path ''configuration'' = Inr [''configuration'']"
  "validate_endpoint_path ''cors'' = Inr [''cors'']"
  "validate_endpoint_path ''count'' = Inr [''count'']"
  "validate_endpoint_path ''counters'' = Inr [''counters'']"
  "validate_endpoint_path ''database'' = Inr [''database'']"
  "validate_endpoint_path ''delete-sealed'' = Inr [''delete-sealed'']"
  "validate_endpoint_path ''demote'' = Inr [''demote'']"
  "validate_endpoint_path ''detailed'' = Inr [''detailed'']"
  "validate_endpoint_path ''entities'' = Inr [''entities'']"
  "validate_endpoint_path ''execute'' = Inr [''execute'']"
  "validate_endpoint_path ''generate'' = Inr [''generate'']"
  "validate_endpoint_path ''generate-recovery-token'' = Inr [''generate-recovery-token'']"
  "validate_endpoint_path ''goroutine'' = Inr [''goroutine'']"
  "validate_endpoint_path ''ha-status'' = Inr [''ha-status'']"
  "validate_endpoint_path ''hash'' = Inr [''hash'']"
  "validate_endpoint_path ''headers'' = Inr [''headers'']"
  "validate_endpoint_path ''health'' = Inr [''health'']"
  "validate_endpoint_path ''heap'' = Inr [''heap'']"
  "validate_endpoint_path ''host-info'' = Inr [''host-info'']"
  "validate_endpoint_path ''in-flight-req'' = Inr [''in-flight-req'']"
  "validate_endpoint_path ''init'' = Inr [''init'']"
  "validate_endpoint_path ''inspect'' = Inr [''inspect'']"
  "validate_endpoint_path ''internal'' = Inr [''internal'']"
  "validate_endpoint_path ''join'' = Inr [''join'']"
  "validate_endpoint_path ''key-status'' = Inr [''key-status'']"
  "validate_endpoint_path ''keyring'' = Inr [''keyring'']"
  "validate_endpoint_path ''leader'' = Inr [''leader'']"
  "validate_endpoint_path ''leases'' = Inr [''leases'']"
  "validate_endpoint_path ''locked-users'' = Inr [''locked-users'']"
  "validate_endpoint_path ''loggers'' = Inr [''loggers'']"
  "validate_endpoint_path ''lookup'' = Inr [''lookup'']"
  "validate_endpoint_path ''manage'' = Inr [''manage'']"
  "validate_endpoint_path ''metrics'' = Inr [''metrics'']"
  "validate_endpoint_path ''mfa'' = Inr [''mfa'']"
  "validate_endpoint_path ''mounts'' = Inr [''mounts'']"
  "validate_endpoint_path ''mutex'' = Inr [''mutex'']"
  "validate_endpoint_path ''namespaces'' = Inr [''namespaces'']"
  "validate_endpoint_path ''openapi'' = Inr [''openapi'']"
  "validate_endpoint_path ''password'' = Inr [''password'']"
  "validate_endpoint_path ''plugins'' = Inr [''plugins'']"
  "validate_endpoint_path ''policies'' = Inr [''policies'']"
  "validate_endpoint_path ''pprof'' = Inr [''pprof'']"
  "validate_endpoint_path ''profile'' = Inr [''profile'']"
  "validate_endpoint_path ''promote'' = Inr [''promote'']"
  "validate_endpoint_path ''quotas'' = Inr [''quotas'']"
  "validate_endpoint_path ''raft'' = Inr [''raft'']"
  "validate_endpoint_path ''rate-limit'' = Inr [''rate-limit'']"
  "validate_endpoint_path ''raw'' = Inr [''raw'']"
  "validate_endpoint_path ''recovery'' = Inr [''recovery'']"
  "validate_endpoint_path ''recovery-key-backup'' = Inr [''recovery-key-backup'']"
  "validate_endpoint_path ''rekey'' = Inr [''rekey'']"
  "validate_endpoint_path ''rekey-recovery-key'' = Inr [''rekey-recovery-key'']"
  "validate_endpoint_path ''reload'' = Inr [''reload'']"
  "validate_endpoint_path ''remount'' = Inr [''remount'']"
  "validate_endpoint_path ''remove-peer'' = Inr [''remove-peer'']"
  "validate_endpoint_path ''renew'' = Inr [''renew'']"
  "validate_endpoint_path ''request-headers'' = Inr [''request-headers'']"
  "validate_endpoint_path ''resultant-acl'' = Inr [''resultant-acl'']"
  "validate_endpoint_path ''revoke'' = Inr [''revoke'']"
  "validate_endpoint_path ''rewrap'' = Inr [''rewrap'']"
  "validate_endpoint_path ''root'' = Inr [''root'']"
  "validate_endpoint_path ''rotate'' = Inr [''rotate'']"
  "validate_endpoint_path ''rotation'' = Inr [''rotation'']"
  "validate_endpoint_path ''router'' = Inr [''router'']"
  "validate_endpoint_path ''sanitized'' = Inr [''sanitized'']"
  "validate_endpoint_path ''seal'' = Inr [''seal'']"
  "validate_endpoint_path ''seal-status'' = Inr [''seal-status'']"
  "validate_endpoint_path ''secret'' = Inr [''secret'']"
  "validate_endpoint_path ''sha2-224'' = Inr [''sha2-224'']"
  "validate_endpoint_path ''sha2-256'' = Inr [''sha2-256'']"
  "validate_endpoint_path ''sha2-384'' = Inr [''sha2-384'']"
  "validate_endpoint_path ''sha2-512'' = Inr [''sha2-512'']"
  "validate_endpoint_path ''sha3-224'' = Inr [''sha3-224'']"
  "validate_endpoint_path ''sha3-256'' = Inr [''sha3-256'']"
  "validate_endpoint_path ''sha3-384'' = Inr [''sha3-384'']"
  "validate_endpoint_path ''sha3-512'' = Inr [''sha3-512'']"
  "validate_endpoint_path ''snapshot'' = Inr [''snapshot'']"
  "validate_endpoint_path ''snapshot-force'' = Inr [''snapshot-force'']"
  "validate_endpoint_path ''specs'' = Inr [''specs'']"
  "validate_endpoint_path ''state'' = Inr [''state'']"
  "validate_endpoint_path ''status'' = Inr [''status'']"
  "validate_endpoint_path ''step-down'' = Inr [''step-down'']"
  "validate_endpoint_path ''storage'' = Inr [''storage'']"
  "validate_endpoint_path ''symbol'' = Inr [''symbol'']"
  "validate_endpoint_path ''threadcreate'' = Inr [''threadcreate'']"
  "validate_endpoint_path ''tidy'' = Inr [''tidy'']"
  "validate_endpoint_path ''tokens'' = Inr [''tokens'']"
  "validate_endpoint_path ''tools'' = Inr [''tools'']"
  "validate_endpoint_path ''trace'' = Inr [''trace'']"
  "validate_endpoint_path ''tune'' = Inr [''tune'']"
  "validate_endpoint_path ''ui'' = Inr [''ui'']"
  "validate_endpoint_path ''unauthed-execute'' = Inr [''unauthed-execute'']"
  "validate_endpoint_path ''unlock'' = Inr [''unlock'']"
  "validate_endpoint_path ''unseal'' = Inr [''unseal'']"
  "validate_endpoint_path ''update'' = Inr [''update'']"
  "validate_endpoint_path ''uuid'' = Inr [''uuid'']"
  "validate_endpoint_path ''validate'' = Inr [''validate'']"
  "validate_endpoint_path ''verify'' = Inr [''verify'']"
  "validate_endpoint_path ''version-history'' = Inr [''version-history'']"
  "validate_endpoint_path ''workflows'' = Inr [''workflows'']"
  "validate_endpoint_path ''wrap'' = Inr [''wrap'']"
  "validate_endpoint_path ''wrapping'' = Inr [''wrapping'']"
  by (rule literal_endpoint; code_simp)+

text \<open>The registered requests whose body stays in sanitising storage.\<close>

lemma sends_registered_secret:
  "sends env cl m p query (request_registered_secret_json_accepting env cl scope m p p query body st)"
  unfolding request_registered_secret_json_accepting_def
proof (rule sends_pure_bind)
  fix binding assume "binding_registered scope p p = Inr binding"
  then have wire: "binding_wire binding = p"
    by (auto simp: binding_registered_def rbind_Inr_iff split: if_splits)
  have "sends env cl (re_method r) p query
      (sbind (pure (url_for_path env cl p)) (\<lambda>u.
       sbind (send_sensitive_json_request env cl (re_method r) (with_query env query u) [] body) (\<lambda>response.
         if rs_status response \<notin> set st then pure (Inl (api_failure (rs_status response)))
         else sbind (if rs_status response \<noteq> 204
               then pure (validate_json_content_type (header_to_str env) response) else pure (Inr ()))
             (\<lambda>_. pure (read_response_bytes response (max_response_bytes (cl_config cl)))))))" for r
    by (intro sends_pure_bind sends_bind sends_posts)
      (auto intro: posts_sensitive simp: pure_def sbind_silent)
  then show "sends env cl m p query
      (sbind (resolve_route env cl m binding query) (\<lambda>(resolved, wire).
       sbind (pure (url_for_path env cl wire)) (\<lambda>u.
       sbind (send_sensitive_json_request env cl (re_method resolved) (with_query env query u) [] body)
         (\<lambda>response.
         if rs_status response \<notin> set st then pure (Inl (api_failure (rs_status response)))
         else sbind (if rs_status response \<noteq> 204
               then pure (validate_json_content_type (header_to_str env) response) else pure (Inr ()))
             (\<lambda>_. pure (read_response_bytes response (max_response_bytes (cl_config cl))))))))"
    by (intro sends_route_bind [where binding = binding and query = query, unfolded wire]) auto
qed

lemma registered_secret_at:
  assumes "list_all safe_segment mount" "text_at mount parts p"
  shows "at_route env cl m mount parts
      (request_registered_secret_json_accepting env cl scope m p p query body st)"
  by (rule at_sends_text [OF sends_registered_secret _ assms(2,1)]) (rule request_secret_document_safe)

lemmas [at_requests] = registered_secret_at registered_secret_at [THEN at_after]

text \<open>The segments of enumerations, and what the path helpers return.\<close>

lemma sys_segments [simp]:
  "validate_endpoint_path (pprof_profile_as_path_segment x0) = Inr [pprof_profile_as_path_segment x0]"
  "validate_endpoint_path (sys_hash_algorithm_as_path_segment x1) = Inr [sys_hash_algorithm_as_path_segment x1]"
  "validate_endpoint_path (operator_rotate_target_path_segment x2) = Inr [operator_rotate_target_path_segment x2]"
  "validate_endpoint_path (internal_router_target_path_segment x3) = Inr [internal_router_target_path_segment x3]"
  "validate_endpoint_path (plugin_type_as_path_segment x4) = Inr [plugin_type_as_path_segment x4]"
  "validate_endpoint_path (raft_peer_operation_as_path_segment x5) = Inr [raft_peer_operation_as_path_segment x5]"
  subgoal unfolding pprof_profile_as_path_segment_def by (cases x0; simp)
  subgoal unfolding sys_hash_algorithm_as_path_segment_def by (cases x1; simp)
  subgoal unfolding operator_rotate_target_path_segment_def by (cases x2; simp)
  subgoal unfolding internal_router_target_path_segment_def by (cases x3; simp)
  subgoal unfolding plugin_type_as_path_segment_def by (cases x4; simp)
  subgoal unfolding raft_peer_operation_as_path_segment_def by (cases x5; simp)
  done

lemma single_segment [name_dests]:
  "sys_single_path_segment v kind = Inr s \<Longrightarrow> validate_endpoint_path v = Inr [s]"
  by (auto simp: sys_single_path_segment_def rbind_Inr_iff length_Suc_conv
      dest!: mount_path_part split: if_splits)

lemma sys_path_parts [name_dests]:
  "sys_path pre name suf = Inr p \<Longrightarrow> \<exists>segs. validate_endpoint_path name = Inr segs \<and> segs \<noteq> [] \<and>
     p = join_with ''/'' (pre # segs @ (case suf of None \<Rightarrow> [] | Some s \<Rightarrow> [s]))"
  by (auto simp: sys_path_def rbind_Inr_iff Let_def dest!: mount_path_part split: option.splits)

lemma sys_namespace_parts [name_dests]:
  "sys_namespace_path name = Inr p \<Longrightarrow> \<exists>segs. validate_endpoint_path name = Inr segs \<and> segs \<noteq> [] \<and>
     p = join_with ''/'' (''sys'' # ''namespaces'' # segs)"
  by (auto simp: sys_namespace_path_def sys_validate_namespace_path_def rbind_Inr_iff
      join_with_Cons dest!: mount_path_part split: if_splits)

lemma sys_workflow_parts [name_dests]:
  "sys_workflow_path pre name = Inr p \<Longrightarrow> \<exists>segs. validate_endpoint_path name = Inr segs \<and> segs \<noteq> [] \<and>
     p = join_with ''/'' (pre # segs)"
  by (auto simp: sys_workflow_path_def rbind_Inr_iff join_with_Cons split: if_splits)

lemma sys_raw_parts [name_dests]:
  "sys_raw_storage_path name = Inr p \<Longrightarrow> \<exists>segs. validate_endpoint_path name = Inr segs \<and> segs \<noteq> [] \<and>
     p = join_with ''/'' (''sys'' # ''raw'' # segs)"
  by (auto simp: sys_raw_storage_path_def rbind_Inr_iff join_with_Cons split: if_splits)

lemma sys_ui_mount_parts [name_dests]:
  "sys_internal_ui_mount_path name = Inr p \<Longrightarrow> \<exists>segs. validate_endpoint_path name = Inr segs \<and> segs \<noteq> [] \<and>
     p = join_with ''/'' (''sys'' # ''internal'' # ''ui'' # ''mounts'' # segs)"
proof -
  assume ok: "sys_internal_ui_mount_path name = Inr p"
  then obtain segs where segs: "trim_matches CHR ''/'' name \<noteq> []" "validate_endpoint_path name = Inr segs"
      "p = join_with ''/'' [''sys/internal/ui/mounts'', join_with ''/'' segs]"
    by (auto simp: sys_internal_ui_mount_path_def rbind_Inr_iff split: if_splits)
  then have "segs \<noteq> []" by (auto simp: validate_endpoint_path_def validate_path_iff)
  with segs show ?thesis by (auto simp: join_with_Cons)
qed

lemma sys_logger_parts [name_dests]:
  "sys_logger_path name = Inr p \<Longrightarrow>
     \<exists>s. validate_endpoint_path name = Inr [s] \<and> p = ''sys/loggers/'' @ s"
  by (auto simp: sys_logger_path_def rbind_Inr_iff join_with_Cons length_Suc_conv
      dest!: mount_path_part split: if_splits)

text \<open>The profile checks before a request send nothing.\<close>

lemma latest_plugin_silent [silent_intros]: "silent (sys_validate_latest_plugin_selection env cl config)"
  unfolding sys_validate_latest_plugin_selection_def by (intro silent_intros)

lemma at_latest_plugin [at_intros]:
  "(\<And>x. at_route env cl m mount parts (f x)) \<Longrightarrow>
   at_route env cl m mount parts (sbind (sys_validate_latest_plugin_selection env cl config) f)"
  by (rule at_silent_bind [OF latest_plugin_silent])

lemma sys_plugin_parts [name_dests]:
  "sys_plugin_catalog_entry_path t name = Inr p \<Longrightarrow> \<exists>segs. validate_endpoint_path name = Inr segs \<and>
     segs \<noteq> [] \<and> p = join_with ''/'' (''sys/plugins/catalog'' # plugin_type_as_path_segment t # segs)"
  by (auto simp: sys_plugin_catalog_entry_path_def rbind_Inr_iff dest!: mount_path_part)

lemma sys_routes_1:
  "at_route env cl ''GET'' [''sys''] [''init''] (sys_init_status env cl fj)"
  "at_route env cl ''GET'' [''sys''] [''health''] (sys_health env cl fj)"
  "at_route env cl ''HEAD'' [''sys''] [''health''] (sys_health_head env cl)"
  "at_route env cl ''GET'' [''sys''] [''seal-status''] (sys_seal_status env cl fj)"
  "at_route env cl ''GET'' [''sys''] [''seal-status''] (sys_seal_status_details env cl fj)"
  "at_route env cl ''GET'' [''sys''] [''leader''] (sys_leader_status env cl fj)"
  "at_route env cl ''GET'' [''sys''] [''ha-status''] (sys_ha_status env cl fj)"
  "at_route env cl ''GET'' [''sys''] [''key-status''] (sys_key_status env cl fj)"
  "at_route env cl ''GET'' [''sys''] [''internal'', ''specs'', ''openapi'']
      (sys_openapi_document env cl fj2 generic_mount_paths)"
  "at_route env cl ''GET'' [''sys''] [''internal'', ''ui'', ''namespaces'']
      (sys_ui_namespaces env cl fj)"
  "at_route env cl ''GET'' [''sys''] [''internal'', ''ui'', ''mounts'']
      (sys_ui_mounts env cl fj)"
  "at_route env cl ''GET'' [''sys''] [''metrics''] (sys_metrics_json env cl fj2)"
  "at_route env cl ''GET'' [''sys''] [''metrics''] (sys_metrics_prometheus env cl)"
  "at_route env cl ''GET'' [''sys''] [''host-info''] (sys_host_info_json env cl fj3)"
  unfolding sys_init_status_def sys_health_def sys_health_head_def sys_seal_status_def
      sys_seal_status_details_def sys_leader_status_def sys_ha_status_def sys_key_status_def
      sys_openapi_document_def sys_ui_namespaces_def sys_ui_mounts_def sys_metrics_json_def
      sys_metrics_prometheus_def sys_host_info_json_def
  by (auto simp: Let_def rbind_Inr_iff safe_sys join_with_Cons join_with_append sys_plugin_catalog_type_path_def
      intro!: at_intros at_requests text_atI silent_intros intro: at_after
      dest!: name_dests split: option.splits)

lemma sys_routes_2:
  "at_route env cl ''GET'' [''sys''] [''config'', ''state'', ''sanitized'']
      (sys_sanitized_config_state_json env cl fj)"
  "at_route env cl ''GET'' [''sys''] [''loggers''] (sys_logger_levels env cl fj2)"
  "at_route env cl ''GET'' [''sys''] [''loggers'', name] (sys_logger_level env cl fj2 name)"
  "at_route env cl ''POST'' [''sys''] [''init''] (sys_operator_init env cl fj2 tj request)"
  "at_route env cl ''POST'' [''sys''] [''unseal'']
      (sys_operator_unseal env cl fj2 tj2 request2)"
  "at_route env cl ''POST'' [''sys''] [''unseal'']
      (sys_operator_unseal_details env cl fj2 tj2 request2)"
  "at_route env cl ''POST'' [''sys''] [''tools'', ''hash'',
        sys_hash_algorithm_as_path_segment algorithm]
      (sys_hash env cl fj3 tj3 algorithm request3)"
  "at_route env cl ''POST'' [''sys''] [''seal''] (sys_operator_seal env cl fj4)"
  "at_route env cl ''POST'' [''sys''] [''rotate'', ''keyring'']
      (sys_operator_rotate_keyring env cl fj4)"
  "at_route env cl ''POST'' [''sys''] [''step-down''] (sys_step_down_leader env cl fj4)"
  "at_route env cl ''GET'' [''sys''] [''rekey'', ''init'']
      (sys_operator_rekey_status env cl fj2)"
  "at_route env cl ''POST'' [''sys''] [''rekey'', ''init'']
      (sys_operator_rekey_start env cl fj2 tj4 request4)"
  "at_route env cl ''DELETE'' [''sys''] [''rekey'', ''init'']
      (sys_operator_rekey_cancel env cl fj4)"
  "at_route env cl ''POST'' [''sys''] [''rekey'', ''update'']
      (sys_operator_rekey_update env cl fj2 tj5 request5)"
  unfolding sys_sanitized_config_state_json_def sys_logger_levels_def sys_logger_level_def
      sys_operator_init_def sys_operator_unseal_def sys_operator_unseal_details_def sys_hash_def
      sys_hash_path_def sys_operator_seal_def sys_operator_rotate_keyring_def
      sys_step_down_leader_def sys_operator_rekey_status_def sys_operator_rekey_start_def
      sys_operator_rekey_cancel_def sys_operator_rekey_update_def
  by (auto simp: Let_def rbind_Inr_iff safe_sys join_with_Cons join_with_append sys_plugin_catalog_type_path_def
      intro!: at_intros at_requests text_atI silent_intros intro: at_after
      dest!: name_dests split: option.splits)

lemma sys_routes_3:
  "at_route env cl ''GET'' [''sys''] [''rekey'', ''backup'']
      (sys_operator_rekey_backup env cl fj)"
  "at_route env cl ''DELETE'' [''sys''] [''rekey'', ''backup'']
      (sys_operator_rekey_delete_backup env cl fj2)"
  "at_route env cl ''GET'' [''sys''] [''rekey'', ''verify'']
      (sys_operator_rekey_verify_status env cl fj)"
  "at_route env cl ''DELETE'' [''sys''] [''rekey'', ''verify'']
      (sys_operator_rekey_verify_cancel env cl fj)"
  "at_route env cl ''POST'' [''sys''] [''rekey'', ''verify'']
      (sys_operator_rekey_verify_update env cl fj tj request)"
  "at_route env cl ''GET'' [''sys''] [''rotate'', operator_rotate_target_path_segment target,
        ''init'']
      (sys_operator_rotate_status env cl fj3 target)"
  "at_route env cl ''POST'' [''sys''] [''rotate'', operator_rotate_target_path_segment
        target, ''init'']
      (sys_operator_rotate_start env cl fj3 tj2 target request2)"
  "at_route env cl ''DELETE'' [''sys''] [''rotate'', operator_rotate_target_path_segment
        target, ''init'']
      (sys_operator_rotate_cancel env cl fj2 target)"
  "at_route env cl ''POST'' [''sys''] [''rotate'', operator_rotate_target_path_segment
        target, ''update'']
      (sys_operator_rotate_update env cl fj3 tj target request)"
  "at_route env cl ''POST'' [''sys''] [''rotate''] (sys_operator_rotate_barrier env cl fj2)"
  "at_route env cl ''POST'' [''sys''] [''rotate'', ''root'']
      (sys_operator_rotate_root_key env cl fj2)"
  "at_route env cl ''GET'' [''sys''] [''rotate'', operator_rotate_target_path_segment target,
        ''verify'']
      (sys_operator_rotate_verify_status env cl fj3 target)"
  "at_route env cl ''POST'' [''sys''] [''rotate'', operator_rotate_target_path_segment
        target, ''verify'']
      (sys_operator_rotate_verify_update env cl fj3 tj target request)"
  "at_route env cl ''DELETE'' [''sys''] [''rotation'', operator_rotate_target_path_segment
        target, ''verify'']
      (sys_operator_rotate_verify_cancel env cl fj3 target)"
  unfolding sys_operator_rekey_backup_def sys_operator_rekey_delete_backup_def
      sys_operator_rekey_verify_status_def sys_operator_rekey_verify_cancel_def
      sys_operator_rekey_verify_update_def sys_operator_rotate_status_def
      sys_rotate_init_path_def sys_operator_rotate_start_def sys_operator_rotate_cancel_def
      sys_operator_rotate_update_def sys_rotate_update_path_def sys_operator_rotate_barrier_def
      sys_operator_rotate_root_key_def sys_operator_rotate_verify_status_def
      sys_rotate_verify_path_def sys_operator_rotate_verify_update_def
      sys_operator_rotate_verify_cancel_def sys_rotation_verify_cancel_path_def
  by (auto simp: Let_def rbind_Inr_iff safe_sys join_with_Cons join_with_append sys_plugin_catalog_type_path_def
      intro!: at_intros at_requests text_atI silent_intros intro: at_after
      dest!: name_dests split: option.splits)

lemma sys_routes_4:
  "at_route env cl ''GET'' [''sys''] [''rotate'', operator_rotate_target_path_segment target,
        ''backup'']
      (sys_operator_rotate_backup_grouped env cl fj target)"
  "at_route env cl ''GET'' [''sys''] [''rotate'', operator_rotate_target_path_segment target,
        ''backup'']
      (sys_operator_rotate_backup env cl fj target)"
  "at_route env cl ''DELETE'' [''sys''] [''rotate'', operator_rotate_target_path_segment
        target, ''backup'']
      (sys_operator_rotate_delete_backup env cl fj2 target)"
  "at_route env cl ''GET'' [''sys''] [''rotate'', ''config'']
      (sys_operator_rotation_config env cl fj3)"
  "at_route env cl ''POST'' [''sys''] [''rotate'', ''config'']
      (sys_operator_write_rotation_config env cl fj2 tj config)"
  "at_route env cl ''GET'' [''sys''] [''rotate'', ''keyring'', ''config'']
      (sys_operator_keyring_rotation_config env cl fj3)"
  "at_route env cl ''POST'' [''sys''] [''rotate'', ''keyring'', ''config'']
      (sys_operator_write_keyring_rotation_config env cl fj2 tj config)"
  "at_route env cl ''GET'' [''sys''] [''generate-recovery-token'', ''attempt'']
      (sys_operator_generate_recovery_token_status env cl fj4)"
  "at_route env cl ''POST'' [''sys''] [''generate-recovery-token'', ''attempt'']
      (sys_operator_generate_recovery_token_start env cl fj4 tj2 request)"
  "at_route env cl ''DELETE'' [''sys''] [''generate-recovery-token'', ''attempt'']
      (sys_operator_generate_recovery_token_cancel env cl fj2)"
  "at_route env cl ''POST'' [''sys''] [''generate-recovery-token'', ''update'']
      (sys_operator_generate_recovery_token_update env cl fj4 tj3 request2)"
  "at_route env cl ''GET'' [''sys''] [''rekey-recovery-key'', ''init'']
      (sys_operator_rekey_recovery_key_status env cl fj4)"
  "at_route env cl ''POST'' [''sys''] [''rekey-recovery-key'', ''init'']
      (sys_operator_rekey_recovery_key_start env cl fj4 tj4 request3)"
  "at_route env cl ''DELETE'' [''sys''] [''rekey-recovery-key'', ''init'']
      (sys_operator_rekey_recovery_key_cancel env cl fj2)"
  unfolding sys_operator_rotate_backup_grouped_def sys_rotate_backup_path_def
      sys_operator_rotate_backup_def sys_operator_rotate_delete_backup_def
      sys_operator_rotation_config_def sys_operator_write_rotation_config_def
      sys_operator_keyring_rotation_config_def sys_operator_write_keyring_rotation_config_def
      sys_operator_generate_recovery_token_status_def
      sys_operator_generate_recovery_token_start_def
      sys_operator_generate_recovery_token_cancel_def
      sys_operator_generate_recovery_token_update_def sys_operator_rekey_recovery_key_status_def
      sys_operator_rekey_recovery_key_start_def sys_operator_rekey_recovery_key_cancel_def
  by (auto simp: Let_def rbind_Inr_iff safe_sys join_with_Cons join_with_append sys_plugin_catalog_type_path_def
      intro!: at_intros at_requests text_atI silent_intros intro: at_after
      dest!: name_dests split: option.splits)

lemma sys_routes_5:
  "at_route env cl ''POST'' [''sys''] [''rekey-recovery-key'', ''update'']
      (sys_operator_rekey_recovery_key_update env cl fj tj request)"
  "at_route env cl ''GET'' [''sys''] [''rekey-recovery-key'', ''verify'']
      (sys_operator_rekey_recovery_key_verify_status env cl fj)"
  "at_route env cl ''DELETE'' [''sys''] [''rekey-recovery-key'', ''verify'']
      (sys_operator_rekey_recovery_key_verify_cancel env cl fj)"
  "at_route env cl ''POST'' [''sys''] [''rekey-recovery-key'', ''verify'']
      (sys_operator_rekey_recovery_key_verify_update env cl fj tj request)"
  "at_route env cl ''GET'' [''sys''] [''rekey'', ''recovery-key-backup'']
      (sys_operator_rekey_recovery_key_backup env cl fj)"
  "at_route env cl ''DELETE'' [''sys''] [''rekey'', ''recovery-key-backup'']
      (sys_operator_rekey_recovery_key_delete_backup env cl fj2)"
  "at_route env cl ''GET'' [''sys''] [''raw'', path] (sys_raw_read env cl fj3 path opts)"
  "at_route env cl ''POST'' [''sys''] [''raw'', path]
      (sys_raw_write env cl fj2 tj2 path request2)"
  "at_route env cl ''POST'' [''sys''] [''raw'', path]
      (sys_raw_write_uncompressed env cl fj2 tj2 path val_v encoding)"
  "at_route env cl ''GET'' [''sys''] [''raw'', pre] (sys_raw_list env cl fj3 pre)"
  "at_route env cl ''DELETE'' [''sys''] [''raw'', path] (sys_raw_delete env cl fj2 path)"
  "at_route env cl ''GET'' [''sys''] [''pprof'', pprof_profile_as_path_segment profile]
      (sys_pprof env cl profile opts2)"
  "at_route env cl ''GET'' [''sys''] [''mounts''] (sys_list_mounts env cl fj3)"
  "at_route env cl ''GET'' [''sys''] [''mounts'', mount_path]
      (sys_read_mount env cl fj3 mount_path)"
  unfolding sys_operator_rekey_recovery_key_update_def sys_operator_rekey_recovery_key_verify_status_def
      sys_operator_rekey_recovery_key_verify_cancel_def
      sys_operator_rekey_recovery_key_verify_update_def
      sys_operator_rekey_recovery_key_backup_def
      sys_operator_rekey_recovery_key_delete_backup_def sys_raw_read_def sys_raw_write_def
      sys_raw_write_uncompressed_def sys_raw_list_def sys_raw_delete_def sys_pprof_def
      sys_pprof_path_def sys_list_mounts_def sys_read_mount_def
  by (auto simp: Let_def rbind_Inr_iff safe_sys join_with_Cons join_with_append sys_plugin_catalog_type_path_def
      intro!: at_intros at_requests text_atI silent_intros intro: at_after
      dest!: name_dests split: option.splits)

lemma sys_routes_6:
  "at_route env cl ''POST'' [''sys''] [''mounts'', mount_path]
      (sys_enable_mount env cl fj tj mount_path request)"
  "at_route env cl ''POST'' [''sys''] [''mounts'', mount_path]
      (sys_enable_kv2 env cl fj tj mount_path description)"
  "at_route env cl ''DELETE'' [''sys''] [''mounts'', mount_path]
      (sys_disable_mount env cl fj mount_path)"
  "at_route env cl ''GET'' [''sys''] [''mounts'', mount_path, ''tune'']
      (sys_read_mount_tune env cl fj2 mount_path)"
  "at_route env cl ''POST'' [''sys''] [''mounts'', mount_path, ''tune'']
      (sys_tune_mount env cl fj tj2 mount_path config)"
  "at_route env cl ''GET'' [''sys''] [''auth''] (sys_list_auth_methods env cl fj3)"
  "at_route env cl ''GET'' [''sys''] [''auth'', mount_path]
      (sys_read_auth_method env cl fj3 mount_path)"
  "at_route env cl ''POST'' [''sys''] [''auth'', mount_path]
      (sys_enable_auth_method env cl fj tj3 mount_path request2)"
  "at_route env cl ''DELETE'' [''sys''] [''auth'', mount_path]
      (sys_disable_auth_method env cl fj mount_path)"
  "at_route env cl ''GET'' [''sys''] [''auth'', mount_path, ''tune'']
      (sys_read_auth_tune env cl fj2 mount_path)"
  "at_route env cl ''POST'' [''sys''] [''auth'', mount_path, ''tune'']
      (sys_tune_auth_method env cl fj tj2 mount_path config)"
  "at_route env cl ''GET'' [''sys''] [''internal'', ''ui'', ''mounts'', path]
      (sys_ui_mount_details env cl fj2 path)"
  "at_route env cl ''LIST'' [''sys''] [''config'', ''ui'', ''headers'']
      (sys_list_ui_headers env cl fj2)"
  "at_route env cl ''GET'' [''sys''] [''internal'', ''counters'', ''entities'']
      (sys_internal_entity_counters env cl fj3)"
  unfolding sys_enable_mount_def sys_enable_kv2_def sys_disable_mount_def sys_read_mount_tune_def
      sys_tune_mount_def sys_list_auth_methods_def sys_read_auth_method_def
      sys_enable_auth_method_def sys_disable_auth_method_def sys_read_auth_tune_def
      sys_tune_auth_method_def sys_ui_mount_details_def sys_list_ui_headers_def
      sys_internal_entity_counters_def
  by (auto simp: Let_def rbind_Inr_iff safe_sys join_with_Cons join_with_append sys_plugin_catalog_type_path_def
      intro!: at_intros at_requests text_atI silent_intros intro: at_after
      dest!: name_dests split: option.splits)

lemma sys_routes_7:
  "at_route env cl ''GET'' [''sys''] [''internal'', ''counters'', ''tokens'']
      (sys_internal_token_counters env cl fj)"
  "at_route env cl ''GET'' [''sys''] [''internal'', ''inspect'', ''router'',
        internal_router_target_path_segment target]
      (sys_internal_router_inspection env cl fj target)"
  "at_route env cl ''LIST'' [''sys''] [''policies'', ''acl''] (sys_list_policies env cl fj)"
  "at_route env cl ''LIST'' [''sys''] [''policies'', ''acl'', pre]
      (sys_list_policies_with_prefix env cl fj pre)"
  "at_route env cl ''GET'' [''sys''] [''policies'', ''acl'', name]
      (sys_read_policy env cl fj name)"
  "at_route env cl ''GET'' [''sys''] [''policies'', ''acl'', name]
      (sys_read_policy_details env cl fj name)"
  "at_route env cl ''POST'' [''sys''] [''policies'', ''acl'', name]
      (sys_write_policy env cl fj2 tj name request)"
  "at_route env cl ''PATCH'' [''sys''] [''policies'', ''acl'', name]
      (sys_patch_policy env cl fj2 tj2 name request2)"
  "at_route env cl ''PATCH'' [''sys''] [''policies'', ''acl'', name]
      (sys_patch_policy_with_identity_template_overrides env cl fj2 tj3 name request2
        overrides)"
  "at_route env cl ''POST'' [''sys''] [''policies'', ''acl'', name]
      (sys_write_policy_with_identity_template_overrides env cl fj2 tj4 name request
        overrides)"
  "at_route env cl ''DELETE'' [''sys''] [''policies'', ''acl'', name]
      (sys_delete_policy env cl fj2 name)"
  "at_route env cl ''LIST'' [''sys''] [''policies'', ''detailed'', ''acl'']
      (sys_list_policies_detailed env cl fj)"
  "at_route env cl ''LIST'' [''sys''] [''policies'', ''detailed'', ''acl'', pre]
      (sys_list_policies_detailed_with_prefix env cl fj pre)"
  "at_route env cl ''LIST'' [''sys''] [''policies'', ''password'']
      (sys_list_password_policies env cl fj3)"
  unfolding sys_internal_token_counters_def sys_internal_router_inspection_def sys_list_policies_def
      sys_list_policies_with_prefix_def sys_read_policy_def sys_read_policy_details_def
      sys_write_policy_def sys_patch_policy_def
      sys_patch_policy_with_identity_template_overrides_def
      sys_write_policy_with_identity_template_overrides_def sys_delete_policy_def
      sys_list_policies_detailed_def sys_list_policies_detailed_with_prefix_def
      sys_list_password_policies_def
  by (auto simp: Let_def rbind_Inr_iff safe_sys join_with_Cons join_with_append sys_plugin_catalog_type_path_def
      intro!: at_intros at_requests text_atI silent_intros intro: at_after
      dest!: name_dests split: option.splits)

lemma sys_routes_8:
  "at_route env cl ''GET'' [''sys''] [''policies'', ''password'', name]
      (sys_read_password_policy env cl fj name)"
  "at_route env cl ''POST'' [''sys''] [''policies'', ''password'', name]
      (sys_write_password_policy env cl fj2 tj name request)"
  "at_route env cl ''DELETE'' [''sys''] [''policies'', ''password'', name]
      (sys_delete_password_policy env cl fj2 name)"
  "at_route env cl ''GET'' [''sys''] [''policies'', ''password'', name, ''generate'']
      (sys_generate_password env cl fj name)"
  "at_route env cl ''POST'' [''sys''] [''capabilities-self'']
      (sys_capabilities_self env cl fj3 tj2 paths)"
  "at_route env cl ''POST'' [''sys''] [''capabilities'']
      (sys_capabilities env cl fj3 tj2 token paths)"
  "at_route env cl ''POST'' [''sys''] [''capabilities-accessor'']
      (sys_capabilities_accessor env cl fj3 tj2 accessor paths)"
  "at_route env cl ''GET'' [''sys''] [''internal'', ''ui'', ''resultant-acl'']
      (sys_resultant_acl env cl fj)"
  "at_route env cl ''GET'' [''sys''] [''in-flight-req''] (sys_in_flight_requests env cl fj)"
  "at_route env cl ''POST'' [''sys''] [''mfa'', ''validate'']
      (sys_validate_mfa env cl fj4 tj3 request2)"
  "at_route env cl ''GET'' [''sys''] [''audit''] (sys_list_audit_devices env cl fj)"
  "at_route env cl ''POST'' [''sys''] [''audit'', path]
      (sys_enable_audit_device env cl fj2 tj4 path request3)"
  "at_route env cl ''DELETE'' [''sys''] [''audit'', path]
      (sys_disable_audit_device env cl fj2 path)"
  "at_route env cl ''POST'' [''sys''] [''audit-hash'', path]
      (sys_audit_hash env cl fj tj5 path input)"
  unfolding sys_read_password_policy_def sys_write_password_policy_def sys_delete_password_policy_def
      sys_generate_password_def sys_capabilities_self_def sys_capabilities_def
      sys_capabilities_accessor_def sys_resultant_acl_def sys_in_flight_requests_def
      sys_validate_mfa_def sys_list_audit_devices_def sys_enable_audit_device_def
      sys_disable_audit_device_def sys_audit_hash_def
  by (auto simp: Let_def rbind_Inr_iff safe_sys join_with_Cons join_with_append sys_plugin_catalog_type_path_def
      intro!: at_intros at_requests text_atI silent_intros intro: at_after
      dest!: name_dests split: option.splits)

lemma sys_routes_9:
  "at_route env cl ''GET'' [''sys''] [''config'', ''auditing'', ''request-headers'']
      (sys_list_audited_request_headers env cl fj)"
  "at_route env cl ''POST'' [''sys''] [''leases'', ''lookup'']
      (sys_lookup_lease env cl fj2 tj lease_id)"
  "at_route env cl ''POST'' [''sys''] [''leases'', ''lookup'']
      (sys_lookup_lease_details env cl fj2 tj lease_id)"
  "at_route env cl ''GET'' [''sys''] [''leases''] (sys_list_leases env cl fj2 lease_type)"
  "at_route env cl ''POST'' [''sys''] [''leases'', ''renew'']
      (sys_renew_lease env cl fj3 tj2 lease_id increment_seconds_v)"
  "at_route env cl ''POST'' [''sys''] [''leases'', ''revoke'']
      (sys_revoke_lease env cl fj4 tj3 lease_id)"
  "at_route env cl ''POST'' [''sys''] [''leases'', ''tidy''] (sys_tidy_leases env cl fj4)"
  "at_route env cl ''GET'' [''sys''] [''leases'', ''count'']
      (sys_count_leases env cl fj2 lease_type2)"
  "at_route env cl ''GET'' [''sys''] [''plugins'', ''catalog''] (sys_list_plugins env cl fj2)"
  "at_route env cl ''LIST'' [''sys''] [''plugins'', ''catalog'', plugin_type_as_path_segment
        plugin_type]
      (sys_list_plugins_by_type env cl fj2 plugin_type)"
  "at_route env cl ''POST'' [''sys''] [''plugins'', ''catalog'', plugin_type_as_path_segment
        plugin_type, name]
      (sys_register_plugin env cl fj4 tj4 plugin_type name request)"
  "at_route env cl ''GET'' [''sys''] [''plugins'', ''catalog'', plugin_type_as_path_segment
        plugin_type, name]
      (sys_read_plugin env cl fj2 plugin_type name ver)"
  "at_route env cl ''DELETE'' [''sys''] [''plugins'', ''catalog'',
        plugin_type_as_path_segment plugin_type, name]
      (sys_delete_plugin env cl fj4 plugin_type name ver)"
  "at_route env cl ''POST'' [''sys''] [''plugins'', ''reload'', ''backend'']
      (sys_reload_plugin_backend env cl fj4 tj5 request2)"
  unfolding sys_list_audited_request_headers_def sys_lookup_lease_def sys_lookup_lease_details_def
      sys_list_leases_def sys_renew_lease_def sys_revoke_lease_def sys_tidy_leases_def
      sys_count_leases_def sys_list_plugins_def sys_list_plugins_by_type_def
      sys_plugin_catalog_type_path_def sys_register_plugin_def sys_read_plugin_def
      sys_delete_plugin_def sys_reload_plugin_backend_def
  by (auto simp: Let_def rbind_Inr_iff safe_sys join_with_Cons join_with_append sys_plugin_catalog_type_path_def
      intro!: at_intros at_requests text_atI silent_intros intro: at_after
      dest!: name_dests split: option.splits)

lemma sys_routes_10:
  "at_route env cl ''POST'' [''sys''] [''loggers'']
      (sys_set_logger_levels env cl fj tj level)"
  "at_route env cl ''POST'' [''sys''] [''loggers'', name]
      (sys_set_logger_level env cl fj tj name level)"
  "at_route env cl ''DELETE'' [''sys''] [''loggers''] (sys_reset_logger_levels env cl fj)"
  "at_route env cl ''DELETE'' [''sys''] [''loggers'', name]
      (sys_reset_logger_level env cl fj name)"
  "at_route env cl ''GET'' [''sys''] [''config'', ''cors''] (sys_cors_config env cl fj2)"
  "at_route env cl ''GET'' [''sys''] [''config'', ''cors'']
      (sys_cors_config_details env cl fj2)"
  "at_route env cl ''POST'' [''sys''] [''config'', ''cors'']
      (sys_write_cors_config env cl fj tj2 header_name parse_url request)"
  "at_route env cl ''POST'' [''sys''] [''config'', ''cors'']
      (sys_write_cors_config_with_credentials env cl fj tj3 header_name parse_url request
        allow_credentials)"
  "at_route env cl ''DELETE'' [''sys''] [''config'', ''cors'']
      (sys_delete_cors_config env cl fj)"
  "at_route env cl ''LIST'' [''sys''] [''version-history''] (sys_version_history env cl fj2)"
  "at_route env cl ''LIST'' [''sys''] [''version-history'']
      (sys_version_history_details env cl fj2)"
  "at_route env cl ''LIST'' [''sys''] [''namespaces''] (sys_list_namespaces env cl fj3)"
  "at_route env cl ''POST'' [''sys''] [''namespaces'', path]
      (sys_create_namespace env cl fj tj4 path request2)"
  "at_route env cl ''POST'' [''sys''] [''namespaces'', path]
      (sys_create_sealable_namespace env cl fj3 tj5 valid_base64 path request3)"
  unfolding sys_set_logger_levels_def sys_set_logger_level_def sys_reset_logger_levels_def
      sys_reset_logger_level_def sys_cors_config_def sys_cors_config_details_def
      sys_write_cors_config_def sys_write_cors_config_with_credentials_def
      sys_delete_cors_config_def sys_version_history_def sys_version_history_details_def
      sys_list_namespaces_def sys_create_namespace_def sys_create_sealable_namespace_def
  by (auto simp: Let_def rbind_Inr_iff safe_sys join_with_Cons join_with_append sys_plugin_catalog_type_path_def
      intro!: at_intros at_requests text_atI silent_intros intro: at_after
      dest!: name_dests split: option.splits)

lemma sys_routes_11:
  "at_route env cl ''GET'' [''sys''] [''namespaces'', path]
      (sys_read_namespace env cl fj path)"
  "at_route env cl ''PATCH'' [''sys''] [''namespaces'', path]
      (sys_patch_namespace env cl fj2 tj path request)"
  "at_route env cl ''PATCH'' [''sys''] [''namespaces'', path]
      (sys_clear_namespace_metadata env cl fj2 tj2 path)"
  "at_route env cl ''DELETE'' [''sys''] [''namespaces'', path]
      (sys_delete_namespace env cl fj2 path)"
  "at_route env cl ''GET'' [''sys''] [''namespaces'', path, ''seal-status'']
      (sys_namespace_seal_status env cl fj3 path)"
  "at_route env cl ''POST'' [''sys''] [''namespaces'', path, ''seal'']
      (sys_seal_namespace env cl fj2 path)"
  "at_route env cl ''POST'' [''sys''] [''namespaces'', path, ''unseal'']
      (sys_unseal_namespace env cl fj3 tj3 path key)"
  "at_route env cl ''POST'' [''sys''] [''namespaces'', path, ''unseal'']
      (sys_reset_namespace_unseal env cl fj3 tj3 path)"
  "at_route env cl ''DELETE'' [''sys''] [''namespaces'', path, ''delete-sealed'']
      (sys_delete_sealed_namespace env cl fj4 path confirmation)"
  "at_route env cl ''GET'' [''sys''] [''quotas'', ''config'']
      (sys_read_rate_limit_quota_config env cl fj3)"
  "at_route env cl ''POST'' [''sys''] [''quotas'', ''config'']
      (sys_write_rate_limit_quota_config env cl fj2 tj4 request2)"
  "at_route env cl ''LIST'' [''sys''] [''quotas'', ''rate-limit'']
      (sys_list_rate_limit_quotas env cl fj3)"
  "at_route env cl ''POST'' [''sys''] [''quotas'', ''rate-limit'', name]
      (sys_write_rate_limit_quota env cl fj2 tj5 name request3)"
  "at_route env cl ''GET'' [''sys''] [''quotas'', ''rate-limit'', name]
      (sys_read_rate_limit_quota env cl fj3 name)"
  unfolding sys_read_namespace_def sys_patch_namespace_def sys_clear_namespace_metadata_def
      sys_delete_namespace_def sys_namespace_seal_status_def sys_seal_namespace_def
      sys_unseal_namespace_def sys_namespace_unseal_def sys_reset_namespace_unseal_def
      sys_delete_sealed_namespace_def sys_read_rate_limit_quota_config_def
      sys_write_rate_limit_quota_config_def sys_list_rate_limit_quotas_def
      sys_write_rate_limit_quota_def sys_rate_limit_quota_path_def sys_read_rate_limit_quota_def
  by (auto simp: Let_def rbind_Inr_iff safe_sys join_with_Cons join_with_append sys_plugin_catalog_type_path_def
      intro!: at_intros at_requests text_atI silent_intros intro: at_after
      dest!: name_dests split: option.splits)

lemma sys_routes_12:
  "at_route env cl ''DELETE'' [''sys''] [''quotas'', ''rate-limit'', name]
      (sys_delete_rate_limit_quota env cl fj name)"
  "at_route env cl ''GET'' [''sys''] [''locked-users''] (sys_list_locked_users env cl fj2)"
  "at_route env cl ''GET'' [''sys''] [''locked-users'']
      (sys_list_locked_users_for_accessor env cl fj2 tj mount_accessor)"
  "at_route env cl ''POST'' [''sys''] [''locked-users'', mount_accessor, ''unlock'',
        alias_identifier]
      (sys_unlock_user env cl fj mount_accessor alias_identifier)"
  "at_route env cl ''POST'' [''sys''] [''storage'', ''raft'', ''join'']
      (sys_raft_join env cl fj3 tj2 parse_url request)"
  "at_route env cl ''GET'' [''sys''] [''storage'', ''raft'', ''configuration'']
      (sys_raft_configuration env cl fj2)"
  "at_route env cl ''POST'' [''sys''] [''storage'', ''raft'',
        raft_peer_operation_as_path_segment RaftPeerOperation_Remove]
      (sys_raft_remove_peer env cl fj tj3 request2)"
  "at_route env cl ''POST'' [''sys''] [''storage'', ''raft'',
        raft_peer_operation_as_path_segment RaftPeerOperation_Promote]
      (sys_raft_promote_peer env cl fj tj3 request2)"
  "at_route env cl ''POST'' [''sys''] [''storage'', ''raft'',
        raft_peer_operation_as_path_segment RaftPeerOperation_Demote]
      (sys_raft_demote_peer env cl fj tj3 request2)"
  "at_route env cl ''POST'' [''sys''] [''storage'', ''raft'', ''bootstrap'']
      (sys_raft_bootstrap env cl fj)"
  "at_route env cl ''GET'' [''sys''] [''storage'', ''raft'', ''snapshot'']
      (sys_raft_snapshot env cl)"
  "at_route env cl ''POST'' [''sys''] [''storage'', ''raft'', ''snapshot'']
      (sys_raft_restore_snapshot env cl snapshot)"
  "at_route env cl ''POST'' [''sys''] [''storage'', ''raft'', ''snapshot-force'']
      (sys_raft_force_restore_snapshot env cl snapshot)"
  "at_route env cl ''GET'' [''sys''] [''storage'', ''raft'', ''autopilot'', ''state'']
      (sys_raft_autopilot_state_json env cl fj4)"
  unfolding sys_delete_rate_limit_quota_def sys_rate_limit_quota_path_def sys_list_locked_users_def
      sys_list_locked_users_for_accessor_def sys_unlock_user_def sys_locked_user_unlock_path_def
      sys_raft_join_def sys_raft_configuration_def sys_raft_remove_peer_def
      sys_raft_peer_operation_def sys_raft_promote_peer_def sys_raft_demote_peer_def
      sys_raft_bootstrap_def sys_raft_snapshot_def sys_raft_restore_snapshot_def
      sys_raft_force_restore_snapshot_def sys_raft_autopilot_state_json_def
  by (auto simp: Let_def rbind_Inr_iff safe_sys join_with_Cons join_with_append sys_plugin_catalog_type_path_def
      intro!: at_intros at_requests text_atI silent_intros intro: at_after
      dest!: name_dests split: option.splits)

lemma sys_routes_13:
  "at_route env cl ''GET'' [''sys''] [''storage'', ''raft'', ''autopilot'',
        ''configuration'']
      (sys_raft_autopilot_config env cl fj)"
  "at_route env cl ''POST'' [''sys''] [''storage'', ''raft'', ''autopilot'',
        ''configuration'']
      (sys_write_raft_autopilot_config env cl fj2 tj config)"
  "at_route env cl ''POST'' [''sys''] [''remount''] (sys_remount env cl fj tj2 request)"
  "at_route env cl ''GET'' [''sys''] [''remount'', ''status'', migration_id]
      (sys_remount_status env cl fj migration_id)"
  "at_route env cl ''POST'' [''sys''] [''wrapping'', ''lookup'']
      (sys_wrapping_lookup env cl fj3 tj3 token)"
  "at_route env cl ''POST'' [''sys''] [''wrapping'', ''wrap'']
      (sys_wrapping_wrap env cl fj4 tj4 ttl data_v)"
  "at_route env cl ''POST'' [''sys''] [''wrapping'', ''rewrap'']
      (sys_wrapping_rewrap env cl fj4 tj3 token)"
  unfolding sys_raft_autopilot_config_def sys_write_raft_autopilot_config_def sys_remount_def
      sys_remount_status_def sys_remount_status_path_def sys_wrapping_lookup_def
      sys_wrapping_wrap_def sys_wrapping_rewrap_def
  by (auto simp: Let_def rbind_Inr_iff safe_sys join_with_Cons join_with_append sys_plugin_catalog_type_path_def
      intro!: at_intros at_requests text_atI silent_intros intro: at_after
      dest!: name_dests split: option.splits)

section \<open>Workflows\<close>

lemma workflow_path_at:
  "sys_workflow_path ''sys/workflows/manage'' path = Inr p \<Longrightarrow> text_at [''sys''] [''workflows'', ''manage'', path] p"
  "sys_workflow_path ''sys/workflows/execute'' path = Inr p \<Longrightarrow> text_at [''sys''] [''workflows'', ''execute'', path] p"
  "sys_workflow_path ''sys/workflows/trace'' path = Inr p \<Longrightarrow> text_at [''sys''] [''workflows'', ''trace'', path] p"
  "sys_workflow_path ''sys/workflows/unauthed-execute'' path = Inr p \<Longrightarrow>
     text_at [''sys''] [''workflows'', ''unauthed-execute'', path] p"
  by (auto simp: join_with_Cons dest!: sys_workflow_parts intro!: text_atI)

lemma sys_workflow_routes:
  "at_route env cl ''SCAN'' [''sys''] [''workflows'', ''manage'']
     (sys_scan_workflows env cl fj envelope_data opts)"
  "at_route env cl ''GET'' [''sys''] [''workflows'', ''manage'', path]
     (sys_read_workflow env cl fj envelope_data path)"
  "at_route env cl ''DELETE'' [''sys''] [''workflows'', ''manage'', path] (sys_delete_workflow env cl path)"
  "at_route env cl ''POST'' [''sys''] [''workflows'', ''execute'', path]
     (sys_execute_workflow env cl tj envelope_data valid_json path input)"
  "at_route env cl ''POST'' [''sys''] [''workflows'', ''trace'', path]
     (sys_trace_workflow env cl tj envelope_data valid_json path input)"
  "at_route env cl ''POST'' [''sys''] [''workflows'', ''unauthed-execute'', path]
     (sys_execute_unauthenticated_workflow env cl tj envelope_data valid_json path input)"
  unfolding sys_scan_workflows_def sys_read_workflow_def sys_delete_workflow_def
    sys_execute_workflow_def sys_trace_workflow_def sys_execute_unauthenticated_workflow_def Let_def
  by (auto simp: safe_sys join_with_Cons intro!: at_pure_bind at_requests silent_intros
      intro: workflow_path_at text_atI)

text \<open>The profile check of a compare-and-set write comes before the one request.\<close>

lemma sys_write_workflow_route:
  "at_route env cl ''POST'' [''sys''] [''workflows'', ''manage'', path]
     (sys_write_workflow env cl fj tj envelope_data path request)"
  unfolding sys_write_workflow_def Let_def
  by (intro at_pure_bind at_silent_bind silent_intros at_after registered_secret_at)
    (auto intro: workflow_path_at)

end
