(* ===== verification/Bao_Wrapping.thy ===== *)
theory Bao_Wrapping
  imports Bao_Sys_Routes
begin

text \<open>
  Response wrapping and control groups: \<open>WrappingContext\<close> and \<open>WrappedResponse\<close> of \<open>sys.rs\<close>,
  \<open>sys/control_groups.rs\<close> and \<open>sys/control_groups/execution.rs\<close>. A wrapping token is redeemed once. The
  steps of a handle, the calls and the cancellation of a call in flight included, are a step relation,
  and it implements a one-shot machine.
\<close>

section \<open>Wrapped requests\<close>

record wrapped_response =
  wr_info :: wrap_info
  wr_consumed :: bool
  wr_attempted :: bool

definition wrapping_request_json_query_accepting ::
  "http_env \<Rightarrow> (string \<Rightarrow> unit option response_envelope option) \<Rightarrow> wrapping_context \<Rightarrow> string \<Rightarrow> string \<Rightarrow>
   (string \<times> string) list \<Rightarrow> payload option \<Rightarrow> status_code list \<Rightarrow> wrapped_response sent" where
  "wrapping_request_json_query_accepting env from_json ctx m path query body accepted_statuses =
     sbind (pure (ensure_public_raw_api_enabled (features_of env))) (\<lambda>_.
     let headers = [(''x-vault-wrap-ttl'', wrapping_context_ttl ctx)] in
     sbind (request_json_query_headers_accepting env (wrapping_context_client ctx) from_json m path
         query headers body accepted_statuses) (\<lambda>envelope.
     sbind (pure (ok_or (env_wrap_info envelope) (MissingField ''wrap_info''))) (\<lambda>info.
       pure (Inr \<lparr>wr_info = info, wr_consumed = False, wr_attempted = False\<rparr>))))"

definition wrapping_request_json_accepting ::
  "http_env \<Rightarrow> (string \<Rightarrow> unit option response_envelope option) \<Rightarrow> wrapping_context \<Rightarrow> string \<Rightarrow> string \<Rightarrow>
   payload option \<Rightarrow> status_code list \<Rightarrow> wrapped_response sent" where
  "wrapping_request_json_accepting env from_json ctx m path body accepted_statuses =
     wrapping_request_json_query_accepting env from_json ctx m path [] body accepted_statuses"

definition wrapping_request_json ::
  "http_env \<Rightarrow> (string \<Rightarrow> unit option response_envelope option) \<Rightarrow> wrapping_context \<Rightarrow> string \<Rightarrow> string \<Rightarrow>
   payload option \<Rightarrow> wrapped_response sent" where
  "wrapping_request_json env from_json ctx m path body =
     wrapping_request_json_accepting env from_json ctx m path body [200]"

text \<open>\<open>clear_token\<close> is what a handle keeps once the response was received.\<close>

definition clear_token :: "wrapped_response \<Rightarrow> wrapped_response" where
  "clear_token w = w\<lparr>wr_consumed := True, wr_info := (wr_info w)\<lparr>wi_token := [], wi_accessor := None\<rparr>\<rparr>"

definition try_unwrap ::
  "http_env \<Rightarrow> client \<Rightarrow> (string \<Rightarrow> 'a option) \<Rightarrow> (wrapping_token_payload \<Rightarrow> payload) \<Rightarrow> wrapped_response \<Rightarrow>
   'a sent \<times> wrapped_response" where
  "try_unwrap env cl from_json to_json w =
     (if wr_attempted w \<or> wr_consumed w
      then (pure (Inl (InvalidParameter ''wrapping token execution was already attempted'')), w)
      else case sys_validate_explicit_wrapping_token (wi_token (wr_info w)) of
        Inl e \<Rightarrow> (pure (Inl e), w)
      | Inr _ \<Rightarrow>
          (let w = w\<lparr>wr_attempted := True\<rparr>;
               payload = \<lparr>wrapping_token_payload_token = wi_token (wr_info w)\<rparr>;
               result = request_json_internal env cl from_json ''POST'' ''sys/wrapping/unwrap''
                 (Some (to_json payload))
           in (result, if is_ok (fst result) then clear_token w else w)))"

definition wrapped_unwrap ::
  "http_env \<Rightarrow> client \<Rightarrow> (string \<Rightarrow> 'a option) \<Rightarrow> (wrapping_token_payload \<Rightarrow> payload) \<Rightarrow> wrapped_response \<Rightarrow>
   'a sent" where
  "wrapped_unwrap env cl from_json to_json w = fst (try_unwrap env cl from_json to_json w)"

section \<open>Control groups\<close>

definition MAX_ACCESSOR_BYTES :: nat where "MAX_ACCESSOR_BYTES = 4096"

definition control_group_accessor_new :: "string \<Rightarrow> string res" where
  "control_group_accessor_new txt =
     (if txt = [] \<or> MAX_ACCESSOR_BYTES < length txt \<or>
         \<not> list_all (\<lambda>b. 33 \<le> byte b \<and> byte b \<le> 126) txt
      then Inl (InvalidParameter ''control-group accessor must be bounded visible ASCII'')
      else Inr txt)"

record group_accessor_payload =
  group_accessor_payload_accessor :: string

record control_group_approval =
  control_group_approval_approved :: bool

definition require_control_groups :: "http_env \<Rightarrow> unit sent" where
  "require_control_groups env =
     sbind (compatibility_report_of env) (\<lambda>report.
       pure (rbind (ok_or (case profile_version report of Some v \<Rightarrow> Some v
             | None \<Rightarrow> legacy_unverified_profile)
           (Internal ''no control-group compatibility profile'')) (\<lambda>version.
         if version < OpenBaoVersion 2 7 0 \<or> report_status report \<notin> {Verified, Assumed}
         then Inl (UnsupportedOpenBaoCapability ''sys.control-group'' version)
         else Inr ())))"

definition sys_write_control_group_policy ::
  "http_env \<Rightarrow> client \<Rightarrow> (string \<Rightarrow> unit option) \<Rightarrow> (policy_write_request \<Rightarrow> payload) \<Rightarrow> string \<Rightarrow>
   policy_write_request \<Rightarrow> unit sent" where
  "sys_write_control_group_policy env cl from_json to_json name request =
     sbind (require_control_groups env) (\<lambda>_. sys_write_policy env cl from_json to_json name request)"

definition sys_read_control_group_request ::
  "http_env \<Rightarrow> client \<Rightarrow> (string \<Rightarrow> 'a res) \<Rightarrow> (group_accessor_payload \<Rightarrow> payload) \<Rightarrow> string \<Rightarrow> 'a sent" where
  "sys_read_control_group_request env cl from_envelope to_json accessor =
     sbind (require_control_groups env) (\<lambda>_.
     sbind (request_registered_secret_json_accepting env cl ''/sys/'' ''POST''
         ''sys/control-group/request'' ''sys/control-group/request'' []
         (Some (to_json \<lparr>group_accessor_payload_accessor = accessor\<rparr>)) [200]) (\<lambda>body.
       pure (from_envelope body)))"

definition sys_authorize_control_group ::
  "http_env \<Rightarrow> client \<Rightarrow> (string \<Rightarrow> control_group_approval response_envelope option) \<Rightarrow>
   (group_accessor_payload \<Rightarrow> payload) \<Rightarrow> string \<Rightarrow> control_group_approval sent" where
  "sys_authorize_control_group env cl from_json to_json accessor =
     sbind (require_control_groups env) (\<lambda>_.
       smap env_data (request_sys_json_accepting env cl from_json ''POST''
         ''sys/control-group/authorize''
         (Some (to_json \<lparr>group_accessor_payload_accessor = accessor\<rparr>)) [200]))"

section \<open>Deferred execution\<close>

datatype control_group_execution_state = Ready | OutcomeUnknown | ResponseReceived

record control_group_execution =
  cg_wrapped :: wrapped_response
  cg_state :: control_group_execution_state

definition into_control_group_execution :: "wrapped_response \<Rightarrow> control_group_execution" where
  "into_control_group_execution w =
     \<lparr>cg_wrapped = w,
      cg_state = (if wr_consumed w then ResponseReceived
        else if wr_attempted w then OutcomeUnknown else Ready)\<rparr>"

definition control_group_token :: "control_group_execution \<Rightarrow> string option" where
  "control_group_token x =
     (if \<not> wr_consumed (cg_wrapped x) then Some (wi_token (wr_info (cg_wrapped x))) else None)"

definition control_group_accessor :: "control_group_execution \<Rightarrow> string option" where
  "control_group_accessor x = wi_accessor (wr_info (cg_wrapped x))"

definition ensure_ready :: "control_group_execution \<Rightarrow> unit res" where
  "ensure_ready x =
     (if cg_state x \<noteq> Ready
      then Inl (InvalidParameter
        ''control-group execution was already attempted; do not replay automatically'')
      else sys_validate_explicit_wrapping_token (wi_token (wr_info (cg_wrapped x))))"

definition execute_after_profile_check ::
  "http_env \<Rightarrow> client \<Rightarrow> (wrapping_token_payload \<Rightarrow> payload) \<Rightarrow> control_group_execution \<Rightarrow>
   string sent \<times> control_group_execution" where
  "execute_after_profile_check env cl to_json x =
     (case ensure_ready x of
        Inl e \<Rightarrow> (pure (Inl e), x)
      | Inr _ \<Rightarrow>
          (let x = x\<lparr>cg_state := OutcomeUnknown\<rparr>;
               payload = \<lparr>wrapping_token_payload_token = wi_token (wr_info (cg_wrapped x))\<rparr>;
               result = request_registered_secret_json_accepting env cl ''/sys/'' ''POST''
                 ''sys/wrapping/unwrap'' ''sys/wrapping/unwrap'' [] (Some (to_json payload)) [200, 204]
           in (result,
             if is_ok (fst result)
             then x\<lparr>cg_state := ResponseReceived, cg_wrapped := clear_token (cg_wrapped x)\<rparr>
             else x)))"

definition try_execute_bytes ::
  "http_env \<Rightarrow> client \<Rightarrow> (wrapping_token_payload \<Rightarrow> payload) \<Rightarrow> control_group_execution \<Rightarrow>
   string sent \<times> control_group_execution" where
  "try_execute_bytes env cl to_json x =
     (case ensure_ready x of
        Inl e \<Rightarrow> (pure (Inl e), x)
      | Inr _ \<Rightarrow>
          (case require_control_groups env of
             (Inl e, log) \<Rightarrow> ((Inl e, log), x)
           | (Inr _, log) \<Rightarrow>
               (case execute_after_profile_check env cl to_json x of
                  ((r, later), x) \<Rightarrow> ((r, log @ later), x))))"

definition try_execute ::
  "http_env \<Rightarrow> client \<Rightarrow> (string \<Rightarrow> 'a option) \<Rightarrow> (wrapping_token_payload \<Rightarrow> payload) \<Rightarrow> control_group_execution \<Rightarrow>
   'a sent \<times> control_group_execution" where
  "try_execute env cl from_json to_json x =
     (case try_execute_bytes env cl to_json x of
        (s, x) \<Rightarrow> (sbind s (\<lambda>body. pure (ok_or (from_json body)
          (Decode ''control-group execution response did not match expected schema''))), x))"

section \<open>The life of a handle\<close>

text \<open>
  A handle wraps a token, may be turned into a handle for deferred execution, and is gone once
  \<open>unwrap\<close> took it. A call that is cancelled keeps what it did up to its last await: its mark is set and
  its request may have left. Every call may meet another environment, so the server may answer each one
  as it likes; \<open>log\<close> is what the step sends.
\<close>

datatype wrap_handle = Wrapping wrapped_response | Deferred control_group_execution | Gone

definition redeemable :: "wrap_handle \<Rightarrow> bool" where
  "redeemable h =
     (case h of
        Wrapping w \<Rightarrow> \<not> wr_attempted w \<and> \<not> wr_consumed w
      | Deferred x \<Rightarrow> cg_state x = Ready
      | Gone \<Rightarrow> False)"

inductive handle_step ::
  "client \<Rightarrow> wrap_handle \<Rightarrow> http_env \<times> (http_settings \<times> http_request) list \<Rightarrow> wrap_handle \<Rightarrow> bool" for cl where
  unwrapped: "try_unwrap env cl from_json to_json w = ((r :: json_value res, log), w') \<Longrightarrow>
    handle_step cl (Wrapping w) (env, log) (Wrapping w')"
| unwrap_cancelled: "redeemable (Wrapping w) \<Longrightarrow>
    try_unwrap env cl from_json to_json w = ((r :: json_value res, log @ later), w') \<Longrightarrow>
    handle_step cl (Wrapping w) (env, log) (Wrapping (w\<lparr>wr_attempted := True\<rparr>))"
| unwrapped_by_value: "wrapped_unwrap env cl from_json to_json w = (r :: json_value res, log @ later) \<Longrightarrow>
    handle_step cl (Wrapping w) (env, log) Gone"
| converted: "handle_step cl (Wrapping w) (env, []) (Deferred (into_control_group_execution w))"
| executed: "try_execute env cl from_json to_json x = ((r :: json_value res, log), x') \<Longrightarrow>
    handle_step cl (Deferred x) (env, log) (Deferred x')"
| check_cancelled: "require_control_groups env = (u, log @ later) \<Longrightarrow>
    handle_step cl (Deferred x) (env, log) (Deferred x)"
| execute_cancelled: "ensure_ready x = Inr u \<Longrightarrow> require_control_groups env = (Inr u', checked) \<Longrightarrow>
    execute_after_profile_check env cl to_json x = ((r', log @ later), x') \<Longrightarrow>
    handle_step cl (Deferred x) (env, checked @ log) (Deferred (x\<lparr>cg_state := OutcomeUnknown\<rparr>))"

inductive_cases from_wrapping: "handle_step cl (Wrapping w) l h"
inductive_cases from_deferred: "handle_step cl (Deferred x) l h"
inductive_simps from_gone: "handle_step cl Gone l h"

text \<open>A run, with the requests of its steps and where each was sent.\<close>

inductive handle_run ::
  "client \<Rightarrow> wrap_handle \<Rightarrow> (http_env \<times> http_settings \<times> http_request) list \<Rightarrow> wrap_handle \<Rightarrow> bool" for cl where
  run_start: "handle_run cl h [] h"
| run_step: "handle_run cl h sent h' \<Longrightarrow> handle_step cl h' (env, log) h'' \<Longrightarrow>
    handle_run cl h (sent @ map (\<lambda>(http, rq). (env, http, rq)) log) h''"

text \<open>The abstract machine: one unspent token, and at most one request that spends it.\<close>

datatype one_shot = Unspent | Spent

inductive one_shot_step :: "one_shot \<Rightarrow> nat \<Rightarrow> one_shot \<Rightarrow> bool" where
  idle: "one_shot_step s 0 s"
| spend: "n \<le> 1 \<Longrightarrow> one_shot_step Unspent n Spent"

definition handle_abs :: "wrap_handle \<Rightarrow> one_shot" where
  "handle_abs h = (if redeemable h then Unspent else Spent)"

text \<open>A redemption: \<open>POST\<close> to \<open>sys/wrapping/unwrap\<close>, sent safely.\<close>

definition redemption :: "client \<Rightarrow> http_env \<Rightarrow> http_settings \<times> http_request \<Rightarrow> bool" where
  "redemption cl env x \<longleftrightarrow> request_safe env cl x \<and>
     addressed env cl ''POST'' ''sys/wrapping/unwrap'' [] x"

section \<open>The steps implement the one-shot machine\<close>

lemma redemptions_of:
  assumes "sent_safe env cl s" "sends env cl ''POST'' ''sys/wrapping/unwrap'' [] s"
  shows "length (snd s) \<le> 1" "list_all (redemption cl env) (snd s)"
  using assms by (auto simp: sent_safe_def sends_def redemption_def list_all_iff)

lemma unwrap_request:
  "length (snd (request_json_internal env cl from_json ''POST'' ''sys/wrapping/unwrap'' body)) \<le> 1"
  "list_all (redemption cl env)
     (snd (request_json_internal env cl from_json ''POST'' ''sys/wrapping/unwrap'' body))"
  unfolding request_json_internal_def request_json_accepting_def request_json_query_accepting_def
  by (rule redemptions_of [OF request_json_safe sends_json])+

lemma execute_request:
  "length (snd (request_registered_secret_json_accepting env cl ''/sys/'' ''POST''
     ''sys/wrapping/unwrap'' ''sys/wrapping/unwrap'' [] body st)) \<le> 1"
  "list_all (redemption cl env) (snd (request_registered_secret_json_accepting env cl ''/sys/'' ''POST''
     ''sys/wrapping/unwrap'' ''sys/wrapping/unwrap'' [] body st))"
  by (rule redemptions_of [OF request_secret_document_safe sends_registered_secret])+

lemma require_control_groups_silent: "snd (require_control_groups env) = []"
  unfolding require_control_groups_def silent_def [symmetric] by (intro silent_intros)

lemma control_groups_check: "require_control_groups env = (u, log) \<Longrightarrow> log = []"
  using require_control_groups_silent [of env] by simp

lemma pure_eq: "pure r = (r', log) \<longleftrightarrow> r' = r \<and> log = []"
  by (auto simp: pure_def)

text \<open>What each call sends, and what it leaves of the handle.\<close>

lemma try_unwrap_spec:
  assumes "try_unwrap env cl from_json to_json w = ((r, log), w')"
  shows "list_all (redemption cl env) log" "length log \<le> 1"
    and "\<not> redeemable (Wrapping w) \<Longrightarrow> log = [] \<and> w' = w"
    and "redeemable (Wrapping w) \<Longrightarrow> redeemable (Wrapping w') \<Longrightarrow> log = []"
proof -
  let ?s = "request_json_internal env cl from_json ''POST'' ''sys/wrapping/unwrap''
    (Some (to_json \<lparr>wrapping_token_payload_token = wi_token (wr_info w)\<rparr>))"
  have "log = [] \<or> log = snd ?s"
    using assms by (auto simp: try_unwrap_def pure_eq Let_def split: if_splits sum.splits)
  then show "list_all (redemption cl env) log" "length log \<le> 1"
    using unwrap_request by auto
  show "\<not> redeemable (Wrapping w) \<Longrightarrow> log = [] \<and> w' = w"
    using assms by (auto simp: try_unwrap_def pure_eq redeemable_def split: if_splits)
  show "redeemable (Wrapping w) \<Longrightarrow> redeemable (Wrapping w') \<Longrightarrow> log = []"
    using assms
    by (auto simp: try_unwrap_def pure_eq redeemable_def clear_token_def Let_def split: if_splits sum.splits)
qed

lemma wrapped_unwrap_spec:
  assumes "wrapped_unwrap env cl from_json to_json w = (r, log)"
  shows "list_all (redemption cl env) log" "length log \<le> 1"
    and "\<not> redeemable (Wrapping w) \<Longrightarrow> log = []"
proof -
  have "try_unwrap env cl from_json to_json w =
      ((r, log), snd (try_unwrap env cl from_json to_json w))"
    using assms by (auto simp: wrapped_unwrap_def intro: prod_eqI)
  from try_unwrap_spec [OF this] show "list_all (redemption cl env) log" "length log \<le> 1"
    "\<not> redeemable (Wrapping w) \<Longrightarrow> log = []" by auto
qed

lemma execute_after_profile_check_spec:
  assumes "execute_after_profile_check env cl to_json x = ((r, log), x')"
  shows "list_all (redemption cl env) log" "length log \<le> 1"
    and "\<not> redeemable (Deferred x) \<Longrightarrow> log = [] \<and> x' = x"
    and "redeemable (Deferred x) \<Longrightarrow> redeemable (Deferred x') \<Longrightarrow> log = []"
proof -
  let ?s = "request_registered_secret_json_accepting env cl ''/sys/'' ''POST'' ''sys/wrapping/unwrap''
    ''sys/wrapping/unwrap'' []
    (Some (to_json \<lparr>wrapping_token_payload_token = wi_token (wr_info (cg_wrapped x))\<rparr>)) [200, 204]"
  have "log = [] \<or> log = snd ?s"
    using assms by (auto simp: execute_after_profile_check_def pure_eq Let_def split: sum.splits)
  then show "list_all (redemption cl env) log" "length log \<le> 1"
    using execute_request by auto
  show "\<not> redeemable (Deferred x) \<Longrightarrow> log = [] \<and> x' = x"
    using assms by (auto simp: execute_after_profile_check_def pure_eq ensure_ready_def redeemable_def)
  show "redeemable (Deferred x) \<Longrightarrow> redeemable (Deferred x') \<Longrightarrow> log = []"
    using assms
    by (auto simp: execute_after_profile_check_def pure_eq redeemable_def Let_def split: if_splits sum.splits)
qed

lemma try_execute_bytes_spec:
  assumes "try_execute_bytes env cl to_json x = ((r, log), x')"
  shows "list_all (redemption cl env) log" "length log \<le> 1"
    and "\<not> redeemable (Deferred x) \<Longrightarrow> log = [] \<and> x' = x"
    and "redeemable (Deferred x) \<Longrightarrow> redeemable (Deferred x') \<Longrightarrow> log = []"
proof -
  have "log = [] \<and> x' = x \<or> execute_after_profile_check env cl to_json x = ((r, log), x')"
    using assms require_control_groups_silent [of env]
    by (auto simp: try_execute_bytes_def pure_eq split: sum.splits prod.splits)
  then show "list_all (redemption cl env) log" "length log \<le> 1"
    "\<not> redeemable (Deferred x) \<Longrightarrow> log = [] \<and> x' = x"
    "redeemable (Deferred x) \<Longrightarrow> redeemable (Deferred x') \<Longrightarrow> log = []"
    using execute_after_profile_check_spec [of env cl to_json x r log x'] by auto
qed

lemma try_execute_spec:
  assumes "try_execute env cl from_json to_json x = ((r, log), x')"
  shows "list_all (redemption cl env) log" "length log \<le> 1"
    and "\<not> redeemable (Deferred x) \<Longrightarrow> log = [] \<and> x' = x"
    and "redeemable (Deferred x) \<Longrightarrow> redeemable (Deferred x') \<Longrightarrow> log = []"
proof -
  let ?decode = "\<lambda>body. pure (ok_or (from_json body)
    (Decode ''control-group execution response did not match expected schema''))"
  obtain s where s: "try_execute_bytes env cl to_json x = (s, x')" "sbind s ?decode = (r, log)"
    using assms by (auto simp: try_execute_def split: prod.splits)
  have "snd s = log"
    using s(2) sbind_silent [of ?decode s] by (simp add: pure_def)
  then have "try_execute_bytes env cl to_json x = ((fst s, log), x')"
    using s(1) by auto
  then show "list_all (redemption cl env) log" "length log \<le> 1"
    "\<not> redeemable (Deferred x) \<Longrightarrow> log = [] \<and> x' = x"
    "redeemable (Deferred x) \<Longrightarrow> redeemable (Deferred x') \<Longrightarrow> log = []"
    by (auto dest: try_execute_bytes_spec)
qed

lemma one_shot_stepI:
  assumes "length log \<le> 1" "\<not> redeemable h \<Longrightarrow> log = [] \<and> \<not> redeemable h'"
    and "redeemable h \<Longrightarrow> redeemable h' \<Longrightarrow> log = []"
  shows "one_shot_step (handle_abs h) (length log) (handle_abs h')"
  using assms by (cases "redeemable h"; cases "redeemable h'")
    (auto simp: handle_abs_def intro: one_shot_step.intros)

lemma redeemable_converted [simp]:
  "redeemable (Deferred (into_control_group_execution w)) = redeemable (Wrapping w)"
  by (simp add: redeemable_def into_control_group_execution_def)

lemma redeemable_simps [simp]:
  "\<not> redeemable Gone"
  "\<not> redeemable (Wrapping (w\<lparr>wr_attempted := True\<rparr>))"
  "\<not> redeemable (Deferred (x\<lparr>cg_state := OutcomeUnknown\<rparr>))"
  by (simp_all add: redeemable_def)

lemma ensure_ready_redeemable: "ensure_ready x = Inr u \<Longrightarrow> redeemable (Deferred x)"
  by (simp add: ensure_ready_def redeemable_def split: if_splits)

lemma handle_step_spec:
  assumes "handle_step cl h (env, log) h'"
  shows "list_all (redemption cl env) log \<and> length log \<le> 1 \<and>
    (\<not> redeemable h \<longrightarrow> log = [] \<and> \<not> redeemable h') \<and>
    (redeemable h \<longrightarrow> redeemable h' \<longrightarrow> log = [])"
  using assms
proof (cases rule: handle_step.cases)
  case unwrapped
  then show ?thesis by (auto dest: try_unwrap_spec)
next
  case unwrap_cancelled
  then show ?thesis by (auto dest: try_unwrap_spec)
next
  case unwrapped_by_value
  then show ?thesis by (auto dest: wrapped_unwrap_spec)
next
  case executed
  then show ?thesis by (auto dest: try_execute_spec)
next
  case check_cancelled
  then show ?thesis by (auto dest: control_groups_check)
next
  case execute_cancelled
  then show ?thesis
    by (auto dest!: control_groups_check dest: execute_after_profile_check_spec ensure_ready_redeemable)
qed auto

section \<open>Runs\<close>

text \<open>What a handle keeps: credentials are gone exactly when the response was received.\<close>

definition cleared :: "wrapped_response \<Rightarrow> bool" where
  "cleared w \<longleftrightarrow> wr_attempted w \<and> wi_token (wr_info w) = [] \<and> wi_accessor (wr_info w) = None"

definition handle_ok :: "wrap_handle \<Rightarrow> bool" where
  "handle_ok h =
     (case h of
        Wrapping w \<Rightarrow> wr_consumed w \<longrightarrow> cleared w
      | Deferred x \<Rightarrow>
          (wr_consumed (cg_wrapped x) \<longleftrightarrow> cg_state x = ResponseReceived) \<and>
          (cg_state x = ResponseReceived \<longrightarrow>
             wi_token (wr_info (cg_wrapped x)) = [] \<and> control_group_accessor x = None)
      | Gone \<Rightarrow> True)"

lemma try_unwrap_ok:
  "try_unwrap env cl from_json to_json w = (s, w') \<Longrightarrow> handle_ok (Wrapping w) \<Longrightarrow> handle_ok (Wrapping w')"
  by (auto simp: try_unwrap_def handle_ok_def cleared_def clear_token_def Let_def
      split: if_splits sum.splits)

lemma execute_after_profile_check_ok:
  "execute_after_profile_check env cl to_json x = (s, x') \<Longrightarrow> handle_ok (Deferred x) \<Longrightarrow>
   handle_ok (Deferred x')"
  by (auto simp: execute_after_profile_check_def ensure_ready_def handle_ok_def clear_token_def
      control_group_accessor_def Let_def split: if_splits sum.splits)

lemma try_execute_ok:
  assumes "try_execute env cl from_json to_json x = (s, x')" "handle_ok (Deferred x)"
  shows "handle_ok (Deferred x')"
proof -
  obtain s' where "try_execute_bytes env cl to_json x = (s', x')"
    using assms(1) by (auto simp: try_execute_def split: prod.splits)
  then show ?thesis
    using assms(2)
    by (auto simp: try_execute_bytes_def split: sum.splits prod.splits dest: execute_after_profile_check_ok)
qed

lemma converted_ok: "handle_ok (Wrapping w) \<Longrightarrow> handle_ok (Deferred (into_control_group_execution w))"
  by (auto simp: handle_ok_def into_control_group_execution_def cleared_def control_group_accessor_def)

lemma cancelled_ok:
  "handle_ok (Wrapping w) \<Longrightarrow> handle_ok (Wrapping (w\<lparr>wr_attempted := True\<rparr>))"
  "ensure_ready x = Inr u \<Longrightarrow> handle_ok (Deferred x) \<Longrightarrow> handle_ok (Deferred (x\<lparr>cg_state := OutcomeUnknown\<rparr>))"
  by (auto simp: handle_ok_def cleared_def ensure_ready_def control_group_accessor_def split: if_splits)

lemma handle_step_ok: "handle_step cl h l h' \<Longrightarrow> handle_ok h \<Longrightarrow> handle_ok h'"
  by (induction rule: handle_step.induct)
    (auto intro: converted_ok cancelled_ok dest: try_unwrap_ok try_execute_ok,
     simp_all add: handle_ok_def)

text \<open>C9:
  A handle on a wrapping token is a one-shot machine: every step of try_unwrap, unwrap,
  into_control_group_execution and try_execute, completed, failed or cancelled at an await,
  is a step of a machine that sends nothing and stays as it was, or spends its one token by sending at most
  one request; and what it sends is a safe POST to sys/wrapping/unwrap.\<close>

theorem handle_refines_one_shot:
  assumes "handle_step cl h (env, log) h'"
  shows "one_shot_step (handle_abs h) (length log) (handle_abs h') \<and>
    list_all (redemption cl env) log"
  using handle_step_spec [OF assms] by (auto intro: one_shot_stepI)

definition fresh_handle :: wrapped_response where
  "fresh_handle = \<lparr>wr_info = \<lparr>wi_token = ''hvs.token'', wi_accessor = Some ''accessor'', wi_ttl = 60,
     wi_creation_time = None, wi_creation_path = None\<rparr>, wr_consumed = False, wr_attempted = False\<rparr>"

lemma fresh_unwrap:
  obtains r log w where
    "try_unwrap env cl (\<lambda>_. None :: json_value option) to_json fresh_handle = ((r, log), w)"
    "wr_attempted w"
proof -
  have "sys_validate_explicit_wrapping_token ''hvs.token'' = Inr ()"
    by (simp add: sys_validate_explicit_wrapping_token_def)
  then show thesis
    by (auto simp: try_unwrap_def fresh_handle_def clear_token_def Let_def
        intro: that [OF prod_eqI [OF prod_eqI]])
qed

theorem handle_refines_one_shot_witness:
  "\<forall>env cl to_json. \<exists>r log w.
     try_unwrap env cl (\<lambda>_. None :: json_value option) to_json fresh_handle = ((r, log), w) \<and>
     handle_abs (Wrapping fresh_handle) = Unspent \<and> handle_abs (Wrapping w) = Spent \<and>
     one_shot_step Unspent (length log) Spent \<and> list_all (redemption cl env) log"
proof (intro allI)
  fix env cl to_json
  obtain r log w where call: "wr_attempted w"
      "try_unwrap env cl (\<lambda>_. None :: json_value option) to_json fresh_handle = ((r, log), w)"
    using fresh_unwrap by metis
  then show "\<exists>r log w.
     try_unwrap env cl (\<lambda>_. None :: json_value option) to_json fresh_handle = ((r, log), w) \<and>
     handle_abs (Wrapping fresh_handle) = Unspent \<and> handle_abs (Wrapping w) = Spent \<and>
     one_shot_step Unspent (length log) Spent \<and> list_all (redemption cl env) log"
    using handle_refines_one_shot [OF unwrapped [OF call(2)]]
    by (auto simp: handle_abs_def redeemable_def fresh_handle_def)
qed



end
