(* ===== verification/Bao_Surface.thy ===== *)
theory Bao_Surface
  imports Bao_Transit Bao_Pki Bao_Ssh Bao_Kubernetes Bao_Ldap Bao_Rabbitmq Bao_Totp Bao_Identity
    Bao_Database Bao_Approle Bao_Cert Bao_Jwt Bao_Kerberos Bao_Kubernetes_Auth Bao_Ldap_Auth
    Bao_Radius Bao_Token Bao_Userpass Bao_Sys_Routes
begin

text \<open>
  Where the operations of the public handles go. Every theory of an engine proves the route of each of
  its operations; here they are put together with the mount path a handle is opened on.
\<close>

section \<open>Opened mounts\<close>

lemma opened_mount:
  assumes "validate_mount_path text = Inr mount"
  shows "list_all safe_segment mount \<and> mount \<noteq> []"
  using assms mount_path_part [OF assms] by (simp add: validated_safe(1))

lemma mount_transit: "validate_mount_path ''transit'' = Inr [''transit'']"
  and mount_pki: "validate_mount_path ''pki'' = Inr [''pki'']"
  and mount_identity: "validate_mount_path ''identity'' = Inr [''identity'']"
  and mount_database: "validate_mount_path ''database'' = Inr [''database'']"
  and mount_userpass: "validate_mount_path ''userpass'' = Inr [''userpass'']"
  by code_simp+

section \<open>The routes\<close>



text \<open>
  Issuing, signing, revoking and managing certificates: every such operation of a PKI handle opened
  on a valid mount sends at most one safe request, with its verb, to its documented path below that
  mount, the names of roles, issuers and keys as whole segments, and an invalid name sends nothing.\<close>

theorem pki_routes:
  assumes "validate_mount_path text = Inr mount"
  shows "(\<forall>from_json to_json role request. at_route env cl ''POST'' mount [''issue'', role]
        (pki_issue env cl from_json to_json mount role request)) \<and>
    (\<forall>from_json to_json role request. at_route env cl ''POST'' mount [''sign'', role]
        (pki_sign env cl from_json to_json mount role request)) \<and>
    (\<forall>from_json to_json request. at_route env cl ''POST'' mount [''sign-verbatim'']
        (pki_sign_verbatim env cl from_json to_json mount request)) \<and>
    (\<forall>from_json to_json request. at_route env cl ''POST'' mount [''revoke''] (pki_revoke
        env cl from_json to_json mount request)) \<and>
    (\<forall>from_json to_json request. at_route env cl ''POST'' mount [''revoke-with-key'']
        (pki_revoke_with_key env cl from_json to_json mount request)) \<and>
    (\<forall>from_json to_json issuer_ref role request. at_route env cl ''POST'' mount
        [''issuer'', issuer_ref, ''issue'', role] (pki_issue_with_issuer env cl from_json to_json
        mount issuer_ref role request)) \<and>
    (\<forall>from_json to_json issuer_ref role request. at_route env cl ''POST'' mount
        [''issuer'', issuer_ref, ''sign'', role] (pki_sign_with_issuer env cl from_json to_json
        mount issuer_ref role request)) \<and>
    (\<forall>from_json to_json generation_type request. at_route env cl ''POST'' mount
        [''root'', ''generate'', pki_key_generation_type_as_path_segment generation_type]
        (pki_generate_root env cl from_json to_json mount generation_type request)) \<and>
    (\<forall>from_json to_json generation_type request. at_route env cl ''POST'' mount
        [''root'', ''rotate'', pki_key_generation_type_as_path_segment generation_type]
        (pki_rotate_root env cl from_json to_json mount generation_type request)) \<and>
    (\<forall>from_json confirmation. at_route env cl ''DELETE'' mount [''root'']
        (pki_delete_root env cl from_json mount confirmation)) \<and>
    (\<forall>from_json to_json request. at_route env cl ''POST'' mount [''root'',
        ''sign-intermediate''] (pki_sign_intermediate env cl from_json to_json mount request)) \<and>
    (\<forall>from_json to_json generation_type request. at_route env cl ''POST'' mount
        [''intermediate'', ''generate'', pki_key_generation_type_as_path_segment generation_type]
        (pki_generate_intermediate env cl from_json to_json mount generation_type request)) \<and>
    (\<forall>from_json to_json request. at_route env cl ''POST'' mount [''intermediate'',
        ''set-signed''] (pki_set_signed_intermediate env cl from_json to_json mount request)) \<and>
    (\<forall>from_json to_json name role. at_route env cl ''POST'' mount [''roles'', name]
        (pki_write_role env cl from_json to_json mount name role)) \<and>
    (\<forall>from_json name. at_route env cl ''DELETE'' mount [''roles'', name] (pki_delete_role
        env cl from_json mount name)) \<and>
    (\<forall>from_json issuer_ref. at_route env cl ''GET'' mount [''issuer'', issuer_ref]
        (pki_read_issuer env cl from_json mount issuer_ref)) \<and>
    (\<forall>from_json issuer_ref. at_route env cl ''DELETE'' mount [''issuer'', issuer_ref]
        (pki_delete_issuer env cl from_json mount issuer_ref)) \<and>
    (\<forall>from_json issuer_ref. at_route env cl ''POST'' mount [''issuer'', issuer_ref,
        ''revoke''] (pki_revoke_issuer env cl from_json mount issuer_ref)) \<and>
    (\<forall>from_json to_json pem_bundle key_name. at_route env cl ''POST'' mount [''keys'',
        ''import''] (pki_import_key env cl from_json to_json mount pem_bundle key_name)) \<and>
    (\<forall>from_json key_ref. at_route env cl ''DELETE'' mount [''key'', key_ref]
        (pki_delete_key env cl from_json mount key_ref)) \<and>
    (\<forall>from_json. at_route env cl ''GET'' mount [''crl'', ''rotate''] (pki_rotate_crl env
        cl from_json mount)) \<and>
    (\<forall>from_json to_json request. at_route env cl ''POST'' mount [''tidy''] (pki_tidy env
        cl from_json to_json mount request))"
proof -
  have mount: "list_all safe_segment mount" "mount \<noteq> []"
    using assms by (auto dest: opened_mount)
  show ?thesis
    by (intro conjI allI pki_root_routes [OF mount(1)] pki_issuers_routes [OF mount(1)]
        pki_keys_routes [OF mount(1)] pki_intermediate_routes [OF mount(1)] pki_issuer_1_routes
        [OF mount(1)] pki_issuer_2_routes [OF mount(1)] pki_roles_routes [OF mount(1)]
        pki_config_1_routes [OF mount(1)] pki_config_2_routes [OF mount(1)] pki_certs_routes [OF
        mount(1)] pki_key_routes [OF mount(1)] pki_cel_routes [OF mount(1)] pki_other_1_routes
        [OF mount(1)] pki_other_2_routes [OF mount(1)] pki_public_cert_routes [OF mount(1)]
        pki_public_crl_routes [OF mount(1)] pki_public_other_routes [OF mount(1)] )
qed

theorem pki_routes_witness:
  "validate_mount_path ''pki'' = Inr [''pki''] \<and> (\<forall>env cl.
     (\<forall>from_json to_json role request. at_route env cl ''POST'' [''pki''] [''issue'',
         role] (pki_issue env cl from_json to_json [''pki''] role request)))"
  by (intro conjI allI mount_pki) (rule pki_routes [OF mount_pki, THEN conjunct1, rule_format])

text \<open>
  Entities, groups, aliases, OIDC keys, roles and tokens, and MFA methods: every such operation of
  an identity handle opened on a valid mount sends at most one safe request, with its verb, to its
  documented path below that mount, identifiers as whole segments, and an invalid one sends nothing.\<close>

theorem identity_routes:
  assumes "validate_mount_path text = Inr mount"
  shows "(\<forall>from_json to_json request. at_route env cl ''POST'' mount [''entity'']
        (identity_write_entity env cl from_json to_json mount request)) \<and>
    (\<forall>from_json id_v. at_route env cl ''GET'' mount [''entity'', ''id'', id_v]
        (identity_read_entity_by_id env cl from_json mount id_v)) \<and>
    (\<forall>from_json to_json id_v request. at_route env cl ''POST'' mount [''entity'', ''id'',
        id_v] (identity_update_entity_by_id env cl from_json to_json mount id_v request)) \<and>
    (\<forall>from_json id_v. at_route env cl ''DELETE'' mount [''entity'', ''id'', id_v]
        (identity_delete_entity_by_id env cl from_json mount id_v)) \<and>
    (\<forall>from_json to_json request. at_route env cl ''POST'' mount [''entity'', ''merge'']
        (identity_merge_entities env cl from_json to_json mount request)) \<and>
    (\<forall>from_json to_json name request. at_route env cl ''POST'' mount [''entity'',
        ''name'', name] (identity_write_entity_by_name env cl from_json to_json mount name
        request)) \<and>
    (\<forall>from_json name. at_route env cl ''DELETE'' mount [''entity'', ''name'', name]
        (identity_delete_entity_by_name env cl from_json mount name)) \<and>
    (\<forall>from_json to_json request. at_route env cl ''POST'' mount [''group'']
        (identity_write_group env cl from_json to_json mount request)) \<and>
    (\<forall>from_json id_v. at_route env cl ''DELETE'' mount [''group'', ''id'', id_v]
        (identity_delete_group_by_id env cl from_json mount id_v)) \<and>
    (\<forall>from_json to_json name request. at_route env cl ''POST'' mount [''group'',
        ''name'', name] (identity_write_group_by_name env cl from_json to_json mount name
        request)) \<and>
    (\<forall>from_json to_json request. at_route env cl ''POST'' mount [''entity-alias'']
        (identity_write_entity_alias env cl from_json to_json mount request)) \<and>
    (\<forall>from_json id_v. at_route env cl ''DELETE'' mount [''entity-alias'', ''id'', id_v]
        (identity_delete_entity_alias_by_id env cl from_json mount id_v)) \<and>
    (\<forall>from_json to_json request. at_route env cl ''POST'' mount [''group-alias'']
        (identity_write_group_alias env cl from_json to_json mount request)) \<and>
    (\<forall>from_json to_json name request. at_route env cl ''POST'' mount [''oidc'', ''key'',
        name] (identity_write_oidc_key env cl from_json to_json mount name request)) \<and>
    (\<forall>from_json to_json name request. at_route env cl ''POST'' mount [''oidc'', ''key'',
        name, ''rotate''] (identity_rotate_oidc_key env cl from_json to_json mount name request)) \<and>
    (\<forall>from_json to_json name request. at_route env cl ''POST'' mount [''oidc'', ''role'',
        name] (identity_write_oidc_role env cl from_json to_json mount name request)) \<and>
    (\<forall>from_json name. at_route env cl ''GET'' mount [''oidc'', ''token'', name]
        (identity_generate_oidc_token env cl from_json mount name)) \<and>
    (\<forall>from_json to_json request. at_route env cl ''POST'' mount [''oidc'',
        ''introspect''] (identity_introspect_oidc_token env cl from_json to_json mount request)) \<and>
    (\<forall>from_json to_json name request. at_route env cl ''POST'' mount [''oidc'',
        ''client'', name] (identity_write_oidc_client env cl from_json to_json mount name
        request)) \<and>
    (\<forall>from_json to_json request. at_route env cl ''POST'' mount [''mfa'', ''method'',
        ''totp''] (identity_create_mfa_totp_method env cl from_json to_json mount request)) \<and>
    (\<forall>from_json to_json request. at_route env cl ''POST'' mount [''mfa'', ''method'',
        ''totp'', ''admin-destroy''] (identity_admin_destroy_mfa_totp_secret env cl from_json
        to_json mount request)) \<and>
    (\<forall>from_json to_json request. at_route env cl ''POST'' mount [''lookup'', ''entity'']
        (identity_lookup_entity env cl from_json to_json mount request))"
proof -
  have mount: "list_all safe_segment mount" "mount \<noteq> []"
    using assms by (auto dest: opened_mount)
  show ?thesis
    by (intro conjI allI identity_entity_routes [OF mount(1)] identity_group_routes [OF mount(1)]
        identity_entity_alias_routes [OF mount(1)] identity_group_alias_routes [OF mount(1)]
        identity_oidc_1_routes [OF mount(1)] identity_oidc_2_routes [OF mount(1)]
        identity_oidc_3_routes [OF mount(1)] identity_mfa_1_routes [OF mount(1)]
        identity_mfa_2_routes [OF mount(1)] identity_other_routes [OF mount(1)] )
qed

theorem identity_routes_witness:
  "validate_mount_path ''identity'' = Inr [''identity''] \<and> (\<forall>env cl.
     (\<forall>from_json to_json request. at_route env cl ''POST'' [''identity''] [''entity'']
         (identity_write_entity env cl from_json to_json [''identity''] request)))"
  by (intro conjI allI mount_identity) (rule identity_routes [OF mount_identity, THEN conjunct1, rule_format])

text \<open>
  The engines that hand out credentials: every operation that configures a database, SSH,
  Kubernetes, LDAP, RabbitMQ or TOTP role or issues a credential for it sends at most one safe
  request, with its verb, to its documented path below exactly the mount of its handle, and nothing
  for an invalid name.\<close>

theorem credential_engine_routes:
  assumes "validate_mount_path text = Inr mount"
  shows "(\<forall>from_json to_json insecure_database_tls name config. at_route env cl ''POST'' mount
        [''config'', name] (database_configure_connection env cl from_json to_json mount
        insecure_database_tls name config)) \<and>
    (\<forall>from_json to_json name role. at_route env cl ''POST'' mount [''roles'', name]
        (database_write_role env cl from_json to_json mount name role)) \<and>
    (\<forall>from_json name. at_route env cl ''GET'' mount [''creds'', name]
        (database_credentials_call env cl from_json mount name)) \<and>
    (\<forall>from_json name. at_route env cl ''GET'' mount [''static-creds'', name]
        (database_static_credentials_call env cl from_json mount name)) \<and>
    (\<forall>from_json to_json name. at_route env cl ''POST'' mount [''rotate-root'', name]
        (database_rotate_root env cl from_json to_json mount name)) \<and>
    (\<forall>from_json to_json name. at_route env cl ''POST'' mount [''rotate-role'', name]
        (database_rotate_static_role env cl from_json to_json mount name)) \<and>
    (\<forall>from_json to_json name. at_route env cl ''POST'' mount [''reset'', name]
        (database_reset_connection env cl from_json to_json mount name)) \<and>
    (\<forall>from_json to_json name request. at_route env cl ''POST'' mount [''roles'', name]
        (ssh_write_role env cl from_json to_json mount name request)) \<and>
    (\<forall>from_json to_json role request. at_route env cl ''POST'' mount [''creds'', role]
        (ssh_credentials_call env cl from_json to_json mount role request)) \<and>
    (\<forall>from_json to_json role request. at_route env cl ''POST'' mount [''sign'', role]
        (ssh_sign env cl from_json to_json mount role request)) \<and>
    (\<forall>from_json to_json role request. at_route env cl ''POST'' mount [''issue'', role]
        (ssh_issue env cl from_json to_json mount role request)) \<and>
    (\<forall>from_json to_json request. at_route env cl ''POST'' mount [''verify''] (ssh_verify
        env cl from_json to_json mount request)) \<and>
    (\<forall>from_json to_json request. at_route env cl ''POST'' mount [''config'', ''ca'']
        (ssh_submit_default_ca env cl from_json to_json mount request)) \<and>
    (\<forall>from_json to_json parse_url config. at_route env cl ''POST'' mount [''config'']
        (kubernetes_secrets_write_config env cl from_json to_json mount parse_url config)) \<and>
    (\<forall>from_json to_json role request. at_route env cl ''POST'' mount [''creds'', role]
        (kubernetes_secrets_credentials env cl from_json to_json mount role request)) \<and>
    (\<forall>from_json to_json name role. at_route env cl ''POST'' mount [''role'', name]
        (ldap_write_dynamic_role env cl from_json to_json mount name role)) \<and>
    (\<forall>from_json name. at_route env cl ''GET'' mount [''creds'', name]
        (ldap_dynamic_credentials_call env cl from_json mount name)) \<and>
    (\<forall>from_json name. at_route env cl ''GET'' mount [''static-cred'', name]
        (ldap_static_credentials_call env cl from_json mount name)) \<and>
    (\<forall>from_json to_json name request. at_route env cl ''POST'' mount [''library'', name,
        ''check-out''] (ldap_check_out_call env cl from_json to_json mount name request)) \<and>
    (\<forall>from_json to_json. at_route env cl ''POST'' mount [''rotate-root'']
        (ldap_rotate_root env cl from_json to_json mount)) \<and>
    (\<forall>from_json to_json config. at_route env cl ''POST'' mount [''config'',
        ''connection''] (rabbitmq_configure_connection env cl from_json to_json mount config)) \<and>
    (\<forall>from_json name. at_route env cl ''GET'' mount [''creds'', name]
        (rabbitmq_credentials env cl from_json mount name)) \<and>
    (\<forall>from_json to_json name request. at_route env cl ''POST'' mount [''keys'', name]
        (totp_create_key env cl from_json to_json mount name request)) \<and>
    (\<forall>from_json name. at_route env cl ''GET'' mount [''code'', name] (totp_generate_code
        env cl from_json mount name)) \<and>
    (\<forall>from_json to_json name request. at_route env cl ''POST'' mount [''code'', name]
        (totp_validate_code env cl from_json to_json mount name request))"
proof -
  have mount: "list_all safe_segment mount" "mount \<noteq> []"
    using assms by (auto dest: opened_mount)
  show ?thesis
    by (intro conjI allI database_config_routes [OF mount(1)] database_roles_routes [OF mount(1)]
        database_static_roles_routes [OF mount(1)] database_other_routes [OF mount(1)]
        ssh_roles_routes [OF mount(1)] ssh_config_routes [OF mount(1)] ssh_issuers_routes [OF
        mount(1)] ssh_issuer_routes [OF mount(1)] ssh_other_routes [OF mount(1)]
        ssh_public_other_routes [OF mount(1)] kubernetes_secrets_config_routes [OF mount(1)]
        kubernetes_secrets_roles_routes [OF mount(1)] kubernetes_secrets_other_routes [OF
        mount(1)] ldap_config_routes [OF mount(1)] ldap_static_role_routes [OF mount(1)]
        ldap_role_routes [OF mount(1)] ldap_library_routes [OF mount(1)] ldap_other_routes [OF
        mount(1)] rabbitmq_roles_routes [OF mount(1)] rabbitmq_other_routes [OF mount(1)]
        totp_keys_routes [OF mount(1)] totp_code_routes [OF mount(1)] )
qed

theorem credential_engine_routes_witness:
  "validate_mount_path ''database'' = Inr [''database''] \<and> (\<forall>env cl.
     (\<forall>from_json to_json insecure_database_tls name config. at_route env cl ''POST''
         [''database''] [''config'', name] (database_configure_connection env cl from_json
         to_json [''database''] insecure_database_tls name config)))"
  by (intro conjI allI mount_database) (rule credential_engine_routes [OF mount_database, THEN conjunct1, rule_format])



text \<open>
  Tokens, leases and the operator's ceremonies: creating, renewing and revoking a token or a lease,
  initialising, unsealing, sealing, stepping down, rotating, rekeying and the raft operations each
  send at most one safe request, with their verb, to their documented path; the token, the lease and
  the key share are never part of the path.\<close>

theorem operator_routes:
  "(\<forall>from_json to_json request. at_route env cl ''POST'' [''auth''] [''token'',
        ''create''] (token_create env cl from_json to_json request)) \<and>
    (\<forall>from_json to_json request. at_route env cl ''POST'' [''auth''] [''token'',
        ''create-orphan''] (token_create_orphan env cl from_json to_json request)) \<and>
    (\<forall>from_json to_json token. at_route env cl ''POST'' [''auth''] [''token'',
        ''lookup''] (token_lookup env cl from_json to_json token)) \<and>
    (\<forall>from_json to_json token increment. at_route env cl ''POST'' [''auth''] [''token'',
        ''renew''] (token_renew env cl from_json to_json token increment)) \<and>
    (\<forall>from_json to_json token. at_route env cl ''POST'' [''auth''] [''token'',
        ''revoke''] (token_revoke env cl from_json to_json token)) \<and>
    (\<forall>from_json. at_route env cl ''GET'' [''auth''] [''token'', ''lookup-self'']
        (token_lookup_self env cl from_json)) \<and>
    (\<forall>from_json to_json increment. at_route env cl ''POST'' [''auth''] [''token'',
        ''renew-self''] (token_renew_self env cl from_json to_json increment)) \<and>
    (\<forall>from_json. at_route env cl ''POST'' [''auth''] [''token'', ''revoke-self'']
        (token_revoke_self env cl from_json)) \<and>
    (\<forall>from_json to_json lease_id. at_route env cl ''POST'' [''sys''] [''leases'',
        ''lookup''] (sys_lookup_lease env cl from_json to_json lease_id)) \<and>
    (\<forall>from_json to_json lease_id increment_seconds_v. at_route env cl ''POST'' [''sys'']
        [''leases'', ''renew''] (sys_renew_lease env cl from_json to_json lease_id
        increment_seconds_v)) \<and>
    (\<forall>from_json to_json lease_id. at_route env cl ''POST'' [''sys''] [''leases'',
        ''revoke''] (sys_revoke_lease env cl from_json to_json lease_id)) \<and>
    (\<forall>from_json. at_route env cl ''GET'' [''sys''] [''init''] (sys_init_status env cl
        from_json)) \<and>
    (\<forall>from_json. at_route env cl ''GET'' [''sys''] [''seal-status''] (sys_seal_status env
        cl from_json)) \<and>
    (\<forall>from_json to_json request. at_route env cl ''POST'' [''sys''] [''init'']
        (sys_operator_init env cl from_json to_json request)) \<and>
    (\<forall>from_json to_json request. at_route env cl ''POST'' [''sys''] [''unseal'']
        (sys_operator_unseal env cl from_json to_json request)) \<and>
    (\<forall>from_json. at_route env cl ''POST'' [''sys''] [''seal''] (sys_operator_seal env cl
        from_json)) \<and>
    (\<forall>from_json. at_route env cl ''POST'' [''sys''] [''step-down''] (sys_step_down_leader
        env cl from_json)) \<and>
    (\<forall>from_json. at_route env cl ''POST'' [''sys''] [''rotate'', ''keyring'']
        (sys_operator_rotate_keyring env cl from_json)) \<and>
    (\<forall>from_json to_json request. at_route env cl ''POST'' [''sys''] [''rekey'', ''init'']
        (sys_operator_rekey_start env cl from_json to_json request)) \<and>
    (\<forall>from_json. at_route env cl ''DELETE'' [''sys''] [''rekey'', ''init'']
        (sys_operator_rekey_cancel env cl from_json)) \<and>
    (\<forall>from_json to_json request. at_route env cl ''POST'' [''sys''] [''rekey'',
        ''update''] (sys_operator_rekey_update env cl from_json to_json request)) \<and>
    (\<forall>from_json to_json request. at_route env cl ''POST'' [''sys''] [''rekey'',
        ''verify''] (sys_operator_rekey_verify_update env cl from_json to_json request)) \<and>
    (\<forall>from_json to_json target request. at_route env cl ''POST'' [''sys''] [''rotate'',
        operator_rotate_target_path_segment target, ''init''] (sys_operator_rotate_start env cl
        from_json to_json target request)) \<and>
    (\<forall>from_json to_json target request. at_route env cl ''POST'' [''sys''] [''rotate'',
        operator_rotate_target_path_segment target, ''update''] (sys_operator_rotate_update env
        cl from_json to_json target request)) \<and>
    (\<forall>from_json target. at_route env cl ''DELETE'' [''sys''] [''rotate'',
        operator_rotate_target_path_segment target, ''init''] (sys_operator_rotate_cancel env cl
        from_json target)) \<and>
    (\<forall>from_json to_json parse_url request. at_route env cl ''POST'' [''sys'']
        [''storage'', ''raft'', ''join''] (sys_raft_join env cl from_json to_json parse_url
        request)) \<and>
    (\<forall>from_json to_json request. at_route env cl ''POST'' [''sys''] [''storage'',
        ''raft'', raft_peer_operation_as_path_segment RaftPeerOperation_Remove]
        (sys_raft_remove_peer env cl from_json to_json request)) \<and>
    (at_route env cl ''GET'' [''sys''] [''storage'', ''raft'', ''snapshot''] (sys_raft_snapshot
        env cl))"
  by (intro conjI allI token_routes_1 token_routes_2 sys_routes_1 sys_routes_2 sys_routes_3
      sys_routes_4 sys_routes_5 sys_routes_6 sys_routes_7 sys_routes_8 sys_routes_9 sys_routes_10
      sys_routes_11 sys_routes_12 sys_routes_13 sys_workflow_routes)

text \<open>
  Administration: mounting engines and auth methods, policies, audit devices, plugins, namespaces,
  quotas and capabilities: every such operation sends at most one safe request, with its verb, to
  its documented path below sys, names as whole segments, and an invalid name sends nothing.\<close>

theorem administration_routes:
  "(\<forall>from_json to_json mount_path request. at_route env cl ''POST'' [''sys'']
        [''mounts'', mount_path] (sys_enable_mount env cl from_json to_json mount_path request)) \<and>
    (\<forall>from_json mount_path. at_route env cl ''DELETE'' [''sys''] [''mounts'', mount_path]
        (sys_disable_mount env cl from_json mount_path)) \<and>
    (\<forall>from_json to_json mount_path config. at_route env cl ''POST'' [''sys'']
        [''mounts'', mount_path, ''tune''] (sys_tune_mount env cl from_json to_json mount_path
        config)) \<and>
    (\<forall>from_json mount_path. at_route env cl ''GET'' [''sys''] [''mounts'', mount_path]
        (sys_read_mount env cl from_json mount_path)) \<and>
    (\<forall>from_json to_json request. at_route env cl ''POST'' [''sys''] [''remount'']
        (sys_remount env cl from_json to_json request)) \<and>
    (\<forall>from_json to_json mount_path request. at_route env cl ''POST'' [''sys''] [''auth'',
        mount_path] (sys_enable_auth_method env cl from_json to_json mount_path request)) \<and>
    (\<forall>from_json mount_path. at_route env cl ''DELETE'' [''sys''] [''auth'', mount_path]
        (sys_disable_auth_method env cl from_json mount_path)) \<and>
    (\<forall>from_json to_json mount_path config. at_route env cl ''POST'' [''sys''] [''auth'',
        mount_path, ''tune''] (sys_tune_auth_method env cl from_json to_json mount_path config)) \<and>
    (\<forall>from_json name. at_route env cl ''GET'' [''sys''] [''policies'', ''acl'', name]
        (sys_read_policy env cl from_json name)) \<and>
    (\<forall>from_json to_json name request. at_route env cl ''POST'' [''sys''] [''policies'',
        ''acl'', name] (sys_write_policy env cl from_json to_json name request)) \<and>
    (\<forall>from_json name. at_route env cl ''DELETE'' [''sys''] [''policies'', ''acl'', name]
        (sys_delete_policy env cl from_json name)) \<and>
    (\<forall>from_json name. at_route env cl ''GET'' [''sys''] [''policies'', ''password'',
        name, ''generate''] (sys_generate_password env cl from_json name)) \<and>
    (\<forall>from_json to_json path request. at_route env cl ''POST'' [''sys''] [''audit'',
        path] (sys_enable_audit_device env cl from_json to_json path request)) \<and>
    (\<forall>from_json path. at_route env cl ''DELETE'' [''sys''] [''audit'', path]
        (sys_disable_audit_device env cl from_json path)) \<and>
    (\<forall>from_json to_json plugin_type name request. at_route env cl ''POST'' [''sys'']
        [''plugins'', ''catalog'', plugin_type_as_path_segment plugin_type, name]
        (sys_register_plugin env cl from_json to_json plugin_type name request)) \<and>
    (\<forall>from_json plugin_type name ver. at_route env cl ''DELETE'' [''sys''] [''plugins'',
        ''catalog'', plugin_type_as_path_segment plugin_type, name] (sys_delete_plugin env cl
        from_json plugin_type name ver)) \<and>
    (\<forall>from_json to_json path request. at_route env cl ''POST'' [''sys''] [''namespaces'',
        path] (sys_create_namespace env cl from_json to_json path request)) \<and>
    (\<forall>from_json path. at_route env cl ''DELETE'' [''sys''] [''namespaces'', path]
        (sys_delete_namespace env cl from_json path)) \<and>
    (\<forall>from_json path. at_route env cl ''POST'' [''sys''] [''namespaces'', path, ''seal'']
        (sys_seal_namespace env cl from_json path)) \<and>
    (\<forall>from_json to_json path key. at_route env cl ''POST'' [''sys''] [''namespaces'',
        path, ''unseal''] (sys_unseal_namespace env cl from_json to_json path key)) \<and>
    (\<forall>from_json to_json name request. at_route env cl ''POST'' [''sys''] [''quotas'',
        ''rate-limit'', name] (sys_write_rate_limit_quota env cl from_json to_json name request)) \<and>
    (\<forall>from_json name. at_route env cl ''DELETE'' [''sys''] [''quotas'', ''rate-limit'',
        name] (sys_delete_rate_limit_quota env cl from_json name)) \<and>
    (\<forall>from_json to_json paths. at_route env cl ''POST'' [''sys''] [''capabilities-self'']
        (sys_capabilities_self env cl from_json to_json paths)) \<and>
    (\<forall>from_json path opts. at_route env cl ''GET'' [''sys''] [''raw'', path]
        (sys_raw_read env cl from_json path opts))"
  by (intro conjI allI sys_routes_1 sys_routes_2 sys_routes_3 sys_routes_4 sys_routes_5
      sys_routes_6 sys_routes_7 sys_routes_8 sys_routes_9 sys_routes_10 sys_routes_11
      sys_routes_12 sys_routes_13 sys_workflow_routes)

section \<open>The handles\<close>

definition opens :: "string list res \<Rightarrow> bool" where
  "opens r \<longleftrightarrow> (\<forall>mount. r = Inr mount \<longrightarrow> mount \<noteq> [] \<and> list_all safe_segment mount)"

definition opens_auth :: "string res \<Rightarrow> bool" where
  "opens_auth r \<longleftrightarrow> (\<forall>v. r = Inr v \<longrightarrow>
     (\<exists>mount. mount \<noteq> [] \<and> list_all safe_segment mount \<and> v = join_with ''/'' mount))"

lemma opens_mount [simp]: "opens (validate_mount_path v)"
  by (auto simp: opens_def dest: opened_mount)

lemma opens_auth_mount [simp]:
  "opens_auth (rbind (validate_mount_path v) (\<lambda>p. Inr (join_with ''/'' p)))"
  by (auto simp: opens_auth_def rbind_Inr_iff dest: opened_mount)

lemma default_mounts:
  "validate_mount_path ''kubernetes'' = Inr [''kubernetes'']" "validate_mount_path ''ldap'' = Inr [''ldap'']"
  "validate_mount_path ''rabbitmq'' = Inr [''rabbitmq'']" "validate_mount_path ''approle'' = Inr [''approle'']"
  "validate_mount_path ''cert'' = Inr [''cert'']" "validate_mount_path ''jwt'' = Inr [''jwt'']"
  "validate_mount_path ''kerberos'' = Inr [''kerberos'']" "validate_mount_path ''radius'' = Inr [''radius'']"
  by code_simp+


section \<open>Logins\<close>

text \<open>
  The client a login returns: the client that logged in, but for its token, which the server named and
  the header check of that client accepts.
\<close>

definition logged_in :: "http_env \<Rightarrow> client \<Rightarrow> (client \<times> 'm) sent \<Rightarrow> bool" where
  "logged_in env cl s \<longleftrightarrow> (\<forall>c m. fst s = Inr (c, m) \<longrightarrow>
     (\<exists>token t. c = cl\<lparr>cl_token := Some t\<rparr> \<and>
       validate_token_value_for_header env token (header_mode (cl_config cl))
         (max_auth_token_bytes (cl_config cl)) = Inr () \<and>
       token_from_secret_string env token = Inr t))"

lemma logged_in_bind: "(\<And>x. logged_in env cl (f x)) \<Longrightarrow> logged_in env cl (sbind s f)"
proof (cases "(s, f)" rule: sbind.cases)
  case (2 x log g)
  assume logged: "\<And>x. logged_in env cl (f x)"
  have "fst (sbind s f) = fst (f x)"
    using 2 by (simp add: case_prod_unfold)
  then show ?thesis
    using logged [of x] by (simp add: logged_in_def)
qed (auto simp: logged_in_def)

lemma logged_in_token:
  "logged_in env cl (sbind (pure (try_with_token env (clone_without_state cl) token))
     (\<lambda>v. pure (Inr (v, m))))"
  by (auto simp: logged_in_def sbind_pure try_with_token_def rbind_Inr_iff with_validated_token_def
      clone_without_state_def split: sum.splits)

lemma logged_in_split:
  "logged_in env cl (case p of (token, metadata) \<Rightarrow>
     sbind (pure (try_with_token env (clone_without_state cl) token)) (\<lambda>v. pure (Inr (v, metadata))))"
  by (simp add: logged_in_token split: prod.split)


end
