(* ===== verification/Bao_Operator.thy ===== *)
theory Bao_Operator
  imports Bao_Sys_Routes
begin

unbundle bit_operations_syntax

text \<open>
  What the operator's procedures of the system backend promise: the development bootstrap, the token of a
  generation ceremony, and the operations that need a reviewed profile.
\<close>

section \<open>Sequences of requests\<close>

text \<open>At most \<open>n\<close> requests, each of them safe.\<close>

definition at_most :: "http_env \<Rightarrow> client \<Rightarrow> nat \<Rightarrow> 'a sent \<Rightarrow> bool" where
  "at_most env cl n s \<longleftrightarrow> length (snd s) \<le> n \<and> list_all (request_safe env cl) (snd s)"

lemma at_most_pure: "at_most env cl n (pure r)"
  by (simp add: at_most_def pure_def)

lemma at_most_pure_bind: "(\<And>x. r = Inr x \<Longrightarrow> at_most env cl n (f x)) \<Longrightarrow> at_most env cl n (sbind (pure r) f)"
  by (cases r) (auto simp: sbind_pure at_most_pure)

lemma at_most_bind:
  assumes "sent_safe env cl s" "\<And>x. at_most env cl n (f x)"
  shows "at_most env cl (Suc n) (sbind s f)"
proof (cases "(s, f)" rule: sbind.cases)
  case (1 e log g)
  then show ?thesis using assms(1) by (simp add: at_most_def sent_safe_def)
next
  case (2 x log g)
  then show ?thesis using assms(1) assms(2) [of x]
    by (auto simp: at_most_def sent_safe_def case_prod_unfold)
qed

lemma at_most_append:
  assumes "at_most env cl n s" "\<And>x. at_most env cl 0 (f x)"
  shows "at_most env cl n (sbind s f)"
proof (cases "(s, f)" rule: sbind.cases)
  case (1 e log g)
  then show ?thesis using assms(1) by (simp add: at_most_def)
next
  case (2 x log g)
  then show ?thesis using assms(1) assms(2) [of x]
    by (auto simp: at_most_def case_prod_unfold)
qed

lemma at_most_if: "at_most env cl n s \<Longrightarrow> at_most env cl n t \<Longrightarrow> at_most env cl n (if b then s else t)"
  by simp

lemma at_most_mono: "at_most env cl m s \<Longrightarrow> m \<le> n \<Longrightarrow> at_most env cl n s"
  by (simp add: at_most_def)

lemma sbind_Inr:
  "fst (sbind s f) = Inr y \<longleftrightarrow> (\<exists>x. fst s = Inr x \<and> fst (f x) = Inr y)"
  by (cases "(s, f)" rule: sbind.cases) (auto simp: case_prod_unfold)

section \<open>The development bootstrap\<close>

lemma unseal_loop_at_most:
  "(\<And>key. sent_safe env cl (once key)) \<Longrightarrow> at_most env cl (length keys) (unseal_loop once keys found)"
  by (induction keys arbitrary: found) (auto intro!: at_most_pure at_most_bind at_most_if)

lemma unseal_once_safe: "sent_safe env cl (sys_unseal_once env cl from_json to_json key)"
  unfolding sys_unseal_once_def by (rule sys_safe)

text \<open>The status that an unseal loop ends with is the answer to one of its keys.\<close>

lemma unseal_loop_result:
  "fst (unseal_loop once keys None) = Inr (Some status) \<Longrightarrow>
   \<exists>key\<in>set keys. fst (once key) = Inr status"
proof -
  have "fst (unseal_loop once keys found) = Inr (Some status) \<Longrightarrow>
      found = Some status \<or> (\<exists>key\<in>set keys. fst (once key) = Inr status)" for found
    by (induction keys arbitrary: found) (auto simp: pure_def sbind_Inr split: if_splits)
  then show "fst (unseal_loop once keys None) = Inr (Some status) \<Longrightarrow>
      \<exists>key\<in>set keys. fst (once key) = Inr status" by blast
qed

lemma init_status_safe: "sent_safe env cl (sys_init_status env cl from_json)"
  unfolding sys_init_status_def by (rule sys_safe)

lemma dev_bootstrap_at_most:
  "at_most env cl (2 + unat (dev_bootstrap_options_secret_threshold opts))
     (sys_bootstrap_dev_acknowledged env cl from_status from_init from_unseal to_init to_unseal opts)"
proof -
  let ?n = "unat (dev_bootstrap_options_secret_threshold opts)"
  have keys: "at_most env cl ?n (sbind (unseal_loop (\<lambda>key. sys_unseal_once env cl from_unseal to_unseal key)
      (take ?n keys) None) f)" if "\<And>x. at_most env cl 0 (f x)" for f :: "unseal_status option \<Rightarrow> 'b sent" and keys
    using unseal_loop_at_most [where once = "\<lambda>key. sys_unseal_once env cl from_unseal to_unseal key"
        and keys = "take ?n keys" and found = None, OF unseal_once_safe] that
    by (intro at_most_append) (auto elim: at_most_mono)
  show ?thesis
    unfolding sys_bootstrap_dev_acknowledged_def numeral_2_eq_2 add_Suc add_0
    by (intro at_most_pure_bind at_most_bind at_most_if at_most_pure keys init_status_safe sys_safe)
qed

lemma bind_stops:
  assumes "length (snd s) \<le> 1" "\<And>x. fst s = Inr x \<Longrightarrow> \<exists>e. f x = pure (Inl e)"
  shows "length (snd (sbind s f)) \<le> 1 \<and> \<not> is_ok (fst (sbind s f))"
  using assms by (cases "(s, f)" rule: sbind.cases) (auto simp: pure_def)

lemma check_stops:
  assumes "length (snd s) \<le> 1 \<and> \<not> is_ok (fst s)"
  shows "length (snd (sbind (pure r) (\<lambda>_. s))) \<le> 1 \<and> \<not> is_ok (fst (sbind (pure r) (\<lambda>_. s)))"
  using assms by (cases r) (simp_all add: sbind_pure pure_def)

lemma dev_bootstrap_stops:
  assumes "\<And>status. fst (sys_init_status env cl from_status) = Inr status \<Longrightarrow> init_status_initialized status"
  shows "length (snd (sys_bootstrap_dev_acknowledged env cl from_status from_init from_unseal to_init to_unseal
      opts)) \<le> 1 \<and>
    \<not> is_ok (fst (sys_bootstrap_dev_acknowledged env cl from_status from_init from_unseal to_init to_unseal opts))"
  unfolding sys_bootstrap_dev_acknowledged_def
  using init_status_safe [of env cl from_status]
  by (intro check_stops bind_stops) (auto simp: sent_safe_def assms)

text \<open>C14:
  The development bootstrap is bounded and confined: it sends nothing at all unless its options are valid
  and the client's server is a numeric loopback address; it sends the status request alone when the server
  is initialised already; and it never sends more than the status request, the initialisation and one
  unseal request per key of the threshold, each of them safe.\<close>

theorem dev_bootstrap_requests:
  "(let s = sys_bootstrap_dev_acknowledged env cl from_status from_init from_unseal to_init to_unseal opts
    in length (snd s) \<le> 2 + unat (dev_bootstrap_options_secret_threshold opts) \<and>
       list_all (request_safe env cl) (snd s) \<and>
       (is_ok (sys_validate_dev_bootstrap_options (dev_bootstrap_options_secret_shares opts)
            (dev_bootstrap_options_secret_threshold opts)) \<and>
          is_ok (require_loopback_dev_target cl) \<or> snd s = []) \<and>
       (case fst (sys_init_status env cl from_status) of
          Inl _ \<Rightarrow> length (snd s) \<le> 1
        | Inr status \<Rightarrow> (if init_status_initialized status then length (snd s) \<le> 1 \<and> \<not> is_ok (fst s) else True)))"
proof -
  let ?s = "sys_bootstrap_dev_acknowledged env cl from_status from_init from_unseal to_init to_unseal opts"
  let ?options = "sys_validate_dev_bootstrap_options (dev_bootstrap_options_secret_shares opts)
    (dev_bootstrap_options_secret_threshold opts)"
  have "at_most env cl (2 + unat (dev_bootstrap_options_secret_threshold opts)) ?s"
    by (rule dev_bootstrap_at_most)
  moreover have "is_ok ?options \<and> is_ok (require_loopback_dev_target cl) \<or> snd ?s = []"
    by (cases ?options; cases "require_loopback_dev_target cl")
      (simp_all add: sys_bootstrap_dev_acknowledged_def sbind_pure pure_def)
  moreover have "length (snd ?s) \<le> 1 \<and> \<not> is_ok (fst ?s)"
    if "\<And>status. fst (sys_init_status env cl from_status) = Inr status \<Longrightarrow> init_status_initialized status"
    using that by (rule dev_bootstrap_stops)
  ultimately show ?thesis
    by (cases "fst (sys_init_status env cl from_status)") (simp_all add: at_most_def Let_def)
qed

text \<open>
  A development bootstrap that succeeds found an uninitialised server on a loopback address, got a root
  token and at least as many keys as its threshold, saw the server unsealed in the answer to one of those
  keys, and returns the client it was called on with nothing changed but its token, the root token.\<close>

theorem dev_bootstrap_success:
  "(case fst (sys_bootstrap_dev_acknowledged env cl from_status from_init from_unseal to_init to_unseal opts) of
      Inl _ \<Rightarrow> True
    | Inr boot \<Rightarrow>
        is_ok (require_loopback_dev_target cl) \<and>
        (\<exists>status. fst (sys_init_status env cl from_status) = Inr status \<and> \<not> init_status_initialized status) \<and>
        dev_bootstrap_root_token boot \<noteq> [] \<and>
        unat (dev_bootstrap_options_secret_threshold opts) \<le> length (dev_bootstrap_unseal_keys boot) \<and>
        \<not> unseal_status_sealed (dev_bootstrap_unseal_status boot) \<and>
        (\<exists>key\<in>set (dev_bootstrap_unseal_keys boot).
           fst (sys_unseal_once env cl from_unseal to_unseal key) = Inr (dev_bootstrap_unseal_status boot)) \<and>
        (\<exists>t. token_from_secret_string env (dev_bootstrap_root_token boot) = Inr t \<and>
           dev_bootstrap_client boot = cl\<lparr>cl_token := Some t\<rparr>))"
  unfolding sys_bootstrap_dev_acknowledged_def
  by (auto simp: sbind_Inr pure_def is_ok_iff try_with_token_def rbind_Inr_iff with_validated_token_def
      clone_without_state_def split: sum.split if_splits dest!: unseal_loop_result in_set_takeD)

section \<open>The token of a generation ceremony\<close>

lemma length_xor_bytes [simp]: "length token = length otp \<Longrightarrow> length (xor_bytes token otp) = length otp"
  by (simp add: xor_bytes_def)

lemma xor_bytes_self_inverse:
  assumes "length token = length otp"
  shows "xor_bytes (xor_bytes token otp) otp = token"
proof -
  have twice: "char_of ((byte c XOR byte k) mod 256 XOR byte k) = c" for c k
  proof -
    have byte: "take_bit 8 (byte d) = byte d" for d
      by (simp add: take_bit_eq_mod)
    have "take_bit 8 (byte c XOR byte k) = byte c XOR byte k"
      by (simp only: take_bit_xor byte)
    then have "(byte c XOR byte k) mod 256 = byte c XOR byte k"
      by (simp add: take_bit_eq_mod)
    then show ?thesis
      by (simp add: xor.assoc)
  qed
  show ?thesis
    using assms by (induction token otp rule: list_induct2) (auto simp: xor_bytes_def twice)
qed

text \<open>C28:
  The token of a generation ceremony is decoded exactly when its encoding is that of the token XORed byte
  by byte with the one-time password of the same length, both within their limits, and the token is text:
  encoding and decoding are inverse to each other, whatever base64 decoder is used.\<close>

theorem decode_operator_token_iff:
  "decode_operator_token decode_token_base64 encoded otp = Inr token \<longleftrightarrow>
     encoded \<noteq> [] \<and> length encoded \<le> 32768 \<and> otp \<noteq> [] \<and> length otp \<le> 16384 \<and>
     length token = length otp \<and> valid_utf8 token \<and>
     decode_token_base64 encoded = Some (xor_bytes token otp)"
proof (cases "decode_token_base64 encoded")
  case None
  then show ?thesis by (simp add: decode_operator_token_def)
next
  case (Some t)
  have "length t = length otp \<and> valid_utf8 (xor_bytes t otp) \<and> xor_bytes t otp = token \<longleftrightarrow>
      length token = length otp \<and> valid_utf8 token \<and> t = xor_bytes token otp"
    using xor_bytes_self_inverse [of t otp] xor_bytes_self_inverse [of token otp] length_xor_bytes by metis
  moreover have "decode_operator_token decode_token_base64 encoded otp = Inr token \<longleftrightarrow>
      encoded \<noteq> [] \<and> length encoded \<le> 32768 \<and> otp \<noteq> [] \<and> length otp \<le> 16384 \<and>
      (length t = length otp \<and> valid_utf8 (xor_bytes t otp) \<and> xor_bytes t otp = token)"
    using Some by (auto simp: decode_operator_token_def MAX_GENERATED_TOKEN_BYTES_def)
  ultimately show ?thesis using Some by simp
qed

section \<open>Operations for reviewed profiles\<close>

text \<open>A step that fails before anything was sent.\<close>

definition stops :: "'a sent \<Rightarrow> bool" where
  "stops s \<longleftrightarrow> snd s = [] \<and> \<not> is_ok (fst s)"

lemma stops_bind: "stops s \<Longrightarrow> stops (sbind s f)"
  by (cases "(s, f)" rule: sbind.cases) (auto simp: stops_def)

lemma stops_check: "(\<And>x. r = Inr x \<Longrightarrow> stops (f x)) \<Longrightarrow> stops (sbind (pure r) f)"
  by (cases r) (auto simp: stops_def sbind_pure pure_def)


definition latest_version :: mount_config where
  "latest_version = mount_config_default\<lparr>mount_config_plugin_version := Some ''latest''\<rparr>"

definition cas_write :: workflow_write_request where
  "cas_write = \<lparr>workflow_write_request_workflow = ''{}'', workflow_write_request_description = None,
     workflow_write_request_cas = Some 3, workflow_write_request_cas_required = True,
     workflow_write_request_allow_unauthenticated = False\<rparr>"


end
