(* ===== verification/Bao_Bootstrap_Plan.thy ===== *)
theory Bao_Bootstrap_Plan
  imports Bao_Kv Bao_Policy Bao_Transit Bao_Pki Bao_Ssh Bao_Identity Bao_Database Bao_Approle Bao_Token
    Bao_Sys
begin

text \<open>
  The plans of \<open>bootstrap.rs\<close>: what the read operations decode, how existing state is compared with
  the desired one, the operations of a plan, its builder and its reports. Maps are lists of their entries;
  a secret is its text.
\<close>

section \<open>What the servers answer\<close>

record mount_info =
  mount_info_backend_type :: string
  mount_info_description :: "string option"
  mount_info_accessor :: "string option"
  mount_info_config :: mount_config
  mount_info_options :: "(string \<times> string) list option"
  mount_info_local :: bool
  mount_info_seal_wrap :: bool
  mount_info_external_entropy_access :: bool

record policy_info =
  policy_info_name :: string
  policy_info_rules :: string
  policy_info_expiration :: "string option"
  policy_info_modified :: "string option"
  policy_info_version :: "64 word option"
  policy_info_cas_required :: bool

record policy_info_details =
  policy_info_details_policy :: policy_info
  policy_info_details_allow_slashes_in_identity_templates :: bool
  policy_info_details_allow_wildcards_in_identity_templates :: bool

record pki_role_details =
  pki_role_details_role :: pki_role
  pki_role_details_allow_globs_in_identity_templates :: bool

record ssh_role_info =
  ssh_role_info_algorithm_signer :: "string option"
  ssh_role_info_default_user :: "string option"
  ssh_role_info_default_user_template :: "bool option"
  ssh_role_info_cidr_list :: "string option"
  ssh_role_info_port :: "16 word option"
  ssh_role_info_key_type :: "ssh_role_key_type option"
  ssh_role_info_allowed_users :: "string option"
  ssh_role_info_allowed_users_template :: "bool option"
  ssh_role_info_allow_user_certificates :: "bool option"
  ssh_role_info_allow_host_certificates :: "bool option"
  ssh_role_info_allow_bare_domains :: "bool option"
  ssh_role_info_allow_subdomains :: "bool option"
  ssh_role_info_allow_empty_principals :: "bool option"
  ssh_role_info_allow_user_key_ids :: "bool option"
  ssh_role_info_allowed_domains :: "string option"
  ssh_role_info_allowed_domains_template :: "bool option"
  ssh_role_info_allowed_user_key_lengths :: "(string \<times> 16 word list) list"
  ssh_role_info_default_extensions :: "(string \<times> string) list"
  ssh_role_info_default_extensions_template :: "bool option"
  ssh_role_info_allowed_extensions :: "string option"
  ssh_role_info_default_critical_options :: "(string \<times> string) list"
  ssh_role_info_allowed_critical_options :: "string option"
  ssh_role_info_ttl :: "string option"
  ssh_role_info_max_ttl :: "string option"
  ssh_role_info_exclude_cidr_list :: "string option"
  ssh_role_info_key_id_format :: "string option"
  ssh_role_info_not_before_duration :: "string option"
  ssh_role_info_issuer_ref :: "string option"

record ssh_role_template_details =
  ssh_role_template_details_role :: ssh_role_info
  ssh_role_template_details_allow_commas_in_identity_templates :: bool
  ssh_role_template_details_allow_wildcards_in_identity_templates :: bool

record identity_entity_info =
  identity_entity_info_id :: string
  identity_entity_info_name :: "string option"
  identity_entity_info_metadata :: "(string \<times> string) list"
  identity_entity_info_policies :: "string list"
  identity_entity_info_direct_group_ids :: "string list"
  identity_entity_info_inherited_group_ids :: "string list"
  identity_entity_info_disabled :: bool

record identity_group_info =
  identity_group_info_id :: string
  identity_group_info_name :: "string option"
  identity_group_info_group_type :: "identity_group_type option"
  identity_group_info_policies :: "string list"
  identity_group_info_member_entity_ids :: "string list"
  identity_group_info_member_group_ids :: "string list"
  identity_group_info_parent_group_ids :: "string list"
  identity_group_info_metadata :: "(string \<times> string) list"

record app_role_secret_id =
  app_role_secret_id_secret_id :: string
  app_role_secret_id_secret_id_accessor :: string
  app_role_secret_id_secret_id_ttl :: "64 word"
  app_role_secret_id_secret_id_num_uses :: "64 word"

section \<open>Comparisons\<close>

definition MAX_BOOTSTRAP_OPERATIONS :: nat where "MAX_BOOTSTRAP_OPERATIONS = 512"

definition MAX_BOOTSTRAP_SECRET_VALUE_BYTES :: nat where
  "MAX_BOOTSTRAP_SECRET_VALUE_BYTES = MAX_JSON_OBJECT_BYTES"

text \<open>The loop runs over every index up to the limit; past its end a text counts as zero bytes.\<close>

definition byte_at :: "string \<Rightarrow> nat \<Rightarrow> nat" where
  "byte_at v index = (if index < length v then byte (v ! index) else 0)"

definition constant_time_bounded_bytes_equal :: "string \<Rightarrow> string \<Rightarrow> nat \<Rightarrow> bool" where
  "constant_time_bounded_bytes_equal current desired max_bytes =
     (if max_bytes < length current \<or> max_bytes < length desired then False
      else fold (\<lambda>index equal. equal \<and> byte_at current index = byte_at desired index)
        [0..<max_bytes] (length current = length desired))"

definition secret_values_equal :: "string \<Rightarrow> string \<Rightarrow> bool" where
  "secret_values_equal current desired =
     constant_time_bounded_bytes_equal current desired MAX_BOOTSTRAP_SECRET_VALUE_BYTES"

definition policy_rules_equal :: "string \<Rightarrow> string \<Rightarrow> bool" where
  "policy_rules_equal current desired =
     constant_time_bounded_bytes_equal current desired MAX_POLICY_BYTES"

definition database_secret_values_equal :: "string \<Rightarrow> string \<Rightarrow> bool" where
  "database_secret_values_equal current desired \<longleftrightarrow>
     length current = length desired \<and> list_all2 (\<lambda>a b. byte a = byte b) current desired"

definition validate_bootstrap_policy_document :: "string \<Rightarrow> unit res" where
  "validate_bootstrap_policy_document policy =
     (if MAX_POLICY_BYTES < length policy
      then Inl (InvalidParameter ''bootstrap ACL policy document exceeds maximum allowed length'')
      else Inr ())"

definition validate_bootstrap_secret_values :: "(string \<times> string) list \<Rightarrow> unit res" where
  "validate_bootstrap_secret_values entries =
     (if list_ex (\<lambda>(_, v). MAX_BOOTSTRAP_SECRET_VALUE_BYTES < length v) entries
      then Inl (InvalidParameter ''bootstrap KV v2 secret value exceeds maximum allowed size'')
      else Inr ())"

definition secret_patch_payload :: "(string \<times> string) list \<Rightarrow> (string \<times> string) list" where
  "secret_patch_payload entries = map (\<lambda>(key, v). (key, v)) entries"

definition is_creation_race_response :: "error \<Rightarrow> bool" where
  "is_creation_race_response e \<longleftrightarrow> error_status e = Some 400 \<or> error_status e = Some 409"

definition bootstrap_contention_error :: error where
  "bootstrap_contention_error =
     BootstrapContention (''bootstrap convergence write was overwritten or changed by a concurrent writer; '' @
       ''rerun with external serialization and investigate concurrent writers'')"

definition vec_empty_or_equal :: "string list \<Rightarrow> string list \<Rightarrow> bool" where
  "vec_empty_or_equal existing desired \<longleftrightarrow> desired = [] \<or> existing = desired"

definition map_empty_or_contains :: "(string \<times> string) list \<Rightarrow> (string \<times> string) list \<Rightarrow> bool" where
  "map_empty_or_contains existing desired \<longleftrightarrow>
     list_all (\<lambda>(key, v). map_of existing key = Some v) desired"

definition secret_map_empty_or_contains ::
  "database_credential_config \<Rightarrow> database_credential_config \<Rightarrow> bool" where
  "secret_map_empty_or_contains existing desired \<longleftrightarrow>
     list_all (\<lambda>(key, desired_value).
         is_some_and (\<lambda>current_value. database_secret_values_equal current_value desired_value)
           (map_of (database_credential_config_values existing) key))
       (database_credential_config_values desired)"

section \<open>State against desired state\<close>

definition policy_has_unsafe_template_overrides :: "policy_info_details \<Rightarrow> bool" where
  "policy_has_unsafe_template_overrides existing \<longleftrightarrow>
     policy_info_details_allow_slashes_in_identity_templates existing \<or>
     policy_info_details_allow_wildcards_in_identity_templates existing"

definition policy_matches_desired :: "policy_info_details \<Rightarrow> string \<Rightarrow> bool" where
  "policy_matches_desired existing desired \<longleftrightarrow>
     policy_rules_equal (policy_info_rules (policy_info_details_policy existing)) desired \<and>
     \<not> policy_has_unsafe_template_overrides existing"

definition pki_role_has_unsafe_template_override :: "pki_role_details \<Rightarrow> bool" where
  "pki_role_has_unsafe_template_override existing = pki_role_details_allow_globs_in_identity_templates existing"

definition pki_role_matches_desired :: "pki_role_details \<Rightarrow> pki_role \<Rightarrow> bool" where
  "pki_role_matches_desired existing desired \<longleftrightarrow>
     \<not> pki_role_has_unsafe_template_override existing \<and>
     is_none_or (\<lambda>v. pki_role_issuer_ref (pki_role_details_role existing) = Some v) (pki_role_issuer_ref desired) \<and>
     vec_empty_or_equal (pki_role_allowed_domains (pki_role_details_role existing)) (pki_role_allowed_domains desired) \<and>
     is_none_or (\<lambda>v. pki_role_allow_subdomains (pki_role_details_role existing) = Some v) (pki_role_allow_subdomains desired) \<and>
     is_none_or (\<lambda>v. pki_role_ttl (pki_role_details_role existing) = Some v) (pki_role_ttl desired) \<and>
     is_none_or (\<lambda>v. pki_role_max_ttl (pki_role_details_role existing) = Some v) (pki_role_max_ttl desired) \<and>
     is_none_or (\<lambda>v. pki_role_key_type (pki_role_details_role existing) = Some v) (pki_role_key_type desired) \<and>
     is_none_or (\<lambda>v. pki_role_key_bits (pki_role_details_role existing) = Some v) (pki_role_key_bits desired)"

definition database_role_matches_desired :: "database_role \<Rightarrow> database_role \<Rightarrow> bool" where
  "database_role_matches_desired existing desired \<longleftrightarrow>
     (database_role_db_name desired = [] \<or> database_role_db_name existing = database_role_db_name desired) \<and>
     vec_empty_or_equal (database_role_creation_statements existing) (database_role_creation_statements desired) \<and>
     is_none_or (\<lambda>v. database_role_default_ttl existing = Some v) (database_role_default_ttl desired) \<and>
     is_none_or (\<lambda>v. database_role_max_ttl existing = Some v) (database_role_max_ttl desired) \<and>
     vec_empty_or_equal (database_role_revocation_statements existing) (database_role_revocation_statements desired) \<and>
     vec_empty_or_equal (database_role_rollback_statements existing) (database_role_rollback_statements desired) \<and>
     vec_empty_or_equal (database_role_renew_statements existing) (database_role_renew_statements desired) \<and>
     is_none_or (\<lambda>v. database_role_credential_type existing = Some v) (database_role_credential_type desired) \<and>
     secret_map_empty_or_contains (database_role_credential_config existing) (database_role_credential_config desired)"

definition database_static_role_matches_desired :: "database_static_role \<Rightarrow> database_static_role \<Rightarrow> bool" where
  "database_static_role_matches_desired existing desired \<longleftrightarrow>
     (database_static_role_db_name desired = [] \<or>
        database_static_role_db_name existing = database_static_role_db_name desired) \<and>
     (database_static_role_username desired = [] \<or>
        database_static_role_username existing = database_static_role_username desired) \<and>
     is_none_or (\<lambda>v. database_static_role_rotation_period existing = Some v) (database_static_role_rotation_period desired) \<and>
     vec_empty_or_equal (database_static_role_rotation_statements existing) (database_static_role_rotation_statements desired) \<and>
     is_none_or (\<lambda>v. database_static_role_credential_type existing = Some v) (database_static_role_credential_type desired) \<and>
     secret_map_empty_or_contains (database_static_role_credential_config existing)
       (database_static_role_credential_config desired)"

definition ssh_role_has_unsafe_template_override :: "ssh_role_template_details \<Rightarrow> bool" where
  "ssh_role_has_unsafe_template_override existing \<longleftrightarrow>
     ssh_role_template_details_allow_commas_in_identity_templates existing \<or>
     ssh_role_template_details_allow_wildcards_in_identity_templates existing"

definition ssh_role_matches_desired :: "ssh_role_template_details \<Rightarrow> ssh_role_request \<Rightarrow> bool" where
  "ssh_role_matches_desired existing desired \<longleftrightarrow>
     \<not> ssh_role_has_unsafe_template_override existing \<and>
     is_none_or (\<lambda>v. ssh_role_info_default_user (ssh_role_template_details_role existing) = Some v) (ssh_role_request_default_user desired) \<and>
     is_none_or (\<lambda>v. ssh_role_info_cidr_list (ssh_role_template_details_role existing) = Some v) (ssh_role_request_cidr_list desired) \<and>
     is_none_or (\<lambda>v. ssh_role_info_port (ssh_role_template_details_role existing) = Some v) (ssh_role_request_port desired) \<and>
     is_none_or (\<lambda>v. ssh_role_info_key_type (ssh_role_template_details_role existing) = Some v) (ssh_role_request_key_type desired) \<and>
     is_none_or (\<lambda>v. ssh_role_info_allowed_users (ssh_role_template_details_role existing) = Some v) (ssh_role_request_allowed_users desired) \<and>
     is_none_or (\<lambda>v. ssh_role_info_ttl (ssh_role_template_details_role existing) = Some v) (ssh_role_request_ttl desired) \<and>
     is_none_or (\<lambda>v. ssh_role_info_max_ttl (ssh_role_template_details_role existing) = Some v) (ssh_role_request_max_ttl desired) \<and>
     is_none_or (\<lambda>v. ssh_role_info_issuer_ref (ssh_role_template_details_role existing) = Some v) (ssh_role_request_issuer_ref desired)"

definition identity_entity_matches_desired :: "identity_entity_info \<Rightarrow> identity_entity_request \<Rightarrow> bool" where
  "identity_entity_matches_desired existing desired \<longleftrightarrow>
     is_none_or (\<lambda>v. identity_entity_info_name existing = Some v) (identity_entity_request_name desired) \<and>
     vec_empty_or_equal (identity_entity_info_policies existing) (identity_entity_request_policies desired) \<and>
     map_empty_or_contains (identity_entity_info_metadata existing) (identity_entity_request_metadata desired) \<and>
     is_none_or (\<lambda>v. identity_entity_info_disabled existing = v) (identity_entity_request_disabled desired)"

definition identity_group_matches_desired :: "identity_group_info \<Rightarrow> identity_group_request \<Rightarrow> bool" where
  "identity_group_matches_desired existing desired \<longleftrightarrow>
     is_none_or (\<lambda>v. identity_group_info_name existing = Some v) (identity_group_request_name desired) \<and>
     is_none_or (\<lambda>v. identity_group_info_group_type existing = Some v) (identity_group_request_group_type desired) \<and>
     vec_empty_or_equal (identity_group_info_policies existing) (identity_group_request_policies desired) \<and>
     vec_empty_or_equal (identity_group_info_member_entity_ids existing) (identity_group_request_member_entity_ids desired) \<and>
     vec_empty_or_equal (identity_group_info_member_group_ids existing) (identity_group_request_member_group_ids desired) \<and>
     map_empty_or_contains (identity_group_info_metadata existing) (identity_group_request_metadata desired)"

definition approle_role_matches_desired :: "app_role_role_request \<Rightarrow> app_role_role_request \<Rightarrow> bool" where
  "approle_role_matches_desired existing desired \<longleftrightarrow>
     is_none_or (\<lambda>v. app_role_role_request_bind_secret_id existing = Some v) (app_role_role_request_bind_secret_id desired) \<and>
     vec_empty_or_equal (app_role_role_request_secret_id_bound_cidrs existing) (app_role_role_request_secret_id_bound_cidrs desired) \<and>
     is_none_or (\<lambda>v. app_role_role_request_secret_id_num_uses existing = Some v) (app_role_role_request_secret_id_num_uses desired) \<and>
     is_none_or (\<lambda>v. app_role_role_request_secret_id_ttl existing = Some v) (app_role_role_request_secret_id_ttl desired) \<and>
     is_none_or (\<lambda>v. app_role_role_request_local_secret_ids existing = Some v) (app_role_role_request_local_secret_ids desired) \<and>
     is_none_or (\<lambda>v. app_role_role_request_token_ttl existing = Some v) (app_role_role_request_token_ttl desired) \<and>
     is_none_or (\<lambda>v. app_role_role_request_token_max_ttl existing = Some v) (app_role_role_request_token_max_ttl desired) \<and>
     vec_empty_or_equal (app_role_role_request_token_policies existing) (app_role_role_request_token_policies desired) \<and>
     vec_empty_or_equal (app_role_role_request_token_bound_cidrs existing) (app_role_role_request_token_bound_cidrs desired) \<and>
     is_none_or (\<lambda>v. app_role_role_request_token_strictly_bind_ip existing = Some v) (app_role_role_request_token_strictly_bind_ip desired) \<and>
     is_none_or (\<lambda>v. app_role_role_request_token_explicit_max_ttl existing = Some v) (app_role_role_request_token_explicit_max_ttl desired) \<and>
     is_none_or (\<lambda>v. app_role_role_request_token_no_default_policy existing = Some v) (app_role_role_request_token_no_default_policy desired) \<and>
     is_none_or (\<lambda>v. app_role_role_request_token_num_uses existing = Some v) (app_role_role_request_token_num_uses desired) \<and>
     is_none_or (\<lambda>v. app_role_role_request_token_period existing = Some v) (app_role_role_request_token_period desired) \<and>
     is_none_or (\<lambda>v. app_role_role_request_token_type existing = Some v) (app_role_role_request_token_type desired)"

section \<open>Plans\<close>

text \<open>The Boolean features that add constructors are all on.\<close>

datatype bootstrap_operation =
    OpAuthMethod string string "string option"
  | OpKv2Mount string "string option"
  | OpTransitMount string "string option"
  | OpPkiMount string "string option"
  | OpDatabaseMount string "string option"
  | OpSshMount string "string option"
  | OpTransitKey string string transit_create_key_request
  | OpPolicy string string
  | OpKv2SecretValues string string "(string \<times> string) list"
  | OpPkiRole string string pki_role
  | OpDatabaseRole string string database_role
  | OpDatabaseStaticRole string string database_static_role
  | OpSshRole string string ssh_role_request
  | OpIdentityEntity string string identity_entity_request
  | OpIdentityGroup string string identity_group_request
  | OpServiceToken string token_create_request
  | OpAppRoleRole string string app_role_role_request
  | OpAppRoleSecretId string string string app_role_secret_id_request

type_synonym admin_bootstrap = "bootstrap_operation list"

definition push_operation :: "admin_bootstrap \<Rightarrow> bootstrap_operation \<Rightarrow> admin_bootstrap res" where
  "push_operation plan operation =
     (if MAX_BOOTSTRAP_OPERATIONS \<le> length plan
      then Inl (InvalidParameter ''bootstrap plan exceeds maximum allowed operation count'')
      else Inr (plan @ [operation]))"

definition ensure_auth_method_op ::
  "admin_bootstrap \<Rightarrow> string \<Rightarrow> string \<Rightarrow> string option \<Rightarrow> admin_bootstrap res" where
  "ensure_auth_method_op plan path backend_type description =
     rbind (validate_mount_path path) (\<lambda>path.
     rbind (validate_mount_path backend_type) (\<lambda>backend_type.
       push_operation plan
         (OpAuthMethod (join_with ''/'' path) (join_with ''/'' backend_type) description)))"

definition ensure_approle_auth_method_op ::
  "admin_bootstrap \<Rightarrow> string \<Rightarrow> string option \<Rightarrow> admin_bootstrap res" where
  "ensure_approle_auth_method_op plan path description =
     ensure_auth_method_op plan path ''approle'' description"

definition ensure_kv2_mount_op ::
  "admin_bootstrap \<Rightarrow> string \<Rightarrow> string option \<Rightarrow> admin_bootstrap res" where
  "ensure_kv2_mount_op plan path description =
     rbind (validate_mount_path path) (\<lambda>path.
       push_operation plan (OpKv2Mount (join_with ''/'' path) description))"

definition ensure_transit_mount_op ::
  "admin_bootstrap \<Rightarrow> string \<Rightarrow> string option \<Rightarrow> admin_bootstrap res" where
  "ensure_transit_mount_op plan path description =
     rbind (validate_mount_path path) (\<lambda>path.
       push_operation plan (OpTransitMount (join_with ''/'' path) description))"

definition ensure_pki_mount_op ::
  "admin_bootstrap \<Rightarrow> string \<Rightarrow> string option \<Rightarrow> admin_bootstrap res" where
  "ensure_pki_mount_op plan path description =
     rbind (validate_mount_path path) (\<lambda>path.
       push_operation plan (OpPkiMount (join_with ''/'' path) description))"

definition ensure_database_mount_op ::
  "admin_bootstrap \<Rightarrow> string \<Rightarrow> string option \<Rightarrow> admin_bootstrap res" where
  "ensure_database_mount_op plan path description =
     rbind (validate_mount_path path) (\<lambda>path.
       push_operation plan (OpDatabaseMount (join_with ''/'' path) description))"

definition ensure_ssh_mount_op ::
  "admin_bootstrap \<Rightarrow> string \<Rightarrow> string option \<Rightarrow> admin_bootstrap res" where
  "ensure_ssh_mount_op plan path description =
     rbind (validate_mount_path path) (\<lambda>path.
       push_operation plan (OpSshMount (join_with ''/'' path) description))"

definition ensure_transit_key_op ::
  "admin_bootstrap \<Rightarrow> string \<Rightarrow> string \<Rightarrow> transit_create_key_request \<Rightarrow> admin_bootstrap res" where
  "ensure_transit_key_op plan mount name request =
     rbind (validate_mount_path mount) (\<lambda>mount.
     rbind (validate_mount_path name) (\<lambda>name.
       push_operation plan (OpTransitKey (join_with ''/'' mount) (join_with ''/'' name) request)))"

definition ensure_policy_document_op ::
  "admin_bootstrap \<Rightarrow> string \<Rightarrow> string \<Rightarrow> admin_bootstrap res" where
  "ensure_policy_document_op plan name policy =
     rbind (validate_mount_path name) (\<lambda>name.
     rbind (validate_bootstrap_policy_document policy) (\<lambda>_.
       push_operation plan (OpPolicy (join_with ''/'' name) policy)))"

definition ensure_policy_op :: "admin_bootstrap \<Rightarrow> string \<Rightarrow> builder \<Rightarrow> admin_bootstrap res" where
  "ensure_policy_op plan name policy =
     rbind (build policy) (\<lambda>document. ensure_policy_document_op plan name document)"

definition ensure_kv2_secret_values_op ::
  "admin_bootstrap \<Rightarrow> string \<Rightarrow> string \<Rightarrow> (string \<times> string) list \<Rightarrow> admin_bootstrap res" where
  "ensure_kv2_secret_values_op plan mount path entries =
     rbind (validate_mount_path mount) (\<lambda>mount.
     rbind (validate_endpoint_path path) (\<lambda>path.
     rbind (validate_bootstrap_secret_values entries) (\<lambda>_.
       push_operation plan
         (OpKv2SecretValues (join_with ''/'' mount) (join_with ''/'' path) entries))))"

definition ensure_pki_role_op ::
  "admin_bootstrap \<Rightarrow> string \<Rightarrow> string \<Rightarrow> pki_role \<Rightarrow> admin_bootstrap res" where
  "ensure_pki_role_op plan mount name role =
     rbind (validate_mount_path mount) (\<lambda>mount.
     rbind (validate_mount_path name) (\<lambda>name.
       push_operation plan (OpPkiRole (join_with ''/'' mount) (join_with ''/'' name) role)))"

definition ensure_database_role_op ::
  "admin_bootstrap \<Rightarrow> string \<Rightarrow> string \<Rightarrow> database_role \<Rightarrow> admin_bootstrap res" where
  "ensure_database_role_op plan mount name role =
     rbind (validate_mount_path mount) (\<lambda>mount.
     rbind (validate_mount_path name) (\<lambda>name.
       push_operation plan (OpDatabaseRole (join_with ''/'' mount) (join_with ''/'' name) role)))"

definition ensure_database_static_role_op ::
  "admin_bootstrap \<Rightarrow> string \<Rightarrow> string \<Rightarrow> database_static_role \<Rightarrow> admin_bootstrap res" where
  "ensure_database_static_role_op plan mount name role =
     rbind (validate_mount_path mount) (\<lambda>mount.
     rbind (validate_mount_path name) (\<lambda>name.
       push_operation plan (OpDatabaseStaticRole (join_with ''/'' mount) (join_with ''/'' name) role)))"

definition ensure_ssh_role_op ::
  "admin_bootstrap \<Rightarrow> string \<Rightarrow> string \<Rightarrow> ssh_role_request \<Rightarrow> admin_bootstrap res" where
  "ensure_ssh_role_op plan mount name request =
     rbind (validate_mount_path mount) (\<lambda>mount.
     rbind (validate_mount_path name) (\<lambda>name.
       push_operation plan (OpSshRole (join_with ''/'' mount) (join_with ''/'' name) request)))"

definition ensure_identity_entity_at_op ::
  "admin_bootstrap \<Rightarrow> string \<Rightarrow> string \<Rightarrow> identity_entity_request \<Rightarrow> admin_bootstrap res" where
  "ensure_identity_entity_at_op plan mount name request =
     rbind (validate_mount_path mount) (\<lambda>mount.
     rbind (validate_mount_path name) (\<lambda>name.
       let name = join_with ''/'' name in
       if identity_entity_request_name request \<noteq> Some name \<and> identity_entity_request_name request \<noteq> None
       then Inl (InvalidParameter
         ''identity entity request name must match bootstrap target name'')
       else push_operation plan (OpIdentityEntity (join_with ''/'' mount) name request)))"

definition ensure_identity_entity_op ::
  "admin_bootstrap \<Rightarrow> string \<Rightarrow> identity_entity_request \<Rightarrow> admin_bootstrap res" where
  "ensure_identity_entity_op plan name request = ensure_identity_entity_at_op plan ''identity'' name request"

definition ensure_identity_group_at_op ::
  "admin_bootstrap \<Rightarrow> string \<Rightarrow> string \<Rightarrow> identity_group_request \<Rightarrow> admin_bootstrap res" where
  "ensure_identity_group_at_op plan mount name request =
     rbind (validate_mount_path mount) (\<lambda>mount.
     rbind (validate_mount_path name) (\<lambda>name.
       let name = join_with ''/'' name in
       if identity_group_request_name request \<noteq> Some name \<and> identity_group_request_name request \<noteq> None
       then Inl (InvalidParameter
         ''identity group request name must match bootstrap target name'')
       else push_operation plan (OpIdentityGroup (join_with ''/'' mount) name request)))"

definition ensure_identity_group_op ::
  "admin_bootstrap \<Rightarrow> string \<Rightarrow> identity_group_request \<Rightarrow> admin_bootstrap res" where
  "ensure_identity_group_op plan name request = ensure_identity_group_at_op plan ''identity'' name request"

definition issue_service_token_op ::
  "admin_bootstrap \<Rightarrow> string \<Rightarrow> token_create_request \<Rightarrow> admin_bootstrap res" where
  "issue_service_token_op plan name request =
     rbind (validate_mount_path name) (\<lambda>name.
       push_operation plan (OpServiceToken (join_with ''/'' name) request))"

definition ensure_approle_role_op ::
  "admin_bootstrap \<Rightarrow> string \<Rightarrow> string \<Rightarrow> app_role_role_request \<Rightarrow> admin_bootstrap res" where
  "ensure_approle_role_op plan mount name request =
     rbind (validate_mount_path mount) (\<lambda>mount.
     rbind (validate_mount_path name) (\<lambda>name.
       push_operation plan (OpAppRoleRole (join_with ''/'' mount) (join_with ''/'' name) request)))"

definition issue_approle_secret_id_op ::
  "admin_bootstrap \<Rightarrow> string \<Rightarrow> string \<Rightarrow> string \<Rightarrow> app_role_secret_id_request \<Rightarrow>
   admin_bootstrap res" where
  "issue_approle_secret_id_op plan name mount role_name request =
     rbind (validate_mount_path name) (\<lambda>name.
     rbind (validate_mount_path mount) (\<lambda>mount.
     rbind (validate_mount_path role_name) (\<lambda>role_name.
       push_operation plan (OpAppRoleSecretId (join_with ''/'' name) (join_with ''/'' mount)
         (join_with ''/'' role_name) request))))"

section \<open>Reports\<close>

datatype bootstrap_step_status = StepUnchanged | StepCreated | StepUpdated | StepIssued

datatype bootstrap_preview_status = PreviewUnchanged | WouldCreate | WouldUpdate | WouldIssue

record bootstrap_step_report =
  step_target_type :: string
  step_target :: string
  step_status :: bootstrap_step_status

record bootstrap_preview_step =
  preview_target_type :: string
  preview_target :: string
  preview_status :: bootstrap_preview_status

record bootstrap_issued_token =
  issued_token_name :: string
  issued_token_auth :: token_auth

record bootstrap_issued_approle_secret_id =
  issued_secret_id_name :: string
  issued_secret_id_secret_id :: app_role_secret_id

record bootstrap_report =
  report_steps :: "bootstrap_step_report list"
  report_issued_tokens :: "bootstrap_issued_token list"
  report_issued_secret_ids :: "bootstrap_issued_approle_secret_id list"

definition bootstrap_report_default :: bootstrap_report where
  "bootstrap_report_default =
     \<lparr>report_steps = [], report_issued_tokens = [], report_issued_secret_ids = []\<rparr>"

definition report_issued_token :: "bootstrap_report \<Rightarrow> string \<Rightarrow> bootstrap_issued_token option" where
  "report_issued_token report name =
     find (\<lambda>token. issued_token_name token = name) (report_issued_tokens report)"

definition report_issued_approle_secret_id ::
  "bootstrap_report \<Rightarrow> string \<Rightarrow> bootstrap_issued_approle_secret_id option" where
  "report_issued_approle_secret_id report name =
     find (\<lambda>secret_id. issued_secret_id_name secret_id = name) (report_issued_secret_ids report)"

definition report_is_converged :: "bootstrap_report \<Rightarrow> bool" where
  "report_is_converged report =
     list_all (\<lambda>step. step_status step = StepUnchanged) (report_steps report)"

definition report_changed_steps :: "bootstrap_report \<Rightarrow> bootstrap_step_report list" where
  "report_changed_steps report =
     filter (\<lambda>step. step_status step \<noteq> StepUnchanged) (report_steps report)"

definition preview_is_converged :: "bootstrap_preview_step list \<Rightarrow> bool" where
  "preview_is_converged steps =
     list_all (\<lambda>step. preview_status step = PreviewUnchanged) steps"

definition preview_changed_steps :: "bootstrap_preview_step list \<Rightarrow> bootstrap_preview_step list" where
  "preview_changed_steps steps =
     filter (\<lambda>step. preview_status step \<noteq> PreviewUnchanged) steps"

end
