(* ===== verification/Bao_Bootstrap.thy ===== *)
theory Bao_Bootstrap
  imports Bao_Bootstrap_Plan Bao_Operator
begin

text \<open>
  Running and previewing the plans of \<open>bootstrap.rs\<close>. A run makes many calls, and the server changes
  between them, by the run's own writes and by others: every call meets another environment, taken from an
  arbitrary sequence of them. What was sent is kept with the environment it was sent in.
\<close>

section \<open>Sequences of calls\<close>

type_synonym world = "nat \<Rightarrow> http_env"
type_synonym sent_log = "(http_env \<times> http_settings \<times> http_request) list"
type_synonym 'a flow = "world \<Rightarrow> 'a res \<times> sent_log \<times> world"

definition later :: "world \<Rightarrow> world" where "later w = (\<lambda>i. w (Suc i))"

definition call :: "(http_env \<Rightarrow> 'a sent) \<Rightarrow> 'a flow" where
  "call operation w = (case operation (w 0) of (r, log) \<Rightarrow> (r, map (Pair (w 0)) log, later w))"

definition done_with :: "'a res \<Rightarrow> 'a flow" where
  "done_with r w = (r, [], w)"

text \<open>\<open>match\<close> on the result of a call, and the question mark.\<close>

definition fmatch :: "'a flow \<Rightarrow> ('a res \<Rightarrow> 'b flow) \<Rightarrow> 'b flow" where
  "fmatch s f w = (case s w of (r, log, w') \<Rightarrow>
     (case f r w' of (r', log', w'') \<Rightarrow> (r', log @ log', w'')))"

definition fbind :: "'a flow \<Rightarrow> ('a \<Rightarrow> 'b flow) \<Rightarrow> 'b flow" where
  "fbind s f = fmatch s (\<lambda>r. case r of Inl e \<Rightarrow> done_with (Inl e) | Inr x \<Rightarrow> f x)"

section \<open>Encoders and decoders\<close>

text \<open>What \<open>serde\<close> does for the operations of a plan; what a run drops is decoded to nothing.\<close>

record codecs =
  of_auth_methods :: "string \<Rightarrow> (string \<times> mount_info) list response_envelope option"
  of_mount :: "string \<Rightarrow> mount_info response_envelope option"
  of_transit_key :: "string \<Rightarrow> unit response_envelope option"
  of_policy :: "string \<Rightarrow> policy_info_details response_envelope option"
  of_kv2_config :: "string \<Rightarrow> kv2_service_config kv2_secret response_envelope option"
  of_kv2_write :: "string \<Rightarrow> kv2_write_response response_envelope option"
  of_pki_role :: "string \<Rightarrow> pki_role_details response_envelope option"
  of_database_role :: "string \<Rightarrow> database_role response_envelope option"
  of_static_role :: "string \<Rightarrow> database_static_role response_envelope option"
  of_ssh_role :: "string \<Rightarrow> ssh_role_template_details response_envelope option"
  of_entity :: "string \<Rightarrow> identity_entity_info response_envelope option"
  of_group :: "string \<Rightarrow> identity_group_info response_envelope option"
  of_upsert :: "string \<Rightarrow> unit response_envelope option"
  of_approle_role :: "string \<Rightarrow> app_role_role_request response_envelope option"
  of_secret_id :: "string \<Rightarrow> app_role_secret_id response_envelope option"
  of_token :: "string \<Rightarrow> token_auth_envelope option"
  of_nothing :: "string \<Rightarrow> unit option"
  of_json :: "string \<Rightarrow> json_value option"
  to_auth_enable :: "auth_enable_request \<Rightarrow> payload"
  to_mount_enable :: "mount_enable_request \<Rightarrow> payload"
  to_transit_key :: "transit_create_key_request \<Rightarrow> payload"
  to_policy :: "policy_write_request \<Rightarrow> payload"
  to_kv2 :: "(string \<times> string) list kv2_write_payload \<Rightarrow> payload"
  to_pki_role :: "pki_role \<Rightarrow> payload"
  to_database_role :: "database_role \<Rightarrow> payload"
  to_static_role :: "database_static_role \<Rightarrow> payload"
  to_ssh_role :: "ssh_role_request \<Rightarrow> payload"
  to_entity :: "identity_entity_request \<Rightarrow> payload"
  to_group :: "identity_group_request \<Rightarrow> payload"
  to_approle_role :: "app_role_role_request \<Rightarrow> payload"
  to_secret_id :: "app_role_secret_id_request \<Rightarrow> payload"
  to_token :: "token_create_request \<Rightarrow> payload"

section \<open>Auth methods and mounts\<close>

definition auth_with_optional_description :: "auth_enable_request \<Rightarrow> string option \<Rightarrow> auth_enable_request" where
  "auth_with_optional_description request description =
     request\<lparr>auth_enable_request_description := description\<rparr>"

definition mount_with_optional_description :: "mount_enable_request \<Rightarrow> string option \<Rightarrow> mount_enable_request" where
  "mount_with_optional_description request description =
     request\<lparr>mount_enable_request_description := description\<rparr>"

text \<open>\<open>auth_methods.get(&key).or_else(|| auth_methods.get(path))\<close>.\<close>

definition find_auth_method :: "(string \<times> mount_info) list \<Rightarrow> string \<Rightarrow> mount_info option" where
  "find_auth_method auth_methods path =
     (case map_of auth_methods (path @ ''/'') of Some auth \<Rightarrow> Some auth | None \<Rightarrow> map_of auth_methods path)"

definition list_auths :: "codecs \<Rightarrow> client \<Rightarrow> (string \<times> mount_info) list flow" where
  "list_auths cs cl = call (\<lambda>env. sys_list_auth_methods env cl (of_auth_methods cs))"

definition wrong_auth_type :: "string \<Rightarrow> string \<Rightarrow> string \<Rightarrow> error" where
  "wrong_auth_type path actual expected_type =
     InvalidParameter (''auth method `'' @ path @ ''` exists with type `'' @ actual @
       ''` instead of `'' @ expected_type @ ''`'')"

definition wrong_mount_type :: "string \<Rightarrow> string \<Rightarrow> string \<Rightarrow> error" where
  "wrong_mount_type path actual expected_type =
     InvalidParameter (''mount `'' @ path @ ''` exists with type `'' @ actual @
       ''` instead of `'' @ expected_type @ ''`'')"

definition missing_mount_option :: "string \<Rightarrow> string \<times> string \<Rightarrow> error" where
  "missing_mount_option path entry =
     InvalidParameter (''mount `'' @ path @ ''` exists without required option `'' @ fst entry @ ''='' @
       snd entry @ ''`'')"

definition ensure_auth_method ::
  "codecs \<Rightarrow> client \<Rightarrow> string \<Rightarrow> string \<Rightarrow> auth_enable_request \<Rightarrow> bootstrap_step_status flow" where
  "ensure_auth_method cs cl path expected_type request =
     fbind (list_auths cs cl) (\<lambda>auth_methods.
       case find_auth_method auth_methods path of
         Some auth \<Rightarrow>
           (if mount_info_backend_type auth \<noteq> expected_type
            then done_with (Inl (wrong_auth_type path (mount_info_backend_type auth) expected_type))
            else done_with (Inr StepUnchanged))
       | None \<Rightarrow>
           fmatch (call (\<lambda>env. sys_enable_auth_method env cl (of_nothing cs) (to_auth_enable cs) path request))
             (\<lambda>r. case r of
                Inr _ \<Rightarrow> fbind (list_auths cs cl) (\<lambda>auth_methods.
                  (case find_auth_method auth_methods path of
                     None \<Rightarrow> done_with (Inl bootstrap_contention_error)
                   | Some auth \<Rightarrow>
                       (if mount_info_backend_type auth \<noteq> expected_type
                        then done_with (Inl bootstrap_contention_error)
                        else done_with (Inr StepCreated))))
              | Inl e \<Rightarrow>
                  (if is_creation_race_response e
                   then fbind (list_auths cs cl) (\<lambda>auth_methods.
                     (case find_auth_method auth_methods path of
                        Some auth \<Rightarrow>
                          (if mount_info_backend_type auth = expected_type
                           then done_with (Inr StepUnchanged) else done_with (Inl e))
                      | None \<Rightarrow> done_with (Inl e)))
                   else done_with (Inl e))))"

definition preview_auth_method ::
  "codecs \<Rightarrow> client \<Rightarrow> string \<Rightarrow> string \<Rightarrow> bootstrap_preview_status flow" where
  "preview_auth_method cs cl path expected_type =
     fbind (list_auths cs cl) (\<lambda>auth_methods.
       case find_auth_method auth_methods path of
         Some auth \<Rightarrow>
           (if mount_info_backend_type auth \<noteq> expected_type
            then done_with (Inl (wrong_auth_type path (mount_info_backend_type auth) expected_type))
            else done_with (Inr PreviewUnchanged))
       | None \<Rightarrow> done_with (Inr WouldCreate))"

definition read_mount :: "codecs \<Rightarrow> client \<Rightarrow> string \<Rightarrow> mount_info flow" where
  "read_mount cs cl path = call (\<lambda>env. sys_read_mount env cl (of_mount cs) path)"

text \<open>Whether the required option, if there is one, is set.\<close>

definition has_option :: "mount_info \<Rightarrow> (string \<times> string) option \<Rightarrow> bool" where
  "has_option mount expected_option =
     is_none_or (\<lambda>(key, v). Option.bind (mount_info_options mount) (\<lambda>entries. map_of entries key) = Some v)
       expected_option"

definition check_mount ::
  "string \<Rightarrow> string \<Rightarrow> (string \<times> string) option \<Rightarrow> mount_info \<Rightarrow> unit res" where
  "check_mount path expected_type expected_option mount =
     (if mount_info_backend_type mount \<noteq> expected_type
      then Inl (wrong_mount_type path (mount_info_backend_type mount) expected_type)
      else if \<not> has_option mount expected_option
      then Inl (missing_mount_option path (case expected_option of Some entry \<Rightarrow> entry | None \<Rightarrow> ([], [])))
      else Inr ())"

definition ensure_mount ::
  "codecs \<Rightarrow> client \<Rightarrow> string \<Rightarrow> string \<Rightarrow> (string \<times> string) option \<Rightarrow> mount_enable_request \<Rightarrow>
   bootstrap_step_status flow" where
  "ensure_mount cs cl path expected_type expected_option request =
     fmatch (read_mount cs cl path) (\<lambda>r. case r of
       Inr mount \<Rightarrow>
         (case check_mount path expected_type expected_option mount of
            Inl e \<Rightarrow> done_with (Inl e)
          | Inr _ \<Rightarrow> done_with (Inr StepUnchanged))
     | Inl e \<Rightarrow>
         (if is_not_found e
          then fmatch (call (\<lambda>env. sys_enable_mount env cl (of_nothing cs) (to_mount_enable cs) path request))
            (\<lambda>r. case r of
               Inr _ \<Rightarrow> fbind (read_mount cs cl path) (\<lambda>mount.
                 if mount_info_backend_type mount \<noteq> expected_type
                 then done_with (Inl bootstrap_contention_error)
                 else if \<not> has_option mount expected_option
                 then done_with (Inl bootstrap_contention_error)
                 else done_with (Inr StepCreated))
             | Inl e \<Rightarrow>
                 (if is_creation_race_response e
                  then fmatch (read_mount cs cl path) (\<lambda>r. case r of
                    Inr mount \<Rightarrow>
                      (if mount_info_backend_type mount = expected_type \<and> has_option mount expected_option
                       then done_with (Inr StepUnchanged) else done_with (Inl e))
                  | Inl read_error \<Rightarrow>
                      (if is_not_found read_error then done_with (Inl e) else done_with (Inl read_error)))
                  else done_with (Inl e)))
          else done_with (Inl e)))"

definition preview_mount ::
  "codecs \<Rightarrow> client \<Rightarrow> string \<Rightarrow> string \<Rightarrow> (string \<times> string) option \<Rightarrow> bootstrap_preview_status flow" where
  "preview_mount cs cl path expected_type expected_option =
     fmatch (read_mount cs cl path) (\<lambda>r. case r of
       Inr mount \<Rightarrow>
         (case check_mount path expected_type expected_option mount of
            Inl e \<Rightarrow> done_with (Inl e)
          | Inr _ \<Rightarrow> done_with (Inr PreviewUnchanged))
     | Inl e \<Rightarrow> (if is_not_found e then done_with (Inr WouldCreate) else done_with (Inl e)))"

section \<open>Objects\<close>

text \<open>The handle of an engine, which may fail, and a call on it.\<close>

definition on_handle :: "'h res \<Rightarrow> ('h \<Rightarrow> 'a flow) \<Rightarrow> 'a flow" where
  "on_handle handle f = fbind (done_with handle) f"

text \<open>
  Existing state is read and compared, written when it differs or is absent, and read again: the
  \<open>match\<close> that the operations on policies and roles share. \<open>unsafe\<close> is what forbids a write.
\<close>

definition write_verified ::
  "'a flow \<Rightarrow> unit flow \<Rightarrow> ('a \<Rightarrow> bool) \<Rightarrow> bootstrap_step_status \<Rightarrow> bootstrap_step_status flow" where
  "write_verified read write matches status =
     fbind write (\<lambda>_. fbind read (\<lambda>verification.
       if \<not> matches verification then done_with (Inl bootstrap_contention_error)
       else done_with (Inr status)))"

definition converge ::
  "'a flow \<Rightarrow> unit flow \<Rightarrow> ('a \<Rightarrow> string option) \<Rightarrow> ('a \<Rightarrow> bool) \<Rightarrow> bootstrap_step_status flow" where
  "converge read write unsafe matches =
     fmatch read (\<lambda>r. case r of
       Inr existing \<Rightarrow>
         (case unsafe existing of
            Some m \<Rightarrow> done_with (Inl (UnsafeBootstrapConfiguration m))
          | None \<Rightarrow>
              if matches existing then done_with (Inr StepUnchanged)
              else write_verified read write matches StepUpdated)
     | Inl e \<Rightarrow>
         (if is_not_found e then write_verified read write matches StepCreated
          else done_with (Inl e)))"

definition preview_object :: "'a flow \<Rightarrow> ('a \<Rightarrow> bool) \<Rightarrow> bootstrap_preview_status flow" where
  "preview_object read matches =
     fmatch read (\<lambda>r. case r of
       Inr existing \<Rightarrow> done_with (Inr (if matches existing then PreviewUnchanged else WouldUpdate))
     | Inl e \<Rightarrow> (if is_not_found e then done_with (Inr WouldCreate) else done_with (Inl e)))"

definition never_unsafe :: "'a \<Rightarrow> string option" where "never_unsafe existing = None"

definition unsafe_policy :: "policy_info_details \<Rightarrow> string option" where
  "unsafe_policy existing =
     (if policy_has_unsafe_template_overrides existing
      then Some (''ACL policy has identity-template delimiter overrides enabled; '' @
        ''disable them with a state-preserving operation before bootstrap'')
      else None)"

definition unsafe_pki_role :: "pki_role_details \<Rightarrow> string option" where
  "unsafe_pki_role existing =
     (if pki_role_has_unsafe_template_override existing
      then Some (''PKI role has allow_globs_in_identity_templates enabled; '' @
        ''disable it with a state-preserving operation before bootstrap'')
      else None)"

definition unsafe_ssh_role :: "ssh_role_template_details \<Rightarrow> string option" where
  "unsafe_ssh_role existing =
     (if ssh_role_has_unsafe_template_override existing
      then Some (''SSH role has an identity-template override enabled; '' @
        ''disable it with a state-preserving operation before bootstrap'')
      else None)"

definition read_transit_key :: "codecs \<Rightarrow> client \<Rightarrow> string \<Rightarrow> string \<Rightarrow> unit flow" where
  "read_transit_key cs cl mount name = on_handle (client_transit mount) (\<lambda>h.
     call (\<lambda>env. transit_read_key env cl (of_transit_key cs) h name))"

definition create_transit_key ::
  "codecs \<Rightarrow> client \<Rightarrow> string \<Rightarrow> string \<Rightarrow> transit_create_key_request \<Rightarrow> unit flow" where
  "create_transit_key cs cl mount name request = on_handle (client_transit mount) (\<lambda>h.
     call (\<lambda>env. transit_create_key env cl (of_nothing cs) (to_transit_key cs) h name request))"

definition ensure_transit_key ::
  "codecs \<Rightarrow> client \<Rightarrow> string \<Rightarrow> string \<Rightarrow> transit_create_key_request \<Rightarrow> bootstrap_step_status flow" where
  "ensure_transit_key cs cl mount name request =
     fmatch (read_transit_key cs cl mount name) (\<lambda>r. case r of
       Inr _ \<Rightarrow> done_with (Inr StepUnchanged)
     | Inl e \<Rightarrow>
         (if is_not_found e
          then fmatch (create_transit_key cs cl mount name request) (\<lambda>r. case r of
            Inr _ \<Rightarrow> done_with (Inr StepCreated)
          | Inl e \<Rightarrow>
              (if is_creation_race_response e
               then fmatch (read_transit_key cs cl mount name) (\<lambda>r. case r of
                 Inr _ \<Rightarrow> done_with (Inr StepUnchanged)
               | Inl read_error \<Rightarrow>
                   (if is_not_found read_error then done_with (Inl e) else done_with (Inl read_error)))
               else done_with (Inl e)))
          else done_with (Inl e)))"

definition preview_transit_key ::
  "codecs \<Rightarrow> client \<Rightarrow> string \<Rightarrow> string \<Rightarrow> bootstrap_preview_status flow" where
  "preview_transit_key cs cl mount name =
     fmatch (read_transit_key cs cl mount name) (\<lambda>r. case r of
       Inr _ \<Rightarrow> done_with (Inr PreviewUnchanged)
     | Inl e \<Rightarrow> (if is_not_found e then done_with (Inr WouldCreate) else done_with (Inl e)))"

definition read_policy :: "codecs \<Rightarrow> client \<Rightarrow> string \<Rightarrow> policy_info_details flow" where
  "read_policy cs cl name = call (\<lambda>env. sys_read_policy_details env cl (of_policy cs) name)"

definition ensure_policy :: "codecs \<Rightarrow> client \<Rightarrow> string \<Rightarrow> string \<Rightarrow> bootstrap_step_status flow" where
  "ensure_policy cs cl name policy =
     converge (read_policy cs cl name)
       (call (\<lambda>env. sys_write_policy env cl (of_nothing cs) (to_policy cs) name (policy_write_request_new policy)))
       unsafe_policy (\<lambda>existing. policy_matches_desired existing policy)"

text \<open>A secret of the key-value engine: patched with the version that was read, or created at version zero.\<close>

definition needs_patch :: "kv2_service_config option \<Rightarrow> (string \<times> string) list \<Rightarrow> bool" where
  "needs_patch current entries \<longleftrightarrow>
     (case current of
        None \<Rightarrow> True
      | Some config \<Rightarrow> list_ex (\<lambda>(key, v).
          is_none_or (\<lambda>current. \<not> secret_values_equal current v) (service_config_get config key)) entries)"

definition ensure_kv2_secret_values ::
  "codecs \<Rightarrow> client \<Rightarrow> string \<Rightarrow> string \<Rightarrow> (string \<times> string) list \<Rightarrow> bootstrap_step_status flow" where
  "ensure_kv2_secret_values cs cl mount path entries =
     on_handle (kv2 mount) (\<lambda>kv.
     fmatch (call (\<lambda>env. kv2_read env cl (of_kv2_config cs) kv path)) (\<lambda>r.
       case (case r of
           Inr secret \<Rightarrow> Inr (Some secret)
         | Inl e \<Rightarrow> (if is_not_found e then Inr None else Inl e)) of
         Inl e \<Rightarrow> done_with (Inl e)
       | Inr current \<Rightarrow>
           (if needs_patch (map_option ks_data current) entries
            then (case current of
                Some secret \<Rightarrow>
                  fbind (call (\<lambda>env. kv2_patch_with_options env cl (of_kv2_write cs) (to_kv2 cs) kv path
                      (secret_patch_payload entries) (Some (Some (km_version (ks_metadata secret))))))
                    (\<lambda>_. done_with (Inr StepUpdated))
              | None \<Rightarrow>
                  fbind (call (\<lambda>env. kv2_write_with_options env cl (of_kv2_write cs) (to_kv2 cs) kv path
                      (secret_patch_payload entries) (Some (Some 0))))
                    (\<lambda>_. done_with (Inr StepCreated)))
            else done_with (Inr StepUnchanged))))"

definition preview_kv2_secret_values ::
  "codecs \<Rightarrow> client \<Rightarrow> string \<Rightarrow> string \<Rightarrow> (string \<times> string) list \<Rightarrow> bootstrap_preview_status flow" where
  "preview_kv2_secret_values cs cl mount path entries =
     on_handle (kv2 mount) (\<lambda>kv.
     fmatch (call (\<lambda>env. kv2_read_service_config env cl (of_kv2_config cs) kv path)) (\<lambda>r.
       case (case r of
           Inr config \<Rightarrow> Inr (Some config)
         | Inl e \<Rightarrow> (if is_not_found e then Inr None else Inl e)) of
         Inl e \<Rightarrow> done_with (Inl e)
       | Inr current \<Rightarrow>
           done_with (Inr (if needs_patch current entries
             then (if current \<noteq> None then WouldUpdate else WouldCreate) else PreviewUnchanged))))"

section \<open>Roles and entities\<close>

definition ensure_pki_role ::
  "codecs \<Rightarrow> client \<Rightarrow> string \<Rightarrow> string \<Rightarrow> pki_role \<Rightarrow> bootstrap_step_status flow" where
  "ensure_pki_role cs cl mount name role =
     on_handle (client_pki mount) (\<lambda>h.
       converge (call (\<lambda>env. pki_read_role_details env cl (of_pki_role cs) h name))
         (call (\<lambda>env. pki_write_role env cl (of_nothing cs) (to_pki_role cs) h name role))
         unsafe_pki_role (\<lambda>existing. pki_role_matches_desired existing role))"

definition preview_pki_role ::
  "codecs \<Rightarrow> client \<Rightarrow> string \<Rightarrow> string \<Rightarrow> pki_role \<Rightarrow> bootstrap_preview_status flow" where
  "preview_pki_role cs cl mount name role =
     on_handle (client_pki mount) (\<lambda>h.
       preview_object (call (\<lambda>env. pki_read_role_details env cl (of_pki_role cs) h name))
         (\<lambda>existing. pki_role_matches_desired existing role))"

definition ensure_database_role ::
  "codecs \<Rightarrow> client \<Rightarrow> string \<Rightarrow> string \<Rightarrow> database_role \<Rightarrow> bootstrap_step_status flow" where
  "ensure_database_role cs cl mount name role =
     on_handle (client_database mount) (\<lambda>h.
       converge (call (\<lambda>env. database_read_role env cl (of_database_role cs) h name))
         (call (\<lambda>env. database_write_role env cl (of_nothing cs) (to_database_role cs) h name role))
         never_unsafe (\<lambda>existing. database_role_matches_desired existing role))"

definition preview_database_role ::
  "codecs \<Rightarrow> client \<Rightarrow> string \<Rightarrow> string \<Rightarrow> database_role \<Rightarrow> bootstrap_preview_status flow" where
  "preview_database_role cs cl mount name role =
     on_handle (client_database mount) (\<lambda>h.
       preview_object (call (\<lambda>env. database_read_role env cl (of_database_role cs) h name))
         (\<lambda>existing. database_role_matches_desired existing role))"

definition ensure_database_static_role ::
  "codecs \<Rightarrow> client \<Rightarrow> string \<Rightarrow> string \<Rightarrow> database_static_role \<Rightarrow> bootstrap_step_status flow" where
  "ensure_database_static_role cs cl mount name role =
     on_handle (client_database mount) (\<lambda>h.
       converge (call (\<lambda>env. database_read_static_role env cl (of_static_role cs) h name))
         (call (\<lambda>env. database_write_static_role env cl (of_nothing cs) (to_static_role cs) h name role))
         never_unsafe (\<lambda>existing. database_static_role_matches_desired existing role))"

definition preview_database_static_role ::
  "codecs \<Rightarrow> client \<Rightarrow> string \<Rightarrow> string \<Rightarrow> database_static_role \<Rightarrow> bootstrap_preview_status flow" where
  "preview_database_static_role cs cl mount name role =
     on_handle (client_database mount) (\<lambda>h.
       preview_object (call (\<lambda>env. database_read_static_role env cl (of_static_role cs) h name))
         (\<lambda>existing. database_static_role_matches_desired existing role))"

definition ensure_ssh_role ::
  "codecs \<Rightarrow> client \<Rightarrow> string \<Rightarrow> string \<Rightarrow> ssh_role_request \<Rightarrow> bootstrap_step_status flow" where
  "ensure_ssh_role cs cl mount name request =
     on_handle (client_ssh mount) (\<lambda>h.
       converge (call (\<lambda>env. ssh_read_role_template_details env cl (of_ssh_role cs) h name))
         (call (\<lambda>env. ssh_write_role env cl (of_nothing cs) (to_ssh_role cs) h name request))
         unsafe_ssh_role (\<lambda>existing. ssh_role_matches_desired existing request))"

definition preview_ssh_role ::
  "codecs \<Rightarrow> client \<Rightarrow> string \<Rightarrow> string \<Rightarrow> ssh_role_request \<Rightarrow> bootstrap_preview_status flow" where
  "preview_ssh_role cs cl mount name request =
     on_handle (client_ssh mount) (\<lambda>h.
       preview_object (call (\<lambda>env. ssh_read_role_template_details env cl (of_ssh_role cs) h name))
         (\<lambda>existing. ssh_role_matches_desired existing request))"

definition ensure_identity_entity ::
  "codecs \<Rightarrow> client \<Rightarrow> string \<Rightarrow> string \<Rightarrow> identity_entity_request \<Rightarrow> bootstrap_step_status flow" where
  "ensure_identity_entity cs cl mount name request =
     on_handle (client_identity_at mount) (\<lambda>h.
       converge (call (\<lambda>env. identity_read_entity_by_name env cl (of_entity cs) h name))
         (call (\<lambda>env. identity_write_entity_by_name env cl (of_upsert cs) (to_entity cs) h name request))
         never_unsafe (\<lambda>existing. identity_entity_matches_desired existing request))"

definition preview_identity_entity ::
  "codecs \<Rightarrow> client \<Rightarrow> string \<Rightarrow> string \<Rightarrow> identity_entity_request \<Rightarrow> bootstrap_preview_status flow" where
  "preview_identity_entity cs cl mount name request =
     on_handle (client_identity_at mount) (\<lambda>h.
       preview_object (call (\<lambda>env. identity_read_entity_by_name env cl (of_entity cs) h name))
         (\<lambda>existing. identity_entity_matches_desired existing request))"

definition ensure_identity_group ::
  "codecs \<Rightarrow> client \<Rightarrow> string \<Rightarrow> string \<Rightarrow> identity_group_request \<Rightarrow> bootstrap_step_status flow" where
  "ensure_identity_group cs cl mount name request =
     on_handle (client_identity_at mount) (\<lambda>h.
       converge (call (\<lambda>env. identity_read_group_by_name env cl (of_group cs) h name))
         (call (\<lambda>env. identity_write_group_by_name env cl (of_upsert cs) (to_group cs) h name request))
         never_unsafe (\<lambda>existing. identity_group_matches_desired existing request))"

definition preview_identity_group ::
  "codecs \<Rightarrow> client \<Rightarrow> string \<Rightarrow> string \<Rightarrow> identity_group_request \<Rightarrow> bootstrap_preview_status flow" where
  "preview_identity_group cs cl mount name request =
     on_handle (client_identity_at mount) (\<lambda>h.
       preview_object (call (\<lambda>env. identity_read_group_by_name env cl (of_group cs) h name))
         (\<lambda>existing. identity_group_matches_desired existing request))"

definition ensure_approle_role ::
  "codecs \<Rightarrow> client \<Rightarrow> string \<Rightarrow> string \<Rightarrow> app_role_role_request \<Rightarrow> bootstrap_step_status flow" where
  "ensure_approle_role cs cl mount name request =
     on_handle (client_approle_admin_at mount) (\<lambda>h.
       converge (call (\<lambda>env. approle_admin_read_role env cl (of_approle_role cs) h name))
         (call (\<lambda>env. approle_admin_write_role env cl (of_nothing cs) (to_approle_role cs) h name request))
         never_unsafe (\<lambda>existing. approle_role_matches_desired existing request))"

definition preview_approle_role ::
  "codecs \<Rightarrow> client \<Rightarrow> string \<Rightarrow> string \<Rightarrow> app_role_role_request \<Rightarrow> bootstrap_preview_status flow" where
  "preview_approle_role cs cl mount name request =
     on_handle (client_approle_admin_at mount) (\<lambda>h.
       preview_object (call (\<lambda>env. approle_admin_read_role env cl (of_approle_role cs) h name))
         (\<lambda>existing. approle_role_matches_desired existing request))"

definition preview_policy :: "codecs \<Rightarrow> client \<Rightarrow> string \<Rightarrow> string \<Rightarrow> bootstrap_preview_status flow" where
  "preview_policy cs cl name policy =
     preview_object (read_policy cs cl name) (\<lambda>existing. policy_matches_desired existing policy)"

section \<open>Previews\<close>

definition preview_step ::
  "string \<Rightarrow> string \<Rightarrow> bootstrap_preview_status flow \<Rightarrow> bootstrap_preview_step flow" where
  "preview_step target_type target status =
     fbind status (\<lambda>status. done_with (Inr \<lparr>preview_target_type = target_type,
       preview_target = target, preview_status = status\<rparr>))"

fun preview_operation :: "codecs \<Rightarrow> client \<Rightarrow> bootstrap_operation \<Rightarrow> bootstrap_preview_step flow" where
  "preview_operation cs cl (OpAuthMethod path backend_type _) =
     preview_step ''auth_method'' path (preview_auth_method cs cl path backend_type)"
| "preview_operation cs cl (OpKv2Mount path _) =
     preview_step ''kv2_mount'' path (preview_mount cs cl path ''kv'' (Some (''version'', ''2'')))"
| "preview_operation cs cl (OpTransitMount path _) =
     preview_step ''transit_mount'' path (preview_mount cs cl path ''transit'' None)"
| "preview_operation cs cl (OpPkiMount path _) =
     preview_step ''pki_mount'' path (preview_mount cs cl path ''pki'' None)"
| "preview_operation cs cl (OpDatabaseMount path _) =
     preview_step ''database_mount'' path (preview_mount cs cl path ''database'' None)"
| "preview_operation cs cl (OpSshMount path _) =
     preview_step ''ssh_mount'' path (preview_mount cs cl path ''ssh'' None)"
| "preview_operation cs cl (OpTransitKey mount name _) =
     preview_step ''transit_key'' (mount @ ''/'' @ name) (preview_transit_key cs cl mount name)"
| "preview_operation cs cl (OpPolicy name policy) =
     preview_step ''policy'' name (preview_policy cs cl name policy)"
| "preview_operation cs cl (OpKv2SecretValues mount path entries) =
     preview_step ''kv2_secret'' (mount @ ''/'' @ path) (preview_kv2_secret_values cs cl mount path entries)"
| "preview_operation cs cl (OpPkiRole mount name desired) =
     preview_step ''pki_role'' (mount @ ''/'' @ name) (preview_pki_role cs cl mount name desired)"
| "preview_operation cs cl (OpDatabaseRole mount name desired) =
     preview_step ''database_role'' (mount @ ''/'' @ name) (preview_database_role cs cl mount name desired)"
| "preview_operation cs cl (OpDatabaseStaticRole mount name desired) =
     preview_step ''database_static_role'' (mount @ ''/'' @ name) (preview_database_static_role cs cl mount name desired)"
| "preview_operation cs cl (OpSshRole mount name desired) =
     preview_step ''ssh_role'' (mount @ ''/'' @ name) (preview_ssh_role cs cl mount name desired)"
| "preview_operation cs cl (OpIdentityEntity mount name desired) =
     preview_step ''identity_entity'' (mount @ ''/'' @ name) (preview_identity_entity cs cl mount name desired)"
| "preview_operation cs cl (OpIdentityGroup mount name desired) =
     preview_step ''identity_group'' (mount @ ''/'' @ name) (preview_identity_group cs cl mount name desired)"
| "preview_operation cs cl (OpServiceToken name _) =
     preview_step ''service_token'' name (done_with (Inr WouldIssue))"
| "preview_operation cs cl (OpAppRoleRole mount name desired) =
     preview_step ''approle_role'' (mount @ ''/'' @ name) (preview_approle_role cs cl mount name desired)"
| "preview_operation cs cl (OpAppRoleSecretId name mount role_name _) =
     preview_step ''approle_secret_id'' (mount @ ''/'' @ role_name @ ''/'' @ name) (done_with (Inr WouldIssue))"

text \<open>The loop over the plan, with the steps reported so far.\<close>

fun preview_loop ::
  "codecs \<Rightarrow> client \<Rightarrow> bootstrap_operation list \<Rightarrow> bootstrap_preview_step list \<Rightarrow>
   bootstrap_preview_step list flow" where
  "preview_loop cs cl [] steps = done_with (Inr steps)"
| "preview_loop cs cl (operation # operations) steps =
     fbind (preview_operation cs cl operation) (\<lambda>step. preview_loop cs cl operations (steps @ [step]))"

definition preview :: "codecs \<Rightarrow> client \<Rightarrow> admin_bootstrap \<Rightarrow> bootstrap_preview_step list flow" where
  "preview cs cl plan = preview_loop cs cl plan []"

section \<open>Runs\<close>

definition push_step ::
  "bootstrap_report \<Rightarrow> string \<Rightarrow> string \<Rightarrow> bootstrap_step_status \<Rightarrow> bootstrap_report" where
  "push_step report target_type target status =
     report\<lparr>report_steps := report_steps report @
       [\<lparr>step_target_type = target_type, step_target = target, step_status = status\<rparr>]\<rparr>"

definition run_step ::
  "bootstrap_report \<Rightarrow> string \<Rightarrow> string \<Rightarrow> bootstrap_step_status flow \<Rightarrow> bootstrap_report flow" where
  "run_step report target_type target status =
     fbind status (\<lambda>status. done_with (Inr (push_step report target_type target status)))"

fun run_operation ::
  "codecs \<Rightarrow> client \<Rightarrow> bootstrap_report \<Rightarrow> bootstrap_operation \<Rightarrow> bootstrap_report flow" where
  "run_operation cs cl report (OpAuthMethod path backend_type description) =
     run_step report ''auth_method'' path (ensure_auth_method cs cl path backend_type
       (auth_with_optional_description (auth_enable_request_new backend_type) description))"
| "run_operation cs cl report (OpKv2Mount path description) =
     run_step report ''kv2_mount'' path (ensure_mount cs cl path ''kv'' (Some (''version'', ''2''))
       (mount_with_optional_description mount_enable_request_kv2 description))"
| "run_operation cs cl report (OpTransitMount path description) =
     run_step report ''transit_mount'' path (ensure_mount cs cl path ''transit'' None
       (mount_with_optional_description (mount_enable_request_new ''transit'') description))"
| "run_operation cs cl report (OpPkiMount path description) =
     run_step report ''pki_mount'' path (ensure_mount cs cl path ''pki'' None
       (mount_with_optional_description (mount_enable_request_new ''pki'') description))"
| "run_operation cs cl report (OpDatabaseMount path description) =
     run_step report ''database_mount'' path (ensure_mount cs cl path ''database'' None
       (mount_with_optional_description (mount_enable_request_new ''database'') description))"
| "run_operation cs cl report (OpSshMount path description) =
     run_step report ''ssh_mount'' path (ensure_mount cs cl path ''ssh'' None
       (mount_with_optional_description (mount_enable_request_new ''ssh'') description))"
| "run_operation cs cl report (OpTransitKey mount name request) =
     run_step report ''transit_key'' (mount @ ''/'' @ name) (ensure_transit_key cs cl mount name request)"
| "run_operation cs cl report (OpPolicy name policy) =
     run_step report ''policy'' name (ensure_policy cs cl name policy)"
| "run_operation cs cl report (OpKv2SecretValues mount path entries) =
     run_step report ''kv2_secret'' (mount @ ''/'' @ path) (ensure_kv2_secret_values cs cl mount path entries)"
| "run_operation cs cl report (OpPkiRole mount name desired) =
     run_step report ''pki_role'' (mount @ ''/'' @ name) (ensure_pki_role cs cl mount name desired)"
| "run_operation cs cl report (OpDatabaseRole mount name desired) =
     run_step report ''database_role'' (mount @ ''/'' @ name) (ensure_database_role cs cl mount name desired)"
| "run_operation cs cl report (OpDatabaseStaticRole mount name desired) =
     run_step report ''database_static_role'' (mount @ ''/'' @ name) (ensure_database_static_role cs cl mount name desired)"
| "run_operation cs cl report (OpSshRole mount name desired) =
     run_step report ''ssh_role'' (mount @ ''/'' @ name) (ensure_ssh_role cs cl mount name desired)"
| "run_operation cs cl report (OpIdentityEntity mount name desired) =
     run_step report ''identity_entity'' (mount @ ''/'' @ name) (ensure_identity_entity cs cl mount name desired)"
| "run_operation cs cl report (OpIdentityGroup mount name desired) =
     run_step report ''identity_group'' (mount @ ''/'' @ name) (ensure_identity_group cs cl mount name desired)"
| "run_operation cs cl report (OpServiceToken name request) =
     fbind (call (\<lambda>env. token_create env cl (of_token cs) (to_token cs) request)) (\<lambda>auth.
       done_with (Inr ((push_step report ''service_token'' name StepIssued)
         \<lparr>report_issued_tokens := report_issued_tokens report @
            [\<lparr>issued_token_name = name, issued_token_auth = auth\<rparr>]\<rparr>)))"
| "run_operation cs cl report (OpAppRoleRole mount name desired) =
     run_step report ''approle_role'' (mount @ ''/'' @ name) (ensure_approle_role cs cl mount name desired)"
| "run_operation cs cl report (OpAppRoleSecretId name mount role_name request) =
     fbind (on_handle (client_approle_admin_at mount) (\<lambda>h.
       call (\<lambda>env. approle_admin_generate_secret_id env cl (of_secret_id cs) (to_secret_id cs) h (of_json cs)
         role_name request))) (\<lambda>secret_id.
       done_with (Inr ((push_step report ''approle_secret_id'' (mount @ ''/'' @ role_name @ ''/'' @ name) StepIssued)
         \<lparr>report_issued_secret_ids := report_issued_secret_ids report @
            [\<lparr>issued_secret_id_name = name, issued_secret_id_secret_id = secret_id\<rparr>]\<rparr>)))"

fun run_loop ::
  "codecs \<Rightarrow> client \<Rightarrow> bootstrap_operation list \<Rightarrow> bootstrap_report \<Rightarrow> bootstrap_report flow" where
  "run_loop cs cl [] report = done_with (Inr report)"
| "run_loop cs cl (operation # operations) report =
     fbind (run_operation cs cl report operation) (\<lambda>report. run_loop cs cl operations report)"

definition run :: "codecs \<Rightarrow> client \<Rightarrow> admin_bootstrap \<Rightarrow> bootstrap_report flow" where
  "run cs cl plan = run_loop cs cl plan bootstrap_report_default"

end
