(* ===== verification/Bao_Bootstrap_Spec.thy ===== *)
theory Bao_Bootstrap_Spec
  imports Bao_Bootstrap
begin

text \<open>
  What the bootstrap plans promise: the comparison of secrets, the plans that can be built, what a preview
  and a run send, that a preview foretells a run, and that a step which succeeds has seen what it reports.
\<close>

section \<open>Comparing secrets\<close>

lemma fold_conj: "fold (\<lambda>i eq. eq \<and> P i) xs e \<longleftrightarrow> e \<and> (\<forall>i\<in>set xs. P i)"
  by (induction xs arbitrary: e) auto

text \<open>
  The comparison of secrets, which looks at every index up to its limit whatever the texts are, says yes
  exactly for two equal texts within the limit; no text beyond the limit equals anything.\<close>

theorem constant_time_equal_iff:
  "constant_time_bounded_bytes_equal current desired max_bytes \<longleftrightarrow>
     current = desired \<and> length current \<le> max_bytes"
proof -
  have "current = desired" if "length current = length desired" "length desired \<le> max_bytes"
      "\<forall>i<max_bytes. byte_at current i = byte_at desired i"
  proof (rule nth_equalityI)
    fix i assume "i < length current"
    then show "current ! i = desired ! i"
      using that(1,2) that(3) [rule_format, of i] by (simp add: byte_at_def)
  qed (rule that(1))
  then show ?thesis
    by (auto simp: constant_time_bounded_bytes_equal_def fold_conj)
qed

section \<open>What flows send\<close>

text \<open>At most \<open>n\<close> requests, all of them with \<open>P\<close>, whatever the servers answer.\<close>

definition bounded_flow ::
  "(http_env \<times> http_settings \<times> http_request \<Rightarrow> bool) \<Rightarrow> nat \<Rightarrow> 'a flow \<Rightarrow> bool" where
  "bounded_flow P n f \<longleftrightarrow>
     (\<forall>w. length (fst (snd (f w))) \<le> n \<and> list_all P (fst (snd (f w))))"

named_theorems flow_intros \<open>what a flow sends, by the way it is composed\<close>

lemma bounded_done [flow_intros]: "bounded_flow P n (done_with r)"
  by (simp add: bounded_flow_def done_with_def)

lemma bounded_call: 
  "(\<And>env. length (snd (operation env)) \<le> 1 \<and> list_all (\<lambda>x. P (env, x)) (snd (operation env))) \<Longrightarrow>
   bounded_flow P (Suc 0) (call operation)"
  by (auto simp: bounded_flow_def call_def case_prod_unfold list_all_iff)

lemma bounded_mono: "bounded_flow P m f \<Longrightarrow> m \<le> n \<Longrightarrow> bounded_flow P n f"
  by (auto simp: bounded_flow_def intro: order_trans)

lemma bounded_match:
  assumes "bounded_flow P m s" "\<And>r. bounded_flow P n (f r)"
  shows "bounded_flow P (m + n) (fmatch s f)"
proof -
  have "length (fst (snd (fmatch s f w))) \<le> m + n \<and> list_all P (fst (snd (fmatch s f w)))" for w
  proof -
    obtain r log w' where s: "s w = (r, log, w')" by (cases "s w") auto
    obtain r' log' w'' where f: "f r w' = (r', log', w'')" by (cases "f r w'") auto
    show ?thesis
      using assms(1) [unfolded bounded_flow_def, rule_format, of w]
        assms(2) [unfolded bounded_flow_def, rule_format, of r w'] s f by (simp add: fmatch_def)
  qed
  then show ?thesis by (simp add: bounded_flow_def)
qed

lemma bounded_bind:
  "bounded_flow P m s \<Longrightarrow> (\<And>x. bounded_flow P n (f x)) \<Longrightarrow> bounded_flow P (m + n) (fbind s f)"
  unfolding fbind_def by (rule bounded_match) (auto intro: bounded_done split: sum.split)

lemma bounded_handle [flow_intros]:
  "(\<And>h. handle = Inr h \<Longrightarrow> bounded_flow P n (f h)) \<Longrightarrow> bounded_flow P n (on_handle handle f)"
  by (cases handle)
    (auto simp: on_handle_def fbind_def fmatch_def done_with_def bounded_flow_def case_prod_unfold)

lemma bounded_if [flow_intros]:
  "bounded_flow P n f \<Longrightarrow> bounded_flow P n g \<Longrightarrow> bounded_flow P n (if b then f else g)"
  by simp

lemma bounded_sum [flow_intros]:
  "(\<And>e. bounded_flow P n (f e)) \<Longrightarrow> (\<And>x. bounded_flow P n (g x)) \<Longrightarrow>
   bounded_flow P n (case r of Inl e \<Rightarrow> f e | Inr x \<Rightarrow> g x)"
  by (simp split: sum.split)

lemma bounded_option [flow_intros]:
  "bounded_flow P n f \<Longrightarrow> (\<And>x. bounded_flow P n (g x)) \<Longrightarrow>
   bounded_flow P n (case r of None \<Rightarrow> f | Some x \<Rightarrow> g x)"
  by (simp split: option.split)

text \<open>A call, and what it goes on with.\<close>

lemma bounded_call_match [flow_intros]:
  "bounded_flow P (Suc 0) s \<Longrightarrow> (\<And>r. bounded_flow P n (f r)) \<Longrightarrow> bounded_flow P (Suc n) (fmatch s f)"
  using bounded_match [of P "Suc 0" s n f] by simp

lemma bounded_call_bind [flow_intros]:
  "bounded_flow P (Suc 0) s \<Longrightarrow> (\<And>x. bounded_flow P n (f x)) \<Longrightarrow> bounded_flow P (Suc n) (fbind s f)"
  using bounded_bind [of P "Suc 0" s n f] by simp

text \<open>One safe request, with a verb.\<close>

definition safe_with :: "client \<Rightarrow> string set \<Rightarrow> http_env \<times> http_settings \<times> http_request \<Rightarrow> bool" where
  "safe_with cl verbs = (\<lambda>(env, x). request_safe env cl x \<and> rq_method (snd x) \<in> verbs)"

definition one_request :: "http_env \<Rightarrow> client \<Rightarrow> string set \<Rightarrow> 'a sent \<Rightarrow> bool" where
  "one_request env cl verbs s \<longleftrightarrow> length (snd s) \<le> 1 \<and> list_all (\<lambda>x. safe_with cl verbs (env, x)) (snd s)"

lemma at_route_one: "at_route env cl m mount parts s \<Longrightarrow> m \<in> verbs \<Longrightarrow> one_request env cl verbs s"
  by (auto simp: at_route_def one_request_def safe_with_def sent_safe_def goes_to_def list_all_iff
      split: sum.splits)

lemma call_one: "(\<And>env. one_request env cl verbs (operation env)) \<Longrightarrow> bounded_flow (safe_with cl verbs) (Suc 0) (call operation)"
  by (rule bounded_call) (simp add: one_request_def)

section \<open>What previews and runs send\<close>

lemma opened: "validate_mount_path v = Inr mount \<Longrightarrow> list_all safe_segment mount \<and> mount \<noteq> []"
  using mount_path_part [of v mount] by (simp add: validated_safe(1))

text \<open>The operations that plans use.\<close>

lemma kv2_one:
  "''GET'' \<in> verbs \<Longrightarrow> one_request env cl verbs (kv2_read env cl fj mount path)"
  "''GET'' \<in> verbs \<Longrightarrow> one_request env cl verbs (kv2_read_service_config env cl fj2 mount path)"
  "''POST'' \<in> verbs \<Longrightarrow> one_request env cl verbs (kv2_write_with_options env cl fw tw mount path data opts)"
  "''PATCH'' \<in> verbs \<Longrightarrow> one_request env cl verbs (kv2_patch_with_options env cl fw tw mount path data opts)"
proof -
  have one: "one_request env cl verbs (sbind (pure (kv2_data_path mount path)) (\<lambda>p. smap f (g p)))"
    if "\<And>p. sent_safe env cl (g p)" "\<And>p. sends env cl m p [] (g p)" "m \<in> verbs"
    for g :: "string \<Rightarrow> 'x sent" and f :: "'x \<Rightarrow> 'y" and m
    using that by (cases "kv2_data_path mount path")
      (auto simp: one_request_def safe_with_def sent_safe_def sends_def addressed_def list_all_iff sbind_pure
        pure_def smap_def)
  have safe: "sent_safe env cl (kv2_request env cl from_json mount m p body)"
      "sent_safe env cl (kv2_request_query_headers env cl from_json mount m p query headers body st)"
    for from_json :: "string \<Rightarrow> 'x option" and m p query headers body st
    unfolding kv2_request_def kv2_request_query_headers_def by (rule secret_json_safe)+
  show "''GET'' \<in> verbs \<Longrightarrow> one_request env cl verbs (kv2_read env cl fj mount path)"
    unfolding kv2_read_def by (rule one [OF safe(1) sends_kv2(1)])
  have "''GET'' \<in> verbs \<Longrightarrow> one_request env cl verbs (kv2_read env cl fj2 mount path)"
    unfolding kv2_read_def by (rule one [OF safe(1) sends_kv2(1)])
  then show "''GET'' \<in> verbs \<Longrightarrow> one_request env cl verbs (kv2_read_service_config env cl fj2 mount path)"
    by (simp add: kv2_read_service_config_def kv2_read_data_def one_request_def smap_def)
  show "''POST'' \<in> verbs \<Longrightarrow> one_request env cl verbs (kv2_write_with_options env cl fw tw mount path data opts)"
    unfolding kv2_write_with_options_def by (rule one [OF safe(1) sends_kv2(1)])
  show "''PATCH'' \<in> verbs \<Longrightarrow> one_request env cl verbs (kv2_patch_with_options env cl fw tw mount path data opts)"
    unfolding kv2_patch_with_options_def by (rule one [OF safe(2) sends_kv2(3)])
qed

lemma sys_one:
  "''GET'' \<in> verbs \<Longrightarrow> one_request env cl verbs (sys_list_auth_methods env cl fj)"
  "''GET'' \<in> verbs \<Longrightarrow> one_request env cl verbs (sys_read_mount env cl fj2 path)"
  "''GET'' \<in> verbs \<Longrightarrow> one_request env cl verbs (sys_read_policy_details env cl fj3 name)"
  "''POST'' \<in> verbs \<Longrightarrow> one_request env cl verbs (sys_enable_auth_method env cl fu ta path arequest)"
  "''POST'' \<in> verbs \<Longrightarrow> one_request env cl verbs (sys_enable_mount env cl fu tm path mrequest)"
  "''POST'' \<in> verbs \<Longrightarrow> one_request env cl verbs (sys_write_policy env cl fu tp name prequest)"
  "''POST'' \<in> verbs \<Longrightarrow> one_request env cl verbs (token_create env cl ft tt trequest)"
  by (auto intro!: at_route_one sys_routes_5 sys_routes_6 sys_routes_7 token_routes_1 token_routes_2)

lemma engine_one:
  assumes "validate_mount_path v = Inr mount"
  shows "''GET'' \<in> verbs \<Longrightarrow> one_request env cl verbs (transit_read_key env cl fj mount name)"
    and "''POST'' \<in> verbs \<Longrightarrow> one_request env cl verbs (transit_create_key env cl fu tk mount name krequest)"
    and "''GET'' \<in> verbs \<Longrightarrow> one_request env cl verbs (pki_read_role_details env cl fj2 mount name)"
    and "''POST'' \<in> verbs \<Longrightarrow> one_request env cl verbs (pki_write_role env cl fu tr mount name role)"
    and "''GET'' \<in> verbs \<Longrightarrow> one_request env cl verbs (database_read_role env cl fj3 mount name)"
    and "''POST'' \<in> verbs \<Longrightarrow> one_request env cl verbs (database_write_role env cl fu td mount name drole)"
    and "''GET'' \<in> verbs \<Longrightarrow> one_request env cl verbs (database_read_static_role env cl fj4 mount name)"
    and "''POST'' \<in> verbs \<Longrightarrow> one_request env cl verbs (database_write_static_role env cl fu ts mount name srole)"
    and "''GET'' \<in> verbs \<Longrightarrow> one_request env cl verbs (ssh_read_role_template_details env cl fj5 mount name)"
    and "''POST'' \<in> verbs \<Longrightarrow> one_request env cl verbs (ssh_write_role env cl fu th mount name hrequest)"
    and "''GET'' \<in> verbs \<Longrightarrow> one_request env cl verbs (identity_read_entity_by_name env cl fj6 mount name)"
    and "''POST'' \<in> verbs \<Longrightarrow> one_request env cl verbs (identity_write_entity_by_name env cl fi te mount name erequest)"
    and "''GET'' \<in> verbs \<Longrightarrow> one_request env cl verbs (identity_read_group_by_name env cl fj7 mount name)"
    and "''POST'' \<in> verbs \<Longrightarrow> one_request env cl verbs (identity_write_group_by_name env cl fi tg mount name grequest)"
  using opened [OF assms]
  by (auto intro!: at_route_one transit_calls pki_calls identity_calls database_config_routes database_roles_routes database_static_roles_routes database_other_routes ssh_roles_routes ssh_config_routes ssh_issuers_routes ssh_issuer_routes ssh_other_routes ssh_public_other_routes)

lemma approle_one:
  assumes "client_approle_admin_at v = Inr mount"
  shows "''GET'' \<in> verbs \<Longrightarrow> one_request env cl verbs (approle_admin_read_role env cl fj mount name)"
    and "''POST'' \<in> verbs \<Longrightarrow> one_request env cl verbs (approle_admin_write_role env cl fu tr mount name request)"
    and "''POST'' \<in> verbs \<Longrightarrow>
      one_request env cl verbs (approle_admin_generate_secret_id env cl fs ts mount pj name srequest)"
proof -
  obtain segs where segs: "mount = join_with ''/'' segs" "list_all safe_segment segs" "segs \<noteq> []"
    using assms opened by (auto simp: client_approle_admin_at_def rbind_Inr_iff)
  show "''GET'' \<in> verbs \<Longrightarrow> one_request env cl verbs (approle_admin_read_role env cl fj mount name)"
    "''POST'' \<in> verbs \<Longrightarrow> one_request env cl verbs (approle_admin_write_role env cl fu tr mount name request)"
    "''POST'' \<in> verbs \<Longrightarrow>
      one_request env cl verbs (approle_admin_generate_secret_id env cl fs ts mount pj name srequest)"
    unfolding segs(1)
    by (auto intro!: at_route_one approle_admin_routes_1 approle_admin_routes_3 segs(2,3))
qed

lemmas reading_one = kv2_one(1,2) sys_one(1-3) engine_one approle_one

abbreviation reading :: "client \<Rightarrow> nat \<Rightarrow> 'a flow \<Rightarrow> bool" where
  "reading cl \<equiv> bounded_flow (safe_with cl {''GET'', ''LIST''})"

abbreviation writing :: "client \<Rightarrow> nat \<Rightarrow> 'a flow \<Rightarrow> bool" where
  "writing cl \<equiv> bounded_flow (safe_with cl {''GET'', ''LIST'', ''POST'', ''PATCH''})"

lemmas handle_defs = client_transit_def client_pki_def client_database_def client_ssh_def
  client_identity_at_def

lemma bounded_then:
  "bounded_flow P n s \<Longrightarrow> (\<And>x. bounded_flow P 0 (f x)) \<Longrightarrow> bounded_flow P n (fbind s f)"
  using bounded_bind [of P n s 0 f] by simp

lemma bounded_status:
  "bounded_flow P n status \<Longrightarrow> bounded_flow P n (preview_step target_type target status)"
  "bounded_flow P n step \<Longrightarrow> bounded_flow P n (run_step report target_type target step)"
  by (simp_all add: preview_step_def run_step_def bounded_then bounded_done)

lemma preview_operation_reads: "reading cl (Suc 0) (preview_operation cs cl operation)"
  by (cases operation)
    (auto simp: preview_auth_method_def preview_mount_def preview_transit_key_def preview_policy_def
      preview_kv2_secret_values_def preview_pki_role_def preview_database_role_def
      preview_database_static_role_def preview_ssh_role_def preview_identity_entity_def
      preview_identity_group_def preview_approle_role_def preview_object_def list_auths_def read_mount_def
      read_transit_key_def read_policy_def handle_defs
      intro!: bounded_status flow_intros call_one reading_one)

lemma run_operation_writes: "writing cl (Suc (Suc (Suc 0))) (run_operation cs cl report operation)"
  by (cases operation)
    (auto simp: ensure_auth_method_def ensure_mount_def ensure_transit_key_def ensure_policy_def
      ensure_kv2_secret_values_def ensure_pki_role_def ensure_database_role_def
      ensure_database_static_role_def ensure_ssh_role_def ensure_identity_entity_def
      ensure_identity_group_def ensure_approle_role_def converge_def write_verified_def list_auths_def
      read_mount_def read_transit_key_def create_transit_key_def read_policy_def handle_defs
      intro!: bounded_status flow_intros call_one kv2_one sys_one engine_one approle_one)

lemma preview_loop_reads: "reading cl (length operations) (preview_loop cs cl operations steps)"
  by (induction operations arbitrary: steps)
    (auto intro!: bounded_call_bind preview_operation_reads bounded_done)

lemma run_loop_writes: "writing cl (3 * length operations) (run_loop cs cl operations report)"
proof (induction operations arbitrary: report)
  case (Cons operation operations)
  have "writing cl (3 + 3 * length operations) (run_loop cs cl (operation # operations) report)"
    using Cons.IH run_operation_writes [unfolded numeral_3_eq_3 [symmetric]]
    by (auto intro: bounded_bind)
  then show ?case by simp
qed (simp add: bounded_done)

lemma fbind_Inr:
  "fbind s f w = (Inr y, log, w'') \<longleftrightarrow>
     (\<exists>x log1 w' log2. s w = (Inr x, log1, w') \<and> f x w' = (Inr y, log2, w'') \<and> log = log1 @ log2)"
  by (auto simp: fbind_def fmatch_def done_with_def split: prod.splits sum.splits)

lemma preview_loop_steps:
  "preview_loop cs cl operations steps w = (Inr steps', log, w') \<Longrightarrow>
   length steps' = length steps + length operations"
  by (induction operations arbitrary: steps w log) (fastforce simp: done_with_def fbind_Inr)+

text \<open>C25:
  A preview reads and never writes: whatever the servers answer, it sends at most one request for each
  operation of the plan, each of them safe, with the verb GET or LIST, and a preview that succeeds reports
  exactly one step for each operation.\<close>

theorem preview_read_only:
  "(case preview cs cl plan w of (r, log, _) \<Rightarrow>
      length log \<le> length plan \<and>
      list_all (\<lambda>(env, x). request_safe env cl x \<and> rq_method (snd x) \<in> {''GET'', ''LIST''}) log \<and>
      (case r of Inl _ \<Rightarrow> True | Inr steps \<Rightarrow> length steps = length plan))"
proof -
  obtain r log w' where run: "preview cs cl plan w = (r, log, w')"
    by (cases "preview cs cl plan w") auto
  have "length log \<le> length plan"
    "list_all (\<lambda>(env, x). request_safe env cl x \<and> rq_method (snd x) \<in> {''GET'', ''LIST''}) log"
    using preview_loop_reads [of cl plan cs "[]", unfolded bounded_flow_def, rule_format, of w] run
    by (auto simp: preview_def safe_with_def)
  moreover have "length steps = length plan" if "r = Inr steps" for steps
    using preview_loop_steps [of cs cl plan "[]" w steps] run that by (simp add: preview_def)
  ultimately show ?thesis by (simp add: run split: sum.split)
qed


section \<open>A preview foretells a run\<close>

text \<open>A flow that found its object unchanged, with what it sent and where it left the world.\<close>

definition foretells :: "bootstrap_preview_status flow \<Rightarrow> bootstrap_step_status flow \<Rightarrow> bool" where
  "foretells p r \<longleftrightarrow>
     (\<forall>w log w'. p w = (Inr PreviewUnchanged, log, w') \<longrightarrow> r w = (Inr StepUnchanged, log, w'))"

lemma foretells_handle:
  "(\<And>h. handle = Inr h \<Longrightarrow> foretells (p h) (r h)) \<Longrightarrow> foretells (on_handle handle p) (on_handle handle r)"
  by (cases handle) (auto simp: foretells_def on_handle_def fbind_def fmatch_def done_with_def)

lemma foretells_match:
  "(\<And>x. foretells (p x) (r x)) \<Longrightarrow> foretells (fmatch s p) (fmatch s r)"
  by (fastforce simp: foretells_def fmatch_def split: prod.splits)

lemma foretells_done [simp]:
  "foretells (done_with (Inl e)) r" "foretells (done_with (Inr WouldCreate)) r"
  "foretells (done_with (Inr WouldUpdate)) r"
  "foretells (done_with (Inr PreviewUnchanged)) (done_with (Inr StepUnchanged))"
  by (simp_all add: foretells_def done_with_def)

lemma foretells_if [simp]:
  "(b \<Longrightarrow> foretells p r) \<Longrightarrow> (\<not> b \<Longrightarrow> foretells p' r') \<Longrightarrow>
   foretells (if b then p else p') (if b then r else r')"
  by simp

lemma foretells_converge:
  assumes "\<And>x. matches x \<Longrightarrow> unsafe x = None"
  shows "foretells (preview_object read matches) (converge read wr unsafe matches)"
  unfolding preview_object_def converge_def
  by (rule foretells_match) (auto simp: assms split: sum.split option.split)

lemma foretells_mount: "foretells (preview_mount cs cl path ty opt) (ensure_mount cs cl path ty opt request)"
  unfolding preview_mount_def ensure_mount_def
  by (rule foretells_match) (auto split: sum.split)

lemma foretells_auth:
  "foretells (preview_auth_method cs cl path ty) (ensure_auth_method cs cl path ty request)"
  unfolding preview_auth_method_def ensure_auth_method_def fbind_def
  by (rule foretells_match) (auto split: sum.split option.split)

lemma foretells_transit_key:
  "foretells (preview_transit_key cs cl mount name) (ensure_transit_key cs cl mount name request)"
  unfolding preview_transit_key_def ensure_transit_key_def
  by (rule foretells_match) (auto split: sum.split)

lemma call_smap:
  "call (\<lambda>env. smap f (operation env)) w = (case call operation w of (r, log, w') \<Rightarrow> (rmap f r, log, w'))"
  by (simp add: call_def smap_def case_prod_unfold)

lemma foretells_kv2:
  "foretells (preview_kv2_secret_values cs cl mount path entries)
     (ensure_kv2_secret_values cs cl mount path entries)"
  unfolding preview_kv2_secret_values_def ensure_kv2_secret_values_def kv2_read_service_config_def
    kv2_read_data_def
  by (rule foretells_handle)
    (auto simp: foretells_def fmatch_def call_smap done_with_def
      split: prod.splits sum.splits if_splits)

lemmas foretells_objects = foretells_mount foretells_auth foretells_transit_key foretells_kv2

lemma matching_is_safe:
  "policy_matches_desired policy text \<Longrightarrow> unsafe_policy policy = None"
  "pki_role_matches_desired pki pki' \<Longrightarrow> unsafe_pki_role pki = None"
  "ssh_role_matches_desired ssh ssh' \<Longrightarrow> unsafe_ssh_role ssh = None"
  by (simp_all add: policy_matches_desired_def pki_role_matches_desired_def ssh_role_matches_desired_def
      unsafe_policy_def unsafe_pki_role_def unsafe_ssh_role_def)

lemma foretells_roles:
  "foretells (preview_policy cs cl name policy) (ensure_policy cs cl name policy)"
  "foretells (preview_pki_role cs cl mount name pki) (ensure_pki_role cs cl mount name pki)"
  "foretells (preview_database_role cs cl mount name db) (ensure_database_role cs cl mount name db)"
  "foretells (preview_database_static_role cs cl mount name st)
     (ensure_database_static_role cs cl mount name st)"
  "foretells (preview_ssh_role cs cl mount name ssh) (ensure_ssh_role cs cl mount name ssh)"
  "foretells (preview_identity_entity cs cl mount name en) (ensure_identity_entity cs cl mount name en)"
  "foretells (preview_identity_group cs cl mount name gr) (ensure_identity_group cs cl mount name gr)"
  "foretells (preview_approle_role cs cl mount name ar) (ensure_approle_role cs cl mount name ar)"
  unfolding preview_policy_def ensure_policy_def preview_pki_role_def ensure_pki_role_def
    preview_database_role_def ensure_database_role_def preview_database_static_role_def
    ensure_database_static_role_def preview_ssh_role_def ensure_ssh_role_def preview_identity_entity_def
    ensure_identity_entity_def preview_identity_group_def ensure_identity_group_def
    preview_approle_role_def ensure_approle_role_def
  by (intro foretells_handle foretells_converge; simp add: matching_is_safe never_unsafe_def)+

lemma foretold:
  assumes "foretells p r" "p w = (Inr PreviewUnchanged, log, w')"
  shows "run_step report ty target r w = (Inr (push_step report ty target StepUnchanged), log, w')"
  using assms by (auto simp: foretells_def run_step_def fbind_Inr done_with_def)

lemmas foretold_steps = foretold [OF foretells_mount] foretold [OF foretells_auth]
  foretold [OF foretells_transit_key] foretold [OF foretells_kv2] foretold [OF foretells_roles(1)]
  foretold [OF foretells_roles(2)] foretold [OF foretells_roles(3)] foretold [OF foretells_roles(4)]
  foretold [OF foretells_roles(5)] foretold [OF foretells_roles(6)] foretold [OF foretells_roles(7)]
  foretold [OF foretells_roles(8)]

lemma preview_operation_foretells:
  assumes "preview_operation cs cl operation w = (Inr step, log, w')" "preview_status step = PreviewUnchanged"
  shows "run_operation cs cl report operation w =
    (Inr (push_step report (preview_target_type step) (preview_target step) StepUnchanged), log, w')"
  using assms
  by (cases operation) (auto simp: preview_step_def fbind_Inr done_with_def intro: foretold_steps)

text \<open>The report of a run that found everything unchanged.\<close>

definition unchanged_step :: "bootstrap_preview_step \<Rightarrow> bootstrap_step_report" where
  "unchanged_step step = \<lparr>step_target_type = preview_target_type step, step_target = preview_target step,
     step_status = StepUnchanged\<rparr>"

lemma preview_loop_grows:
  "preview_loop cs cl operations steps w = (Inr steps', log, w') \<Longrightarrow> \<exists>added. steps' = steps @ added"
  by (induction operations arbitrary: steps w log) (fastforce simp: done_with_def fbind_Inr)+

lemma preview_loop_foretells:
  assumes "preview_loop cs cl operations steps w = (Inr (steps @ added), log, w')"
    and "preview_is_converged added"
  shows "run_loop cs cl operations report w =
    (Inr (report\<lparr>report_steps := report_steps report @ map unchanged_step added\<rparr>), log, w')"
  using assms
proof (induction operations arbitrary: steps added w log report)
  case Nil
  then show ?case by (simp add: done_with_def)
next
  case (Cons operation operations)
  obtain step log1 w1 log2 where
    now: "preview_operation cs cl operation w = (Inr step, log1, w1)" and
    rest: "preview_loop cs cl operations (steps @ [step]) w1 = (Inr (steps @ added), log2, w')" and
    log: "log = log1 @ log2"
    using Cons.prems(1) by (auto simp: fbind_Inr)
  obtain added' where added: "added = step # added'"
    using preview_loop_grows [OF rest] by auto
  have "run_loop cs cl operations (push_step report (preview_target_type step) (preview_target step) StepUnchanged) w1 =
      (Inr (report\<lparr>report_steps := report_steps report @ map unchanged_step added\<rparr>), log2, w')"
    using Cons.IH [where steps = "steps @ [step]" and added = added' and w = w1 and log = log2] rest Cons.prems(2)
    by (simp add: added preview_is_converged_def push_step_def unchanged_step_def)
  moreover have "run_operation cs cl report operation w =
      (Inr (push_step report (preview_target_type step) (preview_target step) StepUnchanged), log1, w1)"
    using now Cons.prems(2) by (intro preview_operation_foretells) (simp_all add: added preview_is_converged_def)
  ultimately show ?case by (auto simp: fbind_Inr log)
qed


section \<open>A step that succeeds has seen what it reports\<close>

text \<open>
  What the answer to a step's last call shows: the object is there as desired, it was written with
  check-and-set, or the credential was issued.
\<close>

definition auth_seen :: "codecs \<Rightarrow> client \<Rightarrow> string \<Rightarrow> string \<Rightarrow> http_env \<Rightarrow> bool" where
  "auth_seen cs cl path ty env \<longleftrightarrow> (\<exists>auth_methods auth.
     fst (sys_list_auth_methods env cl (of_auth_methods cs)) = Inr auth_methods \<and>
     find_auth_method auth_methods path = Some auth \<and> mount_info_backend_type auth = ty)"

definition mount_seen ::
  "codecs \<Rightarrow> client \<Rightarrow> string \<Rightarrow> string \<Rightarrow> (string \<times> string) option \<Rightarrow> http_env \<Rightarrow> bool" where
  "mount_seen cs cl path ty opt env \<longleftrightarrow> (\<exists>mount.
     fst (sys_read_mount env cl (of_mount cs) path) = Inr mount \<and>
     mount_info_backend_type mount = ty \<and> has_option mount opt)"

definition object_seen :: "'h res \<Rightarrow> ('h \<Rightarrow> http_env \<Rightarrow> 'a sent) \<Rightarrow> ('a \<Rightarrow> bool) \<Rightarrow> http_env \<Rightarrow> bool" where
  "object_seen handle read matches env \<longleftrightarrow>
     (\<exists>h existing. handle = Inr h \<and> fst (read h env) = Inr existing \<and> matches existing)"

fun seen :: "codecs \<Rightarrow> client \<Rightarrow> bootstrap_operation \<Rightarrow> http_env \<Rightarrow> bool" where
  "seen cs cl (OpAuthMethod path ty _) env = auth_seen cs cl path ty env"
| "seen cs cl (OpKv2Mount path _) env = mount_seen cs cl path ''kv'' (Some (''version'', ''2'')) env"
| "seen cs cl (OpTransitMount path _) env = mount_seen cs cl path ''transit'' None env"
| "seen cs cl (OpPkiMount path _) env = mount_seen cs cl path ''pki'' None env"
| "seen cs cl (OpDatabaseMount path _) env = mount_seen cs cl path ''database'' None env"
| "seen cs cl (OpSshMount path _) env = mount_seen cs cl path ''ssh'' None env"
| "seen cs cl (OpTransitKey mount name request) env \<longleftrightarrow>
     object_seen (client_transit mount) (\<lambda>h env. transit_read_key env cl (of_transit_key cs) h name)
       (\<lambda>_. True) env \<or>
     object_seen (client_transit mount)
       (\<lambda>h env. transit_create_key env cl (of_nothing cs) (to_transit_key cs) h name request) (\<lambda>_. True) env"
| "seen cs cl (OpPolicy name policy) env =
     object_seen (Inr ()) (\<lambda>_ env. sys_read_policy_details env cl (of_policy cs) name)
       (\<lambda>existing. policy_matches_desired existing policy) env"
| "seen cs cl (OpKv2SecretValues mount path entries) env \<longleftrightarrow>
     object_seen (kv2 mount) (\<lambda>h env. kv2_read env cl (of_kv2_config cs) h path)
       (\<lambda>secret. \<not> needs_patch (Some (ks_data secret)) entries) env \<or>
     (\<exists>version. object_seen (kv2 mount) (\<lambda>h env. kv2_patch_with_options env cl (of_kv2_write cs) (to_kv2 cs) h path
       (secret_patch_payload entries) (Some (Some version))) (\<lambda>_. True) env) \<or>
     object_seen (kv2 mount) (\<lambda>h env. kv2_write_with_options env cl (of_kv2_write cs) (to_kv2 cs) h path
       (secret_patch_payload entries) (Some (Some 0))) (\<lambda>_. True) env"
| "seen cs cl (OpPkiRole mount name role) env =
     object_seen (client_pki mount) (\<lambda>h env. pki_read_role_details env cl (of_pki_role cs) h name)
       (\<lambda>existing. pki_role_matches_desired existing role) env"
| "seen cs cl (OpDatabaseRole mount name role) env =
     object_seen (client_database mount) (\<lambda>h env. database_read_role env cl (of_database_role cs) h name)
       (\<lambda>existing. database_role_matches_desired existing role) env"
| "seen cs cl (OpDatabaseStaticRole mount name role) env =
     object_seen (client_database mount) (\<lambda>h env. database_read_static_role env cl (of_static_role cs) h name)
       (\<lambda>existing. database_static_role_matches_desired existing role) env"
| "seen cs cl (OpSshRole mount name request) env =
     object_seen (client_ssh mount) (\<lambda>h env. ssh_read_role_template_details env cl (of_ssh_role cs) h name)
       (\<lambda>existing. ssh_role_matches_desired existing request) env"
| "seen cs cl (OpIdentityEntity mount name request) env =
     object_seen (client_identity_at mount) (\<lambda>h env. identity_read_entity_by_name env cl (of_entity cs) h name)
       (\<lambda>existing. identity_entity_matches_desired existing request) env"
| "seen cs cl (OpIdentityGroup mount name request) env =
     object_seen (client_identity_at mount) (\<lambda>h env. identity_read_group_by_name env cl (of_group cs) h name)
       (\<lambda>existing. identity_group_matches_desired existing request) env"
| "seen cs cl (OpServiceToken name request) env =
     object_seen (Inr ()) (\<lambda>_ env. token_create env cl (of_token cs) (to_token cs) request) (\<lambda>_. True) env"
| "seen cs cl (OpAppRoleRole mount name request) env =
     object_seen (client_approle_admin_at mount)
       (\<lambda>h env. approle_admin_read_role env cl (of_approle_role cs) h name)
       (\<lambda>existing. approle_role_matches_desired existing request) env"
| "seen cs cl (OpAppRoleSecretId name mount role_name request) env =
     object_seen (client_approle_admin_at mount)
       (\<lambda>h env. approle_admin_generate_secret_id env cl (of_secret_id cs) (to_secret_id cs) h (of_json cs)
          role_name request) (\<lambda>_. True) env"

text \<open>A flow whose success shows \<open>Q\<close> in the environment of its last call.\<close>

definition shows_last :: "(http_env \<Rightarrow> bool) \<Rightarrow> 'a flow \<Rightarrow> bool" where
  "shows_last Q f \<longleftrightarrow> (\<forall>w x log w'. f w = (Inr x, log, w') \<longrightarrow>
     (\<exists>n. w' = (\<lambda>i. w (i + Suc n)) \<and> Q (w n)))"

lemma shows_lastD:
  "shows_last Q f \<Longrightarrow> f w = (Inr x, log, w') \<Longrightarrow> \<exists>n. w' = (\<lambda>i. w (i + Suc n)) \<and> Q (w n)"
  by (simp add: shows_last_def)

lemma shows_error [simp]: "shows_last Q (done_with (Inl e))"
  by (simp add: shows_last_def done_with_def)

text \<open>After a call, either the flow is over or it goes on from the next environment.\<close>

definition after_call :: "(http_env \<Rightarrow> bool) \<Rightarrow> http_env \<Rightarrow> 'a flow \<Rightarrow> bool" where
  "after_call Q env f \<longleftrightarrow> shows_last Q f \<or> Q env \<and> (\<exists>r. f = done_with r)"

lemma after_done: "Q env \<Longrightarrow> after_call Q env (done_with r)"
  by (auto simp: after_call_def)

lemma after_error [simp]: "after_call Q env (done_with (Inl e))"
  by (simp add: after_call_def)

lemma after_more: "shows_last Q f \<Longrightarrow> after_call Q env f"
  by (simp add: after_call_def)

lemma shows_call_match:
  assumes "\<And>env. after_call Q env (f (fst (operation env)))"
  shows "shows_last Q (fmatch (call operation) f)"
  unfolding shows_last_def
proof (intro allI impI)
  fix w x log w' assume "fmatch (call operation) f w = (Inr x, log, w')"
  then obtain log' where f: "f (fst (operation (w 0))) (later w) = (Inr x, log', w')"
    by (auto simp: fmatch_def call_def split: prod.splits)
  consider "shows_last Q (f (fst (operation (w 0))))" | r where "Q (w 0)" "f (fst (operation (w 0))) = done_with r"
    using assms [of "w 0"] unfolding after_call_def by blast
  then show "\<exists>n. w' = (\<lambda>i. w (i + Suc n)) \<and> Q (w n)"
  proof cases
    case 1
    from shows_lastD [OF this f] obtain n where "w' = (\<lambda>i. later w (i + Suc n))" "Q (later w n)" by blast
    then show ?thesis by (intro exI [of _ "Suc n"]) (simp add: later_def)
  next
    case 2
    then show ?thesis using f by (intro exI [of _ 0]) (auto simp: done_with_def later_def)
  qed
qed

lemma shows_call_bind:
  assumes "\<And>env x. fst (operation env) = Inr x \<Longrightarrow> after_call Q env (f x)"
  shows "shows_last Q (fbind (call operation) f)"
  unfolding fbind_def
  by (rule shows_call_match) (auto intro: assms simp: after_error split: sum.split)

lemma shows_handle:
  "(\<And>h. handle = Inr h \<Longrightarrow> shows_last Q (f h)) \<Longrightarrow> shows_last Q (on_handle handle f)"
  by (cases handle) (auto simp: shows_last_def on_handle_def fbind_def fmatch_def done_with_def split: prod.splits)

lemmas after_match = shows_call_match [THEN after_more]
  and after_bind = shows_call_bind [THEN after_more]

lemma converge_shows:
  assumes "\<And>env x. fst (read env) = Inr x \<Longrightarrow> matches x \<Longrightarrow> Q env"
  shows "shows_last Q (converge (call read) (call write) unsafe matches)"
proof -
  have "shows_last Q (write_verified (call read) (call write) matches status)" for status
    unfolding write_verified_def
    by (rule shows_call_bind, rule after_more, rule shows_call_bind) (auto intro: after_done assms)
  then show ?thesis
    unfolding converge_def
    by (intro shows_call_match) (auto intro: after_more after_done assms split: sum.split option.split)
qed

lemma run_step_shows: "shows_last Q f \<Longrightarrow> shows_last Q (run_step report ty target f)"
  unfolding shows_last_def run_step_def by (fastforce simp: fbind_Inr done_with_def)

lemma ensure_auth_shows: "shows_last (auth_seen cs cl path ty) (ensure_auth_method cs cl path ty request)"
  unfolding ensure_auth_method_def list_auths_def
  by (rule shows_call_bind)
    (auto intro!: after_done after_match after_bind simp: auth_seen_def
      split: option.split sum.split)

lemma ensure_mount_shows: "shows_last (mount_seen cs cl path ty opt) (ensure_mount cs cl path ty opt request)"
  unfolding ensure_mount_def read_mount_def check_mount_def
  by (rule shows_call_match)
    (auto intro!: after_done after_match after_bind simp: mount_seen_def
      split: sum.split)

lemma ensure_transit_key_shows:
  "shows_last (seen cs cl (OpTransitKey mount name request)) (ensure_transit_key cs cl mount name request)"
proof (cases "client_transit mount")
  case (Inl e)
  then show ?thesis
    by (auto simp: ensure_transit_key_def read_transit_key_def create_transit_key_def on_handle_def fbind_def
        fmatch_def done_with_def shows_last_def)
next
  case (Inr h)
  have handle: "on_handle (Inr h) f = f h" for f :: "string list \<Rightarrow> 'x flow"
    by (rule ext) (simp add: on_handle_def fbind_def fmatch_def done_with_def case_prod_unfold)
  show ?thesis
    unfolding ensure_transit_key_def read_transit_key_def create_transit_key_def Inr handle
    by (rule shows_call_match)
      (auto intro!: after_done after_match simp: object_seen_def Inr split: sum.split)
qed

lemma ensure_kv2_shows:
  "shows_last (seen cs cl (OpKv2SecretValues mount path entries)) (ensure_kv2_secret_values cs cl mount path entries)"
  unfolding ensure_kv2_secret_values_def
proof (rule shows_handle, rule shows_call_match, goal_cases)
  case (1 kv env)
  show ?case
  proof (cases "fst (kv2_read env cl (of_kv2_config cs) kv path)")
    case (Inl e)
    then show ?thesis
      by (auto intro!: after_done after_bind simp: object_seen_def 1 needs_patch_def)
  next
    case (Inr secret)
    then show ?thesis
      using 1 by (auto intro!: after_done after_bind simp: object_seen_def; blast)
  qed
qed

lemma object_shows:
  assumes "\<And>h. handle = Inr h \<Longrightarrow> shows_last (object_seen (Inr h) read matches) (f h)"
  shows "shows_last (object_seen handle read matches) (on_handle handle f)"
  using assms by (intro shows_handle) (simp add: object_seen_def)

lemma converge_sees:
  "shows_last (object_seen (Inr h) rd matches) (converge (call (rd h)) (call write) unsafe matches)"
  by (rule converge_shows) (auto simp: object_seen_def)

lemma issue_shows:
  "shows_last (object_seen (Inr h) rd (\<lambda>_. True)) (call (rd h))"
  by (auto simp: shows_last_def call_def object_seen_def later_def split: prod.splits intro!: exI [of _ 0])

lemma then_done_shows:
  "shows_last Q f \<Longrightarrow> shows_last Q (fbind f (\<lambda>x. done_with (Inr (g x))))"
  unfolding shows_last_def by (fastforce simp: fbind_Inr done_with_def)

lemma seen_eqs:
  "seen cs cl (OpAuthMethod path ty d) = auth_seen cs cl path ty"
  "seen cs cl (OpKv2Mount path d) = mount_seen cs cl path ''kv'' (Some (''version'', ''2''))"
  "seen cs cl (OpTransitMount path d) = mount_seen cs cl path ''transit'' None"
  "seen cs cl (OpPkiMount path d) = mount_seen cs cl path ''pki'' None"
  "seen cs cl (OpDatabaseMount path d) = mount_seen cs cl path ''database'' None"
  "seen cs cl (OpSshMount path d) = mount_seen cs cl path ''ssh'' None"
  "seen cs cl (OpPolicy name policy) = object_seen (Inr ()) (\<lambda>_ env.
      sys_read_policy_details env cl (of_policy cs) name) (\<lambda>existing.
      policy_matches_desired existing policy)"
  "seen cs cl (OpPkiRole mount name role8) = object_seen (client_pki mount) (\<lambda>h env.
      pki_read_role_details env cl (of_pki_role cs) h name) (\<lambda>existing.
      pki_role_matches_desired existing role8)"
  "seen cs cl (OpDatabaseRole mount name role9) = object_seen (client_database mount) (\<lambda>h
      env. database_read_role env cl (of_database_role cs) h name) (\<lambda>existing.
      database_role_matches_desired existing role9)"
  "seen cs cl (OpDatabaseStaticRole mount name role10) = object_seen (client_database mount)
      (\<lambda>h env. database_read_static_role env cl (of_static_role cs) h name)
      (\<lambda>existing. database_static_role_matches_desired existing role10)"
  "seen cs cl (OpSshRole mount name request11) = object_seen (client_ssh mount) (\<lambda>h env.
      ssh_read_role_template_details env cl (of_ssh_role cs) h name) (\<lambda>existing.
      ssh_role_matches_desired existing request11)"
  "seen cs cl (OpIdentityEntity mount name request12) = object_seen (client_identity_at mount)
      (\<lambda>h env. identity_read_entity_by_name env cl (of_entity cs) h name)
      (\<lambda>existing. identity_entity_matches_desired existing request12)"
  "seen cs cl (OpIdentityGroup mount name request13) = object_seen (client_identity_at mount)
      (\<lambda>h env. identity_read_group_by_name env cl (of_group cs) h name) (\<lambda>existing.
      identity_group_matches_desired existing request13)"
  "seen cs cl (OpServiceToken name request14) = object_seen (Inr ()) (\<lambda>_ env. token_create
      env cl (of_token cs) (to_token cs) request14) (\<lambda>_. True)"
  "seen cs cl (OpAppRoleRole mount name request15) = object_seen (client_approle_admin_at mount)
      (\<lambda>h env. approle_admin_read_role env cl (of_approle_role cs) h name)
      (\<lambda>existing. approle_role_matches_desired existing request15)"
  "seen cs cl (OpAppRoleSecretId name mount role_name request16) = object_seen
      (client_approle_admin_at mount) (\<lambda>h env. approle_admin_generate_secret_id env cl
      (of_secret_id cs) (to_secret_id cs) h (of_json cs) role_name request16) (\<lambda>_. True)"
  by (rule ext, simp)+

lemma run_operation_shows: "shows_last (seen cs cl operation) (run_operation cs cl report operation)"
  by (cases operation)
    (auto simp: seen_eqs ensure_policy_def read_policy_def ensure_pki_role_def ensure_database_role_def
      ensure_database_static_role_def ensure_ssh_role_def ensure_identity_entity_def
      ensure_identity_group_def ensure_approle_role_def
      simp del: seen.simps
      intro!: run_step_shows then_done_shows ensure_auth_shows ensure_mount_shows ensure_transit_key_shows
        ensure_kv2_shows object_shows converge_sees issue_shows)

lemma run_operation_steps:
  "run_operation cs cl report operation w = (Inr report', log, w') \<Longrightarrow>
   length (report_steps report') = Suc (length (report_steps report))"
  by (cases operation) (auto simp: run_step_def fbind_Inr done_with_def push_step_def)

lemma run_loop_shows:
  assumes "run_loop cs cl operations report w = (Inr report', log, w')"
  shows "length (report_steps report') = length (report_steps report) + length operations \<and>
    (\<exists>ns k. w' = (\<lambda>i. w (i + k)) \<and> sorted_wrt (<) ns \<and> list_all (\<lambda>n. n < k) ns \<and>
       list_all2 (\<lambda>operation n. seen cs cl operation (w n)) operations ns)"
  using assms
proof (induction operations arbitrary: report w log)
  case Nil
  then show ?case by (auto simp: done_with_def intro: exI [of _ 0])
next
  case (Cons operation operations)
  obtain report1 log1 w1 log2 where
    first: "run_operation cs cl report operation w = (Inr report1, log1, w1)" and
    rest: "run_loop cs cl operations report1 w1 = (Inr report', log2, w')"
    using Cons.prems by (auto simp: fbind_Inr)
  obtain n where n: "w1 = (\<lambda>i. w (i + Suc n))" "seen cs cl operation (w n)"
    using shows_lastD [OF run_operation_shows first] by blast
  obtain ns k where ns: "sorted_wrt (<) ns" "list_all2 (\<lambda>operation n. seen cs cl operation (w1 n)) operations ns"
      "w' = (\<lambda>i. w1 (i + k))" "list_all (\<lambda>n. n < k) ns"
    and steps: "length (report_steps report') = length (report_steps report1) + length operations"
    using Cons.IH [OF rest] by blast
  let ?ns = "n # map (\<lambda>i. i + Suc n) ns"
  have "sorted_wrt (<) ?ns"
    using ns(1) by (auto simp: sorted_wrt_map)
  moreover have "list_all2 (\<lambda>operation n. seen cs cl operation (w n)) (operation # operations) ?ns"
    using ns(2) n by (simp add: list_all2_map2)
  moreover have "w' = (\<lambda>i. w (i + (k + Suc n)))" "list_all (\<lambda>i. i < k + Suc n) ?ns"
    using ns(3,4) n(1) by (auto simp: list_all_iff add_ac)
  ultimately show ?case
    using steps run_operation_steps [OF first] by (intro conjI exI [of _ ?ns] exI [of _ "k + Suc n"]) simp_all
qed


section \<open>The plans that can be built\<close>

inductive planned :: "admin_bootstrap \<Rightarrow> bool" where
  empty_plan: "planned []"
| "planned plan \<Longrightarrow> ensure_auth_method_op plan path ty description = Inr plan' \<Longrightarrow> planned plan'"
| "planned plan \<Longrightarrow> ensure_approle_auth_method_op plan path description = Inr plan' \<Longrightarrow> planned plan'"
| kv2_mount_planned:
    "planned plan \<Longrightarrow> ensure_kv2_mount_op plan path description = Inr plan' \<Longrightarrow> planned plan'"
| "planned plan \<Longrightarrow> ensure_transit_mount_op plan path description = Inr plan' \<Longrightarrow> planned plan'"
| "planned plan \<Longrightarrow> ensure_pki_mount_op plan path description = Inr plan' \<Longrightarrow> planned plan'"
| "planned plan \<Longrightarrow> ensure_database_mount_op plan path description = Inr plan' \<Longrightarrow> planned plan'"
| "planned plan \<Longrightarrow> ensure_ssh_mount_op plan path description = Inr plan' \<Longrightarrow> planned plan'"
| "planned plan \<Longrightarrow> ensure_transit_key_op plan mount name krequest = Inr plan' \<Longrightarrow> planned plan'"
| ensure_policy: "planned plan \<Longrightarrow> ensure_policy_op plan name builder = Inr plan' \<Longrightarrow> planned plan'"
| "planned plan \<Longrightarrow> ensure_policy_document_op plan name policy = Inr plan' \<Longrightarrow> planned plan'"
| "planned plan \<Longrightarrow> ensure_kv2_secret_values_op plan mount path entries = Inr plan' \<Longrightarrow> planned plan'"
| "planned plan \<Longrightarrow> ensure_pki_role_op plan mount name prole = Inr plan' \<Longrightarrow> planned plan'"
| "planned plan \<Longrightarrow> ensure_database_role_op plan mount name drole = Inr plan' \<Longrightarrow> planned plan'"
| "planned plan \<Longrightarrow> ensure_database_static_role_op plan mount name srole = Inr plan' \<Longrightarrow> planned plan'"
| "planned plan \<Longrightarrow> ensure_ssh_role_op plan mount name hrequest = Inr plan' \<Longrightarrow> planned plan'"
| "planned plan \<Longrightarrow> ensure_identity_entity_op plan name erequest = Inr plan' \<Longrightarrow> planned plan'"
| "planned plan \<Longrightarrow> ensure_identity_entity_at_op plan mount name erequest = Inr plan' \<Longrightarrow> planned plan'"
| "planned plan \<Longrightarrow> ensure_identity_group_op plan name grequest = Inr plan' \<Longrightarrow> planned plan'"
| "planned plan \<Longrightarrow> ensure_identity_group_at_op plan mount name grequest = Inr plan' \<Longrightarrow> planned plan'"
| "planned plan \<Longrightarrow> issue_service_token_op plan name trequest = Inr plan' \<Longrightarrow> planned plan'"
| "planned plan \<Longrightarrow> ensure_approle_role_op plan mount name arequest = Inr plan' \<Longrightarrow> planned plan'"
| "planned plan \<Longrightarrow> issue_approle_secret_id_op plan name mount role_name irequest = Inr plan' \<Longrightarrow> planned plan'"

text \<open>A mount or name that opens again, as itself.\<close>

definition reopens :: "string \<Rightarrow> bool" where
  "reopens v \<longleftrightarrow> (\<exists>segs. validate_mount_path v = Inr segs \<and> v = join_with ''/'' segs)"

lemma reopens_join: "validate_mount_path v = Inr segs \<Longrightarrow> reopens (join_with ''/'' segs)"
  by (auto simp: reopens_def intro: mount_validator.canonical)

lemma endpoint_join_ok:
  "validate_endpoint_path v = Inr segs \<Longrightarrow> is_ok (validate_endpoint_path (join_with ''/'' segs))"
  by (simp add: endpoint_validator.canonical)

definition operation_ok :: "bootstrap_operation \<Rightarrow> bool" where
  "operation_ok operation =
     (case operation of
        OpAuthMethod path ty _ \<Rightarrow> reopens path \<and> reopens ty
      | OpKv2Mount path _ \<Rightarrow> reopens path
      | OpTransitMount path _ \<Rightarrow> reopens path
      | OpPkiMount path _ \<Rightarrow> reopens path
      | OpDatabaseMount path _ \<Rightarrow> reopens path
      | OpSshMount path _ \<Rightarrow> reopens path
      | OpTransitKey mount name _ \<Rightarrow> reopens mount \<and> reopens name
      | OpPolicy name policy \<Rightarrow> reopens name \<and> length policy \<le> MAX_POLICY_BYTES
      | OpKv2SecretValues mount path entries \<Rightarrow>
          reopens mount \<and> is_ok (validate_endpoint_path path) \<and>
          list_all (\<lambda>(_, v). length v \<le> MAX_BOOTSTRAP_SECRET_VALUE_BYTES) entries
      | OpPkiRole mount name _ \<Rightarrow> reopens mount \<and> reopens name
      | OpDatabaseRole mount name _ \<Rightarrow> reopens mount \<and> reopens name
      | OpDatabaseStaticRole mount name _ \<Rightarrow> reopens mount \<and> reopens name
      | OpSshRole mount name _ \<Rightarrow> reopens mount \<and> reopens name
      | OpIdentityEntity mount name request \<Rightarrow> reopens mount \<and> reopens name \<and>
          is_none_or (\<lambda>v. v = name) (identity_entity_request_name request)
      | OpIdentityGroup mount name request \<Rightarrow> reopens mount \<and> reopens name \<and>
          is_none_or (\<lambda>v. v = name) (identity_group_request_name request)
      | OpServiceToken name _ \<Rightarrow> reopens name
      | OpAppRoleRole mount name _ \<Rightarrow> reopens mount \<and> reopens name
      | OpAppRoleSecretId name mount role_name _ \<Rightarrow> reopens name \<and> reopens mount \<and> reopens role_name)"

definition plan_ok :: "admin_bootstrap \<Rightarrow> bool" where
  "plan_ok plan \<longleftrightarrow> length plan \<le> 512 \<and> list_all operation_ok plan"

lemma push_ok: "push_operation plan operation = Inr plan' \<Longrightarrow> plan_ok plan \<Longrightarrow> operation_ok operation \<Longrightarrow> plan_ok plan'"
  by (auto simp: push_operation_def plan_ok_def MAX_BOOTSTRAP_OPERATIONS_def split: if_splits)

text \<open>Each builder appends one well-formed operation.\<close>

lemmas builder_defs =
  ensure_auth_method_op_def ensure_approle_auth_method_op_def ensure_kv2_mount_op_def
  ensure_transit_mount_op_def ensure_pki_mount_op_def ensure_database_mount_op_def
  ensure_ssh_mount_op_def ensure_transit_key_op_def ensure_policy_document_op_def
  ensure_kv2_secret_values_op_def ensure_pki_role_op_def ensure_database_role_op_def
  ensure_database_static_role_op_def ensure_ssh_role_op_def issue_service_token_op_def
  ensure_approle_role_op_def issue_approle_secret_id_op_def ensure_identity_entity_op_def
  ensure_identity_entity_at_op_def ensure_identity_group_op_def ensure_identity_group_at_op_def

lemma policy_document_ok:
  "validate_bootstrap_policy_document policy = Inr u \<Longrightarrow> length policy \<le> MAX_POLICY_BYTES"
  by (auto simp: validate_bootstrap_policy_document_def split: if_splits)

lemma secret_values_ok:
  "validate_bootstrap_secret_values entries = Inr u \<Longrightarrow>
     list_all (\<lambda>(_, v). length v \<le> MAX_BOOTSTRAP_SECRET_VALUE_BYTES) entries"
  by (auto simp: validate_bootstrap_secret_values_def list_all_iff list_ex_iff split: if_splits)

text \<open>C27: every operation of every plan that the builder can produce is well formed and the plan is
  bounded: the plan holds at most 512 operations, each stored mount, backend type and name is a
  normalised path that the run opens again as itself, policy documents and secret values are within
  their limits, and a name inside an identity request is the planned one.\<close>

theorem plan_built_ok:
  assumes "planned plan"
  shows "plan_ok plan"
  using assms
proof (induction rule: planned.induct)
  case empty_plan
  then show ?case by (simp add: plan_ok_def)
next
  case (ensure_policy plan name builder plan')
  then show ?case
    by (auto simp: ensure_policy_op_def ensure_policy_document_op_def rbind_Inr_iff operation_ok_def
        elim!: push_ok intro!: reopens_join policy_document_ok)
qed (auto simp: builder_defs rbind_Inr_iff operation_ok_def Let_def
      simp del: is_ok.simps
      elim!: push_ok intro!: reopens_join endpoint_join_ok policy_document_ok secret_values_ok
      split: if_splits)

theorem plan_built_ok_witness:
  "plan_ok [OpKv2Mount ''secret'' None]"
proof (rule plan_built_ok)
  have "ensure_kv2_mount_op [] ''secret'' None = Inr [OpKv2Mount ''secret'' None]"
    by code_simp
  then show "planned [OpKv2Mount ''secret'' None]"
    by (rule kv2_mount_planned [OF empty_plan])
qed

end
