(* ===== verification/Bao_Posture.thy ===== *)
theory Bao_Posture
  imports Bao_Transit
begin

text \<open>
  The advisory reports of \<open>posture.rs\<close> on transit keys and algorithms. A builder is the report it has
  gathered; every check returns the builder with its notes and findings appended.
\<close>

section \<open>Reports\<close>

datatype fips_posture_severity = SeverityWarning | SeverityReject

record fips_posture_note =
  note_subject :: string
  note_detail :: string

record fips_posture_finding =
  finding_severity :: fips_posture_severity
  finding_subject :: string
  finding_message :: string

record fips_posture_report =
  posture_checked :: "fips_posture_note list"
  posture_findings :: "fips_posture_finding list"
  posture_unverified :: "fips_posture_note list"

text \<open>The builder only wraps its report.\<close>

type_synonym fips_posture = fips_posture_report

definition posture_new :: fips_posture where
  "posture_new = \<lparr>posture_checked = [], posture_findings = [], posture_unverified = []\<rparr>"

definition posture_finish :: "fips_posture \<Rightarrow> fips_posture_report" where
  "posture_finish self = self"

definition has_rejects :: "fips_posture_report \<Rightarrow> bool" where
  "has_rejects self = list_ex (\<lambda>finding. finding_severity finding = SeverityReject) (posture_findings self)"

definition has_findings :: "fips_posture_report \<Rightarrow> bool" where
  "has_findings self \<longleftrightarrow> posture_findings self \<noteq> []"

definition note_checked :: "fips_posture \<Rightarrow> string \<Rightarrow> string \<Rightarrow> fips_posture" where
  "note_checked self subject detail =
     self\<lparr>posture_checked := posture_checked self @ [\<lparr>note_subject = subject, note_detail = detail\<rparr>]\<rparr>"

definition note_unverified :: "fips_posture \<Rightarrow> string \<Rightarrow> string \<Rightarrow> fips_posture" where
  "note_unverified self subject detail =
     self\<lparr>posture_unverified := posture_unverified self @
       [\<lparr>note_subject = subject, note_detail = detail\<rparr>]\<rparr>"

definition add_finding :: "fips_posture \<Rightarrow> fips_posture_severity \<Rightarrow> string \<Rightarrow> string \<Rightarrow> fips_posture" where
  "add_finding self severity subject message =
     self\<lparr>posture_findings := posture_findings self @
       [\<lparr>finding_severity = severity, finding_subject = subject, finding_message = message\<rparr>]\<rparr>"

definition assume_hsm_or_kms_seal :: "fips_posture \<Rightarrow> string \<Rightarrow> fips_posture" where
  "assume_hsm_or_kms_seal self subject = note_checked self subject
     ''caller supplied an HSM/KMS-backed seal assumption; the SDK did not verify it''"

definition assume_unknown_or_non_hsm_seal :: "fips_posture \<Rightarrow> string \<Rightarrow> fips_posture" where
  "assume_unknown_or_non_hsm_seal self subject = add_finding self SeverityWarning subject
     ''seal mechanism is not verified as HSM/KMS-backed by this SDK''"

section \<open>Checks\<close>

fun check_transit_key_type :: "fips_posture \<Rightarrow> string \<Rightarrow> transit_key_type \<Rightarrow> fips_posture" where
  "check_transit_key_type self subject TransitKeyType_Aes128Gcm96 =
     note_checked self subject ''Transit key type is in the conservative allowlist''"
| "check_transit_key_type self subject TransitKeyType_Aes256Gcm96 =
     note_checked self subject ''Transit key type is in the conservative allowlist''"
| "check_transit_key_type self subject TransitKeyType_ChaCha20Poly1305 =
     add_finding self SeverityWarning subject
     (''ChaCha20/XChaCha20 is outside this helper'' @ [CHR 0x27] @ ''s conservative FIPS-oriented allowlist'')"
| "check_transit_key_type self subject TransitKeyType_XChaCha20Poly1305 =
     add_finding self SeverityWarning subject
     (''ChaCha20/XChaCha20 is outside this helper'' @ [CHR 0x27] @ ''s conservative FIPS-oriented allowlist'')"
| "check_transit_key_type self subject TransitKeyType_Ed25519 =
     add_finding self SeverityWarning subject
     (''Ed25519 is outside this helper'' @ [CHR 0x27] @ ''s conservative FIPS-oriented allowlist'')"
| "check_transit_key_type self subject TransitKeyType_EcdsaP256 =
     note_checked self subject ''Transit key type is in the conservative allowlist''"
| "check_transit_key_type self subject TransitKeyType_EcdsaP384 =
     note_checked self subject ''Transit key type is in the conservative allowlist''"
| "check_transit_key_type self subject TransitKeyType_EcdsaP521 =
     add_finding self SeverityWarning subject
     ''ECDSA P-521 requires deployment-specific validation outside this SDK''"
| "check_transit_key_type self subject TransitKeyType_Rsa2048 =
     add_finding self SeverityWarning subject
     (''RSA-2048 is accepted by some profiles but below this helper'' @ [CHR 0x27] @ ''s conservative RSA size'')"
| "check_transit_key_type self subject TransitKeyType_Rsa3072 =
     note_checked self subject ''Transit key type is in the conservative allowlist''"
| "check_transit_key_type self subject TransitKeyType_Rsa4096 =
     note_checked self subject ''Transit key type is in the conservative allowlist''"
| "check_transit_key_type self subject TransitKeyType_Hmac =
     note_checked self subject ''Transit key type is in the conservative allowlist''"

definition check_transit_key_type_name :: "fips_posture \<Rightarrow> string \<Rightarrow> string \<Rightarrow> fips_posture" where
  "check_transit_key_type_name self subject key_type =
     (if key_type = ''aes128-gcm96'' then check_transit_key_type self subject TransitKeyType_Aes128Gcm96
      else if key_type = ''aes256-gcm96'' then check_transit_key_type self subject TransitKeyType_Aes256Gcm96
      else if key_type = ''chacha20-poly1305'' then check_transit_key_type self subject TransitKeyType_ChaCha20Poly1305
      else if key_type = ''xchacha20-poly1305'' then check_transit_key_type self subject TransitKeyType_XChaCha20Poly1305
      else if key_type = ''ed25519'' then check_transit_key_type self subject TransitKeyType_Ed25519
      else if key_type = ''ecdsa-p256'' then check_transit_key_type self subject TransitKeyType_EcdsaP256
      else if key_type = ''ecdsa-p384'' then check_transit_key_type self subject TransitKeyType_EcdsaP384
      else if key_type = ''ecdsa-p521'' then check_transit_key_type self subject TransitKeyType_EcdsaP521
      else if key_type = ''rsa-2048'' then check_transit_key_type self subject TransitKeyType_Rsa2048
      else if key_type = ''rsa-3072'' then check_transit_key_type self subject TransitKeyType_Rsa3072
      else if key_type = ''rsa-4096'' then check_transit_key_type self subject TransitKeyType_Rsa4096
      else if key_type = ''hmac'' then check_transit_key_type self subject TransitKeyType_Hmac
      else add_finding self SeverityWarning subject
        (''Transit key type `'' @ key_type @ ''` is unknown to this SDK version''))"

definition check_transit_create_key ::
  "fips_posture \<Rightarrow> string \<Rightarrow> transit_create_key_request \<Rightarrow> fips_posture" where
  "check_transit_create_key self subject request =
     (let key_type = (case transit_create_key_request_key_type request of
            Some t \<Rightarrow> t | None \<Rightarrow> TransitKeyType_Aes256Gcm96);
        self = check_transit_key_type self subject key_type;
        self = (if transit_create_key_request_convergent_encryption request = Some True
          then add_finding self SeverityWarning (subject @ ''.convergent_encryption'')
            ''convergent encryption is enabled; review deterministic encryption requirements''
          else self);
        self = (if transit_create_key_request_exportable request = Some True
          then add_finding self SeverityWarning (subject @ ''.exportable'')
            ''Transit key material is exportable''
          else self)
      in if transit_create_key_request_allow_plaintext_backup request = Some True
         then add_finding self SeverityWarning (subject @ ''.allow_plaintext_backup'')
           ''Transit plaintext backup is enabled''
         else self)"

text \<open>The fields of \<open>TransitKeyInfo\<close>, whose map is the list of its entries.\<close>

record transit_key_info =
  transit_key_info_name :: "string option"
  transit_key_info_key_type :: string
  transit_key_info_deletion_allowed :: bool
  transit_key_info_derived :: bool
  transit_key_info_exportable :: bool
  transit_key_info_allow_plaintext_backup :: bool
  transit_key_info_keys :: "(string \<times> 64 word) list"
  transit_key_info_min_decryption_version :: "64 word"
  transit_key_info_min_encryption_version :: "64 word"
  transit_key_info_supports_encryption :: bool
  transit_key_info_supports_decryption :: bool
  transit_key_info_supports_derivation :: bool
  transit_key_info_supports_signing :: bool
  transit_key_info_imported :: bool

definition check_transit_key_info :: "fips_posture \<Rightarrow> string \<Rightarrow> transit_key_info \<Rightarrow> fips_posture" where
  "check_transit_key_info self subject info =
     (let self = check_transit_key_type_name self subject (transit_key_info_key_type info);
        self = (if transit_key_info_exportable info
          then add_finding self SeverityWarning (subject @ ''.exportable'')
            ''Transit key metadata reports exportable key material''
          else self);
        self = (if transit_key_info_allow_plaintext_backup info
          then add_finding self SeverityWarning (subject @ ''.allow_plaintext_backup'')
            ''Transit key metadata reports plaintext backup is enabled''
          else self)
      in if transit_key_info_imported info
         then note_unverified self (subject @ ''.imported'')
           ''imported Transit key provenance is outside what this SDK can verify''
         else self)"

text \<open>With the feature that has SHA-1.\<close>

fun check_transit_hash_algorithm ::
  "fips_posture \<Rightarrow> string \<Rightarrow> transit_hash_algorithm \<Rightarrow> fips_posture" where
  "check_transit_hash_algorithm self subject TransitHashAlgorithm_Sha1 =
     add_finding self SeverityReject subject
     ''SHA-1 is not accepted by this FIPS-oriented helper''"
| "check_transit_hash_algorithm self subject TransitHashAlgorithm_Sha2_256 =
     note_checked self subject
     ''SHA-2 algorithm is in the conservative allowlist''"
| "check_transit_hash_algorithm self subject TransitHashAlgorithm_Sha2_384 =
     note_checked self subject
     ''SHA-2 algorithm is in the conservative allowlist''"
| "check_transit_hash_algorithm self subject TransitHashAlgorithm_Sha2_512 =
     note_checked self subject
     ''SHA-2 algorithm is in the conservative allowlist''"
| "check_transit_hash_algorithm self subject TransitHashAlgorithm_Sha2_224 =
     add_finding self SeverityWarning subject
     (''SHA2-224 is FIPS-defined but outside this helper'' @ [CHR 0x27] @ ''s conservative allowlist'')"
| "check_transit_hash_algorithm self subject TransitHashAlgorithm_Sha3_224 =
     add_finding self SeverityWarning subject
     ''SHA-3 requires provider/deployment validation outside this SDK''"
| "check_transit_hash_algorithm self subject TransitHashAlgorithm_Sha3_256 =
     add_finding self SeverityWarning subject
     ''SHA-3 requires provider/deployment validation outside this SDK''"
| "check_transit_hash_algorithm self subject TransitHashAlgorithm_Sha3_384 =
     add_finding self SeverityWarning subject
     ''SHA-3 requires provider/deployment validation outside this SDK''"
| "check_transit_hash_algorithm self subject TransitHashAlgorithm_Sha3_512 =
     add_finding self SeverityWarning subject
     ''SHA-3 requires provider/deployment validation outside this SDK''"
| "check_transit_hash_algorithm self subject TransitHashAlgorithm_None =
     add_finding self SeverityWarning subject
     ''unhashed signing mode requires caller-side hash and protocol review''"

fun check_transit_signature_algorithm ::
  "fips_posture \<Rightarrow> string \<Rightarrow> transit_signature_algorithm \<Rightarrow> fips_posture" where
  "check_transit_signature_algorithm self subject TransitSignatureAlgorithm_Pss =
     note_checked self subject ''RSA-PSS is in the conservative allowlist''"
| "check_transit_signature_algorithm self subject TransitSignatureAlgorithm_Pkcs1v15 =
     add_finding self SeverityWarning subject ''RSASSA-PKCS1-v1_5 is legacy; prefer RSA-PSS where possible''"

section \<open>What the reports say\<close>

text \<open>The text a key type has on the wire, as its serialiser renames it.\<close>

fun key_type_text :: "transit_key_type \<Rightarrow> string" where
  "key_type_text TransitKeyType_Aes128Gcm96 = ''aes128-gcm96''"
| "key_type_text TransitKeyType_Aes256Gcm96 = ''aes256-gcm96''"
| "key_type_text TransitKeyType_ChaCha20Poly1305 = ''chacha20-poly1305''"
| "key_type_text TransitKeyType_XChaCha20Poly1305 = ''xchacha20-poly1305''"
| "key_type_text TransitKeyType_Ed25519 = ''ed25519''"
| "key_type_text TransitKeyType_EcdsaP256 = ''ecdsa-p256''"
| "key_type_text TransitKeyType_EcdsaP384 = ''ecdsa-p384''"
| "key_type_text TransitKeyType_EcdsaP521 = ''ecdsa-p521''"
| "key_type_text TransitKeyType_Rsa2048 = ''rsa-2048''"
| "key_type_text TransitKeyType_Rsa3072 = ''rsa-3072''"
| "key_type_text TransitKeyType_Rsa4096 = ''rsa-4096''"
| "key_type_text TransitKeyType_Hmac = ''hmac''"

lemmas report_defs = note_checked_def note_unverified_def add_finding_def

lemma key_type_name_eq:
  "check_transit_key_type_name self subject (key_type_text t) = check_transit_key_type self subject t"
  by (cases t) (simp_all add: check_transit_key_type_name_def)

lemma key_type_text_inj: "key_type_text t = key_type_text t' \<Longrightarrow> t = t'"
  by (cases t; cases t'; simp)

lemma unknown_key_type:
  "n \<notin> range key_type_text \<Longrightarrow>
   check_transit_key_type_name self subject n = add_finding self SeverityWarning subject
     (''Transit key type `'' @ n @ ''` is unknown to this SDK version'')"
proof -
  assume "n \<notin> range key_type_text"
  then have "n \<noteq> key_type_text t" for t by blast
  note this [of TransitKeyType_Aes128Gcm96] this [of TransitKeyType_Aes256Gcm96]
    this [of TransitKeyType_ChaCha20Poly1305] this [of TransitKeyType_XChaCha20Poly1305]
    this [of TransitKeyType_Ed25519] this [of TransitKeyType_EcdsaP256] this [of TransitKeyType_EcdsaP384]
    this [of TransitKeyType_EcdsaP521] this [of TransitKeyType_Rsa2048] this [of TransitKeyType_Rsa3072]
    this [of TransitKeyType_Rsa4096] this [of TransitKeyType_Hmac]
  then show ?thesis unfolding check_transit_key_type_name_def by simp
qed

definition approved_key_types :: "transit_key_type set" where
  "approved_key_types = {TransitKeyType_Aes128Gcm96, TransitKeyType_Aes256Gcm96, TransitKeyType_EcdsaP256,
     TransitKeyType_EcdsaP384, TransitKeyType_Rsa3072, TransitKeyType_Rsa4096, TransitKeyType_Hmac}"

lemma key_type_findings:
  "posture_findings (check_transit_key_type posture_new subject t) = [] \<longleftrightarrow> t \<in> approved_key_types"
  by (cases t) (simp_all add: approved_key_types_def report_defs posture_new_def)

text \<open>A request to create a transit key stays without findings exactly when its key type, AES-256 when it
  names none, is one of the seven approved ones and it asks neither for convergent encryption nor for an
  exportable key nor for plaintext backups; the report on the key a server describes has no findings under
  the corresponding conditions on the name of its type, which is judged as the type of that name.\<close>

theorem posture_clean_iff:
  "\<not> has_findings (posture_finish (check_transit_create_key posture_new subject request)) \<longleftrightarrow>
     (case transit_create_key_request_key_type request of
        None \<Rightarrow> True | Some t \<Rightarrow> t \<in> approved_key_types) \<and>
     transit_create_key_request_convergent_encryption request \<noteq> Some True \<and>
     transit_create_key_request_exportable request \<noteq> Some True \<and>
     transit_create_key_request_allow_plaintext_backup request \<noteq> Some True"
  "\<not> has_findings (posture_finish (check_transit_key_info posture_new subject info)) \<longleftrightarrow>
     transit_key_info_key_type info \<in> key_type_text ` approved_key_types \<and>
     \<not> transit_key_info_exportable info \<and> \<not> transit_key_info_allow_plaintext_backup info"
proof -
  have create: "posture_findings (check_transit_key_type posture_new subject t) = [] \<longleftrightarrow> t \<in> approved_key_types"
    for t by (rule key_type_findings)
  have named: "posture_findings (check_transit_key_type_name posture_new subject n) = [] \<longleftrightarrow>
      n \<in> key_type_text ` approved_key_types" for n
  proof (cases "n \<in> range key_type_text")
    case True
    then obtain t where t: "n = key_type_text t" by blast
    show ?thesis unfolding t key_type_name_eq create by (auto dest: key_type_text_inj)
  next
    case False
    then show ?thesis by (auto simp: unknown_key_type add_finding_def)
  qed
  show "\<not> has_findings (posture_finish (check_transit_create_key posture_new subject request)) \<longleftrightarrow>
     (case transit_create_key_request_key_type request of
        None \<Rightarrow> True | Some t \<Rightarrow> t \<in> approved_key_types) \<and>
     transit_create_key_request_convergent_encryption request \<noteq> Some True \<and>
     transit_create_key_request_exportable request \<noteq> Some True \<and>
     transit_create_key_request_allow_plaintext_backup request \<noteq> Some True"
    using create [of TransitKeyType_Aes256Gcm96]
    by (auto simp: check_transit_create_key_def has_findings_def posture_finish_def Let_def create
        add_finding_def approved_key_types_def split: option.splits)
  show "\<not> has_findings (posture_finish (check_transit_key_info posture_new subject info)) \<longleftrightarrow>
     transit_key_info_key_type info \<in> key_type_text ` approved_key_types \<and>
     \<not> transit_key_info_exportable info \<and> \<not> transit_key_info_allow_plaintext_backup info"
    by (auto simp: check_transit_key_info_def has_findings_def posture_finish_def Let_def named
        add_finding_def note_unverified_def)
qed

end
