(* ===== verification/Bao_Consistency.thy ===== *)
theory Bao_Consistency
  imports Bao_Requests
begin

text \<open>
  Consistency indices: \<open>consistency.rs\<close> and \<open>client/consistency.rs\<close>. A context belongs to one client and
  one cluster; every operation first reads the health of the server again, then sends one request with the
  headers of its policy and, if there is one, an index that the same context has captured. The reference
  count that identifies a context is a number.
\<close>

section \<open>Indices\<close>

definition MAX_INDEX_HEADER_BYTES :: nat where "MAX_INDEX_HEADER_BYTES = 4096"

record consistency_index =
  index_encoded :: string
  index_cluster :: string

record index_payload =
  payload_cluster :: string
  payload_value :: string

definition invalid_index :: error where
  "invalid_index = Decode ''invalid OpenBao consistency index''"

definition visible_ascii :: "string \<Rightarrow> bool" where
  "visible_ascii s \<longleftrightarrow> list_all (\<lambda>c. 0x21 \<le> byte c \<and> byte c \<le> 0x7e) s"

text \<open>\<open>decode_payload\<close> is the standard Base64 decoding followed by the derived decoder of the payload.\<close>

definition index_from_encoded :: "(string \<Rightarrow> index_payload option) \<Rightarrow> string \<Rightarrow> consistency_index res" where
  "index_from_encoded decode_payload encoded =
     (if encoded = [] \<or> MAX_INDEX_HEADER_BYTES < length encoded then Inl invalid_index
      else rbind (ok_or (decode_payload encoded) invalid_index) (\<lambda>payload.
        if list_ex (\<lambda>(v, limit). v = [] \<or> limit < length v \<or> \<not> visible_ascii v)
             [(payload_cluster payload, 256), (payload_value payload, 2048)]
        then Inl invalid_index
        else Inr \<lparr>index_encoded = encoded, index_cluster = payload_cluster payload\<rparr>))"

text \<open>The values of the header \<open>x-vault-index\<close>, in order; \<open>to_str\<close> fails outside visible ASCII.\<close>

definition index_from_headers ::
  "header_text \<Rightarrow> (string \<Rightarrow> index_payload option) \<Rightarrow> string list \<Rightarrow> consistency_index option res" where
  "index_from_headers to_str decode_payload header_values =
     (case header_values of
        [] \<Rightarrow> Inr None
      | v # others \<Rightarrow>
          (if others \<noteq> [] \<or> MAX_INDEX_HEADER_BYTES < length v then Inl invalid_index
           else rbind (rmap_err (\<lambda>_. invalid_index) (to_str v)) (\<lambda>text.
             rmap Some (index_from_encoded decode_payload text))))"

definition matches_cluster :: "consistency_index \<Rightarrow> string \<Rightarrow> bool" where
  "matches_cluster self expected \<longleftrightarrow> index_cluster self = expected"

definition to_header_value :: "http_env \<Rightarrow> consistency_index \<Rightarrow> header_value res" where
  "to_header_value env self =
     rmap (\<lambda>t. \<lparr>hv_text = t, hv_sensitive = True\<rparr>)
       (rmap_err (\<lambda>_. invalid_index) (header_text_of env (index_encoded self)))"

datatype consistency_fallback = FallbackFail | FallbackForwardActiveNode

datatype consistency_policy = ConsistencyFail | ForwardActiveNode | AwaitState consistency_fallback

fun policy_header_values :: "consistency_policy \<Rightarrow> string list" where
  "policy_header_values ConsistencyFail = [''fail'']"
| "policy_header_values ForwardActiveNode = [''forward-active-node'']"
| "policy_header_values (AwaitState FallbackFail) = [''await-state'', ''fail'']"
| "policy_header_values (AwaitState FallbackForwardActiveNode) = [''await-state'', ''forward-active-node'']"

section \<open>Contexts\<close>

definition REVIEWED_VERSIONS :: "openbao_version list" where
  "REVIEWED_VERSIONS = [OpenBaoVersion 2 7 0, OpenBaoVersion 2 7 1, OpenBaoVersion 2 7 2]"

definition require_consistency_profile :: "compatibility_report \<Rightarrow> openbao_version res" where
  "require_consistency_profile report =
     (let reviewed = (case profile_version report of
            None \<Rightarrow> None
          | Some version \<Rightarrow>
              (if version \<in> set REVIEWED_VERSIONS \<and> is_routable_profile version then Some version else None))
      in if report_status report \<noteq> Verified \<or>
           report_policy report \<notin> {Some KindExact, Some KindAutomaticStrict} \<or>
           reviewed = None \<or> detected_version report \<noteq> reviewed
         then Inl (InvalidParameter
           ''consistency requires a verified, promoted and reviewed server profile'')
         else ok_or reviewed (InvalidParameter ''consistency requires a reviewed server profile''))"

record cluster_health =
  health_cluster_id :: string
  health_version :: string
  health_initialized :: bool
  health_sealed :: bool

definition discover_cluster ::
  "http_env \<Rightarrow> client \<Rightarrow> (string \<Rightarrow> cluster_health option) \<Rightarrow> openbao_version \<Rightarrow> string sent" where
  "discover_cluster env cl of_health version =
     sbind (pure (url_for_path env cl ''sys/health'')) (\<lambda>u.
     sbind (pure (require_encrypted_transport_for_sensitive_request u)) (\<lambda>_.
     sbind (send_non_sensitive_json_request env cl ''GET'' u) (\<lambda>response.
       if rs_status response \<notin> {200, 429, 472, 473}
       then pure (Inl (OpenBaoCompatibilityProbe ''consistency health unavailable''))
       else
         sbind (pure (rmap_err (\<lambda>_. OpenBaoCompatibilityProbe ''invalid consistency health response'')
             (read_json_response (header_to_str env) of_health response
               (min (max_response_bytes (cl_config cl)) MAX_COMPATIBILITY_HEALTH_BYTES)))) (\<lambda>health.
           let cluster = health_cluster_id health in
           if \<not> health_initialized health \<or> health_sealed health \<or>
             version_from_str (health_version health) \<noteq> Inr version \<or>
             cluster = [] \<or> 256 < length cluster \<or> \<not> visible_ascii cluster
           then pure (Inl (OpenBaoCompatibilityProbe ''invalid consistency cluster identity or state''))
           else pure (Inr cluster)))))"

record consistency_context =
  cc_client :: client
  cc_cluster :: string
  cc_version :: openbao_version
  cc_identity :: nat

record scoped_consistency_index =
  sci_index :: consistency_index
  sci_identity :: nat

record 'a consistency_response =
  cr_response :: 'a
  cr_index :: "scoped_consistency_index option"

text \<open>\<open>identity\<close> is the allocation of the new context.\<close>

definition client_consistency ::
  "http_env \<Rightarrow> client \<Rightarrow> (string \<Rightarrow> cluster_health option) \<Rightarrow> nat \<Rightarrow> consistency_context sent" where
  "client_consistency env cl of_health identity =
     sbind (pure (rbind (ensured env) require_consistency_profile)) (\<lambda>version.
     sbind (discover_cluster env cl of_health version) (\<lambda>cluster.
       pure (Inr \<lparr>cc_client = cl, cc_cluster = cluster, cc_version = version, cc_identity = identity\<rparr>)))"

section \<open>Operations of a context\<close>

text \<open>
  A header that is appended may have several values, so the request of an operation carries those of
  \<open>x-vault-inconsistent\<close> beside its other headers, and its answer those of \<open>x-vault-index\<close>.
\<close>

record consistency_request = http_request +
  rq_inconsistent :: "string list"

record consistency_answer =
  ca_response :: response
  ca_index_headers :: "string list"

definition validate_index :: "consistency_context \<Rightarrow> scoped_consistency_index option \<Rightarrow> unit res" where
  "validate_index self after =
     (if is_some_and (\<lambda>after. cc_identity self \<noteq> sci_identity after \<or>
          \<not> matches_cluster (sci_index after) (cc_cluster self)) after
      then Inl (InvalidParameter ''consistency index belongs to another context'')
      else Inr ())"

text \<open>The token header is inserted after the namespace; a context without a token is refused.\<close>

definition build_request ::
  "http_env \<Rightarrow> consistency_context \<Rightarrow> string \<Rightarrow> url \<Rightarrow> payload option \<Rightarrow>
   scoped_consistency_index option \<Rightarrow> consistency_policy \<Rightarrow> consistency_request res" where
  "build_request env self m u body after policy =
     rbind (validate_index self after) (\<lambda>_.
       let rq0 = set_header ''x-vault-request'' (from_static ''true'')
             (set_header ''accept'' (from_static ''application/json'') (request_new m u))
       in
     rbind (case after of
         None \<Rightarrow> Inr rq0
       | Some after \<Rightarrow> rmap (\<lambda>v. set_header ''x-vault-index'' v rq0) (to_header_value env (sci_index after)))
       (\<lambda>rq1.
     rbind (case namespace (cl_config (cc_client self)) of
         None \<Rightarrow> Inr rq1
       | Some ns \<Rightarrow> rmap (\<lambda>v. set_header ''x-vault-namespace'' v rq1) (sensitive_header_value env ns))
       (\<lambda>rq2.
     rbind (ok_or (cl_token (cc_client self)) MissingToken) (\<lambda>token.
     rbind (token_header_for env token (header_mode (cl_config (cc_client self)))
         (max_auth_token_bytes (cl_config (cc_client self)))) (\<lambda>(name, v).
       let rq3 = set_header name v rq2 in
     rbind (case body of
         None \<Rightarrow> Inr rq3
       | Some payload \<Rightarrow>
           rmap (\<lambda>encoded. (set_header ''content-type'' (from_static ''application/json'') rq3)
               \<lparr>rq_body := Some (BodyBytes encoded)\<rparr>)
             (fst (encode_bounded_json_body (san env) payload (sanitizing_body_buffer (cc_client self)))))
       (\<lambda>rq. Inr (http_request.extend rq \<lparr>rq_inconsistent = policy_header_values policy\<rparr>)))))))"

text \<open>
  An operation: the health request of its preflight goes out in \<open>env\<close>, its own request to \<open>net\<close>, which
  may be another state of the server or another server. The result is followed by what was sent.
\<close>

type_synonym consistency_net = "http_settings \<Rightarrow> consistency_request \<Rightarrow> consistency_answer res"

type_synonym 'a consistency_sent =
  "'a res \<times> (http_settings \<times> http_request) list \<times> (http_settings \<times> consistency_request) list"

definition read_consistency_response ::
  "http_env \<Rightarrow> (string \<Rightarrow> 'a option) \<Rightarrow> (string \<Rightarrow> index_payload option) \<Rightarrow> consistency_context \<Rightarrow>
   consistency_answer \<Rightarrow> 'a consistency_response res" where
  "read_consistency_response env from_json decode_payload self answer =
     (let response = ca_response answer; status = rs_status response in
      if status \<notin> {200, 204} then Inl (api_failure status)
      else rbind (index_from_headers (header_to_str env) decode_payload (ca_index_headers answer)) (\<lambda>index.
        if is_some_and (\<lambda>index. \<not> matches_cluster index (cc_cluster self)) index
        then Inl (Decode ''consistency response belongs to another cluster'')
        else
          rbind (if status = 204 then empty_json_result from_json
              else read_json_response (header_to_str env) from_json response
                (max_response_bytes (cl_config (cc_client self)))) (\<lambda>payload.
            Inr \<lparr>cr_response = payload,
              cr_index = map_option (\<lambda>index. \<lparr>sci_index = index, sci_identity = cc_identity self\<rparr>)
                index\<rparr>)))"

definition consistency_execute ::
  "http_env \<Rightarrow> consistency_net \<Rightarrow> (string \<Rightarrow> 'a option) \<Rightarrow> (string \<Rightarrow> cluster_health option) \<Rightarrow>
   (string \<Rightarrow> index_payload option) \<Rightarrow> consistency_context \<Rightarrow> string \<Rightarrow> string \<Rightarrow> payload option \<Rightarrow>
   scoped_consistency_index option \<Rightarrow> consistency_policy \<Rightarrow> 'a consistency_response consistency_sent" where
  "consistency_execute env net from_json of_health decode_payload self m path body after policy =
     (let cl = cc_client self in
      case sbind (pure (validate_index self after)) (\<lambda>_.
           sbind (pure (url_for_path env cl path)) (\<lambda>u.
           sbind (pure (require_encrypted_transport_for_sensitive_request u)) (\<lambda>_.
           sbind (discover_cluster env cl of_health (cc_version self)) (\<lambda>cluster.
             if cluster \<noteq> cc_cluster self
             then pure (Inl (OpenBaoCompatibilityProbe ''consistency cluster changed''))
             else pure (build_request env self m u body after policy))))) of
        (Inl e, preflight) \<Rightarrow> (Inl e, preflight, [])
      | (Inr request, preflight) \<Rightarrow>
          (rbind (net (http_for_sensitive_request cl) request)
             (read_consistency_response env from_json decode_payload self),
           preflight, [(http_for_sensitive_request cl, request)]))"

definition consistency_request_json ::
  "http_env \<Rightarrow> consistency_net \<Rightarrow> (string \<Rightarrow> 'a option) \<Rightarrow> (string \<Rightarrow> cluster_health option) \<Rightarrow>
   (string \<Rightarrow> index_payload option) \<Rightarrow> consistency_context \<Rightarrow> string \<Rightarrow> string \<Rightarrow> payload option \<Rightarrow>
   scoped_consistency_index option \<Rightarrow> consistency_policy \<Rightarrow> 'a consistency_response consistency_sent" where
  "consistency_request_json env net from_json of_health decode_payload self m path body after policy =
     (case rbind (ensure_public_raw_api_enabled (features_of env)) (\<lambda>_.
           rbind (rbind (ensured env) require_consistency_profile) (\<lambda>version.
             if version \<noteq> cc_version self
             then Inl (OpenBaoCompatibilityProbe ''consistency profile changed'')
             else Inr ())) of
        Inl e \<Rightarrow> (Inl e, [], [])
      | Inr _ \<Rightarrow> consistency_execute env net from_json of_health decode_payload self m path body after policy)"

section \<open>What an operation sends\<close>

lemma visible_probe:
  "list_all (\<lambda>x. public_request cl x \<and> request_safe env cl x \<and> rq_method (snd x) = ''GET'')
     (snd (discover_cluster env cl of_health version)) \<and>
   length (snd (discover_cluster env cl of_health version)) \<le> 1 \<and>
   (\<forall>cluster. fst (discover_cluster env cl of_health version) = Inr cluster \<longrightarrow>
      snd (discover_cluster env cl of_health version) \<noteq> [])"
proof -
  let ?tail = "\<lambda>response. if rs_status response \<notin> {200, 429, 472, 473}
       then pure (Inl (OpenBaoCompatibilityProbe ''consistency health unavailable''))
       else
         sbind (pure (rmap_err (\<lambda>_. OpenBaoCompatibilityProbe ''invalid consistency health response'')
             (read_json_response (header_to_str env) of_health response
               (min (max_response_bytes (cl_config cl)) MAX_COMPATIBILITY_HEALTH_BYTES)))) (\<lambda>health.
           let cluster = health_cluster_id health in
           if \<not> health_initialized health \<or> health_sealed health \<or>
             version_from_str (health_version health) \<noteq> Inr version \<or>
             cluster = [] \<or> 256 < length cluster \<or> \<not> visible_ascii cluster
           then pure (Inl (OpenBaoCompatibilityProbe ''invalid consistency cluster identity or state''))
           else pure (Inr cluster))"
  have tail: "snd (?tail response) = []" for response
    by (simp add: Let_def sbind_pure split: sum.split)
  show ?thesis
  proof (cases "url_for_path env cl ''sys/health''")
    case (Inr u)
    have log: "snd (send_non_sensitive_json_request env cl ''GET'' u) =
        [(cl_http cl, set_header ''x-vault-request'' (from_static ''true'')
           (set_header ''accept'' (from_static ''application/json'') (request_new ''GET'' u)))]"
      by (simp add: send_non_sensitive_json_request_def execute_openbao_http_request_def)
    have safe: "sent_safe env cl (send_non_sensitive_json_request env cl ''GET'' u)"
      using url_for_path_ok [OF Inr] by (intro send_non_sensitive_safe) auto
    have public: "public_request cl (cl_http cl, set_header ''x-vault-request'' (from_static ''true'')
           (set_header ''accept'' (from_static ''application/json'') (request_new ''GET'' u)))"
      using url_for_path_ok [OF Inr] by (simp add: public_request_def set_header_def request_new_def)
    show ?thesis
    proof (cases "require_encrypted_transport_for_sensitive_request u")
      case (Inr x)
      have "discover_cluster env cl of_health version =
          sbind (send_non_sensitive_json_request env cl ''GET'' u) ?tail"
        by (simp add: discover_cluster_def sbind_pure \<open>url_for_path env cl _ = _\<close> Inr)
      then have "snd (discover_cluster env cl of_health version) =
          snd (send_non_sensitive_json_request env cl ''GET'' u)"
        using tail by (simp add: sbind_silent)
      then show ?thesis
        using safe public by (simp add: log sent_safe_def) (simp add: set_header_def request_new_def)
    qed (simp add: discover_cluster_def sbind_pure Inr)
  qed (simp add: discover_cluster_def sbind_pure)
qed

definition own_index :: "consistency_context \<Rightarrow> scoped_consistency_index option \<Rightarrow> bool" where
  "own_index self after \<longleftrightarrow>
     (case after of None \<Rightarrow> True
      | Some i \<Rightarrow> sci_identity i = cc_identity self \<and> index_cluster (sci_index i) = cc_cluster self)"

lemma validate_index_iff: "validate_index self after = Inr u \<longleftrightarrow> own_index self after"
  by (cases after) (auto simp: validate_index_def own_index_def matches_cluster_def is_some_and_def)

text \<open>The request carries the index of the caller or none, and every value of the policy.\<close>

definition index_header :: "http_env \<Rightarrow> scoped_consistency_index option \<Rightarrow> header_value option \<Rightarrow> bool" where
  "index_header env after header \<longleftrightarrow>
     (case after of None \<Rightarrow> header = None
      | Some i \<Rightarrow> \<exists>v. to_header_value env (sci_index i) = Inr v \<and> header = Some v)"

lemma token_name_not_index [simp]: "''x-vault-index'' \<noteq> token_header_name mode"
  by (cases mode) simp_all

lemma identity_headers_keep:
  assumes "identity_headers env cl rq = Inr rq'"
  shows "rq_headers rq' ''x-vault-index'' = rq_headers rq ''x-vault-index'' \<and> rq_method rq' = rq_method rq"
  using assms
  by (auto simp: identity_headers_def rbind_Inr_iff rmap_Inr_iff set_header_def
      dest!: token_header_named split: option.splits)

lemma build_request_ok:
  assumes "build_request env self m u body after policy = Inr rq"
    and url: "api_url env (cc_client self) u" "url_scheme u = ''https''"
  shows "request_safe env (cc_client self) (cl_sensitive_http (cc_client self), http_request.truncate rq) \<and>
    sensitive_request env (cc_client self) (cl_sensitive_http (cc_client self), http_request.truncate rq) \<and>
    rq_method rq = m \<and> rq_url rq = u \<and> rq_inconsistent rq = policy_header_values policy \<and>
    index_header env after (rq_headers rq ''x-vault-index'') \<and> cl_token (cc_client self) \<noteq> None"
proof -
  let ?cl = "cc_client self"
  let ?rq0 = "set_header ''x-vault-request'' (from_static ''true'')
    (set_header ''accept'' (from_static ''application/json'') (request_new m u))"
  obtain rq1 rq2 token name v rq4 where
    1: "(case after of None \<Rightarrow> Inr ?rq0
       | Some after \<Rightarrow> rmap (\<lambda>v. set_header ''x-vault-index'' v ?rq0) (to_header_value env (sci_index after))) = Inr rq1"
    and 2: "(case namespace (cl_config ?cl) of None \<Rightarrow> Inr rq1
       | Some ns \<Rightarrow> rmap (\<lambda>v. set_header ''x-vault-namespace'' v rq1) (sensitive_header_value env ns)) = Inr rq2"
    and 3: "cl_token ?cl = Some token"
      "token_header_for env token (header_mode (cl_config ?cl)) (max_auth_token_bytes (cl_config ?cl)) = Inr (name, v)"
    and 4: "(case body of None \<Rightarrow> Inr (set_header name v rq2)
       | Some payload \<Rightarrow>
           rmap (\<lambda>encoded. (set_header ''content-type'' (from_static ''application/json'') (set_header name v rq2))
               \<lparr>rq_body := Some (BodyBytes encoded)\<rparr>)
             (fst (encode_bounded_json_body (san env) payload (sanitizing_body_buffer ?cl)))) = Inr rq4"
    and rq: "rq = http_request.extend rq4 \<lparr>rq_inconsistent = policy_header_values policy\<rparr>"
    using assms(1) by (auto simp: build_request_def Let_def rbind_Inr_iff)
  have id: "identity_headers env ?cl rq1 = Inr (set_header name v rq2)"
    using 2 3 by (simp add: identity_headers_def)
  have r1: "rq_url rq1 = u" "rq_body rq1 = None" "rq_method rq1 = m"
      "index_header env after (rq_headers rq1 ''x-vault-index'')"
    using 1 by (auto simp: rmap_Inr_iff index_header_def set_header_def request_new_def split: option.splits)
  have r3: "identified env ?cl (rq_headers (set_header name v rq2)) \<and> rq_url (set_header name v rq2) = u \<and>
      rq_body (set_header name v rq2) = None"
    by (rule identity_of_request [OF id]) (simp_all add: r1)
  have keep: "rq_headers (set_header name v rq2) ''x-vault-index'' = rq_headers rq1 ''x-vault-index''"
      "rq_method (set_header name v rq2) = m"
    using identity_headers_keep [OF id] r1 by simp_all
  have body: "length (bb_bytes encoded) \<le> max_request_bytes (cl_config ?cl)"
    if "fst (encode_bounded_json_body (san env) payload (sanitizing_body_buffer ?cl)) = Inr encoded"
    for payload encoded by (rule encoded_body_bounded [OF that])
  have r4: "identified env ?cl (rq_headers rq4)" "rq_url rq4 = u" "rq_method rq4 = m"
      "rq_headers rq4 ''x-vault-index'' = rq_headers rq1 ''x-vault-index''"
    using 4 r3 keep set_content_type_identified [of env ?cl "set_header name v rq2" "from_static ''application/json''"]
    by (auto simp: rmap_Inr_iff set_header_def split: option.splits)
  have r5: "bounded_body (max_request_bytes (cl_config ?cl)) (rq_body rq4)"
    using 4 r3 by (cases body) (auto simp: rmap_Inr_iff bounded_body_def dest: body)
  have trunc: "http_request.truncate rq = rq4"
    by (simp add: rq http_request.defs)
  show ?thesis
    using r4 r5 r1(4) url 3(1)
    by (simp add: trunc request_safe_def sensitive_request_def api_url_def) (simp add: rq http_request.defs)
qed

lemma read_index_own:
  "read_consistency_response env from_json decode_payload self answer = Inr response \<Longrightarrow>
   own_index self (cr_index response)"
  by (auto simp: read_consistency_response_def Let_def rbind_Inr_iff own_index_def matches_cluster_def
      is_some_and_def split: if_splits option.splits)

text \<open>C5:
  A consistent operation first asks the server for its health, without a token, and sends its own request
  only if the answer names the context's cluster and version on an initialised and unsealed server. Nothing
  at all is sent for an index that another context captured or that names another cluster. At most these two
  requests leave, each of them safe; the second one carries the verb, the caller's own index or none, and
  exactly the values of the policy. A result's index belongs to the context and to its cluster.\<close>

theorem consistency_execute_safe:
  "(case consistency_execute env net from_json of_health decode_payload self m path body after policy of
      (r, preflight, sends) \<Rightarrow>
        length preflight \<le> 1 \<and>
        list_all (\<lambda>x. public_request (cc_client self) x \<and> request_safe env (cc_client self) x \<and>
          rq_method (snd x) = ''GET'') preflight \<and>
        (case sends of
           [] \<Rightarrow> \<not> is_ok r
         | (http, rq) # others \<Rightarrow>
             others = [] \<and> preflight \<noteq> [] \<and> own_index self after \<and>
             fst (discover_cluster env (cc_client self) of_health (cc_version self)) = Inr (cc_cluster self) \<and>
             sensitive_request env (cc_client self) (http, http_request.truncate rq) \<and>
             request_safe env (cc_client self) (http, http_request.truncate rq) \<and>
             rq_method rq = m \<and> rq_inconsistent rq = policy_header_values policy \<and>
             index_header env after (rq_headers rq ''x-vault-index'')) \<and>
        (if own_index self after then True else preflight = [] \<and> sends = []) \<and>
        (case r of Inl _ \<Rightarrow> True | Inr response \<Rightarrow> own_index self (cr_index response)))"
proof -
  let ?cl = "cc_client self"
  let ?probe = "discover_cluster env ?cl of_health (cc_version self)"
  have probe: "list_all (\<lambda>x. public_request ?cl x \<and> request_safe env ?cl x \<and> rq_method (snd x) = ''GET'') (snd ?probe)"
      "length (snd ?probe) \<le> 1" "fst ?probe = Inr cluster \<Longrightarrow> snd ?probe \<noteq> []" for cluster
    using visible_probe by blast+
  show ?thesis
  proof (cases "own_index self after")
    case False
    then obtain e where "validate_index self after = Inl e"
      by (cases "validate_index self after") (auto simp: validate_index_iff)
    then show ?thesis
      using False by (simp add: consistency_execute_def sbind_pure pure_def)
  next
    case own: True
    then have index: "validate_index self after = Inr ()" by (simp add: validate_index_iff)
    show ?thesis
    proof (cases "rbind (url_for_path env ?cl path) (\<lambda>u.
        rmap (\<lambda>_. u) (require_encrypted_transport_for_sensitive_request u))")
      case (Inl e)
      then have "\<exists>e. consistency_execute env net from_json of_health decode_payload self m path body after policy =
          (Inl e, [], [])"
        by (auto simp: consistency_execute_def sbind_pure pure_def index rbind_Inl_iff split: sum.split)
      then show ?thesis using own by auto
    next
      case (Inr u)
      then have u: "url_for_path env ?cl path = Inr u" "require_encrypted_transport_for_sensitive_request u = Inr ()"
        by (auto simp: rbind_Inr_iff rmap_Inr_iff)
      have url: "api_url env ?cl u" "url_scheme u = ''https''"
        using url_for_path_ok [OF u(1)] encrypted [OF u(2)] by simp_all
      obtain cr log where pr: "?probe = (cr, log)" by (cases ?probe)
      show ?thesis
      proof (cases "cr = Inr (cc_cluster self) \<and> is_ok (build_request env self m u body after policy)")
        case True
        then obtain rq where rq: "build_request env self m u body after policy = Inr rq"
          by (auto simp: is_ok_iff)
        have run: "consistency_execute env net from_json of_health decode_payload self m path body after policy =
            (rbind (net (http_for_sensitive_request ?cl) rq)
               (read_consistency_response env from_json decode_payload self),
             log, [(http_for_sensitive_request ?cl, rq)])"
          using True by (simp add: consistency_execute_def Let_def sbind_pure index u pr rq pure_def)
        show ?thesis
          using probe own True build_request_ok [OF rq url]
          by (auto simp: run pr http_for_sensitive_request_def rbind_Inr_iff dest: read_index_own split: sum.split)
      next
        case False
        have "\<exists>e. consistency_execute env net from_json of_health decode_payload self m path body after policy =
            (Inl e, log, [])"
          using False by (cases cr; cases "build_request env self m u body after policy")
            (auto simp: consistency_execute_def Let_def sbind_pure index u pr pure_def)
        then show ?thesis
          using probe own by (auto simp: pr)
      qed
    qed
  qed
qed

end
