(* ===== verification/Bao_Review.thy ===== *)
theory Bao_Review
  imports Bao_Json Bao_Wrapping
begin

text \<open>
  The bounded documents of \<open>sys/control_groups/review.rs\<close> and \<open>sys/inspection.rs\<close>: the check that walks a
  response before anything of it is stored, the decoder of a control-group review and the envelope of a
  request inspection. The syntax of JSON and the derived decoders of the envelopes are parameters.
\<close>

section \<open>The check\<close>

definition MAX_REVIEW_BYTES :: nat where "MAX_REVIEW_BYTES = 512 * 1024"
definition MAX_REVIEW_DEPTH :: nat where "MAX_REVIEW_DEPTH = 16"
definition MAX_REVIEW_NODES :: nat where "MAX_REVIEW_NODES = 4096"
definition MAX_REVIEW_ITEMS :: nat where "MAX_REVIEW_ITEMS = 256"
definition MAX_REVIEW_STRING :: nat where "MAX_REVIEW_STRING = 64 * 1024"

declare MAX_REVIEW_BYTES_def [limits] MAX_REVIEW_DEPTH_def [limits] MAX_REVIEW_NODES_def [limits]
  MAX_REVIEW_ITEMS_def [limits] MAX_REVIEW_STRING_def [limits]

definition take_budget :: "nat \<Rightarrow> nat decoded" where
  "take_budget budget =
     (if budget = 0 then Inl ''control-group node limit'' else Inr (budget - 1))"

text \<open>
  \<open>Check\<close> with its visitor. The budget is threaded through; the loops over elements and members end when
  there are no more, and refuse one more once the items or the budget are used up.
\<close>

fun review_check :: "nat \<Rightarrow> json \<Rightarrow> nat \<Rightarrow> nat decoded"
  and review_check_elements :: "nat \<Rightarrow> nat \<Rightarrow> json list \<Rightarrow> nat \<Rightarrow> nat decoded"
  and review_check_members :: "nat \<Rightarrow> string list \<Rightarrow> (string \<times> json) list \<Rightarrow> nat \<Rightarrow> nat decoded"
where
  "review_check depth document budget =
     rbind (take_budget budget) (\<lambda>budget.
       case document of
         JString s \<Rightarrow>
           (if MAX_REVIEW_STRING < length s then Inl ''control-group string limit'' else Inr budget)
       | JArray elements \<Rightarrow>
           (if MAX_REVIEW_DEPTH \<le> depth then Inl ''control-group depth limit''
            else review_check_elements depth 0 elements budget)
       | JObject members \<Rightarrow>
           (if MAX_REVIEW_DEPTH \<le> depth then Inl ''control-group depth limit''
            else review_check_members depth [] members budget)
       | _ \<Rightarrow> Inr budget)"
| "review_check_elements depth count [] budget = Inr budget"
| "review_check_elements depth count (e # rest) budget =
     (if count < MAX_REVIEW_ITEMS \<and> budget \<noteq> 0
      then rbind (review_check (Suc depth) e budget) (\<lambda>budget. review_check_elements depth (Suc count) rest budget)
      else Inl ''control-group array or node limit'')"
| "review_check_members depth keys [] budget = Inr budget"
| "review_check_members depth keys ((key, e) # rest) budget =
     (if length keys < MAX_REVIEW_ITEMS \<and> 0 < budget
      then if MAX_REVIEW_STRING < length key then Inl ''control-group key limit''
        else if key \<in> set keys then Inl ''duplicate control-group key''
        else rbind (review_check (Suc depth) e budget) (\<lambda>budget. review_check_members depth (keys @ [key]) rest budget)
      else Inl ''control-group object or node limit'')"

definition review_validate :: "(string \<Rightarrow> json option) \<Rightarrow> string \<Rightarrow> unit decoded" where
  "review_validate parse bytes =
     (case parse bytes of
        None \<Rightarrow> Inl ''JSON syntax error''
      | Some document \<Rightarrow> rmap (\<lambda>_. ()) (review_check 0 document MAX_REVIEW_NODES))"

section \<open>The documents\<close>

definition invalid_review :: error where
  "invalid_review = Decode ''invalid or oversized control-group review response''"

definition invalid_inspection :: error where
  "invalid_inspection = Decode ''invalid or oversized request inspection response''"

record control_group_authorization =
  authorization_entity_id :: string
  authorization_entity_name :: string

text \<open>The derived decoder of the envelope; \<open>RawValue\<close> is the text of a member.\<close>

record review_envelope =
  review_approved :: bool
  review_request_operation :: string
  review_request_path :: string
  review_request_data :: string
  review_request_entity :: string
  review_authorizations :: "control_group_authorization list"

record control_group_request =
  cgr_approved :: bool
  cgr_request_operation :: string
  cgr_request_path :: string
  cgr_request_data :: string
  cgr_request_entity :: string
  cgr_authorizations :: "control_group_authorization list"

definition starts_with_brace :: "string \<Rightarrow> bool" where
  "starts_with_brace s \<longleftrightarrow> prefix ''{'' s"

definition control_group_request_from_envelope ::
  "(string \<Rightarrow> json option) \<Rightarrow> (string \<Rightarrow> review_envelope option) \<Rightarrow> string \<Rightarrow> control_group_request res" where
  "control_group_request_from_envelope parse decode body =
     (if MAX_REVIEW_BYTES < length body then Inl invalid_review
      else rbind (rmap_err (\<lambda>_. invalid_review) (review_validate parse body)) (\<lambda>_.
      rbind (ok_or (decode body) invalid_review) (\<lambda>data.
        let payload = review_request_data data; entity = review_request_entity data in
        if \<not> (starts_with_brace payload \<or> payload = ''null'') \<or> \<not> starts_with_brace entity
        then Inl invalid_review
        else Inr \<lparr>cgr_approved = review_approved data,
          cgr_request_operation = review_request_operation data,
          cgr_request_path = review_request_path data,
          cgr_request_data = payload, cgr_request_entity = entity,
          cgr_authorizations = review_authorizations data\<rparr>)))"

text \<open>The envelope of an inspection has the text of its data member; what is kept is the whole body.\<close>

definition inspection_from_envelope ::
  "(string \<Rightarrow> json option) \<Rightarrow> (string \<Rightarrow> string option) \<Rightarrow> string \<Rightarrow> string res" where
  "inspection_from_envelope parse data_text contents =
     (if 512 * 1024 < length contents then Inl invalid_inspection
      else rbind (rmap_err (\<lambda>_. invalid_inspection) (review_validate parse contents)) (\<lambda>_.
      rbind (ok_or (data_text contents) invalid_inspection) (\<lambda>data.
        if \<not> starts_with_brace data then Inl invalid_inspection else Inr contents)))"

definition sys_internal_request_inspection ::
  "http_env \<Rightarrow> client \<Rightarrow> (string \<Rightarrow> json option) \<Rightarrow> (string \<Rightarrow> string option) \<Rightarrow> string sent" where
  "sys_internal_request_inspection env cl parse data_text =
     sbind (request_literal_endpoint_secret_json env cl GENERATED_SYS_INTERNAL_REQUEST_INSPECTION)
       (\<lambda>contents. pure (inspection_from_envelope parse data_text contents))"

section \<open>What the check admits\<close>

text \<open>How many containers are open around the innermost value, that value included.\<close>

fun containers :: "json \<Rightarrow> nat" where
  "containers (JArray es) = Suc (fold max (map containers es) 0)"
| "containers (JObject ms) = Suc (fold max (map (\<lambda>(k, e). containers e) ms) 0)"
| "containers _ = 0"

fun review_shape :: "json \<Rightarrow> bool" where
  "review_shape (JString s) = (length s \<le> 65536)"
| "review_shape (JArray es) = (length es \<le> 256 \<and> list_all review_shape es)"
| "review_shape (JObject ms) =
     (length ms \<le> 256 \<and> distinct (map fst ms) \<and>
      list_all (\<lambda>(k, e). length k \<le> 65536 \<and> review_shape e) ms)"
| "review_shape _ = True"

definition fits :: "nat \<Rightarrow> json \<Rightarrow> bool" where
  "fits depth d \<longleftrightarrow> (containers d = 0 \<or> depth + containers d \<le> MAX_REVIEW_DEPTH) \<and> review_shape d"

lemma fold_max_bound: "depth + fold max xs (0::nat) \<le> m \<longleftrightarrow> depth \<le> m \<and> list_all (\<lambda>x. depth + x \<le> m) xs"
  using fold_max_le [of xs 0 "m - depth"] by (auto simp: list_all_iff)

lemma fits_array:
  "fits depth (JArray es) \<longleftrightarrow> depth < MAX_REVIEW_DEPTH \<and> length es \<le> MAX_REVIEW_ITEMS \<and> list_all (fits (Suc depth)) es"
  using fold_max_bound [of "Suc depth" "map containers es" MAX_REVIEW_DEPTH]
  by (auto simp: fits_def list_all_iff MAX_REVIEW_ITEMS_def Suc_le_eq)

lemma fits_object:
  "fits depth (JObject ms) \<longleftrightarrow> depth < MAX_REVIEW_DEPTH \<and> length ms \<le> MAX_REVIEW_ITEMS \<and> distinct (map fst ms) \<and>
     list_all (\<lambda>(k, e). length k \<le> MAX_REVIEW_STRING \<and> fits (Suc depth) e) ms"
  using fold_max_bound [of "Suc depth" "map (\<lambda>(k, e). containers e) ms" MAX_REVIEW_DEPTH]
  by (fastforce simp: fits_def list_all_iff MAX_REVIEW_ITEMS_def MAX_REVIEW_STRING_def Suc_le_eq)

lemma review_nodes_pos: "0 < json_nodes d"
  by (cases d) auto

declare review_check.simps [simp del]

lemma take_budget_iff: "take_budget b = Inr b' \<longleftrightarrow> 0 < b \<and> b' = b - 1"
  by (auto simp: take_budget_def)

lemma review_check_spec:
  "\<And>b'. review_check depth d b = Inr b' \<longleftrightarrow> fits depth d \<and> json_nodes d \<le> b \<and> b' = b - json_nodes d"
  "\<And>b'. count \<le> MAX_REVIEW_ITEMS \<Longrightarrow> review_check_elements depth count es b = Inr b' \<longleftrightarrow>
     count + length es \<le> MAX_REVIEW_ITEMS \<and> list_all (fits (Suc depth)) es \<and> nodes_of es \<le> b \<and>
     b' = b - nodes_of es"
  "\<And>b'. length keys \<le> MAX_REVIEW_ITEMS \<Longrightarrow> review_check_members depth keys ms b = Inr b' \<longleftrightarrow>
     length keys + length ms \<le> MAX_REVIEW_ITEMS \<and> distinct (map fst ms) \<and>
     set keys \<inter> fst ` set ms = {} \<and>
     list_all (\<lambda>(k, e). length k \<le> MAX_REVIEW_STRING \<and> fits (Suc depth) e) ms \<and> keyed_nodes ms \<le> b \<and>
     b' = b - keyed_nodes ms"
proof (induction depth d b and depth count es b and depth keys ms b
    rule: review_check_review_check_elements_review_check_members.induct)
  case (1 depth d b)
  show ?case
  proof (cases "b = 0")
    case True
    then show ?thesis using review_nodes_pos [of d] by (simp add: review_check.simps take_budget_def)
  next
    case False
    then have node: "take_budget b = Inr (b - 1)" by (simp add: take_budget_def)
    show ?thesis
    proof (cases d)
      case (JArray es)
      show ?thesis
        using 1(1) [OF node JArray] False
        by (auto simp: JArray review_check.simps node fits_array)
    next
      case (JObject ms)
      show ?thesis
        using 1(2) [OF node JObject] False
        by (auto simp: JObject review_check.simps node fits_object)
    qed (use False in \<open>auto simp: review_check.simps node fits_def MAX_REVIEW_STRING_def\<close>)
  qed
next
  case (2 depth count b)
  then show ?case by auto
next
  case (3 depth count e rest b)
  show ?case
  proof (cases "count < MAX_REVIEW_ITEMS \<and> b \<noteq> 0 \<and> fits (Suc depth) e \<and> json_nodes e \<le> b")
    case True
    then have v: "review_check (Suc depth) e b = Inr (b - json_nodes e)" using 3(1) by simp
    show ?thesis using True 3(2) [of "b - json_nodes e"] by (auto simp: v)
  next
    case False
    then have "\<exists>m. review_check_elements depth count (e # rest) b = Inl m"
      using 3(1) by (cases "review_check (Suc depth) e b") auto
    then show ?thesis using False review_nodes_pos [of e] by auto
  qed
next
  case (4 depth keys b)
  then show ?case by auto
next
  case (5 depth keys key e rest b)
  show ?case
  proof (cases "length keys < MAX_REVIEW_ITEMS \<and> 0 < b \<and> length key \<le> MAX_REVIEW_STRING \<and>
      key \<notin> set keys \<and> fits (Suc depth) e \<and> json_nodes e \<le> b")
    case True
    then have v: "review_check (Suc depth) e b = Inr (b - json_nodes e)" using 5(1) by simp
    show ?thesis using True 5(2) [of "b - json_nodes e"] by (auto simp: v not_less)
  next
    case False
    then have "\<exists>m. review_check_members depth keys ((key, e) # rest) b = Inl m"
      using 5(1) by (cases "review_check (Suc depth) e b") auto
    then show ?thesis using False review_nodes_pos [of e] by auto
  qed
qed

text \<open>The check of a control-group review or an inspection accepts a response exactly when it is JSON that
  opens at most 16 containers, has at most 4096 values, at most 256 entries in every array and object, no
  string or key longer than 64 KiB and no key twice in an object, at any depth and in unknown members too.\<close>

theorem review_validate_iff:
  "review_validate parse bytes = Inr () \<longleftrightarrow>
     (\<exists>d. parse bytes = Some d \<and> containers d \<le> 16 \<and> json_nodes d \<le> 4096 \<and> review_shape d)"
  by (auto simp: review_validate_def rmap_Inr_iff review_check_spec(1) fits_def MAX_REVIEW_NODES_def
      MAX_REVIEW_DEPTH_def split: option.split)

text \<open>A review is returned exactly when the body is at most 512 KiB, passes the check, decodes, and has an
  object or null as its data and an object as its entity, both kept as they were sent; an inspection is the
  whole body under the same bounds. Every failure is one error that says nothing of the body.\<close>

theorem review_from_envelope_iff:
  "control_group_request_from_envelope parse decode body =
     (if length body \<le> 524288 \<and> is_ok (review_validate parse body) \<and>
         is_some_and (\<lambda>e. (starts_with_brace (review_request_data e) \<or> review_request_data e = ''null'') \<and>
           starts_with_brace (review_request_entity e)) (decode body)
      then rmap (\<lambda>e. \<lparr>cgr_approved = review_approved e,
          cgr_request_operation = review_request_operation e, cgr_request_path = review_request_path e,
          cgr_request_data = review_request_data e, cgr_request_entity = review_request_entity e,
          cgr_authorizations = review_authorizations e\<rparr>) (ok_or (decode body) invalid_review)
      else Inl (Decode ''invalid or oversized control-group review response''))"
  "inspection_from_envelope parse data_text body =
     (if length body \<le> 524288 \<and> is_ok (review_validate parse body) \<and>
         is_some_and starts_with_brace (data_text body)
      then Inr body
      else Inl (Decode ''invalid or oversized request inspection response''))"
  by (cases "review_validate parse body"; cases "decode body"; cases "data_text body";
      auto simp: control_group_request_from_envelope_def inspection_from_envelope_def MAX_REVIEW_BYTES_def
        Let_def invalid_review_def invalid_inspection_def)+

end
