(* ===== verification/Bao_External_Keys.thy ===== *)
theory Bao_External_Keys
  imports Bao_Review Bao_Sys_Routes
begin

text \<open>
  The administration of external keys: the provider schemas of \<open>sys/external_keys.rs\<close>, the bounded options
  of \<open>options.rs\<close>, the request types of \<open>requests.rs\<close> and the operations of \<open>administration.rs\<close>. The
  grammar of host names, of URLs and of JSON, and the derived serialisers, are parameters.
\<close>

section \<open>Provider schemas\<close>

definition MAX_PROVIDER_TEXT_BYTES :: nat where "MAX_PROVIDER_TEXT_BYTES = 64 * 1024"
definition MAX_PROVIDER_NAME_BYTES :: nat where "MAX_PROVIDER_NAME_BYTES = 256"

definition validate_provider_text :: "string \<Rightarrow> unit res" where
  "validate_provider_text value =
     (if value = [] \<or> MAX_PROVIDER_TEXT_BYTES < length value
      then Inl (InvalidParameter ''external-key value is empty or exceeds its byte limit'')
      else Inr ())"

definition is_word :: "char \<Rightarrow> bool" where
  "is_word c \<longleftrightarrow> is_ascii_alphanumeric c \<or> c = CHR ''_''"

definition validate_provider_name :: "string \<Rightarrow> unit res" where
  "validate_provider_name value =
     rbind (validate_mount_path value) (\<lambda>segments.
       if MAX_PROVIDER_NAME_BYTES < length value \<or> length segments \<noteq> 1 \<or>
          value = [] \<or> \<not> is_word (hd value) \<or> \<not> is_word (last value) \<or>
          \<not> list_all (\<lambda>c. is_word c \<or> c = CHR ''-'' \<or> c = CHR ''.'') value
       then Inl (InvalidParameter
         ''external-key name must match the bounded OpenBao generic-name grammar'')
       else Inr ())"

record transit_external_key_config =
  tekc_address :: string
  tekc_token :: string
  tekc_namespace :: "string option"
  tekc_mount_path :: string
  tekc_tls_server_name :: "string option"
  tekc_tls_skip_verify :: bool
  tekc_tls_ca_cert_bytes :: "string option"
  tekc_tls_client_cert_bytes :: "string option"
  tekc_tls_client_key_bytes :: "string option"

definition transit_external_key_config_new ::
  "(string \<Rightarrow> url option) \<Rightarrow> string \<Rightarrow> string \<Rightarrow> transit_external_key_config res" where
  "transit_external_key_config_new parse_url address token =
     rbind (validate_https_endpoint parse_url address ''external-key Transit address'') (\<lambda>_.
     if CHR ''?'' \<in> set address
     then Inl (InvalidParameter ''external-key Transit address must not contain a query'')
     else rbind (validate_provider_text token) (\<lambda>_.
       if list_ex (\<lambda>c. \<not> (0x21 \<le> byte c \<and> byte c \<le> 0x7e)) token
       then Inl (InvalidParameter ''external-key Transit token must contain visible ASCII only'')
       else Inr \<lparr>tekc_address = address, tekc_token = token, tekc_namespace = None,
         tekc_mount_path = ''transit'', tekc_tls_server_name = None, tekc_tls_skip_verify = False,
         tekc_tls_ca_cert_bytes = None, tekc_tls_client_cert_bytes = None,
         tekc_tls_client_key_bytes = None\<rparr>))"

definition tekc_with_mount_path ::
  "transit_external_key_config \<Rightarrow> string \<Rightarrow> transit_external_key_config res" where
  "tekc_with_mount_path self path =
     rmap (\<lambda>segs. self\<lparr>tekc_mount_path := join_with ''/'' segs\<rparr>) (validate_mount_path path)"

definition tekc_with_namespace ::
  "transit_external_key_config \<Rightarrow> string \<Rightarrow> transit_external_key_config res" where
  "tekc_with_namespace self ns =
     rmap (\<lambda>segs. self\<lparr>tekc_namespace := Some (join_with ''/'' segs)\<rparr>) (validate_mount_path ns)"

text \<open>\<open>host_parses\<close> is \<open>url::Host::parse\<close>.\<close>

definition tekc_with_tls_server_name ::
  "(string \<Rightarrow> bool) \<Rightarrow> transit_external_key_config \<Rightarrow> string \<Rightarrow> transit_external_key_config res" where
  "tekc_with_tls_server_name host_parses self name =
     (if name = [] \<or> 253 < length name \<or> \<not> list_all (\<lambda>c. byte c < 128) name \<or>
         list_ex (\<lambda>c. \<not> (is_ascii_alphanumeric c \<or> c \<in> set ''.-:[]'')) name \<or> \<not> host_parses name
      then Inl (InvalidParameter ''external-key TLS server name must be a bounded host name'')
      else Inr (self\<lparr>tekc_tls_server_name := Some name\<rparr>))"

definition tekc_with_ca_certificate ::
  "transit_external_key_config \<Rightarrow> string \<Rightarrow> transit_external_key_config res" where
  "tekc_with_ca_certificate self pem =
     rmap (\<lambda>_. self\<lparr>tekc_tls_ca_cert_bytes := Some pem\<rparr>) (validate_provider_text pem)"

definition tekc_with_client_identity ::
  "transit_external_key_config \<Rightarrow> string \<Rightarrow> string \<Rightarrow> transit_external_key_config res" where
  "tekc_with_client_identity self certificate key =
     rbind (validate_provider_text certificate) (\<lambda>_.
     rbind (validate_provider_text key) (\<lambda>_.
       Inr (self\<lparr>tekc_tls_client_cert_bytes := Some certificate, tekc_tls_client_key_bytes := Some key\<rparr>)))"

record transit_external_key =
  tek_name :: string
  tek_version :: "32 word"
  tek_disable_prehashing :: bool

definition transit_external_key_new :: "string \<Rightarrow> 32 word \<Rightarrow> transit_external_key res" where
  "transit_external_key_new name version =
     rbind (validate_provider_name name) (\<lambda>_.
       if version = 0 \<or> 0x7fffffff < version
       then Inl (InvalidParameter ''external-key Transit version must be in 1..=2147483647'')
       else Inr \<lparr>tek_name = name, tek_version = version, tek_disable_prehashing = False\<rparr>)"

definition tek_with_disable_prehashing :: "transit_external_key \<Rightarrow> bool \<Rightarrow> transit_external_key" where
  "tek_with_disable_prehashing self disable = self\<lparr>tek_disable_prehashing := disable\<rparr>"

record pkcs11_external_key_config =
  pekc_lib :: string
  pekc_slot :: "string option"
  pekc_serial :: "string option"
  pekc_token_label :: "string option"
  pekc_pin :: "string option"
  pekc_disable_software_encryption :: bool

datatype pkcs11_token_selector = SelectSlot "64 word" | SelectSerial string | SelectLabel string

fun pekc_with_selector ::
  "pkcs11_external_key_config \<Rightarrow> pkcs11_token_selector \<Rightarrow> pkcs11_external_key_config res" where
  "pekc_with_selector self (SelectSlot slot) = Inr (self\<lparr>pekc_slot := Some (dec_string (unat slot))\<rparr>)"
| "pekc_with_selector self (SelectSerial serial) =
     rmap (\<lambda>_. self\<lparr>pekc_serial := Some serial\<rparr>) (validate_provider_text serial)"
| "pekc_with_selector self (SelectLabel label) =
     rmap (\<lambda>_. self\<lparr>pekc_token_label := Some label\<rparr>) (validate_provider_text label)"

definition pkcs11_external_key_config_new ::
  "string \<Rightarrow> pkcs11_token_selector \<Rightarrow> pkcs11_external_key_config res" where
  "pkcs11_external_key_config_new lib selector =
     rbind (validate_provider_name lib) (\<lambda>_.
       pekc_with_selector \<lparr>pekc_lib = lib, pekc_slot = None, pekc_serial = None,
         pekc_token_label = None, pekc_pin = None, pekc_disable_software_encryption = False\<rparr> selector)"

definition pekc_with_pin :: "pkcs11_external_key_config \<Rightarrow> string \<Rightarrow> pkcs11_external_key_config res" where
  "pekc_with_pin self pin =
     rmap (\<lambda>_. self\<lparr>pekc_pin := Some pin\<rparr>) (validate_provider_text pin)"

definition pekc_with_disable_software_encryption ::
  "pkcs11_external_key_config \<Rightarrow> bool \<Rightarrow> pkcs11_external_key_config" where
  "pekc_with_disable_software_encryption self disable =
     self\<lparr>pekc_disable_software_encryption := disable\<rparr>"

datatype pkcs11_mechanism = MechanismEcdsa | MechanismAesGcm | MechanismRsaPss | MechanismRsaOaep

datatype pkcs11_oaep_hash = OaepSha1 | OaepSha224 | OaepSha256 | OaepSha384 | OaepSha512

record pkcs11_external_key =
  pek_label :: "string option"
  pek_id :: "string option"
  pek_mechanism :: "pkcs11_mechanism option"
  pek_rsa_oaep_hash :: "pkcs11_oaep_hash option"

definition pek_by_label :: "string \<Rightarrow> pkcs11_external_key res" where
  "pek_by_label label =
     rmap (\<lambda>_. \<lparr>pek_label = Some label, pek_id = None, pek_mechanism = None, pek_rsa_oaep_hash = None\<rparr>)
       (validate_provider_text label)"

definition is_ascii_hexdigit :: "char \<Rightarrow> bool" where
  "is_ascii_hexdigit c \<longleftrightarrow>
     is_ascii_digit c \<or> 65 \<le> byte c \<and> byte c \<le> 70 \<or> 97 \<le> byte c \<and> byte c \<le> 102"

definition pek_with_id :: "pkcs11_external_key \<Rightarrow> string \<Rightarrow> pkcs11_external_key res" where
  "pek_with_id self txt =
     (let hex = (if prefix ''0x'' txt then drop 2 txt else txt) in
      if hex = [] \<or> 4096 < length hex \<or> length hex mod 2 \<noteq> 0 \<or> \<not> list_all is_ascii_hexdigit hex
      then Inl (InvalidParameter ''external-key PKCS#11 ID must contain bounded hex octets'')
      else Inr (self\<lparr>pek_id := Some (''0x'' @ hex)\<rparr>))"

definition pek_by_id :: "string \<Rightarrow> pkcs11_external_key res" where
  "pek_by_id txt =
     pek_with_id \<lparr>pek_label = None, pek_id = None, pek_mechanism = None, pek_rsa_oaep_hash = None\<rparr> txt"

definition pek_with_mechanism :: "pkcs11_external_key \<Rightarrow> pkcs11_mechanism \<Rightarrow> pkcs11_external_key" where
  "pek_with_mechanism self mechanism = self\<lparr>pek_mechanism := Some mechanism\<rparr>"

definition pek_with_rsa_oaep_hash :: "pkcs11_external_key \<Rightarrow> pkcs11_oaep_hash \<Rightarrow> pkcs11_external_key" where
  "pek_with_rsa_oaep_hash self hash = self\<lparr>pek_rsa_oaep_hash := Some hash\<rparr>"

section \<open>Options\<close>

definition MAX_OPTION_BYTES :: nat where "MAX_OPTION_BYTES = 256 * 1024"
definition MAX_OPTION_DEPTH :: nat where "MAX_OPTION_DEPTH = 8"
definition MAX_OPTION_NODES :: nat where "MAX_OPTION_NODES = 2048"
definition MAX_OPTION_MEMBERS :: nat where "MAX_OPTION_MEMBERS = 64"
definition MAX_OPTION_STRING :: nat where "MAX_OPTION_STRING = 64 * 1024"

definition option_node :: "nat \<Rightarrow> nat decoded" where
  "option_node budget =
     (if budget = 0 then Inl ''external-key node limit exceeded'' else Inr (budget - 1))"

definition option_string :: "string \<Rightarrow> unit decoded" where
  "option_string value =
     (if MAX_OPTION_STRING < length value then Inl ''external-key string limit exceeded'' else Inr ())"

definition option_name_ok :: "bool \<Rightarrow> string \<Rightarrow> bool" where
  "option_name_ok request txt \<longleftrightarrow>
     \<not> (txt = [] \<or> 256 < length txt \<or>
       \<not> list_all (\<lambda>c. is_ascii_alphanumeric c \<or> c = CHR ''_'' \<or> c = CHR ''-'') txt \<or>
       request \<and> txt \<in> {''plugin'', ''verify'', ''config'', ''key'', ''mount''})"

definition member_limit :: "bool \<Rightarrow> nat \<Rightarrow> nat" where
  "member_limit request depth = MAX_OPTION_MEMBERS + (if depth = 0 \<and> \<not> request then 1 else 0)"

text \<open>\<open>Check\<close> with its visitor, as for reviews; members at the root have names of their own.\<close>

fun option_check :: "bool \<Rightarrow> nat \<Rightarrow> json \<Rightarrow> nat \<Rightarrow> nat decoded"
  and option_elements :: "bool \<Rightarrow> nat \<Rightarrow> json list \<Rightarrow> nat \<Rightarrow> nat decoded"
  and option_members ::
    "bool \<Rightarrow> nat \<Rightarrow> string list \<Rightarrow> nat \<Rightarrow> (string \<times> json) list \<Rightarrow> nat \<Rightarrow> nat decoded"
where
  "option_check request depth document budget =
     rbind (option_node budget) (\<lambda>budget.
       case document of
         JString s \<Rightarrow> rmap (\<lambda>_. budget) (option_string s)
       | JArray elements \<Rightarrow>
           (if MAX_OPTION_DEPTH \<le> depth then Inl ''external-key depth limit exceeded''
            else option_elements request depth elements budget)
       | JObject members \<Rightarrow>
           (if MAX_OPTION_DEPTH \<le> depth then Inl ''external-key depth limit exceeded''
            else option_members request depth [] 0 members budget)
       | _ \<Rightarrow> Inr budget)"
| "option_elements request depth [] budget = Inr budget"
| "option_elements request depth (e # rest) budget =
     (if 0 < budget
      then rbind (option_check request (Suc depth) e budget) (\<lambda>budget.
        option_elements request depth rest budget)
      else Inl ''external-key node limit exceeded'')"
| "option_members request depth keys non_plugin [] budget = Inr budget"
| "option_members request depth keys non_plugin ((key, e) # rest) budget =
     (if length keys < member_limit request depth \<and> 0 < budget
      then rbind (option_string key) (\<lambda>_.
        let counted = depth = 0 \<and> \<not> request \<and> key \<noteq> ''plugin'';
            non_plugin = (if counted then Suc non_plugin else non_plugin)
        in if counted \<and> MAX_OPTION_MEMBERS < non_plugin
           then Inl ''external-key response exceeds provider-option limit''
           else if depth = 0 \<and> \<not> option_name_ok request key
           then Inl ''invalid or reserved external-key option name''
           else if key \<in> set keys then Inl ''duplicate external-key option''
           else rbind (option_check request (Suc depth) e budget) (\<lambda>budget.
             option_members request depth (keys @ [key]) non_plugin rest budget))
      else Inl ''external-key object limit exceeded'')"

text \<open>\<open>deserialize_map\<close>: anything but an object is an error.\<close>

definition option_validate :: "(string \<Rightarrow> json option) \<Rightarrow> string \<Rightarrow> bool \<Rightarrow> unit res" where
  "option_validate parse contents request =
     (if MAX_OPTION_BYTES < length contents
      then Inl (InvalidParameter ''external-key options exceed byte limit'')
      else rmap_err (\<lambda>_. InvalidParameter
          ''external-key options must be a bounded, duplicate-free JSON object'')
        (case parse contents of
           Some (JObject members) \<Rightarrow>
             rmap (\<lambda>_. ()) (option_check request 0 (JObject members) MAX_OPTION_NODES)
         | _ \<Rightarrow> Inl ''not an object''))"

definition external_key_options_from_json :: "(string \<Rightarrow> json option) \<Rightarrow> string \<Rightarrow> string res" where
  "external_key_options_from_json parse contents =
     rmap (\<lambda>_. contents) (option_validate parse contents True)"

text \<open>\<open>data_text\<close> is the derived decoder of the envelope, which keeps the text of its data.\<close>

definition external_key_parameters_from_envelope ::
  "(string \<Rightarrow> json option) \<Rightarrow> (string \<Rightarrow> string option) \<Rightarrow> string \<Rightarrow> string res" where
  "external_key_parameters_from_envelope parse data_text body =
     rbind (ok_or (data_text body) (Decode ''invalid external-key response envelope'')) (\<lambda>data.
       if MAX_OPTION_BYTES < length data
       then Inl (Decode ''external-key parameters exceed byte limit'')
       else rmap (\<lambda>_. data)
         (rmap_err (\<lambda>_. Decode ''invalid external-key provider parameters'')
           (option_validate parse data False)))"

section \<open>What the option check admits\<close>

text \<open>Limits below the root, and the names at the root.\<close>

fun option_shape :: "json \<Rightarrow> bool" where
  "option_shape (JString s) = (length s \<le> 65536)"
| "option_shape (JArray es) = list_all option_shape es"
| "option_shape (JObject ms) =
     (length ms \<le> 64 \<and> distinct (map fst ms) \<and>
      list_all (\<lambda>(k, e). length k \<le> 65536 \<and> option_shape e) ms)"
| "option_shape _ = True"

definition option_fits :: "nat \<Rightarrow> json \<Rightarrow> bool" where
  "option_fits depth d \<longleftrightarrow> (containers d = 0 \<or> depth + containers d \<le> MAX_OPTION_DEPTH) \<and> option_shape d"

lemma option_fits_array:
  "option_fits depth (JArray es) \<longleftrightarrow> depth < MAX_OPTION_DEPTH \<and> list_all (option_fits (Suc depth)) es"
  using fold_max_bound [of "Suc depth" "map containers es" MAX_OPTION_DEPTH]
  by (auto simp: option_fits_def list_all_iff Suc_le_eq)

lemma option_fits_object:
  "option_fits depth (JObject ms) \<longleftrightarrow> depth < MAX_OPTION_DEPTH \<and> length ms \<le> MAX_OPTION_MEMBERS \<and>
     distinct (map fst ms) \<and> list_all (\<lambda>(k, e). length k \<le> MAX_OPTION_STRING \<and> option_fits (Suc depth) e) ms"
  using fold_max_bound [of "Suc depth" "map (\<lambda>(k, e). containers e) ms" MAX_OPTION_DEPTH]
  by (fastforce simp: option_fits_def list_all_iff MAX_OPTION_MEMBERS_def MAX_OPTION_STRING_def Suc_le_eq)

text \<open>What counts against the limit at the root of a response, and which names the root may have.\<close>

definition root_counted :: "bool \<Rightarrow> nat \<Rightarrow> string \<Rightarrow> bool" where
  "root_counted request depth key \<longleftrightarrow> depth = 0 \<and> \<not> request \<and> key \<noteq> ''plugin''"

definition root_named :: "bool \<Rightarrow> nat \<Rightarrow> string \<Rightarrow> bool" where
  "root_named request depth key \<longleftrightarrow> depth \<noteq> 0 \<or> option_name_ok request key"

definition count_root :: "bool \<Rightarrow> nat \<Rightarrow> (string \<times> json) list \<Rightarrow> nat" where
  "count_root request depth ms = length (filter (\<lambda>(k, _). root_counted request depth k) ms)"

text \<open>A value, which at the root is an object with names of its own.\<close>

fun option_admits :: "bool \<Rightarrow> nat \<Rightarrow> json \<Rightarrow> bool" where
  "option_admits request depth (JObject ms) \<longleftrightarrow>
     depth < MAX_OPTION_DEPTH \<and> length ms \<le> member_limit request depth \<and>
     count_root request depth ms \<le> MAX_OPTION_MEMBERS \<and> distinct (map fst ms) \<and>
     list_all (\<lambda>(k, e). length k \<le> MAX_OPTION_STRING \<and> root_named request depth k \<and>
       option_fits (Suc depth) e) ms"
| "option_admits request depth d \<longleftrightarrow> option_fits depth d"

lemma option_admits_below: "option_admits request (Suc depth) d = option_fits (Suc depth) d"
  by (cases d) (simp_all add: option_fits_object member_limit_def count_root_def root_counted_def
      root_named_def)

declare option_check.simps [simp del]

lemma option_check_spec:
  "\<And>b'. option_check request depth d b = Inr b' \<longleftrightarrow>
     option_admits request depth d \<and> json_nodes d \<le> b \<and> b' = b - json_nodes d"
  "\<And>b'. option_elements request depth es b = Inr b' \<longleftrightarrow>
     list_all (option_fits (Suc depth)) es \<and> nodes_of es \<le> b \<and> b' = b - nodes_of es"
  "\<And>b'. length keys \<le> member_limit request depth \<Longrightarrow> np \<le> MAX_OPTION_MEMBERS \<Longrightarrow>
     option_members request depth keys np ms b = Inr b' \<longleftrightarrow>
     length keys + length ms \<le> member_limit request depth \<and>
     np + count_root request depth ms \<le> MAX_OPTION_MEMBERS \<and>
     distinct (map fst ms) \<and> set keys \<inter> fst ` set ms = {} \<and>
     list_all (\<lambda>(k, e). length k \<le> MAX_OPTION_STRING \<and> root_named request depth k \<and>
       option_fits (Suc depth) e) ms \<and>
     keyed_nodes ms \<le> b \<and> b' = b - keyed_nodes ms"
proof (induction request depth d b and request depth es b and request depth keys np ms b
    rule: option_check_option_elements_option_members.induct)
  case (1 request depth d b)
  show ?case
  proof (cases "b = 0")
    case True
    then show ?thesis using json_nodes_pos [of d] by (simp add: option_check.simps option_node_def)
  next
    case False
    then have node: "option_node b = Inr (b - 1)" by (simp add: option_node_def)
    show ?thesis
    proof (cases d)
      case (JArray es)
      show ?thesis
        using 1(1) [OF node JArray] False
        by (auto simp: JArray option_check.simps node option_fits_array)
    next
      case (JObject ms)
      show ?thesis
        using 1(2) [OF node JObject] False
        by (auto simp: JObject option_check.simps node)
    next
      case (JString s)
      show ?thesis
        using False by (auto simp: JString option_check.simps node option_fits_def option_string_def
            MAX_OPTION_STRING_def)
    qed (use False in \<open>auto simp: option_check.simps node option_fits_def\<close>)
  qed
next
  case (2 request depth b)
  then show ?case by auto
next
  case (3 request depth e rest b)
  show ?case
  proof (cases "0 < b \<and> option_fits (Suc depth) e \<and> json_nodes e \<le> b")
    case True
    then have v: "option_check request (Suc depth) e b = Inr (b - json_nodes e)"
      using 3(1) by (simp add: option_admits_below)
    show ?thesis using True 3(2) [of "b - json_nodes e"] by (auto simp: v)
  next
    case False
    then have "\<exists>m. option_elements request depth (e # rest) b = Inl m"
      using 3(1) by (cases "option_check request (Suc depth) e b") (auto simp: option_admits_below)
    then show ?thesis using False json_nodes_pos [of e] by auto
  qed
next
  case (4 request depth keys np b)
  then show ?case by (auto simp: count_root_def)
next
  case (5 request depth keys np key e rest b)
  let ?np = "if root_counted request depth key then Suc np else np"
  have counted: "(depth = 0 \<and> \<not> request \<and> key \<noteq> ''plugin'') = root_counted request depth key"
    by (simp add: root_counted_def)
  let ?guard = "length keys < member_limit request depth \<and> 0 < b"
  let ?key = "length key \<le> MAX_OPTION_STRING \<and> ?np \<le> MAX_OPTION_MEMBERS \<and>
      root_named request depth key \<and> key \<notin> set keys"
  have unfold: "option_members request depth keys np ((key, e) # rest) b =
      rbind (option_check request (Suc depth) e b) (\<lambda>b. option_members request depth (keys @ [key]) ?np rest b)"
    if "?guard" "?key"
    using that by (auto simp: option_string_def Let_def counted root_named_def)
  have refused: "\<exists>m. option_members request depth keys np ((key, e) # rest) b = Inl m"
    if "\<not> (?guard \<and> ?key)"
    using that 5(4) by (auto simp: option_string_def Let_def counted root_named_def)
  have ih: "\<And>b'. option_check request (Suc depth) e b = Inr b' \<longleftrightarrow>
      option_fits (Suc depth) e \<and> json_nodes e \<le> b \<and> b' = b - json_nodes e" if "?guard" "?key"
    using 5(1) [OF that(1), of "()"] that(2) 5(4)
    by (auto simp: option_admits_below option_string_def counted root_named_def)
  have rest: "\<And>b'. option_members request depth (keys @ [key]) ?np rest (b - json_nodes e) = Inr b' \<longleftrightarrow>
     length (keys @ [key]) + length rest \<le> member_limit request depth \<and>
     ?np + count_root request depth rest \<le> MAX_OPTION_MEMBERS \<and>
     distinct (map fst rest) \<and> set (keys @ [key]) \<inter> fst ` set rest = {} \<and>
     list_all (\<lambda>(k, e). length k \<le> MAX_OPTION_STRING \<and> root_named request depth k \<and>
       option_fits (Suc depth) e) rest \<and>
     keyed_nodes rest \<le> b - json_nodes e \<and> b' = b - json_nodes e - keyed_nodes rest"
    if "?guard" "?key" "option_fits (Suc depth) e" "json_nodes e \<le> b"
    using 5(2) [OF that(1), of "()"] that ih [OF that(1,2)]
    by (simp add: option_string_def counted root_named_def not_less)
  show ?case
  proof (cases "?guard \<and> ?key \<and> option_fits (Suc depth) e \<and> json_nodes e \<le> b")
    case True
    then have g: "?guard" "?key" "option_fits (Suc depth) e" "json_nodes e \<le> b" by blast+
    have v: "option_check request (Suc depth) e b = Inr (b - json_nodes e)"
      using g(3,4) by (simp add: ih [OF g(1,2)])
    have c: "np + count_root request depth ((key, e) # rest) = ?np + count_root request depth rest"
      by (simp add: count_root_def)
    have k: "keyed_nodes ((key, e) # rest) \<le> b \<longleftrightarrow> keyed_nodes rest \<le> b - json_nodes e"
        "b - keyed_nodes ((key, e) # rest) = b - json_nodes e - keyed_nodes rest"
      using g(4) by auto
    have d: "distinct (map fst ((key, e) # rest)) \<and> set keys \<inter> fst ` set ((key, e) # rest) = {} \<longleftrightarrow>
        distinct (map fst rest) \<and> set (keys @ [key]) \<inter> fst ` set rest = {}"
      using g(2) by auto
    have l: "list_all (\<lambda>(k, e). length k \<le> MAX_OPTION_STRING \<and> root_named request depth k \<and>
        option_fits (Suc depth) e) ((key, e) # rest) = list_all (\<lambda>(k, e). length k \<le> MAX_OPTION_STRING \<and>
        root_named request depth k \<and> option_fits (Suc depth) e) rest"
      using g(2,3) by simp
    have n: "length keys + length ((key, e) # rest) = length (keys @ [key]) + length rest" by simp
    show ?thesis
      unfolding unfold [OF g(1,2)] v rbind.simps rest [OF g] c k l n using d by argo
  next
    case False
    have "\<exists>m. option_members request depth keys np ((key, e) # rest) b = Inl m"
    proof (cases "?guard \<and> ?key")
      case True
      then have g: "?guard" "?key" by blast+
      with False obtain m where "option_check request (Suc depth) e b = Inl m"
        using ih [OF g] by (cases "option_check request (Suc depth) e b") blast+
      then show ?thesis unfolding unfold [OF g] by simp
    qed (rule refused)
    then obtain m where m: "option_members request depth keys np ((key, e) # rest) b = Inl m" ..
    have "\<not> (length keys + length ((key, e) # rest) \<le> member_limit request depth \<and>
        np + count_root request depth ((key, e) # rest) \<le> MAX_OPTION_MEMBERS \<and>
        set keys \<inter> fst ` set ((key, e) # rest) = {} \<and>
        list_all (\<lambda>(k, e). length k \<le> MAX_OPTION_STRING \<and> root_named request depth k \<and>
          option_fits (Suc depth) e) ((key, e) # rest) \<and> keyed_nodes ((key, e) # rest) \<le> b)"
      using False json_nodes_pos [of e] by (auto simp: count_root_def)
    then show ?thesis unfolding m by blast
  qed
qed

lemmas option_limits = MAX_OPTION_BYTES_def MAX_OPTION_DEPTH_def MAX_OPTION_NODES_def MAX_OPTION_MEMBERS_def
  MAX_OPTION_STRING_def member_limit_def

lemma option_root:
  "option_check request 0 (JObject ms) MAX_OPTION_NODES = Inr b \<longleftrightarrow>
     length ms \<le> (if request then 64 else 65) \<and>
     (request \<or> length (filter (\<lambda>(k, _). k \<noteq> ''plugin'') ms) \<le> 64) \<and> distinct (map fst ms) \<and>
     list_all (\<lambda>(k, e). option_name_ok request k \<and> option_fits 1 e) ms \<and> keyed_nodes ms < 2048 \<and>
     b = 2047 - keyed_nodes ms"
proof -
  have short: "option_name_ok request k \<Longrightarrow> length k \<le> 65536" for k
    by (simp add: option_name_ok_def)
  have list: "list_all (\<lambda>(k, e). length k \<le> MAX_OPTION_STRING \<and> root_named request 0 k \<and> option_fits 1 e) ms \<longleftrightarrow>
      list_all (\<lambda>(k, e). option_name_ok request k \<and> option_fits 1 e) ms"
    by (auto simp: list_all_iff root_named_def MAX_OPTION_STRING_def dest: short)
  have count: "count_root request 0 ms \<le> 64 \<longleftrightarrow>
      request \<or> length (filter (\<lambda>(k, _). k \<noteq> ''plugin'') ms) \<le> 64"
    by (cases request) (simp_all add: count_root_def root_counted_def)
  show ?thesis
    unfolding option_check_spec(1) option_admits.simps One_nat_def [symmetric] list
    using count by (auto simp: option_limits)
qed

text \<open>C22:
  Provider options are accepted exactly when they are at most 256 KiB of JSON for one object with at most 64
  members, none of them twice, under plain names of which none is reserved, and at most 2048 values in
  total, nested at most 8 deep, with the same limits on inner objects; they are kept as they are. So options
  can never name the plugin, the verification or the target again. Parameters that a server returns may name
  the plugin besides 64 options, and are otherwise held to the same bounds.\<close>

theorem external_key_options_iff:
  "(external_key_options_from_json parse contents = Inr kept \<longleftrightarrow>
     kept = contents \<and> length contents \<le> 262144 \<and>
     (\<exists>ms. parse contents = Some (JObject ms) \<and> length ms \<le> 64 \<and> distinct (map fst ms) \<and>
        list_all (\<lambda>(k, e). option_name_ok True k \<and> option_fits 1 e) ms \<and> keyed_nodes ms < 2048)) \<and>
   (external_key_parameters_from_envelope parse data_text body = Inr kept \<longleftrightarrow>
     data_text body = Some kept \<and> length kept \<le> 262144 \<and>
     (\<exists>ms. parse kept = Some (JObject ms) \<and> length ms \<le> 65 \<and>
        length (filter (\<lambda>(k, _). k \<noteq> ''plugin'') ms) \<le> 64 \<and> distinct (map fst ms) \<and>
        list_all (\<lambda>(k, e). option_name_ok False k \<and> option_fits 1 e) ms \<and> keyed_nodes ms < 2048))"
proof -
  have ok: "option_validate parse t request = Inr u \<longleftrightarrow> length t \<le> 262144 \<and>
      (\<exists>ms b. parse t = Some (JObject ms) \<and> option_check request 0 (JObject ms) MAX_OPTION_NODES = Inr b)"
    for t request u
    by (auto simp: option_validate_def MAX_OPTION_BYTES_def rmap_Inr_iff split: option.splits json.splits)
  have options: "external_key_options_from_json parse contents = Inr kept \<longleftrightarrow>
     kept = contents \<and> length contents \<le> 262144 \<and>
     (\<exists>ms. parse contents = Some (JObject ms) \<and> length ms \<le> 64 \<and> distinct (map fst ms) \<and>
        list_all (\<lambda>(k, e). option_name_ok True k \<and> option_fits 1 e) ms \<and> keyed_nodes ms < 2048)"
    by (auto simp: external_key_options_from_json_def rmap_Inr_iff ok option_root)
  have parameters: "external_key_parameters_from_envelope parse data_text body = Inr kept \<longleftrightarrow>
     data_text body = Some kept \<and> length kept \<le> 262144 \<and>
     (\<exists>ms. parse kept = Some (JObject ms) \<and> length ms \<le> 65 \<and>
        length (filter (\<lambda>(k, _). k \<noteq> ''plugin'') ms) \<le> 64 \<and> distinct (map fst ms) \<and>
        list_all (\<lambda>(k, e). option_name_ok False k \<and> option_fits 1 e) ms \<and> keyed_nodes ms < 2048)"
    by (cases "data_text body")
      (auto simp: external_key_parameters_from_envelope_def rmap_Inr_iff ok option_root MAX_OPTION_BYTES_def)
  from options parameters show ?thesis by (rule conjI)
qed

section \<open>Requests\<close>

datatype config_provider =
    ConfigTransit transit_external_key_config
  | ConfigPkcs11 pkcs11_external_key_config
  | ConfigCustom string

datatype key_provider =
    KeyTransit transit_external_key
  | KeyPkcs11 pkcs11_external_key
  | KeyCustom string

record external_key_config_request =
  ekcr_plugin :: string
  ekcr_verify :: bool
  ekcr_provider :: config_provider

record external_key_key_request =
  ekkr_verify :: bool
  ekkr_provider :: key_provider

record external_key_config_patch =
  ekcp_plugin :: "string option"
  ekcp_verify :: bool
  ekcp_options :: string

record external_key_key_patch =
  ekkp_verify :: bool
  ekkp_options :: string

definition ekcr_transit :: "transit_external_key_config \<Rightarrow> external_key_config_request" where
  "ekcr_transit config =
     \<lparr>ekcr_plugin = ''transit'', ekcr_verify = True, ekcr_provider = ConfigTransit config\<rparr>"

definition ekcr_pkcs11 :: "string \<Rightarrow> pkcs11_external_key_config \<Rightarrow> external_key_config_request res" where
  "ekcr_pkcs11 plugin config =
     rmap (\<lambda>_. \<lparr>ekcr_plugin = plugin, ekcr_verify = True, ekcr_provider = ConfigPkcs11 config\<rparr>)
       (validate_provider_name plugin)"

definition ekcr_custom :: "string \<Rightarrow> string \<Rightarrow> external_key_config_request res" where
  "ekcr_custom plugin options =
     rmap (\<lambda>_. \<lparr>ekcr_plugin = plugin, ekcr_verify = True, ekcr_provider = ConfigCustom options\<rparr>)
       (validate_provider_name plugin)"

definition ekcr_without_verification :: "external_key_config_request \<Rightarrow> external_key_config_request" where
  "ekcr_without_verification self = self\<lparr>ekcr_verify := False\<rparr>"

definition ekkr_transit :: "transit_external_key \<Rightarrow> external_key_key_request" where
  "ekkr_transit key = \<lparr>ekkr_verify = True, ekkr_provider = KeyTransit key\<rparr>"

definition ekkr_pkcs11 :: "pkcs11_external_key \<Rightarrow> external_key_key_request" where
  "ekkr_pkcs11 key = \<lparr>ekkr_verify = True, ekkr_provider = KeyPkcs11 key\<rparr>"

definition ekkr_custom :: "string \<Rightarrow> external_key_key_request" where
  "ekkr_custom options = \<lparr>ekkr_verify = True, ekkr_provider = KeyCustom options\<rparr>"

definition ekkr_without_verification :: "external_key_key_request \<Rightarrow> external_key_key_request" where
  "ekkr_without_verification self = self\<lparr>ekkr_verify := False\<rparr>"

definition ekcp_new :: "string \<Rightarrow> external_key_config_patch" where
  "ekcp_new options = \<lparr>ekcp_plugin = None, ekcp_verify = True, ekcp_options = options\<rparr>"

definition ekcp_with_plugin :: "external_key_config_patch \<Rightarrow> string \<Rightarrow> external_key_config_patch res" where
  "ekcp_with_plugin self plugin =
     rmap (\<lambda>_. self\<lparr>ekcp_plugin := Some plugin\<rparr>) (validate_provider_name plugin)"

definition ekcp_without_verification :: "external_key_config_patch \<Rightarrow> external_key_config_patch" where
  "ekcp_without_verification self = self\<lparr>ekcp_verify := False\<rparr>"

definition ekkp_new :: "string \<Rightarrow> external_key_key_patch" where
  "ekkp_new options = \<lparr>ekkp_verify = True, ekkp_options = options\<rparr>"

definition ekkp_without_verification :: "external_key_key_patch \<Rightarrow> external_key_key_patch" where
  "ekkp_without_verification self = self\<lparr>ekkp_verify := False\<rparr>"

section \<open>Operations\<close>

record external_key_list =
  external_key_list_keys :: "string list"

definition external_key_config_path :: "string \<Rightarrow> string res" where
  "external_key_config_path config =
     rmap (\<lambda>_. ''sys/external-keys/configs/'' @ config) (validate_provider_name config)"

definition external_key_path :: "string \<Rightarrow> string \<Rightarrow> string res" where
  "external_key_path config key =
     rbind (validate_provider_name key) (\<lambda>_.
       rmap (\<lambda>p. p @ ''/keys/'' @ key) (external_key_config_path config))"

definition external_key_grant_path :: "string \<Rightarrow> string \<Rightarrow> string \<Rightarrow> string res" where
  "external_key_grant_path config key mount =
     rbind (validate_mount_path mount) (\<lambda>mount.
     rbind (external_key_path config key) (\<lambda>p.
       let path = p @ ''/grants/'' @ join_with ''/'' mount in
       rbind (validate_endpoint_path path) (\<lambda>_. Inr path)))"

definition require_external_keys :: "http_env \<Rightarrow> unit sent" where
  "require_external_keys env =
     sbind (compatibility_report_of env) (\<lambda>report.
       pure (rbind (ok_or (case profile_version report of Some v \<Rightarrow> Some v
             | None \<Rightarrow> legacy_unverified_profile)
           (Internal ''no external-key compatibility profile'')) (\<lambda>version.
         if version < OpenBaoVersion 2 7 0 \<or> report_status report \<notin> {Verified, Assumed}
         then Inl (UnsupportedOpenBaoCapability ''sys.external-keys'' version)
         else Inr ())))"

definition external_key_list_call ::
  "http_env \<Rightarrow> client \<Rightarrow> (string \<Rightarrow> external_key_list response_envelope option) \<Rightarrow> string \<Rightarrow>
   list_page_options \<Rightarrow> external_key_list sent" where
  "external_key_list_call env cl from_json path options =
     sbind (require_external_keys env) (\<lambda>_.
       smap env_data (request_sys_json_query_accepting env cl from_json ''LIST'' path (query_pairs options)
         None [200]))"

definition external_key_read_call ::
  "http_env \<Rightarrow> client \<Rightarrow> (string \<Rightarrow> json option) \<Rightarrow> (string \<Rightarrow> string option) \<Rightarrow> string \<Rightarrow> string sent" where
  "external_key_read_call env cl parse data_text path =
     sbind (require_external_keys env) (\<lambda>_.
     sbind (request_registered_secret_json_accepting env cl ''/sys/'' ''GET'' path path [] None [200]) (\<lambda>body.
       pure (external_key_parameters_from_envelope parse data_text body)))"

definition external_key_write_call ::
  "http_env \<Rightarrow> client \<Rightarrow> (string \<Rightarrow> unit option) \<Rightarrow> string \<Rightarrow> string \<Rightarrow> payload option \<Rightarrow> unit sent" where
  "external_key_write_call env cl from_json path m body =
     sbind (require_external_keys env) (\<lambda>_.
       request_sys_json_headers_accepting env cl from_json m path
         (if m = ''PATCH'' then [(''content-type'', from_static ''application/merge-patch+json'')] else [])
         body [204])"

definition sys_list_external_key_configs ::
  "http_env \<Rightarrow> client \<Rightarrow> (string \<Rightarrow> external_key_list response_envelope option) \<Rightarrow> list_page_options \<Rightarrow> external_key_list sent" where
  "sys_list_external_key_configs env cl from_json options =
     external_key_list_call env cl from_json ''sys/external-keys/configs'' options"

definition sys_list_external_keys ::
  "http_env \<Rightarrow> client \<Rightarrow> (string \<Rightarrow> external_key_list response_envelope option) \<Rightarrow> string \<Rightarrow> list_page_options \<Rightarrow> external_key_list sent" where
  "sys_list_external_keys env cl from_json config options =
     sbind (pure (external_key_config_path config)) (\<lambda>p. external_key_list_call env cl from_json (p @ ''/keys'') options)"

definition sys_read_external_key_config ::
  "http_env \<Rightarrow> client \<Rightarrow> (string \<Rightarrow> json option) \<Rightarrow> (string \<Rightarrow> string option) \<Rightarrow> string \<Rightarrow> string sent" where
  "sys_read_external_key_config env cl parse data_text config =
     sbind (pure (external_key_config_path config)) (external_key_read_call env cl parse data_text)"

definition sys_write_external_key_config ::
  "http_env \<Rightarrow> client \<Rightarrow> (string \<Rightarrow> unit option) \<Rightarrow> (external_key_config_request \<Rightarrow> payload) \<Rightarrow> string \<Rightarrow> external_key_config_request \<Rightarrow> unit sent" where
  "sys_write_external_key_config env cl from_json to_json config request =
     sbind (pure (external_key_config_path config)) (\<lambda>p.
       external_key_write_call env cl from_json p ''POST'' (Some (to_json request)))"

definition sys_patch_external_key_config ::
  "http_env \<Rightarrow> client \<Rightarrow> (string \<Rightarrow> unit option) \<Rightarrow> (external_key_config_patch \<Rightarrow> payload) \<Rightarrow> string \<Rightarrow> external_key_config_patch \<Rightarrow> unit sent" where
  "sys_patch_external_key_config env cl from_json to_json config request =
     sbind (pure (external_key_config_path config)) (\<lambda>p.
       external_key_write_call env cl from_json p ''PATCH'' (Some (to_json request)))"

definition sys_delete_external_key_config ::
  "http_env \<Rightarrow> client \<Rightarrow> (string \<Rightarrow> unit option) \<Rightarrow> string \<Rightarrow> unit sent" where
  "sys_delete_external_key_config env cl from_json config =
     sbind (pure (external_key_config_path config)) (\<lambda>p.
       external_key_write_call env cl from_json p ''DELETE'' None)"

definition sys_read_external_key ::
  "http_env \<Rightarrow> client \<Rightarrow> (string \<Rightarrow> json option) \<Rightarrow> (string \<Rightarrow> string option) \<Rightarrow> string \<Rightarrow> string \<Rightarrow> string sent" where
  "sys_read_external_key env cl parse data_text config key =
     sbind (pure (external_key_path config key)) (external_key_read_call env cl parse data_text)"

definition sys_write_external_key ::
  "http_env \<Rightarrow> client \<Rightarrow> (string \<Rightarrow> unit option) \<Rightarrow> (external_key_key_request \<Rightarrow> payload) \<Rightarrow> string \<Rightarrow> string \<Rightarrow> external_key_key_request \<Rightarrow> unit sent" where
  "sys_write_external_key env cl from_json to_json config key request =
     sbind (pure (external_key_path config key)) (\<lambda>p.
       external_key_write_call env cl from_json p ''POST'' (Some (to_json request)))"

definition sys_patch_external_key ::
  "http_env \<Rightarrow> client \<Rightarrow> (string \<Rightarrow> unit option) \<Rightarrow> (external_key_key_patch \<Rightarrow> payload) \<Rightarrow> string \<Rightarrow> string \<Rightarrow> external_key_key_patch \<Rightarrow> unit sent" where
  "sys_patch_external_key env cl from_json to_json config key request =
     sbind (pure (external_key_path config key)) (\<lambda>p.
       external_key_write_call env cl from_json p ''PATCH'' (Some (to_json request)))"

definition sys_delete_external_key ::
  "http_env \<Rightarrow> client \<Rightarrow> (string \<Rightarrow> unit option) \<Rightarrow> string \<Rightarrow> string \<Rightarrow> unit sent" where
  "sys_delete_external_key env cl from_json config key =
     sbind (pure (external_key_path config key)) (\<lambda>p.
       external_key_write_call env cl from_json p ''DELETE'' None)"

definition sys_list_external_key_grants ::
  "http_env \<Rightarrow> client \<Rightarrow> (string \<Rightarrow> external_key_list response_envelope option) \<Rightarrow> string \<Rightarrow> string \<Rightarrow> external_key_list sent" where
  "sys_list_external_key_grants env cl from_json config key =
     sbind (pure (external_key_path config key)) (\<lambda>p. external_key_list_call env cl from_json (p @ ''/grants'') list_page_new)"

definition sys_grant_external_key ::
  "http_env \<Rightarrow> client \<Rightarrow> (string \<Rightarrow> unit option) \<Rightarrow> string \<Rightarrow> string \<Rightarrow> string \<Rightarrow> unit sent" where
  "sys_grant_external_key env cl from_json config key mount =
     sbind (pure (external_key_grant_path config key mount)) (\<lambda>p.
       external_key_write_call env cl from_json p ''POST'' None)"

definition sys_delete_external_key_grant ::
  "http_env \<Rightarrow> client \<Rightarrow> (string \<Rightarrow> unit option) \<Rightarrow> string \<Rightarrow> string \<Rightarrow> string \<Rightarrow> unit sent" where
  "sys_delete_external_key_grant env cl from_json config key mount =
     sbind (pure (external_key_grant_path config key mount)) (\<lambda>p.
       external_key_write_call env cl from_json p ''DELETE'' None)"

section \<open>Where the operations go\<close>

lemma provider_name_segment:
  assumes "validate_provider_name v = Inr u"
  shows "validate_endpoint_path v = Inr [v]"
proof -
  obtain segs where segs: "validate_mount_path v = Inr segs" "length segs = 1"
      and chars: "list_all (\<lambda>c. is_word c \<or> c = CHR ''-'' \<or> c = CHR ''.'') v"
    using assms by (auto simp: validate_provider_name_def rbind_Inr_iff split: if_splits)
  then obtain s where s: "segs = [s]" by (auto simp: length_Suc_conv)
  have "CHR ''/'' \<notin> set v"
    using chars by (auto simp: list_all_iff is_word_def is_ascii_alphanumeric_def is_ascii_digit_def
        is_ascii_lowercase_def is_ascii_uppercase_def)
  then have "trim_matches CHR ''/'' v = v"
    by (cases "v = []") (simp add: trim_matches_def, metis hd_in_set last_in_set trim_matches_id)
  moreover have "trim_matches CHR ''/'' v = s"
    using segs(1) s by (simp add: validate_mount_path_def validate_path_iff)
  ultimately show ?thesis
    using mount_path_endpoint [OF segs(1)] s by simp
qed

lemma external_key_literals [simp]:
  "validate_endpoint_path ''external-keys'' = Inr [''external-keys'']"
  "validate_endpoint_path ''configs'' = Inr [''configs'']"
  "validate_endpoint_path ''keys'' = Inr [''keys'']"
  "validate_endpoint_path ''grants'' = Inr [''grants'']"
  by (rule literal_endpoint; code_simp)+

lemma external_key_parts:
  "external_key_config_path config = Inr p \<Longrightarrow> validate_endpoint_path config = Inr [config] \<and>
     p = join_with ''/'' [''sys'', ''external-keys'', ''configs'', config]"
  "external_key_path config key = Inr p \<Longrightarrow> validate_endpoint_path config = Inr [config] \<and>
     validate_endpoint_path key = Inr [key] \<and>
     p = join_with ''/'' [''sys'', ''external-keys'', ''configs'', config, ''keys'', key]"
  by (auto simp: external_key_config_path_def external_key_path_def rmap_Inr_iff rbind_Inr_iff
      dest: provider_name_segment)

lemma external_key_grant_parts:
  assumes "external_key_grant_path config key mount = Inr p"
  shows "\<exists>segs. validate_endpoint_path mount = Inr segs \<and> segs \<noteq> [] \<and>
    validate_endpoint_path config = Inr [config] \<and> validate_endpoint_path key = Inr [key] \<and>
    p = join_with ''/'' ([''sys'', ''external-keys'', ''configs'', config, ''keys'', key, ''grants''] @ segs)"
proof -
  obtain segs q where 1: "validate_mount_path mount = Inr segs" "external_key_path config key = Inr q"
      "p = q @ ''/grants/'' @ join_with ''/'' segs"
    using assms by (auto simp: external_key_grant_path_def rbind_Inr_iff Let_def)
  have "segs \<noteq> []" using 1(1) by (auto simp: validate_mount_path_def validate_path_iff)
  then show ?thesis
    using 1(3) mount_path_endpoint [OF 1(1)] external_key_parts(2) [OF 1(2)] by (simp add: join_with_Cons)
qed

lemma external_keys_silent [silent_intros]: "silent (require_external_keys env)"
  unfolding require_external_keys_def compatibility_report_of_def by (intro silent_intros)

lemma at_external_keys [at_intros]:
  "(\<And>x. at_route env cl m mount parts (f x)) \<Longrightarrow>
   at_route env cl m mount parts (sbind (require_external_keys env) f)"
  by (rule at_silent_bind [OF external_keys_silent])

lemma external_key_calls_at:
  assumes "text_at [''sys''] parts p"
  shows "at_route env cl ''LIST'' [''sys''] parts (external_key_list_call env cl from_json p options)"
    and "at_route env cl ''GET'' [''sys''] parts (external_key_read_call env cl parse data_text p)"
    and "at_route env cl m [''sys''] parts (external_key_write_call env cl from_unit p m body)"
  unfolding external_key_list_call_def external_key_read_call_def external_key_write_call_def
  using assms by (auto simp: safe_sys intro!: at_intros at_requests silent_intros intro: at_after)

text \<open>Nothing is sent to a server whose profile is older than 2.7 or a fallback.\<close>

definition external_keys_reviewed :: "http_env \<Rightarrow> bool" where
  "external_keys_reviewed env \<longleftrightarrow> is_ok (fst (require_external_keys env))"

lemma unreviewed_silent:
  "\<not> external_keys_reviewed env \<Longrightarrow> snd (sbind (require_external_keys env) f) = []"
  using external_keys_silent [of env]
  by (cases "(require_external_keys env, f)" rule: sbind.cases)
    (auto simp: external_keys_reviewed_def silent_def)

lemmas external_key_op_defs =
  sys_list_external_key_configs_def sys_read_external_key_config_def
  sys_write_external_key_config_def sys_patch_external_key_config_def
  sys_delete_external_key_config_def sys_list_external_keys_def sys_read_external_key_def
  sys_write_external_key_def sys_patch_external_key_def sys_delete_external_key_def
  sys_list_external_key_grants_def sys_grant_external_key_def sys_delete_external_key_grant_def

lemma external_key_at:
  "at_route env cl ''LIST'' [''sys''] [''external-keys'', ''configs'']
     (sys_list_external_key_configs env cl from_json options)"
  "at_route env cl ''GET'' [''sys''] [''external-keys'', ''configs'', config]
     (sys_read_external_key_config env cl parse data_text config)"
  "at_route env cl ''POST'' [''sys''] [''external-keys'', ''configs'', config]
     (sys_write_external_key_config env cl from_unit to_config config request)"
  "at_route env cl ''PATCH'' [''sys''] [''external-keys'', ''configs'', config]
     (sys_patch_external_key_config env cl from_unit to_patch config changes)"
  "at_route env cl ''DELETE'' [''sys''] [''external-keys'', ''configs'', config]
     (sys_delete_external_key_config env cl from_unit config)"
  "at_route env cl ''LIST'' [''sys''] [''external-keys'', ''configs'', config, ''keys'']
     (sys_list_external_keys env cl from_json config options)"
  "at_route env cl ''GET'' [''sys''] [''external-keys'', ''configs'', config, ''keys'', key]
     (sys_read_external_key env cl parse data_text config key)"
  "at_route env cl ''POST'' [''sys''] [''external-keys'', ''configs'', config, ''keys'', key]
     (sys_write_external_key env cl from_unit to_key config key request2)"
  "at_route env cl ''PATCH'' [''sys''] [''external-keys'', ''configs'', config, ''keys'', key]
     (sys_patch_external_key env cl from_unit to_key_patch config key changes2)"
  "at_route env cl ''DELETE'' [''sys''] [''external-keys'', ''configs'', config, ''keys'', key]
     (sys_delete_external_key env cl from_unit config key)"
  "at_route env cl ''LIST'' [''sys''] [''external-keys'', ''configs'', config, ''keys'', key, ''grants'']
     (sys_list_external_key_grants env cl from_json config key)"
  "at_route env cl ''POST'' [''sys''] [''external-keys'', ''configs'', config, ''keys'', key, ''grants'', mount]
     (sys_grant_external_key env cl from_unit config key mount)"
  "at_route env cl ''DELETE'' [''sys''] [''external-keys'', ''configs'', config, ''keys'', key, ''grants'', mount]
     (sys_delete_external_key_grant env cl from_unit config key mount)"
  unfolding external_key_op_defs
  by (intro at_intros external_key_calls_at text_atI;
      auto simp: join_with_Cons dest!: external_key_parts external_key_grant_parts)+

lemma external_key_unreviewed:
  assumes "\<not> external_keys_reviewed env"
  shows
    "snd (sys_list_external_key_configs env cl from_json options) = []"
    and "snd (sys_read_external_key_config env cl parse data_text config) = []"
    and "snd (sys_write_external_key_config env cl from_unit to_config config request) = []"
    and "snd (sys_patch_external_key_config env cl from_unit to_patch config changes) = []"
    and "snd (sys_delete_external_key_config env cl from_unit config) = []"
    and "snd (sys_list_external_keys env cl from_json config options) = []"
    and "snd (sys_read_external_key env cl parse data_text config key) = []"
    and "snd (sys_write_external_key env cl from_unit to_key config key request2) = []"
    and "snd (sys_patch_external_key env cl from_unit to_key_patch config key changes2) = []"
    and "snd (sys_delete_external_key env cl from_unit config key) = []"
    and "snd (sys_list_external_key_grants env cl from_json config key) = []"
    and "snd (sys_grant_external_key env cl from_unit config key mount) = []"
    and "snd (sys_delete_external_key_grant env cl from_unit config key mount) = []"
  unfolding external_key_op_defs external_key_list_call_def external_key_read_call_def
    external_key_write_call_def sbind_pure
  by (simp_all add: unreviewed_silent [OF assms] split: sum.split)


end
