(* ===== verification/Bao_Monitor.thy ===== *)
theory Bao_Monitor
  imports Bao_Sys_Routes
begin

text \<open>
  The log stream of \<open>sys.rs\<close>: \<open>Sys::monitor\<close> and \<open>MonitorStream\<close>, which cuts the chunks of a response into
  frames at the line feeds. The body of the response is the list of what each poll of it gives; it stays
  finished once the list is used up. The chunks handed to the sanitiser are kept in order.
\<close>

section \<open>The stream\<close>

definition MAX_MONITOR_TRANSPORT_CHUNK_BYTES :: nat where
  "MAX_MONITOR_TRANSPORT_CHUNK_BYTES = 1024 * 1024"
definition MAX_MONITOR_CHUNKS_PER_POLL :: nat where "MAX_MONITOR_CHUNKS_PER_POLL = 64"

datatype body_poll = BodyPending | BodyReady string | BodyFailed error

text \<open>A pending poll that has woken its own task is polled again at once, otherwise when the body has more.\<close>

datatype monitor_poll = MonitorPending bool | MonitorReady "monitor_frame res" | MonitorEnd

record monitor_stream =
  ms_body :: "body_poll list"
  ms_chunk :: "string option"
  ms_chunk_offset :: nat
  ms_pending :: string
  ms_format :: monitor_log_format
  ms_max_frame_bytes :: nat
  ms_terminal :: bool
  ms_sanitized :: "string list"

definition monitor_stream_new :: "body_poll list \<Rightarrow> monitor_options \<Rightarrow> monitor_stream" where
  "monitor_stream_new body options =
     \<lparr>ms_body = body, ms_chunk = None, ms_chunk_offset = 0, ms_pending = [],
       ms_format = monitor_options_log_format options,
       ms_max_frame_bytes = monitor_options_max_frame_bytes options,
       ms_terminal = False, ms_sanitized = []\<rparr>"

definition finish_frame :: "monitor_stream \<Rightarrow> string \<Rightarrow> monitor_frame \<times> monitor_stream" where
  "finish_frame s ending =
     (\<lparr>monitor_frame_format = ms_format s, monitor_frame_contents = ms_pending s @ ending\<rparr>,
      s\<lparr>ms_pending := []\<rparr>)"

definition sanitize_chunk :: "string \<Rightarrow> monitor_stream \<Rightarrow> monitor_stream" where
  "sanitize_chunk chunk s = s\<lparr>ms_sanitized := ms_sanitized s @ [chunk]\<rparr>"

definition frame_too_large :: "string \<Rightarrow> monitor_stream \<Rightarrow> monitor_poll \<times> monitor_stream" where
  "frame_too_large chunk s =
     (MonitorReady (Inl (Decode ''OpenBao monitor frame exceeds configured limit'')),
      (sanitize_chunk chunk (s\<lparr>ms_terminal := True\<rparr>))\<lparr>ms_pending := []\<rparr>)"

definition line_feed :: char where "line_feed = CHR 0x0A"

definition newline_position :: "string \<Rightarrow> nat option" where
  "newline_position remaining =
     (if line_feed \<in> set remaining then Some (length (takeWhile (\<lambda>c. c \<noteq> line_feed) remaining)) else None)"

text \<open>The first half of a turn of the loop: the chunk at hand, if there is one.\<close>

definition take_chunk :: "monitor_stream \<Rightarrow> monitor_poll option \<times> monitor_stream" where
  "take_chunk s =
     (case ms_chunk s of
        None \<Rightarrow> (None, s)
      | Some chunk \<Rightarrow>
          (let s = s\<lparr>ms_chunk := None\<rparr>;
               remaining = drop (ms_chunk_offset s) chunk in
           case newline_position remaining of
             Some newline \<Rightarrow>
               (if ms_max_frame_bytes s < length (ms_pending s) + newline
                then (let (r, s) = frame_too_large chunk s in (Some r, s))
                else
                  (let (frame, s) = finish_frame s (take newline remaining);
                       s = s\<lparr>ms_chunk_offset := ms_chunk_offset s + (newline + 1)\<rparr>;
                       s = (if ms_chunk_offset s < length chunk then s\<lparr>ms_chunk := Some chunk\<rparr>
                         else sanitize_chunk chunk (s\<lparr>ms_chunk_offset := 0\<rparr>))
                   in (Some (MonitorReady (Inr frame)), s)))
           | None \<Rightarrow>
               (if ms_max_frame_bytes s < length (ms_pending s) + length remaining
                then (let (r, s) = frame_too_large chunk s in (Some r, s))
                else (None, sanitize_chunk chunk
                  (s\<lparr>ms_pending := ms_pending s @ remaining, ms_chunk_offset := 0\<rparr>)))))"

text \<open>The second half: one poll of the body.\<close>

definition poll_body :: "monitor_stream \<Rightarrow> monitor_poll option \<times> monitor_stream" where
  "poll_body s =
     (case ms_body s of
        BodyPending # rest \<Rightarrow> (Some (MonitorPending False), s\<lparr>ms_body := rest\<rparr>)
      | BodyReady chunk # rest \<Rightarrow>
          (let s = s\<lparr>ms_body := rest\<rparr> in
           if chunk = [] then (None, s)
           else if MAX_MONITOR_TRANSPORT_CHUNK_BYTES < length chunk
           then (Some (MonitorReady (Inl (Decode ''OpenBao monitor transport chunk exceeds internal limit''))),
             sanitize_chunk chunk (s\<lparr>ms_terminal := True, ms_pending := []\<rparr>))
           else (None, s\<lparr>ms_chunk := Some chunk\<rparr>))
      | BodyFailed e # rest \<Rightarrow>
          (Some (MonitorReady (Inl e)), s\<lparr>ms_body := rest, ms_terminal := True, ms_pending := []\<rparr>)
      | [] \<Rightarrow>
          (let s = s\<lparr>ms_terminal := True\<rparr> in
           if ms_pending s = [] then (Some MonitorEnd, s)
           else (let (frame, s) = finish_frame s [] in (Some (MonitorReady (Inr frame)), s))))"

text \<open>The loop, with the number of chunks that may still be polled.\<close>

fun monitor_loop :: "nat \<Rightarrow> monitor_stream \<Rightarrow> monitor_poll \<times> monitor_stream" where
  "monitor_loop budget s =
     (case take_chunk s of
        (Some r, s) \<Rightarrow> (r, s)
      | (None, s) \<Rightarrow>
          (case budget of
             0 \<Rightarrow> (MonitorPending True, s)
           | Suc budget \<Rightarrow>
               (case poll_body s of
                  (Some r, s) \<Rightarrow> (r, s)
                | (None, s) \<Rightarrow> monitor_loop budget s)))"

declare monitor_loop.simps [simp del]

definition monitor_poll_next :: "monitor_stream \<Rightarrow> monitor_poll \<times> monitor_stream" where
  "monitor_poll_next s =
     (if ms_terminal s then (MonitorEnd, s) else monitor_loop MAX_MONITOR_CHUNKS_PER_POLL s)"

definition monitor_drop :: "monitor_stream \<Rightarrow> monitor_stream" where
  "monitor_drop s =
     (case ms_chunk s of
        Some chunk \<Rightarrow> (sanitize_chunk chunk (s\<lparr>ms_chunk := None\<rparr>))\<lparr>ms_pending := []\<rparr>
      | None \<Rightarrow> s\<lparr>ms_pending := []\<rparr>)"

section \<open>The request\<close>

text \<open>\<open>body_of\<close> gives the polls of the body of a response.\<close>

definition sys_monitor ::
  "http_env \<Rightarrow> client \<Rightarrow> (response \<Rightarrow> body_poll list) \<Rightarrow> monitor_options \<Rightarrow> monitor_stream sent" where
  "sys_monitor env cl body_of options =
     (let query = [(''log_level'', monitor_log_level_as_str (monitor_options_log_level options)),
        (''log_format'', monitor_log_format_as_str (monitor_options_log_format options))] in
      sbind (request_sys_stream_internal env cl ''GET'' ''sys/monitor'' query [200]) (\<lambda>response.
        pure (Inr (monitor_stream_new (body_of response) options))))"

section \<open>A consumer\<close>

definition body_weight :: "body_poll list \<Rightarrow> nat" where
  "body_weight body = (\<Sum>p \<leftarrow> body. case p of BodyReady c \<Rightarrow> 2 + length c | _ \<Rightarrow> 1)"

definition monitor_weight :: "monitor_stream \<Rightarrow> nat" where
  "monitor_weight s = (if ms_terminal s then 0
     else Suc (body_weight (ms_body s) + (case ms_chunk s of None \<Rightarrow> 0
       | Some c \<Rightarrow> Suc (length c - ms_chunk_offset s))))"

lemma body_weight_simps [simp]:
  "body_weight [] = 0"
  "body_weight (BodyPending # b) = Suc (body_weight b)"
  "body_weight (BodyReady c # b) = Suc (Suc (length c + body_weight b))"
  "body_weight (BodyFailed e # b) = Suc (body_weight b)"
  by (simp_all add: body_weight_def)

lemma take_chunk_weight:
  "take_chunk s = (r, s') \<Longrightarrow> \<not> ms_terminal s \<Longrightarrow>
   monitor_weight s' < monitor_weight s \<or> r = None \<and> s' = s \<and> ms_chunk s = None"
  unfolding take_chunk_def monitor_weight_def frame_too_large_def finish_frame_def sanitize_chunk_def Let_def
  by (auto split: option.splits if_splits)

lemma poll_body_weight:
  "poll_body s = (r, s') \<Longrightarrow> \<not> ms_terminal s \<Longrightarrow> ms_chunk s = None \<Longrightarrow>
   monitor_weight s' < monitor_weight s"
  unfolding poll_body_def monitor_weight_def finish_frame_def sanitize_chunk_def Let_def
  by (auto split: list.splits body_poll.splits if_splits)

lemma take_chunk_None:
  "take_chunk s = (None, s') \<Longrightarrow> ms_chunk s' = None \<and> ms_terminal s' = ms_terminal s"
  unfolding take_chunk_def frame_too_large_def finish_frame_def sanitize_chunk_def Let_def
  by (auto split: option.splits if_splits)

lemma poll_body_None: "poll_body s = (None, s') \<Longrightarrow> ms_terminal s' = ms_terminal s"
  unfolding poll_body_def finish_frame_def sanitize_chunk_def Let_def
  by (auto split: list.splits body_poll.splits if_splits)

lemma monitor_loop_weight:
  "monitor_loop budget s = (r, s') \<Longrightarrow> \<not> ms_terminal s \<Longrightarrow>
   monitor_weight s' < monitor_weight s \<or> budget = 0 \<and> monitor_weight s' \<le> monitor_weight s"
proof (induction budget arbitrary: s)
  case 0
  then show ?case using take_chunk_weight [of s]
    by (subst (asm) monitor_loop.simps) (fastforce split: prod.splits option.splits)
next
  case (Suc budget)
  obtain a t where t: "take_chunk s = (a, t)" by fastforce
  obtain b u where u: "poll_body t = (b, u)" by fastforce
  note w = take_chunk_weight [OF t Suc.prems(2)]
  show ?case
  proof (cases a)
    case (Some x)
    with Suc.prems t w show ?thesis by (auto simp: monitor_loop.simps)
  next
    case None
    with t take_chunk_None [of s t] Suc.prems have live: "\<not> ms_terminal t" "ms_chunk t = None" by auto
    note v = poll_body_weight [OF u live]
    show ?thesis
    proof (cases b)
      case (Some x)
      with Suc.prems(1) t u None v w show ?thesis by (auto simp: monitor_loop.simps)
    next
      case n: None
      with u live poll_body_None [of t u] have "\<not> ms_terminal u" by simp
      moreover from Suc.prems(1) have "monitor_loop budget u = (r, s')"
        by (subst (asm) monitor_loop.simps) (simp add: t u None n)
      ultimately have "monitor_weight s' \<le> monitor_weight u"
        using Suc.IH by fastforce
      with v w show ?thesis by auto
    qed
  qed
qed

lemma monitor_poll_weight:
  "monitor_poll_next s = (r, s') \<Longrightarrow> r \<noteq> MonitorEnd \<Longrightarrow> monitor_weight s' < monitor_weight s"
  using monitor_loop_weight [of MAX_MONITOR_CHUNKS_PER_POLL s r s']
  by (auto simp: monitor_poll_next_def MAX_MONITOR_CHUNKS_PER_POLL_def split: if_splits)

text \<open>A consumer that polls until the stream ends.\<close>

function monitor_collect :: "monitor_stream \<Rightarrow> monitor_frame res list \<times> monitor_stream" where
  "monitor_collect s =
     (case monitor_poll_next s of
        (MonitorEnd, s') \<Rightarrow> ([], s')
      | (MonitorPending woken, s') \<Rightarrow> monitor_collect s'
      | (MonitorReady r, s') \<Rightarrow> (let (rs, s'') = monitor_collect s' in (r # rs, s'')))"
  by pat_completeness auto
termination
  by (relation "measure monitor_weight") (auto dest: monitor_poll_weight [OF sym])

declare monitor_collect.simps [simp del]

section \<open>The frames do not depend on the chunks\<close>

text \<open>The reference: the bytes of the body up to its end or its first failure, one at a time.\<close>

fun body_bytes :: "body_poll list \<Rightarrow> (char + error) list" where
  "body_bytes [] = []"
| "body_bytes (BodyPending # body) = body_bytes body"
| "body_bytes (BodyFailed e # body) = [Inr e]"
| "body_bytes (BodyReady chunk # body) =
     (if MAX_MONITOR_TRANSPORT_CHUNK_BYTES < length chunk
      then [Inr (Decode ''OpenBao monitor transport chunk exceeds internal limit'')]
      else map Inl chunk @ body_bytes body)"

fun frames_of :: "nat \<Rightarrow> string \<Rightarrow> (char + error) list \<Rightarrow> string res list" where
  "frames_of limit line [] = (if line = [] then [] else [Inr line])"
| "frames_of limit line (Inr e # bytes) = [Inl e]"
| "frames_of limit line (Inl c # bytes) =
     (if c = line_feed then Inr line # frames_of limit [] bytes
      else if limit \<le> length line then [Inl (Decode ''OpenBao monitor frame exceeds configured limit'')]
      else frames_of limit (line @ [c]) bytes)"

lemma frames_of_line:
  "line_feed \<notin> set xs \<Longrightarrow> length line \<le> limit \<Longrightarrow>
   frames_of limit line (map Inl xs @ bytes) =
     (if limit < length line + length xs then [Inl (Decode ''OpenBao monitor frame exceeds configured limit'')]
      else frames_of limit (line @ xs) bytes)"
  by (induction xs arbitrary: line) auto

lemma line_feed_split:
  "line_feed \<in> set xs \<Longrightarrow>
   xs = takeWhile (\<lambda>c. c \<noteq> line_feed) xs @ line_feed #
     drop (Suc (length (takeWhile (\<lambda>c. c \<noteq> line_feed) xs))) xs"
  by (induction xs) auto

lemma frames_of_newline:
  assumes "newline_position xs = Some n" "length line \<le> limit"
  shows "frames_of limit line (map Inl xs @ bytes) =
     (if limit < length line + n then [Inl (Decode ''OpenBao monitor frame exceeds configured limit'')]
      else Inr (line @ take n xs) # frames_of limit [] (map Inl (drop (Suc n) xs) @ bytes))"
proof -
  let ?l = "takeWhile (\<lambda>c. c \<noteq> line_feed) xs"
  from assms have n: "n = length ?l" and lf: "line_feed \<in> set xs"
    by (auto simp: newline_position_def split: if_splits)
  have x: "map Inl xs = map Inl ?l @ (Inl line_feed :: char + error) # map Inl (drop (Suc n) xs)"
    using arg_cong [OF line_feed_split [OF lf], of "map Inl"] by (simp add: n)
  have "line_feed \<notin> set ?l" by (auto dest: set_takeWhileD)
  moreover have "take n xs = ?l" unfolding n by (rule takeWhile_eq_take [symmetric])
  moreover have "length ?l = n" by (simp add: n)
  moreover have "frames_of limit line (map Inl ?l @ (Inl line_feed :: char + error) #
      map Inl (drop (Suc n) xs) @ bytes) =
    (if limit < length line + length ?l
     then [Inl (Decode ''OpenBao monitor frame exceeds configured limit'')]
     else frames_of limit (line @ ?l) (Inl line_feed # map Inl (drop (Suc n) xs) @ bytes))"
    using assms(2) calculation(1) by (rule frames_of_line [rotated])
  ultimately show ?thesis by (subst x) simp
qed

definition monitor_ok :: "monitor_stream \<Rightarrow> bool" where
  "monitor_ok s \<longleftrightarrow> length (ms_pending s) \<le> ms_max_frame_bytes s \<and>
     (case ms_chunk s of None \<Rightarrow> ms_chunk_offset s = 0 | Some c \<Rightarrow> ms_chunk_offset s < length c)"

definition bytes_left :: "monitor_stream \<Rightarrow> (char + error) list" where
  "bytes_left s = (case ms_chunk s of None \<Rightarrow> [] | Some c \<Rightarrow> map Inl (drop (ms_chunk_offset s) c)) @
     body_bytes (ms_body s)"

definition frames_left :: "monitor_stream \<Rightarrow> string res list" where
  "frames_left s = (if ms_terminal s then []
     else frames_of (ms_max_frame_bytes s) (ms_pending s) (bytes_left s))"

definition as_frame :: "monitor_stream \<Rightarrow> string res \<Rightarrow> monitor_frame res" where
  "as_frame s = rmap (\<lambda>c. \<lparr>monitor_frame_format = ms_format s, monitor_frame_contents = c\<rparr>)"

definition advances :: "monitor_stream \<Rightarrow> monitor_poll option \<Rightarrow> monitor_stream \<Rightarrow> bool" where
  "advances s r s' \<longleftrightarrow> ms_format s' = ms_format s \<and> ms_max_frame_bytes s' = ms_max_frame_bytes s \<and>
     (ms_terminal s' \<or> monitor_ok s') \<and>
     (case r of
        Some MonitorEnd \<Rightarrow> frames_left s = [] \<and> ms_terminal s'
      | Some (MonitorReady x) \<Rightarrow>
          (\<exists>y. x = as_frame s y \<and> frames_left s = y # frames_left s')
      | _ \<Rightarrow> \<not> ms_terminal s' \<and> frames_left s' = frames_left s)"

lemma newline_None: "newline_position xs = None \<longleftrightarrow> line_feed \<notin> set xs"
  by (simp add: newline_position_def)

lemma newline_less: "newline_position xs = Some n \<Longrightarrow> n < length xs"
  by (auto simp: newline_position_def split: if_splits) (metis length_append length_Cons
      less_add_Suc1 line_feed_split add_Suc_right)

lemma take_chunk_advances:
  assumes "monitor_ok s" "\<not> ms_terminal s" "take_chunk s = (r, s')"
  shows "advances s r s'"
proof (cases "ms_chunk s")
  case None
  with assms show ?thesis by (auto simp: take_chunk_def advances_def)
next
  case (Some chunk)
  define rest where "rest = drop (ms_chunk_offset s) chunk"
  note drop_rest = rest_def [symmetric]
  have ok: "length (ms_pending s) \<le> ms_max_frame_bytes s" "ms_chunk_offset s < length chunk"
    using assms(1) Some by (auto simp: monitor_ok_def)
  show ?thesis
  proof (cases "newline_position rest")
    case None
    then have "line_feed \<notin> set rest" by (simp add: newline_None)
    note f = frames_of_line [OF this ok(1)]
    from assms(2,3) None Some ok f show ?thesis
      by (auto simp: take_chunk_def advances_def frames_left_def bytes_left_def frame_too_large_def
          sanitize_chunk_def monitor_ok_def as_frame_def Let_def drop_rest split: if_splits)
  next
    case n: (Some n)
    note f = frames_of_newline [OF n ok(1)]
    have after: "drop (Suc (ms_chunk_offset s + n)) chunk = drop (Suc n) rest"
      by (simp add: rest_def add.commute)
    have "drop (Suc n) rest = []" if "\<not> Suc (ms_chunk_offset s + n) < length chunk"
      using that by (simp add: rest_def)
    with assms(2,3) n Some ok f after show ?thesis
      by (auto simp: take_chunk_def advances_def frames_left_def bytes_left_def frame_too_large_def
          finish_frame_def sanitize_chunk_def monitor_ok_def as_frame_def Let_def drop_rest
          split: if_splits)
  qed
qed

lemma poll_body_advances:
  assumes "monitor_ok s" "\<not> ms_terminal s" "ms_chunk s = None" "poll_body s = (r, s')"
  shows "advances s r s'"
  using assms unfolding poll_body_def
  by (auto simp: advances_def frames_left_def bytes_left_def finish_frame_def
      sanitize_chunk_def monitor_ok_def as_frame_def Let_def split: list.splits body_poll.splits if_splits)

lemma advances_trans: "advances s None t \<Longrightarrow> advances t r u \<Longrightarrow> advances s r u"
  by (auto simp: advances_def as_frame_def split: option.splits monitor_poll.splits)

lemma monitor_loop_advances:
  "monitor_ok s \<Longrightarrow> \<not> ms_terminal s \<Longrightarrow> monitor_loop budget s = (r, s') \<Longrightarrow> advances s (Some r) s'"
proof (induction budget arbitrary: s)
  case 0
  obtain a t where t: "take_chunk s = (a, t)" by fastforce
  from take_chunk_advances [OF 0(1,2) t] 0(3) t show ?case
    by (cases a) (auto simp: monitor_loop.simps advances_def)
next
  case (Suc budget)
  obtain a t where t: "take_chunk s = (a, t)" by fastforce
  obtain b u where u: "poll_body t = (b, u)" by fastforce
  note first = take_chunk_advances [OF Suc.prems(1,2) t]
  show ?case
  proof (cases a)
    case (Some x)
    with Suc.prems(3) t first show ?thesis by (auto simp: monitor_loop.simps)
  next
    case None
    with t take_chunk_None [of s t] first Suc.prems(2) have live: "monitor_ok t" "\<not> ms_terminal t"
      "ms_chunk t = None" by (auto simp: advances_def)
    note second = poll_body_advances [OF live u]
    show ?thesis
    proof (cases b)
      case (Some x)
      with Suc.prems(3) t u None second first show ?thesis
        by (auto simp: monitor_loop.simps intro: advances_trans)
    next
      case n: None
      with second have "monitor_ok u" "\<not> ms_terminal u" by (auto simp: advances_def)
      moreover from Suc.prems(3) have "monitor_loop budget u = (r, s')"
        by (subst (asm) monitor_loop.simps) (simp add: t u None n)
      ultimately have "advances u (Some r) s'" by (rule Suc.IH)
      with first second None n show ?thesis by (blast intro: advances_trans)
    qed
  qed
qed

lemma monitor_collect_frames:
  "ms_terminal s \<or> monitor_ok s \<Longrightarrow>
   fst (monitor_collect s) = map (as_frame s) (frames_left s) \<and> ms_terminal (snd (monitor_collect s))"
proof (induction s rule: monitor_collect.induct)
  case (1 s)
  obtain r t where p: "monitor_poll_next s = (r, t)" by fastforce
  show ?case
  proof (cases "ms_terminal s")
    case True
    with p show ?thesis
      by (subst (1 2) monitor_collect.simps) (auto simp: monitor_poll_next_def frames_left_def)
  next
    case False
    with 1(3) p have a: "advances s (Some r) t"
      by (auto simp: monitor_poll_next_def intro: monitor_loop_advances)
    then have f: "as_frame t = as_frame s" by (simp add: advances_def as_frame_def)
    show ?thesis
    proof (cases r)
      case MonitorEnd
      with p a show ?thesis by (subst (1 2) monitor_collect.simps) (simp add: advances_def)
    next
      case (MonitorPending w)
      with p have "monitor_collect s = monitor_collect t"
        by (subst monitor_collect.simps) simp
      with a 1(1) [OF p [symmetric] MonitorPending] MonitorPending f show ?thesis
        by (auto simp: advances_def)
    next
      case (MonitorReady x)
      with p have "monitor_collect s = (x # fst (monitor_collect t), snd (monitor_collect t))"
        by (subst monitor_collect.simps) (simp split: prod.split)
      with a 1(2) [OF p [symmetric] MonitorReady] MonitorReady f show ?thesis
        by (auto simp: advances_def)
    qed
  qed
qed

text \<open>C20:
  However the body of the response is cut into chunks and however often its polls are pending, the consumer
  of a log stream gets the same frames: the lines of the bytes before the end or the first failure, the last
  one without its line feed if it is not empty, each in the format that was asked for, up to the first line
  longer than the limit, which is an error and the last item. Failures of the body and chunks over a
  mebibyte are passed on as the last item and drop the unfinished line.\<close>

theorem monitor_frames_eq:
  "fst (monitor_collect (monitor_stream_new body options)) =
   map (rmap (\<lambda>line. \<lparr>monitor_frame_format = monitor_options_log_format options,
       monitor_frame_contents = line\<rparr>))
     (frames_of (monitor_options_max_frame_bytes options) [] (body_bytes body))"
proof -
  have "monitor_ok (monitor_stream_new body options)"
    by (simp add: monitor_ok_def monitor_stream_new_def)
  then show ?thesis
    by (simp add: monitor_collect_frames as_frame_def frames_left_def bytes_left_def monitor_stream_new_def)
qed

section \<open>What a stream keeps\<close>

definition chunks_of :: "body_poll list \<Rightarrow> string list" where
  "chunks_of body = concat (map (\<lambda>p. case p of BodyReady c \<Rightarrow> (if c = [] then [] else [c]) | _ \<Rightarrow> []) body)"

definition held_chunks :: "monitor_stream \<Rightarrow> string list" where
  "held_chunks s = ms_sanitized s @ (case ms_chunk s of None \<Rightarrow> [] | Some c \<Rightarrow> [c])"

text \<open>A step that takes at most \<open>k\<close> polls of the body loses no chunk and stays within the limit.\<close>

definition keeps :: "nat \<Rightarrow> monitor_stream \<Rightarrow> monitor_stream \<Rightarrow> bool" where
  "keeps k s s' \<longleftrightarrow> ms_max_frame_bytes s' = ms_max_frame_bytes s \<and>
     (length (ms_pending s) \<le> ms_max_frame_bytes s \<longrightarrow> length (ms_pending s') \<le> ms_max_frame_bytes s) \<and>
     (\<exists>used. ms_body s = used @ ms_body s' \<and> length used \<le> k \<and>
       held_chunks s' = held_chunks s @ chunks_of used)"

lemma chunks_of_append: "chunks_of (a @ b) = chunks_of a @ chunks_of b"
  by (simp add: chunks_of_def)

lemma keeps_refl: "keeps k s s"
  by (auto simp: keeps_def chunks_of_def)

lemma keeps_trans: "keeps j s t \<Longrightarrow> keeps k t u \<Longrightarrow> keeps (j + k) s u"
  unfolding keeps_def
  by (auto simp: chunks_of_append)

lemma take_chunk_keeps: "take_chunk s = (r, s') \<Longrightarrow> keeps 0 s s'"
  unfolding take_chunk_def
  by (auto simp: keeps_def held_chunks_def chunks_of_def frame_too_large_def finish_frame_def
      sanitize_chunk_def Let_def split: option.splits if_splits)

lemma poll_body_keeps:
  assumes "poll_body s = (r, s')" "ms_chunk s = None"
  shows "keeps (Suc 0) s s'"
proof (cases "ms_body s")
  case Nil
  with assms show ?thesis
    by (auto simp: poll_body_def keeps_def held_chunks_def chunks_of_def finish_frame_def Let_def split: if_splits)
next
  case (Cons p rest)
  with assms show ?thesis
    by (auto simp: poll_body_def keeps_def held_chunks_def chunks_of_def sanitize_chunk_def Let_def
        intro!: exI [of _ "[p]"] split: body_poll.splits if_splits)
qed

lemma monitor_loop_keeps: "monitor_loop budget s = (r, s') \<Longrightarrow> keeps budget s s'"
proof (induction budget arbitrary: s)
  case 0
  then show ?case
    by (subst (asm) monitor_loop.simps) (auto split: prod.splits option.splits dest: take_chunk_keeps)
next
  case (Suc budget)
  obtain a t where t: "take_chunk s = (a, t)" by fastforce
  obtain b u where u: "poll_body t = (b, u)" by fastforce
  note first = take_chunk_keeps [OF t]
  show ?case
  proof (cases a)
    case (Some x)
    with Suc.prems t first keeps_trans [OF _ keeps_refl, of 0 s t "Suc budget"] show ?thesis
      by (auto simp: monitor_loop.simps)
  next
    case None
    with t take_chunk_None [of s t] have "ms_chunk t = None" by simp
    with first have second: "keeps (Suc 0) s u" using keeps_trans poll_body_keeps [OF u] by fastforce
    show ?thesis
    proof (cases b)
      case (Some x)
      with Suc.prems t u None second keeps_trans [OF _ keeps_refl, of "Suc 0" s u budget] show ?thesis
        by (auto simp: monitor_loop.simps)
    next
      case n: None
      from Suc.prems have "monitor_loop budget u = (r, s')"
        by (subst (asm) monitor_loop.simps) (simp add: t u None n)
      from keeps_trans [OF second Suc.IH [OF this]] show ?thesis by simp
    qed
  qed
qed

lemma monitor_poll_keeps: "keeps MAX_MONITOR_CHUNKS_PER_POLL s (snd (monitor_poll_next s))"
  by (cases "monitor_loop MAX_MONITOR_CHUNKS_PER_POLL s")
    (auto simp: monitor_poll_next_def keeps_refl dest: monitor_loop_keeps)

lemma monitor_polls_keep:
  "keeps (n * MAX_MONITOR_CHUNKS_PER_POLL) s (((snd \<circ> monitor_poll_next) ^^ n) s)"
proof (induction n)
  case 0
  show ?case by (simp add: keeps_refl)
next
  case (Suc n)
  from keeps_trans [OF Suc monitor_poll_keeps] show ?case by (simp add: add.commute)
qed

text \<open>C29:
  After any number of polls, and after the stream is dropped wherever it then stands, the unfinished line has
  never been longer than the limit and is gone, every chunk that was taken from the body has been handed to
  the sanitiser once and in order, and a poll of the stream has polled the body at most 64 times.\<close>

theorem monitor_stream_hygiene:
  "case ((snd \<circ> monitor_poll_next) ^^ n) (monitor_stream_new body options) of s \<Rightarrow>
     length (ms_pending s) \<le> monitor_options_max_frame_bytes options \<and>
     ms_pending (monitor_drop s) = [] \<and>
     (\<exists>polled. body = polled @ ms_body s \<and> length polled \<le> 64 * n \<and>
        ms_sanitized (monitor_drop s) = chunks_of polled)"
proof -
  let ?s = "((snd \<circ> monitor_poll_next) ^^ n) (monitor_stream_new body options)"
  have "ms_sanitized (monitor_drop ?s) = held_chunks ?s" "ms_pending (monitor_drop ?s) = []"
    by (auto simp: monitor_drop_def held_chunks_def sanitize_chunk_def split: option.split)
  with monitor_polls_keep [of n "monitor_stream_new body options"] show ?thesis
    by (auto simp: keeps_def held_chunks_def monitor_stream_new_def MAX_MONITOR_CHUNKS_PER_POLL_def
        mult.commute)
qed

section \<open>Where the request goes\<close>

lemma sys_monitor_safe: "sent_safe env cl (sys_monitor env cl body_of options)"
  unfolding sys_monitor_def Let_def by (intro sent_safe_bind request_sys_stream_safe) simp

end
