(* ===== verification/Bao_Waiting.thy ===== *)
theory Bao_Waiting
  imports Bao_Retry Bao_Sys_Routes
begin

text \<open>
  The polling loops of \<open>sys.rs\<close> that wait for a server, \<open>wait_until_unsealed_with_delay\<close> and
  \<open>wait_ready_with_delay\<close>. The surroundings of the requests are given by their number, and the time that has
  passed since the start is a function of the delays asked for so far. A loop that never returns has no
  value; that it returns is proved for every clock that moves on by the delays.
\<close>

section \<open>The statuses\<close>

record health =
  node_initialized :: bool
  node_sealed :: bool
  node_standby :: bool
  node_version :: string
  node_cluster_name :: "string option"
  node_cluster_id :: "string option"

record seal_status =
  seal_kind :: string
  seal_initialized :: bool
  seal_sealed :: bool
  seal_shares :: "64 word option"
  seal_threshold :: "64 word option"
  seal_progress :: "64 word option"
  seal_version :: string

section \<open>The loops\<close>

text \<open>\<open>saturating_sub\<close> of the standard library, borrow included.\<close>

definition duration_checked_sub :: "std_duration \<Rightarrow> std_duration \<Rightarrow> std_duration option" where
  "duration_checked_sub a b =
     (if as_secs a < as_secs b then None
      else
        (let secs = as_secs a - as_secs b in
         if subsec_nanos b \<le> subsec_nanos a
         then Some \<lparr>as_secs = secs, subsec_nanos = subsec_nanos a - subsec_nanos b\<rparr>
         else if secs < 1 then None
         else Some \<lparr>as_secs = secs - 1, subsec_nanos = subsec_nanos a + 1000000000 - subsec_nanos b\<rparr>))"

definition duration_saturating_sub :: "std_duration \<Rightarrow> std_duration \<Rightarrow> std_duration" where
  "duration_saturating_sub a b =
     (case duration_checked_sub a b of Some r \<Rightarrow> r | None \<Rightarrow> \<lparr>as_secs = 0, subsec_nanos = 0\<rparr>)"

type_synonym sent_requests = "(http_settings \<times> http_request) list"

text \<open>
  The loop both functions have, with its request, its condition and its error. The answer comes with the
  requests sent and the delays asked for.
\<close>

partial_function (option) wait_loop ::
  "(nat \<Rightarrow> 'a sent) \<Rightarrow> ('a \<Rightarrow> bool) \<Rightarrow> (std_duration list \<Rightarrow> std_duration) \<Rightarrow> std_duration \<Rightarrow>
   std_duration \<Rightarrow> error \<Rightarrow> std_duration list \<Rightarrow> sent_requests \<Rightarrow>
   ('a res \<times> sent_requests \<times> std_duration list) option" where
  "wait_loop status ready elapsed budget interval late delays reqs =
     (let (r, s) = status (length delays); reqs = reqs @ s in
      if (case r of Inr v \<Rightarrow> ready v | Inl e \<Rightarrow> \<not> is_temporary e) then Some (r, reqs, delays)
      else if \<not> duration_less (elapsed delays) budget then Some (Inl late, reqs, delays)
      else wait_loop status ready elapsed budget interval late
        (delays @ [duration_min interval (duration_saturating_sub budget (elapsed delays))]) reqs)"

declare wait_loop.simps [code]

definition sys_wait_until_unsealed_with_delay ::
  "(nat \<Rightarrow> http_env) \<Rightarrow> client \<Rightarrow> (string \<Rightarrow> seal_status option) \<Rightarrow>
   (std_duration list \<Rightarrow> std_duration) \<Rightarrow> std_duration \<Rightarrow> std_duration \<Rightarrow>
   (seal_status res \<times> sent_requests \<times> std_duration list) option" where
  "sys_wait_until_unsealed_with_delay env cl from_json elapsed budget interval =
     (if duration_is_zero budget
      then Some (Inl (InvalidTimeout ''OpenBao unseal wait timeout must be greater than zero''), [], [])
      else if duration_is_zero interval
      then Some (Inl (InvalidTimeout ''OpenBao unseal wait poll interval must be greater than zero''), [], [])
      else wait_loop (\<lambda>i. sys_seal_status (env i) cl from_json)
        (\<lambda>status. seal_initialized status \<and> \<not> seal_sealed status) elapsed budget interval
        (InvalidTimeout ''OpenBao did not become unsealed within timeout'') [] [])"

definition sys_wait_ready_with_delay ::
  "(nat \<Rightarrow> http_env) \<Rightarrow> client \<Rightarrow> (string \<Rightarrow> health option) \<Rightarrow>
   (std_duration list \<Rightarrow> std_duration) \<Rightarrow> std_duration \<Rightarrow> std_duration \<Rightarrow>
   (health res \<times> sent_requests \<times> std_duration list) option" where
  "sys_wait_ready_with_delay env cl from_json elapsed budget interval =
     (if duration_is_zero budget
      then Some (Inl (InvalidTimeout ''OpenBao readiness timeout must be greater than zero''), [], [])
      else if duration_is_zero interval
      then Some (Inl (InvalidTimeout ''OpenBao readiness poll interval must be greater than zero''), [], [])
      else wait_loop (\<lambda>i. sys_health (env i) cl from_json)
        (\<lambda>health. node_initialized health \<and> \<not> node_sealed health \<and> \<not> node_standby health)
        elapsed budget interval
        (InvalidTimeout ''OpenBao did not become ready within timeout'') [] [])"

section \<open>Clocks\<close>

lemma saturating_sub_nanos:
  assumes "dur_ok a" "dur_ok b" "dur_nanos b \<le> dur_nanos a"
  shows "dur_ok (duration_saturating_sub a b) \<and>
    dur_nanos (duration_saturating_sub a b) = dur_nanos a - dur_nanos b"
proof -
  have le: "unat (as_secs b) \<le> unat (as_secs a)"
    using assms unfolding dur_ok_def dur_nanos_def by arith
  have strict: "unat (as_secs b) < unat (as_secs a)"
    if "unat (subsec_nanos a) < unat (subsec_nanos b)"
    using assms that unfolding dur_ok_def dur_nanos_def by arith
  have secs: "unat (as_secs a - as_secs b) = unat (as_secs a) - unat (as_secs b)"
    using le by (simp add: unat_sub word_le_nat_alt)
  show ?thesis
  proof (cases "subsec_nanos b \<le> subsec_nanos a")
    case True
    then have "unat (subsec_nanos a - subsec_nanos b) = unat (subsec_nanos a) - unat (subsec_nanos b)"
      "unat (subsec_nanos b) \<le> unat (subsec_nanos a)"
      by (simp_all add: unat_sub word_le_nat_alt)
    with True le secs assms show ?thesis
      by (auto simp: duration_saturating_sub_def duration_checked_sub_def word_less_nat_alt dur_ok_def
          dur_nanos_def diff_mult_distrib)
  next
    case False
    then have lt: "unat (subsec_nanos a) < unat (subsec_nanos b)" by (simp add: word_le_nat_alt)
    have sum: "unat (subsec_nanos a + 1000000000) = unat (subsec_nanos a) + 1000000000"
      using assms(1) by (simp add: dur_ok_def unat_word_ariths)
    have nanos: "unat (subsec_nanos a + 1000000000 - subsec_nanos b) =
        unat (subsec_nanos a) + 1000000000 - unat (subsec_nanos b)"
      using assms(2) by (subst unat_sub) (simp_all add: word_le_nat_alt sum dur_ok_def)
    have one: "unat (as_secs a - as_secs b - 1) = unat (as_secs a) - unat (as_secs b) - 1"
      "\<not> as_secs a - as_secs b < 1"
      using strict [OF lt] secs by (simp_all add: unat_sub word_le_nat_alt word_less_nat_alt)
    have "duration_saturating_sub a b = \<lparr>as_secs = as_secs a - as_secs b - 1,
        subsec_nanos = subsec_nanos a + 1000000000 - subsec_nanos b\<rparr>"
      using False le one(2) by (simp add: duration_saturating_sub_def duration_checked_sub_def word_less_nat_alt)
    then have result: "unat (as_secs (duration_saturating_sub a b)) = unat (as_secs a) - unat (as_secs b) - 1"
      "unat (subsec_nanos (duration_saturating_sub a b)) =
        unat (subsec_nanos a) + 1000000000 - unat (subsec_nanos b)"
      by (simp_all only: std_duration.select_convs one(1) nanos)
    have bounds: "unat (subsec_nanos b) < 1000000000" using assms(2) by (simp add: dur_ok_def)
    show ?thesis
      unfolding dur_ok_def dur_nanos_def result using strict [OF lt] lt bounds by arith
  qed
qed

text \<open>A clock that has moved on by at least every delay that was asked for, as far as the time limit.\<close>

definition clock_advances :: "std_duration \<Rightarrow> (std_duration list \<Rightarrow> std_duration) \<Rightarrow> bool" where
  "clock_advances budget elapsed \<longleftrightarrow>
     (\<forall>ds. list_all dur_ok ds \<longrightarrow> dur_ok (elapsed ds)) \<and>
     (\<forall>ds d. list_all dur_ok ds \<and> dur_ok d \<and> dur_nanos (elapsed ds) + dur_nanos d \<le> dur_nanos budget \<longrightarrow>
        dur_nanos (elapsed ds) + dur_nanos d \<le> dur_nanos (elapsed (ds @ [d])))"

section \<open>The loop returns\<close>

definition attempt_decides :: "(nat \<Rightarrow> 'a sent) \<Rightarrow> ('a \<Rightarrow> bool) \<Rightarrow> nat \<Rightarrow> bool" where
  "attempt_decides status ready i \<longleftrightarrow>
     (case fst (status i) of Inr v \<Rightarrow> ready v | Inl e \<Rightarrow> \<not> is_temporary e)"

text \<open>
  What it means to have waited: the attempts but the last one were not ready or failed temporarily, the last
  one decides or came after the time limit, every delay is positive and at most the interval, and there are
  no more of them than whole intervals begun within the limit.
\<close>

definition waited_ok ::
  "(nat \<Rightarrow> 'a sent) \<Rightarrow> ('a \<Rightarrow> bool) \<Rightarrow> (std_duration list \<Rightarrow> std_duration) \<Rightarrow> std_duration \<Rightarrow>
   std_duration \<Rightarrow> error \<Rightarrow> 'a res \<times> sent_requests \<times> std_duration list \<Rightarrow> bool" where
  "waited_ok status ready elapsed budget interval late = (\<lambda>(r, reqs, delays).
     (\<forall>i < length delays. \<not> attempt_decides status ready i) \<and>
     (if attempt_decides status ready (length delays) then r = fst (status (length delays))
      else r = Inl late \<and> dur_nanos budget \<le> dur_nanos (elapsed delays)) \<and>
     reqs = concat (map (\<lambda>i. snd (status i)) [0..<Suc (length delays)]) \<and>
     list_all (\<lambda>d. dur_ok d \<and> 0 < dur_nanos d \<and> dur_nanos d \<le> dur_nanos interval) delays \<and>
     (length delays - 1) * dur_nanos interval < dur_nanos budget)"

lemma wait_loop_step:
  "wait_loop status ready elapsed budget interval late delays reqs =
     (if attempt_decides status ready (length delays)
      then Some (fst (status (length delays)), reqs @ snd (status (length delays)), delays)
      else if \<not> duration_less (elapsed delays) budget
      then Some (Inl late, reqs @ snd (status (length delays)), delays)
      else wait_loop status ready elapsed budget interval late
        (delays @ [duration_min interval (duration_saturating_sub budget (elapsed delays))])
        (reqs @ snd (status (length delays))))"
  by (subst wait_loop.simps) (simp add: attempt_decides_def Let_def split: prod.split)

lemma wait_loop_returns:
  assumes budget: "dur_ok budget" "0 < dur_nanos budget"
    and interval: "dur_ok interval" "0 < dur_nanos interval"
    and clock: "clock_advances budget elapsed"
    and delays: "list_all (\<lambda>d. dur_ok d \<and> 0 < dur_nanos d \<and> dur_nanos d \<le> dur_nanos interval) delays"
    and pace: "dur_nanos (elapsed delays) < dur_nanos budget \<Longrightarrow>
      length delays * dur_nanos interval \<le> dur_nanos (elapsed delays)"
    and few: "(length delays - 1) * dur_nanos interval < dur_nanos budget"
    and before: "\<forall>i < length delays. \<not> attempt_decides status ready i"
    and reqs: "reqs = concat (map (\<lambda>i. snd (status i)) [0..<length delays])"
  shows "\<exists>w. wait_loop status ready elapsed budget interval late delays reqs = Some w \<and>
    waited_ok status ready elapsed budget interval late w"
  using delays pace few before reqs
proof (induction "dur_nanos budget - dur_nanos (elapsed delays)" arbitrary: delays reqs rule: less_induct)
  case less
  let ?n = "length delays" and ?E = "elapsed delays"
  have ok: "list_all dur_ok delays" using less.prems(1) by (simp add: list_all_iff)
  then have E: "dur_ok ?E" using clock by (simp add: clock_advances_def)
  note less_iff = duration_less_iff [OF E budget(1)]
  show ?case
  proof (cases "attempt_decides status ready ?n \<or> \<not> duration_less ?E budget")
    case True
    with less.prems less_iff show ?thesis
      by (subst wait_loop_step) (auto simp: waited_ok_def)
  next
    case False
    then have undecided: "\<not> attempt_decides status ready ?n" and time: "dur_nanos ?E < dur_nanos budget"
      by (simp_all add: less_iff)
    define d where "d = duration_min interval (duration_saturating_sub budget ?E)"
    have d: "dur_ok d" "dur_nanos d = min (dur_nanos interval) (dur_nanos budget - dur_nanos ?E)"
      using saturating_sub_nanos [OF budget(1) E] dur_nanos_min [OF interval(1)] time
      by (auto simp: d_def)
    have fits: "dur_nanos ?E + dur_nanos d \<le> dur_nanos budget" using d(2) time by simp
    then have moved: "dur_nanos ?E + dur_nanos d \<le> dur_nanos (elapsed (delays @ [d]))"
      using clock ok d(1) unfolding clock_advances_def by blast
    have pace: "length (delays @ [d]) * dur_nanos interval \<le> dur_nanos (elapsed (delays @ [d]))"
      if "dur_nanos (elapsed (delays @ [d])) < dur_nanos budget"
      using that moved d(2) less.prems(2) [OF time] by (auto simp: min_def split: if_splits)
    have "\<exists>w. wait_loop status ready elapsed budget interval late (delays @ [d]) (reqs @ snd (status ?n)) =
        Some w \<and> waited_ok status ready elapsed budget interval late w"
    proof (rule less.hyps)
      show "dur_nanos budget - dur_nanos (elapsed (delays @ [d])) < dur_nanos budget - dur_nanos ?E"
        using moved d(2) time interval(2) by (auto simp: min_def split: if_splits)
      show "list_all (\<lambda>d. dur_ok d \<and> 0 < dur_nanos d \<and> dur_nanos d \<le> dur_nanos interval) (delays @ [d])"
        using less.prems(1) d time interval(2) by simp
      show "(length (delays @ [d]) - 1) * dur_nanos interval < dur_nanos budget"
        using less.prems(2) [OF time] time by simp
      show "\<forall>i < length (delays @ [d]). \<not> attempt_decides status ready i"
        using less.prems(4) undecided by (simp add: less_Suc_eq)
      show "reqs @ snd (status ?n) = concat (map (\<lambda>i. snd (status i)) [0..<length (delays @ [d])])"
        using less.prems(5) by simp
    qed (rule pace)
    with False show ?thesis by (subst wait_loop_step) (simp add: d_def)
  qed
qed

lemma wait_returns:
  assumes "clock_advances budget elapsed" "dur_ok budget" "dur_ok interval"
    "\<not> duration_is_zero budget" "\<not> duration_is_zero interval"
  shows "\<exists>w. wait_loop status ready elapsed budget interval late [] [] = Some w \<and>
    waited_ok status ready elapsed budget interval late w"
  by (rule wait_loop_returns) (use assms in \<open>auto simp: duration_is_zero_iff\<close>)

text \<open>C21:
  With a clock that moves on by the delays, both loops return: an empty time limit or interval is refused at
  once; otherwise the server is asked, and asked again after each answer that is not ready and each temporary
  error, until it is ready, fails for good, or the limit has passed. The delays are positive, at most the
  interval, and no more of them than there are intervals begun within the limit.\<close>

theorem sys_wait_returns:
  assumes "clock_advances budget elapsed" "dur_ok budget" "dur_ok interval"
  shows
    "(\<exists>w. sys_wait_until_unsealed_with_delay env cl from_json elapsed budget interval = Some w \<and>
       (if duration_is_zero budget
        then w = (Inl (InvalidTimeout ''OpenBao unseal wait timeout must be greater than zero''), [], [])
        else if duration_is_zero interval
        then w = (Inl (InvalidTimeout ''OpenBao unseal wait poll interval must be greater than zero''), [], [])
        else waited_ok (\<lambda>i. sys_seal_status (env i) cl from_json)
          (\<lambda>status. seal_initialized status \<and> \<not> seal_sealed status) elapsed budget interval
          (InvalidTimeout ''OpenBao did not become unsealed within timeout'') w)) \<and>
     (\<exists>w. sys_wait_ready_with_delay env cl of_health elapsed budget interval = Some w \<and>
       (if duration_is_zero budget
        then w = (Inl (InvalidTimeout ''OpenBao readiness timeout must be greater than zero''), [], [])
        else if duration_is_zero interval
        then w = (Inl (InvalidTimeout ''OpenBao readiness poll interval must be greater than zero''), [], [])
        else waited_ok (\<lambda>i. sys_health (env i) cl of_health)
          (\<lambda>h. node_initialized h \<and> \<not> node_sealed h \<and> \<not> node_standby h) elapsed budget interval
          (InvalidTimeout ''OpenBao did not become ready within timeout'') w))"
proof (rule conjI, goal_cases)
  case 1
  show ?case
    using wait_returns [OF assms, of "\<lambda>i. sys_seal_status (env i) cl from_json"]
    by (auto simp: sys_wait_until_unsealed_with_delay_def)
next
  case 2
  show ?case
    using wait_returns [OF assms, of "\<lambda>i. sys_health (env i) cl of_health"]
    by (auto simp: sys_wait_ready_with_delay_def)
qed

text \<open>The clock of an idle machine, on which nothing takes time but the delays.\<close>

definition idle_clock :: "std_duration list \<Rightarrow> std_duration" where
  "idle_clock ds = foldl duration_saturating_add \<lparr>as_secs = 0, subsec_nanos = 0\<rparr> ds"

lemma idle_clock_ok: "list_all dur_ok ds \<Longrightarrow> dur_ok (idle_clock ds)"
  by (induction ds rule: rev_induct)
    (auto simp: idle_clock_def saturating_add_nanos, simp add: dur_ok_def)

lemma dur_nanos_le: "dur_ok d \<Longrightarrow> dur_nanos d \<le> MAX_NANOS"
  using unsigned_less [of "as_secs d", where 'a = nat]
  by (simp add: dur_ok_def dur_nanos_def MAX_NANOS_def)

lemma idle_clock_advances: "dur_ok budget \<Longrightarrow> clock_advances budget idle_clock"
  unfolding clock_advances_def
  by (auto simp: idle_clock_ok)
    (use idle_clock_ok saturating_add_nanos dur_nanos_le in \<open>fastforce simp: idle_clock_def\<close>)

text \<open>On an idle machine, half a minute of waiting in steps of two seconds has at most fifteen delays.\<close>

theorem sys_wait_returns_witness:
  "\<forall>env cl of_health. \<exists>r requests delays.
     sys_wait_ready_with_delay env cl of_health idle_clock (duration_from_secs 30) (duration_from_secs 2) =
       Some (r, requests, delays) \<and> length delays \<le> 15"
proof (intro allI)
  fix env :: "nat \<Rightarrow> http_env" and cl :: client and of_health :: "string \<Rightarrow> health option"
  have ok: "dur_ok (duration_from_secs 30)" "dur_ok (duration_from_secs 2)"
    "dur_nanos (duration_from_secs 30) = 30000000000" "dur_nanos (duration_from_secs 2) = 2000000000"
    by (simp_all add: dur_ok_def dur_nanos_def duration_from_secs_def)
  from sys_wait_returns [OF idle_clock_advances [OF ok(1)] ok(1,2), THEN conjunct2, of env cl of_health]
  show "\<exists>r requests delays.
     sys_wait_ready_with_delay env cl of_health idle_clock (duration_from_secs 30) (duration_from_secs 2) =
       Some (r, requests, delays) \<and> length delays \<le> 15"
    by (auto simp: duration_is_zero_iff ok waited_ok_def)
qed

end
