(* ===== verification/Bao_Mldsa.thy ===== *)
theory Bao_Mldsa
  imports Bao_Transit Bao_External_Keys
begin

text \<open>
  The transit contracts of OpenBao 2.7, \<open>secrets/transit/extensions.rs\<close>: keys that refer to the registry of
  external keys, and ML-DSA keys with their import, signing and export. Strict Base64 is a parameter: the
  length it decodes to, and for an external mu the decoded bytes.
\<close>

section \<open>Names and key material\<close>

datatype mldsa_parameter_set = MlDsa44 | MlDsa65 | MlDsa87

definition MAX_MLDSA_BASE64_BYTES :: nat where "MAX_MLDSA_BASE64_BYTES = 32 * 1024 * 1024"
definition MAX_MLDSA_BYOK_BASE64_BYTES :: nat where "MAX_MLDSA_BYOK_BASE64_BYTES = 16 * 1024"
definition MAX_MLDSA_PUBLIC_PEM_BYTES :: nat where "MAX_MLDSA_PUBLIC_PEM_BYTES = 16 * 1024"
definition RSA_WRAPPED_AES_BYTES :: nat where "RSA_WRAPPED_AES_BYTES = 512"

definition transit_validate_name :: "string \<Rightarrow> unit res" where
  "transit_validate_name name =
     (if 256 < length name \<or> name = [] \<or> \<not> is_word (hd name) \<or> \<not> is_word (last name) \<or>
         \<not> list_all (\<lambda>b. is_word b \<or> b = CHR ''-'' \<or> b = CHR ''.'') name
      then Inl (InvalidParameter ''invalid bounded Transit key or registry name'')
      else Inr ())"

definition external_key_reference_new :: "string \<Rightarrow> string \<Rightarrow> string res" where
  "external_key_reference_new config key =
     rbind (transit_validate_name config) (\<lambda>_.
     rbind (transit_validate_name key) (\<lambda>_. Inr (config @ '':'' @ key)))"

definition validate_base64 :: "(string \<Rightarrow> nat option) \<Rightarrow> string \<Rightarrow> nat \<Rightarrow> string \<Rightarrow> nat res" where
  "validate_base64 decoded_len txt max_bytes message =
     (if max_bytes < length txt then Inl (InvalidParameter message)
      else ok_or (decoded_len txt) (InvalidParameter message))"

definition validate_mldsa_ciphertext :: "(string \<Rightarrow> nat option) \<Rightarrow> string \<Rightarrow> unit res" where
  "validate_mldsa_ciphertext decoded_len txt =
     (let message = ''ML-DSA import requires bounded canonical Base64 BYOK ciphertext'' in
      rbind (validate_base64 decoded_len txt MAX_MLDSA_BYOK_BASE64_BYTES message) (\<lambda>len.
        if len < RSA_WRAPPED_AES_BYTES + 16 \<or> (len - RSA_WRAPPED_AES_BYTES) mod 8 \<noteq> 0
        then Inl (InvalidParameter message)
        else Inr ()))"

text \<open>\<open>str::lines\<close>: every line without its line feed and a carriage return before that.\<close>

definition strip_return :: "string \<Rightarrow> string" where
  "strip_return line = (if line \<noteq> [] \<and> last line = CHR 0x0D then butlast line else line)"

definition str_lines :: "string \<Rightarrow> string list" where
  "str_lines s =
     (let parts = split_on (CHR 0x0A) s in
      map strip_return (butlast parts) @ (if last parts = [] then [] else [last parts]))"

definition trim_ascii_whitespace :: "string \<Rightarrow> string" where
  "trim_ascii_whitespace s = rev (dropWhile is_ascii_whitespace (rev (dropWhile is_ascii_whitespace s)))"

fun pem_body :: "string \<Rightarrow> string list \<Rightarrow> string option" where
  "pem_body body [] = Some body"
| "pem_body body (line # rest) =
     (if line = [] \<or> 64 < length line \<or> list_ex is_ascii_whitespace line then None
      else pem_body (body @ line) rest)"

definition validate_mldsa_public_key :: "(string \<Rightarrow> nat option) \<Rightarrow> string \<Rightarrow> unit res" where
  "validate_mldsa_public_key decoded_len txt =
     (let message = ''ML-DSA public import requires one bounded PUBLIC KEY PEM envelope'';
          invalid = Inl (InvalidParameter message) in
      if MAX_MLDSA_PUBLIC_PEM_BYTES < length txt then invalid
      else case str_lines (trim_ascii_whitespace txt) of
        [] \<Rightarrow> invalid
      | first # others \<Rightarrow>
          (if first \<noteq> ''-----BEGIN PUBLIC KEY-----'' \<or> others = [] \<or>
              last others \<noteq> ''-----END PUBLIC KEY-----''
           then invalid
           else case pem_body [] (butlast others) of
             None \<Rightarrow> invalid
           | Some body \<Rightarrow>
               rbind (validate_base64 decoded_len body MAX_MLDSA_PUBLIC_PEM_BYTES message) (\<lambda>len.
                 if len = 0 then invalid else Inr ())))"

definition validate_mldsa_version_material ::
  "(string \<Rightarrow> nat option) \<Rightarrow> transit_import_version_request \<Rightarrow> unit res" where
  "validate_mldsa_version_material decoded_len request =
     (case (transit_import_version_request_ciphertext request,
            transit_import_version_request_public_key request) of
        (Some c, None) \<Rightarrow> validate_mldsa_ciphertext decoded_len c
      | (None, Some k) \<Rightarrow> validate_mldsa_public_key decoded_len k
      | _ \<Rightarrow> Inl (InvalidParameter ''ML-DSA import requires exactly one key material source''))"

section \<open>Requests\<close>

record transit_mldsa_create_request =
  tmc_parameters :: mldsa_parameter_set
  tmc_exportable :: bool
  tmc_allow_plaintext_backup :: bool
  tmc_auto_rotate_period :: "string option"

definition tmc_new :: "mldsa_parameter_set \<Rightarrow> transit_mldsa_create_request" where
  "tmc_new parameters = \<lparr>tmc_parameters = parameters, tmc_exportable = False,
     tmc_allow_plaintext_backup = False, tmc_auto_rotate_period = None\<rparr>"

definition tmc_with_exportable :: "transit_mldsa_create_request \<Rightarrow> transit_mldsa_create_request" where
  "tmc_with_exportable self = self\<lparr>tmc_exportable := True\<rparr>"

definition tmc_with_plaintext_backup :: "transit_mldsa_create_request \<Rightarrow> transit_mldsa_create_request" where
  "tmc_with_plaintext_backup self = self\<lparr>tmc_allow_plaintext_backup := True\<rparr>"

definition tmc_with_auto_rotate_period ::
  "transit_mldsa_create_request \<Rightarrow> string \<Rightarrow> transit_mldsa_create_request res" where
  "tmc_with_auto_rotate_period self period =
     rbind (validate_duration_parameter period ''Transit auto_rotate_period'') (\<lambda>_.
       Inr (self\<lparr>tmc_auto_rotate_period := Some period\<rparr>))"

record transit_external_key_create_request =
  tec_key_type :: string
  tec_external_key_ref :: string
  tec_key_size :: "16 word option"

definition tec_new :: "string \<Rightarrow> transit_external_key_create_request" where
  "tec_new reference = \<lparr>tec_key_type = ''external-key'', tec_external_key_ref = reference, tec_key_size = None\<rparr>"

definition tec_with_hmac_key_size ::
  "transit_external_key_create_request \<Rightarrow> 16 word \<Rightarrow> transit_external_key_create_request res" where
  "tec_with_hmac_key_size self bytes =
     (if \<not> (32 \<le> bytes \<and> bytes \<le> 512)
      then Inl (InvalidParameter ''Transit HMAC key size must be 32 through 512 bytes'')
      else Inr (self\<lparr>tec_key_size := Some bytes\<rparr>))"

record transit_mldsa_import_request =
  tmi_parameters :: mldsa_parameter_set
  tmi_ciphertext :: "string option"
  tmi_public_key :: "string option"
  tmi_hash_function :: "transit_import_hash_function option"
  tmi_allow_rotation :: bool
  tmi_exportable :: bool
  tmi_allow_plaintext_backup :: bool
  tmi_auto_rotate_period :: "string option"

definition tmi_empty :: "mldsa_parameter_set \<Rightarrow> transit_mldsa_import_request" where
  "tmi_empty parameters = \<lparr>tmi_parameters = parameters, tmi_ciphertext = None, tmi_public_key = None,
     tmi_hash_function = None, tmi_allow_rotation = False, tmi_exportable = False,
     tmi_allow_plaintext_backup = False, tmi_auto_rotate_period = None\<rparr>"

definition tmi_new ::
  "(string \<Rightarrow> nat option) \<Rightarrow> mldsa_parameter_set \<Rightarrow> string \<Rightarrow> transit_mldsa_import_request res" where
  "tmi_new decoded_len parameters txt =
     rbind (validate_mldsa_ciphertext decoded_len txt) (\<lambda>_.
       Inr ((tmi_empty parameters)\<lparr>tmi_ciphertext := Some txt\<rparr>))"

definition tmi_from_public_key ::
  "(string \<Rightarrow> nat option) \<Rightarrow> mldsa_parameter_set \<Rightarrow> string \<Rightarrow> transit_mldsa_import_request res" where
  "tmi_from_public_key decoded_len parameters txt =
     rbind (validate_mldsa_public_key decoded_len txt) (\<lambda>_.
       Inr ((tmi_empty parameters)\<lparr>tmi_public_key := Some txt\<rparr>))"

definition tmi_with_hash_function ::
  "transit_mldsa_import_request \<Rightarrow> transit_import_hash_function \<Rightarrow> transit_mldsa_import_request" where
  "tmi_with_hash_function self h = self\<lparr>tmi_hash_function := Some h\<rparr>"

definition tmi_with_allow_rotation :: "transit_mldsa_import_request \<Rightarrow> transit_mldsa_import_request" where
  "tmi_with_allow_rotation self = self\<lparr>tmi_allow_rotation := True\<rparr>"

definition tmi_with_exportable :: "transit_mldsa_import_request \<Rightarrow> transit_mldsa_import_request" where
  "tmi_with_exportable self = self\<lparr>tmi_exportable := True\<rparr>"

definition tmi_with_plaintext_backup :: "transit_mldsa_import_request \<Rightarrow> transit_mldsa_import_request" where
  "tmi_with_plaintext_backup self = self\<lparr>tmi_allow_plaintext_backup := True\<rparr>"

definition tmi_with_auto_rotate_period ::
  "transit_mldsa_import_request \<Rightarrow> string \<Rightarrow> transit_mldsa_import_request res" where
  "tmi_with_auto_rotate_period self period =
     rbind (validate_duration_parameter period ''Transit auto_rotate_period'') (\<lambda>_.
       Inr (self\<lparr>tmi_auto_rotate_period := Some period\<rparr>))"

text \<open>The serialiser of an import, field by field.\<close>

fun mldsa_parameter_text :: "mldsa_parameter_set \<Rightarrow> string" where
  "mldsa_parameter_text MlDsa44 = ''mldsa-44''"
| "mldsa_parameter_text MlDsa65 = ''mldsa-65''"
| "mldsa_parameter_text MlDsa87 = ''mldsa-87''"

definition tmi_serialize :: "transit_mldsa_import_request \<Rightarrow> json" where
  "tmi_serialize self =
     (let field = (\<lambda>name v. case v of None \<Rightarrow> [] | Some s \<Rightarrow> [(name, JString s)]) in
      JObject ([(''type'', JString (mldsa_parameter_text (tmi_parameters self)))] @
        field ''ciphertext'' (tmi_ciphertext self) @
        field ''public_key'' (tmi_public_key self) @
        field ''hash_function''
          (map_option transit_import_hash_function_as_query_value (tmi_hash_function self)) @
        [(''allow_rotation'', JBool (tmi_allow_rotation self)),
         (''exportable'', JBool (tmi_exportable self)),
         (''allow_plaintext_backup'', JBool (tmi_allow_plaintext_backup self))] @
        field ''auto_rotate_period'' (tmi_auto_rotate_period self)))"

datatype transit_mldsa_sign_mode = SignMessage | SignExternalMu

record transit_mldsa_sign_request =
  tms_input :: string
  tms_mode :: transit_mldsa_sign_mode
  tms_key_version :: "64 word option"

definition tms_new ::
  "(string \<Rightarrow> nat option) \<Rightarrow> (string \<Rightarrow> string option) \<Rightarrow> string \<Rightarrow> transit_mldsa_sign_mode \<Rightarrow>
   transit_mldsa_sign_request res" where
  "tms_new decoded_len decode_secret txt sign_mode =
     rbind (if sign_mode = SignExternalMu
        then
          (if length txt \<noteq> 88
           then Inl (InvalidParameter ''ML-DSA external mu must encode exactly 64 bytes'')
           else rbind (ok_or (decode_secret txt)
               (InvalidParameter ''invalid ML-DSA external mu base64'')) (\<lambda>decoded.
             if length decoded \<noteq> 64
             then Inl (InvalidParameter ''ML-DSA external mu must encode exactly 64 bytes'')
             else Inr ()))
        else rmap (\<lambda>_. ()) (validate_base64 decoded_len txt MAX_MLDSA_BASE64_BYTES
          ''invalid or oversized ML-DSA message Base64'')) (\<lambda>_.
       Inr \<lparr>tms_input = txt, tms_mode = sign_mode, tms_key_version = None\<rparr>)"

definition validate_key_version :: "64 word \<Rightarrow> unit res" where
  "validate_key_version ver =
     (if ver = 0 \<or> 2147483647 < ver
      then Inl (InvalidParameter ''Transit explicit version must be in 1..=2147483647'')
      else Inr ())"

definition tms_with_key_version ::
  "transit_mldsa_sign_request \<Rightarrow> 64 word \<Rightarrow> transit_mldsa_sign_request res" where
  "tms_with_key_version self ver =
     rbind (validate_key_version ver) (\<lambda>_. Inr (self\<lparr>tms_key_version := Some ver\<rparr>))"

record transit_mldsa_verify_request =
  tmv_input :: string
  tmv_signature :: string

definition tmv_new ::
  "(string \<Rightarrow> nat option) \<Rightarrow> string \<Rightarrow> string \<Rightarrow> transit_mldsa_verify_request res" where
  "tmv_new decoded_len txt sig =
     rbind (transit_validate_non_empty_secret sig ''Transit signature'') (\<lambda>_.
     rbind (validate_base64 decoded_len txt MAX_MLDSA_BASE64_BYTES
         ''invalid or oversized ML-DSA message Base64'') (\<lambda>_.
       Inr \<lparr>tmv_input = txt, tmv_signature = sig\<rparr>))"

datatype transit_export_format = ExportDefault | ExportRaw | ExportDer | ExportPem

fun transit_export_format_as_str :: "transit_export_format \<Rightarrow> string" where
  "transit_export_format_as_str ExportDefault = ''''"
| "transit_export_format_as_str ExportRaw = ''raw''"
| "transit_export_format_as_str ExportDer = ''der''"
| "transit_export_format_as_str ExportPem = ''pem''"

section \<open>Key details and payloads\<close>

datatype transit_key_version_details =
    KeyTimestamp "64 word"
  | KeyExternalReference string
  | KeyAsymmetric string string string "string option"

record transit_key_details =
  tkd_name :: string
  tkd_key_type :: string
  tkd_keys :: "(string \<times> transit_key_version_details) list"
  tkd_latest_version :: "64 word"
  tkd_min_available_version :: "64 word"
  tkd_min_decryption_version :: "64 word"
  tkd_min_encryption_version :: "64 word"
  tkd_derived :: bool
  tkd_deletion_allowed :: bool
  tkd_exportable :: bool
  tkd_allow_plaintext_backup :: bool
  tkd_auto_rotate_period :: "64 word"
  tkd_imported_key :: bool
  tkd_imported_key_allow_rotation :: bool
  tkd_soft_deleted :: bool
  tkd_supports_encryption :: bool
  tkd_supports_decryption :: bool
  tkd_supports_signing :: bool
  tkd_supports_derivation :: bool

text \<open>
  The visitor of the versions, on the members of the object; the decoder of a version, which is derived, is
  the argument. The map is the list of its entries.
\<close>

fun version_details ::
  "(json \<Rightarrow> 'v decoded) \<Rightarrow> (string \<times> 'v) list \<Rightarrow> (string \<times> json) list \<Rightarrow> (string \<times> 'v) list decoded" where
  "version_details of_json versions [] = Inr versions"
| "version_details of_json versions ((key, e) # rest) =
     (if length versions < MAX_RESPONSE_STRINGS
      then
        (if key \<in> set (map fst versions) then Inl ''duplicate Transit key version''
         else rbind (of_json e) (\<lambda>v. version_details of_json (versions @ [(key, v)]) rest))
      else Inl ''Transit key version limit exceeded'')"

record mldsa_sign_payload =
  msp_input :: string
  msp_prehashed :: bool
  msp_hash_algorithm :: string
  msp_key_version :: "64 word option"

definition mldsa_sign_payload_of :: "transit_mldsa_sign_request \<Rightarrow> mldsa_sign_payload" where
  "mldsa_sign_payload_of request =
     (let external = tms_mode request = SignExternalMu in
      \<lparr>msp_input = tms_input request, msp_prehashed = external,
        msp_hash_algorithm = (if external then ''mldsa-mu'' else ''none''),
        msp_key_version = tms_key_version request\<rparr>)"

record 'a mldsa_batch_payload =
  mbp_batch_input :: "'a list"
  mbp_prehashed :: bool
  mbp_hash_algorithm :: string
  mbp_key_version :: "64 word option"

definition batch_sign_payload ::
  "transit_mldsa_sign_request list \<Rightarrow> string mldsa_batch_payload res" where
  "batch_sign_payload requests =
     rbind (transit_validate_batch_len (length requests)) (\<lambda>_.
       case requests of
         [] \<Rightarrow> Inl (InvalidParameter ''empty ML-DSA batch'')
       | first # _ \<Rightarrow>
           (if list_ex (\<lambda>r. tms_mode r \<noteq> tms_mode first \<or> tms_key_version r \<noteq> tms_key_version first)
                requests
            then Inl (InvalidParameter ''ML-DSA batch mode and key version must match'')
            else
              (let options = mldsa_sign_payload_of first in
               Inr \<lparr>mbp_batch_input = map tms_input requests, mbp_prehashed = msp_prehashed options,
                 mbp_hash_algorithm = msp_hash_algorithm options,
                 mbp_key_version = msp_key_version options\<rparr>)))"

section \<open>Operations\<close>

definition transit_require_27 :: "http_env \<Rightarrow> string \<Rightarrow> unit sent" where
  "transit_require_27 env name =
     sbind (pure (transit_validate_name name)) (\<lambda>_.
     sbind (compatibility_report_of env) (\<lambda>report.
       pure (rbind (ok_or (case profile_version report of Some v \<Rightarrow> Some v
             | None \<Rightarrow> legacy_unverified_profile)
           (Internal ''no Transit compatibility profile'')) (\<lambda>version.
         if version < OpenBaoVersion 2 7 0 \<or> report_status report \<notin> {Verified, Assumed}
         then Inl (UnsupportedOpenBaoCapability ''transit.2.7'' version)
         else Inr ()))))"

definition transit_create_mldsa_key ::
  "http_env \<Rightarrow> client \<Rightarrow> (string \<Rightarrow> transit_key_details response_envelope option) \<Rightarrow>
   (transit_mldsa_create_request \<Rightarrow> payload) \<Rightarrow> string list \<Rightarrow> string \<Rightarrow>
   transit_mldsa_create_request \<Rightarrow> transit_key_details sent" where
  "transit_create_mldsa_key env cl from_json to_json mount name request =
     sbind (transit_require_27 env name) (\<lambda>_.
     sbind (pure (transit_key_path mount name None)) (\<lambda>p.
       transit_enveloped env cl from_json to_json mount ''POST'' p request))"

definition transit_create_external_key ::
  "http_env \<Rightarrow> client \<Rightarrow> (string \<Rightarrow> transit_key_details response_envelope option) \<Rightarrow>
   (transit_external_key_create_request \<Rightarrow> payload) \<Rightarrow> string list \<Rightarrow> string \<Rightarrow>
   transit_external_key_create_request \<Rightarrow> transit_key_details sent" where
  "transit_create_external_key env cl from_json to_json mount name request =
     sbind (transit_require_27 env name) (\<lambda>_.
     sbind (pure (transit_key_path mount name None)) (\<lambda>p.
       transit_enveloped env cl from_json to_json mount ''POST'' p request))"

definition transit_rotate_external_key ::
  "http_env \<Rightarrow> client \<Rightarrow> (string \<Rightarrow> transit_key_details response_envelope option) \<Rightarrow>
   (json \<Rightarrow> payload) \<Rightarrow> string list \<Rightarrow> string \<Rightarrow> string \<Rightarrow> transit_key_details sent" where
  "transit_rotate_external_key env cl from_json to_json mount name reference =
     sbind (transit_require_27 env name) (\<lambda>_.
     sbind (pure (transit_key_path mount name (Some ''rotate''))) (\<lambda>p.
       transit_enveloped env cl from_json to_json mount ''POST'' p
         (JObject [(''external_key_ref'', JString reference)])))"

definition transit_read_key_details ::
  "http_env \<Rightarrow> client \<Rightarrow> (string \<Rightarrow> transit_key_details response_envelope option) \<Rightarrow> string list \<Rightarrow>
   string \<Rightarrow> transit_key_details sent" where
  "transit_read_key_details env cl from_json mount name =
     sbind (pure (transit_validate_name name)) (\<lambda>_.
     sbind (pure (transit_key_path mount name None)) (\<lambda>p.
       smap env_data (transit_request env cl from_json mount ''GET'' p None)))"

definition transit_import_mldsa_key ::
  "http_env \<Rightarrow> client \<Rightarrow> (string \<Rightarrow> unit option) \<Rightarrow> (json \<Rightarrow> payload) \<Rightarrow> string list \<Rightarrow> string \<Rightarrow>
   transit_mldsa_import_request \<Rightarrow> unit sent" where
  "transit_import_mldsa_key env cl from_json to_json mount name request =
     sbind (transit_require_27 env name) (\<lambda>_.
     sbind (pure (transit_key_path mount name (Some ''import''))) (\<lambda>p.
       transit_request env cl from_json mount ''POST'' p (Some (to_json (tmi_serialize request)))))"

definition transit_import_mldsa_key_version ::
  "http_env \<Rightarrow> client \<Rightarrow> (string \<Rightarrow> nat option) \<Rightarrow> (string \<Rightarrow> unit option) \<Rightarrow>
   (transit_import_version_payload \<Rightarrow> payload) \<Rightarrow> string list \<Rightarrow> string \<Rightarrow>
   transit_import_version_request \<Rightarrow> unit sent" where
  "transit_import_mldsa_key_version env cl decoded_len from_json to_json mount name request =
     sbind (transit_require_27 env name) (\<lambda>_.
       if transit_import_version_request_context request \<noteq> None
       then pure (Inl (InvalidParameter ''ML-DSA does not support derivation context''))
       else
         sbind (pure (case transit_import_version_request_version request of
             None \<Rightarrow> Inr () | Some ver \<Rightarrow> validate_key_version ver)) (\<lambda>_.
         sbind (pure (validate_mldsa_version_material decoded_len request)) (\<lambda>_.
           transit_import_key_version env cl from_json to_json mount name request)))"

definition transit_export_key_with_format ::
  "http_env \<Rightarrow> client \<Rightarrow> (string \<Rightarrow> 'a response_envelope option) \<Rightarrow> string list \<Rightarrow>
   transit_export_key_type \<Rightarrow> string \<Rightarrow> 64 word option \<Rightarrow> transit_export_format \<Rightarrow> 'a sent" where
  "transit_export_key_with_format env cl from_json mount key_type name ver fmt =
     sbind (transit_require_27 env name) (\<lambda>_.
     sbind (pure (case ver of None \<Rightarrow> Inr () | Some ver \<Rightarrow> validate_key_version ver)) (\<lambda>_.
     sbind (pure (transit_validate_key_name name)) (\<lambda>segs.
     sbind (pure (transit_path mount
         [''export'', transit_export_key_type_as_path_segment key_type, join_with ''/'' segs])) (\<lambda>p.
       let p = (case ver of None \<Rightarrow> p | Some ver \<Rightarrow> p @ ''/'' @ dec_string (unat ver)) in
       smap env_data (transit_request_query env cl from_json mount ''GET'' p
         [(''format'', transit_export_format_as_str fmt)] None [200])))))"

definition transit_sign_mldsa ::
  "http_env \<Rightarrow> client \<Rightarrow> (string \<Rightarrow> 'a response_envelope option) \<Rightarrow> (mldsa_sign_payload \<Rightarrow> payload) \<Rightarrow>
   string list \<Rightarrow> string \<Rightarrow> transit_mldsa_sign_request \<Rightarrow> 'a sent" where
  "transit_sign_mldsa env cl from_json to_json mount name request =
     sbind (transit_require_27 env name) (\<lambda>_.
     sbind (pure (transit_operation_path mount ''sign'' name None)) (\<lambda>p.
       transit_enveloped env cl from_json to_json mount ''POST'' p (mldsa_sign_payload_of request)))"

definition transit_verify_mldsa ::
  "http_env \<Rightarrow> client \<Rightarrow> (string \<Rightarrow> 'a response_envelope option) \<Rightarrow>
   (transit_mldsa_verify_request \<Rightarrow> payload) \<Rightarrow> string list \<Rightarrow> string \<Rightarrow>
   transit_mldsa_verify_request \<Rightarrow> 'a sent" where
  "transit_verify_mldsa env cl from_json to_json mount name request =
     sbind (transit_require_27 env name) (\<lambda>_.
     sbind (pure (transit_operation_path mount ''verify'' name None)) (\<lambda>p.
       transit_enveloped env cl from_json to_json mount ''POST'' p request))"

definition transit_batch_sign_mldsa ::
  "http_env \<Rightarrow> client \<Rightarrow> (string \<Rightarrow> 'a response_envelope option) \<Rightarrow>
   (string mldsa_batch_payload \<Rightarrow> payload) \<Rightarrow> string list \<Rightarrow> string \<Rightarrow>
   transit_mldsa_sign_request list \<Rightarrow> 'a sent" where
  "transit_batch_sign_mldsa env cl from_json to_json mount name requests =
     sbind (pure (batch_sign_payload requests)) (\<lambda>payload.
     sbind (transit_require_27 env name) (\<lambda>_.
     sbind (pure (transit_operation_path mount ''sign'' name None)) (\<lambda>p.
       transit_enveloped env cl from_json to_json mount ''POST'' p payload)))"

definition transit_batch_verify_mldsa ::
  "http_env \<Rightarrow> client \<Rightarrow> (string \<Rightarrow> 'a response_envelope option) \<Rightarrow>
   (transit_mldsa_verify_request mldsa_batch_payload \<Rightarrow> payload) \<Rightarrow> string list \<Rightarrow> string \<Rightarrow>
   transit_mldsa_verify_request list \<Rightarrow> 'a sent" where
  "transit_batch_verify_mldsa env cl from_json to_json mount name requests =
     sbind (pure (transit_validate_batch_len (length requests))) (\<lambda>_.
     sbind (transit_require_27 env name) (\<lambda>_.
       let payload = \<lparr>mbp_batch_input = requests, mbp_prehashed = False,
         mbp_hash_algorithm = ''none'', mbp_key_version = None\<rparr> in
       sbind (pure (transit_operation_path mount ''verify'' name None)) (\<lambda>p.
         transit_enveloped env cl from_json to_json mount ''POST'' p payload)))"

section \<open>Where the operations go\<close>

lemma require_27_silent [silent_intros]: "silent (transit_require_27 env name)"
  unfolding transit_require_27_def compatibility_report_of_def by (intro silent_intros)

lemma at_require_27 [at_intros]:
  "(\<And>x. at_route env cl m mount parts (f x)) \<Longrightarrow>
   at_route env cl m mount parts (sbind (transit_require_27 env name) f)"
  by (rule at_silent_bind [OF require_27_silent])

definition transit_27_reviewed :: "http_env \<Rightarrow> bool" where
  "transit_27_reviewed env \<longleftrightarrow>
     (case fst (compatibility_report_of env) of Inl _ \<Rightarrow> False
      | Inr report \<Rightarrow>
          (case (case profile_version report of Some v \<Rightarrow> Some v | None \<Rightarrow> legacy_unverified_profile) of
             None \<Rightarrow> False | Some v \<Rightarrow> OpenBaoVersion 2 7 0 \<le> v \<and> report_status report \<in> {Verified, Assumed}))"

lemma require_27_iff:
  "fst (transit_require_27 env name) = Inr () \<longleftrightarrow>
     transit_validate_name name = Inr () \<and> transit_27_reviewed env"
  unfolding transit_require_27_def transit_27_reviewed_def compatibility_report_of_def
  by (cases "transit_validate_name name")
    (auto simp: sbind_pure pure_def rbind_Inr_iff not_less split: sum.split option.split)

lemma require_27_blocks:
  "\<not> (transit_validate_name name = Inr () \<and> transit_27_reviewed env) \<Longrightarrow>
   snd (sbind (transit_require_27 env name) f) = []"
  using require_27_silent [of env name] require_27_iff [of env name]
  by (cases "(transit_require_27 env name, f)" rule: sbind.cases) (auto simp: silent_def)

lemma version_endpoint: "validate_endpoint_path (dec_string (unat (v :: 64 word))) = Inr [dec_string (unat v)]"
proof (rule literal_endpoint)
  have digits: "list_all is_ascii_digit (dec_string (unat v))" by (rule dec_string_digits)
  then show "safe_segment (dec_string (unat v))"
    by (auto simp: safe_segment_def list_all_iff is_ascii_digit_def path_byte_is_forbidden_def
        is_ascii_control_def dest: last_in_set [OF dec_string_not_Nil, THEN bspec [rotated]])
  show "length (dec_string (unat v)) \<le> MAX_PATH_BYTES"
    using length_dec_string_le [of "unat v" 20] unsigned_less [of v, where 'a = nat]
    by (simp add: MAX_PATH_BYTES_def)
qed

lemma export_literal [simp]: "validate_endpoint_path ''export'' = Inr [''export'']"
  by (rule literal_endpoint; code_simp)

lemma export_path_versioned:
  assumes "path_at mount (''export'' # parts) p"
  shows "path_at mount (''export'' # parts @ [dec_string (unat (v :: 64 word))])
    (p @ ''/'' @ dec_string (unat v))"
proof -
  obtain segs where s: "rtraverse validate_endpoint_path parts = Inr segs"
      "p = join_with ''/'' ((mount @ [''export'']) @ concat segs)"
    using assms by (auto simp: path_at_def rbind_Inr_iff rmap_Inr_iff)
  then show ?thesis
    using join_with_append [of "mount @ ''export'' # concat segs" "[dec_string (unat v)]" "''/''"]
    by (auto simp: path_at_def rtraverse_append_Inr_iff version_endpoint rbind_Inr_iff rmap_Inr_iff)
qed

lemma mldsa_at:
  assumes "list_all safe_segment mount"
  shows "at_route env cl ''POST'' mount [''keys'', name]
      (transit_create_mldsa_key env cl fj tj mount name request)"
    and "at_route env cl ''POST'' mount [''keys'', name]
      (transit_create_external_key env cl fj tj2 mount name request2)"
    and "at_route env cl ''POST'' mount [''keys'', name, ''rotate'']
      (transit_rotate_external_key env cl fj to_json mount name reference)"
    and "at_route env cl ''GET'' mount [''keys'', name] (transit_read_key_details env cl fj mount name)"
    and "at_route env cl ''POST'' mount [''keys'', name, ''import'']
      (transit_import_mldsa_key env cl fj3 to_json mount name request3)"
    and "at_route env cl ''POST'' mount [''keys'', name, ''import_version'']
      (transit_import_mldsa_key_version env cl decoded_len fj3 tj4 mount name request4)"
    and "at_route env cl ''POST'' mount [''sign'', name]
      (transit_sign_mldsa env cl fj5 tj5 mount name request5)"
    and "at_route env cl ''POST'' mount [''verify'', name]
      (transit_verify_mldsa env cl fj6 tj6 mount name request6)"
    and "at_route env cl ''POST'' mount [''sign'', name]
      (transit_batch_sign_mldsa env cl fj7 tj7 mount name requests7)"
    and "at_route env cl ''POST'' mount [''verify'', name]
      (transit_batch_verify_mldsa env cl fj8 tj8 mount name requests8)"
  unfolding transit_create_mldsa_key_def transit_create_external_key_def transit_rotate_external_key_def
    transit_read_key_details_def transit_import_mldsa_key_def transit_import_mldsa_key_version_def
    transit_sign_mldsa_def transit_verify_mldsa_def transit_batch_sign_mldsa_def
    transit_batch_verify_mldsa_def
  by (use assms in \<open>auto simp: Let_def rbind_Inr_iff
      intro!: at_intros at_requests transit_calls intro: transit_paths at_after silent_intros split: option.splits\<close>)

lemma mldsa_export_at:
  assumes "list_all safe_segment mount"
  shows "at_route env cl ''GET'' mount
     (''export'' # transit_export_key_type_as_path_segment key_type # name #
       optional_part (map_option (\<lambda>v. dec_string (unat v)) ver))
     (transit_export_key_with_format env cl fj mount key_type name ver fmt)"
proof -
  have "path_at mount [''export'', transit_export_key_type_as_path_segment key_type, name] p"
    if "transit_validate_key_name name = Inr segs"
      "transit_path mount [''export'', transit_export_key_type_as_path_segment key_type,
         join_with ''/'' segs] = Inr p" for segs p
    using joined_path_at [of name segs mount "[''export'', transit_export_key_type_as_path_segment key_type]" p]
      that by (simp add: transit_validate_key_name_def transit_path_handle)
  note here = this and there = export_path_versioned [OF this, simplified]
  show ?thesis
    unfolding transit_export_key_with_format_def Let_def
    by (cases ver) (auto intro!: at_intros at_require_27 transit_request_query_at assms here there
        simp: pure_def [symmetric])
qed

definition may_send :: "http_env \<Rightarrow> string \<Rightarrow> bool" where
  "may_send env name \<longleftrightarrow> transit_validate_name name = Inr () \<and> transit_27_reviewed env"

lemma pure_quiet: "(\<And>x. r = Inr x \<Longrightarrow> snd (f x) = []) \<Longrightarrow> snd (sbind (pure r) f) = []"
  by (cases r) (simp_all add: sbind_pure pure_def)

lemma mldsa_quiet:
  "may_send env name \<or> snd (transit_create_mldsa_key env cl fj tj mount name request) = []"
  "may_send env name \<or> snd (transit_create_external_key env cl fj tj2 mount name request2) = []"
  "may_send env name \<or> snd (transit_rotate_external_key env cl fj to_json mount name reference) = []"
  "transit_validate_name name = Inr () \<or> snd (transit_read_key_details env cl fj mount name) = []"
  "may_send env name \<or> snd (transit_import_mldsa_key env cl fj3 to_json mount name request3) = []"
  "may_send env name \<or>
    snd (transit_import_mldsa_key_version env cl decoded_len fj3 tj4 mount name request4) = []"
  "may_send env name \<or> snd (transit_sign_mldsa env cl fj5 tj5 mount name request5) = []"
  "may_send env name \<or> snd (transit_verify_mldsa env cl fj6 tj6 mount name request6) = []"
  "may_send env name \<or> snd (transit_batch_sign_mldsa env cl fj7 tj7 mount name requests7) = []"
  "may_send env name \<or> snd (transit_batch_verify_mldsa env cl fj8 tj8 mount name requests8) = []"
  "may_send env name \<or> snd (transit_export_key_with_format env cl fj9 mount key_type name ver fmt) = []"
  unfolding transit_create_mldsa_key_def transit_create_external_key_def transit_rotate_external_key_def
    transit_read_key_details_def transit_import_mldsa_key_def transit_import_mldsa_key_version_def
    transit_sign_mldsa_def transit_verify_mldsa_def transit_batch_sign_mldsa_def
    transit_batch_verify_mldsa_def transit_export_key_with_format_def may_send_def disj_imp
  by (intro impI pure_quiet require_27_blocks; simp)+

section \<open>Which key material is accepted\<close>

lemma pem_body_eq:
  "pem_body body ls =
     (if list_all (\<lambda>l. l \<noteq> [] \<and> length l \<le> 64 \<and> \<not> list_ex is_ascii_whitespace l) ls
      then Some (body @ concat ls) else None)"
  by (induction ls arbitrary: body) auto

lemma length_split_on: "length (concat (split_on c s)) \<le> length s"
  by (induction s) (auto split: list.split)

lemma length_strip_return: "length (strip_return l) \<le> length l"
  by (simp add: strip_return_def)

lemma length_str_lines: "length (concat (str_lines s)) \<le> length s"
proof -
  let ?p = "split_on (CHR 0x0A) s"
  have "length (concat (map strip_return ls)) \<le> length (concat ls)" for ls
    by (induction ls) (use length_strip_return add_mono in \<open>auto simp: add_mono\<close>)
  from this [of "butlast ?p"] have "length (concat (str_lines s)) \<le> length (concat (butlast ?p)) + length (last ?p)"
    by (simp add: str_lines_def Let_def)
  also have "\<dots> = length (concat (butlast ?p @ [last ?p]))" by (simp del: append_butlast_last_id)
  also have "\<dots> = length (concat ?p)" by (subst append_butlast_last_id) simp_all
  also have "\<dots> \<le> length s" by (rule length_split_on)
  finally show ?thesis .
qed

lemma length_trim_ascii: "length (trim_ascii_whitespace s) \<le> length s"
  unfolding trim_ascii_whitespace_def
  by (metis length_dropWhile_le length_rev order_trans)

lemma public_key_iff:
  "validate_mldsa_public_key decoded_len txt = Inr u \<longleftrightarrow>
     length txt \<le> MAX_MLDSA_PUBLIC_PEM_BYTES \<and>
     (\<exists>ls n. str_lines (trim_ascii_whitespace txt) =
          ''-----BEGIN PUBLIC KEY-----'' # ls @ [''-----END PUBLIC KEY-----''] \<and>
        list_all (\<lambda>l. l \<noteq> [] \<and> length l \<le> 64 \<and> \<not> list_ex is_ascii_whitespace l) ls \<and>
        decoded_len (concat ls) = Some n \<and> 0 < n)"
proof -
  let ?lines = "str_lines (trim_ascii_whitespace txt)"
  have fits: "length (concat ls) \<le> MAX_MLDSA_PUBLIC_PEM_BYTES"
    if "length txt \<le> MAX_MLDSA_PUBLIC_PEM_BYTES" "?lines = first # ls @ [end]" for first ls "end"
  proof -
    have "length (concat ls) \<le> length (concat ?lines)" unfolding that(2) by simp
    also have "\<dots> \<le> length txt" using length_str_lines length_trim_ascii order_trans by blast
    finally show ?thesis using that(1) by simp
  qed
  show ?thesis
  proof (cases "\<exists>ls. ?lines = ''-----BEGIN PUBLIC KEY-----'' # ls @ [''-----END PUBLIC KEY-----'']")
    case True
    then obtain ls where ls: "?lines = ''-----BEGIN PUBLIC KEY-----'' # ls @ [''-----END PUBLIC KEY-----'']"
      by blast
    note size = fits [OF _ ls]
    show ?thesis
      by (cases "length txt \<le> MAX_MLDSA_PUBLIC_PEM_BYTES"; cases "decoded_len (concat ls)")
        (use size in \<open>auto simp: validate_mldsa_public_key_def Let_def ls pem_body_eq
          validate_base64_def\<close>)
  next
    case False
    have "validate_mldsa_public_key decoded_len txt = Inl e" if "e = InvalidParameter
      ''ML-DSA public import requires one bounded PUBLIC KEY PEM envelope''" for e
    proof (cases ?lines)
      case (Cons first others)
      with False have "first \<noteq> ''-----BEGIN PUBLIC KEY-----'' \<or> others = [] \<or>
          last others \<noteq> ''-----END PUBLIC KEY-----''"
        by (metis append_butlast_last_id)
      with Cons that show ?thesis by (simp add: validate_mldsa_public_key_def Let_def)
    qed (simp add: validate_mldsa_public_key_def Let_def that)
    with False show ?thesis by auto
  qed
qed

text \<open>C32:
  A wrapped ML-DSA key is accepted for import exactly when its text is at most 16 KiB of strict Base64 for a
  whole number of eight-byte blocks, at least the 512 bytes of an RSA-4096 ciphertext and two blocks; a
  public key exactly when it is at most 16 KiB and, white space around it aside, one PEM envelope whose lines
  have 1 to 64 characters without white space and together are strict Base64 of something. Either is kept as
  it is in a request with nothing else enabled.\<close>

theorem mldsa_import_iff:
  "(tmi_new decoded_len parameters txt = Inr r \<longleftrightarrow>
     r = (tmi_empty parameters)\<lparr>tmi_ciphertext := Some txt\<rparr> \<and> length txt \<le> 16384 \<and>
     (\<exists>n. decoded_len txt = Some n \<and> 512 + 16 \<le> n \<and> 8 dvd n)) \<and>
   (tmi_from_public_key decoded_len parameters txt = Inr r \<longleftrightarrow>
     r = (tmi_empty parameters)\<lparr>tmi_public_key := Some txt\<rparr> \<and> length txt \<le> 16384 \<and>
     (\<exists>ls n. str_lines (trim_ascii_whitespace txt) =
          ''-----BEGIN PUBLIC KEY-----'' # ls @ [''-----END PUBLIC KEY-----''] \<and>
        list_all (\<lambda>l. l \<noteq> [] \<and> length l \<le> 64 \<and> \<not> list_ex is_ascii_whitespace l) ls \<and>
        decoded_len (concat ls) = Some n \<and> 0 < n))"
proof -
  have blocks: "(n - 512) mod 8 = 0 \<longleftrightarrow> 8 dvd n" if "512 + 16 \<le> n" for n :: nat
    using that by presburger
  have ok: "validate_mldsa_ciphertext decoded_len txt = Inr u \<longleftrightarrow> length txt \<le> 16384 \<and>
      (\<exists>n. decoded_len txt = Some n \<and> 512 + 16 \<le> n \<and> 8 dvd n)" for u
  proof (cases "decoded_len txt")
    case (Some n)
    then show ?thesis using blocks [of n]
      by (auto simp: validate_mldsa_ciphertext_def validate_base64_def Let_def not_less
          MAX_MLDSA_BYOK_BASE64_BYTES_def RSA_WRAPPED_AES_BYTES_def)
  qed (simp add: validate_mldsa_ciphertext_def validate_base64_def Let_def)
  have wrapped: "tmi_new decoded_len parameters txt = Inr r \<longleftrightarrow>
     r = (tmi_empty parameters)\<lparr>tmi_ciphertext := Some txt\<rparr> \<and> length txt \<le> 16384 \<and>
     (\<exists>n. decoded_len txt = Some n \<and> 512 + 16 \<le> n \<and> 8 dvd n)"
    by (auto simp: tmi_new_def rbind_Inr_iff ok)
  have public_key: "tmi_from_public_key decoded_len parameters txt = Inr r \<longleftrightarrow>
     r = (tmi_empty parameters)\<lparr>tmi_public_key := Some txt\<rparr> \<and> length txt \<le> 16384 \<and>
     (\<exists>ls n. str_lines (trim_ascii_whitespace txt) =
          ''-----BEGIN PUBLIC KEY-----'' # ls @ [''-----END PUBLIC KEY-----''] \<and>
        list_all (\<lambda>l. l \<noteq> [] \<and> length l \<le> 64 \<and> \<not> list_ex is_ascii_whitespace l) ls \<and>
        decoded_len (concat ls) = Some n \<and> 0 < n)"
    by (auto simp: tmi_from_public_key_def rbind_Inr_iff public_key_iff MAX_MLDSA_PUBLIC_PEM_BYTES_def)
  from wrapped public_key show ?thesis by (rule conjI)
qed

section \<open>The surface\<close>



end
