(* ===== verification/Spec2Isabelle.thy ===== *)
theory Spec2Isabelle
  imports Bao_Validation Bao_Cache Bao_Retry Bao_Kv Bao_Policy Bao_Transit Bao_Pki Bao_Ssh
    Bao_Kubernetes Bao_Ldap Bao_Rabbitmq Bao_Totp Bao_Identity Bao_Database Bao_Approle Bao_Cert
    Bao_Jwt Bao_Kerberos Bao_Kubernetes_Auth Bao_Ldap_Auth Bao_Radius Bao_Token Bao_Userpass Bao_Wrapping
    Bao_Surface Bao_Operator Bao_Bootstrap_Spec Bao_Posture Bao_Consistency Bao_External_Keys
    Bao_Monitor Bao_Waiting Bao_Mldsa
begin

text \<open>
  A verification library for the \<open>openbao\<close> Rust client crate (\<open>src/src\<close>).

  The program. A \<open>Client\<close> is made from an \<open>OpenBaoConfig\<close>, checks once which server release it talks to,
  and then offers handles: one for every secrets engine, every auth method, the system backend and the
  identity store. An operation of a handle validates its arguments, writes a path below the handle's mount,
  resolves that path against the table of documented operations for the release in use, and sends at most a
  few requests over a hardened transport, whose bounded answer it decodes. Around this core stand the policy
  builder, the bootstrap plans, wrapped responses and deferred executions, consistency contexts, the log
  stream, and reports on the posture of keys.

  Foundations.
  \<^item> \<open>Bao_Prelude\<close>: \<open>Result\<close> as a sum with its binds, checked and saturating words, binary search, the named
    theorem collections. \<open>Bao_Text\<close>: the operations of \<open>str\<close> on UTF-8 bytes.
  \<^item> \<open>Bao_Errors\<close>: \<open>error.rs\<close> and the exact release of \<open>compatibility.rs\<close>, an instance of \<open>linorder\<close>.
  \<^item> \<open>Bao_Paths\<close>: \<open>path.rs\<close>, \<open>plugin.rs\<close>. \<open>Bao_Validation\<close>: \<open>validation.rs\<close>, \<open>duration.rs\<close>, \<open>timestamp.rs\<close>.

  Which server, and what may be asked of it.
  \<^item> \<open>Bao_Versions\<close>, \<open>Bao_Registry\<close>: \<open>compatibility.rs\<close>, releases, requirements and ranges with their printers
    and parsers, the evaluation of a detected release under a policy, the types of the operation table.
  \<^item> \<open>Bao_Fields\<close>: \<open>request_compatibility.rs\<close>. \<open>Bao_Routes\<close>, \<open>Bao_Dispatch\<close>: the route templates and the typed
    dispatcher of \<open>client.rs\<close>; the generated rows are a parameter the theorems quantify over.
  \<^item> \<open>Bao_Cache\<close>: the leader and the waiters of the compatibility probe, a step relation over interleaved tasks.

  The transport.
  \<^item> \<open>Bao_Config\<close>: settings and the client they build. \<open>Bao_Retry\<close>: delays with binary64 rounding written out,
    and the retry loop. \<open>Bao_Bodies\<close>: request buffers with their allocations, bounded responses, streams of a
    declared length. \<open>Bao_Transport\<close>, \<open>Bao_Requests\<close>: URLs, headers and every request function of \<open>client.rs\<close>.
  \<^item> \<open>Bao_Json\<close>: the budgeted decoders of \<open>response.rs\<close>.

  An operation that sends has the type \<open>'a sent\<close>, its result and the list of the requests it sent; the
  answers of the server, the clock and the codecs of other crates are fields of the record \<open>http_env\<close>. What
  a body decodes to is an argument \<open>from_json\<close>, and the encoder of a request an argument \<open>to_json\<close>.

  The handles.
  \<^item> \<open>Bao_Wire\<close>, \<open>Bao_Engine\<close>, \<open>Bao_Auth\<close>: the response envelope, the contract of a mounted engine (locale
    \<open>mounted_engine\<close>) and the vocabulary \<open>at_route\<close>: at most one request, safe, with one verb, to one path.
  \<^item> Secrets engines (\<open>secrets/\<close>): \<open>Bao_Kv\<close>, \<open>Bao_Transit\<close>, \<open>Bao_Mldsa\<close> (\<open>transit/extensions.rs\<close>), \<open>Bao_Pki\<close>,
    \<open>Bao_Ssh\<close>, \<open>Bao_Database\<close> with \<open>Bao_Dsn\<close>, \<open>Bao_Kubernetes\<close>, \<open>Bao_Ldap\<close>, \<open>Bao_Rabbitmq\<close>, \<open>Bao_Totp\<close>, \<open>Bao_Identity\<close>.
  \<^item> Auth methods (\<open>auth/\<close>): \<open>Bao_Approle\<close>, \<open>Bao_Cert\<close>, \<open>Bao_Jwt\<close>, \<open>Bao_Kerberos\<close>, \<open>Bao_Kubernetes_Auth\<close>,
    \<open>Bao_Ldap_Auth\<close>, \<open>Bao_Radius\<close>, \<open>Bao_Token\<close>, \<open>Bao_Userpass\<close>.
  \<^item> The system backend (\<open>sys.rs\<close>): \<open>Bao_Sys_Data\<close>, \<open>Bao_Sys\<close>, \<open>Bao_Sys_Routes\<close>; \<open>Bao_Monitor\<close> (log stream),
    \<open>Bao_Waiting\<close> (polling loops), \<open>Bao_Review\<close> (\<open>control_groups/review.rs\<close>, \<open>inspection.rs\<close>),
    \<open>Bao_External_Keys\<close> (\<open>external_keys\<close>).

  Above the handles.
  \<^item> \<open>Bao_Policy\<close>: \<open>policy.rs\<close> and \<open>policy/control_groups.rs\<close>. \<open>Bao_Wrapping\<close>: wrapping tokens and deferred
    executions. \<open>Bao_Consistency\<close>: \<open>consistency.rs\<close>, \<open>client/consistency.rs\<close>. \<open>Bao_Posture\<close>: \<open>posture.rs\<close>.
  \<^item> \<open>Bao_Bootstrap_Plan\<close>, \<open>Bao_Bootstrap\<close>, \<open>Bao_Bootstrap_Spec\<close>: \<open>bootstrap.rs\<close>, its plans, its runs and previews
    as programs over a world of successive answers, and what they promise.
  \<^item> \<open>Bao_Operator\<close>, \<open>Bao_Surface\<close>: what spans the operations of several handles.

  What the theorems show.
  \<^item> Confinement: whatever operation runs, requests go to the configured server below its API root, encrypted
    or free of secrets, without redirects; each operation to exactly the path of what it names; a login
    returns the same client with a new token; a handle opens on a safe mount only.
  \<^item> Versions and dispatch: a release is accepted only if verified or acknowledged, an operation is sent only
    if the table has it for that release and does not block it, the cache wakes every waiter.
  \<^item> State: a wrapping handle refines an abstract one-shot machine and redeems its token once; a configuration,
    a policy and a bootstrap plan keep their limits however they are built.
  \<^item> Codecs: policy documents and operator tokens round trip; index loops (durations, connection strings,
    routes, budgeted JSON, the frames of a log stream) agree with references on the whole input.
  \<^item> Memory: buffers are wiped before they are given back, chunks of a log stream when they are used up.
  \<^item> Bootstrap: what a run reports was read back, a preview sends reads only and foretells the run.
  \<^item> Loops: retries and the loops that wait for a server return, with bounds on what they send.

  Bounds and loops. Limits of the source are constants of the same name. Loops over input are structural or
  have measures and need no fuel; the turns of one poll of the log stream are counted down from the
  source's own limit of 64 chunks. The loops that wait for a server are partial functions, as they would
  not return on a clock that stands still; they are proved to return on every clock that moves on by the
  delays. Retries are limited by the policy's attempts. Machine integers are words where they can wrap.

  Not modelled.
  \<^item> The rows of \<open>generated/openbao_capabilities.rs\<close>, 31 thousand lines of table data.
  \<^item> The deserialisers serde derives, and field decoders of that kind: the result of decoding is a parameter.
  \<^item> Cryptography of other crates (key wrapping for transit imports), strict Base64, URL and TLS internals.
  \<^item> OIDC token and userinfo requests, which other crates encode; the process environment and CA files; the
    timers of the asynchronous runtime; Debug output; test, live and proof harnesses.
\<close>

end
